(* ===== verification/Prelude.thy ===== *)
theory Prelude
  imports Main "HOL-Library.Word" "HOL-Library.Monad_Syntax"
begin

text \<open>
  Shared vocabulary of the development: machine integers, big-endian byte sequences, panics and
  checked indexing, and the small calculus (\<open>ok\<close>) with which every component proves that
  its operations do not panic and keep their invariants.

  Conventions. A Rust panic (a failed \<^verbatim>\<open>assert!\<close>, an out-of-range index, an
  \<^verbatim>\<open>unreachable!\<close>, an \<^verbatim>\<open>expect\<close> on nothing) is \<open>None\<close>; a
  Rust \<^verbatim>\<open>Result\<close> is a sum with the error on the left. An operation that does
  both has type \<open>(error + value) option\<close>, paired with the states it changes: state
  changes made before an error is returned stay made, as they do in the code.
\<close>

unbundle bit_operations_syntax

section \<open>Machine integers\<close>

type_synonym u8 = "8 word"
type_synonym u16 = "16 word"
type_synonym u32 = "32 word"
type_synonym u64 = "64 word"

named_theorems word_eval \<open>masks and shifts of closed words, used to evaluate witnesses\<close>
named_theorems ok_rules \<open>no-panic facts of the operations, in the form \<open>ok m P\<close>\<close>

declare mask_numeral [word_eval]

lemma word_and_mask_lt_nat:
  fixes w :: "'a::len word"
  shows "unat (w AND mask n) < 2 ^ n"
proof -
  have "unat (w AND mask n) = take_bit n (unat w)"
    by (simp add: unsigned_take_bit_eq flip: take_bit_eq_mask)
  then show ?thesis by simp
qed

lemma unat_drop_mask:
  fixes w :: "'a::len word"
  shows "unat (drop_bit m w AND mask n) = unat w div 2 ^ m mod 2 ^ n"
proof -
  have "unat (drop_bit m w AND mask n) = take_bit n (drop_bit m (unat w))"
    by (simp add: unsigned_take_bit_eq unat_drop_bit_eq flip: take_bit_eq_mask)
  then show ?thesis by (simp add: take_bit_eq_mod drop_bit_eq_div)
qed

lemma word_and_le_nat: "unat (a AND b) \<le> unat b" for a b :: "'a::len word"
  using word_and_le1 [of a b] by (simp add: word_le_nat_alt)

lemma unat_and_lt: "unat b < k \<Longrightarrow> unat (a AND b) < k" for a b :: "'a::len word"
  using word_and_le_nat [of a b] by simp

lemma bit_u8: "bit w n \<Longrightarrow> n < 8" for w :: u8
  using bit_imp_le_length [of w n] by simp

lemma bit_u16: "bit w n \<Longrightarrow> n < 16" for w :: u16
  using bit_imp_le_length [of w n] by simp

lemma bit_u32: "bit w n \<Longrightarrow> n < 32" for w :: u32
  using bit_imp_le_length [of w n] by simp

lemma bit_u64: "bit w n \<Longrightarrow> n < 64" for w :: u64
  using bit_imp_le_length [of w n] by simp

lemma not_bit_u8: "8 \<le> n \<Longrightarrow> \<not> bit w n" for w :: u8
  by (auto dest: bit_u8)

section \<open>Panics\<close>

text \<open>\<open>ok m P\<close>: the computation \<open>m\<close> does not panic and its value satisfies \<open>P\<close>.\<close>

definition ok :: "'a option \<Rightarrow> ('a \<Rightarrow> bool) \<Rightarrow> bool" where
  "ok m P = (case m of None \<Rightarrow> False | Some x \<Rightarrow> P x)"

lemma ok_Some [simp]: "ok (Some x) P = P x"
  by (simp add: ok_def)

lemma ok_None [simp]: "\<not> ok None P"
  by (simp add: ok_def)

lemma ok_bind [simp]: "ok (Option.bind m f) P = ok m (\<lambda>x. ok (f x) P)"
  by (cases m) simp_all

lemma ok_map [simp]: "ok (map_option f m) P = ok m (\<lambda>x. P (f x))"
  by (cases m) simp_all

lemma ok_mono: "ok m P \<Longrightarrow> (\<And>x. P x \<Longrightarrow> Q x) \<Longrightarrow> ok m Q"
  by (cases m) simp_all

lemma ok_conj: "ok m P \<Longrightarrow> ok m Q \<Longrightarrow> ok m (\<lambda>x. P x \<and> Q x)"
  by (cases m) simp_all

lemma ok_ex: "ok m P \<longleftrightarrow> (\<exists>x. m = Some x \<and> P x)"
  by (cases m) simp_all

lemma ok_elim: "ok m P \<Longrightarrow> m = Some x \<Longrightarrow> P x"
  by simp

definition require :: "bool \<Rightarrow> unit option" where
  "require c = (if c then Some () else None)"

lemma ok_require [simp]: "ok (require c) P = (c \<and> P ())"
  by (simp add: require_def)

lemma require_eq_Some [simp]: "require c = Some u \<longleftrightarrow> c"
  by (simp add: require_def)

lemma require_True [simp]: "require True = Some ()"
  by (simp add: require_def)

lemma bind_require: "Option.bind (require c) f = (if c then f () else None)"
  by (simp add: require_def)

text \<open>Checked indexing: reading or writing past the end panics.\<close>

definition get_at :: "'a list \<Rightarrow> nat \<Rightarrow> 'a option" where
  "get_at xs i = (if i < length xs then Some (xs ! i) else None)"

definition set_at :: "'a list \<Rightarrow> nat \<Rightarrow> 'a \<Rightarrow> 'a list option" where
  "set_at xs i v = (if i < length xs then Some (xs[i := v]) else None)"

lemma get_at_Some [simp]: "i < length xs \<Longrightarrow> get_at xs i = Some (xs ! i)"
  by (simp add: get_at_def)

lemma set_at_Some [simp]: "i < length xs \<Longrightarrow> set_at xs i v = Some (xs[i := v])"
  by (simp add: set_at_def)

lemma get_at_eq_Some: "get_at xs i = Some v \<longleftrightarrow> i < length xs \<and> xs ! i = v"
  by (auto simp: get_at_def)

lemma set_at_eq_Some: "set_at xs i v = Some ys \<longleftrightarrow> i < length xs \<and> ys = xs[i := v]"
  by (auto simp: set_at_def)

lemma ok_get_at [simp]: "ok (get_at xs i) P \<longleftrightarrow> i < length xs \<and> P (xs ! i)"
  by (simp add: get_at_def)

lemma ok_set_at [simp]: "ok (set_at xs i v) P \<longleftrightarrow> i < length xs \<and> P (xs[i := v])"
  by (simp add: set_at_def)

lemma get_at_set_at: "set_at xs i v = Some ys \<Longrightarrow> get_at ys j = (if j = i then Some v else get_at xs j)"
  by (auto simp: set_at_def get_at_def split: if_splits)

lemma list_all_update: "list_all P xs \<Longrightarrow> P x \<Longrightarrow> list_all P (xs[i := x])"
  by (auto simp: list_all_iff dest: set_update_subset_insert [THEN subsetD])

section \<open>Big-endian bytes\<close>

definition to_be_bytes16 :: "u16 \<Rightarrow> u8 list" where
  "to_be_bytes16 w = [ucast (drop_bit 8 w), ucast w]"

definition to_be_bytes32 :: "u32 \<Rightarrow> u8 list" where
  "to_be_bytes32 w = [ucast (drop_bit 24 w), ucast (drop_bit 16 w), ucast (drop_bit 8 w), ucast w]"

definition from_be_bytes :: "u8 list \<Rightarrow> 'a::len word" where
  "from_be_bytes bs = foldl (\<lambda>acc b. push_bit 8 acc OR ucast b) 0 bs"

lemma length_to_be_bytes [simp]:
  "length (to_be_bytes16 v) = 2" "length (to_be_bytes32 w) = 4"
  by (simp_all add: to_be_bytes16_def to_be_bytes32_def)

lemma from_be_bytes_simps [simp]:
  "from_be_bytes [] = 0"
  "from_be_bytes (bs @ [b]) = push_bit 8 (from_be_bytes bs) OR ucast b"
  by (simp_all add: from_be_bytes_def)

lemma from_to_be_bytes32 [simp]: "from_be_bytes (to_be_bytes32 w) = w"
proof (rule bit_word_eqI)
  fix n
  assume "n < LENGTH(32)"
  then consider "n < 8" | "8 \<le> n" "n < 16" | "16 \<le> n" "n < 24" | "24 \<le> n" "n < 32"
    by fastforce
  then show "bit (from_be_bytes (to_be_bytes32 w) :: u32) n = bit w n"
    by cases (auto simp: from_be_bytes_def to_be_bytes32_def bit_simps)
qed

lemma from_to_be_bytes16 [simp]: "from_be_bytes (to_be_bytes16 w) = w"
proof (rule bit_word_eqI)
  fix n
  assume "n < LENGTH(16)"
  then consider "n < 8" | "8 \<le> n" "n < 16"
    by fastforce
  then show "bit (from_be_bytes (to_be_bytes16 w) :: u16) n = bit w n"
    by cases (auto simp: from_be_bytes_def to_be_bytes16_def bit_simps)
qed

lemma to_from_be_bytes32:
  assumes "length bs = 4"
  shows "to_be_bytes32 (from_be_bytes bs) = bs"
proof -
  obtain a b c d where bs: "bs = [a, b, c, d]"
    using assms by (auto simp: numeral_eq_Suc length_Suc_conv)
  show ?thesis
    unfolding bs to_be_bytes32_def from_be_bytes_def
    by (auto intro!: bit_word_eqI simp: bit_simps not_bit_u8)
qed

end
