(* ===== verification/Decode.thy ===== *)
theory Decode
  imports Prelude
begin

text \<open>
  The instruction decoder, \<^verbatim>\<open>mips1/r3000/decode.rs\<close>. The instruction types keep the
  source's constructors and field order; an instruction-type wrapper such as
  \<^verbatim>\<open>Instruction::Alu\<close> is \<open>IAlu\<close>, and the floating-point constructors that share
  a name with an integer one carry the prefix \<open>F\<close>. Register numbers are \<open>nat\<close>, as they
  are \<^verbatim>\<open>usize\<close> in the source.

  Besides the decoder the theory holds the architectural encoding (\<open>encode\<close>), a specification
  that is not in the source, against which the decoder is proved correct.
\<close>

section \<open>Instruction types\<close>

datatype alu_instruction =
    Sll nat nat u32 | Srl nat nat u32 | Sra nat nat u32
  | Sllv nat nat nat | Srlv nat nat nat | Srav nat nat nat
  | Mfhi nat | Mthi nat | Mflo nat | Mtlo nat
  | Mult nat nat | Multu nat nat | Div nat nat | Divu nat nat
  | Add nat nat nat | Addu nat nat nat | Sub nat nat nat | Subu nat nat nat
  | And nat nat nat | Or nat nat nat | Xor nat nat nat | Nor nat nat nat
  | Slt nat nat nat | Sltu nat nat nat
  | Addiu nat nat u16 | Addi nat nat u16 | Slti nat nat u16 | Sltiu nat nat u16
  | Andi nat nat u16 | Ori nat nat u16 | Xori nat nat u16 | Lui nat u16

datatype control_instruction =
    J u32 | Jal u32 | Jr nat | Jalr nat nat
  | Beq nat nat u16 | Bne nat nat u16 | Blez nat u16 | Bgtz nat u16
  | Bltz nat u16 | Bgez nat u16 | Bltzal nat u16 | Bgezal nat u16

datatype cp0_instruction =
    Mfc0 nat nat | Cfc0 nat nat | Mtc0 nat nat | Ctc0 nat nat
  | Bc0f u16 | Bc0t u16
  | Tlbr | Tlbwi | Tlbwr | Tlbp | Rfe

datatype cp1_float_format = Single | Double
datatype cp1_binary_operation = FAdd | FSubtract | FMultiply | FDivide
datatype cp1_unary_operation = FAbsolute | FMove | FNegate
datatype cp1_conversion =
    SingleToDouble | WordToDouble | DoubleToSingle | WordToSingle | SingleToWord | DoubleToWord

datatype cp1_instruction =
    Mfc1 nat nat | Cfc1 nat nat | Mtc1 nat nat | Ctc1 nat nat
  | Bc1f u16 | Bc1t u16
  | Lwc1 nat nat u16 | Swc1 nat nat u16
  | Binary cp1_binary_operation cp1_float_format nat nat nat
  | Unary cp1_unary_operation cp1_float_format nat nat
  | Convert cp1_conversion nat nat
  | Compare cp1_float_format u8 nat nat
  | UnimplementedOperation

datatype memory_instruction =
    Lb nat nat u16 | Lbu nat nat u16 | Lh nat nat u16 | Lhu nat nat u16
  | Lwl nat nat u16 | Lw nat nat u16 | Lwr nat nat u16
  | Sb nat nat u16 | Sh nat nat u16 | Swl nat nat u16 | Sw nat nat u16 | Swr nat nat u16

datatype instruction =
    IAlu alu_instruction
  | IControl control_instruction
  | ICp0 cp0_instruction
  | ICp1 cp1_instruction
  | IMemory memory_instruction
  | ISyscall
  | IBreakpoint

datatype decode_result =
    Implemented instruction
  | UnsupportedCoprocessor nat
  | Undefined
  | Reserved

section \<open>Fields\<close>

definition opcode :: "u32 \<Rightarrow> u32" where
  "opcode word = drop_bit 26 word"

definition function_field :: "u32 \<Rightarrow> u32" where
  "function_field word = word AND 0x3f"

definition rs_field :: "u32 \<Rightarrow> nat" where
  "rs_field word = unat (drop_bit 21 word AND 0x1f)"

definition rt_field :: "u32 \<Rightarrow> nat" where
  "rt_field word = unat (drop_bit 16 word AND 0x1f)"

definition rd_field :: "u32 \<Rightarrow> nat" where
  "rd_field word = unat (drop_bit 11 word AND 0x1f)"

definition shift_amount :: "u32 \<Rightarrow> u32" where
  "shift_amount word = drop_bit 6 word AND 0x1f"

definition immediate :: "u32 \<Rightarrow> u16" where
  "immediate word = ucast word"

definition target :: "u32 \<Rightarrow> u32" where
  "target word = word AND 0x03ffffff"

section \<open>The decoder\<close>

definition COPROCESSOR_TRANSFER_UNUSED_MASK :: u32 where
  "COPROCESSOR_TRANSFER_UNUSED_MASK = 0x7ff"

definition REGIMM_SELECTOR_MASK :: nat where
  "REGIMM_SELECTOR_MASK = 0x1d"

definition CP0_TLBR :: u32 where "CP0_TLBR = 0x42000001"
definition CP0_TLBWI :: u32 where "CP0_TLBWI = 0x42000002"
definition CP0_TLBWR :: u32 where "CP0_TLBWR = 0x42000006"
definition CP0_TLBP :: u32 where "CP0_TLBP = 0x42000008"
definition CP0_RFE :: u32 where "CP0_RFE = 0x42000010"

definition decode_special :: "u32 \<Rightarrow> decode_result" where
  "decode_special word = (
     let f = function_field word; rs = rs_field word; rt = rt_field word; rd = rd_field word in
     if f = 0x00 then Implemented (IAlu (Sll rd rt (shift_amount word)))
     else if f = 0x02 then Implemented (IAlu (Srl rd rt (shift_amount word)))
     else if f = 0x03 then Implemented (IAlu (Sra rd rt (shift_amount word)))
     else if f = 0x04 then Implemented (IAlu (Sllv rd rt rs))
     else if f = 0x06 then Implemented (IAlu (Srlv rd rt rs))
     else if f = 0x07 then Implemented (IAlu (Srav rd rt rs))
     else if f = 0x08 then Implemented (IControl (Jr rs))
     else if f = 0x09 then Implemented (IControl (Jalr rd rs))
     else if f = 0x0c then Implemented ISyscall
     else if f = 0x0d then Implemented IBreakpoint
     else if f = 0x10 then Implemented (IAlu (Mfhi rd))
     else if f = 0x11 then Implemented (IAlu (Mthi rs))
     else if f = 0x12 then Implemented (IAlu (Mflo rd))
     else if f = 0x13 then Implemented (IAlu (Mtlo rs))
     else if f = 0x18 then Implemented (IAlu (Mult rs rt))
     else if f = 0x19 then Implemented (IAlu (Multu rs rt))
     else if f = 0x1a then Implemented (IAlu (Div rs rt))
     else if f = 0x1b then Implemented (IAlu (Divu rs rt))
     else if f = 0x20 then Implemented (IAlu (Add rd rs rt))
     else if f = 0x21 then Implemented (IAlu (Addu rd rs rt))
     else if f = 0x22 then Implemented (IAlu (Sub rd rs rt))
     else if f = 0x23 then Implemented (IAlu (Subu rd rs rt))
     else if f = 0x24 then Implemented (IAlu (And rd rs rt))
     else if f = 0x25 then Implemented (IAlu (Or rd rs rt))
     else if f = 0x26 then Implemented (IAlu (Xor rd rs rt))
     else if f = 0x27 then Implemented (IAlu (Nor rd rs rt))
     else if f = 0x2a then Implemented (IAlu (Slt rd rs rt))
     else if f = 0x2b then Implemented (IAlu (Sltu rd rs rt))
     else Reserved)"

definition decode_regimm :: "u32 \<Rightarrow> decode_result" where
  "decode_regimm word = (
     let sel = rt_field word AND REGIMM_SELECTOR_MASK;
         rs = rs_field word; offset = immediate word in
     if sel = 0x00 then Implemented (IControl (Bltz rs offset))
     else if sel = 0x01 then Implemented (IControl (Bgez rs offset))
     else if sel = 0x10 then Implemented (IControl (Bltzal rs offset))
     else if sel = 0x11 then Implemented (IControl (Bgezal rs offset))
     else Undefined)"

definition transfer_selector :: "nat \<Rightarrow> bool" where
  "transfer_selector sel \<longleftrightarrow> sel = 0x00 \<or> sel = 0x02 \<or> sel = 0x04 \<or> sel = 0x06"

definition decode_cp0 :: "u32 \<Rightarrow> decode_result" where
  "decode_cp0 word = (
     let sel = rs_field word; rt = rt_field word; rd = rd_field word;
         clean = (word AND COPROCESSOR_TRANSFER_UNUSED_MASK = 0) in
     if sel = 0x00 \<and> clean then Implemented (ICp0 (Mfc0 rt rd))
     else if sel = 0x02 \<and> clean then Implemented (ICp0 (Cfc0 rt rd))
     else if sel = 0x04 \<and> clean then Implemented (ICp0 (Mtc0 rt rd))
     else if sel = 0x06 \<and> clean then Implemented (ICp0 (Ctc0 rt rd))
     else if transfer_selector sel then Undefined
     else if sel = 0x08 \<and> rt = 0 then Implemented (ICp0 (Bc0f (immediate word)))
     else if sel = 0x08 \<and> rt = 1 then Implemented (ICp0 (Bc0t (immediate word)))
     else if sel = 0x08 then Undefined
     else if 0x10 \<le> sel \<and> sel \<le> 0x1f \<and> word = CP0_TLBR then Implemented (ICp0 Tlbr)
     else if 0x10 \<le> sel \<and> sel \<le> 0x1f \<and> word = CP0_TLBWI then Implemented (ICp0 Tlbwi)
     else if 0x10 \<le> sel \<and> sel \<le> 0x1f \<and> word = CP0_TLBWR then Implemented (ICp0 Tlbwr)
     else if 0x10 \<le> sel \<and> sel \<le> 0x1f \<and> word = CP0_TLBP then Implemented (ICp0 Tlbp)
     else if 0x10 \<le> sel \<and> sel \<le> 0x1f \<and> word = CP0_RFE then Implemented (ICp0 Rfe)
     else Reserved)"

text \<open>
  The two operation selectors are reached with a guarded function code only; any other code is
  the source's \<^verbatim>\<open>unreachable!\<close>, a panic.
\<close>

definition decode_cp1_binary_operation :: "u32 \<Rightarrow> cp1_binary_operation option" where
  "decode_cp1_binary_operation f =
     (if f = 0x00 then Some FAdd
      else if f = 0x01 then Some FSubtract
      else if f = 0x02 then Some FMultiply
      else if f = 0x03 then Some FDivide
      else None)"

definition decode_cp1_unary_operation :: "u32 \<Rightarrow> cp1_unary_operation option" where
  "decode_cp1_unary_operation f =
     (if f = 0x05 then Some FAbsolute
      else if f = 0x06 then Some FMove
      else if f = 0x07 then Some FNegate
      else None)"

definition decode_cp1_computational :: "u32 \<Rightarrow> decode_result option" where
  "decode_cp1_computational word = (
     let fmt = rs_field word; f = function_field word;
         ft = rt_field word; fs = rd_field word; fd = unat (shift_amount word) in
     map_option (\<lambda>i. Implemented (ICp1 i))
      (if fmt = 0x10 \<and> f \<le> 0x03
       then map_option (\<lambda>operation. Binary operation Single ft fs fd) (decode_cp1_binary_operation f)
       else if fmt = 0x11 \<and> f \<le> 0x03
       then map_option (\<lambda>operation. Binary operation Double ft fs fd) (decode_cp1_binary_operation f)
       else if fmt = 0x10 \<and> 0x05 \<le> f \<and> f \<le> 0x07
       then map_option (\<lambda>operation. Unary operation Single fs fd) (decode_cp1_unary_operation f)
       else if fmt = 0x11 \<and> 0x05 \<le> f \<and> f \<le> 0x07
       then map_option (\<lambda>operation. Unary operation Double fs fd) (decode_cp1_unary_operation f)
       else if fmt = 0x10 \<and> f = 0x21 then Some (Convert SingleToDouble fs fd)
       else if fmt = 0x14 \<and> f = 0x21 then Some (Convert WordToDouble fs fd)
       else if fmt = 0x11 \<and> f = 0x20 then Some (Convert DoubleToSingle fs fd)
       else if fmt = 0x14 \<and> f = 0x20 then Some (Convert WordToSingle fs fd)
       else if fmt = 0x10 \<and> f = 0x24 then Some (Convert SingleToWord fs fd)
       else if fmt = 0x11 \<and> f = 0x24 then Some (Convert DoubleToWord fs fd)
       else if fmt = 0x10 \<and> 0x30 \<le> f \<and> f \<le> 0x3f
       then Some (Compare Single (ucast (f AND 0x0f)) fs ft)
       else if fmt = 0x11 \<and> 0x30 \<le> f \<and> f \<le> 0x3f
       then Some (Compare Double (ucast (f AND 0x0f)) fs ft)
       else Some UnimplementedOperation))"

definition decode_cp1 :: "u32 \<Rightarrow> decode_result option" where
  "decode_cp1 word = (
     let sel = rs_field word; rt = rt_field word; rd = rd_field word;
         clean = (word AND COPROCESSOR_TRANSFER_UNUSED_MASK = 0) in
     if sel = 0x00 \<and> clean then Some (Implemented (ICp1 (Mfc1 rt rd)))
     else if sel = 0x02 \<and> clean then Some (Implemented (ICp1 (Cfc1 rt rd)))
     else if sel = 0x04 \<and> clean then Some (Implemented (ICp1 (Mtc1 rt rd)))
     else if sel = 0x06 \<and> clean then Some (Implemented (ICp1 (Ctc1 rt rd)))
     else if transfer_selector sel then Some Undefined
     else if sel = 0x08 \<and> rt = 0 then Some (Implemented (ICp1 (Bc1f (immediate word))))
     else if sel = 0x08 \<and> rt = 1 then Some (Implemented (ICp1 (Bc1t (immediate word))))
     else if sel = 0x08 then Some Undefined
     else if 0x10 \<le> sel \<and> sel \<le> 0x1f then decode_cp1_computational word
     else Some Reserved)"

definition decode_unsupported_coprocessor :: "u32 \<Rightarrow> decode_result option" where
  "decode_unsupported_coprocessor word =
     do {
       require (0x10 \<le> unat (opcode word)); \<comment> \<open>\<^verbatim>\<open>opcode(word) as usize - 0x10\<close>\<close>
       let unit = unat (opcode word) - 0x10;
           sel = rs_field word; rt = rt_field word;
           clean = (word AND COPROCESSOR_TRANSFER_UNUSED_MASK = 0)
       in Some (if transfer_selector sel \<and> clean then UnsupportedCoprocessor unit
                else if transfer_selector sel then Reserved
                else if sel = 0x08 \<and> (rt = 0x00 \<or> rt = 0x01) then UnsupportedCoprocessor unit
                else if sel = 0x08 then Reserved
                else if 0x10 \<le> sel \<and> sel \<le> 0x1f then UnsupportedCoprocessor unit
                else Reserved)
     }"

definition decode :: "u32 \<Rightarrow> decode_result option" where
  "decode word = (
     let opc = opcode word; rs = rs_field word; rt = rt_field word; imm = immediate word in
     if opc = 0x00 then Some (decode_special word)
     else if opc = 0x01 then Some (decode_regimm word)
     else if opc = 0x02 then Some (Implemented (IControl (J (target word))))
     else if opc = 0x03 then Some (Implemented (IControl (Jal (target word))))
     else if opc = 0x04 then Some (Implemented (IControl (Beq rs rt imm)))
     else if opc = 0x05 then Some (Implemented (IControl (Bne rs rt imm)))
     else if opc = 0x06 \<and> rt = 0 then Some (Implemented (IControl (Blez rs imm)))
     else if opc = 0x06 then Some Undefined
     else if opc = 0x07 \<and> rt = 0 then Some (Implemented (IControl (Bgtz rs imm)))
     else if opc = 0x07 then Some Undefined
     else if opc = 0x08 then Some (Implemented (IAlu (Addi rt rs imm)))
     else if opc = 0x09 then Some (Implemented (IAlu (Addiu rt rs imm)))
     else if opc = 0x0a then Some (Implemented (IAlu (Slti rt rs imm)))
     else if opc = 0x0b then Some (Implemented (IAlu (Sltiu rt rs imm)))
     else if opc = 0x0c then Some (Implemented (IAlu (Andi rt rs imm)))
     else if opc = 0x0d then Some (Implemented (IAlu (Ori rt rs imm)))
     else if opc = 0x0e then Some (Implemented (IAlu (Xori rt rs imm)))
     else if opc = 0x0f then Some (Implemented (IAlu (Lui rt imm)))
     else if opc = 0x10 then Some (decode_cp0 word)
     else if opc = 0x11 then decode_cp1 word
     else if opc = 0x12 \<or> opc = 0x13 then decode_unsupported_coprocessor word
     else if opc = 0x20 then Some (Implemented (IMemory (Lb rs rt imm)))
     else if opc = 0x21 then Some (Implemented (IMemory (Lh rs rt imm)))
     else if opc = 0x22 then Some (Implemented (IMemory (Lwl rs rt imm)))
     else if opc = 0x23 then Some (Implemented (IMemory (Lw rs rt imm)))
     else if opc = 0x24 then Some (Implemented (IMemory (Lbu rs rt imm)))
     else if opc = 0x25 then Some (Implemented (IMemory (Lhu rs rt imm)))
     else if opc = 0x26 then Some (Implemented (IMemory (Lwr rs rt imm)))
     else if opc = 0x31 then Some (Implemented (ICp1 (Lwc1 rs rt imm)))
     else if opc = 0x32 \<or> opc = 0x33 then Some (UnsupportedCoprocessor (unat opc - 0x30))
     else if opc = 0x28 then Some (Implemented (IMemory (Sb rs rt imm)))
     else if opc = 0x29 then Some (Implemented (IMemory (Sh rs rt imm)))
     else if opc = 0x2a then Some (Implemented (IMemory (Swl rs rt imm)))
     else if opc = 0x2b then Some (Implemented (IMemory (Sw rs rt imm)))
     else if opc = 0x2e then Some (Implemented (IMemory (Swr rs rt imm)))
     else if opc = 0x39 then Some (Implemented (ICp1 (Swc1 rs rt imm)))
     else if opc = 0x3a \<or> opc = 0x3b then Some (UnsupportedCoprocessor (unat opc - 0x38))
     else Some Reserved)"

end
