(* ===== verification/Cp0.thy ===== *)
theory Cp0
  imports Prelude
begin

text \<open>
  The system control coprocessor, \<^verbatim>\<open>mips1/r3000/cp0.rs\<close>: its registers, the delayed
  functional view of Status and Cause, exception entry and return, and the Random counter.
  Record fields carry the prefix of their struct (\<open>cp0_\<close>, \<open>fs_\<close>, \<open>cc_\<close>).
\<close>

section \<open>Register layouts\<close>

definition INDEX_PROBE_FAILURE :: u32 where "INDEX_PROBE_FAILURE = 0x80000000"
definition INDEX_INDEX_MASK :: u32 where "INDEX_INDEX_MASK = 0x00003f00"
definition ENTRY_LO_VISIBLE_MASK :: u32 where "ENTRY_LO_VISIBLE_MASK = 0xffffff00"
definition CONTEXT_VISIBLE_MASK :: u32 where "CONTEXT_VISIBLE_MASK = 0xfffffffc"
definition CONTEXT_PTE_BASE_MASK :: u32 where "CONTEXT_PTE_BASE_MASK = 0xffe00000"
definition CONTEXT_BAD_VPN_MASK :: u32 where "CONTEXT_BAD_VPN_MASK = 0x001ffffc"
definition ENTRY_HI_VISIBLE_MASK :: u32 where "ENTRY_HI_VISIBLE_MASK = 0xffffffc0"
definition ENTRY_HI_VPN_MASK :: u32 where "ENTRY_HI_VPN_MASK = 0xfffff000"
definition ENTRY_HI_ASID_MASK :: u32 where "ENTRY_HI_ASID_MASK = 0x00000fc0"
definition PRID :: u32 where "PRID = 0x00000230"
definition RANDOM_RESET :: u32 where "RANDOM_RESET = 0x3f00"

definition STATUS_BEV :: u32 where "STATUS_BEV = 0x00400000"
definition STATUS_TS :: u32 where "STATUS_TS = 0x00200000"
definition STATUS_PE :: u32 where "STATUS_PE = 0x00100000"
definition STATUS_CM :: u32 where "STATUS_CM = 0x00080000"
definition STATUS_SWC :: u32 where "STATUS_SWC = 0x00020000"
definition STATUS_ISC :: u32 where "STATUS_ISC = 0x00010000"
definition STATUS_KUC :: u32 where "STATUS_KUC = 0x00000002"
definition STATUS_IEC :: u32 where "STATUS_IEC = 0x00000001"
definition STATUS_MODE_STACK_MASK :: u32 where "STATUS_MODE_STACK_MASK = 0x3f"
definition STATUS_CU0 :: u32 where "STATUS_CU0 = 0x10000000"
definition STATUS_CU_MASK :: u32 where "STATUS_CU_MASK = 0xf0000000"
definition STATUS_INTERRUPT_CONTROL_MASK :: u32 where "STATUS_INTERRUPT_CONTROL_MASK = 0x0000ff01"
definition STATUS_VISIBLE_MASK :: u32 where "STATUS_VISIBLE_MASK = 0xf27fff3f"
definition STATUS_WRITABLE_MASK :: u32 where "STATUS_WRITABLE_MASK = 0xf247ff3f"

definition CAUSE_BD :: u32 where "CAUSE_BD = 0x80000000"
definition CAUSE_IP_MASK :: u32 where "CAUSE_IP_MASK = 0x0000ff00"
definition CAUSE_HARDWARE_IP_MASK :: u32 where "CAUSE_HARDWARE_IP_MASK = 0x0000fc00"
definition CAUSE_SOFTWARE_IP_MASK :: u32 where "CAUSE_SOFTWARE_IP_MASK = 0x00000300"
definition CAUSE_VISIBLE_MASK :: u32 where "CAUSE_VISIBLE_MASK = 0xb000ff7c"

definition GENERAL_EXCEPTION_VECTOR :: u32 where "GENERAL_EXCEPTION_VECTOR = 0x80000080"
definition BOOT_GENERAL_EXCEPTION_VECTOR :: u32 where "BOOT_GENERAL_EXCEPTION_VECTOR = 0xbfc00180"
definition TLB_REFILL_EXCEPTION_VECTOR :: u32 where "TLB_REFILL_EXCEPTION_VECTOR = 0x80000000"
definition BOOT_TLB_REFILL_EXCEPTION_VECTOR :: u32 where
  "BOOT_TLB_REFILL_EXCEPTION_VECTOR = 0xbfc00100"

named_theorems cp0_masks \<open>the CP0 register masks as numerals\<close>

lemmas [cp0_masks] =
  INDEX_PROBE_FAILURE_def INDEX_INDEX_MASK_def ENTRY_LO_VISIBLE_MASK_def CONTEXT_VISIBLE_MASK_def
  CONTEXT_PTE_BASE_MASK_def CONTEXT_BAD_VPN_MASK_def ENTRY_HI_VISIBLE_MASK_def
  ENTRY_HI_VPN_MASK_def ENTRY_HI_ASID_MASK_def PRID_def RANDOM_RESET_def
  STATUS_BEV_def STATUS_TS_def STATUS_PE_def STATUS_CM_def STATUS_SWC_def STATUS_ISC_def
  STATUS_KUC_def STATUS_IEC_def STATUS_MODE_STACK_MASK_def STATUS_CU0_def STATUS_CU_MASK_def
  STATUS_INTERRUPT_CONTROL_MASK_def STATUS_VISIBLE_MASK_def STATUS_WRITABLE_MASK_def
  CAUSE_BD_def CAUSE_IP_MASK_def CAUSE_HARDWARE_IP_MASK_def CAUSE_SOFTWARE_IP_MASK_def
  CAUSE_VISIBLE_MASK_def GENERAL_EXCEPTION_VECTOR_def BOOT_GENERAL_EXCEPTION_VECTOR_def
  TLB_REFILL_EXCEPTION_VECTOR_def BOOT_TLB_REFILL_EXCEPTION_VECTOR_def

section \<open>State\<close>

datatype tlb_fault_kind = FaultMiss | FaultInvalid

datatype cpu_exception =
    Interrupt
  | InstructionAddressError u32
  | LoadAddressError u32
  | StoreAddressError u32
  | TlbLoad u32 tlb_fault_kind
  | TlbStore u32 tlb_fault_kind
  | TlbModified u32
  | InstructionBusError
  | DataBusError
  | Syscall
  | Breakpoint
  | ReservedInstruction
  | CoprocessorUnusable nat
  | Overflow

record functional_state =
  fs_coprocessor_usable :: u32
  fs_interrupt_control :: u32
  fs_software_interrupts :: u32

definition functional_from_registers :: "u32 \<Rightarrow> u32 \<Rightarrow> functional_state" where
  "functional_from_registers status cause =
     \<lparr>fs_coprocessor_usable = status AND STATUS_CU_MASK,
      fs_interrupt_control = status AND STATUS_INTERRUPT_CONTROL_MASK,
      fs_software_interrupts = cause AND CAUSE_SOFTWARE_IP_MASK\<rparr>"

record cache_control =
  cc_isolated :: bool
  cc_swapped :: bool

definition cache_control_from_status :: "u32 \<Rightarrow> cache_control" where
  "cache_control_from_status status =
     \<lparr>cc_isolated = (status AND STATUS_ISC \<noteq> 0), cc_swapped = (status AND STATUS_SWC \<noteq> 0)\<rparr>"

definition cache_control_status_bits :: "cache_control \<Rightarrow> u32" where
  "cache_control_status_bits cc =
     (if cc_isolated cc then STATUS_ISC else 0) OR (if cc_swapped cc then STATUS_SWC else 0)"

record cp0 =
  cp0_index :: u32
  cp0_random :: u32
  cp0_entry_lo :: u32
  cp0_context :: u32
  cp0_bad_vaddr :: u32
  cp0_entry_hi :: u32
  cp0_status :: u32
  cp0_cause :: u32
  cp0_epc :: u32
  cp0_effective :: functional_state
  cp0_pending_functional :: "functional_state option"

definition cp0_new :: cp0 where
  "cp0_new =
     \<lparr>cp0_index = 0, cp0_random = RANDOM_RESET, cp0_entry_lo = 0, cp0_context = 0,
      cp0_bad_vaddr = 0, cp0_entry_hi = 0, cp0_status = STATUS_BEV, cp0_cause = 0, cp0_epc = 0,
      cp0_effective = functional_from_registers STATUS_BEV 0, cp0_pending_functional = None\<rparr>"

definition cp0_reset :: "u32 \<Rightarrow> cp0 \<Rightarrow> cp0" where
  "cp0_reset interrupted_pc c = (
     let status = (cp0_status c OR STATUS_BEV) AND NOT (STATUS_TS OR STATUS_KUC OR STATUS_IEC) in
     c\<lparr>cp0_status := status,
       cp0_epc := interrupted_pc,
       cp0_random := RANDOM_RESET,
       cp0_effective := functional_from_registers status (cp0_cause c),
       cp0_pending_functional := None\<rparr>)"

section \<open>Register access\<close>

definition cp0_read_register :: "cp0 \<Rightarrow> nat \<Rightarrow> u32" where
  "cp0_read_register c index =
     (if index = 0 then cp0_index c AND (INDEX_PROBE_FAILURE OR INDEX_INDEX_MASK)
      else if index = 1 then cp0_random c AND INDEX_INDEX_MASK
      else if index = 2 then cp0_entry_lo c AND ENTRY_LO_VISIBLE_MASK
      else if index = 4 then cp0_context c AND CONTEXT_VISIBLE_MASK
      else if index = 8 then cp0_bad_vaddr c
      else if index = 10 then cp0_entry_hi c AND ENTRY_HI_VISIBLE_MASK
      else if index = 12 then cp0_status c AND STATUS_VISIBLE_MASK
      else if index = 13 then cp0_cause c AND CAUSE_VISIBLE_MASK
      else if index = 14 then cp0_epc c
      else if index = 15 then PRID
      else 0)"

definition status_after_write :: "cp0 \<Rightarrow> u32 \<Rightarrow> u32" where
  "status_after_write c value = (
     let preserved = cp0_status c AND NOT (STATUS_WRITABLE_MASK OR STATUS_PE);
         parity_error = (if value AND STATUS_PE = 0 then cp0_status c AND STATUS_PE else 0)
     in preserved OR (value AND STATUS_WRITABLE_MASK) OR parity_error)"

definition write_status :: "u32 \<Rightarrow> cp0 \<Rightarrow> cp0" where
  "write_status value c = (
     let status = status_after_write c value;
         effective =
           (if status AND STATUS_IEC = 0
            then (cp0_effective c)\<lparr>fs_interrupt_control :=
              fs_interrupt_control (cp0_effective c) AND NOT STATUS_IEC\<rparr>
            else cp0_effective c);
         functional = effective\<lparr>fs_coprocessor_usable := status AND STATUS_CU_MASK,
           fs_interrupt_control := status AND STATUS_INTERRUPT_CONTROL_MASK\<rparr>
     in c\<lparr>cp0_status := status, cp0_effective := effective,
          cp0_pending_functional := Some functional\<rparr>)"

definition write_cause :: "u32 \<Rightarrow> cp0 \<Rightarrow> cp0" where
  "write_cause value c = (
     let cause = (cp0_cause c AND NOT CAUSE_SOFTWARE_IP_MASK) OR (value AND CAUSE_SOFTWARE_IP_MASK);
         functional = (cp0_effective c)\<lparr>fs_software_interrupts := cause AND CAUSE_SOFTWARE_IP_MASK\<rparr>
     in c\<lparr>cp0_cause := cause, cp0_pending_functional := Some functional\<rparr>)"

definition cp0_write_register :: "nat \<Rightarrow> u32 \<Rightarrow> cp0 \<Rightarrow> cp0" where
  "cp0_write_register index value c =
     (if index = 0
      then c\<lparr>cp0_index := (cp0_index c AND INDEX_PROBE_FAILURE) OR (value AND INDEX_INDEX_MASK)\<rparr>
      else if index = 1 \<or> index = 8 \<or> index = 15 then c
      else if index = 2 then c\<lparr>cp0_entry_lo := value AND ENTRY_LO_VISIBLE_MASK\<rparr>
      else if index = 4
      then c\<lparr>cp0_context :=
        (cp0_context c AND NOT CONTEXT_PTE_BASE_MASK) OR (value AND CONTEXT_PTE_BASE_MASK)\<rparr>
      else if index = 10 then c\<lparr>cp0_entry_hi := value AND ENTRY_HI_VISIBLE_MASK\<rparr>
      else if index = 12 then write_status value c
      else if index = 13 then write_cause value c
      else if index = 14 then c\<lparr>cp0_epc := value\<rparr>
      else c)"

definition cp0_tlb_index :: "cp0 \<Rightarrow> nat" where
  "cp0_tlb_index c = unat (drop_bit 8 (cp0_index c AND INDEX_INDEX_MASK))"

definition cp0_random_tlb_index :: "cp0 \<Rightarrow> nat" where
  "cp0_random_tlb_index c = unat (drop_bit 8 (cp0_random c AND INDEX_INDEX_MASK))"

definition cp0_tlb_staging :: "cp0 \<Rightarrow> u32 \<times> u32" where
  "cp0_tlb_staging c =
     (cp0_entry_hi c AND ENTRY_HI_VISIBLE_MASK, cp0_entry_lo c AND ENTRY_LO_VISIBLE_MASK)"

definition cp0_current_asid :: "cp0 \<Rightarrow> u8" where
  "cp0_current_asid c = ucast (drop_bit 6 (cp0_entry_hi c AND ENTRY_HI_ASID_MASK))"

definition cp0_is_kernel_mode :: "cp0 \<Rightarrow> bool" where
  "cp0_is_kernel_mode c \<longleftrightarrow> cp0_status c AND STATUS_KUC = 0"

definition cp0_is_tlb_shutdown :: "cp0 \<Rightarrow> bool" where
  "cp0_is_tlb_shutdown c \<longleftrightarrow> cp0_status c AND STATUS_TS \<noteq> 0"

definition status_cache_control :: "cp0 \<Rightarrow> cache_control" where
  "status_cache_control c = cache_control_from_status (cp0_status c)"

definition set_status_cache_control :: "cache_control \<Rightarrow> cp0 \<Rightarrow> cp0" where
  "set_status_cache_control control c =
     c\<lparr>cp0_status := (cp0_status c AND NOT (STATUS_ISC OR STATUS_SWC)) OR
        cache_control_status_bits control\<rparr>"

definition cache_control_after_write :: "cp0 \<Rightarrow> nat \<Rightarrow> u32 \<Rightarrow> cache_control option" where
  "cache_control_after_write c index value =
     (if index = 12 then Some (cache_control_from_status (status_after_write c value)) else None)"

definition set_cache_miss :: "bool \<Rightarrow> cp0 \<Rightarrow> cp0" where
  "set_cache_miss miss c =
     (if miss then c\<lparr>cp0_status := cp0_status c OR STATUS_CM\<rparr>
      else c\<lparr>cp0_status := cp0_status c AND NOT STATUS_CM\<rparr>)"

definition enter_tlb_shutdown :: "cp0 \<Rightarrow> cp0" where
  "enter_tlb_shutdown c = c\<lparr>cp0_status := cp0_status c OR STATUS_TS\<rparr>"

definition write_tlb_read_result :: "u32 \<Rightarrow> u32 \<Rightarrow> cp0 \<Rightarrow> cp0" where
  "write_tlb_read_result entry_hi entry_lo c =
     c\<lparr>cp0_entry_hi := entry_hi AND ENTRY_HI_VISIBLE_MASK,
       cp0_entry_lo := entry_lo AND ENTRY_LO_VISIBLE_MASK\<rparr>"

definition write_tlb_probe_result :: "u32 \<Rightarrow> cp0 \<Rightarrow> cp0" where
  "write_tlb_probe_result index c =
     c\<lparr>cp0_index := index AND (INDEX_PROBE_FAILURE OR INDEX_INDEX_MASK)\<rparr>"

definition cp0_is_usable :: "cp0 \<Rightarrow> bool" where
  "cp0_is_usable c \<longleftrightarrow>
     cp0_status c AND STATUS_KUC = 0 \<or> fs_coprocessor_usable (cp0_effective c) AND STATUS_CU0 \<noteq> 0"

definition cp0_coprocessor_usable :: "cp0 \<Rightarrow> nat \<Rightarrow> bool option" where
  "cp0_coprocessor_usable c unit =
     do {
       require (unit < 4);
       Some (fs_coprocessor_usable (cp0_effective c) AND push_bit (28 + unit) 1 \<noteq> 0)
     }"

section \<open>Interrupts and the functional view\<close>

definition set_hardware_interrupt_line :: "nat \<Rightarrow> bool \<Rightarrow> cp0 \<Rightarrow> cp0 option" where
  "set_hardware_interrupt_line input asserted c =
     do {
       require (input < 6);
       let m = push_bit (input + 10) 1 in
       Some (if asserted then c\<lparr>cp0_cause := cp0_cause c OR m\<rparr>
             else c\<lparr>cp0_cause := cp0_cause c AND NOT m\<rparr>)
     }"

definition cp0_interrupt_requested :: "cp0 \<Rightarrow> bool" where
  "cp0_interrupt_requested c = (
     let pending = (cp0_cause c AND CAUSE_HARDWARE_IP_MASK) OR
           fs_software_interrupts (cp0_effective c);
         control = fs_interrupt_control (cp0_effective c)
     in control AND STATUS_IEC \<noteq> 0 \<and> pending AND control AND CAUSE_IP_MASK \<noteq> 0)"

definition commit_pending_functional :: "cp0 \<Rightarrow> cp0" where
  "commit_pending_functional c =
     (case cp0_pending_functional c of
        Some functional \<Rightarrow> c\<lparr>cp0_pending_functional := None, cp0_effective := functional\<rparr>
      | None \<Rightarrow> c)"

definition restore_status :: "u32 \<Rightarrow> cp0 \<Rightarrow> cp0" where
  "restore_status value c = (
     let status = (cp0_status c AND NOT 0x0f) OR (value AND 0x0f);
         interrupt_enable = status AND STATUS_IEC;
         set_ie = (\<lambda>f. f\<lparr>fs_interrupt_control :=
           (fs_interrupt_control f AND NOT STATUS_IEC) OR interrupt_enable\<rparr>)
     in c\<lparr>cp0_status := status, cp0_effective := set_ie (cp0_effective c),
          cp0_pending_functional := map_option set_ie (cp0_pending_functional c)\<rparr>)"

definition advance_random :: "cp0 \<Rightarrow> cp0" where
  "advance_random c = (
     let current = drop_bit 8 (cp0_random c AND INDEX_INDEX_MASK);
         nxt = (if current \<le> 8 then 63 else current - 1)
     in c\<lparr>cp0_random := push_bit 8 nxt\<rparr>)"

section \<open>Exception entry\<close>

text \<open>
  The exception code, the faulting address of an address exception, the faulting address of a
  translation exception, and whether the refill vector is used.
\<close>

fun exception_fields :: "cpu_exception \<Rightarrow> u32 \<times> u32 option \<times> u32 option \<times> bool" where
  "exception_fields Interrupt = (0, None, None, False)"
| "exception_fields (InstructionAddressError a) = (4, Some a, None, False)"
| "exception_fields (LoadAddressError a) = (4, Some a, None, False)"
| "exception_fields (StoreAddressError a) = (5, Some a, None, False)"
| "exception_fields (TlbLoad a f) = (2, Some a, Some a, f = FaultMiss \<and> a < 0x80000000)"
| "exception_fields (TlbStore a f) = (3, Some a, Some a, f = FaultMiss \<and> a < 0x80000000)"
| "exception_fields (TlbModified a) = (1, Some a, Some a, False)"
| "exception_fields InstructionBusError = (6, None, None, False)"
| "exception_fields DataBusError = (7, None, None, False)"
| "exception_fields Syscall = (8, None, None, False)"
| "exception_fields Breakpoint = (9, None, None, False)"
| "exception_fields ReservedInstruction = (10, None, None, False)"
| "exception_fields (CoprocessorUnusable unit) = (11, None, None, False)"
| "exception_fields Overflow = (12, None, None, False)"

definition exception_coprocessor :: "cpu_exception \<Rightarrow> u32" where
  "exception_coprocessor e = (case e of CoprocessorUnusable unit \<Rightarrow> word_of_nat unit | _ \<Rightarrow> 0)"

definition exception_vector :: "u32 \<Rightarrow> bool \<Rightarrow> u32" where
  "exception_vector status use_refill_vector =
     (if status AND STATUS_BEV \<noteq> 0
      then if use_refill_vector then BOOT_TLB_REFILL_EXCEPTION_VECTOR
           else BOOT_GENERAL_EXCEPTION_VECTOR
      else if use_refill_vector then TLB_REFILL_EXCEPTION_VECTOR
      else GENERAL_EXCEPTION_VECTOR)"

definition cp0_take_exception :: "cpu_exception \<Rightarrow> u32 \<Rightarrow> bool \<Rightarrow> cp0 \<Rightarrow> u32 \<times> cp0" where
  "cp0_take_exception e epc in_delay_slot c = (
     let (exception_code, bad_address, tlb_address, use_refill_vector) = exception_fields e;
         status = (cp0_status c AND NOT STATUS_MODE_STACK_MASK) OR
           (push_bit 2 (cp0_status c) AND STATUS_MODE_STACK_MASK);
         cause = (cp0_cause c AND CAUSE_IP_MASK) OR (if in_delay_slot then CAUSE_BD else 0) OR
           push_bit 28 (exception_coprocessor e) OR push_bit 2 exception_code;
         c1 = c\<lparr>cp0_status := status, cp0_cause := cause, cp0_epc := epc\<rparr>;
         c2 = (case bad_address of Some a \<Rightarrow> c1\<lparr>cp0_bad_vaddr := a\<rparr> | None \<Rightarrow> c1);
         c3 = (case tlb_address of
             Some a \<Rightarrow> c2\<lparr>cp0_context := (cp0_context c2 AND CONTEXT_PTE_BASE_MASK) OR
                 (drop_bit 10 a AND CONTEXT_BAD_VPN_MASK),
               cp0_entry_hi := (a AND ENTRY_HI_VPN_MASK) OR (cp0_entry_hi c2 AND ENTRY_HI_ASID_MASK)\<rparr>
           | None \<Rightarrow> c2);
         clear_ie = (\<lambda>f. f\<lparr>fs_interrupt_control := fs_interrupt_control f AND NOT STATUS_IEC\<rparr>);
         c4 = c3\<lparr>cp0_effective := clear_ie (cp0_effective c3),
           cp0_pending_functional := map_option clear_ie (cp0_pending_functional c3)\<rparr>
     in (exception_vector (cp0_status c4) use_refill_vector, c4))"

end
