(* ===== verification/Float.thy ===== *)
theory Float
  imports Prelude
begin

text \<open>
  The floating-point crate \<^verbatim>\<open>se_float\<close>: guest formats as bit patterns, the
  SoftFloat back end with its C bridge, the native back end, and the dispatch between them.

  Two things the crate calls are not in the repository and are parameters: the Berkeley
  SoftFloat library (\<open>softfloat_lib\<close>: each routine is a function of the rounding mode and
  its operands that returns the value and the exception flags it raises) and the host's
  floating-point unit (\<open>host_fpu\<close>: rounding arithmetic and numeric casts on bit patterns).
  Nothing is assumed of either.
\<close>

section \<open>Formats\<close>

type_synonym float32 = u32
type_synonym float64 = u64

definition is_nan32 :: "float32 \<Rightarrow> bool" where
  "is_nan32 b \<longleftrightarrow> b AND 0x7f800000 = 0x7f800000 \<and> b AND 0x007fffff \<noteq> 0"

definition is_signaling_nan32 :: "float32 \<Rightarrow> bool" where
  "is_signaling_nan32 b \<longleftrightarrow> is_nan32 b \<and> b AND 0x00400000 \<noteq> 0"

definition is_subnormal32 :: "float32 \<Rightarrow> bool" where
  "is_subnormal32 b \<longleftrightarrow> b AND 0x7f800000 = 0 \<and> b AND 0x007fffff \<noteq> 0"

definition is_nan64 :: "float64 \<Rightarrow> bool" where
  "is_nan64 b \<longleftrightarrow> b AND 0x7ff0000000000000 = 0x7ff0000000000000 \<and> b AND 0x000fffffffffffff \<noteq> 0"

definition is_signaling_nan64 :: "float64 \<Rightarrow> bool" where
  "is_signaling_nan64 b \<longleftrightarrow> is_nan64 b \<and> b AND 0x0008000000000000 \<noteq> 0"

definition is_subnormal64 :: "float64 \<Rightarrow> bool" where
  "is_subnormal64 b \<longleftrightarrow> b AND 0x7ff0000000000000 = 0 \<and> b AND 0x000fffffffffffff \<noteq> 0"

section \<open>Operation types\<close>

datatype rounding_mode = NearestEven | TowardZero | TowardPositive | TowardNegative

datatype comparison_mode = Quiet | Signaling

datatype relation = Less | Equal | Greater | Unordered

type_synonym exception_flags = u8

definition FLAG_INEXACT :: exception_flags where "FLAG_INEXACT = push_bit 0 1"
definition FLAG_UNDERFLOW :: exception_flags where "FLAG_UNDERFLOW = push_bit 1 1"
definition FLAG_OVERFLOW :: exception_flags where "FLAG_OVERFLOW = push_bit 2 1"
definition FLAG_DIVIDE_BY_ZERO :: exception_flags where "FLAG_DIVIDE_BY_ZERO = push_bit 3 1"
definition FLAG_INVALID :: exception_flags where "FLAG_INVALID = push_bit 4 1"

definition flags_contains :: "exception_flags \<Rightarrow> exception_flags \<Rightarrow> bool" where
  "flags_contains flags other \<longleftrightarrow> flags AND other = other"

record 'a outcome =
  out_value :: 'a
  out_flags :: exception_flags
  out_tiny :: bool

section \<open>The SoftFloat library and its bridge\<close>

datatype library_rounding = RoundNearEven | RoundMinMag | RoundMin | RoundMax

record library_flags =
  lf_inexact :: bool
  lf_underflow :: bool
  lf_overflow :: bool
  lf_infinite :: bool
  lf_invalid :: bool

definition no_flags :: library_flags where
  "no_flags = \<lparr>lf_inexact = False, lf_underflow = False, lf_overflow = False,
     lf_infinite = False, lf_invalid = False\<rparr>"

definition join_flags :: "library_flags \<Rightarrow> library_flags \<Rightarrow> library_flags" where
  "join_flags f g = \<lparr>lf_inexact = lf_inexact f \<or> lf_inexact g,
     lf_underflow = lf_underflow f \<or> lf_underflow g, lf_overflow = lf_overflow f \<or> lf_overflow g,
     lf_infinite = lf_infinite f \<or> lf_infinite g, lf_invalid = lf_invalid f \<or> lf_invalid g\<rparr>"

record softfloat_lib =
  lib_f32_add :: "library_rounding \<Rightarrow> u32 \<Rightarrow> u32 \<Rightarrow> u32 \<times> library_flags"
  lib_f64_add :: "library_rounding \<Rightarrow> u64 \<Rightarrow> u64 \<Rightarrow> u64 \<times> library_flags"
  lib_f32_sub :: "library_rounding \<Rightarrow> u32 \<Rightarrow> u32 \<Rightarrow> u32 \<times> library_flags"
  lib_f64_sub :: "library_rounding \<Rightarrow> u64 \<Rightarrow> u64 \<Rightarrow> u64 \<times> library_flags"
  lib_f32_mul :: "library_rounding \<Rightarrow> u32 \<Rightarrow> u32 \<Rightarrow> u32 \<times> library_flags"
  lib_f64_mul :: "library_rounding \<Rightarrow> u64 \<Rightarrow> u64 \<Rightarrow> u64 \<times> library_flags"
  lib_f32_div :: "library_rounding \<Rightarrow> u32 \<Rightarrow> u32 \<Rightarrow> u32 \<times> library_flags"
  lib_f64_div :: "library_rounding \<Rightarrow> u64 \<Rightarrow> u64 \<Rightarrow> u64 \<times> library_flags"
  lib_f32_to_f64 :: "library_rounding \<Rightarrow> u32 \<Rightarrow> u64 \<times> library_flags"
  lib_f64_to_f32 :: "library_rounding \<Rightarrow> u64 \<Rightarrow> u32 \<times> library_flags"
  lib_i32_to_f32 :: "library_rounding \<Rightarrow> u32 \<Rightarrow> u32 \<times> library_flags"
  lib_i32_to_f64 :: "u32 \<Rightarrow> u64"
  lib_f32_to_i32 :: "library_rounding \<Rightarrow> u32 \<Rightarrow> u32 \<times> library_flags"
  lib_f64_to_i32 :: "library_rounding \<Rightarrow> u64 \<Rightarrow> u32 \<times> library_flags"
  lib_f32_eq :: "u32 \<Rightarrow> u32 \<Rightarrow> bool \<times> library_flags"
  lib_f32_eq_signaling :: "u32 \<Rightarrow> u32 \<Rightarrow> bool \<times> library_flags"
  lib_f32_lt_quiet :: "u32 \<Rightarrow> u32 \<Rightarrow> bool \<times> library_flags"
  lib_f64_eq :: "u64 \<Rightarrow> u64 \<Rightarrow> bool \<times> library_flags"
  lib_f64_eq_signaling :: "u64 \<Rightarrow> u64 \<Rightarrow> bool \<times> library_flags"
  lib_f64_lt_quiet :: "u64 \<Rightarrow> u64 \<Rightarrow> bool \<times> library_flags"

text \<open>
  The bridge, \<^verbatim>\<open>csrc/bridge.c\<close>. A rounding code it does not know aborts the process;
  flags start clear, the library ORs into them, and the bridge translates them to the crate's
  bits.
\<close>

definition softfloat_rounding :: "u8 \<Rightarrow> library_rounding option" where
  "softfloat_rounding r =
     (if r = 0 then Some RoundNearEven
      else if r = 1 then Some RoundMinMag
      else if r = 2 then Some RoundMin
      else if r = 3 then Some RoundMax
      else None)"

definition finish_operation :: "library_flags \<Rightarrow> u8" where
  "finish_operation f =
     (if lf_inexact f then push_bit 0 1 else 0) OR (if lf_underflow f then push_bit 1 1 else 0) OR
     (if lf_overflow f then push_bit 2 1 else 0) OR (if lf_infinite f then push_bit 3 1 else 0) OR
     (if lf_invalid f then push_bit 4 1 else 0)"

text \<open>The body every bridge routine but the comparisons has: begin, one library call, finish.\<close>

definition bridged :: "(library_rounding \<Rightarrow> 'a \<times> library_flags) \<Rightarrow> u8 \<Rightarrow> ('a \<times> u8) option" where
  "bridged call rounding =
     do {
       mode <- softfloat_rounding rounding;
       let (value, raised) = call mode;
       Some (value, finish_operation (join_flags no_flags raised))
     }"

definition bridge_add_f32 :: "softfloat_lib \<Rightarrow> u32 \<Rightarrow> u32 \<Rightarrow> u8 \<Rightarrow> (u32 \<times> u8) option" where
  "bridge_add_f32 lib lhs rhs rounding = bridged (\<lambda>mode. lib_f32_add lib mode lhs rhs) rounding"

definition bridge_add_f64 :: "softfloat_lib \<Rightarrow> u64 \<Rightarrow> u64 \<Rightarrow> u8 \<Rightarrow> (u64 \<times> u8) option" where
  "bridge_add_f64 lib lhs rhs rounding = bridged (\<lambda>mode. lib_f64_add lib mode lhs rhs) rounding"

definition bridge_sub_f32 :: "softfloat_lib \<Rightarrow> u32 \<Rightarrow> u32 \<Rightarrow> u8 \<Rightarrow> (u32 \<times> u8) option" where
  "bridge_sub_f32 lib lhs rhs rounding = bridged (\<lambda>mode. lib_f32_sub lib mode lhs rhs) rounding"

definition bridge_sub_f64 :: "softfloat_lib \<Rightarrow> u64 \<Rightarrow> u64 \<Rightarrow> u8 \<Rightarrow> (u64 \<times> u8) option" where
  "bridge_sub_f64 lib lhs rhs rounding = bridged (\<lambda>mode. lib_f64_sub lib mode lhs rhs) rounding"

definition bridge_mul_f32 :: "softfloat_lib \<Rightarrow> u32 \<Rightarrow> u32 \<Rightarrow> u8 \<Rightarrow> (u32 \<times> u8) option" where
  "bridge_mul_f32 lib lhs rhs rounding = bridged (\<lambda>mode. lib_f32_mul lib mode lhs rhs) rounding"

definition bridge_mul_f64 :: "softfloat_lib \<Rightarrow> u64 \<Rightarrow> u64 \<Rightarrow> u8 \<Rightarrow> (u64 \<times> u8) option" where
  "bridge_mul_f64 lib lhs rhs rounding = bridged (\<lambda>mode. lib_f64_mul lib mode lhs rhs) rounding"

definition bridge_div_f32 :: "softfloat_lib \<Rightarrow> u32 \<Rightarrow> u32 \<Rightarrow> u8 \<Rightarrow> (u32 \<times> u8) option" where
  "bridge_div_f32 lib lhs rhs rounding = bridged (\<lambda>mode. lib_f32_div lib mode lhs rhs) rounding"

definition bridge_div_f64 :: "softfloat_lib \<Rightarrow> u64 \<Rightarrow> u64 \<Rightarrow> u8 \<Rightarrow> (u64 \<times> u8) option" where
  "bridge_div_f64 lib lhs rhs rounding = bridged (\<lambda>mode. lib_f64_div lib mode lhs rhs) rounding"

definition bridge_f32_to_f64 :: "softfloat_lib \<Rightarrow> u32 \<Rightarrow> (u64 \<times> u8) option" where
  "bridge_f32_to_f64 lib v = bridged (\<lambda>mode. lib_f32_to_f64 lib mode v) 0"

definition bridge_f64_to_f32 :: "softfloat_lib \<Rightarrow> u64 \<Rightarrow> u8 \<Rightarrow> (u32 \<times> u8) option" where
  "bridge_f64_to_f32 lib v rounding = bridged (\<lambda>mode. lib_f64_to_f32 lib mode v) rounding"

definition bridge_i32_to_f32 :: "softfloat_lib \<Rightarrow> u32 \<Rightarrow> u8 \<Rightarrow> (u32 \<times> u8) option" where
  "bridge_i32_to_f32 lib v rounding = bridged (\<lambda>mode. lib_i32_to_f32 lib mode v) rounding"

definition bridge_i32_to_f64 :: "softfloat_lib \<Rightarrow> u32 \<Rightarrow> u64" where
  "bridge_i32_to_f64 lib v = lib_i32_to_f64 lib v"

definition bridge_f32_to_i32 :: "softfloat_lib \<Rightarrow> u32 \<Rightarrow> u8 \<Rightarrow> (u32 \<times> u8) option" where
  "bridge_f32_to_i32 lib v rounding = bridged (\<lambda>mode. lib_f32_to_i32 lib mode v) rounding"

definition bridge_f64_to_i32 :: "softfloat_lib \<Rightarrow> u64 \<Rightarrow> u8 \<Rightarrow> (u32 \<times> u8) option" where
  "bridge_f64_to_i32 lib v rounding = bridged (\<lambda>mode. lib_f64_to_i32 lib mode v) rounding"

definition bridge_compare_f32 :: "softfloat_lib \<Rightarrow> u32 \<Rightarrow> u32 \<Rightarrow> u8 \<Rightarrow> u8 \<times> u8" where
  "bridge_compare_f32 lib lhs rhs signaling = (
     let (equal, f1) = (if signaling \<noteq> 0 then lib_f32_eq_signaling lib lhs rhs else lib_f32_eq lib lhs rhs);
         (less, f2) = lib_f32_lt_quiet lib lhs rhs;
         (greater, f3) = lib_f32_lt_quiet lib rhs lhs
     in if equal then (1, finish_operation f1)
        else if less then (0, finish_operation (join_flags f1 f2))
        else if greater then (2, finish_operation (join_flags (join_flags f1 f2) f3))
        else (3, finish_operation (join_flags (join_flags f1 f2) f3)))"

definition bridge_compare_f64 :: "softfloat_lib \<Rightarrow> u64 \<Rightarrow> u64 \<Rightarrow> u8 \<Rightarrow> u8 \<times> u8" where
  "bridge_compare_f64 lib lhs rhs signaling = (
     let (equal, f1) = (if signaling \<noteq> 0 then lib_f64_eq_signaling lib lhs rhs else lib_f64_eq lib lhs rhs);
         (less, f2) = lib_f64_lt_quiet lib lhs rhs;
         (greater, f3) = lib_f64_lt_quiet lib rhs lhs
     in if equal then (1, finish_operation f1)
        else if less then (0, finish_operation (join_flags f1 f2))
        else if greater then (2, finish_operation (join_flags (join_flags f1 f2) f3))
        else (3, finish_operation (join_flags (join_flags f1 f2) f3)))"

section \<open>The SoftFloat back end\<close>

definition mapping_rounding_mode :: "rounding_mode \<Rightarrow> u8" where
  "mapping_rounding_mode m =
     (case m of NearestEven \<Rightarrow> 0 | TowardZero \<Rightarrow> 1 | TowardNegative \<Rightarrow> 2 | TowardPositive \<Rightarrow> 3)"

definition mapping_exception_flags :: "u8 \<Rightarrow> exception_flags option" where
  "mapping_exception_flags bits = do { require (bits AND NOT 0x1f = 0); Some bits }"

definition mapping_relation :: "u8 \<Rightarrow> relation option" where
  "mapping_relation value =
     (if value = 0 then Some Less
      else if value = 1 then Some Equal
      else if value = 2 then Some Greater
      else if value = 3 then Some Unordered
      else None)"

definition mapping_is_subnormal_f32 :: "u32 \<Rightarrow> bool" where
  "mapping_is_subnormal_f32 bits \<longleftrightarrow> bits AND 0x7f800000 = 0 \<and> bits AND 0x007fffff \<noteq> 0"

definition mapping_is_subnormal_f64 :: "u64 \<Rightarrow> bool" where
  "mapping_is_subnormal_f64 bits \<longleftrightarrow>
     bits AND 0x7ff0000000000000 = 0 \<and> bits AND 0x000fffffffffffff \<noteq> 0"

definition DEFAULT_NAN_F32 :: u32 where "DEFAULT_NAN_F32 = 0x7fbfffff"
definition DEFAULT_NAN_F64 :: u64 where "DEFAULT_NAN_F64 = 0x7ff7ffffffffffff"
definition SIGN_F32 :: u32 where "SIGN_F32 = 0x80000000"
definition SIGN_F64 :: u64 where "SIGN_F64 = 0x8000000000000000"

definition sf_rounded_f32 :: "u32 \<Rightarrow> u8 \<Rightarrow> float32 outcome option" where
  "sf_rounded_f32 bits raw_flags =
     do {
       flags <- mapping_exception_flags raw_flags;
       Some \<lparr>out_value = bits, out_flags = flags,
         out_tiny = (flags_contains flags FLAG_UNDERFLOW \<or> mapping_is_subnormal_f32 bits)\<rparr>
     }"

definition sf_rounded_f64 :: "u64 \<Rightarrow> u8 \<Rightarrow> float64 outcome option" where
  "sf_rounded_f64 bits raw_flags =
     do {
       flags <- mapping_exception_flags raw_flags;
       Some \<lparr>out_value = bits, out_flags = flags,
         out_tiny = (flags_contains flags FLAG_UNDERFLOW \<or> mapping_is_subnormal_f64 bits)\<rparr>
     }"

definition sf_exact_f32 :: "u32 \<Rightarrow> exception_flags \<Rightarrow> float32 outcome" where
  "sf_exact_f32 bits flags = \<lparr>out_value = bits, out_flags = flags, out_tiny = False\<rparr>"

definition sf_invalid_f32 :: "float32 outcome" where
  "sf_invalid_f32 = sf_exact_f32 DEFAULT_NAN_F32 FLAG_INVALID"

definition sf_exact_f64 :: "u64 \<Rightarrow> exception_flags \<Rightarrow> float64 outcome" where
  "sf_exact_f64 bits flags = \<lparr>out_value = bits, out_flags = flags, out_tiny = False\<rparr>"

definition sf_invalid_f64 :: "float64 outcome" where
  "sf_invalid_f64 = sf_exact_f64 DEFAULT_NAN_F64 FLAG_INVALID"

definition sf_integer :: "u32 \<Rightarrow> u8 \<Rightarrow> u32 outcome option" where
  "sf_integer v raw_flags =
     do {
       flags <- mapping_exception_flags raw_flags;
       Some \<lparr>out_value = v, out_flags = flags, out_tiny = False\<rparr>
     }"

definition sf_comparison :: "u8 \<Rightarrow> u8 \<Rightarrow> relation outcome option" where
  "sf_comparison v raw_flags =
     do {
       r <- mapping_relation v;
       flags <- mapping_exception_flags raw_flags;
       Some \<lparr>out_value = r, out_flags = flags, out_tiny = False\<rparr>
     }"

definition sf_is_signaling_nan_f32 :: "u32 \<Rightarrow> bool" where
  "sf_is_signaling_nan_f32 bits \<longleftrightarrow> bits AND 0x7fc00000 = 0x7fc00000"

definition sf_is_signaling_nan_f64 :: "u64 \<Rightarrow> bool" where
  "sf_is_signaling_nan_f64 bits \<longleftrightarrow> bits AND 0x7ff8000000000000 = 0x7ff8000000000000"

definition sf_add_f32 :: "softfloat_lib \<Rightarrow> float32 \<Rightarrow> float32 \<Rightarrow> rounding_mode \<Rightarrow> float32 outcome option" where
  "sf_add_f32 lib lhs rhs rounding =
     do {
       (bits, raw_flags) <- bridge_add_f32 lib lhs rhs (mapping_rounding_mode rounding);
       sf_rounded_f32 bits raw_flags
     }"

definition sf_add_f64 :: "softfloat_lib \<Rightarrow> float64 \<Rightarrow> float64 \<Rightarrow> rounding_mode \<Rightarrow> float64 outcome option" where
  "sf_add_f64 lib lhs rhs rounding =
     do {
       (bits, raw_flags) <- bridge_add_f64 lib lhs rhs (mapping_rounding_mode rounding);
       sf_rounded_f64 bits raw_flags
     }"

definition sf_sub_f32 :: "softfloat_lib \<Rightarrow> float32 \<Rightarrow> float32 \<Rightarrow> rounding_mode \<Rightarrow> float32 outcome option" where
  "sf_sub_f32 lib lhs rhs rounding =
     do {
       (bits, raw_flags) <- bridge_sub_f32 lib lhs rhs (mapping_rounding_mode rounding);
       sf_rounded_f32 bits raw_flags
     }"

definition sf_sub_f64 :: "softfloat_lib \<Rightarrow> float64 \<Rightarrow> float64 \<Rightarrow> rounding_mode \<Rightarrow> float64 outcome option" where
  "sf_sub_f64 lib lhs rhs rounding =
     do {
       (bits, raw_flags) <- bridge_sub_f64 lib lhs rhs (mapping_rounding_mode rounding);
       sf_rounded_f64 bits raw_flags
     }"

definition sf_mul_f32 :: "softfloat_lib \<Rightarrow> float32 \<Rightarrow> float32 \<Rightarrow> rounding_mode \<Rightarrow> float32 outcome option" where
  "sf_mul_f32 lib lhs rhs rounding =
     do {
       (bits, raw_flags) <- bridge_mul_f32 lib lhs rhs (mapping_rounding_mode rounding);
       sf_rounded_f32 bits raw_flags
     }"

definition sf_mul_f64 :: "softfloat_lib \<Rightarrow> float64 \<Rightarrow> float64 \<Rightarrow> rounding_mode \<Rightarrow> float64 outcome option" where
  "sf_mul_f64 lib lhs rhs rounding =
     do {
       (bits, raw_flags) <- bridge_mul_f64 lib lhs rhs (mapping_rounding_mode rounding);
       sf_rounded_f64 bits raw_flags
     }"

definition sf_div_f32 :: "softfloat_lib \<Rightarrow> float32 \<Rightarrow> float32 \<Rightarrow> rounding_mode \<Rightarrow> float32 outcome option" where
  "sf_div_f32 lib lhs rhs rounding =
     do {
       (bits, raw_flags) <- bridge_div_f32 lib lhs rhs (mapping_rounding_mode rounding);
       sf_rounded_f32 bits raw_flags
     }"

definition sf_div_f64 :: "softfloat_lib \<Rightarrow> float64 \<Rightarrow> float64 \<Rightarrow> rounding_mode \<Rightarrow> float64 outcome option" where
  "sf_div_f64 lib lhs rhs rounding =
     do {
       (bits, raw_flags) <- bridge_div_f64 lib lhs rhs (mapping_rounding_mode rounding);
       sf_rounded_f64 bits raw_flags
     }"

definition sf_abs_f32 :: "float32 \<Rightarrow> float32 outcome" where
  "sf_abs_f32 v = (if sf_is_signaling_nan_f32 v then sf_invalid_f32 else sf_exact_f32 (v AND NOT SIGN_F32) 0)"

definition sf_neg_f32 :: "float32 \<Rightarrow> float32 outcome" where
  "sf_neg_f32 v = (if sf_is_signaling_nan_f32 v then sf_invalid_f32 else sf_exact_f32 (v XOR SIGN_F32) 0)"

definition sf_abs_f64 :: "float64 \<Rightarrow> float64 outcome" where
  "sf_abs_f64 v = (if sf_is_signaling_nan_f64 v then sf_invalid_f64 else sf_exact_f64 (v AND NOT SIGN_F64) 0)"

definition sf_neg_f64 :: "float64 \<Rightarrow> float64 outcome" where
  "sf_neg_f64 v = (if sf_is_signaling_nan_f64 v then sf_invalid_f64 else sf_exact_f64 (v XOR SIGN_F64) 0)"

definition sf_convert_float32_to_float64 :: "softfloat_lib \<Rightarrow> float32 \<Rightarrow> float64 outcome option" where
  "sf_convert_float32_to_float64 lib v =
     do {
       (bits, raw_flags) <- bridge_f32_to_f64 lib v;
       flags <- mapping_exception_flags raw_flags;
       Some (sf_exact_f64 bits flags)
     }"

definition sf_convert_float64_to_float32 ::
  "softfloat_lib \<Rightarrow> float64 \<Rightarrow> rounding_mode \<Rightarrow> float32 outcome option" where
  "sf_convert_float64_to_float32 lib v rounding =
     do {
       (bits, raw_flags) <- bridge_f64_to_f32 lib v (mapping_rounding_mode rounding);
       sf_rounded_f32 bits raw_flags
     }"

definition sf_convert_i32_to_float32 ::
  "softfloat_lib \<Rightarrow> u32 \<Rightarrow> rounding_mode \<Rightarrow> float32 outcome option" where
  "sf_convert_i32_to_float32 lib v rounding =
     do {
       (bits, raw_flags) <- bridge_i32_to_f32 lib v (mapping_rounding_mode rounding);
       sf_rounded_f32 bits raw_flags
     }"

definition sf_convert_i32_to_float64 :: "softfloat_lib \<Rightarrow> u32 \<Rightarrow> float64 outcome" where
  "sf_convert_i32_to_float64 lib v = sf_exact_f64 (bridge_i32_to_f64 lib v) 0"

definition sf_convert_float32_to_i32 ::
  "softfloat_lib \<Rightarrow> float32 \<Rightarrow> rounding_mode \<Rightarrow> u32 outcome option" where
  "sf_convert_float32_to_i32 lib v rounding =
     do {
       (i, raw_flags) <- bridge_f32_to_i32 lib v (mapping_rounding_mode rounding);
       sf_integer i raw_flags
     }"

definition sf_convert_float64_to_i32 ::
  "softfloat_lib \<Rightarrow> float64 \<Rightarrow> rounding_mode \<Rightarrow> u32 outcome option" where
  "sf_convert_float64_to_i32 lib v rounding =
     do {
       (i, raw_flags) <- bridge_f64_to_i32 lib v (mapping_rounding_mode rounding);
       sf_integer i raw_flags
     }"

definition sf_compare_f32 ::
  "softfloat_lib \<Rightarrow> float32 \<Rightarrow> float32 \<Rightarrow> comparison_mode \<Rightarrow> relation outcome option" where
  "sf_compare_f32 lib lhs rhs mode = (
     let (r, raw_flags) = bridge_compare_f32 lib lhs rhs (if mode = Signaling then 1 else 0)
     in sf_comparison r raw_flags)"

definition sf_compare_f64 ::
  "softfloat_lib \<Rightarrow> float64 \<Rightarrow> float64 \<Rightarrow> comparison_mode \<Rightarrow> relation outcome option" where
  "sf_compare_f64 lib lhs rhs mode = (
     let (r, raw_flags) = bridge_compare_f64 lib lhs rhs (if mode = Signaling then 1 else 0)
     in sf_comparison r raw_flags)"

section \<open>The native back end\<close>

record host_fpu =
  host_add_f32 :: "u32 \<Rightarrow> u32 \<Rightarrow> u32"
  host_add_f64 :: "u64 \<Rightarrow> u64 \<Rightarrow> u64"
  host_sub_f32 :: "u32 \<Rightarrow> u32 \<Rightarrow> u32"
  host_sub_f64 :: "u64 \<Rightarrow> u64 \<Rightarrow> u64"
  host_mul_f32 :: "u32 \<Rightarrow> u32 \<Rightarrow> u32"
  host_mul_f64 :: "u64 \<Rightarrow> u64 \<Rightarrow> u64"
  host_div_f32 :: "u32 \<Rightarrow> u32 \<Rightarrow> u32"
  host_div_f64 :: "u64 \<Rightarrow> u64 \<Rightarrow> u64"
  host_f32_as_f64 :: "u32 \<Rightarrow> u64"
  host_f64_as_f32 :: "u64 \<Rightarrow> u32"
  host_i32_as_f32 :: "u32 \<Rightarrow> u32"
  host_i32_as_f64 :: "u32 \<Rightarrow> u64"
  host_f32_as_i32 :: "u32 \<Rightarrow> u32"
  host_f64_as_i32 :: "u64 \<Rightarrow> u32"

text \<open>
  Sign operations, classification and ordering of host floats are fixed by the bit patterns:
  \<^verbatim>\<open>abs\<close> and negation act on the sign bit, and two numbers compare as sign-magnitude
  integers, the two zeros being equal.
\<close>

definition signed_magnitude :: "'a::len word \<Rightarrow> int" where
  "signed_magnitude b = (
     let magnitude = int (unat (take_bit (LENGTH('a) - 1) b))
     in if bit b (LENGTH('a) - 1) then - magnitude else magnitude)"

definition nat_rounded_f32 :: "u32 \<Rightarrow> float32 outcome" where
  "nat_rounded_f32 v = \<lparr>out_value = v, out_flags = 0, out_tiny = is_subnormal32 v\<rparr>"

definition nat_rounded_f64 :: "u64 \<Rightarrow> float64 outcome" where
  "nat_rounded_f64 v = \<lparr>out_value = v, out_flags = 0, out_tiny = is_subnormal64 v\<rparr>"

definition nat_plain :: "'a \<Rightarrow> 'a outcome" where
  "nat_plain v = \<lparr>out_value = v, out_flags = 0, out_tiny = False\<rparr>"

definition nat_add_f32 :: "host_fpu \<Rightarrow> float32 \<Rightarrow> float32 \<Rightarrow> rounding_mode \<Rightarrow> float32 outcome" where
  "nat_add_f32 h lhs rhs rounding = nat_rounded_f32 (host_add_f32 h lhs rhs)"

definition nat_add_f64 :: "host_fpu \<Rightarrow> float64 \<Rightarrow> float64 \<Rightarrow> rounding_mode \<Rightarrow> float64 outcome" where
  "nat_add_f64 h lhs rhs rounding = nat_rounded_f64 (host_add_f64 h lhs rhs)"

definition nat_sub_f32 :: "host_fpu \<Rightarrow> float32 \<Rightarrow> float32 \<Rightarrow> rounding_mode \<Rightarrow> float32 outcome" where
  "nat_sub_f32 h lhs rhs rounding = nat_rounded_f32 (host_sub_f32 h lhs rhs)"

definition nat_sub_f64 :: "host_fpu \<Rightarrow> float64 \<Rightarrow> float64 \<Rightarrow> rounding_mode \<Rightarrow> float64 outcome" where
  "nat_sub_f64 h lhs rhs rounding = nat_rounded_f64 (host_sub_f64 h lhs rhs)"

definition nat_mul_f32 :: "host_fpu \<Rightarrow> float32 \<Rightarrow> float32 \<Rightarrow> rounding_mode \<Rightarrow> float32 outcome" where
  "nat_mul_f32 h lhs rhs rounding = nat_rounded_f32 (host_mul_f32 h lhs rhs)"

definition nat_mul_f64 :: "host_fpu \<Rightarrow> float64 \<Rightarrow> float64 \<Rightarrow> rounding_mode \<Rightarrow> float64 outcome" where
  "nat_mul_f64 h lhs rhs rounding = nat_rounded_f64 (host_mul_f64 h lhs rhs)"

definition nat_div_f32 :: "host_fpu \<Rightarrow> float32 \<Rightarrow> float32 \<Rightarrow> rounding_mode \<Rightarrow> float32 outcome" where
  "nat_div_f32 h lhs rhs rounding = nat_rounded_f32 (host_div_f32 h lhs rhs)"

definition nat_div_f64 :: "host_fpu \<Rightarrow> float64 \<Rightarrow> float64 \<Rightarrow> rounding_mode \<Rightarrow> float64 outcome" where
  "nat_div_f64 h lhs rhs rounding = nat_rounded_f64 (host_div_f64 h lhs rhs)"

definition nat_abs_f32 :: "float32 \<Rightarrow> float32 outcome" where
  "nat_abs_f32 v = nat_plain (v AND NOT SIGN_F32)"

definition nat_neg_f32 :: "float32 \<Rightarrow> float32 outcome" where
  "nat_neg_f32 v = nat_plain (v XOR SIGN_F32)"

definition nat_abs_f64 :: "float64 \<Rightarrow> float64 outcome" where
  "nat_abs_f64 v = nat_plain (v AND NOT SIGN_F64)"

definition nat_neg_f64 :: "float64 \<Rightarrow> float64 outcome" where
  "nat_neg_f64 v = nat_plain (v XOR SIGN_F64)"

definition nat_convert_float32_to_float64 :: "host_fpu \<Rightarrow> float32 \<Rightarrow> float64 outcome" where
  "nat_convert_float32_to_float64 h v = nat_plain (host_f32_as_f64 h v)"

definition nat_convert_float64_to_float32 ::
  "host_fpu \<Rightarrow> float64 \<Rightarrow> rounding_mode \<Rightarrow> float32 outcome" where
  "nat_convert_float64_to_float32 h v rounding = nat_rounded_f32 (host_f64_as_f32 h v)"

definition nat_convert_i32_to_float32 :: "host_fpu \<Rightarrow> u32 \<Rightarrow> rounding_mode \<Rightarrow> float32 outcome" where
  "nat_convert_i32_to_float32 h v rounding = nat_plain (host_i32_as_f32 h v)"

definition nat_convert_i32_to_float64 :: "host_fpu \<Rightarrow> u32 \<Rightarrow> float64 outcome" where
  "nat_convert_i32_to_float64 h v = nat_plain (host_i32_as_f64 h v)"

definition nat_convert_float32_to_i32 :: "host_fpu \<Rightarrow> float32 \<Rightarrow> rounding_mode \<Rightarrow> u32 outcome" where
  "nat_convert_float32_to_i32 h v rounding = nat_plain (host_f32_as_i32 h v)"

definition nat_convert_float64_to_i32 :: "host_fpu \<Rightarrow> float64 \<Rightarrow> rounding_mode \<Rightarrow> u32 outcome" where
  "nat_convert_float64_to_i32 h v rounding = nat_plain (host_f64_as_i32 h v)"

definition nat_compare_f32 :: "float32 \<Rightarrow> float32 \<Rightarrow> comparison_mode \<Rightarrow> relation outcome" where
  "nat_compare_f32 lhs rhs mode = nat_plain
     (if is_nan32 lhs \<or> is_nan32 rhs then Unordered
      else if signed_magnitude lhs < signed_magnitude rhs then Less
      else if signed_magnitude rhs < signed_magnitude lhs then Greater
      else Equal)"

definition nat_compare_f64 :: "float64 \<Rightarrow> float64 \<Rightarrow> comparison_mode \<Rightarrow> relation outcome" where
  "nat_compare_f64 lhs rhs mode = nat_plain
     (if is_nan64 lhs \<or> is_nan64 rhs then Unordered
      else if signed_magnitude lhs < signed_magnitude rhs then Less
      else if signed_magnitude rhs < signed_magnitude lhs then Greater
      else Equal)"

section \<open>Back-end dispatch\<close>

datatype backend = SoftFloat | Native

record float_env =
  env_lib :: softfloat_lib
  env_host :: host_fpu

definition backend_add_f32 ::
  "float_env \<Rightarrow> backend \<Rightarrow> float32 \<Rightarrow> float32 \<Rightarrow> rounding_mode \<Rightarrow> float32 outcome option" where
  "backend_add_f32 env b lhs rhs rounding =
     (case b of SoftFloat \<Rightarrow> sf_add_f32 (env_lib env) lhs rhs rounding
      | Native \<Rightarrow> Some (nat_add_f32 (env_host env) lhs rhs rounding))"

definition backend_add_f64 ::
  "float_env \<Rightarrow> backend \<Rightarrow> float64 \<Rightarrow> float64 \<Rightarrow> rounding_mode \<Rightarrow> float64 outcome option" where
  "backend_add_f64 env b lhs rhs rounding =
     (case b of SoftFloat \<Rightarrow> sf_add_f64 (env_lib env) lhs rhs rounding
      | Native \<Rightarrow> Some (nat_add_f64 (env_host env) lhs rhs rounding))"

definition backend_sub_f32 ::
  "float_env \<Rightarrow> backend \<Rightarrow> float32 \<Rightarrow> float32 \<Rightarrow> rounding_mode \<Rightarrow> float32 outcome option" where
  "backend_sub_f32 env b lhs rhs rounding =
     (case b of SoftFloat \<Rightarrow> sf_sub_f32 (env_lib env) lhs rhs rounding
      | Native \<Rightarrow> Some (nat_sub_f32 (env_host env) lhs rhs rounding))"

definition backend_sub_f64 ::
  "float_env \<Rightarrow> backend \<Rightarrow> float64 \<Rightarrow> float64 \<Rightarrow> rounding_mode \<Rightarrow> float64 outcome option" where
  "backend_sub_f64 env b lhs rhs rounding =
     (case b of SoftFloat \<Rightarrow> sf_sub_f64 (env_lib env) lhs rhs rounding
      | Native \<Rightarrow> Some (nat_sub_f64 (env_host env) lhs rhs rounding))"

definition backend_mul_f32 ::
  "float_env \<Rightarrow> backend \<Rightarrow> float32 \<Rightarrow> float32 \<Rightarrow> rounding_mode \<Rightarrow> float32 outcome option" where
  "backend_mul_f32 env b lhs rhs rounding =
     (case b of SoftFloat \<Rightarrow> sf_mul_f32 (env_lib env) lhs rhs rounding
      | Native \<Rightarrow> Some (nat_mul_f32 (env_host env) lhs rhs rounding))"

definition backend_mul_f64 ::
  "float_env \<Rightarrow> backend \<Rightarrow> float64 \<Rightarrow> float64 \<Rightarrow> rounding_mode \<Rightarrow> float64 outcome option" where
  "backend_mul_f64 env b lhs rhs rounding =
     (case b of SoftFloat \<Rightarrow> sf_mul_f64 (env_lib env) lhs rhs rounding
      | Native \<Rightarrow> Some (nat_mul_f64 (env_host env) lhs rhs rounding))"

definition backend_div_f32 ::
  "float_env \<Rightarrow> backend \<Rightarrow> float32 \<Rightarrow> float32 \<Rightarrow> rounding_mode \<Rightarrow> float32 outcome option" where
  "backend_div_f32 env b lhs rhs rounding =
     (case b of SoftFloat \<Rightarrow> sf_div_f32 (env_lib env) lhs rhs rounding
      | Native \<Rightarrow> Some (nat_div_f32 (env_host env) lhs rhs rounding))"

definition backend_div_f64 ::
  "float_env \<Rightarrow> backend \<Rightarrow> float64 \<Rightarrow> float64 \<Rightarrow> rounding_mode \<Rightarrow> float64 outcome option" where
  "backend_div_f64 env b lhs rhs rounding =
     (case b of SoftFloat \<Rightarrow> sf_div_f64 (env_lib env) lhs rhs rounding
      | Native \<Rightarrow> Some (nat_div_f64 (env_host env) lhs rhs rounding))"

definition backend_abs_f32 :: "backend \<Rightarrow> float32 \<Rightarrow> float32 outcome" where
  "backend_abs_f32 b v = (case b of SoftFloat \<Rightarrow> sf_abs_f32 v | Native \<Rightarrow> nat_abs_f32 v)"

definition backend_abs_f64 :: "backend \<Rightarrow> float64 \<Rightarrow> float64 outcome" where
  "backend_abs_f64 b v = (case b of SoftFloat \<Rightarrow> sf_abs_f64 v | Native \<Rightarrow> nat_abs_f64 v)"

definition backend_neg_f32 :: "backend \<Rightarrow> float32 \<Rightarrow> float32 outcome" where
  "backend_neg_f32 b v = (case b of SoftFloat \<Rightarrow> sf_neg_f32 v | Native \<Rightarrow> nat_neg_f32 v)"

definition backend_neg_f64 :: "backend \<Rightarrow> float64 \<Rightarrow> float64 outcome" where
  "backend_neg_f64 b v = (case b of SoftFloat \<Rightarrow> sf_neg_f64 v | Native \<Rightarrow> nat_neg_f64 v)"

definition backend_convert_float32_to_float64 ::
  "float_env \<Rightarrow> backend \<Rightarrow> float32 \<Rightarrow> float64 outcome option" where
  "backend_convert_float32_to_float64 env b v =
     (case b of SoftFloat \<Rightarrow> sf_convert_float32_to_float64 (env_lib env) v
      | Native \<Rightarrow> Some (nat_convert_float32_to_float64 (env_host env) v))"

definition backend_convert_float64_to_float32 ::
  "float_env \<Rightarrow> backend \<Rightarrow> float64 \<Rightarrow> rounding_mode \<Rightarrow> float32 outcome option" where
  "backend_convert_float64_to_float32 env b v rounding =
     (case b of SoftFloat \<Rightarrow> sf_convert_float64_to_float32 (env_lib env) v rounding
      | Native \<Rightarrow> Some (nat_convert_float64_to_float32 (env_host env) v rounding))"

definition backend_convert_i32_to_float32 ::
  "float_env \<Rightarrow> backend \<Rightarrow> u32 \<Rightarrow> rounding_mode \<Rightarrow> float32 outcome option" where
  "backend_convert_i32_to_float32 env b v rounding =
     (case b of SoftFloat \<Rightarrow> sf_convert_i32_to_float32 (env_lib env) v rounding
      | Native \<Rightarrow> Some (nat_convert_i32_to_float32 (env_host env) v rounding))"

definition backend_convert_i32_to_float64 :: "float_env \<Rightarrow> backend \<Rightarrow> u32 \<Rightarrow> float64 outcome" where
  "backend_convert_i32_to_float64 env b v =
     (case b of SoftFloat \<Rightarrow> sf_convert_i32_to_float64 (env_lib env) v
      | Native \<Rightarrow> nat_convert_i32_to_float64 (env_host env) v)"

definition backend_convert_float32_to_i32 ::
  "float_env \<Rightarrow> backend \<Rightarrow> float32 \<Rightarrow> rounding_mode \<Rightarrow> u32 outcome option" where
  "backend_convert_float32_to_i32 env b v rounding =
     (case b of SoftFloat \<Rightarrow> sf_convert_float32_to_i32 (env_lib env) v rounding
      | Native \<Rightarrow> Some (nat_convert_float32_to_i32 (env_host env) v rounding))"

definition backend_convert_float64_to_i32 ::
  "float_env \<Rightarrow> backend \<Rightarrow> float64 \<Rightarrow> rounding_mode \<Rightarrow> u32 outcome option" where
  "backend_convert_float64_to_i32 env b v rounding =
     (case b of SoftFloat \<Rightarrow> sf_convert_float64_to_i32 (env_lib env) v rounding
      | Native \<Rightarrow> Some (nat_convert_float64_to_i32 (env_host env) v rounding))"

definition backend_compare_f32 ::
  "float_env \<Rightarrow> backend \<Rightarrow> float32 \<Rightarrow> float32 \<Rightarrow> comparison_mode \<Rightarrow> relation outcome option" where
  "backend_compare_f32 env b lhs rhs mode =
     (case b of SoftFloat \<Rightarrow> sf_compare_f32 (env_lib env) lhs rhs mode
      | Native \<Rightarrow> Some (nat_compare_f32 lhs rhs mode))"

definition backend_compare_f64 ::
  "float_env \<Rightarrow> backend \<Rightarrow> float64 \<Rightarrow> float64 \<Rightarrow> comparison_mode \<Rightarrow> relation outcome option" where
  "backend_compare_f64 env b lhs rhs mode =
     (case b of SoftFloat \<Rightarrow> sf_compare_f64 (env_lib env) lhs rhs mode
      | Native \<Rightarrow> Some (nat_compare_f64 lhs rhs mode))"

end
