(* ===== verification/Cp1.thy ===== *)
theory Cp1
  imports Float
begin

text \<open>
  The R3010 floating-point coprocessor's own state, \<^verbatim>\<open>Cp1\<close> of
  \<^verbatim>\<open>mips1/r3000/cp1.rs\<close>: the register file with its paired doubles, FCR30 and FCR31,
  and the rules that turn an operation's operands and outcome into an FCR31 update. The
  execution of instructions is in the theory \<open>Cp1_Exec\<close>.
\<close>

definition IMPLEMENTATION_REVISION :: u32 where "IMPLEMENTATION_REVISION = 0x00000300"
definition CONTROL_STATUS_WRITABLE_MASK :: u32 where "CONTROL_STATUS_WRITABLE_MASK = 0x0083ffff"
definition CONTROL_STATUS_UNIMPLEMENTED :: u32 where "CONTROL_STATUS_UNIMPLEMENTED = push_bit 17 1"
definition CONTROL_STATUS_CAUSE_MASK :: u32 where "CONTROL_STATUS_CAUSE_MASK = 0x0001f000"
definition CONTROL_STATUS_ENABLE_MASK :: u32 where "CONTROL_STATUS_ENABLE_MASK = 0x00000f80"
definition CONTROL_STATUS_CONDITION :: u32 where "CONTROL_STATUS_CONDITION = push_bit 23 1"
definition CONTROL_STATUS_FLAG_SHIFT :: nat where "CONTROL_STATUS_FLAG_SHIFT = 2"
definition CONTROL_STATUS_ENABLE_SHIFT :: nat where "CONTROL_STATUS_ENABLE_SHIFT = 7"
definition CONTROL_STATUS_CAUSE_SHIFT :: nat where "CONTROL_STATUS_CAUSE_SHIFT = 12"
definition UNDEFINED_COMPANION_WORD :: u32 where "UNDEFINED_COMPANION_WORD = 0"

record fcr31_update =
  fu_cause :: exception_flags
  fu_sticky_flags :: exception_flags
  fu_unimplemented :: bool
  fu_writeback :: bool

record cp1 =
  cp1_registers :: "u32 list"
  cp1_exception_instruction :: u32
  cp1_control_status :: u32
  cp1_backend :: backend

definition cp1_new :: "backend \<Rightarrow> cp1" where
  "cp1_new b = \<lparr>cp1_registers = replicate 32 0, cp1_exception_instruction = 0,
     cp1_control_status = 0, cp1_backend = b\<rparr>"

section \<open>Registers\<close>

definition cp1_read_general :: "cp1 \<Rightarrow> nat \<Rightarrow> u32 option" where
  "cp1_read_general c index = get_at (cp1_registers c) index"

definition cp1_write_general :: "nat \<Rightarrow> u32 \<Rightarrow> cp1 \<Rightarrow> cp1 option" where
  "cp1_write_general index value c =
     map_option (\<lambda>rs. c\<lparr>cp1_registers := rs\<rparr>) (set_at (cp1_registers c) index value)"

definition cp1_read_control :: "cp1 \<Rightarrow> nat \<Rightarrow> u32" where
  "cp1_read_control c index =
     (if index = 0 then IMPLEMENTATION_REVISION
      else if index = 30 then cp1_exception_instruction c
      else if index = 31 then cp1_control_status c
      else 0)"

definition cp1_write_control_status :: "u32 \<Rightarrow> cp1 \<Rightarrow> cp1" where
  "cp1_write_control_status value c =
     c\<lparr>cp1_control_status := value AND CONTROL_STATUS_WRITABLE_MASK\<rparr>"

definition cp1_write_control :: "nat \<Rightarrow> u32 \<Rightarrow> cp1 \<Rightarrow> cp1" where
  "cp1_write_control index value c =
     (if index = 30 then c\<lparr>cp1_exception_instruction := value\<rparr>
      else if index = 31 then cp1_write_control_status value c
      else c)"

definition cp1_condition :: "cp1 \<Rightarrow> bool" where
  "cp1_condition c \<longleftrightarrow> cp1_control_status c AND CONTROL_STATUS_CONDITION \<noteq> 0"

definition cp1_interrupt_asserted :: "cp1 \<Rightarrow> bool" where
  "cp1_interrupt_asserted c = (
     let enabled_causes =
           drop_bit 5 (cp1_control_status c AND CONTROL_STATUS_CAUSE_MASK) AND
           cp1_control_status c AND CONTROL_STATUS_ENABLE_MASK
     in cp1_control_status c AND CONTROL_STATUS_UNIMPLEMENTED \<noteq> 0 \<or> enabled_causes \<noteq> 0)"

definition cp1_write_condition :: "bool \<Rightarrow> cp1 \<Rightarrow> cp1" where
  "cp1_write_condition value c =
     (if value then c\<lparr>cp1_control_status := cp1_control_status c OR CONTROL_STATUS_CONDITION\<rparr>
      else c\<lparr>cp1_control_status := cp1_control_status c AND NOT CONTROL_STATUS_CONDITION\<rparr>)"

text \<open>A double occupies an even register and its odd companion; the low half is even.\<close>

definition even_register :: "nat \<Rightarrow> nat" where
  "even_register r = r - r mod 2"

definition odd_register :: "nat \<Rightarrow> nat" where
  "odd_register r = r OR 1"

definition cp1_read_float32 :: "cp1 \<Rightarrow> nat \<Rightarrow> float32 option" where
  "cp1_read_float32 c r = get_at (cp1_registers c) r"

definition cp1_read_float64 :: "cp1 \<Rightarrow> nat \<Rightarrow> float64 option" where
  "cp1_read_float64 c r =
     do {
       let even = even_register r;
       low <- get_at (cp1_registers c) even;
       high <- get_at (cp1_registers c) (odd_register even);
       Some (ucast low OR push_bit 32 (ucast high))
     }"

definition cp1_read_word :: "cp1 \<Rightarrow> nat \<Rightarrow> u32 option" where
  "cp1_read_word c r = get_at (cp1_registers c) r"

definition cp1_write_word :: "nat \<Rightarrow> u32 \<Rightarrow> cp1 \<Rightarrow> cp1 option" where
  "cp1_write_word r value c =
     do {
       rs <- (if r AND 1 = 0 then set_at (cp1_registers c) (odd_register r) UNDEFINED_COMPANION_WORD
              else Some (cp1_registers c));
       rs' <- set_at rs r value;
       Some (c\<lparr>cp1_registers := rs'\<rparr>)
     }"

definition cp1_write_float32 :: "nat \<Rightarrow> float32 \<Rightarrow> cp1 \<Rightarrow> cp1 option" where
  "cp1_write_float32 r value c =
     do {
       rs <- (if r AND 1 = 0 then set_at (cp1_registers c) (odd_register r) UNDEFINED_COMPANION_WORD
              else Some (cp1_registers c));
       rs' <- set_at rs r value;
       Some (c\<lparr>cp1_registers := rs'\<rparr>)
     }"

definition cp1_write_float64 :: "nat \<Rightarrow> float64 \<Rightarrow> cp1 \<Rightarrow> cp1 option" where
  "cp1_write_float64 r value c =
     do {
       let even = even_register r;
       rs <- set_at (cp1_registers c) even (ucast value);
       rs' <- set_at rs (odd_register even) (ucast (drop_bit 32 value));
       Some (c\<lparr>cp1_registers := rs'\<rparr>)
     }"

section \<open>FCR31\<close>

definition cp1_rounding_mode :: "cp1 \<Rightarrow> rounding_mode option" where
  "cp1_rounding_mode c = (
     let rm = cp1_control_status c AND 3 in
     if rm = 0 then Some NearestEven
     else if rm = 1 then Some TowardZero
     else if rm = 2 then Some TowardPositive
     else if rm = 3 then Some TowardNegative
     else None)"

definition cp1_enabled_exceptions :: "cp1 \<Rightarrow> exception_flags" where
  "cp1_enabled_exceptions c =
     ucast (drop_bit CONTROL_STATUS_ENABLE_SHIFT (cp1_control_status c AND CONTROL_STATUS_ENABLE_MASK))"

definition unimplemented_update :: fcr31_update where
  "unimplemented_update =
     \<lparr>fu_cause = 0, fu_sticky_flags = 0, fu_unimplemented = True, fu_writeback = False\<rparr>"

definition classify_invalid :: "cp1 \<Rightarrow> fcr31_update" where
  "classify_invalid c =
     (if flags_contains (cp1_enabled_exceptions c) FLAG_INVALID
      then \<lparr>fu_cause = FLAG_INVALID, fu_sticky_flags = 0, fu_unimplemented = False,
            fu_writeback = False\<rparr>
      else unimplemented_update)"

definition classify_nan :: "cp1 \<Rightarrow> bool \<Rightarrow> fcr31_update" where
  "classify_nan c signals_invalid =
     (if signals_invalid then classify_invalid c else unimplemented_update)"

definition classify_float32_operands :: "cp1 \<Rightarrow> float32 list \<Rightarrow> bool \<Rightarrow> fcr31_update option" where
  "classify_float32_operands c operands signal_any_nan =
     (if list_ex is_subnormal32 operands then Some unimplemented_update
      else if list_ex is_nan32 operands
      then Some (classify_nan c (signal_any_nan \<or> list_ex is_signaling_nan32 operands))
      else None)"

definition classify_float64_operands :: "cp1 \<Rightarrow> float64 list \<Rightarrow> bool \<Rightarrow> fcr31_update option" where
  "classify_float64_operands c operands signal_any_nan =
     (if list_ex is_subnormal64 operands then Some unimplemented_update
      else if list_ex is_nan64 operands
      then Some (classify_nan c (signal_any_nan \<or> list_ex is_signaling_nan64 operands))
      else None)"

definition classify_outcome :: "cp1 \<Rightarrow> exception_flags \<Rightarrow> bool \<Rightarrow> fcr31_update" where
  "classify_outcome c flags tiny =
     (if flags_contains flags FLAG_INVALID then classify_invalid c
      else if flags_contains flags FLAG_DIVIDE_BY_ZERO \<or> tiny \<or> flags_contains flags FLAG_UNDERFLOW
      then unimplemented_update
      else
        let supported_flags = flags AND (FLAG_OVERFLOW OR FLAG_INEXACT);
            enabled = supported_flags AND cp1_enabled_exceptions c
        in \<lparr>fu_cause = supported_flags,
            fu_sticky_flags = (if enabled = 0 then supported_flags else 0),
            fu_unimplemented = False,
            fu_writeback = (enabled = 0)\<rparr>)"

definition apply_fcr31_update :: "fcr31_update \<Rightarrow> cp1 \<Rightarrow> cp1" where
  "apply_fcr31_update u c = (
     let s0 = cp1_control_status c AND NOT (CONTROL_STATUS_CAUSE_MASK OR CONTROL_STATUS_UNIMPLEMENTED);
         s1 = s0 OR push_bit CONTROL_STATUS_CAUSE_SHIFT (ucast (fu_cause u));
         s2 = s1 OR push_bit CONTROL_STATUS_FLAG_SHIFT (ucast (fu_sticky_flags u));
         s3 = (if fu_unimplemented u then s2 OR CONTROL_STATUS_UNIMPLEMENTED else s2)
     in c\<lparr>cp1_control_status := s3\<rparr>)"

end
