(* ===== verification/Bus.thy ===== *)
theory Bus
  imports Prelude
begin

text \<open>
  The physical bus contract of \<^verbatim>\<open>se_core/src/bus.rs\<close>: addresses, transaction faults
  and the \<^verbatim>\<open>PhysicalBus\<close> trait. A trait object is a record of its two methods over
  the implementor's state; a method returns its \<^verbatim>\<open>Result\<close> together with the state it
  leaves, or panics. A read returns the bytes it stores in the caller's buffer. No caller of
  the trait under \<^verbatim>\<open>se_cpu\<close> looks at the buffer after an error.

  The locale \<open>physical_bus\<close> states what the processor relies on; it is interpreted on the
  IP12 bus in the theory \<open>Ip12_Bus\<close>.
\<close>

type_synonym phys_addr = u64
type_synonym device_addr = u64

datatype bus_error = HardwareFault | InvalidTransaction | UnimplementedAccess

record 'b bus_ops =
  bus_read :: "'b \<Rightarrow> phys_addr \<Rightarrow> nat \<Rightarrow> ((bus_error + u8 list) \<times> 'b) option"
  bus_write :: "'b \<Rightarrow> phys_addr \<Rightarrow> u8 list \<Rightarrow> ((bus_error + unit) \<times> 'b) option"

text \<open>
  The transactions the contract recognises: one through four bytes inside one aligned word of
  the 32-bit physical space.
\<close>

definition word_transaction :: "phys_addr \<Rightarrow> nat \<Rightarrow> bool" where
  "word_transaction a n \<longleftrightarrow> 1 \<le> n \<and> unat (a AND 3) + n \<le> 4 \<and> unat a < 2 ^ 32"

locale physical_bus =
  fixes ops :: "'b bus_ops"
    and bus_ok :: "'b \<Rightarrow> bool"
  assumes read_total:
    "bus_ok b \<Longrightarrow> word_transaction a n \<Longrightarrow>
       ok (bus_read ops b a n) (\<lambda>(r, b'). bus_ok b' \<and> (\<forall>bs. r = Inr bs \<longrightarrow> length bs = n))"
    and write_total:
    "bus_ok b \<Longrightarrow> word_transaction a (length bs) \<Longrightarrow>
       ok (bus_write ops b a bs) (\<lambda>(r, b'). bus_ok b')"

section \<open>Plain memory\<close>

text \<open>
  A bus with plain memory: \<open>peek\<close> is the memory as a partial map from word addresses to their
  four bytes. Reading memory yields its bytes and changes nothing; writing memory changes the
  bytes written and nothing else; memory comes in blocks of at least 128 bytes.
\<close>

definition word_of_phys :: "phys_addr \<Rightarrow> u32" where
  "word_of_phys a = ucast a AND NOT 3"

definition byte_offset :: "phys_addr \<Rightarrow> nat" where
  "byte_offset a = unat (a AND 3)"

definition word_aligned :: "u32 \<Rightarrow> bool" where
  "word_aligned wa \<longleftrightarrow> \<not> bit wa 0 \<and> \<not> bit wa 1"

definition splice_bytes :: "nat \<Rightarrow> u8 list \<Rightarrow> u8 list \<Rightarrow> u8 list" where
  "splice_bytes offset bs w = take offset w @ bs @ drop (offset + length bs) w"

locale memory_bus = physical_bus +
  fixes peek :: "'a \<Rightarrow> u32 \<Rightarrow> u8 list option"
  assumes peek_length: "bus_ok b \<Longrightarrow> peek b wa = Some w \<Longrightarrow> length w = 4"
    and peek_block:
    "bus_ok b \<Longrightarrow> peek b wa = Some w \<Longrightarrow> word_aligned wa' \<Longrightarrow>
       wa' AND NOT (mask 7) = wa AND NOT (mask 7) \<Longrightarrow> \<exists>w'. peek b wa' = Some w'"
    and read_memory:
    "bus_ok b \<Longrightarrow> word_transaction a n \<Longrightarrow> peek b (word_of_phys a) = Some w \<Longrightarrow>
       bus_read ops b a n = Some (Inr (take n (drop (byte_offset a) w)), b)"
    and write_memory:
    "bus_ok b \<Longrightarrow> word_transaction a (length bs) \<Longrightarrow> peek b (word_of_phys a) = Some w \<Longrightarrow>
       \<exists>b'. bus_write ops b a bs = Some (Inr (), b') \<and> bus_ok b' \<and>
         peek b' = (peek b)(word_of_phys a \<mapsto> splice_bytes (byte_offset a) bs w)"

end
