(* ===== verification/Mmu.thy ===== *)
theory Mmu
  imports Bus
begin

text \<open>
  The memory management unit, \<^verbatim>\<open>mips1/r3000/mmu.rs\<close>: the segments of the virtual
  address space, the 64-entry TLB with its duplicate-entry rule, the lookup caches in front of
  it (a hot entry and a 64-way hash table, invalidated by a generation counter), and the delayed
  instruction view of the TLB. Record fields carry the prefix of their struct (\<open>te_\<close>
  entry, \<open>cl_\<close> cached lookup, \<open>tc_\<close> lookup cache, \<open>pw_\<close> pending write,
  \<open>mmu_\<close>). The masks whose names CP0 also uses carry the prefix \<open>MMU_\<close>.
\<close>

section \<open>Constants and types\<close>

definition TLB_ENTRY_COUNT :: nat where "TLB_ENTRY_COUNT = 64"
definition TLB_LOOKUP_CACHE_HASH_MULTIPLIER :: u32 where
  "TLB_LOOKUP_CACHE_HASH_MULTIPLIER = 0x9e3779b1"
definition TLB_LOOKUP_CACHE_INDEX_SHIFT :: nat where "TLB_LOOKUP_CACHE_INDEX_SHIFT = 26"

definition KUSEG_END :: u32 where "KUSEG_END = 0x7fffffff"
definition KSEG0_START :: u32 where "KSEG0_START = 0x80000000"
definition KSEG0_END :: u32 where "KSEG0_END = 0x9fffffff"
definition KSEG1_START :: u32 where "KSEG1_START = 0xa0000000"
definition KSEG1_END :: u32 where "KSEG1_END = 0xbfffffff"
definition PHYSICAL_ADDRESS_MASK :: u32 where "PHYSICAL_ADDRESS_MASK = 0x1fffffff"

definition MMU_ENTRY_HI_VPN_MASK :: u32 where "MMU_ENTRY_HI_VPN_MASK = 0xfffff000"
definition MMU_ENTRY_HI_ASID_MASK :: u32 where "MMU_ENTRY_HI_ASID_MASK = 0x00000fc0"
definition ENTRY_LO_PFN_MASK :: u32 where "ENTRY_LO_PFN_MASK = 0xfffff000"
definition ENTRY_LO_NONCACHEABLE :: u32 where "ENTRY_LO_NONCACHEABLE = push_bit 11 1"
definition ENTRY_LO_DIRTY :: u32 where "ENTRY_LO_DIRTY = push_bit 10 1"
definition ENTRY_LO_VALID :: u32 where "ENTRY_LO_VALID = push_bit 9 1"
definition ENTRY_LO_GLOBAL :: u32 where "ENTRY_LO_GLOBAL = push_bit 8 1"
definition ENTRY_LO_MASK :: u32 where
  "ENTRY_LO_MASK = ENTRY_LO_PFN_MASK OR ENTRY_LO_NONCACHEABLE OR ENTRY_LO_DIRTY OR
     ENTRY_LO_VALID OR ENTRY_LO_GLOBAL"

datatype access_type = AccessInstruction | AccessLoad | AccessStore

datatype cacheability = Cached | Uncached

record translation =
  tr_address :: phys_addr
  tr_cacheability :: cacheability

datatype translation_fault =
    FaultAddressError | FaultTlbMiss | FaultTlbInvalid | FaultTlbModified | FaultTlbShutdown

datatype probe_result = ProbeMiss | ProbeMatch nat | ProbeShutdown

record tlb_entry =
  te_hi :: u32
  te_lo :: u32

definition INITIAL_INVALID :: tlb_entry where
  "INITIAL_INVALID = \<lparr>te_hi = KSEG0_START, te_lo = 0\<rparr>"

definition tlb_entry_new :: "u32 \<Rightarrow> u32 \<Rightarrow> tlb_entry" where
  "tlb_entry_new entry_hi entry_lo =
     \<lparr>te_hi = entry_hi AND (MMU_ENTRY_HI_VPN_MASK OR MMU_ENTRY_HI_ASID_MASK),
      te_lo = entry_lo AND ENTRY_LO_MASK\<rparr>"

definition tag_matches :: "tlb_entry \<Rightarrow> u32 \<Rightarrow> u32 \<Rightarrow> bool" where
  "tag_matches e virtual_page asid \<longleftrightarrow>
     te_hi e AND MMU_ENTRY_HI_VPN_MASK = virtual_page \<and>
     (te_lo e AND ENTRY_LO_GLOBAL \<noteq> 0 \<or> te_hi e AND MMU_ENTRY_HI_ASID_MASK = asid)"

section \<open>Lookup\<close>

text \<open>
  The scan over the slots: \<open>index\<close> counts the slots seen, \<open>first\<close> is the lowest match
  so far. Reading \<^verbatim>\<open>entries[first]\<close> is a checked access.
\<close>

fun match_loop ::
  "tlb_entry list \<Rightarrow> u32 \<Rightarrow> u32 \<Rightarrow> nat \<Rightarrow> nat option \<Rightarrow> tlb_entry list \<Rightarrow> probe_result option"
where
  "match_loop entries page asid index matching [] =
     Some (case matching of None \<Rightarrow> ProbeMiss | Some i \<Rightarrow> ProbeMatch i)"
| "match_loop entries page asid index matching (e # rest) =
     (if tag_matches e page asid then
        (case matching of
           Some first \<Rightarrow>
             do {
               entry <- get_at entries first;
               if te_lo e \<noteq> te_lo entry then Some ProbeShutdown
               else match_loop entries page asid (index + 1) matching rest
             }
         | None \<Rightarrow> match_loop entries page asid (index + 1) (Some index) rest)
      else match_loop entries page asid (index + 1) matching rest)"

definition match_entries :: "tlb_entry list \<Rightarrow> u32 \<Rightarrow> u32 \<Rightarrow> probe_result option" where
  "match_entries entries page asid = match_loop entries page asid 0 None entries"

datatype cached_probe_result = CachedMiss | CachedMatch u8 | CachedShutdown

definition from_probe_result :: "probe_result \<Rightarrow> cached_probe_result option" where
  "from_probe_result r =
     (case r of
        ProbeMiss \<Rightarrow> Some CachedMiss
      | ProbeMatch i \<Rightarrow> do { require (i < 256); Some (CachedMatch (word_of_nat i)) }
      | ProbeShutdown \<Rightarrow> Some CachedShutdown)"

definition cached_probe_result :: "cached_probe_result \<Rightarrow> probe_result" where
  "cached_probe_result r =
     (case r of
        CachedMiss \<Rightarrow> ProbeMiss
      | CachedMatch i \<Rightarrow> ProbeMatch (unat i)
      | CachedShutdown \<Rightarrow> ProbeShutdown)"

record cached_lookup =
  cl_generation :: u32
  cl_key :: u32
  cl_result :: cached_probe_result

definition EMPTY_LOOKUP :: cached_lookup where
  "EMPTY_LOOKUP = \<lparr>cl_generation = 0, cl_key = 0, cl_result = CachedMiss\<rparr>"

definition cached_lookup_matches :: "cached_lookup \<Rightarrow> u32 \<Rightarrow> u32 \<Rightarrow> bool" where
  "cached_lookup_matches c generation key \<longleftrightarrow> cl_generation c = generation \<and> cl_key c = key"

record tlb_lookup_cache =
  tc_generation :: u32
  tc_hot :: cached_lookup
  tc_entries :: "cached_lookup list"

definition tlb_lookup_cache_new :: tlb_lookup_cache where
  "tlb_lookup_cache_new =
     \<lparr>tc_generation = 1, tc_hot = EMPTY_LOOKUP, tc_entries = replicate TLB_ENTRY_COUNT EMPTY_LOOKUP\<rparr>"

definition lookup_key :: "u32 \<Rightarrow> u32 \<Rightarrow> u32" where
  "lookup_key virtual_page asid = drop_bit 12 virtual_page OR push_bit 14 asid"

definition lookup_cache_index :: "u32 \<Rightarrow> nat" where
  "lookup_cache_index key =
     unat (drop_bit TLB_LOOKUP_CACHE_INDEX_SHIFT (key * TLB_LOOKUP_CACHE_HASH_MULTIPLIER))"

definition lookup_cache_resolve ::
  "tlb_entry list \<Rightarrow> u32 \<Rightarrow> u32 \<Rightarrow> tlb_lookup_cache \<Rightarrow> (probe_result \<times> tlb_lookup_cache) option"
where
  "lookup_cache_resolve entries page asid tc = (
     let key = lookup_key page asid in
     if cached_lookup_matches (tc_hot tc) (tc_generation tc) key
     then Some (cached_probe_result (cl_result (tc_hot tc)), tc)
     else do {
       let index = lookup_cache_index key;
       cached <- get_at (tc_entries tc) index;
       if cached_lookup_matches cached (tc_generation tc) key
       then Some (cached_probe_result (cl_result cached), tc\<lparr>tc_hot := cached\<rparr>)
       else do {
         result <- match_entries entries page asid;
         packed <- from_probe_result result;
         let fresh = \<lparr>cl_generation = tc_generation tc, cl_key = key, cl_result = packed\<rparr>;
         slots <- set_at (tc_entries tc) index fresh;
         Some (result, tc\<lparr>tc_hot := fresh, tc_entries := slots\<rparr>)
       }
     })"

definition lookup_cache_invalidate :: "tlb_lookup_cache \<Rightarrow> tlb_lookup_cache" where
  "lookup_cache_invalidate tc =
     (if tc_generation tc \<noteq> 0xffffffff then tc\<lparr>tc_generation := tc_generation tc + 1\<rparr>
      else \<lparr>tc_generation = 1, tc_hot = EMPTY_LOOKUP,
            tc_entries = map (\<lambda>_. EMPTY_LOOKUP) (tc_entries tc)\<rparr>)"

section \<open>The unit\<close>

record pending_tlb_write =
  pw_index :: nat
  pw_entry :: tlb_entry

record mmu =
  mmu_entries :: "tlb_entry list"
  mmu_instruction_entries :: "tlb_entry list"
  mmu_pending_first :: "pending_tlb_write option"
  mmu_pending_second :: "pending_tlb_write option"
  mmu_main_cache :: tlb_lookup_cache
  mmu_instruction_cache :: tlb_lookup_cache

definition mmu_clone :: "mmu \<Rightarrow> mmu" where
  "mmu_clone m = m\<lparr>mmu_main_cache := tlb_lookup_cache_new,
     mmu_instruction_cache := tlb_lookup_cache_new\<rparr>"

definition mmu_new :: mmu where
  "mmu_new =
     \<lparr>mmu_entries = replicate TLB_ENTRY_COUNT INITIAL_INVALID,
      mmu_instruction_entries = replicate TLB_ENTRY_COUNT INITIAL_INVALID,
      mmu_pending_first = None, mmu_pending_second = None,
      mmu_main_cache = tlb_lookup_cache_new, mmu_instruction_cache = tlb_lookup_cache_new\<rparr>"

definition mmu_reset :: "mmu \<Rightarrow> mmu" where
  "mmu_reset m =
     m\<lparr>mmu_instruction_entries := mmu_entries m,
       mmu_pending_first := None, mmu_pending_second := None,
       mmu_main_cache := lookup_cache_invalidate (mmu_main_cache m),
       mmu_instruction_cache := lookup_cache_invalidate (mmu_instruction_cache m)\<rparr>"

definition advance_instruction_view_with :: "pending_tlb_write option \<Rightarrow> mmu \<Rightarrow> mmu option" where
  "advance_instruction_view_with new_write m =
     do {
       m1 <- (case mmu_pending_first m of
           None \<Rightarrow> Some m
         | Some w \<Rightarrow> do {
             slots <- set_at (mmu_instruction_entries m) (pw_index w) (pw_entry w);
             Some (m\<lparr>mmu_instruction_entries := slots,
                     mmu_instruction_cache := lookup_cache_invalidate (mmu_instruction_cache m)\<rparr>)
           });
       Some (m1\<lparr>mmu_pending_first := mmu_pending_second m1, mmu_pending_second := new_write\<rparr>)
     }"

definition advance_instruction_view :: "mmu \<Rightarrow> mmu option" where
  "advance_instruction_view m = advance_instruction_view_with None m"

definition mmu_complete_write :: "nat \<Rightarrow> u32 \<Rightarrow> u32 \<Rightarrow> mmu \<Rightarrow> mmu option" where
  "mmu_complete_write index entry_hi entry_lo m =
     do {
       let entry = tlb_entry_new entry_hi entry_lo;
       slots <- set_at (mmu_entries m) index entry;
       advance_instruction_view_with (Some \<lparr>pw_index = index, pw_entry = entry\<rparr>)
         (m\<lparr>mmu_entries := slots, mmu_main_cache := lookup_cache_invalidate (mmu_main_cache m)\<rparr>)
     }"

definition mmu_read_indexed :: "mmu \<Rightarrow> nat \<Rightarrow> (u32 \<times> u32) option" where
  "mmu_read_indexed m index = map_option (\<lambda>e. (te_hi e, te_lo e)) (get_at (mmu_entries m) index)"

definition mmu_debug_entries :: "mmu \<Rightarrow> bool \<Rightarrow> (u32 \<times> u32) list" where
  "mmu_debug_entries m ins =
     map (\<lambda>e. (te_hi e, te_lo e)) (if ins then mmu_instruction_entries m else mmu_entries m)"

definition mmu_probe :: "mmu \<Rightarrow> u32 \<Rightarrow> probe_result option" where
  "mmu_probe m entry_hi =
     match_entries (mmu_entries m) (entry_hi AND MMU_ENTRY_HI_VPN_MASK)
       (entry_hi AND MMU_ENTRY_HI_ASID_MASK)"

section \<open>Translation\<close>

definition finish_mapped_translation ::
  "tlb_entry list \<Rightarrow> u32 \<Rightarrow> access_type \<Rightarrow> probe_result \<Rightarrow> (translation_fault + translation) option"
where
  "finish_mapped_translation entries va access result =
     (case result of
        ProbeMiss \<Rightarrow> Some (Inl FaultTlbMiss)
      | ProbeShutdown \<Rightarrow> Some (Inl FaultTlbShutdown)
      | ProbeMatch index \<Rightarrow>
          do {
            entry <- get_at entries index;
            if te_lo entry AND ENTRY_LO_VALID = 0 then Some (Inl FaultTlbInvalid)
            else if access = AccessStore \<and> te_lo entry AND ENTRY_LO_DIRTY = 0
            then Some (Inl FaultTlbModified)
            else Some (Inr
              \<lparr>tr_address = ucast ((te_lo entry AND ENTRY_LO_PFN_MASK) OR
                  (va AND NOT MMU_ENTRY_HI_VPN_MASK)),
               tr_cacheability =
                 (if te_lo entry AND ENTRY_LO_NONCACHEABLE = 0 then Cached else Uncached)\<rparr>)
          })"

definition access_entries :: "mmu \<Rightarrow> access_type \<Rightarrow> tlb_entry list" where
  "access_entries m access =
     (case access of AccessInstruction \<Rightarrow> mmu_instruction_entries m | _ \<Rightarrow> mmu_entries m)"

definition mapped_page :: "u32 \<Rightarrow> u32" where
  "mapped_page va = va AND MMU_ENTRY_HI_VPN_MASK"

definition mapped_asid :: "u8 \<Rightarrow> u32" where
  "mapped_asid asid = push_bit 6 (ucast asid) AND MMU_ENTRY_HI_ASID_MASK"

definition translate_mapped ::
  "u32 \<Rightarrow> u8 \<Rightarrow> access_type \<Rightarrow> mmu \<Rightarrow> ((translation_fault + translation) \<times> mmu) option"
where
  "translate_mapped va asid access m =
     do {
       (result, m1) <- (case access of
           AccessInstruction \<Rightarrow>
             map_option (\<lambda>(r, tc). (r, m\<lparr>mmu_instruction_cache := tc\<rparr>))
               (lookup_cache_resolve (mmu_instruction_entries m) (mapped_page va) (mapped_asid asid)
                 (mmu_instruction_cache m))
         | _ \<Rightarrow>
             map_option (\<lambda>(r, tc). (r, m\<lparr>mmu_main_cache := tc\<rparr>))
               (lookup_cache_resolve (mmu_entries m) (mapped_page va) (mapped_asid asid)
                 (mmu_main_cache m)));
       t <- finish_mapped_translation (access_entries m1 access) va access result;
       Some (t, m1)
     }"

definition translate_mapped_readonly ::
  "u32 \<Rightarrow> u8 \<Rightarrow> access_type \<Rightarrow> mmu \<Rightarrow> (translation_fault + translation) option"
where
  "translate_mapped_readonly va asid access m =
     do {
       result <- match_entries (access_entries m access) (mapped_page va) (mapped_asid asid);
       finish_mapped_translation (access_entries m access) va access result
     }"

definition unmapped_translation :: "u32 \<Rightarrow> cacheability \<Rightarrow> translation" where
  "unmapped_translation va c =
     \<lparr>tr_address = ucast (va AND PHYSICAL_ADDRESS_MASK), tr_cacheability = c\<rparr>"

definition mmu_translate ::
  "u32 \<Rightarrow> u8 \<Rightarrow> bool \<Rightarrow> access_type \<Rightarrow> mmu \<Rightarrow> ((translation_fault + translation) \<times> mmu) option"
where
  "mmu_translate va asid kernel_mode access m =
     (if va \<le> KUSEG_END then translate_mapped va asid access m
      else if KSEG0_START \<le> va \<and> va \<le> KSEG0_END \<and> kernel_mode
      then Some (Inr (unmapped_translation va Cached), m)
      else if KSEG1_START \<le> va \<and> va \<le> KSEG1_END \<and> kernel_mode
      then Some (Inr (unmapped_translation va Uncached), m)
      else if KSEG0_START \<le> va \<and> va \<le> KSEG1_END then Some (Inl FaultAddressError, m)
      else if kernel_mode then translate_mapped va asid access m
      else Some (Inl FaultAddressError, m))"

definition mmu_translate_readonly ::
  "u32 \<Rightarrow> u8 \<Rightarrow> bool \<Rightarrow> access_type \<Rightarrow> mmu \<Rightarrow> (translation_fault + translation) option"
where
  "mmu_translate_readonly va asid kernel_mode access m =
     (if va \<le> KUSEG_END then translate_mapped_readonly va asid access m
      else if KSEG0_START \<le> va \<and> va \<le> KSEG0_END \<and> kernel_mode
      then Some (Inr (unmapped_translation va Cached))
      else if KSEG1_START \<le> va \<and> va \<le> KSEG1_END \<and> kernel_mode
      then Some (Inr (unmapped_translation va Uncached))
      else if KSEG0_START \<le> va \<and> va \<le> KSEG1_END then Some (Inl FaultAddressError)
      else if kernel_mode then translate_mapped_readonly va asid access m
      else Some (Inl FaultAddressError))"

end
