(* ===== verification/Config.thy ===== *)
theory Config
  imports Float
begin

text \<open>
  Static processor properties, \<^verbatim>\<open>R3000Config\<close> of \<^verbatim>\<open>mips1/r3000.rs\<close>:
  the constructor checks cache geometry and panics on anything else.
\<close>

definition MINIMUM_CACHE_BYTES :: nat where "MINIMUM_CACHE_BYTES = 4 * 1024"
definition MAXIMUM_CACHE_BYTES :: nat where "MAXIMUM_CACHE_BYTES = 256 * 1024"

record r3000_config =
  cfg_frequency_hz :: u64
  cfg_instruction_cache_bytes :: nat
  cfg_data_cache_bytes :: nat
  cfg_instruction_refill_bytes :: nat
  cfg_data_refill_bytes :: nat
  cfg_partial_store_enabled :: bool
  cfg_floating_point_backend :: backend

definition valid_cache_size :: "nat \<Rightarrow> bool" where
  "valid_cache_size bytes \<longleftrightarrow>
     MINIMUM_CACHE_BYTES \<le> bytes \<and> bytes \<le> MAXIMUM_CACHE_BYTES \<and> bytes AND (bytes - 1) = 0"

definition valid_refill_size :: "nat \<Rightarrow> bool" where
  "valid_refill_size bytes \<longleftrightarrow> bytes \<in> {4, 16, 32, 64, 128}"

definition r3000_config_new ::
  "u64 \<Rightarrow> nat \<Rightarrow> nat \<Rightarrow> nat \<Rightarrow> nat \<Rightarrow> bool \<Rightarrow> backend \<Rightarrow> r3000_config option"
where
  "r3000_config_new frequency instruction_bytes data_bytes instruction_refill data_refill partial_store fp =
     do {
       require (frequency \<noteq> 0);
       require (valid_cache_size instruction_bytes);
       require (valid_cache_size data_bytes);
       require (valid_refill_size instruction_refill);
       require (valid_refill_size data_refill);
       Some \<lparr>cfg_frequency_hz = frequency,
         cfg_instruction_cache_bytes = instruction_bytes, cfg_data_cache_bytes = data_bytes,
         cfg_instruction_refill_bytes = instruction_refill, cfg_data_refill_bytes = data_refill,
         cfg_partial_store_enabled = partial_store, cfg_floating_point_backend = fp\<rparr>
     }"

definition config_valid :: "r3000_config \<Rightarrow> bool" where
  "config_valid c \<longleftrightarrow> cfg_frequency_hz c \<noteq> 0 \<and>
     valid_cache_size (cfg_instruction_cache_bytes c) \<and> valid_cache_size (cfg_data_cache_bytes c) \<and>
     valid_refill_size (cfg_instruction_refill_bytes c) \<and> valid_refill_size (cfg_data_refill_bytes c)"

lemma config_new_valid: "r3000_config_new f ib db ir dr ps fp = Some c \<Longrightarrow> config_valid c"
  by (auto simp: r3000_config_new_def config_valid_def bind_eq_Some_conv)

lemma and_pred_power_of_two:
  assumes "0 < n" "n AND (n - 1) = (0 :: nat)"
  shows "\<exists>k. n = 2 ^ k"
  using assms
proof (induction n rule: less_induct)
  case (less n)
  show ?case
  proof (cases "even n")
    case True
    then obtain m where m: "n = 2 * m" by auto
    have "m AND (m - 1) = 0"
    proof (rule bit_eqI)
      fix i
      have "(2 * m - 1) div 2 = m - 1" using m less.prems(1) by (cases m) auto
      then have "bit (2 * m - 1) (Suc i) = bit (m - 1) i" by (simp add: bit_Suc)
      moreover have "bit (2 * m) (Suc i) = bit m i" by (simp add: bit_Suc)
      moreover have "\<not> (bit (2 * m) (Suc i) \<and> bit (2 * m - 1) (Suc i))"
        using less.prems(2) unfolding m by (metis bit_and_iff bit_0_eq bot_apply bot_bool_def)
      ultimately show "bit (m AND (m - 1)) i = bit (0 :: nat) i" by (simp add: bit_and_iff)
    qed
    moreover have "0 < m" "m < n" using m less.prems(1) by auto
    ultimately obtain k where "m = 2 ^ k" using less.IH by blast
    then have "n = 2 ^ Suc k" using m by simp
    then show ?thesis by blast
  next
    case False
    then obtain b where b: "n = 2 * b + 1" by (elim oddE)
    have "n AND (n - 1) = n - 1"
    proof (rule bit_eqI)
      fix i
      show "bit (n AND (n - 1)) i = bit (n - 1) i"
        unfolding bit_and_iff b by (cases i) (simp_all add: bit_0 bit_Suc)
    qed
    then have "n = 1" using less.prems by simp
    then show ?thesis by (intro exI [of _ 0]) simp
  qed
qed

lemma valid_cache_size_power:
  assumes "valid_cache_size n"
  obtains k where "n div 4 = 2 ^ k" "10 \<le> k" "k \<le> 16"
proof -
  obtain j where j: "n = 2 ^ j"
    using assms and_pred_power_of_two [of n]
    by (auto simp: valid_cache_size_def MINIMUM_CACHE_BYTES_def)
  have "(2::nat) ^ 12 \<le> 2 ^ j" "(2::nat) ^ j \<le> 2 ^ 18"
    using assms j by (simp_all add: valid_cache_size_def MINIMUM_CACHE_BYTES_def MAXIMUM_CACHE_BYTES_def)
  then have "12 \<le> j" "j \<le> 18" by (metis power_le_imp_le_exp one_less_numeral_iff semiring_norm(76))+
  moreover have "n div 4 = 2 ^ (j - 2)"
    using j \<open>12 \<le> j\<close> power_diff [of "2::nat" 2 j] by simp
  ultimately show ?thesis using that [of "j - 2"] by simp
qed

text \<open>A configuration the checks accept.\<close>

definition plain_config :: r3000_config where
  "plain_config = \<lparr>cfg_frequency_hz = 33000000, cfg_instruction_cache_bytes = 32768,
     cfg_data_cache_bytes = 32768, cfg_instruction_refill_bytes = 64, cfg_data_refill_bytes = 16,
     cfg_partial_store_enabled = True, cfg_floating_point_backend = SoftFloat\<rparr>"

lemma plain_config_valid [simp]: "config_valid plain_config"
  by (simp add: config_valid_def plain_config_def valid_cache_size_def valid_refill_size_def
      MINIMUM_CACHE_BYTES_def MAXIMUM_CACHE_BYTES_def)

end
