(* ===== verification/Cache.thy ===== *)
theory Cache
  imports Bus Config
begin

text \<open>
  The instruction and data caches, \<^verbatim>\<open>mips1/r3000/cache.rs\<close>: direct-mapped,
  word-wide lines, block refill, write-through stores with the two partial-store policies, and
  the isolated accesses that reach the cache alone. Record fields carry the prefix of their
  struct (\<open>ce_\<close> entry, \<open>ch_\<close> cache, \<open>ca_\<close> access). A read takes the length
  of the buffer and returns the bytes stored in it. Operations that use the bus take its methods
  and thread its state.
\<close>

definition WORD_BYTES :: nat where "WORD_BYTES = 4"
definition PAGE_FRAME_MASK :: u32 where "PAGE_FRAME_MASK = 0xfffff000"

record cache_entry =
  ce_page_frame :: u32
  ce_data :: "u8 list"
  ce_valid :: bool

definition CACHE_ENTRY_INVALID :: cache_entry where
  "CACHE_ENTRY_INVALID = \<lparr>ce_page_frame = 0, ce_data = replicate WORD_BYTES 0, ce_valid = False\<rparr>"

record cache =
  ch_entries :: "cache_entry list"
  ch_refill_bytes :: nat

definition cache_new :: "nat \<Rightarrow> nat \<Rightarrow> cache" where
  "cache_new cache_bytes refill_bytes =
     \<lparr>ch_entries = replicate (cache_bytes div WORD_BYTES) CACHE_ENTRY_INVALID,
      ch_refill_bytes = refill_bytes\<rparr>"

record cache_access =
  ca_word_address :: u32
  ca_offset :: nat
  ca_index :: nat
  ca_page_frame :: u32

definition page_frame :: "u32 \<Rightarrow> u32" where
  "page_frame word_address = word_address AND PAGE_FRAME_MASK"

definition cache_index :: "cache \<Rightarrow> u32 \<Rightarrow> nat" where
  "cache_index c word_address = unat (drop_bit 2 word_address) AND (length (ch_entries c) - 1)"

definition cache_access :: "cache \<Rightarrow> phys_addr \<Rightarrow> nat \<Rightarrow> cache_access option" where
  "cache_access c address len =
     do {
       require (1 \<le> len \<and> len \<le> WORD_BYTES);
       require (unat address \<le> 0xffffffff);
       let a = (ucast address :: u32);
       let word_address = a AND NOT 3;
       let offset = unat (a AND 3);
       require (offset + len \<le> WORD_BYTES);
       Some \<lparr>ca_word_address = word_address, ca_offset = offset,
         ca_index = cache_index c word_address, ca_page_frame = page_frame word_address\<rparr>
     }"

text \<open>Copies the whole destination; a shorter source or a longer destination is unreachable.\<close>

definition copy_word_fragment :: "nat \<Rightarrow> u8 list \<Rightarrow> nat \<Rightarrow> u8 list option" where
  "copy_word_fragment len word offset =
     do {
       require (offset \<le> length word);
       let source = drop offset word;
       require (1 \<le> len \<and> len \<le> 4 \<and> len \<le> length source);
       Some (take len source)
     }"

definition entry_hit :: "cache_entry \<Rightarrow> cache_access \<Rightarrow> bool" where
  "entry_hit e a \<longleftrightarrow> ce_valid e \<and> ce_page_frame e = ca_page_frame a"

text \<open>The refill block read word by word; the first bus fault ends it.\<close>

fun refill_read ::
  "'b bus_ops \<Rightarrow> u32 \<Rightarrow> nat \<Rightarrow> nat \<Rightarrow> 'b \<Rightarrow> ((bus_error + u8 list list) \<times> 'b) option"
where
  "refill_read ops base word_index 0 b = Some (Inr [], b)"
| "refill_read ops base word_index (Suc words) b =
     do {
       let word_address = base + word_of_nat (word_index * WORD_BYTES);
       (r, b1) <- bus_read ops b (ucast word_address) WORD_BYTES;
       case r of
         Inl fault \<Rightarrow> Some (Inl fault, b1)
       | Inr word \<Rightarrow> do {
           (rest, b2) <- refill_read ops base (word_index + 1) words b1;
           Some (map_sum id (\<lambda>ws. word # ws) rest, b2)
         }
     }"

text \<open>The block stored word by word, each in its own slot.\<close>

fun refill_store :: "u32 \<Rightarrow> nat \<Rightarrow> u8 list list \<Rightarrow> cache \<Rightarrow> cache option" where
  "refill_store base word_index [] c = Some c"
| "refill_store base word_index (word # words) c =
     do {
       let word_address = base + word_of_nat (word_index * WORD_BYTES);
       require (length word = WORD_BYTES);
       entries <- set_at (ch_entries c) (cache_index c word_address)
         \<lparr>ce_page_frame = page_frame word_address, ce_data = word, ce_valid = True\<rparr>;
       refill_store base (word_index + 1) words (c\<lparr>ch_entries := entries\<rparr>)
     }"

definition cache_read ::
  "'b bus_ops \<Rightarrow> phys_addr \<Rightarrow> nat \<Rightarrow> cache \<Rightarrow> 'b \<Rightarrow> ((bus_error + u8 list) \<times> cache \<times> 'b) option"
where
  "cache_read ops address len c b =
     do {
       access <- cache_access c address len;
       entry <- get_at (ch_entries c) (ca_index access);
       if entry_hit entry access then do {
         bytes <- copy_word_fragment len (ce_data entry) (ca_offset access);
         Some (Inr bytes, c, b)
       } else do {
         let refill_base = ca_word_address access AND NOT (word_of_nat (ch_refill_bytes c) - 1);
         (r, b1) <- refill_read ops refill_base 0 (ch_refill_bytes c div WORD_BYTES) b;
         case r of
           Inl fault \<Rightarrow> Some (Inl fault, c, b1)
         | Inr words \<Rightarrow> do {
             c1 <- refill_store refill_base 0 words c;
             line <- get_at (ch_entries c1) (ca_index access);
             bytes <- copy_word_fragment len (ce_data line) (ca_offset access);
             Some (Inr bytes, c1, b1)
           }
       }
     }"

definition merge_bytes :: "nat \<Rightarrow> u8 list \<Rightarrow> u8 list \<Rightarrow> u8 list option" where
  "merge_bytes offset data word =
     do {
       require (offset + length data \<le> length word);
       Some (take offset word @ data @ drop (offset + length data) word)
     }"

definition cache_write ::
  "'b bus_ops \<Rightarrow> phys_addr \<Rightarrow> u8 list \<Rightarrow> bool \<Rightarrow> cache \<Rightarrow> 'b \<Rightarrow>
     ((bus_error + unit) \<times> cache \<times> 'b) option"
where
  "cache_write ops address data partial_store_enabled c b =
     do {
       access <- cache_access c address (length data);
       if length data = WORD_BYTES then do {
         (r, b1) <- bus_write ops b address data;
         case r of
           Inl fault \<Rightarrow> Some (Inl fault, c, b1)
         | Inr _ \<Rightarrow> do {
             entries <- set_at (ch_entries c) (ca_index access)
               \<lparr>ce_page_frame = ca_page_frame access, ce_data = data, ce_valid = True\<rparr>;
             Some (Inr (), c\<lparr>ch_entries := entries\<rparr>, b1)
           }
       } else do {
         entry <- get_at (ch_entries c) (ca_index access);
         if partial_store_enabled \<and> entry_hit entry access then do {
           merged <- merge_bytes (ca_offset access) data (ce_data entry);
           (r, b1) <- bus_write ops b (ucast (ca_word_address access)) merged;
           case r of
             Inl fault \<Rightarrow> Some (Inl fault, c, b1)
           | Inr _ \<Rightarrow> do {
               entries <- set_at (ch_entries c) (ca_index access) (entry\<lparr>ce_data := merged\<rparr>);
               Some (Inr (), c\<lparr>ch_entries := entries\<rparr>, b1)
             }
         } else do {
           (r, b1) <- bus_write ops b address data;
           case r of
             Inl fault \<Rightarrow> Some (Inl fault, c, b1)
           | Inr _ \<Rightarrow>
               if \<not> partial_store_enabled then do {
                 entries <- set_at (ch_entries c) (ca_index access) (entry\<lparr>ce_valid := False\<rparr>);
                 Some (Inr (), c\<lparr>ch_entries := entries\<rparr>, b1)
               } else Some (Inr (), c, b1)
         }
       }
     }"

text \<open>An isolated read yields whatever the slot holds and reports a miss.\<close>

definition cache_read_isolated :: "phys_addr \<Rightarrow> nat \<Rightarrow> cache \<Rightarrow> (u8 list \<times> bool) option" where
  "cache_read_isolated address len c =
     do {
       access <- cache_access c address len;
       entry <- get_at (ch_entries c) (ca_index access);
       bytes <- copy_word_fragment len (ce_data entry) (ca_offset access);
       Some (bytes, \<not> entry_hit entry access)
     }"

definition cache_write_isolated :: "phys_addr \<Rightarrow> u8 list \<Rightarrow> cache \<Rightarrow> cache option" where
  "cache_write_isolated address data c =
     do {
       access <- cache_access c address (length data);
       if length data = WORD_BYTES then do {
         entries <- set_at (ch_entries c) (ca_index access)
           \<lparr>ce_page_frame = ca_page_frame access, ce_data = data, ce_valid = True\<rparr>;
         Some (c\<lparr>ch_entries := entries\<rparr>)
       } else do {
         entry <- get_at (ch_entries c) (ca_index access);
         entries <- set_at (ch_entries c) (ca_index access) (entry\<lparr>ce_valid := False\<rparr>);
         Some (c\<lparr>ch_entries := entries\<rparr>)
       }
     }"

section \<open>The two banks\<close>

datatype cache_bank = BankInstruction | BankData

record caches =
  cs_instruction :: cache
  cs_data :: cache
  cs_partial_store_enabled :: bool

definition caches_new :: "r3000_config \<Rightarrow> caches" where
  "caches_new cfg =
     \<lparr>cs_instruction = cache_new (cfg_instruction_cache_bytes cfg) (cfg_instruction_refill_bytes cfg),
      cs_data = cache_new (cfg_data_cache_bytes cfg) (cfg_data_refill_bytes cfg),
      cs_partial_store_enabled = cfg_partial_store_enabled cfg\<rparr>"

definition bank_cache :: "cache_bank \<Rightarrow> caches \<Rightarrow> cache" where
  "bank_cache bank cs = (case bank of BankInstruction \<Rightarrow> cs_instruction cs | BankData \<Rightarrow> cs_data cs)"

definition set_bank_cache :: "cache_bank \<Rightarrow> cache \<Rightarrow> caches \<Rightarrow> caches" where
  "set_bank_cache bank c cs =
     (case bank of BankInstruction \<Rightarrow> cs\<lparr>cs_instruction := c\<rparr> | BankData \<Rightarrow> cs\<lparr>cs_data := c\<rparr>)"

definition caches_read ::
  "'b bus_ops \<Rightarrow> cache_bank \<Rightarrow> phys_addr \<Rightarrow> nat \<Rightarrow> caches \<Rightarrow> 'b \<Rightarrow>
     ((bus_error + u8 list) \<times> caches \<times> 'b) option"
where
  "caches_read ops bank address len cs b =
     do {
       (r, c, b1) <- cache_read ops address len (bank_cache bank cs) b;
       Some (r, set_bank_cache bank c cs, b1)
     }"

definition caches_write ::
  "'b bus_ops \<Rightarrow> cache_bank \<Rightarrow> phys_addr \<Rightarrow> u8 list \<Rightarrow> caches \<Rightarrow> 'b \<Rightarrow>
     ((bus_error + unit) \<times> caches \<times> 'b) option"
where
  "caches_write ops bank address data cs b =
     do {
       (r, c, b1) <- cache_write ops address data (cs_partial_store_enabled cs) (bank_cache bank cs) b;
       Some (r, set_bank_cache bank c cs, b1)
     }"

definition caches_read_isolated ::
  "cache_bank \<Rightarrow> phys_addr \<Rightarrow> nat \<Rightarrow> caches \<Rightarrow> (u8 list \<times> bool) option"
where
  "caches_read_isolated bank address len cs = cache_read_isolated address len (bank_cache bank cs)"

definition caches_write_isolated ::
  "cache_bank \<Rightarrow> phys_addr \<Rightarrow> u8 list \<Rightarrow> caches \<Rightarrow> caches option"
where
  "caches_write_isolated bank address data cs =
     do {
       c <- cache_write_isolated address data (bank_cache bank cs);
       Some (set_bank_cache bank c cs)
     }"

definition caches_debug_entries :: "cache_bank \<Rightarrow> caches \<Rightarrow> nat \<times> (u32 \<times> u8 list \<times> bool) list" where
  "caches_debug_entries bank cs =
     (ch_refill_bytes (bank_cache bank cs),
      map (\<lambda>e. (ce_page_frame e, ce_data e, ce_valid e)) (ch_entries (bank_cache bank cs)))"

end
