(* ===== verification/Cpu_State.thy ===== *)
theory Cpu_State
  imports Decode Cp0 Cp1 Mmu Cache
begin

text \<open>
  The processor state, \<^verbatim>\<open>mips1/r3000/state.rs\<close>: registers, program counter and
  delay slot, the pending writes that make loads and coprocessor moves visible one instruction
  late, the sampled interrupt inputs, the cache-control transfer in flight with the modes saved
  for interrupted contexts, memory access through the MMU and the caches, and the two ways an
  instruction ends: completion and exception. Record fields carry the prefix of their struct
  (\<open>cpu_\<close> is \<^verbatim>\<open>State\<close>).
\<close>

definition RESET_PC :: u32 where "RESET_PC = 0xbfc00000"
definition CP1_INTERRUPT_INPUT :: nat where "CP1_INTERRUPT_INPUT = 0"
definition MACHINE_INTERRUPT_INPUTS :: "nat list" where "MACHINE_INTERRUPT_INPUTS = [1..<6]"
definition MACHINE_INTERRUPT_MASK :: u8 where "MACHINE_INTERRUPT_MASK = 0x3e"
definition TLB_PROBE_FAILURE :: u32 where "TLB_PROBE_FAILURE = push_bit 31 1"
definition CACHE_TRANSITION_PERIODS :: u8 where "CACHE_TRANSITION_PERIODS = 3"

section \<open>Types\<close>

record machine_interrupt_inputs =
  mi_asserted :: u8
  mi_sampled :: u8

definition machine_interrupt_inputs_new :: machine_interrupt_inputs where
  "machine_interrupt_inputs_new = \<lparr>mi_asserted = 0, mi_sampled = 0\<rparr>"

record delay_slot =
  ds_origin_pc :: u32
  ds_resume_pc :: u32

record pending_gpr_write =
  pg_index :: nat
  pg_value :: u32
  pg_load_merge_bypass :: bool

record pending_cp0_write =
  p0_index :: nat
  p0_value :: u32

datatype pending_cp1_write =
    PendingGeneral nat u32
  | PendingControl nat u32
  | PendingCondition bool

datatype instruction_effect =
    DelayedGprWrite nat u32 bool
  | DelayedCp0Write nat u32
  | DelayedCp1GeneralWrite nat u32
  | DelayedCp1ControlWrite nat u32
  | DelayedCp1ConditionWrite bool
  | TlbRead u32 u32
  | TlbProbe u32
  | TlbWrite nat u32 u32
  | RestoreStatus u32

datatype translation_error = TranslationException cpu_exception | TranslationShutdown

datatype load_kind = LoadInstruction | LoadData

record cache_transition =
  ct_target :: cache_control
  ct_age :: u8

record cache_mode =
  cm_effective :: cache_control
  cm_transition :: "cache_transition option"

definition cache_mode_settled :: "cache_control \<Rightarrow> cache_mode" where
  "cache_mode_settled effective = \<lparr>cm_effective = effective, cm_transition = None\<rparr>"

record cache_mode_context =
  cx_status_bits :: cache_control
  cx_mode :: cache_mode

text \<open>The two saved levels: the most recently interrupted context first.\<close>

record cache_mode_stack =
  st_level0 :: "cache_mode_context option"
  st_level1 :: "cache_mode_context option"

definition cache_mode_stack_new :: cache_mode_stack where
  "cache_mode_stack_new = \<lparr>st_level0 = None, st_level1 = None\<rparr>"

definition cache_mode_stack_push :: "cache_mode_context \<Rightarrow> cache_mode_stack \<Rightarrow> cache_mode_stack" where
  "cache_mode_stack_push context s = \<lparr>st_level0 = Some context, st_level1 = st_level0 s\<rparr>"

definition cache_mode_stack_pop ::
  "cache_mode_stack \<Rightarrow> cache_mode_context option \<times> cache_mode_stack" where
  "cache_mode_stack_pop s = (st_level0 s, \<lparr>st_level0 = st_level1 s, st_level1 = None\<rparr>)"

record cpu =
  cpu_gpr :: "u32 list"
  cpu_hi :: u32
  cpu_lo :: u32
  cpu_pc :: u32
  cpu_delay_slot :: "delay_slot option"
  cpu_cp0 :: cp0
  cpu_cp1 :: cp1
  cpu_mmu :: mmu
  cpu_caches :: caches
  cpu_pending_gpr_write :: "pending_gpr_write option"
  cpu_pending_cp0_write :: "pending_cp0_write option"
  cpu_pending_cp1_write :: "pending_cp1_write option"
  cpu_machine_interrupt_inputs :: machine_interrupt_inputs
  cpu_cache_mode :: cache_mode
  cpu_cache_mode_contexts :: cache_mode_stack

definition state_new :: "r3000_config \<Rightarrow> cpu" where
  "state_new cfg =
     \<lparr>cpu_gpr = replicate 32 0, cpu_hi = 0, cpu_lo = 0, cpu_pc = RESET_PC, cpu_delay_slot = None,
      cpu_cp0 = cp0_new, cpu_cp1 = cp1_new (cfg_floating_point_backend cfg), cpu_mmu = mmu_new,
      cpu_caches = caches_new cfg, cpu_pending_gpr_write = None, cpu_pending_cp0_write = None,
      cpu_pending_cp1_write = None, cpu_machine_interrupt_inputs = machine_interrupt_inputs_new,
      cpu_cache_mode = cache_mode_settled (status_cache_control cp0_new),
      cpu_cache_mode_contexts = cache_mode_stack_new\<rparr>"

definition state_reset :: "cpu \<Rightarrow> cpu option" where
  "state_reset s =
     do {
       gpr <- set_at (cpu_gpr s) 0 0;
       let cp0 = cp0_reset (cpu_pc s) (cpu_cp0 s);
       Some (s\<lparr>cpu_cp0 := cp0, cpu_mmu := mmu_reset (cpu_mmu s), cpu_gpr := gpr, cpu_pc := RESET_PC,
         cpu_delay_slot := None, cpu_pending_gpr_write := None, cpu_pending_cp0_write := None,
         cpu_pending_cp1_write := None,
         cpu_cache_mode := cache_mode_settled (status_cache_control cp0),
         cpu_cache_mode_contexts := cache_mode_stack_new\<rparr>)
     }"

definition restore_floating_point_backend :: "backend \<Rightarrow> cpu \<Rightarrow> cpu" where
  "restore_floating_point_backend b s = s\<lparr>cpu_cp1 := (cpu_cp1 s)\<lparr>cp1_backend := b\<rparr>\<rparr>"

section \<open>Outcomes of execution\<close>

text \<open>The result types of \<^verbatim>\<open>mips1/r3000.rs\<close> that every execution unit returns.\<close>

datatype 'a execution_outcome = Completed 'a | ExceptionOutcome cpu_exception

datatype step_error =
    TlbShutdown
  | BusError phys_addr bus_error
  | UnsupportedInstruction u32 u32
  | UndefinedInstruction u32 u32

type_synonym instruction_completion = "u32 option \<times> instruction_effect option"
type_synonym instruction_result = "step_error + instruction_completion execution_outcome"

section \<open>General registers\<close>

definition read_gpr :: "cpu \<Rightarrow> nat \<Rightarrow> u32 option" where
  "read_gpr s index = (if index = 0 then Some 0 else get_at (cpu_gpr s) index)"

definition read_gpr_for_load_merge :: "cpu \<Rightarrow> nat \<Rightarrow> u32 option" where
  "read_gpr_for_load_merge s index =
     (if index = 0 then Some 0
      else case cpu_pending_gpr_write s of
        Some w \<Rightarrow>
          if pg_index w = index \<and> pg_load_merge_bypass w then Some (pg_value w)
          else read_gpr s index
      | None \<Rightarrow> read_gpr s index)"

definition write_gpr_direct :: "nat \<Rightarrow> u32 \<Rightarrow> cpu \<Rightarrow> cpu option" where
  "write_gpr_direct index value s =
     (if index \<noteq> 0
      then map_option (\<lambda>gpr. s\<lparr>cpu_gpr := gpr\<rparr>) (set_at (cpu_gpr s) index value)
      else Some s)"

definition commit_pending_gpr_write :: "cpu \<Rightarrow> cpu option" where
  "commit_pending_gpr_write s =
     (case cpu_pending_gpr_write s of
        Some w \<Rightarrow> write_gpr_direct (pg_index w) (pg_value w) (s\<lparr>cpu_pending_gpr_write := None\<rparr>)
      | None \<Rightarrow> Some s)"

definition write_gpr :: "nat \<Rightarrow> u32 \<Rightarrow> cpu \<Rightarrow> cpu option" where
  "write_gpr index value s =
     do {
       s1 <- commit_pending_gpr_write s;
       write_gpr_direct index value s1
     }"

definition commit_pending_cp0_write :: "cpu \<Rightarrow> cpu" where
  "commit_pending_cp0_write s =
     (case cpu_pending_cp0_write s of
        Some w \<Rightarrow> s\<lparr>cpu_pending_cp0_write := None,
          cpu_cp0 := cp0_write_register (p0_index w) (p0_value w) (cpu_cp0 s)\<rparr>
      | None \<Rightarrow> s)"

definition commit_pending_cp1_write :: "cpu \<Rightarrow> cpu option" where
  "commit_pending_cp1_write s =
     (case cpu_pending_cp1_write s of
        None \<Rightarrow> Some s
      | Some w \<Rightarrow> do {
          c <- (case w of
              PendingGeneral index value \<Rightarrow> cp1_write_general index value (cpu_cp1 s)
            | PendingControl index value \<Rightarrow> Some (cp1_write_control index value (cpu_cp1 s))
            | PendingCondition value \<Rightarrow> Some (cp1_write_condition value (cpu_cp1 s)));
          Some (s\<lparr>cpu_pending_cp1_write := None, cpu_cp1 := c\<rparr>)
        })"

section \<open>Interrupt inputs\<close>

definition set_hardware_interrupt_lines :: "u8 \<Rightarrow> cpu \<Rightarrow> cpu option" where
  "set_hardware_interrupt_lines lines s =
     do {
       require (lines AND NOT MACHINE_INTERRUPT_MASK = 0);
       Some (s\<lparr>cpu_machine_interrupt_inputs :=
         (cpu_machine_interrupt_inputs s)\<lparr>mi_asserted := lines\<rparr>\<rparr>)
     }"

fun apply_interrupt_lines :: "u8 \<Rightarrow> nat list \<Rightarrow> cp0 \<Rightarrow> cp0 option" where
  "apply_interrupt_lines lines [] c = Some c"
| "apply_interrupt_lines lines (input # inputs) c =
     do {
       c1 <- set_hardware_interrupt_line input (lines AND push_bit input 1 \<noteq> 0) c;
       apply_interrupt_lines lines inputs c1
     }"

definition advance_machine_interrupt_inputs :: "cpu \<Rightarrow> cpu option" where
  "advance_machine_interrupt_inputs s =
     do {
       let inputs = cpu_machine_interrupt_inputs s;
       c <- apply_interrupt_lines (mi_sampled inputs) MACHINE_INTERRUPT_INPUTS (cpu_cp0 s);
       Some (s\<lparr>cpu_cp0 := c,
         cpu_machine_interrupt_inputs := inputs\<lparr>mi_sampled := mi_asserted inputs\<rparr>\<rparr>)
     }"

definition synchronize_cp1_interrupt :: "cpu \<Rightarrow> cpu option" where
  "synchronize_cp1_interrupt s =
     map_option (\<lambda>c. s\<lparr>cpu_cp0 := c\<rparr>)
       (set_hardware_interrupt_line CP1_INTERRUPT_INPUT (cp1_interrupt_asserted (cpu_cp1 s))
         (cpu_cp0 s))"

section \<open>Memory\<close>

definition translation_exception ::
  "u32 \<Rightarrow> access_type \<Rightarrow> translation_fault \<Rightarrow> cpu_exception option" where
  "translation_exception va access fault =
     (case fault of
        FaultAddressError \<Rightarrow>
          Some (case access of
            AccessInstruction \<Rightarrow> InstructionAddressError va
          | AccessLoad \<Rightarrow> LoadAddressError va
          | AccessStore \<Rightarrow> StoreAddressError va)
      | FaultTlbMiss \<Rightarrow>
          Some (if access = AccessStore then TlbStore va FaultMiss else TlbLoad va FaultMiss)
      | FaultTlbInvalid \<Rightarrow>
          Some (if access = AccessStore then TlbStore va FaultInvalid else TlbLoad va FaultInvalid)
      | FaultTlbModified \<Rightarrow> (if access = AccessStore then Some (TlbModified va) else None)
      | FaultTlbShutdown \<Rightarrow> None)"

definition translate_address ::
  "u32 \<Rightarrow> access_type \<Rightarrow> cpu \<Rightarrow> ((translation_error + translation) \<times> cpu) option" where
  "translate_address va access s =
     do {
       (result, m) <- mmu_translate va (cp0_current_asid (cpu_cp0 s)) (cp0_is_kernel_mode (cpu_cp0 s))
         access (cpu_mmu s);
       let s1 = s\<lparr>cpu_mmu := m\<rparr>;
       case result of
         Inr t \<Rightarrow> Some (Inr t, s1)
       | Inl fault \<Rightarrow>
           if fault = FaultTlbShutdown
           then Some (Inl TranslationShutdown, s1\<lparr>cpu_cp0 := enter_tlb_shutdown (cpu_cp0 s1)\<rparr>)
           else do {
             e <- translation_exception va access fault;
             Some (Inl (TranslationException e), s1)
           }
     }"

definition validate_memory_access :: "translation \<Rightarrow> nat \<Rightarrow> unit option" where
  "validate_memory_access t len =
     do {
       require (1 \<le> len \<and> len \<le> 4);
       let offset = unat (tr_address t AND 3);
       require (offset + len \<le> 4)
     }"

definition select_cache_bank :: "load_kind \<Rightarrow> cache_control \<Rightarrow> cache_bank" where
  "select_cache_bank kind control =
     (if (kind = LoadInstruction) \<noteq> cc_swapped control then BankInstruction else BankData)"

definition commit_load_data :: "nat \<Rightarrow> u8 list \<Rightarrow> u8 list option" where
  "commit_load_data len staged =
     do { require (1 \<le> len \<and> len \<le> 4); Some (take len staged) }"

definition read_instruction ::
  "'b bus_ops \<Rightarrow> translation \<Rightarrow> cpu \<Rightarrow> 'b \<Rightarrow> ((bus_error + u8 list) \<times> cpu \<times> 'b) option" where
  "read_instruction ops t s b =
     do {
       validate_memory_access t 4;
       case tr_cacheability t of
         Cached \<Rightarrow> do {
           let bank = select_cache_bank LoadInstruction (cm_effective (cpu_cache_mode s));
           (r, cs, b1) <- caches_read ops bank (tr_address t) 4 (cpu_caches s) b;
           Some (r, s\<lparr>cpu_caches := cs\<rparr>, b1)
         }
       | Uncached \<Rightarrow> do {
           (r, b1) <- bus_read ops b (tr_address t) 4;
           Some (r, s, b1)
         }
     }"

definition load_data ::
  "'b bus_ops \<Rightarrow> translation \<Rightarrow> nat \<Rightarrow> cpu \<Rightarrow> 'b \<Rightarrow> ((bus_error + u8 list) \<times> cpu \<times> 'b) option" where
  "load_data ops t len s b =
     do {
       validate_memory_access t len;
       let control = cm_effective (cpu_cache_mode s);
       if cc_isolated control then do {
         (bytes, miss) <- caches_read_isolated (select_cache_bank LoadData control) (tr_address t) len
           (cpu_caches s);
         Some (Inr bytes, s\<lparr>cpu_cp0 := set_cache_miss miss (cpu_cp0 s)\<rparr>, b)
       } else case tr_cacheability t of
         Cached \<Rightarrow> do {
           (r, cs, b1) <- caches_read ops (select_cache_bank LoadData control) (tr_address t) len
             (cpu_caches s) b;
           Some (r, s\<lparr>cpu_caches := cs\<rparr>, b1)
         }
       | Uncached \<Rightarrow> do {
           (r, b1) <- bus_read ops b (tr_address t) len;
           case r of
             Inl fault \<Rightarrow> Some (Inl fault, s, b1)
           | Inr bytes \<Rightarrow> do {
               committed <- commit_load_data len (bytes @ replicate (4 - length bytes) 0);
               Some (Inr committed, s, b1)
             }
         }
     }"

definition store_memory ::
  "'b bus_ops \<Rightarrow> translation \<Rightarrow> u8 list \<Rightarrow> cpu \<Rightarrow> 'b \<Rightarrow> ((bus_error + unit) \<times> cpu \<times> 'b) option" where
  "store_memory ops t data s b =
     do {
       validate_memory_access t (length data);
       let control = cm_effective (cpu_cache_mode s);
       if cc_isolated control then do {
         cs <- caches_write_isolated (select_cache_bank LoadData control) (tr_address t) data
           (cpu_caches s);
         Some (Inr (), s\<lparr>cpu_caches := cs\<rparr>, b)
       } else case tr_cacheability t of
         Cached \<Rightarrow> do {
           (r, cs, b1) <- caches_write ops (select_cache_bank LoadData control) (tr_address t) data
             (cpu_caches s) b;
           Some (r, s\<lparr>cpu_caches := cs\<rparr>, b1)
         }
       | Uncached \<Rightarrow> do {
           (r, b1) <- bus_write ops b (tr_address t) data;
           Some (r, s, b1)
         }
     }"

section \<open>Cache-control transfers\<close>

definition note_status_transfer :: "nat \<Rightarrow> u32 \<Rightarrow> cpu \<Rightarrow> cpu" where
  "note_status_transfer index value s =
     (case cache_control_after_write (cpu_cp0 s) index value of
        None \<Rightarrow> s
      | Some wanted \<Rightarrow>
          if wanted = status_cache_control (cpu_cp0 s) then s
          else s\<lparr>cpu_cache_mode := (cpu_cache_mode s)\<lparr>cm_transition :=
                 Some \<lparr>ct_target = wanted, ct_age = 0\<rparr>\<rparr>\<rparr>)"

definition advance_cache_transition :: "cpu \<Rightarrow> cpu" where
  "advance_cache_transition s =
     (case cm_transition (cpu_cache_mode s) of
        None \<Rightarrow> s
      | Some t \<Rightarrow>
          let age = ct_age t + 1 in
          if age < CACHE_TRANSITION_PERIODS
          then s\<lparr>cpu_cache_mode := (cpu_cache_mode s)\<lparr>cm_transition := Some (t\<lparr>ct_age := age\<rparr>)\<rparr>\<rparr>
          else s\<lparr>cpu_cache_mode := \<lparr>cm_effective = ct_target t, cm_transition = None\<rparr>\<rparr>)"

section \<open>TLB instructions\<close>

definition tlbr_effect :: "cpu \<Rightarrow> instruction_effect option" where
  "tlbr_effect s =
     map_option (\<lambda>(hi, lo). TlbRead hi lo) (mmu_read_indexed (cpu_mmu s) (cp0_tlb_index (cpu_cp0 s)))"

definition tlbwi_effect :: "cpu \<Rightarrow> instruction_effect" where
  "tlbwi_effect s = (
     let (hi, lo) = cp0_tlb_staging (cpu_cp0 s) in TlbWrite (cp0_tlb_index (cpu_cp0 s)) hi lo)"

definition tlbwr_effect :: "cpu \<Rightarrow> instruction_effect" where
  "tlbwr_effect s = (
     let (hi, lo) = cp0_tlb_staging (cpu_cp0 s) in TlbWrite (cp0_random_tlb_index (cpu_cp0 s)) hi lo)"

text \<open>The only error is TLB shutdown, which the probe itself enters.\<close>

definition tlbp_effect :: "cpu \<Rightarrow> ((unit + instruction_effect) \<times> cpu) option" where
  "tlbp_effect s =
     do {
       let (hi, lo) = cp0_tlb_staging (cpu_cp0 s);
       r <- mmu_probe (cpu_mmu s) hi;
       case r of
         ProbeMiss \<Rightarrow> Some (Inr (TlbProbe TLB_PROBE_FAILURE), s)
       | ProbeMatch index \<Rightarrow> Some (Inr (TlbProbe (push_bit 8 (word_of_nat index))), s)
       | ProbeShutdown \<Rightarrow> Some (Inl (), s\<lparr>cpu_cp0 := enter_tlb_shutdown (cpu_cp0 s)\<rparr>)
     }"

section \<open>The end of an instruction\<close>

definition commit_pending :: "cpu \<Rightarrow> cpu option" where
  "commit_pending s =
     do {
       s1 <- commit_pending_gpr_write (s\<lparr>cpu_cp0 := commit_pending_functional (cpu_cp0 s)\<rparr>);
       commit_pending_cp1_write (commit_pending_cp0_write s1)
     }"

fun apply_effect :: "instruction_effect \<Rightarrow> cpu \<Rightarrow> cpu" where
  "apply_effect (DelayedGprWrite index value bypass) s =
     s\<lparr>cpu_pending_gpr_write :=
       Some \<lparr>pg_index = index, pg_value = value, pg_load_merge_bypass = bypass\<rparr>\<rparr>"
| "apply_effect (DelayedCp0Write index value) s =
     (note_status_transfer index value s)\<lparr>cpu_pending_cp0_write :=
       Some \<lparr>p0_index = index, p0_value = value\<rparr>\<rparr>"
| "apply_effect (DelayedCp1GeneralWrite index value) s =
     s\<lparr>cpu_pending_cp1_write := Some (PendingGeneral index value)\<rparr>"
| "apply_effect (DelayedCp1ControlWrite index value) s =
     s\<lparr>cpu_pending_cp1_write := Some (PendingControl index value)\<rparr>"
| "apply_effect (DelayedCp1ConditionWrite value) s =
     s\<lparr>cpu_pending_cp1_write := Some (PendingCondition value)\<rparr>"
| "apply_effect (TlbRead hi lo) s = s\<lparr>cpu_cp0 := write_tlb_read_result hi lo (cpu_cp0 s)\<rparr>"
| "apply_effect (TlbProbe index) s = s\<lparr>cpu_cp0 := write_tlb_probe_result index (cpu_cp0 s)\<rparr>"
| "apply_effect (TlbWrite index hi lo) s = s"
| "apply_effect (RestoreStatus value) s = (
     let s1 = s\<lparr>cpu_cp0 := restore_status value (cpu_cp0 s)\<rparr>;
         (popped, contexts) = cache_mode_stack_pop (cpu_cache_mode_contexts s1);
         s2 = s1\<lparr>cpu_cache_mode_contexts := contexts\<rparr>
     in case popped of
          None \<Rightarrow> s2
        | Some context \<Rightarrow>
            s2\<lparr>cpu_cache_mode := cx_mode context,
               cpu_cp0 := set_status_cache_control (cx_status_bits context) (cpu_cp0 s2)\<rparr>)"

definition advance_tlb_view :: "instruction_effect option \<Rightarrow> mmu \<Rightarrow> mmu option" where
  "advance_tlb_view effect m =
     (case effect of
        Some (TlbWrite index hi lo) \<Rightarrow> mmu_complete_write index hi lo m
      | _ \<Rightarrow> advance_instruction_view m)"

definition complete_instruction :: "u32 option \<Rightarrow> instruction_effect option \<Rightarrow> cpu \<Rightarrow> cpu option" where
  "complete_instruction delayed_resume_pc effect s =
     do {
       s1 <- commit_pending s;
       let s2 = (case effect of None \<Rightarrow> s1 | Some e \<Rightarrow> apply_effect e s1);
       m <- advance_tlb_view effect (cpu_mmu s2);
       let origin_pc = cpu_pc s2;
       let pc = (case cpu_delay_slot s2 of Some d \<Rightarrow> ds_resume_pc d | None \<Rightarrow> cpu_pc s2 + 4);
       Some (s2\<lparr>cpu_mmu := m, cpu_pc := pc,
         cpu_delay_slot := map_option (\<lambda>resume_pc. \<lparr>ds_origin_pc = origin_pc, ds_resume_pc = resume_pc\<rparr>)
           delayed_resume_pc,
         cpu_cp0 := advance_random (cpu_cp0 s2)\<rparr>)
     }"

definition push_cache_context :: "cpu \<Rightarrow> cpu" where
  "push_cache_context s = (
     let recognition = cm_effective (cpu_cache_mode s);
         context = \<lparr>cx_status_bits = status_cache_control (cpu_cp0 s), cx_mode = cpu_cache_mode s\<rparr>
     in s\<lparr>cpu_cache_mode_contexts := cache_mode_stack_push context (cpu_cache_mode_contexts s),
          cpu_cache_mode := cache_mode_settled recognition,
          cpu_cp0 := set_status_cache_control recognition (cpu_cp0 s)\<rparr>)"

definition take_exception :: "cpu_exception \<Rightarrow> cpu \<Rightarrow> cpu option" where
  "take_exception e s =
     do {
       s1 <- commit_pending s;
       let s2 = push_cache_context s1;
       let (epc, in_delay_slot) =
         (case cpu_delay_slot s2 of Some d \<Rightarrow> (ds_origin_pc d, True) | None \<Rightarrow> (cpu_pc s2, False));
       let (pc, c) = cp0_take_exception e epc in_delay_slot (cpu_cp0 s2);
       m <- advance_instruction_view (cpu_mmu s2);
       Some (s2\<lparr>cpu_delay_slot := None, cpu_pc := pc, cpu_mmu := m, cpu_cp0 := advance_random c\<rparr>)
     }"

end
