(* ===== verification/Alu.thy ===== *)
theory Alu
  imports Cpu_State "HOL-Library.Signed_Division"
begin

text \<open>
  The integer unit, \<^verbatim>\<open>mips1/r3000/alu.rs\<close>, and the branch unit,
  \<^verbatim>\<open>mips1/r3000/control.rs\<close>. An \<^verbatim>\<open>i32\<close> is a word read with
  \<open>sint\<close>; division truncates toward zero.
\<close>

definition sign_extend_immediate :: "u16 \<Rightarrow> u32" where
  "sign_extend_immediate i = scast i"

definition overflowing_add :: "u32 \<Rightarrow> u32 \<Rightarrow> u32 \<times> bool" where
  "overflowing_add lhs rhs = (lhs + rhs, sint lhs + sint rhs \<noteq> sint (lhs + rhs))"

definition overflowing_sub :: "u32 \<Rightarrow> u32 \<Rightarrow> u32 \<times> bool" where
  "overflowing_sub lhs rhs = (lhs - rhs, sint lhs - sint rhs \<noteq> sint (lhs - rhs))"

definition bool_word :: "bool \<Rightarrow> u32" where
  "bool_word b = (if b then 1 else 0)"

definition finish_gpr :: "nat \<Rightarrow> u32 \<Rightarrow> cpu \<Rightarrow> ((cpu_exception + unit) \<times> cpu) option" where
  "finish_gpr rd v s = map_option (\<lambda>s'. (Inr (), s')) (write_gpr rd v s)"

definition finish_hi_lo :: "u32 \<Rightarrow> u32 \<Rightarrow> cpu \<Rightarrow> ((cpu_exception + unit) \<times> cpu) option" where
  "finish_hi_lo hi lo s = Some (Inr (), s\<lparr>cpu_hi := hi, cpu_lo := lo\<rparr>)"

definition finish_checked :: "nat \<Rightarrow> u32 \<times> bool \<Rightarrow> cpu \<Rightarrow> ((cpu_exception + unit) \<times> cpu) option" where
  "finish_checked rd r s =
     (if snd r then Some (Inl Overflow, s) else finish_gpr rd (fst r) s)"

definition div_results :: "u32 \<Rightarrow> u32 \<Rightarrow> u32 \<times> u32" where
  "div_results dividend divisor =
     (if divisor = 0 then (dividend, if 0 \<le> sint dividend then 0xffffffff else 1)
      else if sint dividend = - (2 ^ 31) \<and> sint divisor = - 1 then (0, 0x80000000)
      else (word_of_int (sint dividend smod sint divisor),
            word_of_int (sint dividend sdiv sint divisor)))"

definition divu_results :: "u32 \<Rightarrow> u32 \<Rightarrow> u32 \<times> u32" where
  "divu_results dividend divisor =
     (if divisor = 0 then (dividend, 0xffffffff) else (dividend mod divisor, dividend div divisor))"

fun alu_execute :: "alu_instruction \<Rightarrow> cpu \<Rightarrow> ((cpu_exception + unit) \<times> cpu) option" where
  "alu_execute (Sll rd rt amount) s =
     do { v <- read_gpr s rt; finish_gpr rd (push_bit (unat amount) v) s }"
| "alu_execute (Srl rd rt amount) s =
     do { v <- read_gpr s rt; finish_gpr rd (drop_bit (unat amount) v) s }"
| "alu_execute (Sra rd rt amount) s =
     do { v <- read_gpr s rt; finish_gpr rd (signed_drop_bit (unat amount) v) s }"
| "alu_execute (Sllv rd rt rs) s =
     do { a <- read_gpr s rs; v <- read_gpr s rt; finish_gpr rd (push_bit (unat (a AND 0x1f)) v) s }"
| "alu_execute (Srlv rd rt rs) s =
     do { a <- read_gpr s rs; v <- read_gpr s rt; finish_gpr rd (drop_bit (unat (a AND 0x1f)) v) s }"
| "alu_execute (Srav rd rt rs) s =
     do { a <- read_gpr s rs; v <- read_gpr s rt; finish_gpr rd (signed_drop_bit (unat (a AND 0x1f)) v) s }"
| "alu_execute (Mfhi rd) s = finish_gpr rd (cpu_hi s) s"
| "alu_execute (Mthi rs) s = do { v <- read_gpr s rs; Some (Inr (), s\<lparr>cpu_hi := v\<rparr>) }"
| "alu_execute (Mflo rd) s = finish_gpr rd (cpu_lo s) s"
| "alu_execute (Mtlo rs) s = do { v <- read_gpr s rs; Some (Inr (), s\<lparr>cpu_lo := v\<rparr>) }"
| "alu_execute (Mult rs rt) s =
     do {
       a <- read_gpr s rs; b <- read_gpr s rt;
       let product = (scast a * scast b :: u64);
       finish_hi_lo (ucast (drop_bit 32 product)) (ucast product) s
     }"
| "alu_execute (Multu rs rt) s =
     do {
       a <- read_gpr s rs; b <- read_gpr s rt;
       let product = (ucast a * ucast b :: u64);
       finish_hi_lo (ucast (drop_bit 32 product)) (ucast product) s
     }"
| "alu_execute (Div rs rt) s =
     do {
       a <- read_gpr s rs; b <- read_gpr s rt;
       let (hi, lo) = div_results a b;
       finish_hi_lo hi lo s
     }"
| "alu_execute (Divu rs rt) s =
     do {
       a <- read_gpr s rs; b <- read_gpr s rt;
       let (hi, lo) = divu_results a b;
       finish_hi_lo hi lo s
     }"
| "alu_execute (Add rd rs rt) s =
     do { a <- read_gpr s rs; b <- read_gpr s rt; finish_checked rd (overflowing_add a b) s }"
| "alu_execute (Addu rd rs rt) s =
     do { a <- read_gpr s rs; b <- read_gpr s rt; finish_gpr rd (a + b) s }"
| "alu_execute (Sub rd rs rt) s =
     do { a <- read_gpr s rs; b <- read_gpr s rt; finish_checked rd (overflowing_sub a b) s }"
| "alu_execute (Subu rd rs rt) s =
     do { a <- read_gpr s rs; b <- read_gpr s rt; finish_gpr rd (a - b) s }"
| "alu_execute (And rd rs rt) s =
     do { a <- read_gpr s rs; b <- read_gpr s rt; finish_gpr rd (a AND b) s }"
| "alu_execute (Or rd rs rt) s =
     do { a <- read_gpr s rs; b <- read_gpr s rt; finish_gpr rd (a OR b) s }"
| "alu_execute (Xor rd rs rt) s =
     do { a <- read_gpr s rs; b <- read_gpr s rt; finish_gpr rd (a XOR b) s }"
| "alu_execute (Nor rd rs rt) s =
     do { a <- read_gpr s rs; b <- read_gpr s rt; finish_gpr rd (NOT (a OR b)) s }"
| "alu_execute (Slt rd rs rt) s =
     do { a <- read_gpr s rs; b <- read_gpr s rt; finish_gpr rd (bool_word (sint a < sint b)) s }"
| "alu_execute (Sltu rd rs rt) s =
     do { a <- read_gpr s rs; b <- read_gpr s rt; finish_gpr rd (bool_word (a < b)) s }"
| "alu_execute (Addi rt rs imm) s =
     do { a <- read_gpr s rs; finish_checked rt (overflowing_add a (scast imm)) s }"
| "alu_execute (Addiu rt rs imm) s =
     do { a <- read_gpr s rs; finish_gpr rt (a + sign_extend_immediate imm) s }"
| "alu_execute (Slti rt rs imm) s =
     do { a <- read_gpr s rs; finish_gpr rt (bool_word (sint a < sint (sign_extend_immediate imm))) s }"
| "alu_execute (Sltiu rt rs imm) s =
     do { a <- read_gpr s rs; finish_gpr rt (bool_word (a < sign_extend_immediate imm)) s }"
| "alu_execute (Andi rt rs imm) s =
     do { a <- read_gpr s rs; finish_gpr rt (a AND ucast imm) s }"
| "alu_execute (Ori rt rs imm) s =
     do { a <- read_gpr s rs; finish_gpr rt (a OR ucast imm) s }"
| "alu_execute (Xori rt rs imm) s =
     do { a <- read_gpr s rs; finish_gpr rt (a XOR ucast imm) s }"
| "alu_execute (Lui rt imm) s = finish_gpr rt (push_bit 16 (ucast imm)) s"

section \<open>Branches\<close>

definition branch_resume_pc :: "u32 \<Rightarrow> u16 \<Rightarrow> bool \<Rightarrow> u32" where
  "branch_resume_pc pc offset condition =
     (if condition then pc + 4 + push_bit 2 (scast offset) else pc + 8)"

definition jump_target :: "u32 \<Rightarrow> u32 \<Rightarrow> u32" where
  "jump_target pc t = ((pc + 4) AND 0xf0000000) OR push_bit 2 t"

text \<open>The address the delay slot resumes at, with the link register written first.\<close>

fun control_execute :: "control_instruction \<Rightarrow> cpu \<Rightarrow> (u32 \<times> cpu) option" where
  "control_execute (J t) s = Some (jump_target (cpu_pc s) t, s)"
| "control_execute (Jal t) s =
     do { s1 <- write_gpr 31 (cpu_pc s + 8) s; Some (jump_target (cpu_pc s) t, s1) }"
| "control_execute (Jr rs) s = do { t <- read_gpr s rs; Some (t, s) }"
| "control_execute (Jalr rd rs) s =
     do { t <- read_gpr s rs; s1 <- write_gpr rd (cpu_pc s + 8) s; Some (t, s1) }"
| "control_execute (Beq rs rt offset) s =
     do {
       a <- read_gpr s rs; b <- read_gpr s rt;
       Some (branch_resume_pc (cpu_pc s) offset (a = b), s)
     }"
| "control_execute (Bne rs rt offset) s =
     do {
       a <- read_gpr s rs; b <- read_gpr s rt;
       Some (branch_resume_pc (cpu_pc s) offset (a \<noteq> b), s)
     }"
| "control_execute (Blez rs offset) s =
     do { a <- read_gpr s rs; Some (branch_resume_pc (cpu_pc s) offset (sint a \<le> 0), s) }"
| "control_execute (Bgtz rs offset) s =
     do { a <- read_gpr s rs; Some (branch_resume_pc (cpu_pc s) offset (0 < sint a), s) }"
| "control_execute (Bltz rs offset) s =
     do { a <- read_gpr s rs; Some (branch_resume_pc (cpu_pc s) offset (sint a < 0), s) }"
| "control_execute (Bgez rs offset) s =
     do { a <- read_gpr s rs; Some (branch_resume_pc (cpu_pc s) offset (0 \<le> sint a), s) }"
| "control_execute (Bltzal rs offset) s =
     do {
       a <- read_gpr s rs;
       s1 <- write_gpr 31 (cpu_pc s + 8) s;
       Some (branch_resume_pc (cpu_pc s) offset (sint a < 0), s1)
     }"
| "control_execute (Bgezal rs offset) s =
     do {
       a <- read_gpr s rs;
       s1 <- write_gpr 31 (cpu_pc s + 8) s;
       Some (branch_resume_pc (cpu_pc s) offset (0 \<le> sint a), s1)
     }"

end
