(* ===== verification/Load_Store.thy ===== *)
theory Load_Store
  imports Alu
begin

text \<open>
  Loads and stores, \<^verbatim>\<open>mips1/r3000/load_store.rs\<close>, and the CP0 instructions,
  \<^verbatim>\<open>execute\<close> of \<^verbatim>\<open>mips1/r3000/cp0.rs\<close>. A result is either a
  host error or an outcome, and an outcome is either a completion or a guest exception.
\<close>

definition effective_address :: "cpu \<Rightarrow> nat \<Rightarrow> u16 \<Rightarrow> u32 option" where
  "effective_address s base offset = map_option (\<lambda>v. v + scast offset) (read_gpr s base)"

definition memory_translate ::
  "u32 \<Rightarrow> access_type \<Rightarrow> cpu \<Rightarrow> ((step_error + translation execution_outcome) \<times> cpu) option" where
  "memory_translate va access s =
     do {
       (r, s1) <- translate_address va access s;
       Some (case r of
           Inr t \<Rightarrow> Inr (Completed t)
         | Inl (TranslationException e) \<Rightarrow> Inr (ExceptionOutcome e)
         | Inl TranslationShutdown \<Rightarrow> Inl TlbShutdown, s1)
     }"

definition misaligned :: "u32 \<Rightarrow> nat \<Rightarrow> bool option" where
  "misaligned address len =
     (if len = 1 then Some False
      else if len = 2 then Some (address AND 1 \<noteq> 0)
      else if len = 4 then Some (address AND 3 \<noteq> 0)
      else None)"

text \<open>
  The memory part of a load: a hardware fault is the guest's data bus error, any other fault is
  a host error at the physical address.
\<close>

definition finish_load ::
  "'b bus_ops \<Rightarrow> translation \<Rightarrow> nat \<Rightarrow> cpu \<Rightarrow> 'b \<Rightarrow>
     ((step_error + u8 list execution_outcome) \<times> cpu \<times> 'b) option"
where
  "finish_load ops t len s b =
     do {
       (r, s1, b1) <- load_data ops t len s b;
       Some (case r of
           Inr bytes \<Rightarrow> Inr (Completed bytes)
         | Inl HardwareFault \<Rightarrow> Inr (ExceptionOutcome DataBusError)
         | Inl fault \<Rightarrow> Inl (BusError (tr_address t) fault), s1, b1)
     }"

text \<open>Every store fault is a host error: the machine completes hardware write faults itself.\<close>

definition finish_store ::
  "'b bus_ops \<Rightarrow> translation \<Rightarrow> u8 list \<Rightarrow> cpu \<Rightarrow> 'b \<Rightarrow>
     ((step_error + unit execution_outcome) \<times> cpu \<times> 'b) option"
where
  "finish_store ops t data s b =
     do {
       (r, s1, b1) <- store_memory ops t data s b;
       Some (case r of
           Inr _ \<Rightarrow> Inr (Completed ())
         | Inl fault \<Rightarrow> Inl (BusError (tr_address t) fault), s1, b1)
     }"

text \<open>Continues with the value of a completed outcome; an error or an exception ends it.\<close>

definition on_completed ::
  "((step_error + 'a execution_outcome) \<times> cpu \<times> 'b) \<Rightarrow>
   ('a \<Rightarrow> cpu \<Rightarrow> 'b \<Rightarrow> ((step_error + 'c execution_outcome) \<times> cpu \<times> 'b) option) \<Rightarrow>
   ((step_error + 'c execution_outcome) \<times> cpu \<times> 'b) option"
where
  "on_completed rsb k =
     (case rsb of (r, s, b) \<Rightarrow>
        (case r of
           Inl e \<Rightarrow> Some (Inl e, s, b)
         | Inr (ExceptionOutcome x) \<Rightarrow> Some (Inr (ExceptionOutcome x), s, b)
         | Inr (Completed v) \<Rightarrow> k v s b))"

definition ls_load ::
  "'b bus_ops \<Rightarrow> nat \<Rightarrow> u16 \<Rightarrow> nat \<Rightarrow> cpu \<Rightarrow> 'b \<Rightarrow>
     ((step_error + u8 list execution_outcome) \<times> cpu \<times> 'b) option"
where
  "ls_load ops base offset len s b =
     do {
       address <- effective_address s base offset;
       bad <- misaligned address len;
       if bad then Some (Inr (ExceptionOutcome (LoadAddressError address)), s, b)
       else do {
         (r, s1) <- memory_translate address AccessLoad s;
         on_completed (r, s1, b) (\<lambda>t s2 b2. finish_load ops t len s2 b2)
       }
     }"

definition ls_store ::
  "'b bus_ops \<Rightarrow> nat \<Rightarrow> u16 \<Rightarrow> u8 list \<Rightarrow> cpu \<Rightarrow> 'b \<Rightarrow>
     ((step_error + unit execution_outcome) \<times> cpu \<times> 'b) option"
where
  "ls_store ops base offset data s b =
     do {
       address <- effective_address s base offset;
       bad <- misaligned address (length data);
       if bad then Some (Inr (ExceptionOutcome (StoreAddressError address)), s, b)
       else do {
         (r, s1) <- memory_translate address AccessStore s;
         on_completed (r, s1, b) (\<lambda>t s2 b2. finish_store ops t data s2 b2)
       }
     }"

type_synonym 'b memory_result =
  "((step_error + instruction_effect option execution_outcome) \<times> cpu \<times> 'b) option"

definition delayed_load :: "nat \<Rightarrow> u32 \<Rightarrow> cpu \<Rightarrow> 'b \<Rightarrow> 'b memory_result" where
  "delayed_load rt v s b = Some (Inr (Completed (Some (DelayedGprWrite rt v True))), s, b)"

definition load_then ::
  "'b bus_ops \<Rightarrow> nat \<Rightarrow> nat \<Rightarrow> u16 \<Rightarrow> nat \<Rightarrow> (u8 list \<Rightarrow> u32) \<Rightarrow> cpu \<Rightarrow> 'b \<Rightarrow> 'b memory_result"
where
  "load_then ops base rt offset len widen s b =
     do {
       r <- ls_load ops base offset len s b;
       on_completed r (\<lambda>bytes s1 b1. delayed_load rt (widen bytes) s1 b1)
     }"

definition store_then ::
  "'b bus_ops \<Rightarrow> nat \<Rightarrow> nat \<Rightarrow> u16 \<Rightarrow> (u32 \<Rightarrow> u8 list) \<Rightarrow> cpu \<Rightarrow> 'b \<Rightarrow> 'b memory_result"
where
  "store_then ops base rt offset bytes_of s b =
     do {
       v <- read_gpr s rt;
       r <- ls_store ops base offset (bytes_of v) s b;
       on_completed r (\<lambda>_ s1 b1. Some (Inr (Completed None), s1, b1))
     }"

definition load_word_left ::
  "'b bus_ops \<Rightarrow> nat \<Rightarrow> nat \<Rightarrow> u16 \<Rightarrow> cpu \<Rightarrow> 'b \<Rightarrow> 'b memory_result" where
  "load_word_left ops base rt offset s b =
     do {
       va <- effective_address s base offset;
       let byte = unat (va AND 3);
       (r, s1) <- memory_translate va AccessLoad s;
       on_completed (r, s1, b) (\<lambda>t s2 b2. do {
         let len = 4 - byte;
         m <- finish_load ops t len s2 b2;
         on_completed m (\<lambda>memory s3 b3. do {
           old <- read_gpr_for_load_merge s3 rt;
           delayed_load rt (from_be_bytes (memory @ drop len (to_be_bytes32 old))) s3 b3
         })
       })
     }"

definition load_word_right ::
  "'b bus_ops \<Rightarrow> nat \<Rightarrow> nat \<Rightarrow> u16 \<Rightarrow> cpu \<Rightarrow> 'b \<Rightarrow> 'b memory_result" where
  "load_word_right ops base rt offset s b =
     do {
       va <- effective_address s base offset;
       let byte = unat (va AND 3);
       (r, s1) <- memory_translate va AccessLoad s;
       on_completed (r, s1, b) (\<lambda>t s2 b2. do {
         let aligned = t\<lparr>tr_address := tr_address t - word_of_nat byte\<rparr>;
         let len = byte + 1;
         m <- finish_load ops aligned len s2 b2;
         on_completed m (\<lambda>memory s3 b3. do {
           old <- read_gpr_for_load_merge s3 rt;
           delayed_load rt (from_be_bytes (take (4 - len) (to_be_bytes32 old) @ memory)) s3 b3
         })
       })
     }"

definition store_word_left ::
  "'b bus_ops \<Rightarrow> nat \<Rightarrow> nat \<Rightarrow> u16 \<Rightarrow> cpu \<Rightarrow> 'b \<Rightarrow> 'b memory_result" where
  "store_word_left ops base rt offset s b =
     do {
       va <- effective_address s base offset;
       let byte = unat (va AND 3);
       (r, s1) <- memory_translate va AccessStore s;
       on_completed (r, s1, b) (\<lambda>t s2 b2. do {
         v <- read_gpr s2 rt;
         w <- finish_store ops t (take (4 - byte) (to_be_bytes32 v)) s2 b2;
         on_completed w (\<lambda>_ s3 b3. Some (Inr (Completed None), s3, b3))
       })
     }"

definition store_word_right ::
  "'b bus_ops \<Rightarrow> nat \<Rightarrow> nat \<Rightarrow> u16 \<Rightarrow> cpu \<Rightarrow> 'b \<Rightarrow> 'b memory_result" where
  "store_word_right ops base rt offset s b =
     do {
       va <- effective_address s base offset;
       let byte = unat (va AND 3);
       (r, s1) <- memory_translate va AccessStore s;
       on_completed (r, s1, b) (\<lambda>t s2 b2. do {
         let aligned = t\<lparr>tr_address := tr_address t - word_of_nat byte\<rparr>;
         v <- read_gpr s2 rt;
         w <- finish_store ops aligned (drop (3 - byte) (to_be_bytes32 v)) s2 b2;
         on_completed w (\<lambda>_ s3 b3. Some (Inr (Completed None), s3, b3))
       })
     }"

fun load_store_execute ::
  "'b bus_ops \<Rightarrow> memory_instruction \<Rightarrow> cpu \<Rightarrow> 'b \<Rightarrow> 'b memory_result" where
  "load_store_execute ops (Lb base rt offset) s b =
     load_then ops base rt offset 1 (\<lambda>bs. scast (hd bs)) s b"
| "load_store_execute ops (Lbu base rt offset) s b =
     load_then ops base rt offset 1 (\<lambda>bs. ucast (hd bs)) s b"
| "load_store_execute ops (Lh base rt offset) s b =
     load_then ops base rt offset 2 (\<lambda>bs. scast (from_be_bytes bs :: u16)) s b"
| "load_store_execute ops (Lhu base rt offset) s b =
     load_then ops base rt offset 2 (\<lambda>bs. ucast (from_be_bytes bs :: u16)) s b"
| "load_store_execute ops (Lwl base rt offset) s b = load_word_left ops base rt offset s b"
| "load_store_execute ops (Lw base rt offset) s b =
     load_then ops base rt offset 4 from_be_bytes s b"
| "load_store_execute ops (Lwr base rt offset) s b = load_word_right ops base rt offset s b"
| "load_store_execute ops (Sb base rt offset) s b =
     store_then ops base rt offset (\<lambda>v. [ucast v]) s b"
| "load_store_execute ops (Sh base rt offset) s b =
     store_then ops base rt offset (\<lambda>v. to_be_bytes16 (ucast v)) s b"
| "load_store_execute ops (Swl base rt offset) s b = store_word_left ops base rt offset s b"
| "load_store_execute ops (Sw base rt offset) s b =
     store_then ops base rt offset to_be_bytes32 s b"
| "load_store_execute ops (Swr base rt offset) s b = store_word_right ops base rt offset s b"

section \<open>CP0 instructions\<close>

definition completed_with :: "u32 option \<Rightarrow> instruction_effect option \<Rightarrow> instruction_result" where
  "completed_with pc effect = Inr (Completed (pc, effect))"

definition rfe_effect :: "cpu \<Rightarrow> instruction_effect" where
  "rfe_effect s = (
     let status = cp0_status (cpu_cp0 s)
     in RestoreStatus ((status AND NOT 0x0f) OR (drop_bit 2 status AND 0x0f)))"

fun cp0_execute_usable ::
  "cp0_instruction \<Rightarrow> bool \<Rightarrow> cpu \<Rightarrow> (instruction_result \<times> cpu) option" where
  "cp0_execute_usable (Mfc0 rt rd) condition s =
     Some (completed_with None (Some (DelayedGprWrite rt (cp0_read_register (cpu_cp0 s) rd) False)), s)"
| "cp0_execute_usable (Cfc0 rt rd) condition s =
     Some (completed_with None (Some (DelayedGprWrite rt (cp0_read_register (cpu_cp0 s) rd) False)), s)"
| "cp0_execute_usable (Mtc0 rt rd) condition s =
     do { v <- read_gpr s rt; Some (completed_with None (Some (DelayedCp0Write rd v)), s) }"
| "cp0_execute_usable (Ctc0 rt rd) condition s =
     do { v <- read_gpr s rt; Some (completed_with None (Some (DelayedCp0Write rd v)), s) }"
| "cp0_execute_usable (Bc0f offset) condition s =
     Some (completed_with (Some (branch_resume_pc (cpu_pc s) offset (\<not> condition))) None, s)"
| "cp0_execute_usable (Bc0t offset) condition s =
     Some (completed_with (Some (branch_resume_pc (cpu_pc s) offset condition)) None, s)"
| "cp0_execute_usable Tlbr condition s =
     do { e <- tlbr_effect s; Some (completed_with None (Some e), s) }"
| "cp0_execute_usable Tlbwi condition s = Some (completed_with None (Some (tlbwi_effect s)), s)"
| "cp0_execute_usable Tlbwr condition s = Some (completed_with None (Some (tlbwr_effect s)), s)"
| "cp0_execute_usable Tlbp condition s =
     do {
       (r, s1) <- tlbp_effect s;
       Some (case r of Inl _ \<Rightarrow> Inl TlbShutdown | Inr e \<Rightarrow> completed_with None (Some e), s1)
     }"
| "cp0_execute_usable Rfe condition s = Some (completed_with None (Some (rfe_effect s)), s)"

definition cp0_execute :: "cp0_instruction \<Rightarrow> bool \<Rightarrow> cpu \<Rightarrow> (instruction_result \<times> cpu) option" where
  "cp0_execute i condition s =
     (if \<not> cp0_is_usable (cpu_cp0 s)
      then Some (Inr (ExceptionOutcome (CoprocessorUnusable 0)), s)
      else cp0_execute_usable i condition s)"

end
