(* ===== verification/Cp1_Exec.thy ===== *)
theory Cp1_Exec
  imports Load_Store
begin

text \<open>
  Execution of coprocessor-1 instructions, \<^verbatim>\<open>execute\<close> and its helpers in
  \<^verbatim>\<open>mips1/r3000/cp1.rs\<close>. Arithmetic first classifies its operands (subnormals and
  NaNs never reach the back end), then the outcome, then commits the pending write, applies the
  FCR31 update and writes the result only when the update allows it. The last component of a
  result tells the caller that a floating-point exception was raised.
\<close>

definition with_cp1 :: "(cp1 \<Rightarrow> cp1 option) \<Rightarrow> cpu \<Rightarrow> cpu option" where
  "with_cp1 f s = map_option (\<lambda>c. s\<lparr>cpu_cp1 := c\<rparr>) (f (cpu_cp1 s))"

definition finish_cp1 ::
  "(nat \<Rightarrow> 'a \<Rightarrow> cp1 \<Rightarrow> cp1 option) \<Rightarrow> nat \<Rightarrow> fcr31_update \<Rightarrow> 'a option \<Rightarrow> cpu \<Rightarrow> (bool \<times> cpu) option"
where
  "finish_cp1 write destination update value s =
     do {
       s1 <- commit_pending_cp1_write s;
       let s2 = s1\<lparr>cpu_cp1 := apply_fcr31_update update (cpu_cp1 s1)\<rparr>;
       s3 <- (if fu_writeback update
              then do { v <- value; with_cp1 (write destination v) s2 }
              else Some s2);
       Some (\<not> fu_writeback update, s3)
     }"

definition finish_float32 :: "nat \<Rightarrow> fcr31_update \<Rightarrow> float32 option \<Rightarrow> cpu \<Rightarrow> (bool \<times> cpu) option" where
  "finish_float32 destination update value s = finish_cp1 cp1_write_float32 destination update value s"

definition finish_float64 :: "nat \<Rightarrow> fcr31_update \<Rightarrow> float64 option \<Rightarrow> cpu \<Rightarrow> (bool \<times> cpu) option" where
  "finish_float64 destination update value s = finish_cp1 cp1_write_float64 destination update value s"

definition finish_word :: "nat \<Rightarrow> fcr31_update \<Rightarrow> u32 option \<Rightarrow> cpu \<Rightarrow> (bool \<times> cpu) option" where
  "finish_word destination update value s = finish_cp1 cp1_write_word destination update value s"

text \<open>
  The update and the value of an operation: the classified operands stand alone, otherwise the
  back end's outcome is classified.
\<close>

definition classified ::
  "cp1 \<Rightarrow> fcr31_update option \<Rightarrow> 'a outcome option \<Rightarrow> (fcr31_update \<times> 'a option) option"
where
  "classified c operands result =
     (case operands of
        Some update \<Rightarrow> Some (update, None)
      | None \<Rightarrow> do {
          out <- result;
          Some (classify_outcome c (out_flags out) (out_tiny out), Some (out_value out))
        })"

definition binary32 ::
  "float_env \<Rightarrow> backend \<Rightarrow> cp1_binary_operation \<Rightarrow> float32 \<Rightarrow> float32 \<Rightarrow> rounding_mode \<Rightarrow> float32 outcome option"
where
  "binary32 env b operation lhs rhs rounding =
     (case operation of
        FAdd \<Rightarrow> backend_add_f32 env b lhs rhs rounding
      | FSubtract \<Rightarrow> backend_sub_f32 env b lhs rhs rounding
      | FMultiply \<Rightarrow> backend_mul_f32 env b lhs rhs rounding
      | FDivide \<Rightarrow> backend_div_f32 env b lhs rhs rounding)"

definition binary64 ::
  "float_env \<Rightarrow> backend \<Rightarrow> cp1_binary_operation \<Rightarrow> float64 \<Rightarrow> float64 \<Rightarrow> rounding_mode \<Rightarrow> float64 outcome option"
where
  "binary64 env b operation lhs rhs rounding =
     (case operation of
        FAdd \<Rightarrow> backend_add_f64 env b lhs rhs rounding
      | FSubtract \<Rightarrow> backend_sub_f64 env b lhs rhs rounding
      | FMultiply \<Rightarrow> backend_mul_f64 env b lhs rhs rounding
      | FDivide \<Rightarrow> backend_div_f64 env b lhs rhs rounding)"

definition execute_binary ::
  "float_env \<Rightarrow> cp1_binary_operation \<Rightarrow> cp1_float_format \<Rightarrow> nat \<Rightarrow> nat \<Rightarrow> nat \<Rightarrow> cpu \<Rightarrow> (bool \<times> cpu) option"
where
  "execute_binary env operation format ft fs fd s = (
     let c = cpu_cp1 s in
     case format of
       Single \<Rightarrow> do {
         lhs <- cp1_read_float32 c fs;
         rhs <- cp1_read_float32 c ft;
         (update, v) <- classified c (classify_float32_operands c [lhs, rhs] False)
           (do { rm <- cp1_rounding_mode c; binary32 env (cp1_backend c) operation lhs rhs rm });
         finish_float32 fd update v s
       }
     | Double \<Rightarrow> do {
         lhs <- cp1_read_float64 c fs;
         rhs <- cp1_read_float64 c ft;
         (update, v) <- classified c (classify_float64_operands c [lhs, rhs] False)
           (do { rm <- cp1_rounding_mode c; binary64 env (cp1_backend c) operation lhs rhs rm });
         finish_float64 fd update v s
       })"

definition unary32 :: "backend \<Rightarrow> cp1_unary_operation \<Rightarrow> float32 \<Rightarrow> float32 outcome option" where
  "unary32 b operation v =
     (case operation of
        FAbsolute \<Rightarrow> Some (backend_abs_f32 b v)
      | FNegate \<Rightarrow> Some (backend_neg_f32 b v)
      | FMove \<Rightarrow> None)"

definition unary64 :: "backend \<Rightarrow> cp1_unary_operation \<Rightarrow> float64 \<Rightarrow> float64 outcome option" where
  "unary64 b operation v =
     (case operation of
        FAbsolute \<Rightarrow> Some (backend_abs_f64 b v)
      | FNegate \<Rightarrow> Some (backend_neg_f64 b v)
      | FMove \<Rightarrow> None)"

definition execute_unary ::
  "cp1_unary_operation \<Rightarrow> cp1_float_format \<Rightarrow> nat \<Rightarrow> nat \<Rightarrow> cpu \<Rightarrow> (bool \<times> cpu) option"
where
  "execute_unary operation format fs fd s = (
     let c = cpu_cp1 s in
     if operation = FMove then
       (case format of
          Single \<Rightarrow> do {
            v <- cp1_read_float32 c fs;
            s1 <- commit_pending_cp1_write s;
            s2 <- with_cp1 (cp1_write_float32 fd v) s1;
            Some (False, s2)
          }
        | Double \<Rightarrow> do {
            v <- cp1_read_float64 c fs;
            s1 <- commit_pending_cp1_write s;
            s2 <- with_cp1 (cp1_write_float64 fd v) s1;
            Some (False, s2)
          })
     else
       (case format of
          Single \<Rightarrow> do {
            source <- cp1_read_float32 c fs;
            (update, v) <- classified c (classify_float32_operands c [source] False)
              (unary32 (cp1_backend c) operation source);
            finish_float32 fd update v s
          }
        | Double \<Rightarrow> do {
            source <- cp1_read_float64 c fs;
            (update, v) <- classified c (classify_float64_operands c [source] False)
              (unary64 (cp1_backend c) operation source);
            finish_float64 fd update v s
          }))"

definition execute_conversion ::
  "float_env \<Rightarrow> cp1_conversion \<Rightarrow> nat \<Rightarrow> nat \<Rightarrow> cpu \<Rightarrow> (bool \<times> cpu) option"
where
  "execute_conversion env operation fs fd s = (
     let c = cpu_cp1 s; b = cp1_backend c in
     case operation of
       SingleToDouble \<Rightarrow> do {
         source <- cp1_read_float32 c fs;
         (update, v) <- classified c (classify_float32_operands c [source] False)
           (backend_convert_float32_to_float64 env b source);
         finish_float64 fd update v s
       }
     | WordToDouble \<Rightarrow> do {
         w <- cp1_read_word c fs;
         (update, v) <- classified c None (Some (backend_convert_i32_to_float64 env b w));
         finish_float64 fd update v s
       }
     | DoubleToSingle \<Rightarrow> do {
         source <- cp1_read_float64 c fs;
         (update, v) <- classified c (classify_float64_operands c [source] False)
           (do { rm <- cp1_rounding_mode c; backend_convert_float64_to_float32 env b source rm });
         finish_float32 fd update v s
       }
     | WordToSingle \<Rightarrow> do {
         w <- cp1_read_word c fs;
         (update, v) <- classified c None
           (do { rm <- cp1_rounding_mode c; backend_convert_i32_to_float32 env b w rm });
         finish_float32 fd update v s
       }
     | SingleToWord \<Rightarrow> do {
         source <- cp1_read_float32 c fs;
         (update, v) <- classified c (classify_float32_operands c [source] False)
           (do { rm <- cp1_rounding_mode c; backend_convert_float32_to_i32 env b source rm });
         finish_word fd update v s
       }
     | DoubleToWord \<Rightarrow> do {
         source <- cp1_read_float64 c fs;
         (update, v) <- classified c (classify_float64_operands c [source] False)
           (do { rm <- cp1_rounding_mode c; backend_convert_float64_to_i32 env b source rm });
         finish_word fd update v s
       })"

definition comparison_condition :: "u8 \<Rightarrow> relation \<Rightarrow> bool" where
  "comparison_condition condition r =
     (case r of
        Unordered \<Rightarrow> condition AND 0x1 \<noteq> 0
      | Equal \<Rightarrow> condition AND 0x2 \<noteq> 0
      | Less \<Rightarrow> condition AND 0x4 \<noteq> 0
      | Greater \<Rightarrow> False)"

definition execute_compare ::
  "float_env \<Rightarrow> cp1_float_format \<Rightarrow> u8 \<Rightarrow> nat \<Rightarrow> nat \<Rightarrow> cpu \<Rightarrow>
     (instruction_effect option \<times> bool \<times> cpu) option"
where
  "execute_compare env format condition fs ft s = (
     let mode = (if condition AND 0x8 = 0 then Quiet else Signaling);
         signal_any_nan = (mode = Signaling);
         c = cpu_cp1 s
     in do {
       (update, relation) <- (case format of
           Single \<Rightarrow> do {
             lhs <- cp1_read_float32 c fs;
             rhs <- cp1_read_float32 c ft;
             classified c (classify_float32_operands c [lhs, rhs] signal_any_nan)
               (backend_compare_f32 env (cp1_backend c) lhs rhs mode)
           }
         | Double \<Rightarrow> do {
             lhs <- cp1_read_float64 c fs;
             rhs <- cp1_read_float64 c ft;
             classified c (classify_float64_operands c [lhs, rhs] signal_any_nan)
               (backend_compare_f64 env (cp1_backend c) lhs rhs mode)
           });
       s1 <- commit_pending_cp1_write s;
       let s2 = s1\<lparr>cpu_cp1 := apply_fcr31_update update (cpu_cp1 s1)\<rparr>;
       if \<not> fu_writeback update then Some (None, True, s2)
       else do {
         r <- relation;
         Some (Some (DelayedCp1ConditionWrite (comparison_condition condition r)), False, s2)
       }
     })"

type_synonym 'b cp1_result =
  "((step_error + instruction_completion execution_outcome \<times> bool) \<times> cpu \<times> 'b) option"

definition cp1_completed ::
  "u32 option \<Rightarrow> instruction_effect option \<Rightarrow> bool \<Rightarrow> cpu \<Rightarrow> 'b \<Rightarrow> 'b cp1_result" where
  "cp1_completed pc effect raised s b = Some (Inr (Completed (pc, effect), raised), s, b)"

text \<open>A load or store inside a CP1 instruction: its error and its exception end the instruction.\<close>

definition on_cp1_access ::
  "((step_error + 'a execution_outcome) \<times> cpu \<times> 'b) \<Rightarrow> ('a \<Rightarrow> cpu \<Rightarrow> 'b \<Rightarrow> 'b cp1_result) \<Rightarrow> 'b cp1_result"
where
  "on_cp1_access rsb k =
     (case rsb of (r, s, b) \<Rightarrow>
        (case r of
           Inl e \<Rightarrow> Some (Inl e, s, b)
         | Inr (ExceptionOutcome x) \<Rightarrow> Some (Inr (ExceptionOutcome x, False), s, b)
         | Inr (Completed v) \<Rightarrow> k v s b))"

fun cp1_execute_usable ::
  "float_env \<Rightarrow> 'b bus_ops \<Rightarrow> cp1_instruction \<Rightarrow> cpu \<Rightarrow> 'b \<Rightarrow> 'b cp1_result" where
  "cp1_execute_usable env ops (Mfc1 rt rd) s b =
     do {
       v <- cp1_read_general (cpu_cp1 s) rd;
       cp1_completed None (Some (DelayedGprWrite rt v False)) False s b
     }"
| "cp1_execute_usable env ops (Cfc1 rt rd) s b =
     cp1_completed None (Some (DelayedGprWrite rt (cp1_read_control (cpu_cp1 s) rd) False)) False s b"
| "cp1_execute_usable env ops (Mtc1 rt rd) s b =
     do { v <- read_gpr s rt; cp1_completed None (Some (DelayedCp1GeneralWrite rd v)) False s b }"
| "cp1_execute_usable env ops (Ctc1 rt rd) s b =
     do { v <- read_gpr s rt; cp1_completed None (Some (DelayedCp1ControlWrite rd v)) False s b }"
| "cp1_execute_usable env ops (Bc1f offset) s b =
     cp1_completed (Some (branch_resume_pc (cpu_pc s) offset (\<not> cp1_condition (cpu_cp1 s)))) None False s b"
| "cp1_execute_usable env ops (Bc1t offset) s b =
     cp1_completed (Some (branch_resume_pc (cpu_pc s) offset (cp1_condition (cpu_cp1 s)))) None False s b"
| "cp1_execute_usable env ops (Lwc1 base ft offset) s b =
     do {
       r <- ls_load ops base offset 4 s b;
       on_cp1_access r (\<lambda>bytes s1 b1.
         cp1_completed None (Some (DelayedCp1GeneralWrite ft (from_be_bytes bytes))) False s1 b1)
     }"
| "cp1_execute_usable env ops (Swc1 base ft offset) s b =
     do {
       v <- cp1_read_general (cpu_cp1 s) ft;
       r <- ls_store ops base offset (to_be_bytes32 v) s b;
       on_cp1_access r (\<lambda>_ s1 b1. cp1_completed None None False s1 b1)
     }"
| "cp1_execute_usable env ops (Binary operation format ft fs fd) s b =
     do {
       (raised, s1) <- execute_binary env operation format ft fs fd s;
       cp1_completed None None raised s1 b
     }"
| "cp1_execute_usable env ops (Unary operation format fs fd) s b =
     do {
       (raised, s1) <- execute_unary operation format fs fd s;
       cp1_completed None None raised s1 b
     }"
| "cp1_execute_usable env ops (Convert operation fs fd) s b =
     do {
       (raised, s1) <- execute_conversion env operation fs fd s;
       cp1_completed None None raised s1 b
     }"
| "cp1_execute_usable env ops (Compare format condition fs ft) s b =
     do {
       (effect, raised, s1) <- execute_compare env format condition fs ft s;
       cp1_completed None effect raised s1 b
     }"
| "cp1_execute_usable env ops UnimplementedOperation s b =
     do {
       s1 <- commit_pending_cp1_write s;
       cp1_completed None None True
         (s1\<lparr>cpu_cp1 := apply_fcr31_update unimplemented_update (cpu_cp1 s1)\<rparr>) b
     }"

definition cp1_execute ::
  "float_env \<Rightarrow> 'b bus_ops \<Rightarrow> cp1_instruction \<Rightarrow> cpu \<Rightarrow> 'b \<Rightarrow> 'b cp1_result" where
  "cp1_execute env ops i s b =
     do {
       usable <- cp0_coprocessor_usable (cpu_cp0 s) 1;
       if \<not> usable then Some (Inr (ExceptionOutcome (CoprocessorUnusable 1), False), s, b)
       else cp1_execute_usable env ops i s b
     }"

end
