(* ===== verification/R3000.thy ===== *)
theory R3000
  imports Cp1_Exec
begin

text \<open>
  The processor, \<^verbatim>\<open>mips1/r3000.rs\<close>: construction, snapshot and restore, reset, the
  external inputs, and \<open>step\<close>, which runs one architectural step: shutdown guard, cache
  transfer and interrupt sampling, fetch, interrupt recognition, the decode cache, dispatch to
  the execution units and completion. The decode cache is a table of 65536 optional entries
  indexed by the physical word address.
\<close>

definition DECODE_CACHE_ENTRIES :: nat where "DECODE_CACHE_ENTRIES = 2 ^ 16"

type_synonym decoded_word = "(u64 \<times> u32 \<times> decode_result) option"

record r3000 =
  r3_state :: cpu
  r3_cp0_condition :: bool
  r3_frequency_hz :: u64
  r3_decoded_words :: "decoded_word list"

record r3000_snapshot =
  sn_state :: cpu
  sn_cp0_condition :: bool

definition r3000_new :: "r3000_config \<Rightarrow> r3000" where
  "r3000_new cfg =
     \<lparr>r3_state = state_new cfg, r3_cp0_condition = False, r3_frequency_hz = cfg_frequency_hz cfg,
      r3_decoded_words = replicate DECODE_CACHE_ENTRIES None\<rparr>"

definition state_clone :: "cpu \<Rightarrow> cpu" where
  "state_clone s = s\<lparr>cpu_mmu := mmu_clone (cpu_mmu s)\<rparr>"

definition r3000_take_snapshot :: "r3000 \<Rightarrow> r3000_snapshot" where
  "r3000_take_snapshot p =
     \<lparr>sn_state = state_clone (r3_state p), sn_cp0_condition = r3_cp0_condition p\<rparr>"

definition r3000_restore_snapshot :: "r3000_snapshot \<Rightarrow> r3000 \<Rightarrow> r3000" where
  "r3000_restore_snapshot sn p =
     p\<lparr>r3_state := restore_floating_point_backend (cp1_backend (cpu_cp1 (r3_state p))) (sn_state sn),
       r3_cp0_condition := sn_cp0_condition sn\<rparr>"

definition r3000_reset :: "r3000 \<Rightarrow> r3000 option" where
  "r3000_reset p =
     do {
       s <- state_reset (r3_state p);
       s1 <- synchronize_cp1_interrupt s;
       Some (p\<lparr>r3_state := s1\<rparr>)
     }"

definition r3000_set_cp0_condition :: "bool \<Rightarrow> r3000 \<Rightarrow> r3000" where
  "r3000_set_cp0_condition condition p = p\<lparr>r3_cp0_condition := condition\<rparr>"

definition r3000_set_hardware_interrupt_lines :: "u8 \<Rightarrow> r3000 \<Rightarrow> r3000 option" where
  "r3000_set_hardware_interrupt_lines lines p =
     map_option (\<lambda>s. p\<lparr>r3_state := s\<rparr>) (set_hardware_interrupt_lines lines (r3_state p))"

section \<open>One step\<close>

type_synonym 'b step_result = "((step_error + unit) \<times> r3000 \<times> 'b) option"

definition step_failed :: "step_error \<Rightarrow> r3000 \<Rightarrow> cpu \<Rightarrow> 'b \<Rightarrow> 'b step_result" where
  "step_failed e p s b = Some (Inl e, p\<lparr>r3_state := s\<rparr>, b)"

definition step_exception :: "cpu_exception \<Rightarrow> r3000 \<Rightarrow> cpu \<Rightarrow> 'b \<Rightarrow> 'b step_result" where
  "step_exception e p s b =
     do {
       s1 <- take_exception e s;
       s2 <- synchronize_cp1_interrupt s1;
       Some (Inr (), p\<lparr>r3_state := s2\<rparr>, b)
     }"

definition fetch_instruction ::
  "'b bus_ops \<Rightarrow> translation \<Rightarrow> cpu \<Rightarrow> 'b \<Rightarrow> ((bus_error + u32) \<times> cpu \<times> 'b) option" where
  "fetch_instruction ops t s b =
     do {
       (r, s1, b1) <- read_instruction ops t s b;
       Some (map_sum id from_be_bytes r, s1, b1)
     }"

text \<open>The decode cache: a slot answers only for the address and the word it was filled with.\<close>

definition lookup_decoded ::
  "u64 \<Rightarrow> u32 \<Rightarrow> decoded_word list \<Rightarrow> (decode_result \<times> decoded_word list) option" where
  "lookup_decoded address word slots =
     do {
       let index = unat (drop_bit 2 address) AND (DECODE_CACHE_ENTRIES - 1);
       slot <- get_at slots index;
       let refill = do {
         decoded <- decode word;
         slots1 <- set_at slots index (Some (address, word, decoded));
         Some (decoded, slots1)
       };
       case slot of
         Some (cached_address, cached_word, cached) \<Rightarrow>
           if cached_address = address \<and> cached_word = word then Some (cached, slots) else refill
       | None \<Rightarrow> refill
     }"

definition lift_alu :: "(cpu_exception + unit) \<times> cpu \<Rightarrow> instruction_result \<times> cpu" where
  "lift_alu rs =
     ((case fst rs of Inr _ \<Rightarrow> completed_with None None | Inl e \<Rightarrow> Inr (ExceptionOutcome e)), snd rs)"

definition lift_memory ::
  "(step_error + instruction_effect option execution_outcome) \<Rightarrow> instruction_result" where
  "lift_memory r =
     (case r of
        Inl e \<Rightarrow> Inl e
      | Inr (Completed effect) \<Rightarrow> completed_with None effect
      | Inr (ExceptionOutcome x) \<Rightarrow> Inr (ExceptionOutcome x))"

text \<open>
  Dispatch. A raised floating-point exception that requests an interrupt preempts the outcome:
  the first component is then \<open>None\<close> and the state already synchronised.
\<close>

definition dispatch ::
  "float_env \<Rightarrow> 'b bus_ops \<Rightarrow> instruction \<Rightarrow> bool \<Rightarrow> cpu \<Rightarrow> 'b \<Rightarrow>
     (instruction_result option \<times> cpu \<times> 'b) option"
where
  "dispatch env ops i condition s b =
     (case i of
        IAlu a \<Rightarrow> map_option (\<lambda>r. (Some (fst (lift_alu r)), snd (lift_alu r), b)) (alu_execute a s)
      | IControl c \<Rightarrow>
          map_option (\<lambda>(pc, s1). (Some (completed_with (Some pc) None), s1, b)) (control_execute c s)
      | ICp0 c \<Rightarrow> map_option (\<lambda>(r, s1). (Some r, s1, b)) (cp0_execute c condition s)
      | ICp1 c \<Rightarrow>
          do {
            (r, s1, b1) <- cp1_execute env ops c s b;
            case r of
              Inl e \<Rightarrow> Some (Some (Inl e), s1, b1)
            | Inr (outcome, exception_raised) \<Rightarrow> do {
                s2 <- synchronize_cp1_interrupt s1;
                if exception_raised \<and> cp0_interrupt_requested (cpu_cp0 s2)
                then Some (None, s2, b1)
                else Some (Some (Inr outcome), s2, b1)
              }
          }
      | IMemory m \<Rightarrow>
          map_option (\<lambda>(r, s1, b1). (Some (lift_memory r), s1, b1)) (load_store_execute ops m s b)
      | ISyscall \<Rightarrow> Some (Some (Inr (ExceptionOutcome Syscall)), s, b)
      | IBreakpoint \<Rightarrow> Some (Some (Inr (ExceptionOutcome Breakpoint)), s, b))"

definition finish_step :: "instruction_result \<Rightarrow> r3000 \<Rightarrow> cpu \<Rightarrow> 'b \<Rightarrow> 'b step_result" where
  "finish_step outcome p s b =
     (case outcome of
        Inl e \<Rightarrow> step_failed e p s b
      | Inr (ExceptionOutcome x) \<Rightarrow> step_exception x p s b
      | Inr (Completed (delayed_resume_pc, effect)) \<Rightarrow>
          do {
            s1 <- complete_instruction delayed_resume_pc effect s;
            s2 <- synchronize_cp1_interrupt s1;
            Some (Inr (), p\<lparr>r3_state := s2\<rparr>, b)
          })"

definition execute_decoded ::
  "float_env \<Rightarrow> 'b bus_ops \<Rightarrow> u32 \<Rightarrow> u32 \<Rightarrow> decode_result \<Rightarrow> r3000 \<Rightarrow> cpu \<Rightarrow> 'b \<Rightarrow> 'b step_result"
where
  "execute_decoded env ops pc word decoded p s b =
     (case decoded of
        Implemented i \<Rightarrow>
          do {
            (outcome, s1, b1) <- dispatch env ops i (r3_cp0_condition p) s b;
            case outcome of
              None \<Rightarrow> step_exception Interrupt p s1 b1
            | Some r \<Rightarrow> finish_step r p s1 b1
          }
      | UnsupportedCoprocessor unit \<Rightarrow>
          do {
            usable <- cp0_coprocessor_usable (cpu_cp0 s) unit;
            if usable then step_failed (UnsupportedInstruction pc word) p s b
            else step_exception (CoprocessorUnusable unit) p s b
          }
      | Undefined \<Rightarrow> step_failed (UndefinedInstruction pc word) p s b
      | Reserved \<Rightarrow> step_exception ReservedInstruction p s b)"

text \<open>After a successful fetch: interrupts are recognised before the word is decoded.\<close>

definition execute_fetched ::
  "float_env \<Rightarrow> 'b bus_ops \<Rightarrow> u32 \<Rightarrow> u64 \<Rightarrow> u32 \<Rightarrow> r3000 \<Rightarrow> cpu \<Rightarrow> 'b \<Rightarrow> 'b step_result"
where
  "execute_fetched env ops pc address word p s b =
     (if cp0_interrupt_requested (cpu_cp0 s) then step_exception Interrupt p s b
      else do {
        (decoded, slots) <- lookup_decoded address word (r3_decoded_words p);
        execute_decoded env ops pc word decoded (p\<lparr>r3_decoded_words := slots\<rparr>) s b
      })"

definition r3000_step :: "float_env \<Rightarrow> 'b bus_ops \<Rightarrow> r3000 \<Rightarrow> 'b \<Rightarrow> 'b step_result" where
  "r3000_step env ops p b =
     (if cp0_is_tlb_shutdown (cpu_cp0 (r3_state p)) then Some (Inl TlbShutdown, p, b)
      else do {
        s <- advance_machine_interrupt_inputs (advance_cache_transition (r3_state p));
        let pc = cpu_pc s;
        if pc AND 3 \<noteq> 0 then step_exception (InstructionAddressError pc) p s b
        else do {
          (translated, s1) <- translate_address pc AccessInstruction s;
          case translated of
            Inl (TranslationException e) \<Rightarrow> step_exception e p s1 b
          | Inl TranslationShutdown \<Rightarrow> step_failed TlbShutdown p s1 b
          | Inr t \<Rightarrow> do {
              (fetched, s2, b1) <- fetch_instruction ops t s1 b;
              case fetched of
                Inl HardwareFault \<Rightarrow> step_exception InstructionBusError p s2 b1
              | Inl fault \<Rightarrow> step_failed (BusError (tr_address t) fault) p s2 b1
              | Inr word \<Rightarrow> execute_fetched env ops pc (tr_address t) word p s2 b1
            }
        }
      })"

end
