(* ===== verification/Cp0_Correct.thy ===== *)
theory Cp0_Correct
  imports Cp0
begin

text \<open>
  Facts about CP0: the bits its masks select, the mode stack across an exception and the
  \<^verbatim>\<open>rfe\<close> that ends it, interrupt recognition, what a register write can and cannot
  change, and the range of the Random counter.
\<close>

section \<open>Masks as bits\<close>

lemma bit_one_u32: "bit (1 :: u32) n \<longleftrightarrow> n = 0"
  by (auto simp: bit_simps)

lemma mask_ranges:
  "STATUS_MODE_STACK_MASK = mask 6"
  "STATUS_IEC = push_bit 0 1"
  "STATUS_KUC = push_bit 1 1"
  "STATUS_ISC = push_bit 16 1"
  "STATUS_SWC = push_bit 17 1"
  "STATUS_CM = push_bit 19 1"
  "STATUS_PE = push_bit 20 1"
  "STATUS_TS = push_bit 21 1"
  "STATUS_BEV = push_bit 22 1"
  "STATUS_CU0 = push_bit 28 1"
  "STATUS_CU_MASK = push_bit 28 (mask 4)"
  "STATUS_INTERRUPT_CONTROL_MASK = push_bit 8 (mask 8) OR push_bit 0 1"
  "STATUS_WRITABLE_MASK =
     push_bit 28 (mask 4) OR push_bit 25 1 OR push_bit 22 1 OR push_bit 8 (mask 11) OR mask 6"
  "STATUS_VISIBLE_MASK =
     push_bit 28 (mask 4) OR push_bit 25 1 OR push_bit 8 (mask 15) OR mask 6"
  "CAUSE_BD = push_bit 31 1"
  "CAUSE_IP_MASK = push_bit 8 (mask 8)"
  "CAUSE_HARDWARE_IP_MASK = push_bit 10 (mask 6)"
  "CAUSE_SOFTWARE_IP_MASK = push_bit 8 (mask 2)"
  "INDEX_PROBE_FAILURE = push_bit 31 1"
  "INDEX_INDEX_MASK = push_bit 8 (mask 6)"
  "CONTEXT_PTE_BASE_MASK = push_bit 21 (mask 11)"
  "CONTEXT_BAD_VPN_MASK = push_bit 2 (mask 19)"
  "CONTEXT_VISIBLE_MASK = push_bit 2 (mask 30)"
  "ENTRY_LO_VISIBLE_MASK = push_bit 8 (mask 24)"
  "ENTRY_HI_VISIBLE_MASK = push_bit 6 (mask 26)"
  "ENTRY_HI_VPN_MASK = push_bit 12 (mask 20)"
  "ENTRY_HI_ASID_MASK = push_bit 6 (mask 6)"
  by (simp_all add: cp0_masks mask_numeral)

lemma bit_push_mask: "bit (push_bit k (mask n) :: u32) i \<longleftrightarrow> k \<le> i \<and> i < k + n \<and> i < 32"
  by (auto simp: bit_simps)

lemma bit_push_one: "bit (push_bit k 1 :: u32) i \<longleftrightarrow> i = k \<and> i < 32"
  by (auto simp: bit_simps)

lemma bit_mask_u32: "bit (mask n :: u32) i \<longleftrightarrow> i < n \<and> i < 32"
  by (auto simp: bit_simps)

lemmas cp0_bits = bit_push_mask bit_push_one bit_mask_u32 bit_or_iff bit_and_iff

lemma and_push_one_eq_0: "w AND push_bit k 1 = 0 \<longleftrightarrow> \<not> bit w k" for w :: u32
proof
  assume "w AND push_bit k 1 = 0"
  then have "\<not> bit (w AND push_bit k 1) k" by simp
  then have "\<not> (bit w k \<and> k < 32)" unfolding bit_and_iff bit_push_one by simp
  then show "\<not> bit w k" by (auto dest: bit_u32)
next
  assume "\<not> bit w k"
  then show "w AND push_bit k 1 = 0"
    by (intro bit_word_eqI) (simp only: bit_and_iff bit_push_one, auto)
qed

lemma flag_iff:
  "w AND STATUS_IEC = 0 \<longleftrightarrow> \<not> bit w 0"
  "w AND STATUS_KUC = 0 \<longleftrightarrow> \<not> bit w 1"
  "w AND STATUS_ISC = 0 \<longleftrightarrow> \<not> bit w 16"
  "w AND STATUS_SWC = 0 \<longleftrightarrow> \<not> bit w 17"
  "w AND STATUS_PE = 0 \<longleftrightarrow> \<not> bit w 20"
  "w AND STATUS_TS = 0 \<longleftrightarrow> \<not> bit w 21"
  "w AND STATUS_BEV = 0 \<longleftrightarrow> \<not> bit w 22"
  "w AND STATUS_CU0 = 0 \<longleftrightarrow> \<not> bit w 28"
  unfolding mask_ranges and_push_one_eq_0 by (rule refl)+

lemma bit_not_u32: "bit (NOT w) n \<longleftrightarrow> n < 32 \<and> \<not> bit w n" for w :: u32
  by (simp add: bit_not_iff)

lemma bit_push_u32: "bit (push_bit k w) n \<longleftrightarrow> k \<le> n \<and> n < 32 \<and> bit w (n - k)" for w :: u32
  by (auto simp: bit_push_bit_iff)

lemma bit_drop_u32: "bit (drop_bit k w) n \<longleftrightarrow> bit w (k + n)" for w :: u32
  by (simp add: bit_drop_bit_eq)

lemmas word_bits = bit_or_iff bit_and_iff bit_not_u32 bit_mask_u32 bit_push_u32 bit_drop_u32
  bit_one_u32

section \<open>The mode stack\<close>

definition push_mode_stack :: "u32 \<Rightarrow> u32" where
  "push_mode_stack status =
     (status AND NOT STATUS_MODE_STACK_MASK) OR (push_bit 2 status AND STATUS_MODE_STACK_MASK)"

lemma bit_push_mode_stack:
  "bit (push_mode_stack s) n \<longleftrightarrow> (if n < 6 then 2 \<le> n \<and> bit s (n - 2) else bit s n)"
  by (auto simp: push_mode_stack_def mask_ranges word_bits dest: bit_u32)

lemma take_exception_status:
  "cp0_status (snd (cp0_take_exception e epc bd c)) = push_mode_stack (cp0_status c)"
  by (cases "exception_fields e")
    (auto simp: cp0_take_exception_def Let_def push_mode_stack_def split: option.splits)

lemma take_exception_epc [simp]: "cp0_epc (snd (cp0_take_exception e epc bd c)) = epc"
  by (cases "exception_fields e")
    (auto simp: cp0_take_exception_def Let_def split: option.splits)

lemma take_exception_random [simp]:
  "cp0_random (snd (cp0_take_exception e epc bd c)) = cp0_random c"
  by (cases "exception_fields e")
    (auto simp: cp0_take_exception_def Let_def split: option.splits)

lemma take_exception_index [simp]:
  "cp0_index (snd (cp0_take_exception e epc bd c)) = cp0_index c"
  by (cases "exception_fields e")
    (auto simp: cp0_take_exception_def Let_def split: option.splits)

lemma take_exception_effective:
  "cp0_effective (snd (cp0_take_exception e epc bd c)) =
     (cp0_effective c)\<lparr>fs_interrupt_control :=
        fs_interrupt_control (cp0_effective c) AND NOT STATUS_IEC\<rparr>"
  "cp0_pending_functional (snd (cp0_take_exception e epc bd c)) =
     map_option (\<lambda>f. f\<lparr>fs_interrupt_control := fs_interrupt_control f AND NOT STATUS_IEC\<rparr>)
       (cp0_pending_functional c)"
  by (cases "exception_fields e";
      auto simp: cp0_take_exception_def Let_def split: option.splits)+

lemma take_exception_vector:
  "fst (cp0_take_exception e epc bd c) =
     exception_vector (push_mode_stack (cp0_status c)) (snd (snd (snd (exception_fields e))))"
  by (cases "exception_fields e")
    (auto simp: cp0_take_exception_def Let_def push_mode_stack_def split: option.splits)

text \<open>The Status value \<^verbatim>\<open>rfe\<close> computes before \<^verbatim>\<open>restore_status\<close> commits it.\<close>

definition rfe_status :: "u32 \<Rightarrow> u32" where
  "rfe_status status = (status AND NOT 0x0f) OR (drop_bit 2 status AND 0x0f)"

lemma low_nibble_mask: "(0x0f :: u32) = mask 4"
  by (simp add: mask_numeral)

lemma bit_restore_status:
  "bit (cp0_status (restore_status (rfe_status s) c)) n \<longleftrightarrow>
     (if n < 4 then bit s (n + 2) else bit (cp0_status c) n)"
  by (auto simp: restore_status_def rfe_status_def Let_def low_nibble_mask word_bits add.commute
      dest: bit_u32)

section \<open>Exception entry and return\<close>


lemma not_interrupt_requested:
  "\<not> bit (fs_interrupt_control (cp0_effective c)) 0 \<Longrightarrow> \<not> cp0_interrupt_requested c"
  by (simp add: cp0_interrupt_requested_def Let_def flag_iff)

lemma commit_simps [simp]:
  "cp0_status (commit_pending_functional c) = cp0_status c"
  "cp0_cause (commit_pending_functional c) = cp0_cause c"
  "cp0_random (commit_pending_functional c) = cp0_random c"
  "cp0_index (commit_pending_functional c) = cp0_index c"
  "cp0_epc (commit_pending_functional c) = cp0_epc c"
  by (simp_all add: commit_pending_functional_def split: option.splits)

text \<open>
  Exception entry disables interrupts and enters kernel mode at once, whatever the Status
  write still waiting to take effect: no interrupt is requested in the state the exception
  leaves, nor after the pending functional view is committed.
\<close>

lemma exception_entry_masks_interrupts:
  "cp0_is_kernel_mode (snd (cp0_take_exception e epc bd c)) \<and>
   \<not> cp0_interrupt_requested (snd (cp0_take_exception e epc bd c)) \<and>
   \<not> cp0_interrupt_requested
       (commit_pending_functional (snd (cp0_take_exception e epc bd c)))"
proof -
  let ?c = "snd (cp0_take_exception e epc bd c)"
  have kernel: "cp0_is_kernel_mode ?c"
    by (simp add: cp0_is_kernel_mode_def flag_iff take_exception_status bit_push_mode_stack)
  have now: "\<not> bit (fs_interrupt_control (cp0_effective ?c)) 0"
    by (simp add: take_exception_effective word_bits mask_ranges)
  have later: "\<not> bit (fs_interrupt_control (cp0_effective (commit_pending_functional ?c))) 0"
    using now
    by (auto simp: commit_pending_functional_def take_exception_effective word_bits mask_ranges
        split: option.splits)
  show ?thesis
    using kernel not_interrupt_requested [OF now] not_interrupt_requested [OF later] by simp
qed

section \<open>Register writes\<close>

lemma bit_status_after_write:
  "bit (status_after_write c v) n \<longleftrightarrow>
     (if n = 20 then bit (cp0_status c) 20 \<and> \<not> bit v 20
      else if n < 6 \<or> (8 \<le> n \<and> n < 19) \<or> n = 22 \<or> n = 25 \<or> (28 \<le> n \<and> n < 32) then bit v n
      else bit (cp0_status c) n)"
proof -
  have pe: "bit (if v AND STATUS_PE = 0 then cp0_status c AND STATUS_PE else 0) n \<longleftrightarrow>
      n = 20 \<and> bit (cp0_status c) 20 \<and> \<not> bit v 20"
    by (cases "bit v 20")
      (simp_all add: flag_iff bit_and_iff, auto simp: mask_ranges bit_push_one simp del: push_bit_of_1)
  have writable: "bit STATUS_WRITABLE_MASK n \<longleftrightarrow>
      n < 6 \<or> (8 \<le> n \<and> n < 19) \<or> n = 22 \<or> n = 25 \<or> (28 \<le> n \<and> n < 32)"
    unfolding mask_ranges bit_or_iff bit_push_one bit_push_mask bit_mask_u32 by auto
  have pe_mask: "bit STATUS_PE n \<longleftrightarrow> n = 20"
    unfolding mask_ranges bit_push_one by auto
  show ?thesis
    unfolding status_after_write_def Let_def bit_or_iff bit_and_iff bit_not_u32 pe writable pe_mask
    by (auto dest: bit_u32)
qed

lemma write_register_status:
  "cp0_status (cp0_write_register i v c) = (if i = 12 then status_after_write c v else cp0_status c)"
  by (simp add: cp0_write_register_def write_status_def write_cause_def Let_def)

lemma write_register_cause:
  "bit (cp0_cause (cp0_write_register i v c)) n \<longleftrightarrow>
     (if i = 13 \<and> (n = 8 \<or> n = 9) then bit v n else bit (cp0_cause c) n)"
  by (auto simp: cp0_write_register_def write_status_def write_cause_def Let_def mask_ranges
      word_bits dest: bit_u32)

lemma write_register_random [simp]: "cp0_random (cp0_write_register i v c) = cp0_random c"
  by (simp add: cp0_write_register_def write_status_def write_cause_def Let_def)

text \<open>
  What software can reach through a CP0 register write. Writing Status never changes TLB
  shutdown (TS), the cache-miss flag (CM) or an unassigned bit, and parity error (PE) is write
  one to clear; every other implemented bit takes the written value. Writing Cause changes the
  two software interrupt bits only, so no write can raise or acknowledge a hardware interrupt.
  A write to any other register leaves Status and Cause alone.
\<close>

lemma register_write_status_cause:
  "bit (cp0_status (cp0_write_register i v c)) n =
     (if i \<noteq> 12 then bit (cp0_status c) n
      else if n = 20 then bit (cp0_status c) n \<and> \<not> bit v n
      else if n \<in> {0..5} \<union> {8..18} \<union> {22, 25} \<union> {28..31} then bit v n
      else bit (cp0_status c) n) \<and>
   bit (cp0_cause (cp0_write_register i v c)) n =
     (if i = 13 \<and> n \<in> {8, 9} then bit v n else bit (cp0_cause c) n)"
  unfolding write_register_status write_register_cause
  by (auto simp: bit_status_after_write)

text \<open>Clearing the interrupt enable acts at once; setting it waits for the pending view.\<close>

lemma write_status_disables_at_once:
  assumes "\<not> bit v 0"
  shows "\<not> cp0_interrupt_requested (cp0_write_register 12 v c)"
proof (rule not_interrupt_requested)
  show "\<not> bit (fs_interrupt_control (cp0_effective (cp0_write_register 12 v c))) 0"
    using assms
    by (simp add: cp0_write_register_def write_status_def Let_def flag_iff bit_status_after_write
        bit_and_iff bit_not_u32)
      (simp add: mask_ranges)
qed

section \<open>The Random counter\<close>

definition random_ok :: "cp0 \<Rightarrow> bool" where
  "random_ok c \<longleftrightarrow> 8 \<le> cp0_random_tlb_index c \<and> cp0_random_tlb_index c \<le> 63"

lemma index_field: "unat (drop_bit 8 (w AND INDEX_INDEX_MASK)) = unat w div 256 mod 64"
proof -
  have "drop_bit 8 (w AND INDEX_INDEX_MASK) = drop_bit 8 w AND mask 6"
    by (rule bit_word_eqI) (auto simp: mask_ranges word_bits add.commute dest: bit_u32)
  then show ?thesis by (simp add: unat_drop_mask)
qed

lemma tlb_index_lt [simp]: "cp0_tlb_index c < 64"
  unfolding cp0_tlb_index_def index_field by simp

lemma random_tlb_index_lt [simp]: "cp0_random_tlb_index c < 64"
  unfolding cp0_random_tlb_index_def index_field by simp

lemma random_ok_new [simp]: "random_ok cp0_new"
  unfolding random_ok_def cp0_random_tlb_index_def index_field
  by (simp add: cp0_new_def RANDOM_RESET_def)

lemma random_ok_reset [simp]: "random_ok (cp0_reset pc c)"
  unfolding random_ok_def cp0_random_tlb_index_def index_field
  by (simp add: cp0_reset_def Let_def RANDOM_RESET_def)

lemma random_ok_advance [simp]: "random_ok (advance_random c)"
proof -
  let ?cur = "drop_bit 8 (cp0_random c AND INDEX_INDEX_MASK)"
  define nxt where "nxt = (if ?cur \<le> 8 then 63 else ?cur - 1)"
  have cur: "unat ?cur < 64" unfolding index_field by simp
  have nxt: "8 \<le> unat nxt" "unat nxt \<le> 63"
    using cur by (auto simp: nxt_def word_le_nat_alt unat_sub_if')
  have "unat (push_bit 8 nxt) = unat nxt * 256"
    using nxt by (simp add: unat_word_ariths push_bit_eq_mult)
  then have "cp0_random_tlb_index (advance_random c) = unat nxt"
    using nxt unfolding cp0_random_tlb_index_def index_field
    by (simp add: advance_random_def nxt_def Let_def del: drop_bit_and)
  then show ?thesis using nxt by (simp add: random_ok_def)
qed

lemma random_ok_cong: "cp0_random c' = cp0_random c \<Longrightarrow> random_ok c' = random_ok c"
  by (simp add: random_ok_def cp0_random_tlb_index_def)

end
