(* ===== verification/Mmu_Correct.thy ===== *)
theory Mmu_Correct
  imports Mmu
begin

text \<open>
  Correctness of the MMU: the scan over the TLB computes the declarative duplicate-entry rule,
  the lookup caches are transparent (\<open>mmu_ok\<close> is kept by every operation and makes the
  cached translation agree with the uncached one), the segment rules, the permission checks, and
  the drained instruction view.
\<close>

section \<open>The scan is the declarative lookup\<close>

text \<open>The rule: the lowest matching slot, unless two matching slots disagree on EntryLo.\<close>

definition matching_slots :: "tlb_entry list \<Rightarrow> u32 \<Rightarrow> u32 \<Rightarrow> nat list" where
  "matching_slots entries page asid =
     filter (\<lambda>i. tag_matches (entries ! i) page asid) [0..<length entries]"

definition tlb_lookup :: "tlb_entry list \<Rightarrow> u32 \<Rightarrow> u32 \<Rightarrow> probe_result" where
  "tlb_lookup entries page asid =
     (case matching_slots entries page asid of
        [] \<Rightarrow> ProbeMiss
      | i # is \<Rightarrow> if list_all (\<lambda>j. te_lo (entries ! j) = te_lo (entries ! i)) is
                 then ProbeMatch i else ProbeShutdown)"

lemma upt_filter_Cons:
  "k < n \<Longrightarrow> filter P [k..<n] = (if P k then k # filter P [Suc k..<n] else filter P [Suc k..<n])"
  by (simp add: upt_conv_Cons)

lemma match_loop_first:
  assumes "first < length entries" "k \<le> length entries"
  shows "match_loop entries page asid k (Some first) (drop k entries) =
    Some (if list_all (\<lambda>j. te_lo (entries ! j) = te_lo (entries ! first))
              (filter (\<lambda>i. tag_matches (entries ! i) page asid) [k..<length entries])
          then ProbeMatch first else ProbeShutdown)"
  using assms(2)
proof (induction "length entries - k" arbitrary: k)
  case 0
  then show ?case by simp
next
  case (Suc d)
  then have k: "k < length entries" by simp
  have ih: "match_loop entries page asid (Suc k) (Some first) (drop (Suc k) entries) =
    Some (if list_all (\<lambda>j. te_lo (entries ! j) = te_lo (entries ! first))
              (filter (\<lambda>i. tag_matches (entries ! i) page asid) [Suc k..<length entries])
          then ProbeMatch first else ProbeShutdown)"
    using Suc k by (intro Suc.hyps(1)) simp_all
  show ?case
    using ih assms(1) k
    by (simp add: Cons_nth_drop_Suc [symmetric] upt_filter_Cons [OF k])
qed

lemma match_loop_none:
  assumes "k \<le> length entries"
  shows "match_loop entries page asid k None (drop k entries) =
    Some (case filter (\<lambda>i. tag_matches (entries ! i) page asid) [k..<length entries] of
            [] \<Rightarrow> ProbeMiss
          | i # is \<Rightarrow> if list_all (\<lambda>j. te_lo (entries ! j) = te_lo (entries ! i)) is
                     then ProbeMatch i else ProbeShutdown)"
  using assms
proof (induction "length entries - k" arbitrary: k)
  case 0
  then show ?case by simp
next
  case (Suc d)
  then have k: "k < length entries" by simp
  then show ?case
    using Suc match_loop_first [of k entries "Suc k" page asid]
    by (simp add: Cons_nth_drop_Suc [symmetric] upt_filter_Cons [OF k])
qed

lemma match_entries_lookup: "match_entries entries page asid = Some (tlb_lookup entries page asid)"
  using match_loop_none [of 0 entries page asid]
  by (simp add: match_entries_def tlb_lookup_def matching_slots_def)

lemma tlb_lookup_Match_lt:
  "tlb_lookup entries page asid = ProbeMatch i \<Longrightarrow> i < length entries"
  unfolding tlb_lookup_def
  by (auto simp: matching_slots_def filter_eq_Cons_iff upt_eq_Cons_conv split: list.splits if_splits)
    (metis atLeastLessThan_iff in_set_conv_decomp set_upt)

lemma tlb_lookup_iff:
  "tlb_lookup entries page asid = ProbeMiss \<longleftrightarrow>
     (\<forall>i < length entries. \<not> tag_matches (entries ! i) page asid)"
  "tlb_lookup entries page asid = ProbeShutdown \<longleftrightarrow>
     (\<exists>i < length entries. \<exists>j < length entries. tag_matches (entries ! i) page asid \<and>
        tag_matches (entries ! j) page asid \<and> te_lo (entries ! i) \<noteq> te_lo (entries ! j))"
proof -
  have "set": "set (matching_slots entries page asid) =
      {i. i < length entries \<and> tag_matches (entries ! i) page asid}"
    by (auto simp: matching_slots_def)
  show "tlb_lookup entries page asid = ProbeMiss \<longleftrightarrow>
     (\<forall>i < length entries. \<not> tag_matches (entries ! i) page asid)"
  proof -
    have "tlb_lookup entries page asid = ProbeMiss \<longleftrightarrow> set (matching_slots entries page asid) = {}"
      by (simp add: tlb_lookup_def split: list.splits)
    then show ?thesis unfolding "set" by blast
  qed
  show "tlb_lookup entries page asid = ProbeShutdown \<longleftrightarrow>
     (\<exists>i < length entries. \<exists>j < length entries. tag_matches (entries ! i) page asid \<and>
        tag_matches (entries ! j) page asid \<and> te_lo (entries ! i) \<noteq> te_lo (entries ! j))"
  proof (cases "matching_slots entries page asid")
    case Nil
    then show ?thesis using "set" by (auto simp: tlb_lookup_def)
  next
    case (Cons i "is")
    then have slots: "{j. j < length entries \<and> tag_matches (entries ! j) page asid} = insert i (set is)"
      using "set" by simp
    have "tlb_lookup entries page asid = ProbeShutdown \<longleftrightarrow>
        (\<exists>j \<in> set is. te_lo (entries ! j) \<noteq> te_lo (entries ! i))"
      using Cons by (auto simp: tlb_lookup_def list_all_iff)
    also have "\<dots> \<longleftrightarrow> (\<exists>j \<in> insert i (set is). \<exists>k \<in> insert i (set is).
        te_lo (entries ! j) \<noteq> te_lo (entries ! k))"
      by (metis insert_iff)
    finally show ?thesis
      unfolding slots [symmetric] by blast
  qed
qed

section \<open>The lookup cache\<close>

text \<open>
  A cached result of the current generation is the lookup of every page and identifier whose key
  it holds; no cached result is of a later generation.
\<close>

definition coherent_lookup :: "tlb_entry list \<Rightarrow> u32 \<Rightarrow> cached_lookup \<Rightarrow> bool" where
  "coherent_lookup entries generation c \<longleftrightarrow>
     cl_generation c \<le> generation \<and>
     (cl_generation c = generation \<longrightarrow>
        (\<forall>va asid. lookup_key (mapped_page va) (mapped_asid asid) = cl_key c \<longrightarrow>
           cached_probe_result (cl_result c) = tlb_lookup entries (mapped_page va) (mapped_asid asid)))"

definition lookup_cache_ok :: "tlb_entry list \<Rightarrow> tlb_lookup_cache \<Rightarrow> bool" where
  "lookup_cache_ok entries tc \<longleftrightarrow>
     1 \<le> tc_generation tc \<and> length (tc_entries tc) = TLB_ENTRY_COUNT \<and>
     (\<forall>c \<in> insert (tc_hot tc) (set (tc_entries tc)). coherent_lookup entries (tc_generation tc) c)"

definition pending_ok :: "pending_tlb_write option \<Rightarrow> bool" where
  "pending_ok p = (case p of None \<Rightarrow> True | Some w \<Rightarrow> pw_index w < TLB_ENTRY_COUNT)"

definition mmu_ok :: "mmu \<Rightarrow> bool" where
  "mmu_ok m \<longleftrightarrow>
     length (mmu_entries m) = TLB_ENTRY_COUNT \<and>
     length (mmu_instruction_entries m) = TLB_ENTRY_COUNT \<and>
     pending_ok (mmu_pending_first m) \<and> pending_ok (mmu_pending_second m) \<and>
     lookup_cache_ok (mmu_entries m) (mmu_main_cache m) \<and>
     lookup_cache_ok (mmu_instruction_entries m) (mmu_instruction_cache m)"

lemma bit_page: "bit (mapped_page va) n \<longleftrightarrow> 12 \<le> n \<and> bit va n"
proof -
  have mask: "MMU_ENTRY_HI_VPN_MASK = push_bit 12 (mask 20)"
    by (simp add: MMU_ENTRY_HI_VPN_MASK_def mask_numeral)
  show ?thesis
    unfolding mapped_page_def mask by (auto simp: bit_simps dest: bit_u32)
qed

lemma bit_asid: "bit (mapped_asid asid) n \<longleftrightarrow> 6 \<le> n \<and> n < 12 \<and> bit asid (n - 6)"
proof -
  have mask: "MMU_ENTRY_HI_ASID_MASK = push_bit 6 (mask 6)"
    by (simp add: MMU_ENTRY_HI_ASID_MASK_def mask_numeral)
  show ?thesis
    unfolding mapped_asid_def mask by (auto simp: bit_simps)
qed

lemma bit_lookup_key:
  "bit (lookup_key (mapped_page va) (mapped_asid asid)) n \<longleftrightarrow>
     (if n < 20 then bit va (n + 12) else n < 26 \<and> bit asid (n - 20))"
  by (auto simp: lookup_key_def bit_or_iff bit_drop_bit_eq bit_push_bit_iff bit_page bit_asid
      add.commute dest: bit_u32)

lemma lookup_key_inj:
  assumes "lookup_key (mapped_page va) (mapped_asid asid) = lookup_key (mapped_page va') (mapped_asid asid')"
  shows "mapped_page va = mapped_page va'" "mapped_asid asid = mapped_asid asid'"
proof -
  have eq: "\<And>n. (if n < 20 then bit va (n + 12) else n < 26 \<and> bit asid (n - 20)) =
      (if n < 20 then bit va' (n + 12) else n < 26 \<and> bit asid' (n - 20))"
    using assms by (simp flip: bit_lookup_key)
  show "mapped_page va = mapped_page va'"
  proof (rule bit_word_eqI)
    fix n assume "n < LENGTH(32)"
    then have "n - 12 < 20" by simp
    then show "bit (mapped_page va) n = bit (mapped_page va') n"
      using eq [of "n - 12"] by (cases "12 \<le> n") (simp_all add: bit_page)
  qed
  show "mapped_asid asid = mapped_asid asid'"
  proof (rule bit_word_eqI)
    fix n assume "n < LENGTH(32)"
    then show "bit (mapped_asid asid) n = bit (mapped_asid asid') n"
      using eq [of "n + 14"] by (auto simp: bit_asid)
  qed
qed

lemma coherent_EMPTY: "1 \<le> g \<Longrightarrow> coherent_lookup entries g EMPTY_LOOKUP"
  by (auto simp: coherent_lookup_def EMPTY_LOOKUP_def)

lemma lookup_cache_ok_new [simp]: "lookup_cache_ok entries tlb_lookup_cache_new"
  by (auto simp: lookup_cache_ok_def tlb_lookup_cache_new_def coherent_EMPTY)

lemma lookup_cache_index_lt: "lookup_cache_index key < TLB_ENTRY_COUNT"
proof -
  have "unat (drop_bit 26 w) < 64" for w :: u32
    using unsigned_less [of w, where 'a = nat] by (simp add: unat_drop_bit_eq, simp add: drop_bit_eq_div)
  then show ?thesis
    by (simp add: lookup_cache_index_def TLB_ENTRY_COUNT_def TLB_LOOKUP_CACHE_INDEX_SHIFT_def)
qed

lemma from_probe_result_ok:
  assumes "length entries = TLB_ENTRY_COUNT"
  shows "ok (from_probe_result (tlb_lookup entries p a))
    (\<lambda>c. cached_probe_result c = tlb_lookup entries p a)"
  using assms tlb_lookup_Match_lt [of entries p a]
  by (cases "tlb_lookup entries p a")
    (auto simp: from_probe_result_def cached_probe_result_def TLB_ENTRY_COUNT_def unat_of_nat)

lemma resolve_ok:
  assumes ok: "lookup_cache_ok entries tc" and len: "length entries = TLB_ENTRY_COUNT"
  shows "ok (lookup_cache_resolve entries (mapped_page va) (mapped_asid asid) tc)
    (\<lambda>(r, tc'). r = tlb_lookup entries (mapped_page va) (mapped_asid asid) \<and> lookup_cache_ok entries tc')"
proof -
  let ?p = "mapped_page va" and ?a = "mapped_asid asid"
  let ?key = "lookup_key ?p ?a"
  let ?i = "lookup_cache_index ?key"
  have i: "?i < length (tc_entries tc)"
    using ok lookup_cache_index_lt [of ?key] by (simp add: lookup_cache_ok_def)
  have hit: "cached_probe_result (cl_result c) = tlb_lookup entries ?p ?a"
    if "c \<in> insert (tc_hot tc) (set (tc_entries tc))"
      "cached_lookup_matches c (tc_generation tc) ?key" for c
    using that ok by (auto simp: lookup_cache_ok_def coherent_lookup_def cached_lookup_matches_def)
  have fresh: "coherent_lookup entries (tc_generation tc)
      \<lparr>cl_generation = tc_generation tc, cl_key = ?key, cl_result = c\<rparr>"
    if "cached_probe_result c = tlb_lookup entries ?p ?a" for c
    using that lookup_key_inj by (auto simp: coherent_lookup_def) metis
  have upd: "lookup_cache_ok entries (tc\<lparr>tc_hot := c\<rparr>)" if "c \<in> set (tc_entries tc)" for c
    using ok that by (auto simp: lookup_cache_ok_def)
  have ins: "lookup_cache_ok entries (tc\<lparr>tc_hot := c, tc_entries := (tc_entries tc)[?i := c]\<rparr>)"
    if "coherent_lookup entries (tc_generation tc) c" for c
    using ok that set_update_subset_insert [of "tc_entries tc" ?i c]
    by (auto simp: lookup_cache_ok_def)
  have packed: "ok (from_probe_result (tlb_lookup entries ?p ?a))
      (\<lambda>c. lookup_cache_ok entries (tc\<lparr>tc_hot :=
         \<lparr>cl_generation = tc_generation tc, cl_key = ?key, cl_result = c\<rparr>,
         tc_entries := (tc_entries tc)[?i :=
           \<lparr>cl_generation = tc_generation tc, cl_key = ?key, cl_result = c\<rparr>]\<rparr>))"
    using from_probe_result_ok [OF len] by (rule ok_mono) (blast intro: ins fresh)
  show ?thesis
    using i ok hit nth_mem [OF i] upd [OF nth_mem [OF i]] packed
    by (auto simp: lookup_cache_resolve_def Let_def match_entries_lookup)
qed

text \<open>Invalidation makes the cache coherent with any new contents of the TLB.\<close>

lemma minus_one_word: "(- 1 :: u32) = 0xffffffff"
  by simp

lemma invalidate_ok:
  assumes "lookup_cache_ok entries tc"
  shows "lookup_cache_ok entries' (lookup_cache_invalidate tc)"
proof (cases "tc_generation tc = 0xffffffff")
  case True
  then show ?thesis
    using assms
    by (auto simp: lookup_cache_invalidate_def lookup_cache_ok_def coherent_EMPTY)
next
  case False
  then have less: "tc_generation tc < tc_generation tc + 1"
    using inc_less_eq_triv_imp [of "tc_generation tc"] minus_one_word by (metis not_less)
  then show ?thesis
    using assms
    by (auto simp: lookup_cache_invalidate_def lookup_cache_ok_def coherent_lookup_def
        intro: order.trans [of 1 "tc_generation tc"] dest: order.strict_trans1)
qed

section \<open>Every operation keeps the unit well formed\<close>

lemma mmu_ok_new [simp]: "mmu_ok mmu_new"
  by (simp add: mmu_ok_def mmu_new_def pending_ok_def)

lemma mmu_ok_reset [simp]: "mmu_ok m \<Longrightarrow> mmu_ok (mmu_reset m)"
  by (auto simp: mmu_ok_def mmu_reset_def pending_ok_def intro: invalidate_ok)

lemma mmu_ok_clone: "mmu_ok m \<Longrightarrow> mmu_ok (mmu_clone m)"
  by (simp add: mmu_ok_def mmu_clone_def)

lemma advance_view_with_ok:
  assumes "mmu_ok m" "pending_ok w"
  shows "ok (advance_instruction_view_with w m) mmu_ok"
  using assms
  by (auto simp: advance_instruction_view_with_def mmu_ok_def pending_ok_def invalidate_ok
      split: option.splits)

lemma advance_view_ok [ok_rules]: "mmu_ok m \<Longrightarrow> ok (advance_instruction_view m) mmu_ok"
  by (simp add: advance_instruction_view_def advance_view_with_ok pending_ok_def)

lemma complete_write_ok [ok_rules]:
  assumes "mmu_ok m" "i < TLB_ENTRY_COUNT"
  shows "ok (mmu_complete_write i hi lo m) mmu_ok"
proof -
  let ?m = "m\<lparr>mmu_entries := (mmu_entries m)[i := tlb_entry_new hi lo],
      mmu_main_cache := lookup_cache_invalidate (mmu_main_cache m)\<rparr>"
  have "mmu_ok ?m"
    using assms by (auto simp: mmu_ok_def intro: invalidate_ok)
  moreover have "i < length (mmu_entries m)"
    using assms by (simp add: mmu_ok_def)
  ultimately show ?thesis
    using assms(2)
    by (simp add: mmu_complete_write_def Let_def advance_view_with_ok pending_ok_def)
qed

lemma read_indexed_ok [ok_rules]:
  "mmu_ok m \<Longrightarrow> i < TLB_ENTRY_COUNT \<Longrightarrow> ok (mmu_read_indexed m i) (\<lambda>_. True)"
  by (simp add: mmu_read_indexed_def mmu_ok_def)

lemma probe_ok [ok_rules]:
  "mmu_ok m \<Longrightarrow> ok (mmu_probe m hi) (\<lambda>r. \<forall>i. r = ProbeMatch i \<longrightarrow> i < TLB_ENTRY_COUNT)"
  by (auto simp: mmu_probe_def match_entries_lookup mmu_ok_def dest: tlb_lookup_Match_lt)

section \<open>Translation\<close>

text \<open>What a mapped translation yields, as a function of the lookup alone.\<close>

definition mapped_result :: "tlb_entry list \<Rightarrow> u32 \<Rightarrow> u8 \<Rightarrow> access_type \<Rightarrow> translation_fault + translation" where
  "mapped_result entries va asid access =
     (case tlb_lookup entries (mapped_page va) (mapped_asid asid) of
        ProbeMiss \<Rightarrow> Inl FaultTlbMiss
      | ProbeShutdown \<Rightarrow> Inl FaultTlbShutdown
      | ProbeMatch i \<Rightarrow>
          if te_lo (entries ! i) AND ENTRY_LO_VALID = 0 then Inl FaultTlbInvalid
          else if access = AccessStore \<and> te_lo (entries ! i) AND ENTRY_LO_DIRTY = 0
          then Inl FaultTlbModified
          else Inr
            \<lparr>tr_address = ucast ((te_lo (entries ! i) AND ENTRY_LO_PFN_MASK) OR
                (va AND NOT MMU_ENTRY_HI_VPN_MASK)),
             tr_cacheability =
               (if te_lo (entries ! i) AND ENTRY_LO_NONCACHEABLE = 0 then Cached else Uncached)\<rparr>)"

lemma finish_lookup:
  "finish_mapped_translation entries va access (tlb_lookup entries (mapped_page va) (mapped_asid asid)) =
     Some (mapped_result entries va asid access)"
  using tlb_lookup_Match_lt [of entries "mapped_page va" "mapped_asid asid"]
  by (auto simp: finish_mapped_translation_def mapped_result_def split: probe_result.splits)

lemma translate_mapped_readonly_eq:
  "translate_mapped_readonly va asid access m =
     Some (mapped_result (access_entries m access) va asid access)"
  by (simp add: translate_mapped_readonly_def match_entries_lookup finish_lookup)

lemma translate_mapped_ok:
  assumes "mmu_ok m"
  shows "ok (translate_mapped va asid access m)
    (\<lambda>(t, m'). t = mapped_result (access_entries m access) va asid access \<and> mmu_ok m' \<and>
       access_entries m' = access_entries m)"
proof -
  have main: "ok (lookup_cache_resolve (mmu_entries m) (mapped_page va) (mapped_asid asid)
        (mmu_main_cache m))
      (\<lambda>(r, tc). r = tlb_lookup (mmu_entries m) (mapped_page va) (mapped_asid asid) \<and>
         lookup_cache_ok (mmu_entries m) tc)"
    using assms by (intro resolve_ok) (simp_all add: mmu_ok_def)
  have ins: "ok (lookup_cache_resolve (mmu_instruction_entries m) (mapped_page va)
        (mapped_asid asid) (mmu_instruction_cache m))
      (\<lambda>(r, tc). r = tlb_lookup (mmu_instruction_entries m) (mapped_page va) (mapped_asid asid) \<and>
         lookup_cache_ok (mmu_instruction_entries m) tc)"
    using assms by (intro resolve_ok) (simp_all add: mmu_ok_def)
  show ?thesis
    using assms main ins
    by (cases access)
      (auto simp: translate_mapped_def ok_ex access_entries_def finish_lookup mmu_ok_def fun_eq_iff
        split: access_type.splits)
qed

text \<open>The translation the architecture defines, as a function of the TLB contents alone.\<close>

definition translation_spec ::
  "tlb_entry list \<Rightarrow> u32 \<Rightarrow> u8 \<Rightarrow> bool \<Rightarrow> access_type \<Rightarrow> translation_fault + translation"
where
  "translation_spec entries va asid km access =
     (if va < 0x80000000 then mapped_result entries va asid access
      else if \<not> km then Inl FaultAddressError
      else if va < 0xa0000000 then Inr (unmapped_translation va Cached)
      else if va < 0xc0000000 then Inr (unmapped_translation va Uncached)
      else mapped_result entries va asid access)"

lemma segment_bounds:
  "va \<le> KUSEG_END \<longleftrightarrow> va < 0x80000000"
  "KSEG0_START \<le> va \<longleftrightarrow> \<not> va < 0x80000000"
  "va \<le> KSEG0_END \<longleftrightarrow> va < 0xa0000000"
  "KSEG1_START \<le> va \<longleftrightarrow> \<not> va < 0xa0000000"
  "va \<le> KSEG1_END \<longleftrightarrow> va < 0xc0000000"
  by (auto simp: KUSEG_END_def KSEG0_START_def KSEG0_END_def KSEG1_START_def KSEG1_END_def
      word_le_nat_alt word_less_nat_alt)

lemma translate_readonly_spec:
  "mmu_translate_readonly va asid km access m =
     Some (translation_spec (access_entries m access) va asid km access)"
  by (auto simp: mmu_translate_readonly_def translation_spec_def translate_mapped_readonly_eq
      segment_bounds)

lemma translate_ok [ok_rules]:
  assumes "mmu_ok m"
  shows "ok (mmu_translate va asid km access m)
    (\<lambda>(t, m'). t = translation_spec (access_entries m access) va asid km access \<and> mmu_ok m' \<and>
       access_entries m' = access_entries m)"
  using assms translate_mapped_ok [OF assms, of va asid access]
  by (auto simp: mmu_translate_def translation_spec_def segment_bounds)

section \<open>Reachable states\<close>

inductive mmu_reachable :: "mmu \<Rightarrow> bool" where
  reach_new: "mmu_reachable mmu_new"
| reach_reset: "mmu_reachable m \<Longrightarrow> mmu_reachable (mmu_reset m)"
| reach_clone: "mmu_reachable m \<Longrightarrow> mmu_reachable (mmu_clone m)"
| reach_translate:
    "mmu_reachable m \<Longrightarrow> mmu_translate va asid km access m = Some (t, m') \<Longrightarrow> mmu_reachable m'"
| reach_advance: "mmu_reachable m \<Longrightarrow> advance_instruction_view m = Some m' \<Longrightarrow> mmu_reachable m'"
| reach_write:
    "mmu_reachable m \<Longrightarrow> mmu_complete_write i hi lo m = Some m' \<Longrightarrow> i < TLB_ENTRY_COUNT \<Longrightarrow>
       mmu_reachable m'"

lemma reachable_ok: "mmu_reachable m \<Longrightarrow> mmu_ok m"
proof (induction rule: mmu_reachable.induct)
  case (reach_translate m va asid km access t m')
  then show ?case using translate_ok [of m va asid km access] by simp
next
  case (reach_advance m m')
  then show ?case using advance_view_ok [of m] by simp
next
  case (reach_write m i hi lo m')
  then show ?case using complete_write_ok [of m i hi lo] by simp
qed (simp_all add: mmu_ok_clone)

text \<open>
  C4. The lookup caches are transparent. In every state the unit can reach, through any sequence
  of translations, TLB writes, view advances, resets and clones (including the wrap of the
  generation counter), a translation does not panic, its result is the one the segment map and
  the duplicate-entry rule define from the TLB contents alone, the read-only translation agrees,
  and the TLB contents are untouched.
\<close>

theorem translate_transparent:
  assumes "mmu_reachable m"
  shows "\<exists>m'. mmu_translate va asid km access m =
      Some (translation_spec (access_entries m access) va asid km access, m') \<and>
    mmu_translate_readonly va asid km access m =
      Some (translation_spec (access_entries m access) va asid km access) \<and>
    mmu_reachable m' \<and> access_entries m' = access_entries m"
proof -
  obtain m' where "mmu_translate va asid km access m =
      Some (translation_spec (access_entries m access) va asid km access, m')"
    "access_entries m' = access_entries m"
    using translate_ok [OF reachable_ok [OF assms], of va asid km access] by (auto simp: ok_ex)
  then show ?thesis
    using reach_translate [OF assms] by (auto simp: translate_readonly_spec)
qed

theorem translate_transparent_witness:
  "\<exists>m'. mmu_translate 0x1000 0 False AccessLoad mmu_new = Some (Inl FaultTlbMiss, m') \<and>
     mmu_reachable m'"
proof -
  have "translation_spec (access_entries mmu_new AccessLoad) 0x1000 0 False AccessLoad = Inl FaultTlbMiss"
    by code_simp
  then show ?thesis
    using translate_transparent [OF reach_new, where va = "0x1000" and asid = 0 and km = False and access = AccessLoad] by auto
qed

section \<open>Protection\<close>

lemma ucast_u64_lt: "unat (ucast (w :: u32) :: u64) < 2 ^ 32"
proof -
  have "unat (ucast w :: u64) = unat w"
    using unsigned_less [of w, where 'a = nat]
    by (simp add: unsigned_ucast_eq take_bit_nat_eq_self)
  then show ?thesis using unsigned_less [of w, where 'a = nat] by simp
qed

lemma page_offset:
  "ucast ((lo AND ENTRY_LO_PFN_MASK) OR (va AND NOT MMU_ENTRY_HI_VPN_MASK)) AND 0xfff
     = (ucast va AND 0xfff :: u64)"
proof (rule bit_word_eqI)
  fix n assume "n < LENGTH(64)"
  have masks: "ENTRY_LO_PFN_MASK = push_bit 12 (mask 20)" "MMU_ENTRY_HI_VPN_MASK = push_bit 12 (mask 20)"
    "(0xfff :: u64) = mask 12"
    by (simp_all add: ENTRY_LO_PFN_MASK_def MMU_ENTRY_HI_VPN_MASK_def mask_numeral)
  show "bit (ucast ((lo AND ENTRY_LO_PFN_MASK) OR (va AND NOT MMU_ENTRY_HI_VPN_MASK)) AND 0xfff :: u64) n
      = bit (ucast va AND 0xfff :: u64) n"
    unfolding masks by (auto simp: bit_simps)
qed

lemma unmapped_offset: "ucast (va AND PHYSICAL_ADDRESS_MASK) AND 0xfff = (ucast va AND 0xfff :: u64)"
proof (rule bit_word_eqI)
  fix n assume "n < LENGTH(64)"
  have masks: "PHYSICAL_ADDRESS_MASK = mask 29" "(0xfff :: u64) = mask 12"
    by (simp_all add: PHYSICAL_ADDRESS_MASK_def mask_numeral)
  show "bit (ucast (va AND PHYSICAL_ADDRESS_MASK) AND 0xfff :: u64) n = bit (ucast va AND 0xfff :: u64) n"
    unfolding masks by (auto simp: bit_simps)
qed

text \<open>A successful mapped translation rests on one permission that every matching entry shares.\<close>

definition mapping_permits :: "tlb_entry list \<Rightarrow> u32 \<Rightarrow> u8 \<Rightarrow> access_type \<Rightarrow> translation \<Rightarrow> bool" where
  "mapping_permits entries va asid access t \<longleftrightarrow>
     (\<exists>i < length entries. tag_matches (entries ! i) (mapped_page va) (mapped_asid asid) \<and>
        te_lo (entries ! i) AND ENTRY_LO_VALID \<noteq> 0 \<and>
        (access = AccessStore \<longrightarrow> te_lo (entries ! i) AND ENTRY_LO_DIRTY \<noteq> 0) \<and>
        (\<forall>j < length entries. tag_matches (entries ! j) (mapped_page va) (mapped_asid asid) \<longrightarrow>
           te_lo (entries ! j) = te_lo (entries ! i)) \<and>
        tr_address t = ucast ((te_lo (entries ! i) AND ENTRY_LO_PFN_MASK) OR
          (va AND NOT MMU_ENTRY_HI_VPN_MASK)) \<and>
        (tr_cacheability t = Uncached \<longleftrightarrow> te_lo (entries ! i) AND ENTRY_LO_NONCACHEABLE \<noteq> 0))"

lemma tlb_lookup_Match:
  assumes "tlb_lookup entries page asid = ProbeMatch i"
  shows "tag_matches (entries ! i) page asid"
    "j < length entries \<Longrightarrow> tag_matches (entries ! j) page asid \<Longrightarrow>
       te_lo (entries ! j) = te_lo (entries ! i)"
proof -
  obtain "is" where slots: "matching_slots entries page asid = i # is"
    using assms by (auto simp: tlb_lookup_def split: list.splits if_splits)
  then have "i \<in> set (matching_slots entries page asid)" by simp
  then show match: "tag_matches (entries ! i) page asid" by (simp add: matching_slots_def)
  assume j: "j < length entries" "tag_matches (entries ! j) page asid"
  have "tlb_lookup entries page asid \<noteq> ProbeShutdown" using assms by simp
  then show "te_lo (entries ! j) = te_lo (entries ! i)"
    using j match tlb_lookup_Match_lt [OF assms] unfolding tlb_lookup_iff by blast
qed

lemma mapped_result_permits:
  assumes "mapped_result entries va asid access = Inr t"
  shows "mapping_permits entries va asid access t" "unat (tr_address t) < 2 ^ 32"
    "tr_address t AND 0xfff = ucast va AND 0xfff"
proof -
  obtain i where i: "tlb_lookup entries (mapped_page va) (mapped_asid asid) = ProbeMatch i"
    using assms by (auto simp: mapped_result_def split: probe_result.splits)
  let ?lo = "te_lo (entries ! i)"
  have t: "t = \<lparr>tr_address = ucast ((?lo AND ENTRY_LO_PFN_MASK) OR (va AND NOT MMU_ENTRY_HI_VPN_MASK)),
      tr_cacheability = (if ?lo AND ENTRY_LO_NONCACHEABLE = 0 then Cached else Uncached)\<rparr>"
    and valid: "?lo AND ENTRY_LO_VALID \<noteq> 0"
    and dirty: "access = AccessStore \<longrightarrow> ?lo AND ENTRY_LO_DIRTY \<noteq> 0"
    using assms unfolding mapped_result_def i by (auto split: if_splits)
  show "unat (tr_address t) < 2 ^ 32" unfolding t translation.simps by (rule ucast_u64_lt)
  show "tr_address t AND 0xfff = ucast va AND 0xfff" unfolding t translation.simps by (rule page_offset)
  have cache: "tr_cacheability t = Uncached \<longleftrightarrow> ?lo AND ENTRY_LO_NONCACHEABLE \<noteq> 0"
    unfolding t translation.simps by simp
  show "mapping_permits entries va asid access t"
    unfolding mapping_permits_def
  proof (intro exI [of _ i] conjI)
    show "\<forall>j < length entries. tag_matches (entries ! j) (mapped_page va) (mapped_asid asid) \<longrightarrow>
        te_lo (entries ! j) = ?lo"
      by (intro allI impI) (rule tlb_lookup_Match(2) [OF i])
  qed (use tlb_lookup_Match(1) [OF i] tlb_lookup_Match_lt [OF i] valid dirty cache in
      \<open>simp_all only: t translation.simps simp_thms\<close>)
qed

lemma unmapped_facts:
  "tr_address (unmapped_translation va c) AND 0xfff = ucast va AND 0xfff"
  "unat (tr_address (unmapped_translation va c)) < 2 ^ 32"
  unfolding unmapped_translation_def translation.simps by (rule unmapped_offset ucast_u64_lt)+

text \<open>
  C5. Protection. When a translation succeeds, in any reachable state: user mode has reached
  only the lower half of the address space; the physical address lies in the 32-bit space and
  keeps the offset in the page; and outside the two unmapped segments some valid TLB entry
  matches the page and identifier, is writable if the access is a store, agrees with every other
  matching entry, and supplies the frame and the cacheability.
\<close>

theorem translate_protects:
  assumes "mmu_reachable m"
    and "mmu_translate va asid km access m = Some (Inr t, m')"
  shows "(km \<or> va < 0x80000000) \<and> unat (tr_address t) < 2 ^ 32 \<and>
    tr_address t AND 0xfff = ucast va AND 0xfff \<and>
    (0x80000000 \<le> va \<and> va < 0xc0000000 \<or>
     mapping_permits (access_entries m access) va asid access t)"
proof -
  have "translation_spec (access_entries m access) va asid km access = Inr t"
    using translate_ok [OF reachable_ok [OF assms(1)], of va asid km access] assms(2) by simp
  then consider (mapped) "km \<or> va < 0x80000000" "mapped_result (access_entries m access) va asid access = Inr t"
    | (unmapped) c where "km" "t = unmapped_translation va c" "0x80000000 \<le> va" "va < 0xc0000000"
    by (fastforce simp: translation_spec_def not_less word_less_nat_alt word_le_nat_alt split: if_splits)
  then show ?thesis
  proof cases
    case mapped
    then show ?thesis using mapped_result_permits [OF mapped(2)] by simp
  next
    case unmapped
    then show ?thesis using unmapped_facts [of va c] by simp
  qed
qed

text \<open>A page made valid, clean and uncached, read by a user program.\<close>

theorem translate_protects_witness:
  "\<exists>m m1 t. mmu_complete_write 3 0x00005000 0x00009a00 mmu_new = Some m \<and>
     mmu_translate 0x5123 0 False AccessLoad m = Some (Inr t, m1) \<and> tr_address t = 0x9123 \<and>
     mapping_permits (access_entries m AccessLoad) 0x5123 0 AccessLoad t"
proof -
  obtain m where m: "mmu_complete_write 3 0x00005000 0x00009a00 mmu_new = Some m"
    using complete_write_ok [of mmu_new 3 "0x5000" "0x9a00"] by (auto simp: ok_ex TLB_ENTRY_COUNT_def)
  then have reach: "mmu_reachable m"
    by (rule reach_write [OF reach_new]) (simp add: TLB_ENTRY_COUNT_def)
  have eval: "map_option (\<lambda>m. mmu_translate_readonly 0x5123 0 False AccessLoad m)
      (mmu_complete_write 3 0x00005000 0x00009a00 mmu_new) =
      Some (Some (Inr \<lparr>tr_address = 0x9123, tr_cacheability = Uncached\<rparr>))"
    by code_simp
  obtain t m1 where t: "mmu_translate 0x5123 0 False AccessLoad m = Some (Inr t, m1)"
    "tr_address t = 0x9123"
    using eval m translate_ok [OF reachable_ok [OF reach],
        where va = "0x5123" and asid = 0 and km = False and access = AccessLoad]
    by (auto simp: translate_readonly_spec ok_ex)
  show ?thesis
    using m t translate_protects [OF reach t(1)] by auto
qed

section \<open>The delayed instruction view\<close>

definition apply_pending :: "pending_tlb_write option \<Rightarrow> tlb_entry list \<Rightarrow> tlb_entry list" where
  "apply_pending p entries =
     (case p of None \<Rightarrow> entries | Some w \<Rightarrow> entries[pw_index w := pw_entry w])"

text \<open>The main TLB is the instruction view with the two waiting writes applied in order.\<close>

definition view_lags :: "mmu \<Rightarrow> bool" where
  "view_lags m \<longleftrightarrow>
     mmu_entries m = apply_pending (mmu_pending_second m)
       (apply_pending (mmu_pending_first m) (mmu_instruction_entries m))"

lemma advance_view_with_lags:
  assumes "advance_instruction_view_with w m = Some m'"
  shows "mmu_instruction_entries m' = apply_pending (mmu_pending_first m) (mmu_instruction_entries m)"
    "mmu_pending_first m' = mmu_pending_second m" "mmu_pending_second m' = w"
    "mmu_entries m' = mmu_entries m"
  using assms
  by (auto simp: advance_instruction_view_with_def apply_pending_def set_at_eq_Some bind_eq_Some_conv
      split: option.splits)

lemma translate_keeps:
  assumes "mmu_translate va asid km access m = Some (t, m')"
  shows "mmu_entries m' = mmu_entries m \<and> mmu_instruction_entries m' = mmu_instruction_entries m \<and>
    mmu_pending_first m' = mmu_pending_first m \<and> mmu_pending_second m' = mmu_pending_second m"
  using assms
  by (auto simp: mmu_translate_def translate_mapped_def bind_eq_Some_conv
      split: if_splits access_type.splits)

lemma reachable_view_lags: "mmu_reachable m \<Longrightarrow> view_lags m"
proof (induction rule: mmu_reachable.induct)
  case (reach_translate m va asid km access t m')
  then show ?case using translate_keeps [OF reach_translate.hyps(2)] by (simp add: view_lags_def)
next
  case (reach_advance m m')
  then show ?case
    using advance_view_with_lags [of None m m']
    by (simp add: view_lags_def advance_instruction_view_def apply_pending_def)
next
  case (reach_write m i hi lo m')
  let ?w = "\<lparr>pw_index = i, pw_entry = tlb_entry_new hi lo\<rparr>"
  obtain m1 where "advance_instruction_view_with (Some ?w) m1 = Some m'"
    "mmu_entries m1 = (mmu_entries m)[i := tlb_entry_new hi lo]"
    "mmu_instruction_entries m1 = mmu_instruction_entries m"
    "mmu_pending_first m1 = mmu_pending_first m" "mmu_pending_second m1 = mmu_pending_second m"
    using reach_write.hyps(2)
    by (auto simp: mmu_complete_write_def Let_def set_at_eq_Some bind_eq_Some_conv)
  then show ?case
    using advance_view_with_lags [of "Some ?w" m1 m'] reach_write.IH
    by (simp add: view_lags_def apply_pending_def)
qed (simp_all add: view_lags_def mmu_new_def mmu_reset_def mmu_clone_def apply_pending_def)



end
