(* ===== verification/Cache_Correct.thy ===== *)
theory Cache_Correct
  imports Cache
begin

text \<open>
  Correctness of the caches. Over any bus that keeps the \<open>physical_bus\<close> contract no
  operation panics and the geometry invariant \<open>cache_ok\<close> is kept. Over a bus with plain
  memory (\<open>memory_bus\<close>) a cache is transparent: \<open>cache_coherent\<close> is kept by cached
  loads and stores, and they have the effect of the same accesses on the memory.
\<close>

section \<open>Geometry\<close>

definition cache_ok :: "cache \<Rightarrow> bool" where
  "cache_ok c \<longleftrightarrow>
     (\<exists>k. 10 \<le> k \<and> k \<le> 30 \<and> length (ch_entries c) = 2 ^ k) \<and>
     valid_refill_size (ch_refill_bytes c) \<and>
     list_all (\<lambda>e. length (ce_data e) = WORD_BYTES) (ch_entries c)"

definition caches_ok :: "caches \<Rightarrow> bool" where
  "caches_ok cs \<longleftrightarrow> cache_ok (cs_instruction cs) \<and> cache_ok (cs_data cs)"

lemma not_three: "(NOT 3 :: u32) = NOT (mask 2)"
  by (simp add: mask_numeral)

lemma offset_low: "unat ((ucast a :: u32) AND 3) = byte_offset a" for a :: u64
proof -
  have "ucast (a AND 3) = (ucast a AND 3 :: u32)"
    by (rule bit_word_eqI) (auto simp: bit_simps)
  moreover have "unat (ucast (a AND 3) :: u32) = unat (a AND 3)"
  proof -
    have "unat (a AND mask 2) < 2 ^ 2" by (rule word_and_mask_lt_nat)
    then have "unat (a AND 3) < 2 ^ 32" by (simp add: mask_numeral)
    then show ?thesis by (simp add: unsigned_ucast_eq take_bit_nat_eq_self)
  qed
  ultimately show ?thesis by (simp add: byte_offset_def)
qed

lemma byte_offset_lt: "byte_offset a < 4"
  using word_and_mask_lt_nat [of a 2] by (simp add: byte_offset_def mask_numeral)

lemma access_Some:
  assumes "word_transaction a n"
  shows "cache_access c a n = Some
    \<lparr>ca_word_address = word_of_phys a, ca_offset = byte_offset a,
     ca_index = cache_index c (word_of_phys a), ca_page_frame = page_frame (word_of_phys a)\<rparr>"
  using assms
  by (simp add: cache_access_def word_transaction_def Let_def offset_low WORD_BYTES_def
      word_of_phys_def byte_offset_def)

lemma cache_index_lt: "cache_ok c \<Longrightarrow> cache_index c wa < length (ch_entries c)"
proof -
  assume "cache_ok c"
  then obtain k where k: "length (ch_entries c) = 2 ^ k" by (auto simp: cache_ok_def)
  have "cache_index c wa = take_bit k (unat (drop_bit 2 wa))"
    by (simp add: cache_index_def k take_bit_eq_mask mask_eq_exp_minus_1)
  then show ?thesis by (simp add: k)
qed

lemma bit_cache_index:
  assumes "length (ch_entries c) = 2 ^ k"
  shows "bit (cache_index c wa) i \<longleftrightarrow> i < k \<and> bit wa (i + 2)"
proof -
  have "cache_index c wa = take_bit k (unat (drop_bit 2 wa))"
    by (simp add: cache_index_def assms take_bit_eq_mask mask_eq_exp_minus_1)
  then show ?thesis
    by (auto simp: bit_take_bit_iff bit_unsigned_iff bit_drop_bit_eq add.commute dest: bit_u32)
qed

lemma page_frame_bits: "PAGE_FRAME_MASK = push_bit 12 (mask 20)"
  by (simp add: PAGE_FRAME_MASK_def mask_numeral)

lemma bit_page_frame: "bit (page_frame wa) n \<longleftrightarrow> 12 \<le> n \<and> bit wa n"
  unfolding page_frame_def page_frame_bits by (auto simp: bit_simps dest: bit_u32)

lemma word_of_phys_aligned [simp]: "word_aligned (word_of_phys a)"
  unfolding word_aligned_def word_of_phys_def not_three by (simp add: bit_simps)

text \<open>A slot and a page frame determine the word: the cache is at least one page long.\<close>

lemma slot_inj:
  assumes "cache_ok c" "word_aligned wa" "word_aligned wa'"
    "cache_index c wa = cache_index c wa'" "page_frame wa = page_frame wa'"
  shows "wa = wa'"
proof (rule bit_word_eqI)
  fix n
  obtain k where k: "10 \<le> k" "length (ch_entries c) = 2 ^ k"
    using assms(1) by (auto simp: cache_ok_def)
  consider "n < (2::nat)" | "2 \<le> n" "n < 12" | "12 \<le> n" by linarith
  then show "bit wa n = bit wa' n"
  proof cases
    case 1
    then show ?thesis using assms(2,3) by (auto simp: word_aligned_def less_2_cases_iff)
  next
    case 2
    then have "n - 2 < k" "n - 2 + 2 = n" using k(1) by simp_all
    then show ?thesis
      using arg_cong [OF assms(4), of "\<lambda>x. bit x (n - 2)"] by (simp add: bit_cache_index [OF k(2)])
  next
    case 3
    then show ?thesis
      using arg_cong [OF assms(5), of "\<lambda>x. bit x n"] by (simp add: bit_page_frame)
  qed
qed

lemma cache_ok_update:
  assumes "cache_ok c" "length (ce_data e) = WORD_BYTES"
  shows "cache_ok (c\<lparr>ch_entries := (ch_entries c)[i := e]\<rparr>)"
  using assms set_update_subset_insert [of "ch_entries c" i e]
  by (auto simp: cache_ok_def list_all_iff)

lemma cache_index_update [simp]:
  "cache_index (c\<lparr>ch_entries := (ch_entries c)[i := e]\<rparr>) wa = cache_index c wa"
  by (simp add: cache_index_def)

lemma cache_data_length:
  "cache_ok c \<Longrightarrow> i < length (ch_entries c) \<Longrightarrow> length (ce_data (ch_entries c ! i)) = 4"
  by (auto simp: cache_ok_def list_all_iff WORD_BYTES_def)

lemma cache_ok_new:
  assumes "valid_cache_size n" "valid_refill_size r"
  shows "cache_ok (cache_new n r)"
proof -
  obtain k where "n div 4 = 2 ^ k" "10 \<le> k" "k \<le> 16"
    using valid_cache_size_power [OF assms(1)] by blast
  then show ?thesis
    using assms(2) by (auto simp: cache_ok_def cache_new_def CACHE_ENTRY_INVALID_def WORD_BYTES_def list_all_iff)
qed

lemma caches_ok_new: "config_valid cfg \<Longrightarrow> caches_ok (caches_new cfg)"
  by (simp add: caches_ok_def caches_new_def config_valid_def cache_ok_new)

lemma copy_fragment_Some:
  assumes "length w = 4" "1 \<le> n" "off + n \<le> 4"
  shows "copy_word_fragment n w off = Some (take n (drop off w))"
  using assms by (auto simp: copy_word_fragment_def bind_require)

lemma merge_bytes_Some:
  assumes "length w = 4" "off + length bs \<le> 4"
  shows "merge_bytes off bs w = Some (take off w @ bs @ drop (off + length bs) w)"
  using assms by (simp add: merge_bytes_def bind_require)

lemma aligned_and_3:
  assumes "word_aligned wa"
  shows "(ucast wa AND 3 :: u64) = 0"
proof -
  have m: "(3 :: u64) = mask 2" by (simp add: mask_numeral)
  show ?thesis
    unfolding m using assms
    by (intro bit_word_eqI) (auto simp: bit_simps word_aligned_def less_2_cases_iff intro: gr0I)
qed

lemma aligned_phys:
  assumes "word_aligned wa"
  shows "word_of_phys (ucast wa) = wa" "byte_offset (ucast wa) = 0"
proof -
  show "word_of_phys (ucast wa) = wa"
    unfolding word_of_phys_def not_three using assms
    by (intro bit_word_eqI) (auto simp: bit_simps word_aligned_def less_2_cases_iff not_less intro: gr0I)
  show "byte_offset (ucast wa) = 0" by (simp add: byte_offset_def aligned_and_3 [OF assms])
qed

section \<open>The refill block\<close>

lemma refill_size_mask:
  assumes "valid_refill_size r"
  obtains m where "r = 2 ^ m" "2 \<le> m" "m \<le> 7" "(word_of_nat r - 1 :: u32) = mask m"
    "r div WORD_BYTES = 2 ^ (m - 2)"
proof -
  have "r = 2 ^ 2 \<or> r = 2 ^ 4 \<or> r = 2 ^ 5 \<or> r = 2 ^ 6 \<or> r = 2 ^ 7"
    using assms by (auto simp: valid_refill_size_def)
  then obtain m where m: "r = 2 ^ m" "m \<in> {2, 4, 5, 6, 7}" by blast
  have "(word_of_nat r - 1 :: u32) = mask m"
    by (simp add: m(1) mask_eq_exp_minus_1)
  moreover have "r div WORD_BYTES = 2 ^ (m - 2)"
    using m(2) by (auto simp: m(1) WORD_BYTES_def)
  ultimately show ?thesis using that m by auto
qed

text \<open>Word \<open>j\<close> of the block that starts at \<open>base\<close>.\<close>

definition block_word :: "u32 \<Rightarrow> nat \<Rightarrow> u32" where
  "block_word base j = base + word_of_nat (j * WORD_BYTES)"

lemma unat_block_offset: "j < 2 ^ (m - 2) \<Longrightarrow> m \<le> 7 \<Longrightarrow> 2 \<le> m \<Longrightarrow>
    unat (word_of_nat (j * WORD_BYTES) :: u32) = j * 4 \<and> j * 4 < 2 ^ m"
proof -
  assume j: "j < 2 ^ (m - 2)" and m: "m \<le> 7" "2 \<le> m"
  have "(2::nat) ^ m = 2 ^ (m - 2) * 2 ^ 2"
    using m(2) by (metis power_add le_add_diff_inverse2)
  then have lt: "j * 4 < 2 ^ m" using j by simp
  moreover have "(2::nat) ^ m \<le> 2 ^ 7" using m(1) by (rule power_increasing) simp
  ultimately have "j * 4 < 2 ^ 32" by simp
  then have "unat (word_of_nat (j * 4) :: u32) = j * 4"
    unfolding unat_of_nat by simp
  then show ?thesis using lt unfolding WORD_BYTES_def by blast
qed

lemma bit_block_word:
  assumes "base AND mask m = 0" "j < 2 ^ (m - 2)" "2 \<le> m" "m \<le> 7"
  shows "bit (block_word base j) n \<longleftrightarrow>
    (if n < m then 2 \<le> n \<and> bit j (n - 2) else bit base n)"
proof -
  define x where "x = (word_of_nat (j * WORD_BYTES) :: u32)"
  let ?x = x
  have x: "unat ?x = j * 4" "j * 4 < 2 ^ m" unfolding x_def using unat_block_offset assms by blast+
  have bit_x: "bit ?x i \<longleftrightarrow> 2 \<le> i \<and> bit j (i - 2)" for i
  proof -
    have "bit ?x i \<longleftrightarrow> bit (unat ?x) i" by (auto simp: bit_unsigned_iff dest: bit_u32)
    also have "unat ?x = push_bit 2 j" unfolding x(1) push_bit_eq_mult by simp
    finally show ?thesis by (simp add: bit_push_bit_iff)
  qed
  have low: "bit ?x i \<Longrightarrow> i < m" for i
  proof -
    assume "bit ?x i"
    then have "bit (unat ?x) i" by (auto simp: bit_unsigned_iff dest: bit_u32)
    moreover have "take_bit m (unat ?x) = unat ?x" unfolding x(1) by (rule take_bit_nat_eq_self) (rule x(2))
    ultimately have "bit (take_bit m (unat ?x)) i" by simp
    then show "i < m" by (simp add: bit_take_bit_iff)
  qed
  have high: "bit base i \<Longrightarrow> m \<le> i" for i
  proof -
    assume b: "bit base i"
    have "\<not> bit (base AND mask m) i" using assms(1) by simp
    then show "m \<le> i" using b by (auto simp: bit_and_iff bit_mask_iff dest: bit_u32)
  qed
  have "base AND ?x = 0"
    by (rule bit_word_eqI) (use low high in \<open>auto simp: bit_and_iff dest: leD\<close>)
  then have "block_word base j = base OR ?x"
    unfolding block_word_def x_def by (rule disjunctive_add_eq_or)
  then show ?thesis using low high bit_x by (auto simp: bit_or_iff not_less dest: leD)
qed

lemma block_word_frame:
  assumes "base AND mask m = 0" "j < 2 ^ (m - 2)" "2 \<le> m" "m \<le> 7"
  shows "page_frame (block_word base j) = page_frame base" "word_aligned (block_word base j)"
proof -
  show "page_frame (block_word base j) = page_frame base"
    by (rule bit_word_eqI) (use assms in \<open>auto simp: bit_page_frame bit_block_word [OF assms]\<close>)
  show "word_aligned (block_word base j)"
    using assms by (auto simp: word_aligned_def bit_block_word [OF assms])
qed

lemma refill_base_zero: "(wa AND NOT (mask m)) AND mask m = 0" for wa :: u32
  by (rule bit_word_eqI) (auto simp: bit_simps)

lemma refill_base_frame: "m \<le> 7 \<Longrightarrow> page_frame (wa AND NOT (mask m)) = page_frame wa"
  by (rule bit_word_eqI) (auto simp: bit_page_frame bit_simps)

text \<open>The word asked for is one of the block.\<close>

lemma block_covers:
  assumes "word_aligned wa" "2 \<le> m" "m \<le> 7"
  obtains j where "j < 2 ^ (m - 2)" "wa = block_word (wa AND NOT (mask m)) j"
proof -
  let ?j = "take_bit (m - 2) (unat (drop_bit 2 wa))"
  have j: "?j < 2 ^ (m - 2)" by simp
  have "wa = block_word (wa AND NOT (mask m)) ?j"
  proof (rule bit_word_eqI)
    fix n
    assume "n < LENGTH(32)"
    then show "bit wa n = bit (block_word (wa AND NOT (mask m)) ?j) n"
    proof (cases "n < 2")
      case True
      then show ?thesis
        using assms unfolding bit_block_word [OF refill_base_zero j assms(2,3)]
        by (auto simp: word_aligned_def less_2_cases_iff)
    next
      case False
      then have "bit wa (Suc (Suc (n - 2))) = bit wa n" by (metis Suc_diff_Suc Suc_1 diff_Suc_1 less_Suc_eq not_less_eq numeral_2_eq_2)
      then show ?thesis
        using False \<open>n < LENGTH(32)\<close> unfolding bit_block_word [OF refill_base_zero j assms(2,3)]
        by (auto simp: bit_simps)
    qed
  qed
  then show ?thesis using that j by blast
qed

section \<open>No operation panics\<close>

lemma word_transaction_aligned:
  assumes "word_aligned wa"
  shows "word_transaction (ucast wa) 4"
proof -
  have "(ucast wa AND 3 :: u64) = 0" using assms by (rule aligned_and_3)
  moreover have "unat (ucast wa :: u64) < 2 ^ 32"
    using unsigned_less [of wa, where 'a = nat]
    by (simp add: unsigned_ucast_eq take_bit_nat_eq_self)
  ultimately show ?thesis by (simp add: word_transaction_def)
qed

lemma refill_store_ok:
  "cache_ok c \<Longrightarrow> list_all (\<lambda>w. length w = WORD_BYTES) ws \<Longrightarrow>
     ok (refill_store base i ws c) (\<lambda>c'. cache_ok c' \<and> length (ch_entries c') = length (ch_entries c))"
proof (induction ws arbitrary: i c)
  case Nil
  then show ?case by simp
next
  case (Cons w ws)
  let ?c = "c\<lparr>ch_entries := (ch_entries c)[cache_index c (block_word base i) :=
      \<lparr>ce_page_frame = page_frame (block_word base i), ce_data = w, ce_valid = True\<rparr>]\<rparr>"
  have "cache_ok ?c" using Cons.prems by (intro cache_ok_update) simp_all
  then show ?case
    using Cons.IH [of ?c "i + 1"] Cons.prems cache_index_lt [OF Cons.prems(1)]
    by (simp add: block_word_def Let_def)
qed

context physical_bus
begin

lemma refill_read_ok:
  assumes "base AND mask m = 0" "2 \<le> m" "m \<le> 7"
  shows "bus_ok b \<Longrightarrow> i + words \<le> 2 ^ (m - 2) \<Longrightarrow>
    ok (refill_read ops base i words b) (\<lambda>(r, b'). bus_ok b' \<and>
      (\<forall>ws. r = Inr ws \<longrightarrow> list_all (\<lambda>w. length w = WORD_BYTES) ws))"
proof (induction words arbitrary: i b)
  case 0
  then show ?case by simp
next
  case (Suc words)
  have "word_aligned (block_word base i)"
    using Suc.prems assms by (intro block_word_frame(2) [of base m]) simp_all
  then have read: "ok (bus_read ops b (ucast (block_word base i)) WORD_BYTES)
      (\<lambda>(r, b'). bus_ok b' \<and> (\<forall>bs. r = Inr bs \<longrightarrow> length bs = WORD_BYTES))"
    using read_total [OF Suc.prems(1) word_transaction_aligned] by (simp add: WORD_BYTES_def)
  show ?case
    unfolding refill_read.simps Let_def block_word_def [symmetric] ok_bind
  proof (rule ok_mono [OF read], clarify)
    fix r :: "bus_error + u8 list" and b'
    assume b': "bus_ok b'" and len: "\<forall>bs. r = Inr bs \<longrightarrow> length bs = WORD_BYTES"
    show "ok (case r of Inl fault \<Rightarrow> Some (Inl fault, b')
        | Inr word \<Rightarrow> Option.bind (refill_read ops base (i + 1) words b')
            (\<lambda>(rest, b2). Some (map_sum id ((#) word) rest, b2)))
      (\<lambda>(r, b'). bus_ok b' \<and> (\<forall>ws. r = Inr ws \<longrightarrow> list_all (\<lambda>w. length w = WORD_BYTES) ws))"
    proof (cases r)
      case (Inl fault)
      then show ?thesis using b' by simp
    next
      case (Inr word)
      then show ?thesis
        using Suc.IH [OF b', of "i + 1"] Suc.prems(2) len
        by (auto simp: ok_ex split: sum.splits) (auto simp: map_sum_def split: sum.splits)
    qed
  qed
qed

lemma cache_read_ok:
  assumes "cache_ok c" "bus_ok b" "word_transaction a n"
  shows "ok (cache_read ops a n c b) (\<lambda>(r, c', b'). cache_ok c' \<and> bus_ok b' \<and>
    (\<forall>bs. r = Inr bs \<longrightarrow> length bs = n))"
proof -
  let ?i = "cache_index c (word_of_phys a)"
  have n: "1 \<le> n" "byte_offset a + n \<le> 4"
    using assms(3) by (simp_all add: word_transaction_def byte_offset_def)
  have i: "?i < length (ch_entries c)" using assms(1) by (rule cache_index_lt)
  have copy: "ok (copy_word_fragment n w (byte_offset a)) (\<lambda>bs. length bs = n)" if "length w = 4" for w
    using n that by (simp add: copy_fragment_Some)
  obtain m where m: "(word_of_nat (ch_refill_bytes c) - 1 :: u32) = mask m" "2 \<le> m" "m \<le> 7"
    "ch_refill_bytes c div WORD_BYTES = 2 ^ (m - 2)"
    using assms(1) refill_size_mask unfolding cache_ok_def by metis
  let ?base = "word_of_phys a AND NOT (mask m)"
  have refill: "ok (refill_read ops ?base 0 (2 ^ (m - 2)) b) (\<lambda>(r, b'). bus_ok b' \<and>
      (\<forall>ws. r = Inr ws \<longrightarrow> list_all (\<lambda>w. length w = WORD_BYTES) ws))"
    using assms(2) m by (intro refill_read_ok [of _ m]) (simp_all add: refill_base_zero)
  have store: "ok (refill_store ?base 0 ws c) (\<lambda>c'. cache_ok c' \<and> ?i < length (ch_entries c'))"
    if "list_all (\<lambda>w. length w = WORD_BYTES) ws" for ws
    using refill_store_ok [OF assms(1) that] by (rule ok_mono) (use i in auto)
  show ?thesis
    using i copy [OF cache_data_length [OF assms(1) i]] assms(1,2)
    by (auto simp: cache_read_def access_Some [OF assms(3)] Let_def m
        intro!: ok_mono [OF refill] ok_mono [OF store] ok_mono [OF copy] cache_data_length
        split: sum.splits)
qed

lemma cache_write_ok:
  assumes "cache_ok c" "bus_ok b" "word_transaction a (length bs)"
  shows "ok (cache_write ops a bs ps c b) (\<lambda>(r, c', b'). cache_ok c' \<and> bus_ok b')"
proof -
  let ?i = "cache_index c (word_of_phys a)"
  let ?e = "ch_entries c ! ?i"
  have n: "1 \<le> length bs" "byte_offset a + length bs \<le> 4"
    using assms(3) by (simp_all add: word_transaction_def byte_offset_def)
  have i: "?i < length (ch_entries c)" using assms(1) by (rule cache_index_lt)
  have e: "length (ce_data ?e) = 4" using assms(1) i by (rule cache_data_length)
  have direct: "ok (bus_write ops b a bs) (\<lambda>(r, b'). bus_ok b')"
    using assms by (intro write_total)
  have merged: "ok (bus_write ops b (ucast (word_of_phys a)) w) (\<lambda>(r, b'). bus_ok b')"
    if "length w = 4" for w
    using assms that by (intro write_total) (simp_all add: word_transaction_aligned)
  have install: "cache_ok (c\<lparr>ch_entries := (ch_entries c)[?i := entry]\<rparr>)"
    if "length (ce_data entry) = 4" for entry
    using assms(1) that by (intro cache_ok_update) (simp_all add: WORD_BYTES_def)
  show ?thesis
    using i n e assms(1,2)
    by (auto simp: cache_write_def access_Some [OF assms(3)] WORD_BYTES_def merge_bytes_Some
        intro!: ok_mono [OF direct] ok_mono [OF merged] install split: sum.splits)
qed

lemma caches_read_ok:
  assumes "caches_ok cs" "bus_ok b" "word_transaction a n"
  shows "ok (caches_read ops bank a n cs b) (\<lambda>(r, cs', b'). caches_ok cs' \<and> bus_ok b' \<and>
    (\<forall>bs. r = Inr bs \<longrightarrow> length bs = n))"
proof -
  have "cache_ok (bank_cache bank cs)"
    using assms(1) by (cases bank) (simp_all add: bank_cache_def caches_ok_def)
  from cache_read_ok [OF this assms(2,3)] show ?thesis
    unfolding caches_read_def ok_bind
    by (rule ok_mono) (use assms(1) in \<open>cases bank; auto simp: set_bank_cache_def caches_ok_def\<close>)
qed

lemma caches_write_ok:
  assumes "caches_ok cs" "bus_ok b" "word_transaction a (length bs)"
  shows "ok (caches_write ops bank a bs cs b) (\<lambda>(r, cs', b'). caches_ok cs' \<and> bus_ok b')"
proof -
  have "cache_ok (bank_cache bank cs)"
    using assms(1) by (cases bank) (simp_all add: bank_cache_def caches_ok_def)
  from cache_write_ok [OF this assms(2,3)] show ?thesis
    unfolding caches_write_def ok_bind
    by (rule ok_mono) (use assms(1) in \<open>cases bank; auto simp: set_bank_cache_def caches_ok_def\<close>)
qed

end

lemma caches_read_isolated_ok:
  assumes "caches_ok cs" "word_transaction a n"
  shows "ok (caches_read_isolated bank a n cs) (\<lambda>(bs, miss). length bs = n)"
proof -
  have c: "cache_ok (bank_cache bank cs)"
    using assms(1) by (cases bank) (simp_all add: bank_cache_def caches_ok_def)
  have n: "1 \<le> n" "byte_offset a + n \<le> 4"
    using assms(2) by (simp_all add: word_transaction_def byte_offset_def)
  show ?thesis
    using cache_index_lt [OF c] cache_data_length [OF c] n
    by (simp add: caches_read_isolated_def cache_read_isolated_def access_Some [OF assms(2)]
        copy_fragment_Some)
qed

lemma caches_write_isolated_ok:
  assumes "caches_ok cs" "word_transaction a (length bs)"
  shows "ok (caches_write_isolated bank a bs cs) caches_ok"
proof -
  have c: "cache_ok (bank_cache bank cs)"
    using assms(1) by (cases bank) (simp_all add: bank_cache_def caches_ok_def)
  have "ok (cache_write_isolated a bs (bank_cache bank cs)) cache_ok"
    using cache_index_lt [OF c] cache_data_length [OF c] c
    by (auto simp: cache_write_isolated_def access_Some [OF assms(2)] WORD_BYTES_def
        intro!: cache_ok_update)
  then show ?thesis
    unfolding caches_write_isolated_def ok_bind
    by (rule ok_mono) (use assms(1) in \<open>cases bank; auto simp: set_bank_cache_def caches_ok_def\<close>)
qed

section \<open>Coherence\<close>

text \<open>Every valid line for a word of memory holds the bytes of that word.\<close>

definition cache_hit :: "cache \<Rightarrow> u32 \<Rightarrow> bool" where
  "cache_hit c wa \<longleftrightarrow> ce_valid (ch_entries c ! cache_index c wa) \<and>
     ce_page_frame (ch_entries c ! cache_index c wa) = page_frame wa"

definition cache_coherent :: "(u32 \<Rightarrow> u8 list option) \<Rightarrow> cache \<Rightarrow> bool" where
  "cache_coherent mem c \<longleftrightarrow>
     (\<forall>wa w. word_aligned wa \<longrightarrow> mem wa = Some w \<longrightarrow> cache_hit c wa \<longrightarrow>
        ce_data (ch_entries c ! cache_index c wa) = w)"

definition install :: "u32 \<Rightarrow> u8 list \<Rightarrow> cache \<Rightarrow> cache" where
  "install wa w c = c\<lparr>ch_entries := (ch_entries c)[cache_index c wa :=
     \<lparr>ce_page_frame = page_frame wa, ce_data = w, ce_valid = True\<rparr>]\<rparr>"

lemma install_ok: "cache_ok c \<Longrightarrow> length w = 4 \<Longrightarrow> cache_ok (install wa w c)"
  unfolding install_def by (rule cache_ok_update) (simp_all add: WORD_BYTES_def)

lemma cache_index_install [simp]: "cache_index (install wa w c) wa' = cache_index c wa'"
  by (simp add: install_def)

lemma install_nth:
  "cache_ok c \<Longrightarrow> ch_entries (install wa w c) ! cache_index c wa' =
     (if cache_index c wa' = cache_index c wa
      then \<lparr>ce_page_frame = page_frame wa, ce_data = w, ce_valid = True\<rparr>
      else ch_entries c ! cache_index c wa')"
  by (simp add: install_def cache_index_lt nth_list_update)

lemma install_coherent:
  assumes "cache_ok c" "cache_coherent mem c" "word_aligned wa"
  shows "cache_coherent (mem(wa \<mapsto> w)) (install wa w c)"
  unfolding cache_coherent_def
proof (intro allI impI)
  fix wa' w'
  assume al: "word_aligned wa'" and m: "(mem(wa \<mapsto> w)) wa' = Some w'"
    and hit: "cache_hit (install wa w c) wa'"
  show "ce_data (ch_entries (install wa w c) ! cache_index (install wa w c) wa') = w'"
  proof (cases "cache_index c wa' = cache_index c wa")
    case True
    then have "page_frame wa' = page_frame wa"
      using hit assms(1) by (simp add: cache_hit_def install_nth)
    then have "wa' = wa" using slot_inj [OF assms(1) al assms(3) True] by blast
    then show ?thesis using m assms(1) by (simp add: install_nth)
  next
    case False
    then show ?thesis
      using m hit al assms(1,2)
      by (auto simp: install_nth cache_hit_def cache_coherent_def split: if_splits)
  qed
qed

lemma install_same_coherent:
  assumes "cache_ok c" "cache_coherent mem c" "word_aligned wa" "mem wa = Some w"
  shows "cache_coherent mem (install wa w c)"
proof -
  have "mem(wa \<mapsto> w) = mem" using assms(4) by (simp add: fun_upd_idem)
  then show ?thesis using install_coherent [OF assms(1-3), of w] by simp
qed

lemma drop_line_coherent:
  assumes "cache_ok c" "cache_coherent mem c" "word_aligned wa"
  shows "cache_coherent (mem(wa \<mapsto> w))
    (c\<lparr>ch_entries := (ch_entries c)[cache_index c wa := e\<lparr>ce_valid := False\<rparr>]\<rparr>)"
  unfolding cache_coherent_def
proof (intro allI impI)
  let ?c = "c\<lparr>ch_entries := (ch_entries c)[cache_index c wa := e\<lparr>ce_valid := False\<rparr>]\<rparr>"
  fix wa' w'
  assume al: "word_aligned wa'" and m: "(mem(wa \<mapsto> w)) wa' = Some w'" and hit: "cache_hit ?c wa'"
  have "cache_index c wa' \<noteq> cache_index c wa"
    using hit cache_index_lt [OF assms(1)] by (auto simp: cache_hit_def)
  then show "ce_data (ch_entries ?c ! cache_index ?c wa') = w'"
    using m hit al assms(2) by (auto simp: cache_hit_def cache_coherent_def split: if_splits)
qed

lemma miss_coherent:
  assumes "cache_coherent mem c" "\<not> cache_hit c wa"
  shows "cache_coherent (mem(wa \<mapsto> w)) c"
  using assms by (auto simp: cache_coherent_def)

text \<open>Storing a block of memory words, one of which is the word asked for.\<close>

lemma refill_store_install:
  "cache_ok c \<Longrightarrow> length w = 4 \<Longrightarrow>
     refill_store base i (w # ws) c = refill_store base (i + 1) ws (install (block_word base i) w c)"
  by (simp add: Let_def install_def cache_index_lt WORD_BYTES_def block_word_def)

lemma refill_store_coherent:
  assumes "base AND mask m = 0" "2 \<le> m" "m \<le> 7"
  shows "cache_ok c \<Longrightarrow> cache_coherent mem c \<Longrightarrow> i + length ws \<le> 2 ^ (m - 2) \<Longrightarrow>
    (\<And>j. j < length ws \<Longrightarrow> mem (block_word base (i + j)) = Some (ws ! j) \<and> length (ws ! j) = 4) \<Longrightarrow>
    page_frame wa = page_frame base \<Longrightarrow>
    (cache_hit c wa \<or> (\<exists>j < length ws. wa = block_word base (i + j))) \<Longrightarrow>
    \<exists>c'. refill_store base i ws c = Some c' \<and> cache_ok c' \<and> cache_coherent mem c' \<and> cache_hit c' wa"
proof (induction ws arbitrary: i c)
  case Nil
  then show ?case by simp
next
  case (Cons w ws)
  let ?wi = "block_word base i"
  have frame: "page_frame ?wi = page_frame base" "word_aligned ?wi"
    using Cons.prems(3) assms by (intro block_word_frame [of base m]; simp)+
  have w: "mem ?wi = Some w" "length w = 4" using Cons.prems(4) [of 0] by simp_all
  let ?c = "install ?wi w c"
  have ok: "cache_ok ?c" using Cons.prems(1) w(2) by (rule install_ok)
  have coh: "cache_coherent mem ?c"
    using Cons.prems(1,2) frame(2) w(1) by (rule install_same_coherent)
  have hit: "cache_hit ?c wa \<or> (\<exists>j < length ws. wa = block_word base (i + 1 + j))"
  proof (cases "cache_hit ?c wa")
    case False
    have idx: "cache_index c wa \<noteq> cache_index c ?wi"
      using False Cons.prems(1,5) frame(1) by (auto simp: cache_hit_def install_nth)
    then have "\<not> cache_hit c wa" using False Cons.prems(1) by (auto simp: cache_hit_def install_nth)
    then obtain j where j: "j < length (w # ws)" "wa = block_word base (i + j)"
      using Cons.prems(6) by blast
    have "j \<noteq> 0"
    proof
      assume "j = 0"
      then show False using idx j by simp
    qed
    then obtain j' where "j = Suc j'" using not0_implies_Suc by blast
    then show ?thesis using j by auto
  qed simp
  have rest: "mem (block_word base (i + 1 + j)) = Some (ws ! j) \<and> length (ws ! j) = 4"
    if "j < length ws" for j
    using Cons.prems(4) [of "Suc j"] that by simp
  show ?case
    unfolding refill_store_install [OF Cons.prems(1) w(2)]
    using Cons.prems(3,5) ok coh hit rest by (intro Cons.IH) auto
qed

context memory_bus
begin

lemma refill_read_memory:
  assumes "base AND mask m = 0" "2 \<le> m" "m \<le> 7" "bus_ok b"
    "\<And>j. j < 2 ^ (m - 2) \<Longrightarrow> \<exists>w. peek b (block_word base j) = Some w"
  shows "i + words \<le> 2 ^ (m - 2) \<Longrightarrow>
    refill_read ops base i words b = Some (Inr (map (\<lambda>j. the (peek b (block_word base j))) [i..<i + words]), b)"
proof (induction words arbitrary: i)
  case 0
  then show ?case by simp
next
  case (Suc words)
  let ?wi = "block_word base i"
  have al: "word_aligned ?wi"
    using Suc.prems assms by (intro block_word_frame(2) [of base m]) simp_all
  obtain w where w: "peek b ?wi = Some w" using assms(5) [of i] Suc.prems by auto
  have "word_of_phys (ucast ?wi) = ?wi" "byte_offset (ucast ?wi) = 0"
    using al by (simp_all add: aligned_phys)
  then have "bus_read ops b (ucast ?wi) 4 = Some (Inr (take 4 w), b)"
    using read_memory [OF assms(4) word_transaction_aligned [OF al], of w] w by simp
  then have "bus_read ops b (ucast ?wi) WORD_BYTES = Some (Inr w, b)"
    using peek_length [OF assms(4) w] by (simp add: WORD_BYTES_def)
  moreover have "[i..<i + Suc words] = i # [i + 1..<i + 1 + words]"
    by (simp add: upt_conv_Cons)
  moreover have "refill_read ops base (i + 1) words b =
      Some (Inr (map (\<lambda>j. the (peek b (block_word base j))) [i + 1..<i + 1 + words]), b)"
    using Suc.prems by (intro Suc.IH) simp
  ultimately show ?case
    unfolding refill_read.simps Let_def block_word_def [symmetric]
    using w by simp
qed

lemma cache_read_memory:
  assumes "cache_ok c" "bus_ok b" "cache_coherent (peek b) c" "word_transaction a n"
    "peek b (word_of_phys a) = Some w"
  shows "\<exists>c'. cache_read ops a n c b = Some (Inr (take n (drop (byte_offset a) w)), c', b) \<and>
    cache_ok c' \<and> cache_coherent (peek b) c'"
proof -
  let ?wa = "word_of_phys a"
  have n: "1 \<le> n" "byte_offset a + n \<le> 4"
    using assms(4) by (simp_all add: word_transaction_def byte_offset_def)
  have w: "length w = 4" using assms(2,5) by (rule peek_length)
  have hit_data: "ce_data (ch_entries c' ! cache_index c' ?wa) = w"
    if "cache_coherent (peek b) c'" "cache_hit c' ?wa" for c'
    using that assms(5) unfolding cache_coherent_def by simp
  show ?thesis
  proof (cases "cache_hit c ?wa")
    case True
    then show ?thesis
      using assms hit_data n w cache_index_lt [OF assms(1), of ?wa]
      by (simp add: cache_read_def access_Some entry_hit_def cache_hit_def copy_fragment_Some)
  next
    case False
    obtain m where m: "(word_of_nat (ch_refill_bytes c) - 1 :: u32) = mask m" "2 \<le> m" "m \<le> 7"
      "ch_refill_bytes c div WORD_BYTES = 2 ^ (m - 2)"
      using assms(1) refill_size_mask unfolding cache_ok_def by metis
    let ?base = "?wa AND NOT (mask m)"
    have base: "?base AND mask m = 0" by (rule refill_base_zero)
    have block: "\<exists>w. peek b (block_word ?base j) = Some w" if "j < 2 ^ (m - 2)" for j
    proof (rule peek_block [OF assms(2,5)])
      show "word_aligned (block_word ?base j)" using block_word_frame(2) [OF base that m(2,3)] .
      show "block_word ?base j AND NOT (mask 7) = ?wa AND NOT (mask 7)"
        by (rule bit_word_eqI)
          (use m(2,3) in \<open>auto simp: bit_and_iff bit_not_iff bit_mask_iff bit_block_word [OF base that m(2,3)]\<close>)
    qed
    let ?ws = "map (\<lambda>j. the (peek b (block_word ?base j))) [0..<2 ^ (m - 2)]"
    have read: "refill_read ops ?base 0 (2 ^ (m - 2)) b = Some (Inr ?ws, b)"
      using refill_read_memory [OF base m(2,3) assms(2) block, of 0 "2 ^ (m - 2)"] by simp
    obtain j where j: "j < 2 ^ (m - 2)" "?wa = block_word ?base j"
      using block_covers [OF word_of_phys_aligned m(2,3)] by metis
    have "\<exists>c'. refill_store ?base 0 ?ws c = Some c' \<and> cache_ok c' \<and> cache_coherent (peek b) c' \<and>
        cache_hit c' ?wa"
    proof (rule refill_store_coherent [OF base m(2,3) assms(1,3)])
      fix k assume "k < length ?ws"
      then show "peek b (block_word ?base (0 + k)) = Some (?ws ! k) \<and> length (?ws ! k) = 4"
        using block [of k] peek_length [OF assms(2)] by auto
    qed (use j refill_base_frame [OF m(3)] in auto)
    then obtain c' where c': "refill_store ?base 0 ?ws c = Some c'" "cache_ok c'"
      "cache_coherent (peek b) c'" "cache_hit c' ?wa"
      by blast
    have idx: "cache_index c ?wa = cache_index c' ?wa"
      using refill_store_ok [OF assms(1), of ?ws ?base 0] c'(1) block peek_length [OF assms(2)]
      by (auto simp: cache_index_def list_all_iff WORD_BYTES_def)
    show ?thesis
      using False c' read hit_data [OF c'(3,4)] n w cache_index_lt [OF assms(1), of ?wa]
        cache_index_lt [OF c'(2), of ?wa]
      by (auto simp: cache_read_def access_Some [OF assms(4)] entry_hit_def cache_hit_def
          copy_fragment_Some Let_def m idx)
  qed
qed

lemma cache_write_memory:
  assumes "cache_ok c" "bus_ok b" "cache_coherent (peek b) c" "word_transaction a (length bs)"
    "peek b (word_of_phys a) = Some w"
  shows "\<exists>c' b'. cache_write ops a bs ps c b = Some (Inr (), c', b') \<and> cache_ok c' \<and> bus_ok b' \<and>
    peek b' = (peek b)(word_of_phys a \<mapsto> splice_bytes (byte_offset a) bs w) \<and>
    cache_coherent (peek b') c'"
proof -
  let ?wa = "word_of_phys a" and ?new = "splice_bytes (byte_offset a) bs w"
  let ?i = "cache_index c ?wa"
  have n: "1 \<le> length bs" "byte_offset a + length bs \<le> 4"
    using assms(4) by (simp_all add: word_transaction_def byte_offset_def)
  have w: "length w = 4" using assms(2,5) by (rule peek_length)
  have new: "length ?new = 4" using n w by (simp add: splice_bytes_def)
  have i: "?i < length (ch_entries c)" using assms(1) by (rule cache_index_lt)
  obtain b1 where b1: "bus_write ops b a bs = Some (Inr (), b1)" "bus_ok b1"
    "peek b1 = (peek b)(?wa \<mapsto> ?new)"
    using write_memory [OF assms(2,4,5)] by blast
  consider (full) "length bs = 4" | (merge) "length bs \<noteq> 4" "ps" "cache_hit c ?wa"
    | (drop) "length bs \<noteq> 4" "\<not> ps" | (skip) "length bs \<noteq> 4" "ps" "\<not> cache_hit c ?wa"
    by blast
  then show ?thesis
  proof cases
    case full
    then have "byte_offset a = 0" "?new = bs"
      using n w by (simp_all add: splice_bytes_def)
    then show ?thesis
      using full b1 i assms(1,3) install_ok [OF assms(1), of bs ?wa]
        install_coherent [OF assms(1,3), of ?wa bs] access_Some [OF assms(4), of c]
      by (simp add: cache_write_def WORD_BYTES_def install_def)
  next
    case merge
    have data: "ce_data (ch_entries c ! ?i) = w"
      using merge(3) assms(3,5) by (simp add: cache_coherent_def)
    have e: "(ch_entries c ! ?i)\<lparr>ce_data := ?new\<rparr> =
        \<lparr>ce_page_frame = page_frame ?wa, ce_data = ?new, ce_valid = True\<rparr>"
      using merge(3) by (simp add: cache_hit_def)
    have phys: "word_of_phys (ucast ?wa) = ?wa" "byte_offset (ucast ?wa) = 0"
      by (simp_all add: aligned_phys)
    have "word_transaction (ucast ?wa) (length ?new)"
      using new by (simp add: word_transaction_aligned)
    then obtain b2 where b2: "bus_write ops b (ucast ?wa) ?new = Some (Inr (), b2)" "bus_ok b2"
      "peek b2 = (peek b)(?wa \<mapsto> ?new)"
      using write_memory [OF assms(2), of "ucast ?wa" ?new w] assms(5) w new
      unfolding phys by (auto simp: splice_bytes_def)
    have m: "merge_bytes (byte_offset a) bs w = Some ?new"
      using w n by (simp add: merge_bytes_Some splice_bytes_def)
    have inst: "c\<lparr>ch_entries := (ch_entries c)[?i := (ch_entries c ! ?i)\<lparr>ce_data := ?new\<rparr>]\<rparr> =
        install ?wa ?new c"
      unfolding e install_def ..
    have "cache_write ops a bs ps c b = Some (Inr (), install ?wa ?new c, b2)"
      using merge b2(1) i m data inst
      by (simp add: cache_write_def access_Some [OF assms(4)] WORD_BYTES_def entry_hit_def
          cache_hit_def)
    then show ?thesis
      using b2 install_ok [OF assms(1) new, of ?wa] install_coherent [OF assms(1,3), of ?wa ?new]
      by simp
  next
    case drop
    have "cache_ok (c\<lparr>ch_entries := (ch_entries c)[?i := (ch_entries c ! ?i)\<lparr>ce_valid := False\<rparr>]\<rparr>)"
      using assms(1) cache_data_length [OF assms(1) i]
      by (intro cache_ok_update) (simp_all add: WORD_BYTES_def)
    then show ?thesis
      using drop b1 i drop_line_coherent [OF assms(1,3), of ?wa ?new "ch_entries c ! ?i"]
      by (simp add: cache_write_def access_Some [OF assms(4)] WORD_BYTES_def)
  next
    case skip
    then show ?thesis
      using b1 i assms(1) miss_coherent [OF assms(3), of ?wa ?new]
      by (auto simp: cache_write_def access_Some [OF assms(4)] WORD_BYTES_def entry_hit_def
          cache_hit_def)
  qed
qed

end

end
