(* ===== verification/State_Correct.thy ===== *)
theory State_Correct
  imports Cpu_State Cp0_Correct Mmu_Correct Cache_Correct
begin

text \<open>
  The well-formedness invariant of the processor state, \<open>cpu_ok\<close>, and its preservation by
  every operation of the state; register-file facts; the cache-control transfer; the contexts
  saved across exceptions.
\<close>

section \<open>The invariant\<close>

definition pending_gpr_ok :: "pending_gpr_write option \<Rightarrow> bool" where
  "pending_gpr_ok p = (case p of None \<Rightarrow> True | Some w \<Rightarrow> pg_index w < 32)"

definition pending_cp1_ok :: "pending_cp1_write option \<Rightarrow> bool" where
  "pending_cp1_ok p = (case p of Some (PendingGeneral i v) \<Rightarrow> i < 32 | _ \<Rightarrow> True)"

definition transition_ok :: "cache_mode \<Rightarrow> bool" where
  "transition_ok m = (case cm_transition m of None \<Rightarrow> True | Some t \<Rightarrow> ct_age t < CACHE_TRANSITION_PERIODS)"

definition context_ok :: "cache_mode_context option \<Rightarrow> bool" where
  "context_ok c = (case c of None \<Rightarrow> True | Some x \<Rightarrow> transition_ok (cx_mode x))"

definition cpu_ok :: "cpu \<Rightarrow> bool" where
  "cpu_ok s \<longleftrightarrow>
     (length (cpu_gpr s) = 32 \<and> cpu_gpr s ! 0 = 0) \<and> length (cp1_registers (cpu_cp1 s)) = 32 \<and>
     random_ok (cpu_cp0 s) \<and> mmu_ok (cpu_mmu s) \<and> caches_ok (cpu_caches s) \<and>
     pending_gpr_ok (cpu_pending_gpr_write s) \<and> pending_cp1_ok (cpu_pending_cp1_write s) \<and>
     transition_ok (cpu_cache_mode s) \<and>
     context_ok (st_level0 (cpu_cache_mode_contexts s)) \<and>
     context_ok (st_level1 (cpu_cache_mode_contexts s))"

lemma pending_ok_None [simp]: "pending_gpr_ok None" "pending_cp1_ok None" "context_ok None"
  by (simp_all add: pending_gpr_ok_def pending_cp1_ok_def context_ok_def)

lemma transition_ok_settled [simp]: "transition_ok (cache_mode_settled e)"
  by (simp add: transition_ok_def cache_mode_settled_def)

text \<open>How the invariant reacts to an update of one component.\<close>

lemma cpu_ok_updates [simp]:
  "cpu_ok s \<Longrightarrow> cpu_ok (s\<lparr>cpu_hi := v\<rparr>)" "cpu_ok s \<Longrightarrow> cpu_ok (s\<lparr>cpu_lo := v\<rparr>)"
  "cpu_ok s \<Longrightarrow> cpu_ok (s\<lparr>cpu_pc := v\<rparr>)" "cpu_ok s \<Longrightarrow> cpu_ok (s\<lparr>cpu_delay_slot := d\<rparr>)"
  "cpu_ok s \<Longrightarrow> random_ok c \<Longrightarrow> cpu_ok (s\<lparr>cpu_cp0 := c\<rparr>)"
  "cpu_ok s \<Longrightarrow> length (cp1_registers c1) = 32 \<Longrightarrow> cpu_ok (s\<lparr>cpu_cp1 := c1\<rparr>)"
  "cpu_ok s \<Longrightarrow> mmu_ok m \<Longrightarrow> cpu_ok (s\<lparr>cpu_mmu := m\<rparr>)"
  "cpu_ok s \<Longrightarrow> caches_ok cs \<Longrightarrow> cpu_ok (s\<lparr>cpu_caches := cs\<rparr>)"
  "cpu_ok s \<Longrightarrow> pending_gpr_ok p \<Longrightarrow> cpu_ok (s\<lparr>cpu_pending_gpr_write := p\<rparr>)"
  "cpu_ok s \<Longrightarrow> cpu_ok (s\<lparr>cpu_pending_cp0_write := p0\<rparr>)"
  "cpu_ok s \<Longrightarrow> pending_cp1_ok p1 \<Longrightarrow> cpu_ok (s\<lparr>cpu_pending_cp1_write := p1\<rparr>)"
  "cpu_ok s \<Longrightarrow> cpu_ok (s\<lparr>cpu_machine_interrupt_inputs := i\<rparr>)"
  "cpu_ok s \<Longrightarrow> transition_ok cm \<Longrightarrow> cpu_ok (s\<lparr>cpu_cache_mode := cm\<rparr>)"
  by (simp_all add: cpu_ok_def)

lemma cpu_ok_facts:
  assumes "cpu_ok s"
  shows "length (cpu_gpr s) = 32" "cpu_gpr s ! 0 = 0" "length (cp1_registers (cpu_cp1 s)) = 32"
    "random_ok (cpu_cp0 s)" "mmu_ok (cpu_mmu s)" "caches_ok (cpu_caches s)"
    "pending_gpr_ok (cpu_pending_gpr_write s)" "pending_cp1_ok (cpu_pending_cp1_write s)"
    "transition_ok (cpu_cache_mode s)" "context_ok (st_level0 (cpu_cache_mode_contexts s))"
    "context_ok (st_level1 (cpu_cache_mode_contexts s))"
  using assms by (simp_all add: cpu_ok_def)

lemma cpu_ok_new: "config_valid cfg \<Longrightarrow> cpu_ok (state_new cfg)"
  by (simp add: cpu_ok_def state_new_def cp1_new_def caches_ok_new cache_mode_stack_new_def)

lemma state_reset_ok: "cpu_ok s \<Longrightarrow> ok (state_reset s) cpu_ok"
  by (simp add: cpu_ok_def state_reset_def Let_def cache_mode_stack_new_def)

section \<open>CP0 operations keep Random\<close>

lemma random_ok_ops [simp]:
  "random_ok (cp0_write_register i v c) = random_ok c"
  "random_ok (commit_pending_functional c) = random_ok c"
  "random_ok (set_status_cache_control cc c) = random_ok c"
  "random_ok (set_cache_miss miss c) = random_ok c"
  "random_ok (enter_tlb_shutdown c) = random_ok c"
  "random_ok (write_tlb_read_result hi lo c) = random_ok c"
  "random_ok (write_tlb_probe_result ix c) = random_ok c"
  "random_ok (restore_status v c) = random_ok c"
  "random_ok (snd (cp0_take_exception e epc bd c)) = random_ok c"
  by (rule random_ok_cong;
      simp add: set_status_cache_control_def set_cache_miss_def enter_tlb_shutdown_def
        write_tlb_read_result_def write_tlb_probe_result_def restore_status_def Let_def)+

lemma set_line_ok: "random_ok c \<Longrightarrow> input < 6 \<Longrightarrow> ok (set_hardware_interrupt_line input v c) random_ok"
  by (simp add: set_hardware_interrupt_line_def Let_def random_ok_def cp0_random_tlb_index_def)

lemma apply_lines_ok:
  "random_ok c \<Longrightarrow> list_all (\<lambda>i. i < 6) inputs \<Longrightarrow> ok (apply_interrupt_lines lines inputs c) random_ok"
proof (induction inputs arbitrary: c)
  case Nil
  then show ?case by simp
next
  case (Cons i inputs)
  show ?case
    unfolding apply_interrupt_lines.simps ok_bind
    by (rule ok_mono [OF set_line_ok]) (use Cons in simp_all)
qed

lemma advance_inputs_ok: "cpu_ok s \<Longrightarrow> ok (advance_machine_interrupt_inputs s) cpu_ok"
  unfolding advance_machine_interrupt_inputs_def Let_def ok_bind
  by (rule ok_mono [OF apply_lines_ok])
    (simp_all add: cpu_ok_facts MACHINE_INTERRUPT_INPUTS_def list_all_iff)

lemma synchronize_cp1_ok: "cpu_ok s \<Longrightarrow> ok (synchronize_cp1_interrupt s) cpu_ok"
  unfolding synchronize_cp1_interrupt_def ok_map
  by (rule ok_mono [OF set_line_ok]) (simp_all add: cpu_ok_facts CP1_INTERRUPT_INPUT_def)

lemma set_lines_ok:
  "cpu_ok s \<Longrightarrow> lines AND NOT MACHINE_INTERRUPT_MASK = 0 \<Longrightarrow> ok (set_hardware_interrupt_lines lines s) cpu_ok"
  by (simp add: set_hardware_interrupt_lines_def)

section \<open>Registers\<close>

lemma read_gpr_ok: "cpu_ok s \<Longrightarrow> i < 32 \<Longrightarrow> read_gpr s i = Some (cpu_gpr s ! i)"
  by (auto simp: read_gpr_def cpu_ok_def)

lemma read_merge_ok: "cpu_ok s \<Longrightarrow> i < 32 \<Longrightarrow> ok (read_gpr_for_load_merge s i) (\<lambda>_. True)"
  by (auto simp: read_gpr_for_load_merge_def read_gpr_ok split: option.splits)

lemma write_direct_ok: "cpu_ok s \<Longrightarrow> i < 32 \<Longrightarrow> ok (write_gpr_direct i v s) cpu_ok"
  by (simp add: write_gpr_direct_def cpu_ok_def)

lemma commit_gpr_ok: "cpu_ok s \<Longrightarrow> ok (commit_pending_gpr_write s) cpu_ok"
  by (auto simp: commit_pending_gpr_write_def pending_gpr_ok_def dest: cpu_ok_facts(7)
      intro!: write_direct_ok split: option.splits)

lemma write_gpr_ok: "cpu_ok s \<Longrightarrow> i < 32 \<Longrightarrow> ok (write_gpr i v s) cpu_ok"
  unfolding write_gpr_def ok_bind by (rule ok_mono [OF commit_gpr_ok]) (simp_all add: write_direct_ok)

lemma commit_cp0_ok: "cpu_ok s \<Longrightarrow> cpu_ok (commit_pending_cp0_write s)"
  by (simp add: commit_pending_cp0_write_def cpu_ok_facts split: option.splits)

lemma write_control_registers [simp]:
  "cp1_registers (cp1_write_control i v c) = cp1_registers c"
  "cp1_registers (cp1_write_condition b c) = cp1_registers c"
  "cp1_registers (apply_fcr31_update u c) = cp1_registers c"
  by (simp_all add: cp1_write_control_def cp1_write_control_status_def cp1_write_condition_def
      apply_fcr31_update_def Let_def)

lemma commit_cp1_ok: "cpu_ok s \<Longrightarrow> ok (commit_pending_cp1_write s) cpu_ok"
proof -
  assume s: "cpu_ok s"
  then have len: "length (cp1_registers (cpu_cp1 s)) = 32" by (rule cpu_ok_facts)
  show ?thesis
  proof (cases "cpu_pending_cp1_write s")
    case None
    then show ?thesis using s by (simp add: commit_pending_cp1_write_def)
  next
    case (Some w)
    then show ?thesis
      using s len cpu_ok_facts(8) [OF s]
      by (cases w) (simp_all add: commit_pending_cp1_write_def cp1_write_general_def pending_cp1_ok_def)
  qed
qed

lemma commit_pending_ok: "cpu_ok s \<Longrightarrow> ok (commit_pending s) cpu_ok"
  unfolding commit_pending_def ok_bind
  by (rule ok_mono [OF commit_gpr_ok]) (simp_all add: cpu_ok_facts commit_cp0_ok commit_cp1_ok)

section \<open>Cache control\<close>

lemma note_transfer_ok: "cpu_ok s \<Longrightarrow> cpu_ok (note_status_transfer i v s)"
  by (auto simp: note_status_transfer_def transition_ok_def CACHE_TRANSITION_PERIODS_def
      split: option.splits)

lemma advance_transition_ok: "cpu_ok s \<Longrightarrow> cpu_ok (advance_cache_transition s)"
  by (auto simp: advance_cache_transition_def Let_def transition_ok_def split: option.splits)

lemma push_context_ok: "cpu_ok s \<Longrightarrow> cpu_ok (push_cache_context s)"
  by (simp add: push_cache_context_def Let_def cpu_ok_def cache_mode_stack_push_def context_ok_def)

section \<open>Effects and completion\<close>

fun effect_ok :: "instruction_effect \<Rightarrow> bool" where
  "effect_ok (DelayedGprWrite i v bypass) = (i < 32)"
| "effect_ok (DelayedCp1GeneralWrite i v) = (i < 32)"
| "effect_ok (TlbWrite i hi lo) = (i < TLB_ENTRY_COUNT)"
| "effect_ok _ = True"

lemma apply_effect_ok: "cpu_ok s \<Longrightarrow> effect_ok e \<Longrightarrow> cpu_ok (apply_effect e s)"
proof (cases e)
  case (RestoreStatus v)
  assume s: "cpu_ok s"
  then show ?thesis
    using RestoreStatus
    by (auto simp: Let_def cache_mode_stack_pop_def cpu_ok_def context_ok_def split: option.splits)
qed (simp_all add: cpu_ok_facts note_transfer_ok pending_gpr_ok_def pending_cp1_ok_def)

lemma advance_tlb_view_ok:
  "mmu_ok m \<Longrightarrow> (\<And>e. effect = Some e \<Longrightarrow> effect_ok e) \<Longrightarrow> ok (advance_tlb_view effect m) mmu_ok"
  by (auto simp: advance_tlb_view_def advance_view_ok complete_write_ok
      split: option.splits instruction_effect.splits)

lemma complete_instruction_ok:
  assumes "cpu_ok s" "\<And>e. effect = Some e \<Longrightarrow> effect_ok e"
  shows "ok (complete_instruction pc effect s) cpu_ok"
  unfolding complete_instruction_def Let_def ok_bind
proof (rule ok_mono [OF commit_pending_ok [OF assms(1)]])
  fix s1
  assume s1: "cpu_ok s1"
  let ?s2 = "case effect of None \<Rightarrow> s1 | Some e \<Rightarrow> apply_effect e s1"
  have s2: "cpu_ok ?s2"
    using s1 assms(2) by (auto simp: apply_effect_ok split: option.split)
  show "ok (advance_tlb_view effect (cpu_mmu ?s2)) (\<lambda>m. ok (Some (?s2\<lparr>cpu_mmu := m,
      cpu_pc := case cpu_delay_slot ?s2 of None \<Rightarrow> cpu_pc ?s2 + 4 | Some d \<Rightarrow> ds_resume_pc d,
      cpu_delay_slot := map_option (\<lambda>resume_pc. \<lparr>ds_origin_pc = cpu_pc ?s2, ds_resume_pc = resume_pc\<rparr>) pc,
      cpu_cp0 := advance_random (cpu_cp0 ?s2)\<rparr>)) cpu_ok)"
    by (rule ok_mono [OF advance_tlb_view_ok]) (use s2 assms(2) in \<open>simp_all add: cpu_ok_facts\<close>)
qed

lemma take_exception_ok:
  assumes "cpu_ok s"
  shows "ok (take_exception e s) cpu_ok"
  unfolding take_exception_def Let_def ok_bind
proof (rule ok_mono [OF commit_pending_ok [OF assms]])
  fix s1
  assume "cpu_ok s1"
  then have s2: "cpu_ok (push_cache_context s1)" by (rule push_context_ok)
  then have "ok (advance_instruction_view (cpu_mmu (push_cache_context s1))) mmu_ok"
    by (simp add: advance_view_ok cpu_ok_facts)
  then show "ok (case case cpu_delay_slot (push_cache_context s1) of
        None \<Rightarrow> (cpu_pc (push_cache_context s1), False) | Some d \<Rightarrow> (ds_origin_pc d, True) of
      (epc, in_delay_slot) \<Rightarrow>
        case cp0_take_exception e epc in_delay_slot (cpu_cp0 (push_cache_context s1)) of
          (pc, c) \<Rightarrow> Option.bind (advance_instruction_view (cpu_mmu (push_cache_context s1)))
            (\<lambda>m. Some ((push_cache_context s1)\<lparr>cpu_delay_slot := None, cpu_pc := pc, cpu_mmu := m,
              cpu_cp0 := advance_random c\<rparr>))) cpu_ok"
    using s2 by (auto simp: ok_ex split: prod.splits)
qed

section \<open>Memory access\<close>

lemma translation_exception_Some:
  assumes "translation_spec entries va asid km access = Inl fault" "fault \<noteq> FaultTlbShutdown"
  shows "ok (translation_exception va access fault) (\<lambda>_. True)"
proof -
  have "fault = FaultTlbModified \<Longrightarrow> access = AccessStore"
    using assms(1)
    by (auto simp: translation_spec_def mapped_result_def split: if_splits probe_result.splits)
  then show ?thesis using assms(2) by (cases fault) (simp_all add: translation_exception_def)
qed

lemma and_3_of_page_offset:
  "(a AND 0xfff :: u64) = b AND 0xfff \<Longrightarrow> a AND 3 = b AND 3"
proof -
  assume "a AND 0xfff = b AND 0xfff"
  then have "(a AND 0xfff) AND 3 = (b AND 0xfff) AND 3" by (rule arg_cong [of _ _ "\<lambda>x. x AND 3"])
  moreover have "(x AND 0xfff) AND 3 = x AND 3" for x :: u64 by (simp add: and.assoc)
  ultimately show ?thesis by simp
qed

lemma translate_address_ok:
  assumes "cpu_ok s"
  shows "ok (translate_address va access s) (\<lambda>(r, s'). cpu_ok s' \<and>
    (\<forall>t. r = Inr t \<longrightarrow> unat (tr_address t) < 2 ^ 32 \<and> tr_address t AND 3 = ucast va AND 3))"
proof -
  let ?spec = "translation_spec (access_entries (cpu_mmu s) access) va (cp0_current_asid (cpu_cp0 s))
      (cp0_is_kernel_mode (cpu_cp0 s)) access"
  have tr: "ok (mmu_translate va (cp0_current_asid (cpu_cp0 s)) (cp0_is_kernel_mode (cpu_cp0 s)) access
      (cpu_mmu s)) (\<lambda>(t, m'). t = ?spec \<and> mmu_ok m')"
    using translate_ok [OF cpu_ok_facts(5) [OF assms]] by (rule ok_mono) auto
  have addr: "unat (tr_address t) < 2 ^ 32 \<and> tr_address t AND 3 = ucast va AND 3" if spec: "?spec = Inr t" for t
  proof -
    consider "mapped_result (access_entries (cpu_mmu s) access) va (cp0_current_asid (cpu_cp0 s)) access = Inr t"
      | c where "t = unmapped_translation va c"
      using spec by (auto simp: translation_spec_def split: if_splits)
    then have "unat (tr_address t) < 2 ^ 32 \<and> tr_address t AND 0xfff = ucast va AND 0xfff"
      by cases (use mapped_result_permits(2,3) unmapped_facts in blast)+
    then show ?thesis using and_3_of_page_offset by blast
  qed
  show ?thesis
    unfolding translate_address_def Let_def ok_bind
  proof (rule ok_mono [OF tr], clarify)
    fix t m
    assume m: "mmu_ok m"
    have s1: "cpu_ok (s\<lparr>cpu_mmu := m\<rparr>)" using assms m by simp
    show "ok (case ?spec of
          Inl fault \<Rightarrow> if fault = FaultTlbShutdown
            then Some (Inl TranslationShutdown,
              s\<lparr>cpu_mmu := m, cpu_cp0 := enter_tlb_shutdown (cpu_cp0 (s\<lparr>cpu_mmu := m\<rparr>))\<rparr>)
            else Option.bind (translation_exception va access fault)
              (\<lambda>e. Some (Inl (TranslationException e), s\<lparr>cpu_mmu := m\<rparr>))
        | Inr t \<Rightarrow> Some (Inr t, s\<lparr>cpu_mmu := m\<rparr>))
      (\<lambda>(r, s'). cpu_ok s' \<and>
        (\<forall>t. r = Inr t \<longrightarrow> unat (tr_address t) < 2 ^ 32 \<and> tr_address t AND 3 = ucast va AND 3))"
    proof (cases ?spec)
      case (Inl fault)
      then show ?thesis
        using s1 translation_exception_Some [OF Inl] cpu_ok_facts(4) [OF s1] by (auto simp: ok_ex)
    next
      case (Inr t)
      then show ?thesis using s1 addr by simp
    qed
  qed
qed

lemma validate_Some: "word_transaction (tr_address t) n \<Longrightarrow> validate_memory_access t n = Some ()"
  by (simp add: word_transaction_def validate_memory_access_def bind_require)

context physical_bus
begin

lemma read_instruction_ok:
  assumes "cpu_ok s" "bus_ok b" "word_transaction (tr_address t) 4"
  shows "ok (read_instruction ops t s b) (\<lambda>(r, s', b'). cpu_ok s' \<and> bus_ok b')"
proof (cases "tr_cacheability t")
  case Cached
  show ?thesis
    using assms(1) Cached
    by (auto simp: read_instruction_def validate_Some [OF assms(3)] Let_def
        intro!: ok_mono [OF caches_read_ok [OF cpu_ok_facts(6) [OF assms(1)] assms(2,3)]])
next
  case Uncached
  show ?thesis
    using assms(1) Uncached
    by (auto simp: read_instruction_def validate_Some [OF assms(3)]
        intro!: ok_mono [OF read_total [OF assms(2,3)]])
qed

lemma load_data_ok:
  assumes "cpu_ok s" "bus_ok b" "word_transaction (tr_address t) n"
  shows "ok (load_data ops t n s b) (\<lambda>(r, s', b'). cpu_ok s' \<and> bus_ok b' \<and>
    (\<forall>bs. r = Inr bs \<longrightarrow> length bs = n))"
proof -
  have n: "1 \<le> n" "n \<le> 4" using assms(3) by (simp_all add: word_transaction_def)
  show ?thesis
    using assms(1,2) n cpu_ok_facts(4) [OF assms(1)]
    by (auto simp: load_data_def validate_Some [OF assms(3)] Let_def commit_load_data_def bind_require
        intro!: ok_mono [OF caches_read_ok [OF cpu_ok_facts(6) [OF assms(1)] assms(2,3)]]
          ok_mono [OF caches_read_isolated_ok [OF cpu_ok_facts(6) [OF assms(1)] assms(3)]]
          ok_mono [OF read_total [OF assms(2,3)]]
        split: cacheability.splits sum.splits)
qed

lemma store_memory_ok:
  assumes "cpu_ok s" "bus_ok b" "word_transaction (tr_address t) (length bs)"
  shows "ok (store_memory ops t bs s b) (\<lambda>(r, s', b'). cpu_ok s' \<and> bus_ok b')"
  using assms(1,2)
  by (auto simp: store_memory_def validate_Some [OF assms(3)] Let_def
      intro!: ok_mono [OF caches_write_ok [OF cpu_ok_facts(6) [OF assms(1)] assms(2,3)]]
        ok_mono [OF caches_write_isolated_ok [OF cpu_ok_facts(6) [OF assms(1)] assms(3)]]
        ok_mono [OF write_total [OF assms(2,3)]]
      split: cacheability.splits sum.splits)

end

end
