(* ===== verification/Decode_Correct.thy ===== *)
theory Decode_Correct
  imports Decode
begin

text \<open>
  Correctness of the decoder: it never reaches one of its panics, every field of a decoded
  instruction is in range, the two unsupported coprocessors are units 2 and 3, and decoding
  inverts the architectural encoding.
\<close>

section \<open>Fields in range\<close>

lemma field_lt [simp]:
  "rs_field w < 32" "rt_field w < 32" "rd_field w < 32" "unat (shift_amount w) < 32"
  by (simp_all add: rs_field_def rt_field_def rd_field_def shift_amount_def unat_and_lt)

lemma function_field_lt: "unat (function_field w) < 64"
  by (simp add: function_field_def unat_and_lt)

lemma opcode_lt: "unat (opcode w) < 64"
  using unsigned_less [of w, where ?'a = nat]
  by (simp add: opcode_def unat_drop_bit_eq drop_bit_nat_def less_mult_imp_div_less)

fun wf_alu :: "alu_instruction \<Rightarrow> bool" where
  "wf_alu (Sll rd rt sa) = (rd < 32 \<and> rt < 32 \<and> unat sa < 32)"
| "wf_alu (Srl rd rt sa) = (rd < 32 \<and> rt < 32 \<and> unat sa < 32)"
| "wf_alu (Sra rd rt sa) = (rd < 32 \<and> rt < 32 \<and> unat sa < 32)"
| "wf_alu (Sllv rd rt rs) = (rd < 32 \<and> rt < 32 \<and> rs < 32)"
| "wf_alu (Srlv rd rt rs) = (rd < 32 \<and> rt < 32 \<and> rs < 32)"
| "wf_alu (Srav rd rt rs) = (rd < 32 \<and> rt < 32 \<and> rs < 32)"
| "wf_alu (Mfhi rd) = (rd < 32)"
| "wf_alu (Mthi rs) = (rs < 32)"
| "wf_alu (Mflo rd) = (rd < 32)"
| "wf_alu (Mtlo rs) = (rs < 32)"
| "wf_alu (Mult rs rt) = (rs < 32 \<and> rt < 32)"
| "wf_alu (Multu rs rt) = (rs < 32 \<and> rt < 32)"
| "wf_alu (Div rs rt) = (rs < 32 \<and> rt < 32)"
| "wf_alu (Divu rs rt) = (rs < 32 \<and> rt < 32)"
| "wf_alu (Add rd rs rt) = (rd < 32 \<and> rs < 32 \<and> rt < 32)"
| "wf_alu (Addu rd rs rt) = (rd < 32 \<and> rs < 32 \<and> rt < 32)"
| "wf_alu (Sub rd rs rt) = (rd < 32 \<and> rs < 32 \<and> rt < 32)"
| "wf_alu (Subu rd rs rt) = (rd < 32 \<and> rs < 32 \<and> rt < 32)"
| "wf_alu (And rd rs rt) = (rd < 32 \<and> rs < 32 \<and> rt < 32)"
| "wf_alu (Or rd rs rt) = (rd < 32 \<and> rs < 32 \<and> rt < 32)"
| "wf_alu (Xor rd rs rt) = (rd < 32 \<and> rs < 32 \<and> rt < 32)"
| "wf_alu (Nor rd rs rt) = (rd < 32 \<and> rs < 32 \<and> rt < 32)"
| "wf_alu (Slt rd rs rt) = (rd < 32 \<and> rs < 32 \<and> rt < 32)"
| "wf_alu (Sltu rd rs rt) = (rd < 32 \<and> rs < 32 \<and> rt < 32)"
| "wf_alu (Addiu rt rs imm) = (rt < 32 \<and> rs < 32)"
| "wf_alu (Addi rt rs imm) = (rt < 32 \<and> rs < 32)"
| "wf_alu (Slti rt rs imm) = (rt < 32 \<and> rs < 32)"
| "wf_alu (Sltiu rt rs imm) = (rt < 32 \<and> rs < 32)"
| "wf_alu (Andi rt rs imm) = (rt < 32 \<and> rs < 32)"
| "wf_alu (Ori rt rs imm) = (rt < 32 \<and> rs < 32)"
| "wf_alu (Xori rt rs imm) = (rt < 32 \<and> rs < 32)"
| "wf_alu (Lui rt imm) = (rt < 32)"

fun wf_control :: "control_instruction \<Rightarrow> bool" where
  "wf_control (J t) = (unat t < 2 ^ 26)"
| "wf_control (Jal t) = (unat t < 2 ^ 26)"
| "wf_control (Jr rs) = (rs < 32)"
| "wf_control (Jalr rd rs) = (rd < 32 \<and> rs < 32)"
| "wf_control (Beq rs rt off) = (rs < 32 \<and> rt < 32)"
| "wf_control (Bne rs rt off) = (rs < 32 \<and> rt < 32)"
| "wf_control (Blez rs off) = (rs < 32)"
| "wf_control (Bgtz rs off) = (rs < 32)"
| "wf_control (Bltz rs off) = (rs < 32)"
| "wf_control (Bgez rs off) = (rs < 32)"
| "wf_control (Bltzal rs off) = (rs < 32)"
| "wf_control (Bgezal rs off) = (rs < 32)"

fun wf_cp0 :: "cp0_instruction \<Rightarrow> bool" where
  "wf_cp0 (Mfc0 rt rd) = (rt < 32 \<and> rd < 32)"
| "wf_cp0 (Cfc0 rt rd) = (rt < 32 \<and> rd < 32)"
| "wf_cp0 (Mtc0 rt rd) = (rt < 32 \<and> rd < 32)"
| "wf_cp0 (Ctc0 rt rd) = (rt < 32 \<and> rd < 32)"
| "wf_cp0 _ = True"

fun wf_cp1 :: "cp1_instruction \<Rightarrow> bool" where
  "wf_cp1 (Mfc1 rt rd) = (rt < 32 \<and> rd < 32)"
| "wf_cp1 (Cfc1 rt rd) = (rt < 32 \<and> rd < 32)"
| "wf_cp1 (Mtc1 rt rd) = (rt < 32 \<and> rd < 32)"
| "wf_cp1 (Ctc1 rt rd) = (rt < 32 \<and> rd < 32)"
| "wf_cp1 (Lwc1 base ft off) = (base < 32 \<and> ft < 32)"
| "wf_cp1 (Swc1 base ft off) = (base < 32 \<and> ft < 32)"
| "wf_cp1 (Binary operation fmt ft fs fd) = (ft < 32 \<and> fs < 32 \<and> fd < 32)"
| "wf_cp1 (Unary operation fmt fs fd) = (fs < 32 \<and> fd < 32)"
| "wf_cp1 (Convert operation fs fd) = (fs < 32 \<and> fd < 32)"
| "wf_cp1 (Compare fmt condition fs ft) = (fs < 32 \<and> ft < 32 \<and> unat condition < 16)"
| "wf_cp1 _ = True"

fun memory_registers :: "memory_instruction \<Rightarrow> nat \<times> nat" where
  "memory_registers (Lb base rt off) = (base, rt)"
| "memory_registers (Lbu base rt off) = (base, rt)"
| "memory_registers (Lh base rt off) = (base, rt)"
| "memory_registers (Lhu base rt off) = (base, rt)"
| "memory_registers (Lwl base rt off) = (base, rt)"
| "memory_registers (Lw base rt off) = (base, rt)"
| "memory_registers (Lwr base rt off) = (base, rt)"
| "memory_registers (Sb base rt off) = (base, rt)"
| "memory_registers (Sh base rt off) = (base, rt)"
| "memory_registers (Swl base rt off) = (base, rt)"
| "memory_registers (Sw base rt off) = (base, rt)"
| "memory_registers (Swr base rt off) = (base, rt)"

definition wf_memory :: "memory_instruction \<Rightarrow> bool" where
  "wf_memory i = (fst (memory_registers i) < 32 \<and> snd (memory_registers i) < 32)"

fun wf_instruction :: "instruction \<Rightarrow> bool" where
  "wf_instruction (IAlu i) = wf_alu i"
| "wf_instruction (IControl i) = wf_control i"
| "wf_instruction (ICp0 i) = wf_cp0 i"
| "wf_instruction (ICp1 i) = wf_cp1 i"
| "wf_instruction (IMemory i) = wf_memory i"
| "wf_instruction ISyscall = True"
| "wf_instruction IBreakpoint = True"

fun wf_decoded :: "decode_result \<Rightarrow> bool" where
  "wf_decoded (Implemented i) = wf_instruction i"
| "wf_decoded (UnsupportedCoprocessor unit) = (unit = 2 \<or> unit = 3)"
| "wf_decoded Undefined = True"
| "wf_decoded Reserved = True"

lemma wf_if: "(c \<Longrightarrow> P a) \<Longrightarrow> (\<not> c \<Longrightarrow> P b) \<Longrightarrow> P (if c then a else b)"
  by simp

lemma wf_decode_special: "wf_decoded (decode_special w)"
  unfolding decode_special_def Let_def by (intro wf_if [of _ wf_decoded]) simp_all

lemma wf_decode_regimm: "wf_decoded (decode_regimm w)"
  unfolding decode_regimm_def Let_def by (intro wf_if [of _ wf_decoded]) simp_all

lemma wf_decode_cp0: "wf_decoded (decode_cp0 w)"
  unfolding decode_cp0_def Let_def by (intro wf_if [of _ wf_decoded]) simp_all

lemmas u32_as_nat = word_le_nat_alt word_less_nat_alt word_unat_eq_iff

lemma decode_cp1_binary_operation_ok: "f \<le> 3 \<Longrightarrow> \<exists>p. decode_cp1_binary_operation f = Some p"
  unfolding decode_cp1_binary_operation_def u32_as_nat by simp

lemma decode_cp1_unary_operation_ok:
  "5 \<le> f \<Longrightarrow> f \<le> 7 \<Longrightarrow> \<exists>p. decode_cp1_unary_operation f = Some p"
  unfolding decode_cp1_unary_operation_def u32_as_nat by simp

lemma compare_condition_lt: "unat (ucast (f AND 0x0f) :: u8) < 16" for f :: u32
proof -
  have "unat (f AND 0x0f) < 16" by (rule unat_and_lt) simp
  then show ?thesis by (simp add: unsigned_ucast_eq take_bit_nat_eq_self)
qed

lemma wf_decode_cp1_computational: "ok (decode_cp1_computational w) wf_decoded"
  unfolding decode_cp1_computational_def Let_def ok_map
  using decode_cp1_binary_operation_ok [of "function_field w"]
    decode_cp1_unary_operation_ok [of "function_field w"]
  by (intro wf_if [of _ "\<lambda>m. ok m _"]) (auto simp: compare_condition_lt)

lemma wf_decode_cp1: "ok (decode_cp1 w) wf_decoded"
  unfolding decode_cp1_def Let_def
  by (intro wf_if [of _ "\<lambda>m. ok m _"]) (simp_all add: wf_decode_cp1_computational)

lemma wf_decode_unsupported:
  "opcode w = 0x12 \<or> opcode w = 0x13 \<Longrightarrow> ok (decode_unsupported_coprocessor w) wf_decoded"
  unfolding decode_unsupported_coprocessor_def by (auto simp: Let_def)

lemma target_lt: "unat (target w) < 67108864"
  by (simp add: target_def unat_and_lt)

lemma wf_decode: "ok (decode w) wf_decoded"
  unfolding decode_def Let_def
  by (intro wf_if [of _ "\<lambda>m. ok m _"])
    (auto simp: wf_decode_special wf_decode_regimm wf_decode_cp0 wf_decode_cp1
      wf_decode_unsupported wf_memory_def target_lt)

section \<open>The architectural encoding\<close>

text \<open>The three instruction formats, packed field by field from the most significant end.\<close>

definition pack_r :: "nat \<Rightarrow> nat \<Rightarrow> nat \<Rightarrow> nat \<Rightarrow> nat \<Rightarrow> nat \<Rightarrow> u32" where
  "pack_r opc rs rt rd sa fn =
     word_of_nat (((((opc * 32 + rs) * 32 + rt) * 32 + rd) * 32 + sa) * 64 + fn)"

definition pack_i :: "nat \<Rightarrow> nat \<Rightarrow> nat \<Rightarrow> u16 \<Rightarrow> u32" where
  "pack_i opc rs rt imm = word_of_nat (((opc * 32 + rs) * 32 + rt) * 65536 + unat imm)"

definition pack_j :: "nat \<Rightarrow> u32 \<Rightarrow> u32" where
  "pack_j opc t = word_of_nat (opc * 67108864 + unat t)"

fun encode_alu :: "alu_instruction \<Rightarrow> u32" where
  "encode_alu (Sll rd rt sa) = pack_r 0 0 rt rd (unat sa) 0x00"
| "encode_alu (Srl rd rt sa) = pack_r 0 0 rt rd (unat sa) 0x02"
| "encode_alu (Sra rd rt sa) = pack_r 0 0 rt rd (unat sa) 0x03"
| "encode_alu (Sllv rd rt rs) = pack_r 0 rs rt rd 0 0x04"
| "encode_alu (Srlv rd rt rs) = pack_r 0 rs rt rd 0 0x06"
| "encode_alu (Srav rd rt rs) = pack_r 0 rs rt rd 0 0x07"
| "encode_alu (Mfhi rd) = pack_r 0 0 0 rd 0 0x10"
| "encode_alu (Mthi rs) = pack_r 0 rs 0 0 0 0x11"
| "encode_alu (Mflo rd) = pack_r 0 0 0 rd 0 0x12"
| "encode_alu (Mtlo rs) = pack_r 0 rs 0 0 0 0x13"
| "encode_alu (Mult rs rt) = pack_r 0 rs rt 0 0 0x18"
| "encode_alu (Multu rs rt) = pack_r 0 rs rt 0 0 0x19"
| "encode_alu (Div rs rt) = pack_r 0 rs rt 0 0 0x1a"
| "encode_alu (Divu rs rt) = pack_r 0 rs rt 0 0 0x1b"
| "encode_alu (Add rd rs rt) = pack_r 0 rs rt rd 0 0x20"
| "encode_alu (Addu rd rs rt) = pack_r 0 rs rt rd 0 0x21"
| "encode_alu (Sub rd rs rt) = pack_r 0 rs rt rd 0 0x22"
| "encode_alu (Subu rd rs rt) = pack_r 0 rs rt rd 0 0x23"
| "encode_alu (And rd rs rt) = pack_r 0 rs rt rd 0 0x24"
| "encode_alu (Or rd rs rt) = pack_r 0 rs rt rd 0 0x25"
| "encode_alu (Xor rd rs rt) = pack_r 0 rs rt rd 0 0x26"
| "encode_alu (Nor rd rs rt) = pack_r 0 rs rt rd 0 0x27"
| "encode_alu (Slt rd rs rt) = pack_r 0 rs rt rd 0 0x2a"
| "encode_alu (Sltu rd rs rt) = pack_r 0 rs rt rd 0 0x2b"
| "encode_alu (Addi rt rs imm) = pack_i 0x08 rs rt imm"
| "encode_alu (Addiu rt rs imm) = pack_i 0x09 rs rt imm"
| "encode_alu (Slti rt rs imm) = pack_i 0x0a rs rt imm"
| "encode_alu (Sltiu rt rs imm) = pack_i 0x0b rs rt imm"
| "encode_alu (Andi rt rs imm) = pack_i 0x0c rs rt imm"
| "encode_alu (Ori rt rs imm) = pack_i 0x0d rs rt imm"
| "encode_alu (Xori rt rs imm) = pack_i 0x0e rs rt imm"
| "encode_alu (Lui rt imm) = pack_i 0x0f 0 rt imm"

fun encode_control :: "control_instruction \<Rightarrow> u32" where
  "encode_control (J t) = pack_j 0x02 t"
| "encode_control (Jal t) = pack_j 0x03 t"
| "encode_control (Jr rs) = pack_r 0 rs 0 0 0 0x08"
| "encode_control (Jalr rd rs) = pack_r 0 rs 0 rd 0 0x09"
| "encode_control (Beq rs rt off) = pack_i 0x04 rs rt off"
| "encode_control (Bne rs rt off) = pack_i 0x05 rs rt off"
| "encode_control (Blez rs off) = pack_i 0x06 rs 0 off"
| "encode_control (Bgtz rs off) = pack_i 0x07 rs 0 off"
| "encode_control (Bltz rs off) = pack_i 0x01 rs 0x00 off"
| "encode_control (Bgez rs off) = pack_i 0x01 rs 0x01 off"
| "encode_control (Bltzal rs off) = pack_i 0x01 rs 0x10 off"
| "encode_control (Bgezal rs off) = pack_i 0x01 rs 0x11 off"

fun encode_cp0 :: "cp0_instruction \<Rightarrow> u32" where
  "encode_cp0 (Mfc0 rt rd) = pack_r 0x10 0x00 rt rd 0 0"
| "encode_cp0 (Cfc0 rt rd) = pack_r 0x10 0x02 rt rd 0 0"
| "encode_cp0 (Mtc0 rt rd) = pack_r 0x10 0x04 rt rd 0 0"
| "encode_cp0 (Ctc0 rt rd) = pack_r 0x10 0x06 rt rd 0 0"
| "encode_cp0 (Bc0f off) = pack_i 0x10 0x08 0 off"
| "encode_cp0 (Bc0t off) = pack_i 0x10 0x08 1 off"
| "encode_cp0 Tlbr = 0x42000001"
| "encode_cp0 Tlbwi = 0x42000002"
| "encode_cp0 Tlbwr = 0x42000006"
| "encode_cp0 Tlbp = 0x42000008"
| "encode_cp0 Rfe = 0x42000010"

fun encode_format :: "cp1_float_format \<Rightarrow> nat" where
  "encode_format Single = 0x10"
| "encode_format Double = 0x11"

fun encode_binary :: "cp1_binary_operation \<Rightarrow> nat" where
  "encode_binary FAdd = 0"
| "encode_binary FSubtract = 1"
| "encode_binary FMultiply = 2"
| "encode_binary FDivide = 3"

fun encode_unary :: "cp1_unary_operation \<Rightarrow> nat" where
  "encode_unary FAbsolute = 5"
| "encode_unary FMove = 6"
| "encode_unary FNegate = 7"

fun encode_conversion :: "cp1_conversion \<Rightarrow> nat \<times> nat" where
  "encode_conversion SingleToDouble = (0x10, 0x21)"
| "encode_conversion WordToDouble = (0x14, 0x21)"
| "encode_conversion DoubleToSingle = (0x11, 0x20)"
| "encode_conversion WordToSingle = (0x14, 0x20)"
| "encode_conversion SingleToWord = (0x10, 0x24)"
| "encode_conversion DoubleToWord = (0x11, 0x24)"

text \<open>
  \<^verbatim>\<open>UnimplementedOperation\<close> stands for every computational encoding the R3010 does
  not define; the format code 0x12 is one of them.
\<close>

fun encode_cp1 :: "cp1_instruction \<Rightarrow> u32" where
  "encode_cp1 (Mfc1 rt rd) = pack_r 0x11 0x00 rt rd 0 0"
| "encode_cp1 (Cfc1 rt rd) = pack_r 0x11 0x02 rt rd 0 0"
| "encode_cp1 (Mtc1 rt rd) = pack_r 0x11 0x04 rt rd 0 0"
| "encode_cp1 (Ctc1 rt rd) = pack_r 0x11 0x06 rt rd 0 0"
| "encode_cp1 (Bc1f off) = pack_i 0x11 0x08 0 off"
| "encode_cp1 (Bc1t off) = pack_i 0x11 0x08 1 off"
| "encode_cp1 (Lwc1 base ft off) = pack_i 0x31 base ft off"
| "encode_cp1 (Swc1 base ft off) = pack_i 0x39 base ft off"
| "encode_cp1 (Binary operation fmt ft fs fd) =
     pack_r 0x11 (encode_format fmt) ft fs fd (encode_binary operation)"
| "encode_cp1 (Unary operation fmt fs fd) =
     pack_r 0x11 (encode_format fmt) 0 fs fd (encode_unary operation)"
| "encode_cp1 (Convert operation fs fd) =
     pack_r 0x11 (fst (encode_conversion operation)) 0 fs fd (snd (encode_conversion operation))"
| "encode_cp1 (Compare fmt condition fs ft) =
     pack_r 0x11 (encode_format fmt) ft fs 0 (0x30 + unat condition)"
| "encode_cp1 UnimplementedOperation = pack_r 0x11 0x12 0 0 0 0"

fun encode_memory :: "memory_instruction \<Rightarrow> u32" where
  "encode_memory (Lb base rt off) = pack_i 0x20 base rt off"
| "encode_memory (Lh base rt off) = pack_i 0x21 base rt off"
| "encode_memory (Lwl base rt off) = pack_i 0x22 base rt off"
| "encode_memory (Lw base rt off) = pack_i 0x23 base rt off"
| "encode_memory (Lbu base rt off) = pack_i 0x24 base rt off"
| "encode_memory (Lhu base rt off) = pack_i 0x25 base rt off"
| "encode_memory (Lwr base rt off) = pack_i 0x26 base rt off"
| "encode_memory (Sb base rt off) = pack_i 0x28 base rt off"
| "encode_memory (Sh base rt off) = pack_i 0x29 base rt off"
| "encode_memory (Swl base rt off) = pack_i 0x2a base rt off"
| "encode_memory (Sw base rt off) = pack_i 0x2b base rt off"
| "encode_memory (Swr base rt off) = pack_i 0x2e base rt off"

fun encode :: "instruction \<Rightarrow> u32" where
  "encode (IAlu i) = encode_alu i"
| "encode (IControl i) = encode_control i"
| "encode (ICp0 i) = encode_cp0 i"
| "encode (ICp1 i) = encode_cp1 i"
| "encode (IMemory i) = encode_memory i"
| "encode ISyscall = pack_r 0 0 0 0 0 0x0c"
| "encode IBreakpoint = pack_r 0 0 0 0 0 0x0d"

section \<open>Decoding inverts encoding\<close>

lemma unat_of_nat32: "n < 4294967296 \<Longrightarrow> unat (word_of_nat n :: u32) = n"
  by (simp add: unat_of_nat)

lemma fields_of_nat:
  assumes "n < 4294967296"
  shows "opcode (word_of_nat n) = word_of_nat (n div 67108864)"
    "function_field (word_of_nat n) = word_of_nat (n mod 64)"
    "rs_field (word_of_nat n) = n div 2097152 mod 32"
    "rt_field (word_of_nat n) = n div 65536 mod 32"
    "rd_field (word_of_nat n) = n div 2048 mod 32"
    "shift_amount (word_of_nat n) = word_of_nat (n div 64 mod 32)"
    "immediate (word_of_nat n) = word_of_nat (n mod 65536)"
    "target (word_of_nat n) = word_of_nat (n mod 67108864)"
    "word_of_nat n AND COPROCESSOR_TRANSFER_UNUSED_MASK = word_of_nat (n mod 2048)"
proof -
  have m: "0x1f = (mask 5 :: u32)" "0x3f = (mask 6 :: u32)" "0x03ffffff = (mask 26 :: u32)"
    "0x7ff = (mask 11 :: u32)"
    by (simp_all add: mask_numeral)
  note u = unat_of_nat32 [OF assms]
  have low: "word_of_nat n AND mask k = (word_of_nat (n mod 2 ^ k) :: u32)" for k
    by (rule word_unat_eq_iff [THEN iffD2])
      (use unat_drop_mask [of 0 "word_of_nat n :: u32" k] assms in
        \<open>simp add: u unat_of_nat32 order.strict_trans1 [OF mod_less_eq_dividend]\<close>)
  show "opcode (word_of_nat n) = word_of_nat (n div 67108864)"
    unfolding opcode_def word_unat_eq_iff
    using assms by (simp add: unat_drop_bit_eq drop_bit_nat_def u unat_of_nat32)
  show "function_field (word_of_nat n) = word_of_nat (n mod 64)"
    unfolding function_field_def m low by simp
  show "rs_field (word_of_nat n) = n div 2097152 mod 32"
    "rt_field (word_of_nat n) = n div 65536 mod 32"
    "rd_field (word_of_nat n) = n div 2048 mod 32"
    unfolding rs_field_def rt_field_def rd_field_def m unat_drop_mask u by simp_all
  show "shift_amount (word_of_nat n) = word_of_nat (n div 64 mod 32)"
    unfolding shift_amount_def m word_unat_eq_iff unat_drop_mask u
    by (simp add: unat_of_nat32 order.strict_trans [OF mod_less_divisor])
  show "immediate (word_of_nat n) = word_of_nat (n mod 65536)"
    unfolding immediate_def word_unat_eq_iff
    using assms by (simp add: unsigned_ucast_eq unat_of_nat take_bit_eq_mod)
  show "target (word_of_nat n) = word_of_nat (n mod 67108864)"
    unfolding target_def m low by simp
  show "word_of_nat n AND COPROCESSOR_TRANSFER_UNUSED_MASK = word_of_nat (n mod 2048)"
    unfolding COPROCESSOR_TRANSFER_UNUSED_MASK_def m low by simp
qed

lemma pack_r_fields:
  assumes "opc < 64" "rs < 32" "rt < 32" "rd < 32" "sa < 32" "fn < 64"
  shows "opcode (pack_r opc rs rt rd sa fn) = word_of_nat opc"
    "function_field (pack_r opc rs rt rd sa fn) = word_of_nat fn"
    "rs_field (pack_r opc rs rt rd sa fn) = rs"
    "rt_field (pack_r opc rs rt rd sa fn) = rt"
    "rd_field (pack_r opc rs rt rd sa fn) = rd"
    "shift_amount (pack_r opc rs rt rd sa fn) = word_of_nat sa"
    "pack_r opc rs rt rd sa fn AND COPROCESSOR_TRANSFER_UNUSED_MASK = word_of_nat (sa * 64 + fn)"
proof -
  define x1 where "x1 = opc * 32 + rs"
  define x2 where "x2 = x1 * 32 + rt"
  define x3 where "x3 = x2 * 32 + rd"
  define x4 where "x4 = x3 * 32 + sa"
  define n where "n = x4 * 64 + fn"
  have p: "pack_r opc rs rt rd sa fn = word_of_nat n"
    by (simp add: pack_r_def n_def x4_def x3_def x2_def x1_def)
  have n: "n < 4294967296"
    using assms unfolding n_def x4_def x3_def x2_def x1_def by simp
  have d1: "n div 64 = x4" "n mod 64 = fn" using assms by (simp_all add: n_def)
  have d2: "x4 div 32 = x3" "x4 mod 32 = sa" using assms by (simp_all add: x4_def)
  have d3: "x3 div 32 = x2" "x3 mod 32 = rd" using assms by (simp_all add: x3_def)
  have d4: "x2 div 32 = x1" "x2 mod 32 = rt" using assms by (simp_all add: x2_def)
  have d5: "x1 div 32 = opc" "x1 mod 32 = rs" using assms by (simp_all add: x1_def)
  have e: "n div 2048 = n div 64 div 32" "n div 65536 = n div 64 div 32 div 32"
    "n div 2097152 = n div 64 div 32 div 32 div 32"
    "n div 67108864 = n div 64 div 32 div 32 div 32 div 32"
    "n mod 2048 = n div 64 mod 32 * 64 + n mod 64"
    by (simp_all flip: div_mult2_eq add: mod_mult2_eq [of n 64 32, simplified])
  note f = fields_of_nat [OF n]
  show "opcode (pack_r opc rs rt rd sa fn) = word_of_nat opc"
    "function_field (pack_r opc rs rt rd sa fn) = word_of_nat fn"
    "rs_field (pack_r opc rs rt rd sa fn) = rs"
    "rt_field (pack_r opc rs rt rd sa fn) = rt"
    "rd_field (pack_r opc rs rt rd sa fn) = rd"
    "shift_amount (pack_r opc rs rt rd sa fn) = word_of_nat sa"
    "pack_r opc rs rt rd sa fn AND COPROCESSOR_TRANSFER_UNUSED_MASK = word_of_nat (sa * 64 + fn)"
    unfolding p f e by (simp_all only: d1 d2 d3 d4 d5)
qed

lemma pack_i_fields:
  assumes "opc < 64" "rs < 32" "rt < 32"
  shows "opcode (pack_i opc rs rt imm) = word_of_nat opc"
    "rs_field (pack_i opc rs rt imm) = rs"
    "rt_field (pack_i opc rs rt imm) = rt"
    "immediate (pack_i opc rs rt imm) = imm"
proof -
  define x1 where "x1 = opc * 32 + rs"
  define x2 where "x2 = x1 * 32 + rt"
  define n where "n = x2 * 65536 + unat imm"
  have i: "unat imm < 65536" using unsigned_less [of imm, where ?'a = nat] by simp
  have p: "pack_i opc rs rt imm = word_of_nat n"
    by (simp add: pack_i_def n_def x2_def x1_def)
  have n: "n < 4294967296"
    using assms i unfolding n_def x2_def x1_def by simp
  have d1: "n div 65536 = x2" "n mod 65536 = unat imm" using i by (simp_all add: n_def)
  have d2: "x2 div 32 = x1" "x2 mod 32 = rt" using assms by (simp_all add: x2_def)
  have d3: "x1 div 32 = opc" "x1 mod 32 = rs" using assms by (simp_all add: x1_def)
  have e: "n div 2097152 = n div 65536 div 32" "n div 67108864 = n div 65536 div 32 div 32"
    by (simp_all flip: div_mult2_eq)
  note f = fields_of_nat [OF n]
  show "opcode (pack_i opc rs rt imm) = word_of_nat opc"
    "rs_field (pack_i opc rs rt imm) = rs"
    "rt_field (pack_i opc rs rt imm) = rt"
    unfolding p f e by (simp_all only: d1 d2 d3)
  show "immediate (pack_i opc rs rt imm) = imm"
    unfolding p f d1 by simp
qed

lemma pack_j_fields:
  assumes "opc < 64" "unat t < 67108864"
  shows "opcode (pack_j opc t) = word_of_nat opc" "target (pack_j opc t) = t"
proof -
  have n: "opc * 67108864 + unat t < 4294967296" using assms by simp
  show "opcode (pack_j opc t) = word_of_nat opc" "target (pack_j opc t) = t"
    unfolding pack_j_def fields_of_nat [OF n] using assms by simp_all
qed

lemma decode_encode_alu: "wf_alu i \<Longrightarrow> decode (encode_alu i) = Some (Implemented (IAlu i))"
  by (cases i)
    (simp_all add: decode_def decode_special_def pack_r_fields pack_i_fields Let_def)

lemma decode_encode_control:
  "wf_control i \<Longrightarrow> decode (encode_control i) = Some (Implemented (IControl i))"
  by (cases i)
    (simp_all add: decode_def decode_special_def decode_regimm_def REGIMM_SELECTOR_MASK_def
      pack_r_fields pack_i_fields pack_j_fields Let_def)

lemma decode_encode_memory:
  "wf_memory i \<Longrightarrow> decode (encode_memory i) = Some (Implemented (IMemory i))"
  by (cases i) (simp_all add: decode_def wf_memory_def pack_i_fields Let_def)

lemma tlb_rfe_fields:
  "opcode 0x42000001 = 0x10" "rs_field 0x42000001 = 0x10"
  "opcode 0x42000002 = 0x10" "rs_field 0x42000002 = 0x10"
  "opcode 0x42000006 = 0x10" "rs_field 0x42000006 = 0x10"
  "opcode 0x42000008 = 0x10" "rs_field 0x42000008 = 0x10"
  "opcode 0x42000010 = 0x10" "rs_field 0x42000010 = 0x10"
  by (simp_all add: opcode_def rs_field_def)

lemmas decode_cp0_defs = decode_def decode_cp0_def transfer_selector_def Let_def
  CP0_TLBR_def CP0_TLBWI_def CP0_TLBWR_def CP0_TLBP_def CP0_RFE_def tlb_rfe_fields

lemma decode_encode_cp0: "wf_cp0 i \<Longrightarrow> decode (encode_cp0 i) = Some (Implemented (ICp0 i))"
  by (cases i) (simp_all add: decode_cp0_defs pack_r_fields pack_i_fields)

text \<open>The sixteen comparison predicates occupy function codes 0x30 through 0x3f.\<close>

lemma unat_compare_function: "n < 16 \<Longrightarrow> unat (word_of_nat (48 + n) :: u32) = 48 + n"
  by (simp add: unat_of_nat del: of_nat_add)

lemma compare_function_bounds:
  assumes "n < 16"
  shows "\<not> (word_of_nat (48 + n) :: u32) \<le> 7" "\<not> (word_of_nat (48 + n) :: u32) \<le> 3"
    "(word_of_nat (48 + n) :: u32) \<noteq> 0x20" "(word_of_nat (48 + n) :: u32) \<noteq> 0x21"
    "(word_of_nat (48 + n) :: u32) \<noteq> 0x24"
    "0x30 \<le> (word_of_nat (48 + n) :: u32)" "(word_of_nat (48 + n) :: u32) \<le> 0x3f"
  using assms unfolding u32_as_nat unat_compare_function [OF assms] by simp_all

lemma compare_condition_roundtrip:
  fixes c :: u8
  assumes "unat c < 16"
  shows "ucast ((word_of_nat (48 + unat c) :: u32) AND 0x0f) = c"
proof -
  have m: "0x0f = (mask 4 :: u32)" by (simp add: mask_numeral)
  have "unat ((word_of_nat (48 + unat c) :: u32) AND mask 4) = (48 + unat c) mod 16"
    using unat_drop_mask [of 0 "word_of_nat (48 + unat c) :: u32" 4]
    unfolding unat_compare_function [OF assms] by (simp del: of_nat_add)
  also have "\<dots> = unat c" using assms by presburger
  finally show ?thesis
    unfolding m word_unat_eq_iff
    using assms by (simp add: unsigned_ucast_eq take_bit_nat_eq_self del: of_nat_add)
qed

lemma decode_encode_binary:
  assumes "ft < 32" "fs < 32" "fd < 32"
  shows "decode (encode_cp1 (Binary operation fmt ft fs fd)) =
    Some (Implemented (ICp1 (Binary operation fmt ft fs fd)))"
  using assms by (cases fmt; cases operation)
    (simp_all add: decode_def decode_cp1_def decode_cp1_computational_def transfer_selector_def
      decode_cp1_binary_operation_def pack_r_fields Let_def unat_of_nat)

lemma decode_encode_unary:
  assumes "fs < 32" "fd < 32"
  shows "decode (encode_cp1 (Unary operation fmt fs fd)) =
    Some (Implemented (ICp1 (Unary operation fmt fs fd)))"
  using assms by (cases fmt; cases operation)
    (simp_all add: decode_def decode_cp1_def decode_cp1_computational_def transfer_selector_def
      decode_cp1_unary_operation_def pack_r_fields Let_def unat_of_nat)

lemma decode_encode_convert:
  assumes "fs < 32" "fd < 32"
  shows "decode (encode_cp1 (Convert operation fs fd)) =
    Some (Implemented (ICp1 (Convert operation fs fd)))"
  using assms by (cases operation)
    (simp_all add: decode_def decode_cp1_def decode_cp1_computational_def transfer_selector_def
      pack_r_fields Let_def unat_of_nat)

lemma decode_encode_compare:
  assumes "fs < 32" "ft < 32" "unat condition < 16"
  shows "decode (encode_cp1 (Compare fmt condition fs ft)) =
    Some (Implemented (ICp1 (Compare fmt condition fs ft)))"
  using assms compare_function_bounds [OF assms(3)]
    compare_condition_roundtrip [OF assms(3)]
  by (cases fmt)
    (simp_all add: decode_def decode_cp1_def decode_cp1_computational_def transfer_selector_def
      pack_r_fields Let_def del: of_nat_add)

lemma decode_encode_cp1: "wf_cp1 i \<Longrightarrow> decode (encode_cp1 i) = Some (Implemented (ICp1 i))"
proof (cases i)
  case (Binary operation fmt ft fs fd)
  then show "wf_cp1 i \<Longrightarrow> ?thesis" by (simp only: wf_cp1.simps decode_encode_binary)
next
  case (Unary operation fmt fs fd)
  then show "wf_cp1 i \<Longrightarrow> ?thesis" by (simp only: wf_cp1.simps decode_encode_unary)
next
  case (Convert operation fs fd)
  then show "wf_cp1 i \<Longrightarrow> ?thesis" by (simp only: wf_cp1.simps decode_encode_convert)
next
  case (Compare fmt condition fs ft)
  then show "wf_cp1 i \<Longrightarrow> ?thesis" by (simp only: wf_cp1.simps decode_encode_compare)
qed (simp_all add: decode_def decode_cp1_def decode_cp1_computational_def transfer_selector_def
      pack_r_fields pack_i_fields Let_def)

lemma decode_encode_all:
  "wf_instruction i \<Longrightarrow> decode (encode i) = Some (Implemented i)"
  by (cases i)
    (simp_all add: decode_encode_alu decode_encode_control decode_encode_cp0 decode_encode_cp1
      decode_encode_memory, simp_all add: decode_def decode_special_def pack_r_fields Let_def)

text \<open>
  The decoder never panics, and every field of the instruction it returns is in range:
  register numbers below 32, shift amounts below 32, jump targets below \<open>2 ^ 26\<close>, comparison
  predicates below 16, and an unsupported coprocessor is unit 2 or 3.
\<close>

lemma decode_fields_in_range: "\<exists>r. decode word = Some r \<and> wf_decoded r"
  using wf_decode [of word] by (simp add: ok_ex)

text \<open>
  C17. Decoding inverts the architectural encoding: every instruction with fields in range is
  what the decoder returns for its encoded word.
\<close>

theorem decode_encode:
  assumes "wf_instruction i"
  shows "decode (encode i) = Some (Implemented i)"
  using assms by (rule decode_encode_all)

theorem decode_encode_witness:
  "encode (IMemory (Lw 29 8 0x10)) = 0x8fa80010 \<and>
   decode 0x8fa80010 = Some (Implemented (IMemory (Lw 29 8 0x10)))"
proof -
  have e: "encode (IMemory (Lw 29 8 0x10)) = 0x8fa80010"
    by (simp add: pack_i_def)
  show ?thesis
    using decode_encode [of "IMemory (Lw 29 8 0x10)"] unfolding e by (simp add: wf_memory_def)
qed

end
