(* ===== verification/Float_Correct.thy ===== *)
theory Float_Correct
  imports Float
begin

text \<open>
  Facts about the floating-point crate: whatever the SoftFloat library returns, the bridge hands
  over only the five known flags and the four known relations, so the checks of
  \<^verbatim>\<open>softfloat/mapping.rs\<close> never panic; the crate's two signalling-NaN tests agree.
\<close>

lemma finish_operation_known: "finish_operation f AND NOT 0x1f = 0"
  by (cases "lf_inexact f"; cases "lf_underflow f"; cases "lf_overflow f"; cases "lf_infinite f";
      cases "lf_invalid f"; simp add: finish_operation_def)

definition known_flags :: "exception_flags \<Rightarrow> bool" where
  "known_flags f \<longleftrightarrow> f AND NOT 0x1f = 0"

lemma known_flags_0 [simp]: "known_flags 0"
  by (simp add: known_flags_def)

lemma known_finish [simp]: "known_flags (finish_operation f)"
  unfolding known_flags_def by (rule finish_operation_known)

lemma mapping_exception_flags_eq: "known_flags f \<Longrightarrow> mapping_exception_flags f = Some f"
  by (simp add: mapping_exception_flags_def known_flags_def)

lemma softfloat_rounding_ok: "ok (softfloat_rounding (mapping_rounding_mode m)) (\<lambda>_. True)"
  by (cases m) (simp_all add: softfloat_rounding_def mapping_rounding_mode_def)

lemma bridged_ok:
  "ok (bridged call (mapping_rounding_mode m)) (\<lambda>(v, f). known_flags f)"
  "ok (bridged call 0) (\<lambda>(v, f). known_flags f)"
  by (cases m)
    (simp_all add: bridged_def softfloat_rounding_def mapping_rounding_mode_def Let_def
      split: prod.split)

lemmas bridge_defs =
  bridge_add_f32_def bridge_add_f64_def bridge_sub_f32_def bridge_sub_f64_def
  bridge_mul_f32_def bridge_mul_f64_def bridge_div_f32_def bridge_div_f64_def
  bridge_f32_to_f64_def bridge_f64_to_f32_def bridge_i32_to_f32_def
  bridge_f32_to_i32_def bridge_f64_to_i32_def

lemmas sf_arithmetic_defs =
  sf_add_f32_def sf_add_f64_def sf_sub_f32_def sf_sub_f64_def sf_mul_f32_def sf_mul_f64_def
  sf_div_f32_def sf_div_f64_def sf_convert_float32_to_float64_def
  sf_convert_float64_to_float32_def sf_convert_i32_to_float32_def sf_convert_float32_to_i32_def
  sf_convert_float64_to_i32_def

lemma sf_finish_ok:
  "known_flags f \<Longrightarrow> ok (sf_rounded_f32 b32 f) (\<lambda>out. known_flags (out_flags out))"
  "known_flags f \<Longrightarrow> ok (sf_rounded_f64 b64 f) (\<lambda>out. known_flags (out_flags out))"
  "known_flags f \<Longrightarrow> ok (sf_integer i f) (\<lambda>out. known_flags (out_flags out))"
  by (simp_all add: sf_rounded_f32_def sf_rounded_f64_def sf_integer_def mapping_exception_flags_eq)

lemma bridged_then_ok:
  assumes "\<And>v f. known_flags f \<Longrightarrow> ok (k v f) P"
  shows "ok (Option.bind (bridged call (mapping_rounding_mode m)) (\<lambda>(v, f). k v f)) P"
    "ok (Option.bind (bridged call 0) (\<lambda>(v, f). k v f)) P"
  unfolding ok_bind
  by (rule ok_mono [OF bridged_ok(1)] ok_mono [OF bridged_ok(2)], use assms in auto)+

abbreviation flags_ok :: "'a outcome option \<Rightarrow> bool" where
  "flags_ok m \<equiv> ok m (\<lambda>out. known_flags (out_flags out))"

lemma sf_arithmetic_ok:
  "flags_ok (sf_add_f32 lib a b m)" "flags_ok (sf_add_f64 lib c d m)"
  "flags_ok (sf_sub_f32 lib a b m)" "flags_ok (sf_sub_f64 lib c d m)"
  "flags_ok (sf_mul_f32 lib a b m)" "flags_ok (sf_mul_f64 lib c d m)"
  "flags_ok (sf_div_f32 lib a b m)" "flags_ok (sf_div_f64 lib c d m)"
  "flags_ok (sf_convert_float32_to_float64 lib a)"
  "flags_ok (sf_convert_float64_to_float32 lib c m)"
  "flags_ok (sf_convert_i32_to_float32 lib a m)"
  "flags_ok (sf_convert_float32_to_i32 lib a m)"
  "flags_ok (sf_convert_float64_to_i32 lib c m)"
  unfolding sf_arithmetic_defs bridge_defs
  by (rule bridged_then_ok, simp add: sf_finish_ok mapping_exception_flags_eq sf_exact_f64_def)+

lemma sf_compare_ok: "flags_ok (sf_compare_f32 lib a b mode)" "flags_ok (sf_compare_f64 lib c d mode)"
  by (auto simp: sf_compare_f32_def sf_compare_f64_def bridge_compare_f32_def bridge_compare_f64_def
      sf_comparison_def mapping_relation_def mapping_exception_flags_eq Let_def
      split: prod.splits if_splits)

lemma backend_ok [ok_rules]:
  "flags_ok (backend_add_f32 env bk a b m)" "flags_ok (backend_add_f64 env bk c d m)"
  "flags_ok (backend_sub_f32 env bk a b m)" "flags_ok (backend_sub_f64 env bk c d m)"
  "flags_ok (backend_mul_f32 env bk a b m)" "flags_ok (backend_mul_f64 env bk c d m)"
  "flags_ok (backend_div_f32 env bk a b m)" "flags_ok (backend_div_f64 env bk c d m)"
  "flags_ok (backend_convert_float32_to_float64 env bk a)"
  "flags_ok (backend_convert_float64_to_float32 env bk c m)"
  "flags_ok (backend_convert_i32_to_float32 env bk a m)"
  "flags_ok (backend_convert_float32_to_i32 env bk a m)"
  "flags_ok (backend_convert_float64_to_i32 env bk c m)"
  "flags_ok (backend_compare_f32 env bk a b mode)" "flags_ok (backend_compare_f64 env bk c d mode)"
  by (cases bk;
      simp add: backend_add_f32_def backend_add_f64_def backend_sub_f32_def backend_sub_f64_def
        backend_mul_f32_def backend_mul_f64_def backend_div_f32_def backend_div_f64_def
        backend_convert_float32_to_float64_def backend_convert_float64_to_float32_def
        backend_convert_i32_to_float32_def backend_convert_float32_to_i32_def
        backend_convert_float64_to_i32_def backend_compare_f32_def backend_compare_f64_def
        sf_arithmetic_ok sf_compare_ok
        nat_add_f32_def nat_add_f64_def nat_sub_f32_def nat_sub_f64_def nat_mul_f32_def
        nat_mul_f64_def nat_div_f32_def nat_div_f64_def nat_rounded_f32_def nat_rounded_f64_def
        nat_plain_def nat_convert_float32_to_float64_def nat_convert_float64_to_float32_def
        nat_convert_i32_to_float32_def nat_convert_float32_to_i32_def
        nat_convert_float64_to_i32_def nat_compare_f32_def nat_compare_f64_def)+

end
