(* ===== verification/Exec_Correct.thy ===== *)
theory Exec_Correct
  imports R3000 State_Correct Decode_Correct Float_Correct
begin

text \<open>
  Every execution unit and the step itself, over any bus that keeps the \<open>physical_bus\<close>
  contract: no operation panics, and the well-formedness of processor and bus is kept.
\<close>

section \<open>Integer unit and branches\<close>

lemma finish_gpr_ok: "cpu_ok s \<Longrightarrow> i < 32 \<Longrightarrow> ok (finish_gpr i v s) (\<lambda>(r, s'). cpu_ok s')"
  unfolding finish_gpr_def ok_map by (rule ok_mono [OF write_gpr_ok]) simp_all

lemma finish_checked_ok: "cpu_ok s \<Longrightarrow> i < 32 \<Longrightarrow> ok (finish_checked i r s) (\<lambda>(r, s'). cpu_ok s')"
  by (simp add: finish_checked_def finish_gpr_ok)

lemma finish_hi_lo_ok: "cpu_ok s \<Longrightarrow> ok (finish_hi_lo hi lo s) (\<lambda>(r, s'). cpu_ok s')"
  by (simp add: finish_hi_lo_def)

lemma alu_ok: "cpu_ok s \<Longrightarrow> wf_alu i \<Longrightarrow> ok (alu_execute i s) (\<lambda>(r, s'). cpu_ok s')"
  by (cases i)
    (simp_all add: read_gpr_ok finish_gpr_ok finish_checked_ok finish_hi_lo_ok Let_def split: prod.split)

lemma write_then_ok:
  "cpu_ok s \<Longrightarrow> i < 32 \<Longrightarrow> ok (write_gpr i v s) (\<lambda>s1. cpu_ok s1)"
  by (rule write_gpr_ok)

lemma control_ok: "cpu_ok s \<Longrightarrow> wf_control i \<Longrightarrow> ok (control_execute i s) (\<lambda>(pc, s'). cpu_ok s')"
  by (cases i) (simp_all add: read_gpr_ok write_then_ok)

section \<open>CP0 instructions\<close>

definition completion_ok :: "instruction_result \<Rightarrow> bool" where
  "completion_ok r = (case r of Inr (Completed (pc, Some e)) \<Rightarrow> effect_ok e | _ \<Rightarrow> True)"

lemma completion_ok_simps [simp]:
  "completion_ok (completed_with pc None)"
  "completion_ok (completed_with pc (Some e)) = effect_ok e"
  "completion_ok (Inl err)" "completion_ok (Inr (ExceptionOutcome x))"
  by (simp_all add: completion_ok_def completed_with_def)

lemma cp0_ok:
  assumes "cpu_ok s" "wf_cp0 i"
  shows "ok (cp0_execute i condition s) (\<lambda>(r, s'). cpu_ok s' \<and> completion_ok r)"
proof -
  have m: "mmu_ok (cpu_mmu s)" using assms(1) by (rule cpu_ok_facts)
  have tlbr: "ok (tlbr_effect s) effect_ok"
    using read_indexed_ok [OF m, of "cp0_tlb_index (cpu_cp0 s)"]
    by (auto simp: tlbr_effect_def TLB_ENTRY_COUNT_def ok_ex)
  have tlbp: "ok (tlbp_effect s) (\<lambda>(r, s'). cpu_ok s' \<and> (\<forall>e. r = Inr e \<longrightarrow> effect_ok e))"
    using assms(1) cpu_ok_facts(4) [OF assms(1)] probe_ok [OF m, of "fst (cp0_tlb_staging (cpu_cp0 s))"]
    by (auto simp: tlbp_effect_def Let_def ok_ex split: prod.splits probe_result.splits)
  show ?thesis
    using assms tlbr
    by (cases i)
      (auto simp: cp0_execute_def read_gpr_ok tlbwi_effect_def tlbwr_effect_def rfe_effect_def Let_def
        TLB_ENTRY_COUNT_def intro!: ok_mono [OF tlbr] ok_mono [OF tlbp] split: prod.split sum.splits)
qed

section \<open>Loads and stores\<close>

lemma byte_lt: "unat (va AND 3) < 4" for va :: u32
  using word_and_mask_lt_nat [of va 2] by (simp add: mask_numeral)

lemma memory_translate_ok:
  assumes "cpu_ok s"
  shows "ok (memory_translate va access s) (\<lambda>(r, s'). cpu_ok s' \<and>
    (\<forall>t. r = Inr (Completed t) \<longrightarrow> unat (tr_address t) < 2 ^ 32 \<and> tr_address t AND 3 = ucast va AND 3))"
  unfolding memory_translate_def ok_bind
  by (rule ok_mono [OF translate_address_ok [OF assms]])
    (auto split: sum.splits translation_error.splits)

lemma effective_address_ok: "cpu_ok s \<Longrightarrow> i < 32 \<Longrightarrow> ok (effective_address s i off) (\<lambda>_. True)"
  by (simp add: effective_address_def read_gpr_ok)

lemma on_completed_ok:
  assumes "ok m (\<lambda>(r, s, b). P s b \<and> (\<forall>v. r = Inr (Completed v) \<longrightarrow> Q v))"
    and "\<And>v s b. P s b \<Longrightarrow> Q v \<Longrightarrow> ok (k v s b) (\<lambda>(r, s', b'). P s' b' \<and> R r)"
    and "\<And>e. R (Inl e)" "\<And>x. R (Inr (ExceptionOutcome x))"
  shows "ok m (\<lambda>rsb. ok (on_completed rsb k) (\<lambda>(r, s', b'). P s' b' \<and> R r))"
  by (rule ok_mono [OF assms(1)])
    (use assms(2-4) in \<open>auto simp: on_completed_def split: sum.splits execution_outcome.splits\<close>)

lemma on_completed_unit_ok:
  assumes "ok m (\<lambda>(r, s, b). P s b \<and> True)"
    and "\<And>v s b. P s b \<Longrightarrow> ok (k v s b) (\<lambda>(r, s', b'). P s' b' \<and> R r)"
    and "\<And>e. R (Inl e)" "\<And>x. R (Inr (ExceptionOutcome x))"
  shows "ok m (\<lambda>rsb. ok (on_completed rsb k) (\<lambda>(r, s', b'). P s' b' \<and> R r))"
  by (rule on_completed_ok [where Q = "\<lambda>_. True"]) (use assms in simp_all)

definition access_aligned :: "u32 \<Rightarrow> nat \<Rightarrow> bool" where
  "access_aligned va n \<longleftrightarrow> 1 \<le> n \<and> unat (va AND 3) + n \<le> 4"

lemma unat_and_3: "unat (ucast va AND 3 :: u64) = unat (va AND 3)" for va :: u32
proof -
  have "ucast (va AND 3) = (ucast va AND 3 :: u64)"
    by (rule bit_word_eqI) (auto simp: bit_simps dest: bit_u32)
  moreover have "unat (ucast (va AND 3) :: u64) = unat (va AND 3)"
    using unsigned_less [of "va AND 3", where 'a = nat]
    by (simp add: unsigned_ucast_eq take_bit_nat_eq_self)
  ultimately show ?thesis by simp
qed

lemma translated_transaction:
  "unat (tr_address t) < 2 ^ 32 \<Longrightarrow> tr_address t AND 3 = ucast va AND 3 \<Longrightarrow> access_aligned va n \<Longrightarrow>
    word_transaction (tr_address t) n"
  by (simp add: word_transaction_def access_aligned_def unat_and_3)

lemma misaligned_Some:
  assumes "n = 1 \<or> n = 2 \<or> n = 4"
  shows "ok (misaligned va n) (\<lambda>bad. \<not> bad \<longrightarrow> access_aligned va n)"
proof -
  have 3: "unat (va AND 3) < 4" using word_and_mask_lt_nat [of va 2] by (simp add: mask_numeral)
  have "va AND 1 = 0 \<Longrightarrow> unat (va AND 3) \<le> 2"
  proof -
    assume even: "va AND 1 = 0"
    have "\<not> bit (va AND 1) 0" using even by simp
    then have "\<not> bit va 0" by (simp add: bit_and_iff bit_1_iff)
    then have "\<not> bit (va AND 3) 0" by (simp add: bit_and_iff)
    then have "\<not> bit (unat (va AND 3)) 0" by (simp only: bit_unsigned_iff) simp
    then have "even (unat (va AND 3))" by (simp only: bit_0) simp
    then show "unat (va AND 3) \<le> 2" using 3 by (auto elim!: evenE)
  qed
  then show ?thesis using assms 3 by (auto simp: misaligned_def access_aligned_def)
qed

lemma aligned_below:
  assumes "unat (tr_address t) < 2 ^ 32" "tr_address t AND 3 = ucast va AND 3"
  shows "word_transaction (tr_address t - word_of_nat (unat (va AND 3))) (unat ((va :: u32) AND 3) + 1)"
proof -
  define k where "k = unat (va AND 3)"
  let ?a = "tr_address t" and ?k = k
  have k: "?k < 4" using word_and_mask_lt_nat [of va 2] by (simp add: mask_numeral k_def)
  have low: "unat (?a AND 3) = ?k" unfolding assms(2) k_def by (rule unat_and_3)
  have mod: "unat (x AND 3) = unat x mod 4" for x :: u64
    using unat_drop_mask [of 0 x 2] by (simp add: mask_numeral)
  have ge: "?k \<le> unat ?a" using low mod [of ?a] by (metis mod_less_eq_dividend)
  have "unat (word_of_nat ?k :: u64) = ?k" using k by (simp add: unat_of_nat)
  then have sub: "unat (?a - word_of_nat ?k) = unat ?a - ?k"
    using ge by (simp add: unat_sub_if')
  have "(unat ?a - ?k) mod 4 = 0"
    using low mod [of ?a] by (metis minus_mod_self2 mod_0 minus_mod_eq_div_mult mod_mult_self1_is_0 mult.commute)
  then have "word_transaction (?a - word_of_nat k) (k + 1)"
    using k sub assms(1) by (simp add: word_transaction_def mod)
  then show ?thesis by (simp only: k_def)
qed

definition memory_result_ok :: "(step_error + instruction_effect option execution_outcome) \<Rightarrow> bool" where
  "memory_result_ok r = (case r of Inr (Completed (Some e)) \<Rightarrow> effect_ok e | _ \<Rightarrow> True)"

lemma memory_result_ok_simps [simp]:
  "memory_result_ok (Inl e)" "memory_result_ok (Inr (ExceptionOutcome x))"
  "memory_result_ok (Inr (Completed None))"
  "memory_result_ok (Inr (Completed (Some e'))) = effect_ok e'"
  by (simp_all add: memory_result_ok_def)

context physical_bus
begin

lemma finish_load_ok:
  assumes "cpu_ok s" "bus_ok b" "word_transaction (tr_address t) n"
  shows "ok (finish_load ops t n s b) (\<lambda>(r, s', b'). (cpu_ok s' \<and> bus_ok b') \<and>
    (\<forall>bs. r = Inr (Completed bs) \<longrightarrow> length bs = n))"
  unfolding finish_load_def ok_bind
  by (rule ok_mono [OF load_data_ok [OF assms]]) (auto split: sum.splits bus_error.splits)

lemma finish_store_ok:
  assumes "cpu_ok s" "bus_ok b" "word_transaction (tr_address t) (length bs)"
  shows "ok (finish_store ops t bs s b) (\<lambda>(r, s', b'). (cpu_ok s' \<and> bus_ok b') \<and> True)"
  unfolding finish_store_def ok_bind
  by (rule ok_mono [OF store_memory_ok [OF assms]]) (auto split: sum.splits)

lemma translate_then_ok:
  assumes "cpu_ok s" "bus_ok b"
    and "\<And>t s1 b1. cpu_ok s1 \<Longrightarrow> bus_ok b1 \<Longrightarrow> unat (tr_address t) < 2 ^ 32 \<Longrightarrow>
      tr_address t AND 3 = ucast va AND 3 \<Longrightarrow>
      ok (k t s1 b1) (\<lambda>(r, s', b'). (cpu_ok s' \<and> bus_ok b') \<and> R r)"
    and "\<And>e. R (Inl e)" "\<And>x. R (Inr (ExceptionOutcome x))"
  shows "ok (memory_translate va access s) (\<lambda>x. ok (case x of (r, s1) \<Rightarrow> on_completed (r, s1, b) k)
    (\<lambda>(r, s', b'). (cpu_ok s' \<and> bus_ok b') \<and> R r))"
  by (rule ok_mono [OF memory_translate_ok [OF assms(1)]])
    (use assms(2-) in \<open>auto simp: on_completed_def split: sum.splits execution_outcome.splits\<close>)

lemma ls_load_ok:
  assumes "cpu_ok s" "bus_ok b" "base < 32" "n = 1 \<or> n = 2 \<or> n = 4"
  shows "ok (ls_load ops base off n s b) (\<lambda>(r, s', b'). (cpu_ok s' \<and> bus_ok b') \<and>
    (\<forall>bs. r = Inr (Completed bs) \<longrightarrow> length bs = n))"
  unfolding ls_load_def ok_bind
proof (rule ok_mono [OF effective_address_ok [OF assms(1,3)]],
    rule ok_mono [OF misaligned_Some [OF assms(4)]], goal_cases)
  case (1 va bad)
  show ?case
  proof (cases bad)
    case False
    then show ?thesis
      unfolding if_not_P [OF False] ok_bind
      by (intro translate_then_ok assms(1,2) finish_load_ok translated_transaction)
        (use 1 in auto)
  qed (use assms(1,2) in simp)
qed

lemma ls_store_ok:
  assumes "cpu_ok s" "bus_ok b" "base < 32" "length bs = 1 \<or> length bs = 2 \<or> length bs = 4"
  shows "ok (ls_store ops base off bs s b) (\<lambda>(r, s', b'). (cpu_ok s' \<and> bus_ok b') \<and> True)"
  unfolding ls_store_def ok_bind
proof (rule ok_mono [OF effective_address_ok [OF assms(1,3)]],
    rule ok_mono [OF misaligned_Some [OF assms(4)]], goal_cases)
  case (1 va bad)
  show ?case
  proof (cases bad)
    case False
    then show ?thesis
      unfolding if_not_P [OF False] ok_bind
      by (intro translate_then_ok assms(1,2) finish_store_ok translated_transaction)
        (use 1 in auto)
  qed (use assms(1,2) in simp)
qed

lemma delayed_load_ok:
  "cpu_ok s \<Longrightarrow> bus_ok b \<Longrightarrow> rt < 32 \<Longrightarrow>
    ok (delayed_load rt v s b) (\<lambda>(r, s', b'). (cpu_ok s' \<and> bus_ok b') \<and> memory_result_ok r)"
  by (simp add: delayed_load_def)

lemma load_then_ok:
  assumes "cpu_ok s" "bus_ok b" "base < 32" "rt < 32" "n = 1 \<or> n = 2 \<or> n = 4"
  shows "ok (load_then ops base rt off n f s b)
    (\<lambda>(r, s', b'). (cpu_ok s' \<and> bus_ok b') \<and> memory_result_ok r)"
  unfolding load_then_def ok_bind
  by (rule on_completed_ok [OF ls_load_ok [OF assms(1-3,5)]])
    (use assms(4) delayed_load_ok in blast, simp_all)

lemma store_then_ok:
  assumes "cpu_ok s" "bus_ok b" "base < 32" "rt < 32" "\<And>v. length (f v) = 1 \<or> length (f v) = 2 \<or> length (f v) = 4"
  shows "ok (store_then ops base rt off f s b)
    (\<lambda>(r, s', b'). (cpu_ok s' \<and> bus_ok b') \<and> memory_result_ok r)"
  unfolding store_then_def read_gpr_ok [OF assms(1,4)] bind.bind_lunit ok_bind
  by (rule on_completed_ok [where Q = "\<lambda>_. True"])
    (use ls_store_ok [OF assms(1-3,5)] in simp_all)

lemma low_part_aligned: "access_aligned va (4 - unat (va AND 3))"
  using byte_lt [of va] by (simp add: access_aligned_def)

lemma load_word_left_ok:
  assumes "cpu_ok s" "bus_ok b" "base < 32" "rt < 32"
  shows "ok (load_word_left ops base rt off s b)
    (\<lambda>(r, s', b'). (cpu_ok s' \<and> bus_ok b') \<and> memory_result_ok r)"
  unfolding load_word_left_def ok_bind Let_def
proof (rule ok_mono [OF effective_address_ok [OF assms(1,3)]], rule translate_then_ok [OF assms(1,2)],
    goal_cases)
  case (1 va t s1 b1)
  have "word_transaction (tr_address t) (4 - unat (va AND 3))"
    using 1(4,5) low_part_aligned by (rule translated_transaction)
  from finish_load_ok [OF 1(2,3) this] show ?case
    unfolding ok_bind
    by (rule on_completed_ok) (use assms(4) in \<open>auto intro!: ok_mono [OF read_merge_ok] simp: delayed_load_def\<close>)
qed simp_all

lemma load_word_right_ok:
  assumes "cpu_ok s" "bus_ok b" "base < 32" "rt < 32"
  shows "ok (load_word_right ops base rt off s b)
    (\<lambda>(r, s', b'). (cpu_ok s' \<and> bus_ok b') \<and> memory_result_ok r)"
  unfolding load_word_right_def ok_bind Let_def
proof (rule ok_mono [OF effective_address_ok [OF assms(1,3)]], rule translate_then_ok [OF assms(1,2)],
    goal_cases)
  case (1 va t s1 b1)
  let ?t = "t\<lparr>tr_address := tr_address t - word_of_nat (unat (va AND 3))\<rparr>"
  have "word_transaction (tr_address ?t) (unat (va AND 3) + 1)"
    using aligned_below [OF 1(4,5)] by simp
  from finish_load_ok [OF 1(2,3) this] show ?case
    unfolding ok_bind
    by (rule on_completed_ok) (use assms(4) in \<open>auto intro!: ok_mono [OF read_merge_ok] simp: delayed_load_def\<close>)
qed simp_all

lemma store_word_left_ok:
  assumes "cpu_ok s" "bus_ok b" "base < 32" "rt < 32"
  shows "ok (store_word_left ops base rt off s b)
    (\<lambda>(r, s', b'). (cpu_ok s' \<and> bus_ok b') \<and> memory_result_ok r)"
  unfolding store_word_left_def ok_bind Let_def
proof (rule ok_mono [OF effective_address_ok [OF assms(1,3)]], rule translate_then_ok [OF assms(1,2)],
    goal_cases)
  case (1 va t s1 b1)
  let ?bs = "take (4 - unat (va AND 3)) (to_be_bytes32 (cpu_gpr s1 ! rt))"
  have gpr: "ok (read_gpr s1 rt) P = P (if rt = 0 then 0 else cpu_gpr s1 ! rt)" for P
    using 1(2) assms(4) by (simp add: read_gpr_def cpu_ok_def)
  have "word_transaction (tr_address t) (length (take (4 - unat (va AND 3)) (to_be_bytes32 v)))" for v
    using translated_transaction [OF 1(4,5) low_part_aligned] by simp
  from finish_store_ok [OF 1(2,3) this] show ?case
    unfolding gpr ok_bind by (rule on_completed_unit_ok) simp_all
qed simp_all

lemma store_word_right_ok:
  assumes "cpu_ok s" "bus_ok b" "base < 32" "rt < 32"
  shows "ok (store_word_right ops base rt off s b)
    (\<lambda>(r, s', b'). (cpu_ok s' \<and> bus_ok b') \<and> memory_result_ok r)"
  unfolding store_word_right_def ok_bind Let_def
proof (rule ok_mono [OF effective_address_ok [OF assms(1,3)]], rule translate_then_ok [OF assms(1,2)],
    goal_cases)
  case (1 va t s1 b1)
  let ?t = "t\<lparr>tr_address := tr_address t - word_of_nat (unat (va AND 3))\<rparr>"
  have gpr: "ok (read_gpr s1 rt) P = P (if rt = 0 then 0 else cpu_gpr s1 ! rt)" for P
    using 1(2) assms(4) by (simp add: read_gpr_def cpu_ok_def)
  have "word_transaction (tr_address ?t) (length (drop (3 - unat (va AND 3)) (to_be_bytes32 v)))" for v
  proof -
    have "length (drop (3 - unat (va AND 3)) (to_be_bytes32 v)) = unat (va AND 3) + 1"
      using byte_lt [of va] by simp
    then show ?thesis using aligned_below [OF 1(4,5)] by simp
  qed
  from finish_store_ok [OF 1(2,3) this] show ?case
    unfolding gpr ok_bind by (rule on_completed_unit_ok) simp_all
qed simp_all

lemma load_store_ok:
  assumes "cpu_ok s" "bus_ok b" "wf_memory i"
  shows "ok (load_store_execute ops i s b)
    (\<lambda>(r, s', b'). (cpu_ok s' \<and> bus_ok b') \<and> memory_result_ok r)"
proof -
  have regs: "fst (memory_registers i) < 32" "snd (memory_registers i) < 32"
    using assms(3) by (simp_all add: wf_memory_def)
  show ?thesis
    using regs
    by (cases i) (simp_all only: load_store_execute.simps memory_registers.simps fst_conv snd_conv,
        (rule load_then_ok store_then_ok load_word_left_ok load_word_right_ok store_word_left_ok
          store_word_right_ok; simp add: assms(1,2))+)
qed

end

section \<open>Coprocessor 1\<close>

lemma even_register_lt: "r < 32 \<Longrightarrow> even_register r < 32"
  by (simp add: even_register_def)

lemma odd_register_lt: "r < 32 \<Longrightarrow> odd_register r < 32"
  by (cases "r = 31") (auto simp: odd_register_def or_Suc_0_eq)

lemma cp1_reads_ok:
  assumes "length (cp1_registers c) = 32" "r < 32"
  shows "ok (cp1_read_float32 c r) (\<lambda>_. True)" "ok (cp1_read_float64 c r) (\<lambda>_. True)"
    "ok (cp1_read_word c r) (\<lambda>_. True)" "ok (cp1_read_general c r) (\<lambda>_. True)"
  using assms by (simp_all add: cp1_read_float32_def cp1_read_float64_def cp1_read_word_def
      cp1_read_general_def Let_def even_register_lt odd_register_lt)

lemma cp1_writes_ok:
  assumes "length (cp1_registers c) = 32" "r < 32"
  shows "ok (cp1_write_float32 r v32 c) (\<lambda>c'. length (cp1_registers c') = 32)"
    "ok (cp1_write_float64 r v64 c) (\<lambda>c'. length (cp1_registers c') = 32)"
    "ok (cp1_write_word r v32 c) (\<lambda>c'. length (cp1_registers c') = 32)"
  using assms by (simp_all add: cp1_write_float32_def cp1_write_float64_def cp1_write_word_def
      Let_def even_register_lt odd_register_lt)

lemma cp1_rounding_ok: "ok (cp1_rounding_mode c) (\<lambda>_. True)"
proof -
  define x where "x = cp1_control_status c AND 3"
  define k where "k = unat x"
  have x: "x = word_of_nat k" by (simp add: k_def)
  have "k < 4" unfolding k_def x_def by (rule byte_lt)
  then have "k = 0 \<or> k = 1 \<or> k = 2 \<or> k = 3" by linarith
  then have "x = 0 \<or> x = 1 \<or> x = 2 \<or> x = 3" unfolding x by auto
  then show ?thesis by (auto simp: cp1_rounding_mode_def Let_def x_def [symmetric])
qed

lemma coprocessor_usable_ok: "u < 4 \<Longrightarrow> ok (cp0_coprocessor_usable c u) (\<lambda>_. True)"
  by (simp add: cp0_coprocessor_usable_def)

text \<open>An update that allows a writeback comes with a value.\<close>

definition classified_ok :: "fcr31_update \<times> 'a option \<Rightarrow> bool" where
  "classified_ok uv \<longleftrightarrow> (fu_writeback (fst uv) \<longrightarrow> snd uv \<noteq> None)"

lemma operand_updates_no_writeback:
  "classify_float32_operands c xs any = Some u \<Longrightarrow> \<not> fu_writeback u"
  "classify_float64_operands c ys any = Some u \<Longrightarrow> \<not> fu_writeback u"
  by (auto simp: classify_float32_operands_def classify_float64_operands_def classify_nan_def
      classify_invalid_def unimplemented_update_def split: if_splits)

lemma classified_result_ok:
  assumes "operands = None \<Longrightarrow> ok result (\<lambda>_. True)"
    and "\<And>u. operands = Some u \<Longrightarrow> \<not> fu_writeback u"
  shows "ok (classified c operands result) classified_ok"
  using assms by (auto simp: classified_def classified_ok_def ok_ex split: option.splits)

lemma finish_cp1_ok:
  assumes "cpu_ok s" "classified_ok (update, v)"
    and "\<And>c x. length (cp1_registers c) = 32 \<Longrightarrow> ok (wr d x c) (\<lambda>c'. length (cp1_registers c') = 32)"
  shows "ok (finish_cp1 wr d update v s) (\<lambda>(raised, s'). cpu_ok s')"
  unfolding finish_cp1_def ok_bind Let_def
proof (rule ok_mono [OF commit_cp1_ok [OF assms(1)]])
  fix s1
  assume s1: "cpu_ok s1"
  let ?s2 = "s1\<lparr>cpu_cp1 := apply_fcr31_update update (cpu_cp1 s1)\<rparr>"
  have s2: "cpu_ok ?s2" using s1 by (simp add: cpu_ok_facts)
  show "ok (if fu_writeback update then Option.bind v (\<lambda>v. with_cp1 (wr d v) ?s2) else Some ?s2)
      (\<lambda>s3. ok (Some (\<not> fu_writeback update, s3)) (\<lambda>(raised, s'). cpu_ok s'))"
  proof (cases "fu_writeback update")
    case True
    then obtain x where x: "v = Some x" using assms(2) by (auto simp: classified_ok_def)
    have "ok (wr d x (cpu_cp1 ?s2)) (\<lambda>c'. length (cp1_registers c') = 32)"
      using s2 by (intro assms(3)) (rule cpu_ok_facts)
    then show ?thesis
      using True x s1 by (auto simp: with_cp1_def ok_ex)
  qed (use s2 in simp)
qed

lemmas finish_float_ok =
  finish_cp1_ok [where wr = cp1_write_float32, folded finish_float32_def]
  finish_cp1_ok [where wr = cp1_write_float64, folded finish_float64_def]
  finish_cp1_ok [where wr = cp1_write_word, folded finish_word_def]

lemma fp_result_ok:
  "ok m (\<lambda>out. known_flags (out_flags out)) \<Longrightarrow> ok m (\<lambda>_. True)"
  by (rule ok_mono) simp_all

lemmas backend_total = backend_ok [THEN fp_result_ok]

lemma binary_total:
  "ok (binary32 env b operation x y rm) (\<lambda>_. True)" "ok (binary64 env b operation u v rm) (\<lambda>_. True)"
  by (cases operation; simp add: binary32_def binary64_def backend_total)+

lemma with_rounding:
  "(\<And>rm. ok (f rm) (\<lambda>_. True)) \<Longrightarrow> ok (Option.bind (cp1_rounding_mode c) f) (\<lambda>_. True)"
  unfolding ok_bind by (rule ok_mono [OF cp1_rounding_ok])

lemma unary_total:
  "operation \<noteq> FMove \<Longrightarrow> ok (unary32 b operation x) (\<lambda>_. True)"
  "operation \<noteq> FMove \<Longrightarrow> ok (unary64 b operation u) (\<lambda>_. True)"
  by (cases operation; simp add: unary32_def unary64_def)+

lemma classified_then_ok:
  assumes "operands = None \<Longrightarrow> ok result (\<lambda>_. True)"
    and "\<And>u. operands = Some u \<Longrightarrow> \<not> fu_writeback u"
    and "\<And>update v. classified_ok (update, v) \<Longrightarrow> ok (k update v) P"
  shows "ok (classified c operands result) (\<lambda>x. ok (case x of (update, v) \<Rightarrow> k update v) P)"
  by (rule ok_mono [OF classified_result_ok [OF assms(1,2)]]) (use assms(3) in auto)

lemma execute_binary_ok:
  assumes "cpu_ok s" "ft < 32" "fs < 32" "fd < 32"
  shows "ok (execute_binary env operation fmt ft fs fd s) (\<lambda>(raised, s'). cpu_ok s')"
proof -
  have len: "length (cp1_registers (cpu_cp1 s)) = 32" using assms(1) by (rule cpu_ok_facts)
  note reads = cp1_reads_ok [OF len]
  show ?thesis
    unfolding execute_binary_def Let_def
    by (cases fmt)
      (auto intro!: ok_mono [OF reads(1)] ok_mono [OF reads(2)] classified_then_ok with_rounding
        binary_total finish_float_ok assms cp1_writes_ok dest: operand_updates_no_writeback)
qed

lemma with_cp1_ok:
  assumes "cpu_ok s"
    and "\<And>c. length (cp1_registers c) = 32 \<Longrightarrow> ok (f c) (\<lambda>c'. length (cp1_registers c') = 32)"
  shows "ok (with_cp1 f s) cpu_ok"
  unfolding with_cp1_def ok_map
  by (rule ok_mono [OF assms(2)]) (use assms(1) in \<open>simp_all add: cpu_ok_facts\<close>)

lemma execute_unary_ok:
  assumes "cpu_ok s" "fs < 32" "fd < 32"
  shows "ok (execute_unary operation fmt fs fd s) (\<lambda>(raised, s'). cpu_ok s')"
proof -
  have len: "length (cp1_registers (cpu_cp1 s)) = 32" using assms(1) by (rule cpu_ok_facts)
  note reads = cp1_reads_ok [OF len]
  show ?thesis
  proof (cases "operation = FMove")
    case True
    then show ?thesis
      unfolding execute_unary_def Let_def
      by (cases fmt)
        (auto intro!: ok_mono [OF reads(1)] ok_mono [OF reads(2)] ok_mono [OF commit_cp1_ok]
          ok_mono [OF with_cp1_ok] assms cp1_writes_ok)
  next
    case False
    then show ?thesis
      unfolding execute_unary_def Let_def
      by (cases fmt)
        (auto intro!: ok_mono [OF reads(1)] ok_mono [OF reads(2)] classified_then_ok
          unary_total finish_float_ok assms cp1_writes_ok dest: operand_updates_no_writeback)
  qed
qed

lemma execute_conversion_ok:
  assumes "cpu_ok s" "fs < 32" "fd < 32"
  shows "ok (execute_conversion env operation fs fd s) (\<lambda>(raised, s'). cpu_ok s')"
proof -
  have len: "length (cp1_registers (cpu_cp1 s)) = 32" using assms(1) by (rule cpu_ok_facts)
  note reads = cp1_reads_ok [OF len]
  show ?thesis
    unfolding execute_conversion_def Let_def
    by (cases operation)
      (auto intro!: ok_mono [OF reads(1)] ok_mono [OF reads(2)] ok_mono [OF reads(3)]
        classified_then_ok with_rounding backend_total finish_float_ok assms cp1_writes_ok
        dest: operand_updates_no_writeback)
qed

lemma execute_compare_ok:
  assumes "cpu_ok s" "fs < 32" "ft < 32"
  shows "ok (execute_compare env fmt condition fs ft s)
    (\<lambda>(effect, raised, s'). cpu_ok s' \<and> (\<forall>e. effect = Some e \<longrightarrow> effect_ok e))"
proof -
  have len: "length (cp1_registers (cpu_cp1 s)) = 32" using assms(1) by (rule cpu_ok_facts)
  note reads = cp1_reads_ok [OF len]
  let ?m = "\<lambda>mode any. case fmt of
      Single \<Rightarrow> Option.bind (cp1_read_float32 (cpu_cp1 s) fs) (\<lambda>lhs.
        Option.bind (cp1_read_float32 (cpu_cp1 s) ft) (\<lambda>rhs.
          classified (cpu_cp1 s) (classify_float32_operands (cpu_cp1 s) [lhs, rhs] any)
            (backend_compare_f32 env (cp1_backend (cpu_cp1 s)) lhs rhs mode)))
    | Double \<Rightarrow> Option.bind (cp1_read_float64 (cpu_cp1 s) fs) (\<lambda>lhs.
        Option.bind (cp1_read_float64 (cpu_cp1 s) ft) (\<lambda>rhs.
          classified (cpu_cp1 s) (classify_float64_operands (cpu_cp1 s) [lhs, rhs] any)
            (backend_compare_f64 env (cp1_backend (cpu_cp1 s)) lhs rhs mode)))"
  have m: "ok (?m mode any) classified_ok" for mode any
    by (cases fmt)
      (auto intro!: ok_mono [OF reads(1)] ok_mono [OF reads(2)] classified_result_ok backend_total
        assms dest: operand_updates_no_writeback)
  show ?thesis
    unfolding execute_compare_def Let_def ok_bind
    by (rule ok_mono [OF m])
      (auto simp: classified_ok_def assms(1) intro!: ok_mono [OF commit_cp1_ok] cpu_ok_updates
        cpu_ok_facts)
qed

lemma on_cp1_access_ok:
  assumes "ok m (\<lambda>(r, s, b). P s b \<and> Q r)"
    and "\<And>v s b. P s b \<Longrightarrow> ok (k v s b) (\<lambda>(r, s', b'). P s' b' \<and> R r)"
    and "\<And>e. R (Inl e)" "\<And>x. R (Inr (ExceptionOutcome x, False))"
  shows "ok m (\<lambda>rsb. ok (on_cp1_access rsb k) (\<lambda>(r, s', b'). P s' b' \<and> R r))"
  by (rule ok_mono [OF assms(1)])
    (use assms(2-4) in \<open>auto simp: on_cp1_access_def split: sum.splits execution_outcome.splits\<close>)

definition cp1_result_ok ::
  "(step_error + instruction_completion execution_outcome \<times> bool) \<Rightarrow> bool" where
  "cp1_result_ok r = (case r of Inl e \<Rightarrow> True | Inr (out, raised) \<Rightarrow> completion_ok (Inr out))"

lemma cp1_result_ok_simps [simp]:
  "cp1_result_ok (Inl e)" "cp1_result_ok (Inr (ExceptionOutcome x, raised))"
  by (simp_all add: cp1_result_ok_def)

lemma cp1_completed_ok:
  "cpu_ok s \<Longrightarrow> P b \<Longrightarrow> (\<And>e. effect = Some e \<Longrightarrow> effect_ok e) \<Longrightarrow>
    ok (cp1_completed pc effect raised s b) (\<lambda>(r, s', b'). (cpu_ok s' \<and> P b') \<and> cp1_result_ok r)"
  by (cases effect) (simp_all add: cp1_completed_def cp1_result_ok_def completion_ok_def)

context physical_bus
begin

lemma cp1_ok:
  assumes "cpu_ok s" "bus_ok b" "wf_cp1 i"
  shows "ok (cp1_execute env ops i s b) (\<lambda>(r, s', b'). (cpu_ok s' \<and> bus_ok b') \<and> cp1_result_ok r)"
proof -
  have len: "length (cp1_registers (cpu_cp1 s)) = 32" using assms(1) by (rule cpu_ok_facts)
  note reads = cp1_reads_ok(4) [OF len]
  note completed = cp1_completed_ok [where P = bus_ok]
  have "ok (cp1_execute_usable env ops i s b)
      (\<lambda>(r, s', b'). (cpu_ok s' \<and> bus_ok b') \<and> cp1_result_ok r)"
  proof (cases i)
    case (Lwc1 base ft off)
    have finish: "ok (cp1_completed None (Some (DelayedCp1GeneralWrite ft v)) False s b)
        (\<lambda>(r, s', b'). (cpu_ok s' \<and> bus_ok b') \<and> cp1_result_ok r)" if "cpu_ok s \<and> bus_ok b" for v s b
      using that assms(3) Lwc1 by (intro completed) auto
    have "ok (ls_load ops base off 4 s b) (\<lambda>(r, s', b'). (cpu_ok s' \<and> bus_ok b') \<and>
        (\<forall>bs. r = Inr (Completed bs) \<longrightarrow> length bs = 4))"
      using assms Lwc1 by (intro ls_load_ok) simp_all
    then show ?thesis
      unfolding Lwc1 cp1_execute_usable.simps ok_bind
      by (rule on_cp1_access_ok) (simp_all only: finish cp1_result_ok_simps)
  next
    case (Swc1 base ft off)
    have finish: "ok (cp1_completed None None False s b)
        (\<lambda>(r, s', b'). (cpu_ok s' \<and> bus_ok b') \<and> cp1_result_ok r)" if "cpu_ok s \<and> bus_ok b" for s b
      using that by (intro completed) auto
    have "ok (ls_store ops base off (to_be_bytes32 v) s b)
        (\<lambda>(r, s', b'). (cpu_ok s' \<and> bus_ok b') \<and> True)" for v
      using assms Swc1 by (intro ls_store_ok) simp_all
    then have "ok (ls_store ops base off (to_be_bytes32 v) s b)
        (\<lambda>rsb. ok (on_cp1_access rsb (\<lambda>_ s1 b1. cp1_completed None None False s1 b1))
          (\<lambda>(r, s', b'). (cpu_ok s' \<and> bus_ok b') \<and> cp1_result_ok r))" for v
      by (rule on_cp1_access_ok) (simp_all only: finish cp1_result_ok_simps)
    then show ?thesis
      unfolding Swc1 cp1_execute_usable.simps ok_bind
      using assms(3) Swc1 by (intro ok_mono [OF reads]) simp_all
  qed (use assms in \<open>auto simp: read_gpr_ok intro!: ok_mono [OF reads] completed [simplified]
      ok_mono [OF execute_binary_ok] ok_mono [OF execute_unary_ok] ok_mono [OF execute_conversion_ok]
      ok_mono [OF execute_compare_ok] ok_mono [OF commit_cp1_ok] cpu_ok_updates cpu_ok_facts\<close>)
  then show ?thesis
    using assms(1,2) unfolding cp1_execute_def ok_bind
    by (intro ok_mono [OF coprocessor_usable_ok]) simp_all
qed

end

end
