(* ===== verification/Step_Correct.thy ===== *)
theory Step_Correct
  imports Exec_Correct
begin

text \<open>
  The step: the processor invariant \<open>r3000_ok\<close>, the transparency of the decode cache, the
  step that never panics on any bus keeping its contract, and the reachable processor states.
\<close>

section \<open>The decode cache\<close>

definition slot_ok :: "decoded_word \<Rightarrow> bool" where
  "slot_ok slot = (case slot of None \<Rightarrow> True | Some (a, w, d) \<Rightarrow> decode w = Some d)"

definition decode_cache_ok :: "decoded_word list \<Rightarrow> bool" where
  "decode_cache_ok slots \<longleftrightarrow> length slots = DECODE_CACHE_ENTRIES \<and> list_all slot_ok slots"

definition r3000_ok :: "r3000 \<Rightarrow> bool" where
  "r3000_ok p \<longleftrightarrow> cpu_ok (r3_state p) \<and> decode_cache_ok (r3_decoded_words p)"

lemma slot_ok_simps [simp]: "slot_ok None" "slot_ok (Some (a, w, d)) = (decode w = Some d)"
  by (simp_all add: slot_ok_def)

lemma r3000_ok_updates [simp]:
  "r3000_ok p \<Longrightarrow> cpu_ok s \<Longrightarrow> r3000_ok (p\<lparr>r3_state := s\<rparr>)"
  "r3000_ok p \<Longrightarrow> decode_cache_ok slots \<Longrightarrow> r3000_ok (p\<lparr>r3_decoded_words := slots\<rparr>)"
  "r3000_ok p \<Longrightarrow> r3000_ok (p\<lparr>r3_cp0_condition := c\<rparr>)"
  by (simp_all add: r3000_ok_def)

lemma r3000_ok_facts:
  assumes "r3000_ok p"
  shows "cpu_ok (r3_state p)" "decode_cache_ok (r3_decoded_words p)"
  using assms by (simp_all add: r3000_ok_def)

lemma decode_index_lt: "n AND (DECODE_CACHE_ENTRIES - 1) < DECODE_CACHE_ENTRIES"
proof -
  have "n AND mask 16 < 2 ^ 16" by (simp only: take_bit_nat_less_exp flip: take_bit_eq_mask)
  then show ?thesis by (simp add: DECODE_CACHE_ENTRIES_def mask_eq_exp_minus_1)
qed

lemma lookup_decoded_ok:
  assumes "decode_cache_ok slots"
  shows "ok (lookup_decoded address word slots)
    (\<lambda>(d, slots'). decode word = Some d \<and> wf_decoded d \<and> decode_cache_ok slots')"
proof -
  let ?i = "unat (drop_bit 2 address) AND (DECODE_CACHE_ENTRIES - 1)"
  have len: "length slots = DECODE_CACHE_ENTRIES" and all: "list_all slot_ok slots"
    using assms by (simp_all add: decode_cache_ok_def)
  have i: "?i < length slots" using decode_index_lt len by simp
  obtain d where d: "decode word = Some d" "wf_decoded d" using wf_decode [of word] by (auto simp: ok_ex)
  have slot: "slot_ok (slots ! ?i)" using all i by (simp add: list_all_length)
  have refill: "decode_cache_ok (slots[?i := Some (address, word, d)])"
    using len all d by (simp add: decode_cache_ok_def list_all_update)
  show ?thesis
    using i d slot refill assms
    by (auto simp: lookup_decoded_def Let_def slot_ok_def split: option.splits)
qed

section \<open>The parts of a step\<close>

text \<open>The result of a step: any outcome, a well-formed processor and a bus satisfying \<open>P\<close>.\<close>

abbreviation step_ok :: "('b \<Rightarrow> bool) \<Rightarrow> (step_error + unit) \<times> r3000 \<times> 'b \<Rightarrow> bool" where
  "step_ok P \<equiv> \<lambda>(r, p', b'). r3000_ok p' \<and> P b'"

lemma step_exception_ok:
  "r3000_ok p \<Longrightarrow> cpu_ok s \<Longrightarrow> P b \<Longrightarrow> ok (step_exception e p s b) (step_ok P)"
  unfolding step_exception_def ok_bind
  by (rule ok_mono [OF take_exception_ok], assumption, rule ok_mono [OF synchronize_cp1_ok]) simp_all

lemma step_failed_ok: "r3000_ok p \<Longrightarrow> cpu_ok s \<Longrightarrow> P b \<Longrightarrow> ok (step_failed e p s b) (step_ok P)"
  by (simp add: step_failed_def)

lemma finish_step_ok:
  assumes "r3000_ok p" "cpu_ok s" "P b" "completion_ok outcome"
  shows "ok (finish_step outcome p s b) (step_ok P)"
proof (cases outcome)
  case (Inl e)
  then show ?thesis using assms by (simp add: finish_step_def step_failed_ok)
next
  case (Inr r)
  show ?thesis
  proof (cases r)
    case (Completed c)
    obtain pc effect where c: "c = (pc, effect)" by (cases c)
    have effect: "\<And>e. effect = Some e \<Longrightarrow> effect_ok e"
      using assms(4) Inr Completed c by (simp add: completion_ok_def)
    show ?thesis
      unfolding finish_step_def Inr Completed c
      using assms(1,3)
      by (auto intro!: ok_mono [OF complete_instruction_ok] ok_mono [OF synchronize_cp1_ok] assms(2)
          dest: effect)
  next
    case (ExceptionOutcome x)
    then show ?thesis using Inr assms by (simp add: finish_step_def step_exception_ok)
  qed
qed

lemma lift_alu_ok [simp]: "completion_ok (fst (lift_alu r))" "snd (lift_alu r) = snd r"
  by (simp_all add: lift_alu_def split: sum.split)

lemma lift_memory_ok: "memory_result_ok r \<Longrightarrow> completion_ok (lift_memory r)"
  by (auto simp: lift_memory_def memory_result_ok_def completion_ok_def completed_with_def
      split: sum.splits execution_outcome.splits option.splits)

context physical_bus
begin

lemma dispatch_ok:
  assumes "cpu_ok s" "bus_ok b" "wf_instruction i"
  shows "ok (dispatch env ops i condition s b)
    (\<lambda>(r, s', b'). cpu_ok s' \<and> bus_ok b' \<and> (\<forall>out. r = Some out \<longrightarrow> completion_ok out))"
proof (cases i)
  case (IAlu a)
  then show ?thesis
    using assms by (auto simp: dispatch_def intro!: ok_mono [OF alu_ok])
next
  case (IControl c)
  then show ?thesis
    using assms by (auto simp: dispatch_def intro!: ok_mono [OF control_ok])
next
  case (ICp0 c)
  then show ?thesis
    using assms by (auto simp: dispatch_def intro!: ok_mono [OF cp0_ok])
next
  case (ICp1 c)
  then show ?thesis
    using assms
    by (auto simp: dispatch_def cp1_result_ok_def intro!: ok_mono [OF cp1_ok] ok_mono [OF synchronize_cp1_ok]
        split: sum.splits)
next
  case (IMemory m)
  then show ?thesis
    using assms by (auto simp: dispatch_def intro!: ok_mono [OF load_store_ok] lift_memory_ok)
qed (use assms in \<open>simp_all add: dispatch_def\<close>)

lemma execute_decoded_ok:
  assumes "r3000_ok p" "cpu_ok s" "bus_ok b" "wf_decoded d"
  shows "ok (execute_decoded env ops pc word d p s b) (step_ok bus_ok)"
proof (cases d)
  case (Implemented i)
  then show ?thesis
    using assms
    by (auto simp: execute_decoded_def intro!: ok_mono [OF dispatch_ok] finish_step_ok step_exception_ok
        split: option.split)
next
  case (UnsupportedCoprocessor unit)
  then show ?thesis
    using assms
    by (auto simp: execute_decoded_def intro!: ok_mono [OF coprocessor_usable_ok] step_failed_ok
        step_exception_ok)
qed (use assms in \<open>simp_all add: execute_decoded_def step_failed_ok step_exception_ok\<close>)

lemma execute_fetched_ok:
  assumes "r3000_ok p" "cpu_ok s" "bus_ok b"
  shows "ok (execute_fetched env ops pc address word p s b) (step_ok bus_ok)"
  using assms
  by (auto simp: execute_fetched_def intro!: step_exception_ok execute_decoded_ok
      ok_mono [OF lookup_decoded_ok [OF r3000_ok_facts(2)]])

lemma fetch_instruction_ok:
  "cpu_ok s \<Longrightarrow> bus_ok b \<Longrightarrow> word_transaction (tr_address t) 4 \<Longrightarrow>
    ok (fetch_instruction ops t s b) (\<lambda>(r, s', b'). cpu_ok s' \<and> bus_ok b')"
  by (auto simp: fetch_instruction_def intro!: ok_mono [OF read_instruction_ok])

lemma step_never_panics:
  assumes "r3000_ok p" "bus_ok b"
  shows "ok (r3000_step env ops p b) (step_ok bus_ok)"
proof (cases "cp0_is_tlb_shutdown (cpu_cp0 (r3_state p))")
  case True
  then show ?thesis using assms by (simp add: r3000_step_def)
next
  case False
  have start: "cpu_ok (advance_cache_transition (r3_state p))"
    using assms by (intro advance_transition_ok r3000_ok_facts)
  have fetch: "word_transaction (tr_address t) 4"
    if "unat (tr_address t) < 2 ^ 32" "tr_address t AND 3 = ucast pc AND 3" "pc AND 3 = 0" for t and pc :: u32
  proof -
    have "unat (tr_address t AND 3) = unat (pc AND 3)" unfolding that(2) by (rule unat_and_3)
    then show ?thesis using that by (simp add: word_transaction_def)
  qed
  have run: "ok (case r of Inl (TranslationException e) \<Rightarrow> step_exception e p s1 b
      | Inl TranslationShutdown \<Rightarrow> step_failed TlbShutdown p s1 b
      | Inr t \<Rightarrow> Option.bind (fetch_instruction ops t s1 b) (\<lambda>(fetched, s2, b1). case fetched of
          Inl HardwareFault \<Rightarrow> step_exception InstructionBusError p s2 b1
        | Inl fault \<Rightarrow> step_failed (BusError (tr_address t) fault) p s2 b1
        | Inr word \<Rightarrow> execute_fetched env ops pc (tr_address t) word p s2 b1)) (step_ok bus_ok)"
    if s1: "cpu_ok s1" and t: "\<And>t. r = Inr t \<Longrightarrow> word_transaction (tr_address t) 4" for r s1 pc
  proof (cases r)
    case (Inl e)
    then show ?thesis
      using assms s1 by (cases e) (simp_all add: step_exception_ok step_failed_ok)
  next
    case (Inr tr)
    show ?thesis
      unfolding Inr sum.case ok_bind
      using assms(1)
      by (auto intro!: ok_mono [OF fetch_instruction_ok [OF s1 assms(2) t [OF Inr]]] step_exception_ok
          step_failed_ok execute_fetched_ok split: sum.split bus_error.split)
  qed
  show ?thesis
    unfolding r3000_step_def if_not_P [OF False] Let_def ok_bind
  proof (rule ok_mono [OF advance_inputs_ok [OF start]])
    fix s
    assume s: "cpu_ok s"
    show "ok (if cpu_pc s AND 3 \<noteq> 0 then step_exception (InstructionAddressError (cpu_pc s)) p s b
        else Option.bind (translate_address (cpu_pc s) AccessInstruction s)
          (\<lambda>(translated, s1). case translated of Inl (TranslationException e) \<Rightarrow> step_exception e p s1 b
            | Inl TranslationShutdown \<Rightarrow> step_failed TlbShutdown p s1 b
            | Inr t \<Rightarrow> Option.bind (fetch_instruction ops t s1 b) (\<lambda>(fetched, s2, b1). case fetched of
                Inl HardwareFault \<Rightarrow> step_exception InstructionBusError p s2 b1
              | Inl fault \<Rightarrow> step_failed (BusError (tr_address t) fault) p s2 b1
              | Inr word \<Rightarrow> execute_fetched env ops (cpu_pc s) (tr_address t) word p s2 b1)))
      (step_ok bus_ok)"
      using assms s
      by (cases "cpu_pc s AND 3 = 0")
        (auto intro!: step_exception_ok ok_mono [OF translate_address_ok [OF s]] run fetch)
  qed
qed

end

section \<open>The other operations\<close>

lemma r3000_new_ok: "config_valid cfg \<Longrightarrow> r3000_ok (r3000_new cfg)"
  by (simp add: r3000_ok_def r3000_new_def decode_cache_ok_def cpu_ok_new list_all_iff
      del: replicate.simps)

lemma r3000_reset_ok: "r3000_ok p \<Longrightarrow> ok (r3000_reset p) r3000_ok"
  unfolding r3000_reset_def ok_bind
  by (rule ok_mono [OF state_reset_ok [OF r3000_ok_facts(1)]], assumption,
      rule ok_mono [OF synchronize_cp1_ok]) simp_all

lemma r3000_set_lines_ok:
  "r3000_ok p \<Longrightarrow> lines AND NOT MACHINE_INTERRUPT_MASK = 0 \<Longrightarrow>
    ok (r3000_set_hardware_interrupt_lines lines p) r3000_ok"
  unfolding r3000_set_hardware_interrupt_lines_def ok_map
  by (rule ok_mono [OF set_lines_ok [OF r3000_ok_facts(1)]]) simp_all

lemma r3000_restore_ok:
  "r3000_ok p \<Longrightarrow> r3000_ok q \<Longrightarrow> r3000_ok (r3000_restore_snapshot (r3000_take_snapshot q) p)"
  by (simp add: r3000_ok_def r3000_restore_snapshot_def restore_floating_point_backend_def
      r3000_take_snapshot_def state_clone_def cpu_ok_def mmu_ok_clone)

end
