(* ===== verification/Pic1.thy ===== *)
theory Pic1
  imports Bus
begin

text \<open>
  The PIC1 memory and graphics-DMA controller, \<^verbatim>\<open>se_device/src/pic1.rs\<close>: the
  memory configuration that places the local-memory modules, the register front end, the latched
  bus error, and the graphics-DMA channel with its descriptor and line stages. Virtual time is
  counted in attoseconds at its 128-bit width (\<^verbatim>\<open>se_core/src/time.rs\<close>).
\<close>

type_synonym u128 = "128 word"

definition ATTOSECONDS_PER_SECOND :: u128 where "ATTOSECONDS_PER_SECOND = 1000000000000000000"

definition div_ceil :: "'a::len word \<Rightarrow> 'a word \<Rightarrow> 'a word" where
  "div_ceil a b = (if a mod b \<noteq> 0 then a div b + 1 else a div b)"

section \<open>Registers\<close>

definition PIC1_CPU_CONTROL :: u64 where "PIC1_CPU_CONTROL = 0x0000"
definition PIC1_RESET_CONFIGURATION :: u64 where "PIC1_RESET_CONFIGURATION = 0x0004"
definition PIC1_SYSTEM_ID :: u64 where "PIC1_SYSTEM_ID = 0x0008"
definition PIC1_MEMORY_CONFIGURATION_0 :: u64 where "PIC1_MEMORY_CONFIGURATION_0 = 0x10000"
definition PIC1_MEMORY_CONFIGURATION_1 :: u64 where "PIC1_MEMORY_CONFIGURATION_1 = 0x10004"
definition PIC1_PARITY_ERROR :: u64 where "PIC1_PARITY_ERROR = 0x10200"
definition PIC1_CPU_ERROR_ADDRESS :: u64 where "PIC1_CPU_ERROR_ADDRESS = 0x10204"
definition PIC1_GIO_ERROR_ADDRESS :: u64 where "PIC1_GIO_ERROR_ADDRESS = 0x10208"
definition PIC1_CLEAR_ERROR :: u64 where "PIC1_CLEAR_ERROR = 0x10210"
definition PIC1_GIO_SLOT_CONFIGURATION_0 :: u64 where "PIC1_GIO_SLOT_CONFIGURATION_0 = 0x20000"
definition PIC1_GIO_SLOT_CONFIGURATION_1 :: u64 where "PIC1_GIO_SLOT_CONFIGURATION_1 = 0x20004"
definition PIC1_GIO_BURST :: u64 where "PIC1_GIO_BURST = 0x20008"
definition PIC1_GIO_DELAY :: u64 where "PIC1_GIO_DELAY = 0x2000c"
definition PIC1_THREE_WAY_MASK :: u64 where "PIC1_THREE_WAY_MASK = 0x80008"
definition PIC1_THREE_WAY_SUBSTITUTION :: u64 where "PIC1_THREE_WAY_SUBSTITUTION = 0x8000c"
definition PIC1_DESCRIPTOR_ARRAY_BASE :: u64 where "PIC1_DESCRIPTOR_ARRAY_BASE = 0xa0000"
definition PIC1_GRAPHICS_BUFFER_ADDRESS :: u64 where "PIC1_GRAPHICS_BUFFER_ADDRESS = 0xa0004"
definition PIC1_GRAPHICS_BUFFER_LENGTH :: u64 where "PIC1_GRAPHICS_BUFFER_LENGTH = 0xa0008"
definition PIC1_GRAPHICS_DESTINATION_ADDRESS :: u64 where "PIC1_GRAPHICS_DESTINATION_ADDRESS = 0xa000c"
definition PIC1_GRAPHICS_STRIDE :: u64 where "PIC1_GRAPHICS_STRIDE = 0xa0010"
definition PIC1_GRAPHICS_START :: u64 where "PIC1_GRAPHICS_START = 0xa0100"

definition REGISTER_BYTES :: u64 where "REGISTER_BYTES = 4"
definition SYSTEM_INITIALIZE :: u16 where "SYSTEM_INITIALIZE = push_bit 9 1"
definition GRAPHICS_DMA_INTERRUPT_ENABLE :: u16 where "GRAPHICS_DMA_INTERRUPT_ENABLE = push_bit 4 1"
definition GRAPHICS_DMA_SYNC_ENABLE :: u16 where "GRAPHICS_DMA_SYNC_ENABLE = push_bit 5 1"
definition GRAPHICS_DMA_ERROR :: u16 where "GRAPHICS_DMA_ERROR = push_bit 2 1"
definition DMA_IDLE :: u16 where "DMA_IDLE = push_bit 3 1"
definition FLOATING_POINT_ABSENT :: u16 where "FLOATING_POINT_ABSENT = 1"
definition MEMORY_DESCRIPTOR_MASK :: u16 where "MEMORY_DESCRIPTOR_MASK = 0x0f3f"
definition GIO_SLOT_CONFIGURATION_MASK :: u8 where "GIO_SLOT_CONFIGURATION_MASK = 0x03"
definition THREE_WAY_VALUE_MASK :: u32 where "THREE_WAY_VALUE_MASK = 0x1fffffff"
definition DESCRIPTOR_ADDRESS_MASK :: u32 where "DESCRIPTOR_ADDRESS_MASK = 0x0fffffff"

definition GRAPHICS_DMA_CLOCK_HZ :: u128 where "GRAPHICS_DMA_CLOCK_HZ = 33000000"
definition GRAPHICS_DMA_CYCLE_ATTOSECONDS :: u128 where
  "GRAPHICS_DMA_CYCLE_ATTOSECONDS = div_ceil ATTOSECONDS_PER_SECOND GRAPHICS_DMA_CLOCK_HZ"
definition GRAPHICS_DMA_DESCRIPTOR_CYCLES :: u128 where "GRAPHICS_DMA_DESCRIPTOR_CYCLES = 5"
definition GRAPHICS_DMA_DESCRIPTOR_BYTES :: u32 where "GRAPHICS_DMA_DESCRIPTOR_BYTES = 20"
definition GRAPHICS_DMA_PAGE_BYTES :: u32 where "GRAPHICS_DMA_PAGE_BYTES = 4096"
definition GRAPHICS_DMA_STRIDE_INCREMENT :: u32 where "GRAPHICS_DMA_STRIDE_INCREMENT = push_bit 31 1"
definition GRAPHICS_DMA_FULL_PAGE :: u32 where "GRAPHICS_DMA_FULL_PAGE = push_bit 30 1"
definition GRAPHICS_DMA_GRAPHICS_STRIDE_SHIFT :: nat where "GRAPHICS_DMA_GRAPHICS_STRIDE_SHIFT = 16"
definition GRAPHICS_DMA_LAST_DESCRIPTOR :: u32 where "GRAPHICS_DMA_LAST_DESCRIPTOR = push_bit 15 1"
definition GRAPHICS_DMA_LINE_INCREMENT :: u32 where "GRAPHICS_DMA_LINE_INCREMENT = push_bit 14 1"
definition GRAPHICS_DMA_MODE_SHIFT :: nat where "GRAPHICS_DMA_MODE_SHIFT = 12"
definition GRAPHICS_DMA_MODE_MASK :: u32 where "GRAPHICS_DMA_MODE_MASK = 0x03"
definition GRAPHICS_DMA_WIDTH_MASK :: u32 where "GRAPHICS_DMA_WIDTH_MASK = 0x0fff"
definition GRAPHICS_DMA_STRIDE_MASK :: u32 where "GRAPHICS_DMA_STRIDE_MASK = 0x0fff"

section \<open>The graphics-DMA channel\<close>

datatype graphics_dma_direction = MemoryToGio | GioToMemory

datatype graphics_dma_request =
    ReadDescriptor u32
  | TransferLine graphics_dma_direction u32 u32 nat

datatype graphics_dma_stage = StageIdle | StageWaitingForSync | StageDescriptor | StageLine

record graphics_dma_channel =
  gd_buffer_address :: u32
  gd_buffer_length :: u32
  gd_destination_address :: u32
  gd_stride :: u32
  gd_stage :: graphics_dma_stage
  gd_delay :: u128
  gd_elapsed_credit :: u128
  gd_descriptor_address :: u32
  gd_line_memory_address :: u32
  gd_line_gio_address :: u32
  gd_line_width :: u16
  gd_line_transfer_bytes :: u16
  gd_memory_line_increment :: u32
  gd_gio_line_increment :: u32
  gd_lines_remaining :: u32
  gd_next_descriptor_address :: u32
  gd_last_descriptor :: bool
  gd_direction :: graphics_dma_direction
  gd_error :: bool

definition graphics_dma_channel_new :: graphics_dma_channel where
  "graphics_dma_channel_new =
     \<lparr>gd_buffer_address = 0, gd_buffer_length = 0, gd_destination_address = 0, gd_stride = 0,
      gd_stage = StageIdle, gd_delay = 0, gd_elapsed_credit = 0, gd_descriptor_address = 0,
      gd_line_memory_address = 0, gd_line_gio_address = 0, gd_line_width = 0,
      gd_line_transfer_bytes = 0, gd_memory_line_increment = 0, gd_gio_line_increment = 0,
      gd_lines_remaining = 0, gd_next_descriptor_address = 0, gd_last_descriptor = False,
      gd_direction = MemoryToGio, gd_error = False\<rparr>"

definition dma_idle :: "graphics_dma_channel \<Rightarrow> bool" where
  "dma_idle c \<longleftrightarrow> gd_stage c = StageIdle"

text \<open>Time left over from the previous boundary is consumed by the next delay.\<close>

definition dma_set_delay :: "u128 \<Rightarrow> graphics_dma_channel \<Rightarrow> graphics_dma_channel" where
  "dma_set_delay delay c = (
     let consumed = min delay (gd_elapsed_credit c)
     in c\<lparr>gd_delay := delay - consumed, gd_elapsed_credit := gd_elapsed_credit c - consumed\<rparr>)"

definition dma_finish :: "bool \<Rightarrow> graphics_dma_channel \<Rightarrow> graphics_dma_channel" where
  "dma_finish err c =
     c\<lparr>gd_stage := StageIdle, gd_delay := 0, gd_error := err, gd_elapsed_credit := 0\<rparr>"

definition dma_arm_descriptor_fetch :: "graphics_dma_channel \<Rightarrow> graphics_dma_channel" where
  "dma_arm_descriptor_fetch c =
     dma_set_delay (GRAPHICS_DMA_CYCLE_ATTOSECONDS * GRAPHICS_DMA_DESCRIPTOR_CYCLES)
       (c\<lparr>gd_stage := StageDescriptor\<rparr>)"

definition dma_start :: "u32 \<Rightarrow> bool \<Rightarrow> bool \<Rightarrow> graphics_dma_channel \<Rightarrow> graphics_dma_channel" where
  "dma_start descriptor_address sync_enabled sync_asserted c =
     (if \<not> dma_idle c then c
      else let c1 = c\<lparr>gd_error := False, gd_elapsed_credit := 0,
             gd_descriptor_address := descriptor_address\<rparr>
      in if sync_enabled \<and> \<not> sync_asserted
         then c1\<lparr>gd_stage := StageWaitingForSync, gd_delay := 0\<rparr>
         else dma_arm_descriptor_fetch c1)"

definition dma_release_sync_wait :: "bool \<Rightarrow> bool \<Rightarrow> graphics_dma_channel \<Rightarrow> graphics_dma_channel" where
  "dma_release_sync_wait sync_enabled sync_asserted c =
     (if gd_stage c = StageWaitingForSync \<and> (\<not> sync_enabled \<or> sync_asserted)
      then dma_arm_descriptor_fetch c else c)"

definition dma_timed :: "graphics_dma_channel \<Rightarrow> bool" where
  "dma_timed c \<longleftrightarrow> gd_stage c = StageDescriptor \<or> gd_stage c = StageLine"

definition dma_time_until_event :: "graphics_dma_channel \<Rightarrow> u128 option" where
  "dma_time_until_event c = (if dma_timed c then Some (gd_delay c) else None)"

definition saturating_add :: "'a::len word \<Rightarrow> 'a word \<Rightarrow> 'a word" where
  "saturating_add a b = (if unat a + unat b < 2 ^ LENGTH('a) then a + b else - 1)"

definition dma_advance_time :: "u128 \<Rightarrow> graphics_dma_channel \<Rightarrow> graphics_dma_channel" where
  "dma_advance_time elapsed c =
     (if \<not> dma_timed c then c
      else if gd_delay c \<le> elapsed
      then c\<lparr>gd_elapsed_credit := saturating_add (gd_elapsed_credit c) (elapsed - gd_delay c),
             gd_delay := 0\<rparr>
      else c\<lparr>gd_delay := gd_delay c - elapsed\<rparr>)"

definition dma_next_request ::
  "graphics_dma_channel \<Rightarrow> graphics_dma_request option \<times> graphics_dma_channel" where
  "dma_next_request c =
     (if gd_delay c \<noteq> 0 then (None, c)
      else case gd_stage c of
        StageDescriptor \<Rightarrow> (
          let page_offset = gd_descriptor_address c AND (GRAPHICS_DMA_PAGE_BYTES - 1)
          in if gd_descriptor_address c mod 4 \<noteq> 0
               \<or> GRAPHICS_DMA_PAGE_BYTES - GRAPHICS_DMA_DESCRIPTOR_BYTES < page_offset
             then (None, dma_finish True c)
             else (Some (ReadDescriptor (gd_descriptor_address c)), c))
      | StageLine \<Rightarrow>
          (Some (TransferLine (gd_direction c) (gd_line_memory_address c) (gd_line_gio_address c)
            (unat (gd_line_transfer_bytes c))), c)
      | _ \<Rightarrow> (None, c))"

definition gio_transfer_bytes :: "u32 \<Rightarrow> u32" where
  "gio_transfer_bytes line_width = div_ceil line_width 4 * 4"

definition line_delay_attoseconds :: "u32 \<Rightarrow> u128" where
  "line_delay_attoseconds transfer_bytes = (
     let words = transfer_bytes div 4;
         words1 = (if words = 0 then 1 else words)
     in GRAPHICS_DMA_CYCLE_ATTOSECONDS * ucast words1)"

definition sign_extend_12 :: "u32 \<Rightarrow> u32" where
  "sign_extend_12 value = signed_drop_bit 20 (push_bit 20 (value AND GRAPHICS_DMA_STRIDE_MASK))"

text \<open>A descriptor is five big-endian words; the caller passes exactly twenty bytes.\<close>

definition descriptor_word :: "u8 list \<Rightarrow> nat \<Rightarrow> u32" where
  "descriptor_word bs index = from_be_bytes (take 4 (drop (4 * index) bs))"

definition dma_direction_of :: "u32 \<Rightarrow> graphics_dma_direction option" where
  "dma_direction_of buffer_length = (
     let mode = drop_bit GRAPHICS_DMA_MODE_SHIFT buffer_length AND GRAPHICS_DMA_MODE_MASK
     in if mode = 0 then Some MemoryToGio else if mode = 2 then Some GioToMemory else None)"

definition dma_publish_descriptor :: "u8 list \<Rightarrow> graphics_dma_channel \<Rightarrow> graphics_dma_channel" where
  "dma_publish_descriptor bs c =
     c\<lparr>gd_buffer_address := descriptor_word bs 0, gd_buffer_length := descriptor_word bs 1,
       gd_destination_address := descriptor_word bs 2, gd_stride := descriptor_word bs 3\<rparr>"

definition dma_line_width :: "u32 \<Rightarrow> u32" where
  "dma_line_width buffer_length =
     (if buffer_length AND GRAPHICS_DMA_FULL_PAGE \<noteq> 0 then GRAPHICS_DMA_PAGE_BYTES
      else buffer_length AND GRAPHICS_DMA_WIDTH_MASK)"

definition dma_memory_line_increment :: "u32 \<Rightarrow> u32 \<Rightarrow> u32" where
  "dma_memory_line_increment buffer_length stride =
     dma_line_width buffer_length + sign_extend_12 (drop_bit GRAPHICS_DMA_GRAPHICS_STRIDE_SHIFT stride)"

definition dma_gio_line_increment :: "u32 \<Rightarrow> u32" where
  "dma_gio_line_increment buffer_length =
     (if buffer_length AND GRAPHICS_DMA_LINE_INCREMENT \<noteq> 0 then dma_line_width buffer_length else 0)
     + (if buffer_length AND GRAPHICS_DMA_STRIDE_INCREMENT \<noteq> 0
        then sign_extend_12 (drop_bit GRAPHICS_DMA_GRAPHICS_STRIDE_SHIFT buffer_length) else 0)"

definition dma_complete_descriptor ::
  "u8 list option \<Rightarrow> graphics_dma_channel \<Rightarrow> graphics_dma_channel" where
  "dma_complete_descriptor descriptor c =
     (case descriptor of
        None \<Rightarrow> dma_finish True c
      | Some bs \<Rightarrow> (
          let c1 = dma_publish_descriptor bs c;
              buffer_length = descriptor_word bs 1;
              stride = descriptor_word bs 3
          in case dma_direction_of buffer_length of
               None \<Rightarrow> dma_finish True c1
             | Some direction \<Rightarrow> (
                 let transfer_bytes = gio_transfer_bytes (dma_line_width buffer_length)
                 in dma_set_delay (line_delay_attoseconds transfer_bytes)
                      (c1\<lparr>gd_direction := direction,
                          gd_line_memory_address := descriptor_word bs 0,
                          gd_line_gio_address := descriptor_word bs 2,
                          gd_line_width := ucast (dma_line_width buffer_length),
                          gd_line_transfer_bytes := ucast transfer_bytes,
                          gd_memory_line_increment := dma_memory_line_increment buffer_length stride,
                          gd_gio_line_increment := dma_gio_line_increment buffer_length,
                          gd_lines_remaining := ucast (ucast stride :: u16) + 1,
                          gd_next_descriptor_address := descriptor_word bs 4 AND DESCRIPTOR_ADDRESS_MASK,
                          gd_last_descriptor := (buffer_length AND GRAPHICS_DMA_LAST_DESCRIPTOR \<noteq> 0),
                          gd_stage := StageLine\<rparr>))))"

definition dma_complete_line :: "bool \<Rightarrow> graphics_dma_channel \<Rightarrow> graphics_dma_channel" where
  "dma_complete_line success c =
     (if \<not> success then dma_finish True c
      else if 1 < gd_lines_remaining c
      then dma_set_delay (line_delay_attoseconds (ucast (gd_line_transfer_bytes c)))
        (c\<lparr>gd_lines_remaining := gd_lines_remaining c - 1,
           gd_line_memory_address := gd_line_memory_address c + gd_memory_line_increment c,
           gd_line_gio_address := gd_line_gio_address c + gd_gio_line_increment c\<rparr>)
      else if gd_last_descriptor c then dma_finish False c
      else dma_arm_descriptor_fetch (c\<lparr>gd_descriptor_address := gd_next_descriptor_address c\<rparr>))"

section \<open>The controller\<close>

record pic1 =
  p1_reset_configuration :: u8
  p1_revision :: u8
  p1_floating_point_present :: bool
  p1_cpu_control :: u16
  p1_memory_descriptors :: "u16 list"
  p1_parity_error :: u8
  p1_cpu_error_address :: u32
  p1_gio_error_address :: u32
  p1_address_error_pending :: bool
  p1_gio_slot_configurations :: "u8 list"
  p1_gio_burst :: u8
  p1_gio_delay :: u8
  p1_three_way_mask :: u32
  p1_three_way_substitution :: u32
  p1_descriptor_array_base :: u32
  p1_graphics_dma :: graphics_dma_channel
  p1_graphics_dma_sync_input :: bool
  p1_system_reset_requested :: bool

definition pic1_new :: "u8 \<Rightarrow> u8 \<Rightarrow> bool \<Rightarrow> pic1 option" where
  "pic1_new reset_configuration revision floating_point_present =
     do {
       require (revision \<le> 7);
       Some \<lparr>p1_reset_configuration = reset_configuration, p1_revision = revision,
         p1_floating_point_present = floating_point_present, p1_cpu_control = 0,
         p1_memory_descriptors = replicate 4 0, p1_parity_error = 0, p1_cpu_error_address = 0,
         p1_gio_error_address = 0, p1_address_error_pending = False,
         p1_gio_slot_configurations = replicate 2 0, p1_gio_burst = 0, p1_gio_delay = 0,
         p1_three_way_mask = 0, p1_three_way_substitution = 0, p1_descriptor_array_base = 0,
         p1_graphics_dma = graphics_dma_channel_new, p1_graphics_dma_sync_input = False,
         p1_system_reset_requested = False\<rparr>
     }"

definition pic1_reset :: "pic1 \<Rightarrow> pic1" where
  "pic1_reset p =
     p\<lparr>p1_cpu_control := 0, p1_memory_descriptors := replicate 4 0, p1_parity_error := 0,
       p1_cpu_error_address := 0, p1_gio_error_address := 0, p1_address_error_pending := False,
       p1_gio_slot_configurations := replicate 2 0, p1_gio_burst := 0, p1_gio_delay := 0,
       p1_three_way_mask := 0, p1_three_way_substitution := 0, p1_descriptor_array_base := 0,
       p1_graphics_dma := graphics_dma_channel_new, p1_graphics_dma_sync_input := False,
       p1_system_reset_requested := False\<rparr>"

definition pic1_system_id :: "pic1 \<Rightarrow> u16" where
  "pic1_system_id p =
     push_bit 6 (ucast (p1_revision p))
     OR (if dma_idle (p1_graphics_dma p) then DMA_IDLE else 0)
     OR (if gd_error (p1_graphics_dma p) then GRAPHICS_DMA_ERROR else 0)
     OR (if p1_floating_point_present p then 0 else FLOATING_POINT_ABSENT)"

definition transaction_bounds :: "device_addr \<Rightarrow> nat \<Rightarrow> bus_error + u64 \<times> u64" where
  "transaction_bounds address len =
     (if \<not> (1 \<le> len \<and> len \<le> 4) then Inl InvalidTransaction
      else if 2 ^ 64 \<le> unat address + len then Inl InvalidTransaction
      else Inr (address, address + word_of_nat len))"

fun memory_configuration_registers ::
  "(nat \<times> u64) list \<Rightarrow> u64 \<Rightarrow> u64 \<Rightarrow> bus_error + (nat \<times> nat) option" where
  "memory_configuration_registers [] start stop = Inr None"
| "memory_configuration_registers ((index, base) # rest) start stop = (
     let register_end = base + REGISTER_BYTES
     in if base \<le> start \<and> stop \<le> register_end then Inr (Some (index * 2, unat (start - base)))
        else if start < register_end \<and> base < stop then Inl UnimplementedAccess
        else memory_configuration_registers rest start stop)"

definition memory_configuration_register :: "u64 \<Rightarrow> u64 \<Rightarrow> bus_error + (nat \<times> nat) option" where
  "memory_configuration_register =
     memory_configuration_registers [(0, PIC1_MEMORY_CONFIGURATION_0), (1, PIC1_MEMORY_CONFIGURATION_1)]"

definition memory_size :: "u16 \<Rightarrow> u64 option" where
  "memory_size descriptor = (
     let size_field = drop_bit 8 descriptor AND 0x000f
     in if size_field = 0x0 then Some (4 * 1024 * 1024)
        else if size_field = 0x1 then Some (8 * 1024 * 1024)
        else if size_field = 0x3 then Some (16 * 1024 * 1024)
        else if size_field = 0x7 then Some (32 * 1024 * 1024)
        else if size_field = 0xf then Some (64 * 1024 * 1024)
        else None)"

definition register_offset :: "u64 \<Rightarrow> u64 \<Rightarrow> u64 \<Rightarrow> nat option" where
  "register_offset start stop register =
     (if start < register \<or> register + REGISTER_BYTES < stop then None
      else Some (unat (start - register)))"

definition read_register :: "u32 \<Rightarrow> nat \<Rightarrow> nat \<Rightarrow> u8 list option" where
  "read_register value offset len =
     do { require (offset + len \<le> 4); Some (take len (drop offset (to_be_bytes32 value))) }"

definition write_register :: "u32 \<Rightarrow> nat \<Rightarrow> u8 list \<Rightarrow> u32 option" where
  "write_register value offset data =
     do {
       require (offset + length data \<le> 4);
       Some (from_be_bytes (splice_bytes offset data (to_be_bytes32 value)))
     }"

text \<open>
  The chains of \<^verbatim>\<open>if let Some(offset) = register_offset(..)\<close>: the first register
  that contains the transaction answers.
\<close>

definition at_register :: "u64 \<Rightarrow> u64 \<Rightarrow> u64 \<Rightarrow> (nat \<Rightarrow> 'r) \<Rightarrow> 'r \<Rightarrow> 'r" where
  "at_register start stop register hit miss =
     (case register_offset start stop register of Some offset \<Rightarrow> hit offset | None \<Rightarrow> miss)"

definition crosses_registers :: "u64 \<Rightarrow> u64 \<Rightarrow> bool" where
  "crosses_registers start stop \<longleftrightarrow> start div REGISTER_BYTES \<noteq> (stop - 1) div REGISTER_BYTES"

definition pic1_read_register :: "pic1 \<Rightarrow> u64 \<Rightarrow> u64 \<Rightarrow> nat \<Rightarrow> (bus_error + u8 list) option" where
  "pic1_read_register p s e len = (
     let answer = (\<lambda>value offset. map_option Inr (read_register value offset len));
         c = p1_graphics_dma p in
     at_register s e PIC1_CPU_CONTROL (answer (ucast (p1_cpu_control p))) (
     at_register s e PIC1_RESET_CONFIGURATION (answer (ucast (p1_reset_configuration p))) (
     at_register s e PIC1_SYSTEM_ID (answer (ucast (pic1_system_id p))) (
     at_register s e PIC1_PARITY_ERROR (answer (ucast (p1_parity_error p))) (
     at_register s e PIC1_CPU_ERROR_ADDRESS (answer (p1_cpu_error_address p)) (
     at_register s e PIC1_GIO_ERROR_ADDRESS (answer (p1_gio_error_address p)) (
     at_register s e PIC1_CLEAR_ERROR (\<lambda>_. Some (Inl UnimplementedAccess)) (
     at_register s e PIC1_GIO_SLOT_CONFIGURATION_0
       (\<lambda>offset. do { v <- get_at (p1_gio_slot_configurations p) 0; answer (ucast v) offset }) (
     at_register s e PIC1_GIO_SLOT_CONFIGURATION_1
       (\<lambda>offset. do { v <- get_at (p1_gio_slot_configurations p) 1; answer (ucast v) offset }) (
     at_register s e PIC1_GIO_BURST (answer (ucast (p1_gio_burst p))) (
     at_register s e PIC1_GIO_DELAY (answer (ucast (p1_gio_delay p))) (
     at_register s e PIC1_THREE_WAY_MASK (answer (p1_three_way_mask p)) (
     at_register s e PIC1_THREE_WAY_SUBSTITUTION (answer (p1_three_way_substitution p)) (
     at_register s e PIC1_DESCRIPTOR_ARRAY_BASE (answer (p1_descriptor_array_base p)) (
     at_register s e PIC1_GRAPHICS_BUFFER_ADDRESS (answer (gd_buffer_address c)) (
     at_register s e PIC1_GRAPHICS_BUFFER_LENGTH (answer (gd_buffer_length c)) (
     at_register s e PIC1_GRAPHICS_DESTINATION_ADDRESS (answer (gd_destination_address c)) (
     at_register s e PIC1_GRAPHICS_STRIDE (answer (gd_stride c)) (
     at_register s e PIC1_GRAPHICS_START (\<lambda>_. Some (Inl UnimplementedAccess)) (
     Some (Inl (if crosses_registers s e then HardwareFault else UnimplementedAccess))))))))))))))))))))))"

definition pic1_read :: "pic1 \<Rightarrow> device_addr \<Rightarrow> nat \<Rightarrow> (bus_error + u8 list) option" where
  "pic1_read p address len =
     (case transaction_bounds address len of
        Inl e \<Rightarrow> Some (Inl e)
      | Inr (s, e) \<Rightarrow>
          (case memory_configuration_register s e of
             Inl err \<Rightarrow> Some (Inl err)
           | Inr (Some (index, offset)) \<Rightarrow>
               if (offset, len) \<in> {(0, 4), (0, 2), (2, 2)}
               then do {
                 hi <- get_at (p1_memory_descriptors p) index;
                 lo <- get_at (p1_memory_descriptors p) (index + 1);
                 map_option Inr (read_register (push_bit 16 (ucast hi) OR ucast lo) offset len)
               }
               else Some (Inl UnimplementedAccess)
           | Inr None \<Rightarrow> pic1_read_register p s e len))"

type_synonym pic1_write_result = "((bus_error + unit) \<times> pic1) option"

definition pic1_write_cpu_control :: "u8 list \<Rightarrow> pic1 \<Rightarrow> nat \<Rightarrow> pic1_write_result" where
  "pic1_write_cpu_control data p offset =
     do {
       v <- write_register (ucast (p1_cpu_control p)) offset data;
       let value = (ucast v :: u16);
       let p1 = (if value AND SYSTEM_INITIALIZE \<noteq> 0 then p\<lparr>p1_system_reset_requested := True\<rparr> else p);
       let p2 = p1\<lparr>p1_cpu_control := value AND NOT SYSTEM_INITIALIZE\<rparr>;
       Some (Inr (), p2\<lparr>p1_graphics_dma :=
         dma_release_sync_wait (p1_cpu_control p2 AND GRAPHICS_DMA_SYNC_ENABLE \<noteq> 0)
           (p1_graphics_dma_sync_input p2) (p1_graphics_dma p2)\<rparr>)
     }"

definition pic1_write_slot_configuration :: "nat \<Rightarrow> u8 list \<Rightarrow> pic1 \<Rightarrow> nat \<Rightarrow> pic1_write_result" where
  "pic1_write_slot_configuration slot data p offset =
     do {
       old <- get_at (p1_gio_slot_configurations p) slot;
       v <- write_register (ucast old) offset data;
       slots <- set_at (p1_gio_slot_configurations p) slot (ucast v AND GIO_SLOT_CONFIGURATION_MASK);
       Some (Inr (), p\<lparr>p1_gio_slot_configurations := slots\<rparr>)
     }"

definition pic1_write_start :: "pic1 \<Rightarrow> pic1" where
  "pic1_write_start p =
     p\<lparr>p1_graphics_dma := dma_start (p1_descriptor_array_base p AND DESCRIPTOR_ADDRESS_MASK)
        (p1_cpu_control p AND GRAPHICS_DMA_SYNC_ENABLE \<noteq> 0) (p1_graphics_dma_sync_input p)
        (p1_graphics_dma p)\<rparr>"

definition pic1_write_register :: "pic1 \<Rightarrow> u64 \<Rightarrow> u64 \<Rightarrow> u8 list \<Rightarrow> pic1_write_result" where
  "pic1_write_register p s e data = (
     let store = (\<lambda>old upd offset.
           map_option (\<lambda>v. (Inr (), upd v)) (write_register old offset data));
         reject = (\<lambda>_. Some (Inl UnimplementedAccess, p)) in
     at_register s e PIC1_CPU_CONTROL (pic1_write_cpu_control data p) (
     at_register s e PIC1_RESET_CONFIGURATION reject (
     at_register s e PIC1_SYSTEM_ID reject (
     at_register s e PIC1_CPU_ERROR_ADDRESS reject (
     at_register s e PIC1_GIO_ERROR_ADDRESS reject (
     at_register s e PIC1_PARITY_ERROR (\<lambda>_. Some (Inr (), p)) (
     at_register s e PIC1_CLEAR_ERROR
       (\<lambda>_. Some (Inr (), p\<lparr>p1_parity_error := 0, p1_address_error_pending := False\<rparr>)) (
     at_register s e PIC1_GIO_SLOT_CONFIGURATION_0 (pic1_write_slot_configuration 0 data p) (
     at_register s e PIC1_GIO_SLOT_CONFIGURATION_1 (pic1_write_slot_configuration 1 data p) (
     at_register s e PIC1_GIO_BURST
       (store (ucast (p1_gio_burst p)) (\<lambda>v. p\<lparr>p1_gio_burst := ucast v\<rparr>)) (
     at_register s e PIC1_GIO_DELAY
       (store (ucast (p1_gio_delay p)) (\<lambda>v. p\<lparr>p1_gio_delay := ucast v\<rparr>)) (
     at_register s e PIC1_THREE_WAY_MASK
       (store (p1_three_way_mask p) (\<lambda>v. p\<lparr>p1_three_way_mask := v AND THREE_WAY_VALUE_MASK\<rparr>)) (
     at_register s e PIC1_THREE_WAY_SUBSTITUTION
       (store (p1_three_way_substitution p)
         (\<lambda>v. p\<lparr>p1_three_way_substitution := v AND THREE_WAY_VALUE_MASK\<rparr>)) (
     at_register s e PIC1_DESCRIPTOR_ARRAY_BASE
       (store (p1_descriptor_array_base p) (\<lambda>v. p\<lparr>p1_descriptor_array_base := v\<rparr>)) (
     at_register s e PIC1_GRAPHICS_BUFFER_ADDRESS reject (
     at_register s e PIC1_GRAPHICS_BUFFER_LENGTH reject (
     at_register s e PIC1_GRAPHICS_DESTINATION_ADDRESS reject (
     at_register s e PIC1_GRAPHICS_STRIDE reject (
     at_register s e PIC1_GRAPHICS_START (\<lambda>_. Some (Inr (), pic1_write_start p)) (
     Some (Inl (if crosses_registers s e then HardwareFault else UnimplementedAccess), p)))))))))))))))))))))"

definition pic1_write :: "pic1 \<Rightarrow> device_addr \<Rightarrow> u8 list \<Rightarrow> pic1_write_result" where
  "pic1_write p address data =
     (case transaction_bounds address (length data) of
        Inl e \<Rightarrow> Some (Inl e, p)
      | Inr (s, e) \<Rightarrow>
          (case memory_configuration_register s e of
             Inl err \<Rightarrow> Some (Inl err, p)
           | Inr (Some (index, offset)) \<Rightarrow>
               if offset \<noteq> 0 \<or> length data \<noteq> 4 then Some (Inl UnimplementedAccess, p)
               else do {
                 let value = (from_be_bytes data :: u32);
                 d1 <- set_at (p1_memory_descriptors p) index
                   (ucast (drop_bit 16 value) AND MEMORY_DESCRIPTOR_MASK);
                 d2 <- set_at d1 (index + 1) (ucast value AND MEMORY_DESCRIPTOR_MASK);
                 Some (Inr (), p\<lparr>p1_memory_descriptors := d2\<rparr>)
               }
           | Inr None \<Rightarrow> pic1_write_register p s e data))"

section \<open>Memory decoding\<close>

definition memory_base :: "u16 \<Rightarrow> u64" where
  "memory_base descriptor = push_bit 22 (ucast (descriptor AND 0x003f))"

fun decode_descriptors :: "nat \<Rightarrow> u16 list \<Rightarrow> u64 \<Rightarrow> u64 \<Rightarrow> (nat \<times> device_addr) option" where
  "decode_descriptors index [] start stop = None"
| "decode_descriptors index (descriptor # rest) start stop =
     (case memory_size descriptor of
        None \<Rightarrow> decode_descriptors (index + 1) rest start stop
      | Some bytes \<Rightarrow> (
          let base = memory_base descriptor
          in if base \<le> start \<and> stop \<le> base + bytes then Some (index, start - base)
             else decode_descriptors (index + 1) rest start stop))"

definition pic1_decode_memory ::
  "pic1 \<Rightarrow> phys_addr \<Rightarrow> nat \<Rightarrow> bus_error + (nat \<times> device_addr) option" where
  "pic1_decode_memory p address byte_len =
     (if byte_len = 0 then Inl InvalidTransaction
      else if 2 ^ 64 \<le> unat address + byte_len then Inl InvalidTransaction
      else Inr (decode_descriptors 0 (p1_memory_descriptors p) address
        (address + word_of_nat byte_len)))"

section \<open>Signals\<close>

definition pic1_report_address_error :: "pic1 \<Rightarrow> pic1" where
  "pic1_report_address_error p = p\<lparr>p1_address_error_pending := True\<rparr>"

definition pic1_interrupt_asserted :: "pic1 \<Rightarrow> bool" where
  "pic1_interrupt_asserted p \<longleftrightarrow>
     p1_address_error_pending p \<or> p1_parity_error p \<noteq> 0
     \<or> (p1_cpu_control p AND GRAPHICS_DMA_INTERRUPT_ENABLE \<noteq> 0 \<and> dma_idle (p1_graphics_dma p))"

definition pic1_set_graphics_dma_sync_input :: "bool \<Rightarrow> pic1 \<Rightarrow> pic1" where
  "pic1_set_graphics_dma_sync_input asserted p =
     p\<lparr>p1_graphics_dma_sync_input := asserted,
       p1_graphics_dma := dma_release_sync_wait (p1_cpu_control p AND GRAPHICS_DMA_SYNC_ENABLE \<noteq> 0)
         asserted (p1_graphics_dma p)\<rparr>"

definition pic1_time_until_event :: "pic1 \<Rightarrow> u128 option" where
  "pic1_time_until_event p = dma_time_until_event (p1_graphics_dma p)"

definition pic1_advance_time :: "u128 \<Rightarrow> pic1 \<Rightarrow> pic1" where
  "pic1_advance_time elapsed p = p\<lparr>p1_graphics_dma := dma_advance_time elapsed (p1_graphics_dma p)\<rparr>"

definition pic1_next_graphics_dma_request :: "pic1 \<Rightarrow> graphics_dma_request option \<times> pic1" where
  "pic1_next_graphics_dma_request p =
     map_prod id (\<lambda>c. p\<lparr>p1_graphics_dma := c\<rparr>) (dma_next_request (p1_graphics_dma p))"

definition pic1_complete_graphics_dma_descriptor :: "u8 list option \<Rightarrow> pic1 \<Rightarrow> pic1" where
  "pic1_complete_graphics_dma_descriptor descriptor p =
     p\<lparr>p1_graphics_dma := dma_complete_descriptor descriptor (p1_graphics_dma p)\<rparr>"

definition pic1_complete_graphics_dma_line :: "bool \<Rightarrow> pic1 \<Rightarrow> pic1" where
  "pic1_complete_graphics_dma_line success p =
     p\<lparr>p1_graphics_dma := dma_complete_line success (p1_graphics_dma p)\<rparr>"

definition pic1_take_system_reset_request :: "pic1 \<Rightarrow> bool \<times> pic1" where
  "pic1_take_system_reset_request p =
     (p1_system_reset_requested p, p\<lparr>p1_system_reset_requested := False\<rparr>)"

end
