(* ===== verification/Storage.thy ===== *)
theory Storage
  imports Bus
begin

text \<open>
  Byte storage, \<^verbatim>\<open>se_device/src/ram.rs\<close> and \<^verbatim>\<open>se_device/src/rom.rs\<close>,
  and the three register devices of the board that keep no time:
  \<^verbatim>\<open>mdac.rs\<close>, \<^verbatim>\<open>dsp56001.rs\<close> and \<^verbatim>\<open>centronics.rs\<close>.
  A read that succeeds returns the bytes it copies to the caller's buffer.
\<close>

section \<open>RAM\<close>

record ram =
  ram_bytes :: "u8 list"

definition ram_new :: "nat \<Rightarrow> ram" where
  "ram_new byte_len = \<lparr>ram_bytes = replicate byte_len 0\<rparr>"

definition ram_byte_len :: "ram \<Rightarrow> nat" where
  "ram_byte_len r = length (ram_bytes r)"

definition ram_transaction_range :: "ram \<Rightarrow> device_addr \<Rightarrow> nat \<Rightarrow> bus_error + nat \<times> nat" where
  "ram_transaction_range r address len =
     (if len = 0 then Inl InvalidTransaction
      else if 2 ^ 64 \<le> unat address + len then Inl InvalidTransaction
      else if length (ram_bytes r) < unat address + len then Inl HardwareFault
      else Inr (unat address, unat address + len))"

definition ram_read :: "ram \<Rightarrow> device_addr \<Rightarrow> nat \<Rightarrow> bus_error + u8 list" where
  "ram_read r address len =
     (case ram_transaction_range r address len of
        Inl e \<Rightarrow> Inl e
      | Inr (start, stop) \<Rightarrow> Inr (take (stop - start) (drop start (ram_bytes r))))"

definition ram_write :: "ram \<Rightarrow> device_addr \<Rightarrow> u8 list \<Rightarrow> (bus_error + unit) \<times> ram" where
  "ram_write r address data =
     (case ram_transaction_range r address (length data) of
        Inl e \<Rightarrow> (Inl e, r)
      | Inr (start, stop) \<Rightarrow> (Inr (), \<lparr>ram_bytes = splice_bytes start data (ram_bytes r)\<rparr>))"

section \<open>ROM\<close>

record rom =
  rom_bytes :: "u8 list"

definition rom_new :: "u8 list \<Rightarrow> rom" where
  "rom_new bytes = \<lparr>rom_bytes = bytes\<rparr>"

definition rom_transaction_range :: "rom \<Rightarrow> device_addr \<Rightarrow> nat \<Rightarrow> bus_error + nat \<times> nat" where
  "rom_transaction_range r address len =
     (if \<not> (1 \<le> len \<and> len \<le> 4) then Inl InvalidTransaction
      else if 2 ^ 64 \<le> unat address + len then Inl InvalidTransaction
      else if length (rom_bytes r) < unat address + len then Inl HardwareFault
      else Inr (unat address, unat address + len))"

definition rom_read :: "rom \<Rightarrow> device_addr \<Rightarrow> nat \<Rightarrow> bus_error + u8 list" where
  "rom_read r address len =
     (case rom_transaction_range r address len of
        Inl e \<Rightarrow> Inl e
      | Inr (start, stop) \<Rightarrow> Inr (take (stop - start) (drop start (rom_bytes r))))"

definition rom_write :: "rom \<Rightarrow> device_addr \<Rightarrow> u8 list \<Rightarrow> bus_error + unit" where
  "rom_write r address data =
     (case rom_transaction_range r address (length data) of
        Inl e \<Rightarrow> Inl e
      | Inr _ \<Rightarrow> Inl UnimplementedAccess)"

section \<open>Headphone attenuation\<close>

record mdac =
  md_attenuation :: "u8 list"

definition mdac_new :: mdac where
  "mdac_new = \<lparr>md_attenuation = replicate 2 0\<rparr>"

definition mdac_reset :: "mdac \<Rightarrow> mdac" where
  "mdac_reset m = m\<lparr>md_attenuation := replicate 2 0\<rparr>"

definition decode_latch :: "device_addr \<Rightarrow> nat \<Rightarrow> bus_error + nat" where
  "decode_latch address len =
     (if \<not> (1 \<le> len \<and> len \<le> 4) then Inl InvalidTransaction
      else if len \<noteq> 1 then Inl UnimplementedAccess
      else if address = 0 then Inr 0
      else if address = 4 then Inr 1
      else Inl UnimplementedAccess)"

definition mdac_read :: "mdac \<Rightarrow> device_addr \<Rightarrow> nat \<Rightarrow> bus_error + u8 list" where
  "mdac_read m address len =
     (case decode_latch address len of Inl e \<Rightarrow> Inl e | Inr _ \<Rightarrow> Inl UnimplementedAccess)"

definition mdac_write :: "mdac \<Rightarrow> device_addr \<Rightarrow> u8 list \<Rightarrow> ((bus_error + unit) \<times> mdac) option" where
  "mdac_write m address data =
     (case decode_latch address (length data) of
        Inl e \<Rightarrow> Some (Inl e, m)
      | Inr latch \<Rightarrow> do {
          v <- get_at data 0;
          latches <- set_at (md_attenuation m) latch v;
          Some (Inr (), m\<lparr>md_attenuation := latches\<rparr>)
        })"

section \<open>DSP memory\<close>

definition DSP_WORD_COUNT :: nat where "DSP_WORD_COUNT = 32 * 1024"
definition DSP_BYTE_LEN :: u64 where "DSP_BYTE_LEN = 32 * 1024 * 4"
definition DSP_DATA_MASK :: u32 where "DSP_DATA_MASK = 0x00ffffff"

record dsp56001 =
  dsp_words :: "u32 list"

definition dsp_new :: dsp56001 where
  "dsp_new = \<lparr>dsp_words = replicate DSP_WORD_COUNT 0\<rparr>"

definition dsp_word_index :: "device_addr \<Rightarrow> nat \<Rightarrow> bus_error + nat" where
  "dsp_word_index address len =
     (if \<not> (1 \<le> len \<and> len \<le> 4) then Inl InvalidTransaction
      else if len \<noteq> 4 \<or> address mod 4 \<noteq> 0 then Inl UnimplementedAccess
      else if DSP_BYTE_LEN \<le> address then Inl HardwareFault
      else Inr (unat (address div 4)))"

definition dsp_read :: "dsp56001 \<Rightarrow> device_addr \<Rightarrow> nat \<Rightarrow> (bus_error + u8 list) option" where
  "dsp_read d address len =
     (case dsp_word_index address len of
        Inl e \<Rightarrow> Some (Inl e)
      | Inr index \<Rightarrow> map_option (\<lambda>w. Inr (to_be_bytes32 w)) (get_at (dsp_words d) index))"

definition dsp_write ::
  "dsp56001 \<Rightarrow> device_addr \<Rightarrow> u8 list \<Rightarrow> ((bus_error + unit) \<times> dsp56001) option" where
  "dsp_write d address data =
     (case dsp_word_index address (length data) of
        Inl e \<Rightarrow> Some (Inl e, d)
      | Inr index \<Rightarrow>
          map_option (\<lambda>ws. (Inr (), d\<lparr>dsp_words := ws\<rparr>))
            (set_at (dsp_words d) index (from_be_bytes data AND DSP_DATA_MASK)))"

section \<open>Centronics external slot\<close>

record centronics =
  cn_status_input :: u8
  cn_remote_output :: u8

definition CENTRONICS_STATUS_LANE :: nat where "CENTRONICS_STATUS_LANE = 1"
definition CENTRONICS_STATUS_BITS :: u8 where "CENTRONICS_STATUS_BITS = 0x0f"
definition CENTRONICS_REMOTE_BITS :: u8 where "CENTRONICS_REMOTE_BITS = 0x03"

definition centronics_new :: centronics where
  "centronics_new = \<lparr>cn_status_input = 0, cn_remote_output = 0\<rparr>"

definition centronics_reset :: "centronics \<Rightarrow> centronics" where
  "centronics_reset c = c\<lparr>cn_remote_output := 0\<rparr>"

definition centronics_transaction :: "device_addr \<Rightarrow> nat \<Rightarrow> bus_error + nat" where
  "centronics_transaction address len =
     (if \<not> (1 \<le> len \<and> len \<le> 4) then Inl InvalidTransaction
      else if len \<notin> {1, 2, 4} then Inl UnimplementedAccess
      else if 4 \<le> address then Inl HardwareFault
      else if 2 ^ 64 \<le> unat address + len then Inl UnimplementedAccess
      else if 4 < address + word_of_nat len \<or> address mod word_of_nat len \<noteq> 0
      then Inl UnimplementedAccess
      else Inr (unat address))"

definition contains_status_lane :: "nat \<Rightarrow> nat \<Rightarrow> bool" where
  "contains_status_lane offset len \<longleftrightarrow>
     offset \<le> CENTRONICS_STATUS_LANE \<and> CENTRONICS_STATUS_LANE < offset + len"

definition centronics_read ::
  "centronics \<Rightarrow> device_addr \<Rightarrow> nat \<Rightarrow> (bus_error + u8 list) option" where
  "centronics_read c address len =
     (case centronics_transaction address len of
        Inl e \<Rightarrow> Some (Inl e)
      | Inr offset \<Rightarrow>
          if contains_status_lane offset len
          then map_option Inr (set_at (replicate len 0) (CENTRONICS_STATUS_LANE - offset)
            (cn_status_input c AND CENTRONICS_STATUS_BITS))
          else Some (Inr (replicate len 0)))"

definition centronics_write ::
  "centronics \<Rightarrow> device_addr \<Rightarrow> u8 list \<Rightarrow> ((bus_error + unit) \<times> centronics) option" where
  "centronics_write c address data =
     (case centronics_transaction address (length data) of
        Inl e \<Rightarrow> Some (Inl e, c)
      | Inr offset \<Rightarrow>
          if contains_status_lane offset (length data)
          then do {
            v <- get_at data (CENTRONICS_STATUS_LANE - offset);
            Some (Inr (), c\<lparr>cn_remote_output := v AND CENTRONICS_REMOTE_BITS\<rparr>)
          }
          else Some (Inr (), c))"

end
