(* ===== verification/Address_Map.thy ===== *)
theory Address_Map
  imports Bus
begin

text \<open>
  The IP12 physical address map, \<^verbatim>\<open>se_machine/src/indigo/ip12/bus/address.rs\<close>: which
  device answers a transaction, and at which device-local address. Windows are tried in the order
  of the code; a transaction that straddles a window's edge faults.
\<close>

definition LOCAL_MEMORY_END :: u64 where "LOCAL_MEMORY_END = 0x10000000"
definition GIO_GRAPHICS_BASE :: u64 where "GIO_GRAPHICS_BASE = 0x1f000000"
definition GIO_GRAPHICS_END :: u64 where "GIO_GRAPHICS_END = 0x1f400000"
definition GIO_SLOT_0_BASE :: u64 where "GIO_SLOT_0_BASE = 0x1f400000"
definition GIO_SLOT_0_END :: u64 where "GIO_SLOT_0_END = 0x1f600000"
definition GIO_SLOT_1_BASE :: u64 where "GIO_SLOT_1_BASE = 0x1f600000"
definition GIO_SLOT_1_END :: u64 where "GIO_SLOT_1_END = 0x1f800000"
definition PIC1_BASE :: u64 where "PIC1_BASE = 0x1fa00000"
definition PIC1_END :: u64 where "PIC1_END = 0x1fab0000"
definition HPC1_BASE :: u64 where "HPC1_BASE = 0x1fb80000"
definition HPC1_INTERNAL_END :: u64 where "HPC1_INTERNAL_END = 0x1fb800c0"
definition HPC1_ENDIAN_CONTROL_BASE :: u64 where "HPC1_ENDIAN_CONTROL_BASE = 0x1fb800c0"
definition HPC1_COUNTER_BASE :: u64 where "HPC1_COUNTER_BASE = 0x1fb80194"
definition HPC1_DSP_INTERRUPT_STATUS_BASE :: u64 where "HPC1_DSP_INTERRUPT_STATUS_BASE = 0x1fb801a0"
definition HPC1_DSP_INTERRUPT_MASK_BASE :: u64 where "HPC1_DSP_INTERRUPT_MASK_BASE = 0x1fb801a4"
definition HPC1_MISCELLANEOUS_CONTROL_BASE :: u64 where "HPC1_MISCELLANEOUS_CONTROL_BASE = 0x1fb801b0"
definition HPC1_ENDIAN_CONTROL_END :: u64 where "HPC1_ENDIAN_CONTROL_END = 0x1fb800c4"
definition HPC1_COUNTER_END :: u64 where "HPC1_COUNTER_END = 0x1fb80198"
definition HPC1_DSP_INTERRUPT_END :: u64 where "HPC1_DSP_INTERRUPT_END = HPC1_DSP_INTERRUPT_MASK_BASE + 4"
definition HPC1_MISCELLANEOUS_CONTROL_END :: u64 where "HPC1_MISCELLANEOUS_CONTROL_END = 0x1fb801b4"
definition SEEQ8003_EXTERNAL_BASE :: u64 where "SEEQ8003_EXTERNAL_BASE = 0x1fb80100"
definition SEEQ8003_EXTERNAL_END :: u64 where "SEEQ8003_EXTERNAL_END = 0x1fb80120"
definition SEEQ8003_RECEIVE_ALIAS :: u64 where "SEEQ8003_RECEIVE_ALIAS = 0x1fb8005b"
definition SEEQ8003_TRANSMIT_ALIAS :: u64 where "SEEQ8003_TRANSMIT_ALIAS = 0x1fb8005f"
definition SEEQ8003_RECEIVE_COMMAND :: u64 where "SEEQ8003_RECEIVE_COMMAND = 0x1b"
definition SEEQ8003_TRANSMIT_COMMAND :: u64 where "SEEQ8003_TRANSMIT_COMMAND = 0x1f"
definition SCSI_WINDOW_BASE :: u64 where "SCSI_WINDOW_BASE = 0x1fb80120"
definition SCSI_WINDOW_END :: u64 where "SCSI_WINDOW_END = 0x1fb80128"
definition CENTRONICS_EXTERNAL_BASE :: u64 where "CENTRONICS_EXTERNAL_BASE = 0x1fb80134"
definition CENTRONICS_EXTERNAL_END :: u64 where "CENTRONICS_EXTERNAL_END = 0x1fb80138"
definition CPU_AUX_CONTROL :: u64 where "CPU_AUX_CONTROL = 0x1fb801bf"
definition INT2_BASE :: u64 where "INT2_BASE = 0x1fb801c0"
definition INT2_END :: u64 where "INT2_END = 0x1fb80200"
definition SERIAL_0_BASE :: u64 where "SERIAL_0_BASE = 0x1fb80d00"
definition SERIAL_0_END :: u64 where "SERIAL_0_END = 0x1fb80d10"
definition SERIAL_1_BASE :: u64 where "SERIAL_1_BASE = 0x1fb80d10"
definition SERIAL_1_END :: u64 where "SERIAL_1_END = 0x1fb80d20"
definition SERIAL_2_BASE :: u64 where "SERIAL_2_BASE = 0x1fb80d20"
definition SERIAL_2_END :: u64 where "SERIAL_2_END = 0x1fb80d30"
definition MDAC_BASE :: u64 where "MDAC_BASE = 0x1fb80d33"
definition MDAC_END :: u64 where "MDAC_END = 0x1fb80d38"
definition RTC_BASE :: u64 where "RTC_BASE = 0x1fb80e00"
definition RTC_END :: u64 where "RTC_END = 0x1fb80e80"
definition BOARD_REVISION_BASE :: u64 where "BOARD_REVISION_BASE = 0x1fbd0000"
definition BOARD_REVISION_END :: u64 where "BOARD_REVISION_END = 0x1fbd0004"
definition DSP56001_BASE :: u64 where "DSP56001_BASE = 0x1fbe0000"
definition DSP56001_END :: u64 where "DSP56001_END = 0x1fc00000"
definition PROM_BYTES :: nat where "PROM_BYTES = 0x40000"
definition PROM_BASE :: u64 where "PROM_BASE = 0x1fc00000"
definition PROM_END :: u64 where "PROM_END = PROM_BASE + word_of_nat PROM_BYTES"

lemmas address_map_defs =
  LOCAL_MEMORY_END_def GIO_GRAPHICS_BASE_def GIO_GRAPHICS_END_def GIO_SLOT_0_BASE_def
  GIO_SLOT_0_END_def GIO_SLOT_1_BASE_def GIO_SLOT_1_END_def PIC1_BASE_def PIC1_END_def
  HPC1_BASE_def HPC1_INTERNAL_END_def HPC1_ENDIAN_CONTROL_BASE_def HPC1_COUNTER_BASE_def
  HPC1_DSP_INTERRUPT_STATUS_BASE_def HPC1_DSP_INTERRUPT_MASK_BASE_def
  HPC1_MISCELLANEOUS_CONTROL_BASE_def HPC1_ENDIAN_CONTROL_END_def HPC1_COUNTER_END_def
  HPC1_DSP_INTERRUPT_END_def HPC1_MISCELLANEOUS_CONTROL_END_def SEEQ8003_EXTERNAL_BASE_def
  SEEQ8003_EXTERNAL_END_def SEEQ8003_RECEIVE_ALIAS_def SEEQ8003_TRANSMIT_ALIAS_def
  SEEQ8003_RECEIVE_COMMAND_def SEEQ8003_TRANSMIT_COMMAND_def SCSI_WINDOW_BASE_def
  SCSI_WINDOW_END_def CENTRONICS_EXTERNAL_BASE_def CENTRONICS_EXTERNAL_END_def
  CPU_AUX_CONTROL_def INT2_BASE_def INT2_END_def SERIAL_0_BASE_def SERIAL_0_END_def
  SERIAL_1_BASE_def SERIAL_1_END_def SERIAL_2_BASE_def SERIAL_2_END_def MDAC_BASE_def MDAC_END_def
  RTC_BASE_def RTC_END_def BOARD_REVISION_BASE_def BOARD_REVISION_END_def DSP56001_BASE_def
  DSP56001_END_def PROM_BYTES_def PROM_BASE_def PROM_END_def

datatype gio_slot = GioGraphics | GioSlot0 | GioSlot1

datatype bus_target =
    TargetPic1 device_addr
  | TargetHpc1 device_addr
  | TargetCentronics device_addr
  | TargetSeeq8003 device_addr
  | TargetScsi device_addr
  | TargetCpuAuxControl
  | TargetInt2 device_addr
  | TargetSerial nat device_addr
  | TargetMdac device_addr
  | TargetRtc device_addr
  | TargetBoardRevision
  | TargetDsp56001 device_addr
  | TargetProm device_addr
  | TargetGio gio_slot device_addr

definition window_contains :: "u64 \<Rightarrow> u64 \<Rightarrow> u64 \<Rightarrow> u64 \<Rightarrow> bool" where
  "window_contains start stop range_start range_end \<longleftrightarrow> range_start \<le> start \<and> stop \<le> range_end"

definition window_overlaps :: "u64 \<Rightarrow> u64 \<Rightarrow> u64 \<Rightarrow> u64 \<Rightarrow> bool" where
  "window_overlaps start stop range_start range_end \<longleftrightarrow> start < range_end \<and> range_start < stop"

text \<open>
  One window of the chain: a transaction inside it is answered, one that only overlaps it gets
  the window's fault, any other goes on to the rest of the chain.
\<close>

definition try_window ::
  "u64 \<Rightarrow> u64 \<Rightarrow> u64 \<Rightarrow> u64 \<Rightarrow> bus_target \<Rightarrow> bus_error \<Rightarrow> bus_error + bus_target \<Rightarrow> bus_error + bus_target"
where
  "try_window start stop range_start range_end target fault rest =
     (if window_contains start stop range_start range_end then Inr target
      else if window_overlaps start stop range_start range_end then Inl fault
      else rest)"

definition route_window ::
  "u64 \<Rightarrow> u64 \<Rightarrow> u64 \<Rightarrow> u64 \<Rightarrow> (device_addr \<Rightarrow> bus_target) \<Rightarrow> bus_error + bus_target \<Rightarrow> bus_error + bus_target"
where
  "route_window start stop range_start range_end target rest =
     try_window start stop range_start range_end (target (start - range_start)) HardwareFault rest"

text \<open>The HPC1 windows share one base.\<close>

definition route_hpc1 ::
  "u64 \<Rightarrow> u64 \<Rightarrow> u64 \<Rightarrow> u64 \<Rightarrow> bus_error + bus_target \<Rightarrow> bus_error + bus_target" where
  "route_hpc1 start stop range_start range_end rest =
     try_window start stop range_start range_end (TargetHpc1 (start - HPC1_BASE)) HardwareFault rest"

definition route :: "phys_addr \<Rightarrow> nat \<Rightarrow> bus_error + bus_target" where
  "route address len =
     (if \<not> (1 \<le> len \<and> len \<le> 4) then Inl InvalidTransaction
      else if 2 ^ 64 \<le> unat address + len then Inl InvalidTransaction
      else let start = address; stop = address + word_of_nat len in
        route_window start stop PROM_BASE PROM_END TargetProm (
        route_window start stop GIO_GRAPHICS_BASE GIO_GRAPHICS_END (TargetGio GioGraphics) (
        route_window start stop GIO_SLOT_0_BASE GIO_SLOT_0_END (TargetGio GioSlot0) (
        route_window start stop GIO_SLOT_1_BASE GIO_SLOT_1_END (TargetGio GioSlot1) (
        if start = SEEQ8003_RECEIVE_ALIAS \<and> stop = start + 1
        then Inr (TargetSeeq8003 SEEQ8003_RECEIVE_COMMAND)
        else if start = SEEQ8003_TRANSMIT_ALIAS \<and> stop = start + 1
        then Inr (TargetSeeq8003 SEEQ8003_TRANSMIT_COMMAND)
        else
        route_hpc1 start stop HPC1_BASE HPC1_INTERNAL_END (
        route_hpc1 start stop HPC1_ENDIAN_CONTROL_BASE HPC1_ENDIAN_CONTROL_END (
        route_hpc1 start stop HPC1_COUNTER_BASE HPC1_COUNTER_END (
        route_hpc1 start stop HPC1_DSP_INTERRUPT_STATUS_BASE HPC1_DSP_INTERRUPT_END (
        route_hpc1 start stop HPC1_MISCELLANEOUS_CONTROL_BASE HPC1_MISCELLANEOUS_CONTROL_END (
        route_window start stop SEEQ8003_EXTERNAL_BASE SEEQ8003_EXTERNAL_END TargetSeeq8003 (
        route_window start stop SCSI_WINDOW_BASE SCSI_WINDOW_END TargetScsi (
        try_window start stop CENTRONICS_EXTERNAL_BASE CENTRONICS_EXTERNAL_END
          (TargetCentronics (start - CENTRONICS_EXTERNAL_BASE)) UnimplementedAccess (
        try_window start stop CPU_AUX_CONTROL (CPU_AUX_CONTROL + 1) TargetCpuAuxControl HardwareFault (
        route_window start stop INT2_BASE INT2_END TargetInt2 (
        route_window start stop SERIAL_0_BASE SERIAL_0_END (TargetSerial 0) (
        route_window start stop SERIAL_1_BASE SERIAL_1_END (TargetSerial 1) (
        route_window start stop SERIAL_2_BASE SERIAL_2_END (TargetSerial 2) (
        route_window start stop MDAC_BASE MDAC_END TargetMdac (
        route_window start stop RTC_BASE RTC_END TargetRtc (
        try_window start stop BOARD_REVISION_BASE BOARD_REVISION_END TargetBoardRevision HardwareFault (
        route_window start stop DSP56001_BASE DSP56001_END TargetDsp56001 (
        if window_contains start stop PIC1_BASE PIC1_END then Inr (TargetPic1 (start - PIC1_BASE))
        else Inl HardwareFault))))))))))))))))))))))"

definition local_memory_transaction_is_contained :: "phys_addr \<Rightarrow> nat \<Rightarrow> bus_error + bool" where
  "local_memory_transaction_is_contained address len =
     (if \<not> (1 \<le> len \<and> len \<le> 4) then Inl InvalidTransaction
      else if 2 ^ 64 \<le> unat address + len then Inl InvalidTransaction
      else Inr (address + word_of_nat len \<le> LOCAL_MEMORY_END))"

end
