(* ===== verification/Events.thy ===== *)
theory Events
  imports Pic1
begin

text \<open>
  Virtual time and the IP12 event bookkeeping, \<^verbatim>\<open>se_core/src/time.rs\<close> and
  \<^verbatim>\<open>se_machine/src/indigo/ip12/events.rs\<close>: nine slots, each with the instant up to
  which its device has been advanced and the deadline of its next event, and the earliest
  deadline kept alongside. Instants and durations are attosecond counts of 128 bits.
\<close>

section \<open>Virtual time\<close>

type_synonym virtual_duration = u128
type_synonym virtual_instant = u128

definition instant_advance :: "virtual_duration \<Rightarrow> virtual_instant \<Rightarrow> virtual_instant" where
  "instant_advance elapsed i = i + elapsed"

definition duration_since :: "virtual_instant \<Rightarrow> virtual_instant \<Rightarrow> virtual_duration option" where
  "duration_since i earlier = do { require (earlier \<le> i); Some (i - earlier) }"

section \<open>Event slots\<close>

datatype event_kind =
    EventInt2 | EventRtc | EventHpc1Time | EventSerial0 | EventSerial1 | EventScsi
  | EventEthernet | EventGio | EventPic1

definition EVENT_COUNT :: nat where "EVENT_COUNT = 9"

definition EVENT_ALL :: "event_kind list" where
  "EVENT_ALL = [EventInt2, EventRtc, EventHpc1Time, EventSerial0, EventSerial1, EventScsi,
     EventEthernet, EventGio, EventPic1]"

fun event_index :: "event_kind \<Rightarrow> nat" where
  "event_index EventInt2 = 0"
| "event_index EventRtc = 1"
| "event_index EventHpc1Time = 2"
| "event_index EventSerial0 = 3"
| "event_index EventSerial1 = 4"
| "event_index EventScsi = 5"
| "event_index EventEthernet = 6"
| "event_index EventGio = 7"
| "event_index EventPic1 = 8"

record event_slot =
  es_synchronized_at :: virtual_instant
  es_deadline :: "virtual_instant option"

definition event_slot_empty :: event_slot where
  "event_slot_empty = \<lparr>es_synchronized_at = 0, es_deadline = None\<rparr>"

record ip12_events =
  ev_now :: virtual_instant
  ev_slots :: "event_slot list"
  ev_next_event :: "(virtual_instant \<times> event_kind) option"

definition events_new :: ip12_events where
  "events_new =
     \<lparr>ev_now = 0, ev_slots = replicate EVENT_COUNT event_slot_empty, ev_next_event = None\<rparr>"

definition events_advance :: "virtual_duration \<Rightarrow> ip12_events \<Rightarrow> ip12_events" where
  "events_advance elapsed e = e\<lparr>ev_now := instant_advance elapsed (ev_now e)\<rparr>"

text \<open>The earliest deadline; of equal deadlines, the first in the order of \<open>EVENT_ALL\<close>.\<close>

fun earliest_event ::
  "event_slot list \<Rightarrow> event_kind list \<Rightarrow> (virtual_instant \<times> event_kind) option \<Rightarrow>
     (virtual_instant \<times> event_kind) option option" where
  "earliest_event slots [] best = Some best"
| "earliest_event slots (kind # kinds) best =
     do {
       slot <- get_at slots (event_index kind);
       earliest_event slots kinds
         (case es_deadline slot of
            None \<Rightarrow> best
          | Some deadline \<Rightarrow>
              (case best of
                 None \<Rightarrow> Some (deadline, kind)
               | Some (next_deadline, _) \<Rightarrow>
                   if deadline < next_deadline then Some (deadline, kind) else best))
     }"

definition recompute_next_event :: "ip12_events \<Rightarrow> ip12_events option" where
  "recompute_next_event e =
     map_option (\<lambda>n. e\<lparr>ev_next_event := n\<rparr>) (earliest_event (ev_slots e) EVENT_ALL None)"

definition events_schedule ::
  "event_kind \<Rightarrow> virtual_duration option \<Rightarrow> ip12_events \<Rightarrow> ip12_events option" where
  "events_schedule kind after e =
     do {
       slot <- get_at (ev_slots e) (event_index kind);
       slots <- set_at (ev_slots e) (event_index kind)
         (slot\<lparr>es_deadline := map_option (\<lambda>d. instant_advance d (ev_now e)) after\<rparr>);
       recompute_next_event (e\<lparr>ev_slots := slots\<rparr>)
     }"

definition events_take_due :: "ip12_events \<Rightarrow> (event_kind option \<times> ip12_events) option" where
  "events_take_due e =
     (case ev_next_event e of
        None \<Rightarrow> Some (None, e)
      | Some (deadline, kind) \<Rightarrow>
          if ev_now e < deadline then Some (None, e)
          else do {
            slot <- get_at (ev_slots e) (event_index kind);
            slots <- set_at (ev_slots e) (event_index kind) (slot\<lparr>es_deadline := None\<rparr>);
            e1 <- recompute_next_event (e\<lparr>ev_slots := slots\<rparr>);
            Some (Some kind, e1)
          })"

definition events_synchronize :: "event_kind \<Rightarrow> ip12_events \<Rightarrow> (virtual_duration \<times> ip12_events) option" where
  "events_synchronize kind e =
     do {
       slot <- get_at (ev_slots e) (event_index kind);
       elapsed <- duration_since (ev_now e) (es_synchronized_at slot);
       slots <- set_at (ev_slots e) (event_index kind) (slot\<lparr>es_synchronized_at := ev_now e\<rparr>);
       Some (elapsed, e\<lparr>ev_slots := slots\<rparr>)
     }"

definition events_reset :: "ip12_events \<Rightarrow> ip12_events" where
  "events_reset e =
     e\<lparr>ev_now := 0, ev_slots := replicate EVENT_COUNT event_slot_empty, ev_next_event := None\<rparr>"

end
