(* ===== verification/Ip12_Bus.thy ===== *)
theory Ip12_Bus
  imports Pic1 Storage Address_Map Events
begin

text \<open>
  The IP12 system bus: local memory behind the PIC1 decoder
  (\<^verbatim>\<open>se_machine/src/indigo/ip12/bus/memory.rs\<close>) and the CPU's transactions
  (the \<^verbatim>\<open>PhysicalBus\<close> implementation of \<^verbatim>\<open>ip12/bus.rs\<close>).

  Local memory, PIC1 with its event slot, the PROM, the board revision register, the DSP memory,
  the Centronics slot and the attenuation latches are modelled. The devices that are not
  (HPC1, the Ethernet and SCSI controllers, INT2, the serial controllers, the clock, the auxiliary
  control register and the GIO slots) are the argument \<open>devs\<close>: one access function per
  direction over the whole board, because these devices reach local memory, PIC1 and the event
  queue as bus masters.
\<close>

section \<open>Local memory\<close>

record local_memory =
  lm_modules :: "ram option list"

definition local_memory_read ::
  "local_memory \<Rightarrow> pic1 \<Rightarrow> phys_addr \<Rightarrow> nat \<Rightarrow> (bus_error + u8 list) option" where
  "local_memory_read m p address len =
     (case local_memory_transaction_is_contained address len of
        Inl e \<Rightarrow> Some (Inl e)
      | Inr inside \<Rightarrow>
          if \<not> inside then Some (Inl HardwareFault)
          else (case pic1_decode_memory p address len of
            Inl e \<Rightarrow> Some (Inl e)
          | Inr None \<Rightarrow> Some (Inl HardwareFault)
          | Inr (Some (index, offset)) \<Rightarrow> do {
              module <- get_at (lm_modules m) index;
              Some (case module of
                None \<Rightarrow> Inr (replicate len 0)
              | Some ram \<Rightarrow>
                  (case ram_read ram offset len of
                     Inr bytes \<Rightarrow> Inr bytes
                   | Inl HardwareFault \<Rightarrow> Inr (replicate len 0)
                   | Inl fault \<Rightarrow> Inl fault))
            }))"

definition local_memory_write ::
  "local_memory \<Rightarrow> pic1 \<Rightarrow> phys_addr \<Rightarrow> u8 list \<Rightarrow> ((bus_error + unit) \<times> local_memory) option" where
  "local_memory_write m p address data =
     (case local_memory_transaction_is_contained address (length data) of
        Inl e \<Rightarrow> Some (Inl e, m)
      | Inr inside \<Rightarrow>
          if \<not> inside then Some (Inl HardwareFault, m)
          else (case pic1_decode_memory p address (length data) of
            Inl e \<Rightarrow> Some (Inl e, m)
          | Inr None \<Rightarrow> Some (Inl HardwareFault, m)
          | Inr (Some (index, offset)) \<Rightarrow> do {
              module <- get_at (lm_modules m) index;
              case module of
                None \<Rightarrow> Some (Inr (), m)
              | Some ram \<Rightarrow> do {
                  let (r, ram1) = ram_write ram offset data;
                  modules <- set_at (lm_modules m) index (Some ram1);
                  Some (case r of
                      Inl InvalidTransaction \<Rightarrow> Inl InvalidTransaction
                    | Inl UnimplementedAccess \<Rightarrow> Inl UnimplementedAccess
                    | _ \<Rightarrow> Inr (),
                    m\<lparr>lm_modules := modules\<rparr>)
                }
            }))"

text \<open>
  A bus master's access: failures are latched in PIC1. The address is 32 bits wide. The read
  returns the bytes when it succeeds.
\<close>

definition local_memory_read_dma ::
  "local_memory \<Rightarrow> pic1 \<Rightarrow> u32 \<Rightarrow> nat \<Rightarrow> (u8 list option \<times> pic1) option" where
  "local_memory_read_dma m p address len =
     (case pic1_decode_memory p (ucast address) len of
        Inr (Some (index, offset)) \<Rightarrow> do {
          module <- get_at (lm_modules m) index;
          Some (case module of
            None \<Rightarrow> (None, pic1_report_address_error p)
          | Some ram \<Rightarrow>
              (case ram_read ram offset len of
                 Inl _ \<Rightarrow> (None, pic1_report_address_error p)
               | Inr bytes \<Rightarrow> (Some bytes, p)))
        }
      | _ \<Rightarrow> Some (None, pic1_report_address_error p))"

definition local_memory_write_dma ::
  "local_memory \<Rightarrow> pic1 \<Rightarrow> u32 \<Rightarrow> u8 list \<Rightarrow> (bool \<times> local_memory \<times> pic1) option" where
  "local_memory_write_dma m p address data =
     (case pic1_decode_memory p (ucast address) (length data) of
        Inr (Some (index, offset)) \<Rightarrow> do {
          module <- get_at (lm_modules m) index;
          case module of
            None \<Rightarrow> Some (False, m, pic1_report_address_error p)
          | Some ram \<Rightarrow> do {
              let (r, ram1) = ram_write ram offset data;
              modules <- set_at (lm_modules m) index (Some ram1);
              Some (case r of
                  Inl _ \<Rightarrow> (False, m\<lparr>lm_modules := modules\<rparr>, pic1_report_address_error p)
                | Inr _ \<Rightarrow> (True, m\<lparr>lm_modules := modules\<rparr>, p))
            }
        }
      | _ \<Rightarrow> Some (False, m, pic1_report_address_error p))"

section \<open>The board\<close>

definition BOARD_REVISION :: u32 where "BOARD_REVISION = 0x00008000"

record 'd ip12_bus =
  ib_pic1 :: pic1
  ib_memory :: local_memory
  ib_centronics :: centronics
  ib_mdac :: mdac
  ib_dsp56001 :: dsp56001
  ib_prom :: rom
  ib_events :: ip12_events
  ib_devices :: 'd

record 'd ip12_devices =
  dv_read :: "bus_target \<Rightarrow> nat \<Rightarrow> 'd ip12_bus \<Rightarrow> ((bus_error + u8 list) \<times> 'd ip12_bus) option"
  dv_write :: "bus_target \<Rightarrow> u8 list \<Rightarrow> 'd ip12_bus \<Rightarrow> ((bus_error + unit) \<times> 'd ip12_bus) option"

definition synchronize_pic1_time :: "'d ip12_bus \<Rightarrow> 'd ip12_bus option" where
  "synchronize_pic1_time b =
     do {
       (elapsed, ev) <- events_synchronize EventPic1 (ib_events b);
       Some (b\<lparr>ib_events := ev, ib_pic1 := pic1_advance_time elapsed (ib_pic1 b)\<rparr>)
     }"

definition reschedule_pic1 :: "'d ip12_bus \<Rightarrow> 'd ip12_bus option" where
  "reschedule_pic1 b =
     map_option (\<lambda>ev. b\<lparr>ib_events := ev\<rparr>)
       (events_schedule EventPic1 (pic1_time_until_event (ib_pic1 b)) (ib_events b))"

definition read_board_revision :: "nat \<Rightarrow> bus_error + u8 list" where
  "read_board_revision len =
     (if \<not> (1 \<le> len \<and> len \<le> 4) then Inl InvalidTransaction
      else if len \<noteq> 4 then Inl UnimplementedAccess
      else Inr (to_be_bytes32 BOARD_REVISION))"

definition ip12_target_read ::
  "'d ip12_devices \<Rightarrow> bus_target \<Rightarrow> nat \<Rightarrow> 'd ip12_bus \<Rightarrow> ((bus_error + u8 list) \<times> 'd ip12_bus) option"
where
  "ip12_target_read devs tgt len b =
     (case tgt of
        TargetPic1 address \<Rightarrow> do {
          b1 <- synchronize_pic1_time b;
          result <- pic1_read (ib_pic1 b1) address len;
          b2 <- reschedule_pic1 b1;
          Some (result, b2)
        }
      | TargetCentronics address \<Rightarrow>
          map_option (\<lambda>r. (r, b)) (centronics_read (ib_centronics b) address len)
      | TargetMdac address \<Rightarrow> Some (mdac_read (ib_mdac b) address len, b)
      | TargetBoardRevision \<Rightarrow> Some (read_board_revision len, b)
      | TargetDsp56001 address \<Rightarrow>
          map_option (\<lambda>r. (r, b)) (dsp_read (ib_dsp56001 b) address len)
      | TargetProm address \<Rightarrow> Some (rom_read (ib_prom b) address len, b)
      | _ \<Rightarrow> dv_read devs tgt len b)"

definition ip12_target_write ::
  "'d ip12_devices \<Rightarrow> bus_target \<Rightarrow> u8 list \<Rightarrow> 'd ip12_bus \<Rightarrow> ((bus_error + unit) \<times> 'd ip12_bus) option"
where
  "ip12_target_write devs tgt data b =
     (case tgt of
        TargetPic1 address \<Rightarrow> do {
          b1 <- synchronize_pic1_time b;
          (result, p) <- pic1_write (ib_pic1 b1) address data;
          b2 <- reschedule_pic1 (b1\<lparr>ib_pic1 := p\<rparr>);
          Some (result, b2)
        }
      | TargetCentronics address \<Rightarrow>
          map_option (\<lambda>(r, c). (r, b\<lparr>ib_centronics := c\<rparr>))
            (centronics_write (ib_centronics b) address data)
      | TargetMdac address \<Rightarrow>
          map_option (\<lambda>(r, m). (r, b\<lparr>ib_mdac := m\<rparr>)) (mdac_write (ib_mdac b) address data)
      | TargetBoardRevision \<Rightarrow> Some (Inl UnimplementedAccess, b)
      | TargetDsp56001 address \<Rightarrow>
          map_option (\<lambda>(r, d). (r, b\<lparr>ib_dsp56001 := d\<rparr>)) (dsp_write (ib_dsp56001 b) address data)
      | TargetProm _ \<Rightarrow> Some (Inr (), b)
      | _ \<Rightarrow> dv_write devs tgt data b)"

definition ip12_read ::
  "'d ip12_devices \<Rightarrow> 'd ip12_bus \<Rightarrow> phys_addr \<Rightarrow> nat \<Rightarrow> ((bus_error + u8 list) \<times> 'd ip12_bus) option"
where
  "ip12_read devs b address len =
     (if address < LOCAL_MEMORY_END
      then map_option (\<lambda>r. (r, b)) (local_memory_read (ib_memory b) (ib_pic1 b) address len)
      else (case route address len of
          Inl e \<Rightarrow> Some (Inl e, b)
        | Inr tgt \<Rightarrow> ip12_target_read devs tgt len b))"

text \<open>
  A hardware fault on a write is not reported to the processor: PIC1 latches it.
\<close>

definition ip12_write_unposted ::
  "'d ip12_devices \<Rightarrow> 'd ip12_bus \<Rightarrow> phys_addr \<Rightarrow> u8 list \<Rightarrow> ((bus_error + unit) \<times> 'd ip12_bus) option"
where
  "ip12_write_unposted devs b address data =
     (if address < LOCAL_MEMORY_END
      then map_option (\<lambda>(r, m). (r, b\<lparr>ib_memory := m\<rparr>))
        (local_memory_write (ib_memory b) (ib_pic1 b) address data)
      else (case route address (length data) of
          Inl e \<Rightarrow> Some (Inl e, b)
        | Inr tgt \<Rightarrow> ip12_target_write devs tgt data b))"

definition ip12_write ::
  "'d ip12_devices \<Rightarrow> 'd ip12_bus \<Rightarrow> phys_addr \<Rightarrow> u8 list \<Rightarrow> ((bus_error + unit) \<times> 'd ip12_bus) option"
where
  "ip12_write devs b address data =
     do {
       (result, b1) <- ip12_write_unposted devs b address data;
       Some (if result = Inl HardwareFault
         then (Inr (), b1\<lparr>ib_pic1 := pic1_report_address_error (ib_pic1 b1)\<rparr>)
         else (result, b1))
     }"

definition ip12_ops :: "'d ip12_devices \<Rightarrow> 'd ip12_bus bus_ops" where
  "ip12_ops devs = \<lparr>bus_read = ip12_read devs, bus_write = ip12_write devs\<rparr>"

end
