(* ===== verification/Events_Correct.thy ===== *)
theory Events_Correct
  imports Events
begin

text \<open>
  The event slots as a priority queue. The abstract state is the map from each kind of event to
  its deadline; the cached earliest event always agrees with it, and taking the due event
  removes the earliest deadline, the fixed order of the kinds deciding between equal ones.
\<close>

section \<open>No panic\<close>

definition events_ok :: "ip12_events \<Rightarrow> bool" where
  "events_ok e \<longleftrightarrow> length (ev_slots e) = EVENT_COUNT \<and>
     list_all (\<lambda>slot. es_synchronized_at slot \<le> ev_now e) (ev_slots e)"

lemma event_index_lt [simp]: "event_index k < EVENT_COUNT"
  by (cases k) (simp_all add: EVENT_COUNT_def)

lemma events_ok_index [simp]: "events_ok e \<Longrightarrow> event_index k < length (ev_slots e)"
  by (simp add: events_ok_def)

lemma events_ok_new: "events_ok events_new" "events_ok (events_reset e)"
  by (simp_all add: events_ok_def events_new_def events_reset_def event_slot_empty_def list_all_iff
      EVENT_COUNT_def)

lemma earliest_event_ok:
  "length slots = EVENT_COUNT \<Longrightarrow> ok (earliest_event slots kinds best) (\<lambda>_. True)"
  by (induction kinds arbitrary: best) simp_all

lemma recompute_ok: "events_ok e \<Longrightarrow> ok (recompute_next_event e) (\<lambda>e'. events_ok e' \<and> ev_now e' = ev_now e)"
  unfolding recompute_next_event_def ok_map
  by (rule ok_mono [OF earliest_event_ok]) (simp_all add: events_ok_def)

lemma slots_update_ok:
  "list_all P xs \<Longrightarrow> P x \<Longrightarrow> list_all P (xs[i := x])"
  by (auto simp: list_all_iff dest: set_update_subset_insert [THEN subsetD])

lemma slot_synchronized:
  "events_ok e \<Longrightarrow> i < length (ev_slots e) \<Longrightarrow> es_synchronized_at (ev_slots e ! i) \<le> ev_now e"
  by (simp add: events_ok_def list_all_length)

lemma schedule_ok:
  assumes "events_ok e"
  shows "ok (events_schedule k after e) (\<lambda>e'. events_ok e' \<and> ev_now e' = ev_now e)"
proof -
  let ?slot = "ev_slots e ! event_index k"
  have "events_ok (e\<lparr>ev_slots := (ev_slots e)[event_index k := ?slot\<lparr>es_deadline := d\<rparr>]\<rparr>)" for d
    using assms slot_synchronized [OF assms, of "event_index k"]
    by (simp add: events_ok_def slots_update_ok)
  from recompute_ok [OF this] show ?thesis
    using assms by (simp add: events_schedule_def)
qed

lemma synchronize_ok:
  assumes "events_ok e"
  shows "ok (events_synchronize k e) (\<lambda>(d, e'). events_ok e' \<and> ev_now e' = ev_now e)"
  using assms slot_synchronized [OF assms, of "event_index k"]
  by (simp add: events_synchronize_def duration_since_def events_ok_def slots_update_ok)

lemma take_due_ok: "events_ok e \<Longrightarrow> ok (events_take_due e) (\<lambda>(k, e'). events_ok e')"
proof -
  assume e: "events_ok e"
  have "events_ok (e\<lparr>ev_slots := (ev_slots e)[event_index k := (ev_slots e ! event_index k)\<lparr>es_deadline := None\<rparr>]\<rparr>)"
    for k
    using e slot_synchronized [OF e, of "event_index k"] by (simp add: events_ok_def slots_update_ok)
  then show ?thesis
    using e by (auto simp: events_take_due_def intro!: ok_mono [OF recompute_ok] split: option.split)
qed

section \<open>The abstract queue\<close>

definition deadline_of :: "ip12_events \<Rightarrow> event_kind \<Rightarrow> virtual_instant option" where
  "deadline_of e k = es_deadline (ev_slots e ! event_index k)"

definition no_earlier :: "virtual_instant \<times> event_kind \<Rightarrow> virtual_instant \<times> event_kind \<Rightarrow> bool" where
  "no_earlier x y \<longleftrightarrow> fst x < fst y \<or> fst x = fst y \<and> event_index (snd x) \<le> event_index (snd y)"

definition earliest_among ::
  "(event_kind \<Rightarrow> virtual_instant option) \<Rightarrow> event_kind set \<Rightarrow> (virtual_instant \<times> event_kind) option \<Rightarrow> bool" where
  "earliest_among dl ks r =
     (case r of
        None \<Rightarrow> \<forall>k\<in>ks. dl k = None
      | Some (d, k) \<Rightarrow> k \<in> ks \<and> dl k = Some d \<and>
          (\<forall>k'\<in>ks. \<forall>d'. dl k' = Some d' \<longrightarrow> no_earlier (d, k) (d', k')))"

lemma event_index_inject [simp]: "event_index k = event_index k' \<longleftrightarrow> k = k'"
  by (cases k; cases k') simp_all

lemma all_kinds [simp]: "set EVENT_ALL = UNIV" "sorted_wrt (\<lambda>k k'. event_index k < event_index k') EVENT_ALL"
proof -
  show "set EVENT_ALL = UNIV"
    using event_kind.exhaust by (auto simp: EVENT_ALL_def)
qed (simp add: EVENT_ALL_def)

lemma earliest_event_spec:
  assumes "length slots = EVENT_COUNT" "sorted_wrt (\<lambda>k k'. event_index k < event_index k') kinds"
    and "\<forall>k\<in>before. \<forall>k'\<in>set kinds. event_index k < event_index k'"
    and "earliest_among (\<lambda>k. es_deadline (slots ! event_index k)) before best"
  shows "\<exists>r. earliest_event slots kinds best = Some r \<and>
    earliest_among (\<lambda>k. es_deadline (slots ! event_index k)) (before \<union> set kinds) r"
  using assms(2-)
proof (induction kinds arbitrary: before best)
  case Nil
  then show ?case by simp
next
  case (Cons kind kinds)
  let ?dl = "\<lambda>k. es_deadline (slots ! event_index k)"
  let ?best = "case ?dl kind of None \<Rightarrow> best
    | Some deadline \<Rightarrow> (case best of None \<Rightarrow> Some (deadline, kind)
        | Some (next_deadline, _) \<Rightarrow> if deadline < next_deadline then Some (deadline, kind) else best)"
  have "earliest_among ?dl (insert kind before) ?best"
    using Cons.prems(2,3)
    by (fastforce simp: earliest_among_def no_earlier_def split: option.splits prod.splits if_splits)
  then have "\<exists>r. earliest_event slots kinds ?best = Some r \<and>
      earliest_among ?dl (insert kind before \<union> set kinds) r"
    using Cons.prems(1,2) by (intro Cons.IH) auto
  then show ?case using assms(1) by simp
qed

definition events_wf :: "ip12_events \<Rightarrow> bool" where
  "events_wf e \<longleftrightarrow> events_ok e \<and> earliest_among (deadline_of e) UNIV (ev_next_event e)"

lemma deadline_of_simps [simp]:
  "deadline_of (e\<lparr>ev_next_event := n\<rparr>) = deadline_of e" "deadline_of (e\<lparr>ev_now := t\<rparr>) = deadline_of e"
  by (simp_all add: deadline_of_def fun_eq_iff)

lemma recompute_wf:
  assumes "events_ok e"
  shows "\<exists>e'. recompute_next_event e = Some e' \<and> events_wf e' \<and> deadline_of e' = deadline_of e \<and> ev_now e' = ev_now e"
proof -
  have "length (ev_slots e) = EVENT_COUNT" using assms by (simp add: events_ok_def)
  from earliest_event_spec [OF this all_kinds(2), of "{}" None] obtain n where
    "earliest_event (ev_slots e) EVENT_ALL None = Some n" "earliest_among (deadline_of e) UNIV n"
    by (auto simp: deadline_of_def [abs_def] earliest_among_def [of _ "{}" None])
  then show ?thesis
    using assms by (simp add: recompute_next_event_def events_wf_def events_ok_def)
qed

lemma set_deadline:
  fixes d :: "virtual_instant option" and k :: event_kind
  assumes "events_ok e"
  defines "e1 \<equiv> e\<lparr>ev_slots := (ev_slots e)[event_index k := (ev_slots e ! event_index k)\<lparr>es_deadline := d\<rparr>]\<rparr>"
  shows "events_ok e1" "deadline_of e1 = (deadline_of e)(k := d)" "ev_now e1 = ev_now e"
  using assms(1) slot_synchronized [OF assms(1), of "event_index k"]
  by (auto simp: e1_def events_ok_def slots_update_ok deadline_of_def fun_eq_iff nth_list_update)

lemma schedule_wf:
  assumes "events_ok e"
  shows "\<exists>e'. events_schedule k after e = Some e' \<and> events_wf e' \<and> ev_now e' = ev_now e \<and>
    deadline_of e' = (deadline_of e)(k := map_option (\<lambda>d. ev_now e + d) after)"
  using recompute_wf [OF set_deadline(1) [OF assms, of k "map_option (\<lambda>d. ev_now e + d) after"]]
    set_deadline [OF assms, of k "map_option (\<lambda>d. ev_now e + d) after"] assms
  by (auto simp: events_schedule_def instant_advance_def)

lemma synchronize_wf:
  assumes "events_wf e"
  shows "\<exists>e'. events_synchronize k e = Some (ev_now e - es_synchronized_at (ev_slots e ! event_index k), e') \<and>
    events_wf e' \<and> deadline_of e' = deadline_of e"
proof -
  have e: "events_ok e" using assms by (simp add: events_wf_def)
  let ?e = "e\<lparr>ev_slots := (ev_slots e)[event_index k := (ev_slots e ! event_index k)\<lparr>es_synchronized_at := ev_now e\<rparr>]\<rparr>"
  have "deadline_of ?e = deadline_of e"
    using e by (auto simp: deadline_of_def fun_eq_iff nth_list_update events_ok_def)
  moreover have "events_ok ?e" using e by (simp add: events_ok_def slots_update_ok)
  ultimately show ?thesis
    using assms slot_synchronized [OF e, of "event_index k"] e
    by (simp add: events_synchronize_def duration_since_def events_wf_def)
qed

lemma take_due_wf:
  assumes "events_wf e"
  shows "\<exists>r e'. events_take_due e = Some (r, e') \<and> events_wf e' \<and> ev_now e' = ev_now e \<and>
    (case r of
       None \<Rightarrow> e' = e \<and> (\<forall>k d. deadline_of e k = Some d \<longrightarrow> ev_now e < d)
     | Some k \<Rightarrow> \<exists>d. deadline_of e k = Some d \<and> d \<le> ev_now e \<and>
         (\<forall>k' d'. deadline_of e k' = Some d' \<longrightarrow> no_earlier (d, k) (d', k')) \<and>
         deadline_of e' = (deadline_of e)(k := None))"
proof (cases "ev_next_event e")
  case None
  then show ?thesis using assms by (simp add: events_take_due_def events_wf_def earliest_among_def)
next
  case (Some n)
  obtain d k where n: "n = (d, k)" by (cases n)
  have e: "events_ok e" using assms by (simp add: events_wf_def)
  have min: "deadline_of e k = Some d" "\<And>k' d'. deadline_of e k' = Some d' \<Longrightarrow> no_earlier (d, k) (d', k')"
    using assms Some n by (auto simp: events_wf_def earliest_among_def)
  show ?thesis
  proof (cases "ev_now e < d")
    case True
    then have "ev_now e < d'" if "deadline_of e k' = Some d'" for k' d'
      using min(2) [OF that] by (auto simp: no_earlier_def)
    then show ?thesis using assms Some n True by (simp add: events_take_due_def)
  next
    case False
    from recompute_wf [OF set_deadline(1) [OF e, of k None]] obtain e' where
      "recompute_next_event (e\<lparr>ev_slots := (ev_slots e)[event_index k :=
        (ev_slots e ! event_index k)\<lparr>es_deadline := None\<rparr>]\<rparr>) = Some e'" "events_wf e'"
      "deadline_of e' = (deadline_of e)(k := None)" "ev_now e' = ev_now e"
      using set_deadline [OF e, of k None] by auto
    then have "events_take_due e = Some (Some k, e')"
      using e Some n False by (simp add: events_take_due_def)
    then show ?thesis
      using min False \<open>events_wf e'\<close> \<open>deadline_of e' = _\<close> \<open>ev_now e' = _\<close> by (auto simp: not_less)
  qed
qed

section \<open>Reachable event states\<close>

text \<open>Time only advances; the 128-bit count of attoseconds is assumed not to wrap.\<close>

inductive events_reachable :: "ip12_events \<Rightarrow> bool" where
  events_start: "events_reachable events_new"
| events_elapse: "events_reachable e \<Longrightarrow> ev_now e \<le> instant_advance elapsed (ev_now e) \<Longrightarrow>
    events_reachable (events_advance elapsed e)"
| events_scheduled: "events_reachable e \<Longrightarrow> events_schedule k after e = Some e' \<Longrightarrow> events_reachable e'"
| events_taken: "events_reachable e \<Longrightarrow> events_take_due e = Some (r, e') \<Longrightarrow> events_reachable e'"
| events_synced: "events_reachable e \<Longrightarrow> events_synchronize k e = Some (d, e') \<Longrightarrow> events_reachable e'"
| events_restart: "events_reachable e \<Longrightarrow> events_reachable (events_reset e)"

lemma events_wf_new: "events_wf events_new" "events_wf (events_reset e)"
  using events_ok_new
  by (simp_all add: events_wf_def earliest_among_def deadline_of_def events_new_def events_reset_def
      event_slot_empty_def)

lemma events_wf_advance:
  assumes "events_wf e" "ev_now e \<le> instant_advance d (ev_now e)"
  shows "events_wf (events_advance d e)"
  using assms order_trans by (fastforce simp: events_wf_def events_ok_def events_advance_def list_all_iff)

lemma events_reachable_wf: "events_reachable e \<Longrightarrow> events_wf e"
proof (induction rule: events_reachable.induct)
  case (events_scheduled e k after e')
  then show ?case using schedule_wf [of e k after] by (auto simp: events_wf_def)
next
  case (events_taken e r e')
  then show ?case using take_due_wf [of e] by auto
next
  case (events_synced e k d e')
  then show ?case using synchronize_wf [of e k] by auto
qed (simp_all add: events_wf_new events_wf_advance)



end
