(* ===== verification/Timed.thy ===== *)
theory Timed
  imports Events_Correct
begin

text \<open>
  The contract between the board's lazy clock and a device that keeps virtual time. The board
  brings a device up to date only when it is accessed or due, so a device sees the same span of
  time cut into pieces that depend on the program; a \<open>timed_device\<close> is one on which the cutting
  has no effect. The programmable timers, the graphics DMA channel and the serial controller are
  interpretations.
\<close>

section \<open>Character times\<close>

lemma unat_ucast_lt:
  fixes w :: "'a::len word"
  assumes "2 ^ LENGTH('a) \<le> n"
  shows "unat (ucast w :: 'b::len word) < n"
proof -
  have "unat (ucast w :: 'b word) \<le> unat w"
    by (simp add: unsigned_ucast_eq)
  also have "unat w < 2 ^ LENGTH('a)" by (rule unsigned_less)
  finally show ?thesis using assms by simp
qed

lemma numerator_quotient:
  fixes r :: "'r::len word" and n :: u128
  assumes "LENGTH('r) \<le> 16" "n = k * ATTOSECONDS_PER_SECOND + ucast r" "unat k \<in> {1..100}" "d \<in> {1..5000}"
  shows "n div d \<noteq> 0"
proof -
  have r: "unat (ucast r :: u128) < 65536"
    using power_increasing [OF assms(1), of "2 :: nat"] by (intro unat_ucast_lt) simp
  have "unat k * 1000000000000000000 \<le> 100 * 1000000000000000000" using assms(3) by simp
  then have "unat n = unat k * 1000000000000000000 + unat (ucast r :: u128)"
    using r unfolding assms(2) by (simp add: ATTOSECONDS_PER_SECOND_def unat_word_ariths)
  then have "1000000000000000000 \<le> unat n" using assms(3) by simp
  moreover have "unat d \<le> 5000" "0 < unat d"
    using assms(4) by (auto simp: word_le_nat_alt)
  ultimately have "unat d \<le> unat n" by simp
  then have "0 < unat n div unat d" using \<open>0 < unat d\<close> by (simp add: div_greater_zero_iff)
  then show ?thesis by (metis unat_div unat_0 less_numeral_extra(3))
qed

section \<open>Devices that keep time\<close>

definition time_fits :: "virtual_duration list \<Rightarrow> bool" where
  "time_fits ds \<longleftrightarrow> sum_list (map unat ds) < 2 ^ 128"

primrec advance_pieces ::
  "(virtual_duration \<Rightarrow> 's \<Rightarrow> 's option) \<Rightarrow> virtual_duration list \<Rightarrow> 's \<Rightarrow> 's option" where
  "advance_pieces advance [] s = Some s"
| "advance_pieces advance (d # ds) s = Option.bind (advance d s) (advance_pieces advance ds)"

lemma advance_pieces_total:
  "advance_pieces (\<lambda>d s. Some (f d s)) ds s = Some (foldl (\<lambda>s d. f d s) s ds)"
  by (induction ds arbitrary: s) simp_all

locale timed_device =
  fixes advance :: "virtual_duration \<Rightarrow> 's \<Rightarrow> 's option"
    and good :: "'s \<Rightarrow> bool"
  assumes advance_good: "good s \<Longrightarrow> ok (advance d s) good"
    and advance_additive: "good s \<Longrightarrow> unat d + unat e < 2 ^ 128 \<Longrightarrow>
      advance (d + e) s = Option.bind (advance d s) (advance e)"
begin

lemma advance_pieces_good: "good s \<Longrightarrow> ok (advance_pieces advance ds s) good"
proof (induction ds arbitrary: s)
  case (Cons d ds)
  then show ?case by (auto intro!: ok_mono [OF advance_good])
qed simp

text \<open>However a span of time is cut into pieces, the device ends in the same state.\<close>

lemma pieces_additive:
  assumes "good s" "time_fits (d # ds)"
  shows "advance_pieces advance (d # ds) s = advance (sum_list (d # ds)) s"
  using assms
proof (induction ds arbitrary: s d)
  case Nil
  then show ?case by (cases "advance d s") simp_all
next
  case (Cons e ds)
  have u: "unat (d + e) = unat d + unat e"
    using Cons.prems(2) by (simp add: time_fits_def unat_word_ariths)
  have "advance_pieces advance (d # e # ds) s = advance_pieces advance ((d + e) # ds) s"
    using advance_additive [OF Cons.prems(1), of d e] Cons.prems(2)
    by (cases "advance d s") (simp_all add: time_fits_def)
  also have "\<dots> = advance (sum_list ((d + e) # ds)) s"
    using Cons.IH [of s "d + e"] Cons.prems u by (simp add: time_fits_def)
  finally show ?case by (simp add: add.assoc)
qed

lemma cuts_agree:
  assumes "good s" "time_fits (d # ds)" "time_fits (e # es)" "sum_list (d # ds) = sum_list (e # es)"
  shows "advance_pieces advance (d # ds) s = advance_pieces advance (e # es) s"
  using pieces_additive [OF assms(1,2)] pieces_additive [OF assms(1,3)] assms(4) by metis

end

end
