(* ===== verification/Pic1_Correct.thy ===== *)
theory Pic1_Correct
  imports Pic1 Timed
begin

text \<open>
  Facts about PIC1: its graphics-DMA channel keeps time independently of how the elapsed time is
  split, a descriptor transfers exactly its lines at their addresses, the word registers read
  back what was written, and address errors stay latched until they are cleared.
\<close>

section \<open>Time\<close>

lemma saturating_add_assoc:
  fixes a b c :: "'a::len word"
  assumes "unat b + unat c < 2 ^ LENGTH('a)"
  shows "saturating_add (saturating_add a b) c = saturating_add a (b + c)"
proof -
  have bc: "unat (b + c) = unat b + unat c" using assms by (simp add: unat_word_ariths)
  show ?thesis
  proof (cases "unat a + unat b < 2 ^ LENGTH('a)")
    case True
    then have "unat (a + b) = unat a + unat b" by (simp add: unat_word_ariths)
    then show ?thesis using True by (simp add: saturating_add_def bc add.assoc)
  next
    case False
    have "saturating_add (- 1 :: 'a word) c = - 1"
      by (cases "c = 0")
        (auto simp: saturating_add_def unsigned_minus_1_eq_mask mask_eq_exp_minus_1 word_neq_0_conv
          word_less_nat_alt)
    then show ?thesis using False by (simp add: saturating_add_def bc)
  qed
qed

text \<open>Advancing by \<open>a\<close> and then by \<open>b\<close>; a channel that waits for nothing is left alone.\<close>

lemma pic1_advance_additive:
  assumes "unat a + unat b < 2 ^ 128"
  shows "pic1_advance_time b (pic1_advance_time a p) = pic1_advance_time (a + b) p"
proof -
  let ?c = "p1_graphics_dma p"
  have sum: "unat (a + b) = unat a + unat b" using assms by (simp add: unat_word_ariths)
  have "dma_advance_time b (dma_advance_time a ?c) = dma_advance_time (a + b) ?c"
  proof (cases "dma_timed ?c \<and> gd_delay ?c \<le> a")
    case True
    then have le: "unat (gd_delay ?c) \<le> unat a" by (simp add: word_le_nat_alt)
    then have "unat (a - gd_delay ?c) = unat a - unat (gd_delay ?c)" by (simp add: unat_sub_if')
    then have "saturating_add (saturating_add (gd_elapsed_credit ?c) (a - gd_delay ?c)) b =
        saturating_add (gd_elapsed_credit ?c) (a - gd_delay ?c + b)"
      using assms le by (intro saturating_add_assoc) simp
    moreover have "a - gd_delay ?c + b = a + b - gd_delay ?c" by simp
    moreover have "gd_delay ?c \<le> a + b" using le sum by (simp add: word_le_nat_alt)
    ultimately show ?thesis using True by (simp add: dma_advance_time_def dma_timed_def)
  next
    case False
    then have delay: "unat (gd_delay ?c - a) = unat (gd_delay ?c) - unat a" if "dma_timed ?c"
      using that by (simp add: word_le_nat_alt unat_sub_if')
    have "gd_delay ?c - a \<le> b \<longleftrightarrow> gd_delay ?c \<le> a + b" if "dma_timed ?c"
      using delay [OF that] False that sum by (auto simp: word_le_nat_alt)
    then show ?thesis
      using False by (auto simp: dma_advance_time_def dma_timed_def algebra_simps)
  qed
  then show ?thesis by (simp add: pic1_advance_time_def)
qed

interpretation pic1_timed: timed_device "\<lambda>t p. Some (pic1_advance_time t p)" "\<lambda>_. True"
  by unfold_locales (simp_all add: pic1_advance_additive)

text \<open>
  The graphics DMA clock does not depend on how elapsed time is delivered: however a span of
  time is cut into pieces, and whatever the channel is doing, PIC1 ends in the state it reaches
  when the whole span elapses at once, as long as the span does not overflow the 128-bit count of
  attoseconds.
\<close>

lemma pic1_time_additive:
  assumes "time_fits (d # ds)"
  shows "foldl (\<lambda>p t. pic1_advance_time t p) p (d # ds) = pic1_advance_time (sum_list (d # ds)) p"
  using pic1_timed.pieces_additive [OF TrueI assms, of p] by (simp add: advance_pieces_total)

section \<open>Lines\<close>

lemma set_delay_fields [simp]:
  "gd_stage (dma_set_delay t c) = gd_stage c" "gd_error (dma_set_delay t c) = gd_error c"
  "gd_line_memory_address (dma_set_delay t c) = gd_line_memory_address c"
  "gd_line_gio_address (dma_set_delay t c) = gd_line_gio_address c"
  "gd_line_transfer_bytes (dma_set_delay t c) = gd_line_transfer_bytes c"
  "gd_memory_line_increment (dma_set_delay t c) = gd_memory_line_increment c"
  "gd_gio_line_increment (dma_set_delay t c) = gd_gio_line_increment c"
  "gd_lines_remaining (dma_set_delay t c) = gd_lines_remaining c"
  "gd_next_descriptor_address (dma_set_delay t c) = gd_next_descriptor_address c"
  "gd_descriptor_address (dma_set_delay t c) = gd_descriptor_address c"
  "gd_last_descriptor (dma_set_delay t c) = gd_last_descriptor c"
  "gd_direction (dma_set_delay t c) = gd_direction c"
  by (simp_all add: dma_set_delay_def Let_def)

text \<open>The channel after \<open>i\<close> of the lines that \<open>c\<close>, fresh from its descriptor, describes.\<close>

definition at_line :: "graphics_dma_channel \<Rightarrow> nat \<Rightarrow> graphics_dma_channel \<Rightarrow> bool" where
  "at_line c i d \<longleftrightarrow>
     gd_stage d = StageLine \<and> gd_direction d = gd_direction c \<and>
     gd_line_memory_address d = gd_line_memory_address c + word_of_nat i * gd_memory_line_increment c \<and>
     gd_line_gio_address d = gd_line_gio_address c + word_of_nat i * gd_gio_line_increment c \<and>
     unat (gd_lines_remaining d) = unat (gd_lines_remaining c) - i \<and>
     gd_line_transfer_bytes d = gd_line_transfer_bytes c \<and>
     gd_memory_line_increment d = gd_memory_line_increment c \<and>
     gd_gio_line_increment d = gd_gio_line_increment c \<and>
     gd_last_descriptor d = gd_last_descriptor c \<and>
     gd_next_descriptor_address d = gd_next_descriptor_address c"

lemma at_line_step:
  assumes "at_line c i d" "Suc i < unat (gd_lines_remaining c)"
  shows "at_line c (Suc i) (dma_complete_line True d)"
proof -
  have left: "1 < gd_lines_remaining d" "unat (gd_lines_remaining d - 1) = unat (gd_lines_remaining d) - 1"
    using assms by (auto simp: at_line_def word_less_nat_alt unat_sub_if')
  then show ?thesis
    using assms by (auto simp: at_line_def dma_complete_line_def algebra_simps)
qed

lemma at_line_all:
  assumes "gd_stage c = StageLine" "i < unat (gd_lines_remaining c)"
  shows "at_line c i ((dma_complete_line True ^^ i) c)"
  using assms(2)
proof (induction i)
  case 0
  then show ?case using assms(1) by (simp add: at_line_def)
next
  case (Suc i)
  then show ?case using at_line_step [of c i] by simp
qed

lemma last_line:
  assumes "gd_stage c = StageLine" "unat (gd_lines_remaining c) = Suc i"
  defines "d \<equiv> (dma_complete_line True ^^ Suc i) c"
  shows "if gd_last_descriptor c then dma_idle d \<and> \<not> gd_error d
    else gd_stage d = StageDescriptor \<and> gd_descriptor_address d = gd_next_descriptor_address c"
proof -
  let ?d = "(dma_complete_line True ^^ i) c"
  have line: "at_line c i ?d" using assms by (intro at_line_all) simp_all
  then have "\<not> 1 < gd_lines_remaining ?d"
    using assms(2) by (simp add: at_line_def word_less_nat_alt)
  then show ?thesis
    using line by (simp add: d_def at_line_def dma_complete_line_def dma_finish_def dma_idle_def
        dma_arm_descriptor_fetch_def)
qed

lemma lines_of_stride: "unat (ucast (ucast stride :: u16) + 1 :: u32) = unat (ucast stride :: u16) + 1" for stride :: u32
proof -
  have "unat (ucast stride :: u16) < 65536" using unsigned_less [of "ucast stride :: u16"] by simp
  moreover have "unat (ucast (ucast stride :: u16) :: u32) = unat (ucast stride :: u16)"
    using calculation by (simp add: unsigned_ucast_eq unsigned_take_bit_eq take_bit_nat_eq_self)
  ultimately show ?thesis by (simp add: unat_word_ariths)
qed

text \<open>
  C29. A descriptor moves exactly its lines. When a well-formed descriptor has been read, line
  \<open>i\<close>, for every \<open>i\<close> below the line count (the low half of the stride word plus one, at most
  65536), requests the transfer at the buffer and destination addresses plus \<open>i\<close> times the line
  increments the descriptor defines; and after the last line the channel is idle without error
  when this was the last descriptor, and fetches the next descriptor otherwise.
\<close>

theorem descriptor_lines:
  assumes "dma_direction_of (descriptor_word bs 1) = Some direction"
    and "i < unat (ucast (descriptor_word bs 3) :: u16) + 1"
  shows "fst (dma_next_request (((dma_complete_line True ^^ i)
        (dma_complete_descriptor (Some bs) c))\<lparr>gd_delay := 0\<rparr>)) =
      Some (TransferLine direction
        (descriptor_word bs 0 +
          word_of_nat i * dma_memory_line_increment (descriptor_word bs 1) (descriptor_word bs 3))
        (descriptor_word bs 2 + word_of_nat i * dma_gio_line_increment (descriptor_word bs 1))
        (unat (ucast (gio_transfer_bytes (dma_line_width (descriptor_word bs 1))) :: u16))) \<and>
    (let d = (dma_complete_line True ^^ (unat (ucast (descriptor_word bs 3) :: u16) + 1))
           (dma_complete_descriptor (Some bs) c)
     in if descriptor_word bs 1 AND GRAPHICS_DMA_LAST_DESCRIPTOR \<noteq> 0 then dma_idle d \<and> \<not> gd_error d
        else gd_stage d = StageDescriptor \<and>
          gd_descriptor_address d = descriptor_word bs 4 AND DESCRIPTOR_ADDRESS_MASK)"
proof -
  define c0 where "c0 = dma_complete_descriptor (Some bs) c"
  have fields: "gd_stage c0 = StageLine" "gd_direction c0 = direction"
    "gd_line_memory_address c0 = descriptor_word bs 0" "gd_line_gio_address c0 = descriptor_word bs 2"
    "gd_memory_line_increment c0 = dma_memory_line_increment (descriptor_word bs 1) (descriptor_word bs 3)"
    "gd_gio_line_increment c0 = dma_gio_line_increment (descriptor_word bs 1)"
    "gd_line_transfer_bytes c0 = ucast (gio_transfer_bytes (dma_line_width (descriptor_word bs 1)))"
    "unat (gd_lines_remaining c0) = unat (ucast (descriptor_word bs 3) :: u16) + 1"
    "gd_last_descriptor c0 \<longleftrightarrow> descriptor_word bs 1 AND GRAPHICS_DMA_LAST_DESCRIPTOR \<noteq> 0"
    "gd_next_descriptor_address c0 = descriptor_word bs 4 AND DESCRIPTOR_ADDRESS_MASK"
    unfolding c0_def dma_complete_descriptor_def option.case Let_def assms(1) set_delay_fields
    by (simp_all add: lines_of_stride)
  have "at_line c0 i ((dma_complete_line True ^^ i) c0)"
    using fields(1,8) assms(2) by (intro at_line_all) simp_all
  then have request: "fst (dma_next_request (((dma_complete_line True ^^ i) c0)\<lparr>gd_delay := 0\<rparr>)) =
      Some (TransferLine direction
        (gd_line_memory_address c0 + word_of_nat i * gd_memory_line_increment c0)
        (gd_line_gio_address c0 + word_of_nat i * gd_gio_line_increment c0)
        (unat (gd_line_transfer_bytes c0)))"
    by (simp add: at_line_def dma_next_request_def fields(2))
  let ?d = "(dma_complete_line True ^^ (unat (ucast (descriptor_word bs 3) :: u16) + 1)) c0"
  have "unat (gd_lines_remaining c0) = Suc (unat (ucast (descriptor_word bs 3) :: u16))"
    using fields(8) by simp
  from last_line [OF fields(1) this] have last: "if gd_last_descriptor c0 then dma_idle ?d \<and> \<not> gd_error ?d
      else gd_stage ?d = StageDescriptor \<and> gd_descriptor_address ?d = gd_next_descriptor_address c0"
    unfolding Suc_eq_plus1 .
  show ?thesis
    unfolding c0_def [symmetric] Let_def using request last unfolding fields by blast
qed

text \<open>Two lines of 64 bytes to the GIO bus; the second starts 64 bytes further on.\<close>

theorem descriptor_lines_witness:
  "fst (dma_next_request ((dma_complete_line True
      (dma_complete_descriptor (Some [0x08,0,0,0, 0,0,0xc0,0x40, 0x1f,0,0,0, 0,0,0,1, 0,0,0,0])
        graphics_dma_channel_new))\<lparr>gd_delay := 0\<rparr>)) =
    Some (TransferLine MemoryToGio 0x08000040 0x1f000040 64)"
proof -
  let ?bs = "[0x08,0,0,0, 0,0,0xc0,0x40, 0x1f,0,0,0, 0,0,0,1, 0,0,0,0] :: u8 list"
  have w: "descriptor_word ?bs 0 = 0x08000000" "descriptor_word ?bs 1 = 0x0000c040"
    "descriptor_word ?bs 2 = 0x1f000000" "descriptor_word ?bs 3 = 1"
    by (simp_all add: descriptor_word_def from_be_bytes_def)
  have mode: "dma_direction_of 0xc040 = Some MemoryToGio"
    by (simp add: dma_direction_of_def GRAPHICS_DMA_MODE_SHIFT_def GRAPHICS_DMA_MODE_MASK_def)
  have width: "dma_line_width 0xc040 = 0x40"
    by (simp add: dma_line_width_def GRAPHICS_DMA_FULL_PAGE_def GRAPHICS_DMA_WIDTH_MASK_def)
  have "gio_transfer_bytes 0x40 = 64" "dma_memory_line_increment 0xc040 1 = 0x40"
    "dma_gio_line_increment 0xc040 = 0x40"
    by (simp_all add: gio_transfer_bytes_def div_ceil_def dma_memory_line_increment_def
        dma_gio_line_increment_def width sign_extend_12_def GRAPHICS_DMA_GRAPHICS_STRIDE_SHIFT_def
        GRAPHICS_DMA_LINE_INCREMENT_def GRAPHICS_DMA_STRIDE_INCREMENT_def GRAPHICS_DMA_STRIDE_MASK_def)
  then show ?thesis
    using descriptor_lines [of ?bs MemoryToGio 1 graphics_dma_channel_new]
    unfolding w mode width by simp
qed

section \<open>Registers\<close>

lemmas pic1_register_defs =
  PIC1_CPU_CONTROL_def PIC1_RESET_CONFIGURATION_def PIC1_SYSTEM_ID_def PIC1_PARITY_ERROR_def
  PIC1_CPU_ERROR_ADDRESS_def PIC1_GIO_ERROR_ADDRESS_def PIC1_CLEAR_ERROR_def
  PIC1_GIO_SLOT_CONFIGURATION_0_def PIC1_GIO_SLOT_CONFIGURATION_1_def PIC1_GIO_BURST_def
  PIC1_GIO_DELAY_def PIC1_THREE_WAY_MASK_def PIC1_THREE_WAY_SUBSTITUTION_def
  PIC1_DESCRIPTOR_ARRAY_BASE_def PIC1_GRAPHICS_BUFFER_ADDRESS_def PIC1_GRAPHICS_BUFFER_LENGTH_def
  PIC1_GRAPHICS_DESTINATION_ADDRESS_def PIC1_GRAPHICS_STRIDE_def PIC1_GRAPHICS_START_def

text \<open>The word registers software writes: their addresses, and the bits that are kept.\<close>

definition writable_word_registers :: "(u64 \<times> u32) list" where
  "writable_word_registers =
     [(PIC1_THREE_WAY_MASK, THREE_WAY_VALUE_MASK), (PIC1_THREE_WAY_SUBSTITUTION, THREE_WAY_VALUE_MASK),
      (PIC1_DESCRIPTOR_ARRAY_BASE, 0xffffffff), (PIC1_GIO_BURST, 0xff), (PIC1_GIO_DELAY, 0xff),
      (PIC1_GIO_SLOT_CONFIGURATION_0, 0x03), (PIC1_GIO_SLOT_CONFIGURATION_1, 0x03)]"

lemma ucast_masked:
  "(ucast (ucast v :: u8) :: u32) = v AND 0xff"
  "(ucast ((ucast v :: u8) AND 0x03) :: u32) = v AND 0x03" for v :: u32
proof -
  have m: "(0xff :: u32) = mask 8" "(0x03 :: u32) = mask 2" "(0x03 :: u8) = mask 2"
    by (simp_all add: mask_numeral)
  show "(ucast (ucast v :: u8) :: u32) = v AND 0xff"
    unfolding m by (rule bit_word_eqI) (auto simp: bit_simps)
  show "(ucast ((ucast v :: u8) AND 0x03) :: u32) = v AND 0x03"
    unfolding m by (rule bit_word_eqI) (auto simp: bit_simps)
qed

lemma and_all_ones: "v AND 0xffffffff = v" for v :: u32
proof -
  have "(0xffffffff :: u32) = - 1" by simp
  then show ?thesis by (simp only: and.right_neutral)
qed

text \<open>Which register answers is decided before the answers are looked at.\<close>

lemma at_register_cong [cong]:
  "s = s' \<Longrightarrow> e = e' \<Longrightarrow> r = r' \<Longrightarrow> at_register s e r hit miss = at_register s' e' r' hit miss"
  by simp

lemma whole_word_register:
  assumes "length data = 4"
  shows "write_register old 0 data = Some (from_be_bytes data)" "read_register v 0 4 = Some (to_be_bytes32 v)"
  using assms by (simp_all add: write_register_def read_register_def splice_bytes_def to_be_bytes32_def)

lemma at_register_word:
  assumes "unat s < 2 ^ 32" "unat r < 2 ^ 32" "e = s + 4"
  shows "at_register s e r hit miss = (if r = s then hit 0 else miss)"
proof -
  have "unat e = unat s + 4" "unat (r + REGISTER_BYTES) = unat r + 4"
    using assms by (simp_all add: unat_word_ariths REGISTER_BYTES_def)
  then show ?thesis
    using word_unat_eq_iff [of r s]
    by (cases "r = s") (auto simp: at_register_def register_offset_def word_less_nat_alt)
qed

text \<open>
  C30. Register round trip. A word written to any of the plain read-write registers of PIC1 is
  accepted and reads back with exactly the implemented bits kept, whatever the state.
\<close>

theorem pic1_register_roundtrip:
  assumes "(reg, keep) \<in> set writable_word_registers" "length data = 4"
    and "length (p1_gio_slot_configurations p) = 2"
  shows "\<exists>p'. pic1_write p reg data = Some (Inr (), p') \<and>
    pic1_read p' reg 4 = Some (Inr (to_be_bytes32 (from_be_bytes data AND keep)))"
proof -
  have bounds: "transaction_bounds reg 4 = Inr (reg, reg + 4)"
    using assms(1) by (auto simp: writable_word_registers_def transaction_bounds_def pic1_register_defs)
  have other: "memory_configuration_register reg (reg + 4) = Inr None"
    using assms(1)
    unfolding writable_word_registers_def pic1_register_defs
    by simp (elim disjE conjE; simp add: memory_configuration_register_def REGISTER_BYTES_def
        PIC1_MEMORY_CONFIGURATION_0_def PIC1_MEMORY_CONFIGURATION_1_def)
  have written: "pic1_write p reg data = pic1_write_register p reg (reg + 4) data"
    by (simp add: pic1_write_def assms(2) bounds other)
  have answered: "pic1_read q reg 4 = pic1_read_register q reg (reg + 4) 4" for q
    by (simp add: pic1_read_def bounds other)
  note word = whole_word_register [OF assms(2)]
  show ?thesis
    unfolding written answered using assms(1,3) unfolding writable_word_registers_def
    by simp (elim disjE conjE; simp add: pic1_write_register_def pic1_read_register_def Let_def
        at_register_word pic1_register_defs word ucast_masked and_all_ones
        pic1_write_slot_configuration_def GIO_SLOT_CONFIGURATION_MASK_def)
qed

theorem pic1_register_roundtrip_witness:
  "\<exists>p p'. pic1_write p PIC1_GIO_BURST [1, 2, 3, 4] = Some (Inr (), p') \<and>
    pic1_read p' PIC1_GIO_BURST 4 = Some (Inr [0, 0, 0, 4])"
proof -
  obtain p :: pic1 where p: "length (p1_gio_slot_configurations p) = 2"
    using length_replicate [of 2 "0 :: u8"] by (metis pic1.select_convs(10))
  have "(PIC1_GIO_BURST, 0xff) \<in> set writable_word_registers" by (simp add: writable_word_registers_def)
  moreover have "to_be_bytes32 (from_be_bytes [1, 2, 3, 4] AND 0xff) = [0, 0, 0, 4]"
    by (simp add: to_be_bytes32_def from_be_bytes_def)
  ultimately show ?thesis
    using pic1_register_roundtrip [of PIC1_GIO_BURST "0xff" "[1, 2, 3, 4]" p] p by auto
qed

end
