(* ===== verification/Data_Cache.thy ===== *)
theory Data_Cache
  imports State_Correct
begin

text \<open>
  Sequences of cached data accesses of the processor. On a bus with plain memory, a sequence run
  through the cache returns what the memory itself would return, and leaves the memory as the
  writes would: write-through is complete and no stale line is ever read.
\<close>

datatype data_op = DataLoad phys_addr nat | DataStore phys_addr "u8 list"

definition cached_at :: "phys_addr \<Rightarrow> translation" where
  "cached_at a = \<lparr>tr_address = a, tr_cacheability = Cached\<rparr>"

text \<open>The accesses as the load and store instructions issue them; the first fault ends the run.\<close>

fun run_data_ops ::
  "'b bus_ops \<Rightarrow> data_op list \<Rightarrow> cpu \<Rightarrow> 'b \<Rightarrow> ((bus_error + u8 list list) \<times> cpu \<times> 'b) option"
where
  "run_data_ops ops [] s b = Some (Inr [], s, b)"
| "run_data_ops ops (DataLoad a n # rest) s b =
     do {
       (r, s1, b1) <- load_data ops (cached_at a) n s b;
       case r of
         Inl e \<Rightarrow> Some (Inl e, s1, b1)
       | Inr bytes \<Rightarrow> do {
           (r2, s2, b2) <- run_data_ops ops rest s1 b1;
           Some (map_sum id (Cons bytes) r2, s2, b2)
         }
     }"
| "run_data_ops ops (DataStore a bs # rest) s b =
     do {
       (r, s1, b1) <- store_memory ops (cached_at a) bs s b;
       case r of
         Inl e \<Rightarrow> Some (Inl e, s1, b1)
       | Inr _ \<Rightarrow> run_data_ops ops rest s1 b1
     }"

text \<open>The same accesses on the memory alone; \<open>None\<close> when one of them is not a memory access.\<close>

fun plain_data_ops ::
  "data_op list \<Rightarrow> (u32 \<Rightarrow> u8 list option) \<Rightarrow> (u8 list list \<times> (u32 \<Rightarrow> u8 list option)) option"
where
  "plain_data_ops [] mem = Some ([], mem)"
| "plain_data_ops (DataLoad a n # rest) mem =
     do {
       require (word_transaction a n);
       w <- mem (word_of_phys a);
       (out, mem1) <- plain_data_ops rest mem;
       Some (take n (drop (byte_offset a) w) # out, mem1)
     }"
| "plain_data_ops (DataStore a bs # rest) mem =
     do {
       require (word_transaction a (length bs));
       w <- mem (word_of_phys a);
       plain_data_ops rest (mem(word_of_phys a \<mapsto> splice_bytes (byte_offset a) bs w))
     }"

definition data_bank :: "cpu \<Rightarrow> cache_bank" where
  "data_bank s = select_cache_bank LoadData (cm_effective (cpu_cache_mode s))"

definition data_cache :: "cpu \<Rightarrow> cache" where
  "data_cache s = bank_cache (data_bank s) (cpu_caches s)"

definition with_data_cache :: "cache \<Rightarrow> cpu \<Rightarrow> cpu" where
  "with_data_cache c s = s\<lparr>cpu_caches := set_bank_cache (data_bank s) c (cpu_caches s)\<rparr>"

lemma bank_cache_set [simp]: "bank_cache bank (set_bank_cache bank c cs) = c"
  by (cases bank) (simp_all add: bank_cache_def set_bank_cache_def)

lemma with_data_cache_simps [simp]:
  "cpu_cache_mode (with_data_cache c s) = cpu_cache_mode s"
  "data_cache (with_data_cache c s) = c"
  by (simp_all add: with_data_cache_def data_cache_def data_bank_def)

lemma data_cache_ok: "cpu_ok s \<Longrightarrow> cache_ok (data_cache s)"
  using cpu_ok_facts(6) [of s]
  by (auto simp: data_cache_def bank_cache_def caches_ok_def split: cache_bank.split)

lemma with_data_cache_ok: "cpu_ok s \<Longrightarrow> cache_ok c \<Longrightarrow> cpu_ok (with_data_cache c s)"
  using cpu_ok_facts(6) [of s]
  by (auto simp: with_data_cache_def set_bank_cache_def caches_ok_def split: cache_bank.split)

lemma partial_store_kept [simp]:
  "cs_partial_store_enabled (set_bank_cache bank c cs) = cs_partial_store_enabled cs"
  by (cases bank) (simp_all add: set_bank_cache_def)

context memory_bus
begin

lemma load_cached_memory:
  assumes "cpu_ok s" "bus_ok b" "\<not> cc_isolated (cm_effective (cpu_cache_mode s))"
    "cache_coherent (peek b) (data_cache s)" "word_transaction a n" "peek b (word_of_phys a) = Some w"
  shows "\<exists>c. load_data ops (cached_at a) n s b =
      Some (Inr (take n (drop (byte_offset a) w)), with_data_cache c s, b) \<and>
    cache_ok c \<and> cache_coherent (peek b) c"
proof -
  from cache_read_memory [OF data_cache_ok [OF assms(1)] assms(2,4,5,6)] obtain c where
    c: "cache_read ops a n (data_cache s) b = Some (Inr (take n (drop (byte_offset a) w)), c, b)"
    "cache_ok c" "cache_coherent (peek b) c"
    by blast
  have "validate_memory_access (cached_at a) n = Some ()"
    using assms(5) by (simp add: cached_at_def validate_Some)
  then have "load_data ops (cached_at a) n s b =
      Some (Inr (take n (drop (byte_offset a) w)), with_data_cache c s, b)"
    using assms(3) c(1)
    by (simp add: load_data_def cached_at_def caches_read_def with_data_cache_def data_cache_def data_bank_def)
  then show ?thesis using c by blast
qed

lemma store_cached_memory:
  assumes "cpu_ok s" "bus_ok b" "\<not> cc_isolated (cm_effective (cpu_cache_mode s))"
    "cache_coherent (peek b) (data_cache s)" "word_transaction a (length bs)"
    "peek b (word_of_phys a) = Some w"
  shows "\<exists>c b'. store_memory ops (cached_at a) bs s b = Some (Inr (), with_data_cache c s, b') \<and>
    cache_ok c \<and> bus_ok b' \<and> cache_coherent (peek b') c \<and>
    peek b' = (peek b)(word_of_phys a \<mapsto> splice_bytes (byte_offset a) bs w)"
proof -
  from cache_write_memory [OF data_cache_ok [OF assms(1)] assms(2,4,5,6),
      of "cs_partial_store_enabled (cpu_caches s)"] obtain c b' where
    c: "cache_write ops a bs (cs_partial_store_enabled (cpu_caches s)) (data_cache s) b = Some (Inr (), c, b')"
    "cache_ok c" "bus_ok b'" "peek b' = (peek b)(word_of_phys a \<mapsto> splice_bytes (byte_offset a) bs w)"
    "cache_coherent (peek b') c"
    by blast
  have "validate_memory_access (cached_at a) (length bs) = Some ()"
    using assms(5) by (simp add: cached_at_def validate_Some)
  then have "store_memory ops (cached_at a) bs s b = Some (Inr (), with_data_cache c s, b')"
    using assms(3) c(1)
    by (simp add: store_memory_def cached_at_def caches_write_def with_data_cache_def data_cache_def data_bank_def)
  then show ?thesis using c by blast
qed

lemma run_transparent:
  "cpu_ok s \<Longrightarrow> bus_ok b \<Longrightarrow> \<not> cc_isolated (cm_effective (cpu_cache_mode s)) \<Longrightarrow>
    cache_coherent (peek b) (data_cache s) \<Longrightarrow> plain_data_ops xs (peek b) = Some (out, mem) \<Longrightarrow>
    \<exists>s' b'. run_data_ops ops xs s b = Some (Inr out, s', b') \<and> peek b' = mem \<and>
      cpu_ok s' \<and> bus_ok b' \<and> cache_coherent mem (data_cache s')"
proof (induction xs arbitrary: s b out)
  case Nil
  then show ?case by auto
next
  case (Cons x xs)
  show ?case
  proof (cases x)
    case (DataLoad a n)
    obtain w out1 where w: "word_transaction a n" "peek b (word_of_phys a) = Some w"
      "plain_data_ops xs (peek b) = Some (out1, mem)" "out = take n (drop (byte_offset a) w) # out1"
      using Cons.prems(5) DataLoad by (auto simp: bind_eq_Some_conv)
    from load_cached_memory [OF Cons.prems(1-4) w(1,2)] obtain c where
      c: "load_data ops (cached_at a) n s b = Some (Inr (take n (drop (byte_offset a) w)), with_data_cache c s, b)"
      "cache_ok c" "cache_coherent (peek b) c"
      by blast
    from Cons.IH [of "with_data_cache c s" b out1] show ?thesis
      using Cons.prems c w DataLoad by (auto simp: with_data_cache_ok)
  next
    case (DataStore a bs)
    obtain w where w: "word_transaction a (length bs)" "peek b (word_of_phys a) = Some w"
      "plain_data_ops xs ((peek b)(word_of_phys a \<mapsto> splice_bytes (byte_offset a) bs w)) = Some (out, mem)"
      using Cons.prems(5) DataStore by (auto simp: bind_eq_Some_conv)
    from store_cached_memory [OF Cons.prems(1-4) w(1,2)] obtain c b' where
      c: "store_memory ops (cached_at a) bs s b = Some (Inr (), with_data_cache c s, b')"
      "cache_ok c" "bus_ok b'" "cache_coherent (peek b') c"
      "peek b' = (peek b)(word_of_phys a \<mapsto> splice_bytes (byte_offset a) bs w)"
      by blast
    have "plain_data_ops xs (peek b') = Some (out, mem)" unfolding c(5) by (rule w(3))
    with Cons.IH [of "with_data_cache c s" b' out] show ?thesis
      using Cons.prems(1,3) c(1-4) DataStore by (simp add: with_data_cache_ok)
  qed
qed

end

text \<open>A fresh cache holds nothing.\<close>

lemma new_cache_coherent:
  assumes "config_valid cfg"
  shows "cache_coherent mem (data_cache (state_new cfg))"
proof -
  let ?c = "data_cache (state_new cfg)"
  have "cache_ok ?c" using assms by (intro data_cache_ok cpu_ok_new)
  moreover have "\<exists>n. ch_entries ?c = replicate n CACHE_ENTRY_INVALID"
  proof (cases "data_bank (state_new cfg)")
    case BankInstruction
    then show ?thesis
      by (intro exI) (simp add: data_cache_def bank_cache_def state_new_def caches_new_def cache_new_def)
  next
    case BankData
    then show ?thesis
      by (intro exI) (simp add: data_cache_def bank_cache_def state_new_def caches_new_def cache_new_def)
  qed
  then obtain n where "ch_entries ?c = replicate n CACHE_ENTRY_INVALID" ..
  ultimately have "\<not> cache_hit ?c wa" for wa
    using cache_index_lt [of ?c wa] by (simp add: cache_hit_def CACHE_ENTRY_INVALID_def)
  then show ?thesis by (simp add: cache_coherent_def)
qed

end
