(* ===== verification/Ip12_Bus_Correct.thy ===== *)
theory Ip12_Bus_Correct
  imports Ip12_Bus Events_Correct Pic1_Correct Step_Correct Data_Cache
begin

text \<open>
  The IP12 bus keeps the contract of the processor: the invariant \<open>ip12_ok\<close> of the
  board, no transaction that panics, and local memory as plain memory. The two bus interfaces are
  interpreted here on the model of the board.
\<close>

section \<open>PIC1\<close>

definition pic1_ok :: "pic1 \<Rightarrow> bool" where
  "pic1_ok p \<longleftrightarrow> length (p1_memory_descriptors p) = 4 \<and> length (p1_gio_slot_configurations p) = 2"

lemma pic1_ok_new: "ok (pic1_new rc revision fp) pic1_ok \<longleftrightarrow> revision \<le> 7"
  by (simp add: pic1_new_def pic1_ok_def)

lemma pic1_ok_signals [simp]:
  "pic1_ok (pic1_reset p)"
  "pic1_ok (pic1_report_address_error p) = pic1_ok p"
  "pic1_ok (pic1_advance_time d p) = pic1_ok p"
  "pic1_ok (pic1_set_graphics_dma_sync_input a p) = pic1_ok p"
  "pic1_ok (pic1_write_start p) = pic1_ok p"
  by (simp_all add: pic1_ok_def pic1_reset_def pic1_report_address_error_def pic1_advance_time_def
      pic1_set_graphics_dma_sync_input_def pic1_write_start_def)

lemma register_offset_bound:
  assumes "register_offset start stop reg = Some off" "stop = start + word_of_nat len"
    "unat start + len < 2 ^ 64" "unat reg < 2 ^ 32"
  shows "off + len \<le> 4"
proof -
  have le: "reg \<le> start" "stop \<le> reg + 4" and off: "off = unat (start - reg)"
    using assms(1) by (simp_all add: register_offset_def REGISTER_BYTES_def not_less split: if_splits)
  have "unat stop = unat start + len"
    unfolding assms(2) using assms(3) by (simp add: unat_word_ariths unat_of_nat)
  moreover have "unat (reg + 4) = unat reg + 4"
    using assms(4) by (simp add: unat_word_ariths)
  moreover have "off = unat start - unat reg" using le(1) off by (simp add: unat_sub)
  ultimately show ?thesis using le by (simp add: word_le_nat_alt)
qed

lemma transaction_bounds_Inr:
  "transaction_bounds address len = Inr (s, e) \<Longrightarrow>
     1 \<le> len \<and> len \<le> 4 \<and> s = address \<and> e = s + word_of_nat len \<and> unat s + len < 2 ^ 64"
  by (auto simp: transaction_bounds_def split: if_splits)

lemma memory_configuration_register_bound:
  assumes "memory_configuration_register s e = Inr (Some (index, off))"
  shows "index = 0 \<or> index = 2"
  using assms by (auto simp: memory_configuration_register_def Let_def split: if_splits)

lemma read_register_ok: "off + len \<le> 4 \<Longrightarrow> ok (read_register v off len) (\<lambda>bs. length bs = len)"
  by (simp add: read_register_def)

lemma write_register_ok: "off + length data \<le> 4 \<Longrightarrow> ok (write_register v off data) (\<lambda>_. True)"
  by (simp add: write_register_def)

lemma at_register_ok:
  assumes "\<And>off. off + len \<le> 4 \<Longrightarrow> ok (hit off) P" "ok miss P"
    "stop = start + word_of_nat len" "unat start + len < 2 ^ 64" "unat reg < 2 ^ 32"
  shows "ok (at_register start stop reg hit miss) P"
  using assms register_offset_bound [OF _ assms(3,4,5)]
  by (auto simp: at_register_def split: option.split)

definition read_result_ok :: "nat \<Rightarrow> bus_error + u8 list \<Rightarrow> bool" where
  "read_result_ok len r = (\<forall>bs. r = Inr bs \<longrightarrow> length bs = len)"

lemma read_result_ok_simps [simp]:
  "read_result_ok len (Inl e)" "read_result_ok len (Inr bs) = (length bs = len)"
  by (simp_all add: read_result_ok_def)

lemma pic1_read_register_ok:
  assumes "pic1_ok p" "e = s + word_of_nat len" "unat s + len < 2 ^ 64"
  shows "ok (pic1_read_register p s e len) (read_result_ok len)"
  unfolding pic1_read_register_def Let_def
  by (intro at_register_ok [OF _ _ assms(2,3)])
    (use assms(1) in \<open>simp_all add: pic1_register_defs pic1_ok_def read_register_ok\<close>)

lemma pic1_read_ok:
  assumes "pic1_ok p"
  shows "ok (pic1_read p address len) (read_result_ok len)"
proof (cases "transaction_bounds address len")
  case (Inl e)
  then show ?thesis by (simp add: pic1_read_def)
next
  case (Inr b)
  obtain s e where b: "b = (s, e)" by (cases b)
  have t: "e = s + word_of_nat len" "unat s + len < 2 ^ 64"
    using transaction_bounds_Inr [OF Inr [unfolded b]] by auto
  show ?thesis
    using assms memory_configuration_register_bound [of s e] pic1_read_register_ok [OF assms t]
    by (auto simp: pic1_read_def Inr b pic1_ok_def read_register_ok split: sum.split option.split)
qed

lemma pic1_write_cpu_control_ok:
  "pic1_ok p \<Longrightarrow> off + length data \<le> 4 \<Longrightarrow> ok (pic1_write_cpu_control data p off) (\<lambda>(r, p'). pic1_ok p')"
  unfolding pic1_write_cpu_control_def ok_bind Let_def
  by (rule ok_mono [OF write_register_ok]) (simp_all add: pic1_ok_def)

lemma pic1_write_slot_ok:
  "pic1_ok p \<Longrightarrow> off + length data \<le> 4 \<Longrightarrow> slot < 2 \<Longrightarrow>
    ok (pic1_write_slot_configuration slot data p off) (\<lambda>(r, p'). pic1_ok p')"
  by (auto simp: pic1_write_slot_configuration_def pic1_ok_def intro!: ok_mono [OF write_register_ok])

lemma pic1_write_register_ok:
  assumes "pic1_ok p" "e = s + word_of_nat (length data)" "unat s + length data < 2 ^ 64"
  shows "ok (pic1_write_register p s e data) (\<lambda>(r, p'). pic1_ok p')"
proof -
  have store: "ok (map_option (\<lambda>v. (Inr (), upd v)) (write_register old off data)) (\<lambda>(r, p'). pic1_ok p')"
    if "off + length data \<le> 4" "\<And>v. pic1_ok (upd v)" for old upd off
    using that by (auto intro!: ok_mono [OF write_register_ok])
  have fields: "pic1_ok (p\<lparr>p1_gio_burst := b\<rparr>)" "pic1_ok (p\<lparr>p1_gio_delay := b\<rparr>)"
    "pic1_ok (p\<lparr>p1_three_way_mask := w\<rparr>)" "pic1_ok (p\<lparr>p1_three_way_substitution := w\<rparr>)"
    "pic1_ok (p\<lparr>p1_descriptor_array_base := w\<rparr>)"
    "pic1_ok (p\<lparr>p1_parity_error := b, p1_address_error_pending := False\<rparr>)" for b w
    using assms(1) by (simp_all add: pic1_ok_def)
  show ?thesis
    unfolding pic1_write_register_def Let_def
    by (intro at_register_ok [OF _ _ assms(2,3)] store pic1_write_cpu_control_ok pic1_write_slot_ok assms(1) fields)
      (use assms(1) fields in \<open>simp_all add: pic1_register_defs\<close>)
qed

lemma pic1_write_ok:
  assumes "pic1_ok p"
  shows "ok (pic1_write p address data) (\<lambda>(r, p'). pic1_ok p')"
proof (cases "transaction_bounds address (length data)")
  case (Inl e)
  then show ?thesis using assms by (simp add: pic1_write_def)
next
  case (Inr b)
  obtain s e where b: "b = (s, e)" by (cases b)
  have t: "e = s + word_of_nat (length data)" "unat s + length data < 2 ^ 64"
    using transaction_bounds_Inr [OF Inr [unfolded b]] by auto
  show ?thesis
    using assms memory_configuration_register_bound [of s e] pic1_write_register_ok [OF assms t]
    by (auto simp: pic1_write_def Inr b pic1_ok_def Let_def split: sum.split option.split)
qed

section \<open>Memory decoding\<close>

lemma memory_size_values:
  "memory_size d = Some bytes \<Longrightarrow> unat bytes \<in> {4194304, 8388608, 16777216, 33554432, 67108864}"
  by (auto simp: memory_size_def Let_def split: if_splits)

lemma memory_base_lt: "unat (memory_base d) \<le> 264241152" "4194304 dvd unat (memory_base d)"
proof -
  have le: "unat (d AND 0x3f) \<le> 63" using word_and_le_nat [of d "0x3f"] by simp
  have "unat (memory_base d) = unat (d AND 0x3f) * 4194304"
    unfolding memory_base_def unsigned_push_bit_eq unsigned_ucast_eq
    using le by (simp add: push_bit_eq_mult take_bit_nat_eq_self)
  then show "unat (memory_base d) \<le> 264241152" "4194304 dvd unat (memory_base d)" using le by simp_all
qed

lemma memory_window:
  assumes "memory_size d = Some bytes"
  shows "unat (memory_base d + bytes) = unat (memory_base d) + unat bytes"
    "4194304 dvd unat (memory_base d) + unat bytes"
  using memory_size_values [OF assms] memory_base_lt [of d]
  by (auto simp: unat_word_ariths dvd_add_right_iff)

text \<open>A first match at or after \<open>index\<close> names a descriptor and the offset in its window.\<close>

lemma decode_descriptors_Some:
  "decode_descriptors index ds start stop = Some (i, off) \<Longrightarrow>
     index \<le> i \<and> i < index + length ds \<and> memory_base (ds ! (i - index)) \<le> start \<and>
     off = start - memory_base (ds ! (i - index))"
proof (induction ds arbitrary: index)
  case Nil
  then show ?case by simp
next
  case (Cons d rest)
  show ?case
  proof (cases "decode_descriptors (index + 1) rest start stop = Some (i, off)")
    case True
    from Cons.IH [OF this] show ?thesis by (auto simp: nth_Cons')
  next
    case False
    then show ?thesis
      using Cons.prems by (auto simp: Let_def split: option.splits if_splits)
  qed
qed

text \<open>A window holds a transaction inside a 128-byte block exactly when it holds the block.\<close>

lemma window_block:
  fixes B :: nat
  assumes "128 dvd B" "128 dvd T" "128 dvd z" "z \<le> s" "s < e" "e \<le> z + 128"
  shows "(B \<le> s \<and> e \<le> T) \<longleftrightarrow> (B \<le> z \<and> z + 128 \<le> T)"
proof -
  obtain k l m where "B = 128 * k" "T = 128 * l" "z = 128 * m" using assms(1-3) by (auto elim!: dvdE)
  moreover from this have "128 * k \<le> s \<longleftrightarrow> k \<le> m" "e \<le> 128 * l \<longleftrightarrow> m + 1 \<le> l"
      "128 * m + 128 \<le> 128 * l \<longleftrightarrow> m + 1 \<le> l"
    using assms(4-6) by linarith+
  ultimately show ?thesis by simp
qed

lemma decode_descriptors_block:
  assumes "128 dvd unat blk" "unat blk + 128 < 2 ^ 64" "blk \<le> start" "start < stop" "stop \<le> blk + 128"
  shows "decode_descriptors index ds start stop =
    map_option (\<lambda>(i, off). (i, off + (start - blk))) (decode_descriptors index ds blk (blk + 128))"
proof (induction ds arbitrary: index)
  case Nil
  then show ?case by simp
next
  case (Cons d rest)
  have blk: "unat (blk + 128) = unat blk + 128" using assms(2) by (simp add: unat_word_ariths)
  show ?case
  proof (cases "memory_size d")
    case None
    then show ?thesis using Cons by simp
  next
    case (Some bytes)
    note w = memory_window [OF Some] memory_base_lt(2) [of d]
    have "128 dvd unat (memory_base d)" "128 dvd unat (memory_base d) + unat bytes"
      using w(2,3) by (auto elim: dvd_trans [rotated])
    then have "(memory_base d \<le> start \<and> stop \<le> memory_base d + bytes) \<longleftrightarrow>
        (memory_base d \<le> blk \<and> blk + 128 \<le> memory_base d + bytes)"
      using window_block [of "unat (memory_base d)" "unat (memory_base d) + unat bytes" "unat blk"
          "unat start" "unat stop"] assms
      by (simp add: word_le_nat_alt word_less_nat_alt w(1) blk)
    then show ?thesis using Some Cons by (simp add: Let_def)
  qed
qed

section \<open>The board invariant\<close>

definition ip12_ok :: "'d ip12_bus \<Rightarrow> bool" where
  "ip12_ok b \<longleftrightarrow> pic1_ok (ib_pic1 b) \<and> length (lm_modules (ib_memory b)) = 4 \<and>
     length (md_attenuation (ib_mdac b)) = 2 \<and> length (dsp_words (ib_dsp56001 b)) = DSP_WORD_COUNT \<and>
     events_ok (ib_events b)"

text \<open>
  What the board asks of a device that is not modelled: an access of one through four bytes
  returns, fills exactly the caller's buffer and keeps the board well formed.
\<close>

definition devices_ok :: "'d ip12_devices \<Rightarrow> bool" where
  "devices_ok devs \<longleftrightarrow>
     (\<forall>tgt len b. ip12_ok b \<longrightarrow> 1 \<le> len \<longrightarrow> len \<le> 4 \<longrightarrow>
        ok (dv_read devs tgt len b) (\<lambda>(r, b'). ip12_ok b' \<and> read_result_ok len r)) \<and>
     (\<forall>tgt data b. ip12_ok b \<longrightarrow> 1 \<le> length data \<longrightarrow> length data \<le> 4 \<longrightarrow>
        ok (dv_write devs tgt data b) (\<lambda>(r, b'). ip12_ok b'))"

lemma ip12_ok_updates [simp]:
  "ip12_ok b \<Longrightarrow> pic1_ok p \<Longrightarrow> ip12_ok (b\<lparr>ib_pic1 := p\<rparr>)"
  "ip12_ok b \<Longrightarrow> length (lm_modules m) = 4 \<Longrightarrow> ip12_ok (b\<lparr>ib_memory := m\<rparr>)"
  "ip12_ok b \<Longrightarrow> ip12_ok (b\<lparr>ib_centronics := c\<rparr>)"
  "ip12_ok b \<Longrightarrow> length (md_attenuation a) = 2 \<Longrightarrow> ip12_ok (b\<lparr>ib_mdac := a\<rparr>)"
  "ip12_ok b \<Longrightarrow> length (dsp_words d) = DSP_WORD_COUNT \<Longrightarrow> ip12_ok (b\<lparr>ib_dsp56001 := d\<rparr>)"
  "ip12_ok b \<Longrightarrow> events_ok e \<Longrightarrow> ip12_ok (b\<lparr>ib_events := e\<rparr>)"
  by (simp_all add: ip12_ok_def)

lemma ip12_ok_facts:
  assumes "ip12_ok b"
  shows "pic1_ok (ib_pic1 b)" "length (lm_modules (ib_memory b)) = 4"
    "length (md_attenuation (ib_mdac b)) = 2" "length (dsp_words (ib_dsp56001 b)) = DSP_WORD_COUNT"
    "events_ok (ib_events b)"
  using assms by (simp_all add: ip12_ok_def)

section \<open>Transactions do not panic\<close>

lemma synchronize_pic1_ok: "ip12_ok b \<Longrightarrow> ok (synchronize_pic1_time b) ip12_ok"
  unfolding synchronize_pic1_time_def ok_bind
  by (rule ok_mono [OF synchronize_ok [OF ip12_ok_facts(5)]]) (auto simp: ip12_ok_facts)

lemma reschedule_pic1_ok: "ip12_ok b \<Longrightarrow> ok (reschedule_pic1 b) ip12_ok"
  unfolding reschedule_pic1_def ok_map
  by (rule ok_mono [OF schedule_ok [OF ip12_ok_facts(5)]]) auto

lemma decode_memory_index:
  "pic1_ok p \<Longrightarrow> pic1_decode_memory p address len = Inr (Some (i, off)) \<Longrightarrow> i < 4"
  by (auto simp: pic1_decode_memory_def pic1_ok_def dest: decode_descriptors_Some split: if_splits)

lemma ram_read_length: "ram_read r address len = Inr bs \<Longrightarrow> length bs = len"
  by (auto simp: ram_read_def ram_transaction_range_def split: if_splits)

lemma rom_read_length: "rom_read r address len = Inr bs \<Longrightarrow> length bs = len"
  by (auto simp: rom_read_def rom_transaction_range_def split: if_splits)

lemma local_memory_read_ok:
  assumes "pic1_ok p" "length (lm_modules m) = 4"
  shows "ok (local_memory_read m p address len) (read_result_ok len)"
proof -
  have module: "read_result_ok len (case module of None \<Rightarrow> Inr (replicate len 0)
      | Some ram \<Rightarrow> (case ram_read ram off len of Inr bytes \<Rightarrow> Inr bytes
        | Inl HardwareFault \<Rightarrow> Inr (replicate len 0) | Inl fault \<Rightarrow> Inl fault))" for module off
    by (auto dest: ram_read_length split: option.split sum.split bus_error.split)
  show ?thesis
    using assms decode_memory_index [OF assms(1)] module
    by (auto simp: local_memory_read_def split: sum.split option.split)
qed

lemma local_memory_write_ok:
  assumes "pic1_ok p" "length (lm_modules m) = 4"
  shows "ok (local_memory_write m p address data) (\<lambda>(r, m'). length (lm_modules m') = 4)"
  using assms decode_memory_index [OF assms(1)]
  by (auto simp: local_memory_write_def Let_def split: sum.split option.split prod.split)

lemma centronics_transaction_Inr:
  "centronics_transaction address len = Inr off \<Longrightarrow> off < 4 \<and> off + len \<le> 4"
proof -
  assume a: "centronics_transaction address len = Inr off"
  then have off: "off = unat address" "address < 4" "address + word_of_nat len \<le> 4" "len \<in> {1, 2, 4}"
    by (auto simp: centronics_transaction_def split: if_splits)
  then have "unat address < 4" by (simp add: word_less_nat_alt)
  moreover from this have "unat (address + word_of_nat len) = unat address + len"
    using off(4) by (auto simp: unat_word_ariths)
  ultimately show ?thesis using off by (simp add: word_le_nat_alt)
qed

lemma status_lane_bound:
  "centronics_transaction address len = Inr off \<Longrightarrow> contains_status_lane off len \<Longrightarrow>
    CENTRONICS_STATUS_LANE - off < len"
  by (simp add: contains_status_lane_def) linarith

lemma centronics_read_ok: "ok (centronics_read c address len) (read_result_ok len)"
  using status_lane_bound [of address len]
  by (auto simp: centronics_read_def split: sum.split)

lemma centronics_write_ok: "ok (centronics_write c address data) (\<lambda>_. True)"
  using status_lane_bound [of address "length data"]
  by (auto simp: centronics_write_def split: sum.split)

lemma dsp_word_index_Inr:
  assumes "dsp_word_index address len = Inr i"
  shows "i < DSP_WORD_COUNT" "len = 4"
proof -
  have "address < DSP_BYTE_LEN" "i = unat (address div 4)" "len = 4"
    using assms by (auto simp: dsp_word_index_def split: if_splits)
  then show "i < DSP_WORD_COUNT" "len = 4"
    by (simp_all add: DSP_BYTE_LEN_def DSP_WORD_COUNT_def word_less_nat_alt unat_div)
qed

lemma dsp_read_ok: "length (dsp_words d) = DSP_WORD_COUNT \<Longrightarrow> ok (dsp_read d address len) (read_result_ok len)"
  by (auto simp: dsp_read_def dest: dsp_word_index_Inr split: sum.split)

lemma dsp_write_ok:
  "length (dsp_words d) = DSP_WORD_COUNT \<Longrightarrow>
    ok (dsp_write d address data) (\<lambda>(r, d'). length (dsp_words d') = DSP_WORD_COUNT)"
  by (auto simp: dsp_write_def dest: dsp_word_index_Inr split: sum.split)

lemma decode_latch_Inr: "decode_latch address len = Inr i \<Longrightarrow> i < 2 \<and> len = 1"
  by (auto simp: decode_latch_def split: if_splits)

lemma mdac_write_ok:
  "length (md_attenuation m) = 2 \<Longrightarrow> ok (mdac_write m address data) (\<lambda>(r, m'). length (md_attenuation m') = 2)"
  by (auto simp: mdac_write_def dest: decode_latch_Inr split: sum.split)

lemma mdac_read_Inl: "\<exists>e. mdac_read m address len = Inl e"
  by (simp add: mdac_read_def split: sum.split)

lemma dv_read_ok:
  "devices_ok devs \<Longrightarrow> ip12_ok b \<Longrightarrow> 1 \<le> len \<Longrightarrow> len \<le> 4 \<Longrightarrow>
    ok (dv_read devs tgt len b) (\<lambda>(r, b'). ip12_ok b' \<and> read_result_ok len r)"
  by (simp add: devices_ok_def)

lemma dv_write_ok:
  "devices_ok devs \<Longrightarrow> ip12_ok b \<Longrightarrow> 1 \<le> length data \<Longrightarrow> length data \<le> 4 \<Longrightarrow>
    ok (dv_write devs tgt data b) (\<lambda>(r, b'). ip12_ok b')"
  by (simp add: devices_ok_def)

lemma board_revision_length: "read_board_revision len = Inr bs \<Longrightarrow> length bs = len"
  by (auto simp: read_board_revision_def split: if_splits)

lemma route_length: "route address len = Inr tgt \<Longrightarrow> 1 \<le> len \<and> len \<le> 4"
  by (auto simp: route_def split: if_splits)

lemma ip12_target_read_ok:
  assumes "devices_ok devs" "ip12_ok b" "1 \<le> len" "len \<le> 4"
  shows "ok (ip12_target_read devs tgt len b) (\<lambda>(r, b'). ip12_ok b' \<and> read_result_ok len r)"
proof (cases tgt)
  case (TargetPic1 address)
  show ?thesis
    unfolding ip12_target_read_def TargetPic1 bus_target.case ok_bind
    by (rule ok_mono [OF synchronize_pic1_ok [OF assms(2)]], rule ok_mono [OF pic1_read_ok [OF ip12_ok_facts(1)]],
        assumption, rule ok_mono [OF reschedule_pic1_ok]) simp_all
next
  case (TargetMdac address)
  then show ?thesis
    using assms mdac_read_Inl [of "ib_mdac b" address len] by (auto simp: ip12_target_read_def)
qed (use assms in \<open>auto simp: ip12_target_read_def ip12_ok_facts read_result_ok_def
    dest: rom_read_length board_revision_length intro!: dv_read_ok [unfolded read_result_ok_def]
    ok_mono [OF centronics_read_ok] ok_mono [OF dsp_read_ok]\<close>)

lemma ip12_target_write_ok:
  assumes "devices_ok devs" "ip12_ok b" "1 \<le> length data" "length data \<le> 4"
  shows "ok (ip12_target_write devs tgt data b) (\<lambda>(r, b'). ip12_ok b')"
proof (cases tgt)
  case (TargetPic1 address)
  show ?thesis
    unfolding ip12_target_write_def TargetPic1 bus_target.case ok_bind
    by (rule ok_mono [OF synchronize_pic1_ok [OF assms(2)]], rule ok_mono [OF pic1_write_ok [OF ip12_ok_facts(1)]],
        assumption) (auto intro!: ok_mono [OF reschedule_pic1_ok])
qed (use assms in \<open>auto simp: ip12_target_write_def ip12_ok_facts
    intro!: dv_write_ok ok_mono [OF centronics_write_ok] ok_mono [OF dsp_write_ok]
    ok_mono [OF mdac_write_ok]\<close>)

lemma ip12_read_ok:
  assumes "devices_ok devs" "ip12_ok b"
  shows "ok (ip12_read devs b address len) (\<lambda>(r, b'). ip12_ok b' \<and> read_result_ok len r)"
  using assms
  by (auto simp: ip12_read_def ip12_ok_facts intro!: ok_mono [OF local_memory_read_ok]
      ip12_target_read_ok dest: route_length split: sum.split)

lemma ip12_write_unposted_ok:
  assumes "devices_ok devs" "ip12_ok b"
  shows "ok (ip12_write_unposted devs b address data) (\<lambda>(r, b'). ip12_ok b')"
  using assms
  by (auto simp: ip12_write_unposted_def ip12_ok_facts intro!: ok_mono [OF local_memory_write_ok]
      ip12_target_write_ok dest: route_length split: sum.split)

lemma ip12_write_ok:
  assumes "devices_ok devs" "ip12_ok b"
  shows "ok (ip12_write devs b address data) (\<lambda>(r, b'). ip12_ok b')"
  unfolding ip12_write_def ok_bind
  by (rule ok_mono [OF ip12_write_unposted_ok [OF assms]]) (auto simp: ip12_ok_facts)

definition ip12_bus_ok :: "'d ip12_devices \<Rightarrow> 'd ip12_bus \<Rightarrow> bool" where
  "ip12_bus_ok devs b \<longleftrightarrow> devices_ok devs \<and> ip12_ok b"

interpretation ip12: physical_bus "ip12_ops devs" "ip12_bus_ok devs" for devs
  by unfold_locales
    (auto simp: ip12_ops_def ip12_bus_ok_def read_result_ok_def
      intro!: ok_mono [OF ip12_read_ok] ok_mono [OF ip12_write_ok])

end
