(* ===== verification/Ip12_Memory.thy ===== *)
theory Ip12_Memory
  imports Ip12_Bus_Correct
begin

text \<open>
  Local memory of the IP12 as plain memory: \<open>ip12_peek\<close> reads a word whose whole
  128-byte block is backed by an installed module. PIC1 decodes such a word to one place of one
  module, different words to different places, so a processor write changes that word only.
\<close>

section \<open>Blocks of addresses\<close>

lemma unat_and_not_mask: "unat (w AND NOT (mask n)) = unat w div 2 ^ n * 2 ^ n" for w :: "'a::len word"
proof -
  have "unat (w AND NOT (mask n)) = push_bit n (drop_bit n (unat w))"
    by (rule bit_eqI) (auto simp: bit_simps dest: bit_imp_le_length)
  then show ?thesis by (simp add: push_bit_eq_mult drop_bit_eq_div)
qed

lemma unat_up: "unat (ucast w :: u64) = unat w" for w :: u32
  by (simp add: unsigned_ucast_eq take_bit_nat_eq_self less_trans [OF unsigned_less])

lemma block_base: "unat (wa AND NOT (mask 7)) = unat wa div 128 * 128" for wa :: u32
  using unat_and_not_mask [of wa 7] by simp

lemma block_offset: "unat (wa AND mask 7) = unat wa mod 128" for wa :: u32
  using unat_drop_mask [of 0 wa 7] by simp

lemma aligned_mod_4: "word_aligned wa \<Longrightarrow> unat wa mod 4 = 0"
proof -
  assume "word_aligned wa"
  then have "wa AND mask 2 = 0"
    by (intro bit_word_eqI) (auto simp: bit_simps word_aligned_def less_2_cases_iff intro: gr0I)
  then show ?thesis using unat_drop_mask [of 0 wa 2] by simp
qed

lemma aligned_low: "word_aligned wa \<Longrightarrow> unat wa mod 128 \<le> 124"
proof -
  assume "word_aligned wa"
  then have "unat wa mod 128 mod 4 = 0" using aligned_mod_4 by (simp add: mod_mod_cancel)
  then obtain q where q: "unat wa mod 128 = 4 * q" by (auto elim!: dvdE simp flip: dvd_eq_mod_eq_0)
  then have "q < 32" using mod_less_divisor [of 128 "unat wa"] by simp
  then show ?thesis using q by simp
qed

lemma block_below:
  assumes "n < (2 :: nat) ^ 28"
  shows "n div 128 * 128 + 128 \<le> 2 ^ 28"
proof -
  have "n div 128 < 2 ^ 21" using assms by (intro less_mult_imp_div_less) simp
  then show ?thesis by simp
qed

lemma phys_decompose:
  fixes a :: u64
  assumes "unat a < 2 ^ 32"
  shows "unat a = unat (word_of_phys a) + byte_offset a"
proof -
  have c: "unat (ucast a :: u32) = unat a" using assms by (simp add: unsigned_ucast_eq take_bit_nat_eq_self)
  have "unat (word_of_phys a) = unat a div 4 * 4"
    unfolding word_of_phys_def not_three unat_and_not_mask c by simp
  moreover have "byte_offset a = unat a mod 4"
    using unat_drop_mask [of 0 a 2] by (simp add: byte_offset_def mask_numeral)
  ultimately show ?thesis by simp
qed

section \<open>Where a word is stored\<close>

definition ip12_locate :: "'d ip12_bus \<Rightarrow> u32 \<Rightarrow> (nat \<times> nat) option" where
  "ip12_locate b wa =
     (if word_aligned wa \<and> unat wa < 2 ^ 28
      then (case pic1_decode_memory (ib_pic1 b) (ucast (wa AND NOT (mask 7))) 128 of
          Inr (Some (i, off)) \<Rightarrow>
            (case lm_modules (ib_memory b) ! i of
               Some ram \<Rightarrow>
                 if unat off + 128 \<le> length (ram_bytes ram)
                 then Some (i, unat off + unat (wa AND mask 7)) else None
             | None \<Rightarrow> None)
        | _ \<Rightarrow> None)
      else None)"

definition module_bytes :: "'d ip12_bus \<Rightarrow> nat \<Rightarrow> u8 list" where
  "module_bytes b i = (case lm_modules (ib_memory b) ! i of Some ram \<Rightarrow> ram_bytes ram | None \<Rightarrow> [])"

definition ip12_peek :: "'d ip12_bus \<Rightarrow> u32 \<Rightarrow> u8 list option" where
  "ip12_peek b wa =
     map_option (\<lambda>(i, o'). take 4 (drop o' (module_bytes b i))) (ip12_locate b wa)"

lemma locate_SomeE:
  assumes "ip12_locate b wa = Some (i, k)"
  obtains off ram where "word_aligned wa" "unat wa < 2 ^ 28"
    "pic1_decode_memory (ib_pic1 b) (ucast (wa AND NOT (mask 7))) 128 = Inr (Some (i, off))"
    "lm_modules (ib_memory b) ! i = Some ram" "unat off + 128 \<le> length (ram_bytes ram)"
    "k = unat off + unat wa mod 128"
  using assms by (auto simp: ip12_locate_def block_offset split: if_splits sum.splits option.splits)

lemma decode_block:
  fixes wa :: u32
  assumes "pic1_ok p" "pic1_decode_memory p (ucast (wa AND NOT (mask 7))) 128 = Inr (Some (i, off))"
  shows "i < 4" "unat wa div 128 * 128 = unat (memory_base (p1_memory_descriptors p ! i)) + unat off"
proof -
  let ?blk = "ucast (wa AND NOT (mask 7)) :: u64"
  have blk: "unat ?blk = unat wa div 128 * 128" by (simp add: unat_up block_base)
  have d: "decode_descriptors 0 (p1_memory_descriptors p) ?blk (?blk + 128) = Some (i, off)"
    using assms(2) by (simp add: pic1_decode_memory_def split: if_splits)
  note f = decode_descriptors_Some [OF d]
  show "i < 4" using f assms(1) by (simp add: pic1_ok_def)
  show "unat wa div 128 * 128 = unat (memory_base (p1_memory_descriptors p ! i)) + unat off"
    using f blk by (simp add: unat_sub word_le_nat_alt)
qed

text \<open>One descriptor sends different words to different places.\<close>

lemma locate_place:
  assumes "ip12_ok b" "ip12_locate b wa = Some (i, k)"
  shows "i < 4" "unat wa = unat (memory_base (p1_memory_descriptors (ib_pic1 b) ! i)) + k"
    "k + 4 \<le> length (module_bytes b i)" "\<exists>ram. lm_modules (ib_memory b) ! i = Some ram"
proof -
  from assms(2) obtain off ram where l: "word_aligned wa"
    "pic1_decode_memory (ib_pic1 b) (ucast (wa AND NOT (mask 7))) 128 = Inr (Some (i, off))"
    "lm_modules (ib_memory b) ! i = Some ram" "unat off + 128 \<le> length (ram_bytes ram)"
    "k = unat off + unat wa mod 128"
    by (rule locate_SomeE)
  note d = decode_block [OF ip12_ok_facts(1) [OF assms(1)] l(2)]
  show "i < 4" by (rule d(1))
  show "\<exists>ram. lm_modules (ib_memory b) ! i = Some ram" using l by simp
  show "unat wa = unat (memory_base (p1_memory_descriptors (ib_pic1 b) ! i)) + k"
    using d(2) l(5) div_mult_mod_eq [of "unat wa" 128] by simp
  show "k + 4 \<le> length (module_bytes b i)" using l aligned_low [OF l(1)] by (simp add: module_bytes_def)
qed

lemma locate_inject:
  assumes "ip12_ok b" "ip12_locate b wa = Some (i, k)" "ip12_locate b wa' = Some (i, k')"
  shows "k - k' = unat wa - unat wa'" "k' - k = unat wa' - unat wa" "k mod 4 = k' mod 4"
proof -
  let ?base = "unat (memory_base (p1_memory_descriptors (ib_pic1 b) ! i))"
  have w: "unat wa = ?base + k" "unat wa' = ?base + k'"
    using locate_place(2) [OF assms(1)] assms(2,3) by blast+
  then show "k - k' = unat wa - unat wa'" "k' - k = unat wa' - unat wa" by simp_all
  have "unat wa mod 4 = 0" "unat wa' mod 4 = 0"
    using assms(2,3) by (auto elim!: locate_SomeE intro: aligned_mod_4)
  moreover have "?base mod 4 = 0"
    using memory_base_lt(2) [of "p1_memory_descriptors (ib_pic1 b) ! i"]
    by (rule dvd_imp_mod_0 [OF dvd_trans, rotated]) simp
  ultimately show "k mod 4 = k' mod 4" using w by (simp add: mod_add_eq [symmetric])
qed

text \<open>A processor transaction on a backed word reaches its place.\<close>

lemma locate_transaction:
  assumes "ip12_ok b" "word_transaction a n" "ip12_locate b (word_of_phys a) = Some (i, k)"
  obtains off where "pic1_decode_memory (ib_pic1 b) a n = Inr (Some (i, off))"
    "unat off = k + byte_offset a" "local_memory_transaction_is_contained a n = Inr True"
    "a < LOCAL_MEMORY_END"
proof -
  let ?wa = "word_of_phys a"
  let ?blk = "ucast (?wa AND NOT (mask 7)) :: u64"
  have n: "1 \<le> n" "byte_offset a + n \<le> 4" "unat a < 2 ^ 32"
    using assms(2) by (simp_all add: word_transaction_def byte_offset_def)
  define m where "m = unat ?wa mod 128"
  from assms(3) obtain off ram where l: "word_aligned ?wa" "unat ?wa < 2 ^ 28"
    "pic1_decode_memory (ib_pic1 b) ?blk 128 = Inr (Some (i, off))" "k = unat off + m"
    unfolding m_def by (rule locate_SomeE)
  have a: "unat a = unat ?wa + byte_offset a" using n(3) by (rule phys_decompose)
  have blk: "unat ?blk = unat ?wa div 128 * 128" by (simp add: unat_up block_base)
  have low: "m \<le> 124" unfolding m_def by (rule aligned_low [OF l(1)])
  have top: "unat ?blk + 128 \<le> 268435456" using block_below [OF l(2)] blk by simp
  have word: "unat ?wa < 268435456" using l(2) by simp
  have split: "unat ?wa = unat ?blk + m" unfolding m_def using blk by simp
  have fits: "unat a + n < 18446744073709551616" using n by simp
  have stop: "unat (a + word_of_nat n) = unat a + n"
    using fits n by (simp add: unat_word_ariths unat_of_nat)
  have blk_stop: "unat (?blk + 128) = unat ?blk + 128" using top by (simp add: unat_word_ariths)
  have d: "decode_descriptors 0 (p1_memory_descriptors (ib_pic1 b)) ?blk (?blk + 128) = Some (i, off)"
    using l(3) by (simp add: pic1_decode_memory_def split: if_splits)
  have "decode_descriptors 0 (p1_memory_descriptors (ib_pic1 b)) a (a + word_of_nat n) =
      Some (i, off + (a - ?blk))"
  proof -
    have order: "?blk \<le> a" "a < a + word_of_nat n" "a + word_of_nat n \<le> ?blk + 128"
      unfolding word_le_nat_alt word_less_nat_alt stop blk_stop using n a split low by linarith+
    have "128 dvd unat ?blk" "unat ?blk + 128 < 2 ^ 64" using blk top by simp_all
    from decode_descriptors_block [OF this order, of 0] d show ?thesis by simp
  qed
  then have "pic1_decode_memory (ib_pic1 b) a n = Inr (Some (i, off + (a - ?blk)))"
    using n fits by (simp add: pic1_decode_memory_def)
  moreover have "unat (off + (a - ?blk)) = k + byte_offset a"
  proof -
    have "unat (a - ?blk) = m + byte_offset a"
      using split a by (simp add: unat_sub word_le_nat_alt)
    moreover have "unat off \<le> unat ?wa"
      using decode_block(2) [OF ip12_ok_facts(1) [OF assms(1)] l(3)] split blk by linarith
    then have "unat off + unat (a - ?blk) < 18446744073709551616" using word low n(2) calculation by linarith
    then have "unat (off + (a - ?blk)) = unat off + unat (a - ?blk)" by (simp add: unat_word_ariths)
    ultimately show ?thesis using l(4) by simp
  qed
  moreover have "local_memory_transaction_is_contained a n = Inr True"
  proof -
    have "unat (a + word_of_nat n) \<le> 268435456" unfolding stop using top a split low n by linarith
    then have "a + word_of_nat n \<le> LOCAL_MEMORY_END"
      unfolding LOCAL_MEMORY_END_def word_le_nat_alt by simp
    then show ?thesis
      unfolding local_memory_transaction_is_contained_def using n(1,2) fits by simp
  qed
  moreover have "a < LOCAL_MEMORY_END"
  proof -
    have "unat a < 268435456" using top a split low n by linarith
    then show ?thesis unfolding LOCAL_MEMORY_END_def word_less_nat_alt by simp
  qed
  ultimately show thesis by (rule that)
qed

section \<open>Transactions on backed words\<close>

lemma peek_SomeE:
  assumes "ip12_ok b" "ip12_peek b wa = Some w"
  obtains i k ram where "ip12_locate b wa = Some (i, k)" "w = take 4 (drop k (ram_bytes ram))"
    "lm_modules (ib_memory b) ! i = Some ram" "k + 4 \<le> length (ram_bytes ram)" "i < 4"
proof -
  from assms(2) obtain i k where ik: "ip12_locate b wa = Some (i, k)" "w = take 4 (drop k (module_bytes b i))"
    by (auto simp: ip12_peek_def)
  from locate_place(3,4) [OF assms(1) ik(1)] obtain ram where ram: "lm_modules (ib_memory b) ! i = Some ram"
    "k + 4 \<le> length (module_bytes b i)"
    by auto
  then have "module_bytes b i = ram_bytes ram" by (simp add: module_bytes_def)
  with that ik ram locate_place(1) [OF assms(1) ik(1)] show thesis by simp
qed

lemma peek_four: "ip12_ok b \<Longrightarrow> ip12_peek b wa = Some w \<Longrightarrow> length w = 4"
  by (erule (1) peek_SomeE) simp

lemma peek_same_block:
  assumes "ip12_peek b wa = Some w" "word_aligned wa'" "wa' AND NOT (mask 7) = wa AND NOT (mask 7)"
  shows "\<exists>w'. ip12_peek b wa' = Some w'"
proof -
  have "unat wa < 2 ^ 28" using assms(1) by (auto simp: ip12_peek_def elim: locate_SomeE)
  then have "unat wa div 128 * 128 + 128 \<le> 2 ^ 28" by (rule block_below)
  moreover have "unat wa' div 128 * 128 = unat wa div 128 * 128"
    using arg_cong [OF assms(3), of unat] by (simp only: block_base)
  moreover have "unat wa' = unat wa' div 128 * 128 + unat wa' mod 128" by simp
  moreover have "unat wa' mod 128 < 128" by simp
  ultimately have "unat wa' < 2 ^ 28" by linarith
  then show ?thesis
    using assms by (auto simp: ip12_peek_def ip12_locate_def split: if_splits sum.splits option.splits)
qed

lemma drop_take_part: "k + n \<le> 4 \<Longrightarrow> take n (drop k (take 4 xs)) = take n (drop k xs)"
  by (simp add: drop_take min_def)

lemma ip12_read_memory:
  assumes "ip12_ok b" "word_transaction a n" "ip12_peek b (word_of_phys a) = Some w"
  shows "ip12_read devs b a n = Some (Inr (take n (drop (byte_offset a) w)), b)"
proof -
  from assms(1,3) obtain i k ram where p: "ip12_locate b (word_of_phys a) = Some (i, k)"
    "w = take 4 (drop k (ram_bytes ram))" "lm_modules (ib_memory b) ! i = Some ram"
    "k + 4 \<le> length (ram_bytes ram)" "i < 4"
    by (rule peek_SomeE)
  have n: "1 \<le> n" "byte_offset a + n \<le> 4" "unat a < 2 ^ 32"
    using assms(2) by (simp_all add: word_transaction_def byte_offset_def)
  from locate_transaction [OF assms(1,2) p(1)] obtain off where
    d: "pic1_decode_memory (ib_pic1 b) a n = Inr (Some (i, off))" "unat off = k + byte_offset a"
    "local_memory_transaction_is_contained a n = Inr True" "a < LOCAL_MEMORY_END" .
  have fits: "unat off + n < 2 ^ 64"
  proof -
    have "unat off \<le> unat a" using d(1)
      by (auto simp: pic1_decode_memory_def unat_sub word_le_nat_alt split: if_splits
          dest!: decode_descriptors_Some)
    then show ?thesis using n by simp
  qed
  have bytes: "take n (drop (byte_offset a) w) = take n (drop (unat off) (ram_bytes ram))"
    unfolding p(2) d(2) using n by (simp add: drop_take_part add.commute)
  have "ram_read ram off n = Inr (take n (drop (byte_offset a) w))"
    unfolding bytes using fits n p(4) d(2) by (simp add: ram_read_def ram_transaction_range_def)
  then show ?thesis
    using d p(3,5) ip12_ok_facts(2) [OF assms(1)]
    by (simp add: ip12_read_def local_memory_read_def)
qed

text \<open>A write replaces its bytes in one module and leaves every other place alone.\<close>

lemma splice_length: "k + length bs \<le> length xs \<Longrightarrow> length (splice_bytes k bs xs) = length xs"
  by (simp add: splice_bytes_def)

lemma splice_same:
  assumes "k + 4 \<le> length xs" "o' + length bs \<le> 4"
  shows "take 4 (drop k (splice_bytes (k + o') bs xs)) = splice_bytes o' bs (take 4 (drop k xs))"
proof (rule nth_equalityI)
  show "length (take 4 (drop k (splice_bytes (k + o') bs xs))) = length (splice_bytes o' bs (take 4 (drop k xs)))"
    using assms by (simp add: splice_bytes_def)
next
  fix j
  assume "j < length (take 4 (drop k (splice_bytes (k + o') bs xs)))"
  then have "j < 4" using assms by simp
  then show "take 4 (drop k (splice_bytes (k + o') bs xs)) ! j = splice_bytes o' bs (take 4 (drop k xs)) ! j"
    using assms by (simp add: splice_bytes_def nth_append add.assoc)
qed

lemma splice_other:
  assumes "k + 4 \<le> length xs" "j + 4 \<le> length xs" "k + 4 \<le> j \<or> j + 4 \<le> k" "o' + length bs \<le> 4"
  shows "take 4 (drop j (splice_bytes (k + o') bs xs)) = take 4 (drop j xs)"
proof (rule nth_equalityI)
  show "length (take 4 (drop j (splice_bytes (k + o') bs xs))) = length (take 4 (drop j xs))"
    using assms by (simp add: splice_length)
next
  fix i
  assume "i < length (take 4 (drop j (splice_bytes (k + o') bs xs)))"
  then have "i < 4" using assms by simp
  then show "take 4 (drop j (splice_bytes (k + o') bs xs)) ! i = take 4 (drop j xs) ! i"
    using assms by (auto simp: splice_bytes_def nth_append add.assoc)
qed

lemma locate_after_write:
  assumes "lm_modules (ib_memory b) ! i = Some ram" "i < length (lm_modules (ib_memory b))"
    "length (ram_bytes ram') = length (ram_bytes ram)"
  shows "ip12_locate (b\<lparr>ib_memory := (ib_memory b)\<lparr>lm_modules := (lm_modules (ib_memory b))[i := Some ram']\<rparr>\<rparr>)
    = ip12_locate b"
  using assms
  by (auto simp: ip12_locate_def fun_eq_iff nth_list_update split: sum.splits option.splits if_splits)

lemma mod_apart: "k' \<noteq> k \<Longrightarrow> k' mod 4 = k mod 4 \<Longrightarrow> k + 4 \<le> k' \<or> k' + 4 \<le> k" for k k' :: nat
proof -
  assume a: "k' \<noteq> k" "k' mod 4 = k mod 4"
  have e: "k = 4 * (k div 4) + k mod 4" "k' = 4 * (k' div 4) + k mod 4"
    using mult_div_mod_eq [of 4 k] mult_div_mod_eq [of 4 k'] a(2) by simp_all
  then have "k div 4 \<noteq> k' div 4" using a(1) by metis
  then have "k div 4 + 1 \<le> k' div 4 \<or> k' div 4 + 1 \<le> k div 4" by linarith
  then show ?thesis using e by linarith
qed

lemma ip12_write_memory:
  assumes "ip12_ok b" "word_transaction a (length bs)" "ip12_peek b (word_of_phys a) = Some w"
  shows "\<exists>b'. ip12_write devs b a bs = Some (Inr (), b') \<and> ip12_ok b' \<and>
    ip12_peek b' = (ip12_peek b)(word_of_phys a \<mapsto> splice_bytes (byte_offset a) bs w)"
proof -
  from assms(1,3) obtain i k ram where p: "ip12_locate b (word_of_phys a) = Some (i, k)"
    "w = take 4 (drop k (ram_bytes ram))" "lm_modules (ib_memory b) ! i = Some ram"
    "k + 4 \<le> length (ram_bytes ram)" "i < 4"
    by (rule peek_SomeE)
  have n: "1 \<le> length bs" "byte_offset a + length bs \<le> 4" "unat a < 2 ^ 32"
    using assms(2) by (simp_all add: word_transaction_def byte_offset_def)
  from locate_transaction [OF assms(1,2) p(1)] obtain off where
    d: "pic1_decode_memory (ib_pic1 b) a (length bs) = Inr (Some (i, off))" "unat off = k + byte_offset a"
    "local_memory_transaction_is_contained a (length bs) = Inr True" "a < LOCAL_MEMORY_END" .
  note len = ip12_ok_facts(2) [OF assms(1)]
  let ?ram = "\<lparr>ram_bytes = splice_bytes (k + byte_offset a) bs (ram_bytes ram)\<rparr>"
  let ?m = "(ib_memory b)\<lparr>lm_modules := (lm_modules (ib_memory b))[i := Some ?ram]\<rparr>"
  define b' where "b' = b\<lparr>ib_memory := ?m\<rparr>"
  have fits: "unat off + length bs < 2 ^ 64"
  proof -
    have "unat off \<le> unat a" using d(1)
      by (auto simp: pic1_decode_memory_def unat_sub word_le_nat_alt split: if_splits
          dest!: decode_descriptors_Some)
    then show ?thesis using n by simp
  qed
  have "ram_write ram off bs = (Inr (), ?ram)"
    using fits n p(4) d(2) by (auto simp: ram_write_def ram_transaction_range_def)
  then have run: "ip12_write devs b a bs = Some (Inr (), b')"
    using d p(3,5) len by (simp add: b'_def ip12_write_def ip12_write_unposted_def local_memory_write_def)
  have bytes: "length (ram_bytes ?ram) = length (ram_bytes ram)"
    using n p(4) by (simp add: splice_length)
  have loc: "ip12_locate b' = ip12_locate b"
    unfolding b'_def using p(3,5) len bytes by (intro locate_after_write) simp_all
  have "ip12_peek b' wa = ((ip12_peek b)(word_of_phys a \<mapsto> splice_bytes (byte_offset a) bs w)) wa" for wa
  proof (cases "ip12_locate b wa")
    case None
    then show ?thesis using p(1) by (auto simp: ip12_peek_def loc)
  next
    case (Some place)
    obtain i' k' where ik: "ip12_locate b wa = Some (i', k')" using Some by (cases place) simp
    have mb: "module_bytes b' i' = (if i' = i then ram_bytes ?ram else module_bytes b i')"
      "module_bytes b i = ram_bytes ram"
      using p(3,5) len by (simp_all add: b'_def module_bytes_def)
    show ?thesis
    proof (cases "i' = i")
      case False
      then show ?thesis using ik mb p(1) by (auto simp: ip12_peek_def loc)
    next
      case True
      note inj = locate_inject [OF assms(1) ik [unfolded True] p(1)]
      show ?thesis
      proof (cases "wa = word_of_phys a")
        case True
        then show ?thesis
          using ik p(1,2,4) mb \<open>i' = i\<close> n(2) by (simp add: ip12_peek_def loc splice_same)
      next
        case False
        then have "k' \<noteq> k" using inj(1,2) by (auto simp: word_unat_eq_iff)
        then have apart: "k + 4 \<le> k' \<or> k' + 4 \<le> k" using inj(3) by (intro mod_apart) simp_all
        have "k' + 4 \<le> length (ram_bytes ram)"
          using locate_place(3) [OF assms(1) ik [unfolded True]] mb by simp
        then show ?thesis
          using False ik mb \<open>i' = i\<close> p(4) n(2) apart by (simp add: ip12_peek_def loc splice_other)
      qed
    qed
  qed
  then have "ip12_peek b' = (ip12_peek b)(word_of_phys a \<mapsto> splice_bytes (byte_offset a) bs w)" by (rule ext)
  moreover have "ip12_ok b'" using assms(1) len by (simp add: b'_def)
  ultimately show ?thesis using run by blast
qed

interpretation ip12_memory: memory_bus "ip12_ops devs" "ip12_bus_ok devs" ip12_peek for devs
proof
  fix b :: "'a ip12_bus" and wa w
  assume "ip12_bus_ok devs b" "ip12_peek b wa = Some w"
  then show "length w = 4" by (auto simp: ip12_bus_ok_def dest: peek_four)
next
  fix b :: "'a ip12_bus" and wa w wa'
  assume "ip12_peek b wa = Some w" "word_aligned wa'" "wa' AND NOT (mask 7) = wa AND NOT (mask 7)"
  then show "\<exists>w'. ip12_peek b wa' = Some w'" by (rule peek_same_block)
next
  fix b :: "'a ip12_bus" and a n w
  assume "ip12_bus_ok devs b" "word_transaction a n" "ip12_peek b (word_of_phys a) = Some w"
  then show "bus_read (ip12_ops devs) b a n = Some (Inr (take n (drop (byte_offset a) w)), b)"
    by (simp add: ip12_bus_ok_def ip12_ops_def ip12_read_memory)
next
  fix b :: "'a ip12_bus" and a w and bs :: "u8 list"
  assume "ip12_bus_ok devs b" "word_transaction a (length bs)" "ip12_peek b (word_of_phys a) = Some w"
  then show "\<exists>b'. bus_write (ip12_ops devs) b a bs = Some (Inr (), b') \<and> ip12_bus_ok devs b' \<and>
      ip12_peek b' = (ip12_peek b)(word_of_phys a \<mapsto> splice_bytes (byte_offset a) bs w)"
    using ip12_write_memory [of b a bs w devs] by (simp add: ip12_bus_ok_def ip12_ops_def)
qed

end
