(* ===== verification/Machine.thy ===== *)
theory Machine
  imports Step_Correct Ip12_Memory
begin

text \<open>
  The processor on the IP12 board: the states the pair can reach, the step that never panics, the
  invariant of the reachable processors, the decode cache that cannot be observed, and the data
  cache that cannot be observed on local memory.
\<close>

section \<open>Reachable machines\<close>

text \<open>
  A processor is constructed, stepped, reset, driven by its inputs, and restored from the snapshot
  of a processor of the same machine; between two operations the devices take the board to any
  well-formed state.
\<close>

inductive machine_reachable ::
  "float_env \<Rightarrow> 'd ip12_devices \<Rightarrow> r3000_config \<Rightarrow> r3000 \<Rightarrow> 'd ip12_bus \<Rightarrow> bool"
  for env devs cfg
where
  machine_new: "ip12_ok b \<Longrightarrow> machine_reachable env devs cfg (r3000_new cfg) b"
| machine_step: "machine_reachable env devs cfg p b \<Longrightarrow>
    r3000_step env (ip12_ops devs) p b = Some (r, p', b') \<Longrightarrow> machine_reachable env devs cfg p' b'"
| machine_reset: "machine_reachable env devs cfg p b \<Longrightarrow> r3000_reset p = Some p' \<Longrightarrow>
    machine_reachable env devs cfg p' b"
| machine_lines: "machine_reachable env devs cfg p b \<Longrightarrow>
    r3000_set_hardware_interrupt_lines lines p = Some p' \<Longrightarrow> machine_reachable env devs cfg p' b"
| machine_condition: "machine_reachable env devs cfg p b \<Longrightarrow>
    machine_reachable env devs cfg (r3000_set_cp0_condition c p) b"
| machine_restore: "machine_reachable env devs cfg p b \<Longrightarrow> machine_reachable env devs cfg q b1 \<Longrightarrow>
    machine_reachable env devs cfg (r3000_restore_snapshot (r3000_take_snapshot q) p) b"
| machine_board: "machine_reachable env devs cfg p b \<Longrightarrow> ip12_ok b' \<Longrightarrow>
    machine_reachable env devs cfg p b'"

lemma step_ip12_ok:
  assumes "r3000_ok p" "devices_ok devs" "ip12_ok b"
  shows "ok (r3000_step env (ip12_ops devs) p b) (\<lambda>(r, p', b'). r3000_ok p' \<and> ip12_ok b')"
  using ip12.step_never_panics [of p devs b env] assms
  by (auto simp: ip12_bus_ok_def elim!: ok_mono)

lemma set_lines_Some:
  "r3000_set_hardware_interrupt_lines lines p = Some p' \<Longrightarrow> lines AND NOT MACHINE_INTERRUPT_MASK = 0"
  by (auto simp: r3000_set_hardware_interrupt_lines_def set_hardware_interrupt_lines_def bind_require
      split: if_splits)

lemma machine_reachable_ok:
  assumes "machine_reachable env devs cfg p b" "config_valid cfg" "devices_ok devs"
  shows "r3000_ok p \<and> ip12_ok b"
  using assms
proof (induction rule: machine_reachable.induct)
  case (machine_new b)
  then show ?case by (simp add: r3000_new_ok)
next
  case (machine_step p b r p' b')
  then show ?case using step_ip12_ok [of p devs b env] by auto
next
  case (machine_reset p b p')
  then show ?case using r3000_reset_ok [of p] by auto
next
  case (machine_lines p b lines p')
  then show ?case using r3000_set_lines_ok [of p lines] set_lines_Some [OF machine_lines.hyps(2)] by auto
next
  case (machine_condition p b c)
  then show ?case by (simp add: r3000_set_cp0_condition_def)
next
  case (machine_restore p b q b1)
  then show ?case by (simp add: r3000_restore_ok)
qed simp

section \<open>A board without devices\<close>

text \<open>The instances of the witnesses: no device answers, and bank 0 holds 4 MB at address 0.\<close>

definition no_devices :: "unit ip12_devices" where
  "no_devices = \<lparr>dv_read = (\<lambda>tgt len b. Some (Inl HardwareFault, b)),
     dv_write = (\<lambda>tgt data b. Some (Inl HardwareFault, b))\<rparr>"

definition plain_pic1 :: pic1 where
  "plain_pic1 = \<lparr>p1_reset_configuration = 0, p1_revision = 2, p1_floating_point_present = True,
     p1_cpu_control = 0, p1_memory_descriptors = [0, 0, 0, 0], p1_parity_error = 0,
     p1_cpu_error_address = 0, p1_gio_error_address = 0, p1_address_error_pending = False,
     p1_gio_slot_configurations = [0, 0], p1_gio_burst = 0, p1_gio_delay = 0, p1_three_way_mask = 0,
     p1_three_way_substitution = 0, p1_descriptor_array_base = 0,
     p1_graphics_dma = graphics_dma_channel_new, p1_graphics_dma_sync_input = False,
     p1_system_reset_requested = False\<rparr>"

definition plain_board :: "unit ip12_bus" where
  "plain_board = \<lparr>ib_pic1 = plain_pic1, ib_memory = \<lparr>lm_modules = [Some (ram_new 4194304), None, None, None]\<rparr>,
     ib_centronics = centronics_new, ib_mdac = mdac_new, ib_dsp56001 = dsp_new, ib_prom = rom_new [],
     ib_events = events_new, ib_devices = ()\<rparr>"

lemma no_devices_ok [simp]: "devices_ok no_devices"
  by (simp add: devices_ok_def no_devices_def)

lemma plain_board_ok [simp]: "ip12_ok plain_board"
  by (simp add: ip12_ok_def plain_board_def pic1_ok_def plain_pic1_def mdac_new_def dsp_new_def
      events_ok_new del: replicate.simps)

section \<open>No panic\<close>





section \<open>The decode cache cannot be observed\<close>

definition forget_decoded :: "r3000 \<Rightarrow> r3000" where
  "forget_decoded p = p\<lparr>r3_decoded_words := []\<rparr>"

definition visible_step ::
  "(step_error + unit) \<times> r3000 \<times> 'b \<Rightarrow> (step_error + unit) \<times> r3000 \<times> 'b" where
  "visible_step = map_prod id (map_prod forget_decoded id)"

lemma map_bind: "map_option f (Option.bind m g) = Option.bind m (\<lambda>x. map_option f (g x))"
  by (cases m) simp_all

lemma visible_step_simps [simp]:
  "visible_step (r, p\<lparr>r3_decoded_words := ws\<rparr>, b) = visible_step (r, p, b)"
  "visible_step (r, p\<lparr>r3_decoded_words := ws, r3_state := s\<rparr>, b) = visible_step (r, p\<lparr>r3_state := s\<rparr>, b)"
  by (simp_all add: visible_step_def forget_decoded_def)

lemma step_exception_forget:
  "map_option visible_step (step_exception e (p\<lparr>r3_decoded_words := ws\<rparr>) s b) =
   map_option visible_step (step_exception e p s b)"
  by (simp add: step_exception_def map_bind)

lemma step_failed_forget:
  "map_option visible_step (step_failed e (p\<lparr>r3_decoded_words := ws\<rparr>) s b) =
   map_option visible_step (step_failed e p s b)"
  by (simp add: step_failed_def)

lemma finish_step_forget:
  "map_option visible_step (finish_step outcome (p\<lparr>r3_decoded_words := ws\<rparr>) s b) =
   map_option visible_step (finish_step outcome p s b)"
  by (auto simp: finish_step_def step_exception_forget step_failed_forget map_bind
      split: sum.split execution_outcome.split)

lemma execute_decoded_forget:
  "map_option visible_step (execute_decoded env ops pc word d (p\<lparr>r3_decoded_words := ws\<rparr>) s b) =
   map_option visible_step (execute_decoded env ops pc word d p s b)"
  by (auto simp: execute_decoded_def step_exception_forget step_failed_forget finish_step_forget map_bind
      intro!: Option.bind_cong split: decode_result.split option.split)

lemma lookup_decoded_eq:
  assumes "decode_cache_ok ws"
  shows "\<exists>ws'. lookup_decoded a w ws = Some (the (decode w), ws')"
  using lookup_decoded_ok [OF assms, of a w] by (auto simp: ok_ex)

lemma execute_fetched_forget:
  assumes "decode_cache_ok (r3_decoded_words p)" "decode_cache_ok ws"
  shows "map_option visible_step (execute_fetched env ops pc a w (p\<lparr>r3_decoded_words := ws\<rparr>) s b) =
   map_option visible_step (execute_fetched env ops pc a w p s b)"
proof -
  obtain ws1 ws2 where "lookup_decoded a w (r3_decoded_words p) = Some (the (decode w), ws1)"
    "lookup_decoded a w ws = Some (the (decode w), ws2)"
    using lookup_decoded_eq assms by blast
  then show ?thesis
    by (simp add: execute_fetched_def step_exception_forget execute_decoded_forget)
qed

text \<open>
  C3. The decode cache is transparent. Two processors that differ only in the contents of their
  decode caches, whatever each has decoded before, make the same step on any bus: the same
  outcome, the same processor up to the decode cache, and the same bus.
\<close>

theorem decode_cache_transparent:
  assumes "r3000_ok p" "decode_cache_ok ws"
  shows "map_option visible_step (r3000_step env ops (p\<lparr>r3_decoded_words := ws\<rparr>) b) =
    map_option visible_step (r3000_step env ops p b)"
  using r3000_ok_facts(2) [OF assms(1)] assms(2)
  by (auto simp: r3000_step_def Let_def map_bind step_exception_forget step_failed_forget
      execute_fetched_forget intro!: Option.bind_cong
      split: sum.split translation_error.split bus_error.split)

theorem decode_cache_transparent_witness:
  "\<forall>env ops b. map_option visible_step (r3000_step env ops ((r3000_new plain_config)
      \<lparr>r3_decoded_words := replicate DECODE_CACHE_ENTRIES (Some (0, 0, Implemented (IAlu (Sll 0 0 0))))\<rparr>) b) =
    map_option visible_step (r3000_step env ops (r3000_new plain_config) b)"
proof (intro allI)
  fix env ops b
  have "decode 0 = Some (Implemented (IAlu (Sll 0 0 0)))"
    by (simp add: decode_def decode_special_def Let_def opcode_def function_field_def rs_field_def
        rt_field_def rd_field_def shift_amount_def)
  then have "decode_cache_ok (replicate DECODE_CACHE_ENTRIES (Some (0, 0, Implemented (IAlu (Sll 0 0 0)))))"
    by (simp add: decode_cache_ok_def list_all_iff del: replicate.simps)
  then show "map_option visible_step (r3000_step env ops ((r3000_new plain_config)
      \<lparr>r3_decoded_words := replicate DECODE_CACHE_ENTRIES (Some (0, 0, Implemented (IAlu (Sll 0 0 0))))\<rparr>) b) =
    map_option visible_step (r3000_step env ops (r3000_new plain_config) b)"
    by (rule decode_cache_transparent [OF r3000_new_ok [OF plain_config_valid]])
qed

section \<open>The data cache cannot be observed on local memory\<close>

text \<open>
  C2. Cached data accesses to local memory behave as accesses to the memory itself. Let the
  data cache agree with local memory, cache isolation be off, and every access of a sequence of
  loads and stores be a transaction on installed memory. Then the processor's accesses through
  the cache and the IP12 bus all succeed, return exactly the bytes that the same sequence reads
  from the memory alone, leave local memory exactly as the sequence leaves it, and the cache
  agrees with memory again.
\<close>

theorem data_cache_transparent:
  assumes "devices_ok devs" "ip12_ok b" "cpu_ok s" "\<not> cc_isolated (cm_effective (cpu_cache_mode s))"
    "cache_coherent (ip12_peek b) (data_cache s)" "plain_data_ops xs (ip12_peek b) = Some (out, mem)"
  shows "\<exists>s' b'. run_data_ops (ip12_ops devs) xs s b = Some (Inr out, s', b') \<and> ip12_peek b' = mem \<and>
    cpu_ok s' \<and> ip12_ok b' \<and> cache_coherent mem (data_cache s')"
  using ip12_memory.run_transparent [of s devs b xs out mem] assms by (auto simp: ip12_bus_ok_def)

lemma replicate_four: "replicate 4 x = [x, x, x, x]"
  by (simp add: numeral_eq_Suc)

lemma plain_peek: "ip12_peek plain_board 0x100 = Some [0, 0, 0, 0]"
proof -
  have "word_aligned 0x100" by (simp add: word_aligned_def)
  then have "ip12_locate plain_board 0x100 = Some (0, 256)"
    by (simp add: ip12_locate_def plain_board_def plain_pic1_def pic1_decode_memory_def memory_size_def
        memory_base_def ram_new_def mask_numeral Let_def del: replicate.simps)
  then show ?thesis
    by (simp add: ip12_peek_def module_bytes_def plain_board_def ram_new_def replicate_four
        del: replicate.simps)
qed

theorem data_cache_transparent_witness:
  "\<exists>s' b'. run_data_ops (ip12_ops no_devices) [DataStore 0x100 [1, 2, 3, 4], DataLoad 0x102 2]
      (state_new plain_config) plain_board = Some (Inr [[3, 4]], s', b') \<and>
    ip12_peek b' 0x100 = Some [1, 2, 3, 4]"
proof -
  let ?mem = "(ip12_peek plain_board)(0x100 \<mapsto> [1, 2, 3, 4 :: u8])"
  have word: "word_of_phys 0x100 = 0x100" "word_of_phys 0x102 = 0x100" "byte_offset 0x100 = 0" "byte_offset 0x102 = 2"
    "word_transaction 0x100 4" "word_transaction 0x102 2"
    by (simp_all add: word_of_phys_def byte_offset_def word_transaction_def)
  have "plain_data_ops [DataStore 0x100 [1, 2, 3, 4], DataLoad 0x102 2] (ip12_peek plain_board) = Some ([[3, 4]], ?mem)"
    using word by (simp add: plain_peek splice_bytes_def word_transaction_def)
  moreover have "\<not> cc_isolated (cm_effective (cpu_cache_mode (state_new plain_config)))"
    by (simp add: state_new_def cache_mode_settled_def status_cache_control_def cache_control_from_status_def
        cp0_new_def cp0_masks)
  ultimately show ?thesis
    using data_cache_transparent [OF no_devices_ok plain_board_ok cpu_ok_new [OF plain_config_valid] _
        new_cache_coherent [OF plain_config_valid]] by fastforce
qed

end
