(* ===== verification/Board_Correct.thy ===== *)
theory Board_Correct
  imports Machine
begin

text \<open>
  The board as software sees it: the address map as a table of disjoint windows, and the report
  of accesses that no memory module answers.
\<close>

section \<open>The address map\<close>

text \<open>The windows: first address, end, the device with its local address, the straddling fault.\<close>

type_synonym window = "u64 \<times> u64 \<times> (u64 \<Rightarrow> bus_target) \<times> bus_error"

definition windows :: "window list" where
  "windows =
    [(PROM_BASE, PROM_END, \<lambda>a. TargetProm (a - PROM_BASE), HardwareFault),
     (GIO_GRAPHICS_BASE, GIO_GRAPHICS_END, \<lambda>a. TargetGio GioGraphics (a - GIO_GRAPHICS_BASE), HardwareFault),
     (GIO_SLOT_0_BASE, GIO_SLOT_0_END, \<lambda>a. TargetGio GioSlot0 (a - GIO_SLOT_0_BASE), HardwareFault),
     (GIO_SLOT_1_BASE, GIO_SLOT_1_END, \<lambda>a. TargetGio GioSlot1 (a - GIO_SLOT_1_BASE), HardwareFault),
     (HPC1_BASE, HPC1_INTERNAL_END, \<lambda>a. TargetHpc1 (a - HPC1_BASE), HardwareFault),
     (HPC1_ENDIAN_CONTROL_BASE, HPC1_ENDIAN_CONTROL_END, \<lambda>a. TargetHpc1 (a - HPC1_BASE), HardwareFault),
     (HPC1_COUNTER_BASE, HPC1_COUNTER_END, \<lambda>a. TargetHpc1 (a - HPC1_BASE), HardwareFault),
     (HPC1_DSP_INTERRUPT_STATUS_BASE, HPC1_DSP_INTERRUPT_END, \<lambda>a. TargetHpc1 (a - HPC1_BASE), HardwareFault),
     (HPC1_MISCELLANEOUS_CONTROL_BASE, HPC1_MISCELLANEOUS_CONTROL_END, \<lambda>a. TargetHpc1 (a - HPC1_BASE),
       HardwareFault),
     (SEEQ8003_EXTERNAL_BASE, SEEQ8003_EXTERNAL_END, \<lambda>a. TargetSeeq8003 (a - SEEQ8003_EXTERNAL_BASE),
       HardwareFault),
     (SCSI_WINDOW_BASE, SCSI_WINDOW_END, \<lambda>a. TargetScsi (a - SCSI_WINDOW_BASE), HardwareFault),
     (CENTRONICS_EXTERNAL_BASE, CENTRONICS_EXTERNAL_END,
       \<lambda>a. TargetCentronics (a - CENTRONICS_EXTERNAL_BASE), UnimplementedAccess),
     (CPU_AUX_CONTROL, CPU_AUX_CONTROL + 1, \<lambda>a. TargetCpuAuxControl, HardwareFault),
     (INT2_BASE, INT2_END, \<lambda>a. TargetInt2 (a - INT2_BASE), HardwareFault),
     (SERIAL_0_BASE, SERIAL_0_END, \<lambda>a. TargetSerial 0 (a - SERIAL_0_BASE), HardwareFault),
     (SERIAL_1_BASE, SERIAL_1_END, \<lambda>a. TargetSerial 1 (a - SERIAL_1_BASE), HardwareFault),
     (SERIAL_2_BASE, SERIAL_2_END, \<lambda>a. TargetSerial 2 (a - SERIAL_2_BASE), HardwareFault),
     (MDAC_BASE, MDAC_END, \<lambda>a. TargetMdac (a - MDAC_BASE), HardwareFault),
     (RTC_BASE, RTC_END, \<lambda>a. TargetRtc (a - RTC_BASE), HardwareFault),
     (BOARD_REVISION_BASE, BOARD_REVISION_END, \<lambda>a. TargetBoardRevision, HardwareFault),
     (DSP56001_BASE, DSP56001_END, \<lambda>a. TargetDsp56001 (a - DSP56001_BASE), HardwareFault),
     (PIC1_BASE, PIC1_END, \<lambda>a. TargetPic1 (a - PIC1_BASE), HardwareFault)]"

definition in_window :: "u64 \<Rightarrow> u64 \<Rightarrow> window \<Rightarrow> bool" where
  "in_window start stop w \<longleftrightarrow> window_contains start stop (fst w) (fst (snd w))"

fun try_windows :: "u64 \<Rightarrow> u64 \<Rightarrow> window list \<Rightarrow> bus_error + bus_target" where
  "try_windows start stop [] = Inl HardwareFault"
| "try_windows start stop ((lo, hi, tgt, fault) # ws) =
     try_window start stop lo hi (tgt start) fault (try_windows start stop ws)"

text \<open>The two single-byte aliases of the Ethernet controller lie inside the HPC1 window.\<close>

definition ethernet_alias :: "u64 \<Rightarrow> u64 \<Rightarrow> bus_target option" where
  "ethernet_alias start stop =
     (if stop \<noteq> start + 1 then None
      else if start = SEEQ8003_RECEIVE_ALIAS then Some (TargetSeeq8003 SEEQ8003_RECEIVE_COMMAND)
      else if start = SEEQ8003_TRANSMIT_ALIAS then Some (TargetSeeq8003 SEEQ8003_TRANSMIT_COMMAND)
      else None)"

definition disjoint_windows :: "window \<Rightarrow> window \<Rightarrow> bool" where
  "disjoint_windows v w \<longleftrightarrow> fst (snd v) \<le> fst w \<or> fst (snd w) \<le> fst v"

lemma windows_disjoint: "sorted_wrt disjoint_windows windows"
  by (simp add: windows_def disjoint_windows_def address_map_defs)

lemma disjoint_not_overlapping:
  assumes "disjoint_windows v w \<or> disjoint_windows w v" "in_window start stop w" "start < stop"
  shows "\<not> window_overlaps start stop (fst v) (fst (snd v))" "\<not> in_window start stop v"
  using assms
  by (auto simp: disjoint_windows_def in_window_def window_contains_def window_overlaps_def word_le_nat_alt
      word_less_nat_alt)

lemma try_windows_hit:
  assumes "sorted_wrt disjoint_windows ws" "start < stop" "w \<in> set ws" "in_window start stop w"
  shows "try_windows start stop ws = Inr (fst (snd (snd w)) start)"
  using assms
proof (induction ws)
  case (Cons v ws)
  obtain lo hi tgt fault where v: "v = (lo, hi, tgt, fault)" by (cases v)
  show ?case
  proof (cases "v = w")
    case True
    then show ?thesis using Cons.prems(4) by (auto simp: v try_window_def in_window_def)
  next
    case False
    then have "disjoint_windows v w" "w \<in> set ws" using Cons.prems by auto
    then show ?thesis
      using disjoint_not_overlapping [of v w start stop] Cons by (simp add: v try_window_def in_window_def)
  qed
qed simp

lemma try_windows_miss:
  "(\<And>w. w \<in> set ws \<Longrightarrow> \<not> in_window start stop w) \<Longrightarrow> \<exists>e. try_windows start stop ws = Inl e"
proof (induction ws)
  case (Cons v ws)
  obtain lo hi tgt fault where v: "v = (lo, hi, tgt, fault)" by (cases v)
  have "\<not> in_window start stop v" using Cons.prems by simp
  moreover have "\<exists>e. try_windows start stop ws = Inl e" using Cons by simp
  ultimately show ?case by (auto simp: v try_window_def in_window_def)
qed simp

lemma last_window:
  "try_window start stop lo hi t HardwareFault (Inl HardwareFault) =
     (if window_contains start stop lo hi then Inr t else Inl HardwareFault)"
  by (simp add: try_window_def)

lemma route_windows:
  assumes "1 \<le> len" "len \<le> 4" "unat address + len < 2 ^ 64"
  shows "route address len =
    (case ethernet_alias address (address + word_of_nat len) of
       Some t \<Rightarrow> Inr t
     | None \<Rightarrow> try_windows address (address + word_of_nat len) windows)"
proof (cases "ethernet_alias address (address + word_of_nat len)")
  case None
  let ?stop = "address + word_of_nat len"
  have "\<not> (address = SEEQ8003_RECEIVE_ALIAS \<and> ?stop = address + 1)"
    "\<not> (address = SEEQ8003_TRANSMIT_ALIAS \<and> ?stop = address + 1)"
    using None by (auto simp: ethernet_alias_def split: if_splits)
  then have no_alias: "(if address = SEEQ8003_RECEIVE_ALIAS \<and> ?stop = address + 1 then x
      else if address = SEEQ8003_TRANSMIT_ALIAS \<and> ?stop = address + 1 then y else z) = z"
    for x y z :: "bus_error + bus_target"
    by (auto split: if_splits)
  have len: "(1 \<le> len \<and> len \<le> 4) = True" "(2 ^ 64 \<le> unat address + len) = False"
    using assms by simp_all
  show ?thesis
    unfolding None option.case route_def Let_def route_window_def route_hpc1_def windows_def try_windows.simps
      last_window no_alias len by simp
next
  case (Some t)
  let ?stop = "address + word_of_nat len"
  from Some consider
      "address = SEEQ8003_RECEIVE_ALIAS" "?stop = address + 1" "t = TargetSeeq8003 SEEQ8003_RECEIVE_COMMAND"
    | "address = SEEQ8003_TRANSMIT_ALIAS" "?stop = address + 1" "t = TargetSeeq8003 SEEQ8003_TRANSMIT_COMMAND"
    by (auto simp: ethernet_alias_def split: if_splits)
  then show ?thesis
  proof cases
    case 1
    then show ?thesis
      using assms Some unfolding route_def Let_def
      by (simp add: route_window_def try_window_def window_contains_def window_overlaps_def address_map_defs)
  next
    case 2
    then show ?thesis
      using assms Some unfolding route_def Let_def
      by (simp add: route_window_def try_window_def window_contains_def window_overlaps_def address_map_defs)
  qed
qed

text \<open>
  C31. The address map. A transaction of one to four bytes reaches a device exactly when one of
  the device windows contains it wholly, and then reaches that window's device at its local
  address, whatever the order in which the windows are tried (they are disjoint); the two
  single-byte Ethernet aliases go first. Every other transaction is answered with an error.
\<close>

theorem address_map:
  assumes "1 \<le> len" "len \<le> 4" "unat address + len < 2 ^ 64"
  shows "case ethernet_alias address (address + word_of_nat len) of
      Some t \<Rightarrow> route address len = Inr t
    | None \<Rightarrow> \<forall>t. route address len = Inr t \<longleftrightarrow>
        (\<exists>w\<in>set windows. in_window address (address + word_of_nat len) w \<and> t = fst (snd (snd w)) address)"
proof -
  have "unat (address + word_of_nat len) = unat address + len"
    using assms by (simp add: unat_word_ariths unat_of_nat)
  then have less: "address < address + word_of_nat len"
    using assms(1) by (simp add: word_less_nat_alt)
  note hit = try_windows_hit [OF windows_disjoint less]
  show ?thesis
  proof (cases "\<exists>w\<in>set windows. in_window address (address + word_of_nat len) w")
    case True
    then show ?thesis using hit route_windows [OF assms] by (auto split: option.split)
  next
    case False
    then show ?thesis
      using try_windows_miss [of windows address "address + word_of_nat len"] route_windows [OF assms]
      by (auto split: option.split)
  qed
qed

theorem address_map_witness:
  "route 0x1fb80e04 1 = Inr (TargetRtc 4) \<and> (\<forall>t. route 0x1fb00000 4 \<noteq> Inr t)"
proof -
  have "ethernet_alias 0x1fb80e04 (0x1fb80e04 + word_of_nat 1) = None"
    "ethernet_alias 0x1fb00000 (0x1fb00000 + word_of_nat 4) = None"
    by (simp_all add: ethernet_alias_def address_map_defs)
  moreover have "\<not> in_window 0x1fb00000 (0x1fb00000 + word_of_nat 4) w" if "w \<in> set windows" for w
    using that by (auto simp: windows_def in_window_def window_contains_def address_map_defs)
  moreover have "\<exists>w\<in>set windows. in_window 0x1fb80e04 (0x1fb80e04 + word_of_nat 1) w \<and> TargetRtc 4 = fst (snd (snd w)) 0x1fb80e04"
    by (rule bexI [of _ "(RTC_BASE, RTC_END, \<lambda>a. TargetRtc (a - RTC_BASE), HardwareFault)"])
      (simp_all add: windows_def in_window_def window_contains_def address_map_defs)
  ultimately show ?thesis
    using address_map [of 1 "0x1fb80e04"] address_map [of 4 "0x1fb00000"] by auto
qed

section \<open>Unanswered accesses\<close>



end
