(* ===== verification/Timing.thy ===== *)
theory Timing
  imports Exec_Correct
begin

text \<open>
  The timing rules of the processor state: loads become visible one instruction late, branches
  take effect after their delay slot, exceptions remember the branch, a cache-control transfer
  reaches the data path at the third following instruction, and an exception handler's
  cache-control mode ends at its return.
\<close>

section \<open>What the end of an instruction does\<close>

text \<open>The value register \<open>i\<close> holds once the transfer already in flight has landed.\<close>

definition settled_gpr :: "cpu \<Rightarrow> nat \<Rightarrow> u32" where
  "settled_gpr s i =
     (case cpu_pending_gpr_write s of
        Some w \<Rightarrow> if pg_index w = i \<and> i \<noteq> 0 then pg_value w else cpu_gpr s ! i
      | None \<Rightarrow> cpu_gpr s ! i)"

lemma commit_gpr_fields:
  assumes "commit_pending_gpr_write s = Some s'"
  shows "cpu_pending_gpr_write s' = None" "cpu_delay_slot s' = cpu_delay_slot s" "cpu_pc s' = cpu_pc s"
    "cpu_cache_mode s' = cpu_cache_mode s" "cpu_cache_mode_contexts s' = cpu_cache_mode_contexts s"
    "i < length (cpu_gpr s) \<Longrightarrow> cpu_gpr s' ! i = settled_gpr s i"
  using assms
  by (auto simp: commit_pending_gpr_write_def write_gpr_direct_def settled_gpr_def set_at_eq_Some
      split: option.splits if_splits)

lemma commit_cp0_fields [simp]:
  "cpu_gpr (commit_pending_cp0_write s) = cpu_gpr s"
  "cpu_pending_gpr_write (commit_pending_cp0_write s) = cpu_pending_gpr_write s"
  "cpu_delay_slot (commit_pending_cp0_write s) = cpu_delay_slot s"
  "cpu_pc (commit_pending_cp0_write s) = cpu_pc s"
  "cpu_cache_mode (commit_pending_cp0_write s) = cpu_cache_mode s"
  "cpu_cache_mode_contexts (commit_pending_cp0_write s) = cpu_cache_mode_contexts s"
  by (simp_all add: commit_pending_cp0_write_def split: option.split)

lemma commit_cp1_fields:
  assumes "commit_pending_cp1_write s = Some s'"
  shows "cpu_gpr s' = cpu_gpr s" "cpu_pending_gpr_write s' = cpu_pending_gpr_write s"
    "cpu_delay_slot s' = cpu_delay_slot s" "cpu_pc s' = cpu_pc s"
    "cpu_cache_mode s' = cpu_cache_mode s" "cpu_cache_mode_contexts s' = cpu_cache_mode_contexts s"
    "cpu_cp0 s' = cpu_cp0 s"
  using assms by (auto simp: commit_pending_cp1_write_def bind_eq_Some_conv split: option.splits)

lemma commit_pending_fields:
  assumes "commit_pending s = Some s'"
  shows "cpu_pending_gpr_write s' = None" "cpu_delay_slot s' = cpu_delay_slot s" "cpu_pc s' = cpu_pc s"
    "cpu_cache_mode s' = cpu_cache_mode s" "cpu_cache_mode_contexts s' = cpu_cache_mode_contexts s"
    "i < length (cpu_gpr s) \<Longrightarrow> cpu_gpr s' ! i = settled_gpr s i"
proof -
  let ?s0 = "s\<lparr>cpu_cp0 := commit_pending_functional (cpu_cp0 s)\<rparr>"
  obtain s1 where s1: "commit_pending_gpr_write ?s0 = Some s1"
    "commit_pending_cp1_write (commit_pending_cp0_write s1) = Some s'"
    using assms by (auto simp: commit_pending_def bind_eq_Some_conv)
  have settled: "settled_gpr ?s0 j = settled_gpr s j" for j
    by (simp add: settled_gpr_def split: option.split)
  note fields = commit_gpr_fields [OF s1(1)] commit_cp1_fields [OF s1(2)] settled
  show "cpu_pending_gpr_write s' = None" using fields by simp
  show "cpu_delay_slot s' = cpu_delay_slot s" using fields by simp
  show "cpu_pc s' = cpu_pc s" using fields by simp
  show "cpu_cache_mode s' = cpu_cache_mode s" using fields by simp
  show "cpu_cache_mode_contexts s' = cpu_cache_mode_contexts s" using fields by simp
  show "i < length (cpu_gpr s) \<Longrightarrow> cpu_gpr s' ! i = settled_gpr s i" using fields by simp
qed

lemma note_transfer_fields [simp]:
  "cpu_pc (note_status_transfer i v s) = cpu_pc s"
  "cpu_delay_slot (note_status_transfer i v s) = cpu_delay_slot s"
  "cpu_gpr (note_status_transfer i v s) = cpu_gpr s"
  "cpu_pending_gpr_write (note_status_transfer i v s) = cpu_pending_gpr_write s"
  by (simp_all add: note_status_transfer_def split: option.split)

lemma apply_effect_fields [simp]:
  "cpu_pc (apply_effect e s) = cpu_pc s" "cpu_delay_slot (apply_effect e s) = cpu_delay_slot s"
  "cpu_gpr (apply_effect e s) = cpu_gpr s"
  by (cases e; simp add: Let_def split: prod.split option.split)+

text \<open>The state the effect of an instruction leaves, after the pending writes have landed.\<close>

definition effect_state :: "instruction_effect option \<Rightarrow> cpu \<Rightarrow> cpu" where
  "effect_state effect s = (case effect of None \<Rightarrow> s | Some e \<Rightarrow> apply_effect e s)"

lemma effect_state_fields [simp]:
  "cpu_pc (effect_state e s) = cpu_pc s" "cpu_delay_slot (effect_state e s) = cpu_delay_slot s"
  "cpu_gpr (effect_state e s) = cpu_gpr s"
  by (simp_all add: effect_state_def split: option.split)

definition effect_opt_ok :: "instruction_effect option \<Rightarrow> bool" where
  "effect_opt_ok effect \<longleftrightarrow> (\<forall>e. effect = Some e \<longrightarrow> effect_ok e)"

lemma effect_opt_ok_simps [simp]: "effect_opt_ok None" "effect_opt_ok (Some e) = effect_ok e"
  by (simp_all add: effect_opt_ok_def)

lemma complete_instruction_facts:
  assumes "cpu_ok s" "effect_opt_ok effect"
  obtains s1 s2 where "commit_pending s = Some s1" "complete_instruction pc effect s = Some s2"
    "cpu_ok s2" "cpu_gpr s2 = cpu_gpr s1"
    "cpu_pending_gpr_write s2 = cpu_pending_gpr_write (effect_state effect s1)"
    "cpu_cache_mode s2 = cpu_cache_mode (effect_state effect s1)"
    "cpu_cache_mode_contexts s2 = cpu_cache_mode_contexts (effect_state effect s1)"
    "cpu_pc s2 = (case cpu_delay_slot s of Some d \<Rightarrow> ds_resume_pc d | None \<Rightarrow> cpu_pc s + 4)"
    "cpu_delay_slot s2 = map_option (\<lambda>r. \<lparr>ds_origin_pc = cpu_pc s, ds_resume_pc = r\<rparr>) pc"
proof -
  obtain s2 where s2: "complete_instruction pc effect s = Some s2" "cpu_ok s2"
    using complete_instruction_ok [OF assms(1), of effect pc] assms(2) by (auto simp: ok_ex effect_opt_ok_def)
  from s2(1) obtain s1 m where s1: "commit_pending s = Some s1" and
    s2_eq: "s2 = (effect_state effect s1)\<lparr>cpu_mmu := m,
      cpu_pc := case cpu_delay_slot (effect_state effect s1) of Some d \<Rightarrow> ds_resume_pc d
        | None \<Rightarrow> cpu_pc (effect_state effect s1) + 4,
      cpu_delay_slot := map_option (\<lambda>resume_pc. \<lparr>ds_origin_pc = cpu_pc (effect_state effect s1),
        ds_resume_pc = resume_pc\<rparr>) pc,
      cpu_cp0 := advance_random (cpu_cp0 (effect_state effect s1))\<rparr>"
    unfolding complete_instruction_def Let_def bind_eq_Some_conv effect_state_def by blast
  show thesis
    by (rule that [OF s1 s2]) (simp_all add: s2_eq commit_pending_fields [OF s1] split: option.split)
qed

lemma cpu_ok_length [simp]: "cpu_ok s \<Longrightarrow> length (cpu_gpr s) = 32"
  by (rule cpu_ok_facts)

section \<open>Load delay\<close>

lemma complete_settles:
  assumes "cpu_ok s" "i < 32" "effect_opt_ok effect"
  obtains s2 where "complete_instruction pc effect s = Some s2" "cpu_ok s2" "cpu_gpr s2 ! i = settled_gpr s i"
  by (rule complete_instruction_facts [OF assms(1,3), of pc])
    (use that commit_pending_fields assms in simp)

lemma write_gpr_facts:
  assumes "cpu_ok s" "0 < i" "i < 32"
  obtains s2 where "write_gpr i w s = Some s2" "cpu_ok s2" "cpu_gpr s2 ! i = w" "cpu_pending_gpr_write s2 = None"
proof -
  obtain s2 where s2: "write_gpr i w s = Some s2" "cpu_ok s2"
    using write_gpr_ok [OF assms(1,3), of w] by (auto simp: ok_ex)
  then obtain s1 where s1: "commit_pending_gpr_write s = Some s1" "write_gpr_direct i w s1 = Some s2"
    by (auto simp: write_gpr_def bind_eq_Some_conv)
  then have "cpu_gpr s2 ! i = w" "cpu_pending_gpr_write s2 = None"
    using commit_gpr_fields(1) [OF s1(1)] assms(2,3)
    by (auto simp: write_gpr_direct_def set_at_eq_Some split: if_splits)
  then show thesis by (rule that [OF s2])
qed




section \<open>Branch delay slots and precise exceptions\<close>

text \<open>
  C22. The branch delay slot. A branch or jump to \<open>t\<close> that completes outside a delay slot is
  followed by the instruction after it, and then, whatever that instruction's effect, by the one
  at \<open>t\<close>; the slot is left behind. A branch to the branch's own delay slot's slot is taken in turn.
\<close>

theorem branch_delay:
  assumes "cpu_ok s" "cpu_delay_slot s = None" "effect_opt_ok effect"
  shows "\<exists>s1 s2. complete_instruction (Some t) None s = Some s1 \<and> cpu_pc s1 = cpu_pc s + 4 \<and>
    complete_instruction pc effect s1 = Some s2 \<and> cpu_pc s2 = t \<and>
    cpu_delay_slot s2 = map_option (\<lambda>r. \<lparr>ds_origin_pc = cpu_pc s + 4, ds_resume_pc = r\<rparr>) pc"
proof -
  obtain s1 where s1: "complete_instruction (Some t) None s = Some s1" "cpu_ok s1" "cpu_pc s1 = cpu_pc s + 4"
    "cpu_delay_slot s1 = Some \<lparr>ds_origin_pc = cpu_pc s, ds_resume_pc = t\<rparr>"
    by (rule complete_instruction_facts [OF assms(1), of None "Some t"]) (use assms(2) in simp_all)
  obtain s2 where "complete_instruction pc effect s1 = Some s2" "cpu_pc s2 = t"
    "cpu_delay_slot s2 = map_option (\<lambda>r. \<lparr>ds_origin_pc = cpu_pc s + 4, ds_resume_pc = r\<rparr>) pc"
    by (rule complete_instruction_facts [OF s1(2) assms(3), of pc]) (use s1 in simp_all)
  then show ?thesis using s1 by blast
qed

theorem branch_delay_witness:
  "\<exists>s1 s2. complete_instruction (Some 0x80001000) None (state_new plain_config) = Some s1 \<and>
     cpu_pc s1 = RESET_PC + 4 \<and>
     complete_instruction None (Some (DelayedGprWrite 8 1 True)) s1 = Some s2 \<and> cpu_pc s2 = 0x80001000"
proof -
  have "cpu_ok (state_new plain_config)" by (rule cpu_ok_new) simp
  then show ?thesis
    using branch_delay [where s = "state_new plain_config" and effect = "Some (DelayedGprWrite 8 1 True)"
        and t = "0x80001000" and pc = None]
    by (auto simp: state_new_def)
qed

lemma take_exception_cause:
  "cp0_cause (snd (cp0_take_exception e epc bd c)) =
     (cp0_cause c AND CAUSE_IP_MASK) OR (if bd then CAUSE_BD else 0) OR
     push_bit 28 (exception_coprocessor e) OR push_bit 2 (fst (exception_fields e))"
  by (cases "exception_fields e")
    (auto simp: cp0_take_exception_def Let_def split: option.splits)

lemma high_bit_small:
  fixes w :: u32
  assumes "unat w < 2 ^ k" "k \<le> n"
  shows "\<not> bit w n"
proof -
  have "unat w < 2 ^ n" using assms by (meson less_le_trans one_le_numeral power_increasing)
  then have "\<not> bit (unat w) n" by (simp add: bit_iff_odd)
  then show ?thesis by (auto simp: bit_unsigned_iff dest: bit_u32)
qed

text \<open>A coprocessor unit number is two bits wide.\<close>

definition unit_in_range :: "cpu_exception \<Rightarrow> bool" where
  "unit_in_range e = (case e of CoprocessorUnusable unit \<Rightarrow> unit < 4 | _ \<Rightarrow> True)"

lemma exception_field_sizes:
  "unat (fst (exception_fields e)) < 2 ^ 4"
  "unit_in_range e \<Longrightarrow> unat (exception_coprocessor e) < 2 ^ 2"
  by (cases e; simp add: unit_in_range_def exception_coprocessor_def unat_of_nat)+

lemma bit_take_exception_cause:
  "bit (cp0_cause (snd (cp0_take_exception e epc bd c))) n \<longleftrightarrow>
     8 \<le> n \<and> n < 16 \<and> bit (cp0_cause c) n \<or> bd \<and> n = 31 \<or>
     28 \<le> n \<and> n < 32 \<and> bit (exception_coprocessor e) (n - 28) \<or>
     2 \<le> n \<and> n < 32 \<and> bit (fst (exception_fields e)) (n - 2)"
proof -
  have bd: "bit (if bd then CAUSE_BD else 0) n \<longleftrightarrow> bd \<and> n = 31"
    unfolding mask_ranges by (auto simp: bit_push_one simp del: push_bit_of_1)
  show ?thesis
    unfolding take_exception_cause bit_or_iff bit_and_iff bd
    unfolding mask_ranges bit_push_mask bit_push_u32 bit_mask_u32
    by auto
qed

lemma take_exception_cause_fields:
  assumes "unit_in_range e"
  shows "bit (cp0_cause (snd (cp0_take_exception e epc bd c))) 31 \<longleftrightarrow> bd"
    "drop_bit 2 (cp0_cause (snd (cp0_take_exception e epc bd c))) AND mask 5 = fst (exception_fields e)"
proof -
  note code = high_bit_small [OF exception_field_sizes(1)]
  note unit = high_bit_small [OF exception_field_sizes(2) [OF assms]]
  show "bit (cp0_cause (snd (cp0_take_exception e epc bd c))) 31 \<longleftrightarrow> bd"
    unfolding bit_take_exception_cause by (simp add: code unit)
  show "drop_bit 2 (cp0_cause (snd (cp0_take_exception e epc bd c))) AND mask 5 = fst (exception_fields e)"
  proof (rule bit_word_eqI)
    fix n :: nat
    show "bit (drop_bit 2 (cp0_cause (snd (cp0_take_exception e epc bd c))) AND mask 5) n =
        bit (fst (exception_fields e)) n"
      unfolding bit_and_iff bit_drop_u32 bit_take_exception_cause bit_mask_u32
      using code [of n e] by (cases "n < 5") auto
  qed
qed

lemma push_context_fields:
  "cpu_delay_slot (push_cache_context s) = cpu_delay_slot s" "cpu_pc (push_cache_context s) = cpu_pc s"
  "cpu_gpr (push_cache_context s) = cpu_gpr s"
  "cpu_pending_gpr_write (push_cache_context s) = cpu_pending_gpr_write s"
  "cpu_cache_mode (push_cache_context s) = cache_mode_settled (cm_effective (cpu_cache_mode s))"
  "cpu_cache_mode_contexts (push_cache_context s) =
     \<lparr>st_level0 = Some \<lparr>cx_status_bits = status_cache_control (cpu_cp0 s), cx_mode = cpu_cache_mode s\<rparr>,
      st_level1 = st_level0 (cpu_cache_mode_contexts s)\<rparr>"
  by (simp_all add: push_cache_context_def cache_mode_stack_push_def Let_def)

lemma take_exception_facts:
  assumes "cpu_ok s"
  obtains s1 s2 c where "commit_pending s = Some s1" "take_exception e s = Some s2" "cpu_ok s2"
    "c = snd (cp0_take_exception e (case cpu_delay_slot s of Some d \<Rightarrow> ds_origin_pc d | None \<Rightarrow> cpu_pc s)
        (cpu_delay_slot s \<noteq> None) (cpu_cp0 (push_cache_context s1)))"
    "cpu_cp0 s2 = advance_random c" "cpu_delay_slot s2 = None" "cpu_gpr s2 = cpu_gpr s1"
    "cpu_pending_gpr_write s2 = None"
    "cpu_pc s2 = exception_vector (cp0_status c) (snd (snd (snd (exception_fields e))))"
    "cpu_cache_mode s2 = cache_mode_settled (cm_effective (cpu_cache_mode s))"
    "cpu_cache_mode_contexts s2 =
       \<lparr>st_level0 = Some \<lparr>cx_status_bits = status_cache_control (cpu_cp0 s1), cx_mode = cpu_cache_mode s\<rparr>,
        st_level1 = st_level0 (cpu_cache_mode_contexts s)\<rparr>"
proof -
  obtain s2 where s2: "take_exception e s = Some s2" "cpu_ok s2"
    using take_exception_ok [OF assms, of e] by (auto simp: ok_ex)
  define epc bd where "epc = (case cpu_delay_slot s of Some d \<Rightarrow> ds_origin_pc d | None \<Rightarrow> cpu_pc s)"
    and "bd = (cpu_delay_slot s \<noteq> None)"
  from s2(1) obtain s1 where s1: "commit_pending s = Some s1"
    by (auto simp: take_exception_def bind_eq_Some_conv)
  note kept = commit_pending_fields [OF s1] push_context_fields [of s1]
  have pair: "(case cpu_delay_slot (push_cache_context s1) of Some d \<Rightarrow> (ds_origin_pc d, True)
      | None \<Rightarrow> (cpu_pc (push_cache_context s1), False)) = (epc, bd)"
    by (simp add: kept epc_def bd_def split: option.split)
  let ?r = "cp0_take_exception e epc bd (cpu_cp0 (push_cache_context s1))"
  obtain m where "s2 = (push_cache_context s1)\<lparr>cpu_delay_slot := None, cpu_pc := fst ?r, cpu_mmu := m,
      cpu_cp0 := advance_random (snd ?r)\<rparr>"
    using s2(1) unfolding take_exception_def Let_def s1 Option.bind.bind_lunit pair
    by (auto simp: bind_eq_Some_conv split: prod.splits)
  then show thesis
    by (intro that [OF s1 s2, of "snd ?r"])
      (simp_all add: kept epc_def bd_def take_exception_vector take_exception_status)
qed

lemma advance_random_fields [simp]:
  "cp0_status (advance_random c) = cp0_status c" "cp0_cause (advance_random c) = cp0_cause c"
  "cp0_epc (advance_random c) = cp0_epc c" "cp0_effective (advance_random c) = cp0_effective c"
  by (simp_all add: advance_random_def Let_def)



section \<open>Cache control\<close>

lemma advance_transition_effective:
  "cm_transition (cpu_cache_mode s) = Some t \<Longrightarrow> ct_age t + 1 < CACHE_TRANSITION_PERIODS \<Longrightarrow>
     cpu_cache_mode (advance_cache_transition s) =
       \<lparr>cm_effective = cm_effective (cpu_cache_mode s), cm_transition = Some (t\<lparr>ct_age := ct_age t + 1\<rparr>)\<rparr>"
  "cm_transition (cpu_cache_mode s) = Some t \<Longrightarrow> \<not> ct_age t + 1 < CACHE_TRANSITION_PERIODS \<Longrightarrow>
     cpu_cache_mode (advance_cache_transition s) = cache_mode_settled (ct_target t)"
  by (simp_all add: advance_cache_transition_def Let_def cache_mode_settled_def)

text \<open>
  The delay of a cache-control transfer. A write to Status that changes the isolation or
  swap bits reaches the caches only at the third following instruction: the control in effect
  stays as it was for the next two and is the written one from the third on, while a write that
  leaves both bits alone, or to any other register, starts no transfer.
\<close>

lemma cache_control_delay:
  "(if i = 12 \<and> cache_control_from_status (status_after_write (cpu_cp0 s) v) \<noteq> status_cache_control (cpu_cp0 s)
    then cm_effective (cpu_cache_mode (advance_cache_transition (note_status_transfer i v s))) =
        cm_effective (cpu_cache_mode s) \<and>
      cm_effective (cpu_cache_mode (advance_cache_transition (advance_cache_transition
        (note_status_transfer i v s)))) = cm_effective (cpu_cache_mode s) \<and>
      cpu_cache_mode (advance_cache_transition (advance_cache_transition (advance_cache_transition
        (note_status_transfer i v s)))) =
        cache_mode_settled (cache_control_from_status (status_after_write (cpu_cp0 s) v))
    else note_status_transfer i v s = s)"
  by (simp add: note_status_transfer_def cache_control_after_write_def advance_transition_effective
      CACHE_TRANSITION_PERIODS_def)

lemma bit_control_status_bits:
  "bit (cache_control_status_bits control) n \<longleftrightarrow> n = 16 \<and> cc_isolated control \<or> n = 17 \<and> cc_swapped control"
  unfolding cache_control_status_bits_def mask_ranges by (auto simp: bit_push_one bit_or_iff simp del: push_bit_of_1)

lemma set_cache_control_status:
  "cp0_status (set_status_cache_control control c) =
     (cp0_status c AND NOT (STATUS_ISC OR STATUS_SWC)) OR cache_control_status_bits control"
  by (cases c) (simp only: set_status_cache_control_def cp0.update_convs cp0.select_convs)

lemma bit_set_cache_control:
  "bit (cp0_status (set_status_cache_control control c)) n \<longleftrightarrow>
     (if n = 16 then cc_isolated control else if n = 17 then cc_swapped control else bit (cp0_status c) n)"
  unfolding set_cache_control_status bit_or_iff bit_and_iff bit_not_u32 bit_control_status_bits
    mask_ranges bit_push_one
  by (auto dest: bit_u32)

lemma cache_control_of_bits [simp]:
  "status_cache_control (set_status_cache_control control c) = control"
  unfolding status_cache_control_def cache_control_from_status_def flag_iff bit_set_cache_control by simp

text \<open>
  C24. The cache mode across an exception. The handler runs with the control in effect when the
  exception was recognised and no transfer in progress; the \<^verbatim>\<open>rfe\<close> that leaves it, in any
  state the handler has reached with its saved contexts balanced, gives back the interrupted
  mode with its transfer where it stood, the interrupted Status bits, and the older context.
\<close>

theorem exception_restores_cache_mode:
  assumes "cpu_ok s" "take_exception e s = Some h"
    and "cpu_cache_mode_contexts t = cpu_cache_mode_contexts h"
  shows "cpu_cache_mode h = cache_mode_settled (cm_effective (cpu_cache_mode s)) \<and>
    cpu_cache_mode (apply_effect (RestoreStatus v) t) = cpu_cache_mode s \<and>
    cpu_cache_mode_contexts (apply_effect (RestoreStatus v) t) =
      \<lparr>st_level0 = st_level0 (cpu_cache_mode_contexts s), st_level1 = None\<rparr> \<and>
    (\<exists>s1. commit_pending s = Some s1 \<and>
      status_cache_control (cpu_cp0 (apply_effect (RestoreStatus v) t)) = status_cache_control (cpu_cp0 s1))"
proof -
  obtain s1 s2 where "commit_pending s = Some s1" "take_exception e s = Some s2"
    "cpu_cache_mode s2 = cache_mode_settled (cm_effective (cpu_cache_mode s))"
    "cpu_cache_mode_contexts s2 =
       \<lparr>st_level0 = Some \<lparr>cx_status_bits = status_cache_control (cpu_cp0 s1), cx_mode = cpu_cache_mode s\<rparr>,
        st_level1 = st_level0 (cpu_cache_mode_contexts s)\<rparr>"
    by (rule take_exception_facts [OF assms(1), of e])
  then show ?thesis
    using assms(2,3) by (simp add: Let_def cache_mode_stack_pop_def)
qed

theorem exception_restores_cache_mode_witness:
  "\<exists>h. take_exception Syscall (state_new plain_config) = Some h \<and>
     cpu_cache_mode (apply_effect (RestoreStatus 0) h) = cpu_cache_mode (state_new plain_config)"
proof -
  have s: "cpu_ok (state_new plain_config)" by (rule cpu_ok_new) simp
  then obtain h where "take_exception Syscall (state_new plain_config) = Some h"
    using take_exception_ok [OF s, of Syscall] by (auto simp: ok_ex)
  then show ?thesis using exception_restores_cache_mode [OF s _ refl] by blast
qed

end
