(* ===== verification/Alu_Correct.thy ===== *)
theory Alu_Correct
  imports Timing
begin

text \<open>
  The integer unit against the integers: checked addition and subtraction raise Overflow exactly
  when the sum leaves the 32-bit range, HI and LO hold the whole product, quotient and remainder
  satisfy the division law, and branch and jump targets are the documented ones.
\<close>

section \<open>Checked addition and subtraction\<close>

definition fits32 :: "int \<Rightarrow> bool" where
  "fits32 n \<longleftrightarrow> - (2 ^ 31) \<le> n \<and> n < 2 ^ 31"

lemma sint_word_of_int: "sint (word_of_int n :: u32) = n \<longleftrightarrow> fits32 n"
proof
  assume "sint (word_of_int n :: u32) = n"
  then show "fits32 n"
    using sint_ge [of "word_of_int n :: u32"] sint_lt [of "word_of_int n :: u32"] by (simp add: fits32_def)
next
  assume "fits32 n"
  then have "signed_take_bit 31 n = n" by (simp add: fits32_def signed_take_bit_int_eq_self)
  then show "sint (word_of_int n :: u32) = n" by (simp add: signed_of_int)
qed

lemma word_of_int_sint_sum: "a + b = word_of_int (sint a + sint b)" "a - b = word_of_int (sint a - sint b)"
  for a b :: u32
  by simp_all

lemma overflowing_facts:
  "snd (overflowing_add a b) \<longleftrightarrow> \<not> fits32 (sint a + sint b)"
  "snd (overflowing_sub a b) \<longleftrightarrow> \<not> fits32 (sint a - sint b)"
  "fits32 (sint a + sint b) \<Longrightarrow> sint (fst (overflowing_add a b)) = sint a + sint b"
  "fits32 (sint a - sint b) \<Longrightarrow> sint (fst (overflowing_sub a b)) = sint a - sint b"
  using sint_word_of_int [of "sint a + sint b"] sint_word_of_int [of "sint a - sint b"]
  unfolding overflowing_add_def overflowing_sub_def word_of_int_sint_sum [symmetric] by auto

lemma finish_gpr_facts:
  assumes "cpu_ok s" "0 < i" "i < 32"
  shows "\<exists>s'. finish_gpr i v s = Some (Inr (), s') \<and> read_gpr s' i = Some v"
proof -
  obtain s' where "write_gpr i v s = Some s'" "cpu_ok s'" "cpu_gpr s' ! i = v" "cpu_pending_gpr_write s' = None"
    by (rule write_gpr_facts [OF assms])
  then show ?thesis using assms(2,3) by (auto simp: finish_gpr_def read_gpr_ok)
qed

text \<open>
  C25. Checked arithmetic. \<^verbatim>\<open>add\<close>, \<^verbatim>\<open>sub\<close> and \<^verbatim>\<open>addi\<close>, for any operands: when the exact sum or
  difference of the signed operands fits in 32 bits, the destination register holds it; otherwise
  the Overflow exception is raised and nothing changes.
\<close>

theorem checked_arithmetic:
  assumes "cpu_ok s" "0 < rd" "rd < 32" "rs < 32" "rt < 32" "read_gpr s rs = Some a" "read_gpr s rt = Some b"
    and "(i, n) \<in> {(Add rd rs rt, sint a + sint b), (Sub rd rs rt, sint a - sint b),
      (Addi rd rs imm, sint a + sint imm)}"
  shows "if fits32 n
    then \<exists>s' v. alu_execute i s = Some (Inr (), s') \<and> read_gpr s' rd = Some v \<and> sint v = n
    else alu_execute i s = Some (Inl Overflow, s)"
proof -
  have imm: "sint (scast imm :: u32) = sint imm"
    by (simp add: sint_up_scast is_up)
  have finish: "if fits32 n
      then \<exists>s' v. finish_checked rd r s = Some (Inr (), s') \<and> read_gpr s' rd = Some v \<and> sint v = n
      else finish_checked rd r s = Some (Inl Overflow, s)"
    if "snd r \<longleftrightarrow> \<not> fits32 n" "fits32 n \<Longrightarrow> sint (fst r) = n" for r n
    using that finish_gpr_facts [OF assms(1-3), of "fst r"] by (auto simp: finish_checked_def)
  from assms(8) consider
      "i = Add rd rs rt" "n = sint a + sint b" | "i = Sub rd rs rt" "n = sint a - sint b"
    | "i = Addi rd rs imm" "n = sint a + sint imm"
    by auto
  then show ?thesis
  proof cases
    case 1
    then show ?thesis
      using finish [of "overflowing_add a b" n] assms(6,7) by (auto simp: overflowing_facts split: if_splits)
  next
    case 2
    then show ?thesis
      using finish [of "overflowing_sub a b" n] assms(6,7) by (auto simp: overflowing_facts split: if_splits)
  next
    case 3
    then show ?thesis
      using finish [of "overflowing_add a (scast imm)" n] assms(6,7) overflowing_facts [of a "scast imm"]
      by (auto simp: imm split: if_splits)
  qed
qed

theorem checked_arithmetic_witness:
  "alu_execute (Addi 3 0 0x7fff) (state_new plain_config) \<noteq> Some (Inl Overflow, state_new plain_config)"
proof -
  have "cpu_ok (state_new plain_config)" by (rule cpu_ok_new) simp
  then show ?thesis
    using checked_arithmetic [where s = "state_new plain_config" and rd = 3 and rs = 0 and rt = 0 and a = 0
        and b = 0 and i = "Addi 3 0 0x7fff" and n = "0x7fff" and imm = "0x7fff"]
    by (auto simp: read_gpr_def fits32_def)
qed

section \<open>Multiplication and division\<close>

lemma sint_of_int64: "- (2 ^ 63) \<le> n \<Longrightarrow> n < 2 ^ 63 \<Longrightarrow> sint (word_of_int n :: u64) = n"
  by (simp add: signed_of_int signed_take_bit_int_eq_self)

lemma split_word64:
  fixes w :: u64
  defines "hi \<equiv> ucast (drop_bit 32 w) :: u32" and "lo \<equiv> ucast w :: u32"
  shows "uint hi * 2 ^ 32 + uint lo = uint w" "sint hi * 2 ^ 32 + uint lo = sint w"
proof -
  have lo: "uint lo = uint w mod 2 ^ 32"
    by (simp add: lo_def unsigned_ucast_eq take_bit_eq_mod)
  have lt: "uint w < 2 ^ 64" using uint_lt2p [of w] by simp
  then have "uint w div 2 ^ 32 < 2 ^ 32" by simp
  then have "uint w div 2 ^ 32 mod 2 ^ 32 = uint w div 2 ^ 32"
    by (intro mod_pos_pos_trivial) (simp_all add: pos_imp_zdiv_nonneg_iff)
  then have hi: "uint hi = uint w div 2 ^ 32"
    by (simp add: hi_def unsigned_ucast_eq take_bit_eq_mod unsigned_drop_bit_eq drop_bit_eq_div uint_div)
  show sum: "uint hi * 2 ^ 32 + uint lo = uint w"
    unfolding lo hi by (rule div_mult_mod_eq)
  have "sint w = uint w - 2 ^ 64 * of_bool (bit w 63)"
    using take_bit_int_eq_self [of "uint w" 64] lt
    by (simp add: sint_uint signed_take_bit_eq_take_bit_minus bit_unsigned_iff)
  moreover have "sint hi = uint hi - 2 ^ 32 * of_bool (bit hi 31)"
    using take_bit_int_eq_self [of "uint hi" 32] uint_lt2p [of hi]
    by (simp add: sint_uint signed_take_bit_eq_take_bit_minus bit_unsigned_iff)
  moreover have "bit hi 31 \<longleftrightarrow> bit w 63"
    by (simp add: hi_def bit_simps)
  ultimately show "sint hi * 2 ^ 32 + uint lo = sint w"
    using sum by (simp add: algebra_simps)
qed

lemma signed_product_range: "- (2 ^ 63) \<le> sint a * sint b" "sint a * sint b < 2 ^ 63" for a b :: u32
proof -
  have "\<bar>sint a\<bar> \<le> 2 ^ 31" "\<bar>sint b\<bar> \<le> 2 ^ 31"
    using sint_ge [of a] sint_lt [of a] sint_ge [of b] sint_lt [of b] by simp_all
  then have "\<bar>sint a * sint b\<bar> \<le> 2 ^ 31 * 2 ^ 31"
    unfolding abs_mult by (intro mult_mono) simp_all
  then show "- (2 ^ 63) \<le> sint a * sint b" "sint a * sint b < 2 ^ 63" by simp_all
qed

lemma signed_product: "sint (scast a * scast b :: u64) = sint a * sint b" for a b :: u32
proof -
  have "scast a * scast b = (word_of_int (sint a * sint b) :: u64)"
    unfolding scast_eq by (rule wi_hom_mult)
  then show ?thesis using sint_of_int64 [OF signed_product_range [of a b]] by (simp only:)
qed

lemma unsigned_product: "uint (ucast a * ucast b :: u64) = uint a * uint b" for a b :: u32
proof -
  have "uint a * uint b < 2 ^ 32 * 2 ^ 32"
    using uint_lt2p [of a] uint_lt2p [of b] by (intro mult_strict_mono) simp_all
  then have "uint a * uint b mod 2 ^ 64 = uint a * uint b" by (intro mod_pos_pos_trivial) simp_all
  then show ?thesis by (simp add: uint_word_ariths unsigned_ucast_eq take_bit_eq_mod mod_mult_eq)
qed

text \<open>
  C26. Multiplication. \<^verbatim>\<open>mult\<close> and \<^verbatim>\<open>multu\<close> leave in HI and LO the two halves of the exact
  64-bit product of the signed or unsigned operands, and change nothing else.
\<close>

theorem multiply_exact:
  assumes "read_gpr s rs = Some a" "read_gpr s rt = Some b"
  shows "(\<exists>hi lo. alu_execute (Mult rs rt) s = Some (Inr (), s\<lparr>cpu_hi := hi, cpu_lo := lo\<rparr>) \<and>
      sint hi * 2 ^ 32 + uint lo = sint a * sint b) \<and>
    (\<exists>hi lo. alu_execute (Multu rs rt) s = Some (Inr (), s\<lparr>cpu_hi := hi, cpu_lo := lo\<rparr>) \<and>
      uint hi * 2 ^ 32 + uint lo = uint a * uint b)"
  using assms split_word64(2) [of "scast a * scast b"] split_word64(1) [of "ucast a * ucast b"]
  by (auto simp: finish_hi_lo_def Let_def signed_product unsigned_product)

theorem multiply_exact_witness:
  "\<exists>hi lo. alu_execute (Mult 0 0) (state_new plain_config) =
     Some (Inr (), (state_new plain_config)\<lparr>cpu_hi := hi, cpu_lo := lo\<rparr>) \<and> sint hi * 2 ^ 32 + uint lo = 0"
  using multiply_exact [where s = "state_new plain_config" and rs = 0 and rt = 0 and a = 0 and b = 0]
  by (simp add: read_gpr_def)

lemma sint_minus_one: "sint b = - 1 \<longleftrightarrow> b = 0xffffffff" for b :: u32
proof -
  have "sint (0xffffffff :: u32) = - 1" by simp
  then show ?thesis by (metis signed_word_eqI)
qed

lemma sint_smallest: "sint a = - (2 ^ 31) \<longleftrightarrow> a = 0x80000000" for a :: u32
proof -
  have "sint (0x80000000 :: u32) = - (2 ^ 31)" by simp
  then show ?thesis by (metis signed_word_eqI)
qed

lemma sint_eq_0 [simp]: "sint b = 0 \<longleftrightarrow> b = 0" for b :: u32
  by (metis signed_0 signed_word_eqI)

lemma signed_quotient_fits:
  fixes a b :: u32
  assumes "b \<noteq> 0" "\<not> (sint a = - (2 ^ 31) \<and> sint b = - 1)"
  shows "fits32 (sint a sdiv sint b)" "fits32 (sint a smod sint b)"
proof -
  have a: "- (2 ^ 31) \<le> sint a" "sint a < 2 ^ 31" and b: "- (2 ^ 31) \<le> sint b" "sint b < 2 ^ 31"
    using sint_ge [of a] sint_lt [of a] sint_ge [of b] sint_lt [of b] by simp_all
  have "sint b \<noteq> 0" using assms(1) by simp
  show "fits32 (sint a smod sint b)"
    using smod_int_range [OF \<open>sint b \<noteq> 0\<close>, of "sint a"] b by (auto simp: fits32_def)
  have range: "- \<bar>sint a\<bar> \<le> sint a sdiv sint b" "sint a sdiv sint b \<le> \<bar>sint a\<bar>"
    using sdiv_int_range [of "sint a" "sint b"] by simp_all
  moreover have "sint a sdiv sint b \<noteq> 2 ^ 31"
  proof
    assume "sint a sdiv sint b = 2 ^ 31"
    then have "sint a = - (2 ^ 31)" "sint a sdiv sint b = - sint a" "sint a \<noteq> 0" using range a by linarith+
    then have "sint b = - 1" using int_sdiv_negated_is_minus1 [of "sint a" "sint b"] by simp
    then show False using assms(2) \<open>sint a = - (2 ^ 31)\<close> by simp
  qed
  ultimately show "fits32 (sint a sdiv sint b)"
    using a by (auto simp: fits32_def)
qed

lemma signed_division_law:
  fixes a b :: u32
  assumes "b \<noteq> 0" "\<not> (sint a = - (2 ^ 31) \<and> sint b = - 1)"
  defines "q \<equiv> word_of_int (sint a sdiv sint b) :: u32" and "r \<equiv> word_of_int (sint a smod sint b) :: u32"
  shows "sint a = sint q * sint b + sint r" "\<bar>sint r\<bar> < \<bar>sint b\<bar>" "0 \<le> sint a * sint r"
proof -
  have "sint b \<noteq> 0" using assms(1) by simp
  have qr: "sint q = sint a sdiv sint b" "sint r = sint a smod sint b"
    using signed_quotient_fits [OF assms(1,2)] by (simp_all add: q_def r_def sint_word_of_int)
  show "sint a = sint q * sint b + sint r"
    unfolding qr by (metis mult_sdiv_smod_eq mult.commute)
  show "\<bar>sint r\<bar> < \<bar>sint b\<bar>"
    using smod_int_range [OF \<open>sint b \<noteq> 0\<close>, of "sint a"] by (auto simp: qr)
  show "0 \<le> sint a * sint r"
    using \<open>sint b \<noteq> 0\<close>
    by (cases "sint a" "0 :: int" rule: linorder_cases)
      (simp_all add: qr signed_modulo_int_def mult_nonpos_nonneg)
qed

text \<open>
  C27. Division. \<^verbatim>\<open>div\<close> and \<^verbatim>\<open>divu\<close> return on every pair of operands, zero divisors and the
  overflowing quotient included. For a divisor other than zero, LO holds the quotient truncated
  toward zero and HI the remainder: dividend = quotient * divisor + remainder, with the remainder
  smaller than the divisor and of the dividend's sign; the one exception is the quotient
  \<open>2 ^ 31\<close>, which wraps with remainder zero.
\<close>

theorem divide_exact:
  assumes "read_gpr s rs = Some a" "read_gpr s rt = Some b"
  shows "\<exists>hi lo hu lu. alu_execute (Div rs rt) s = Some (Inr (), s\<lparr>cpu_hi := hi, cpu_lo := lo\<rparr>) \<and>
    alu_execute (Divu rs rt) s = Some (Inr (), s\<lparr>cpu_hi := hu, cpu_lo := lu\<rparr>) \<and>
    (if b = 0 then hi = a \<and> hu = a
     else (if a = 0x80000000 \<and> b = 0xffffffff then hi = 0 \<and> lo = a
        else sint a = sint lo * sint b + sint hi \<and> \<bar>sint hi\<bar> < \<bar>sint b\<bar> \<and> sint a * sint hi \<ge> 0) \<and>
       uint a = uint lu * uint b + uint hu \<and> uint hu < uint b)"
proof -
  have u: "uint a = uint (a div b) * uint b + uint (a mod b)" "uint (a mod b) < uint b" if "b \<noteq> 0"
    using that by (simp_all add: uint_div uint_mod word_neq_0_conv word_less_def)
  have edge: "sint a = - (2 ^ 31) \<and> sint b = - 1 \<longleftrightarrow> a = 0x80000000 \<and> b = 0xffffffff"
    by (simp only: sint_minus_one sint_smallest)
  show ?thesis
  proof (cases "b = 0")
    case True
    then show ?thesis using assms by (auto simp: div_results_def divu_results_def finish_hi_lo_def)
  next
    case False
    note unsigned = u [OF False]
    show ?thesis
    proof (cases "sint a = - (2 ^ 31) \<and> sint b = - 1")
      case True
      then have edge_case: "a = 0x80000000 \<and> b = 0xffffffff" by (simp only: edge)
      have "div_results a b = (0, a)" "divu_results a b = (a mod b, a div b)"
        using True False edge_case by (simp_all add: div_results_def divu_results_def)
      then have "alu_execute (Div rs rt) s = Some (Inr (), s\<lparr>cpu_hi := 0, cpu_lo := a\<rparr>)"
        "alu_execute (Divu rs rt) s = Some (Inr (), s\<lparr>cpu_hi := a mod b, cpu_lo := a div b\<rparr>)"
        using assms by (simp_all add: finish_hi_lo_def)
      then show ?thesis
        unfolding if_not_P [OF False] if_P [OF edge_case] using unsigned by blast
    next
      case other: False
      then have not_edge: "\<not> (a = 0x80000000 \<and> b = 0xffffffff)" by (simp only: edge not_False_eq_True)
      have "div_results a b = (word_of_int (sint a smod sint b), word_of_int (sint a sdiv sint b))"
        "divu_results a b = (a mod b, a div b)"
        using other False by (simp_all only: div_results_def divu_results_def if_False)
      then have "alu_execute (Div rs rt) s = Some (Inr (), s\<lparr>cpu_hi := word_of_int (sint a smod sint b),
          cpu_lo := word_of_int (sint a sdiv sint b)\<rparr>)"
        "alu_execute (Divu rs rt) s = Some (Inr (), s\<lparr>cpu_hi := a mod b, cpu_lo := a div b\<rparr>)"
        using assms by (simp_all add: finish_hi_lo_def)
      then show ?thesis
        unfolding if_not_P [OF False] if_not_P [OF not_edge]
        using unsigned signed_division_law [OF False other] by blast
    qed
  qed
qed

theorem divide_exact_witness:
  "\<exists>hi lo. alu_execute (Div 0 0) (state_new plain_config) =
     Some (Inr (), (state_new plain_config)\<lparr>cpu_hi := hi, cpu_lo := lo\<rparr>) \<and> hi = 0"
  using divide_exact [where s = "state_new plain_config" and rs = 0 and rt = 0 and a = 0 and b = 0]
  by (auto simp: read_gpr_def)

end
