(* ===== verification/Int2_Timer.thy ===== *)
theory Int2_Timer
  imports Events
begin

text \<open>
  The programmable interval timer inside INT2, \<^verbatim>\<open>se_device/src/int2/timer.rs\<close>: three
  counters, the third of which clocks the other two, with their count latches, the outputs
  deferred by one pulse of the clocking counter, and the phase of the one-megahertz oscillator.
\<close>

definition ATTOSECONDS_PER_TICK :: u128 where "ATTOSECONDS_PER_TICK = 1000000000000"
definition COUNTER_ZERO_ENCODING :: u32 where "COUNTER_ZERO_ENCODING = push_bit 16 1"

datatype counter_id = CounterZero | CounterOne | CounterTwo

fun counter_index :: "counter_id \<Rightarrow> nat" where
  "counter_index CounterZero = 0"
| "counter_index CounterOne = 1"
| "counter_index CounterTwo = 2"

fun interrupt_index :: "counter_id \<Rightarrow> nat option" where
  "interrupt_index CounterZero = Some 0"
| "interrupt_index CounterOne = Some 1"
| "interrupt_index CounterTwo = None"

record timer_outputs =
  to_counter_0 :: bool
  to_counter_1 :: bool

datatype counter_mode = Mode1 | Mode2

text \<open>The awaited count carries its mode and the low byte, once written.\<close>

datatype counter_state =
    Unconfigured
  | AwaitingCount counter_mode "u8 option"
  | WaitingForGate u32
  | RateGenerator u32 u32
  | Quiescent

record latched_count =
  lc_value :: u16
  lc_read_high :: bool

record counter =
  co_state :: counter_state
  co_latch :: "latched_count option"

record programmable_timer =
  pt_counters :: "counter list"
  pt_deferred_outputs :: "bool list"
  pt_oscillator_phase :: u128

definition counter_new :: counter where
  "counter_new = \<lparr>co_state = Unconfigured, co_latch = None\<rparr>"

definition timer_new :: programmable_timer where
  "timer_new =
     \<lparr>pt_counters = [counter_new, counter_new, counter_new], pt_deferred_outputs = [False, False],
      pt_oscillator_phase = 0\<rparr>"

section \<open>One counter\<close>

definition counter_configure :: "counter_mode \<Rightarrow> counter \<Rightarrow> counter" where
  "counter_configure mode c = c\<lparr>co_state := AwaitingCount mode None, co_latch := None\<rparr>"

definition counter_quiesce :: "counter \<Rightarrow> counter" where
  "counter_quiesce c = c\<lparr>co_state := Quiescent, co_latch := None\<rparr>"

definition counter_write :: "u8 \<Rightarrow> counter \<Rightarrow> (bus_error + unit) \<times> counter" where
  "counter_write value c =
     (case co_state c of
        AwaitingCount mode None \<Rightarrow> (Inr (), c\<lparr>co_state := AwaitingCount mode (Some value)\<rparr>)
      | AwaitingCount mode (Some low_byte) \<Rightarrow>
          (let encoded = (ucast low_byte OR push_bit 8 (ucast value) :: u16);
               reload = (if encoded = 0 then COUNTER_ZERO_ENCODING else ucast encoded)
           in if mode = Mode2 \<and> reload = 1 then (Inl UnimplementedAccess, c)
              else (Inr (), c\<lparr>co_state := (case mode of
                        Mode1 \<Rightarrow> WaitingForGate reload
                      | Mode2 \<Rightarrow> RateGenerator reload reload),
                    co_latch := None\<rparr>))
      | _ \<Rightarrow> (Inl UnimplementedAccess, c))"

text \<open>Conversion to 16 bits panics above 65536, whose encoding is zero.\<close>

definition encode_counter :: "u32 \<Rightarrow> u16 option" where
  "encode_counter value =
     (if value = COUNTER_ZERO_ENCODING then Some 0
      else do { require (unat value < 65536); Some (ucast value) })"

definition counter_latch :: "counter \<Rightarrow> ((bus_error + unit) \<times> counter) option" where
  "counter_latch c = (
     let latch_value = (\<lambda>value.
           if co_latch c = None then do {
             encoded <- encode_counter value;
             Some (Inr (), c\<lparr>co_latch := Some \<lparr>lc_value = encoded, lc_read_high = False\<rparr>\<rparr>)
           } else Some (Inr (), c))
     in case co_state c of
          WaitingForGate reload \<Rightarrow> latch_value reload
        | RateGenerator _ remaining \<Rightarrow> latch_value remaining
        | _ \<Rightarrow> Some (Inl UnimplementedAccess, c))"

definition counter_peek :: "counter \<Rightarrow> bus_error + u8" where
  "counter_peek c =
     (case co_latch c of
        None \<Rightarrow> Inl UnimplementedAccess
      | Some l \<Rightarrow> Inr (if lc_read_high l then ucast (drop_bit 8 (lc_value l)) else ucast (lc_value l)))"

definition counter_read :: "counter \<Rightarrow> (bus_error + u8) \<times> counter" where
  "counter_read c =
     (case counter_peek c of
        Inl e \<Rightarrow> (Inl e, c)
      | Inr value \<Rightarrow>
          (Inr value,
           c\<lparr>co_latch := (case co_latch c of
               Some l \<Rightarrow> if lc_read_high l then None else Some (l\<lparr>lc_read_high := True\<rparr>)
             | None \<Rightarrow> None)\<rparr>))"

text \<open>The input pulses are counted at 128 bits; the result is the number of output pulses.\<close>

definition counter_advance :: "u128 \<Rightarrow> counter \<Rightarrow> (u128 \<times> counter) option" where
  "counter_advance input_pulses c =
     (case co_state c of
        RateGenerator reload remaining \<Rightarrow>
          if input_pulses < ucast remaining
          then Some (0, c\<lparr>co_state := RateGenerator reload (remaining - ucast input_pulses)\<rparr>)
          else do {
            let reload_wide = (ucast reload :: u128);
            let after_first_output = input_pulses - ucast remaining;
            require (reload_wide \<noteq> 0);
            let output_count = 1 + after_first_output div reload_wide;
            let position = after_first_output mod reload_wide;
            let next_remaining = (if position = 0 then reload else ucast (reload_wide - position));
            Some (output_count, c\<lparr>co_state := RateGenerator reload next_remaining\<rparr>)
          }
      | _ \<Rightarrow> Some (0, c))"

definition rate_generator_state :: "counter \<Rightarrow> (u32 \<times> u32) option" where
  "rate_generator_state c =
     (case co_state c of RateGenerator reload remaining \<Rightarrow> Some (reload, remaining) | _ \<Rightarrow> None)"

text \<open>
  A counter clocked by another: its output appears one input pulse after its terminal count. The
  results are the output, the output still due, and the counter.
\<close>

definition advance_with_deferred_output ::
  "u128 \<Rightarrow> bool \<Rightarrow> counter \<Rightarrow> (bool \<times> bool \<times> counter) option" where
  "advance_with_deferred_output input_pulses output_due c =
     (if input_pulses = 0 then Some (False, output_due, c)
      else do {
        (output, due) <- (case rate_generator_state c of
            Some (reload, remaining) \<Rightarrow>
              if ucast remaining \<le> input_pulses
              then let after_first_terminal = input_pulses - ucast remaining
                   in Some (output_due \<or> after_first_terminal \<noteq> 0,
                        if reload = 0 then after_first_terminal = 0
                        else after_first_terminal mod ucast reload = 0)
              else Some (output_due, False)
          | None \<Rightarrow> Some (output_due, False));
        (_, c1) <- counter_advance input_pulses c;
        Some (output, due, c1)
      })"

section \<open>The timer\<close>

datatype control_command =
    LatchCommand counter_id
  | ConfigureCommand counter_id counter_mode
  | QuiesceCommand counter_id

definition control_command_decode :: "u8 \<Rightarrow> bus_error + control_command" where
  "control_command_decode value = (
     let selector = drop_bit 6 value;
         read_write = drop_bit 4 value AND 3
     in if selector = 3 then Inl UnimplementedAccess
        else let counter = (if selector = 0 then CounterZero else if selector = 1 then CounterOne
               else CounterTwo)
        in if read_write = 0 then Inr (LatchCommand counter)
           else if read_write \<noteq> 3 \<or> value AND 1 \<noteq> 0 then Inl UnimplementedAccess
           else let mode = drop_bit 1 value AND 7
             in if mode = 1 then Inr (ConfigureCommand counter Mode1)
                else if mode = 2 then Inr (ConfigureCommand counter Mode2)
                else if mode = 4 then Inr (QuiesceCommand counter)
                else Inl UnimplementedAccess)"

definition clear_deferred_output :: "counter_id \<Rightarrow> programmable_timer \<Rightarrow> programmable_timer option" where
  "clear_deferred_output counter t =
     (case interrupt_index counter of
        Some index \<Rightarrow>
          map_option (\<lambda>d. t\<lparr>pt_deferred_outputs := d\<rparr>) (set_at (pt_deferred_outputs t) index False)
      | None \<Rightarrow> Some t)"

definition timer_write_control ::
  "u8 \<Rightarrow> programmable_timer \<Rightarrow> ((bus_error + unit) \<times> programmable_timer) option" where
  "timer_write_control value t =
     (case control_command_decode value of
        Inl e \<Rightarrow> Some (Inl e, t)
      | Inr (LatchCommand counter) \<Rightarrow> do {
          c <- get_at (pt_counters t) (counter_index counter);
          (r, c1) <- counter_latch c;
          cs <- set_at (pt_counters t) (counter_index counter) c1;
          Some (r, t\<lparr>pt_counters := cs\<rparr>)
        }
      | Inr (ConfigureCommand counter mode) \<Rightarrow> do {
          c <- get_at (pt_counters t) (counter_index counter);
          cs <- set_at (pt_counters t) (counter_index counter) (counter_configure mode c);
          t1 <- clear_deferred_output counter (t\<lparr>pt_counters := cs\<rparr>);
          Some (Inr (), t1)
        }
      | Inr (QuiesceCommand counter) \<Rightarrow> do {
          c <- get_at (pt_counters t) (counter_index counter);
          cs <- set_at (pt_counters t) (counter_index counter) (counter_quiesce c);
          t1 <- clear_deferred_output counter (t\<lparr>pt_counters := cs\<rparr>);
          Some (Inr (), t1)
        })"

definition timer_write_counter ::
  "counter_id \<Rightarrow> u8 \<Rightarrow> programmable_timer \<Rightarrow> ((bus_error + unit) \<times> programmable_timer) option" where
  "timer_write_counter counter value t =
     do {
       c <- get_at (pt_counters t) (counter_index counter);
       let (r, c1) = counter_write value c;
       cs <- set_at (pt_counters t) (counter_index counter) c1;
       Some (r, t\<lparr>pt_counters := cs\<rparr>)
     }"

definition timer_read_counter ::
  "counter_id \<Rightarrow> programmable_timer \<Rightarrow> ((bus_error + u8) \<times> programmable_timer) option" where
  "timer_read_counter counter t =
     do {
       c <- get_at (pt_counters t) (counter_index counter);
       let (r, c1) = counter_read c;
       cs <- set_at (pt_counters t) (counter_index counter) c1;
       Some (r, t\<lparr>pt_counters := cs\<rparr>)
     }"

definition timer_debug_read_counter :: "counter_id \<Rightarrow> programmable_timer \<Rightarrow> (bus_error + u8) option" where
  "timer_debug_read_counter counter t =
     map_option counter_peek (get_at (pt_counters t) (counter_index counter))"

text \<open>Whole oscillator ticks in the elapsed time, and the phase left over.\<close>

definition oscillator_ticks :: "virtual_duration \<Rightarrow> u128 \<Rightarrow> u128 \<times> u128" where
  "oscillator_ticks elapsed phase = (
     let elapsed_ticks = elapsed div ATTOSECONDS_PER_TICK;
         partial_attoseconds = elapsed mod ATTOSECONDS_PER_TICK;
         combined_phase = phase + partial_attoseconds
     in (elapsed_ticks + combined_phase div ATTOSECONDS_PER_TICK,
         combined_phase mod ATTOSECONDS_PER_TICK))"

definition timer_advance_time ::
  "virtual_duration \<Rightarrow> programmable_timer \<Rightarrow> (timer_outputs \<times> programmable_timer) option" where
  "timer_advance_time elapsed t =
     do {
       let (ticks, phase) = oscillator_ticks elapsed (pt_oscillator_phase t);
       c2 <- get_at (pt_counters t) 2;
       (counter_2_outputs, c2') <- counter_advance ticks c2;
       cs2 <- set_at (pt_counters t) 2 c2';
       c0 <- get_at cs2 0;
       d0 <- get_at (pt_deferred_outputs t) 0;
       (out0, d0', c0') <- advance_with_deferred_output counter_2_outputs d0 c0;
       cs0 <- set_at cs2 0 c0';
       ds0 <- set_at (pt_deferred_outputs t) 0 d0';
       c1 <- get_at cs0 1;
       d1 <- get_at ds0 1;
       (out1, d1', c1') <- advance_with_deferred_output counter_2_outputs d1 c1;
       cs1 <- set_at cs0 1 c1';
       ds1 <- set_at ds0 1 d1';
       Some (\<lparr>to_counter_0 = out0, to_counter_1 = out1\<rparr>,
         t\<lparr>pt_counters := cs1, pt_deferred_outputs := ds1, pt_oscillator_phase := phase\<rparr>)
     }"

definition time_until_output :: "counter_id \<Rightarrow> programmable_timer \<Rightarrow> virtual_duration option option" where
  "time_until_output counter t =
     (if counter = CounterTwo then Some None
      else do {
        c2 <- get_at (pt_counters t) 2;
        case rate_generator_state c2 of
          None \<Rightarrow> Some None
        | Some (counter_2_reload, counter_2_remaining) \<Rightarrow> do {
            index <- interrupt_index counter;
            deferred <- get_at (pt_deferred_outputs t) index;
            let due = (\<lambda>ticks. Some (Some (ticks * ATTOSECONDS_PER_TICK - pt_oscillator_phase t)));
            if deferred then due (ucast counter_2_remaining)
            else do {
              c <- get_at (pt_counters t) (counter_index counter);
              case rate_generator_state c of
                None \<Rightarrow> Some None
              | Some (_, downstream_remaining) \<Rightarrow>
                  due (ucast counter_2_remaining + ucast downstream_remaining * ucast counter_2_reload)
            }
          }
      })"

end
