(* ===== verification/Int2.thy ===== *)
theory Int2
  imports Int2_Timer
begin

text \<open>
  The INT2 interrupt controller, \<^verbatim>\<open>se_device/src/int2.rs\<close>: two banks of local
  interrupts with their masks, the GIO interrupt latch with its clear line on the output port,
  and the two timer interrupts.
\<close>

definition LOCAL_INTERRUPT_0_STATUS :: u64 where "LOCAL_INTERRUPT_0_STATUS = 0x00"
definition LOCAL_INTERRUPT_0_MASK :: u64 where "LOCAL_INTERRUPT_0_MASK = 0x04"
definition LOCAL_INTERRUPT_1_STATUS :: u64 where "LOCAL_INTERRUPT_1_STATUS = 0x08"
definition LOCAL_INTERRUPT_1_MASK :: u64 where "LOCAL_INTERRUPT_1_MASK = 0x0c"
definition VME_INTERRUPT_STATUS :: u64 where "VME_INTERRUPT_STATUS = 0x10"
definition VME_INTERRUPT_0_MASK :: u64 where "VME_INTERRUPT_0_MASK = 0x14"
definition VME_INTERRUPT_1_MASK :: u64 where "VME_INTERRUPT_1_MASK = 0x18"
definition OUTPUT_PORT :: u64 where "OUTPUT_PORT = 0x1c"
definition TIMER_ACKNOWLEDGE_WINDOW :: u64 where "TIMER_ACKNOWLEDGE_WINDOW = 0x20"
definition PROGRAMMABLE_TIMER_CLOCK :: u64 where "PROGRAMMABLE_TIMER_CLOCK = 0x30"
definition SYSTEM_TIMER_COUNTER_0 :: u64 where "SYSTEM_TIMER_COUNTER_0 = 0x33"
definition SYSTEM_TIMER_COUNTER_1 :: u64 where "SYSTEM_TIMER_COUNTER_1 = 0x37"
definition SYSTEM_TIMER_COUNTER_2 :: u64 where "SYSTEM_TIMER_COUNTER_2 = 0x3b"
definition SYSTEM_TIMER_CONTROL :: u64 where "SYSTEM_TIMER_CONTROL = 0x3f"
definition OUTPUT_BITS :: u8 where "OUTPUT_BITS = 0x1f"
definition LOCAL_1_GIO_INTERRUPT_2 :: u8 where "LOCAL_1_GIO_INTERRUPT_2 = 0x80"
definition OUTPUT_GIO_INTERRUPT_2_CLEAR :: u8 where "OUTPUT_GIO_INTERRUPT_2_CLEAR = push_bit 3 1"
definition GIO_INTERRUPT_2_STATUS :: u32 where "GIO_INTERRUPT_2_STATUS = 0x01"

lemmas int2_address_defs =
  LOCAL_INTERRUPT_0_STATUS_def LOCAL_INTERRUPT_0_MASK_def LOCAL_INTERRUPT_1_STATUS_def
  LOCAL_INTERRUPT_1_MASK_def VME_INTERRUPT_STATUS_def VME_INTERRUPT_0_MASK_def
  VME_INTERRUPT_1_MASK_def OUTPUT_PORT_def TIMER_ACKNOWLEDGE_WINDOW_def
  PROGRAMMABLE_TIMER_CLOCK_def SYSTEM_TIMER_COUNTER_0_def SYSTEM_TIMER_COUNTER_1_def
  SYSTEM_TIMER_COUNTER_2_def SYSTEM_TIMER_CONTROL_def

record int2 =
  i2_local_interrupt_status_0 :: u8
  i2_local_interrupt_status_1 :: u8
  i2_local_interrupt_mask_0 :: u8
  i2_local_interrupt_mask_1 :: u8
  i2_vme_interrupt_mask_0 :: u8
  i2_vme_interrupt_mask_1 :: u8
  i2_output_port :: u8
  i2_timer_pending_0 :: bool
  i2_timer_pending_1 :: bool
  i2_timer :: programmable_timer
  i2_gio_interrupt_2_input :: bool
  i2_gio_interrupt_2_latch :: bool

definition int2_new :: int2 where
  "int2_new =
     \<lparr>i2_local_interrupt_status_0 = 0, i2_local_interrupt_status_1 = 0, i2_local_interrupt_mask_0 = 0,
      i2_local_interrupt_mask_1 = 0, i2_vme_interrupt_mask_0 = 0, i2_vme_interrupt_mask_1 = 0,
      i2_output_port = 0, i2_timer_pending_0 = False, i2_timer_pending_1 = False,
      i2_timer = timer_new, i2_gio_interrupt_2_input = False, i2_gio_interrupt_2_latch = False\<rparr>"

definition int2_reset :: "int2 \<Rightarrow> int2" where
  "int2_reset i =
     i\<lparr>i2_local_interrupt_status_0 := 0, i2_local_interrupt_status_1 := 0,
       i2_local_interrupt_mask_0 := 0, i2_local_interrupt_mask_1 := 0, i2_vme_interrupt_mask_0 := 0,
       i2_vme_interrupt_mask_1 := 0, i2_output_port := 0, i2_timer_pending_0 := False,
       i2_timer_pending_1 := False, i2_timer := timer_new, i2_gio_interrupt_2_input := False,
       i2_gio_interrupt_2_latch := False\<rparr>"

section \<open>Inputs and outputs\<close>

definition set_gio_interrupt_2_input :: "bool \<Rightarrow> int2 \<Rightarrow> int2" where
  "set_gio_interrupt_2_input asserted i = (
     let rising_edge = asserted \<and> \<not> i2_gio_interrupt_2_input i;
         i1 = i\<lparr>i2_gio_interrupt_2_input := asserted\<rparr>
     in if rising_edge \<and> i2_output_port i1 AND OUTPUT_GIO_INTERRUPT_2_CLEAR \<noteq> 0
        then i1\<lparr>i2_gio_interrupt_2_latch := True\<rparr> else i1)"

definition set_local_interrupt_0_input :: "u8 \<Rightarrow> bool \<Rightarrow> int2 \<Rightarrow> int2" where
  "set_local_interrupt_0_input lines asserted i =
     (if asserted
      then i\<lparr>i2_local_interrupt_status_0 := i2_local_interrupt_status_0 i OR lines\<rparr>
      else i\<lparr>i2_local_interrupt_status_0 := i2_local_interrupt_status_0 i AND NOT lines\<rparr>)"

definition set_local_interrupt_1_input :: "u8 \<Rightarrow> bool \<Rightarrow> int2 \<Rightarrow> int2" where
  "set_local_interrupt_1_input lines asserted i =
     (if asserted
      then i\<lparr>i2_local_interrupt_status_1 := i2_local_interrupt_status_1 i OR lines\<rparr>
      else i\<lparr>i2_local_interrupt_status_1 := i2_local_interrupt_status_1 i AND NOT lines\<rparr>)"

definition local_interrupt_1_status :: "int2 \<Rightarrow> u8" where
  "local_interrupt_1_status i =
     (if i2_gio_interrupt_2_latch i then i2_local_interrupt_status_1 i OR LOCAL_1_GIO_INTERRUPT_2
      else i2_local_interrupt_status_1 i)"

definition local_interrupt_0_asserted :: "int2 \<Rightarrow> bool" where
  "local_interrupt_0_asserted i \<longleftrightarrow> i2_local_interrupt_status_0 i AND i2_local_interrupt_mask_0 i \<noteq> 0"

definition local_interrupt_1_asserted :: "int2 \<Rightarrow> bool" where
  "local_interrupt_1_asserted i \<longleftrightarrow> local_interrupt_1_status i AND i2_local_interrupt_mask_1 i \<noteq> 0"

definition timer_0_interrupt_asserted :: "int2 \<Rightarrow> bool" where
  "timer_0_interrupt_asserted i = i2_timer_pending_0 i"

definition timer_1_interrupt_asserted :: "int2 \<Rightarrow> bool" where
  "timer_1_interrupt_asserted i = i2_timer_pending_1 i"

section \<open>Time\<close>

definition int2_advance_time :: "virtual_duration \<Rightarrow> int2 \<Rightarrow> int2 option" where
  "int2_advance_time elapsed i =
     do {
       (outputs, t) <- timer_advance_time elapsed (i2_timer i);
       Some (i\<lparr>i2_timer := t,
         i2_timer_pending_0 := i2_timer_pending_0 i \<or> to_counter_0 outputs,
         i2_timer_pending_1 := i2_timer_pending_1 i \<or> to_counter_1 outputs\<rparr>)
     }"

definition int2_time_until_event :: "int2 \<Rightarrow> virtual_duration option option" where
  "int2_time_until_event i =
     do {
       timer_0 <- (if i2_timer_pending_0 i then Some None
         else time_until_output CounterZero (i2_timer i));
       timer_1 <- (if i2_timer_pending_1 i then Some None
         else time_until_output CounterOne (i2_timer i));
       Some (case (timer_0, timer_1) of
           (Some t0, Some t1) \<Rightarrow> Some (min t0 t1)
         | (Some t, None) \<Rightarrow> Some t
         | (None, Some t) \<Rightarrow> Some t
         | (None, None) \<Rightarrow> None)
     }"

section \<open>Registers\<close>

datatype int2_register =
    LocalInterrupt0Status
  | LocalInterrupt0Mask
  | LocalInterrupt1Status
  | LocalInterrupt1Mask
  | VmeInterruptStatus
  | VmeInterrupt0Mask
  | VmeInterrupt1Mask
  | OutputPort

fun status_value :: "int2 \<Rightarrow> int2_register \<Rightarrow> u8" where
  "status_value i LocalInterrupt0Status = i2_local_interrupt_status_0 i"
| "status_value i LocalInterrupt1Status = local_interrupt_1_status i"
| "status_value i VmeInterruptStatus =
     (if i2_gio_interrupt_2_input i then 0 else ucast GIO_INTERRUPT_2_STATUS)"
| "status_value i LocalInterrupt0Mask = i2_local_interrupt_mask_0 i"
| "status_value i LocalInterrupt1Mask = i2_local_interrupt_mask_1 i"
| "status_value i VmeInterrupt0Mask = i2_vme_interrupt_mask_0 i"
| "status_value i VmeInterrupt1Mask = i2_vme_interrupt_mask_1 i"
| "status_value i OutputPort = i2_output_port i"

definition decode_word_window :: "u64 \<Rightarrow> u64 \<Rightarrow> u64 \<Rightarrow> nat option" where
  "decode_word_window base start stop =
     (if base \<le> start \<and> stop \<le> base + REGISTER_BYTES then Some (unat (start - base)) else None)"

fun decode_word_registers :: "(u64 \<times> int2_register) list \<Rightarrow> u64 \<Rightarrow> u64 \<Rightarrow> (int2_register \<times> nat) option" where
  "decode_word_registers [] start stop = None"
| "decode_word_registers ((base, register) # rest) start stop =
     (case decode_word_window base start stop of
        Some offset \<Rightarrow> Some (register, offset)
      | None \<Rightarrow> decode_word_registers rest start stop)"

definition decode_word_register :: "u64 \<Rightarrow> u64 \<Rightarrow> (int2_register \<times> nat) option" where
  "decode_word_register =
     decode_word_registers
       [(LOCAL_INTERRUPT_0_STATUS, LocalInterrupt0Status), (LOCAL_INTERRUPT_0_MASK, LocalInterrupt0Mask),
        (LOCAL_INTERRUPT_1_STATUS, LocalInterrupt1Status), (LOCAL_INTERRUPT_1_MASK, LocalInterrupt1Mask),
        (VME_INTERRUPT_STATUS, VmeInterruptStatus), (VME_INTERRUPT_0_MASK, VmeInterrupt0Mask),
        (VME_INTERRUPT_1_MASK, VmeInterrupt1Mask), (OUTPUT_PORT, OutputPort)]"

definition decode_timer_counter :: "u64 \<Rightarrow> counter_id option" where
  "decode_timer_counter address =
     (if address = SYSTEM_TIMER_COUNTER_0 then Some CounterZero
      else if address = SYSTEM_TIMER_COUNTER_1 then Some CounterOne
      else if address = SYSTEM_TIMER_COUNTER_2 then Some CounterTwo
      else None)"

definition write_byte_register :: "u8 \<Rightarrow> nat \<Rightarrow> u8 list \<Rightarrow> u8 option" where
  "write_byte_register register offset data =
     do {
       require (offset + length data \<le> 4);
       Some (splice_bytes offset data (to_be_bytes32 (ucast register)) ! 3)
     }"

definition acknowledge_timers :: "u8 \<Rightarrow> int2 \<Rightarrow> int2" where
  "acknowledge_timers value i = (
     let i1 = (if value AND 1 \<noteq> 0 then i\<lparr>i2_timer_pending_0 := False\<rparr> else i)
     in if value AND 2 \<noteq> 0 then i1\<lparr>i2_timer_pending_1 := False\<rparr> else i1)"

definition int2_read :: "int2 \<Rightarrow> device_addr \<Rightarrow> nat \<Rightarrow> ((bus_error + u8 list) \<times> int2) option" where
  "int2_read i address len =
     (case transaction_bounds address len of
        Inl e \<Rightarrow> Some (Inl e, i)
      | Inr (start, stop) \<Rightarrow>
          (case decode_word_register start stop of
             Some (register, offset) \<Rightarrow>
               map_option (\<lambda>bs. (Inr bs, i)) (read_register (ucast (status_value i register)) offset len)
           | None \<Rightarrow>
               if start = PROGRAMMABLE_TIMER_CLOCK \<or> start = SYSTEM_TIMER_CONTROL
               then Some (Inl UnimplementedAccess, i)
               else (case decode_timer_counter start of
                   Some counter \<Rightarrow>
                     if stop \<noteq> start + 1 then Some (Inl UnimplementedAccess, i)
                     else map_option (\<lambda>(r, t). (map_sum id (\<lambda>v. [v]) r, i\<lparr>i2_timer := t\<rparr>))
                       (timer_read_counter counter (i2_timer i))
                 | None \<Rightarrow>
                     Some (Inl (if crosses_registers start stop then HardwareFault
                       else UnimplementedAccess), i))))"

definition int2_debug_read :: "int2 \<Rightarrow> device_addr \<Rightarrow> nat \<Rightarrow> (bus_error + u8 list) option" where
  "int2_debug_read i address len =
     (case transaction_bounds address len of
        Inl e \<Rightarrow> Some (Inl e)
      | Inr (start, stop) \<Rightarrow>
          (case decode_word_register start stop of
             Some (register, offset) \<Rightarrow>
               map_option Inr (read_register (ucast (status_value i register)) offset len)
           | None \<Rightarrow>
               if start = PROGRAMMABLE_TIMER_CLOCK \<or> start = SYSTEM_TIMER_CONTROL
               then Some (Inl UnimplementedAccess)
               else (case decode_timer_counter start of
                   Some counter \<Rightarrow>
                     if stop \<noteq> start + 1 then Some (Inl UnimplementedAccess)
                     else map_option (map_sum id (\<lambda>v. [v])) (timer_debug_read_counter counter (i2_timer i))
                 | None \<Rightarrow>
                     Some (Inl (if crosses_registers start stop then HardwareFault
                       else UnimplementedAccess)))))"

fun int2_write_register :: "int2_register \<Rightarrow> nat \<Rightarrow> u8 list \<Rightarrow> int2 \<Rightarrow> ((bus_error + unit) \<times> int2) option" where
  "int2_write_register LocalInterrupt0Mask offset data i =
     map_option (\<lambda>v. (Inr (), i\<lparr>i2_local_interrupt_mask_0 := v\<rparr>))
       (write_byte_register (i2_local_interrupt_mask_0 i) offset data)"
| "int2_write_register LocalInterrupt1Mask offset data i =
     map_option (\<lambda>v. (Inr (), i\<lparr>i2_local_interrupt_mask_1 := v\<rparr>))
       (write_byte_register (i2_local_interrupt_mask_1 i) offset data)"
| "int2_write_register VmeInterrupt0Mask offset data i =
     map_option (\<lambda>v. (Inr (), i\<lparr>i2_vme_interrupt_mask_0 := v\<rparr>))
       (write_byte_register (i2_vme_interrupt_mask_0 i) offset data)"
| "int2_write_register VmeInterrupt1Mask offset data i =
     map_option (\<lambda>v. (Inr (), i\<lparr>i2_vme_interrupt_mask_1 := v\<rparr>))
       (write_byte_register (i2_vme_interrupt_mask_1 i) offset data)"
| "int2_write_register OutputPort offset data i =
     do {
       v <- write_byte_register (i2_output_port i) offset data;
       let i1 = i\<lparr>i2_output_port := v AND OUTPUT_BITS\<rparr>;
       Some (Inr (),
         if i2_output_port i1 AND OUTPUT_GIO_INTERRUPT_2_CLEAR = 0
         then i1\<lparr>i2_gio_interrupt_2_latch := False\<rparr> else i1)
     }"
| "int2_write_register _ offset data i = Some (Inl UnimplementedAccess, i)"

definition int2_write :: "int2 \<Rightarrow> device_addr \<Rightarrow> u8 list \<Rightarrow> ((bus_error + unit) \<times> int2) option" where
  "int2_write i address data =
     (case transaction_bounds address (length data) of
        Inl e \<Rightarrow> Some (Inl e, i)
      | Inr (start, stop) \<Rightarrow>
          (case decode_word_register start stop of
             Some (register, offset) \<Rightarrow> int2_write_register register offset data i
           | None \<Rightarrow>
          (case decode_word_window TIMER_ACKNOWLEDGE_WINDOW start stop of
             Some offset \<Rightarrow>
               map_option (\<lambda>v. (Inr (), acknowledge_timers v i)) (write_byte_register 0 offset data)
           | None \<Rightarrow>
               if start = PROGRAMMABLE_TIMER_CLOCK \<and> stop = start + 1 then Some (Inr (), i)
               else (case decode_timer_counter start of
                   Some counter \<Rightarrow>
                     if stop \<noteq> start + 1 then Some (Inl UnimplementedAccess, i)
                     else map_option (\<lambda>(r, t). (r, i\<lparr>i2_timer := t\<rparr>))
                       (timer_write_counter counter (data ! 0) (i2_timer i))
                 | None \<Rightarrow>
                     if start = SYSTEM_TIMER_CONTROL \<and> stop = start + 1
                     then map_option (\<lambda>(r, t). (r, i\<lparr>i2_timer := t\<rparr>))
                       (timer_write_control (data ! 0) (i2_timer i))
                     else if start = PROGRAMMABLE_TIMER_CLOCK \<or> start = SYSTEM_TIMER_CONTROL
                     then Some (Inl UnimplementedAccess, i)
                     else Some (Inl (if crosses_registers start stop then HardwareFault
                       else UnimplementedAccess), i)))))"

end
