(* ===== verification/Int2_Correct.thy ===== *)
theory Int2_Correct
  imports Int2 Timed
begin

text \<open>
  INT2 and its timer against a pulse-by-pulse reference: advancing a counter by a number of
  pulses at once is feeding it the pulses one at a time, elapsed time may be delivered in any
  pieces, and the announced time of the next timer interrupt is exact.
\<close>

section \<open>One counter, pulse by pulse\<close>

definition pulse :: "counter \<Rightarrow> bool \<times> counter" where
  "pulse c =
     (case co_state c of
        RateGenerator reload remaining \<Rightarrow>
          if remaining = 1 then (True, c\<lparr>co_state := RateGenerator reload reload\<rparr>)
          else (False, c\<lparr>co_state := RateGenerator reload (remaining - 1)\<rparr>)
      | _ \<Rightarrow> (False, c))"

primrec pulses :: "nat \<Rightarrow> counter \<Rightarrow> nat \<times> counter" where
  "pulses 0 c = (0, c)"
| "pulses (Suc n) c =
     (let (k, c1) = pulses n c; (out, c2) = pulse c1 in (k + of_bool out, c2))"

definition counter_ok :: "counter \<Rightarrow> bool" where
  "counter_ok c =
     (case co_state c of
        RateGenerator reload remaining \<Rightarrow>
          1 \<le> unat remaining \<and> unat remaining \<le> unat reload \<and> unat reload \<le> 65536
      | WaitingForGate reload \<Rightarrow> unat reload \<le> 65536
      | _ \<Rightarrow> True)"

lemma pulses_idle: "rate_generator_state c = None \<Longrightarrow> pulses n c = (0, c)"
  by (induction n) (simp_all add: pulse_def rate_generator_state_def split: counter_state.splits)

lemma rate_generator_Some:
  "rate_generator_state c = Some (reload, remaining) \<longleftrightarrow> co_state c = RateGenerator reload remaining"
  by (simp add: rate_generator_state_def split: counter_state.splits)

text \<open>Where a counter stands after \<open>n\<close> pulses, in natural numbers.\<close>

definition next_remaining :: "nat \<Rightarrow> nat \<Rightarrow> nat" where
  "next_remaining reload position = (if position = 0 then reload else reload - position)"

lemma pulses_closed:
  assumes "co_state c = RateGenerator reload remaining" "counter_ok c"
  shows "pulses n c =
    (if n < unat remaining then (0, c\<lparr>co_state := RateGenerator reload (word_of_nat (unat remaining - n))\<rparr>)
     else (1 + (n - unat remaining) div unat reload,
       c\<lparr>co_state := RateGenerator reload
         (word_of_nat (next_remaining (unat reload) ((n - unat remaining) mod unat reload)))\<rparr>))"
proof (induction n)
  case 0
  have "c\<lparr>co_state := RateGenerator reload remaining\<rparr> = c" using assms(1) by simp
  then show ?case using assms by (simp add: counter_ok_def)
next
  case (Suc n)
  let ?r = "unat remaining" and ?R = "unat reload"
  have ok: "1 \<le> ?r" "?r \<le> ?R" "?R \<le> 65536" using assms by (simp_all add: counter_ok_def)
  have word_eq_1: "word_of_nat m = (1 :: u32) \<longleftrightarrow> m = 1" if "m \<le> 65536" for m
    using that by (simp add: word_unat_eq_iff unat_of_nat)
  have minus_1: "word_of_nat m - 1 = (word_of_nat (m - 1) :: u32)" if "1 \<le> m" for m
    using that by (simp add: of_nat_diff)
  consider "Suc n < ?r" | "Suc n = ?r" | "?r \<le> n" by linarith
  then show ?case
  proof cases
    case 1
    then show ?thesis
      using Suc ok word_eq_1 [of "?r - n"] minus_1 [of "?r - n"] by (simp add: pulse_def)
  next
    case 2
    then have n: "?r - n = 1" "n < ?r" by simp_all
    have "pulses (Suc n) c = (1, c\<lparr>co_state := RateGenerator reload reload\<rparr>)"
      unfolding pulses.simps Suc using n by (simp add: pulse_def)
    then show ?thesis using 2 ok by (simp add: next_remaining_def)
  next
    case 3
    define q p where "q = (n - ?r) div ?R" and "p = (n - ?r) mod ?R"
    have p: "p < ?R" using ok by (simp add: p_def)
    have suc: "Suc n - ?r = Suc (n - ?r)" using 3 by simp
    have next_eq_1: "next_remaining ?R p = 1 \<longleftrightarrow> Suc p = ?R"
      using p ok by (auto simp: next_remaining_def)
    have bound: "next_remaining ?R p \<le> 65536" "1 \<le> next_remaining ?R p"
      using p ok by (auto simp: next_remaining_def)
    have "pulses n c = (1 + q, c\<lparr>co_state := RateGenerator reload (word_of_nat (next_remaining ?R p))\<rparr>)"
      using Suc 3 by (simp add: q_def p_def)
    then show ?thesis
      using 3 p ok next_eq_1 word_eq_1 [OF bound(1)] minus_1 [OF bound(2)]
      by (auto simp: pulse_def suc div_Suc mod_Suc q_def [symmetric] p_def [symmetric] next_remaining_def)
  qed
qed

lemma unat_ucast_up: "unat (ucast w :: u128) = unat w" for w :: u32
  by (simp add: unsigned_ucast_eq unsigned_take_bit_eq take_bit_nat_eq_self less_trans [OF unsigned_less])

lemma counter_advance_pulses:
  assumes "counter_ok c"
  shows "counter_advance n c = Some (word_of_nat (fst (pulses (unat n) c)), snd (pulses (unat n) c))"
proof (cases "rate_generator_state c")
  case None
  then show ?thesis
    by (simp add: pulses_idle) (simp add: counter_advance_def rate_generator_state_def split: counter_state.splits)
next
  case (Some s)
  obtain reload remaining where state: "co_state c = RateGenerator reload remaining"
    using Some by (cases s) (simp add: rate_generator_Some)
  let ?r = "unat remaining" and ?R = "unat reload"
  have ok: "1 \<le> ?r" "?r \<le> ?R" "?R \<le> 65536" using assms state by (simp_all add: counter_ok_def)
  have less: "n < ucast remaining \<longleftrightarrow> unat n < ?r"
    by (simp add: word_less_nat_alt unat_ucast_up)
  show ?thesis
  proof (cases "unat n < ?r")
    case True
    then have "word_of_nat (?r - unat n) = remaining - (ucast n :: u32)"
      by (simp add: of_nat_diff)
    then show ?thesis
      using True state less by (simp add: pulses_closed [OF state assms] counter_advance_def)
  next
    case False
    define a where "a = n - ucast remaining"
    have a: "unat a = unat n - ?r"
      using False by (simp add: a_def unat_sub_if' unat_ucast_up)
    have wide: "unat (ucast reload :: u128) = ?R" by (rule unat_ucast_up)
    have mod: "unat (a mod ucast reload) = unat a mod ?R" by (simp add: unat_mod wide)
    have mod_lt: "unat a mod ?R < ?R" using ok by simp
    have count: "1 + a div ucast reload = word_of_nat (1 + unat a div ?R)"
      using unat_div [of a "ucast reload"] by (metis of_nat_unat of_nat_add of_nat_1 ucast_id wide)
    have position: "a mod ucast reload = 0 \<longleftrightarrow> unat a mod ?R = 0"
      by (simp add: mod [symmetric] unat_eq_zero)
    have rest: "(ucast (ucast reload - a mod ucast reload :: u128) :: u32) = word_of_nat (?R - unat a mod ?R)"
    proof -
      have "unat (ucast reload - a mod ucast reload :: u128) = ?R - unat a mod ?R"
        using mod_lt by (simp add: unat_sub_if' wide mod)
      then show ?thesis by (metis of_nat_unat)
    qed
    have "reload \<noteq> 0" "(ucast reload :: u128) \<noteq> 0" using ok wide by (auto simp: unat_eq_zero [symmetric])
    then show ?thesis
      using False less
      by (simp add: counter_advance_def state pulses_closed [OF state assms] a_def [symmetric] count position
          rest a [symmetric] next_remaining_def Let_def)
  qed
qed

lemma pulses_le: "fst (pulses n c) \<le> n"
  by (induction n) (auto simp: split_beta)

lemma pulses_add:
  "pulses (m + n) c = (fst (pulses m c) + fst (pulses n (snd (pulses m c))), snd (pulses n (snd (pulses m c))))"
  by (induction n) (simp_all add: split_beta)

lemma counter_ok_pulse: "counter_ok c \<Longrightarrow> counter_ok (snd (pulse c))"
proof -
  assume c: "counter_ok c"
  show ?thesis
  proof (cases "rate_generator_state c")
    case None
    then show ?thesis
      using c by (simp add: pulse_def rate_generator_state_def split: counter_state.splits)
  next
    case (Some s)
    then obtain reload remaining where state: "co_state c = RateGenerator reload remaining"
      by (cases s) (simp add: rate_generator_Some)
    have "unat (remaining - 1) = unat remaining - 1" if "remaining \<noteq> 0"
      using that by (simp add: unat_sub_if' unat_eq_zero [symmetric] del: unat_eq_zero)
    then show ?thesis
      using c state by (auto simp: pulse_def counter_ok_def word_unat_eq_iff)
  qed
qed

lemma counter_ok_pulses: "counter_ok c \<Longrightarrow> counter_ok (snd (pulses n c))"
  by (induction n) (simp_all add: split_beta counter_ok_pulse)

section \<open>Deferred outputs\<close>

text \<open>The output of a clocked counter follows its terminal count by one pulse.\<close>

primrec deferred_pulses :: "nat \<Rightarrow> bool \<Rightarrow> counter \<Rightarrow> bool \<times> bool \<times> counter" where
  "deferred_pulses 0 due c = (False, due, c)"
| "deferred_pulses (Suc n) due c =
     (let (out, due1, c1) = deferred_pulses n due c; (terminal, c2) = pulse c1
      in (out \<or> due1, terminal, c2))"

lemma deferred_pulses_counter: "snd (snd (deferred_pulses n due c)) = snd (pulses n c)"
  by (induction n) (simp_all add: split_beta)

lemma deferred_pulses_Suc:
  "fst (deferred_pulses (Suc n) due c) \<longleftrightarrow> due \<or> 1 \<le> fst (pulses n c)"
  "fst (snd (deferred_pulses (Suc n) due c)) \<longleftrightarrow> fst (pulses (Suc n) c) \<noteq> fst (pulses n c)"
proof -
  have due: "fst (snd (deferred_pulses (Suc n) due c)) \<longleftrightarrow> fst (pulses (Suc n) c) \<noteq> fst (pulses n c)" for n
    by (simp add: split_beta deferred_pulses_counter)
  then show "fst (snd (deferred_pulses (Suc n) due c)) \<longleftrightarrow> fst (pulses (Suc n) c) \<noteq> fst (pulses n c)" .
  show "fst (deferred_pulses (Suc n) due c) \<longleftrightarrow> due \<or> 1 \<le> fst (pulses n c)"
  proof (induction n)
    case (Suc n)
    have "fst (deferred_pulses (Suc (Suc n)) due c) \<longleftrightarrow>
        fst (deferred_pulses (Suc n) due c) \<or> fst (snd (deferred_pulses (Suc n) due c))"
      by (subst deferred_pulses.simps) (simp add: split_beta)
    then show ?case unfolding Suc due by (auto simp: split_beta)
  qed simp
qed

lemma deferred_pulses_add:
  "deferred_pulses (m + n) due c =
     (let (out1, due1, c1) = deferred_pulses m due c; (out2, due2, c2) = deferred_pulses n due1 c1
      in (out1 \<or> out2, due2, c2))"
  by (induction n) (simp_all add: split_beta Let_def disj_assoc)

lemma advance_deferred_pulses:
  assumes "counter_ok c"
  shows "advance_with_deferred_output n due c = Some (deferred_pulses (unat n) due c)"
proof (cases "n = 0")
  case True
  then show ?thesis by (simp add: advance_with_deferred_output_def)
next
  case False
  then obtain m where m: "unat n = Suc m" by (metis not0_implies_Suc unat_eq_zero)
  have whole: "deferred_pulses (unat n) due c =
      (due \<or> 1 \<le> fst (pulses m c), fst (pulses (Suc m) c) \<noteq> fst (pulses m c), snd (pulses (unat n) c))"
    unfolding m
    by (simp only: prod_eq_iff fst_conv snd_conv deferred_pulses_Suc deferred_pulses_counter simp_thms)
  show ?thesis
  proof (cases "rate_generator_state c")
    case None
    then show ?thesis
      using False assms whole
      by (simp add: advance_with_deferred_output_def counter_advance_pulses pulses_idle del: pulses.simps)
  next
    case (Some s)
    then obtain reload remaining where state: "co_state c = RateGenerator reload remaining"
      "rate_generator_state c = Some (reload, remaining)"
      by (cases s) (simp add: rate_generator_Some)
    let ?r = "unat remaining" and ?R = "unat reload"
    have ok: "1 \<le> ?r" "?r \<le> ?R" "reload \<noteq> 0"
      using assms state by (auto simp: counter_ok_def)
    have le: "ucast remaining \<le> n \<longleftrightarrow> ?r \<le> Suc m"
      by (simp add: word_le_nat_alt unat_ucast_up m)
    have after: "unat (n - ucast remaining) = Suc m - ?r" if "?r \<le> Suc m"
      using that m by (simp add: unat_sub_if' unat_ucast_up)
    have position: "(n - ucast remaining) mod ucast reload = 0 \<longleftrightarrow> (Suc m - ?r) mod ?R = 0" if "?r \<le> Suc m"
      using after [OF that] by (simp add: unat_eq_zero [symmetric] unat_mod unat_ucast_up del: unat_eq_zero)
    have past: "n - ucast remaining \<noteq> 0 \<longleftrightarrow> ?r \<le> m" if "?r \<le> Suc m"
      using after [OF that] that by (auto simp: unat_eq_zero [symmetric] simp del: unat_eq_zero)
    have out: "1 \<le> fst (pulses m c) \<longleftrightarrow> ?r \<le> m"
      unfolding pulses_closed [OF state(1) assms] by simp
    have due: "fst (pulses (Suc m) c) \<noteq> fst (pulses m c) \<longleftrightarrow> ?r \<le> Suc m \<and> (Suc m - ?r) mod ?R = 0"
    proof -
      have suc: "Suc m - ?r = Suc (m - ?r)" if "?r \<le> m" using that by simp
      consider "Suc m < ?r" | "Suc m = ?r" | "?r \<le> m" by linarith
      then show ?thesis
      proof cases
        case 3
        then show ?thesis
          unfolding pulses_closed [OF state(1) assms] suc [OF 3] by (simp add: div_Suc mod_Suc suc)
      qed (simp_all add: pulses_closed [OF state(1) assms])
    qed
    show ?thesis
      using False assms ok le past position
      by (simp add: advance_with_deferred_output_def counter_advance_pulses state(2) whole [unfolded m]
          out [unfolded One_nat_def]
          due m del: pulses.simps deferred_pulses.simps)
  qed
qed

section \<open>The timer\<close>

definition timer_ok :: "programmable_timer \<Rightarrow> bool" where
  "timer_ok t \<longleftrightarrow> length (pt_counters t) = 3 \<and> length (pt_deferred_outputs t) = 2 \<and>
     list_all counter_ok (pt_counters t) \<and> unat (pt_oscillator_phase t) < 1000000000000"

text \<open>The outputs and the state after \<open>n\<close> oscillator ticks, the phase aside.\<close>

definition timer_run :: "nat \<Rightarrow> programmable_timer \<Rightarrow> timer_outputs \<times> programmable_timer" where
  "timer_run n t =
     (let (k, c2) = pulses n (pt_counters t ! 2);
          (out0, due0, c0) = deferred_pulses k (pt_deferred_outputs t ! 0) (pt_counters t ! 0);
          (out1, due1, c1) = deferred_pulses k (pt_deferred_outputs t ! 1) (pt_counters t ! 1)
      in (\<lparr>to_counter_0 = out0, to_counter_1 = out1\<rparr>,
          t\<lparr>pt_counters := [c0, c1, c2], pt_deferred_outputs := [due0, due1]\<rparr>))"

lemma timer_ok_lists:
  assumes "timer_ok t"
  obtains c0 c1 c2 d0 d1 where "pt_counters t = [c0, c1, c2]" "pt_deferred_outputs t = [d0, d1]"
    "counter_ok c0" "counter_ok c1" "counter_ok c2"
proof -
  have "length (pt_counters t) = 3" "length (pt_deferred_outputs t) = 2"
    using assms by (simp_all add: timer_ok_def)
  then obtain c0 c1 c2 d0 d1 where l: "pt_counters t = [c0, c1, c2]" "pt_deferred_outputs t = [d0, d1]"
    by (auto simp: length_Suc_conv numeral_3_eq_3 numeral_2_eq_2)
  moreover have "list_all counter_ok (pt_counters t)" using assms by (simp add: timer_ok_def)
  ultimately show thesis by (intro that [OF l]) simp_all
qed

lemma timer_run_phase [simp]: "pt_oscillator_phase (snd (timer_run n t)) = pt_oscillator_phase t"
  by (simp add: timer_run_def split_beta)

lemma timer_ok_run:
  assumes "timer_ok t"
  shows "timer_ok (snd (timer_run n t))"
proof -
  have "unat (pt_oscillator_phase t) < 1000000000000" using assms by (simp add: timer_ok_def)
  then show ?thesis
    by (rule_tac timer_ok_lists [OF assms])
      (simp add: timer_ok_def timer_run_def split_beta deferred_pulses_counter counter_ok_pulses)
qed

definition join_outputs :: "timer_outputs \<Rightarrow> timer_outputs \<Rightarrow> timer_outputs" where
  "join_outputs a b =
     \<lparr>to_counter_0 = (to_counter_0 a \<or> to_counter_0 b), to_counter_1 = (to_counter_1 a \<or> to_counter_1 b)\<rparr>"

lemma timer_run_add:
  assumes "timer_ok t"
  shows "timer_run (m + n) t =
    (join_outputs (fst (timer_run m t)) (fst (timer_run n (snd (timer_run m t)))),
     snd (timer_run n (snd (timer_run m t))))"
  by (rule timer_ok_lists [OF assms])
    (simp add: timer_run_def split_beta pulses_add deferred_pulses_add Let_def join_outputs_def)

definition tick_count :: "u128 \<Rightarrow> u128 \<Rightarrow> nat" where
  "tick_count elapsed phase = (unat elapsed + unat phase) div 1000000000000"

definition tick_phase :: "u128 \<Rightarrow> u128 \<Rightarrow> nat" where
  "tick_phase elapsed phase = (unat elapsed + unat phase) mod 1000000000000"

lemma oscillator_ticks:
  assumes "unat phase < 1000000000000"
  shows "unat (fst (oscillator_ticks elapsed phase)) = tick_count elapsed phase"
    "unat (snd (oscillator_ticks elapsed phase)) = tick_phase elapsed phase"
proof -
  let ?A = "1000000000000 :: nat"
  have A: "unat (ATTOSECONDS_PER_TICK) = ?A" by (simp add: ATTOSECONDS_PER_TICK_def)
  have m: "unat (elapsed mod ATTOSECONDS_PER_TICK) = unat elapsed mod ?A"
    "unat (elapsed div ATTOSECONDS_PER_TICK) = unat elapsed div ?A"
    by (simp_all add: unat_mod unat_div A)
  have "unat elapsed mod ?A < ?A" by simp
  then have sum: "unat (phase + elapsed mod ATTOSECONDS_PER_TICK) = unat phase + unat elapsed mod ?A"
    using assms m by (simp add: unat_word_ariths)
  have lt: "unat elapsed < 2 ^ 128" by (rule order_less_le_trans [OF unsigned_less]) simp
  have "unat elapsed + unat phase = (unat phase + unat elapsed mod ?A) + unat elapsed div ?A * ?A"
    using div_mult_mod_eq [of "unat elapsed" ?A] by linarith
  then have "unat elapsed div ?A + (unat phase + unat elapsed mod ?A) div ?A = (unat elapsed + unat phase) div ?A"
    by (simp only: div_mult_self1 zero_neq_numeral not_False_eq_True)
  moreover have "(unat elapsed + unat phase) div ?A < 2 ^ 128"
    using lt assms by (intro div_less_dividend [THEN less_trans] less_mult_imp_div_less) simp
  ultimately show "unat (fst (oscillator_ticks elapsed phase)) = tick_count elapsed phase"
    unfolding oscillator_ticks_def Let_def tick_count_def fst_conv unat_word_ariths(1) [of "_ div _"] unat_div m sum A
    by simp
  show "unat (snd (oscillator_ticks elapsed phase)) = tick_phase elapsed phase"
    by (simp only: oscillator_ticks_def Let_def tick_phase_def snd_conv unat_mod sum A mod_add_right_eq
        add.commute [of "unat elapsed"])
qed

lemma timer_advance_run:
  assumes "timer_ok t"
  shows "timer_advance_time elapsed t =
    Some (fst (timer_run (tick_count elapsed (pt_oscillator_phase t)) t),
      (snd (timer_run (tick_count elapsed (pt_oscillator_phase t)) t))
        \<lparr>pt_oscillator_phase := word_of_nat (tick_phase elapsed (pt_oscillator_phase t))\<rparr>)"
proof -
  let ?o = "oscillator_ticks elapsed (pt_oscillator_phase t)"
  have phase: "unat (pt_oscillator_phase t) < 1000000000000" using assms by (simp add: timer_ok_def)
  note o = oscillator_ticks [OF phase, of elapsed]
  have p: "snd ?o = word_of_nat (tick_phase elapsed (pt_oscillator_phase t))"
    using o(2) by (metis of_nat_unat ucast_id)
  obtain c0 c1 c2 d0 d1 where l: "pt_counters t = [c0, c1, c2]" "pt_deferred_outputs t = [d0, d1]"
    "counter_ok c0" "counter_ok c1" "counter_ok c2"
    by (rule timer_ok_lists [OF assms])
  have k: "unat (word_of_nat (fst (pulses (unat (fst ?o)) c2)) :: u128) = fst (pulses (unat (fst ?o)) c2)"
  proof -
    have "fst (pulses (unat (fst ?o)) c2) \<le> unat (fst ?o)" by (rule pulses_le)
    also have "\<dots> < 2 ^ 128" by (rule order_less_le_trans [OF unsigned_less]) simp
    finally show ?thesis by (simp add: unat_of_nat)
  qed
  show ?thesis
    unfolding p [symmetric] o(1) [symmetric]
    by (simp add: timer_advance_time_def split_beta Let_def l counter_advance_pulses advance_deferred_pulses k
        timer_run_def)
qed

section \<open>When the next output comes\<close>

lemma pulses_reach:
  assumes "co_state c = RateGenerator reload remaining" "counter_ok c" "1 \<le> j"
  shows "j \<le> fst (pulses n c) \<longleftrightarrow> unat remaining + (j - 1) * unat reload \<le> n"
proof -
  have R: "0 < unat reload" using assms(1,2) by (simp add: counter_ok_def)
  show ?thesis
  proof (cases "n < unat remaining")
    case True
    then show ?thesis using assms by (simp add: pulses_closed [OF assms(1,2)])
  next
    case False
    have "j \<le> 1 + (n - unat remaining) div unat reload \<longleftrightarrow> (j - 1) * unat reload \<le> n - unat remaining"
      using less_eq_div_iff_mult_less_eq [OF R, of "j - 1" "n - unat remaining"] assms(3) by linarith
    then show ?thesis using False by (simp add: pulses_closed [OF assms(1,2)]) linarith
  qed
qed

lemma deferred_output:
  "fst (deferred_pulses k due c) \<longleftrightarrow> 1 \<le> k \<and> (due \<or> 1 \<le> fst (pulses (k - 1) c))"
  using deferred_pulses_Suc(1) [of "k - 1" due c] by (cases k) simp_all

definition ticks_until :: "counter \<Rightarrow> bool \<Rightarrow> counter \<Rightarrow> nat option" where
  "ticks_until c2 due c =
     (case rate_generator_state c2 of
        None \<Rightarrow> None
      | Some (reload2, remaining2) \<Rightarrow>
          if due then Some (unat remaining2)
          else map_option (\<lambda>(reload, remaining). unat remaining2 + unat remaining * unat reload2)
            (rate_generator_state c))"

lemma ticks_until_exact:
  assumes "counter_ok c2" "counter_ok c"
  shows "fst (deferred_pulses (fst (pulses n c2)) due c) \<longleftrightarrow>
    (case ticks_until c2 due c of None \<Rightarrow> False | Some T \<Rightarrow> T \<le> n)"
proof (cases "rate_generator_state c2")
  case None
  then show ?thesis by (simp add: pulses_idle ticks_until_def)
next
  case (Some s2)
  then obtain R2 r2 where s2: "co_state c2 = RateGenerator R2 r2" "rate_generator_state c2 = Some (R2, r2)"
    by (cases s2) (simp add: rate_generator_Some)
  note reach2 = pulses_reach [OF s2(1) assms(1), of _ n]
  show ?thesis
  proof (cases "due \<or> rate_generator_state c = None")
    case True
    then show ?thesis
      using reach2 [of 1] by (auto simp: deferred_output ticks_until_def s2(2) pulses_idle)
  next
    case False
    then obtain s where "rate_generator_state c = Some s" by auto
    then obtain R r where s: "co_state c = RateGenerator R r" "rate_generator_state c = Some (R, r)"
      by (cases s) (simp add: rate_generator_Some)
    have "1 \<le> fst (pulses (fst (pulses n c2) - 1) c) \<longleftrightarrow> unat r \<le> fst (pulses n c2) - 1"
      using pulses_reach [OF s(1) assms(2), of 1] by simp
    moreover have "\<not> due" "1 \<le> unat r" using False assms(2) s(1) by (simp_all add: counter_ok_def)
    ultimately have "fst (deferred_pulses (fst (pulses n c2)) due c) \<longleftrightarrow> unat r + 1 \<le> fst (pulses n c2)"
      unfolding deferred_output by linarith
    also have "\<dots> \<longleftrightarrow> unat r2 + unat r * unat R2 \<le> n"
      using reach2 [of "unat r + 1"] by simp
    finally show ?thesis using False by (simp add: ticks_until_def s2(2) s(2))
  qed
qed

lemma ticks_until_bounds:
  assumes "counter_ok c2" "counter_ok c" "ticks_until c2 due c = Some T"
  shows "1 \<le> T" "T < 2 ^ 34"
proof -
  from assms(3) obtain R2 r2 where s2: "co_state c2 = RateGenerator R2 r2" "rate_generator_state c2 = Some (R2, r2)"
    by (auto simp: ticks_until_def rate_generator_Some split: option.splits)
  then have ok2: "1 \<le> unat r2" "unat r2 \<le> 65536" "unat R2 \<le> 65536" using assms(1) by (auto simp: counter_ok_def)
  have small: "unat r * unat R2 \<le> 65536 * 65536" if "co_state c = RateGenerator R r" for R r
    using that assms(2) ok2(3) by (intro mult_le_mono) (auto simp: counter_ok_def)
  have "T = unat r2 \<or> (\<exists>R r. co_state c = RateGenerator R r \<and> T = unat r2 + unat r * unat R2)"
    using assms(3) by (auto simp: ticks_until_def s2(2) rate_generator_Some split: if_splits)
  then have "1 \<le> T \<and> T < 2 ^ 34"
  proof (elim disjE exE conjE)
    assume "T = unat r2"
    then show ?thesis using ok2 by simp
  next
    fix R r
    assume "co_state c = RateGenerator R r" and T: "T = unat r2 + unat r * unat R2"
    then have "unat r * unat R2 \<le> 65536 * 65536" by (intro small)
    then show ?thesis using ok2 unfolding T by simp
  qed
  then show "1 \<le> T" "T < 2 ^ 34" by simp_all
qed

lemma ticks_word:
  assumes "unat phase < 1000000000000" "1 \<le> T" "T < 2 ^ 34"
  defines "d \<equiv> word_of_nat T * ATTOSECONDS_PER_TICK - phase"
  shows "T \<le> tick_count elapsed phase \<longleftrightarrow> d \<le> elapsed"
proof -
  let ?A = "1000000000000 :: nat"
  have "T * ?A < 2 ^ 34 * ?A" using assms(3) by simp
  then have "unat (word_of_nat T * ATTOSECONDS_PER_TICK) = T * ?A"
    using assms(3) by (simp add: unat_word_ariths ATTOSECONDS_PER_TICK_def unat_of_nat)
  moreover have "?A \<le> T * ?A" using assms(2) by simp
  ultimately have d: "unat d = T * ?A - unat phase"
    using assms(1) by (simp add: d_def unat_sub_if')
  have "T \<le> tick_count elapsed phase \<longleftrightarrow> T * ?A \<le> unat elapsed + unat phase"
    unfolding tick_count_def by (rule less_eq_div_iff_mult_less_eq) simp
  also have "\<dots> \<longleftrightarrow> d \<le> elapsed" unfolding word_le_nat_alt d by linarith
  finally show ?thesis .
qed

lemma time_until_output_eq:
  assumes "timer_ok t"
  shows "time_until_output CounterZero t =
      Some (map_option (\<lambda>T. word_of_nat T * ATTOSECONDS_PER_TICK - pt_oscillator_phase t)
        (ticks_until (pt_counters t ! 2) (pt_deferred_outputs t ! 0) (pt_counters t ! 0)))"
    "time_until_output CounterOne t =
      Some (map_option (\<lambda>T. word_of_nat T * ATTOSECONDS_PER_TICK - pt_oscillator_phase t)
        (ticks_until (pt_counters t ! 2) (pt_deferred_outputs t ! 1) (pt_counters t ! 1)))"
  by (rule_tac [!] timer_ok_lists [OF assms])
    (auto simp: time_until_output_def ticks_until_def Let_def
      split: option.split)

section \<open>INT2\<close>

definition int2_ok :: "int2 \<Rightarrow> bool" where
  "int2_ok i = timer_ok (i2_timer i)"

lemma timer_ok_phase: "timer_ok t \<Longrightarrow> n < 1000000000000 \<Longrightarrow> timer_ok (t\<lparr>pt_oscillator_phase := word_of_nat n\<rparr>)"
  by (simp add: timer_ok_def unat_of_nat)

lemma timer_run_set_phase:
  "timer_run n (t\<lparr>pt_oscillator_phase := p\<rparr>) =
     (fst (timer_run n t), (snd (timer_run n t))\<lparr>pt_oscillator_phase := p\<rparr>)"
  by (simp add: timer_run_def split_beta)

lemma tick_phase_lt: "tick_phase e p < 1000000000000"
  by (simp add: tick_phase_def)

lemma unat_tick_phase: "unat (word_of_nat (tick_phase e p) :: u128) = tick_phase e p"
  using tick_phase_lt [of e p] by (simp add: unat_of_nat)

lemma ticks_split:
  assumes "unat a + unat b < 2 ^ 128"
  shows "tick_count (a + b) p = tick_count a p + tick_count b (word_of_nat (tick_phase a p))"
    "tick_phase (a + b) p = tick_phase b (word_of_nat (tick_phase a p))"
proof -
  let ?A = "1000000000000 :: nat"
  have sum: "unat (a + b) = unat a + unat b" using assms by (simp add: unat_word_ariths)
  have "unat a + unat b + unat p = (unat b + (unat a + unat p) mod ?A) + (unat a + unat p) div ?A * ?A"
    using div_mult_mod_eq [of "unat a + unat p" ?A] by linarith
  then show "tick_count (a + b) p = tick_count a p + tick_count b (word_of_nat (tick_phase a p))"
    unfolding tick_count_def unat_tick_phase unfolding tick_phase_def sum
    by (simp only: div_mult_self1 zero_neq_numeral not_False_eq_True)
  show "tick_phase (a + b) p = tick_phase b (word_of_nat (tick_phase a p))"
    unfolding tick_phase_def [of b] tick_phase_def [of "a + b"] unat_tick_phase sum
    unfolding tick_phase_def by (simp only: mod_add_right_eq add.assoc add.left_commute)
qed

lemma int2_advance_run:
  assumes "int2_ok i"
  defines "n \<equiv> \<lambda>e. tick_count e (pt_oscillator_phase (i2_timer i))"
  shows "int2_advance_time e i = Some (i\<lparr>
      i2_timer := (snd (timer_run (n e) (i2_timer i)))
        \<lparr>pt_oscillator_phase := word_of_nat (tick_phase e (pt_oscillator_phase (i2_timer i)))\<rparr>,
      i2_timer_pending_0 := i2_timer_pending_0 i \<or> to_counter_0 (fst (timer_run (n e) (i2_timer i))),
      i2_timer_pending_1 := i2_timer_pending_1 i \<or> to_counter_1 (fst (timer_run (n e) (i2_timer i)))\<rparr>)"
  using timer_advance_run [of "i2_timer i" e] assms(1)
  by (simp add: int2_advance_time_def int2_ok_def n_def)

lemma int2_advance_additive:
  assumes "int2_ok i" "unat a + unat b < 2 ^ 128"
  shows "\<exists>j. int2_advance_time a i = Some j \<and> int2_ok j \<and>
    int2_advance_time b j = int2_advance_time (a + b) i"
proof -
  let ?t = "i2_timer i" and ?p = "pt_oscillator_phase (i2_timer i)"
  have t: "timer_ok ?t" using assms(1) by (simp add: int2_ok_def)
  obtain j where j: "int2_advance_time a i = Some j" using int2_advance_run [OF assms(1)] by blast
  then have fields: "i2_timer j = (snd (timer_run (tick_count a ?p) ?t))\<lparr>pt_oscillator_phase := word_of_nat (tick_phase a ?p)\<rparr>"
    "i2_timer_pending_0 j \<longleftrightarrow> i2_timer_pending_0 i \<or> to_counter_0 (fst (timer_run (tick_count a ?p) ?t))"
    "i2_timer_pending_1 j \<longleftrightarrow> i2_timer_pending_1 i \<or> to_counter_1 (fst (timer_run (tick_count a ?p) ?t))"
    and j_eq: "j = i\<lparr>i2_timer := i2_timer j, i2_timer_pending_0 := i2_timer_pending_0 j,
      i2_timer_pending_1 := i2_timer_pending_1 j\<rparr>"
    using int2_advance_run [OF assms(1), of a] by auto
  have ok: "int2_ok j"
    unfolding int2_ok_def fields by (rule timer_ok_phase [OF timer_ok_run [OF t] tick_phase_lt])
  have "int2_advance_time b j = int2_advance_time (a + b) i"
    unfolding int2_advance_run [OF ok] int2_advance_run [OF assms(1)] fields
    by (subst j_eq)
      (simp add: fields timer_run_set_phase ticks_split [OF assms(2)] timer_run_add [OF t] join_outputs_def
        disj_assoc)
  then show ?thesis using j ok by blast
qed

interpretation int2_timed: timed_device int2_advance_time int2_ok
proof
  fix i d
  assume "int2_ok i"
  moreover have "unat d < 2 ^ 128" for d :: virtual_duration
    by (rule order_less_le_trans [OF unsigned_less]) simp
  ultimately show "ok (int2_advance_time d i) int2_ok"
    using int2_advance_additive [of i d 0] by auto
next
  fix i and d e :: virtual_duration
  assume "int2_ok i" "unat d + unat e < 2 ^ 128"
  then show "int2_advance_time (d + e) i = Option.bind (int2_advance_time d i) (int2_advance_time e)"
    using int2_advance_additive [of i d e] by auto
qed

text \<open>
  The interval timer does not depend on how time is delivered. From any good state, however a
  span of time is cut into pieces, INT2 reaches exactly the state, interrupt latches included,
  that it reaches when the whole span elapses at once, and that advance does not panic.
\<close>

lemma int2_time_additive:
  assumes "int2_ok i" "time_fits (d # ds)"
  shows "advance_pieces int2_advance_time (d # ds) i = int2_advance_time (sum_list (d # ds)) i \<and>
    ok (int2_advance_time (sum_list (d # ds)) i) int2_ok"
  using int2_timed.pieces_additive [OF assms] int2_timed.advance_good [OF assms(1)] by blast

lemma int2_new_timers_ok: "int2_ok int2_new"
  by (simp add: int2_ok_def int2_new_def timer_ok_def timer_new_def counter_ok_def counter_new_def)

text \<open>When timer output \<open>0\<close> or \<open>1\<close> next comes, as a duration.\<close>

definition output_due :: "programmable_timer \<Rightarrow> nat \<Rightarrow> virtual_duration option" where
  "output_due t k =
     map_option (\<lambda>T. word_of_nat T * ATTOSECONDS_PER_TICK - pt_oscillator_phase t)
       (ticks_until (pt_counters t ! 2) (pt_deferred_outputs t ! k) (pt_counters t ! k))"

lemma output_due_exact:
  assumes "timer_ok t" "k < 2"
  shows "fst (deferred_pulses (fst (pulses (tick_count e (pt_oscillator_phase t)) (pt_counters t ! 2)))
      (pt_deferred_outputs t ! k) (pt_counters t ! k)) \<longleftrightarrow>
    (case output_due t k of None \<Rightarrow> False | Some d \<Rightarrow> d \<le> e)"
proof -
  have ok: "counter_ok (pt_counters t ! 2)" "counter_ok (pt_counters t ! k)"
    "unat (pt_oscillator_phase t) < 1000000000000"
    using assms by (auto simp: timer_ok_def list_all_length)
  show ?thesis
    unfolding ticks_until_exact [OF ok(1,2)] output_due_def
    using ticks_word [OF ok(3) ticks_until_bounds [OF ok(1,2)]] by (auto split: option.split)
qed

lemma outputs_after:
  assumes "timer_ok t"
  shows "to_counter_0 (fst (timer_run (tick_count e (pt_oscillator_phase t)) t)) \<longleftrightarrow>
      (case output_due t 0 of None \<Rightarrow> False | Some d \<Rightarrow> d \<le> e)"
    "to_counter_1 (fst (timer_run (tick_count e (pt_oscillator_phase t)) t)) \<longleftrightarrow>
      (case output_due t 1 of None \<Rightarrow> False | Some d \<Rightarrow> d \<le> e)"
  using output_due_exact [OF assms, of 0 e] output_due_exact [OF assms, of 1 e]
  by (simp_all add: timer_run_def split_beta)

text \<open>
  C34. The announced timer event is exact. In any good state INT2 announces either no event or a
  duration \<open>d\<close>; advancing by \<open>e\<close>, for every \<open>e\<close>, changes the timer interrupts exactly when an
  event was announced and \<open>d \<le> e\<close>. So the scheduler may sleep until \<open>d\<close> and must not sleep longer.
\<close>

theorem int2_event_exact:
  assumes "int2_ok i"
  shows "\<exists>ev. int2_time_until_event i = Some ev \<and>
    (\<forall>e. \<exists>j. int2_advance_time e i = Some j \<and>
      (((timer_0_interrupt_asserted j, timer_1_interrupt_asserted j) \<noteq>
        (timer_0_interrupt_asserted i, timer_1_interrupt_asserted i)) \<longleftrightarrow>
       (case ev of None \<Rightarrow> False | Some d \<Rightarrow> d \<le> e)))"
proof -
  let ?t = "i2_timer i"
  have t: "timer_ok ?t" using assms by (simp add: int2_ok_def)
  define o0 o1 where "o0 = (if i2_timer_pending_0 i then None else output_due ?t 0)"
    and "o1 = (if i2_timer_pending_1 i then None else output_due ?t 1)"
  let ?ev = "case (o0, o1) of (Some t0, Some t1) \<Rightarrow> Some (min t0 t1) | (Some t, None) \<Rightarrow> Some t
    | (None, Some t) \<Rightarrow> Some t | (None, None) \<Rightarrow> None"
  have ev: "int2_time_until_event i = Some ?ev"
    using time_until_output_eq [OF t, folded output_due_def]
    by (simp add: int2_time_until_event_def o0_def o1_def del: One_nat_def)
  have "\<exists>j. int2_advance_time e i = Some j \<and>
      (((timer_0_interrupt_asserted j, timer_1_interrupt_asserted j) \<noteq>
        (timer_0_interrupt_asserted i, timer_1_interrupt_asserted i)) \<longleftrightarrow>
       (case ?ev of None \<Rightarrow> False | Some d \<Rightarrow> d \<le> e))" for e
    unfolding int2_advance_run [OF assms]
    using outputs_after [OF t, of e]
    by (auto simp: timer_0_interrupt_asserted_def timer_1_interrupt_asserted_def o0_def o1_def
        min_le_iff_disj split: option.splits if_splits)
  then show ?thesis using ev by blast
qed

theorem int2_event_exact_witness:
  "int2_time_until_event int2_new = Some None \<and>
     (\<forall>e. \<exists>j. int2_advance_time e int2_new = Some j \<and> \<not> timer_0_interrupt_asserted j)"
proof -
  have "int2_ok int2_new"
    by (simp add: int2_ok_def int2_new_def timer_ok_def timer_new_def counter_ok_def counter_new_def)
  moreover have ev: "int2_time_until_event int2_new = Some None"
    by (simp add: int2_time_until_event_def int2_new_def time_until_output_def timer_new_def
        rate_generator_state_def counter_new_def)
  ultimately show ?thesis
    using int2_event_exact [of int2_new]
    by (auto simp: timer_0_interrupt_asserted_def timer_1_interrupt_asserted_def int2_new_def)
qed

section \<open>The operations keep the state good\<close>

lemma counter_write_ok: "counter_ok c \<Longrightarrow> counter_ok (snd (counter_write v c))"
proof -
  assume c: "counter_ok c"
  have zero: "unat COUNTER_ZERO_ENCODING = 65536" by (simp add: COUNTER_ZERO_ENCODING_def)
  have reload: "Suc 0 \<le> unat (ucast w :: u32)" "unat (ucast w :: u32) \<le> 65536" if "w \<noteq> 0" for w :: u16
  proof -
    have "unat (ucast w :: u32) = unat w"
      by (simp add: unsigned_ucast_eq unsigned_take_bit_eq take_bit_nat_eq_self less_trans [OF unsigned_less])
    moreover have "unat w < 65536" by (rule order_less_le_trans [OF unsigned_less]) simp
    moreover have "0 < unat w" using that by (metis unat_eq_zero neq0_conv)
    ultimately show "Suc 0 \<le> unat (ucast w :: u32)" "unat (ucast w :: u32) \<le> 65536" by simp_all
  qed
  show ?thesis
    using c by (auto simp: counter_write_def counter_ok_def Let_def zero reload
        split: counter_state.split option.split counter_mode.split)
qed

lemma counter_latch_ok: "counter_ok c \<Longrightarrow> ok (counter_latch c) (\<lambda>(r, c'). counter_ok c')"
proof -
  assume c: "counter_ok c"
  have encoded: "encode_counter w = Some (if w = COUNTER_ZERO_ENCODING then 0 else ucast w)"
    if "unat w \<le> 65536" for w
  proof -
    have "unat w < 65536" if "w \<noteq> COUNTER_ZERO_ENCODING"
      using that \<open>unat w \<le> 65536\<close> by (auto simp: COUNTER_ZERO_ENCODING_def word_unat_eq_iff)
    then show ?thesis by (simp add: encode_counter_def)
  qed
  show ?thesis
    using c by (cases "co_state c") (simp_all add: counter_latch_def Let_def counter_ok_def encoded)
qed

lemma counter_simple_ok:
  "counter_ok (counter_configure mode c)" "counter_ok (counter_quiesce c)"
  "counter_ok c \<Longrightarrow> counter_ok (snd (counter_read c))"
  by (auto simp: counter_configure_def counter_quiesce_def counter_read_def counter_ok_def
      split: sum.split option.split counter_state.split)

lemma counter_index_lt [simp]: "counter_index c < 3"
  by (cases c) simp_all

lemma timer_update_ok:
  assumes "timer_ok t" "counter_ok c"
  shows "timer_ok (t\<lparr>pt_counters := (pt_counters t)[i := c]\<rparr>)"
  using assms by (auto simp: timer_ok_def list_all_iff dest: set_update_subset_insert [THEN subsetD])

lemma timer_counter_ok: "timer_ok t \<Longrightarrow> counter_ok (pt_counters t ! counter_index c)"
  using counter_index_lt [of c] by (auto simp: timer_ok_def list_all_length simp del: counter_index_lt)

lemma clear_deferred_ok: "timer_ok t \<Longrightarrow> ok (clear_deferred_output c t) timer_ok"
  by (cases c) (simp_all add: clear_deferred_output_def timer_ok_def)

lemma timer_length [simp]: "timer_ok t \<Longrightarrow> length (pt_counters t) = 3"
  by (simp add: timer_ok_def)

lemma timer_write_control_ok:
  assumes "timer_ok t"
  shows "ok (timer_write_control v t) (\<lambda>(r, t'). timer_ok t')"
proof -
  note get = timer_counter_ok [OF assms]
  have latch: "ok (counter_latch (pt_counters t ! counter_index c))
      (\<lambda>x. timer_ok (t\<lparr>pt_counters := (pt_counters t)[counter_index c := snd x]\<rparr>))" for c
    by (rule ok_mono [OF counter_latch_ok [OF get]]) (auto intro: timer_update_ok [OF assms])
  show ?thesis
    using assms latch
    by (auto simp: timer_write_control_def split_beta counter_simple_ok timer_update_ok
        intro!: clear_deferred_ok split: sum.split control_command.split)
qed

lemma timer_counter_access_ok:
  assumes "timer_ok t"
  shows "ok (timer_write_counter c v t) (\<lambda>(r, t'). timer_ok t')"
    "ok (timer_read_counter c t) (\<lambda>(r, t'). timer_ok t')"
  using assms timer_counter_ok [OF assms, of c]
  by (simp_all add: timer_write_counter_def timer_read_counter_def split_beta Let_def
      timer_update_ok counter_write_ok counter_simple_ok)

lemma int2_ok_updates [simp]:
  "int2_ok (i\<lparr>i2_local_interrupt_status_0 := a\<rparr>) = int2_ok i"
  "int2_ok (i\<lparr>i2_local_interrupt_status_1 := a\<rparr>) = int2_ok i"
  "int2_ok (i\<lparr>i2_local_interrupt_mask_0 := a\<rparr>) = int2_ok i"
  "int2_ok (i\<lparr>i2_local_interrupt_mask_1 := a\<rparr>) = int2_ok i"
  "int2_ok (i\<lparr>i2_vme_interrupt_mask_0 := a\<rparr>) = int2_ok i"
  "int2_ok (i\<lparr>i2_vme_interrupt_mask_1 := a\<rparr>) = int2_ok i"
  "int2_ok (i\<lparr>i2_output_port := a\<rparr>) = int2_ok i"
  "int2_ok (i\<lparr>i2_timer_pending_0 := p\<rparr>) = int2_ok i"
  "int2_ok (i\<lparr>i2_timer_pending_1 := p\<rparr>) = int2_ok i"
  "int2_ok (i\<lparr>i2_gio_interrupt_2_input := p\<rparr>) = int2_ok i"
  "int2_ok (i\<lparr>i2_gio_interrupt_2_latch := p\<rparr>) = int2_ok i"
  "int2_ok (i\<lparr>i2_timer := t\<rparr>) = timer_ok t"
  by (simp_all add: int2_ok_def)

lemma int2_new_ok: "int2_ok int2_new" "int2_ok (int2_reset i)"
  by (simp_all add: int2_reset_def int2_new_def int2_ok_def timer_ok_def timer_new_def counter_ok_def
      counter_new_def)

lemma int2_inputs_ok [simp]:
  "int2_ok (set_gio_interrupt_2_input v i) = int2_ok i"
  "int2_ok (set_local_interrupt_0_input lines v i) = int2_ok i"
  "int2_ok (set_local_interrupt_1_input lines v i) = int2_ok i"
  "int2_ok (acknowledge_timers w i) = int2_ok i"
  by (simp_all add: set_gio_interrupt_2_input_def set_local_interrupt_0_input_def
      set_local_interrupt_1_input_def acknowledge_timers_def Let_def)

lemma word_window_bound:
  assumes "decode_word_window base start stop = Some offset" "stop = start + word_of_nat len"
    "unat start + len < 18446744073709551616" "unat base < 4294967296"
  shows "offset + len \<le> 4"
proof -
  have "unat stop = unat start + len" "unat (base + REGISTER_BYTES) = unat base + 4"
    using assms(2-4) by (simp_all add: unat_word_ariths unat_of_nat REGISTER_BYTES_def)
  then show ?thesis
    using assms(1)
    by (auto simp: decode_word_window_def word_le_nat_alt unat_sub_if' split: if_splits)
qed

lemma word_registers_bound:
  assumes "decode_word_registers rs start stop = Some (register, offset)" "stop = start + word_of_nat len"
    "unat start + len < 18446744073709551616" "\<forall>(base, r)\<in>set rs. unat base < 4294967296"
  shows "offset + len \<le> 4"
  using assms(1,4)
  by (induction rs)
    (auto split: option.splits dest: word_window_bound [OF _ assms(2,3)])

lemma word_register_bound:
  assumes "decode_word_register start stop = Some (register, offset)" "stop = start + word_of_nat len"
    "unat start + len < 18446744073709551616"
  shows "offset + len \<le> 4"
  by (rule word_registers_bound [OF assms(1) [unfolded decode_word_register_def] assms(2,3)])
    (simp add: int2_address_defs)

lemma bounds_Inr:
  "transaction_bounds address len = Inr (start, stop) \<longleftrightarrow>
     1 \<le> len \<and> len \<le> 4 \<and> unat address + len < 2 ^ 64 \<and> start = address \<and> stop = address + word_of_nat len"
  by (auto simp: transaction_bounds_def)

lemma ok_read_register: "offset + len \<le> 4 \<Longrightarrow> ok (read_register v offset len) (\<lambda>bs. length bs = len)"
  by (simp add: read_register_def)

lemma ok_write_byte: "offset + length data \<le> 4 \<Longrightarrow> ok (write_byte_register v offset data) (\<lambda>_. True)"
  by (simp add: write_byte_register_def)

lemma int2_read_ok:
  assumes "int2_ok i"
  shows "ok (int2_read i address len) (\<lambda>(r, i'). int2_ok i' \<and> (\<forall>bs. r = Inr bs \<longrightarrow> length bs = len))"
proof (cases "transaction_bounds address len")
  case (Inl e)
  then show ?thesis using assms by (simp add: int2_read_def)
next
  case (Inr se)
  obtain start stop where se: "se = (start, stop)" by (cases se)
  note b = Inr [unfolded se bounds_Inr]
  have one: "len = 1" if "stop = start + 1"
  proof -
    have "word_of_nat len = stop - start" using b by simp
    then have "word_of_nat len = (1 :: u64)" using that by simp
    then show ?thesis using b by (simp add: word_unat_eq_iff unat_of_nat)
  qed
  have t: "timer_ok (i2_timer i)" using assms by (simp add: int2_ok_def)
  show ?thesis
  proof (cases "decode_word_register start stop")
    case (Some ro)
    obtain register offset where ro: "ro = (register, offset)" by (cases ro)
    have "offset + len \<le> 4"
      by (rule word_register_bound [OF Some [unfolded ro]]) (use b in simp_all)
    then show ?thesis
      using assms
      by (simp add: int2_read_def Inr se Some ro ok_mono [OF ok_read_register])
  next
    case None
    have one_byte: "map_sum id (\<lambda>v. [v]) r = Inr bs \<Longrightarrow> length bs = 1" for r :: "bus_error + u8" and bs
      by (cases r) auto
    have access: "ok (timer_read_counter c (i2_timer i)) (\<lambda>x. int2_ok (i\<lparr>i2_timer := snd x\<rparr>))" for c
      by (rule ok_mono [OF timer_counter_access_ok(2) [OF t]]) (simp add: split_beta)
    show ?thesis
      using assms one one_byte access
      by (simp add: int2_read_def Inr se None split_beta ok_mono [OF access] split: option.split)
  qed
qed

lemma int2_write_register_ok:
  assumes "int2_ok i" "offset + length data \<le> 4"
  shows "ok (int2_write_register r offset data i) (\<lambda>(r, i'). int2_ok i')"
  using assms by (cases r) (auto simp: Let_def intro!: ok_mono [OF ok_write_byte])

lemma int2_write_ok:
  assumes "int2_ok i"
  shows "ok (int2_write i address data) (\<lambda>(r, i'). int2_ok i')"
proof (cases "transaction_bounds address (length data)")
  case (Inl e)
  then show ?thesis using assms by (simp add: int2_write_def)
next
  case (Inr se)
  obtain start stop where se: "se = (start, stop)" by (cases se)
  note b = Inr [unfolded se bounds_Inr]
  have t: "timer_ok (i2_timer i)" using assms by (simp add: int2_ok_def)
  have bound: "unat start + length data < 18446744073709551616" "stop = start + word_of_nat (length data)"
    using b by simp_all
  show ?thesis
  proof (cases "decode_word_register start stop")
    case (Some ro)
    then show ?thesis
      using int2_write_register_ok [OF assms word_register_bound [OF _ bound(2,1)]]
      by (cases ro) (simp add: int2_write_def Inr se)
  next
    case no_register: None
    show ?thesis
    proof (cases "decode_word_window TIMER_ACKNOWLEDGE_WINDOW start stop")
      case (Some offset)
      then have "offset + length data \<le> 4"
        by (rule word_window_bound [OF _ bound(2,1)]) (simp add: TIMER_ACKNOWLEDGE_WINDOW_def)
      then show ?thesis
        using assms Some no_register by (simp add: int2_write_def Inr se write_byte_register_def)
    next
      case None
      have "ok (timer_write_counter c v (i2_timer i)) (\<lambda>x. timer_ok (snd x))"
        "ok (timer_write_control v (i2_timer i)) (\<lambda>x. timer_ok (snd x))" for c v
        by (rule ok_mono [OF timer_counter_access_ok(1) [OF t]], simp add: split_beta,
            rule ok_mono [OF timer_write_control_ok [OF t]], simp add: split_beta)
      then show ?thesis
        using assms None no_register
        by (simp add: int2_write_def Inr se split_beta split: option.split)
    qed
  qed
qed

end
