(* ===== verification/Serial_Channel.thy ===== *)
theory Serial_Channel
  imports Events
begin

text \<open>
  One channel of the Z85230 serial controller, the \<^verbatim>\<open>ChannelState\<close> of
  \<^verbatim>\<open>se_device/src/z85230.rs\<close>: its write registers, the receive and transmit rings,
  the receive conditions and the transmitter, whose characters take virtual time. Array lengths
  are those of the code, which indexes the rings modulo their size; the two registers a guest
  selects by number are indexed with a check. The modem inputs are constantly asserted, as in the
  code.
\<close>

definition RECEIVE_CHARACTER_AVAILABLE :: u8 where "RECEIVE_CHARACTER_AVAILABLE = 1"
definition TRANSMIT_BUFFER_EMPTY :: u8 where "TRANSMIT_BUFFER_EMPTY = push_bit 2 1"
definition ALL_SENT :: u8 where "ALL_SENT = 1"
definition TRANSMIT_INTERRUPT_ENABLE :: u8 where "TRANSMIT_INTERRUPT_ENABLE = push_bit 1 1"
definition TRANSMIT_INTERRUPT_FIFO_EMPTY :: u8 where "TRANSMIT_INTERRUPT_FIFO_EMPTY = push_bit 5 1"
definition ASYNC_EIGHT_BIT_RESIDUE :: u8 where "ASYNC_EIGHT_BIT_RESIDUE = 0x06"
definition PARITY_ERROR :: u8 where "PARITY_ERROR = push_bit 4 1"
definition RECEIVE_OVERRUN_ERROR :: u8 where "RECEIVE_OVERRUN_ERROR = push_bit 5 1"
definition CRC_FRAMING_ERROR :: u8 where "CRC_FRAMING_ERROR = push_bit 6 1"
definition END_OF_FRAME :: u8 where "END_OF_FRAME = push_bit 7 1"
definition LATCHED_RECEIVE_ERRORS :: u8 where "LATCHED_RECEIVE_ERRORS = PARITY_ERROR OR RECEIVE_OVERRUN_ERROR"
definition RECEIVER_ENABLE :: u8 where "RECEIVER_ENABLE = 1"
definition AUTO_ENABLE :: u8 where "AUTO_ENABLE = push_bit 5 1"
definition TRANSMITTER_ENABLE :: u8 where "TRANSMITTER_ENABLE = push_bit 3 1"
definition LOCAL_LOOPBACK :: u8 where "LOCAL_LOOPBACK = push_bit 4 1"
definition RECEIVE_FIFO_BYTES :: nat where "RECEIVE_FIFO_BYTES = 8"
definition TRANSMIT_FIFO_BYTES :: nat where "TRANSMIT_FIFO_BYTES = 4"
definition RESET_WRITE_REGISTERS :: "u8 list" where
  "RESET_WRITE_REGISTERS = [0, 0, 0, 0, 0x04, 0, 0, 0, 0, 0, 0, 0x08, 0, 0, 0, 0xf8]"
definition RESET_WRITE_REGISTER_PRIME_SEVEN :: u8 where "RESET_WRITE_REGISTER_PRIME_SEVEN = 0x20"

record active_character =
  ac_value :: u8
  ac_remaining_attoseconds :: u128
  ac_local_loopback :: bool

record received_character =
  rc_value :: u8
  rc_status :: u8

definition RECEIVE_EMPTY :: received_character where
  "RECEIVE_EMPTY = \<lparr>rc_value = 0, rc_status = ASYNC_EIGHT_BIT_RESIDUE\<rparr>"

record channel_state =
  ch_selected_register :: u8
  ch_write_registers :: "u8 list"
  ch_write_register_prime_seven :: u8
  ch_receive_fifo :: "received_character list"
  ch_receive_fifo_head :: nat
  ch_receive_fifo_length :: nat
  ch_first_character_interrupt_armed :: bool
  ch_receive_error_latch :: u8
  ch_receive_fifo_locked :: bool
  ch_transmit_fifo :: "u8 list"
  ch_transmit_fifo_head :: nat
  ch_transmit_fifo_length :: nat
  ch_transmit_interrupt_pending :: bool
  ch_active_character :: "active_character option"
  ch_timing_remainder :: u64

definition channel_new :: channel_state where
  "channel_new =
     \<lparr>ch_selected_register = 0, ch_write_registers = RESET_WRITE_REGISTERS,
      ch_write_register_prime_seven = RESET_WRITE_REGISTER_PRIME_SEVEN,
      ch_receive_fifo = replicate RECEIVE_FIFO_BYTES RECEIVE_EMPTY, ch_receive_fifo_head = 0,
      ch_receive_fifo_length = 0, ch_first_character_interrupt_armed = False,
      ch_receive_error_latch = 0, ch_receive_fifo_locked = False,
      ch_transmit_fifo = replicate TRANSMIT_FIFO_BYTES 0, ch_transmit_fifo_head = 0,
      ch_transmit_fifo_length = 0, ch_transmit_interrupt_pending = False,
      ch_active_character = None, ch_timing_remainder = 0\<rparr>"

section \<open>Registers\<close>

definition take_selected_register :: "channel_state \<Rightarrow> u8 \<times> channel_state" where
  "take_selected_register c = (ch_selected_register c, c\<lparr>ch_selected_register := 0\<rparr>)"

definition select_register :: "u8 \<Rightarrow> channel_state \<Rightarrow> channel_state" where
  "select_register value c = (
     let register = value AND 0x07;
         register = (if drop_bit 3 value AND 0x07 = 1 then register + 8 else register)
     in c\<lparr>ch_selected_register := register\<rparr>)"

definition channel_write_register :: "channel_state \<Rightarrow> nat \<Rightarrow> u8" where
  "channel_write_register c register = ch_write_registers c ! register"

definition read_register_zero :: "channel_state \<Rightarrow> u8" where
  "read_register_zero c =
     (if ch_receive_fifo_length c \<noteq> 0 then RECEIVE_CHARACTER_AVAILABLE else 0)
     OR (if ch_transmit_fifo_length c < TRANSMIT_FIFO_BYTES then TRANSMIT_BUFFER_EMPTY else 0)"

definition read_register_one :: "channel_state \<Rightarrow> u8" where
  "read_register_one c = (
     let status = (if ch_receive_fifo_length c = 0 then ASYNC_EIGHT_BIT_RESIDUE
                   else rc_status (ch_receive_fifo c ! ch_receive_fifo_head c)) OR ch_receive_error_latch c
     in if ch_transmit_fifo_length c = 0 \<and> ch_active_character c = None then status OR ALL_SENT else status)"

definition read_register_fifteen :: "channel_state \<Rightarrow> u8" where
  "read_register_fifteen c = channel_write_register c 15 AND 0xfa"

definition receive_interrupt_mode :: "channel_state \<Rightarrow> u8" where
  "receive_interrupt_mode c = drop_bit 3 (channel_write_register c 1) AND 0x03"

definition set_write_register :: "u8 \<Rightarrow> u8 \<Rightarrow> channel_state \<Rightarrow> channel_state option" where
  "set_write_register register value c = do {
     registers \<leftarrow> set_at (ch_write_registers c) (unat register) value;
     let c1 = c\<lparr>ch_write_registers := registers\<rparr>;
     Some (if register = 1
           then c1\<lparr>ch_first_character_interrupt_armed := (receive_interrupt_mode c1 = 1)\<rparr> else c1)
   }"

definition set_write_register_prime_seven :: "u8 \<Rightarrow> channel_state \<Rightarrow> channel_state" where
  "set_write_register_prime_seven value c = c\<lparr>ch_write_register_prime_seven := value\<rparr>"

section \<open>The receiver\<close>

definition dcd_asserted :: bool where "dcd_asserted = True"
definition cts_asserted :: bool where "cts_asserted = True"

definition receiver_enabled :: "channel_state \<Rightarrow> bool" where
  "receiver_enabled c = (
     let wr3 = channel_write_register c 3
     in wr3 AND RECEIVER_ENABLE \<noteq> 0 \<and> (wr3 AND AUTO_ENABLE = 0 \<or> dcd_asserted))"

definition local_loopback_enabled :: "channel_state \<Rightarrow> bool" where
  "local_loopback_enabled c \<longleftrightarrow> channel_write_register c 14 AND LOCAL_LOOPBACK \<noteq> 0"

definition receive_character :: "u8 \<Rightarrow> channel_state \<Rightarrow> channel_state" where
  "receive_character value c =
     (if ch_receive_fifo_length c = RECEIVE_FIFO_BYTES then
        let entry = (ch_receive_fifo_head c + ch_receive_fifo_length c - 1) mod RECEIVE_FIFO_BYTES
        in c\<lparr>ch_receive_fifo := (ch_receive_fifo c)
               [entry := \<lparr>rc_value = value, rc_status = ASYNC_EIGHT_BIT_RESIDUE OR RECEIVE_OVERRUN_ERROR\<rparr>]\<rparr>
      else
        let entry = (ch_receive_fifo_head c + ch_receive_fifo_length c) mod RECEIVE_FIFO_BYTES
        in c\<lparr>ch_receive_fifo := (ch_receive_fifo c)
               [entry := \<lparr>rc_value = value, rc_status = ASYNC_EIGHT_BIT_RESIDUE\<rparr>],
             ch_receive_fifo_length := ch_receive_fifo_length c + 1\<rparr>)"

definition receive_external_character :: "u8 \<Rightarrow> channel_state \<Rightarrow> channel_state" where
  "receive_external_character value c =
     (if local_loopback_enabled c \<or> \<not> receiver_enabled c then c else receive_character value c)"

definition receive_local_loopback :: "u8 \<Rightarrow> channel_state \<Rightarrow> channel_state" where
  "receive_local_loopback value c =
     (if channel_write_register c 3 AND RECEIVER_ENABLE \<noteq> 0 then receive_character value c else c)"

definition special_receive_condition_mask :: "channel_state \<Rightarrow> u8" where
  "special_receive_condition_mask c = (
     let mask = RECEIVE_OVERRUN_ERROR OR CRC_FRAMING_ERROR OR END_OF_FRAME
     in if channel_write_register c 1 AND push_bit 2 1 \<noteq> 0 then mask OR PARITY_ERROR else mask)"

definition read_data :: "channel_state \<Rightarrow> u8 \<times> channel_state" where
  "read_data c =
     (if ch_receive_fifo_length c = 0 then (0, c)
      else
        let character = ch_receive_fifo c ! ch_receive_fifo_head c
        in if ch_receive_fifo_locked c then (rc_value character, c)
        else
          let mode = receive_interrupt_mode c;
              special_condition = rc_status character AND special_receive_condition_mask c;
              c1 = c\<lparr>ch_receive_error_latch :=
                      ch_receive_error_latch c OR (rc_status character AND LATCHED_RECEIVE_ERRORS)\<rparr>
          in if (mode = 1 \<or> mode = 3) \<and> special_condition \<noteq> 0
             then (rc_value character,
               c1\<lparr>ch_receive_fifo_locked := True, ch_first_character_interrupt_armed := False\<rparr>)
             else
               let c2 = c1\<lparr>ch_receive_fifo_head := (ch_receive_fifo_head c + 1) mod RECEIVE_FIFO_BYTES,
                           ch_receive_fifo_length := ch_receive_fifo_length c - 1\<rparr>
               in (rc_value character,
                   if mode = 1 then c2\<lparr>ch_first_character_interrupt_armed := False\<rparr> else c2))"

definition peek_data :: "channel_state \<Rightarrow> u8" where
  "peek_data c =
     (if ch_receive_fifo_length c = 0 then 0
      else rc_value (ch_receive_fifo c ! ch_receive_fifo_head c))"

definition receive_interrupt_threshold :: "channel_state \<Rightarrow> nat" where
  "receive_interrupt_threshold c =
     (if ch_write_register_prime_seven c AND push_bit 3 1 = 0 then 1 else 4)"

definition special_receive_condition_within :: "nat \<Rightarrow> channel_state \<Rightarrow> bool" where
  "special_receive_condition_within count c \<longleftrightarrow>
     ch_receive_error_latch c AND special_receive_condition_mask c \<noteq> 0
     \<or> list_ex (\<lambda>offset.
         rc_status (ch_receive_fifo c ! ((ch_receive_fifo_head c + offset) mod RECEIVE_FIFO_BYTES))
           AND special_receive_condition_mask c \<noteq> 0) [0..<min (ch_receive_fifo_length c) count]"

definition special_receive_interrupt_pending :: "channel_state \<Rightarrow> bool" where
  "special_receive_interrupt_pending c \<longleftrightarrow>
     ch_receive_fifo_locked c \<or> ch_receive_error_latch c AND special_receive_condition_mask c \<noteq> 0"

definition receive_interrupt_pending :: "channel_state \<Rightarrow> bool" where
  "receive_interrupt_pending c = (
     let mode = receive_interrupt_mode c
     in if mode = 0 then False
        else if mode = 1 then
          special_receive_interrupt_pending c
          \<or> ch_first_character_interrupt_armed c \<and> ch_receive_fifo_length c \<noteq> 0
        else if mode = 2 then
          let threshold = receive_interrupt_threshold c
          in threshold \<le> ch_receive_fifo_length c \<or> special_receive_condition_within threshold c
        else special_receive_interrupt_pending c)"

definition receive_interrupt_is_special :: "channel_state \<Rightarrow> bool" where
  "receive_interrupt_is_special c = (
     let mode = receive_interrupt_mode c
     in if mode = 0 then False
        else if mode = 2 then special_receive_condition_within (receive_interrupt_threshold c) c
        else special_receive_interrupt_pending c)"

definition enable_interrupt_on_next_receive_character :: "channel_state \<Rightarrow> channel_state" where
  "enable_interrupt_on_next_receive_character c = c\<lparr>ch_first_character_interrupt_armed := True\<rparr>"

definition reset_receive_errors :: "channel_state \<Rightarrow> channel_state option" where
  "reset_receive_errors c = (
     let mode = receive_interrupt_mode c;
         unread_special_character =
           ((mode = 1 \<or> mode = 3) \<and> ch_receive_fifo_length c \<noteq> 0
            \<and> rc_status (ch_receive_fifo c ! ch_receive_fifo_head c) AND special_receive_condition_mask c \<noteq> 0)
     in do {
       c \<leftarrow> (if ch_receive_fifo_locked c \<or> unread_special_character
            then do {
              require (0 < ch_receive_fifo_length c);
              Some (c\<lparr>ch_receive_fifo_head := (ch_receive_fifo_head c + 1) mod RECEIVE_FIFO_BYTES,
                      ch_receive_fifo_length := ch_receive_fifo_length c - 1\<rparr>)
            }
            else Some c);
       Some (c\<lparr>ch_receive_error_latch := 0, ch_receive_fifo_locked := False\<rparr>)
     })"

section \<open>The transmitter\<close>

definition write_data :: "u8 \<Rightarrow> channel_state \<Rightarrow> bool \<times> channel_state" where
  "write_data value c =
     (if ch_transmit_fifo_length c = TRANSMIT_FIFO_BYTES then (False, c)
      else
        let tail = (ch_transmit_fifo_head c + ch_transmit_fifo_length c) mod TRANSMIT_FIFO_BYTES
        in (True, c\<lparr>ch_transmit_interrupt_pending := False,
                    ch_transmit_fifo := (ch_transmit_fifo c)[tail := value],
                    ch_transmit_fifo_length := ch_transmit_fifo_length c + 1\<rparr>))"

definition frame_units :: "channel_state \<Rightarrow> u128 option" where
  "frame_units c = (
     let wr4 = channel_write_register c 4; wr5 = channel_write_register c 5;
         wr11 = channel_write_register c 11; wr14 = channel_write_register c 14
     in if wr5 AND TRANSMITTER_ENABLE = 0
           \<or> channel_write_register c 3 AND AUTO_ENABLE \<noteq> 0 \<and> \<not> cts_asserted
           \<or> wr11 AND 0x18 \<noteq> 0x10
           \<or> wr14 AND 0x01 = 0
        then None
        else
          let stop = drop_bit 2 wr4 AND 0x03
          in if stop = 0 then None
             else
               let stop_half_bits = (if stop = 1 then 2 else if stop = 2 then 3 else 4);
                   size = drop_bit 5 wr5 AND 0x03;
                   data_bits = (if size = 0 then 5 else if size = 1 then 7 else if size = 2 then 6 else 8);
                   factor = drop_bit 6 wr4;
                   clock_factor = (if factor = 0 then 1 else if factor = 1 then 16
                                   else if factor = 2 then 32 else 64);
                   parity_half_bits = (if wr4 AND 1 = 0 then 0 else 2);
                   frame_half_bits = 2 + data_bits * 2 + parity_half_bits + stop_half_bits;
                   time_constant = push_bit 8 (ucast (channel_write_register c 13)) OR ucast (channel_write_register c 12)
               in Some (frame_half_bits * (time_constant + 2) * clock_factor))"

definition start_transmitter :: "u64 \<Rightarrow> channel_state \<Rightarrow> bool \<times> channel_state" where
  "start_transmitter clock_hz c =
     (if ch_active_character c \<noteq> None \<or> ch_transmit_fifo_length c = 0 then (False, c)
      else case frame_units c of
        None \<Rightarrow> (False, c)
      | Some units \<Rightarrow>
          let value = ch_transmit_fifo c ! ch_transmit_fifo_head c;
              numerator = units * ATTOSECONDS_PER_SECOND + ucast (ch_timing_remainder c);
              remaining = numerator div ucast clock_hz
          in (True,
              c\<lparr>ch_transmit_fifo_head := (ch_transmit_fifo_head c + 1) mod TRANSMIT_FIFO_BYTES,
                ch_transmit_fifo_length := ch_transmit_fifo_length c - 1,
                ch_timing_remainder := ucast (numerator mod ucast clock_hz),
                ch_active_character := Some
                  \<lparr>ac_value = value, ac_remaining_attoseconds = remaining,
                   ac_local_loopback = local_loopback_enabled c\<rparr>\<rparr>))"

definition transmit_interrupt_enabled :: "channel_state \<Rightarrow> bool" where
  "transmit_interrupt_enabled c \<longleftrightarrow> channel_write_register c 1 AND TRANSMIT_INTERRUPT_ENABLE \<noteq> 0"

definition latch_transmit_interrupt_if_ready :: "channel_state \<Rightarrow> channel_state" where
  "latch_transmit_interrupt_if_ready c =
     (if \<not> transmit_interrupt_enabled c then c
      else
        let fifo_ready =
          (if ch_write_register_prime_seven c AND TRANSMIT_INTERRUPT_FIFO_EMPTY \<noteq> 0
           then ch_transmit_fifo_length c = 0
           else ch_transmit_fifo_length c < TRANSMIT_FIFO_BYTES)
        in c\<lparr>ch_transmit_interrupt_pending := (ch_transmit_interrupt_pending c \<or> fifo_ready)\<rparr>)"

definition reset_transmit_interrupt_pending :: "channel_state \<Rightarrow> channel_state" where
  "reset_transmit_interrupt_pending c = c\<lparr>ch_transmit_interrupt_pending := False\<rparr>"


text \<open>
  The loop of \<^verbatim>\<open>advance_time\<close>. Every completed character leaves one fewer in
  the transmit ring and the shift register together, so the loop ends however much time elapses.
\<close>

definition unsent :: "channel_state \<Rightarrow> nat" where
  "unsent c = ch_transmit_fifo_length c + (if ch_active_character c = None then 0 else 1)"

lemma unsent_start_transmitter [simp]: "unsent (snd (start_transmitter clock_hz c)) = unsent c"
  by (auto simp: unsent_def start_transmitter_def Let_def split: option.split)

lemma unsent_latch [simp]: "unsent (latch_transmit_interrupt_if_ready c) = unsent c"
  by (simp add: unsent_def latch_transmit_interrupt_if_ready_def Let_def)

lemma unsent_receive [simp]: "unsent (receive_local_loopback v c) = unsent c"
  by (simp add: unsent_def receive_local_loopback_def receive_character_def Let_def)

definition start_next_character :: "u64 \<Rightarrow> channel_state \<Rightarrow> channel_state" where
  "start_next_character clock_hz c = (
     let (started, c1) = start_transmitter clock_hz c
     in if started then latch_transmit_interrupt_if_ready c1 else c1)"

lemma unsent_start_next [simp]: "unsent (start_next_character clock_hz c) = unsent c"
  using unsent_start_transmitter [of clock_hz c]
  by (auto simp: start_next_character_def split_beta simp del: unsent_start_transmitter)

definition complete_character :: "active_character \<Rightarrow> channel_state \<Rightarrow> channel_state" where
  "complete_character active c = (
     let c1 = latch_transmit_interrupt_if_ready (c\<lparr>ch_active_character := None\<rparr>)
     in if ac_local_loopback active then receive_local_loopback (ac_value active) c1 else c1)"

lemma unsent_complete:
  "ch_active_character c \<noteq> None \<Longrightarrow> unsent (complete_character active c) < unsent c"
  by (simp add: complete_character_def Let_def) (auto simp: unsent_def)

function channel_advance_time :: "u64 \<Rightarrow> virtual_duration \<Rightarrow> channel_state \<Rightarrow> u8 list \<times> channel_state" where
  "channel_advance_time clock_hz remaining c = (
     let c1 = start_next_character clock_hz c
     in case ch_active_character c1 of
       None \<Rightarrow> ([], c1)
     | Some active \<Rightarrow>
         if remaining < ac_remaining_attoseconds active
         then ([], c1\<lparr>ch_active_character := Some
                (active\<lparr>ac_remaining_attoseconds := ac_remaining_attoseconds active - remaining\<rparr>)\<rparr>)
         else
           let (sent, c2) = channel_advance_time clock_hz (remaining - ac_remaining_attoseconds active)
             (complete_character active c1)
           in (ac_value active # sent, c2))"
  by pat_completeness auto

termination
proof (relation "measure (\<lambda>(clock_hz, remaining, c). unsent c)")
  fix clock_hz remaining c c1 and active :: active_character
  assume "c1 = start_next_character clock_hz c" "ch_active_character c1 = Some active"
  then show "((clock_hz, remaining - ac_remaining_attoseconds active, complete_character active c1),
    (clock_hz, remaining, c)) \<in> measure (\<lambda>(clock_hz, remaining, c). unsent c)"
    using unsent_complete [of c1 active] by simp
qed simp

declare channel_advance_time.simps [simp del]

end
