(* ===== verification/Serial.thy ===== *)
theory Serial
  imports Serial_Channel
begin

text \<open>
  The Z85230 serial controller, the rest of \<^verbatim>\<open>se_device/src/z85230.rs\<close>: the two
  channels behind their four byte ports, the register views, the interrupt sources in their order
  of priority, interrupt acknowledgement and the resets. Channel A is index 0.
\<close>

definition CHANNEL_B_CONTROL :: u64 where "CHANNEL_B_CONTROL = 0x03"
definition CHANNEL_B_DATA :: u64 where "CHANNEL_B_DATA = 0x07"
definition CHANNEL_A_CONTROL :: u64 where "CHANNEL_A_CONTROL = 0x0b"
definition CHANNEL_A_DATA :: u64 where "CHANNEL_A_DATA = 0x0f"
definition MASTER_INTERRUPT_ENABLE :: u8 where "MASTER_INTERRUPT_ENABLE = push_bit 3 1"
definition SOFTWARE_INTERRUPT_ACKNOWLEDGE :: u8 where "SOFTWARE_INTERRUPT_ACKNOWLEDGE = push_bit 5 1"
definition SDLC_STATUS_FIFO_ENABLE :: u8 where "SDLC_STATUS_FIFO_ENABLE = push_bit 2 1"
definition EXTENDED_READ_ENABLE :: u8 where "EXTENDED_READ_ENABLE = push_bit 6 1"
definition CHANNEL_B_RESET :: u8 where "CHANNEL_B_RESET = 0x40"
definition CHANNEL_A_RESET :: u8 where "CHANNEL_A_RESET = 0x80"
definition WHOLE_CHIP_RESET :: u8 where "WHOLE_CHIP_RESET = 0xc0"

datatype serial_channel = ChannelA | ChannelB

fun channel_index :: "serial_channel \<Rightarrow> nat" where
  "channel_index ChannelA = 0"
| "channel_index ChannelB = 1"

datatype interrupt_source = AReceive | ATransmit | BReceive | BTransmit

definition PRIORITY_ORDER :: "interrupt_source list" where
  "PRIORITY_ORDER = [AReceive, ATransmit, BReceive, BTransmit]"

fun source_index :: "interrupt_source \<Rightarrow> nat" where
  "source_index AReceive = 0"
| "source_index ATransmit = 1"
| "source_index BReceive = 2"
| "source_index BTransmit = 3"

fun source_channel :: "interrupt_source \<Rightarrow> nat" where
  "source_channel AReceive = 0"
| "source_channel ATransmit = 0"
| "source_channel BReceive = 1"
| "source_channel BTransmit = 1"

fun pending_mask :: "interrupt_source \<Rightarrow> u8" where
  "pending_mask AReceive = push_bit 5 1"
| "pending_mask ATransmit = push_bit 4 1"
| "pending_mask BReceive = push_bit 2 1"
| "pending_mask BTransmit = push_bit 1 1"

fun normal_vector_status :: "interrupt_source \<Rightarrow> u8" where
  "normal_vector_status AReceive = 6"
| "normal_vector_status ATransmit = 4"
| "normal_vector_status BReceive = 2"
| "normal_vector_status BTransmit = 0"

fun is_receive :: "interrupt_source \<Rightarrow> bool" where
  "is_receive AReceive = True"
| "is_receive ATransmit = False"
| "is_receive BReceive = True"
| "is_receive BTransmit = False"

record z85230 =
  z8_clock_hz :: u64
  z8_channels :: "channel_state list"
  z8_interrupt_vector :: u8
  z8_master_interrupt_control :: u8
  z8_interrupt_under_service :: "bool list"

definition z85230_new :: "u64 \<Rightarrow> z85230 option" where
  "z85230_new clock_hz = do {
     require (clock_hz \<noteq> 0);
     Some \<lparr>z8_clock_hz = clock_hz, z8_channels = [channel_new, channel_new], z8_interrupt_vector = 0,
           z8_master_interrupt_control = 0, z8_interrupt_under_service = [False, False, False, False]\<rparr>
   }"

definition reset_except_master_interrupt_control :: "z85230 \<Rightarrow> z85230" where
  "reset_except_master_interrupt_control z =
     z\<lparr>z8_channels := [channel_new, channel_new], z8_interrupt_vector := 0,
       z8_interrupt_under_service := [False, False, False, False]\<rparr>"

definition z85230_reset :: "z85230 \<Rightarrow> z85230" where
  "z85230_reset z = (reset_except_master_interrupt_control z)\<lparr>z8_master_interrupt_control := 0\<rparr>"

abbreviation z8_channel :: "z85230 \<Rightarrow> nat \<Rightarrow> channel_state" where
  "z8_channel z i \<equiv> z8_channels z ! i"

definition on_channel :: "nat \<Rightarrow> (channel_state \<Rightarrow> channel_state) \<Rightarrow> z85230 \<Rightarrow> z85230" where
  "on_channel i f z = z\<lparr>z8_channels := (z8_channels z)[i := f (z8_channel z i)]\<rparr>"

definition z85230_receive_character :: "serial_channel \<Rightarrow> u8 \<Rightarrow> z85230 \<Rightarrow> z85230" where
  "z85230_receive_character channel value = on_channel (channel_index channel) (receive_external_character value)"

section \<open>Interrupts\<close>

definition interrupt_requested :: "z85230 \<Rightarrow> interrupt_source \<Rightarrow> bool" where
  "interrupt_requested z source = (
     let channel = z8_channel z (source_channel source)
     in if is_receive source then receive_interrupt_pending channel
        else ch_transmit_interrupt_pending channel \<and> transmit_interrupt_enabled channel)"

fun highest_pending_among :: "z85230 \<Rightarrow> interrupt_source list \<Rightarrow> interrupt_source option" where
  "highest_pending_among z [] = None"
| "highest_pending_among z (source # sources) =
     (if z8_interrupt_under_service z ! source_index source then None
      else if interrupt_requested z source then Some source
      else highest_pending_among z sources)"

definition highest_pending_interrupt :: "z85230 \<Rightarrow> interrupt_source option" where
  "highest_pending_interrupt z = highest_pending_among z PRIORITY_ORDER"

definition z85230_interrupt_asserted :: "z85230 \<Rightarrow> bool" where
  "z85230_interrupt_asserted z \<longleftrightarrow>
     z8_master_interrupt_control z AND MASTER_INTERRUPT_ENABLE \<noteq> 0 \<and> highest_pending_interrupt z \<noteq> None"

fun reset_highest_among :: "interrupt_source list \<Rightarrow> bool list \<Rightarrow> bool list" where
  "reset_highest_among [] under_service = under_service"
| "reset_highest_among (source # sources) under_service =
     (if under_service ! source_index source then under_service[source_index source := False]
      else reset_highest_among sources under_service)"

definition reset_highest_interrupt_under_service :: "z85230 \<Rightarrow> z85230" where
  "reset_highest_interrupt_under_service z =
     z\<lparr>z8_interrupt_under_service := reset_highest_among PRIORITY_ORDER (z8_interrupt_under_service z)\<rparr>"

definition reset_channel_interrupts_under_service :: "nat \<Rightarrow> z85230 \<Rightarrow> z85230" where
  "reset_channel_interrupts_under_service channel z =
     z\<lparr>z8_interrupt_under_service :=
        foldl (\<lambda>under_service source.
          if source_channel source = channel then under_service[source_index source := False] else under_service)
          (z8_interrupt_under_service z) PRIORITY_ORDER\<rparr>"

definition interrupt_pending_register :: "z85230 \<Rightarrow> u8" where
  "interrupt_pending_register z =
     foldl (\<lambda>value source. value OR pending_mask source) 0
       (filter (\<lambda>source.
          if is_receive source then receive_interrupt_pending (z8_channel z (source_channel source))
          else ch_transmit_interrupt_pending (z8_channel z (source_channel source))) PRIORITY_ORDER)"

definition interrupt_vector_status :: "z85230 \<Rightarrow> interrupt_source \<Rightarrow> u8" where
  "interrupt_vector_status z source = (
     let status = normal_vector_status source
     in if is_receive source \<and> receive_interrupt_is_special (z8_channel z (source_channel source))
        then status OR 1 else status)"

definition read_interrupt_vector :: "z85230 \<Rightarrow> nat \<Rightarrow> u8" where
  "read_interrupt_vector z channel =
     (if channel = 0 then z8_interrupt_vector z
      else
        let status = (case highest_pending_interrupt z of
            None \<Rightarrow> 3
          | Some source \<Rightarrow> interrupt_vector_status z source)
        in if z8_master_interrupt_control z AND 0x10 \<noteq> 0
           then (z8_interrupt_vector z AND 0x8f) OR push_bit 4 status
           else (z8_interrupt_vector z AND 0xf1) OR push_bit 1 status)"

section \<open>Registers and ports\<close>

definition register_value :: "z85230 \<Rightarrow> nat \<Rightarrow> u8 \<Rightarrow> u8" where
  "register_value z channel register = (
     let state = z8_channel z channel;
         extended_read = (ch_write_register_prime_seven state AND EXTENDED_READ_ENABLE \<noteq> 0);
         sdlc_fifo_off = (channel_write_register state 15 AND SDLC_STATUS_FIFO_ENABLE = 0)
     in if register = 0 then read_register_zero state
        else if register = 1 then read_register_one state
        else if register = 2 then read_interrupt_vector z channel
        else if register = 3 \<and> channel = 0 then interrupt_pending_register z
        else if register = 4 then (if extended_read then channel_write_register state 4 else read_register_zero state)
        else if register = 5 then (if extended_read then channel_write_register state 5 else read_register_one state)
        else if register = 6 \<and> sdlc_fifo_off then read_interrupt_vector z channel
        else if register = 7 \<and> sdlc_fifo_off \<and> channel = 0 then interrupt_pending_register z
        else if register = 8 then peek_data state
        else if register = 9 then (if extended_read then channel_write_register state 3 else channel_write_register state 13)
        else if register = 10 then 0
        else if register = 11 then (if extended_read then channel_write_register state 10 else read_register_fifteen state)
        else if register = 12 \<or> register = 13 then channel_write_register state (unat register)
        else if register = 14 then
          (if extended_read then ch_write_register_prime_seven state else channel_write_register state 10)
        else if register = 15 then read_register_fifteen state
        else 0)"

definition read_control :: "nat \<Rightarrow> z85230 \<Rightarrow> u8 \<times> z85230" where
  "read_control channel z = (
     let (register, c) = take_selected_register (z8_channel z channel);
         z = on_channel channel (\<lambda>_. c) z;
         (value, z) =
           (if register = 8
            then (let (value, c) = read_data c in (value, on_channel channel (\<lambda>_. c) z))
            else (register_value z channel register, z));
         z = (if channel = 1 \<and> register = 2
                 \<and> z8_master_interrupt_control z AND SOFTWARE_INTERRUPT_ACKNOWLEDGE \<noteq> 0
              then (case highest_pending_interrupt z of
                  Some source \<Rightarrow>
                    z\<lparr>z8_interrupt_under_service :=
                       (z8_interrupt_under_service z)[source_index source := True]\<rparr>
                | None \<Rightarrow> z)
              else z)
     in (value, z))"

definition peek_control :: "z85230 \<Rightarrow> nat \<Rightarrow> u8" where
  "peek_control z channel = register_value z channel (ch_selected_register (z8_channel z channel))"

definition execute_command :: "nat \<Rightarrow> u8 \<Rightarrow> z85230 \<Rightarrow> z85230 option" where
  "execute_command channel value z = (
     let command = drop_bit 3 value AND 0x07
     in if command = 4 then Some (on_channel channel enable_interrupt_on_next_receive_character z)
        else if command = 5 then Some (on_channel channel reset_transmit_interrupt_pending z)
        else if command = 6 then
          map_option (\<lambda>c. on_channel channel (\<lambda>_. c) z) (reset_receive_errors (z8_channel z channel))
        else if command = 7 then Some (reset_highest_interrupt_under_service z)
        else Some z)"

definition write_master_interrupt_control :: "u8 \<Rightarrow> z85230 \<Rightarrow> z85230" where
  "write_master_interrupt_control value z = (
     let command = value AND 0xc0;
         z1 = (if command = CHANNEL_B_RESET
               then reset_channel_interrupts_under_service 1 (on_channel 1 (\<lambda>_. channel_new) z)
               else if command = CHANNEL_A_RESET
               then reset_channel_interrupts_under_service 0 (on_channel 0 (\<lambda>_. channel_new) z)
               else if command = WHOLE_CHIP_RESET then reset_except_master_interrupt_control z
               else z)
     in z1\<lparr>z8_master_interrupt_control := value AND 0x3f\<rparr>)"

definition write_control :: "nat \<Rightarrow> u8 \<Rightarrow> z85230 \<Rightarrow> z85230 option" where
  "write_control channel value z = (
     let register = ch_selected_register (z8_channel z channel)
     in if register = 0
        then execute_command channel value (on_channel channel (select_register value) z)
        else do {
          let z1 = on_channel channel (\<lambda>c. c\<lparr>ch_selected_register := 0\<rparr>) z;
          z2 \<leftarrow> (if register = 2 then Some (z1\<lparr>z8_interrupt_vector := value\<rparr>)
                else if register = 9 then Some (write_master_interrupt_control value z1)
                else if register = 7 \<and> channel_write_register (z8_channel z1 channel) 15 AND 1 \<noteq> 0
                then Some (on_channel channel (set_write_register_prime_seven value) z1)
                else map_option (\<lambda>c. on_channel channel (\<lambda>_. c) z1)
                  (set_write_register register value (z8_channel z1 channel)));
          Some (on_channel channel (\<lambda>c. snd (start_transmitter (z8_clock_hz z2) c)) z2)
        })"

datatype serial_port = PortControl nat | PortData nat

definition decode_port :: "device_addr \<Rightarrow> nat \<Rightarrow> bus_error + serial_port" where
  "decode_port address len =
     (if \<not> (1 \<le> len \<and> len \<le> 4) then Inl InvalidTransaction
      else if len \<noteq> 1 then Inl UnimplementedAccess
      else if address = CHANNEL_B_CONTROL then Inr (PortControl 1)
      else if address = CHANNEL_B_DATA then Inr (PortData 1)
      else if address = CHANNEL_A_CONTROL then Inr (PortControl 0)
      else if address = CHANNEL_A_DATA then Inr (PortData 0)
      else Inl UnimplementedAccess)"

definition z85230_read :: "device_addr \<Rightarrow> nat \<Rightarrow> z85230 \<Rightarrow> (bus_error + u8) \<times> z85230" where
  "z85230_read address len z =
     (case decode_port address len of
        Inl e \<Rightarrow> (Inl e, z)
      | Inr (PortControl channel) \<Rightarrow> (let (value, z) = read_control channel z in (Inr value, z))
      | Inr (PortData channel) \<Rightarrow>
          (let (value, c) = read_data (z8_channel z channel) in (Inr value, on_channel channel (\<lambda>_. c) z)))"

definition z85230_debug_read :: "device_addr \<Rightarrow> nat \<Rightarrow> z85230 \<Rightarrow> bus_error + u8" where
  "z85230_debug_read address len z =
     (case decode_port address len of
        Inl e \<Rightarrow> Inl e
      | Inr (PortControl channel) \<Rightarrow> Inr (peek_control z channel)
      | Inr (PortData channel) \<Rightarrow> Inr (peek_data (z8_channel z channel)))"

definition z85230_write :: "device_addr \<Rightarrow> u8 list \<Rightarrow> z85230 \<Rightarrow> ((bus_error + unit) \<times> z85230) option" where
  "z85230_write address data z =
     (case decode_port address (length data) of
        Inl e \<Rightarrow> Some (Inl e, z)
      | Inr (PortControl channel) \<Rightarrow> map_option (\<lambda>z. (Inr (), z)) (write_control channel (hd data) z)
      | Inr (PortData channel) \<Rightarrow>
          (let (written, c) = write_data (hd data) (z8_channel z channel);
               c = (if written then snd (start_transmitter (z8_clock_hz z) c) else c)
           in Some (Inr (), on_channel channel (\<lambda>_. c) z)))"

section \<open>Time\<close>

definition z85230_advance_time ::
  "virtual_duration \<Rightarrow> z85230 \<Rightarrow> (serial_channel \<times> u8) list \<times> z85230" where
  "z85230_advance_time elapsed z = (
     let (a, c0) = channel_advance_time (z8_clock_hz z) elapsed (z8_channel z 0);
         z = on_channel 0 (\<lambda>_. c0) z;
         (b, c1) = channel_advance_time (z8_clock_hz z) elapsed (z8_channel z 1)
     in (map (Pair ChannelA) a @ map (Pair ChannelB) b, on_channel 1 (\<lambda>_. c1) z))"

definition z85230_time_until_event :: "z85230 \<Rightarrow> virtual_duration option" where
  "z85230_time_until_event z =
     (case List.map_filter (\<lambda>c. map_option ac_remaining_attoseconds (ch_active_character c)) (z8_channels z) of
        [] \<Rightarrow> None
      | t # ts \<Rightarrow> Some (foldl min t ts))"

end
