(* ===== verification/Ring.thy ===== *)
theory Ring
  imports Prelude
begin

text \<open>
  Ring buffers: the queue held by a fixed array, the index of its first entry and its length, as
  the serial controller, the keyboard and the mouse keep their characters. The lemmas give the
  queue after an append, a removal and the replacement of the newest entry.
\<close>

definition ring_list :: "'a list \<Rightarrow> nat \<Rightarrow> nat \<Rightarrow> 'a list" where
  "ring_list xs head len = map (\<lambda>i. xs ! ((head + i) mod length xs)) [0..<len]"

lemma length_ring_list [simp]: "length (ring_list xs head len) = len"
  by (simp add: ring_list_def)

lemma ring_list_0 [simp]: "ring_list xs head 0 = []"
  by (simp add: ring_list_def)

lemma ring_list_eq_Nil [simp]: "ring_list xs head len = [] \<longleftrightarrow> len = 0"
  by (simp add: ring_list_def)

lemma nth_ring_list: "i < len \<Longrightarrow> ring_list xs head len ! i = xs ! ((head + i) mod length xs)"
  by (simp add: ring_list_def)

lemma ring_index_inj:
  fixes i j n :: nat
  assumes "(head + i) mod n = (head + j) mod n" "i < n" "j < n"
  shows "i = j"
proof (rule ccontr)
  assume "i \<noteq> j"
  have wlog: False if "i < j" "j < n" "(head + i) mod n = (head + j) mod n" for i j
  proof -
    have "n dvd (head + j) - (head + i)" using that(3) mod_eq_dvd_iff_nat [of "head + i" "head + j" n] that(1) by simp
    then show False using that by (auto dest: dvd_imp_le)
  qed
  show False using \<open>i \<noteq> j\<close> wlog [of i j] wlog [of j i] assms by fastforce
qed

lemma ring_list_append:
  assumes "len < length xs"
  shows "ring_list (xs[(head + len) mod length xs := v]) head (Suc len) = ring_list xs head len @ [v]"
proof -
  have "(head + len) mod length xs \<noteq> (head + i) mod length xs" if "i < len" for i
    using ring_index_inj [of head i "length xs" len] that assms by auto
  moreover have "(head + len) mod length xs < length xs" using assms by (intro mod_less_divisor) linarith
  ultimately show ?thesis by (simp add: ring_list_def)
qed

lemma ring_list_hd: "0 < len \<Longrightarrow> head < length xs \<Longrightarrow> hd (ring_list xs head len) = xs ! head"
  by (simp add: ring_list_def hd_map)

lemma ring_list_tl: "ring_list xs ((head + 1) mod length xs) (len - 1) = tl (ring_list xs head len)"
  by (rule nth_equalityI)
    (auto simp: nth_tl nth_ring_list mod_add_left_eq)

lemma ring_list_replace_last:
  assumes "0 < len" "len \<le> length xs"
  shows "ring_list (xs[(head + len - 1) mod length xs := v]) head len = butlast (ring_list xs head len) @ [v]"
proof -
  obtain k where k: "len = Suc k" using assms(1) by (cases len) simp_all
  show ?thesis
    using ring_list_append [of k xs head v] assms(2)
    by (simp add: k ring_list_def)
qed

end
