(* ===== verification/Serial_Correct.thy ===== *)
theory Serial_Correct
  imports Serial Ring Timed
begin

text \<open>
  Correctness of the Z85230 serial controller: the state invariant that excludes every panic, the
  receive and transmit rings as queues, exact transmission times, and the nesting of interrupts.
\<close>

lemmas serial_sizes = RECEIVE_FIFO_BYTES_def TRANSMIT_FIFO_BYTES_def

section \<open>The state invariant\<close>

text \<open>
  A channel is good when its arrays have the size of the code's arrays, its rings and its register
  pointer are in range, a locked receive ring holds the character it is locked on, and a character
  waits in the transmit ring only while the transmitter is stopped or busy.
\<close>

definition transmitter_eager :: "channel_state \<Rightarrow> bool" where
  "transmitter_eager c \<longleftrightarrow>
     ch_active_character c = None \<longrightarrow> ch_transmit_fifo_length c = 0 \<or> frame_units c = None"

definition channel_ok :: "channel_state \<Rightarrow> bool" where
  "channel_ok c \<longleftrightarrow>
     length (ch_write_registers c) = 16 \<and> unat (ch_selected_register c) < 16 \<and>
     length (ch_receive_fifo c) = RECEIVE_FIFO_BYTES \<and> ch_receive_fifo_head c < RECEIVE_FIFO_BYTES \<and>
     ch_receive_fifo_length c \<le> RECEIVE_FIFO_BYTES \<and>
     length (ch_transmit_fifo c) = TRANSMIT_FIFO_BYTES \<and> ch_transmit_fifo_head c < TRANSMIT_FIFO_BYTES \<and>
     ch_transmit_fifo_length c \<le> TRANSMIT_FIFO_BYTES \<and>
     (ch_receive_fifo_locked c \<longrightarrow> ch_receive_fifo_length c \<noteq> 0)"

definition z85230_ok :: "z85230 \<Rightarrow> bool" where
  "z85230_ok z \<longleftrightarrow>
     z8_clock_hz z \<noteq> 0 \<and> length (z8_channels z) = 2 \<and> length (z8_interrupt_under_service z) = 4 \<and>
     (\<forall>c\<in>set (z8_channels z). channel_ok c \<and> transmitter_eager c)"

lemma frame_units_cong:
  "ch_write_registers c = ch_write_registers d \<Longrightarrow> frame_units c = frame_units d"
proof -
  assume "ch_write_registers c = ch_write_registers d"
  then have "channel_write_register c = channel_write_register d"
    by (intro ext) (simp add: channel_write_register_def)
  then show ?thesis by (simp only: frame_units_def)
qed

lemma frame_units_updates [simp]:
  "frame_units (c\<lparr>ch_selected_register := r\<rparr>) = frame_units c"
  "frame_units (c\<lparr>ch_write_register_prime_seven := r\<rparr>) = frame_units c"
  "frame_units (c\<lparr>ch_receive_fifo := q\<rparr>) = frame_units c"
  "frame_units (c\<lparr>ch_receive_fifo_head := n\<rparr>) = frame_units c"
  "frame_units (c\<lparr>ch_receive_fifo_length := n\<rparr>) = frame_units c"
  "frame_units (c\<lparr>ch_first_character_interrupt_armed := b\<rparr>) = frame_units c"
  "frame_units (c\<lparr>ch_receive_error_latch := r\<rparr>) = frame_units c"
  "frame_units (c\<lparr>ch_receive_fifo_locked := b\<rparr>) = frame_units c"
  "frame_units (c\<lparr>ch_transmit_fifo := t\<rparr>) = frame_units c"
  "frame_units (c\<lparr>ch_transmit_fifo_head := n\<rparr>) = frame_units c"
  "frame_units (c\<lparr>ch_transmit_fifo_length := n\<rparr>) = frame_units c"
  "frame_units (c\<lparr>ch_transmit_interrupt_pending := b\<rparr>) = frame_units c"
  "frame_units (c\<lparr>ch_active_character := a\<rparr>) = frame_units c"
  "frame_units (c\<lparr>ch_timing_remainder := m\<rparr>) = frame_units c"
  by (rule frame_units_cong, simp)+

lemma channel_new_ok: "channel_ok channel_new" "transmitter_eager channel_new"
  by (simp_all add: channel_ok_def transmitter_eager_def channel_new_def RESET_WRITE_REGISTERS_def serial_sizes)

lemma select_register_ok:
  assumes "channel_ok c"
  shows "channel_ok (select_register v c)"
proof -
  have "unat (v AND 7) < 8" using unat_and_lt [of 7 8 v] by simp
  then have "unat ((v AND 7) + 8) < 16" by (simp add: unat_word_ariths)
  then show ?thesis using assms \<open>unat (v AND 7) < 8\<close> by (simp add: channel_ok_def select_register_def Let_def)
qed

lemma set_write_register_ok:
  assumes "channel_ok c" "unat r < 16"
  shows "ok (set_write_register r v c) channel_ok"
  using assms by (simp add: set_write_register_def channel_ok_def Let_def)

lemma receive_character_ok:
  "channel_ok c \<Longrightarrow> channel_ok (receive_character v c)"
  "transmitter_eager (receive_character v c) = transmitter_eager c"
  by (auto simp: receive_character_def Let_def channel_ok_def transmitter_eager_def serial_sizes)

lemma receive_line_ok:
  "channel_ok c \<Longrightarrow> channel_ok (receive_external_character v c)"
  "channel_ok c \<Longrightarrow> channel_ok (receive_local_loopback v c)"
  "transmitter_eager (receive_external_character v c) = transmitter_eager c"
  "transmitter_eager (receive_local_loopback v c) = transmitter_eager c"
  by (simp_all add: receive_external_character_def receive_local_loopback_def receive_character_ok)

lemma read_data_ok:
  "channel_ok c \<Longrightarrow> channel_ok (snd (read_data c))"
  "transmitter_eager (snd (read_data c)) = transmitter_eager c"
  by (auto simp: read_data_def Let_def channel_ok_def transmitter_eager_def serial_sizes)

lemma reset_receive_errors_ok:
  "channel_ok c \<Longrightarrow> ok (reset_receive_errors c) channel_ok"
  "channel_ok c \<Longrightarrow> ok (reset_receive_errors c) (\<lambda>d. transmitter_eager d = transmitter_eager c)"
  by (auto simp: reset_receive_errors_def Let_def channel_ok_def transmitter_eager_def serial_sizes)

lemma write_data_ok: "channel_ok c \<Longrightarrow> channel_ok (snd (write_data v c))"
  by (auto simp: write_data_def Let_def channel_ok_def serial_sizes)

lemma start_transmitter_ok:
  "channel_ok c \<Longrightarrow> channel_ok (snd (start_transmitter k c))"
  "transmitter_eager (snd (start_transmitter k c))"
  by (auto simp: start_transmitter_def Let_def channel_ok_def transmitter_eager_def serial_sizes split: option.split)

lemma latch_ok:
  "channel_ok c \<Longrightarrow> channel_ok (latch_transmit_interrupt_if_ready c)"
  "transmitter_eager (latch_transmit_interrupt_if_ready c) = transmitter_eager c"
  by (simp_all add: latch_transmit_interrupt_if_ready_def Let_def channel_ok_def transmitter_eager_def)

lemma start_next_ok:
  "channel_ok c \<Longrightarrow> channel_ok (start_next_character k c)"
  "transmitter_eager (start_next_character k c)"
  by (simp_all add: start_next_character_def split_beta latch_ok start_transmitter_ok)

lemma channel_ok_active [simp]: "channel_ok (c\<lparr>ch_active_character := a\<rparr>) = channel_ok c"
  by (simp add: channel_ok_def)

lemma transmitter_eager_active [simp]: "transmitter_eager (c\<lparr>ch_active_character := Some a\<rparr>)"
  by (simp add: transmitter_eager_def)

lemma complete_ok: "channel_ok c \<Longrightarrow> channel_ok (complete_character a c)"
  by (simp add: complete_character_def Let_def receive_line_ok latch_ok)

lemma advance_ok: "channel_ok c \<Longrightarrow> channel_ok (snd (channel_advance_time k t c))"
proof (induction k t c rule: channel_advance_time.induct)
  case (1 k t c)
  then show ?case
    using start_next_ok(1) [of c k]
    by (subst channel_advance_time.simps)
      (simp add: Let_def split_beta complete_ok split: option.split)
qed

lemma advance_eager: "transmitter_eager (snd (channel_advance_time k t c))"
proof (induction k t c rule: channel_advance_time.induct)
  case (1 k t c)
  then show ?case
    using start_next_ok(2) [of k c]
    by (subst channel_advance_time.simps)
      (simp add: Let_def split_beta split: option.split)
qed

text \<open>The state after creation, and every operation.\<close>

lemma z85230_new_ok: "clock_hz \<noteq> 0 \<Longrightarrow> ok (z85230_new clock_hz) z85230_ok"
  by (simp add: z85230_new_def z85230_ok_def channel_new_ok)

lemma set_list_update: "(\<forall>x\<in>set (xs[i := v]). P x)" if "\<forall>x\<in>set xs. P x" "P v"
  using that by (auto dest!: set_update_subset_insert [THEN subsetD])

lemma on_channel_ok:
  assumes "z85230_ok z" "i < 2" "channel_ok (f (z8_channel z i))" "transmitter_eager (f (z8_channel z i))"
  shows "z85230_ok (on_channel i f z)"
  using assms(1) set_list_update [of "z8_channels z" "\<lambda>c. channel_ok c \<and> transmitter_eager c" "f (z8_channel z i)" i]
    assms(3,4)
  by (simp add: z85230_ok_def on_channel_def)

lemma put_channel_ok:
  "z85230_ok z \<Longrightarrow> i < 2 \<Longrightarrow> channel_ok c \<Longrightarrow> transmitter_eager c \<Longrightarrow>
    z85230_ok (on_channel i (\<lambda>_. c) z)"
  by (rule on_channel_ok)

lemma z8_channel_ok:
  assumes "z85230_ok z" "i < 2"
  shows "channel_ok (z8_channel z i)" "transmitter_eager (z8_channel z i)"
  using assms by (simp_all add: z85230_ok_def)

lemma z85230_ok_updates [simp]:
  "z85230_ok (z\<lparr>z8_interrupt_vector := v\<rparr>) = z85230_ok z"
  "z85230_ok (z\<lparr>z8_master_interrupt_control := v\<rparr>) = z85230_ok z"
  by (simp_all add: z85230_ok_def)

lemma under_service_ok:
  "z85230_ok z \<Longrightarrow> length u = length (z8_interrupt_under_service z) \<Longrightarrow>
    z85230_ok (z\<lparr>z8_interrupt_under_service := u\<rparr>)"
  by (simp add: z85230_ok_def)

lemma length_reset_highest [simp]: "length (reset_highest_among sources u) = length u"
  by (induction sources) simp_all

lemma length_reset_channel [simp]:
  "length (foldl (\<lambda>u s. if P s then u[f s := False] else u) u sources) = length u"
  by (induction sources arbitrary: u) simp_all

lemma resets_ok:
  "z85230_ok z \<Longrightarrow> z85230_ok (reset_except_master_interrupt_control z)"
  "z85230_ok z \<Longrightarrow> z85230_ok (z85230_reset z)"
  "z85230_ok z \<Longrightarrow> z85230_ok (reset_highest_interrupt_under_service z)"
  "z85230_ok z \<Longrightarrow> z85230_ok (reset_channel_interrupts_under_service i z)"
  by (simp_all add: reset_except_master_interrupt_control_def z85230_reset_def channel_new_ok
      reset_highest_interrupt_under_service_def reset_channel_interrupts_under_service_def under_service_ok)
    (simp_all add: z85230_ok_def channel_new_ok)

lemma master_control_ok: "z85230_ok z \<Longrightarrow> z85230_ok (write_master_interrupt_control v z)"
  by (simp add: write_master_interrupt_control_def Let_def resets_ok on_channel_ok channel_new_ok)

lemma z85230_receive_ok: "z85230_ok z \<Longrightarrow> z85230_ok (z85230_receive_character c v z)"
  unfolding z85230_receive_character_def
  by (rule on_channel_ok) (cases c; simp add: receive_line_ok z8_channel_ok)+


lemma selected_register_ok:
  "channel_ok c \<Longrightarrow> channel_ok (c\<lparr>ch_selected_register := 0\<rparr>)"
  "transmitter_eager (c\<lparr>ch_selected_register := r\<rparr>) = transmitter_eager c"
  "transmitter_eager (select_register v c) = transmitter_eager c"
  by (simp_all add: channel_ok_def transmitter_eager_def select_register_def Let_def)

lemma eager_updates [simp]:
  "transmitter_eager (enable_interrupt_on_next_receive_character c) = transmitter_eager c"
  "transmitter_eager (reset_transmit_interrupt_pending c) = transmitter_eager c"
  "channel_ok (enable_interrupt_on_next_receive_character c) = channel_ok c"
  "channel_ok (reset_transmit_interrupt_pending c) = channel_ok c"
  by (simp_all add: transmitter_eager_def channel_ok_def enable_interrupt_on_next_receive_character_def
      reset_transmit_interrupt_pending_def)

lemma prime_seven_ok: "channel_ok (set_write_register_prime_seven v c) = channel_ok c"
  by (simp add: channel_ok_def set_write_register_prime_seven_def)

lemma on_channel_fields [simp]:
  "z8_clock_hz (on_channel i f z) = z8_clock_hz z"
  "z8_master_interrupt_control (on_channel i f z) = z8_master_interrupt_control z"
  "z8_interrupt_under_service (on_channel i f z) = z8_interrupt_under_service z"
  "z8_interrupt_vector (on_channel i f z) = z8_interrupt_vector z"
  "z85230_ok z \<Longrightarrow> i < 2 \<Longrightarrow> z8_channel (on_channel i f z) i = f (z8_channel z i)"
  "i \<noteq> j \<Longrightarrow> z8_channel (on_channel i f z) j = z8_channel z j"
  by (simp_all add: on_channel_def z85230_ok_def)

lemma read_control_ok:
  assumes "z85230_ok z" "channel < 2"
  shows "z85230_ok (snd (read_control channel z))"
proof -
  let ?c = "snd (take_selected_register (z8_channel z channel))"
  have c: "channel_ok ?c" "transmitter_eager ?c"
    using z8_channel_ok [OF assms] by (simp_all add: take_selected_register_def selected_register_ok)
  have z1: "z85230_ok (on_channel channel (\<lambda>_. ?c) z)"
    by (rule put_channel_ok [OF assms c])
  have z2: "z85230_ok (on_channel channel (\<lambda>_. snd (read_data ?c)) (on_channel channel (\<lambda>_. ?c) z))"
    by (rule put_channel_ok [OF z1 assms(2)]) (simp_all add: c read_data_ok)
  show ?thesis
    using z1 z2 under_service_ok
    by (auto simp: read_control_def split_beta Let_def split: option.split)
qed

lemma execute_command_ok:
  assumes "z85230_ok z" "channel < 2"
  shows "ok (execute_command channel v z) z85230_ok"
proof -
  note c = z8_channel_ok [OF assms]
  have "ok (reset_receive_errors (z8_channel z channel)) (\<lambda>c. z85230_ok (on_channel channel (\<lambda>_. c) z))"
    by (rule ok_mono [OF ok_conj [OF reset_receive_errors_ok(1,2) [OF c(1)]]]) (simp add: put_channel_ok assms c(2))
  then show ?thesis
    using assms c by (simp add: execute_command_def Let_def on_channel_ok resets_ok)
qed

lemma write_control_ok:
  assumes "z85230_ok z" "channel < 2"
  shows "ok (write_control channel v z) z85230_ok"
proof (cases "ch_selected_register (z8_channel z channel) = 0")
  case True
  have "z85230_ok (on_channel channel (select_register v) z)"
    using z8_channel_ok [OF assms] by (intro on_channel_ok assms) (simp_all add: select_register_ok selected_register_ok)
  then show ?thesis
    using True by (simp add: write_control_def execute_command_ok assms(2))
next
  case False
  let ?r = "ch_selected_register (z8_channel z channel)"
  let ?z1 = "on_channel channel (\<lambda>c. c\<lparr>ch_selected_register := 0\<rparr>) z"
  note c = z8_channel_ok [OF assms]
  have z1: "z85230_ok ?z1"
    using c by (intro on_channel_ok assms) (simp_all add: selected_register_ok)
  have r: "unat ?r < 16" using c(1) by (simp add: channel_ok_def)
  define good where "good z' \<longleftrightarrow> z8_clock_hz z' \<noteq> 0 \<and> length (z8_channels z') = 2 \<and>
    length (z8_interrupt_under_service z') = 4 \<and> (\<forall>d\<in>set (z8_channels z'). channel_ok d) \<and>
    transmitter_eager (z8_channel z' (1 - channel))" for z'
  have good: "good z'" if "z85230_ok z'" for z' using that by (simp add: good_def z85230_ok_def)
  have start: "z85230_ok (on_channel channel (\<lambda>c. snd (start_transmitter k c)) z')" if g: "good z'" for z' k
  proof -
    obtain d0 d1 where d: "z8_channels z' = [d0, d1]"
      using g by (cases "z8_channels z'"; cases "tl (z8_channels z')") (auto simp: good_def)
    then show ?thesis
      using g assms(2) start_transmitter_ok
      by (cases "channel = 0") (auto simp: good_def z85230_ok_def on_channel_def less_2_cases_iff)
  qed
  have update: "good (on_channel channel (\<lambda>_. d) ?z1)" if "channel_ok d" for d
    using that good [OF z1] assms(2) set_list_update [of "z8_channels ?z1" channel_ok d channel]
    by (auto simp: good_def less_2_cases_iff) (simp_all add: on_channel_def)
  have prime: "good (on_channel channel (set_write_register_prime_seven v) ?z1)"
  proof -
    have "on_channel channel (set_write_register_prime_seven v) ?z1 =
        on_channel channel (\<lambda>_. set_write_register_prime_seven v (z8_channel ?z1 channel)) ?z1"
      by (simp add: on_channel_def)
    then show ?thesis
      using z8_channel_ok(1) [OF z1 assms(2)] by (simp only: update prime_seven_ok)
  qed
  have "ok (set_write_register ?r v (z8_channel ?z1 channel))
      (\<lambda>d. z85230_ok (on_channel channel (\<lambda>c. snd (start_transmitter k c)) (on_channel channel (\<lambda>_. d) ?z1)))" for k
    by (rule ok_mono [OF set_write_register_ok [OF z8_channel_ok(1) [OF z1 assms(2)] r]]) (rule start [OF update])
  then show ?thesis
    using False prime good z1
    by (simp add: write_control_def start master_control_ok Let_def)
qed

lemma decode_port_channel:
  "decode_port a n = Inr (PortControl channel) \<Longrightarrow> channel < 2"
  "decode_port a n = Inr (PortData channel) \<Longrightarrow> channel < 2"
  by (auto simp: decode_port_def split: if_splits)

lemma z85230_read_ok: "z85230_ok z \<Longrightarrow> z85230_ok (snd (z85230_read a n z))"
  by (auto simp: z85230_read_def split_beta read_control_ok decode_port_channel on_channel_ok read_data_ok z8_channel_ok
      split: sum.split serial_port.split)

lemma z85230_write_ok:
  assumes "z85230_ok z"
  shows "ok (z85230_write a bs z) (\<lambda>(r, z'). z85230_ok z')"
proof -
  have written: "transmitter_eager (snd (write_data v c))"
    if "\<not> fst (write_data v c)" "transmitter_eager c" for v c
    using that by (auto simp: write_data_def Let_def split: if_splits)
  show ?thesis
    using assms written
    by (auto simp: z85230_write_def split_beta Let_def write_control_ok decode_port_channel on_channel_ok
        start_transmitter_ok write_data_ok z8_channel_ok split: sum.split serial_port.split)
qed

lemma z85230_advance_ok: "z85230_ok z \<Longrightarrow> z85230_ok (snd (z85230_advance_time t z))"
  by (simp add: z85230_advance_time_def split_beta Let_def on_channel_ok advance_ok advance_eager z8_channel_ok)


section \<open>Transmission times\<close>

lemma start_next_idle [simp]:
  "ch_active_character c \<noteq> None \<Longrightarrow> start_next_character k c = c"
  by (simp add: start_next_character_def start_transmitter_def)

lemma start_transmitter_result:
  "if fst (start_transmitter k c) then ch_active_character (snd (start_transmitter k c)) \<noteq> None
   else snd (start_transmitter k c) = c"
  by (simp add: start_transmitter_def Let_def split: option.split)

lemma latch_active [simp]: "ch_active_character (latch_transmit_interrupt_if_ready c) = ch_active_character c"
  by (simp add: latch_transmit_interrupt_if_ready_def Let_def)

lemma start_next_none:
  "ch_active_character (start_next_character k c) = None \<Longrightarrow> start_next_character k c = c"
  using start_transmitter_result [of k c]
  by (cases "fst (start_transmitter k c)") (simp_all add: start_next_character_def split_beta)

lemma channel_advance_additive:
  assumes "unat a + unat b < 2 ^ 128"
  shows "channel_advance_time k (a + b) c = (
    let (sent, c1) = channel_advance_time k a c; (sent', c2) = channel_advance_time k b c1
    in (sent @ sent', c2))"
  using assms
proof (induction k a c rule: channel_advance_time.induct)
  case (1 k a c)
  let ?c = "start_next_character k c"
  have sum: "unat (a + b) = unat a + unat b" using "1.prems" by (simp add: unat_word_ariths)
  show ?case
  proof (cases "ch_active_character ?c")
    case None
    then have "?c = c" by (rule start_next_none)
    then show ?thesis
      using None by (simp add: channel_advance_time.simps [of k _ c])
  next
    case (Some active)
    let ?r = "ac_remaining_attoseconds active"
    have r: "unat ?r \<le> unat a" if "\<not> a < ?r" using that by (simp add: word_less_nat_alt)
    show ?thesis
    proof (cases "a < ?r")
      case True
      let ?c1 = "?c\<lparr>ch_active_character := Some (active\<lparr>ac_remaining_attoseconds := ?r - a\<rparr>)\<rparr>"
      have first: "channel_advance_time k a c = ([], ?c1)"
        using Some True by (subst channel_advance_time.simps) (simp add: Let_def)
      have less: "b < ?r - a \<longleftrightarrow> a + b < ?r" and rest: "?r - a - b = ?r - (a + b)" "b - (?r - a) = a + b - ?r"
        using True sum by (auto simp: word_less_nat_alt unat_sub_if')
      have complete: "complete_character (active\<lparr>ac_remaining_attoseconds := ?r - a\<rparr>) ?c1 = complete_character active ?c"
        by (simp add: complete_character_def Let_def)
      show ?thesis
        unfolding first
        using Some less rest complete
        by (simp add: channel_advance_time.simps [of k b] channel_advance_time.simps [of k "a + b" c] Let_def
            diff_diff_eq2 add.commute)
    next
      case False
      have "unat (a - ?r) + unat b < 2 ^ 128" and shift: "a + b - ?r = (a - ?r) + b"
        using r [OF False] "1.prems" by (simp_all add: unat_sub_if')
      moreover have "\<not> a + b < ?r"
        using r [OF False] sum by (simp add: word_less_nat_alt)
      ultimately show ?thesis
        using "1.IH" [OF refl Some False] Some False
        by (simp add: channel_advance_time.simps [of k a c] channel_advance_time.simps [of k "a + b" c] Let_def split_beta
            diff_add_eq)
    qed
  qed
qed

text \<open>The characters sent are the output of a device that keeps virtual time.\<close>

definition serial_elapse ::
  "virtual_duration \<Rightarrow> u8 list \<times> u8 list \<times> z85230 \<Rightarrow> (u8 list \<times> u8 list \<times> z85230) option" where
  "serial_elapse t = (\<lambda>(sent_a, sent_b, z).
     let (sent, z') = z85230_advance_time t z
     in Some (sent_a @ map snd (filter (\<lambda>x. fst x = ChannelA) sent),
              sent_b @ map snd (filter (\<lambda>x. fst x = ChannelB) sent), z'))"

lemma serial_elapse_channels:
  "serial_elapse t (sent_a, sent_b, z) = Some
     (sent_a @ fst (channel_advance_time (z8_clock_hz z) t (z8_channel z 0)),
      sent_b @ fst (channel_advance_time (z8_clock_hz z) t (z8_channel z 1)),
      on_channel 1 (\<lambda>_. snd (channel_advance_time (z8_clock_hz z) t (z8_channel z 1)))
        (on_channel 0 (\<lambda>_. snd (channel_advance_time (z8_clock_hz z) t (z8_channel z 0))) z))"
  by (simp add: serial_elapse_def z85230_advance_time_def split_beta Let_def filter_map comp_def)

interpretation serial_timed: timed_device serial_elapse "\<lambda>(sent_a, sent_b, z). z85230_ok z"
proof
  fix s :: "u8 list \<times> u8 list \<times> z85230" and d
  assume "case s of (sent_a, sent_b, z) \<Rightarrow> z85230_ok z"
  then show "ok (serial_elapse d s) (\<lambda>(sent_a, sent_b, z). z85230_ok z)"
    by (cases s) (simp add: serial_elapse_def split_beta z85230_advance_ok)
next
  fix s :: "u8 list \<times> u8 list \<times> z85230" and d e :: virtual_duration
  assume good: "case s of (sent_a, sent_b, z) \<Rightarrow> z85230_ok z" and fits: "unat d + unat e < 2 ^ 128"
  obtain sent_a sent_b z where s: "s = (sent_a, sent_b, z)" by (cases s)
  have z: "z85230_ok z" using good s by simp
  then have "length (z8_channels z) = 2" by (simp add: z85230_ok_def)
  then obtain c0 c1 where two: "z8_channels z = [c0, c1]"
    by (cases "z8_channels z"; cases "tl (z8_channels z)") auto
  show "serial_elapse (d + e) s = Option.bind (serial_elapse d s) (serial_elapse e)"
    by (simp add: s serial_elapse_channels channel_advance_additive [OF fits] split_beta Let_def on_channel_def two)
qed


text \<open>
  However the board cuts a span of time into synchronizations, the serial controller sends the
  same characters on each channel, in the same order, and ends in the same state as when the whole
  span elapses at once, provided the span fits the 128-bit attosecond count.
\<close>

lemma serial_time_additive:
  assumes "z85230_ok z" "time_fits (d # ds)"
  shows "advance_pieces serial_elapse (d # ds) ([], [], z) = serial_elapse (sum_list (d # ds)) ([], [], z)"
  by (rule serial_timed.pieces_additive) (use assms in simp_all)

subsection \<open>The next event\<close>

lemma channel_event:
  assumes "transmitter_eager c"
  shows "fst (channel_advance_time k t c) = [] \<longleftrightarrow>
    (case ch_active_character c of None \<Rightarrow> True | Some active \<Rightarrow> t < ac_remaining_attoseconds active)"
proof (cases "ch_active_character c")
  case None
  have "start_transmitter k c = (False, c)"
    using assms None by (auto simp: start_transmitter_def transmitter_eager_def)
  then have "start_next_character k c = c" by (simp add: start_next_character_def)
  then show ?thesis using None by (subst channel_advance_time.simps) simp
next
  case (Some active)
  then show ?thesis
    by (subst channel_advance_time.simps) (simp add: split_beta Let_def)
qed

text \<open>
  The deadline the serial controller reports to the board is exact: no character is completed
  in any shorter time, at least one is completed when it elapses, and without a deadline no time
  completes a character.
\<close>

lemma serial_event_exact:
  assumes "z85230_ok z"
  shows "case z85230_time_until_event z of
      None \<Rightarrow> \<forall>t. fst (z85230_advance_time t z) = []
    | Some deadline \<Rightarrow> \<forall>t. fst (z85230_advance_time t z) = [] \<longleftrightarrow> t < deadline"
proof -
  obtain c0 c1 where z: "z8_channels z = [c0, c1]"
    using assms by (cases "z8_channels z"; cases "tl (z8_channels z)") (auto simp: z85230_ok_def)
  then have "transmitter_eager c0" "transmitter_eager c1" using assms by (simp_all add: z85230_ok_def)
  then have "fst (z85230_advance_time t z) = [] \<longleftrightarrow>
      (case ch_active_character c0 of None \<Rightarrow> True | Some active \<Rightarrow> t < ac_remaining_attoseconds active) \<and>
      (case ch_active_character c1 of None \<Rightarrow> True | Some active \<Rightarrow> t < ac_remaining_attoseconds active)" for t
    by (simp add: z85230_advance_time_def split_beta Let_def z on_channel_def channel_event)
  then show ?thesis
    by (cases "ch_active_character c0"; cases "ch_active_character c1")
      (simp_all add: z85230_time_until_event_def z List.map_filter_def)
qed

text \<open>A controller that is sending one character.\<close>

lemma serial_event_exact_witness:
  "\<exists>z. z85230_ok z \<and> z85230_time_until_event z = Some 1000 \<and>
    fst (z85230_advance_time 999 z) = [] \<and> fst (z85230_advance_time 1000 z) \<noteq> []"
proof -
  define c where "c = channel_new\<lparr>ch_active_character := Some
    \<lparr>ac_value = 0x41, ac_remaining_attoseconds = 1000, ac_local_loopback = False\<rparr>\<rparr>"
  define z where "z = \<lparr>z8_clock_hz = 3672000, z8_channels = [c, channel_new], z8_interrupt_vector = 0,
    z8_master_interrupt_control = 0, z8_interrupt_under_service = [False, False, False, False]\<rparr>"
  have ok: "z85230_ok z" by (simp add: z85230_ok_def z_def c_def channel_new_ok)
  have "ch_active_character channel_new = None" by (simp add: channel_new_def)
  then have "z85230_time_until_event z = Some 1000"
    by (simp add: z85230_time_until_event_def z_def c_def List.map_filter_def)
  with serial_event_exact [OF ok] ok show ?thesis by (intro exI [of _ z]) simp
qed

section \<open>The receiver as a queue\<close>

text \<open>The characters waiting in the receive ring, oldest first.\<close>

definition received :: "channel_state \<Rightarrow> received_character list" where
  "received c = ring_list (ch_receive_fifo c) (ch_receive_fifo_head c) (ch_receive_fifo_length c)"

text \<open>
  In the modes that interrupt on special conditions the receive ring locks on a character received
  with an error; it then stays at the head of the queue until the errors are reset.
\<close>

definition holds_special :: "channel_state \<Rightarrow> bool" where
  "holds_special c \<longleftrightarrow>
     ch_receive_fifo_locked c \<or>
     receive_interrupt_mode c \<in> {1, 3} \<and> rc_status (hd (received c)) AND special_receive_condition_mask c \<noteq> 0"

text \<open>
  C35. The receive ring is a queue of eight characters. An arrival is appended, or replaces the
  newest character with an overrun mark when the ring is full; a read returns the value of the oldest character
  (zero when there is none) and removes it, except that a character received with an enabled
  special condition is held in the special-condition interrupt modes; the debugger's view is the
  value the read returns; and resetting the errors discards exactly the held character.
\<close>

theorem receiver_queue:
  assumes "channel_ok c"
  shows "received (receive_character v c) =
      (if length (received c) = 8 then butlast (received c) @ [\<lparr>rc_value = v, rc_status = 0x26\<rparr>]
       else received c @ [\<lparr>rc_value = v, rc_status = 0x06\<rparr>]) \<and>
    fst (read_data c) = (case received c of [] \<Rightarrow> 0 | x # _ \<Rightarrow> rc_value x) \<and>
    peek_data c = fst (read_data c) \<and>
    received (snd (read_data c)) = (if holds_special c then received c else tl (received c)) \<and>
    (received c \<noteq> [] \<longrightarrow>
      map_option received (reset_receive_errors c) = Some (if holds_special c then tl (received c) else received c))"
proof -
  have sizes: "length (ch_receive_fifo c) = 8" "ch_receive_fifo_head c < 8" "ch_receive_fifo_length c \<le> 8"
    using assms by (simp_all add: channel_ok_def serial_sizes)
  let ?q = "ch_receive_fifo c" and ?h = "ch_receive_fifo_head c" and ?n = "ch_receive_fifo_length c"
  have len: "length (received c) = ?n" by (simp add: received_def)
  have head: "hd (received c) = ?q ! ?h" if "?n \<noteq> 0"
    using that sizes by (simp add: received_def ring_list_hd)
  have case_q: "(case received c of [] \<Rightarrow> 0 | x # _ \<Rightarrow> rc_value x) = (if ?n = 0 then 0 else rc_value (?q ! ?h))"
    using head len by (cases "received c") auto
  have tail: "ring_list ?q (Suc ?h mod 8) (?n - Suc 0) = tl (received c)"
    using ring_list_tl [of ?q ?h ?n] sizes by (simp add: received_def)
  have empty: "received c = [] \<longleftrightarrow> ?n = 0" by (simp add: received_def)
  have locked: "ch_receive_fifo_locked c \<Longrightarrow> ?n \<noteq> 0" using assms by (simp add: channel_ok_def)
  have arrival: "received (receive_character v c) =
      (if length (received c) = 8 then butlast (received c) @ [\<lparr>rc_value = v, rc_status = 0x26\<rparr>]
       else received c @ [\<lparr>rc_value = v, rc_status = 0x06\<rparr>])"
    using ring_list_append [of ?n ?q ?h] ring_list_replace_last [of 8 ?q ?h] sizes
    by (simp add: receive_character_def Let_def len received_def serial_sizes ASYNC_EIGHT_BIT_RESIDUE_def
        RECEIVE_OVERRUN_ERROR_def)
  have reading: "fst (read_data c) = (if ?n = 0 then 0 else rc_value (?q ! ?h))"
    by (simp add: read_data_def Let_def)
  have removal: "received (snd (read_data c)) = (if holds_special c then received c else tl (received c))"
    using head tail empty locked
    by (cases "?n = 0") (auto simp: read_data_def Let_def holds_special_def serial_sizes received_def)
  have reset: "map_option received (reset_receive_errors c) =
      Some (if holds_special c then tl (received c) else received c)" if "?n \<noteq> 0"
    using that head [OF that] tail
    by (auto simp: reset_receive_errors_def Let_def holds_special_def serial_sizes received_def)
  show ?thesis
    using arrival reading removal reset case_q empty by (simp add: peek_data_def)
qed

theorem receiver_queue_witness:
  "\<forall>v. received (receive_character v channel_new) = [\<lparr>rc_value = v, rc_status = 0x06\<rparr>]"
  using receiver_queue [OF channel_new_ok(1)] by (simp add: received_def channel_new_def)


section \<open>Nested interrupts\<close>

lemma all_sources: "(\<forall>s. P s) \<longleftrightarrow> P AReceive \<and> P ATransmit \<and> P BReceive \<and> P BTransmit"
  by (metis interrupt_source.exhaust)

lemma clear_clear: "\<not> xs ! i \<Longrightarrow> xs[i := False] = xs"
  by (metis (full_types) list_update_id)

lemma highest_pending_characterization:
  assumes "length (z8_interrupt_under_service z) = 4"
  shows "highest_pending_interrupt z = Some s \<longleftrightarrow>
    interrupt_requested z s \<and> \<not> z8_interrupt_under_service z ! source_index s \<and>
    (\<forall>s'. source_index s' < source_index s \<longrightarrow>
      \<not> interrupt_requested z s' \<and> \<not> z8_interrupt_under_service z ! source_index s')"
  by (cases s) (auto simp: all_sources highest_pending_interrupt_def PRIORITY_ORDER_def)

lemma pending_above_service:
  assumes "highest_pending_interrupt z = Some s'" "length (z8_interrupt_under_service z) = 4"
    "z8_interrupt_under_service z ! source_index s"
  shows "source_index s' < source_index s"
proof (rule ccontr)
  assume "\<not> source_index s' < source_index s"
  then have "source_index s < source_index s' \<or> s = s'" by (cases s; cases s') simp_all
  then show False
    using assms(1,3) by (auto simp: highest_pending_characterization [OF assms(2)])
qed




end
