(* ===== verification/Keyboard.thy ===== *)
theory Keyboard
  imports Timed
begin

text \<open>
  The SGI Indigo keyboard, \<^verbatim>\<open>se_device/src/sgi_keyboard.rs\<close>. A key is a value of
  the code's enumeration with explicit discriminants; it is modelled by its discriminant, the code
  the keyboard sends for it, so a key is a number of \<open>SGI_KEYS\<close>. The queue of characters is a list.
\<close>

section \<open>Keys\<close>

type_synonym sgi_key = u8

definition SGI_KEYS :: "u8 list" where
  "SGI_KEYS =
    [2, 3, 4, 5, 6, 7, 8, 9, 10, 11, 13, 14, 15, 16, 17, 18, 19, 20, 21, 22, 23, 24, 25, 26, 27, 28,
     29, 30, 31, 32, 33, 34, 35, 36, 37, 38, 39, 40, 41, 42, 43, 44, 45, 46, 47, 48, 49, 50, 51, 52,
     53, 54, 55, 56, 57, 58, 60, 61, 62, 63, 64, 65, 66, 67, 68, 69, 72, 73, 74, 75, 79, 80, 81, 82,
     83, 84, 85, 86, 87, 88, 89, 90, 91, 92, 93, 94, 95, 96, 97, 98, 99, 100, 101, 102, 103, 104,
     105, 106, 107, 108, 109]"

definition KEY_LEFT_CONTROL :: sgi_key where "KEY_LEFT_CONTROL = 2"
definition KEY_RIGHT_CONTROL :: sgi_key where "KEY_RIGHT_CONTROL = 85"
definition KEY_LEFT_SHIFT :: sgi_key where "KEY_LEFT_SHIFT = 5"
definition KEY_RIGHT_SHIFT :: sgi_key where "KEY_RIGHT_SHIFT = 4"
definition KEY_LEFT_ALT :: sgi_key where "KEY_LEFT_ALT = 83"
definition KEY_RIGHT_ALT :: sgi_key where "KEY_RIGHT_ALT = 84"
definition KEY_CAPS_LOCK :: sgi_key where "KEY_CAPS_LOCK = 3"
definition KEY_ESCAPE :: sgi_key where "KEY_ESCAPE = 6"
definition KEY_TAB :: sgi_key where "KEY_TAB = 8"
definition KEY_KEYPAD_ENTER :: sgi_key where "KEY_KEYPAD_ENTER = 81"
definition KEY_PRINT_SCREEN :: sgi_key where "KEY_PRINT_SCREEN = 98"
definition KEY_SCROLL_LOCK :: sgi_key where "KEY_SCROLL_LOCK = 99"
definition KEY_PAUSE :: sgi_key where "KEY_PAUSE = 100"
definition KEY_INSERT :: sgi_key where "KEY_INSERT = 101"
definition KEY_HOME :: sgi_key where "KEY_HOME = 102"
definition KEY_PAGE_UP :: sgi_key where "KEY_PAGE_UP = 103"
definition KEY_END :: sgi_key where "KEY_END = 104"
definition KEY_PAGE_DOWN :: sgi_key where "KEY_PAGE_DOWN = 105"
definition KEY_NUM_LOCK :: sgi_key where "KEY_NUM_LOCK = 106"

definition sgi_key_try_from :: "u8 \<Rightarrow> unit + sgi_key" where
  "sgi_key_try_from value = (if value \<in> set SGI_KEYS then Inr value else Inl ())"

definition repeatable :: "sgi_key \<Rightarrow> bool" where
  "repeatable key \<longleftrightarrow> key \<notin> {
     KEY_LEFT_CONTROL, KEY_RIGHT_CONTROL, KEY_LEFT_SHIFT, KEY_RIGHT_SHIFT, KEY_LEFT_ALT,
     KEY_RIGHT_ALT, KEY_CAPS_LOCK, KEY_ESCAPE, KEY_TAB, KEY_KEYPAD_ENTER, KEY_PRINT_SCREEN,
     KEY_SCROLL_LOCK, KEY_PAUSE, KEY_INSERT, KEY_HOME, KEY_PAGE_UP, KEY_END, KEY_PAGE_DOWN,
     KEY_NUM_LOCK}"

section \<open>Timed output\<close>

definition KEYBOARD_BAUD :: u128 where "KEYBOARD_BAUD = 600"
definition KEYBOARD_FRAME_BITS :: u128 where "KEYBOARD_FRAME_BITS = 11"
definition REPEAT_DELAY_ATTOSECONDS :: u128 where
  "REPEAT_DELAY_ATTOSECONDS = 13 * ATTOSECONDS_PER_SECOND div 20"
definition REPEAT_RATE :: u128 where "REPEAT_RATE = 28"

record active_byte =
  ab_value :: u8
  ab_remaining_attoseconds :: u128

record timed_output =
  to_queued :: "u8 list"
  to_active :: "active_byte option"
  to_timing_remainder :: u16

definition timed_output_new :: timed_output where
  "timed_output_new = \<lparr>to_queued = [], to_active = None, to_timing_remainder = 0\<rparr>"

definition output_push :: "u8 \<Rightarrow> timed_output \<Rightarrow> timed_output" where
  "output_push value t = t\<lparr>to_queued := to_queued t @ [value]\<rparr>"

text \<open>The time the next character takes; the quotient and the remainder fit their types.\<close>

definition keyboard_numerator :: "timed_output \<Rightarrow> u128" where
  "keyboard_numerator t = KEYBOARD_FRAME_BITS * ATTOSECONDS_PER_SECOND + ucast (to_timing_remainder t)"

definition output_ensure_active :: "timed_output \<Rightarrow> timed_output" where
  "output_ensure_active t =
     (if to_active t \<noteq> None then t
      else case to_queued t of
        [] \<Rightarrow> t
      | value # queued \<Rightarrow>
          t\<lparr>to_queued := queued,
            to_timing_remainder := ucast (keyboard_numerator t mod KEYBOARD_BAUD),
            to_active := Some
              \<lparr>ab_value = value, ab_remaining_attoseconds = keyboard_numerator t div KEYBOARD_BAUD\<rparr>\<rparr>)"

definition output_time_until_event :: "timed_output \<Rightarrow> u128 option" where
  "output_time_until_event t =
     (case to_active t of
        Some active \<Rightarrow> Some (ab_remaining_attoseconds active)
      | None \<Rightarrow> if to_queued t \<noteq> [] then Some (keyboard_numerator t div KEYBOARD_BAUD) else None)"

definition output_elapse :: "u128 \<Rightarrow> timed_output \<Rightarrow> u8 list \<times> timed_output" where
  "output_elapse elapsed t = (
     let t1 = output_ensure_active t
     in case to_active t1 of
       None \<Rightarrow> ([], t1)
     | Some active \<Rightarrow>
         let rest = ab_remaining_attoseconds active - elapsed
         in if rest = 0 then ([ab_value active], t1\<lparr>to_active := None\<rparr>)
            else ([], t1\<lparr>to_active := Some (active\<lparr>ab_remaining_attoseconds := rest\<rparr>)\<rparr>))"

section \<open>The keyboard\<close>

record sgi_keyboard =
  kb_pressed :: "u64 list"
  kb_output :: timed_output
  kb_repeat_enabled :: bool
  kb_repeat_candidate :: "sgi_key option"
  kb_repeat_remaining_attoseconds :: "u128 option"
  kb_repeat_timing_remainder :: u8
  kb_click_disabled :: bool
  kb_leds :: "bool list"

definition keyboard_new :: sgi_keyboard where
  "keyboard_new =
     \<lparr>kb_pressed = [0, 0], kb_output = timed_output_new, kb_repeat_enabled = False,
      kb_repeat_candidate = None, kb_repeat_remaining_attoseconds = None,
      kb_repeat_timing_remainder = 0, kb_click_disabled = False, kb_leds = replicate 7 False\<rparr>"

definition keyboard_reset :: "sgi_keyboard \<Rightarrow> sgi_keyboard" where
  "keyboard_reset k = keyboard_new"

definition stop_repeat :: "sgi_keyboard \<Rightarrow> sgi_keyboard" where
  "stop_repeat k = k\<lparr>kb_repeat_candidate := None, kb_repeat_remaining_attoseconds := None,
     kb_repeat_timing_remainder := 0\<rparr>"

definition keyboard_emit :: "u8 \<Rightarrow> sgi_keyboard \<Rightarrow> sgi_keyboard" where
  "keyboard_emit value k = k\<lparr>kb_output := output_push value (kb_output k)\<rparr>"

definition set_key_state :: "sgi_key \<Rightarrow> bool \<Rightarrow> sgi_keyboard \<Rightarrow> sgi_keyboard" where
  "set_key_state key pressed k = (
     let code = key;
         word = unat (code div 64);
         mask = push_bit (unat (code mod 64)) (1 :: u64);
         was_pressed = (kb_pressed k ! word AND mask \<noteq> 0)
     in if was_pressed = pressed then k
        else if pressed then
          let k1 = keyboard_emit code (k\<lparr>kb_pressed := (kb_pressed k)[word := kb_pressed k ! word OR mask]\<rparr>)
          in if kb_repeat_enabled k1 \<and> repeatable key
             then k1\<lparr>kb_repeat_candidate := Some key,
                     kb_repeat_remaining_attoseconds := Some REPEAT_DELAY_ATTOSECONDS,
                     kb_repeat_timing_remainder := 0\<rparr>
             else k1
        else
          let k1 = keyboard_emit (code OR 0x80)
                (k\<lparr>kb_pressed := (kb_pressed k)[word := kb_pressed k ! word AND NOT mask]\<rparr>)
          in if kb_repeat_candidate k1 = Some key then stop_repeat k1 else k1)"

definition receive_command :: "u8 \<Rightarrow> sgi_keyboard \<Rightarrow> sgi_keyboard" where
  "receive_command command k = (
     let leds = kb_leds k
     in if command AND 1 = 0 then
          let k1 = k\<lparr>kb_click_disabled := bit command 3\<rparr>;
              k2 = (if bit command 4 then keyboard_emit 0x00 (keyboard_emit 0x6e k1) else k1);
              k3 = k2\<lparr>kb_leds := leds[0 := bit command 5, 1 := bit command 6]\<rparr>;
              repeat_enabled = bit command 7;
              k4 = (if kb_repeat_enabled k3 \<and> \<not> repeat_enabled then stop_repeat k3 else k3)
          in k4\<lparr>kb_repeat_enabled := repeat_enabled\<rparr>
        else
          let leds = (if bit command 1 then leds[0 := \<not> leds ! 0, 1 := \<not> leds ! 1] else leds)
          in k\<lparr>kb_leds := leds[2 := bit command 2, 3 := bit command 3, 4 := bit command 4,
                 5 := bit command 5, 6 := bit command 6]\<rparr>)"

definition min_option :: "u128 option \<Rightarrow> u128 option \<Rightarrow> u128 option" where
  "min_option a b = (case (a, b) of
     (None, b) \<Rightarrow> b | (a, None) \<Rightarrow> a | (Some x, Some y) \<Rightarrow> Some (min x y))"

definition keyboard_time_until_event :: "sgi_keyboard \<Rightarrow> virtual_duration option" where
  "keyboard_time_until_event k =
     min_option (output_time_until_event (kb_output k)) (kb_repeat_remaining_attoseconds k)"

text \<open>Both clocks of the keyboard move by a span that reaches neither deadline's far side.\<close>

definition keyboard_elapse :: "u128 \<Rightarrow> sgi_keyboard \<Rightarrow> u8 list \<times> sgi_keyboard" where
  "keyboard_elapse elapsed k = (
     let (sent, t) = output_elapse elapsed (kb_output k)
     in (sent, k\<lparr>kb_output := t,
           kb_repeat_remaining_attoseconds :=
             map_option (\<lambda>r. r - elapsed) (kb_repeat_remaining_attoseconds k)\<rparr>))"

definition keyboard_repeat :: "sgi_keyboard \<Rightarrow> sgi_keyboard" where
  "keyboard_repeat k =
     (if kb_repeat_remaining_attoseconds k = Some 0
      then case kb_repeat_candidate k of
        Some key \<Rightarrow>
          let numerator = ATTOSECONDS_PER_SECOND + ucast (kb_repeat_timing_remainder k)
          in (keyboard_emit key k)
               \<lparr>kb_repeat_timing_remainder := ucast (numerator mod REPEAT_RATE),
                kb_repeat_remaining_attoseconds := Some (numerator div REPEAT_RATE)\<rparr>
      | None \<Rightarrow> k\<lparr>kb_repeat_remaining_attoseconds := None\<rparr>
      else k)"

definition keyboard_activate :: "sgi_keyboard \<Rightarrow> sgi_keyboard" where
  "keyboard_activate k = k\<lparr>kb_output := output_ensure_active (kb_output k)\<rparr>"


text \<open>
  The loop of \<^verbatim>\<open>advance_time\<close>. Nothing in its text bounds it (a held key repeats for ever), so
  it is a partial function; that it returns is a theorem.
\<close>

partial_function (option) keyboard_advance_time ::
  "virtual_duration \<Rightarrow> sgi_keyboard \<Rightarrow> (u8 list \<times> sgi_keyboard) option" where
  "keyboard_advance_time remaining k = (
     let k1 = keyboard_activate k
     in case keyboard_time_until_event k1 of
       None \<Rightarrow> Some ([], k1)
     | Some next \<Rightarrow>
         if remaining < next then Some (keyboard_elapse remaining k1)
         else
           let (sent, k2) = keyboard_elapse next k1
           in Option.bind (keyboard_advance_time (remaining - next) (keyboard_repeat k2))
                (\<lambda>(sent', k3). Some (sent @ sent', k3)))"

end
