(* ===== verification/Keyboard_Correct.thy ===== *)
theory Keyboard_Correct
  imports Keyboard
begin

text \<open>
  Correctness of the keyboard: its loop always returns, its output does not depend on how time is
  delivered, and the host that follows the characters knows which keys are down.
\<close>

section \<open>Keys\<close>

lemma try_from_range: "sgi_key_try_from v = Inr k \<longleftrightarrow> v \<in> set SGI_KEYS \<and> k = v"
  by (auto simp: sgi_key_try_from_def)

lemma key_range: "k \<in> set SGI_KEYS \<Longrightarrow> unat k < 110"
  by (auto simp: SGI_KEYS_def)

section \<open>The loop returns\<close>

text \<open>
  Every deadline the loop meets is either positive, and then the time left decreases, or already
  due, and then it is served and the deadline that replaces it is positive.
\<close>

definition output_overdue :: "timed_output \<Rightarrow> nat" where
  "output_overdue t = (case to_active t of Some active \<Rightarrow> of_bool (ab_remaining_attoseconds active = 0) | None \<Rightarrow> 0)"

definition keyboard_overdue :: "sgi_keyboard \<Rightarrow> nat" where
  "keyboard_overdue k = output_overdue (kb_output k) + of_bool (kb_repeat_remaining_attoseconds k = Some 0)"

lemma keyboard_character_takes_time: "keyboard_numerator t div KEYBOARD_BAUD \<noteq> 0"
  by (rule numerator_quotient [where k = KEYBOARD_FRAME_BITS and r = "to_timing_remainder t"])
    (simp_all add: keyboard_numerator_def KEYBOARD_FRAME_BITS_def KEYBOARD_BAUD_def)

lemma repeat_takes_time: "(ATTOSECONDS_PER_SECOND + ucast r) div REPEAT_RATE \<noteq> 0" for r :: u8
  by (rule numerator_quotient [where k = 1 and r = r]) (simp_all add: REPEAT_RATE_def)

lemma ensure_active_overdue: "output_overdue (output_ensure_active t) = output_overdue t"
  using keyboard_character_takes_time [of t]
  by (auto simp: output_overdue_def output_ensure_active_def split: list.split)

lemma ensure_active_idem [simp]: "output_ensure_active (output_ensure_active t) = output_ensure_active t"
  by (auto simp: output_ensure_active_def split: list.split)

lemma activate_idem [simp]: "keyboard_activate (keyboard_activate k) = keyboard_activate k"
  by (simp add: keyboard_activate_def)

lemma min_option_Some:
  "min_option a b = Some n \<longleftrightarrow>
     (a = Some n \<and> b = None) \<or> (a = None \<and> b = Some n) \<or> (\<exists>x y. a = Some x \<and> b = Some y \<and> n = min x y)"
  by (auto simp: min_option_def split: option.split)

lemma overdue_decreases:
  assumes "keyboard_time_until_event (keyboard_activate k) = Some 0"
  shows "keyboard_overdue (keyboard_repeat (snd (keyboard_elapse 0 (keyboard_activate k)))) < keyboard_overdue k"
proof -
  let ?k = "keyboard_activate k"
  have same: "keyboard_overdue ?k = keyboard_overdue k"
    by (simp add: keyboard_overdue_def keyboard_activate_def ensure_active_overdue)
  have idem: "output_ensure_active (kb_output ?k) = kb_output ?k" by (simp add: keyboard_activate_def)
  have due: "output_time_until_event (kb_output ?k) = Some 0 \<or> kb_repeat_remaining_attoseconds ?k = Some 0"
    using assms unfolding keyboard_time_until_event_def min_option_Some by (auto simp: min_def split: if_splits)
  have active: "output_time_until_event (kb_output ?k) = map_option ab_remaining_attoseconds (to_active (kb_output ?k))"
    by (auto simp: keyboard_activate_def output_time_until_event_def output_ensure_active_def split: list.splits option.splits)
  have out: "output_overdue (snd (output_elapse 0 (kb_output ?k))) = 0"
    by (simp add: output_elapse_def idem Let_def output_overdue_def split: option.split)
  have rep: "kb_repeat_remaining_attoseconds (keyboard_repeat (snd (keyboard_elapse 0 ?k))) \<noteq> Some 0"
    using repeat_takes_time
    by (auto simp: keyboard_repeat_def Let_def keyboard_elapse_def split_beta keyboard_emit_def split: option.split)
  have "output_overdue (kb_output (keyboard_repeat (snd (keyboard_elapse 0 ?k)))) = 0"
    using out
    by (auto simp: keyboard_repeat_def Let_def keyboard_elapse_def split_beta keyboard_emit_def output_push_def
        output_overdue_def split: option.splits)
  then have "keyboard_overdue (keyboard_repeat (snd (keyboard_elapse 0 ?k))) = 0"
    using rep by (simp add: keyboard_overdue_def)
  moreover have "0 < keyboard_overdue ?k"
    using due by (auto simp: active keyboard_overdue_def output_overdue_def)
  ultimately show ?thesis using same by simp
qed

lemma keyboard_loop_induct [consumes 0, case_names step]:
  assumes step: "\<And>remaining k. (\<And>next. keyboard_time_until_event (keyboard_activate k) = Some next \<Longrightarrow>
      \<not> remaining < next \<Longrightarrow>
      P (remaining - next) (keyboard_repeat (snd (keyboard_elapse next (keyboard_activate k))))) \<Longrightarrow> P remaining k"
  shows "P remaining k"
proof (induction "(remaining, k)" arbitrary: remaining k
    rule: wf_induct_rule [OF wf_measures [of "[\<lambda>(remaining, k). unat remaining, \<lambda>(remaining, k). keyboard_overdue k]"]])
  case (1 remaining k)
  show ?case
  proof (rule step)
    fix d
    assume event: "keyboard_time_until_event (keyboard_activate k) = Some d" and le: "\<not> remaining < d"
    show "P (remaining - d) (keyboard_repeat (snd (keyboard_elapse d (keyboard_activate k))))"
    proof (rule "1.hyps", cases "d = 0")
      case True
      then show "((remaining - d, keyboard_repeat (snd (keyboard_elapse d (keyboard_activate k)))), remaining, k)
          \<in> measures [\<lambda>(remaining, k). unat remaining, \<lambda>(remaining, k). keyboard_overdue k]"
        using overdue_decreases [of k] event by simp
    next
      case False
      then have "unat d \<noteq> 0" by (simp add: unat_eq_zero)
      then have "unat (remaining - d) < unat remaining"
        using le by (simp add: unat_sub_if' word_less_nat_alt)
      then show "((remaining - d, keyboard_repeat (snd (keyboard_elapse d (keyboard_activate k)))), remaining, k)
          \<in> measures [\<lambda>(remaining, k). unat remaining, \<lambda>(remaining, k). keyboard_overdue k]"
        by simp
    qed
  qed
qed

lemma keyboard_loop_returns: "\<exists>sent k'. keyboard_advance_time elapsed k = Some (sent, k')"
proof (induction elapsed k rule: keyboard_loop_induct)
  case (step remaining k)
  show ?case
  proof (cases "keyboard_time_until_event (keyboard_activate k)")
    case None
    then show ?thesis by (simp add: keyboard_advance_time.simps)
  next
    case (Some d)
    show ?thesis
    proof (cases "remaining < d")
      case True
      then show ?thesis
        using Some by (cases "keyboard_elapse remaining (keyboard_activate k)") (simp add: keyboard_advance_time.simps)
    next
      case False
      then show ?thesis
        using Some step.IH [OF Some False]
        by (subst keyboard_advance_time.simps) (auto simp: split_beta Let_def)
    qed
  qed
qed


section \<open>Time\<close>

lemma output_wait:
  assumes "output_ensure_active t = t"
  shows "to_active t = None \<Longrightarrow> output_elapse a t = ([], t)"
    "to_active t = None \<Longrightarrow> output_time_until_event t = None"
    "to_active t = Some active \<Longrightarrow> a < ab_remaining_attoseconds active \<Longrightarrow>
      output_elapse a t = ([], t\<lparr>to_active := Some
        (active\<lparr>ab_remaining_attoseconds := ab_remaining_attoseconds active - a\<rparr>)\<rparr>)"
proof -
  show "output_elapse a t = ([], t)" if "to_active t = None"
    using assms that by (simp add: output_elapse_def)
  show "output_time_until_event t = None" if "to_active t = None"
    using assms that by (cases t) (auto simp: output_ensure_active_def output_time_until_event_def split: list.splits)
  show "output_elapse a t = ([], t\<lparr>to_active := Some
        (active\<lparr>ab_remaining_attoseconds := ab_remaining_attoseconds active - a\<rparr>)\<rparr>)"
    if "to_active t = Some active" "a < ab_remaining_attoseconds active"
    using assms that by (auto simp: output_elapse_def)
qed

lemma activated:
  "keyboard_activate k = k \<longleftrightarrow> output_ensure_active (kb_output k) = kb_output k"
  by (cases k) (simp add: keyboard_activate_def)

lemma time_until_cases:
  assumes "output_ensure_active (kb_output k) = kb_output k"
  shows "keyboard_time_until_event k =
    min_option (map_option ab_remaining_attoseconds (to_active (kb_output k))) (kb_repeat_remaining_attoseconds k)"
  using output_wait(2) [OF assms]
  by (cases "to_active (kb_output k)") (simp_all add: keyboard_time_until_event_def output_time_until_event_def)

lemma min_minus: "a \<le> x \<Longrightarrow> a \<le> y \<Longrightarrow> min (x - a) (y - a) = min x y - a" for a x y :: "'a::len word"
  by (simp add: min_def word_le_nat_alt unat_sub_if') (meson diff_le_mono nat_le_linear le_diff_iff)

lemma elapse_before_event:
  assumes k: "keyboard_activate k = k" and event: "keyboard_time_until_event k = Some d" and "a < d"
  shows "fst (keyboard_elapse a k) = []"
    and "keyboard_activate (snd (keyboard_elapse a k)) = snd (keyboard_elapse a k)"
    and "keyboard_time_until_event (snd (keyboard_elapse a k)) = Some (d - a)"
    and "keyboard_elapse b (snd (keyboard_elapse a k)) = keyboard_elapse (a + b) k"
proof -
  have idem: "output_ensure_active (kb_output k) = kb_output k" using k by (simp add: activated)
  note d = event [unfolded time_until_cases [OF idem]]
  have le: "a \<le> r" if "kb_repeat_remaining_attoseconds k = Some r" for r
    using d that \<open>a < d\<close> by (auto simp: min_option_Some)
  have "fst (keyboard_elapse a k) = [] \<and>
    keyboard_activate (snd (keyboard_elapse a k)) = snd (keyboard_elapse a k) \<and>
    keyboard_time_until_event (snd (keyboard_elapse a k)) = Some (d - a) \<and>
    keyboard_elapse b (snd (keyboard_elapse a k)) = keyboard_elapse (a + b) k"
  proof (cases "to_active (kb_output k)")
    case None
    note t = output_wait(1) [OF idem None]
    have r: "kb_repeat_remaining_attoseconds k = Some d" using d None by (simp add: min_option_def)
    let ?k = "k\<lparr>kb_repeat_remaining_attoseconds := Some (d - a)\<rparr>"
    have e: "keyboard_elapse a k = ([], ?k)" using r by (simp add: keyboard_elapse_def t)
    have "keyboard_time_until_event ?k = Some (d - a)"
      using None idem by (simp add: time_until_cases min_option_def)
    moreover have "keyboard_elapse b ?k = keyboard_elapse (a + b) k"
      using r by (simp add: keyboard_elapse_def t)
    ultimately show ?thesis
      using idem by (simp add: e activated)
  next
    case (Some active)
    let ?t = "(kb_output k)\<lparr>to_active := Some (active\<lparr>ab_remaining_attoseconds := ab_remaining_attoseconds active - a\<rparr>)\<rparr>"
    let ?k = "k\<lparr>kb_output := ?t, kb_repeat_remaining_attoseconds := map_option (\<lambda>r. r - a) (kb_repeat_remaining_attoseconds k)\<rparr>"
    have less: "a < ab_remaining_attoseconds active"
      using d Some \<open>a < d\<close> by (auto simp: min_option_Some)
    have e: "keyboard_elapse a k = ([], ?k)"
      using output_wait(3) [OF idem Some less] by (simp add: keyboard_elapse_def)
    have t: "output_ensure_active ?t = ?t" by (simp add: output_ensure_active_def)
    have "keyboard_time_until_event ?k = Some (d - a)"
      using d Some less le t
      by (cases "kb_repeat_remaining_attoseconds k") (simp_all add: time_until_cases min_option_def min_minus)
    moreover have "output_elapse b ?t = output_elapse (a + b) (kb_output k)"
      using Some idem t by (simp add: output_elapse_def Let_def diff_eq_eq diff_diff_eq add.commute)
    then have "keyboard_elapse b ?k = keyboard_elapse (a + b) k"
      by (simp add: keyboard_elapse_def option.map_comp comp_def split_beta diff_diff_eq)
    ultimately show ?thesis
      using t by (simp add: e activated)
  qed
  then show "fst (keyboard_elapse a k) = []"
    and "keyboard_activate (snd (keyboard_elapse a k)) = snd (keyboard_elapse a k)"
    and "keyboard_time_until_event (snd (keyboard_elapse a k)) = Some (d - a)"
    and "keyboard_elapse b (snd (keyboard_elapse a k)) = keyboard_elapse (a + b) k"
    by blast+
qed


lemma keyboard_advance_additive:
  assumes "unat a + unat b < 2 ^ 128"
  shows "keyboard_advance_time (a + b) k = do {
    (sent, k1) \<leftarrow> keyboard_advance_time a k;
    (sent', k2) \<leftarrow> keyboard_advance_time b k1;
    Some (sent @ sent', k2)
  }"
  using assms
proof (induction a k rule: keyboard_loop_induct)
  case (step a k)
  let ?k = "keyboard_activate k"
  have sum: "unat (a + b) = unat a + unat b" using step.prems by (simp add: unat_word_ariths)
  show ?case
  proof (cases "keyboard_time_until_event ?k")
    case None
    then show ?thesis
      by (simp add: keyboard_advance_time.simps [of _ k] keyboard_advance_time.simps [of _ ?k])
  next
    case (Some d)
    show ?thesis
    proof (cases "a < d")
      case True
      obtain k' where first: "keyboard_elapse a ?k = ([], k')" "keyboard_activate k' = k'"
        "keyboard_time_until_event k' = Some (d - a)" "\<And>e. keyboard_elapse e k' = keyboard_elapse (a + e) ?k"
        using elapse_before_event [OF activate_idem Some True]
        by (cases "keyboard_elapse a ?k") simp
      have less: "b < d - a \<longleftrightarrow> a + b < d" and rest: "a + (d - a) = d" "b - (d - a) = a + b - d"
        using True sum by (auto simp: word_less_nat_alt unat_sub_if')
      show ?thesis
        using Some True first less
        by (simp add: keyboard_advance_time.simps [of _ k] keyboard_advance_time.simps [of b k'] diff_diff_eq2 add.commute)
    next
      case False
      then have d: "unat d \<le> unat a" by (simp add: word_less_nat_alt)
      then have "unat (a - d) + unat b < 2 ^ 128" "\<not> a + b < d"
        using step.prems sum by (simp_all add: unat_sub_if' word_less_nat_alt)
      then show ?thesis
        using step.IH [OF Some False] Some False
        by (simp add: keyboard_advance_time.simps [of _ k] diff_add_eq split_beta Let_def bind_assoc)
    qed
  qed
qed

text \<open>The keyboard with the characters it has sent so far.\<close>

definition keyboard_run_time :: "virtual_duration \<Rightarrow> u8 list \<times> sgi_keyboard \<Rightarrow> (u8 list \<times> sgi_keyboard) option" where
  "keyboard_run_time t = (\<lambda>(log, k). map_option (\<lambda>(sent, k'). (log @ sent, k')) (keyboard_advance_time t k))"

interpretation keyboard_timed: timed_device keyboard_run_time "\<lambda>_. True"
proof
  fix s :: "u8 list \<times> sgi_keyboard" and d
  show "ok (keyboard_run_time d s) (\<lambda>_. True)"
    using keyboard_loop_returns [of d "snd s"] by (auto simp: keyboard_run_time_def split_beta)
next
  fix s :: "u8 list \<times> sgi_keyboard" and d e :: virtual_duration
  assume "unat d + unat e < 2 ^ 128"
  then show "keyboard_run_time (d + e) s = Option.bind (keyboard_run_time d s) (keyboard_run_time e)"
    by (cases s; cases "keyboard_advance_time d (snd s)"; cases "keyboard_advance_time e (snd (the (keyboard_advance_time d (snd s))))")
      (simp_all add: keyboard_run_time_def keyboard_advance_additive split_beta)
qed

section \<open>The host's view of the keys\<close>

text \<open>A host that follows the characters: a down code adds a key, an up code removes it.\<close>

definition host_key :: "u8 \<Rightarrow> u8 set \<Rightarrow> u8 set" where
  "host_key c keys =
     (if c AND 0x80 = 0 then (if c \<in> set SGI_KEYS then insert c keys else keys) else keys - {c AND 0x7f})"

definition host_keys :: "u8 list \<Rightarrow> u8 set" where
  "host_keys cs = fold host_key cs {}"

definition keyboard_unsent :: "sgi_keyboard \<Rightarrow> u8 list" where
  "keyboard_unsent k =
     (case to_active (kb_output k) of None \<Rightarrow> [] | Some active \<Rightarrow> [ab_value active]) @ to_queued (kb_output k)"

definition key_down :: "sgi_keyboard \<Rightarrow> sgi_key \<Rightarrow> bool" where
  "key_down k key \<longleftrightarrow> bit (kb_pressed k ! unat (key div 64)) (unat (key mod 64))"

definition keys_down :: "sgi_keyboard \<Rightarrow> u8 set" where
  "keys_down k = {key \<in> set SGI_KEYS. key_down k key}"

definition keyboard_account :: "u8 list \<Rightarrow> sgi_keyboard \<Rightarrow> bool" where
  "keyboard_account log k \<longleftrightarrow>
     length (kb_pressed k) = 2 \<and> host_keys (log @ keyboard_unsent k) = keys_down k \<and>
     (\<forall>key. kb_repeat_candidate k = Some key \<longrightarrow> key \<in> keys_down k)"

lemma host_keys_append: "host_keys (xs @ [c]) = host_key c (host_keys xs)"
  by (simp add: host_keys_def)

lemma key_codes:
  assumes "key \<in> set SGI_KEYS"
  shows "key AND 0x80 = 0" "(key OR 0x80) AND 0x80 \<noteq> 0" "(key OR 0x80) AND 0x7f = key"
    "unat (key div 64) < 2" "unat (key mod 64) < 64"
proof -
  have "\<forall>key\<in>set SGI_KEYS. key AND 0x80 = 0 \<and> (key OR 0x80) AND 0x80 \<noteq> 0 \<and> (key OR 0x80) AND 0x7f = key \<and>
    unat (key div 64) < 2 \<and> unat (key mod 64) < 64"
    by code_simp
  with assms show "key AND 0x80 = 0" "(key OR 0x80) AND 0x80 \<noteq> 0" "(key OR 0x80) AND 0x7f = key"
    "unat (key div 64) < 2" "unat (key mod 64) < 64" by blast+
qed

lemma emit_unsent: "keyboard_unsent (keyboard_emit c k) = keyboard_unsent k @ [c]"
  by (simp add: keyboard_unsent_def keyboard_emit_def output_push_def)


lemma stop_repeat_account [simp]: "keyboard_unsent (stop_repeat k) = keyboard_unsent k"
  "keys_down (stop_repeat k) = keys_down k" "kb_pressed (stop_repeat k) = kb_pressed k"
  "kb_repeat_candidate (stop_repeat k) = None"
  by (simp_all add: stop_repeat_def keyboard_unsent_def keys_down_def key_down_def)

lemma keys_down_updates [simp]:
  "keys_down (keyboard_emit c k) = keys_down k"
  "keys_down (k\<lparr>kb_repeat_candidate := r\<rparr>) = keys_down k"
  "keys_down (k\<lparr>kb_repeat_remaining_attoseconds := t\<rparr>) = keys_down k"
  "keys_down (k\<lparr>kb_repeat_timing_remainder := n\<rparr>) = keys_down k"
  "keys_down (k\<lparr>kb_repeat_enabled := b\<rparr>) = keys_down k"
  "keys_down (k\<lparr>kb_click_disabled := b\<rparr>) = keys_down k"
  "keys_down (k\<lparr>kb_leds := l\<rparr>) = keys_down k"
  "keys_down (k\<lparr>kb_output := out\<rparr>) = keys_down k"
  by (simp_all add: keys_down_def key_down_def keyboard_emit_def)

lemma unsent_updates [simp]:
  "keyboard_unsent (k\<lparr>kb_pressed := p\<rparr>) = keyboard_unsent k"
  "keyboard_unsent (k\<lparr>kb_repeat_candidate := r\<rparr>) = keyboard_unsent k"
  "keyboard_unsent (k\<lparr>kb_repeat_remaining_attoseconds := t\<rparr>) = keyboard_unsent k"
  "keyboard_unsent (k\<lparr>kb_repeat_timing_remainder := n\<rparr>) = keyboard_unsent k"
  "keyboard_unsent (k\<lparr>kb_repeat_enabled := b\<rparr>) = keyboard_unsent k"
  "keyboard_unsent (k\<lparr>kb_click_disabled := b\<rparr>) = keyboard_unsent k"
  "keyboard_unsent (k\<lparr>kb_leds := l\<rparr>) = keyboard_unsent k"
  by (simp_all add: keyboard_unsent_def)

lemma emit_fields [simp]:
  "kb_pressed (keyboard_emit c k) = kb_pressed k" "kb_repeat_enabled (keyboard_emit c k) = kb_repeat_enabled k"
  "kb_repeat_candidate (keyboard_emit c k) = kb_repeat_candidate k"
  by (simp_all add: keyboard_emit_def)

lemma account_cong:
  "kb_pressed k = kb_pressed k' \<Longrightarrow> kb_output k = kb_output k' \<Longrightarrow>
    kb_repeat_candidate k = kb_repeat_candidate k' \<Longrightarrow> keyboard_account log k = keyboard_account log k'"
  by (simp add: keyboard_account_def keyboard_unsent_def keys_down_def key_down_def)

text \<open>Emitting a character whose effect on the host is the change of the keys keeps the account.\<close>

lemma emit_account:
  assumes "keyboard_account log k" "host_key c (keys_down k) = keys_down k'" "kb_pressed k' = p" "length p = 2"
    "\<forall>key. r = Some key \<longrightarrow> key \<in> keys_down k'"
  shows "keyboard_account log (keyboard_emit c (k\<lparr>kb_pressed := p, kb_repeat_candidate := r\<rparr>))"
proof -
  have "keys_down (k\<lparr>kb_pressed := p, kb_repeat_candidate := r\<rparr>) = keys_down k'"
    using assms(3) by (simp add: keys_down_def key_down_def)
  then show ?thesis
    using assms by (simp add: keyboard_account_def emit_unsent host_keys_append flip: append_assoc)
qed

lemma key_bit_update:
  assumes "key \<in> set SGI_KEYS" "other \<in> set SGI_KEYS" "length p = 2"
  defines "w \<equiv> unat (key div 64)" and "m \<equiv> push_bit (unat (key mod 64)) (1 :: u64)"
  shows "bit (p[w := p ! w OR m] ! unat (other div 64)) (unat (other mod 64)) \<longleftrightarrow>
      other = key \<or> bit (p ! unat (other div 64)) (unat (other mod 64))"
    and "bit (p[w := p ! w AND NOT m] ! unat (other div 64)) (unat (other mod 64)) \<longleftrightarrow>
      other \<noteq> key \<and> bit (p ! unat (other div 64)) (unat (other mod 64))"
proof -
  have w: "w < length p" using key_codes(4) [OF assms(1)] assms(3) by (simp add: w_def)
  have same: "other = key \<longleftrightarrow> unat (other div 64) = w \<and> unat (other mod 64) = unat (key mod 64)"
    unfolding w_def by (metis word_unat_eq_iff mult.commute div_mult_mod_eq)
  have m: "bit m j \<longleftrightarrow> j = unat (key mod 64)" if "j < 64" for j
    unfolding m_def using that by (auto simp: bit_exp_iff)
  have j: "unat (other mod 64) < 64" using key_codes(5) [OF assms(2)] .
  note bits = bit_or_iff bit_and_iff bit_not_iff m [OF j] j
  show "bit (p[w := p ! w OR m] ! unat (other div 64)) (unat (other mod 64)) \<longleftrightarrow>
      other = key \<or> bit (p ! unat (other div 64)) (unat (other mod 64))"
    unfolding same using w
    by (cases "unat (other div 64) = w") (auto simp: bits)
  show "bit (p[w := p ! w AND NOT m] ! unat (other div 64)) (unat (other mod 64)) \<longleftrightarrow>
      other \<noteq> key \<and> bit (p ! unat (other div 64)) (unat (other mod 64))"
    unfolding same using w
    by (cases "unat (other div 64) = w") (auto simp: bits)
qed

lemma set_key_account:
  assumes "keyboard_account log k" "key \<in> set SGI_KEYS"
  shows "keyboard_account log (set_key_state key pressed k)"
proof -
  let ?w = "unat (key div 64)" and ?m = "push_bit (unat (key mod 64)) (1 :: u64)"
  note codes = key_codes [OF assms(2)]
  have len: "length (kb_pressed k) = 2" using assms(1) by (simp add: keyboard_account_def)
  have was: "(kb_pressed k ! ?w AND ?m \<noteq> 0) = (key \<in> keys_down k)"
    using assms(2) codes(5) by (simp add: keys_down_def key_down_def bit_iff_and_push_bit_not_eq_0)
  define p where "p = (kb_pressed k)[?w := kb_pressed k ! ?w OR ?m]"
  define q where "q = (kb_pressed k)[?w := kb_pressed k ! ?w AND NOT ?m]"
  have down: "keys_down (k\<lparr>kb_pressed := p\<rparr>) = insert key (keys_down k)"
    using key_bit_update(1) [OF assms(2) _ len] assms(2) by (auto simp: keys_down_def key_down_def p_def)
  have up: "keys_down (k\<lparr>kb_pressed := q\<rparr>) = keys_down k - {key}"
    using key_bit_update(2) [OF assms(2) _ len] by (auto simp: keys_down_def key_down_def q_def)
  have lens: "length p = 2" "length q = 2" using len by (simp_all add: p_def q_def)
  have host: "host_key key (keys_down k) = insert key (keys_down k)"
    "host_key (key OR 0x80) (keys_down k) = keys_down k - {key}"
    using codes(1-3) assms(2) by (simp_all add: host_key_def)
  have candidate: "\<forall>key. kb_repeat_candidate k = Some key \<longrightarrow> key \<in> keys_down k"
    using assms(1) by (simp add: keyboard_account_def)
  have press: "keyboard_account log (keyboard_emit key (k\<lparr>kb_pressed := p, kb_repeat_candidate := r\<rparr>))"
    if "r = Some key \<or> r = kb_repeat_candidate k" for r
    by (rule emit_account [OF assms(1), of _ "k\<lparr>kb_pressed := p\<rparr>"])
      (use that candidate in \<open>auto simp: down host lens\<close>)
  have release: "keyboard_account log (keyboard_emit (key OR 0x80) (k\<lparr>kb_pressed := q, kb_repeat_candidate := r\<rparr>))"
    if "r = None \<or> r = kb_repeat_candidate k \<and> r \<noteq> Some key" for r
    by (rule emit_account [OF assms(1), of _ "k\<lparr>kb_pressed := q\<rparr>"])
      (use that candidate in \<open>auto simp: up host lens\<close>)
  have idle: "k\<lparr>kb_pressed := x, kb_repeat_candidate := kb_repeat_candidate k\<rparr> = k\<lparr>kb_pressed := x\<rparr>" for x
    by (cases k) simp
  have start: "keyboard_account log ((keyboard_emit key (k\<lparr>kb_pressed := p\<rparr>))\<lparr>kb_repeat_candidate := Some key,
      kb_repeat_remaining_attoseconds := t, kb_repeat_timing_remainder := n\<rparr>)" for t n
    by (rule account_cong [THEN iffD1, OF _ _ _ press [of "Some key"]]) (simp_all add: keyboard_emit_def)
  have stop: "keyboard_account log (stop_repeat (keyboard_emit (key OR 0x80) (k\<lparr>kb_pressed := q\<rparr>)))"
    by (rule account_cong [THEN iffD1, OF _ _ _ release [of None]]) (simp_all add: keyboard_emit_def stop_repeat_def)
  show ?thesis
    using was assms(1) start stop press [of "kb_repeat_candidate k"] release [of "kb_repeat_candidate k"]
    by (simp add: set_key_state_def Let_def idle p_def [symmetric] q_def [symmetric] del: push_bit_of_1)
qed

lemma receive_command_account:
  assumes "keyboard_account log k"
  shows "keyboard_account log (receive_command c k)"
proof -
  have down: "0x6e \<notin> set SGI_KEYS" "0 \<notin> set SGI_KEYS" by (simp_all add: SGI_KEYS_def)
  have reply: "keyboard_account log (keyboard_emit 0 (keyboard_emit 0x6e k'))" if "keyboard_account log k'" for k'
    using that down by (simp add: keyboard_account_def emit_unsent host_keys_append host_key_def flip: append_assoc)
  have stop: "keyboard_account log (stop_repeat k')" if "keyboard_account log k'" for k'
    using that by (simp add: keyboard_account_def)
  have other: "keyboard_account log (k'\<lparr>kb_click_disabled := b\<rparr>) = keyboard_account log k'"
    "keyboard_account log (k'\<lparr>kb_leds := l\<rparr>) = keyboard_account log k'"
    "keyboard_account log (k'\<lparr>kb_repeat_enabled := b\<rparr>) = keyboard_account log k'" for k' b l
    by (simp_all add: keyboard_account_def)
  show ?thesis using assms by (simp add: receive_command_def Let_def other stop reply)
qed

lemma ensure_active_unsent: "keyboard_unsent (keyboard_activate k) = keyboard_unsent k"
  by (auto simp: keyboard_unsent_def keyboard_activate_def output_ensure_active_def split: list.split option.split)

lemma elapse_unsent:
  assumes "keyboard_activate k = k"
  shows "fst (keyboard_elapse d k) @ keyboard_unsent (snd (keyboard_elapse d k)) = keyboard_unsent k"
  using assms
  by (auto simp: activated keyboard_elapse_def output_elapse_def keyboard_unsent_def split_beta Let_def
      split: option.split)

lemma repeat_account:
  assumes "keyboard_account log k"
  shows "keyboard_account log (keyboard_repeat k)"
proof (cases "kb_repeat_remaining_attoseconds k = Some 0")
  case True
  show ?thesis
  proof (cases "kb_repeat_candidate k")
    case None
    then show ?thesis using True assms by (simp add: keyboard_repeat_def keyboard_account_def)
  next
    case (Some key)
    then have key: "key \<in> keys_down k" "key \<in> set SGI_KEYS"
      using assms by (auto simp: keyboard_account_def keys_down_def)
    then have "host_key key (keys_down k) = keys_down k"
      using key_codes(1) by (auto simp: host_key_def)
    then show ?thesis
      using True Some assms
      by (simp add: keyboard_repeat_def Let_def keyboard_account_def emit_unsent host_keys_append flip: append_assoc)
  qed
next
  case False
  then show ?thesis using assms by (simp add: keyboard_repeat_def)
qed

lemma keyboard_advance_account:
  assumes "keyboard_account log k" "keyboard_advance_time t k = Some (sent, k')"
  shows "keyboard_account (log @ sent) k'"
  using assms
proof (induction t k arbitrary: log sent rule: keyboard_loop_induct)
  case (step t k)
  let ?k = "keyboard_activate k"
  have "keys_down ?k = keys_down k" "kb_repeat_candidate ?k = kb_repeat_candidate k" "kb_pressed ?k = kb_pressed k"
    by (simp_all add: keyboard_activate_def)
  then have start: "keyboard_account log ?k"
    using step.prems(1) by (simp add: keyboard_account_def ensure_active_unsent)
  have elapse: "keyboard_account (log @ fst (keyboard_elapse d ?k)) (snd (keyboard_elapse d ?k))" for d
  proof -
    have "keys_down (snd (keyboard_elapse d ?k)) = keys_down ?k"
      "kb_repeat_candidate (snd (keyboard_elapse d ?k)) = kb_repeat_candidate ?k"
      "kb_pressed (snd (keyboard_elapse d ?k)) = kb_pressed ?k"
      by (simp_all add: keyboard_elapse_def split_beta)
    then show ?thesis
      using start elapse_unsent [OF activate_idem, of d k] by (simp add: keyboard_account_def)
  qed
  show ?case
  proof (cases "keyboard_time_until_event ?k")
    case None
    then show ?thesis using step.prems(2) start by (simp add: keyboard_advance_time.simps [of t])
  next
    case (Some d)
    show ?thesis
    proof (cases "t < d")
      case True
      then show ?thesis
        using Some step.prems(2) elapse [of t] by (auto simp: keyboard_advance_time.simps [of t])
    next
      case False
      then obtain rest where rest: "sent = fst (keyboard_elapse d ?k) @ rest"
        "keyboard_advance_time (t - d) (keyboard_repeat (snd (keyboard_elapse d ?k))) = Some (rest, k')"
        using Some step.prems(2)
        by (auto simp: keyboard_advance_time.simps [of t] split_beta Let_def bind_eq_Some_conv)
      show ?thesis
        using step.IH [OF Some False repeat_account [OF elapse] rest(2)] rest(1) by simp
    qed
  qed
qed

section \<open>A session with the keyboard\<close>

text \<open>The characters sent so far by a keyboard just created, and its state.\<close>

inductive keyboard_run :: "u8 list \<Rightarrow> sgi_keyboard \<Rightarrow> bool" where
  keyboard_run_new: "keyboard_run [] keyboard_new"
| keyboard_run_key: "keyboard_run log k \<Longrightarrow> sgi_key_try_from c = Inr key \<Longrightarrow>
    keyboard_run log (set_key_state key pressed k)"
| keyboard_run_command: "keyboard_run log k \<Longrightarrow> keyboard_run log (receive_command c k)"
| keyboard_run_time: "keyboard_run log k \<Longrightarrow> keyboard_advance_time t k = Some (sent, k') \<Longrightarrow>
    keyboard_run (log @ sent) k'"

lemma keyboard_run_account: "keyboard_run log k \<Longrightarrow> keyboard_account log k"
proof (induction rule: keyboard_run.induct)
  case keyboard_run_new
  then show ?case
    by (auto simp: keyboard_account_def keyboard_new_def keyboard_unsent_def timed_output_new_def keys_down_def
        key_down_def host_keys_def nth_Cons' dest!: key_codes(4))
next
  case (keyboard_run_key log k c key pressed)
  then show ?case by (auto simp: try_from_range intro: set_key_account)
qed (simp_all add: receive_command_account keyboard_advance_account)

text \<open>
  C37. No key is lost and none sticks. After any sequence of key changes, host commands and spans of
  time, a host that has followed the characters already sent and receives those still queued
  believes exactly the pressed keys to be down, whatever was repeated or reported in between; so
  once the keyboard has nothing to send, the host knows the pressed keys.
\<close>

theorem keyboard_host_view:
  assumes "keyboard_run log k"
  shows "host_keys (log @ keyboard_unsent k) = {key \<in> set SGI_KEYS. key_down k key} \<and>
    (output_time_until_event (kb_output k) = None \<longrightarrow> host_keys log = {key \<in> set SGI_KEYS. key_down k key})"
  using keyboard_run_account [OF assms]
  by (auto simp: keyboard_account_def keys_down_def output_time_until_event_def keyboard_unsent_def
      split: option.splits if_splits)

theorem keyboard_host_view_witness:
  "\<exists>k. keyboard_run [] k \<and> host_keys (keyboard_unsent k) = {key \<in> set SGI_KEYS. key_down k key} \<and>
    keyboard_unsent k = [10]"
proof -
  define k where "k = set_key_state 10 True keyboard_new"
  have "keyboard_run [] k"
    unfolding k_def by (rule keyboard_run_key [OF keyboard_run_new, of 10]) (simp add: sgi_key_try_from_def SGI_KEYS_def)
  moreover have "keyboard_unsent k = [10]"
    by (simp add: k_def set_key_state_def keyboard_new_def Let_def keyboard_unsent_def keyboard_emit_def
        output_push_def timed_output_new_def)
  ultimately show ?thesis using keyboard_host_view by fastforce
qed

text \<open>
  Advancing the keyboard's time always returns, from any state and for any span, although a
  held key has the loop push characters for as long as it runs: no deadline the loop meets can be
  due twice in a row without time passing. When it returns nothing is left due.
\<close>

lemma keyboard_advance_returns:
  "\<exists>sent k'. keyboard_advance_time elapsed k = Some (sent, k') \<and> keyboard_time_until_event k' \<noteq> Some 0"
proof (induction elapsed k rule: keyboard_loop_induct)
  case (step remaining k)
  let ?k = "keyboard_activate k"
  show ?case
  proof (cases "keyboard_time_until_event ?k")
    case None
    then show ?thesis by (simp add: keyboard_advance_time.simps)
  next
    case (Some d)
    show ?thesis
    proof (cases "remaining < d")
      case True
      then show ?thesis
        using Some elapse_before_event(3) [OF activate_idem Some True]
        by (cases "keyboard_elapse remaining ?k") (auto simp: keyboard_advance_time.simps)
    next
      case False
      then show ?thesis
        using Some step.IH [OF Some False]
        by (subst keyboard_advance_time.simps) (auto simp: split_beta Let_def)
    qed
  qed
qed

end
