(* ===== verification/Mouse.thy ===== *)
theory Mouse
  imports Timed
begin

text \<open>
  The SGI Indigo mouse, \<^verbatim>\<open>se_device/src/sgi_mouse.rs\<close>. Accumulated motion is
  an integer kept within 64 bits by the checked additions of the code; the queue of segments is a
  list. The function that advances time is total: the termination proof is that a character takes
  time, so only a first character already due can leave the elapsed time unchanged.
\<close>

definition MOUSE_BAUD :: u128 where "MOUSE_BAUD = 4800"
definition MOUSE_FRAME_BITS :: u128 where "MOUSE_FRAME_BITS = 10"

datatype mouse_button = MouseLeft | MouseMiddle | MouseRight

fun mouse_button_mask :: "mouse_button \<Rightarrow> u8" where
  "mouse_button_mask MouseLeft = push_bit 2 1"
| "mouse_button_mask MouseMiddle = push_bit 1 1"
| "mouse_button_mask MouseRight = 1"

datatype segment =
    SegmentMotion (sg_buttons: u8) int int
  | SegmentButton (sg_buttons: u8)

record mouse_packet =
  mp_bytes :: "u8 list"
  mp_next :: nat

record mouse_byte =
  mb_value :: u8
  mb_remaining_attoseconds :: u128

record sgi_mouse =
  ms_buttons :: u8
  ms_pending :: "segment list"
  ms_packet :: "mouse_packet option"
  ms_active :: "mouse_byte option"
  ms_timing_remainder :: u16

definition mouse_new :: sgi_mouse where
  "mouse_new = \<lparr>ms_buttons = 0, ms_pending = [], ms_packet = None, ms_active = None, ms_timing_remainder = 0\<rparr>"

definition mouse_reset :: "sgi_mouse \<Rightarrow> sgi_mouse" where
  "mouse_reset m = mouse_new"

text \<open>Checked 64-bit addition.\<close>

definition i64_checked_add :: "int \<Rightarrow> int \<Rightarrow> int option" where
  "i64_checked_add a b = (if - (2 ^ 63) \<le> a + b \<and> a + b < 2 ^ 63 then Some (a + b) else None)"

definition move_relative :: "u32 \<Rightarrow> u32 \<Rightarrow> sgi_mouse \<Rightarrow> sgi_mouse" where
  "move_relative delta_x delta_y m = (
     let fresh = m\<lparr>ms_pending := ms_pending m @ [SegmentMotion (ms_buttons m) (sint delta_x) (sint delta_y)]\<rparr>
     in if delta_x = 0 \<and> delta_y = 0 then m
        else if ms_pending m = [] then fresh
        else case last (ms_pending m) of
          SegmentButton buttons \<Rightarrow> fresh
        | SegmentMotion buttons dx dy \<Rightarrow>
            if buttons = ms_buttons m then
              (case (i64_checked_add dx (sint delta_x), i64_checked_add dy (sint delta_y)) of
                (Some next_dx, Some next_dy) \<Rightarrow>
                  m\<lparr>ms_pending := butlast (ms_pending m) @ [SegmentMotion buttons next_dx next_dy]\<rparr>
              | _ \<Rightarrow> fresh)
            else fresh)"

definition set_button_state :: "mouse_button \<Rightarrow> bool \<Rightarrow> sgi_mouse \<Rightarrow> sgi_mouse" where
  "set_button_state button pressed m = (
     let mask = mouse_button_mask button;
         was_pressed = (ms_buttons m AND mask \<noteq> 0)
     in if was_pressed = pressed then m
        else
          let buttons = (if pressed then ms_buttons m OR mask else ms_buttons m AND NOT mask)
          in m\<lparr>ms_buttons := buttons, ms_pending := ms_pending m @ [SegmentButton buttons]\<rparr>)"

text \<open>One axis of a packet: two signed bytes and the motion they carry.\<close>

definition clamp_i8 :: "int \<Rightarrow> int" where
  "clamp_i8 v = max (- 128) (min 127 v)"

definition split_axis :: "int \<Rightarrow> int \<times> int \<times> int" where
  "split_axis v = (
     let first = clamp_i8 v; remaining = v - first; second = clamp_i8 remaining
     in (first, second, first + second))"

definition segment_motion :: "segment \<Rightarrow> u8 \<times> int \<times> int" where
  "segment_motion segment =
     (case segment of SegmentButton buttons \<Rightarrow> (buttons, 0, 0) | SegmentMotion buttons dx dy \<Rightarrow> (buttons, dx, dy))"

definition materialize_packet :: "sgi_mouse \<Rightarrow> sgi_mouse" where
  "materialize_packet m =
     (case ms_pending m of
        [] \<Rightarrow> m
      | segment # rest \<Rightarrow>
          let (buttons, dx, dy) = segment_motion segment;
              (x1, x2, used_x) = split_axis dx;
              (y1, y2, used_y) = split_axis dy;
              pending =
                (case segment of
                   SegmentMotion _ _ _ \<Rightarrow>
                     if dx \<noteq> used_x \<or> dy \<noteq> used_y
                     then SegmentMotion buttons (dx - used_x) (dy - used_y) # rest else rest
                 | SegmentButton _ \<Rightarrow> rest)
          in m\<lparr>ms_pending := pending,
               ms_packet := Some
                 \<lparr>mp_bytes = [0x80 OR (NOT buttons AND 0x07), word_of_int x1, word_of_int y1,
                              word_of_int x2, word_of_int y2],
                  mp_next = 0\<rparr>\<rparr>)"

definition mouse_numerator :: "sgi_mouse \<Rightarrow> u128" where
  "mouse_numerator m = MOUSE_FRAME_BITS * ATTOSECONDS_PER_SECOND + ucast (ms_timing_remainder m)"

definition mouse_ensure_active :: "sgi_mouse \<Rightarrow> sgi_mouse option" where
  "mouse_ensure_active m =
     (if ms_active m \<noteq> None then Some m
      else
        let m1 = (if ms_packet m = None then materialize_packet m else m)
        in case ms_packet m1 of
          None \<Rightarrow> Some m1
        | Some packet \<Rightarrow> do {
            value \<leftarrow> get_at (mp_bytes packet) (mp_next packet);
            let packet1 = packet\<lparr>mp_next := mp_next packet + 1\<rparr>;
            Some (m1\<lparr>ms_packet := (if mp_next packet1 = 5 then None else Some packet1),
                     ms_timing_remainder := ucast (mouse_numerator m1 mod MOUSE_BAUD),
                     ms_active := Some \<lparr>mb_value = value,
                       mb_remaining_attoseconds = mouse_numerator m1 div MOUSE_BAUD\<rparr>\<rparr>)
          })"

definition mouse_time_until_event :: "sgi_mouse \<Rightarrow> virtual_duration option" where
  "mouse_time_until_event m =
     (case ms_active m of
        Some active \<Rightarrow> Some (mb_remaining_attoseconds active)
      | None \<Rightarrow>
          if ms_packet m \<noteq> None \<or> ms_pending m \<noteq> [] then Some (mouse_numerator m div MOUSE_BAUD) else None)"

lemma materialize_active [simp]: "ms_active (materialize_packet m) = ms_active m"
  by (simp add: materialize_packet_def split_beta Let_def split: list.split)

lemma mouse_activation_takes_time:
  assumes "mouse_ensure_active m = Some m1" "ms_active m1 = Some active" "ms_active m = None"
  shows "mb_remaining_attoseconds active \<noteq> 0"
proof -
  have "mouse_numerator m2 div MOUSE_BAUD \<noteq> 0" for m2
    by (rule numerator_quotient [where k = MOUSE_FRAME_BITS and r = "ms_timing_remainder m2"])
      (simp_all add: mouse_numerator_def MOUSE_FRAME_BITS_def MOUSE_BAUD_def)
  then show ?thesis
    using assms by (auto simp: mouse_ensure_active_def Let_def bind_eq_Some_conv split: option.splits if_splits)
qed

definition mouse_overdue :: "sgi_mouse \<Rightarrow> nat" where
  "mouse_overdue m =
     (case ms_active m of Some active \<Rightarrow> of_bool (mb_remaining_attoseconds active = 0) | None \<Rightarrow> 0)"

function mouse_advance_time :: "virtual_duration \<Rightarrow> sgi_mouse \<Rightarrow> (u8 list \<times> sgi_mouse) option" where
  "mouse_advance_time remaining m =
     (case mouse_ensure_active m of
        None \<Rightarrow> None
      | Some m1 \<Rightarrow>
          (case ms_active m1 of
             None \<Rightarrow> Some ([], m1)
           | Some active \<Rightarrow>
               if remaining < mb_remaining_attoseconds active
               then Some ([], m1\<lparr>ms_active := Some (active
                      \<lparr>mb_remaining_attoseconds := mb_remaining_attoseconds active - remaining\<rparr>)\<rparr>)
               else
                 map_option (\<lambda>(sent, m2). (mb_value active # sent, m2))
                   (mouse_advance_time (remaining - mb_remaining_attoseconds active) (m1\<lparr>ms_active := None\<rparr>))))"
  by pat_completeness auto

termination
proof (relation "measures [\<lambda>(remaining, m). unat remaining, \<lambda>(remaining, m). mouse_overdue m]")
  fix remaining m m1 active
  assume m1: "mouse_ensure_active m = Some m1" and active: "ms_active m1 = Some active"
    and le: "\<not> remaining < mb_remaining_attoseconds active"
  show "((remaining - mb_remaining_attoseconds active, m1\<lparr>ms_active := None\<rparr>), (remaining, m))
    \<in> measures [\<lambda>(remaining, m). unat remaining, \<lambda>(remaining, m). mouse_overdue m]"
  proof (cases "mb_remaining_attoseconds active = 0")
    case True
    then have "ms_active m \<noteq> None" using mouse_activation_takes_time [OF m1 active] by blast
    then have "m1 = m" using m1 by (simp add: mouse_ensure_active_def)
    then show ?thesis using True active by (simp add: mouse_overdue_def)
  next
    case False
    then have "unat (mb_remaining_attoseconds active) \<noteq> 0" by (simp add: unat_eq_zero)
    then have "unat (remaining - mb_remaining_attoseconds active) < unat remaining"
      using le by (simp add: unat_sub_if' word_less_nat_alt)
    then show ?thesis by simp
  qed
qed simp

declare mouse_advance_time.simps [simp del]

end
