(* ===== verification/Mouse_Correct.thy ===== *)
theory Mouse_Correct
  imports Mouse
begin

text \<open>
  Correctness of the mouse: its output does not depend on how time is delivered, and the packets
  it sends carry exactly the motion and the button transitions it was given.
\<close>

section \<open>Time\<close>

lemma mouse_advance_additive:
  assumes "unat a + unat b < 2 ^ 128"
  shows "mouse_advance_time (a + b) m = do {
    (sent, m1) \<leftarrow> mouse_advance_time a m;
    map_option (\<lambda>(sent', m2). (sent @ sent', m2)) (mouse_advance_time b m1)
  }"
  using assms
proof (induction a m rule: mouse_advance_time.induct)
  case (1 a m)
  have sum: "unat (a + b) = unat a + unat b" using "1.prems" by (simp add: unat_word_ariths)
  show ?case
  proof (cases "mouse_ensure_active m")
    case None
    then show ?thesis by (simp add: mouse_advance_time.simps)
  next
    case m1: (Some m1)
    show ?thesis
    proof (cases "ms_active m1")
      case None
      then have "mouse_ensure_active m1 = Some m1"
        using m1 by (auto simp: mouse_ensure_active_def Let_def bind_eq_Some_conv split: if_splits option.splits)
          (auto simp: materialize_packet_def split_beta Let_def split: list.splits)
      then show ?thesis using m1 None by (simp add: mouse_advance_time.simps [of _ m] mouse_advance_time.simps [of _ m1])
    next
      case (Some active)
      let ?r = "mb_remaining_attoseconds active"
      show ?thesis
      proof (cases "a < ?r")
        case True
        let ?m = "m1\<lparr>ms_active := Some (active\<lparr>mb_remaining_attoseconds := ?r - a\<rparr>)\<rparr>"
        have less: "b < ?r - a \<longleftrightarrow> a + b < ?r" and rest: "?r - a - b = ?r - (a + b)" "b - (?r - a) = a + b - ?r"
          using True sum by (auto simp: word_less_nat_alt unat_sub_if')
        have "mouse_ensure_active ?m = Some ?m" by (simp add: mouse_ensure_active_def)
        then show ?thesis
          using m1 Some True less rest
          by (simp add: mouse_advance_time.simps [of _ m] mouse_advance_time.simps [of _ ?m] diff_diff_eq2 add.commute
              option.map_comp comp_def split_beta option.map_ident)
      next
        case False
        then have r: "unat ?r \<le> unat a" by (simp add: word_less_nat_alt)
        then have "unat (a - ?r) + unat b < 2 ^ 128" "\<not> a + b < ?r"
          using "1.prems" sum by (simp_all add: unat_sub_if' word_less_nat_alt)
        then show ?thesis
          using "1.IH" [OF m1 Some False] m1 Some False
          by (simp add: mouse_advance_time.simps [of _ m] diff_add_eq split_beta)
            (cases "mouse_advance_time (a - ?r) (m1\<lparr>ms_active := None\<rparr>)";
             simp add: option.map_comp comp_def split_beta)
      qed
    qed
  qed
qed

text \<open>The mouse with the characters it has sent so far.\<close>

definition mouse_elapse :: "virtual_duration \<Rightarrow> u8 list \<times> sgi_mouse \<Rightarrow> (u8 list \<times> sgi_mouse) option" where
  "mouse_elapse t = (\<lambda>(log, m). map_option (\<lambda>(sent, m'). (log @ sent, m')) (mouse_advance_time t m))"

section \<open>Motion and buttons\<close>

text \<open>What the host makes of the characters: a sequence of five-byte packets.\<close>

fun host_motion :: "u8 list \<Rightarrow> int \<times> int" where
  "host_motion (header # x1 # y1 # x2 # y2 # rest) =
     (let (x, y) = host_motion rest in (sint x1 + sint x2 + x, sint y1 + sint y2 + y))"
| "host_motion _ = (0, 0)"

fun host_buttons :: "u8 \<Rightarrow> u8 list \<Rightarrow> u8" where
  "host_buttons buttons (header # x1 # y1 # x2 # y2 # rest) = host_buttons (NOT header AND 0x07) rest"
| "host_buttons buttons _ = buttons"

lemma host_append:
  assumes "5 dvd length xs"
  shows "host_motion (xs @ ys) = (fst (host_motion xs) + fst (host_motion ys), snd (host_motion xs) + snd (host_motion ys))"
    "host_buttons b (xs @ ys) = host_buttons (host_buttons b xs) ys"
  using assms
proof (induction xs arbitrary: b rule: host_motion.induct)
  case (1 header x1 y1 x2 y2 rest)
  have [simp]: "5 dvd length (header # x1 # y1 # x2 # y2 # rest) \<longleftrightarrow> 5 dvd length rest"
    unfolding list.size by presburger
  {
    case 1
    with "1.IH"(1) show ?case by (simp add: split_beta del: list.size)
  next
    case 2
    with "1.IH"(2) show ?case by (simp del: list.size)
  }
qed (auto dest: dvd_imp_le)

text \<open>Bytes of a packet already begun, and the motion still waiting in segments.\<close>

definition mouse_unsent :: "sgi_mouse \<Rightarrow> u8 list" where
  "mouse_unsent m =
     (case ms_active m of None \<Rightarrow> [] | Some active \<Rightarrow> [mb_value active]) @
     (case ms_packet m of None \<Rightarrow> [] | Some packet \<Rightarrow> drop (mp_next packet) (mp_bytes packet))"

definition pending_motion :: "segment list \<Rightarrow> int \<times> int" where
  "pending_motion segments =
     (sum_list (map (fst \<circ> snd \<circ> segment_motion) segments), sum_list (map (snd \<circ> snd \<circ> segment_motion) segments))"

definition pending_buttons :: "u8 \<Rightarrow> segment list \<Rightarrow> u8" where
  "pending_buttons b segments = (if segments = [] then b else sg_buttons (last segments))"

definition mouse_ok :: "sgi_mouse \<Rightarrow> bool" where
  "mouse_ok m \<longleftrightarrow>
     (case ms_packet m of None \<Rightarrow> True | Some packet \<Rightarrow> length (mp_bytes packet) = 5 \<and> mp_next packet < 5) \<and>
     (\<forall>s\<in>set (ms_pending m). sg_buttons s AND 0x07 = sg_buttons s) \<and> ms_buttons m AND 0x07 = ms_buttons m"

text \<open>
  The account of a run: the bytes of the log and of the packet begun are whole packets, and with
  the waiting segments they carry the motion \<open>(x, y)\<close> and end with the current buttons.
\<close>

definition mouse_account :: "u8 list \<Rightarrow> int \<Rightarrow> int \<Rightarrow> sgi_mouse \<Rightarrow> bool" where
  "mouse_account log x y m \<longleftrightarrow> mouse_ok m \<and> 5 dvd length (log @ mouse_unsent m) \<and>
     fst (host_motion (log @ mouse_unsent m)) + fst (pending_motion (ms_pending m)) = x \<and>
     snd (host_motion (log @ mouse_unsent m)) + snd (pending_motion (ms_pending m)) = y \<and>
     pending_buttons (host_buttons 0 (log @ mouse_unsent m)) (ms_pending m) = ms_buttons m"

lemma clamp_bounds: "- 128 \<le> clamp_i8 v" "clamp_i8 v \<le> 127"
  by (simp_all add: clamp_i8_def)

lemma sint_clamp: "sint (word_of_int (clamp_i8 v) :: u8) = clamp_i8 v"
  using clamp_bounds [of v] by (simp add: signed_of_int signed_take_bit_int_eq_self)

lemma header_buttons:
  fixes b :: u8
  assumes "b AND 7 = b"
  shows "NOT (0x80 OR (NOT b AND 7)) AND 7 = b"
proof -
  have "\<forall>k<8. NOT (0x80 OR (NOT (word_of_nat k) AND 7)) AND 7 = (word_of_nat k :: u8)"
    by code_simp
  moreover have "unat b < 8" using unat_and_lt [of 7 8 b] assms by simp
  ultimately show ?thesis by (metis of_nat_unat ucast_id)
qed

lemma host_packet:
  "host_motion [0x80 OR (NOT b AND 7), word_of_int (fst (split_axis dx)), word_of_int (fst (split_axis dy)),
      word_of_int (fst (snd (split_axis dx))), word_of_int (fst (snd (split_axis dy)))] =
    (snd (snd (split_axis dx)), snd (snd (split_axis dy)))"
  by (simp add: split_axis_def Let_def sint_clamp)

lemma split_axis_zero: "split_axis 0 = (0, 0, 0)"
  by (simp add: split_axis_def clamp_i8_def)

text \<open>Beginning a packet moves motion and buttons from the segments to the bytes.\<close>

lemma materialize_account:
  assumes "mouse_account log x y m" "ms_packet m = None" "ms_active m = None"
  shows "mouse_account log x y (materialize_packet m)"
proof (cases "ms_pending m")
  case Nil
  then show ?thesis using assms by (simp add: materialize_packet_def)
next
  case (Cons segment rest)
  obtain b dx dy where motion: "segment_motion segment = (b, dx, dy)" by (cases "segment_motion segment")
  have b: "sg_buttons segment = b" "b AND 7 = b"
    using motion assms(1) Cons by (auto simp: segment_motion_def mouse_account_def mouse_ok_def split: segment.splits)
  have unsent: "mouse_unsent m = []" using assms(2,3) by (simp add: mouse_unsent_def)
  let ?p = "[0x80 OR (NOT b AND 7), word_of_int (fst (split_axis dx)), word_of_int (fst (split_axis dy)),
      word_of_int (fst (snd (split_axis dx))), word_of_int (fst (snd (split_axis dy)))]"
  define rest' where "rest' = (case segment of
      SegmentMotion _ _ _ \<Rightarrow>
        if dx \<noteq> snd (snd (split_axis dx)) \<or> dy \<noteq> snd (snd (split_axis dy))
        then SegmentMotion b (dx - snd (snd (split_axis dx))) (dy - snd (snd (split_axis dy))) # rest else rest
    | SegmentButton _ \<Rightarrow> rest)"
  have mat: "materialize_packet m = m\<lparr>ms_pending := rest', ms_packet := Some \<lparr>mp_bytes = ?p, mp_next = 0\<rparr>\<rparr>"
    by (simp add: materialize_packet_def Cons motion split_beta Let_def rest'_def split: segment.split)
  have log: "5 dvd length log" using assms(1) unsent by (simp add: mouse_account_def)
  have moved: "fst (pending_motion rest') = fst (pending_motion (ms_pending m)) - snd (snd (split_axis dx))"
    "snd (pending_motion rest') = snd (pending_motion (ms_pending m)) - snd (snd (split_axis dy))"
    using motion split_axis_zero
    by (auto simp: rest'_def Cons pending_motion_def segment_motion_def split: segment.splits)
  have buttons: "pending_buttons b rest' = pending_buttons c (ms_pending m)" for c
    using b motion by (auto simp: rest'_def Cons pending_buttons_def segment_motion_def split: segment.splits)
  have ok: "mouse_ok (materialize_packet m)"
    using assms(1) b motion
    by (auto simp: mat mouse_account_def mouse_ok_def rest'_def Cons segment_motion_def split: segment.splits)
  have bytes: "mouse_unsent (materialize_packet m) = ?p" using assms(3) by (simp add: mat mouse_unsent_def)
  have "5 dvd Suc (Suc (Suc (Suc (Suc (length log)))))" using log by presburger
  then show ?thesis
    using assms(1) ok moved log buttons [of "host_buttons 0 log"] header_buttons [OF b(2)]
    by (simp add: mouse_account_def bytes host_append host_packet unsent del: host_motion.simps)
      (simp add: mat)
qed


lemma materialize_result:
  "ms_packet (materialize_packet m) = None \<Longrightarrow> ms_packet m = None \<and> materialize_packet m = m"
  by (auto simp: materialize_packet_def split_beta Let_def split: list.splits)

lemma ensure_active_account:
  assumes "mouse_account log x y m"
  shows "ok (mouse_ensure_active m) (\<lambda>m1. mouse_account log x y m1 \<and>
    (ms_active m1 = None \<longrightarrow> ms_packet m1 = None \<and> ms_pending m1 = []))"
proof (cases "ms_active m")
  case (Some a)
  then show ?thesis using assms by (simp add: mouse_ensure_active_def)
next
  case None
  define m1 where "m1 = (if ms_packet m = None then materialize_packet m else m)"
  have m1: "mouse_account log x y m1" "ms_active m1 = None"
    using assms None materialize_account by (simp_all add: m1_def)
  show ?thesis
  proof (cases "ms_packet m1")
    case no_packet: None
    then have "ms_packet m = None" "ms_pending m = []"
      by (auto simp: m1_def materialize_packet_def split_beta Let_def split: list.splits if_splits)
    then show ?thesis
      using assms None by (simp add: mouse_ensure_active_def materialize_packet_def)
  next
    case (Some packet)
    have bounds: "length (mp_bytes packet) = 5" "mp_next packet < 5"
      using m1(1) Some by (simp_all add: mouse_account_def mouse_ok_def)
    define m2 where "m2 = m1\<lparr>ms_packet := (if mp_next packet + 1 = 5 then None
          else Some (packet\<lparr>mp_next := mp_next packet + 1\<rparr>)),
        ms_timing_remainder := ucast (mouse_numerator m1 mod MOUSE_BAUD),
        ms_active := Some \<lparr>mb_value = mp_bytes packet ! mp_next packet,
          mb_remaining_attoseconds = mouse_numerator m1 div MOUSE_BAUD\<rparr>\<rparr>"
    have "drop (mp_next packet) (mp_bytes packet) =
        mp_bytes packet ! mp_next packet # drop (Suc (mp_next packet)) (mp_bytes packet)"
      using bounds by (simp add: Cons_nth_drop_Suc)
    then have unsent: "mouse_unsent m2 = mouse_unsent m1"
      using bounds by (simp add: mouse_unsent_def m2_def Some m1(2))
    have "mouse_ok m2"
      using m1(1) bounds Some by (auto simp: mouse_account_def mouse_ok_def m2_def)
    then have "mouse_account log x y m2"
      using m1(1) unsent by (simp add: mouse_account_def) (simp add: m2_def)
    moreover have "mouse_ensure_active m = Some m2"
      using None Some bounds by (simp add: mouse_ensure_active_def m1_def [symmetric] m2_def Let_def)
    ultimately show ?thesis by (simp add: m2_def)
  qed
qed

lemma mouse_advance_account:
  assumes "mouse_account log x y m"
  shows "ok (mouse_advance_time t m) (\<lambda>(sent, m'). mouse_account (log @ sent) x y m')"
  using assms
proof (induction t m arbitrary: log rule: mouse_advance_time.induct)
  case (1 t m)
  obtain m1 where m1: "mouse_ensure_active m = Some m1" "mouse_account log x y m1"
    using ensure_active_account [OF "1.prems"] by (auto simp: ok_ex)
  show ?case
  proof (cases "ms_active m1")
    case None
    then show ?thesis using m1 by (simp add: mouse_advance_time.simps)
  next
    case (Some active)
    let ?m = "m1\<lparr>ms_active := None\<rparr>"
    have kept: "mouse_account log x y (m1\<lparr>ms_active := Some (active\<lparr>mb_remaining_attoseconds := r\<rparr>)\<rparr>)" for r
      using m1(2) Some by (simp add: mouse_account_def mouse_unsent_def mouse_ok_def)
    have sent: "mouse_account (log @ [mb_value active]) x y ?m"
      using m1(2) Some by (simp add: mouse_account_def mouse_unsent_def mouse_ok_def)
    show ?thesis
    proof (cases "t < mb_remaining_attoseconds active")
      case True
      then show ?thesis using m1(1) Some kept by (simp add: mouse_advance_time.simps)
    next
      case False
      then show ?thesis
        using m1(1) Some "1.IH" [OF m1(1) Some False sent]
        by (simp add: mouse_advance_time.simps split_beta)
    qed
  qed
qed

interpretation mouse_timed: timed_device mouse_elapse "\<lambda>(log, m). \<exists>x y. mouse_account log x y m"
proof
  fix s :: "u8 list \<times> sgi_mouse" and d
  assume "case s of (log, m) \<Rightarrow> \<exists>x y. mouse_account log x y m"
  then obtain x y where account: "mouse_account (fst s) x y (snd s)" by (auto simp: split_beta)
  have "ok (mouse_advance_time d (snd s)) (\<lambda>r. \<exists>x y. mouse_account (fst s @ fst r) x y (snd r))"
    by (rule ok_mono [OF mouse_advance_account [OF account]]) (simp add: split_beta, intro exI)
  then show "ok (mouse_elapse d s) (\<lambda>(log, m). \<exists>x y. mouse_account log x y m)"
    by (simp add: mouse_elapse_def split_beta)
next
  fix s :: "u8 list \<times> sgi_mouse" and d e :: virtual_duration
  assume "unat d + unat e < 2 ^ 128"
  then show "mouse_elapse (d + e) s = Option.bind (mouse_elapse d s) (mouse_elapse e)"
    by (cases s; cases "mouse_advance_time d (snd s)")
      (simp_all add: mouse_elapse_def mouse_advance_additive case_prod_unfold option.map_comp comp_def)
qed

section \<open>A session with the mouse\<close>

text \<open>The characters sent and the motion given so far, from a mouse just created.\<close>

inductive mouse_run :: "u8 list \<Rightarrow> int \<Rightarrow> int \<Rightarrow> sgi_mouse \<Rightarrow> bool" where
  run_new: "mouse_run [] 0 0 mouse_new"
| run_move: "mouse_run log x y m \<Longrightarrow>
    mouse_run log (x + sint delta_x) (y + sint delta_y) (move_relative delta_x delta_y m)"
| run_button: "mouse_run log x y m \<Longrightarrow> mouse_run log x y (set_button_state button pressed m)"
| run_time: "mouse_run log x y m \<Longrightarrow> mouse_advance_time t m = Some (sent, m') \<Longrightarrow>
    mouse_run (log @ sent) x y m'"

lemma pending_motion_append:
  "pending_motion (xs @ [s]) = (fst (pending_motion xs) + fst (snd (segment_motion s)),
     snd (pending_motion xs) + snd (snd (segment_motion s)))"
  by (simp add: pending_motion_def)

lemma unsent_pending [simp]:
  "mouse_unsent (m\<lparr>ms_pending := p\<rparr>) = mouse_unsent m" "mouse_unsent (m\<lparr>ms_buttons := b\<rparr>) = mouse_unsent m"
  by (simp_all add: mouse_unsent_def)

lemma account_append:
  assumes "mouse_account log x y m" "sg_buttons s = b" "b AND 7 = b"
  shows "mouse_account log (x + fst (snd (segment_motion s))) (y + snd (snd (segment_motion s)))
    (m\<lparr>ms_buttons := b, ms_pending := ms_pending m @ [s]\<rparr>)"
  using assms
  by (simp add: mouse_account_def mouse_ok_def pending_motion_append pending_buttons_def)

lemma joined_account:
  assumes "mouse_account log x y m" "ms_pending m = xs @ [SegmentMotion c dx dy]"
  shows "mouse_account log (x + i) (y + j) (m\<lparr>ms_pending := xs @ [SegmentMotion c (dx + i) (dy + j)]\<rparr>)"
  unfolding mouse_account_def
proof (intro conjI)
  note parts = assms(1) [unfolded mouse_account_def assms(2) pending_motion_append pending_buttons_def]
  show "mouse_ok (m\<lparr>ms_pending := xs @ [SegmentMotion c (dx + i) (dy + j)]\<rparr>)"
    using parts by (simp add: mouse_ok_def assms(2))
  show "fst (host_motion (log @ mouse_unsent (m\<lparr>ms_pending := xs @ [SegmentMotion c (dx + i) (dy + j)]\<rparr>))) +
      fst (pending_motion (ms_pending (m\<lparr>ms_pending := xs @ [SegmentMotion c (dx + i) (dy + j)]\<rparr>))) = x + i"
    "snd (host_motion (log @ mouse_unsent (m\<lparr>ms_pending := xs @ [SegmentMotion c (dx + i) (dy + j)]\<rparr>))) +
      snd (pending_motion (ms_pending (m\<lparr>ms_pending := xs @ [SegmentMotion c (dx + i) (dy + j)]\<rparr>))) = y + j"
    using parts by (simp_all add: pending_motion_append segment_motion_def)
qed (use assms(1) in \<open>simp_all add: mouse_account_def assms(2) pending_buttons_def\<close>)

lemma move_account:
  assumes "mouse_account log x y m"
  shows "mouse_account log (x + sint delta_x) (y + sint delta_y) (move_relative delta_x delta_y m)"
proof -
  have b: "ms_buttons m AND 7 = ms_buttons m" using assms by (simp add: mouse_account_def mouse_ok_def)
  have fresh: "mouse_account log (x + sint delta_x) (y + sint delta_y)
      (m\<lparr>ms_pending := ms_pending m @ [SegmentMotion (ms_buttons m) (sint delta_x) (sint delta_y)]\<rparr>)"
    using account_append [OF assms, of "SegmentMotion (ms_buttons m) (sint delta_x) (sint delta_y)"] b
    by (simp add: segment_motion_def)
  have joined: "mouse_account log (x + sint delta_x) (y + sint delta_y)
      (m\<lparr>ms_pending := butlast (ms_pending m) @ [SegmentMotion c (dx + sint delta_x) (dy + sint delta_y)]\<rparr>)"
    if "ms_pending m \<noteq> []" "last (ms_pending m) = SegmentMotion c dx dy" for c dx dy
  proof -
    have "ms_pending m = butlast (ms_pending m) @ [SegmentMotion c dx dy]"
      using append_butlast_last_id [OF that(1)] that(2) by simp
    then show ?thesis by (rule joined_account [OF assms])
  qed
  show ?thesis
  proof (cases "delta_x = 0 \<and> delta_y = 0")
    case True
    then show ?thesis using assms by (simp add: move_relative_def Let_def)
  next
    case moved: False
    show ?thesis
    proof (cases "ms_pending m = []")
      case True
      then show ?thesis using fresh by (simp add: move_relative_def Let_def if_not_P [OF moved])
    next
      case False
      show ?thesis
      proof (cases "last (ms_pending m)")
        case (SegmentMotion c dx dy)
        show ?thesis
          using False SegmentMotion fresh joined [OF False SegmentMotion]
          by (cases "c = ms_buttons m") (simp_all add: move_relative_def i64_checked_add_def Let_def if_not_P [OF moved])
      next
        case (SegmentButton c)
        then show ?thesis using False fresh by (simp add: move_relative_def Let_def if_not_P [OF moved])
      qed
    qed
  qed
qed

lemma button_account:
  assumes "mouse_account log x y m"
  shows "mouse_account log x y (set_button_state button pressed m)"
proof -
  have b: "ms_buttons m AND 7 = ms_buttons m" using assms by (simp add: mouse_account_def mouse_ok_def)
  have mask: "mouse_button_mask button AND 7 = mouse_button_mask button" by (cases button) simp_all
  have "(ms_buttons m OR mouse_button_mask button) AND 7 = ms_buttons m OR mouse_button_mask button"
    using b mask by (simp add: and.commute bit.conj_disj_distrib)
  moreover have "(ms_buttons m AND NOT (mouse_button_mask button)) AND 7 = ms_buttons m AND NOT (mouse_button_mask button)"
    by (metis b and.assoc and.commute)
  ultimately show ?thesis
    using assms account_append [OF assms, of "SegmentButton _"]
    by (simp add: set_button_state_def Let_def segment_motion_def)
qed

lemma mouse_run_account: "mouse_run log x y m \<Longrightarrow> mouse_account log x y m"
proof (induction rule: mouse_run.induct)
  case run_new
  then show ?case
    by (simp add: mouse_account_def mouse_ok_def mouse_new_def mouse_unsent_def pending_motion_def pending_buttons_def)
next
  case (run_time log x y m t sent m')
  then show ?case using mouse_advance_account [of log x y m t] by simp
qed (simp_all add: move_account button_account)

text \<open>
  C38. The mouse loses and invents nothing. After any sequence of movements, button changes and
  spans of time, as soon as the mouse reports no further event, the packets it has sent are whole,
  the signed samples in them add up to exactly the motion it was given, however large, and the
  last packet shows the current buttons; and advancing time never panics.
\<close>

theorem mouse_conserves_motion:
  assumes "mouse_run log x y m"
  shows "(mouse_time_until_event m = None \<longrightarrow>
      5 dvd length log \<and> host_motion log = (x, y) \<and> host_buttons 0 log = ms_buttons m) \<and>
    mouse_advance_time t m \<noteq> None"
proof -
  note account = mouse_run_account [OF assms]
  have "mouse_unsent m = []" "ms_pending m = []" if "mouse_time_until_event m = None"
    using that by (auto simp: mouse_time_until_event_def mouse_unsent_def split: option.splits if_splits)
  then have "mouse_time_until_event m = None \<longrightarrow>
      5 dvd length log \<and> host_motion log = (x, y) \<and> host_buttons 0 log = ms_buttons m"
    using account by (auto simp: mouse_account_def pending_motion_def pending_buttons_def prod_eq_iff)
  moreover have "mouse_advance_time t m \<noteq> None"
    using mouse_advance_account [OF account, of t] by (cases "mouse_advance_time t m") simp_all
  ultimately show ?thesis by blast
qed

text \<open>A movement of 300 to the right takes two packets.\<close>

theorem mouse_conserves_motion_witness:
  "\<exists>m. mouse_run [] 300 0 m \<and> mouse_advance_time (10 ^ 17) m \<noteq> None"
proof -
  have "mouse_run [] 300 0 (move_relative 300 0 mouse_new)"
    using run_move [OF run_new, of 300 0] by simp
  then show ?thesis using mouse_conserves_motion by blast
qed

end
