(* ===== verification/Eeprom.thy ===== *)
theory Eeprom
  imports Prelude
begin

text \<open>
  The NMC93CS46 serial EEPROM, \<^verbatim>\<open>se_device/src/nmc93cs46.rs\<close>: 64 words behind a
  four-pin serial interface, and its correctness against the memory it promises.  Bit counts are
  natural numbers; the arrays are lists, indexed with a check.
\<close>

section \<open>The device\<close>

definition WORD_COUNT :: nat where "WORD_COUNT = 64"
definition COMMAND_BITS :: nat where "COMMAND_BITS = 11"
definition DATA_BITS :: nat where "DATA_BITS = 16"
definition READ_COMMAND :: u16 where "READ_COMMAND = 0x0600"
definition WRITE_COMMAND :: u16 where "WRITE_COMMAND = 0x0500"
definition WRITE_ENABLE_COMMAND :: u16 where "WRITE_ENABLE_COMMAND = 0x04c0"
definition WRITE_DISABLE_COMMAND :: u16 where "WRITE_DISABLE_COMMAND = 0x0400"
definition OPERATION_MASK :: u16 where "OPERATION_MASK = 0x07c0"
definition ADDRESS_MASK :: u16 where "ADDRESS_MASK = 63"

datatype transfer =
    TransferCommand (tf_bits: u16) (tf_count: nat)
  | TransferRead (tf_value: u16) (tf_next_bit: nat)
  | TransferWrite (tf_address: nat) (tf_written: u16) (tf_filled: nat)
  | TransferIgnore

record eeprom =
  ee_words :: "u16 list"
  ee_transfer :: transfer
  ee_write_enabled :: bool
  ee_chip_select :: bool
  ee_clock :: bool
  ee_data_out :: bool

definition eeprom_new :: eeprom where
  "eeprom_new =
     \<lparr>ee_words = replicate WORD_COUNT 0xffff, ee_transfer = TransferCommand 0 0, ee_write_enabled = False,
      ee_chip_select = False, ee_clock = False, ee_data_out = False\<rparr>"

definition eeprom_contents :: "eeprom \<Rightarrow> u16 list" where
  "eeprom_contents e = ee_words e"

definition eeprom_reset :: "eeprom \<Rightarrow> eeprom" where
  "eeprom_reset e =
     e\<lparr>ee_transfer := TransferCommand 0 0, ee_write_enabled := False, ee_chip_select := False,
       ee_clock := False, ee_data_out := False\<rparr>"

definition eeprom_restore_contents :: "u16 list \<Rightarrow> eeprom \<Rightarrow> eeprom" where
  "eeprom_restore_contents contents e = eeprom_reset (e\<lparr>ee_words := contents\<rparr>)"

definition decode_command :: "u16 \<Rightarrow> eeprom \<Rightarrow> eeprom option" where
  "decode_command command e = do {
     let address = unat (command AND ADDRESS_MASK);
     let operation = command AND OPERATION_MASK;
     e \<leftarrow> (if operation = READ_COMMAND
          then map_option (\<lambda>value. e\<lparr>ee_transfer := TransferRead value 0\<rparr>) (get_at (ee_words e) address)
          else if operation = WRITE_COMMAND
          then Some (e\<lparr>ee_transfer := TransferWrite address 0 0\<rparr>)
          else if operation = WRITE_ENABLE_COMMAND \<and> command = WRITE_ENABLE_COMMAND
          then Some (e\<lparr>ee_write_enabled := True, ee_transfer := TransferIgnore\<rparr>)
          else if operation = WRITE_DISABLE_COMMAND \<and> command = WRITE_DISABLE_COMMAND
          then Some (e\<lparr>ee_write_enabled := False, ee_transfer := TransferIgnore\<rparr>)
          else Some (e\<lparr>ee_transfer := TransferIgnore\<rparr>));
     Some (e\<lparr>ee_data_out := True\<rparr>)
   }"

definition clock_rising_edge :: "bool \<Rightarrow> eeprom \<Rightarrow> eeprom option" where
  "clock_rising_edge data_in e =
     (case ee_transfer e of
        TransferCommand bits count \<Rightarrow>
          if count = 0 \<and> \<not> data_in then Some (e\<lparr>ee_data_out := True\<rparr>)
          else
            let bits = push_bit 1 bits OR of_bool data_in; count = count + 1
            in if count = COMMAND_BITS then decode_command bits e
               else Some (e\<lparr>ee_transfer := TransferCommand bits count, ee_data_out := True\<rparr>)
      | TransferRead value next_bit \<Rightarrow> do {
          require (next_bit < DATA_BITS);
          Some (e\<lparr>ee_data_out := (value AND push_bit (DATA_BITS - 1 - next_bit) 1 \<noteq> 0),
                  ee_transfer :=
                    (if next_bit + 1 = DATA_BITS then TransferIgnore else TransferRead value (next_bit + 1))\<rparr>)
        }
      | TransferWrite address value count \<Rightarrow>
          let value = push_bit 1 value OR of_bool data_in; count = count + 1
          in if count = DATA_BITS
             then do {
               words \<leftarrow> (if ee_write_enabled e then set_at (ee_words e) address value else Some (ee_words e));
               Some (e\<lparr>ee_words := words, ee_transfer := TransferIgnore, ee_data_out := True\<rparr>)
             }
             else Some (e\<lparr>ee_transfer := TransferWrite address value count\<rparr>)
      | TransferIgnore \<Rightarrow> Some e)"

definition drive_pins :: "bool \<Rightarrow> bool \<Rightarrow> bool \<Rightarrow> bool \<Rightarrow> eeprom \<Rightarrow> eeprom option" where
  "drive_pins pre chip_select clock data_in e =
     (if \<not> chip_select
      then Some (e\<lparr>ee_transfer := TransferCommand 0 0, ee_chip_select := False, ee_clock := clock,
                   ee_data_out := False\<rparr>)
      else
        let e1 = (if \<not> ee_chip_select e
                  then e\<lparr>ee_transfer := TransferCommand 0 0, ee_data_out := True\<rparr> else e);
            rising_edge = (\<not> ee_clock e1 \<and> clock);
            e2 = e1\<lparr>ee_chip_select := True, ee_clock := clock\<rparr>
        in if rising_edge then clock_rising_edge data_in e2 else Some e2)"

definition eeprom_data_out :: "eeprom \<Rightarrow> bool" where
  "eeprom_data_out e \<longleftrightarrow> ee_chip_select e \<and> ee_data_out e"

section \<open>The invariant\<close>

fun transfer_ok :: "transfer \<Rightarrow> bool" where
  "transfer_ok (TransferCommand bits count) = (count < COMMAND_BITS)"
| "transfer_ok (TransferRead value next_bit) = (next_bit < DATA_BITS)"
| "transfer_ok (TransferWrite address value count) = (address < WORD_COUNT \<and> count < DATA_BITS)"
| "transfer_ok TransferIgnore = True"

definition eeprom_ok :: "eeprom \<Rightarrow> bool" where
  "eeprom_ok e \<longleftrightarrow> length (ee_words e) = WORD_COUNT \<and> transfer_ok (ee_transfer e)"

lemmas eeprom_counts = WORD_COUNT_def COMMAND_BITS_def DATA_BITS_def
lemmas eeprom_commands =
  READ_COMMAND_def WRITE_COMMAND_def WRITE_ENABLE_COMMAND_def WRITE_DISABLE_COMMAND_def
  OPERATION_MASK_def ADDRESS_MASK_def

lemma eeprom_new_ok: "eeprom_ok eeprom_new"
  by (simp add: eeprom_ok_def eeprom_new_def eeprom_counts)

lemma eeprom_reset_ok: "eeprom_ok e \<Longrightarrow> eeprom_ok (eeprom_reset e)"
  by (simp add: eeprom_ok_def eeprom_reset_def eeprom_counts)

lemma command_address_lt: "unat (command AND ADDRESS_MASK) < WORD_COUNT" for command :: u16
  using unat_and_lt [of ADDRESS_MASK 64 command] by (simp add: eeprom_commands eeprom_counts)

lemma decode_command_ok: "eeprom_ok e \<Longrightarrow> ok (decode_command command e) eeprom_ok"
  using command_address_lt [of command]
  by (simp add: decode_command_def eeprom_ok_def eeprom_counts Let_def)

lemma clock_rising_edge_ok:
  assumes "eeprom_ok e"
  shows "ok (clock_rising_edge data_in e) eeprom_ok"
  using assms decode_command_ok [OF assms]
  by (cases "ee_transfer e")
    (auto simp: clock_rising_edge_def eeprom_ok_def eeprom_counts Let_def)

lemma drive_pins_ok:
  assumes "eeprom_ok e"
  shows "ok (drive_pins pre chip_select clock data_in e) eeprom_ok"
  using assms
  by (auto simp: drive_pins_def Let_def eeprom_ok_def eeprom_counts intro!: clock_rising_edge_ok)


section \<open>Serial frames\<close>

text \<open>
  The host's side of the interface: a frame deselects the chip and then clocks its bits in, most
  significant first, sampling the output pin after each rising edge.
\<close>

definition msb_first :: "nat \<Rightarrow> 'a::len word \<Rightarrow> bool list" where
  "msb_first n w = map (\<lambda>i. bit w (n - 1 - i)) [0..<n]"

definition clock_in :: "bool \<Rightarrow> eeprom \<Rightarrow> (bool \<times> eeprom) option" where
  "clock_in data_in e = do {
     e \<leftarrow> drive_pins False True False data_in e;
     e \<leftarrow> drive_pins False True True data_in e;
     Some (eeprom_data_out e, e)
   }"

primrec clock_in_all :: "bool list \<Rightarrow> eeprom \<Rightarrow> (bool list \<times> eeprom) option" where
  "clock_in_all [] e = Some ([], e)"
| "clock_in_all (d # ds) e = do {
     (q, e) \<leftarrow> clock_in d e;
     (qs, e) \<leftarrow> clock_in_all ds e;
     Some (q # qs, e)
   }"

definition eeprom_frame :: "bool list \<Rightarrow> eeprom \<Rightarrow> (bool list \<times> eeprom) option" where
  "eeprom_frame bits e = do {
     e \<leftarrow> drive_pins False False False False e;
     clock_in_all bits e
   }"

text \<open>What the part promises: a memory of 64 words with a write protection.\<close>

datatype eeprom_request = ReadWord nat | WriteWord nat u16 | EnableWrites | DisableWrites

fun request_valid :: "eeprom_request \<Rightarrow> bool" where
  "request_valid (ReadWord a) = (a < 64)"
| "request_valid (WriteWord a v) = (a < 64)"
| "request_valid _ = True"

fun request_bits :: "eeprom_request \<Rightarrow> bool list" where
  "request_bits (ReadWord a) = msb_first 11 (0x0600 OR word_of_nat a :: u16) @ replicate 16 False"
| "request_bits (WriteWord a v) = msb_first 11 (0x0500 OR word_of_nat a :: u16) @ msb_first 16 v"
| "request_bits EnableWrites = msb_first 11 (0x04c0 :: u16)"
| "request_bits DisableWrites = msb_first 11 (0x0400 :: u16)"

fun request_effect :: "eeprom_request \<Rightarrow> u16 list \<times> bool \<Rightarrow> u16 list \<times> bool" where
  "request_effect (ReadWord a) (ws, enabled) = (ws, enabled)"
| "request_effect (WriteWord a v) (ws, enabled) = (if enabled then ws[a := v] else ws, enabled)"
| "request_effect EnableWrites (ws, enabled) = (ws, True)"
| "request_effect DisableWrites (ws, enabled) = (ws, False)"

fun request_answer :: "eeprom_request \<Rightarrow> u16 list \<Rightarrow> bool list" where
  "request_answer (ReadWord a) ws = replicate 11 True @ msb_first 16 (ws ! a)"
| "request_answer (WriteWord a v) ws = replicate 27 True"
| "request_answer _ ws = replicate 11 True"

subsection \<open>Shifting bits in\<close>

definition shift_in :: "u16 \<Rightarrow> bool list \<Rightarrow> u16" where
  "shift_in = foldl (\<lambda>v d. push_bit 1 v OR of_bool d)"

lemma shift_in_simps [simp]:
  "shift_in v [] = v"
  "shift_in v (d # ds) = shift_in (push_bit 1 v OR of_bool d) ds"
  by (simp_all add: shift_in_def)

lemma shift_in_snoc: "shift_in v (ds @ [d]) = push_bit 1 (shift_in v ds) OR of_bool d"
  by (simp add: shift_in_def)

lemma bit_shift_in:
  "bit (shift_in v ds) n \<longleftrightarrow>
     n < 16 \<and> (if n < length ds then ds ! (length ds - 1 - n) else bit v (n - length ds))"
proof (induction ds arbitrary: v n)
  case Nil
  then show ?case using bit_u16 [of v n] by auto
next
  case (Cons d ds)
  show ?case
  proof (cases "n < length ds")
    case True
    then show ?thesis by (simp add: Cons nth_Cons' diff_less_Suc)
  next
    case False
    then show ?thesis
      by (cases "n - length ds") (auto simp: Cons bit_simps nth_Cons' not_less diff_Suc simp del: push_bit_Suc One_nat_def)
  qed
qed

lemma length_msb_first [simp]: "length (msb_first n w) = n"
  by (simp add: msb_first_def)

lemma shift_in_msb_first: "n \<le> 16 \<Longrightarrow> shift_in 0 (msb_first n w) = take_bit n w" for w :: u16
  by (rule bit_word_eqI) (auto simp: bit_shift_in msb_first_def bit_simps)


subsection \<open>The phases of a frame\<close>

abbreviation selected :: "transfer \<Rightarrow> bool \<Rightarrow> eeprom \<Rightarrow> eeprom" where
  "selected t q e \<equiv> e\<lparr>ee_transfer := t, ee_chip_select := True, ee_clock := True, ee_data_out := q\<rparr>"

lemma clock_in_selected:
  "clock_in d (selected t q e) =
     map_option (\<lambda>e. (eeprom_data_out e, e)) (clock_rising_edge d (selected t q e))"
  by (cases e) (simp add: clock_in_def drive_pins_def Let_def map_option_case split: option.split)

lemma clock_in_command:
  assumes "0 < c" "c + 1 < COMMAND_BITS"
  shows "clock_in d (selected (TransferCommand v c) q e) =
    Some (True, selected (TransferCommand (push_bit 1 v OR of_bool d) (c + 1)) True e)"
  unfolding clock_in_selected using assms
  by (simp add: clock_rising_edge_def Let_def eeprom_data_out_def)

lemma clock_in_command_all:
  assumes "0 < c" "c + length ds < COMMAND_BITS"
  shows "clock_in_all ds (selected (TransferCommand v c) True e) =
    Some (replicate (length ds) True, selected (TransferCommand (shift_in v ds) (c + length ds)) True e)"
  using assms
proof (induction ds arbitrary: v c)
  case (Cons d ds)
  then show ?case by (simp add: clock_in_command)
qed simp

lemma clock_in_write:
  assumes "c + 1 < DATA_BITS"
  shows "clock_in d (selected (TransferWrite a v c) True e) =
    Some (True, selected (TransferWrite a (push_bit 1 v OR of_bool d) (c + 1)) True e)"
  unfolding clock_in_selected using assms
  by (simp add: clock_rising_edge_def Let_def eeprom_data_out_def)

lemma clock_in_write_all:
  assumes "c + length ds < DATA_BITS"
  shows "clock_in_all ds (selected (TransferWrite a v c) True e) =
    Some (replicate (length ds) True, selected (TransferWrite a (shift_in v ds) (c + length ds)) True e)"
  using assms
proof (induction ds arbitrary: v c)
  case (Cons d ds)
  then show ?case by (simp add: clock_in_write)
qed simp

lemma clock_in_read:
  assumes "k < DATA_BITS"
  shows "clock_in d (selected (TransferRead v k) q e) =
    Some (bit v (15 - k),
      selected (if k + 1 = DATA_BITS then TransferIgnore else TransferRead v (k + 1)) (bit v (15 - k)) e)"
proof -
  have "(v AND push_bit (DATA_BITS - 1 - k) 1 \<noteq> 0) = bit v (15 - k)"
    using assms by (simp add: bit_iff_and_push_bit_not_eq_0 DATA_BITS_def)
  then show ?thesis
    unfolding clock_in_selected using assms
    by (simp add: clock_rising_edge_def Let_def eeprom_data_out_def)
qed

lemma clock_in_read_all:
  assumes "k + n \<le> DATA_BITS" "k < DATA_BITS"
  shows "\<exists>q'. clock_in_all (replicate n False) (selected (TransferRead v k) q e) =
    Some (map (\<lambda>i. bit v (15 - k - i)) [0..<n],
      selected (if k + n = DATA_BITS then TransferIgnore else TransferRead v (k + n)) q' e)"
  using assms
proof (induction n arbitrary: k q)
  case (Suc n)
  have split: "map (\<lambda>i. bit v (15 - k - i)) [0..<Suc n] = bit v (15 - k) # map (\<lambda>i. bit v (15 - Suc k - i)) [0..<n]"
    by (simp add: upt_conv_Cons map_Suc_upt [symmetric] comp_def del: upt_Suc map_Suc_upt)
  show ?case
  proof (cases "Suc k < DATA_BITS")
    case True
    then obtain q' where "clock_in_all (replicate n False) (selected (TransferRead v (Suc k)) (bit v (15 - k)) e) =
        Some (map (\<lambda>i. bit v (15 - Suc k - i)) [0..<n],
          selected (if Suc k + n = DATA_BITS then TransferIgnore else TransferRead v (Suc k + n)) q' e)"
      using Suc.IH [of "Suc k"] Suc.prems by auto
    then show ?thesis
      using True Suc.prems unfolding split by (auto simp: clock_in_read simp del: upt_Suc)
  next
    case False
    then have "n = 0" "k + 1 = DATA_BITS" using Suc.prems by auto
    then show ?thesis by (intro exI [of _ "bit v (15 - k)"]) (simp add: clock_in_read)
  qed
qed auto

lemma clock_in_all_append:
  "clock_in_all (xs @ ys) e = do {
     (qs, e) \<leftarrow> clock_in_all xs e;
     (qs', e) \<leftarrow> clock_in_all ys e;
     Some (qs @ qs', e)
   }"
proof (induction xs arbitrary: e)
  case Nil
  then show ?case by (cases "clock_in_all ys e") auto
next
  case (Cons x xs)
  then show ?case by (cases "clock_in x e") (simp_all add: split_beta bind_assoc)
qed


lemma frame_command:
  assumes "length bits = COMMAND_BITS" "hd bits"
  shows "eeprom_frame (bits @ rest) e = do {
     e \<leftarrow> decode_command (shift_in 0 bits) (selected (TransferCommand (shift_in 0 (butlast bits)) 10) True e);
     (qs, e) \<leftarrow> clock_in_all rest e;
     Some (replicate 11 True @ qs, e)
   }"
proof -
  define e0 where "e0 = e\<lparr>ee_transfer := TransferCommand 0 0, ee_chip_select := False, ee_clock := False, ee_data_out := False\<rparr>"
  obtain ds d where bits: "bits = True # ds @ [d]" "length ds = 9"
    using assms by (cases bits; cases "tl bits" rule: rev_cases) (auto simp: COMMAND_BITS_def)
  have deselect: "drive_pins False False False False e = Some e0"
    by (simp add: drive_pins_def e0_def)
  have first: "clock_in True e0 = Some (True, selected (TransferCommand 1 1) True e)"
    by (cases e) (simp add: e0_def clock_in_def drive_pins_def Let_def clock_rising_edge_def eeprom_data_out_def COMMAND_BITS_def)
  have middle: "clock_in_all ds (selected (TransferCommand 1 1) True e) =
      Some (replicate 9 True, selected (TransferCommand (shift_in 1 ds) 10) True e)"
    using clock_in_command_all [of 1 ds 1 e] bits by (simp add: COMMAND_BITS_def)
  have out: "decode_command c (selected t q e) = Some e' \<Longrightarrow> eeprom_data_out e'" for c t q e'
    by (auto simp: decode_command_def eeprom_data_out_def Let_def bind_eq_Some_conv split: if_splits)
  have last: "clock_in d (selected (TransferCommand (shift_in 1 ds) 10) True e) = do {
      e \<leftarrow> decode_command (shift_in 0 bits) (selected (TransferCommand (shift_in 1 ds) 10) True e);
      Some (True, e)}"
    unfolding clock_in_selected bits using out
    by (cases "decode_command (shift_in 0 bits) (selected (TransferCommand (shift_in 1 ds) 10) True e)")
      (auto simp: clock_rising_edge_def Let_def COMMAND_BITS_def bits shift_in_def)
  have [simp]: "replicate 11 True = True # replicate 9 True @ [True]"
    by (simp add: numeral_eq_Suc)
  show ?thesis
    using last
    by (simp add: eeprom_frame_def deselect first middle clock_in_all_append bits bind_assoc case_prod_unfold
        del: One_nat_def)
qed

lemma clock_in_all_ok: "eeprom_ok e \<Longrightarrow> ok (clock_in_all ds e) (\<lambda>(qs, e'). eeprom_ok e')"
proof (induction ds arbitrary: e)
  case (Cons d ds)
  have "ok (clock_in d e) (\<lambda>(q, e'). eeprom_ok e')"
    unfolding clock_in_def using Cons.prems by (auto intro!: ok_mono [OF drive_pins_ok])
  then show ?case
    by (auto simp: split_beta elim!: ok_mono intro!: ok_mono [OF Cons.IH])
qed simp

lemma eeprom_frame_ok: "eeprom_ok e \<Longrightarrow> ok (eeprom_frame ds e) (\<lambda>(qs, e'). eeprom_ok e')"
  unfolding eeprom_frame_def
  by (auto simp: split_beta intro!: ok_mono [OF drive_pins_ok] ok_mono [OF clock_in_all_ok])

lemma address_command:
  assumes "a < 64"
  shows "take_bit 11 (0x0600 OR word_of_nat a :: u16) AND ADDRESS_MASK = word_of_nat a"
    "take_bit 11 (0x0500 OR word_of_nat a :: u16) AND ADDRESS_MASK = word_of_nat a"
    "take_bit 11 (0x0600 OR word_of_nat a :: u16) AND OPERATION_MASK = READ_COMMAND"
    "take_bit 11 (0x0500 OR word_of_nat a :: u16) AND OPERATION_MASK = WRITE_COMMAND"
    "hd (msb_first 11 (0x0600 OR word_of_nat a :: u16))" "hd (msb_first 11 (0x0500 OR word_of_nat a :: u16))"
proof -
  have "\<forall>a<64. take_bit 11 (0x0600 OR word_of_nat a :: u16) AND ADDRESS_MASK = word_of_nat a \<and>
    take_bit 11 (0x0500 OR word_of_nat a :: u16) AND ADDRESS_MASK = word_of_nat a \<and>
    take_bit 11 (0x0600 OR word_of_nat a :: u16) AND OPERATION_MASK = READ_COMMAND \<and>
    take_bit 11 (0x0500 OR word_of_nat a :: u16) AND OPERATION_MASK = WRITE_COMMAND \<and>
    bit (0x0600 OR word_of_nat a :: u16) 10 \<and> bit (0x0500 OR word_of_nat a :: u16) 10"
    by code_simp
  with assms show "take_bit 11 (0x0600 OR word_of_nat a :: u16) AND ADDRESS_MASK = word_of_nat a"
    "take_bit 11 (0x0500 OR word_of_nat a :: u16) AND ADDRESS_MASK = word_of_nat a"
    "take_bit 11 (0x0600 OR word_of_nat a :: u16) AND OPERATION_MASK = READ_COMMAND"
    "take_bit 11 (0x0500 OR word_of_nat a :: u16) AND OPERATION_MASK = WRITE_COMMAND"
    "hd (msb_first 11 (0x0600 OR word_of_nat a :: u16))" "hd (msb_first 11 (0x0500 OR word_of_nat a :: u16))"
    by (simp_all add: msb_first_def hd_map)
qed


lemma decode_read:
  assumes "c AND OPERATION_MASK = READ_COMMAND" "c AND ADDRESS_MASK = word_of_nat a" "a < length (ee_words e)" "a < 64"
  shows "decode_command c e = Some (e\<lparr>ee_transfer := TransferRead (ee_words e ! a) 0, ee_data_out := True\<rparr>)"
  using assms by (simp add: decode_command_def unat_of_nat)

lemma decode_write:
  assumes "c AND OPERATION_MASK = WRITE_COMMAND" "c AND ADDRESS_MASK = word_of_nat a" "a < 64"
  shows "decode_command c e = Some (e\<lparr>ee_transfer := TransferWrite a 0 0, ee_data_out := True\<rparr>)"
  using assms by (simp add: decode_command_def unat_of_nat READ_COMMAND_def WRITE_COMMAND_def)

text \<open>One frame has the effect and the answer of its request.\<close>

lemma frame_read:
  assumes "eeprom_ok e" "a < 64"
  shows "\<exists>e'. eeprom_frame (request_bits (ReadWord a)) e = Some (request_answer (ReadWord a) (ee_words e), e') \<and>
    ee_words e' = ee_words e \<and> ee_write_enabled e' = ee_write_enabled e"
proof -
  define s where "s = selected (TransferCommand (shift_in 0 (butlast (msb_first 11 (0x0600 OR word_of_nat a :: u16)))) 10) True e"
  have "decode_command (shift_in 0 (msb_first 11 (0x0600 OR word_of_nat a :: u16))) s =
      Some (selected (TransferRead (ee_words e ! a) 0) True e)"
    using assms address_command [OF assms(2)]
    by (subst decode_read [of _ a]) (simp_all add: shift_in_msb_first s_def eeprom_ok_def WORD_COUNT_def del: take_bit_or)
  moreover obtain q' where "clock_in_all (replicate 16 False) (selected (TransferRead (ee_words e ! a) 0) True e) =
      Some (map (\<lambda>i. bit (ee_words e ! a) (15 - i)) [0..<16], selected TransferIgnore q' e)"
    using clock_in_read_all [where k = 0 and n = 16 and v = "ee_words e ! a" and q = True and e = e] by (auto simp: DATA_BITS_def)
  ultimately show ?thesis
    using address_command [OF assms(2)]
    by (simp add: frame_command COMMAND_BITS_def s_def msb_first_def)
qed

lemma frame_write:
  assumes "eeprom_ok e" "a < 64"
  shows "\<exists>e'. eeprom_frame (request_bits (WriteWord a v)) e = Some (request_answer (WriteWord a v) (ee_words e), e') \<and>
    ee_words e' = (if ee_write_enabled e then (ee_words e)[a := v] else ee_words e) \<and>
    ee_write_enabled e' = ee_write_enabled e"
proof -
  define s where "s = selected (TransferCommand (shift_in 0 (butlast (msb_first 11 (0x0500 OR word_of_nat a :: u16)))) 10) True e"
  have decode: "decode_command (shift_in 0 (msb_first 11 (0x0500 OR word_of_nat a :: u16))) s =
      Some (selected (TransferWrite a 0 0) True e)"
    using assms address_command [OF assms(2)]
    by (subst decode_write [of _ a]) (simp_all add: shift_in_msb_first s_def del: take_bit_or)
  obtain ds d where v: "msb_first 16 v = ds @ [d]" "length ds = 15"
    using length_msb_first [of 16 v] by (cases "msb_first 16 v" rule: rev_cases) auto
  have shift: "push_bit 1 (shift_in 0 ds) OR of_bool d = v"
    using shift_in_msb_first [of 16 v] by (simp add: v shift_in_snoc take_bit_word_eq_self del: push_bit_Suc One_nat_def)
  have "clock_in_all ds (selected (TransferWrite a 0 0) True e) =
      Some (replicate 15 True, selected (TransferWrite a (shift_in 0 ds) 15) True e)"
    using clock_in_write_all [of 0 ds a 0 e] v by (simp add: DATA_BITS_def)
  moreover have "\<exists>e'. clock_in d (selected (TransferWrite a (shift_in 0 ds) 15) True e) = Some (True, e') \<and>
      ee_words e' = (if ee_write_enabled e then (ee_words e)[a := v] else ee_words e) \<and>
      ee_write_enabled e' = ee_write_enabled e"
    unfolding clock_in_selected using assms shift
    by (auto simp: clock_rising_edge_def Let_def DATA_BITS_def eeprom_data_out_def eeprom_ok_def WORD_COUNT_def
        simp del: push_bit_Suc One_nat_def)
  moreover have "replicate 27 True = replicate 11 True @ replicate 15 True @ [True]"
    by (simp add: numeral_eq_Suc)
  ultimately show ?thesis
    using address_command [OF assms(2)] decode
    by (auto simp: frame_command COMMAND_BITS_def s_def v clock_in_all_append)
qed

lemma frame_protection:
  "\<exists>e'. eeprom_frame (request_bits EnableWrites) e = Some (request_answer EnableWrites (ee_words e), e') \<and>
    ee_words e' = ee_words e \<and> ee_write_enabled e'"
  "\<exists>e'. eeprom_frame (request_bits DisableWrites) e = Some (request_answer DisableWrites (ee_words e), e') \<and>
    ee_words e' = ee_words e \<and> \<not> ee_write_enabled e'"
proof -
  have "decode_command (shift_in 0 (msb_first 11 (0x04c0 :: u16))) e =
      Some (e\<lparr>ee_write_enabled := True, ee_transfer := TransferIgnore, ee_data_out := True\<rparr>)"
    "decode_command (shift_in 0 (msb_first 11 (0x0400 :: u16))) e =
      Some (e\<lparr>ee_write_enabled := False, ee_transfer := TransferIgnore, ee_data_out := True\<rparr>)" for e
    by (simp_all add: shift_in_msb_first decode_command_def eeprom_commands take_bit_eq_mask word_eval)
  moreover have "hd (msb_first 11 (0x04c0 :: u16))" "hd (msb_first 11 (0x0400 :: u16))"
    by (simp_all add: msb_first_def hd_map)
  ultimately show
    "\<exists>e'. eeprom_frame (request_bits EnableWrites) e = Some (request_answer EnableWrites (ee_words e), e') \<and>
      ee_words e' = ee_words e \<and> ee_write_enabled e'"
    "\<exists>e'. eeprom_frame (request_bits DisableWrites) e = Some (request_answer DisableWrites (ee_words e), e') \<and>
      ee_words e' = ee_words e \<and> \<not> ee_write_enabled e'"
    using frame_command [of "msb_first 11 (0x04c0 :: u16)" "[]" e] frame_command [of "msb_first 11 (0x0400 :: u16)" "[]" e]
    by (simp_all add: COMMAND_BITS_def)
qed

text \<open>A session of frames, and the session of the memory it stands for.\<close>

primrec eeprom_frames :: "eeprom_request list \<Rightarrow> eeprom \<Rightarrow> (bool list list \<times> eeprom) option" where
  "eeprom_frames [] e = Some ([], e)"
| "eeprom_frames (r # rs) e = do {
     (q, e) \<leftarrow> eeprom_frame (request_bits r) e;
     (qs, e) \<leftarrow> eeprom_frames rs e;
     Some (q # qs, e)
   }"

primrec memory_session :: "eeprom_request list \<Rightarrow> u16 list \<times> bool \<Rightarrow> bool list list \<times> u16 list \<times> bool" where
  "memory_session [] m = ([], m)"
| "memory_session (r # rs) m =
     (let (qs, m') = memory_session rs (request_effect r m) in (request_answer r (fst m) # qs, m'))"

lemma frame_request:
  assumes "eeprom_ok e" "request_valid r"
  obtains e' where "eeprom_frame (request_bits r) e = Some (request_answer r (ee_words e), e')"
    "(ee_words e', ee_write_enabled e') = request_effect r (ee_words e, ee_write_enabled e)" "eeprom_ok e'"
proof -
  have "\<exists>e'. eeprom_frame (request_bits r) e = Some (request_answer r (ee_words e), e') \<and>
    (ee_words e', ee_write_enabled e') = request_effect r (ee_words e, ee_write_enabled e)"
    using assms frame_read [OF assms(1)] frame_write [OF assms(1)] frame_protection [of e]
    by (cases r) (simp_all del: request_bits.simps request_answer.simps)
  then show ?thesis using that eeprom_frame_ok [OF assms(1), of "request_bits r"] by auto
qed

text \<open>
  C39. The EEPROM is a write-protected memory. Whatever state the serial interface was left in, a
  session of well-formed frames (a start bit, an opcode and six address bits, and the sixteen data
  bits of a read or a write) never panics, answers exactly as a 64-word memory answers the requests
  the frames encode, the read words most significant bit first, and leaves that memory and its
  write protection; writes sent while writes are disabled change nothing.
\<close>

theorem eeprom_refines_memory:
  assumes "eeprom_ok e" "\<forall>r\<in>set rs. request_valid r"
  shows "\<exists>e'. eeprom_frames rs e = Some (fst (memory_session rs (eeprom_contents e, ee_write_enabled e)), e') \<and>
    snd (memory_session rs (eeprom_contents e, ee_write_enabled e)) = (eeprom_contents e', ee_write_enabled e') \<and>
    eeprom_ok e'"
  using assms
proof (induction rs arbitrary: e)
  case Nil
  then show ?case by simp
next
  case (Cons r rs)
  have r: "request_valid r" using Cons.prems by simp
  obtain e1 where "eeprom_frame (request_bits r) e = Some (request_answer r (ee_words e), e1)"
    "(ee_words e1, ee_write_enabled e1) = request_effect r (ee_words e, ee_write_enabled e)" "eeprom_ok e1"
    by (rule frame_request [OF Cons.prems(1) r])
  then show ?case
    using Cons.IH [of e1] Cons.prems(2) by (auto simp: eeprom_contents_def split_beta)
qed

text \<open>A word is written after writes are enabled, and read back.\<close>

theorem eeprom_refines_memory_witness:
  "\<exists>e'. eeprom_frames [WriteWord 5 1, EnableWrites, WriteWord 5 0xcafe, ReadWord 5] eeprom_new =
     Some ([replicate 27 True, replicate 11 True, replicate 27 True, replicate 11 True @ msb_first 16 (0xcafe :: u16)], e')"
  using eeprom_refines_memory [OF eeprom_new_ok, of "[WriteWord 5 1, EnableWrites, WriteWord 5 0xcafe, ReadWord 5]"]
  by (auto simp: eeprom_contents_def eeprom_new_def WORD_COUNT_def simp del: eeprom_frames.simps)

end
