(* ===== verification/Ethernet.thy ===== *)
theory Ethernet
  imports Timed
begin

text \<open>
  The SEEQ 8003 Ethernet controller, \<^verbatim>\<open>se_device/src/seeq8003.rs\<close>: the banked
  address registers, the receive and transmit commands and statuses, and the virtual link, on
  which a frame and the gap that follows it take wire time. The second half shows that the link
  keeps virtual time and when a frame reaches the host.
\<close>

section \<open>State\<close>

definition REGISTER_BYTES :: u64 where "REGISTER_BYTES = 4"
definition SEEQ_REGISTER_COUNT :: u64 where "SEEQ_REGISTER_COUNT = 8"
definition RECEIVE_COMMAND_SLOT :: nat where "RECEIVE_COMMAND_SLOT = 6"
definition TRANSMIT_COMMAND_SLOT :: nat where "TRANSMIT_COMMAND_SLOT = 7"
definition BANK_SELECT_MASK :: u8 where "BANK_SELECT_MASK = 0x60"
definition OLD_DEVICE_STATUS :: u8 where "OLD_DEVICE_STATUS = 0x80"
definition MAX_FRAME_BYTES :: nat where "MAX_FRAME_BYTES = 16384"
definition BYTE_TIME :: u128 where "BYTE_TIME = ATTOSECONDS_PER_SECOND * 8 div 10000000"
definition INTERFRAME_GAP :: u128 where "INTERFRAME_GAP = BYTE_TIME * 12"

record received_frame =
  rf_bytes :: "u8 list"
  rf_status :: u8
  rf_interrupt :: bool

record wire_frame =
  wf_bytes :: "u8 list"
  wf_remaining :: u128
  wf_errors :: u8

record seeq8003 =
  sq_station_address :: "u8 list"
  sq_multicast_low :: "u8 list"
  sq_multicast_high :: "u8 list"
  sq_inter_packet_gap :: u8
  sq_control :: u8
  sq_receive_command :: u8
  sq_transmit_command :: u8
  sq_receive_status :: u8
  sq_transmit_status :: u8
  sq_receive_interrupt :: bool
  sq_transmit_interrupt :: bool
  sq_receiving :: "wire_frame option"
  sq_transmitting :: "wire_frame option"
  sq_received :: "received_frame option"
  sq_transmitted :: "u8 list option"
  sq_receive_gap :: u128
  sq_transmit_gap :: u128

definition seeq_new :: seeq8003 where
  "seeq_new =
     \<lparr>sq_station_address = replicate 6 0, sq_multicast_low = replicate 6 0,
      sq_multicast_high = replicate 2 0, sq_inter_packet_gap = 0, sq_control = 0,
      sq_receive_command = 0, sq_transmit_command = 0,
      sq_receive_status = OLD_DEVICE_STATUS, sq_transmit_status = OLD_DEVICE_STATUS,
      sq_receive_interrupt = False, sq_transmit_interrupt = False,
      sq_receiving = None, sq_transmitting = None, sq_received = None, sq_transmitted = None,
      sq_receive_gap = 0, sq_transmit_gap = 0\<rparr>"

definition seeq_reset :: "seeq8003 \<Rightarrow> seeq8003" where
  "seeq_reset s = seeq_new"

section \<open>Registers\<close>

definition seeq_register_transaction :: "device_addr \<Rightarrow> nat \<Rightarrow> bus_error + (nat \<times> nat)" where
  "seeq_register_transaction address len =
     (if \<not> (1 \<le> len \<and> len \<le> 4) then Inl InvalidTransaction
      else if 2 ^ 64 \<le> unat address + len then Inl InvalidTransaction
      else
        let finish = address + word_of_nat len; register_end = SEEQ_REGISTER_COUNT * REGISTER_BYTES
        in if register_end \<le> address \<or> register_end < finish then Inl HardwareFault
           else if address div REGISTER_BYTES \<noteq> (finish - 1) div REGISTER_BYTES
           then Inl UnimplementedAccess
           else Inr (unat (address div REGISTER_BYTES), unat (address mod REGISTER_BYTES)))"

definition acknowledge_receive :: "seeq8003 \<Rightarrow> u8 \<times> seeq8003" where
  "acknowledge_receive s =
     (sq_receive_status s,
      s\<lparr>sq_receive_status := sq_receive_status s OR OLD_DEVICE_STATUS, sq_receive_interrupt := False\<rparr>)"

definition acknowledge_transmit :: "seeq8003 \<Rightarrow> u8 \<times> seeq8003" where
  "acknowledge_transmit s =
     (sq_transmit_status s,
      s\<lparr>sq_transmit_status := sq_transmit_status s OR OLD_DEVICE_STATUS, sq_transmit_interrupt := False\<rparr>)"

definition seeq_debug_read :: "device_addr \<Rightarrow> nat \<Rightarrow> seeq8003 \<Rightarrow> bus_error + u8 list" where
  "seeq_debug_read address len s =
     (case seeq_register_transaction address len of
        Inl e \<Rightarrow> Inl e
      | Inr (slot, offset) \<Rightarrow>
          let value = (if slot = 0 then OLD_DEVICE_STATUS
                       else if slot = RECEIVE_COMMAND_SLOT then sq_receive_status s
                       else if slot = TRANSMIT_COMMAND_SLOT then sq_transmit_status s
                       else 0)
          in Inr (take len (drop offset (to_be_bytes32 (ucast value)))))"

definition seeq_read :: "device_addr \<Rightarrow> nat \<Rightarrow> seeq8003 \<Rightarrow> (bus_error + u8 list) \<times> seeq8003" where
  "seeq_read address len s =
     (case (seeq_debug_read address len s, seeq_register_transaction address len) of
        (Inr bytes, Inr (slot, offset)) \<Rightarrow>
          (Inr bytes,
           if offset + len = 4 then
             if slot = RECEIVE_COMMAND_SLOT then snd (acknowledge_receive s)
             else if slot = TRANSMIT_COMMAND_SLOT then snd (acknowledge_transmit s)
             else s
           else s)
      | (Inl e, _) \<Rightarrow> (Inl e, s)
      | (_, Inl e) \<Rightarrow> (Inl e, s))"

definition write_banked_register :: "nat \<Rightarrow> u8 \<Rightarrow> seeq8003 \<Rightarrow> seeq8003 option" where
  "write_banked_register slot value s = (
     let bank = sq_transmit_command s AND BANK_SELECT_MASK
     in if bank = 0x00 then
          map_option (\<lambda>xs. s\<lparr>sq_station_address := xs\<rparr>) (set_at (sq_station_address s) slot value)
        else if bank = 0x20 then
          map_option (\<lambda>xs. s\<lparr>sq_multicast_low := xs\<rparr>) (set_at (sq_multicast_low s) slot value)
        else if bank = 0x40 then
          if slot \<le> 1 then
            map_option (\<lambda>xs. s\<lparr>sq_multicast_high := xs\<rparr>) (set_at (sq_multicast_high s) slot value)
          else if slot = 2 then Some (s\<lparr>sq_inter_packet_gap := value\<rparr>)
          else if slot = 3 then Some (s\<lparr>sq_control := value\<rparr>)
          else if slot = 4 \<or> slot = 5 then Some s
          else None
        else Some s)"

definition seeq_write :: "device_addr \<Rightarrow> u8 list \<Rightarrow> seeq8003 \<Rightarrow> ((bus_error + unit) \<times> seeq8003) option" where
  "seeq_write address data s =
     (case seeq_register_transaction address (length data) of
        Inl e \<Rightarrow> Some (Inl e, s)
      | Inr (slot, offset) \<Rightarrow>
          if 3 < offset \<or> offset + length data \<le> 3 then Some (Inr (), s)
          else do {
            value \<leftarrow> get_at data (3 - offset);
            s1 \<leftarrow> (if slot \<le> 5 then write_banked_register slot value s
                  else if slot = RECEIVE_COMMAND_SLOT then Some (s\<lparr>sq_receive_command := value\<rparr>)
                  else if slot = TRANSMIT_COMMAND_SLOT then Some (s\<lparr>sq_transmit_command := value\<rparr>)
                  else None);
            Some (Inr (), s1)
          })"

section \<open>The link\<close>

definition wire_time :: "nat \<Rightarrow> u128" where
  "wire_time len = (word_of_nat len + 8 + 4) * BYTE_TIME"

definition saturating_sub :: "u128 \<Rightarrow> u128 \<Rightarrow> u128" where
  "saturating_sub a b = (if b \<le> a then a - b else 0)"

definition receive_ready :: "seeq8003 \<Rightarrow> bool" where
  "receive_ready s \<longleftrightarrow> sq_receiving s = None \<and> sq_receive_gap s = 0"

definition seeq_receive :: "u8 list \<Rightarrow> u8 \<Rightarrow> seeq8003 \<Rightarrow> bool \<times> seeq8003" where
  "seeq_receive bytes errors s =
     (if \<not> receive_ready s \<or> MAX_FRAME_BYTES < length bytes then (False, s)
      else (True, s\<lparr>sq_receiving := Some \<lparr>wf_bytes = bytes, wf_remaining = wire_time (length bytes),
                                         wf_errors = errors AND 7\<rparr>\<rparr>))"

definition transmit_ready :: "seeq8003 \<Rightarrow> bool" where
  "transmit_ready s \<longleftrightarrow> sq_transmitting s = None \<and> sq_transmitted s = None \<and> sq_transmit_gap s = 0"

definition seeq_transmit :: "u8 list \<Rightarrow> seeq8003 \<Rightarrow> bool \<times> seeq8003" where
  "seeq_transmit bytes s =
     (if \<not> transmit_ready s \<or> MAX_FRAME_BYTES < length bytes then (False, s)
      else (True, s\<lparr>sq_transmitting := Some \<lparr>wf_bytes = bytes, wf_remaining = wire_time (length bytes),
                                            wf_errors = 0\<rparr>\<rparr>))"

definition matches_address :: "u8 list \<Rightarrow> seeq8003 \<Rightarrow> bool" where
  "matches_address bytes s = (
     let destination = take 6 bytes; mode = drop_bit 6 (sq_receive_command s)
     in 6 \<le> length bytes \<and>
        (if mode = 0 then False else if mode = 1 then True
         else if mode = 2 then destination = sq_station_address s \<or> destination = replicate 6 0xff
         else destination = sq_station_address s \<or> destination ! 0 AND 1 \<noteq> 0))"

definition finish_receive :: "wire_frame \<Rightarrow> seeq8003 \<Rightarrow> seeq8003" where
  "finish_receive f s =
     (if \<not> matches_address (wf_bytes f) s \<or> sq_receive_status s AND OLD_DEVICE_STATUS = 0 then s
      else
        let errors = wf_errors f OR (if length (wf_bytes f) < 60 then 8 else 0);
            status = 0x10 OR errors OR (if errors AND 0x0b = 0 then 0x20 else 0);
            interrupt_conditions = (if errors AND 1 \<noteq> 0 then status AND NOT 0x10 else status);
            interrupt = (interrupt_conditions AND sq_receive_command s AND 0x3f \<noteq> 0);
            s1 = s\<lparr>sq_receive_status := status OR (if interrupt then 0 else OLD_DEVICE_STATUS),
                   sq_receive_interrupt := interrupt\<rparr>
        in if errors AND 0x0b AND NOT (sq_receive_command s1) \<noteq> 0 \<or> sq_received s1 \<noteq> None then s1
           else s1\<lparr>sq_received := Some \<lparr>rf_bytes = wf_bytes f, rf_status = status, rf_interrupt = interrupt\<rparr>\<rparr>)"

definition advance_wire :: "wire_frame option \<Rightarrow> u128 \<Rightarrow> wire_frame option \<times> wire_frame option" where
  "advance_wire wire elapsed =
     (case wire of
        None \<Rightarrow> (None, None)
      | Some f \<Rightarrow>
          if elapsed < wf_remaining f then (None, Some (f\<lparr>wf_remaining := wf_remaining f - elapsed\<rparr>))
          else (Some f, None))"

definition seeq_advance_time :: "virtual_duration \<Rightarrow> seeq8003 \<Rightarrow> seeq8003" where
  "seeq_advance_time elapsed s = (
     let s = s\<lparr>sq_receive_gap := saturating_sub (sq_receive_gap s) elapsed,
              sq_transmit_gap := saturating_sub (sq_transmit_gap s) elapsed\<rparr>;
         (frame, wire) = advance_wire (sq_receiving s) elapsed;
         s = s\<lparr>sq_receiving := wire\<rparr>;
         s = (case frame of
                Some f \<Rightarrow> finish_receive f (s\<lparr>sq_receive_gap :=
                            saturating_sub INTERFRAME_GAP (saturating_sub elapsed (wf_remaining f))\<rparr>)
              | None \<Rightarrow> s);
         (frame, wire) = advance_wire (sq_transmitting s) elapsed;
         s = s\<lparr>sq_transmitting := wire\<rparr>
     in case frame of
          Some f \<Rightarrow> s\<lparr>sq_transmit_gap :=
                       saturating_sub INTERFRAME_GAP (saturating_sub elapsed (wf_remaining f)),
                     sq_transmit_status := 0x08,
                     sq_transmit_interrupt := (sq_transmit_command s AND 0x08 \<noteq> 0),
                     sq_transmitted := Some (wf_bytes f)\<rparr>
        | None \<Rightarrow> s)"

definition seeq_time_until_event :: "seeq8003 \<Rightarrow> virtual_duration option" where
  "seeq_time_until_event s = (
     let times = List.map_filter id
           [map_option wf_remaining (sq_receiving s), map_option wf_remaining (sq_transmitting s),
            if sq_receive_gap s \<noteq> 0 then Some (sq_receive_gap s) else None,
            if sq_transmit_gap s \<noteq> 0 then Some (sq_transmit_gap s) else None]
     in case times of [] \<Rightarrow> None | t # ts \<Rightarrow> Some (fold min ts t))"

definition take_received_frame :: "seeq8003 \<Rightarrow> received_frame option \<times> seeq8003" where
  "take_received_frame s = (sq_received s, s\<lparr>sq_received := None\<rparr>)"

definition take_transmitted_frame :: "seeq8003 \<Rightarrow> u8 list option \<times> seeq8003" where
  "take_transmitted_frame s = (sq_transmitted s, s\<lparr>sq_transmitted := None\<rparr>)"

definition receive_interrupt_asserted :: "seeq8003 \<Rightarrow> bool" where
  "receive_interrupt_asserted s = sq_receive_interrupt s"

definition transmit_interrupt_asserted :: "seeq8003 \<Rightarrow> bool" where
  "transmit_interrupt_asserted s = sq_transmit_interrupt s"

definition transmit_underflow :: "seeq8003 \<Rightarrow> seeq8003" where
  "transmit_underflow s =
     s\<lparr>sq_transmitting := None, sq_transmit_status := 1,
       sq_transmit_interrupt := (sq_transmit_command s AND 1 \<noteq> 0)\<rparr>"

section \<open>The link keeps time\<close>

lemma unat_saturating_sub [simp]: "unat (saturating_sub a b) = unat a - unat b"
  by (simp add: saturating_sub_def word_le_nat_alt unat_sub_if_size)

lemma saturating_sub_add:
  assumes "unat d + unat e < 2 ^ 128"
  shows "saturating_sub a (d + e) = saturating_sub (saturating_sub a d) e"
proof -
  have "unat (d + e) = unat d + unat e" using assms by (simp add: unat_word_ariths)
  then show ?thesis by (intro word_unat_eq_iff [THEN iffD2]) simp
qed

text \<open>
  A gap that opens when a frame ends inside the second of two pieces of time, or inside the first,
  is the gap that opens when the time passes at once.
\<close>

lemma gap_after_late_end:
  assumes "d < rem" "unat d + unat e < 2 ^ 128"
  shows "saturating_sub (d + e) rem = saturating_sub e (rem - d)"
proof -
  have "unat (d + e) = unat d + unat e" using assms by (simp add: unat_word_ariths)
  then show ?thesis
    using assms by (intro word_unat_eq_iff [THEN iffD2]) (simp add: unat_sub_if' word_le_nat_alt word_less_nat_alt)
qed

lemma gap_after_early_end:
  assumes "rem \<le> d" "unat d + unat e < 2 ^ 128"
  shows "saturating_sub g (saturating_sub (d + e) rem)
    = saturating_sub (saturating_sub g (saturating_sub d rem)) e"
proof -
  have "unat (d + e) = unat d + unat e" using assms by (simp add: unat_word_ariths)
  then show ?thesis
    using assms by (intro word_unat_eq_iff [THEN iffD2]) (simp add: word_le_nat_alt)
qed

text \<open>The two directions of the link advance independently.\<close>

definition advance_reception :: "virtual_duration \<Rightarrow> seeq8003 \<Rightarrow> seeq8003" where
  "advance_reception d s =
     (case sq_receiving s of
        Some f \<Rightarrow>
          if d < wf_remaining f
          then s\<lparr>sq_receive_gap := saturating_sub (sq_receive_gap s) d,
                 sq_receiving := Some (f\<lparr>wf_remaining := wf_remaining f - d\<rparr>)\<rparr>
          else finish_receive f (s\<lparr>sq_receiving := None,
                 sq_receive_gap := saturating_sub INTERFRAME_GAP (saturating_sub d (wf_remaining f))\<rparr>)
      | None \<Rightarrow> s\<lparr>sq_receive_gap := saturating_sub (sq_receive_gap s) d\<rparr>)"

definition advance_transmission :: "virtual_duration \<Rightarrow> seeq8003 \<Rightarrow> seeq8003" where
  "advance_transmission d s =
     (case sq_transmitting s of
        Some f \<Rightarrow>
          if d < wf_remaining f
          then s\<lparr>sq_transmit_gap := saturating_sub (sq_transmit_gap s) d,
                 sq_transmitting := Some (f\<lparr>wf_remaining := wf_remaining f - d\<rparr>)\<rparr>
          else s\<lparr>sq_transmitting := None,
                 sq_transmit_gap := saturating_sub INTERFRAME_GAP (saturating_sub d (wf_remaining f)),
                 sq_transmit_status := 0x08,
                 sq_transmit_interrupt := (sq_transmit_command s AND 0x08 \<noteq> 0),
                 sq_transmitted := Some (wf_bytes f)\<rparr>
      | None \<Rightarrow> s\<lparr>sq_transmit_gap := saturating_sub (sq_transmit_gap s) d\<rparr>)"

text \<open>The status and interrupt of a frame that ends, and whether it is kept from the host.\<close>

definition frame_errors :: "wire_frame \<Rightarrow> u8" where
  "frame_errors f = wf_errors f OR (if length (wf_bytes f) < 60 then 8 else 0)"

definition reception_status :: "u8 \<Rightarrow> u8" where
  "reception_status errors = 0x10 OR errors OR (if errors AND 0x0b = 0 then 0x20 else 0)"

definition reception_interrupt :: "u8 \<Rightarrow> u8 \<Rightarrow> bool" where
  "reception_interrupt errors command \<longleftrightarrow>
     (if errors AND 1 \<noteq> 0 then reception_status errors AND NOT 0x10 else reception_status errors)
     AND command AND 0x3f \<noteq> 0"

definition reception_dropped :: "u8 \<Rightarrow> u8 \<Rightarrow> bool" where
  "reception_dropped errors command \<longleftrightarrow> errors AND 0x0b AND NOT command \<noteq> 0"

lemma finish_receive_eq:
  "finish_receive f s =
     (if matches_address (wf_bytes f) s \<and> sq_receive_status s AND OLD_DEVICE_STATUS \<noteq> 0 then
        s\<lparr>sq_receive_status := reception_status (frame_errors f)
            OR (if reception_interrupt (frame_errors f) (sq_receive_command s) then 0 else OLD_DEVICE_STATUS),
          sq_receive_interrupt := reception_interrupt (frame_errors f) (sq_receive_command s),
          sq_received :=
            (if reception_dropped (frame_errors f) (sq_receive_command s) \<or> sq_received s \<noteq> None
             then sq_received s
             else Some \<lparr>rf_bytes = wf_bytes f, rf_status = reception_status (frame_errors f),
                        rf_interrupt = reception_interrupt (frame_errors f) (sq_receive_command s)\<rparr>)\<rparr>
      else s)"
proof (cases "matches_address (wf_bytes f) s \<and> sq_receive_status s AND OLD_DEVICE_STATUS \<noteq> 0")
  case True
  then show ?thesis
    unfolding finish_receive_def frame_errors_def [symmetric] Let_def reception_status_def [symmetric]
    unfolding reception_interrupt_def [symmetric]
    by (cases "reception_dropped (frame_errors f) (sq_receive_command s)")
      (simp_all add: reception_dropped_def)
next
  case False
  then have "\<not> matches_address (wf_bytes f) s \<or> sq_receive_status s AND OLD_DEVICE_STATUS = 0" by simp
  with False show ?thesis unfolding finish_receive_def by (simp only: if_True if_False)
qed

lemma finish_receive_frame [simp]:
  "sq_transmitting (finish_receive f s) = sq_transmitting s"
  "sq_transmit_gap (finish_receive f s) = sq_transmit_gap s"
  "sq_transmit_command (finish_receive f s) = sq_transmit_command s"
  "sq_receiving (finish_receive f s) = sq_receiving s"
  "sq_receive_gap (finish_receive f s) = sq_receive_gap s"
  by (simp_all add: finish_receive_eq)

lemma finish_receive_remaining:
  "finish_receive (f\<lparr>wf_remaining := t\<rparr>) s = finish_receive f s"
  by (simp add: finish_receive_eq frame_errors_def)

lemma matches_address_updates:
  "matches_address bytes (s\<lparr>sq_receiving := w\<rparr>) = matches_address bytes s"
  "matches_address bytes (s\<lparr>sq_receive_gap := g\<rparr>) = matches_address bytes s"
  "matches_address bytes (s\<lparr>sq_transmit_gap := g\<rparr>) = matches_address bytes s"
  "matches_address bytes (s\<lparr>sq_transmitting := w\<rparr>) = matches_address bytes s"
  "matches_address bytes (s\<lparr>sq_transmit_status := x\<rparr>) = matches_address bytes s"
  "matches_address bytes (s\<lparr>sq_transmit_interrupt := b\<rparr>) = matches_address bytes s"
  "matches_address bytes (s\<lparr>sq_transmitted := t\<rparr>) = matches_address bytes s"
  by (simp_all add: matches_address_def Let_def cong: if_cong split del: if_split)

definition reported_status :: "wire_frame \<Rightarrow> u8 \<Rightarrow> u8" where
  "reported_status f command = reception_status (frame_errors f)
     OR (if reception_interrupt (frame_errors f) command then 0 else OLD_DEVICE_STATUS)"

definition reported_frame :: "wire_frame \<Rightarrow> u8 \<Rightarrow> received_frame option \<Rightarrow> received_frame option" where
  "reported_frame f command waiting =
     (if reception_dropped (frame_errors f) command \<or> waiting \<noteq> None then waiting
      else Some \<lparr>rf_bytes = wf_bytes f, rf_status = reception_status (frame_errors f),
                 rf_interrupt = reception_interrupt (frame_errors f) command\<rparr>)"

definition reception_taken :: "wire_frame \<Rightarrow> seeq8003 \<Rightarrow> bool" where
  "reception_taken f s \<longleftrightarrow> matches_address (wf_bytes f) s \<and> sq_receive_status s AND OLD_DEVICE_STATUS \<noteq> 0"

lemma reception_taken_updates [simp]:
  "reception_taken f (s\<lparr>sq_receiving := w\<rparr>) = reception_taken f s"
  "reception_taken f (s\<lparr>sq_receive_gap := g\<rparr>) = reception_taken f s"
  "reception_taken f (s\<lparr>sq_transmit_gap := g\<rparr>) = reception_taken f s"
  "reception_taken f (s\<lparr>sq_transmitting := w\<rparr>) = reception_taken f s"
  "reception_taken f (s\<lparr>sq_transmit_status := x\<rparr>) = reception_taken f s"
  "reception_taken f (s\<lparr>sq_transmit_interrupt := b\<rparr>) = reception_taken f s"
  "reception_taken f (s\<lparr>sq_transmitted := t\<rparr>) = reception_taken f s"
  by (simp_all add: reception_taken_def matches_address_updates)

lemma finish_receive_report:
  "finish_receive f s =
     (if reception_taken f s
      then s\<lparr>sq_receive_status := reported_status f (sq_receive_command s),
             sq_receive_interrupt := reception_interrupt (frame_errors f) (sq_receive_command s),
             sq_received := reported_frame f (sq_receive_command s) (sq_received s)\<rparr>
      else s)"
  unfolding finish_receive_eq reported_status_def reported_frame_def reception_taken_def ..

lemma finish_receive_updates:
  "finish_receive f (s\<lparr>sq_receiving := w\<rparr>) = finish_receive f s\<lparr>sq_receiving := w\<rparr>"
  "finish_receive f (s\<lparr>sq_receive_gap := g\<rparr>) = finish_receive f s\<lparr>sq_receive_gap := g\<rparr>"
  "finish_receive f (s\<lparr>sq_transmit_gap := g\<rparr>) = finish_receive f s\<lparr>sq_transmit_gap := g\<rparr>"
  "finish_receive f (s\<lparr>sq_transmitting := w\<rparr>) = finish_receive f s\<lparr>sq_transmitting := w\<rparr>"
  "finish_receive f (s\<lparr>sq_transmit_status := x\<rparr>) = finish_receive f s\<lparr>sq_transmit_status := x\<rparr>"
  "finish_receive f (s\<lparr>sq_transmit_interrupt := b\<rparr>) = finish_receive f s\<lparr>sq_transmit_interrupt := b\<rparr>"
  "finish_receive f (s\<lparr>sq_transmitted := t\<rparr>) = finish_receive f s\<lparr>sq_transmitted := t\<rparr>"
  by (simp_all add: finish_receive_report)

lemma seeq_advance_time_split: "seeq_advance_time d s = advance_transmission d (advance_reception d s)"
  by (cases "sq_receiving s"; cases "sq_transmitting s";
      cases "d < wf_remaining (the (sq_receiving s))"; cases "d < wf_remaining (the (sq_transmitting s))")
    (simp_all add: seeq_advance_time_def advance_reception_def advance_transmission_def
      advance_wire_def Let_def finish_receive_updates)

lemma directions_commute:
  "advance_transmission d (advance_reception e s) = advance_reception e (advance_transmission d s)"
  by (cases "sq_receiving s"; cases "sq_transmitting s";
      cases "e < wf_remaining (the (sq_receiving s))"; cases "d < wf_remaining (the (sq_transmitting s))")
    (simp_all add: advance_reception_def advance_transmission_def finish_receive_updates)

lemma advance_reception_add:
  assumes "unat d + unat e < 2 ^ 128"
  shows "advance_reception (d + e) s = advance_reception e (advance_reception d s)"
proof (cases "sq_receiving s")
  case None
  then show ?thesis using assms by (simp add: advance_reception_def saturating_sub_add)
next
  case (Some f)
  have u: "unat (d + e) = unat d + unat e" using assms by (simp add: unat_word_ariths)
  consider "d + e < wf_remaining f" | "d < wf_remaining f" "\<not> d + e < wf_remaining f"
    | "\<not> d < wf_remaining f" by force
  then show ?thesis
  proof cases
    case 1
    then have "d < wf_remaining f" "e < wf_remaining f - d"
      using u by (simp_all add: word_less_nat_alt word_le_nat_alt unat_sub_if')
    with 1 Some assms show ?thesis
      by (simp add: advance_reception_def saturating_sub_add diff_diff_eq)
  next
    case 2
    then have "\<not> e < wf_remaining f - d"
      using u by (simp add: word_less_nat_alt word_le_nat_alt unat_sub_if')
    with 2 Some assms show ?thesis
      by (simp add: advance_reception_def gap_after_late_end finish_receive_updates finish_receive_remaining)
  next
    case 3
    then have "\<not> d + e < wf_remaining f" using u by (simp add: word_less_nat_alt)
    with 3 Some assms show ?thesis
      by (simp add: advance_reception_def gap_after_early_end finish_receive_updates)
  qed
qed

lemma advance_transmission_add:
  assumes "unat d + unat e < 2 ^ 128"
  shows "advance_transmission (d + e) s = advance_transmission e (advance_transmission d s)"
proof (cases "sq_transmitting s")
  case None
  then show ?thesis using assms by (simp add: advance_transmission_def saturating_sub_add)
next
  case (Some f)
  have u: "unat (d + e) = unat d + unat e" using assms by (simp add: unat_word_ariths)
  consider "d + e < wf_remaining f" | "d < wf_remaining f" "\<not> d + e < wf_remaining f"
    | "\<not> d < wf_remaining f" by force
  then show ?thesis
  proof cases
    case 1
    then have "d < wf_remaining f" "e < wf_remaining f - d"
      using u by (simp_all add: word_less_nat_alt word_le_nat_alt unat_sub_if')
    with 1 Some assms show ?thesis
      by (simp add: advance_transmission_def saturating_sub_add diff_diff_eq)
  next
    case 2
    then have "\<not> e < wf_remaining f - d"
      using u by (simp add: word_less_nat_alt word_le_nat_alt unat_sub_if')
    with 2 Some assms show ?thesis
      by (simp add: advance_transmission_def gap_after_late_end)
  next
    case 3
    then have "\<not> d + e < wf_remaining f" using u by (simp add: word_less_nat_alt)
    with 3 Some assms show ?thesis
      by (simp add: advance_transmission_def gap_after_early_end)
  qed
qed

lemma seeq_advance_additive:
  assumes "unat d + unat e < 2 ^ 128"
  shows "seeq_advance_time (d + e) s = seeq_advance_time e (seeq_advance_time d s)"
  by (simp add: seeq_advance_time_split advance_reception_add [OF assms]
      advance_transmission_add [OF assms] directions_commute)

interpretation seeq_timed: timed_device "\<lambda>d s. Some (seeq_advance_time d s)" "\<lambda>_. True"
  by unfold_locales (simp_all add: seeq_advance_additive)

section \<open>Reception\<close>

text \<open>
  Which frames the host is to see, as the data sheet states it: the two upper bits of the receive
  command select no frames, all frames, frames for the station or broadcast frames, or frames for
  the station or a group; a frame in error is kept only when the command asks for that error.
\<close>

definition frame_addressed :: "u8 list \<Rightarrow> seeq8003 \<Rightarrow> bool" where
  "frame_addressed bytes s \<longleftrightarrow> 6 \<le> length bytes \<and>
     (\<not> bit (sq_receive_command s) 7 \<and> bit (sq_receive_command s) 6
      \<or> bit (sq_receive_command s) 7 \<and>
        (take 6 bytes = sq_station_address s
         \<or> (if bit (sq_receive_command s) 6 then bit (bytes ! 0) 0 else take 6 bytes = replicate 6 0xff)))"

definition frame_kept :: "u8 list \<Rightarrow> u8 \<Rightarrow> seeq8003 \<Rightarrow> bool" where
  "frame_kept bytes errors s \<longleftrightarrow>
     (bit errors 0 \<longrightarrow> bit (sq_receive_command s) 0)
     \<and> (bit errors 1 \<longrightarrow> bit (sq_receive_command s) 1)
     \<and> (length bytes < 60 \<longrightarrow> bit (sq_receive_command s) 3)"

lemma matches_address_addressed: "matches_address bytes s = frame_addressed bytes s"
proof -
  have mode: "drop_bit 6 w = (if bit w 7 then if bit w 6 then 3 else 2 else if bit w 6 then 1 else 0)" for w :: u8
  proof (rule bit_word_eqI)
    fix n assume "n < LENGTH(8)"
    then consider "n = 0" | "n = 1" | "2 \<le> n" by force
    then show "bit (drop_bit 6 w) n
      = bit (if bit w 7 then if bit w 6 then 3 else 2 else if bit w 6 then 1 else 0 :: u8) n"
    proof cases
      case 3
      then have "\<not> bit (3 :: u8) n" "\<not> bit (2 :: u8) n" "\<not> bit (1 :: u8) n"
        by (auto simp: bit_numeral_rec bit_1_iff split: nat.split)
      with 3 show ?thesis by (simp add: bit_drop_bit_eq not_bit_u8)
    qed (simp_all add: bit_drop_bit_eq bit_numeral_rec bit_1_iff)
  qed
  have group: "w AND 1 \<noteq> 0 \<longleftrightarrow> bit w 0" for w :: u8
    by (simp add: and_one_eq bit_0 odd_iff_mod_2_eq_one)
  show ?thesis
    by (simp add: matches_address_def frame_addressed_def Let_def group mode)
qed

lemma masked_errors:
  fixes e c :: u8
  shows "e AND 0x0b AND NOT c \<noteq> 0 \<longleftrightarrow> bit e 0 \<and> \<not> bit c 0 \<or> bit e 1 \<and> \<not> bit c 1 \<or> bit e 3 \<and> \<not> bit c 3"
proof -
  have eleven: "bit (0x0b :: u8) n \<longleftrightarrow> n = 0 \<or> n = 1 \<or> n = 3" for n
    by (auto simp: bit_numeral_rec bit_1_iff split: nat.split)
  have "e AND 0x0b AND NOT c = 0 \<longleftrightarrow> (\<forall>n. \<not> (bit e n \<and> bit (0x0b :: u8) n \<and> \<not> bit c n))"
    by (auto simp: bit_eq_iff bit_and_iff bit_not_iff possible_bit_def dest: bit_u8)
  then show ?thesis unfolding eleven by blast
qed

lemma reception_dropped_kept:
  "reception_dropped (frame_errors \<lparr>wf_bytes = bytes, wf_remaining = t, wf_errors = errors AND 7\<rparr>)
     (sq_receive_command s) \<longleftrightarrow> \<not> frame_kept bytes errors s"
proof -
  have seven: "bit (7 :: u8) n \<longleftrightarrow> n < 3" for n
    by (auto simp: bit_numeral_rec bit_1_iff split: nat.split)
  have eight: "bit (8 :: u8) n \<longleftrightarrow> n = 3" for n
    by (auto simp: bit_numeral_rec bit_1_iff split: nat.split)
  show ?thesis
    unfolding reception_dropped_def masked_errors frame_errors_def frame_kept_def
    by (auto simp: bit_or_iff bit_and_iff seven eight)
qed

lemma unat_wire_time:
  assumes "len \<le> MAX_FRAME_BYTES"
  shows "unat (wire_time len) = (len + 12) * 800000000000"
proof -
  have l: "unat (word_of_nat len :: u128) = len"
    using assms by (simp add: unat_of_nat MAX_FRAME_BYTES_def)
  have "unat (word_of_nat len + 8 + 4 :: u128) = len + 12"
    using assms by (simp add: unat_word_ariths l MAX_FRAME_BYTES_def)
  moreover have "unat BYTE_TIME = 800000000000"
    by (simp add: BYTE_TIME_def ATTOSECONDS_PER_SECOND_def unat_div)
  moreover have "(len + 12) * 800000000000 < 2 ^ 128" using assms by (simp add: MAX_FRAME_BYTES_def)
  ultimately show ?thesis by (simp add: wire_time_def unat_mult_lem [THEN iffD1])
qed

lemma unat_interframe_gap: "unat INTERFRAME_GAP = 12 * 800000000000"
  by (simp add: INTERFRAME_GAP_def BYTE_TIME_def ATTOSECONDS_PER_SECOND_def unat_div)

text \<open>
  C40. A frame offered to a free link is received in real time: with an
  acknowledged status and no frame waiting, a frame of \<open>n\<close> bytes is accepted, and whatever the
  time that has passed since, the host finds exactly this frame once the \<open>n + 12\<close> byte times of
  10 Mbit/s Ethernet are over, provided the receive command selects its destination and none of
  its errors (of the wire, or a length under 60 bytes) is one the command rejects, and nothing
  otherwise. The link is free again after a gap of twelve more byte times, whether the frame was
  kept or not.
\<close>

theorem reception_in_wire_time:
  assumes "receive_ready s" "length bytes \<le> MAX_FRAME_BYTES"
    and "sq_received s = None" "sq_receive_status s AND OLD_DEVICE_STATUS \<noteq> 0"
  shows "case seeq_receive bytes errors s of (accepted, offered) \<Rightarrow>
    accepted
    \<and> map_option rf_bytes (sq_received (seeq_advance_time d offered)) =
        (if (length bytes + 12) * 800000000000 \<le> unat d
            \<and> frame_addressed bytes s \<and> frame_kept bytes errors s
         then Some bytes else None)
    \<and> (receive_ready (seeq_advance_time d offered) \<longleftrightarrow> (length bytes + 24) * 800000000000 \<le> unat d)"
proof -
  define f where "f = \<lparr>wf_bytes = bytes, wf_remaining = wire_time (length bytes), wf_errors = errors AND 7\<rparr>"
  define offered where "offered = s\<lparr>sq_receiving := Some f\<rparr>"
  have offer: "seeq_receive bytes errors s = (True, offered)"
    using assms(1,2) by (simp add: seeq_receive_def offered_def f_def)
  note wire = unat_wire_time [OF assms(2)]
  have received: "sq_received (advance_transmission d r) = sq_received r"
    and gap: "sq_receive_gap (advance_transmission d r) = sq_receive_gap r"
    and receiving: "sq_receiving (advance_transmission d r) = sq_receiving r" for r
    by (simp_all add: advance_transmission_def split: option.split)
  show ?thesis
  proof (cases "d < wire_time (length bytes)")
    case True
    then have "unat d < (length bytes + 12) * 800000000000" by (simp add: word_less_nat_alt wire)
    with True assms(3) show ?thesis
      by (simp add: offer seeq_advance_time_split received receiving receive_ready_def
          advance_reception_def offered_def f_def)
  next
    case False
    then have late: "(length bytes + 12) * 800000000000 \<le> unat d" by (simp add: word_less_nat_alt wire)
    define r where "r = advance_reception d offered"
    have r: "r = finish_receive f (s\<lparr>sq_receiving := None,
        sq_receive_gap := saturating_sub INTERFRAME_GAP (saturating_sub d (wire_time (length bytes)))\<rparr>)"
      using False by (simp add: r_def advance_reception_def offered_def f_def)
    have "map_option rf_bytes (sq_received r) =
        (if frame_addressed bytes s \<and> frame_kept bytes errors s then Some bytes else None)"
      unfolding r finish_receive_updates using assms(3,4)
      by (simp add: finish_receive_eq matches_address_addressed f_def reception_dropped_kept)
    moreover have "receive_ready r \<longleftrightarrow> unat (sq_receive_gap r) = 0"
      by (simp only: receive_ready_def unat_eq_zero) (simp add: r)
    moreover have "unat (sq_receive_gap r) = 12 * 800000000000 - (unat d - (length bytes + 12) * 800000000000)"
      by (simp add: r wire unat_interframe_gap)
    moreover have "receive_ready (seeq_advance_time d offered) = receive_ready r"
      by (simp add: receive_ready_def seeq_advance_time_split received gap receiving r_def)
    ultimately show ?thesis
      using late by (auto simp: offer seeq_advance_time_split received r_def)
  qed
qed

theorem reception_in_wire_time_witness:
  "let s = seeq_new\<lparr>sq_receive_command := 0x40\<rparr>; offered = snd (seeq_receive (replicate 60 7) 0 s)
   in map_option rf_bytes (sq_received (seeq_advance_time (wire_time 60) offered)) = Some (replicate 60 7)
      \<and> receive_ready (seeq_advance_time (wire_time 72) offered)"
proof -
  define s where "s = seeq_new\<lparr>sq_receive_command := 0x40\<rparr>"
  have s: "receive_ready s" "sq_received s = None" "sq_receive_status s AND OLD_DEVICE_STATUS \<noteq> 0"
    by (simp_all add: s_def seeq_new_def receive_ready_def)
      (simp add: OLD_DEVICE_STATUS_def)
  have n: "length (replicate 60 (7 :: u8)) \<le> MAX_FRAME_BYTES" by (simp add: MAX_FRAME_BYTES_def)
  have t: "unat (wire_time 60) = 57600000000000" "unat (wire_time 72) = 67200000000000"
    by (simp_all add: unat_wire_time MAX_FRAME_BYTES_def)
  have all: "frame_addressed (replicate 60 7) s" "frame_kept (replicate 60 7) 0 s"
    by (simp_all add: frame_addressed_def frame_kept_def s_def seeq_new_def bit_numeral_rec)
  show ?thesis
    using reception_in_wire_time [OF s(1) n s(2,3), where errors = 0 and d = "wire_time 60"]
      reception_in_wire_time [OF s(1) n s(2,3), where errors = 0 and d = "wire_time 72"] all
    unfolding s_def [symmetric] Let_def by (simp add: split_beta t)
qed

end
