(* ===== verification/Rtc.thy ===== *)
theory Rtc
  imports Timed
begin

text \<open>
  The DP8573A real-time clock, \<^verbatim>\<open>se_device/src/dp8573a.rs\<close>: binary-coded
  calendar counters in a banked register file, their millisecond advance, the alarm and periodic
  interrupts, and the catch-up after time spent switched off. The register files have the code's
  32 and 4 entries, which it indexes by constants; counts of seconds and days, which stay far
  below the code's 64 bits, are natural numbers.
\<close>

section \<open>Registers\<close>

definition REGISTER_COUNT :: nat where "REGISTER_COUNT = 32"
definition BANKED_REGISTER_COUNT :: nat where "BANKED_REGISTER_COUNT = 4"
definition MAIN_STATUS :: nat where "MAIN_STATUS = 0x00"
definition PERIODIC_FLAG :: nat where "PERIODIC_FLAG = 0x03"
definition TIME_SAVE_CONTROL :: nat where "TIME_SAVE_CONTROL = 0x04"
definition HUNDREDTHS :: nat where "HUNDREDTHS = 0x05"
definition SECONDS :: nat where "SECONDS = 0x06"
definition MINUTES :: nat where "MINUTES = 0x07"
definition HOURS :: nat where "HOURS = 0x08"
definition DAY_OF_MONTH :: nat where "DAY_OF_MONTH = 0x09"
definition MONTH :: nat where "MONTH = 0x0a"
definition YEAR :: nat where "YEAR = 0x0b"
definition DAY_OF_WEEK :: nat where "DAY_OF_WEEK = 0x0e"
definition SECONDS_COMPARE :: nat where "SECONDS_COMPARE = 0x13"
definition DAY_OF_WEEK_COMPARE :: nat where "DAY_OF_WEEK_COMPARE = 0x18"
definition SECONDS_SAVE :: nat where "SECONDS_SAVE = 0x19"
definition MONTH_SAVE :: nat where "MONTH_SAVE = 0x1d"
definition PAGE_ONE_RAM :: nat where "PAGE_ONE_RAM = 0x1e"
definition REAL_TIME_MODE :: nat where "REAL_TIME_MODE = 0"
definition OUTPUT_MODE :: nat where "OUTPUT_MODE = 1"
definition INTERRUPT_CONTROL_0 :: nat where "INTERRUPT_CONTROL_0 = 2"
definition INTERRUPT_CONTROL_1 :: nat where "INTERRUPT_CONTROL_1 = 3"
definition MAIN_RAM_AND_SELECT :: u8 where "MAIN_RAM_AND_SELECT = 0xf0"
definition REGISTER_SELECT :: u8 where "REGISTER_SELECT = push_bit 6 1"
definition ALARM_PENDING :: u8 where "ALARM_PENDING = push_bit 3 1"
definition PERIODIC_PENDING :: u8 where "PERIODIC_PENDING = push_bit 2 1"
definition TIME_SAVE_ENABLE :: u8 where "TIME_SAVE_ENABLE = push_bit 7 1"
definition HOUR_MODE_12 :: u8 where "HOUR_MODE_12 = push_bit 2 1"
definition CLOCK_START :: u8 where "CLOCK_START = push_bit 3 1"
definition PERIODIC_MINUTE :: u8 where "PERIODIC_MINUTE = 1"
definition PERIODIC_TEN_SECONDS :: u8 where "PERIODIC_TEN_SECONDS = push_bit 1 1"
definition PERIODIC_SECOND :: u8 where "PERIODIC_SECOND = push_bit 2 1"
definition PERIODIC_HUNDRED_MILLISECONDS :: u8 where "PERIODIC_HUNDRED_MILLISECONDS = push_bit 3 1"
definition PERIODIC_TEN_MILLISECONDS :: u8 where "PERIODIC_TEN_MILLISECONDS = push_bit 4 1"
definition PERIODIC_MILLISECOND :: u8 where "PERIODIC_MILLISECOND = push_bit 5 1"
definition PERIODIC_EVENT_BITS :: u8 where "PERIODIC_EVENT_BITS = 0x3f"
definition OSCILLATOR_FAILED :: u8 where "OSCILLATOR_FAILED = push_bit 6 1"
definition TEST_ENABLE :: u8 where "TEST_ENABLE = push_bit 7 1"
definition ALARM_COMPARE_BITS :: u8 where "ALARM_COMPARE_BITS = 0x3f"
definition ALARM_INTERRUPT_ENABLE :: u8 where "ALARM_INTERRUPT_ENABLE = push_bit 6 1"
definition ATTOSECONDS_PER_MILLISECOND :: u128 where "ATTOSECONDS_PER_MILLISECOND = ATTOSECONDS_PER_SECOND div 1000"
definition SECONDS_PER_DAY :: nat where "SECONDS_PER_DAY = 86400"
definition CALENDAR_CYCLE_DAYS :: nat where "CALENDAR_CYCLE_DAYS = 700 * 365 + 175"

lemmas rtc_registers =
  MAIN_STATUS_def PERIODIC_FLAG_def TIME_SAVE_CONTROL_def HUNDREDTHS_def SECONDS_def MINUTES_def HOURS_def
  DAY_OF_MONTH_def MONTH_def YEAR_def DAY_OF_WEEK_def SECONDS_COMPARE_def DAY_OF_WEEK_COMPARE_def
  SECONDS_SAVE_def MONTH_SAVE_def PAGE_ONE_RAM_def REAL_TIME_MODE_def OUTPUT_MODE_def
  INTERRUPT_CONTROL_0_def INTERRUPT_CONTROL_1_def REGISTER_COUNT_def BANKED_REGISTER_COUNT_def

record rtc =
  rt_registers :: "u8 list"
  rt_alternate :: "u8 list"
  rt_prescaler_phase_attoseconds :: u128
  rt_millisecond_within_hundredth :: u8
  rt_oscillator_failed :: bool
  rt_single_supply :: bool
  rt_alarm_match_active :: bool

definition rtc_new :: rtc where
  "rtc_new =
     \<lparr>rt_registers = replicate REGISTER_COUNT 0, rt_alternate = replicate BANKED_REGISTER_COUNT 0,
      rt_prescaler_phase_attoseconds = 0, rt_millisecond_within_hundredth = 0,
      rt_oscillator_failed = True, rt_single_supply = False, rt_alarm_match_active = False\<rparr>"

abbreviation reg :: "rtc \<Rightarrow> nat \<Rightarrow> u8" where "reg r i \<equiv> rt_registers r ! i"
abbreviation alt_reg :: "rtc \<Rightarrow> nat \<Rightarrow> u8" where "alt_reg r i \<equiv> rt_alternate r ! i"

definition set_reg :: "nat \<Rightarrow> u8 \<Rightarrow> rtc \<Rightarrow> rtc" where
  "set_reg i v r = r\<lparr>rt_registers := (rt_registers r)[i := v]\<rparr>"

definition set_alt_reg :: "nat \<Rightarrow> u8 \<Rightarrow> rtc \<Rightarrow> rtc" where
  "set_alt_reg i v r = r\<lparr>rt_alternate := (rt_alternate r)[i := v]\<rparr>"

section \<open>Binary-coded decimals and the calendar\<close>

definition decode_bcd :: "u8 \<Rightarrow> u8 option" where
  "decode_bcd value = (
     let high = drop_bit 4 value; low = value AND 0x0f
     in if high \<le> 9 \<and> low \<le> 9 then Some (high * 10 + low) else None)"

definition encode_bcd :: "u8 \<Rightarrow> u8" where
  "encode_bcd value = push_bit 4 (value div 10) OR (value mod 10)"

definition decode_bcd_in :: "u8 \<Rightarrow> u8 \<Rightarrow> u8 \<Rightarrow> u8 option" where
  "decode_bcd_in minimum maximum value =
     (case decode_bcd value of
        Some v \<Rightarrow> if minimum \<le> v \<and> v \<le> maximum then Some v else None
      | None \<Rightarrow> None)"

definition days_in_month :: "u8 \<Rightarrow> u8 \<Rightarrow> u8" where
  "days_in_month month leap_year =
     (if month = 2 \<and> leap_year = 0 then 29 else if month = 2 then 28
      else if month \<in> {4, 6, 9, 11} then 30 else 31)"

definition decode_hour :: "u8 \<Rightarrow> bool \<Rightarrow> u8 option" where
  "decode_hour raw hour_mode_12 =
     (if \<not> hour_mode_12 then decode_bcd_in 0 23 (raw AND 0x3f)
      else case decode_bcd_in 1 12 (raw AND 0x1f) of
        None \<Rightarrow> None
      | Some hour \<Rightarrow>
          let afternoon = (raw AND 0x80 \<noteq> 0)
          in Some (if hour = 12 then (if afternoon then 12 else 0)
                   else if afternoon then hour + 12 else hour))"

definition hour_to_12 :: "u8 \<Rightarrow> u8 \<times> bool" where
  "hour_to_12 hour =
     (if hour = 0 then (12, False) else if hour \<le> 11 then (hour, False)
      else if hour = 12 then (12, True) else (hour - 12, True))"

definition encode_hour :: "u8 \<Rightarrow> bool \<Rightarrow> u8" where
  "encode_hour hour hour_mode_12 =
     (if \<not> hour_mode_12 then encode_bcd hour
      else let (hour_12, afternoon) = hour_to_12 hour
           in encode_bcd hour_12 OR (if afternoon then 0x80 else 0))"

definition crosses_cyclic_target :: "nat \<Rightarrow> nat \<Rightarrow> nat \<Rightarrow> bool" where
  "crosses_cyclic_target current steps period \<longleftrightarrow> steps \<noteq> 0 \<and> period - current mod period \<le> steps"

record calendar_date =
  cd_day_of_month :: u8
  cd_month :: u8
  cd_year :: u8
  cd_day_of_week :: u8
  cd_leap_year :: u8

record clock_state =
  ck_hundredths :: u8
  ck_seconds :: u8
  ck_minutes :: u8
  ck_hour :: u8
  ck_date :: calendar_date

definition date_advance :: "calendar_date \<Rightarrow> calendar_date" where
  "date_advance d = (
     let d = d\<lparr>cd_day_of_week := cd_day_of_week d mod 7 + 1\<rparr>;
         maximum_day = days_in_month (cd_month d) (cd_leap_year d)
     in if cd_day_of_month d < maximum_day then d\<lparr>cd_day_of_month := cd_day_of_month d + 1\<rparr>
        else if cd_month d < 12 then d\<lparr>cd_day_of_month := 1, cd_month := cd_month d + 1\<rparr>
        else d\<lparr>cd_day_of_month := 1, cd_month := 1, cd_year := (cd_year d + 1) mod 100,
               cd_leap_year := (cd_leap_year d + 1) AND 0x03\<rparr>)"

definition hour_mode_12 :: "rtc \<Rightarrow> bool" where
  "hour_mode_12 r \<longleftrightarrow> alt_reg r REAL_TIME_MODE AND HOUR_MODE_12 \<noteq> 0"

definition clock_decode :: "rtc \<Rightarrow> clock_state option" where
  "clock_decode r = do {
     hundredths \<leftarrow> decode_bcd_in 0 99 (reg r HUNDREDTHS);
     seconds \<leftarrow> decode_bcd_in 0 59 (reg r SECONDS AND 0x7f);
     minutes \<leftarrow> decode_bcd_in 0 59 (reg r MINUTES AND 0x7f);
     hour \<leftarrow> decode_hour (reg r HOURS) (hour_mode_12 r);
     month \<leftarrow> decode_bcd_in 1 12 (reg r MONTH AND 0x1f);
     year \<leftarrow> decode_bcd (reg r YEAR);
     let leap_year = alt_reg r REAL_TIME_MODE AND 0x03;
     day_of_month \<leftarrow> decode_bcd_in 1 (days_in_month month leap_year) (reg r DAY_OF_MONTH AND 0x3f);
     day_of_week \<leftarrow> decode_bcd_in 1 7 (reg r DAY_OF_WEEK AND 0x07);
     Some \<lparr>ck_hundredths = hundredths, ck_seconds = seconds, ck_minutes = minutes, ck_hour = hour,
           ck_date = \<lparr>cd_day_of_month = day_of_month, cd_month = month, cd_year = year,
                      cd_day_of_week = day_of_week, cd_leap_year = leap_year\<rparr>\<rparr>
   }"

definition seconds_of_day :: "clock_state \<Rightarrow> nat" where
  "seconds_of_day c = unat (ck_hour c) * 3600 + unat (ck_minutes c) * 60 + unat (ck_seconds c)"

section \<open>Time saving and alarms\<close>

definition rtc_interrupt_asserted :: "rtc \<Rightarrow> bool" where
  "rtc_interrupt_asserted r \<longleftrightarrow>
     reg r MAIN_STATUS AND PERIODIC_PENDING \<noteq> 0
     \<or> reg r MAIN_STATUS AND ALARM_PENDING \<noteq> 0 \<and> alt_reg r INTERRUPT_CONTROL_1 AND ALARM_INTERRUPT_ENABLE \<noteq> 0"

definition alternate_bank_selected :: "rtc \<Rightarrow> bool" where
  "alternate_bank_selected r \<longleftrightarrow> reg r MAIN_STATUS AND REGISTER_SELECT \<noteq> 0"

definition raise_periodic_events :: "u8 \<Rightarrow> rtc \<Rightarrow> rtc" where
  "raise_periodic_events events r = (
     let r1 = set_reg PERIODIC_FLAG (reg r PERIODIC_FLAG OR events) r
     in if events AND alt_reg r1 INTERRUPT_CONTROL_0 \<noteq> 0
        then set_reg MAIN_STATUS (reg r1 MAIN_STATUS OR PERIODIC_PENDING) r1 else r1)"

definition time_save_enabled :: "rtc \<Rightarrow> bool" where
  "time_save_enabled r \<longleftrightarrow> reg r TIME_SAVE_CONTROL AND TIME_SAVE_ENABLE \<noteq> 0"

definition counter_mask :: "rtc \<Rightarrow> nat \<Rightarrow> u8" where
  "counter_mask r register =
     (if register = SECONDS \<or> register = MINUTES then 0x7f
      else if register = HOURS \<and> hour_mode_12 r then 0x9f
      else if register = HOURS \<or> register = DAY_OF_MONTH then 0x3f
      else if register = MONTH then 0x1f
      else if register = DAY_OF_WEEK then 0x07
      else 0xff)"

definition copy_time_save :: "nat \<Rightarrow> nat \<Rightarrow> rtc \<Rightarrow> rtc" where
  "copy_time_save destination source r = (
     let bits = counter_mask r source
     in set_reg destination ((reg r destination AND NOT bits) OR (reg r source AND bits)) r)"

definition copy_all_time_save_registers :: "rtc \<Rightarrow> rtc" where
  "copy_all_time_save_registers r =
     foldl (\<lambda>r source. copy_time_save (source - SECONDS + SECONDS_SAVE) source r) r [SECONDS..<Suc MONTH]"

definition copy_time_save_register :: "nat \<Rightarrow> rtc \<Rightarrow> rtc" where
  "copy_time_save_register destination = copy_time_save destination (destination - SECONDS_SAVE + SECONDS)"

definition current_alarm_matches :: "rtc \<Rightarrow> bool" where
  "current_alarm_matches r = (
     let enables = alt_reg r INTERRUPT_CONTROL_1 AND ALARM_COMPARE_BITS
     in enables \<noteq> 0 \<and>
        list_all (\<lambda>offset.
          if enables AND push_bit offset 1 = 0 then True
          else
            let counter = (if offset = 5 then DAY_OF_WEEK else SECONDS + offset);
                compare = SECONDS_COMPARE + offset;
                bits = counter_mask r counter
            in reg r counter AND bits = reg r compare AND bits) [0..<6])"

definition recompute_alarm_match :: "rtc \<Rightarrow> rtc" where
  "recompute_alarm_match r = (
     let matches = current_alarm_matches r;
         r1 = (if matches \<and> \<not> rt_alarm_match_active r
               then set_reg MAIN_STATUS (reg r MAIN_STATUS OR ALARM_PENDING) r else r)
     in r1\<lparr>rt_alarm_match_active := matches\<rparr>)"

section \<open>The running clock\<close>

definition increment_bcd_register :: "nat \<Rightarrow> u8 \<Rightarrow> u8 \<Rightarrow> u8 \<Rightarrow> rtc \<Rightarrow> (u8 \<times> bool) option \<times> rtc" where
  "increment_bcd_register register bits minimum maximum r = (
     let raw = reg r register
     in case decode_bcd_in minimum maximum (raw AND bits) of
       None \<Rightarrow> (None, r)
     | Some value \<Rightarrow>
         let wrapped = (value = maximum); next = (if wrapped then minimum else value + 1)
         in (Some (next, wrapped), set_reg register ((raw AND NOT bits) OR (encode_bcd next AND bits)) r))"

definition carried :: "(u8 \<times> bool) option \<Rightarrow> bool" where
  "carried result = (case result of Some (_, carry) \<Rightarrow> carry | None \<Rightarrow> False)"

definition days_in_current_month :: "rtc \<Rightarrow> u8" where
  "days_in_current_month r =
     (case decode_bcd (reg r MONTH AND 0x1f) of
        Some month \<Rightarrow>
          if month = 2 \<and> alt_reg r REAL_TIME_MODE AND 0x03 = 0 then 29
          else if month = 2 then 28
          else if month = 4 \<or> month = 6 \<or> month = 9 \<or> month = 11 then 30 else 31
      | None \<Rightarrow> 31)"

definition advance_day :: "rtc \<Rightarrow> rtc" where
  "advance_day r = (
     let (day, r) = increment_bcd_register DAY_OF_MONTH 0x3f 1 (days_in_current_month r) r
     in case day of
       None \<Rightarrow> r
     | Some (_, month_carry) \<Rightarrow>
         let r = snd (increment_bcd_register DAY_OF_WEEK 0x07 1 7 r)
         in if \<not> month_carry then r
            else
              let (month, r) = increment_bcd_register MONTH 0x1f 1 12 r
              in if \<not> carried month then r
                 else
                   let r = snd (increment_bcd_register YEAR 0xff 0 99 r);
                       mode = alt_reg r REAL_TIME_MODE;
                       next_leap_year = ((mode AND 0x03) + 1) AND 0x03
                   in set_alt_reg REAL_TIME_MODE ((mode AND NOT 0x03) OR next_leap_year) r)"

definition advance_12_hour_counter :: "rtc \<Rightarrow> rtc" where
  "advance_12_hour_counter r = (
     let raw = reg r HOURS
     in case decode_bcd_in 1 12 (raw AND 0x1f) of
       None \<Rightarrow> r
     | Some hour \<Rightarrow>
         let was_pm = (raw AND 0x80 \<noteq> 0);
             (next_hour, next_pm, day_carry) =
               (if hour = 11 then (12, \<not> was_pm, was_pm)
                else if hour = 12 then (1, was_pm, False)
                else (hour + 1, was_pm, False));
             r = set_reg HOURS ((raw AND NOT 0x9f) OR encode_bcd next_hour OR (if next_pm then 0x80 else 0)) r
         in if day_carry then advance_day r else r)"

definition advance_hour :: "rtc \<Rightarrow> rtc" where
  "advance_hour r =
     (if hour_mode_12 r then advance_12_hour_counter r
      else
        let (result, r) = increment_bcd_register HOURS 0x3f 0 23 r
        in if carried result then advance_day r else r)"

definition finish_clock_change :: "rtc \<Rightarrow> rtc" where
  "finish_clock_change r =
     recompute_alarm_match (if time_save_enabled r then copy_all_time_save_registers r else r)"

definition advance_hundredth :: "rtc \<Rightarrow> u8 \<times> rtc" where
  "advance_hundredth r = (
     let (result, r) = increment_bcd_register HUNDREDTHS 0xff 0 99 r
     in case result of
       None \<Rightarrow> (0, r)
     | Some (value, wrapped) \<Rightarrow>
         let events = (if value mod 10 = 0 then PERIODIC_HUNDRED_MILLISECONDS else 0)
         in if \<not> wrapped then (events, r)
            else
              let events = events OR PERIODIC_SECOND;
                  (result, r) = increment_bcd_register SECONDS 0x7f 0 59 r
              in case result of
                None \<Rightarrow> (events, finish_clock_change r)
              | Some (seconds, minute_carry) \<Rightarrow>
                  let events = (if seconds mod 10 = 0 then events OR PERIODIC_TEN_SECONDS else events)
                  in if minute_carry then
                       let events = events OR PERIODIC_MINUTE;
                           (result, r) = increment_bcd_register MINUTES 0x7f 0 59 r;
                           r = (if carried result then advance_hour r else r)
                       in (events, finish_clock_change r)
                     else (events, finish_clock_change r))"

definition advance_millisecond :: "rtc \<Rightarrow> rtc" where
  "advance_millisecond r = (
     let r = r\<lparr>rt_millisecond_within_hundredth := rt_millisecond_within_hundredth r + 1\<rparr>
     in if rt_millisecond_within_hundredth r = 10 then
          let r = r\<lparr>rt_millisecond_within_hundredth := 0\<rparr>;
              (events, r) = advance_hundredth r
          in raise_periodic_events (PERIODIC_MILLISECOND OR PERIODIC_TEN_MILLISECONDS OR events) r
        else raise_periodic_events PERIODIC_MILLISECOND r)"

definition clock_running :: "rtc \<Rightarrow> bool" where
  "clock_running r \<longleftrightarrow> alt_reg r REAL_TIME_MODE AND CLOCK_START \<noteq> 0"

definition rtc_advance_time :: "virtual_duration \<Rightarrow> rtc \<Rightarrow> rtc" where
  "rtc_advance_time elapsed r =
     (if \<not> clock_running r then r
      else
        let elapsed_milliseconds = elapsed div ATTOSECONDS_PER_MILLISECOND;
            elapsed_remainder = elapsed mod ATTOSECONDS_PER_MILLISECOND;
            phase = rt_prescaler_phase_attoseconds r + elapsed_remainder;
            milliseconds = elapsed_milliseconds + phase div ATTOSECONDS_PER_MILLISECOND
        in (advance_millisecond ^^ unat milliseconds)
             (r\<lparr>rt_prescaler_phase_attoseconds := phase mod ATTOSECONDS_PER_MILLISECOND\<rparr>))"

definition rtc_time_until_event :: "rtc \<Rightarrow> virtual_duration option" where
  "rtc_time_until_event r =
     (if \<not> clock_running r then None
      else Some (ATTOSECONDS_PER_MILLISECOND - rt_prescaler_phase_attoseconds r))"


section \<open>Register access\<close>

definition rtc_read_register :: "rtc \<Rightarrow> nat \<Rightarrow> u8" where
  "rtc_read_register r register =
     (if register = MAIN_STATUS then (reg r MAIN_STATUS AND 0xfc) OR of_bool (rtc_interrupt_asserted r)
      else if (register = 1 \<or> register = 2) \<and> \<not> alternate_bank_selected r then 0
      else if 1 \<le> register \<and> register \<le> 4 \<and> alternate_bank_selected r then alt_reg r (register - 1)
      else if register = PERIODIC_FLAG then
        (reg r PERIODIC_FLAG AND NOT OSCILLATOR_FAILED)
        OR (if rt_oscillator_failed r then OSCILLATOR_FAILED else 0)
      else if 0x0f \<le> register \<and> register \<le> 0x12 then 0
      else if register = PAGE_ONE_RAM \<and> \<not> alternate_bank_selected r then 0
      else reg r register)"

definition write_main_status :: "u8 \<Rightarrow> rtc \<Rightarrow> rtc" where
  "write_main_status value r = (
     let pending = reg r MAIN_STATUS AND (ALARM_PENDING OR PERIODIC_PENDING)
           AND NOT (value AND (ALARM_PENDING OR PERIODIC_PENDING))
     in set_reg MAIN_STATUS ((value AND MAIN_RAM_AND_SELECT) OR pending) r)"

definition write_alternate_control :: "nat \<Rightarrow> u8 \<Rightarrow> rtc \<Rightarrow> rtc option" where
  "write_alternate_control register value r =
     (if register = REAL_TIME_MODE then
        let was_running = clock_running r;
            is_running = (value AND CLOCK_START \<noteq> 0);
            r = set_alt_reg REAL_TIME_MODE value r;
            r = (if was_running \<and> \<not> is_running
                 then r\<lparr>rt_prescaler_phase_attoseconds := 0, rt_millisecond_within_hundredth := 0\<rparr> else r);
            r = (if is_running then r\<lparr>rt_oscillator_failed := False\<rparr> else r);
            r = (if time_save_enabled r then copy_all_time_save_registers r else r)
        in Some (recompute_alarm_match r)
      else if register = OUTPUT_MODE \<or> register = INTERRUPT_CONTROL_0 then Some (set_alt_reg register value r)
      else if register = INTERRUPT_CONTROL_1 then Some (recompute_alarm_match (set_alt_reg register value r))
      else None)"

definition write_time_save_control :: "u8 \<Rightarrow> rtc \<Rightarrow> rtc" where
  "write_time_save_control value r = (
     let was_enabled = time_save_enabled r;
         r = set_reg TIME_SAVE_CONTROL value r
     in if was_enabled \<or> time_save_enabled r then copy_all_time_save_registers r else r)"

definition write_counter :: "nat \<Rightarrow> u8 \<Rightarrow> rtc \<Rightarrow> rtc" where
  "write_counter register value r = (
     let r = set_reg register value r;
         r = (if time_save_enabled r \<and> SECONDS \<le> register \<and> register \<le> MONTH
              then copy_time_save (register - SECONDS + SECONDS_SAVE) register r else r)
     in if SECONDS \<le> register \<and> register \<le> MONTH \<or> register = DAY_OF_WEEK
        then recompute_alarm_match r else r)"

definition rtc_write_register :: "nat \<Rightarrow> u8 \<Rightarrow> rtc \<Rightarrow> rtc option" where
  "rtc_write_register register value r =
     (if register = MAIN_STATUS then Some (write_main_status value r)
      else if 1 \<le> register \<and> register \<le> 4 \<and> alternate_bank_selected r
      then write_alternate_control (register - 1) value r
      else if register = 1 \<or> register = 2 then Some r
      else if register = PERIODIC_FLAG then
        let r = r\<lparr>rt_single_supply := (value AND OSCILLATOR_FAILED \<noteq> 0)\<rparr>
        in Some (set_reg PERIODIC_FLAG ((reg r PERIODIC_FLAG AND PERIODIC_EVENT_BITS) OR (value AND TEST_ENABLE)) r)
      else if register = TIME_SAVE_CONTROL then Some (write_time_save_control value r)
      else if HUNDREDTHS \<le> register \<and> register \<le> YEAR \<or> register = DAY_OF_WEEK
      then Some (write_counter register value r)
      else if register = 0x0d then Some (set_reg register (value AND 0x03) r)
      else if 0x0f \<le> register \<and> register \<le> 0x12 then Some r
      else if SECONDS_COMPARE \<le> register \<and> register \<le> DAY_OF_WEEK_COMPARE
      then Some (recompute_alarm_match (set_reg register value r))
      else if SECONDS_SAVE \<le> register \<and> register \<le> MONTH_SAVE then
        let r = set_reg register value r
        in Some (if time_save_enabled r then copy_time_save_register register r else r)
      else if register = PAGE_ONE_RAM \<and> \<not> alternate_bank_selected r then Some r
      else Some (set_reg register value r))"

definition rtc_decode_register :: "device_addr \<Rightarrow> nat \<Rightarrow> bus_error + nat" where
  "rtc_decode_register address len =
     (if \<not> (1 \<le> len \<and> len \<le> 4) then Inl InvalidTransaction
      else if len = 1 \<and> address AND 3 = 3 \<or> len = 4 \<and> address AND 3 = 0 then
        let register = unat (drop_bit 2 address)
        in if register < REGISTER_COUNT then Inr register else Inl UnimplementedAccess
      else Inl UnimplementedAccess)"

definition write_transaction_value :: "u8 \<Rightarrow> nat \<Rightarrow> u8 list option" where
  "write_transaction_value value len =
     (if len = 1 then Some [value] else if len = 4 then Some (to_be_bytes32 (ucast value)) else None)"

definition rtc_read :: "device_addr \<Rightarrow> nat \<Rightarrow> rtc \<Rightarrow> ((bus_error + u8 list) \<times> rtc) option" where
  "rtc_read address len r =
     (case rtc_decode_register address len of
        Inl e \<Rightarrow> Some (Inl e, r)
      | Inr register \<Rightarrow> do {
          bytes \<leftarrow> write_transaction_value (rtc_read_register r register) len;
          Some (Inr bytes,
            if register = PERIODIC_FLAG \<and> \<not> alternate_bank_selected r
            then set_reg PERIODIC_FLAG (reg r PERIODIC_FLAG AND NOT PERIODIC_EVENT_BITS) r else r)
        })"

definition rtc_debug_read :: "device_addr \<Rightarrow> nat \<Rightarrow> rtc \<Rightarrow> (bus_error + u8 list) option" where
  "rtc_debug_read address len r =
     (case rtc_decode_register address len of
        Inl e \<Rightarrow> Some (Inl e)
      | Inr register \<Rightarrow> map_option Inr (write_transaction_value (rtc_read_register r register) len))"

definition rtc_write :: "device_addr \<Rightarrow> u8 list \<Rightarrow> rtc \<Rightarrow> ((bus_error + unit) \<times> rtc) option" where
  "rtc_write address data r =
     (case rtc_decode_register address (length data) of
        Inl e \<Rightarrow> Some (Inl e, r)
      | Inr register \<Rightarrow> map_option (\<lambda>r. (Inr (), r)) (rtc_write_register register (last data) r))"

section \<open>Time spent switched off\<close>

definition set_bcd_counter :: "nat \<Rightarrow> u8 \<Rightarrow> u8 \<Rightarrow> rtc \<Rightarrow> rtc" where
  "set_bcd_counter register bits value r =
     set_reg register ((reg r register AND NOT bits) OR (encode_bcd value AND bits)) r"

definition advance_clock_seconds :: "clock_state \<Rightarrow> nat \<Rightarrow> rtc \<Rightarrow> rtc" where
  "advance_clock_seconds clock seconds r = (
     let total_seconds = seconds_of_day clock + seconds;
         day_steps = total_seconds div SECONDS_PER_DAY;
         rest = total_seconds mod SECONDS_PER_DAY;
         hour = word_of_nat (rest div 3600);
         r = set_bcd_counter SECONDS 0x7f (word_of_nat (rest mod 60)) r;
         r = set_bcd_counter MINUTES 0x7f (word_of_nat (rest div 60 mod 60)) r;
         r = (if hour_mode_12 r
              then (let (hour_12, afternoon) = hour_to_12 hour
                    in set_reg HOURS ((reg r HOURS AND NOT 0x9f) OR encode_bcd hour_12
                         OR (if afternoon then 0x80 else 0)) r)
              else set_bcd_counter HOURS 0x3f hour r)
     in (advance_day ^^ (day_steps mod CALENDAR_CYCLE_DAYS)) r)"

definition alarm_date_matches :: "rtc \<Rightarrow> calendar_date \<Rightarrow> bool" where
  "alarm_date_matches r date = (
     let enables = alt_reg r INTERRUPT_CONTROL_1
     in list_all (\<lambda>(b, value, bits).
          enables AND push_bit b 1 = 0 \<or> encode_bcd value AND bits = reg r (SECONDS_COMPARE + b) AND bits)
          [(3, cd_day_of_month date, 0x3f), (4, cd_month date, 0x1f), (5, cd_day_of_week date, 0x07)])"

definition alarm_time_fields_valid :: "rtc \<Rightarrow> bool" where
  "alarm_time_fields_valid r = (
     let enables = alt_reg r INTERRUPT_CONTROL_1;
         second = (decode_bcd_in 0 59 (reg r SECONDS_COMPARE AND 0x7f) \<noteq> None);
         minute = (decode_bcd_in 0 59 (reg r (SECONDS_COMPARE + 1) AND 0x7f) \<noteq> None);
         hour = (decode_hour (reg r (SECONDS_COMPARE + 2)) (hour_mode_12 r) \<noteq> None)
     in (enables AND push_bit 0 1 = 0 \<or> second) \<and> (enables AND push_bit 1 1 = 0 \<or> minute)
        \<and> (enables AND push_bit 2 1 = 0 \<or> hour))"

definition alarm_time_matches :: "rtc \<Rightarrow> nat \<Rightarrow> bool" where
  "alarm_time_matches r second_of_day = (
     let enables = alt_reg r INTERRUPT_CONTROL_1;
         hour = word_of_nat (second_of_day div 3600);
         minute = word_of_nat (second_of_day div 60 mod 60);
         second = word_of_nat (second_of_day mod 60)
     in list_all (\<lambda>(b, value, bits).
          enables AND push_bit b 1 = 0 \<or> value AND bits = reg r (SECONDS_COMPARE + b) AND bits)
          [(0, encode_bcd second, 0x7f), (1, encode_bcd minute, 0x7f),
           (2, encode_hour hour (hour_mode_12 r), counter_mask r HOURS)])"

definition alarm_time_matches_in_range :: "rtc \<Rightarrow> nat \<Rightarrow> nat \<Rightarrow> bool" where
  "alarm_time_matches_in_range r lower upper =
     (if upper < lower \<or> \<not> alarm_time_fields_valid r then False
      else if lower = 0 \<and> upper = SECONDS_PER_DAY - 1 then True
      else list_ex (alarm_time_matches r) [lower..<Suc upper])"

fun alarm_matches_days :: "rtc \<Rightarrow> (nat \<Rightarrow> nat) \<Rightarrow> (nat \<Rightarrow> nat) \<Rightarrow> nat list \<Rightarrow> calendar_date \<Rightarrow> bool" where
  "alarm_matches_days r lower upper [] date = False"
| "alarm_matches_days r lower upper (day # days) date =
     (if alarm_date_matches r date \<and> alarm_time_matches_in_range r (lower day) (upper day) then True
      else alarm_matches_days r lower upper days (date_advance date))"

definition alarm_matches_in_range :: "rtc \<Rightarrow> clock_state \<Rightarrow> nat \<Rightarrow> nat \<Rightarrow> bool" where
  "alarm_matches_in_range r clock lower upper = (
     let first_absolute = seconds_of_day clock + lower;
         last_absolute = seconds_of_day clock + upper;
         first_day = first_absolute div SECONDS_PER_DAY;
         last_day = last_absolute div SECONDS_PER_DAY;
         limited_last_day = min last_day (first_day + CALENDAR_CYCLE_DAYS);
         date = (date_advance ^^ (first_day mod CALENDAR_CYCLE_DAYS)) (ck_date clock)
     in alarm_matches_days r
          (\<lambda>day. if day = first_day then first_absolute mod SECONDS_PER_DAY else 0)
          (\<lambda>day. if day = last_day then last_absolute mod SECONDS_PER_DAY else SECONDS_PER_DAY - 1)
          [first_day..<Suc limited_last_day] date)"

definition seconds_until_selected_alarm_field_changes :: "rtc \<Rightarrow> clock_state \<Rightarrow> nat" where
  "seconds_until_selected_alarm_field_changes r clock = (
     let enables = alt_reg r INTERRUPT_CONTROL_1;
         date = ck_date clock
     in if enables AND push_bit 0 1 \<noteq> 0 then 1
        else if enables AND push_bit 1 1 \<noteq> 0 then 60 - unat (ck_seconds clock)
        else if enables AND push_bit 2 1 \<noteq> 0 then (60 - unat (ck_minutes clock)) * 60 - unat (ck_seconds clock)
        else if enables AND (push_bit 3 1 OR push_bit 5 1) \<noteq> 0 then SECONDS_PER_DAY - seconds_of_day clock
        else
          let days = unat (days_in_month (cd_month date) (cd_leap_year date) - cd_day_of_month date + 1)
          in days * SECONDS_PER_DAY - seconds_of_day clock)"

definition alarm_edge_during :: "rtc \<Rightarrow> clock_state \<Rightarrow> nat \<Rightarrow> bool" where
  "alarm_edge_during r clock seconds =
     (if seconds = 0 \<or> alt_reg r INTERRUPT_CONTROL_1 AND ALARM_COMPARE_BITS = 0 then False
      else if rt_alarm_match_active r then
        let first_change = seconds_until_selected_alarm_field_changes r clock
        in if seconds \<le> first_change then False
           else alarm_matches_in_range r clock (first_change + 1) seconds
      else alarm_matches_in_range r clock 1 seconds)"

definition advance_offline_milliseconds :: "nat \<Rightarrow> rtc \<Rightarrow> rtc" where
  "advance_offline_milliseconds milliseconds r =
     (if milliseconds = 0 \<or> \<not> clock_running r then r
      else case clock_decode r of
        None \<Rightarrow> r
      | Some clock \<Rightarrow>
          let total_milliseconds = unat (rt_millisecond_within_hundredth r) + milliseconds;
              hundredth_steps = total_milliseconds div 10;
              r = r\<lparr>rt_millisecond_within_hundredth := word_of_nat (total_milliseconds mod 10)\<rparr>;
              events = PERIODIC_MILLISECOND
          in if hundredth_steps = 0 then raise_periodic_events events r
             else
               let events = events OR PERIODIC_TEN_MILLISECONDS;
                   events = (if crosses_cyclic_target (unat (ck_hundredths clock)) hundredth_steps 10
                             then events OR PERIODIC_HUNDRED_MILLISECONDS else events);
                   total_hundredths = unat (ck_hundredths clock) + hundredth_steps;
                   second_steps = total_hundredths div 100;
                   r = set_bcd_counter HUNDREDTHS 0xff (word_of_nat (total_hundredths mod 100)) r
               in if second_steps = 0 then raise_periodic_events events r
                  else
                    let events = events OR PERIODIC_SECOND;
                        events = (if crosses_cyclic_target (unat (ck_seconds clock)) second_steps 10
                                  then events OR PERIODIC_TEN_SECONDS else events);
                        events = (if crosses_cyclic_target (unat (ck_seconds clock)) second_steps 60
                                  then events OR PERIODIC_MINUTE else events);
                        alarm_edge = alarm_edge_during r clock second_steps;
                        r = advance_clock_seconds clock second_steps r;
                        r = (if time_save_enabled r then copy_all_time_save_registers r else r);
                        alarm_matches = current_alarm_matches r;
                        r = (if alarm_edge then set_reg MAIN_STATUS (reg r MAIN_STATUS OR ALARM_PENDING) r else r)
                    in raise_periodic_events events (r\<lparr>rt_alarm_match_active := alarm_matches\<rparr>))"

subsection \<open>The state kept by the battery\<close>

record rtc_battery_state =
  rb_registers :: "u8 list"
  rb_alternate :: "u8 list"
  rb_prescaler_phase_attoseconds :: u64
  rb_millisecond_within_hundredth :: u8
  rb_oscillator_failed :: bool
  rb_single_supply :: bool
  rb_alarm_match_active :: bool

datatype rtc_state_error = InvalidPrescalerPhase u64 | InvalidMillisecondPosition u8

definition rtc_battery_state_new ::
  "u8 list \<Rightarrow> u8 list \<Rightarrow> u64 \<Rightarrow> u8 \<Rightarrow> bool \<Rightarrow> bool \<Rightarrow> bool \<Rightarrow> rtc_state_error + rtc_battery_state" where
  "rtc_battery_state_new registers alternate phase millisecond failed single_supply matching =
     (if ATTOSECONDS_PER_MILLISECOND \<le> ucast phase then Inl (InvalidPrescalerPhase phase)
      else if 10 \<le> millisecond then Inl (InvalidMillisecondPosition millisecond)
      else Inr \<lparr>rb_registers = registers, rb_alternate = alternate,
                rb_prescaler_phase_attoseconds = phase, rb_millisecond_within_hundredth = millisecond,
                rb_oscillator_failed = failed, rb_single_supply = single_supply,
                rb_alarm_match_active = matching\<rparr>)"

definition rtc_retained_state :: "rtc \<Rightarrow> rtc_battery_state option" where
  "rtc_retained_state r = do {
     require (unat (rt_prescaler_phase_attoseconds r) < 2 ^ 64);
     Some \<lparr>rb_registers = rt_registers r, rb_alternate = rt_alternate r,
           rb_prescaler_phase_attoseconds = ucast (rt_prescaler_phase_attoseconds r),
           rb_millisecond_within_hundredth = rt_millisecond_within_hundredth r,
           rb_oscillator_failed = rt_oscillator_failed r, rb_single_supply = rt_single_supply r,
           rb_alarm_match_active = rt_alarm_match_active r\<rparr>
   }"

definition rtc_restore_battery_state :: "rtc_battery_state \<Rightarrow> u64 \<Rightarrow> rtc \<Rightarrow> rtc" where
  "rtc_restore_battery_state b offline_milliseconds r =
     advance_offline_milliseconds (unat offline_milliseconds)
       \<lparr>rt_registers = rb_registers b, rt_alternate = rb_alternate b,
        rt_prescaler_phase_attoseconds = ucast (rb_prescaler_phase_attoseconds b),
        rt_millisecond_within_hundredth = rb_millisecond_within_hundredth b,
        rt_oscillator_failed = rb_oscillator_failed b, rt_single_supply = rb_single_supply b,
        rt_alarm_match_active = rb_alarm_match_active b\<rparr>"

end
