(* ===== verification/Scsi_Target.thy ===== *)
theory Scsi_Target
  imports Bus
begin

text \<open>
  SCSI targets: the command plans and sense data of \<^verbatim>\<open>se_device/src/scsi.rs\<close>, the disk of
  \<^verbatim>\<open>scsi_disk.rs\<close> and the read-only CD-ROM drive of \<^verbatim>\<open>scsi_cdrom.rs\<close>. The trait
  \<open>ScsiTarget\<close> has these two implementations, and its trait objects are the values of
  \<open>scsi_target\<close>, the code's own snapshot type. Counts of bytes and blocks of a medium are
  natural numbers, with the code's 64-bit checks written out.
\<close>

section \<open>Statuses, sense data and plans\<close>

datatype scsi_status = ScsiGood | ScsiCheckCondition

definition scsi_status_byte :: "scsi_status \<Rightarrow> u8" where
  "scsi_status_byte s = (case s of ScsiGood \<Rightarrow> 0x00 | ScsiCheckCondition \<Rightarrow> 0x02)"

datatype scsi_command_plan =
    PlanComplete scsi_status "u8 list"
  | PlanReadStorage nat nat
  | PlanWriteStorage nat nat
  | PlanReceiveDataOut nat
  | PlanEjectMedium

datatype scsi_backing_requirement = RequiresFixed nat | RequiresRemovable

datatype scsi_media_change_origin = ColdAttach | ExternalChange | GuestCommand

datatype scsi_removable_media_kind = OpticalDisc

record scsi_removable_media_state =
  rm_kind :: scsi_removable_media_kind
  rm_medium_size_bytes :: "nat option"
  rm_removal_prevented :: bool

datatype scsi_storage_size_error = StorageSizeError nat

definition FIXED_SENSE_BYTES :: nat where "FIXED_SENSE_BYTES = 18"

record sense_data =
  sd_key :: u8
  sd_asc :: u8
  sd_ascq :: u8

definition sense_data_new :: "u8 \<Rightarrow> u8 \<Rightarrow> u8 \<Rightarrow> sense_data" where
  "sense_data_new key asc ascq = \<lparr>sd_key = key, sd_asc = asc, sd_ascq = ascq\<rparr>"

definition SENSE_NONE :: sense_data where "SENSE_NONE = sense_data_new 0 0 0"
definition UNSUPPORTED_OPCODE :: sense_data where "UNSUPPORTED_OPCODE = sense_data_new 5 0x20 0"
definition INVALID_CDB_FIELD :: sense_data where "INVALID_CDB_FIELD = sense_data_new 5 0x24 0"
definition INVALID_PARAMETER_LIST :: sense_data where "INVALID_PARAMETER_LIST = sense_data_new 5 0x26 0"
definition LBA_OUT_OF_RANGE :: sense_data where "LBA_OUT_OF_RANGE = sense_data_new 5 0x21 0"
definition WRITE_PROTECTED :: sense_data where "WRITE_PROTECTED = sense_data_new 7 0x27 0"
definition HOST_IO_ERROR :: sense_data where "HOST_IO_ERROR = sense_data_new 4 0x44 0"
definition NOT_READY :: sense_data where "NOT_READY = sense_data_new 2 0x04 0x02"
definition MEDIUM_NOT_PRESENT :: sense_data where "MEDIUM_NOT_PRESENT = sense_data_new 2 0x3a 0"
definition MEDIUM_CHANGED :: sense_data where "MEDIUM_CHANGED = sense_data_new 6 0x28 0"
definition MEDIUM_REMOVAL_PREVENTED :: sense_data where
  "MEDIUM_REMOVAL_PREVENTED = sense_data_new 5 0x53 0x02"

definition fixed_response :: "sense_data \<Rightarrow> u8 \<Rightarrow> u8 list" where
  "fixed_response s allocation_length =
     take (unat allocation_length)
       ((replicate FIXED_SENSE_BYTES 0)[0 := 0x70, 2 := sd_key s, 7 := 10, 12 := sd_asc s, 13 := sd_ascq s])"

definition complete_good :: "u8 list \<Rightarrow> scsi_command_plan" where
  "complete_good data_in = PlanComplete ScsiGood data_in"

definition read_6_lba :: "u8 list \<Rightarrow> u32" where
  "read_6_lba cdb = from_be_bytes [0, cdb ! 1 AND 0x1f, cdb ! 2, cdb ! 3]"

definition read_6_count :: "u8 list \<Rightarrow> u16" where
  "read_6_count cdb = (if cdb ! 4 = 0 then 256 else ucast (cdb ! 4))"

definition read_10_lba :: "u8 list \<Rightarrow> u32" where
  "read_10_lba cdb = from_be_bytes [cdb ! 2, cdb ! 3, cdb ! 4, cdb ! 5]"

definition read_10_count :: "u8 list \<Rightarrow> u16" where
  "read_10_count cdb = from_be_bytes [cdb ! 7, cdb ! 8]"

section \<open>The disk\<close>

definition BLOCK_BYTES :: u32 where "BLOCK_BYTES = 512"
definition TEST_UNIT_READY :: u8 where "TEST_UNIT_READY = 0x00"
definition REQUEST_SENSE :: u8 where "REQUEST_SENSE = 0x03"
definition READ_6 :: u8 where "READ_6 = 0x08"
definition WRITE_6 :: u8 where "WRITE_6 = 0x0a"
definition INQUIRY :: u8 where "INQUIRY = 0x12"
definition MODE_SENSE_6 :: u8 where "MODE_SENSE_6 = 0x1a"
definition START_STOP_UNIT :: u8 where "START_STOP_UNIT = 0x1b"
definition READ_CAPACITY_10 :: u8 where "READ_CAPACITY_10 = 0x25"
definition READ_10 :: u8 where "READ_10 = 0x28"
definition WRITE_10 :: u8 where "WRITE_10 = 0x2a"
definition READ_DEFECT_DATA_10 :: u8 where "READ_DEFECT_DATA_10 = 0x37"

record scsi_disk =
  dk_block_count :: nat
  dk_ready :: bool
  dk_sense :: sense_data

definition disk_try_new :: "nat \<Rightarrow> scsi_storage_size_error + scsi_disk" where
  "disk_try_new storage_bytes =
     (if storage_bytes = 0 \<or> storage_bytes mod unat BLOCK_BYTES \<noteq> 0
         \<or> 2 ^ 32 < storage_bytes div unat BLOCK_BYTES
      then Inl (StorageSizeError storage_bytes)
      else Inr \<lparr>dk_block_count = storage_bytes div unat BLOCK_BYTES, dk_ready = True, dk_sense = SENSE_NONE\<rparr>)"

definition disk_storage_size_bytes :: "scsi_disk \<Rightarrow> nat" where
  "disk_storage_size_bytes k = dk_block_count k * unat BLOCK_BYTES"

definition disk_check_condition :: "sense_data \<Rightarrow> scsi_disk \<Rightarrow> scsi_command_plan \<times> scsi_disk" where
  "disk_check_condition sense k = (PlanComplete ScsiCheckCondition [], k\<lparr>dk_sense := sense\<rparr>)"

definition disk_request_sense :: "u8 \<Rightarrow> scsi_disk \<Rightarrow> scsi_command_plan \<times> scsi_disk" where
  "disk_request_sense allocation_length k =
     (complete_good (fixed_response (dk_sense k) allocation_length), k\<lparr>dk_sense := SENSE_NONE\<rparr>)"

definition disk_inquiry :: "u8 \<Rightarrow> scsi_command_plan" where
  "disk_inquiry allocation_length =
     complete_good (take (unat allocation_length)
       ([0x00, 0x00, 0x01, 0x01, 31, 0, 0, 0]
        @ [83, 71, 73, 45, 69, 77, 85, 32]
        @ [86, 73, 82, 84, 85, 65, 76, 32, 68, 73, 83, 75, 32, 32, 32, 32]
        @ [48, 48, 48, 49]))"

definition disk_mode_sense :: "u8 \<Rightarrow> scsi_command_plan" where
  "disk_mode_sense allocation_length =
     complete_good (take (unat allocation_length)
       ((replicate 9 0)[0 := 0x0b, 3 := 8] @ drop 1 (to_be_bytes32 BLOCK_BYTES)))"

definition disk_read_capacity :: "scsi_disk \<Rightarrow> scsi_command_plan \<times> scsi_disk" where
  "disk_read_capacity k =
     (if \<not> dk_ready k then disk_check_condition NOT_READY k
      else (complete_good (to_be_bytes32 (word_of_nat (dk_block_count k - 1)) @ to_be_bytes32 BLOCK_BYTES), k))"

definition disk_read_defect_data :: "u8 list \<Rightarrow> scsi_disk \<Rightarrow> scsi_command_plan \<times> scsi_disk" where
  "disk_read_defect_data cdb k =
     (if \<not> dk_ready k then disk_check_condition NOT_READY k
      else
        let selector = cdb ! 2;
            defect_list_format = selector AND 0x07;
            supported_selector = (selector AND 0xe0 = 0 \<and> selector AND 0x10 \<noteq> 0
              \<and> (defect_list_format = 0 \<or> defect_list_format = 4 \<or> defect_list_format = 5));
            supported_other_fields = (cdb ! 1 AND 0x1f = 0
              \<and> list_all (\<lambda>byte. byte = 0) (take 4 (drop 3 cdb)) \<and> cdb ! 9 = 0)
        in if \<not> supported_selector \<or> \<not> supported_other_fields
           then disk_check_condition INVALID_CDB_FIELD k
           else
             let allocation_length = unat (from_be_bytes [cdb ! 7, cdb ! 8] :: u16)
             in (complete_good (take allocation_length [0, selector, 0, 0]), k))"

definition disk_read_blocks :: "u32 \<Rightarrow> u16 \<Rightarrow> scsi_disk \<Rightarrow> scsi_command_plan \<times> scsi_disk" where
  "disk_read_blocks lba block_count k =
     (if \<not> dk_ready k then disk_check_condition NOT_READY k
      else if block_count = 0 then (complete_good [], k)
      else if dk_block_count k < unat lba + unat block_count then disk_check_condition LBA_OUT_OF_RANGE k
      else (PlanReadStorage (unat lba * unat BLOCK_BYTES) (unat block_count * unat BLOCK_BYTES), k))"

definition disk_write_blocks :: "u32 \<Rightarrow> u16 \<Rightarrow> scsi_disk \<Rightarrow> scsi_command_plan \<times> scsi_disk" where
  "disk_write_blocks lba block_count k =
     (if \<not> dk_ready k then disk_check_condition NOT_READY k
      else if block_count = 0 then (complete_good [], k)
      else if dk_block_count k < unat lba + unat block_count then disk_check_condition LBA_OUT_OF_RANGE k
      else (PlanWriteStorage (unat lba * unat BLOCK_BYTES) (unat block_count * unat BLOCK_BYTES), k))"

definition disk_transfer_6 :: "u8 list \<Rightarrow> scsi_disk \<Rightarrow> scsi_command_plan \<times> scsi_disk" where
  "disk_transfer_6 cdb k =
     (if cdb ! 0 = READ_6 then disk_read_blocks (read_6_lba cdb) (read_6_count cdb) k
      else disk_write_blocks (read_6_lba cdb) (read_6_count cdb) k)"

definition disk_execute :: "u8 list \<Rightarrow> scsi_disk \<Rightarrow> scsi_command_plan \<times> scsi_disk" where
  "disk_execute cdb k =
     (if cdb = [] then disk_check_condition INVALID_CDB_FIELD k
      else
        let opcode = cdb ! 0; short = (6 \<le> length cdb); long = (10 \<le> length cdb)
        in if opcode = TEST_UNIT_READY \<and> short then
             (if dk_ready k then (complete_good [], k) else disk_check_condition NOT_READY k)
           else if opcode = REQUEST_SENSE \<and> short then disk_request_sense (cdb ! 4) k
           else if (opcode = READ_6 \<or> opcode = WRITE_6) \<and> short then disk_transfer_6 cdb k
           else if opcode = INQUIRY \<and> short then (disk_inquiry (cdb ! 4), k)
           else if opcode = MODE_SENSE_6 \<and> short then (disk_mode_sense (cdb ! 4), k)
           else if opcode = START_STOP_UNIT \<and> short then
             (complete_good [], k\<lparr>dk_ready := (cdb ! 4 AND 1 \<noteq> 0)\<rparr>)
           else if opcode = READ_CAPACITY_10 \<and> long then disk_read_capacity k
           else if opcode = READ_10 \<and> long then disk_read_blocks (read_10_lba cdb) (read_10_count cdb) k
           else if opcode = WRITE_10 \<and> long then disk_write_blocks (read_10_lba cdb) (read_10_count cdb) k
           else if opcode = READ_DEFECT_DATA_10 \<and> long then disk_read_defect_data cdb k
           else if opcode \<in> {TEST_UNIT_READY, REQUEST_SENSE, INQUIRY, MODE_SENSE_6, START_STOP_UNIT,
               READ_CAPACITY_10, READ_6, WRITE_6, READ_10, WRITE_10, READ_DEFECT_DATA_10}
           then disk_check_condition INVALID_CDB_FIELD k
           else disk_check_condition UNSUPPORTED_OPCODE k)"

definition disk_complete_storage :: "bool \<Rightarrow> scsi_disk \<Rightarrow> scsi_status \<times> scsi_disk" where
  "disk_complete_storage succeeded k =
     (if succeeded then (ScsiGood, k) else (ScsiCheckCondition, k\<lparr>dk_sense := HOST_IO_ERROR\<rparr>))"

section \<open>The CD-ROM drive\<close>

definition INITIAL_LOGICAL_BLOCK_BYTES :: u32 where "INITIAL_LOGICAL_BLOCK_BYTES = 512"
definition SUPPORTED_LOGICAL_BLOCK_BYTES :: "u32 list" where
  "SUPPORTED_LOGICAL_BLOCK_BYTES = [INITIAL_LOGICAL_BLOCK_BYTES, 2048]"
definition STORAGE_ALIGNMENT_BYTES :: nat where "STORAGE_ALIGNMENT_BYTES = 2048"
definition TRACK_NUMBER :: u8 where "TRACK_NUMBER = 1"
definition TRACK_ADR_CONTROL :: u8 where "TRACK_ADR_CONTROL = 0x14"
definition TOC_RESPONSE_BYTES :: nat where "TOC_RESPONSE_BYTES = 12"
definition TRACK_START_MSF :: "u8 list" where "TRACK_START_MSF = [0x00, 0x00, 0x02, 0x00]"
definition TRACK_START_LBA :: "u8 list" where "TRACK_START_LBA = [0x00, 0x00, 0x00, 0x00]"
definition MODE_SELECT_6 :: u8 where "MODE_SELECT_6 = 0x15"
definition PREVENT_ALLOW_MEDIUM_REMOVAL :: u8 where "PREVENT_ALLOW_MEDIUM_REMOVAL = 0x1e"
definition READ_TOC_PMA_ATIP :: u8 where "READ_TOC_PMA_ATIP = 0x43"
definition SGI_EJECT :: u8 where "SGI_EJECT = 0xc4"
definition SGI_HD_TO_CDROM :: u8 where "SGI_HD_TO_CDROM = 0xc9"

record scsi_cdrom =
  cr_medium_bytes :: "nat option"
  cr_logical_block_bytes :: u32
  cr_started :: bool
  cr_removal_prevented :: bool
  cr_pending_unit_attention :: "sense_data option"
  cr_sense :: sense_data

definition validate_medium_size :: "nat \<Rightarrow> scsi_storage_size_error + unit" where
  "validate_medium_size storage_bytes =
     (if storage_bytes = 0 \<or> storage_bytes mod STORAGE_ALIGNMENT_BYTES \<noteq> 0
         \<or> 2 ^ 32 < storage_bytes div unat INITIAL_LOGICAL_BLOCK_BYTES
      then Inl (StorageSizeError storage_bytes)
      else Inr ())"

definition cdrom_new_empty :: scsi_cdrom where
  "cdrom_new_empty =
     \<lparr>cr_medium_bytes = None, cr_logical_block_bytes = INITIAL_LOGICAL_BLOCK_BYTES, cr_started = False,
      cr_removal_prevented = False, cr_pending_unit_attention = None, cr_sense = SENSE_NONE\<rparr>"

definition cdrom_try_new :: "nat \<Rightarrow> scsi_storage_size_error + scsi_cdrom" where
  "cdrom_try_new storage_bytes =
     (case validate_medium_size storage_bytes of
        Inl e \<Rightarrow> Inl e
      | Inr _ \<Rightarrow> Inr (cdrom_new_empty\<lparr>cr_medium_bytes := Some storage_bytes, cr_started := True\<rparr>))"

definition cdrom_check_condition :: "sense_data \<Rightarrow> scsi_cdrom \<Rightarrow> scsi_command_plan \<times> scsi_cdrom" where
  "cdrom_check_condition sense c = (PlanComplete ScsiCheckCondition [], c\<lparr>cr_sense := sense\<rparr>)"

definition parameter_list_error :: "scsi_cdrom \<Rightarrow> scsi_status \<times> scsi_cdrom" where
  "parameter_list_error c = (ScsiCheckCondition, c\<lparr>cr_sense := INVALID_PARAMETER_LIST\<rparr>)"

definition cdrom_request_sense :: "u8 \<Rightarrow> scsi_cdrom \<Rightarrow> scsi_command_plan \<times> scsi_cdrom" where
  "cdrom_request_sense allocation_length c =
     (complete_good (fixed_response (cr_sense c) allocation_length), c\<lparr>cr_sense := SENSE_NONE\<rparr>)"

definition cdrom_inquiry :: "u8 \<Rightarrow> scsi_command_plan" where
  "cdrom_inquiry allocation_length =
     complete_good (take (unat allocation_length)
       ([0x05, 0x80, 0x01, 0x01, 31, 0, 0, 0]
        @ [83, 71, 73, 45, 69, 77, 85, 32]
        @ [86, 73, 82, 84, 85, 65, 76, 32, 67, 68, 45, 82, 79, 77, 32, 32]
        @ [48, 48, 48, 49]))"

definition cdrom_mode_sense :: "scsi_cdrom \<Rightarrow> u8 \<Rightarrow> scsi_command_plan" where
  "cdrom_mode_sense c allocation_length =
     complete_good (take (unat allocation_length)
       ((replicate 9 0)[0 := 0x0b, 2 := 0x80, 3 := 8] @ drop 1 (to_be_bytes32 (cr_logical_block_bytes c))))"

definition mode_select :: "u8 list \<Rightarrow> scsi_cdrom \<Rightarrow> scsi_command_plan \<times> scsi_cdrom" where
  "mode_select cdb c =
     (if cdb ! 1 \<noteq> 0 then cdrom_check_condition INVALID_CDB_FIELD c
      else (PlanReceiveDataOut (unat (cdb ! 4)), c))"

definition complete_mode_select :: "u8 list \<Rightarrow> u8 list \<Rightarrow> scsi_cdrom \<Rightarrow> scsi_status \<times> scsi_cdrom" where
  "complete_mode_select cdb data c = (
     let valid_length = (6 \<le> length cdb \<and> unat (cdb ! 4) = length data)
     in if \<not> valid_length \<or> length data \<noteq> 12 \<or> data ! 3 \<noteq> 8 then parameter_list_error c
        else
          let logical_block_bytes = from_be_bytes [0, data ! 9, data ! 10, data ! 11];
              addresses_whole_medium = (case cr_medium_bytes c of
                  None \<Rightarrow> True
                | Some bytes \<Rightarrow>
                    if logical_block_bytes = 0 then bytes = 0 else bytes mod unat logical_block_bytes = 0)
          in if logical_block_bytes \<notin> set SUPPORTED_LOGICAL_BLOCK_BYTES \<or> \<not> addresses_whole_medium
             then parameter_list_error c
             else (ScsiGood, c\<lparr>cr_logical_block_bytes := logical_block_bytes\<rparr>))"

definition request_ejection :: "scsi_cdrom \<Rightarrow> scsi_command_plan \<times> scsi_cdrom" where
  "request_ejection c =
     (if cr_medium_bytes c = None then (complete_good [], c)
      else if cr_removal_prevented c then cdrom_check_condition MEDIUM_REMOVAL_PREVENTED c
      else (PlanEjectMedium, c))"

definition start_stop :: "u8 \<Rightarrow> scsi_cdrom \<Rightarrow> scsi_command_plan \<times> scsi_cdrom" where
  "start_stop control c = (
     let load_eject = (control AND 0x02 \<noteq> 0); start = (control AND 0x01 \<noteq> 0)
     in if \<not> load_eject then (complete_good [], c\<lparr>cr_started := start\<rparr>)
        else if start then (complete_good [], c\<lparr>cr_started := True\<rparr>)
        else request_ejection c)"

definition ready_medium_bytes :: "scsi_cdrom \<Rightarrow> (scsi_command_plan + nat) \<times> scsi_cdrom" where
  "ready_medium_bytes c =
     (case cr_medium_bytes c of
        None \<Rightarrow> (let (plan, c1) = cdrom_check_condition MEDIUM_NOT_PRESENT c in (Inl plan, c1))
      | Some medium_bytes \<Rightarrow>
          if \<not> cr_started c then (let (plan, c1) = cdrom_check_condition NOT_READY c in (Inl plan, c1))
          else (Inr medium_bytes, c))"

definition read_toc :: "u8 list \<Rightarrow> scsi_cdrom \<Rightarrow> scsi_command_plan \<times> scsi_cdrom" where
  "read_toc cdb c = (
     let fmt = cdb ! 2 AND 0x0f; starting_track = cdb ! 6
     in if fmt \<noteq> 0 \<or> \<not> (starting_track = 0 \<or> starting_track = TRACK_NUMBER)
        then cdrom_check_condition INVALID_CDB_FIELD c
        else case ready_medium_bytes c of
          (Inl plan, c1) \<Rightarrow> (plan, c1)
        | (Inr _, c1) \<Rightarrow>
            let data = [0, word_of_nat (TOC_RESPONSE_BYTES - 2), TRACK_NUMBER, TRACK_NUMBER,
                        0, TRACK_ADR_CONTROL, TRACK_NUMBER, 0]
                       @ (if cdb ! 1 AND 0x02 \<noteq> 0 then TRACK_START_MSF else TRACK_START_LBA)
            in (complete_good (take (unat (from_be_bytes [cdb ! 7, cdb ! 8] :: u16)) data), c1))"

definition prevent_allow :: "u8 list \<Rightarrow> scsi_cdrom \<Rightarrow> scsi_command_plan \<times> scsi_cdrom" where
  "prevent_allow cdb c =
     (if cdb ! 2 \<noteq> 0 \<or> cdb ! 3 \<noteq> 0 then cdrom_check_condition INVALID_CDB_FIELD c
      else (complete_good [], c\<lparr>cr_removal_prevented := (cdb ! 4 AND 1 \<noteq> 0)\<rparr>))"

text \<open>
  A division by a block size of zero panics in the code; the drive only ever holds a supported
  size.
\<close>

definition cdrom_blocks :: "nat \<Rightarrow> u32 \<Rightarrow> nat option" where
  "cdrom_blocks medium_bytes logical_block_bytes = do {
     require (logical_block_bytes \<noteq> 0);
     Some (medium_bytes div unat logical_block_bytes)
   }"

definition cdrom_read_capacity :: "scsi_cdrom \<Rightarrow> (scsi_command_plan \<times> scsi_cdrom) option" where
  "cdrom_read_capacity c =
     (case ready_medium_bytes c of
        (Inl plan, c1) \<Rightarrow> Some (plan, c1)
      | (Inr medium_bytes, c1) \<Rightarrow> do {
          blocks \<leftarrow> cdrom_blocks medium_bytes (cr_logical_block_bytes c1);
          Some (if blocks = 0 \<or> 2 ^ 32 \<le> blocks - 1 then cdrom_check_condition LBA_OUT_OF_RANGE c1
                else (complete_good (to_be_bytes32 (word_of_nat (blocks - 1))
                        @ to_be_bytes32 (cr_logical_block_bytes c1)), c1))
        })"

definition cdrom_read_blocks :: "u32 \<Rightarrow> u16 \<Rightarrow> scsi_cdrom \<Rightarrow> (scsi_command_plan \<times> scsi_cdrom) option" where
  "cdrom_read_blocks lba block_count c =
     (case ready_medium_bytes c of
        (Inl plan, c1) \<Rightarrow> Some (plan, c1)
      | (Inr medium_bytes, c1) \<Rightarrow>
          if block_count = 0 then Some (complete_good [], c1)
          else if 2 ^ 64 \<le> unat lba + unat block_count then Some (cdrom_check_condition LBA_OUT_OF_RANGE c1)
          else do {
            blocks \<leftarrow> cdrom_blocks medium_bytes (cr_logical_block_bytes c1);
            let offset = unat lba * unat (cr_logical_block_bytes c1);
            let byte_count = unat block_count * unat (cr_logical_block_bytes c1);
            Some (if blocks < unat lba + unat block_count \<or> 2 ^ 64 \<le> offset \<or> 2 ^ 64 \<le> byte_count
                  then cdrom_check_condition LBA_OUT_OF_RANGE c1
                  else (PlanReadStorage offset byte_count, c1))
          })"

definition cdrom_medium_inserted :: "nat \<Rightarrow> scsi_media_change_origin \<Rightarrow> scsi_cdrom \<Rightarrow> scsi_cdrom" where
  "cdrom_medium_inserted size_bytes origin c = (
     let c1 = c\<lparr>cr_medium_bytes := Some size_bytes, cr_started := True\<rparr>
     in if origin = ExternalChange then c1\<lparr>cr_pending_unit_attention := Some MEDIUM_CHANGED\<rparr> else c1)"

definition cdrom_medium_removed :: "scsi_media_change_origin \<Rightarrow> scsi_cdrom \<Rightarrow> scsi_cdrom" where
  "cdrom_medium_removed origin c = (
     let c1 = c\<lparr>cr_medium_bytes := None, cr_started := False\<rparr>
     in if origin = ExternalChange then c1\<lparr>cr_pending_unit_attention := Some MEDIUM_CHANGED\<rparr> else c1)"

definition cdrom_dispatch :: "u8 list \<Rightarrow> scsi_cdrom \<Rightarrow> (scsi_command_plan \<times> scsi_cdrom) option" where
  "cdrom_dispatch cdb c = (
     let opcode = cdb ! 0; short = (6 \<le> length cdb); long = (10 \<le> length cdb)
     in if opcode = TEST_UNIT_READY \<and> short then
          Some (case ready_medium_bytes c of
                  (Inr _, c1) \<Rightarrow> (complete_good [], c1) | (Inl plan, c1) \<Rightarrow> (plan, c1))
        else if opcode = REQUEST_SENSE \<and> short then Some (cdrom_request_sense (cdb ! 4) c)
        else if opcode = READ_6 \<and> short then cdrom_read_blocks (read_6_lba cdb) (read_6_count cdb) c
        else if opcode = INQUIRY \<and> short then Some (cdrom_inquiry (cdb ! 4), c)
        else if opcode = MODE_SELECT_6 \<and> short then Some (mode_select cdb c)
        else if opcode = MODE_SENSE_6 \<and> short then Some (cdrom_mode_sense c (cdb ! 4), c)
        else if opcode = START_STOP_UNIT \<and> short then Some (start_stop (cdb ! 4) c)
        else if opcode = PREVENT_ALLOW_MEDIUM_REMOVAL \<and> short then Some (prevent_allow cdb c)
        else if opcode = READ_CAPACITY_10 \<and> long then cdrom_read_capacity c
        else if opcode = READ_10 \<and> long then cdrom_read_blocks (read_10_lba cdb) (read_10_count cdb) c
        else if opcode = WRITE_10 \<and> long then Some (cdrom_check_condition WRITE_PROTECTED c)
        else if opcode = READ_TOC_PMA_ATIP \<and> long then Some (read_toc cdb c)
        else if opcode = SGI_EJECT \<and> long then Some (request_ejection c)
        else if opcode = SGI_HD_TO_CDROM \<and> long then Some (complete_good [], c)
        else if opcode \<in> {TEST_UNIT_READY, REQUEST_SENSE, INQUIRY, MODE_SELECT_6, MODE_SENSE_6,
            START_STOP_UNIT, PREVENT_ALLOW_MEDIUM_REMOVAL, READ_CAPACITY_10, READ_6, READ_10, WRITE_10,
            READ_TOC_PMA_ATIP, SGI_EJECT, SGI_HD_TO_CDROM}
        then Some (cdrom_check_condition INVALID_CDB_FIELD c)
        else Some (cdrom_check_condition UNSUPPORTED_OPCODE c))"

definition cdrom_execute :: "u8 list \<Rightarrow> scsi_cdrom \<Rightarrow> (scsi_command_plan \<times> scsi_cdrom) option" where
  "cdrom_execute cdb c =
     (if cdb = [] then Some (cdrom_check_condition INVALID_CDB_FIELD c)
      else case cr_pending_unit_attention c of
        Some attention \<Rightarrow>
          if cdb ! 0 = INQUIRY \<or> cdb ! 0 = REQUEST_SENSE then cdrom_dispatch cdb c
          else Some (cdrom_check_condition attention (c\<lparr>cr_pending_unit_attention := None\<rparr>))
      | None \<Rightarrow> cdrom_dispatch cdb c)"

definition cdrom_complete_storage :: "bool \<Rightarrow> scsi_cdrom \<Rightarrow> scsi_status \<times> scsi_cdrom" where
  "cdrom_complete_storage succeeded c =
     (if succeeded then (ScsiGood, c) else (ScsiCheckCondition, c\<lparr>cr_sense := HOST_IO_ERROR\<rparr>))"

definition cdrom_complete_data_out :: "u8 list \<Rightarrow> u8 list \<Rightarrow> scsi_cdrom \<Rightarrow> scsi_status \<times> scsi_cdrom" where
  "cdrom_complete_data_out cdb data c =
     (if cdb \<noteq> [] \<and> cdb ! 0 = MODE_SELECT_6 then complete_mode_select cdb data c
      else (ScsiCheckCondition, c\<lparr>cr_sense := INVALID_CDB_FIELD\<rparr>))"

definition accepts_cdrom_snapshot :: "scsi_cdrom \<Rightarrow> scsi_cdrom \<Rightarrow> bool" where
  "accepts_cdrom_snapshot c state \<longleftrightarrow>
     cr_logical_block_bytes state \<in> set SUPPORTED_LOGICAL_BLOCK_BYTES \<and>
     (case cr_medium_bytes state of
        None \<Rightarrow> True
      | Some medium_bytes \<Rightarrow>
          cr_medium_bytes c = cr_medium_bytes state
          \<and> medium_bytes mod unat (cr_logical_block_bytes state) = 0)"

section \<open>Targets\<close>

datatype scsi_target = DiskTarget scsi_disk | CdromTarget scsi_cdrom

definition target_backing_requirement :: "scsi_target \<Rightarrow> scsi_backing_requirement" where
  "target_backing_requirement t =
     (case t of DiskTarget k \<Rightarrow> RequiresFixed (disk_storage_size_bytes k) | CdromTarget _ \<Rightarrow> RequiresRemovable)"

definition target_removable_media_state :: "scsi_target \<Rightarrow> scsi_removable_media_state option" where
  "target_removable_media_state t =
     (case t of
        DiskTarget _ \<Rightarrow> None
      | CdromTarget c \<Rightarrow> Some \<lparr>rm_kind = OpticalDisc, rm_medium_size_bytes = cr_medium_bytes c,
                               rm_removal_prevented = cr_removal_prevented c\<rparr>)"

definition target_execute :: "u8 list \<Rightarrow> scsi_target \<Rightarrow> (scsi_command_plan \<times> scsi_target) option" where
  "target_execute cdb t =
     (case t of
        DiskTarget k \<Rightarrow> Some (map_prod id DiskTarget (disk_execute cdb k))
      | CdromTarget c \<Rightarrow> map_option (map_prod id CdromTarget) (cdrom_execute cdb c))"

definition target_complete_storage :: "bool \<Rightarrow> scsi_target \<Rightarrow> scsi_status \<times> scsi_target" where
  "target_complete_storage succeeded t =
     (case t of
        DiskTarget k \<Rightarrow> map_prod id DiskTarget (disk_complete_storage succeeded k)
      | CdromTarget c \<Rightarrow> map_prod id CdromTarget (cdrom_complete_storage succeeded c))"

definition target_complete_data_out :: "u8 list \<Rightarrow> u8 list \<Rightarrow> scsi_target \<Rightarrow> scsi_status \<times> scsi_target" where
  "target_complete_data_out cdb data t =
     (case t of
        DiskTarget k \<Rightarrow> (ScsiCheckCondition, DiskTarget k)
      | CdromTarget c \<Rightarrow> map_prod id CdromTarget (cdrom_complete_data_out cdb data c))"

definition target_accepts_snapshot :: "scsi_target \<Rightarrow> scsi_target \<Rightarrow> bool" where
  "target_accepts_snapshot t snapshot \<longleftrightarrow>
     (case (t, snapshot) of
        (DiskTarget k, DiskTarget state) \<Rightarrow> dk_block_count state = dk_block_count k
      | (CdromTarget c, CdromTarget state) \<Rightarrow> accepts_cdrom_snapshot c state
      | _ \<Rightarrow> False)"

definition target_restore_snapshot :: "scsi_target \<Rightarrow> scsi_target \<Rightarrow> bool \<times> scsi_target" where
  "target_restore_snapshot snapshot t =
     (if target_accepts_snapshot t snapshot then (True, snapshot) else (False, t))"

definition snapshot_medium_size_bytes :: "scsi_target \<Rightarrow> nat option" where
  "snapshot_medium_size_bytes t =
     (case t of DiskTarget _ \<Rightarrow> None | CdromTarget c \<Rightarrow> cr_medium_bytes c)"

end
