(* ===== verification/Scsi_Bus.thy ===== *)
theory Scsi_Bus
  imports Scsi_Target
begin

text \<open>
  The SCSI bus of \<^verbatim>\<open>se_device/src/scsi.rs\<close>: target and storage attachments,
  the connection with its information phases and messages, data transactions, removable media and
  snapshots. The storage objects, which implement the trait \<open>StorageMedium\<close> of
  \<^verbatim>\<open>se_core/src/storage.rs\<close> over host files, are a parameter; so are the
  callbacks that accept and provide the bytes of a transfer, with the caller's state they change.
  None is a panic.
\<close>

section \<open>Storage, backing and attachments\<close>

record 'm storage_ops =
  so_size_bytes :: "'m \<Rightarrow> nat"
  so_read_exact_at :: "nat \<Rightarrow> nat \<Rightarrow> 'm \<Rightarrow> u8 list option \<times> 'm"
  so_write_all_at :: "nat \<Rightarrow> u8 list \<Rightarrow> 'm \<Rightarrow> bool \<times> 'm"

datatype storage_access = StorageReadOnly | StorageReadWrite

definition TARGET_COUNT :: nat where "TARGET_COUNT = 8"
definition LUN_COUNT :: nat where "LUN_COUNT = 8"
definition TARGET_SLOT_COUNT :: nat where "TARGET_SLOT_COUNT = TARGET_COUNT * LUN_COUNT"

datatype 'm scsi_backing = FixedBacking 'm | RemovableBacking "'m option"

definition backing_medium_size_bytes :: "'m storage_ops \<Rightarrow> 'm scsi_backing \<Rightarrow> nat option" where
  "backing_medium_size_bytes so b =
     (case b of FixedBacking m \<Rightarrow> Some (so_size_bytes so m)
      | RemovableBacking m \<Rightarrow> map_option (so_size_bytes so) m)"

definition backing_medium :: "'m scsi_backing \<Rightarrow> 'm option" where
  "backing_medium b = (case b of FixedBacking m \<Rightarrow> Some m | RemovableBacking m \<Rightarrow> m)"

definition backing_put :: "'m \<Rightarrow> 'm scsi_backing \<Rightarrow> 'm scsi_backing" where
  "backing_put m b = (case b of FixedBacking _ \<Rightarrow> FixedBacking m | RemovableBacking _ \<Rightarrow> RemovableBacking (Some m))"

record 'm target_attachment =
  ta_target :: scsi_target
  ta_backing :: "'m scsi_backing"

section \<open>Connections and transactions\<close>

datatype scsi_data_direction = DirectionIn | DirectionOut

datatype scsi_phase = PhaseDataOut | PhaseDataIn | PhaseCommand | PhaseStatus | PhaseMessageOut | PhaseMessageIn

definition phase_bits :: "scsi_phase \<Rightarrow> u8" where
  "phase_bits p = (case p of PhaseDataOut \<Rightarrow> 0 | PhaseDataIn \<Rightarrow> 1 | PhaseCommand \<Rightarrow> 2 | PhaseStatus \<Rightarrow> 3
     | PhaseMessageOut \<Rightarrow> 6 | PhaseMessageIn \<Rightarrow> 7)"

definition phase_input :: "scsi_phase \<Rightarrow> bool" where
  "phase_input p \<longleftrightarrow> phase_bits p AND 1 \<noteq> 0"

record scsi_connection =
  cn_target_id :: u8
  cn_lun :: u8
  cn_identified :: bool
  cn_phase :: scsi_phase
  cn_return_phase :: scsi_phase
  cn_cdb :: "u8 list"
  cn_message_out :: "u8 list"
  cn_message_in :: "u8 list"
  cn_message_offset :: nat
  cn_status :: scsi_status

datatype scsi_transfer_result =
    TransferRejected
  | TransferMore nat nat
  | TransferComplete nat scsi_status

datatype scsi_transfer =
    ImmediateDataIn "u8 list" nat scsi_status
  | StorageDataIn nat nat
  | StorageDataOut nat nat
  | TargetDataOut "u8 list" "u8 list" nat

record scsi_transaction =
  tr_target_slot :: nat
  tr_transfer :: scsi_transfer

record 'm scsi_bus =
  sb_targets :: "'m target_attachment option list"
  sb_active_transaction :: "scsi_transaction option"
  sb_connection :: "scsi_connection option"

datatype scsi_bus_error =
    BusInvalidAddress u8 u8
  | TransactionActive u8 u8
  | NoDataInTransaction
  | NoDataOutTransaction
  | EmptyDataBuffer
  | InvalidPhase

datatype scsi_command_start =
    SelectionTimeout
  | StartComplete scsi_status
  | StartDataIn nat
  | StartDataOut nat

definition scsi_bus_new :: "'m scsi_bus" where
  "scsi_bus_new =
     \<lparr>sb_targets = replicate TARGET_SLOT_COUNT None, sb_active_transaction = None, sb_connection = None\<rparr>"

definition target_slot :: "u8 \<Rightarrow> u8 \<Rightarrow> nat option" where
  "target_slot target_id lun =
     (if unat target_id < TARGET_COUNT \<and> unat lun < LUN_COUNT
      then Some (unat target_id * LUN_COUNT + unat lun) else None)"

definition address_for_slot :: "nat \<Rightarrow> u8 \<times> u8" where
  "address_for_slot slot = (word_of_nat (slot div LUN_COUNT), word_of_nat (slot mod LUN_COUNT))"

definition scsi_cdb_length :: "u8 \<Rightarrow> nat" where
  "scsi_cdb_length opcode =
     (if opcode = 0xc4 \<or> opcode = 0xc9 then 10
      else if drop_bit 5 opcode = 0 then 6
      else if drop_bit 5 opcode = 1 \<or> drop_bit 5 opcode = 2 then 10
      else if drop_bit 5 opcode = 4 then 16
      else if drop_bit 5 opcode = 5 then 12
      else 6)"

definition slot_attachment :: "'m scsi_bus \<Rightarrow> nat \<Rightarrow> 'm target_attachment option option" where
  "slot_attachment b slot = get_at (sb_targets b) slot"

definition put_attachment :: "nat \<Rightarrow> 'm target_attachment \<Rightarrow> 'm scsi_bus \<Rightarrow> 'm scsi_bus" where
  "put_attachment slot a b = b\<lparr>sb_targets := (sb_targets b)[slot := Some a]\<rparr>"

definition target_present :: "u8 \<Rightarrow> 'm scsi_bus \<Rightarrow> bool option" where
  "target_present target_id b =
     (if 8 \<le> target_id then Some False
      else do {
        require (unat target_id * 8 + 8 \<le> length (sb_targets b));
        Some (list_ex (\<lambda>lun. sb_targets b ! (unat target_id * 8 + lun) \<noteq> None) [0..<8])
      })"

definition scsi_select :: "u8 \<Rightarrow> bool \<Rightarrow> 'm scsi_bus \<Rightarrow> ((scsi_bus_error + bool) \<times> 'm scsi_bus) option" where
  "scsi_select target_id attention b =
     (if sb_connection b \<noteq> None \<or> sb_active_transaction b \<noteq> None then Some (Inl InvalidPhase, b)
      else do {
        present \<leftarrow> target_present target_id b;
        Some (if \<not> present then (Inr False, b)
              else (Inr True, b\<lparr>sb_connection := Some
                \<lparr>cn_target_id = target_id, cn_lun = 0, cn_identified = False,
                 cn_phase = (if attention then PhaseMessageOut else PhaseCommand),
                 cn_return_phase = PhaseCommand, cn_cdb = [], cn_message_out = [], cn_message_in = [],
                 cn_message_offset = 0, cn_status = ScsiGood\<rparr>\<rparr>))
      })"

definition scsi_phase_of :: "'m scsi_bus \<Rightarrow> scsi_phase option" where
  "scsi_phase_of b = map_option cn_phase (sb_connection b)"

definition connected_address :: "'m scsi_bus \<Rightarrow> (u8 \<times> u8) option" where
  "connected_address b = map_option (\<lambda>c. (cn_target_id c, cn_lun c)) (sb_connection b)"

definition cancel_transaction :: "'m scsi_bus \<Rightarrow> 'm scsi_bus" where
  "cancel_transaction b = b\<lparr>sb_active_transaction := None, sb_connection := None\<rparr>"

definition scsi_set_status :: "scsi_status \<Rightarrow> 'm scsi_bus \<Rightarrow> 'm scsi_bus" where
  "scsi_set_status status b =
     (case sb_connection b of
        Some c \<Rightarrow> b\<lparr>sb_connection := Some (c\<lparr>cn_status := status, cn_phase := PhaseStatus\<rparr>)\<rparr>
      | None \<Rightarrow> b)"

definition observe_transfer_result :: "scsi_transfer_result \<Rightarrow> 'm scsi_bus \<Rightarrow> 'm scsi_bus" where
  "observe_transfer_result result b =
     (case result of TransferComplete _ status \<Rightarrow> scsi_set_status status b | _ \<Rightarrow> b)"

definition active_address :: "'m scsi_bus \<Rightarrow> (u8 \<times> u8) option" where
  "active_address b = map_option (address_for_slot \<circ> tr_target_slot) (sb_active_transaction b)"

definition active_data_direction :: "'m scsi_bus \<Rightarrow> scsi_data_direction option" where
  "active_data_direction b =
     map_option (\<lambda>t. case tr_transfer t of
        ImmediateDataIn _ _ _ \<Rightarrow> DirectionIn | StorageDataIn _ _ \<Rightarrow> DirectionIn
      | StorageDataOut _ _ \<Rightarrow> DirectionOut | TargetDataOut _ _ _ \<Rightarrow> DirectionOut) (sb_active_transaction b)"

definition active_transfer :: "'m scsi_bus \<Rightarrow> (nat \<times> scsi_transfer) option" where
  "active_transfer b = map_option (\<lambda>t. (tr_target_slot t, tr_transfer t)) (sb_active_transaction b)"

section \<open>Commands\<close>

definition complete_target_storage :: "nat \<Rightarrow> bool \<Rightarrow> 'm scsi_bus \<Rightarrow> (scsi_status \<times> 'm scsi_bus) option" where
  "complete_target_storage slot succeeded b = do {
     attachment \<leftarrow> slot_attachment b slot;
     Some (case attachment of
             None \<Rightarrow> (ScsiCheckCondition, b)
           | Some a \<Rightarrow>
               let (status, t) = target_complete_storage succeeded (ta_target a)
               in (status, put_attachment slot (a\<lparr>ta_target := t\<rparr>) b))
   }"

definition start_storage_transfer ::
  "'m storage_ops \<Rightarrow> nat \<Rightarrow> nat \<Rightarrow> nat \<Rightarrow> scsi_data_direction \<Rightarrow> 'm scsi_bus \<Rightarrow>
   (scsi_command_start \<times> 'm scsi_bus) option" where
  "start_storage_transfer so slot offset byte_count direction b =
     (if byte_count = 0 then
        map_option (map_prod StartComplete id) (complete_target_storage slot True b)
      else do {
        attachment \<leftarrow> slot_attachment b slot;
        let range_is_valid = (offset + byte_count < 2 ^ 64 \<and>
              (case attachment of
                 None \<Rightarrow> False
               | Some a \<Rightarrow> (case backing_medium_size_bytes so (ta_backing a) of
                   None \<Rightarrow> False | Some bytes \<Rightarrow> offset + byte_count \<le> bytes)));
        if \<not> range_is_valid then map_option (map_prod StartComplete id) (complete_target_storage slot False b)
        else Some
          (case direction of
             DirectionIn \<Rightarrow> (StartDataIn byte_count,
               b\<lparr>sb_active_transaction := Some \<lparr>tr_target_slot = slot, tr_transfer = StorageDataIn offset byte_count\<rparr>\<rparr>)
           | DirectionOut \<Rightarrow> (StartDataOut byte_count,
               b\<lparr>sb_active_transaction := Some \<lparr>tr_target_slot = slot, tr_transfer = StorageDataOut offset byte_count\<rparr>\<rparr>))
      })"

definition eject_guest_medium :: "nat \<Rightarrow> 'm scsi_bus \<Rightarrow> (scsi_command_start \<times> 'm scsi_bus) option" where
  "eject_guest_medium slot b = do {
     attachment \<leftarrow> slot_attachment b slot;
     Some (case attachment of
             None \<Rightarrow> (StartComplete ScsiCheckCondition, b)
           | Some a \<Rightarrow>
               (case ta_backing a of
                  FixedBacking _ \<Rightarrow> (StartComplete ScsiCheckCondition, b)
                | RemovableBacking None \<Rightarrow> (StartComplete ScsiGood, b)
                | RemovableBacking (Some _) \<Rightarrow>
                    (StartComplete ScsiGood, put_attachment slot
                       (a\<lparr>ta_backing := RemovableBacking None,
                          ta_target := (case ta_target a of
                             CdromTarget c \<Rightarrow> CdromTarget (cdrom_medium_removed GuestCommand c)
                           | DiskTarget k \<Rightarrow> DiskTarget k)\<rparr>) b)))
   }"

definition carry_out_plan ::
  "'m storage_ops \<Rightarrow> nat \<Rightarrow> u8 list \<Rightarrow> 'm target_attachment \<Rightarrow> scsi_command_plan \<Rightarrow> 'm scsi_bus \<Rightarrow>
   (scsi_command_start \<times> 'm scsi_bus) option" where
  "carry_out_plan so slot cdb a plan b =
     (case plan of
        PlanComplete status data_in \<Rightarrow>
          if data_in = [] then Some (StartComplete status, b)
          else Some (StartDataIn (length data_in),
            b\<lparr>sb_active_transaction := Some \<lparr>tr_target_slot = slot, tr_transfer = ImmediateDataIn data_in 0 status\<rparr>\<rparr>)
      | PlanReadStorage offset byte_count \<Rightarrow> start_storage_transfer so slot offset byte_count DirectionIn b
      | PlanWriteStorage offset byte_count \<Rightarrow> start_storage_transfer so slot offset byte_count DirectionOut b
      | PlanReceiveDataOut byte_count \<Rightarrow>
          if byte_count = 0 then
            let (status, t) = target_complete_data_out cdb [] (ta_target a)
            in Some (StartComplete status, put_attachment slot (a\<lparr>ta_target := t\<rparr>) b)
          else Some (StartDataOut byte_count,
            b\<lparr>sb_active_transaction := Some \<lparr>tr_target_slot = slot, tr_transfer = TargetDataOut cdb [] byte_count\<rparr>\<rparr>)
      | PlanEjectMedium \<Rightarrow> eject_guest_medium slot b)"

definition start_command ::
  "'m storage_ops \<Rightarrow> u8 \<Rightarrow> u8 \<Rightarrow> u8 list \<Rightarrow> 'm scsi_bus \<Rightarrow>
   ((scsi_bus_error + scsi_command_start) \<times> 'm scsi_bus) option" where
  "start_command so target_id lun cdb b =
     (case target_slot target_id lun of
        None \<Rightarrow> Some (Inl (BusInvalidAddress target_id lun), b)
      | Some slot \<Rightarrow>
          (case active_address b of
             Some (active_id, active_lun) \<Rightarrow> Some (Inl (TransactionActive active_id active_lun), b)
           | None \<Rightarrow> do {
               attachment \<leftarrow> slot_attachment b slot;
               case attachment of
                 None \<Rightarrow> Some (Inr SelectionTimeout, b)
               | Some a \<Rightarrow> do {
                   (plan, t) \<leftarrow> target_execute cdb (ta_target a);
                   let a = a\<lparr>ta_target := t\<rparr>;
                   (start, b) \<leftarrow> carry_out_plan so slot cdb a plan (put_attachment slot a b);
                   Some (Inr start, b)
                 }
             }))"

section \<open>Data transfers\<close>

type_synonym 'c accept = "u8 list \<Rightarrow> 'c \<Rightarrow> (bool \<times> 'c) option"
type_synonym 'c provide = "nat \<Rightarrow> 'c \<Rightarrow> (u8 list option \<times> 'c) option"
type_synonym ('m, 'c) transfer_outcome =
  "((scsi_bus_error + scsi_transfer_result) \<times> 'm scsi_bus \<times> 'c) option"

definition transfer_immediate_data_in :: "nat \<Rightarrow> 'c accept \<Rightarrow> 'm scsi_bus \<Rightarrow> 'c \<Rightarrow> ('m, 'c) transfer_outcome" where
  "transfer_immediate_data_in maximum_bytes accept b caller =
     (case active_transfer b of
        Some (slot, ImmediateDataIn bytes next_offset final_status) \<Rightarrow> do {
          let stop = min (next_offset + maximum_bytes) (length bytes);
          require (next_offset \<le> stop);
          let transferred = stop - next_offset;
          (accepted, caller) \<leftarrow> accept (take transferred (drop next_offset bytes)) caller;
          Some (if \<not> accepted then (Inr TransferRejected, b, caller)
                else if stop = length bytes
                then (Inr (TransferComplete transferred final_status), b\<lparr>sb_active_transaction := None\<rparr>, caller)
                else (Inr (TransferMore transferred (length bytes - stop)),
                  b\<lparr>sb_active_transaction := Some \<lparr>tr_target_slot = slot,
                      tr_transfer = ImmediateDataIn bytes stop final_status\<rparr>\<rparr>, caller))
        }
      | _ \<Rightarrow> Some (Inl NoDataInTransaction, b, caller))"

definition read_medium ::
  "'m storage_ops \<Rightarrow> nat \<Rightarrow> nat \<Rightarrow> nat \<Rightarrow> 'm scsi_bus \<Rightarrow> (u8 list option \<times> 'm scsi_bus) option" where
  "read_medium so slot offset byte_count b = do {
     attachment \<leftarrow> slot_attachment b slot;
     Some (case attachment of
             None \<Rightarrow> (None, b)
           | Some a \<Rightarrow>
               (case backing_medium (ta_backing a) of
                  None \<Rightarrow> (None, b)
                | Some m \<Rightarrow>
                    let (bytes, m1) = so_read_exact_at so offset byte_count m
                    in (bytes, put_attachment slot (a\<lparr>ta_backing := backing_put m1 (ta_backing a)\<rparr>) b)))
   }"

definition write_medium ::
  "'m storage_ops \<Rightarrow> nat \<Rightarrow> nat \<Rightarrow> u8 list \<Rightarrow> 'm scsi_bus \<Rightarrow> (bool \<times> 'm scsi_bus) option" where
  "write_medium so slot offset bytes b = do {
     attachment \<leftarrow> slot_attachment b slot;
     Some (case attachment of
             None \<Rightarrow> (False, b)
           | Some a \<Rightarrow>
               (case backing_medium (ta_backing a) of
                  None \<Rightarrow> (False, b)
                | Some m \<Rightarrow>
                    let (written, m1) = so_write_all_at so offset bytes m
                    in (written, put_attachment slot (a\<lparr>ta_backing := backing_put m1 (ta_backing a)\<rparr>) b)))
   }"

definition transfer_storage_data_in ::
  "'m storage_ops \<Rightarrow> nat \<Rightarrow> 'c accept \<Rightarrow> 'm scsi_bus \<Rightarrow> 'c \<Rightarrow> ('m, 'c) transfer_outcome" where
  "transfer_storage_data_in so maximum_bytes accept b caller =
     (case active_transfer b of
        Some (slot, StorageDataIn next_offset active_remaining) \<Rightarrow> do {
          let byte_count = min maximum_bytes active_remaining;
          (bytes, b) \<leftarrow> read_medium so slot next_offset byte_count b;
          case bytes of
            None \<Rightarrow> do {
              (status, b) \<leftarrow> complete_target_storage slot False (b\<lparr>sb_active_transaction := None\<rparr>);
              Some (Inr (TransferComplete 0 status), b, caller)
            }
          | Some bytes \<Rightarrow> do {
              (accepted, caller) \<leftarrow> accept bytes caller;
              if \<not> accepted then Some (Inr TransferRejected, b, caller)
              else
                let remaining = active_remaining - byte_count
                in if remaining = 0 then do {
                     (status, b) \<leftarrow> complete_target_storage slot True (b\<lparr>sb_active_transaction := None\<rparr>);
                     Some (Inr (TransferComplete byte_count status), b, caller)
                   }
                   else do {
                     require (next_offset + byte_count < 2 ^ 64);
                     Some (Inr (TransferMore byte_count remaining),
                       b\<lparr>sb_active_transaction := Some \<lparr>tr_target_slot = slot,
                           tr_transfer = StorageDataIn (next_offset + byte_count) remaining\<rparr>\<rparr>, caller)
                   }
            }
        }
      | _ \<Rightarrow> Some (Inl NoDataInTransaction, b, caller))"

definition transfer_storage_data_out ::
  "'m storage_ops \<Rightarrow> nat \<Rightarrow> 'c provide \<Rightarrow> 'm scsi_bus \<Rightarrow> 'c \<Rightarrow> ('m, 'c) transfer_outcome" where
  "transfer_storage_data_out so maximum_bytes provide b caller =
     (case active_transfer b of
        Some (slot, StorageDataOut next_offset active_remaining) \<Rightarrow> do {
          let byte_count = min maximum_bytes active_remaining;
          (provided, caller) \<leftarrow> provide byte_count caller;
          case provided of
            None \<Rightarrow> Some (Inr TransferRejected, b, caller)
          | Some bytes \<Rightarrow> do {
              (written, b) \<leftarrow> write_medium so slot next_offset bytes b;
              if \<not> written then do {
                (status, b) \<leftarrow> complete_target_storage slot False (b\<lparr>sb_active_transaction := None\<rparr>);
                Some (Inr (TransferComplete 0 status), b, caller)
              }
              else
                let remaining = active_remaining - byte_count
                in if remaining = 0 then do {
                     (status, b) \<leftarrow> complete_target_storage slot True (b\<lparr>sb_active_transaction := None\<rparr>);
                     Some (Inr (TransferComplete byte_count status), b, caller)
                   }
                   else do {
                     require (next_offset + byte_count < 2 ^ 64);
                     Some (Inr (TransferMore byte_count remaining),
                       b\<lparr>sb_active_transaction := Some \<lparr>tr_target_slot = slot,
                           tr_transfer = StorageDataOut (next_offset + byte_count) remaining\<rparr>\<rparr>, caller)
                   }
            }
        }
      | _ \<Rightarrow> Some (Inl NoDataOutTransaction, b, caller))"

definition transfer_target_data_out :: "nat \<Rightarrow> 'c provide \<Rightarrow> 'm scsi_bus \<Rightarrow> 'c \<Rightarrow> ('m, 'c) transfer_outcome" where
  "transfer_target_data_out maximum_bytes provide b caller =
     (case active_transfer b of
        Some (slot, TargetDataOut cdb received active_remaining) \<Rightarrow> do {
          let byte_count = min maximum_bytes active_remaining;
          (provided, caller) \<leftarrow> provide byte_count caller;
          case provided of
            None \<Rightarrow> Some (Inr TransferRejected, b, caller)
          | Some bytes \<Rightarrow>
              let remaining = active_remaining - byte_count
              in if remaining \<noteq> 0
                 then Some (Inr (TransferMore byte_count remaining),
                   b\<lparr>sb_active_transaction := Some \<lparr>tr_target_slot = slot,
                       tr_transfer = TargetDataOut cdb (received @ bytes) remaining\<rparr>\<rparr>, caller)
                 else do {
                   attachment \<leftarrow> slot_attachment b slot;
                   let b = b\<lparr>sb_active_transaction := None\<rparr>;
                   Some (case attachment of
                       None \<Rightarrow> (Inr (TransferComplete byte_count ScsiCheckCondition), b, caller)
                     | Some a \<Rightarrow>
                         let (status, t) = target_complete_data_out cdb (received @ bytes) (ta_target a)
                         in (Inr (TransferComplete byte_count status),
                             put_attachment slot (a\<lparr>ta_target := t\<rparr>) b, caller))
                 }
        }
      | _ \<Rightarrow> Some (Inl NoDataOutTransaction, b, caller))"

definition transfer_data_in ::
  "'m storage_ops \<Rightarrow> nat \<Rightarrow> 'c accept \<Rightarrow> 'm scsi_bus \<Rightarrow> 'c \<Rightarrow> ('m, 'c) transfer_outcome" where
  "transfer_data_in so maximum_bytes accept b caller =
     (if maximum_bytes = 0 then Some (Inl EmptyDataBuffer, b, caller)
      else case sb_active_transaction b of
        None \<Rightarrow> Some (Inl NoDataInTransaction, b, caller)
      | Some t \<Rightarrow>
          (case tr_transfer t of
             ImmediateDataIn _ _ _ \<Rightarrow> transfer_immediate_data_in maximum_bytes accept b caller
           | StorageDataIn _ _ \<Rightarrow> transfer_storage_data_in so maximum_bytes accept b caller
           | _ \<Rightarrow> Some (Inl NoDataInTransaction, b, caller)))"

definition transfer_data_out ::
  "'m storage_ops \<Rightarrow> nat \<Rightarrow> 'c provide \<Rightarrow> 'm scsi_bus \<Rightarrow> 'c \<Rightarrow> ('m, 'c) transfer_outcome" where
  "transfer_data_out so maximum_bytes provide b caller =
     (if maximum_bytes = 0 then Some (Inl EmptyDataBuffer, b, caller)
      else case sb_active_transaction b of
        None \<Rightarrow> Some (Inl NoDataOutTransaction, b, caller)
      | Some t \<Rightarrow>
          (case tr_transfer t of
             StorageDataOut _ _ \<Rightarrow> transfer_storage_data_out so maximum_bytes provide b caller
           | TargetDataOut _ _ _ \<Rightarrow> transfer_target_data_out maximum_bytes provide b caller
           | _ \<Rightarrow> Some (Inl NoDataOutTransaction, b, caller)))"

end
