(* ===== verification/Scsi_Phases.thy ===== *)
theory Scsi_Phases
  imports Scsi_Bus
begin

text \<open>
  The information phases of the SCSI bus, \<^verbatim>\<open>se_device/src/scsi.rs\<close>: message and
  command bytes, data bytes, status and command complete, acknowledgement and attention.
\<close>

section \<open>Messages\<close>

record message_reading =
  mr_lun :: u8
  mr_identified :: bool
  mr_response :: "u8 list"

function read_messages :: "u8 list \<Rightarrow> message_reading \<Rightarrow> message_reading" where
  "read_messages [] r = r"
| "read_messages (v # rest) r =
     (if v AND 0x80 \<noteq> 0 then read_messages rest (r\<lparr>mr_lun := v AND 7, mr_identified := True\<rparr>)
      else if v = 1 \<and> 4 \<le> length rest \<and> rest ! 0 = 3 \<and> rest ! 1 = 1
      then read_messages (drop 4 rest) (r\<lparr>mr_response := mr_response r @ [1, 3, 1, rest ! 2, 0]\<rparr>)
      else if v = 7 \<or> v = 8 then read_messages rest r
      else r\<lparr>mr_response := mr_response r @ [7]\<rparr>)"
  by pat_completeness auto
termination by (relation "measure (length \<circ> fst)") auto

definition finish_message_out :: "'m scsi_bus \<Rightarrow> 'm scsi_bus option" where
  "finish_message_out b = do {
     c \<leftarrow> sb_connection b;
     let bytes = cn_message_out c;
     let c = c\<lparr>cn_message_out := []\<rparr>;
     if bytes = [6] then Some (cancel_transaction b)
     else
       let r = read_messages bytes \<lparr>mr_lun = cn_lun c, mr_identified = cn_identified c, mr_response = []\<rparr>;
           c = c\<lparr>cn_lun := mr_lun r, cn_identified := mr_identified r\<rparr>
       in Some (b\<lparr>sb_connection := Some
            (if mr_response r = [] then c\<lparr>cn_phase := cn_return_phase c\<rparr>
             else c\<lparr>cn_message_in := mr_response r, cn_message_offset := 0, cn_phase := PhaseMessageIn\<rparr>)\<rparr>)
   }"

section \<open>Commands of the connected target\<close>

definition set_phase :: "scsi_phase \<Rightarrow> 'm scsi_bus \<Rightarrow> 'm scsi_bus option" where
  "set_phase phase b =
     map_option (\<lambda>c. b\<lparr>sb_connection := Some (c\<lparr>cn_phase := phase\<rparr>)\<rparr>) (sb_connection b)"

definition missing_lun_data :: "u8 list \<Rightarrow> u8 list option option" where
  "missing_lun_data cdb = do {
     opcode \<leftarrow> get_at cdb 0;
     if opcode = 0x12 then do {
       len \<leftarrow> get_at cdb 4;
       Some (Some (take (unat len) ((replicate 36 0)[0 := 0x7f, 4 := 31])))
     }
     else if opcode = 0x03 then do {
       len \<leftarrow> get_at cdb 4;
       Some (Some (fixed_response (sense_data_new 5 0x25 0) len))
     }
     else Some None
   }"

definition start_missing_lun_response :: "u8 list \<Rightarrow> 'm scsi_bus \<Rightarrow> 'm scsi_bus option" where
  "start_missing_lun_response cdb b = do {
     c \<leftarrow> sb_connection b;
     response \<leftarrow> missing_lun_data cdb;
     case response of
       None \<Rightarrow> Some (scsi_set_status ScsiCheckCondition b)
     | Some bytes \<Rightarrow>
         if bytes = [] then Some (scsi_set_status ScsiGood b)
         else do {
           let first = unat (cn_target_id c) * 8;
           require (first + 8 \<le> length (sb_targets b));
           slot \<leftarrow> find (\<lambda>slot. sb_targets b ! slot \<noteq> None) [first..<first + 8];
           set_phase PhaseDataIn (b\<lparr>sb_active_transaction := Some
             \<lparr>tr_target_slot = slot, tr_transfer = ImmediateDataIn bytes 0 ScsiGood\<rparr>\<rparr>)
         }
   }"

definition execute_connected_command ::
  "'m storage_ops \<Rightarrow> 'm scsi_bus \<Rightarrow> ((scsi_bus_error + unit) \<times> 'm scsi_bus) option" where
  "execute_connected_command so b = do {
     c \<leftarrow> sb_connection b;
     first \<leftarrow> get_at (cn_cdb c) 0;
     c \<leftarrow> (if \<not> cn_identified c \<and> drop_bit 5 first = 0
          then map_option (\<lambda>second. c\<lparr>cn_lun := drop_bit 5 second\<rparr>) (get_at (cn_cdb c) 1)
          else Some c);
     let cdb = cn_cdb c;
     (result, b) \<leftarrow> start_command so (cn_target_id c) (cn_lun c) cdb (b\<lparr>sb_connection := Some c\<rparr>);
     case result of
       Inl e \<Rightarrow> Some (Inl e, b)
     | Inr start \<Rightarrow> map_option (\<lambda>b. (Inr (), b))
         (case start of
            StartComplete status \<Rightarrow> Some (scsi_set_status status b)
          | StartDataIn _ \<Rightarrow> set_phase PhaseDataIn b
          | StartDataOut _ \<Rightarrow> set_phase PhaseDataOut b
          | SelectionTimeout \<Rightarrow> start_missing_lun_response cdb b)
   }"

section \<open>Information bytes\<close>

definition accept_byte :: "u8 option accept" where
  "accept_byte bytes caller = map_option (\<lambda>v. (True, Some v)) (get_at bytes 0)"

definition provide_byte :: "u8 \<Rightarrow> unit provide" where
  "provide_byte v n caller = map_option (\<lambda>bytes. (Some bytes, ())) (set_at (replicate n 0) 0 v)"

definition moved_one_byte :: "scsi_transfer_result \<Rightarrow> bool" where
  "moved_one_byte result =
     (case result of TransferMore t _ \<Rightarrow> t = 1 | TransferComplete t _ \<Rightarrow> t = 1 | TransferRejected \<Rightarrow> False)"

definition write_information ::
  "'m storage_ops \<Rightarrow> u8 \<Rightarrow> bool \<Rightarrow> 'm scsi_bus \<Rightarrow> ((scsi_bus_error + bool) \<times> 'm scsi_bus) option" where
  "write_information so v is_last b =
     (case sb_connection b of
        None \<Rightarrow> Some (Inl InvalidPhase, b)
      | Some c \<Rightarrow>
          (case cn_phase c of
             PhaseMessageOut \<Rightarrow>
               if length (cn_message_out c) = 257 then Some (Inl InvalidPhase, b)
               else
                 let b = b\<lparr>sb_connection := Some (c\<lparr>cn_message_out := cn_message_out c @ [v]\<rparr>)\<rparr>
                 in if is_last then map_option (\<lambda>b. (Inr True, b)) (finish_message_out b)
                    else Some (Inr True, b)
           | PhaseCommand \<Rightarrow>
               if length (cn_cdb c) = 16 then Some (Inl InvalidPhase, b)
               else
                 let cdb = cn_cdb c @ [v]; b = b\<lparr>sb_connection := Some (c\<lparr>cn_cdb := cdb\<rparr>)\<rparr>
                 in if length cdb = scsi_cdb_length (cdb ! 0)
                    then map_option (\<lambda>(r, b). (map_sum id (\<lambda>_. True) r, b)) (execute_connected_command so b)
                    else Some (Inr True, b)
           | PhaseDataOut \<Rightarrow> do {
               (result, b, _) \<leftarrow> transfer_data_out so 1 (provide_byte v) b ();
               Some (case result of
                       Inl e \<Rightarrow> (Inl e, b)
                     | Inr result \<Rightarrow> (Inr (moved_one_byte result), observe_transfer_result result b))
             }
           | _ \<Rightarrow> Some (Inl InvalidPhase, b)))"

definition read_information ::
  "'m storage_ops \<Rightarrow> 'm scsi_bus \<Rightarrow> ((scsi_bus_error + u8 option) \<times> 'm scsi_bus) option" where
  "read_information so b =
     (case sb_connection b of
        None \<Rightarrow> Some (Inl InvalidPhase, b)
      | Some c \<Rightarrow>
          (case cn_phase c of
             PhaseDataIn \<Rightarrow> do {
               (result, b, v) \<leftarrow> transfer_data_in so 1 accept_byte b None;
               Some (case result of
                       Inl e \<Rightarrow> (Inl e, b)
                     | Inr result \<Rightarrow> (Inr v, observe_transfer_result result b))
             }
           | PhaseStatus \<Rightarrow>
               Some (Inr (Some (scsi_status_byte (cn_status c))),
                 b\<lparr>sb_connection := Some (c\<lparr>cn_phase := PhaseMessageIn, cn_message_in := [0],
                                          cn_message_offset := 0\<rparr>)\<rparr>)
           | PhaseMessageIn \<Rightarrow>
               (case get_at (cn_message_in c) (cn_message_offset c) of
                  None \<Rightarrow> Some (Inl InvalidPhase, b)
                | Some v \<Rightarrow> Some (Inr (Some v),
                    b\<lparr>sb_connection := Some (c\<lparr>cn_message_offset := cn_message_offset c + 1\<rparr>)\<rparr>))
           | _ \<Rightarrow> Some (Inl InvalidPhase, b)))"

definition acknowledge_message :: "bool \<Rightarrow> 'm scsi_bus \<Rightarrow> 'm scsi_bus" where
  "acknowledge_message attention b =
     (case sb_connection b of
        None \<Rightarrow> b
      | Some c \<Rightarrow>
          if cn_phase c \<noteq> PhaseMessageIn then b
          else if attention then
            b\<lparr>sb_connection := Some (c\<lparr>cn_message_in := [], cn_message_offset := 0, cn_phase := PhaseMessageOut\<rparr>)\<rparr>
          else if cn_message_offset c = length (cn_message_in c) then
            if cn_message_in c = [0] then b\<lparr>sb_connection := None\<rparr>
            else b\<lparr>sb_connection := Some (c\<lparr>cn_message_in := [], cn_message_offset := 0,
                                           cn_phase := cn_return_phase c\<rparr>)\<rparr>
          else b)"

definition assert_attention :: "'m scsi_bus \<Rightarrow> 'm scsi_bus" where
  "assert_attention b =
     (case sb_connection b of
        None \<Rightarrow> b
      | Some c \<Rightarrow>
          if cn_phase c \<noteq> PhaseMessageIn \<and> cn_phase c \<noteq> PhaseMessageOut then
            b\<lparr>sb_connection := Some (c\<lparr>cn_return_phase := cn_phase c, cn_phase := PhaseMessageOut,
                                       cn_message_out := []\<rparr>)\<rparr>
          else b)"

end
