(* ===== verification/Scsi_Media.thy ===== *)
theory Scsi_Media
  imports Scsi_Phases
begin

text \<open>
  Attachment of targets and media, and snapshots of the SCSI bus,
  \<^verbatim>\<open>se_device/src/scsi.rs\<close>.
\<close>

section \<open>Attachment\<close>

datatype scsi_attach_error =
    AttachInvalidAddress u8 u8
  | AddressOccupied u8 u8
  | StorageSizeMismatch nat nat
  | AttachInvalidMedium nat
  | AttachNotRemovable u8 u8

datatype scsi_media_error =
    MediaInvalidAddress u8 u8
  | NoTarget u8 u8
  | NotRemovable u8 u8
  | MediumAlreadyPresent u8 u8
  | MediumNotPresent u8 u8
  | MediumRemovalPrevented u8 u8
  | InvalidMedium nat
  | BusBusy

definition attach_backing ::
  "'m storage_ops \<Rightarrow> u8 \<Rightarrow> u8 \<Rightarrow> scsi_target \<Rightarrow> 'm scsi_backing \<Rightarrow> 'm scsi_bus \<Rightarrow>
   ((scsi_attach_error + unit) \<times> 'm scsi_bus) option" where
  "attach_backing so target_id lun t backing b =
     (case target_slot target_id lun of
        None \<Rightarrow> Some (Inl (AttachInvalidAddress target_id lun), b)
      | Some slot \<Rightarrow> do {
          attachment \<leftarrow> slot_attachment b slot;
          if attachment \<noteq> None then Some (Inl (AddressOccupied target_id lun), b)
          else Some (case backing of
              FixedBacking _ \<Rightarrow> (Inr (), put_attachment slot \<lparr>ta_target = t, ta_backing = backing\<rparr> b)
            | RemovableBacking medium \<Rightarrow>
                (case t of
                   DiskTarget _ \<Rightarrow> (Inl (AttachNotRemovable target_id lun), b)
                 | CdromTarget c \<Rightarrow>
                     let c = (case medium of
                                Some m \<Rightarrow> cdrom_medium_inserted (so_size_bytes so m) ColdAttach c
                              | None \<Rightarrow> cdrom_medium_removed ColdAttach c)
                     in (Inr (), put_attachment slot \<lparr>ta_target = CdromTarget c, ta_backing = backing\<rparr> b)))
        })"

definition scsi_attach ::
  "'m storage_ops \<Rightarrow> u8 \<Rightarrow> u8 \<Rightarrow> scsi_target \<Rightarrow> 'm \<Rightarrow> 'm scsi_bus \<Rightarrow>
   ((scsi_attach_error + unit) \<times> 'm scsi_bus) option" where
  "scsi_attach so target_id lun t storage b = (
     let storage_bytes = so_size_bytes so storage
     in case target_backing_requirement t of
          RequiresFixed size_bytes \<Rightarrow>
            if size_bytes \<noteq> storage_bytes then Some (Inl (StorageSizeMismatch size_bytes storage_bytes), b)
            else attach_backing so target_id lun t (FixedBacking storage) b
        | RequiresRemovable \<Rightarrow>
            (case t of
               DiskTarget _ \<Rightarrow> Some (Inl (AttachNotRemovable target_id lun), b)
             | CdromTarget _ \<Rightarrow>
                 (case validate_medium_size storage_bytes of
                    Inl _ \<Rightarrow> Some (Inl (AttachInvalidMedium storage_bytes), b)
                  | Inr _ \<Rightarrow> attach_backing so target_id lun t (RemovableBacking (Some storage)) b)))"

definition attach_removable_empty ::
  "'m storage_ops \<Rightarrow> u8 \<Rightarrow> u8 \<Rightarrow> scsi_target \<Rightarrow> 'm scsi_bus \<Rightarrow>
   ((scsi_attach_error + unit) \<times> 'm scsi_bus) option" where
  "attach_removable_empty so target_id lun t b = attach_backing so target_id lun t (RemovableBacking None) b"

section \<open>Removable media\<close>

definition insert_medium ::
  "'m storage_ops \<Rightarrow> u8 \<Rightarrow> u8 \<Rightarrow> 'm \<Rightarrow> 'm scsi_bus \<Rightarrow> ((scsi_media_error + unit) \<times> 'm scsi_bus) option" where
  "insert_medium so target_id lun medium b =
     (case target_slot target_id lun of
        None \<Rightarrow> Some (Inl (MediaInvalidAddress target_id lun), b)
      | Some slot \<Rightarrow> do {
          attachment \<leftarrow> slot_attachment b slot;
          Some (case attachment of
              None \<Rightarrow> (Inl (NoTarget target_id lun), b)
            | Some a \<Rightarrow>
                (case ta_backing a of
                   FixedBacking _ \<Rightarrow> (Inl (NotRemovable target_id lun), b)
                 | RemovableBacking (Some _) \<Rightarrow> (Inl (MediumAlreadyPresent target_id lun), b)
                 | RemovableBacking None \<Rightarrow>
                     if sb_connection b \<noteq> None \<or> sb_active_transaction b \<noteq> None then (Inl BusBusy, b)
                     else case ta_target a of
                       DiskTarget _ \<Rightarrow> (Inl (NotRemovable target_id lun), b)
                     | CdromTarget c \<Rightarrow>
                         let medium_bytes = so_size_bytes so medium
                         in (case validate_medium_size medium_bytes of
                               Inl _ \<Rightarrow> (Inl (InvalidMedium medium_bytes), b)
                             | Inr _ \<Rightarrow> (Inr (), put_attachment slot
                                 \<lparr>ta_target = CdromTarget (cdrom_medium_inserted medium_bytes ExternalChange c),
                                  ta_backing = RemovableBacking (Some medium)\<rparr> b))))
        })"

definition eject_medium ::
  "u8 \<Rightarrow> u8 \<Rightarrow> bool \<Rightarrow> 'm scsi_bus \<Rightarrow> ((scsi_media_error + 'm option) \<times> 'm scsi_bus) option" where
  "eject_medium target_id lun force b =
     (case target_slot target_id lun of
        None \<Rightarrow> Some (Inl (MediaInvalidAddress target_id lun), b)
      | Some slot \<Rightarrow> do {
          attachment \<leftarrow> slot_attachment b slot;
          Some (case attachment of
              None \<Rightarrow> (Inl (NoTarget target_id lun), b)
            | Some a \<Rightarrow>
                (case ta_backing a of
                   FixedBacking _ \<Rightarrow> (Inl (NotRemovable target_id lun), b)
                 | RemovableBacking None \<Rightarrow> (Inl (MediumNotPresent target_id lun), b)
                 | RemovableBacking (Some medium) \<Rightarrow>
                     if sb_connection b \<noteq> None \<or> sb_active_transaction b \<noteq> None then (Inl BusBusy, b)
                     else case ta_target a of
                       DiskTarget _ \<Rightarrow> (Inl (NotRemovable target_id lun), b)
                     | CdromTarget c \<Rightarrow>
                         if cr_removal_prevented c \<and> \<not> force
                         then (Inl (MediumRemovalPrevented target_id lun), b)
                         else
                           let c = (if force then c\<lparr>cr_removal_prevented := False\<rparr> else c)
                           in (Inr (Some medium), put_attachment slot
                                \<lparr>ta_target = CdromTarget (cdrom_medium_removed ExternalChange c),
                                 ta_backing = RemovableBacking None\<rparr> b)))
        })"

record scsi_removable_media_slot =
  rs_target_id :: u8
  rs_lun :: u8
  rs_state :: scsi_removable_media_state

fun removable_slots_from ::
  "nat \<Rightarrow> 'm target_attachment option list \<Rightarrow> scsi_removable_media_slot list option" where
  "removable_slots_from slot [] = Some []"
| "removable_slots_from slot (None # rest) = removable_slots_from (slot + 1) rest"
| "removable_slots_from slot (Some a # rest) =
     (case (ta_backing a, target_removable_media_state (ta_target a)) of
        (FixedBacking _, None) \<Rightarrow> removable_slots_from (slot + 1) rest
      | (FixedBacking _, Some _) \<Rightarrow> None
      | (RemovableBacking _, None) \<Rightarrow> None
      | (RemovableBacking _, Some state) \<Rightarrow>
          map_option ((#) \<lparr>rs_target_id = fst (address_for_slot slot), rs_lun = snd (address_for_slot slot),
                          rs_state = state\<rparr>) (removable_slots_from (slot + 1) rest))"

definition removable_media_slots :: "'m scsi_bus \<Rightarrow> scsi_removable_media_slot list option" where
  "removable_media_slots b = removable_slots_from 0 (sb_targets b)"

section \<open>Snapshots\<close>

record scsi_bus_snapshot =
  ss_targets :: "(u8 \<times> u8 \<times> scsi_target) list"
  ss_active_transaction :: "scsi_transaction option"
  ss_connection :: "scsi_connection option"

definition scsi_snapshot :: "'m scsi_bus \<Rightarrow> scsi_bus_snapshot" where
  "scsi_snapshot b =
     \<lparr>ss_targets = concat (map (\<lambda>(slot, attachment).
          case attachment of
            None \<Rightarrow> []
          | Some a \<Rightarrow> [(fst (address_for_slot slot), snd (address_for_slot slot), ta_target a)])
          (List.enumerate 0 (sb_targets b))),
      ss_active_transaction = sb_active_transaction b, ss_connection = sb_connection b\<rparr>"

definition backing_accepts_snapshot :: "'m storage_ops \<Rightarrow> 'm scsi_backing \<Rightarrow> scsi_target \<Rightarrow> bool" where
  "backing_accepts_snapshot so backing state =
     (case (backing, target_backing_requirement state) of
        (FixedBacking m, RequiresFixed size_bytes) \<Rightarrow> so_size_bytes so m = size_bytes
      | (RemovableBacking m, RequiresRemovable) \<Rightarrow>
          (case snapshot_medium_size_bytes state of
             None \<Rightarrow> True
           | Some medium_bytes \<Rightarrow> (case m of None \<Rightarrow> False | Some m \<Rightarrow> so_size_bytes so m = medium_bytes))
      | _ \<Rightarrow> False)"

definition snapshot_transaction_valid ::
  "'m storage_ops \<Rightarrow> scsi_transaction \<Rightarrow> 'm target_attachment option list \<Rightarrow> scsi_target option list \<Rightarrow> bool" where
  "snapshot_transaction_valid so t targets target_states =
     (case get_at targets (tr_target_slot t) of
        Some (Some a) \<Rightarrow>
          let state = Option.bind (get_at target_states (tr_target_slot t)) id;
              medium_size_bytes = (case state of
                  Some state \<Rightarrow>
                    if target_backing_requirement state = RequiresRemovable
                    then snapshot_medium_size_bytes state
                    else backing_medium_size_bytes so (ta_backing a)
                | None \<Rightarrow> backing_medium_size_bytes so (ta_backing a));
              in_medium = (\<lambda>next_offset remaining. remaining \<noteq> 0 \<and> next_offset + remaining < 2 ^ 64
                \<and> (case medium_size_bytes of None \<Rightarrow> False | Some bytes \<Rightarrow> next_offset + remaining \<le> bytes))
          in (case tr_transfer t of
                ImmediateDataIn bytes next_offset _ \<Rightarrow> next_offset < length bytes
              | StorageDataIn next_offset remaining \<Rightarrow> in_medium next_offset remaining
              | StorageDataOut next_offset remaining \<Rightarrow> in_medium next_offset remaining
              | TargetDataOut cdb bytes remaining \<Rightarrow>
                  cdb \<noteq> [] \<and> length cdb \<le> 16 \<and> remaining \<noteq> 0 \<and> length bytes + remaining < 2 ^ 64)
      | _ \<Rightarrow> False)"

fun snapshot_target_states ::
  "(u8 \<times> u8 \<times> scsi_target) list \<Rightarrow> scsi_target option list \<Rightarrow> scsi_target option list option" where
  "snapshot_target_states [] states = Some states"
| "snapshot_target_states ((target_id, lun, state) # rest) states =
     (case target_slot target_id lun of
        None \<Rightarrow> None
      | Some slot \<Rightarrow>
          if states ! slot \<noteq> None then None else snapshot_target_states rest (states[slot := Some state]))"

definition attachment_accepts :: "'m storage_ops \<Rightarrow> 'm target_attachment option \<times> scsi_target option \<Rightarrow> bool" where
  "attachment_accepts so p =
     (case p of
        (None, None) \<Rightarrow> True
      | (Some a, Some state) \<Rightarrow>
          target_accepts_snapshot (ta_target a) state \<and> backing_accepts_snapshot so (ta_backing a) state
      | _ \<Rightarrow> False)"

definition snapshot_connection_invalid :: "scsi_connection \<Rightarrow> 'm scsi_bus \<Rightarrow> bool option" where
  "snapshot_connection_invalid c b = do {
     present \<leftarrow> target_present (cn_target_id c) b;
     Some (\<not> present \<or> 8 \<le> cn_lun c \<or> 16 < length (cn_cdb c) \<or> 257 < length (cn_message_out c)
           \<or> 257 < length (cn_message_in c) \<or> length (cn_message_in c) < cn_message_offset c)
   }"

fun restore_targets ::
  "('m target_attachment option \<times> scsi_target option) list \<Rightarrow> bool \<times> 'm target_attachment option list" where
  "restore_targets [] = (True, [])"
| "restore_targets ((Some a, Some state) # rest) = (
     let backing = (case ta_backing a of
             RemovableBacking m \<Rightarrow>
               if snapshot_medium_size_bytes state = None then RemovableBacking None else RemovableBacking m
           | FixedBacking m \<Rightarrow> FixedBacking m);
         (restored, t) = target_restore_snapshot state (ta_target a);
         a = \<lparr>ta_target = t, ta_backing = backing\<rparr>
     in if \<not> restored then (False, Some a # map fst rest)
        else map_prod id ((#) (Some a)) (restore_targets rest))"
| "restore_targets ((attachment, _) # rest) = map_prod id ((#) attachment) (restore_targets rest)"

text \<open>The result says whether the snapshot was accepted: the error carries nothing.\<close>

definition scsi_restore_snapshot ::
  "'m storage_ops \<Rightarrow> scsi_bus_snapshot \<Rightarrow> 'm scsi_bus \<Rightarrow> (bool \<times> 'm scsi_bus) option" where
  "scsi_restore_snapshot so snapshot b =
     (case snapshot_target_states (ss_targets snapshot) (replicate TARGET_SLOT_COUNT None) of
        None \<Rightarrow> Some (False, b)
      | Some states \<Rightarrow>
          if \<not> list_all (attachment_accepts so) (zip (sb_targets b) states) then Some (False, b)
          else if (case ss_active_transaction snapshot of
                     Some t \<Rightarrow> \<not> snapshot_transaction_valid so t (sb_targets b) states | None \<Rightarrow> False)
          then Some (False, b)
          else do {
            invalid \<leftarrow> (case ss_connection snapshot of
                          Some c \<Rightarrow> snapshot_connection_invalid c b | None \<Rightarrow> Some False);
            if invalid then Some (False, b)
            else
              let (restored, targets) = restore_targets (zip (sb_targets b) states);
                  b = b\<lparr>sb_targets := targets\<rparr>
              in Some (if \<not> restored then (False, b)
                       else (True, b\<lparr>sb_active_transaction := ss_active_transaction snapshot,
                                     sb_connection := ss_connection snapshot\<rparr>))
          })"

end
