(* ===== verification/Scsi_Correct.thy ===== *)
theory Scsi_Correct
  imports Scsi_Media
begin

text \<open>
  The SCSI bus never panics and keeps its attachments, transaction and connection consistent, and
  a disk behind it is an array of blocks.
\<close>

section \<open>What the bus relies on\<close>

text \<open>
  The contract of a storage object: a fixed size, reads that return the bytes it holds, and
  writes that replace exactly the bytes they name; either may fail.
\<close>

definition storage_laws :: "'m storage_ops \<Rightarrow> ('m \<Rightarrow> u8 list) \<Rightarrow> bool" where
  "storage_laws so contents \<longleftrightarrow>
     (\<forall>m. so_size_bytes so m = length (contents m)) \<and>
     (\<forall>m offset n. case so_read_exact_at so offset n m of (r, m1) \<Rightarrow>
        contents m1 = contents m
        \<and> (\<forall>bytes. r = Some bytes \<longrightarrow>
             offset + n \<le> length (contents m) \<and> bytes = take n (drop offset (contents m)))) \<and>
     (\<forall>m offset bytes. case so_write_all_at so offset bytes m of (written, m1) \<Rightarrow>
        length (contents m1) = length (contents m)
        \<and> (written \<longrightarrow> contents m1 = splice_bytes offset bytes (contents m)))"

lemma storage_size: "storage_laws so contents \<Longrightarrow> so_size_bytes so m = length (contents m)"
  by (simp add: storage_laws_def)

lemma storage_read:
  assumes "storage_laws so contents"
  shows "contents (snd (so_read_exact_at so offset n m)) = contents m"
    and "fst (so_read_exact_at so offset n m) = Some bytes \<Longrightarrow> bytes = take n (drop offset (contents m))"
  using assms unfolding storage_laws_def by (auto simp: split_beta)

lemma storage_read_length:
  assumes "storage_laws so contents" "fst (so_read_exact_at so offset n m) = Some bytes"
  shows "length bytes = n"
proof -
  have "offset + n \<le> length (contents m)"
    using assms unfolding storage_laws_def by (auto simp: split_beta)
  then show ?thesis using storage_read(2) [OF assms] by simp
qed

lemma storage_write:
  assumes "storage_laws so contents"
  shows "length (contents (snd (so_write_all_at so offset bytes m))) = length (contents m)"
    and "fst (so_write_all_at so offset bytes m) \<Longrightarrow>
      contents (snd (so_write_all_at so offset bytes m)) = splice_bytes offset bytes (contents m)"
  using assms unfolding storage_laws_def by (auto simp: split_beta)

lemma storage_size_stable:
  assumes "storage_laws so contents"
  shows "so_size_bytes so (snd (so_read_exact_at so offset n m)) = so_size_bytes so m"
    and "so_size_bytes so (snd (so_write_all_at so offset bytes m)) = so_size_bytes so m"
  using storage_read [OF assms] storage_write [OF assms] storage_size [OF assms] by simp_all

section \<open>Consistent buses\<close>

definition target_fits :: "'m storage_ops \<Rightarrow> scsi_target \<Rightarrow> 'm scsi_backing \<Rightarrow> bool" where
  "target_fits so t backing \<longleftrightarrow>
     (case (t, backing) of
        (DiskTarget k, FixedBacking m) \<Rightarrow>
          so_size_bytes so m = disk_storage_size_bytes k \<and> 0 < dk_block_count k \<and> dk_block_count k \<le> 2 ^ 32
      | (CdromTarget c, RemovableBacking m) \<Rightarrow>
          cr_medium_bytes c = map_option (so_size_bytes so) m
          \<and> cr_logical_block_bytes c \<in> {512, 2048}
          \<and> (\<forall>n. cr_medium_bytes c = Some n \<longrightarrow> 0 < n \<and> n mod 2048 = 0 \<and> n div 512 \<le> 2 ^ 32)
      | _ \<Rightarrow> False)"

definition transfer_fits :: "'m storage_ops \<Rightarrow> 'm target_attachment \<Rightarrow> scsi_transfer \<Rightarrow> bool" where
  "transfer_fits so a t \<longleftrightarrow>
     (case t of
        ImmediateDataIn bytes next_offset _ \<Rightarrow> next_offset < length bytes
      | StorageDataIn next_offset remaining \<Rightarrow> 0 < remaining \<and>
          (\<exists>m. backing_medium (ta_backing a) = Some m \<and> next_offset + remaining \<le> so_size_bytes so m)
      | StorageDataOut next_offset remaining \<Rightarrow> 0 < remaining \<and>
          (\<exists>m. backing_medium (ta_backing a) = Some m \<and> next_offset + remaining \<le> so_size_bytes so m)
      | TargetDataOut cdb received remaining \<Rightarrow>
          cdb \<noteq> [] \<and> length cdb \<le> 16 \<and> 0 < remaining \<and> length received + remaining < 2 ^ 64)"

definition has_unit :: "'m scsi_bus \<Rightarrow> u8 \<Rightarrow> bool" where
  "has_unit b target_id \<longleftrightarrow> (\<exists>lun < 8. sb_targets b ! (unat target_id * 8 + lun) \<noteq> None)"

definition connection_fits :: "'m scsi_bus \<Rightarrow> scsi_connection \<Rightarrow> bool" where
  "connection_fits b c \<longleftrightarrow>
     unat (cn_target_id c) < 8 \<and> unat (cn_lun c) < 8
     \<and> has_unit b (cn_target_id c)
     \<and> length (cn_message_out c) \<le> 257 \<and> length (cn_message_in c) \<le> 257 \<and> length (cn_cdb c) \<le> 16
     \<and> cn_message_offset c \<le> length (cn_message_in c)"

definition scsi_bus_ok :: "'m storage_ops \<Rightarrow> 'm scsi_bus \<Rightarrow> bool" where
  "scsi_bus_ok so b \<longleftrightarrow>
     length (sb_targets b) = 64
     \<and> (\<forall>slot < 64. \<forall>a. sb_targets b ! slot = Some a \<longrightarrow> target_fits so (ta_target a) (ta_backing a))
     \<and> (\<forall>t. sb_active_transaction b = Some t \<longrightarrow> tr_target_slot t < 64 \<and>
          (\<exists>a. sb_targets b ! tr_target_slot t = Some a \<and> transfer_fits so a (tr_transfer t)))
     \<and> (\<forall>c. sb_connection b = Some c \<longrightarrow> connection_fits b c)"

subsection \<open>Targets\<close>

lemmas cdrom_commands =
  cdrom_check_condition_def cdrom_request_sense_def cdrom_inquiry_def cdrom_mode_sense_def
  mode_select_def request_ejection_def start_stop_def read_toc_def prevent_allow_def
  cdrom_read_capacity_def cdrom_read_blocks_def ready_medium_bytes_def cdrom_blocks_def

definition same_medium :: "scsi_cdrom \<Rightarrow> scsi_cdrom \<Rightarrow> bool" where
  "same_medium c d \<longleftrightarrow> cr_medium_bytes d = cr_medium_bytes c
     \<and> cr_logical_block_bytes d = cr_logical_block_bytes c"

lemma target_fits_cdrom_cong:
  "same_medium c d \<Longrightarrow> target_fits so (CdromTarget d) backing = target_fits so (CdromTarget c) backing"
  by (simp add: same_medium_def target_fits_def split: scsi_backing.split)

lemma ready_medium_same: "same_medium c (snd (ready_medium_bytes c))"
  by (simp add: same_medium_def ready_medium_bytes_def cdrom_check_condition_def split: option.split)

lemma cdrom_simple_same:
  "same_medium c (snd (cdrom_check_condition sense c))"
  "same_medium c (snd (cdrom_request_sense len c))"
  "same_medium c (snd (mode_select cdb c))"
  "same_medium c (snd (request_ejection c))"
  "same_medium c (snd (start_stop control c))"
  "same_medium c (snd (prevent_allow cdb c))"
  "same_medium c (snd (read_toc cdb c))"
  by (simp_all add: same_medium_def cdrom_check_condition_def cdrom_request_sense_def mode_select_def
      request_ejection_def start_stop_def prevent_allow_def read_toc_def ready_medium_bytes_def Let_def
      split: option.split)

lemma cdrom_read_same:
  assumes "cr_logical_block_bytes c \<noteq> 0"
  shows "ok (cdrom_read_capacity c) (\<lambda>r. same_medium c (snd r))"
    and "ok (cdrom_read_blocks lba n c) (\<lambda>r. same_medium c (snd r))"
  using assms
  by (auto simp: same_medium_def cdrom_read_capacity_def cdrom_read_blocks_def ready_medium_bytes_def
      cdrom_blocks_def cdrom_check_condition_def Let_def split: option.split)

lemma ok_if: "ok (if c then m else n) P = (if c then ok m P else ok n P)"
  by simp

lemma same_medium_refl [simp]: "same_medium c c"
  by (simp add: same_medium_def)

lemma test_unit_ready_same:
  "same_medium c (snd (case ready_medium_bytes c of
     (Inr _, c1) \<Rightarrow> (complete_good [], c1) | (Inl plan, c1) \<Rightarrow> (plan, c1)))"
  using ready_medium_same [of c] by (simp add: split_beta split: sum.split)

lemma cdrom_dispatch_same:
  assumes "cr_logical_block_bytes c \<noteq> 0"
  shows "ok (cdrom_dispatch cdb c) (\<lambda>r. same_medium c (snd r))"
  unfolding cdrom_dispatch_def Let_def ok_if ok_Some test_unit_ready_same [THEN eqTrueI]
    cdrom_simple_same [THEN eqTrueI] cdrom_read_same [OF assms, THEN eqTrueI]
  by simp

lemma cdrom_execute_same:
  assumes "cr_logical_block_bytes c \<noteq> 0"
  shows "ok (cdrom_execute cdb c) (\<lambda>r. same_medium c (snd r))"
  using cdrom_dispatch_same [OF assms]
  by (simp add: cdrom_execute_def cdrom_check_condition_def same_medium_def split: option.split)

lemma disk_simple_same:
  "dk_block_count (snd (disk_check_condition sense k)) = dk_block_count k"
  "dk_block_count (snd (disk_request_sense len k)) = dk_block_count k"
  "dk_block_count (snd (disk_read_capacity k)) = dk_block_count k"
  "dk_block_count (snd (disk_read_defect_data cdb k)) = dk_block_count k"
  "dk_block_count (snd (disk_read_blocks lba n k)) = dk_block_count k"
  "dk_block_count (snd (disk_write_blocks lba n k)) = dk_block_count k"
  by (simp_all add: disk_check_condition_def disk_request_sense_def disk_read_capacity_def
      disk_read_defect_data_def disk_read_blocks_def disk_write_blocks_def Let_def)

lemma disk_transfer_6_same: "dk_block_count (snd (disk_transfer_6 cdb k)) = dk_block_count k"
  by (simp add: disk_transfer_6_def disk_simple_same)

lemma disk_execute_same: "dk_block_count (snd (disk_execute cdb k)) = dk_block_count k"
  unfolding disk_execute_def Let_def if_distrib [where f = snd] if_distrib [where f = dk_block_count]
    disk_simple_same disk_transfer_6_same
  by simp

text \<open>A target never asks for more bytes than a length byte can say.\<close>

definition small_plan :: "scsi_command_plan \<Rightarrow> bool" where
  "small_plan plan \<longleftrightarrow> (\<forall>n. plan = PlanReceiveDataOut n \<longrightarrow> n < 256)"

lemma unat_u8_lt: "unat (w :: u8) < 256"
  by (rule order_less_le_trans [OF unsigned_less]) simp

lemma complete_good_small [simp]: "small_plan (complete_good bytes)"
  by (simp add: small_plan_def complete_good_def)

lemma cdrom_simple_small:
  "small_plan (fst (cdrom_check_condition sense c))"
  "small_plan (fst (cdrom_request_sense len c))"
  "small_plan (fst (mode_select cdb c))"
  "small_plan (fst (request_ejection c))"
  "small_plan (fst (start_stop control c))"
  "small_plan (fst (prevent_allow cdb c))"
  "small_plan (fst (read_toc cdb c))"
  "small_plan (cdrom_inquiry len)"
  "small_plan (cdrom_mode_sense c len)"
  by (simp_all add: cdrom_check_condition_def cdrom_request_sense_def mode_select_def
      request_ejection_def start_stop_def prevent_allow_def read_toc_def ready_medium_bytes_def Let_def
      cdrom_inquiry_def cdrom_mode_sense_def unat_u8_lt small_plan_def complete_good_def
      split: option.split)

lemma cdrom_read_small:
  assumes "cr_logical_block_bytes c \<noteq> 0"
  shows "ok (cdrom_read_capacity c) (\<lambda>r. small_plan (fst r))"
    and "ok (cdrom_read_blocks lba n c) (\<lambda>r. small_plan (fst r))"
  using assms
  by (auto simp: small_plan_def complete_good_def cdrom_read_capacity_def cdrom_read_blocks_def ready_medium_bytes_def
      cdrom_blocks_def cdrom_check_condition_def Let_def split: option.split)

lemma test_unit_ready_small:
  "small_plan (fst (case ready_medium_bytes c of
     (Inr _, c1) \<Rightarrow> (complete_good [], c1) | (Inl plan, c1) \<Rightarrow> (plan, c1)))"
  by (simp add: ready_medium_bytes_def small_plan_def complete_good_def cdrom_check_condition_def split: option.split)

lemma cdrom_execute_small:
  assumes "cr_logical_block_bytes c \<noteq> 0"
  shows "ok (cdrom_execute cdb c) (\<lambda>r. small_plan (fst r))"
proof -
  have "ok (cdrom_dispatch cdb c) (\<lambda>r. small_plan (fst r))"
    unfolding cdrom_dispatch_def Let_def ok_if ok_Some fst_conv test_unit_ready_small [THEN eqTrueI]
      cdrom_simple_small [THEN eqTrueI] cdrom_read_small [OF assms, THEN eqTrueI] complete_good_small [THEN eqTrueI]
    by simp
  then show ?thesis
    using cdrom_simple_small(1) by (simp add: cdrom_execute_def split: option.split)
qed

lemma disk_simple_small:
  "small_plan (fst (disk_check_condition sense k))"
  "small_plan (fst (disk_request_sense len k))"
  "small_plan (fst (disk_read_capacity k))"
  "small_plan (fst (disk_read_defect_data cdb k))"
  "small_plan (fst (disk_read_blocks lba n k))"
  "small_plan (fst (disk_write_blocks lba n k))"
  "small_plan (disk_inquiry len)"
  "small_plan (disk_mode_sense len)"
  by (simp_all add: disk_check_condition_def disk_request_sense_def disk_read_capacity_def disk_inquiry_def
      disk_mode_sense_def disk_read_defect_data_def disk_read_blocks_def disk_write_blocks_def Let_def
      small_plan_def complete_good_def)

lemma disk_execute_small: "small_plan (fst (disk_execute cdb k))"
  unfolding disk_execute_def disk_transfer_6_def Let_def if_distrib [where f = fst] if_distrib [where f = small_plan]
    disk_simple_small [THEN eqTrueI] fst_conv complete_good_small [THEN eqTrueI]
  by simp

lemma target_execute_small:
  assumes "target_fits so t backing"
  shows "ok (target_execute cdb t) (\<lambda>r. small_plan (fst r))"
proof (cases t)
  case (DiskTarget k)
  then show ?thesis by (simp add: target_execute_def disk_execute_small)
next
  case (CdromTarget c)
  then have "cr_logical_block_bytes c \<noteq> 0"
    using assms by (auto simp: target_fits_def split: scsi_backing.splits)
  then show ?thesis using CdromTarget cdrom_execute_small by (simp add: target_execute_def)
qed

lemma target_execute_fits:
  assumes "target_fits so t backing"
  shows "ok (target_execute cdb t) (\<lambda>r. target_fits so (snd r) backing)"
proof (cases t)
  case (DiskTarget k)
  then show ?thesis
    using assms by (simp add: disk_execute_same target_execute_def target_fits_def disk_storage_size_bytes_def
        split: scsi_backing.splits)
next
  case (CdromTarget c)
  then have "cr_logical_block_bytes c \<noteq> 0"
    using assms by (auto simp: target_fits_def split: scsi_backing.splits)
  then have "ok (cdrom_execute cdb c) (\<lambda>r. same_medium c (snd r))" by (rule cdrom_execute_same)
  then have "ok (cdrom_execute cdb c) (\<lambda>r. target_fits so (CdromTarget (snd r)) backing)"
    by (rule ok_mono) (use assms CdromTarget in \<open>simp add: target_fits_cdrom_cong\<close>)
  then show ?thesis using CdromTarget by (simp add: target_execute_def)
qed

lemma target_complete_storage_fits:
  "target_fits so t backing \<Longrightarrow> target_fits so (snd (target_complete_storage succeeded t)) backing"
  by (simp add: target_complete_storage_def target_fits_def disk_complete_storage_def
      cdrom_complete_storage_def disk_storage_size_bytes_def split: scsi_target.splits scsi_backing.splits)

lemma complete_mode_select_same:
  "cr_medium_bytes (snd (complete_mode_select cdb bytes c)) = cr_medium_bytes c"
  "cr_logical_block_bytes (snd (complete_mode_select cdb bytes c)) \<in> {cr_logical_block_bytes c, 512, 2048}"
  by (simp_all add: complete_mode_select_def parameter_list_error_def SUPPORTED_LOGICAL_BLOCK_BYTES_def
      INITIAL_LOGICAL_BLOCK_BYTES_def Let_def)

lemma target_complete_data_out_fits:
  assumes "target_fits so t backing"
  shows "target_fits so (snd (target_complete_data_out cdb bytes t)) backing"
proof (cases t)
  case (CdromTarget c)
  show ?thesis
  proof (cases "cdb \<noteq> [] \<and> cdb ! 0 = MODE_SELECT_6")
    case True
    with assms CdromTarget complete_mode_select_same [of cdb bytes c] show ?thesis
      by (auto simp: target_complete_data_out_def cdrom_complete_data_out_def target_fits_def
          split: scsi_backing.splits)
  next
    case False
    then have "cdrom_complete_data_out cdb bytes c = (ScsiCheckCondition, c\<lparr>cr_sense := INVALID_CDB_FIELD\<rparr>)"
      unfolding cdrom_complete_data_out_def by (simp only: if_False)
    with assms CdromTarget show ?thesis
      by (simp add: target_complete_data_out_def target_fits_def split: scsi_backing.splits)
  qed
qed (use assms in \<open>simp add: target_complete_data_out_def\<close>)

subsection \<open>Attachments\<close>

lemma slot_attachment_ok:
  "scsi_bus_ok so b \<Longrightarrow> slot < 64 \<Longrightarrow> slot_attachment b slot = Some (sb_targets b ! slot)"
  by (simp add: slot_attachment_def scsi_bus_ok_def)

lemma active_slot:
  assumes "scsi_bus_ok so b" "sb_active_transaction b = Some t"
  obtains a where "tr_target_slot t < 64" "sb_targets b ! tr_target_slot t = Some a"
    "transfer_fits so a (tr_transfer t)" "target_fits so (ta_target a) (ta_backing a)"
  using assms unfolding scsi_bus_ok_def by blast

lemma connection_fits_cong:
  assumes "\<And>slot. slot < 64 \<Longrightarrow> (sb_targets b1 ! slot = None) = (sb_targets b ! slot = None)"
  shows "connection_fits b1 c = connection_fits b c"
proof -
  have "(sb_targets b1 ! (unat (cn_target_id c) * 8 + lun) = None) = (sb_targets b ! (unat (cn_target_id c) * 8 + lun) = None)"
    if "lun < 8" "unat (cn_target_id c) < 8" for lun
    by (rule assms) (use that in linarith)
  then show ?thesis unfolding connection_fits_def has_unit_def by metis
qed

lemma has_unit_updates [simp]:
  "has_unit (b\<lparr>sb_connection := k\<rparr>) = has_unit b"
  "has_unit (b\<lparr>sb_active_transaction := t\<rparr>) = has_unit b"
  by (simp_all add: has_unit_def fun_eq_iff)

lemma put_attachment_simps [simp]:
  "sb_connection (put_attachment slot a b) = sb_connection b"
  "sb_active_transaction (put_attachment slot a b) = sb_active_transaction b"
  by (simp_all add: put_attachment_def)

lemma put_attachment_ok:
  assumes b: "scsi_bus_ok so b" and slot: "slot < 64" "sb_targets b ! slot = Some a0"
    and fits: "target_fits so (ta_target a) (ta_backing a)"
    and transfer: "\<And>t. sb_active_transaction b = Some t \<Longrightarrow> tr_target_slot t = slot \<Longrightarrow>
      transfer_fits so a0 (tr_transfer t) \<Longrightarrow> transfer_fits so a (tr_transfer t)"
  shows "scsi_bus_ok so (put_attachment slot a b)"
proof -
  have len: "length (sb_targets b) = 64" using b by (simp add: scsi_bus_ok_def)
  have "connection_fits (put_attachment slot a b) c = connection_fits b c" for c
    by (rule connection_fits_cong) (use slot len in \<open>auto simp: put_attachment_def nth_list_update\<close>)
  moreover have "\<exists>a'. sb_targets (put_attachment slot a b) ! tr_target_slot t = Some a' \<and> transfer_fits so a' (tr_transfer t)"
    if "sb_active_transaction b = Some t" for t
    by (rule active_slot [OF b that])
      (use transfer [OF that] slot len in \<open>cases "tr_target_slot t = slot"; auto simp: put_attachment_def\<close>)
  moreover have "tr_target_slot t < 64" if "sb_active_transaction b = Some t" for t
    using b that by (simp add: scsi_bus_ok_def)
  ultimately show ?thesis
    using b fits slot len
    by (auto simp: scsi_bus_ok_def put_attachment_def nth_list_update)
qed

lemma transfer_fits_backing:
  assumes "transfer_fits so a t" "backing_medium (ta_backing a) = backing_medium (ta_backing a1)"
  shows "transfer_fits so a1 t"
  using assms by (simp add: transfer_fits_def split: scsi_transfer.splits)

lemma clear_transaction_ok:
  "scsi_bus_ok so b \<Longrightarrow> scsi_bus_ok so (b\<lparr>sb_active_transaction := None\<rparr>)"
  by (simp add: scsi_bus_ok_def connection_fits_def)

lemma set_transaction_ok:
  assumes "scsi_bus_ok so b" "slot < 64" "sb_targets b ! slot = Some a" "transfer_fits so a t"
  shows "scsi_bus_ok so (b\<lparr>sb_active_transaction := Some \<lparr>tr_target_slot = slot, tr_transfer = t\<rparr>\<rparr>)"
  using assms by (simp add: scsi_bus_ok_def connection_fits_def)

lemma set_connection_ok:
  assumes "scsi_bus_ok so b" "\<And>c. k = Some c \<Longrightarrow> connection_fits b c"
  shows "scsi_bus_ok so (b\<lparr>sb_connection := k\<rparr>)"
  using assms by (simp add: scsi_bus_ok_def connection_fits_def)

lemma connection_of_ok: "scsi_bus_ok so b \<Longrightarrow> sb_connection b = Some c \<Longrightarrow> connection_fits b c"
  by (simp add: scsi_bus_ok_def)

lemma set_status_ok: "scsi_bus_ok so b \<Longrightarrow> scsi_bus_ok so (scsi_set_status status b)"
  using connection_of_ok [of so b]
  by (auto simp: scsi_set_status_def connection_fits_def intro!: set_connection_ok split: option.split)

lemma observe_result_ok: "scsi_bus_ok so b \<Longrightarrow> scsi_bus_ok so (observe_transfer_result result b)"
  by (simp add: observe_transfer_result_def set_status_ok split: scsi_transfer_result.split)

text \<open>What an operation on the targets keeps: the bus stays consistent and connected as it was.\<close>

abbreviation bus_kept :: "'m storage_ops \<Rightarrow> 'm scsi_bus \<Rightarrow> 'm scsi_bus \<Rightarrow> bool" where
  "bus_kept so b b1 \<equiv> scsi_bus_ok so b1 \<and> sb_connection b1 = sb_connection b"

lemma complete_target_storage_ok:
  assumes "scsi_bus_ok so b" "slot < 64"
  shows "ok (complete_target_storage slot succeeded b)
    (\<lambda>r. bus_kept so b (snd r) \<and> sb_active_transaction (snd r) = sb_active_transaction b)"
proof (cases "sb_targets b ! slot")
  case None
  then show ?thesis using assms by (simp add: complete_target_storage_def slot_attachment_ok)
next
  case (Some a)
  have "target_fits so (ta_target a) (ta_backing a)" using assms Some by (simp add: scsi_bus_ok_def)
  then have "target_fits so (snd (target_complete_storage succeeded (ta_target a))) (ta_backing a)"
    by (rule target_complete_storage_fits)
  then have "scsi_bus_ok so (put_attachment slot
      (a\<lparr>ta_target := snd (target_complete_storage succeeded (ta_target a))\<rparr>) b)"
    by (intro put_attachment_ok [OF assms Some]) (auto intro: transfer_fits_backing)
  then show ?thesis
    using assms Some by (simp add: complete_target_storage_def slot_attachment_ok split_beta Let_def)
qed

subsection \<open>Commands\<close>

lemma slot_fits:
  "scsi_bus_ok so b \<Longrightarrow> slot < 64 \<Longrightarrow> sb_targets b ! slot = Some a \<Longrightarrow>
   target_fits so (ta_target a) (ta_backing a)"
  by (simp add: scsi_bus_ok_def)

lemma target_slot_lt: "target_slot target_id lun = Some slot \<Longrightarrow> slot < 64"
  by (auto simp: target_slot_def TARGET_COUNT_def LUN_COUNT_def split: if_splits)

lemma start_storage_transfer_ok:
  assumes b: "scsi_bus_ok so b" "slot < 64"
  shows "ok (start_storage_transfer so slot offset n direction b) (\<lambda>r. bus_kept so b (snd r))"
proof -
  have finish: "ok (complete_target_storage slot s b) (\<lambda>r. bus_kept so b (snd r))" for s
    by (rule ok_mono [OF complete_target_storage_ok [OF b]]) simp
  show ?thesis
  proof (cases "sb_targets b ! slot")
    case None
    then show ?thesis
      using finish by (simp add: start_storage_transfer_def slot_attachment_ok [OF b] split_beta Let_def)
  next
    case (Some a)
    have "bus_kept so b (b\<lparr>sb_active_transaction := Some \<lparr>tr_target_slot = slot, tr_transfer = t\<rparr>\<rparr>)"
      if "transfer_fits so a t" for t
      using set_transaction_ok [OF b Some that] by simp
    then show ?thesis
      using finish Some
      by (auto simp: start_storage_transfer_def slot_attachment_ok [OF b] split_beta Let_def
          transfer_fits_def backing_medium_size_bytes_def backing_medium_def
          split: option.splits scsi_data_direction.split scsi_backing.splits)
  qed
qed

lemma eject_guest_medium_ok:
  assumes b: "scsi_bus_ok so b" "slot < 64" and idle: "sb_active_transaction b = None"
  shows "ok (eject_guest_medium slot b) (\<lambda>r. bus_kept so b (snd r))"
proof (cases "sb_targets b ! slot")
  case None
  then show ?thesis using assms by (simp add: eject_guest_medium_def slot_attachment_ok)
next
  case (Some a)
  have "bus_kept so b (put_attachment slot (a\<lparr>ta_backing := RemovableBacking None, ta_target := t\<rparr>) b)"
    if "target_fits so t (RemovableBacking None)" for t
    using put_attachment_ok [OF b Some, of "a\<lparr>ta_backing := RemovableBacking None, ta_target := t\<rparr>"] that idle
    by simp
  then show ?thesis
    using b Some slot_fits [OF b Some]
    by (auto simp: eject_guest_medium_def slot_attachment_ok target_fits_def cdrom_medium_removed_def
        split: scsi_backing.splits option.splits scsi_target.splits)
qed

lemma carry_out_plan_ok:
  assumes b: "scsi_bus_ok so b" and slot: "slot < 64" "sb_targets b ! slot = Some a"
    and idle: "sb_active_transaction b = None" and cdb: "cdb \<noteq> []" "length cdb \<le> 16" and small: "small_plan plan"
  shows "ok (carry_out_plan so slot cdb a plan b) (\<lambda>r. bus_kept so b (snd r))"
proof -
  have set: "bus_kept so b (b\<lparr>sb_active_transaction := Some \<lparr>tr_target_slot = slot, tr_transfer = t\<rparr>\<rparr>)"
    if "transfer_fits so a t" for t
    using set_transaction_ok [OF b slot that] by simp
  have again: "bus_kept so b (put_attachment slot (a\<lparr>ta_target := t\<rparr>) b)"
    if "target_fits so t (ta_backing a)" for t
    using put_attachment_ok [OF b slot, of "a\<lparr>ta_target := t\<rparr>"] that idle by simp
  show ?thesis
  proof (cases plan)
    case (PlanComplete status bytes)
    then show ?thesis using b set [of "ImmediateDataIn bytes 0 status"]
      by (simp add: carry_out_plan_def transfer_fits_def)
  next
    case (PlanReceiveDataOut n)
    then show ?thesis
      using set [of "TargetDataOut cdb [] n"] cdb small again [OF target_complete_data_out_fits [OF slot_fits [OF b slot]]]
      by (simp add: carry_out_plan_def split_beta transfer_fits_def Let_def small_plan_def)
  qed (simp_all add: carry_out_plan_def start_storage_transfer_ok [OF b slot(1)] eject_guest_medium_ok [OF b slot(1) idle])
qed

lemma start_command_ok:
  assumes b: "scsi_bus_ok so b" and cdb: "cdb \<noteq> []" "length cdb \<le> 16"
  shows "ok (start_command so target_id lun cdb b) (\<lambda>r. bus_kept so b (snd r))"
proof (cases "target_slot target_id lun")
  case None
  then show ?thesis using b by (simp add: start_command_def)
next
  case (Some slot)
  note slot = target_slot_lt [OF Some]
  show ?thesis
  proof (cases "sb_active_transaction b = None \<and> sb_targets b ! slot \<noteq> None")
    case False
    then show ?thesis
      using b Some slot
      by (cases "sb_active_transaction b") (auto simp: start_command_def active_address_def slot_attachment_ok split_beta)
  next
    case True
    then obtain a where a: "sb_targets b ! slot = Some a" and idle: "sb_active_transaction b = None" by auto
    have plan: "ok (carry_out_plan so slot cdb (a\<lparr>ta_target := t\<rparr>) p (put_attachment slot (a\<lparr>ta_target := t\<rparr>) b))
        (\<lambda>r. bus_kept so b (snd r))"
      if "target_fits so t (ta_backing a)" "small_plan p" for p t
    proof -
      have "scsi_bus_ok so (put_attachment slot (a\<lparr>ta_target := t\<rparr>) b)"
        using put_attachment_ok [OF b slot a, of "a\<lparr>ta_target := t\<rparr>"] that idle by simp
      moreover have "sb_targets (put_attachment slot (a\<lparr>ta_target := t\<rparr>) b) ! slot = Some (a\<lparr>ta_target := t\<rparr>)"
        using b slot unfolding put_attachment_def scsi_bus_ok_def by simp
      ultimately show ?thesis using carry_out_plan_ok [OF _ slot _ _ cdb that(2)] idle by force
    qed
    note fits = slot_fits [OF b slot a]
    show ?thesis
      using Some a idle
      by (simp add: start_command_def active_address_def slot_attachment_ok [OF b slot] split_beta Let_def
          ok_mono [OF ok_conj [OF target_execute_fits [OF fits] target_execute_small [OF fits]]] plan)
  qed
qed

subsection \<open>Transfers\<close>

text \<open>
  The bus asks a caller's callback for at least one byte, and relies on it not to panic and to
  fill the buffer it is given.
\<close>

definition callback_ok :: "'c accept \<Rightarrow> bool" where
  "callback_ok accept \<longleftrightarrow> (\<forall>bytes caller. bytes \<noteq> [] \<longrightarrow> accept bytes caller \<noteq> None)"

definition provider_ok :: "'c provide \<Rightarrow> bool" where
  "provider_ok provide \<longleftrightarrow> (\<forall>n caller. 0 < n \<longrightarrow>
     ok (provide n caller) (\<lambda>r. \<forall>bytes. fst r = Some bytes \<longrightarrow> length bytes = n))"

lemma active_transferE:
  assumes "scsi_bus_ok so b" "active_transfer b = Some (slot, t)"
  obtains a where "slot < 64" "sb_targets b ! slot = Some a" "transfer_fits so a t"
    "target_fits so (ta_target a) (ta_backing a)"
proof -
  obtain u where "sb_active_transaction b = Some u" "tr_target_slot u = slot" "tr_transfer u = t"
    using assms(2) by (auto simp: active_transfer_def)
  then show ?thesis using active_slot [OF assms(1)] that by metis
qed

lemma medium_size_bound:
  assumes "target_fits so t backing" "backing_medium backing = Some m"
  shows "so_size_bytes so m < 2 ^ 64"
proof (cases t)
  case (DiskTarget k)
  then have "so_size_bytes so m \<le> 2 ^ 32 * 512"
    using assms by (auto simp: target_fits_def backing_medium_def disk_storage_size_bytes_def BLOCK_BYTES_def
        split: scsi_backing.splits)
  then show ?thesis by simp
next
  case (CdromTarget c)
  then have "so_size_bytes so m div 512 \<le> 2 ^ 32"
    using assms by (auto simp: target_fits_def backing_medium_def split: scsi_backing.splits)
  then show ?thesis by simp
qed

lemma backing_put_simps [simp]:
  "backing_medium (backing_put m backing) = Some m"
  by (simp add: backing_put_def backing_medium_def split: scsi_backing.split)

lemma target_fits_put:
  assumes "target_fits so t backing" "backing_medium backing = Some m" "so_size_bytes so m1 = so_size_bytes so m"
  shows "target_fits so t (backing_put m1 backing)"
  using assms by (auto simp: target_fits_def backing_put_def backing_medium_def
      split: scsi_target.splits scsi_backing.splits)

lemma transfer_fits_put:
  assumes "transfer_fits so a t" "backing_medium (ta_backing a) = Some m"
    and "so_size_bytes so m1 = so_size_bytes so m"
  shows "transfer_fits so (a\<lparr>ta_backing := backing_put m1 (ta_backing a)\<rparr>) t"
  using assms by (simp add: transfer_fits_def split: scsi_transfer.splits)

text \<open>A medium access changes only the medium of its slot, and not its size.\<close>

lemma medium_put_ok:
  assumes b: "scsi_bus_ok so b" and slot: "slot < 64" "sb_targets b ! slot = Some a"
    and m: "backing_medium (ta_backing a) = Some m" "so_size_bytes so m1 = so_size_bytes so m"
  shows "scsi_bus_ok so (put_attachment slot (a\<lparr>ta_backing := backing_put m1 (ta_backing a)\<rparr>) b)"
  by (rule put_attachment_ok [OF b slot])
    (simp_all add: target_fits_put [OF slot_fits [OF b slot] m] transfer_fits_put [OF _ m])

lemma read_medium_ok:
  assumes laws: "storage_laws so contents" and b: "scsi_bus_ok so b" and slot: "slot < 64" "sb_targets b ! slot = Some a"
    and m: "backing_medium (ta_backing a) = Some m"
  shows "ok (read_medium so slot offset n b) (\<lambda>r. bus_kept so b (snd r)
      \<and> sb_active_transaction (snd r) = sb_active_transaction b
      \<and> (\<exists>m1. sb_targets (snd r) ! slot = Some (a\<lparr>ta_backing := backing_put m1 (ta_backing a)\<rparr>)
             \<and> so_size_bytes so m1 = so_size_bytes so m \<and> contents m1 = contents m)
      \<and> (\<forall>bytes. fst r = Some bytes \<longrightarrow> length bytes = n \<and> bytes = take n (drop offset (contents m))))"
proof -
  note stable = storage_size_stable(1) [OF laws, of offset n m]
  have len: "slot < length (sb_targets b)" using b slot by (simp add: scsi_bus_ok_def)
  show ?thesis
    using slot m medium_put_ok [OF b slot m stable] stable len storage_read [OF laws, of offset n m]
      storage_read_length [OF laws, of offset n m]
    by (auto simp: read_medium_def slot_attachment_ok [OF b slot(1)] split_beta Let_def put_attachment_def)
qed

lemma write_medium_ok:
  assumes laws: "storage_laws so contents" and b: "scsi_bus_ok so b" and slot: "slot < 64" "sb_targets b ! slot = Some a"
    and m: "backing_medium (ta_backing a) = Some m"
  shows "ok (write_medium so slot offset bytes b) (\<lambda>r. bus_kept so b (snd r)
      \<and> sb_active_transaction (snd r) = sb_active_transaction b
      \<and> (\<exists>m1. sb_targets (snd r) ! slot = Some (a\<lparr>ta_backing := backing_put m1 (ta_backing a)\<rparr>)
             \<and> so_size_bytes so m1 = so_size_bytes so m
             \<and> (fst r \<longrightarrow> contents m1 = splice_bytes offset bytes (contents m))))"
proof -
  note stable = storage_size_stable(2) [OF laws, of offset bytes m]
  have len: "slot < length (sb_targets b)" using b slot by (simp add: scsi_bus_ok_def)
  show ?thesis
    using slot m medium_put_ok [OF b slot m stable] stable len storage_write [OF laws, of offset bytes m]
    by (auto simp: write_medium_def slot_attachment_ok [OF b slot(1)] split_beta Let_def put_attachment_def)
qed

lemma set_transfer_ok:
  assumes "scsi_bus_ok so b" "slot < 64" "sb_targets b ! slot = Some a" "transfer_fits so a t"
  shows "bus_kept so b (b\<lparr>sb_active_transaction := Some \<lparr>tr_target_slot = slot, tr_transfer = t\<rparr>\<rparr>)"
  using set_transaction_ok [OF assms] by simp

lemma end_transfer_ok:
  assumes "scsi_bus_ok so b" "slot < 64"
  shows "ok (complete_target_storage slot succeeded (b\<lparr>sb_active_transaction := None\<rparr>)) (\<lambda>r. bus_kept so b (snd r))"
  by (rule ok_mono [OF complete_target_storage_ok [OF clear_transaction_ok [OF assms(1)] assms(2)]]) simp

lemma immediate_data_in_ok:
  assumes b: "scsi_bus_ok so b" and n: "0 < n" and accept: "callback_ok accept"
  shows "ok (transfer_immediate_data_in n accept b caller) (\<lambda>r. bus_kept so b (fst (snd r)))"
proof (cases "active_transfer b")
  case None
  then show ?thesis using b by (simp add: transfer_immediate_data_in_def)
next
  case (Some p)
  then obtain slot t where p: "active_transfer b = Some (slot, t)" by (cases p) auto
  from b p show ?thesis
  proof (rule active_transferE)
    fix a assume slot: "slot < 64" "sb_targets b ! slot = Some a" and fits: "transfer_fits so a t"
    show ?thesis
    proof (cases t)
      case (ImmediateDataIn bytes offset status)
      then have "take (min (offset + n) (length bytes) - offset) (drop offset bytes) \<noteq> []"
        using fits n by (auto simp: transfer_fits_def)
      then obtain r where "accept (take (min (offset + n) (length bytes) - offset) (drop offset bytes)) caller = Some r"
        using accept unfolding callback_ok_def by blast
      moreover have "transfer_fits so a (ImmediateDataIn bytes (min (offset + n) (length bytes)) status)"
        if "min (offset + n) (length bytes) \<noteq> length bytes"
        using that by (simp add: transfer_fits_def)
      ultimately show ?thesis
        using p ImmediateDataIn fits b clear_transaction_ok [OF b] set_transfer_ok [OF b slot]
        by (cases r) (simp add: transfer_immediate_data_in_def transfer_fits_def Let_def)
    qed (use p b in \<open>simp_all add: transfer_immediate_data_in_def\<close>)
  qed
qed

lemma storage_data_in_ok:
  assumes laws: "storage_laws so contents" and b: "scsi_bus_ok so b" and n: "0 < n" and accept: "callback_ok accept"
  shows "ok (transfer_storage_data_in so n accept b caller) (\<lambda>r. bus_kept so b (fst (snd r)))"
proof (cases "active_transfer b")
  case None
  then show ?thesis using b by (simp add: transfer_storage_data_in_def)
next
  case (Some p)
  then obtain slot t where p: "active_transfer b = Some (slot, t)" by (cases p) auto
  from b p show ?thesis
  proof (rule active_transferE)
    fix a assume slot: "slot < 64" "sb_targets b ! slot = Some a" and fits: "transfer_fits so a t"
      and target: "target_fits so (ta_target a) (ta_backing a)"
    show ?thesis
    proof (cases t)
      case (StorageDataIn offset remaining)
      then obtain m where m: "backing_medium (ta_backing a) = Some m"
        and range: "0 < remaining" "offset + remaining \<le> so_size_bytes so m"
        using fits by (auto simp: transfer_fits_def)
      let ?k = "min n remaining"
      note size = medium_size_bound [OF target m]
      note read = read_medium_ok [OF laws b slot m, of offset ?k]
      show ?thesis
        unfolding transfer_storage_data_in_def p option.case prod.case StorageDataIn scsi_transfer.case Let_def ok_bind
      proof (rule ok_mono [OF read], goal_cases)
        case (1 r)
        then obtain bytes b1 m1 where r: "r = (bytes, b1)" and b1: "scsi_bus_ok so b1"
          and conn: "sb_connection b1 = sb_connection b"
          and s1: "sb_targets b1 ! slot = Some (a\<lparr>ta_backing := backing_put m1 (ta_backing a)\<rparr>)"
          and m1: "so_size_bytes so m1 = so_size_bytes so m"
          and len: "bytes \<noteq> None \<Longrightarrow> length (the bytes) = ?k"
          by (cases r) auto
        have finish: "ok (complete_target_storage slot s (b1\<lparr>sb_active_transaction := None\<rparr>)) (\<lambda>r. bus_kept so b (snd r))" for s
          by (rule ok_mono [OF end_transfer_ok [OF b1 slot(1)]]) (simp add: conn)
        have more: "bus_kept so b (b1\<lparr>sb_active_transaction := Some \<lparr>tr_target_slot = slot,
             tr_transfer = StorageDataIn (offset + ?k) (remaining - ?k)\<rparr>\<rparr>)" if "remaining - ?k \<noteq> 0"
          using set_transfer_ok [OF b1 slot(1) s1, of "StorageDataIn (offset + ?k) (remaining - ?k)"] range m1 that conn
          by (simp add: transfer_fits_def)
        show ?case
        proof (cases bytes)
          case None
          then show ?thesis using finish by (simp add: r split_beta)
        next
          case (Some bs)
          then have "bs \<noteq> []" using len n range(1) by auto
          then obtain v where "accept bs caller = Some v" using accept unfolding callback_ok_def by blast
          then show ?thesis
            using Some finish more b1 conn range size by (simp add: r split_beta)
        qed
      qed
    qed (use p b in \<open>simp_all add: transfer_storage_data_in_def\<close>)
  qed
qed

lemma provider_result:
  assumes "provider_ok provide" "0 < n"
  shows "\<exists>given c. provide n caller = Some (given, c) \<and> (\<forall>bs. given = Some bs \<longrightarrow> length bs = n)"
proof -
  have "ok (provide n caller) (\<lambda>r. \<forall>bytes. fst r = Some bytes \<longrightarrow> length bytes = n)"
    using assms unfolding provider_ok_def by blast
  then show ?thesis by (auto simp: ok_ex)
qed

lemma storage_data_out_ok:
  assumes laws: "storage_laws so contents" and b: "scsi_bus_ok so b" and n: "0 < n" and provide: "provider_ok provide"
  shows "ok (transfer_storage_data_out so n provide b caller) (\<lambda>r. bus_kept so b (fst (snd r)))"
proof (cases "active_transfer b")
  case None
  then show ?thesis using b by (simp add: transfer_storage_data_out_def)
next
  case (Some p)
  then obtain slot t where p: "active_transfer b = Some (slot, t)" by (cases p) auto
  from b p show ?thesis
  proof (rule active_transferE)
    fix a assume slot: "slot < 64" "sb_targets b ! slot = Some a" and fits: "transfer_fits so a t"
      and target: "target_fits so (ta_target a) (ta_backing a)"
    show ?thesis
    proof (cases t)
      case (StorageDataOut offset remaining)
      then obtain m where m: "backing_medium (ta_backing a) = Some m"
        and range: "0 < remaining" "offset + remaining \<le> so_size_bytes so m"
        using fits by (auto simp: transfer_fits_def)
      let ?k = "min n remaining"
      note size = medium_size_bound [OF target m]
      have "0 < ?k" using n range(1) by simp
      obtain given c where given: "provide ?k caller = Some (given, c)"
        using provider_result [OF provide \<open>0 < ?k\<close>, of caller] by blast
      show ?thesis
      proof (cases given)
        case None
        then show ?thesis using given p StorageDataOut b by (simp add: transfer_storage_data_out_def Let_def)
      next
        case (Some bytes)
        show ?thesis
          unfolding transfer_storage_data_out_def p option.case prod.case StorageDataOut scsi_transfer.case
            Let_def given bind.bind_lunit ok_bind ok_Some Some
        proof (rule ok_mono [OF write_medium_ok [OF laws b slot m, of offset bytes]], goal_cases)
          case (1 r)
          then obtain written b1 m1 where r: "r = (written, b1)" and b1: "scsi_bus_ok so b1"
            and conn: "sb_connection b1 = sb_connection b"
            and s1: "sb_targets b1 ! slot = Some (a\<lparr>ta_backing := backing_put m1 (ta_backing a)\<rparr>)"
            and m1: "so_size_bytes so m1 = so_size_bytes so m"
            by (cases r) auto
          have finish: "ok (complete_target_storage slot s (b1\<lparr>sb_active_transaction := None\<rparr>)) (\<lambda>r. bus_kept so b (snd r))" for s
            by (rule ok_mono [OF end_transfer_ok [OF b1 slot(1)]]) (simp add: conn)
          have more: "bus_kept so b (b1\<lparr>sb_active_transaction := Some \<lparr>tr_target_slot = slot,
               tr_transfer = StorageDataOut (offset + ?k) (remaining - ?k)\<rparr>\<rparr>)" if "remaining - ?k \<noteq> 0"
            using set_transfer_ok [OF b1 slot(1) s1, of "StorageDataOut (offset + ?k) (remaining - ?k)"] range m1 that conn
            by (simp add: transfer_fits_def)
          show ?case using finish more b1 conn range size by (simp add: r split_beta)
        qed
      qed
    qed (use p b in \<open>simp_all add: transfer_storage_data_out_def\<close>)
  qed
qed

lemma target_data_out_ok:
  assumes b: "scsi_bus_ok so b" and n: "0 < n" and provide: "provider_ok provide"
  shows "ok (transfer_target_data_out n provide b caller) (\<lambda>r. bus_kept so b (fst (snd r)))"
proof (cases "active_transfer b")
  case None
  then show ?thesis using b by (simp add: transfer_target_data_out_def)
next
  case (Some p)
  then obtain slot t where p: "active_transfer b = Some (slot, t)" by (cases p) auto
  from b p show ?thesis
  proof (rule active_transferE)
    fix a assume slot: "slot < 64" "sb_targets b ! slot = Some a" and fits: "transfer_fits so a t"
    show ?thesis
    proof (cases t)
      case (TargetDataOut cdb received remaining)
      then have range: "cdb \<noteq> []" "length cdb \<le> 16" "0 < remaining" "length received + remaining < 2 ^ 64"
        using fits by (auto simp: transfer_fits_def)
      then have "0 < min n remaining" using n by simp
      obtain given c where given: "provide (min n remaining) caller = Some (given, c)"
        and full: "\<forall>bs. given = Some bs \<longrightarrow> length bs = min n remaining"
        using provider_result [OF provide \<open>0 < min n remaining\<close>, of caller] by blast
      have finish: "bus_kept so b (put_attachment slot
          (a\<lparr>ta_target := snd (target_complete_data_out cdb bytes (ta_target a))\<rparr>) (b\<lparr>sb_active_transaction := None\<rparr>))" for bytes
        using put_attachment_ok [OF clear_transaction_ok [OF b] slot(1),
          of a "a\<lparr>ta_target := snd (target_complete_data_out cdb bytes (ta_target a))\<rparr>"]
          slot target_complete_data_out_fits [OF slot_fits [OF b slot]] by simp
      have more: "bus_kept so b (b\<lparr>sb_active_transaction := Some \<lparr>tr_target_slot = slot,
          tr_transfer = TargetDataOut cdb (received @ bytes) (remaining - min n remaining)\<rparr>\<rparr>)"
        if "remaining - min n remaining \<noteq> 0" "given = Some bytes" for bytes
        using set_transfer_ok [OF b slot, of "TargetDataOut cdb (received @ bytes) (remaining - min n remaining)"]
          range that full that(2)
        by (simp add: transfer_fits_def)
      show ?thesis
        using p TargetDataOut b given finish more slot
        by (cases given)
          (simp_all add: transfer_target_data_out_def Let_def split_beta slot_attachment_ok [OF b])
    qed (use p b in \<open>simp_all add: transfer_target_data_out_def\<close>)
  qed
qed

lemma transfer_data_in_ok:
  assumes "storage_laws so contents" "scsi_bus_ok so b" "callback_ok accept"
  shows "ok (transfer_data_in so n accept b caller) (\<lambda>r. bus_kept so b (fst (snd r)))"
  using immediate_data_in_ok [OF assms(2) _ assms(3), of n caller] storage_data_in_ok [OF assms(1,2) _ assms(3), of n caller] assms(2)
  by (simp add: transfer_data_in_def split: option.split scsi_transfer.split)

lemma transfer_data_out_ok:
  assumes "storage_laws so contents" "scsi_bus_ok so b" "provider_ok provide"
  shows "ok (transfer_data_out so n provide b caller) (\<lambda>r. bus_kept so b (fst (snd r)))"
  using storage_data_out_ok [OF assms(1,2) _ assms(3), of n caller] target_data_out_ok [OF assms(2) _ assms(3), of n caller] assms(2)
  by (simp add: transfer_data_out_def split: option.split scsi_transfer.split)

subsection \<open>Information phases\<close>

lemma accept_byte_ok: "callback_ok accept_byte"
  by (simp add: callback_ok_def accept_byte_def get_at_def)

lemma provide_byte_ok: "provider_ok (provide_byte v)"
  by (simp add: provider_ok_def provide_byte_def)

lemma read_messages_lun: "unat (mr_lun r) < 8 \<Longrightarrow> unat (mr_lun (read_messages bytes r)) < 8"
proof (induction bytes r rule: read_messages.induct)
  case (2 v rest r)
  have "unat (v AND 7) < 8" by (rule unat_and_lt) simp
  with 2 show ?case by simp
qed simp

lemma read_messages_length:
  "length (mr_response (read_messages bytes r)) \<le> length (mr_response r) + length bytes"
proof (induction bytes r rule: read_messages.induct)
  case (2 v rest r)
  consider "v AND 0x80 \<noteq> 0" | "v AND 0x80 = 0" "v = 1 \<and> 4 \<le> length rest \<and> rest ! 0 = 3 \<and> rest ! 1 = 1"
    | "v AND 0x80 = 0" "\<not> (v = 1 \<and> 4 \<le> length rest \<and> rest ! 0 = 3 \<and> rest ! 1 = 1)" by blast
  then show ?case using 2 by cases (auto simp del: One_nat_def)
qed simp

lemma finish_message_out_ok:
  assumes b: "scsi_bus_ok so b" and c: "sb_connection b = Some c"
  shows "ok (finish_message_out b) (scsi_bus_ok so)"
proof -
  note fits = connection_of_ok [OF assms]
  then have "unat (mr_lun (read_messages bytes \<lparr>mr_lun = cn_lun c, mr_identified = i, mr_response = []\<rparr>)) < 8" for bytes i
    by (intro read_messages_lun) (simp add: connection_fits_def)
  moreover have "length (mr_response (read_messages (cn_message_out c)
      \<lparr>mr_lun = cn_lun c, mr_identified = i, mr_response = []\<rparr>)) \<le> 257" for i
    using read_messages_length [of "cn_message_out c" "\<lparr>mr_lun = cn_lun c, mr_identified = i, mr_response = []\<rparr>"] fits
    by (simp add: connection_fits_def)
  moreover have "scsi_bus_ok so (cancel_transaction b)"
    using set_connection_ok [OF clear_transaction_ok [OF b], of None] by (simp add: cancel_transaction_def)
  ultimately show ?thesis
    using fits c by (auto simp: finish_message_out_def Let_def connection_fits_def intro!: set_connection_ok [OF b])
qed

lemma set_phase_ok:
  assumes "scsi_bus_ok so b" "sb_connection b = Some c"
  shows "ok (set_phase phase b) (scsi_bus_ok so)"
  using connection_of_ok [OF assms] assms
  by (auto simp: set_phase_def connection_fits_def intro!: set_connection_ok)

lemma target_present_iff:
  "scsi_bus_ok so b \<Longrightarrow> target_present target_id b = Some (unat target_id < 8 \<and> has_unit b target_id)"
  by (auto simp: target_present_def has_unit_def scsi_bus_ok_def bind_require list_ex_iff word_le_nat_alt)

lemma scsi_select_ok:
  assumes "scsi_bus_ok so b"
  shows "ok (scsi_select target_id attention b) (\<lambda>r. scsi_bus_ok so (snd r))"
  using assms
  by (auto simp: scsi_select_def target_present_iff connection_fits_def intro!: set_connection_ok)

lemma scsi_cdb_length_bounds: "scsi_cdb_length opcode \<in> {6, 10, 12, 16}"
  by (simp add: scsi_cdb_length_def)

lemma missing_lun_ok:
  assumes b: "scsi_bus_ok so b" and c: "sb_connection b = Some c" and cdb: "6 \<le> length cdb"
  shows "ok (start_missing_lun_response cdb b) (scsi_bus_ok so)"
proof -
  have "0 < length cdb" "4 < length cdb" using cdb by linarith+
  then have "missing_lun_data cdb \<noteq> None" by (simp add: missing_lun_data_def)
  then obtain response where response: "missing_lun_data cdb = Some response" by blast
  note fits = connection_of_ok [OF b c]
  let ?first = "unat (cn_target_id c) * 8"
  obtain lun where lun: "lun < 8" "sb_targets b ! (?first + lun) \<noteq> None"
    using fits unfolding connection_fits_def has_unit_def by blast
  have "find (\<lambda>slot. sb_targets b ! slot \<noteq> None) [?first..<?first + 8] \<noteq> None"
    unfolding find_None_iff using lun by force
  then obtain slot where slot: "find (\<lambda>slot. sb_targets b ! slot \<noteq> None) [?first..<?first + 8] = Some slot"
    by blast
  then obtain i where i: "i < 8" "slot = ?first + i" "sb_targets b ! slot \<noteq> None"
    by (auto simp: find_Some_iff)
  moreover have "unat (cn_target_id c) < 8" using fits by (simp add: connection_fits_def)
  ultimately have "slot < 64" "sb_targets b ! slot \<noteq> None" by linarith+
  then obtain a where a: "slot < 64" "sb_targets b ! slot = Some a" by auto
  have "ok (set_phase PhaseDataIn (b\<lparr>sb_active_transaction := Some
      \<lparr>tr_target_slot = slot, tr_transfer = ImmediateDataIn bytes 0 ScsiGood\<rparr>\<rparr>)) (scsi_bus_ok so)" if "bytes \<noteq> []" for bytes
    by (rule set_phase_ok [OF set_transaction_ok [OF b a]]) (use c that in \<open>simp_all add: transfer_fits_def\<close>)
  moreover have "?first + 8 \<le> length (sb_targets b)"
    using b fits by (simp add: scsi_bus_ok_def connection_fits_def)
  ultimately show ?thesis
    using b c response slot
    by (simp add: start_missing_lun_response_def set_status_ok Let_def split: option.split)
qed

lemma execute_connected_ok:
  assumes b: "scsi_bus_ok so b" and c: "sb_connection b = Some c" and cdb: "6 \<le> length (cn_cdb c)"
  shows "ok (execute_connected_command so b) (\<lambda>r. scsi_bus_ok so (snd r))"
proof -
  obtain v w rest where bytes: "cn_cdb c = v # w # rest" using cdb by (cases "cn_cdb c"; cases "tl (cn_cdb c)") auto
  define d where "d = (if \<not> cn_identified c \<and> drop_bit 5 v = 0 then c\<lparr>cn_lun := drop_bit 5 w\<rparr> else c)"
  have "unat (drop_bit 5 w) < 8"
  proof -
    have "unat w < 8 * 32" by (rule order_less_le_trans [OF unsigned_less]) simp
    then show ?thesis by (simp add: drop_bit_eq_div unat_div less_mult_imp_div_less)
  qed
  then have "connection_fits b d"
    using connection_of_ok [OF b c] by (simp add: d_def connection_fits_def)
  then have b1: "scsi_bus_ok so (b\<lparr>sb_connection := Some d\<rparr>)" by (intro set_connection_ok [OF b]) simp
  have same: "cn_cdb d = cn_cdb c" by (simp add: d_def)
  have after: "ok (case start of
            StartComplete status \<Rightarrow> Some (scsi_set_status status b2)
          | StartDataIn _ \<Rightarrow> set_phase PhaseDataIn b2
          | StartDataOut _ \<Rightarrow> set_phase PhaseDataOut b2
          | SelectionTimeout \<Rightarrow> start_missing_lun_response (cn_cdb d) b2) (scsi_bus_ok so)"
    if "scsi_bus_ok so b2" "sb_connection b2 = Some d" for start b2
    using that set_status_ok set_phase_ok missing_lun_ok [OF that] cdb same
    by (auto split: scsi_command_start.split)
  have "cn_cdb d \<noteq> []" "length (cn_cdb d) \<le> 16"
    using bytes same connection_of_ok [OF b c] by (simp_all add: connection_fits_def)
  note start = start_command_ok [OF b1 this, of "cn_target_id d" "cn_lun d"]
  have pick: "(if \<not> cn_identified c \<and> drop_bit 5 v = 0
      then map_option (\<lambda>second. c\<lparr>cn_lun := drop_bit 5 second\<rparr>) (get_at (v # w # rest) 1) else Some c) = Some d"
    by (simp add: d_def)
  show ?thesis
    unfolding execute_connected_command_def c bytes bind.bind_lunit pick Let_def
    using bytes same
    by (simp add: split_beta pick split: sum.split)
      (rule ok_mono [OF start [unfolded same bytes]], simp add: after)
qed

lemma write_information_ok:
  assumes laws: "storage_laws so contents" and b: "scsi_bus_ok so b"
  shows "ok (write_information so v is_last b) (\<lambda>r. scsi_bus_ok so (snd r))"
proof (cases "sb_connection b")
  case None
  then show ?thesis using b by (simp add: write_information_def)
next
  case (Some c)
  note fits = connection_of_ok [OF b Some]
  show ?thesis
  proof (cases "cn_phase c")
    case PhaseDataOut
    then show ?thesis
      using Some transfer_data_out_ok [OF laws b provide_byte_ok, of 1 v "()"]
      by (auto simp: write_information_def split_beta observe_result_ok split: sum.split elim!: ok_mono)
  next
    case PhaseMessageOut
    define c1 where "c1 = c\<lparr>cn_message_out := cn_message_out c @ [v]\<rparr>"
    have "scsi_bus_ok so (b\<lparr>sb_connection := Some c1\<rparr>)" if "length (cn_message_out c) \<noteq> 257"
      using fits that by (intro set_connection_ok [OF b]) (auto simp: connection_fits_def c1_def)
    moreover have "ok (finish_message_out (b\<lparr>sb_connection := Some c1\<rparr>)) (scsi_bus_ok so)"
      if "length (cn_message_out c) \<noteq> 257"
      by (rule finish_message_out_ok [where c = c1]) (use calculation that in simp_all)
    ultimately show ?thesis
      using Some PhaseMessageOut b by (simp add: write_information_def Let_def c1_def)
  next
    case PhaseCommand
    define c1 where "c1 = c\<lparr>cn_cdb := cn_cdb c @ [v]\<rparr>"
    have b1: "scsi_bus_ok so (b\<lparr>sb_connection := Some c1\<rparr>)" if "length (cn_cdb c) \<noteq> 16"
      using fits that by (intro set_connection_ok [OF b]) (auto simp: connection_fits_def c1_def)
    have "ok (execute_connected_command so (b\<lparr>sb_connection := Some c1\<rparr>)) (\<lambda>r. scsi_bus_ok so (snd r))"
      if full: "length (cn_cdb c) \<noteq> 16" "length (cn_cdb c @ [v]) = scsi_cdb_length ((cn_cdb c @ [v]) ! 0)"
    proof (rule execute_connected_ok [OF b1 [OF full(1)], where c = c1])
      have "6 \<le> scsi_cdb_length opcode" for opcode using scsi_cdb_length_bounds [of opcode] by auto
      then show "6 \<le> length (cn_cdb c1)" using full(2) by (simp add: c1_def)
    qed simp
    with b1 show ?thesis
      using Some PhaseCommand b by (simp add: write_information_def Let_def c1_def split_beta)
  qed (use Some b in \<open>simp_all add: write_information_def\<close>)
qed

lemma read_information_ok:
  assumes laws: "storage_laws so contents" and b: "scsi_bus_ok so b"
  shows "ok (read_information so b) (\<lambda>r. scsi_bus_ok so (snd r))"
proof (cases "sb_connection b")
  case None
  then show ?thesis using b by (simp add: read_information_def)
next
  case (Some c)
  note fits = connection_of_ok [OF b Some]
  show ?thesis
  proof (cases "cn_phase c")
    case PhaseDataIn
    then show ?thesis
      using Some transfer_data_in_ok [OF laws b accept_byte_ok, of 1 None]
      by (auto simp: read_information_def split_beta observe_result_ok split: sum.split elim!: ok_mono)
  qed (use Some b fits in \<open>auto simp: read_information_def connection_fits_def get_at_eq_Some
      intro!: set_connection_ok split: option.split\<close>)
qed

lemma acknowledge_message_ok: "scsi_bus_ok so b \<Longrightarrow> scsi_bus_ok so (acknowledge_message attention b)"
  using connection_of_ok [of so b]
  by (auto simp: acknowledge_message_def connection_fits_def intro!: set_connection_ok split: option.split)

lemma assert_attention_ok: "scsi_bus_ok so b \<Longrightarrow> scsi_bus_ok so (assert_attention b)"
  using connection_of_ok [of so b]
  by (auto simp: assert_attention_def connection_fits_def intro!: set_connection_ok split: option.split)

lemma cancel_transaction_ok: "scsi_bus_ok so b \<Longrightarrow> scsi_bus_ok so (cancel_transaction b)"
  using set_connection_ok [OF clear_transaction_ok, of so b None] by (simp add: cancel_transaction_def)

lemma scsi_bus_new_ok: "scsi_bus_ok so scsi_bus_new"
  by (simp add: scsi_bus_ok_def scsi_bus_new_def TARGET_SLOT_COUNT_def TARGET_COUNT_def LUN_COUNT_def)

end
