(* ===== verification/Scsi_Session.thy ===== *)
theory Scsi_Session
  imports Scsi_Correct
begin

text \<open>
  Attachment, media changes and snapshots keep the SCSI bus consistent, and sequences of
  operations never panic.
\<close>

section \<open>Attachment and media\<close>

lemma validate_medium_fits:
  assumes "validate_medium_size n = Inr u"
  shows "0 < n" "n mod 2048 = 0" "n div 512 \<le> 2 ^ 32"
  using assms by (simp_all add: validate_medium_size_def STORAGE_ALIGNMENT_BYTES_def
      INITIAL_LOGICAL_BLOCK_BYTES_def split: if_splits)

lemma fill_slot_ok:
  assumes b: "scsi_bus_ok so b" and slot: "slot < 64" "sb_targets b ! slot = None"
    and fits: "target_fits so (ta_target a) (ta_backing a)"
  shows "scsi_bus_ok so (put_attachment slot a b)"
proof -
  have len: "length (sb_targets b) = 64" using b by (simp add: scsi_bus_ok_def)
  have "has_unit (put_attachment slot a b) i" if "has_unit b i" for i
  proof -
    obtain lun where lun: "lun < 8" "sb_targets b ! (unat i * 8 + lun) \<noteq> None"
      using \<open>has_unit b i\<close> by (auto simp: has_unit_def)
    then have "sb_targets (put_attachment slot a b) ! (unat i * 8 + lun) \<noteq> None"
      using slot len by (cases "unat i * 8 + lun = slot") (auto simp: put_attachment_def)
    with lun(1) show ?thesis unfolding has_unit_def by blast
  qed
  moreover have "\<exists>a'. sb_targets (put_attachment slot a b) ! tr_target_slot t = Some a' \<and> transfer_fits so a' (tr_transfer t)"
    if "sb_active_transaction b = Some t" for t
    by (rule active_slot [OF b that]) (use slot in \<open>cases "tr_target_slot t = slot"; auto simp: put_attachment_def\<close>)
  moreover have "tr_target_slot t < 64" if "sb_active_transaction b = Some t" for t
    using b that by (simp add: scsi_bus_ok_def)
  ultimately show ?thesis
    using b fits slot len
    by (auto simp: scsi_bus_ok_def put_attachment_def nth_list_update connection_fits_def)
qed

text \<open>A target as its constructor makes it, before any medium is inserted.\<close>

definition fresh_target :: "'m storage_ops \<Rightarrow> scsi_target \<Rightarrow> 'm scsi_backing \<Rightarrow> bool" where
  "fresh_target so t backing \<longleftrightarrow>
     (case (t, backing) of
        (DiskTarget _, FixedBacking _) \<Rightarrow> target_fits so t backing
      | (CdromTarget c, RemovableBacking m) \<Rightarrow> cr_logical_block_bytes c \<in> {512, 2048}
          \<and> (case m of None \<Rightarrow> True | Some m \<Rightarrow> validate_medium_size (so_size_bytes so m) = Inr ())
      | _ \<Rightarrow> True)"

lemma attach_backing_ok:
  assumes b: "scsi_bus_ok so b" and fresh: "fresh_target so t backing"
    and kind: "\<And>k m. t = CdromTarget k \<Longrightarrow> backing \<noteq> FixedBacking m"
  shows "ok (attach_backing so target_id lun t backing b) (\<lambda>r. scsi_bus_ok so (snd r))"
proof (cases "target_slot target_id lun")
  case None
  then show ?thesis using b by (simp add: attach_backing_def)
next
  case (Some slot)
  note slot = target_slot_lt [OF Some]
  show ?thesis
  proof (cases "sb_targets b ! slot")
    case (Some a)
    then show ?thesis
      using b \<open>target_slot target_id lun = Some slot\<close> slot by (simp add: attach_backing_def slot_attachment_ok)
  next
    case None
    note put = fill_slot_ok [OF b slot None]
    show ?thesis
    proof (cases t)
      case (DiskTarget k)
      then show ?thesis
        using Some None b slot fresh put [of "\<lparr>ta_target = t, ta_backing = backing\<rparr>"]
        by (cases backing) (simp_all add: attach_backing_def slot_attachment_ok fresh_target_def)
    next
      case (CdromTarget c)
      obtain m where m: "backing = RemovableBacking m" using kind [OF CdromTarget] by (cases backing) auto
      let ?c = "case m of Some m \<Rightarrow> cdrom_medium_inserted (so_size_bytes so m) ColdAttach c
        | None \<Rightarrow> cdrom_medium_removed ColdAttach c"
      have "target_fits so (CdromTarget ?c) backing"
        using fresh CdromTarget validate_medium_fits
        by (auto simp: m fresh_target_def target_fits_def cdrom_medium_inserted_def cdrom_medium_removed_def
            split: option.splits)
      then show ?thesis
        using Some None b slot CdromTarget put [of "\<lparr>ta_target = CdromTarget ?c, ta_backing = backing\<rparr>"]
        by (simp add: attach_backing_def slot_attachment_ok m)
    qed
  qed
qed

lemma insert_medium_ok:
  assumes b: "scsi_bus_ok so b"
  shows "ok (insert_medium so target_id lun medium b) (\<lambda>r. scsi_bus_ok so (snd r))"
proof (cases "target_slot target_id lun")
  case None
  then show ?thesis using b by (simp add: insert_medium_def)
next
  case (Some slot)
  note slot = target_slot_lt [OF Some]
  show ?thesis
  proof (cases "sb_targets b ! slot")
    case None
    then show ?thesis using b Some slot by (simp add: insert_medium_def slot_attachment_ok)
  next
    case a: (Some a)
    have "scsi_bus_ok so (put_attachment slot
        \<lparr>ta_target = CdromTarget (cdrom_medium_inserted (so_size_bytes so medium) ExternalChange c),
         ta_backing = RemovableBacking (Some medium)\<rparr> b)"
      if "ta_target a = CdromTarget c" "validate_medium_size (so_size_bytes so medium) = Inr ()"
        "sb_active_transaction b = None" for c
      by (rule put_attachment_ok [OF b slot a])
        (use slot_fits [OF b slot a] that validate_medium_fits [OF that(2)] in
          \<open>auto simp: target_fits_def cdrom_medium_inserted_def split: scsi_backing.splits\<close>)
    then show ?thesis
      using b Some slot a
      by (auto simp: insert_medium_def slot_attachment_ok Let_def
          split: scsi_backing.split option.split scsi_target.split sum.split)
  qed
qed

lemma eject_medium_ok:
  assumes b: "scsi_bus_ok so b"
  shows "ok (eject_medium target_id lun force b) (\<lambda>r. scsi_bus_ok so (snd r))"
proof (cases "target_slot target_id lun")
  case None
  then show ?thesis using b by (simp add: eject_medium_def)
next
  case (Some slot)
  note slot = target_slot_lt [OF Some]
  show ?thesis
  proof (cases "sb_targets b ! slot")
    case None
    then show ?thesis using b Some slot by (simp add: eject_medium_def slot_attachment_ok)
  next
    case a: (Some a)
    have "scsi_bus_ok so (put_attachment slot
        \<lparr>ta_target = CdromTarget (cdrom_medium_removed ExternalChange (if force then c\<lparr>cr_removal_prevented := False\<rparr> else c)),
         ta_backing = RemovableBacking None\<rparr> b)"
      if "ta_target a = CdromTarget c" "sb_active_transaction b = None" for c
      by (rule put_attachment_ok [OF b slot a])
        (use slot_fits [OF b slot a] that in
          \<open>auto simp: target_fits_def cdrom_medium_removed_def split: scsi_backing.splits\<close>)
    then show ?thesis
      using b Some slot a
      by (auto simp: eject_medium_def slot_attachment_ok Let_def
          split: scsi_backing.split option.split scsi_target.split)
  qed
qed

section \<open>Snapshots\<close>

lemma slot_of_address: "slot < 64 \<Longrightarrow> target_slot (fst (address_for_slot slot)) (snd (address_for_slot slot)) = Some slot"
  by (simp add: address_for_slot_def target_slot_def TARGET_COUNT_def LUN_COUNT_def unat_of_nat)

lemma snapshot_target_states_suffix:
  assumes "length states + length targets \<le> 64"
  shows "snapshot_target_states
      (concat (map (\<lambda>(slot, attachment). case attachment of
            None \<Rightarrow> []
          | Some a \<Rightarrow> [(fst (address_for_slot slot), snd (address_for_slot slot), ta_target a)])
        (List.enumerate (length states) targets)))
      (states @ replicate (length targets) None) = Some (states @ map (map_option ta_target) targets)"
  using assms
proof (induction targets arbitrary: states)
  case (Cons attachment targets)
  have "length states < 64" using Cons.prems by simp
  note slot = slot_of_address [OF this]
  show ?case
  proof (cases attachment)
    case None
    then show ?thesis using Cons.IH [of "states @ [None]"] Cons.prems by simp
  next
    case (Some a)
    then show ?thesis
      using Cons.IH [of "states @ [Some (ta_target a)]"] Cons.prems
      by (simp add: slot list_update_append nth_append)
  qed
qed simp

lemma snapshot_target_states_length:
  "snapshot_target_states entries states = Some result \<Longrightarrow> length result = length states"
  by (induction entries states rule: snapshot_target_states.induct) (auto split: option.splits if_splits)

lemma snapshot_states:
  assumes "scsi_bus_ok so b"
  shows "snapshot_target_states (ss_targets (scsi_snapshot b)) (replicate TARGET_SLOT_COUNT None)
    = Some (map (map_option ta_target) (sb_targets b))"
proof -
  have len: "length (sb_targets b) = 64" using assms by (simp add: scsi_bus_ok_def)
  have "snapshot_target_states (ss_targets (scsi_snapshot b)) ([] @ replicate (length (sb_targets b)) None)
      = Some ([] @ map (map_option ta_target) (sb_targets b))"
    using snapshot_target_states_suffix [of "[]" "sb_targets b"] len by (simp add: scsi_snapshot_def)
  then show ?thesis by (simp add: len TARGET_SLOT_COUNT_def TARGET_COUNT_def LUN_COUNT_def)
qed

text \<open>The attachment a slot has after a snapshot it accepts.\<close>

definition restored :: "'m target_attachment option \<times> scsi_target option \<Rightarrow> 'm target_attachment option" where
  "restored p = (case p of
     (Some a, Some state) \<Rightarrow> Some \<lparr>ta_target = state,
        ta_backing = (case ta_backing a of
            RemovableBacking m \<Rightarrow>
              if snapshot_medium_size_bytes state = None then RemovableBacking None else RemovableBacking m
          | FixedBacking m \<Rightarrow> FixedBacking m)\<rparr>
   | (attachment, _) \<Rightarrow> attachment)"

lemma restore_targets_accepted:
  "list_all (attachment_accepts so) ps \<Longrightarrow> restore_targets ps = (True, map restored ps)"
  by (induction ps rule: restore_targets.induct)
    (auto simp: attachment_accepts_def target_restore_snapshot_def restored_def Let_def split: option.splits)

lemma restored_fits:
  assumes fits: "target_fits so (ta_target a) (ta_backing a)" and accepts: "attachment_accepts so (Some a, Some state)"
    and r: "restored (Some a, Some state) = Some a1"
  shows "target_fits so (ta_target a1) (ta_backing a1)"
proof (cases "ta_target a")
  case (DiskTarget k)
  then show ?thesis
    using assms
    by (auto simp: attachment_accepts_def target_accepts_snapshot_def restored_def target_fits_def
        disk_storage_size_bytes_def split: scsi_backing.splits scsi_target.splits)
next
  case (CdromTarget c)
  obtain d where d: "state = CdromTarget d"
    using accepts CdromTarget by (auto simp: attachment_accepts_def target_accepts_snapshot_def split: scsi_target.splits)
  then show ?thesis
    using assms CdromTarget
    by (auto simp: attachment_accepts_def target_accepts_snapshot_def accepts_cdrom_snapshot_def restored_def
        target_fits_def snapshot_medium_size_bytes_def backing_accepts_snapshot_def SUPPORTED_LOGICAL_BLOCK_BYTES_def
        INITIAL_LOGICAL_BLOCK_BYTES_def target_backing_requirement_def
        split: scsi_backing.splits option.splits)
qed

lemma restored_transfer_fits:
  assumes accepts: "attachment_accepts so (Some a, Some state)"
    and r: "restored (Some a, Some state) = Some a1"
    and at: "get_at targets (tr_target_slot t) = Some (Some a)" "get_at states (tr_target_slot t) = Some (Some state)"
    and valid: "snapshot_transaction_valid so t targets states"
  shows "transfer_fits so a1 (tr_transfer t)"
proof (cases state)
  case (DiskTarget k)
  then obtain m where "ta_backing a = FixedBacking m"
    using accepts by (auto simp: attachment_accepts_def backing_accepts_snapshot_def target_backing_requirement_def
        split: scsi_backing.splits)
  then show ?thesis
    using DiskTarget r at valid
    by (auto simp: restored_def snapshot_transaction_valid_def transfer_fits_def target_backing_requirement_def
        backing_medium_size_bytes_def backing_medium_def Let_def split: scsi_transfer.splits)
next
  case (CdromTarget c)
  then obtain m where "ta_backing a = RemovableBacking m"
    "\<And>n. cr_medium_bytes c = Some n \<Longrightarrow> \<exists>k. m = Some k \<and> so_size_bytes so k = n"
    using accepts by (auto simp: attachment_accepts_def backing_accepts_snapshot_def target_backing_requirement_def
        snapshot_medium_size_bytes_def split: scsi_backing.splits option.splits)
  then show ?thesis
    using CdromTarget r at valid
    by (auto simp: restored_def snapshot_transaction_valid_def transfer_fits_def target_backing_requirement_def
        snapshot_medium_size_bytes_def backing_medium_def Let_def split: scsi_transfer.splits option.splits)
qed

lemma restored_None: "attachment_accepts so (x, y) \<Longrightarrow> restored (x, y) = None \<longleftrightarrow> x = None"
  by (auto simp: attachment_accepts_def restored_def split: option.splits)

lemma restored_bus_ok:
  assumes b: "scsi_bus_ok so b" and len: "length states = 64"
    and accepts: "list_all (attachment_accepts so) (zip (sb_targets b) states)"
    and transaction: "\<And>t. transaction = Some t \<Longrightarrow> snapshot_transaction_valid so t (sb_targets b) states"
    and connection: "\<And>c. connection = Some c \<Longrightarrow> snapshot_connection_invalid c b = Some False"
  shows "scsi_bus_ok so \<lparr>sb_targets = map restored (zip (sb_targets b) states),
    sb_active_transaction = transaction, sb_connection = connection\<rparr>"
    (is "scsi_bus_ok so ?b")
proof -
  have n: "length (sb_targets b) = 64" using b by (simp add: scsi_bus_ok_def)
  have at: "sb_targets ?b ! slot = restored (sb_targets b ! slot, states ! slot)"
    and accept: "attachment_accepts so (sb_targets b ! slot, states ! slot)" if "slot < 64" for slot
    using that n len accepts by (simp_all add: list_all_length)
  have unit: "has_unit ?b i = has_unit b i" if "unat i < 8" for i
    unfolding has_unit_def using at restored_None [OF accept] that
    by (intro ex_cong1 conj_cong refl) (simp add: algebra_simps)
  have some: "\<exists>state. states ! slot = Some state" if "slot < 64" "sb_targets b ! slot = Some a" for slot a
    using accept [OF that(1)] that(2) by (auto simp: attachment_accepts_def split: option.splits)
  have fits: "target_fits so (ta_target a1) (ta_backing a1)"
    if slot: "slot < 64" and a1: "sb_targets ?b ! slot = Some a1" for slot a1
  proof -
    obtain a where a: "sb_targets b ! slot = Some a" using at [OF slot] a1 restored_None [OF accept [OF slot]] by auto
    obtain state where "states ! slot = Some state" using some [OF slot a] by blast
    then show ?thesis
      using restored_fits [OF slot_fits [OF b slot a], of state a1] accept [OF slot] at [OF slot] a1 a by simp
  qed
  have trans: "tr_target_slot t < 64 \<and> (\<exists>a1. sb_targets ?b ! tr_target_slot t = Some a1 \<and> transfer_fits so a1 (tr_transfer t))"
    if t: "sb_active_transaction ?b = Some t" for t
  proof -
    have valid: "snapshot_transaction_valid so t (sb_targets b) states" using transaction t by simp
    then obtain a where a: "get_at (sb_targets b) (tr_target_slot t) = Some (Some a)"
      by (auto simp: snapshot_transaction_valid_def split: option.splits)
    then have slot: "tr_target_slot t < 64" and a': "sb_targets b ! tr_target_slot t = Some a"
      using n by (auto simp: get_at_eq_Some)
    obtain state where state: "states ! tr_target_slot t = Some state" using some [OF slot a'] by blast
    obtain a1 where a1: "restored (Some a, Some state) = Some a1" by (simp add: restored_def)
    have "get_at states (tr_target_slot t) = Some (Some state)" using state slot len by (simp add: get_at_eq_Some)
    then have "transfer_fits so a1 (tr_transfer t)"
      using restored_transfer_fits [OF _ a1 a _ valid] accept [OF slot] a' state by simp
    then show ?thesis using at [OF slot] a1 a' state slot by simp
  qed
  have conn: "connection_fits ?b c" if c: "sb_connection ?b = Some c" for c
    using connection [of c] c unit [of "cn_target_id c"]
    by (auto simp: snapshot_connection_invalid_def target_present_iff [OF b] connection_fits_def word_le_nat_alt)
  have "length (sb_targets ?b) = 64" using n len by simp
  then show ?thesis unfolding scsi_bus_ok_def using fits trans conn by blast
qed

lemma scsi_restore_ok:
  assumes b: "scsi_bus_ok so b"
  shows "ok (scsi_restore_snapshot so snapshot b) (\<lambda>(accepted, b1). scsi_bus_ok so b1 \<and> (\<not> accepted \<longrightarrow> b1 = b))"
proof (cases "snapshot_target_states (ss_targets snapshot) (replicate TARGET_SLOT_COUNT None)")
  case None
  then show ?thesis using b by (simp add: scsi_restore_snapshot_def)
next
  case (Some states)
  have len: "length states = 64"
    using snapshot_target_states_length [OF Some] by (simp add: TARGET_SLOT_COUNT_def TARGET_COUNT_def LUN_COUNT_def)
  have "\<exists>invalid. snapshot_connection_invalid c b = Some invalid" for c
    by (simp add: snapshot_connection_invalid_def target_present_iff [OF b])
  then obtain invalid where invalid: "(case ss_connection snapshot of Some c \<Rightarrow> snapshot_connection_invalid c b
      | None \<Rightarrow> Some False) = Some invalid"
    by (cases "ss_connection snapshot") auto
  show ?thesis
  proof (cases "list_all (attachment_accepts so) (zip (sb_targets b) states)
      \<and> \<not> (case ss_active_transaction snapshot of
            Some t \<Rightarrow> \<not> snapshot_transaction_valid so t (sb_targets b) states | None \<Rightarrow> False)
      \<and> \<not> invalid")
    case True
    then have "scsi_bus_ok so \<lparr>sb_targets = map restored (zip (sb_targets b) states),
        sb_active_transaction = ss_active_transaction snapshot, sb_connection = ss_connection snapshot\<rparr>"
      using invalid by (intro restored_bus_ok [OF b len]) auto
    then have "scsi_bus_ok so (b\<lparr>sb_targets := map restored (zip (sb_targets b) states),
        sb_active_transaction := ss_active_transaction snapshot, sb_connection := ss_connection snapshot\<rparr>)"
      by (cases b) simp
    then show ?thesis using True
      by (simp add: scsi_restore_snapshot_def Some invalid restore_targets_accepted [OF conjunct1 [OF True]])
  next
    case False
    then show ?thesis
      using b by (auto simp: scsi_restore_snapshot_def Some invalid)
  qed
qed

section \<open>Sequences of operations\<close>

datatype 'm scsi_action =
    ActAttachDisk u8 u8 'm
  | ActAttachCdrom u8 u8 'm
  | ActAttachEmptyCdrom u8 u8
  | ActInsert u8 u8 'm
  | ActEject u8 u8 bool
  | ActSelect u8 bool
  | ActWrite u8 bool
  | ActRead
  | ActAcknowledge bool
  | ActAttention
  | ActCancel
  | ActRestore scsi_bus_snapshot

text \<open>A target whose constructor fails is not attached.\<close>

definition scsi_perform :: "'m storage_ops \<Rightarrow> 'm scsi_action \<Rightarrow> 'm scsi_bus \<Rightarrow> 'm scsi_bus option" where
  "scsi_perform so action b =
     (case action of
        ActAttachDisk target_id lun m \<Rightarrow>
          (case disk_try_new (so_size_bytes so m) of
             Inl _ \<Rightarrow> Some b
           | Inr k \<Rightarrow> map_option snd (scsi_attach so target_id lun (DiskTarget k) m b))
      | ActAttachCdrom target_id lun m \<Rightarrow>
          (case cdrom_try_new (so_size_bytes so m) of
             Inl _ \<Rightarrow> Some b
           | Inr c \<Rightarrow> map_option snd (scsi_attach so target_id lun (CdromTarget c) m b))
      | ActAttachEmptyCdrom target_id lun \<Rightarrow>
          map_option snd (attach_removable_empty so target_id lun (CdromTarget cdrom_new_empty) b)
      | ActInsert target_id lun m \<Rightarrow> map_option snd (insert_medium so target_id lun m b)
      | ActEject target_id lun force \<Rightarrow> map_option snd (eject_medium target_id lun force b)
      | ActSelect target_id attention \<Rightarrow> map_option snd (scsi_select target_id attention b)
      | ActWrite v is_last \<Rightarrow> map_option snd (write_information so v is_last b)
      | ActRead \<Rightarrow> map_option snd (read_information so b)
      | ActAcknowledge attention \<Rightarrow> Some (acknowledge_message attention b)
      | ActAttention \<Rightarrow> Some (assert_attention b)
      | ActCancel \<Rightarrow> Some (cancel_transaction b)
      | ActRestore snapshot \<Rightarrow> map_option snd (scsi_restore_snapshot so snapshot b))"

inductive scsi_reachable :: "'m storage_ops \<Rightarrow> 'm scsi_bus \<Rightarrow> bool" for so where
  scsi_initial: "scsi_reachable so scsi_bus_new"
| scsi_step: "scsi_reachable so b \<Longrightarrow> scsi_perform so action b = Some b1 \<Longrightarrow> scsi_reachable so b1"

lemma attach_disk_ok:
  assumes b: "scsi_bus_ok so b" and k: "disk_try_new (so_size_bytes so m) = Inr k"
  shows "ok (scsi_attach so target_id lun (DiskTarget k) m b) (\<lambda>r. scsi_bus_ok so (snd r))"
proof -
  have "so_size_bytes so m = disk_storage_size_bytes k" "0 < dk_block_count k" "dk_block_count k \<le> 2 ^ 32"
    using k by (auto simp: disk_try_new_def disk_storage_size_bytes_def BLOCK_BYTES_def split: if_splits)
  then show ?thesis
    using attach_backing_ok [OF b, of "DiskTarget k" "FixedBacking m"] b
    by (simp add: scsi_attach_def target_backing_requirement_def fresh_target_def target_fits_def)
qed

lemma attach_cdrom_ok:
  assumes b: "scsi_bus_ok so b" and c: "cdrom_try_new (so_size_bytes so m) = Inr c"
  shows "ok (scsi_attach so target_id lun (CdromTarget c) m b) (\<lambda>r. scsi_bus_ok so (snd r))"
proof -
  have "cr_logical_block_bytes c = 512" "validate_medium_size (so_size_bytes so m) = Inr ()"
    using c by (auto simp: cdrom_try_new_def cdrom_new_empty_def INITIAL_LOGICAL_BLOCK_BYTES_def split: sum.splits)
  then show ?thesis
    using attach_backing_ok [OF b, of "CdromTarget c" "RemovableBacking (Some m)"]
    by (simp add: scsi_attach_def target_backing_requirement_def fresh_target_def)
qed

lemma attach_empty_ok:
  assumes b: "scsi_bus_ok so b"
  shows "ok (attach_removable_empty so target_id lun (CdromTarget cdrom_new_empty) b) (\<lambda>r. scsi_bus_ok so (snd r))"
  using attach_backing_ok [OF b, of "CdromTarget cdrom_new_empty" "RemovableBacking None"]
  by (simp add: attach_removable_empty_def fresh_target_def cdrom_new_empty_def INITIAL_LOGICAL_BLOCK_BYTES_def)

lemma scsi_perform_ok:
  assumes laws: "storage_laws so contents" and b: "scsi_bus_ok so b"
  shows "ok (scsi_perform so action b) (scsi_bus_ok so)"
proof -
  have "ok (scsi_restore_snapshot so snapshot b) (\<lambda>r. scsi_bus_ok so (snd r))" for snapshot
    by (rule ok_mono [OF scsi_restore_ok [OF b]]) auto
  then show ?thesis
    using b attach_disk_ok [OF b] attach_cdrom_ok [OF b] attach_empty_ok [OF b] insert_medium_ok [OF b]
      eject_medium_ok [OF b] scsi_select_ok [OF b] write_information_ok [OF laws b] read_information_ok [OF laws b]
      acknowledge_message_ok [OF b] assert_attention_ok [OF b] cancel_transaction_ok [OF b]
    by (cases action) (auto simp: scsi_perform_def split: sum.split)
qed

lemma scsi_reachable_ok:
  assumes "scsi_reachable so b" "storage_laws so contents"
  shows "scsi_bus_ok so b"
  using assms(1)
proof (induction rule: scsi_reachable.induct)
  case scsi_initial
  show ?case by (rule scsi_bus_new_ok)
next
  case (scsi_step b action b1)
  then show ?case using scsi_perform_ok [OF assms(2), of b action] by simp
qed

end
