(* ===== verification/Scsi_Device.thy ===== *)
theory Scsi_Device
  imports Scsi_Session
begin

text \<open>
  A disk behind the SCSI bus is an array of blocks: what the initiator writes byte by byte through
  the information phases is what it reads back, whatever else is attached.
\<close>

section \<open>Media in memory\<close>

text \<open>The storage of the board's tests, \<^verbatim>\<open>indigo/ip12/bus/test_support.rs\<close>, which may fail.\<close>

record memory_medium =
  mm_bytes :: "u8 list"
  mm_fail_reads :: bool
  mm_fail_writes :: bool
  mm_writable :: bool

definition memory_read_exact_at :: "nat \<Rightarrow> nat \<Rightarrow> memory_medium \<Rightarrow> u8 list option \<times> memory_medium" where
  "memory_read_exact_at offset n m =
     (if mm_fail_reads m \<or> length (mm_bytes m) < offset + n then None
      else Some (take n (drop offset (mm_bytes m))), m)"

definition memory_write_all_at :: "nat \<Rightarrow> u8 list \<Rightarrow> memory_medium \<Rightarrow> bool \<times> memory_medium" where
  "memory_write_all_at offset bytes m =
     (if \<not> mm_writable m \<or> mm_fail_writes m \<or> length (mm_bytes m) < offset + length bytes then (False, m)
      else (True, m\<lparr>mm_bytes := splice_bytes offset bytes (mm_bytes m)\<rparr>))"

definition memory_storage :: "memory_medium storage_ops" where
  "memory_storage = \<lparr>so_size_bytes = length \<circ> mm_bytes, so_read_exact_at = memory_read_exact_at,
     so_write_all_at = memory_write_all_at\<rparr>"

lemma memory_storage_laws: "storage_laws memory_storage mm_bytes"
  by (auto simp: storage_laws_def memory_storage_def memory_read_exact_at_def memory_write_all_at_def splice_bytes_def)

section \<open>Commands as the initiator runs them\<close>

text \<open>
  The initiator selects a target without attention, sends the bytes of a command, moves its data,
  and takes the status and the command complete message. A step that fails ends the run.
\<close>

fun send_bytes :: "'m storage_ops \<Rightarrow> u8 list \<Rightarrow> 'm scsi_bus \<Rightarrow> 'm scsi_bus option" where
  "send_bytes so [] b = Some b"
| "send_bytes so (v # vs) b = do {
     (r, b) \<leftarrow> write_information so v False b;
     require (r = Inr True);
     send_bytes so vs b
   }"

fun receive_bytes :: "'m storage_ops \<Rightarrow> nat \<Rightarrow> 'm scsi_bus \<Rightarrow> (u8 list \<times> 'm scsi_bus) option" where
  "receive_bytes so 0 b = Some ([], b)"
| "receive_bytes so (Suc n) b = do {
     (r, b) \<leftarrow> read_information so b;
     case r of
       Inr (Some v) \<Rightarrow> map_option (map_prod ((#) v) id) (receive_bytes so n b)
     | _ \<Rightarrow> None
   }"

definition finish_command :: "'m storage_ops \<Rightarrow> 'm scsi_bus \<Rightarrow> (u8 \<times> 'm scsi_bus) option" where
  "finish_command so b = do {
     (status_and_message, b) \<leftarrow> receive_bytes so 2 b;
     require (status_and_message ! 1 = 0);
     Some (status_and_message ! 0, acknowledge_message False b)
   }"

definition write_command ::
  "'m storage_ops \<Rightarrow> u8 \<Rightarrow> u8 list \<Rightarrow> u8 list \<Rightarrow> 'm scsi_bus \<Rightarrow> (u8 \<times> 'm scsi_bus) option" where
  "write_command so target_id cdb bytes b = do {
     (r, b) \<leftarrow> scsi_select target_id False b;
     require (r = Inr True);
     b \<leftarrow> send_bytes so cdb b;
     b \<leftarrow> send_bytes so bytes b;
     finish_command so b
   }"

definition read_command ::
  "'m storage_ops \<Rightarrow> u8 \<Rightarrow> u8 list \<Rightarrow> nat \<Rightarrow> 'm scsi_bus \<Rightarrow> (u8 list \<times> u8 \<times> 'm scsi_bus) option" where
  "read_command so target_id cdb n b = do {
     (r, b) \<leftarrow> scsi_select target_id False b;
     require (r = Inr True);
     b \<leftarrow> send_bytes so cdb b;
     (bytes, b) \<leftarrow> receive_bytes so n b;
     (status, b) \<leftarrow> finish_command so b;
     Some (bytes, status, b)
   }"

definition block_cdb :: "u8 \<Rightarrow> u32 \<Rightarrow> u16 \<Rightarrow> u8 list" where
  "block_cdb opcode lba count = [opcode, 0] @ to_be_bytes32 lba @ [0] @ to_be_bytes16 count @ [0]"

text \<open>A medium that answers every access within its size.\<close>

definition storage_reliable :: "'m storage_ops \<Rightarrow> ('m \<Rightarrow> u8 list) \<Rightarrow> ('m \<Rightarrow> bool) \<Rightarrow> bool" where
  "storage_reliable so contents healthy \<longleftrightarrow>
     (\<forall>m offset n. healthy m \<and> offset + n \<le> length (contents m) \<longrightarrow>
        fst (so_read_exact_at so offset n m) \<noteq> None \<and> healthy (snd (so_read_exact_at so offset n m))) \<and>
     (\<forall>m offset bytes. healthy m \<and> offset + length bytes \<le> length (contents m) \<longrightarrow>
        fst (so_write_all_at so offset bytes m) \<and> healthy (snd (so_write_all_at so offset bytes m)))"

lemma reliable_read:
  assumes "storage_laws so contents" "storage_reliable so contents healthy" "healthy m" "offset + n \<le> length (contents m)"
  obtains m1 where "so_read_exact_at so offset n m = (Some (take n (drop offset (contents m))), m1)"
    "healthy m1" "contents m1 = contents m"
proof -
  have ok: "fst (so_read_exact_at so offset n m) \<noteq> None" "healthy (snd (so_read_exact_at so offset n m))"
    using assms(2-4) unfolding storage_reliable_def by blast+
  then obtain bytes where "fst (so_read_exact_at so offset n m) = Some bytes" by blast
  then show ?thesis
    using storage_read(1) [OF assms(1), of offset n m] storage_read(2) [OF assms(1), of offset n m bytes] ok that [of "snd (so_read_exact_at so offset n m)"]
    by (simp add: prod_eq_iff)
qed

lemma reliable_write:
  assumes "storage_laws so contents" "storage_reliable so contents healthy" "healthy m"
    "offset + length bytes \<le> length (contents m)"
  obtains m1 where "so_write_all_at so offset bytes m = (True, m1)" "healthy m1"
    "contents m1 = splice_bytes offset bytes (contents m)"
proof -
  have "fst (so_write_all_at so offset bytes m)" "healthy (snd (so_write_all_at so offset bytes m))"
    using assms(2-4) unfolding storage_reliable_def by blast+
  then show ?thesis
    using storage_write(2) [OF assms(1), of offset bytes m] that [of "snd (so_write_all_at so offset bytes m)"]
    by (simp add: prod_eq_iff)
qed

section \<open>Data phases of a disk\<close>

lemma splice_split:
  "offset + Suc (length vs) \<le> length w \<Longrightarrow>
   splice_bytes (Suc offset) vs (splice_bytes offset [v] w) = splice_bytes offset (v # vs) w"
  by (simp add: splice_bytes_def add.commute)

abbreviation disk_at :: "scsi_disk \<Rightarrow> 'm \<Rightarrow> 'm target_attachment" where
  "disk_at k m \<equiv> \<lparr>ta_target = DiskTarget k, ta_backing = FixedBacking m\<rparr>"

abbreviation disk_bus ::
  "'m target_attachment option list \<Rightarrow> nat \<Rightarrow> scsi_disk \<Rightarrow> 'm \<Rightarrow> scsi_transfer option \<Rightarrow> scsi_connection option \<Rightarrow> 'm scsi_bus" where
  "disk_bus targets slot k m transfer connection \<equiv>
     \<lparr>sb_targets = targets[slot := Some (disk_at k m)],
      sb_active_transaction = map_option (\<lambda>t. \<lparr>tr_target_slot = slot, tr_transfer = t\<rparr>) transfer,
      sb_connection = connection\<rparr>"

lemma write_data_byte:
  assumes w: "so_write_all_at so offset [v] m = (True, m1)" and slot: "slot < length targets"
    and phase: "cn_phase c = PhaseDataOut" and range: "offset + 1 < 2 ^ 64"
  shows "write_information so v False (disk_bus targets slot k m (Some (StorageDataOut offset (Suc n))) (Some c)) =
    Some (Inr True,
      if n = 0 then disk_bus targets slot k m1 None (Some (c\<lparr>cn_status := ScsiGood, cn_phase := PhaseStatus\<rparr>))
      else disk_bus targets slot k m1 (Some (StorageDataOut (offset + 1) n)) (Some c))"
  using assms
  by (simp add: write_information_def transfer_data_out_def transfer_storage_data_out_def active_transfer_def
      provide_byte_def write_medium_def slot_attachment_def backing_medium_def backing_put_def put_attachment_def
      complete_target_storage_def target_complete_storage_def disk_complete_storage_def
      observe_transfer_result_def scsi_set_status_def moved_one_byte_def Let_def)

lemma read_data_byte:
  assumes r: "so_read_exact_at so offset 1 m = (Some [v], m1)" and slot: "slot < length targets"
    and phase: "cn_phase c = PhaseDataIn" and range: "offset + 1 < 2 ^ 64"
  shows "read_information so (disk_bus targets slot k m (Some (StorageDataIn offset (Suc n))) (Some c)) =
    Some (Inr (Some v),
      if n = 0 then disk_bus targets slot k m1 None (Some (c\<lparr>cn_status := ScsiGood, cn_phase := PhaseStatus\<rparr>))
      else disk_bus targets slot k m1 (Some (StorageDataIn (offset + 1) n)) (Some c))"
  using assms
  by (simp add: read_information_def transfer_data_in_def transfer_storage_data_in_def active_transfer_def
      accept_byte_def read_medium_def slot_attachment_def backing_medium_def backing_put_def put_attachment_def
      complete_target_storage_def target_complete_storage_def disk_complete_storage_def
      observe_transfer_result_def scsi_set_status_def Let_def)

lemma send_data:
  assumes laws: "storage_laws so contents" and reliable: "storage_reliable so contents healthy"
    and slot: "slot < length targets" and phase: "cn_phase c = PhaseDataOut"
  shows "healthy m \<Longrightarrow> offset + Suc n \<le> length (contents m) \<Longrightarrow> length (contents m) < 2 ^ 64 \<Longrightarrow> length vs = Suc n \<Longrightarrow>
    \<exists>m1. healthy m1 \<and> contents m1 = splice_bytes offset vs (contents m) \<and>
      send_bytes so vs (disk_bus targets slot k m (Some (StorageDataOut offset (Suc n))) (Some c))
      = Some (disk_bus targets slot k m1 None (Some (c\<lparr>cn_status := ScsiGood, cn_phase := PhaseStatus\<rparr>)))"
proof (induction n arbitrary: offset m vs)
  case 0
  then obtain v where vs: "vs = [v]" by (auto simp: length_Suc_conv)
  obtain m1 where "so_write_all_at so offset [v] m = (True, m1)" "healthy m1"
    "contents m1 = splice_bytes offset [v] (contents m)"
    by (rule reliable_write [OF laws reliable 0(1), of offset "[v]"]) (use 0 in simp_all)
  then show ?case
    using write_data_byte [of so offset v m m1 slot targets c k 0] slot phase 0 by (auto simp: vs)
next
  case (Suc n)
  then obtain v ws where vs: "vs = v # ws" "length ws = Suc n" by (cases vs) auto
  obtain m1 where m1: "so_write_all_at so offset [v] m = (True, m1)" "healthy m1"
    "contents m1 = splice_bytes offset [v] (contents m)"
    by (rule reliable_write [OF laws reliable Suc.prems(1), of offset "[v]"]) (use Suc.prems in simp_all)
  have len: "length (contents m1) = length (contents m)"
    using Suc.prems unfolding m1(3) splice_bytes_def by simp
  obtain m2 where m2: "healthy m2" "contents m2 = splice_bytes (offset + 1) ws (contents m1)"
    "send_bytes so ws (disk_bus targets slot k m1 (Some (StorageDataOut (offset + 1) (Suc n))) (Some c))
      = Some (disk_bus targets slot k m2 None (Some (c\<lparr>cn_status := ScsiGood, cn_phase := PhaseStatus\<rparr>)))"
    using Suc.IH [of m1 "offset + 1" ws] m1(2) len Suc.prems vs(2) by auto
  have "contents m2 = splice_bytes offset vs (contents m)"
    using m2(2) m1(3) splice_split [of offset ws "contents m" v] Suc.prems vs by simp
  then show ?case
    using write_data_byte [OF m1(1) slot phase, of k "Suc n"] m2 Suc.prems by (auto simp: vs)
qed

lemma receive_data:
  assumes laws: "storage_laws so contents" and reliable: "storage_reliable so contents healthy"
    and slot: "slot < length targets" and phase: "cn_phase c = PhaseDataIn"
  shows "healthy m \<Longrightarrow> offset + Suc n \<le> length (contents m) \<Longrightarrow> length (contents m) < 2 ^ 64 \<Longrightarrow>
    \<exists>m1. healthy m1 \<and> contents m1 = contents m \<and>
      receive_bytes so (Suc n) (disk_bus targets slot k m (Some (StorageDataIn offset (Suc n))) (Some c))
      = Some (take (Suc n) (drop offset (contents m)),
          disk_bus targets slot k m1 None (Some (c\<lparr>cn_status := ScsiGood, cn_phase := PhaseStatus\<rparr>)))"
proof (induction n arbitrary: offset m)
  case 0
  then have one: "take 1 (drop offset (contents m)) = [contents m ! offset]"
    by (simp add: take_Suc_conv_app_nth)
  obtain m1 where "so_read_exact_at so offset 1 m = (Some [contents m ! offset], m1)" "healthy m1"
    "contents m1 = contents m"
    by (rule reliable_read [OF laws reliable 0(1), of offset 1]) (use 0 one in simp_all)
  then show ?case
    using read_data_byte [of so offset m "contents m ! offset" m1 slot targets c k 0] slot phase 0 one by auto
next
  case (Suc n)
  then have one: "take 1 (drop offset (contents m)) = [contents m ! offset]"
    by (simp add: take_Suc_conv_app_nth)
  obtain m1 where m1: "so_read_exact_at so offset 1 m = (Some [contents m ! offset], m1)" "healthy m1"
    "contents m1 = contents m"
    by (rule reliable_read [OF laws reliable Suc.prems(1), of offset 1]) (use Suc.prems one in simp_all)
  obtain m2 where m2: "healthy m2" "contents m2 = contents m"
    "receive_bytes so (Suc n) (disk_bus targets slot k m1 (Some (StorageDataIn (offset + 1) (Suc n))) (Some c))
      = Some (take (Suc n) (drop (offset + 1) (contents m)),
          disk_bus targets slot k m2 None (Some (c\<lparr>cn_status := ScsiGood, cn_phase := PhaseStatus\<rparr>)))"
    using Suc.IH [of m1 "offset + 1"] m1 Suc.prems by auto
  have "take (Suc (Suc n)) (drop offset (contents m)) = contents m ! offset # take (Suc n) (drop (offset + 1) (contents m))"
    using Suc.prems by (simp add: Cons_nth_drop_Suc [symmetric])
  then show ?case
    using read_data_byte [OF m1(1) slot phase, of k "Suc n"] m2 Suc.prems
    by (auto simp del: receive_bytes.simps(2) simp: receive_bytes.simps(2) [of so "Suc n"])
qed

section \<open>Command phases of a disk\<close>

lemma send_cdb:
  assumes "cn_phase c = PhaseCommand" "length cdb = scsi_cdb_length (cdb ! 0)"
  shows "rest \<noteq> [] \<Longrightarrow> before @ rest = cdb \<Longrightarrow>
    send_bytes so rest (b\<lparr>sb_connection := Some (c\<lparr>cn_cdb := before\<rparr>)\<rparr>) =
      do { (r, b) \<leftarrow> execute_connected_command so (b\<lparr>sb_connection := Some (c\<lparr>cn_cdb := cdb\<rparr>)\<rparr>);
           require (r = Inr ()); Some b }"
proof (induction rest arbitrary: before)
  case (Cons v vs)
  have len: "length before < length cdb" "length cdb \<le> 16"
    using Cons.prems(2) assms(2) scsi_cdb_length_bounds [of "cdb ! 0"] by auto
  have first: "(before @ [v]) ! 0 = cdb ! 0" using Cons.prems(2) by (cases before) auto
  show ?case
  proof (cases vs)
    case Nil
    then have "before @ [v] = cdb" using Cons.prems by simp
    moreover have "require (map_sum id (\<lambda>_. True) r = Inr True) = require (r = Inr ())" for r :: "scsi_bus_error + unit"
      by (cases r) simp_all
    moreover have "Suc (length before) = scsi_cdb_length (cdb ! 0)" using calculation(1) assms(2) by auto
    ultimately show ?thesis
      using assms len
      by (cases "execute_connected_command so (b\<lparr>sb_connection := Some (c\<lparr>cn_cdb := cdb\<rparr>)\<rparr>)")
        (simp_all add: write_information_def Nil Let_def split_beta)
  next
    case (Cons w ws)
    then have "Suc (length before) \<noteq> scsi_cdb_length (cdb ! 0)" using Cons.prems(2) assms(2) by auto
    then show ?thesis
      using assms(1) len first Cons Cons.IH [of "before @ [v]"] Cons.prems(2)
      by (simp add: write_information_def Let_def)
  qed
qed simp

definition fresh_connection :: "u8 \<Rightarrow> scsi_connection" where
  "fresh_connection target_id = \<lparr>cn_target_id = target_id, cn_lun = 0, cn_identified = False,
     cn_phase = PhaseCommand, cn_return_phase = PhaseCommand, cn_cdb = [], cn_message_out = [],
     cn_message_in = [], cn_message_offset = 0, cn_status = ScsiGood\<rparr>"

lemma select_disk:
  assumes "target_slot target_id 0 = Some slot" "length targets = 64"
  shows "scsi_select target_id False (disk_bus targets slot k m None None) =
    Some (Inr True, disk_bus targets slot k m None (Some (fresh_connection target_id)))"
proof -
  have t: "unat target_id < 8" "slot = unat target_id * 8"
    using assms(1) by (auto simp: target_slot_def TARGET_COUNT_def LUN_COUNT_def split: if_splits)
  then have "list_ex (\<lambda>lun. targets[slot := Some (disk_at k m)] ! (unat target_id * 8 + lun) \<noteq> None) [0..<8]"
    using assms(2) by (auto simp: list_ex_iff intro!: bexI [of _ 0])
  then show ?thesis
    using t assms(2) by (simp add: scsi_select_def target_present_def word_le_nat_alt fresh_connection_def)
qed

lemma block_cdb_simps:
  "length (block_cdb opcode lba count) = 10" "block_cdb opcode lba count ! 0 = opcode"
  "block_cdb opcode lba count ! 1 = 0" "read_10_lba (block_cdb opcode lba count) = lba"
  "read_10_count (block_cdb opcode lba count) = count" "block_cdb opcode lba count \<noteq> []"
proof -
  obtain a b c d where l: "to_be_bytes32 lba = [a, b, c, d]"
    unfolding to_be_bytes32_def by blast
  obtain e f where n: "to_be_bytes16 count = [e, f]"
    unfolding to_be_bytes16_def by blast
  show "length (block_cdb opcode lba count) = 10" "block_cdb opcode lba count ! 0 = opcode"
    "block_cdb opcode lba count ! 1 = 0" "block_cdb opcode lba count \<noteq> []"
    by (simp_all add: block_cdb_def l n)
  show "read_10_lba (block_cdb opcode lba count) = lba" "read_10_count (block_cdb opcode lba count) = count"
    using from_to_be_bytes32 [of lba] from_to_be_bytes16 [of count]
    by (simp_all add: read_10_lba_def read_10_count_def block_cdb_def l n)
qed

lemma disk_command:
  assumes slot: "target_slot target_id 0 = Some slot" "slot < length targets" and ready: "dk_ready k"
    and size: "so_size_bytes so m = disk_storage_size_bytes k" "so_size_bytes so m < 2 ^ 64"
    and range: "count \<noteq> 0" "unat lba + unat count \<le> dk_block_count k"
    and op: "opcode = (if direction = DirectionIn then READ_10 else WRITE_10)"
    and c: "c = fresh_connection target_id \<or> c = (fresh_connection target_id)\<lparr>cn_identified := True\<rparr>"
  shows "send_bytes so (block_cdb opcode lba count) (disk_bus targets slot k m None (Some c)) =
    Some (disk_bus targets slot k m
      (Some (case direction of
          DirectionIn \<Rightarrow> StorageDataIn (unat lba * 512) (unat count * 512)
        | DirectionOut \<Rightarrow> StorageDataOut (unat lba * 512) (unat count * 512)))
      (Some (c\<lparr>cn_cdb := block_cdb opcode lba count,
               cn_phase := (case direction of DirectionIn \<Rightarrow> PhaseDataIn | DirectionOut \<Rightarrow> PhaseDataOut)\<rparr>)))"
proof -
  let ?cdb = "block_cdb opcode lba count"
  have c': "cn_phase c = PhaseCommand" "cn_target_id c = target_id" "cn_lun c = 0" "c\<lparr>cn_cdb := []\<rparr> = c"
    using c by (auto simp: fresh_connection_def)
  have codes: "opcode = 0x28 \<and> direction = DirectionIn \<or> opcode = 0x2a \<and> direction = DirectionOut"
    using op by (cases direction) (simp_all add: READ_10_def WRITE_10_def)
  have len: "scsi_cdb_length opcode = 10" and group: "drop_bit 5 opcode \<noteq> 0"
    using codes by (auto simp: scsi_cdb_length_def)
  have plan: "disk_execute ?cdb k =
      (case direction of
         DirectionIn \<Rightarrow> (PlanReadStorage (unat lba * 512) (unat count * 512), k)
       | DirectionOut \<Rightarrow> (PlanWriteStorage (unat lba * 512) (unat count * 512), k))"
    using codes ready range
    by (auto simp: disk_execute_def block_cdb_simps TEST_UNIT_READY_def REQUEST_SENSE_def READ_6_def WRITE_6_def
        INQUIRY_def MODE_SENSE_6_def START_STOP_UNIT_def READ_CAPACITY_10_def READ_10_def WRITE_10_def
        READ_DEFECT_DATA_10_def disk_read_blocks_def disk_write_blocks_def BLOCK_BYTES_def)
  have fits: "unat lba * 512 + unat count * 512 \<le> so_size_bytes so m" "unat count * 512 \<noteq> 0"
    using range size(1) by (simp_all add: disk_storage_size_bytes_def BLOCK_BYTES_def unat_eq_zero)
  have "send_bytes so ?cdb (disk_bus targets slot k m None (Some c)) =
      do { (r, b) \<leftarrow> execute_connected_command so (disk_bus targets slot k m None (Some (c\<lparr>cn_cdb := ?cdb\<rparr>)));
           require (r = Inr ()); Some b }"
    using send_cdb [of c ?cdb ?cdb "[]" so "disk_bus targets slot k m None None"] len
    by (simp add: block_cdb_simps c')
  also have "execute_connected_command so (disk_bus targets slot k m None (Some (c\<lparr>cn_cdb := ?cdb\<rparr>))) =
      Some (Inr (), disk_bus targets slot k m
        (Some (case direction of
            DirectionIn \<Rightarrow> StorageDataIn (unat lba * 512) (unat count * 512)
          | DirectionOut \<Rightarrow> StorageDataOut (unat lba * 512) (unat count * 512)))
        (Some (c\<lparr>cn_cdb := ?cdb,
                 cn_phase := (case direction of DirectionIn \<Rightarrow> PhaseDataIn | DirectionOut \<Rightarrow> PhaseDataOut)\<rparr>)))"
    using slot fits size(2) group
    by (cases direction)
      (simp_all add: execute_connected_command_def block_cdb_simps c' start_command_def
        active_address_def slot_attachment_def target_execute_def plan carry_out_plan_def put_attachment_def
        start_storage_transfer_def backing_medium_size_bytes_def set_phase_def Let_def)
  finally show ?thesis by simp
qed

section \<open>Blocks written and read\<close>

lemma finish_status:
  "finish_command so (disk_bus targets slot k m None (Some (c\<lparr>cn_status := ScsiGood, cn_phase := PhaseStatus\<rparr>)))
   = Some (0, disk_bus targets slot k m None None)"
  by (simp add: finish_command_def numeral_2_eq_2 read_information_def scsi_status_byte_def acknowledge_message_def)

lemma disk_bus_of:
  assumes "sb_targets b ! slot = Some (disk_at k m)" "sb_active_transaction b = None" "sb_connection b = None"
  shows "disk_bus (sb_targets b) slot k m None None = b"
proof -
  have "(sb_targets b)[slot := Some (disk_at k m)] = sb_targets b" by (metis assms(1) list_update_id)
  then show ?thesis using assms(2,3) by (cases b) simp
qed

lemma disk_write:
  assumes laws: "storage_laws so contents" and reliable: "storage_reliable so contents healthy" "healthy m"
    and b: "scsi_bus_ok so b" "sb_active_transaction b = None" "sb_connection b = None"
    and slot: "target_slot target_id 0 = Some slot" "sb_targets b ! slot = Some (disk_at k m)" and ready: "dk_ready k"
    and range: "0 < unat count" "unat lba + unat count \<le> dk_block_count k" "length bytes = unat count * 512"
  shows "\<exists>m1. healthy m1 \<and> contents m1 = splice_bytes (unat lba * 512) bytes (contents m) \<and>
    write_command so target_id (block_cdb WRITE_10 lba count) bytes b
    = Some (0, b\<lparr>sb_targets := (sb_targets b)[slot := Some (disk_at k m1)]\<rparr>)"
proof -
  let ?b = "\<lambda>m. disk_bus (sb_targets b) slot k m" and ?c = "fresh_connection target_id"
  let ?c1 = "?c\<lparr>cn_cdb := block_cdb WRITE_10 lba count, cn_phase := PhaseDataOut\<rparr>"
  have len: "length (sb_targets b) = 64" "slot < length (sb_targets b)"
    using b(1) target_slot_lt [OF slot(1)] by (simp_all add: scsi_bus_ok_def)
  have size: "so_size_bytes so m = disk_storage_size_bytes k" "so_size_bytes so m < 2 ^ 64"
    using slot_fits [OF b(1) target_slot_lt [OF slot(1)] slot(2)]
      medium_size_bound [of so "DiskTarget k" "FixedBacking m" m]
    by (simp_all add: target_fits_def backing_medium_def)
  obtain n where n: "unat count * 512 = Suc n" using range(1) by (cases "unat count * 512") auto
  have bound: "unat lba * 512 + Suc n \<le> length (contents m)" "length (contents m) < 2 ^ 64"
    using size storage_size [OF laws, of m] range(2) unfolding n [symmetric]
    by (simp_all add: disk_storage_size_bytes_def BLOCK_BYTES_def)
  obtain m1 where m1: "healthy m1" "contents m1 = splice_bytes (unat lba * 512) bytes (contents m)"
    "send_bytes so bytes (?b m (Some (StorageDataOut (unat lba * 512) (Suc n))) (Some ?c1))
     = Some (?b m1 None (Some (?c1\<lparr>cn_status := ScsiGood, cn_phase := PhaseStatus\<rparr>)))"
    using send_data [OF laws reliable(1) len(2), of ?c1 m "unat lba * 512" n bytes k] reliable(2) bound n range(3) by auto
  have "send_bytes so (block_cdb WRITE_10 lba count) (?b m None (Some ?c))
      = Some (?b m (Some (StorageDataOut (unat lba * 512) (Suc n))) (Some ?c1))"
    using disk_command [OF slot(1) len(2) ready size _ range(2), of WRITE_10 DirectionOut ?c] range(1) n
    by (simp add: unat_gt_0)
  moreover have "scsi_select target_id False b = Some (Inr True, ?b m None (Some ?c))"
    using select_disk [OF slot(1) len(1), of k m] unfolding disk_bus_of [OF slot(2) b(2,3)] .
  moreover have "?b m1 None None = b\<lparr>sb_targets := (sb_targets b)[slot := Some (disk_at k m1)]\<rparr>"
    using b by (cases b) simp
  ultimately show ?thesis using m1 by (auto simp: write_command_def finish_status [simplified])
qed

lemma disk_read:
  assumes laws: "storage_laws so contents" and reliable: "storage_reliable so contents healthy" "healthy m"
    and b: "scsi_bus_ok so b" "sb_active_transaction b = None" "sb_connection b = None"
    and slot: "target_slot target_id 0 = Some slot" "sb_targets b ! slot = Some (disk_at k m)" and ready: "dk_ready k"
    and range: "0 < unat count" "unat lba + unat count \<le> dk_block_count k"
  shows "\<exists>m1. healthy m1 \<and> contents m1 = contents m \<and>
    read_command so target_id (block_cdb READ_10 lba count) (unat count * 512) b
    = Some (take (unat count * 512) (drop (unat lba * 512) (contents m)), 0,
        b\<lparr>sb_targets := (sb_targets b)[slot := Some (disk_at k m1)]\<rparr>)"
proof -
  let ?b = "\<lambda>m. disk_bus (sb_targets b) slot k m" and ?c = "fresh_connection target_id"
  let ?c1 = "?c\<lparr>cn_cdb := block_cdb READ_10 lba count, cn_phase := PhaseDataIn\<rparr>"
  have len: "length (sb_targets b) = 64" "slot < length (sb_targets b)"
    using b(1) target_slot_lt [OF slot(1)] by (simp_all add: scsi_bus_ok_def)
  have size: "so_size_bytes so m = disk_storage_size_bytes k" "so_size_bytes so m < 2 ^ 64"
    using slot_fits [OF b(1) target_slot_lt [OF slot(1)] slot(2)]
      medium_size_bound [of so "DiskTarget k" "FixedBacking m" m]
    by (simp_all add: target_fits_def backing_medium_def)
  obtain n where n: "unat count * 512 = Suc n" using range(1) by (cases "unat count * 512") auto
  have bound: "unat lba * 512 + Suc n \<le> length (contents m)" "length (contents m) < 2 ^ 64"
    using size storage_size [OF laws, of m] range(2) unfolding n [symmetric]
    by (simp_all add: disk_storage_size_bytes_def BLOCK_BYTES_def)
  obtain m1 where m1: "healthy m1" "contents m1 = contents m"
    "receive_bytes so (Suc n) (?b m (Some (StorageDataIn (unat lba * 512) (Suc n))) (Some ?c1))
     = Some (take (Suc n) (drop (unat lba * 512) (contents m)),
         ?b m1 None (Some (?c1\<lparr>cn_status := ScsiGood, cn_phase := PhaseStatus\<rparr>)))"
    using receive_data [OF laws reliable(1) len(2), of ?c1 m "unat lba * 512" n k] reliable(2) bound by auto
  have "send_bytes so (block_cdb READ_10 lba count) (?b m None (Some ?c))
      = Some (?b m (Some (StorageDataIn (unat lba * 512) (Suc n))) (Some ?c1))"
    using disk_command [OF slot(1) len(2) ready size _ range(2), of READ_10 DirectionIn ?c] range(1) n
    by (simp add: unat_gt_0)
  moreover have "scsi_select target_id False b = Some (Inr True, ?b m None (Some ?c))"
    using select_disk [OF slot(1) len(1), of k m] unfolding disk_bus_of [OF slot(2) b(2,3)] .
  moreover have "?b m1 None None = b\<lparr>sb_targets := (sb_targets b)[slot := Some (disk_at k m1)]\<rparr>"
    using b by (cases b) simp
  ultimately show ?thesis
    using m1 unfolding n by (auto simp: read_command_def finish_status [simplified] simp del: receive_bytes.simps)
qed

text \<open>
  C6. A disk on the SCSI bus is an array of 512-byte blocks. On any consistent bus at
  rest, with a ready disk whose medium answers the accesses within its size, an initiator that
  selects the disk and runs WRITE(10) byte by byte through the command and data phases gets the
  status Good and the command complete message, and a READ(10) of any blocks afterwards returns,
  with status Good, the bytes of the medium in which exactly the written blocks have been
  replaced.
\<close>

theorem disk_is_block_array:
  assumes "storage_laws so contents" "storage_reliable so contents healthy" "healthy m"
    and "scsi_bus_ok so b" "sb_active_transaction b = None" "sb_connection b = None"
    and "target_slot target_id 0 = Some slot" "sb_targets b ! slot = Some (disk_at k m)" "dk_ready k"
    and "0 < unat count" "unat lba + unat count \<le> dk_block_count k" "length bytes = unat count * 512"
    and "0 < unat count'" "unat lba' + unat count' \<le> dk_block_count k"
  shows "\<exists>b1 b2. write_command so target_id (block_cdb WRITE_10 lba count) bytes b = Some (0, b1) \<and>
    read_command so target_id (block_cdb READ_10 lba' count') (unat count' * 512) b1 =
      Some (take (unat count' * 512) (drop (unat lba' * 512) (splice_bytes (unat lba * 512) bytes (contents m))), 0, b2)"
proof -
  obtain m1 where m1: "healthy m1" "contents m1 = splice_bytes (unat lba * 512) bytes (contents m)"
    and wrote: "write_command so target_id (block_cdb WRITE_10 lba count) bytes b
      = Some (0, b\<lparr>sb_targets := (sb_targets b)[slot := Some (disk_at k m1)]\<rparr>)"
    using disk_write [OF assms(1-12)] by blast
  let ?b1 = "b\<lparr>sb_targets := (sb_targets b)[slot := Some (disk_at k m1)]\<rparr>"
  note slot = target_slot_lt [OF assms(7)]
  have "so_size_bytes so m = dk_block_count k * 512"
    using slot_fits [OF assms(4) slot assms(8)]
    by (simp add: target_fits_def disk_storage_size_bytes_def BLOCK_BYTES_def)
  then have "so_size_bytes so m1 = so_size_bytes so m"
    using m1(2) assms(11,12) by (simp add: storage_size [OF assms(1)] splice_bytes_def)
  then have ok1: "scsi_bus_ok so ?b1"
    using medium_put_ok [OF assms(4) slot assms(8), of m m1]
    by (simp add: put_attachment_def backing_medium_def backing_put_def)
  have "slot < length (sb_targets b)" using assms(4) slot by (simp add: scsi_bus_ok_def)
  then obtain m2 where "read_command so target_id (block_cdb READ_10 lba' count') (unat count' * 512) ?b1
      = Some (take (unat count' * 512) (drop (unat lba' * 512) (contents m1)), 0,
          ?b1\<lparr>sb_targets := (sb_targets ?b1)[slot := Some (disk_at k m2)]\<rparr>)"
    using disk_read [OF assms(1,2) m1(1) ok1 _ _ assms(7) _ assms(9,13,14)] assms(5,6) by auto
  with wrote m1(2) show ?thesis by auto
qed

definition healthy_medium :: "memory_medium \<Rightarrow> bool" where
  "healthy_medium m \<longleftrightarrow> mm_writable m \<and> \<not> mm_fail_reads m \<and> \<not> mm_fail_writes m"

lemma memory_storage_reliable: "storage_reliable memory_storage mm_bytes healthy_medium"
  by (simp add: storage_reliable_def memory_storage_def memory_read_exact_at_def memory_write_all_at_def
      healthy_medium_def)

definition blank_medium :: "nat \<Rightarrow> memory_medium" where
  "blank_medium n = \<lparr>mm_bytes = replicate n 0, mm_fail_reads = False, mm_fail_writes = False, mm_writable = True\<rparr>"

definition small_disk :: scsi_disk where
  "small_disk = \<lparr>dk_block_count = 4, dk_ready = True, dk_sense = SENSE_NONE\<rparr>"

definition small_disk_bus :: "memory_medium scsi_bus" where
  "small_disk_bus = put_attachment 8 (disk_at small_disk (blank_medium 2048)) scsi_bus_new"

lemma small_disk_bus_ok:
  "scsi_bus_ok memory_storage small_disk_bus" "sb_active_transaction small_disk_bus = None"
  "sb_connection small_disk_bus = None" "sb_targets small_disk_bus ! 8 = Some (disk_at small_disk (blank_medium 2048))"
proof -
  have "sb_targets scsi_bus_new ! 8 = None"
    by (simp add: scsi_bus_new_def TARGET_SLOT_COUNT_def TARGET_COUNT_def LUN_COUNT_def)
  then show "scsi_bus_ok memory_storage small_disk_bus"
    unfolding small_disk_bus_def
    by (intro fill_slot_ok scsi_bus_new_ok)
      (simp_all add: target_fits_def memory_storage_def blank_medium_def small_disk_def
        disk_storage_size_bytes_def BLOCK_BYTES_def)
qed (simp_all add: small_disk_bus_def scsi_bus_new_def put_attachment_def TARGET_SLOT_COUNT_def
    TARGET_COUNT_def LUN_COUNT_def)

theorem disk_is_block_array_witness:
  "\<exists>b1 b2. write_command memory_storage 1 (block_cdb WRITE_10 1 2) (replicate 1024 7) small_disk_bus = Some (0, b1)
    \<and> read_command memory_storage 1 (block_cdb READ_10 2 1) 512 b1 = Some (replicate 512 7, 0, b2)"
proof -
  have slot: "target_slot 1 0 = Some 8" by (simp add: target_slot_def TARGET_COUNT_def LUN_COUNT_def)
  have "healthy_medium (blank_medium 2048)" by (simp add: healthy_medium_def blank_medium_def)
  from disk_is_block_array [OF memory_storage_laws memory_storage_reliable this small_disk_bus_ok(1-3) slot
      small_disk_bus_ok(4), of 2 1 "replicate 1024 7" 1 2]
  show ?thesis by (simp add: small_disk_def splice_bytes_def blank_medium_def)
qed

section \<open>Safety\<close>



section \<open>Snapshots\<close>

definition same_backing :: "'m storage_ops \<Rightarrow> 'm target_attachment option \<Rightarrow> 'm target_attachment option \<Rightarrow> bool" where
  "same_backing so x y \<longleftrightarrow>
     (case (x, y) of
        (None, None) \<Rightarrow> True
      | (Some a, Some d) \<Rightarrow>
          (case (ta_backing a, ta_backing d) of
             (FixedBacking m, FixedBacking n) \<Rightarrow> so_size_bytes so m = so_size_bytes so n
           | (RemovableBacking m, RemovableBacking n) \<Rightarrow>
               map_option (so_size_bytes so) m = map_option (so_size_bytes so) n
           | _ \<Rightarrow> False)
      | _ \<Rightarrow> False)"

lemma snapshot_accepted:
  assumes "target_fits so (ta_target a) (ta_backing a)" "target_fits so (ta_target d) (ta_backing d)"
    and "same_backing so (Some a) (Some d)"
  shows "attachment_accepts so (Some d, Some (ta_target a))"
    and "restored (Some d, Some (ta_target a)) = Some \<lparr>ta_target = ta_target a, ta_backing = ta_backing d\<rparr>"
proof -
  have "attachment_accepts so (Some d, Some (ta_target a)) \<and>
    restored (Some d, Some (ta_target a)) = Some \<lparr>ta_target = ta_target a, ta_backing = ta_backing d\<rparr>"
  proof (cases "ta_target a")
    case (DiskTarget k)
    then show ?thesis
      using assms
      by (auto simp: target_fits_def same_backing_def attachment_accepts_def target_accepts_snapshot_def
          backing_accepts_snapshot_def target_backing_requirement_def disk_storage_size_bytes_def BLOCK_BYTES_def
          restored_def split: scsi_backing.splits scsi_target.splits)
  next
    case (CdromTarget c)
    obtain e where d: "ta_target d = CdromTarget e"
      using assms CdromTarget by (auto simp: target_fits_def same_backing_def split: scsi_backing.splits scsi_target.splits)
    obtain m n where backing: "ta_backing a = RemovableBacking m" "ta_backing d = RemovableBacking n"
      using assms CdromTarget by (auto simp: target_fits_def same_backing_def split: scsi_backing.splits)
    have "x mod 512 = 0" if "x mod 2048 = 0" for x :: nat
      using that mod_mod_cancel [of 512 2048 x] by simp
    then show ?thesis
      using assms CdromTarget d backing
      by (cases m)
        (auto simp: target_fits_def same_backing_def attachment_accepts_def target_accepts_snapshot_def
          backing_accepts_snapshot_def target_backing_requirement_def accepts_cdrom_snapshot_def
          snapshot_medium_size_bytes_def SUPPORTED_LOGICAL_BLOCK_BYTES_def INITIAL_LOGICAL_BLOCK_BYTES_def restored_def)
  qed
  then show "attachment_accepts so (Some d, Some (ta_target a))"
    and "restored (Some d, Some (ta_target a)) = Some \<lparr>ta_target = ta_target a, ta_backing = ta_backing d\<rparr>"
    by blast+
qed

lemma scsi_snapshot_simps [simp]:
  "ss_active_transaction (scsi_snapshot b) = sb_active_transaction b"
  "ss_connection (scsi_snapshot b) = sb_connection b"
  by (simp_all add: scsi_snapshot_def)

lemma snapshot_targets_eq:
  "ss_targets (scsi_snapshot b) = concat (map (\<lambda>(slot, t). case t of
       None \<Rightarrow> [] | Some t \<Rightarrow> [(fst (address_for_slot slot), snd (address_for_slot slot), t)])
     (List.enumerate 0 (map (map_option ta_target) (sb_targets b))))"
  unfolding scsi_snapshot_def enumerate_eq_zip zip_map2
  by (auto intro!: arg_cong [where f = concat] split: option.split)

lemma snapshot_targets_cong:
  "map (map_option ta_target) (sb_targets b) = map (map_option ta_target) (sb_targets d) \<Longrightarrow>
   ss_targets (scsi_snapshot b) = ss_targets (scsi_snapshot d)"
  by (simp only: snapshot_targets_eq)

lemma snapshot_transaction_accepted:
  assumes b: "scsi_bus_ok so b" and t: "sb_active_transaction b = Some t"
    and b2: "scsi_bus_ok so b2" and same: "\<And>slot. slot < 64 \<Longrightarrow> same_backing so (sb_targets b ! slot) (sb_targets b2 ! slot)"
  shows "snapshot_transaction_valid so t (sb_targets b2) (map (map_option ta_target) (sb_targets b))"
proof (rule active_slot [OF b t])
  fix a assume slot: "tr_target_slot t < 64" and a: "sb_targets b ! tr_target_slot t = Some a"
    and fits: "transfer_fits so a (tr_transfer t)" and target: "target_fits so (ta_target a) (ta_backing a)"
  obtain d where d: "sb_targets b2 ! tr_target_slot t = Some d" and sd: "same_backing so (Some a) (Some d)"
    using same [OF slot] a by (auto simp: same_backing_def split: option.splits)
  have at: "get_at (sb_targets b2) (tr_target_slot t) = Some (Some d)"
    "get_at (map (map_option ta_target) (sb_targets b)) (tr_target_slot t) = Some (Some (ta_target a))"
    using slot a d b b2 by (simp_all add: get_at_eq_Some scsi_bus_ok_def)
  have bound: "backing_medium (ta_backing a) = Some m \<Longrightarrow> so_size_bytes so m < 2 ^ 64" for m
    by (rule medium_size_bound [OF target])
  have medium: "\<exists>n. (case ta_target a of DiskTarget _ \<Rightarrow> backing_medium_size_bytes so (ta_backing d)
        | CdromTarget c \<Rightarrow> cr_medium_bytes c) = Some n \<and> n = so_size_bytes so m"
    if "backing_medium (ta_backing a) = Some m" for m
    using that target sd
    by (auto simp: target_fits_def same_backing_def backing_medium_def backing_medium_size_bytes_def
        split: scsi_target.splits scsi_backing.splits)
  have kind: "(if target_backing_requirement (ta_target a) = RequiresRemovable
        then snapshot_medium_size_bytes (ta_target a) else backing_medium_size_bytes so (ta_backing d))
      = (case ta_target a of DiskTarget _ \<Rightarrow> backing_medium_size_bytes so (ta_backing d)
        | CdromTarget c \<Rightarrow> cr_medium_bytes c)"
    by (simp add: target_backing_requirement_def snapshot_medium_size_bytes_def split: scsi_target.split)
  have in_medium: "0 < remaining \<and> offset + remaining < 2 ^ 64
      \<and> (case case ta_target a of DiskTarget _ \<Rightarrow> backing_medium_size_bytes so (ta_backing d)
          | CdromTarget c \<Rightarrow> cr_medium_bytes c of None \<Rightarrow> False | Some n \<Rightarrow> offset + remaining \<le> n)"
    if "0 < remaining \<and> (\<exists>m. backing_medium (ta_backing a) = Some m \<and> offset + remaining \<le> so_size_bytes so m)"
    for offset remaining
    using that bound medium by (fastforce intro: order_le_less_trans)
  show ?thesis
    using fits in_medium
    by (cases "tr_transfer t")
      (auto simp: snapshot_transaction_valid_def at transfer_fits_def Let_def kind)
qed

lemma same_backing_None: "same_backing so x y \<Longrightarrow> (x = None) = (y = None)"
  by (auto simp: same_backing_def split: option.splits)



end
