(* ===== verification/Wd33c93b.thy ===== *)
theory Wd33c93b
  imports Scsi_Phases Events
begin

text \<open>
  The WD33C93B SCSI controller, \<^verbatim>\<open>se_device/src/wd33c93b.rs\<close>: the indirect
  register file behind the two host ports, the initiator commands it latches as requests, their
  service against the SCSI bus, and the interrupt state. A subtraction that would wrap panics, as
  in a build with overflow checks: the result is None.
\<close>

section \<open>State\<close>

definition ADDRESS_PORT :: nat where "ADDRESS_PORT = 2"
definition DATA_PORT :: nat where "DATA_PORT = 6"
definition WD_REGISTER_BYTES :: nat where "WD_REGISTER_BYTES = 4"
definition HOST_WINDOW_BYTES :: nat where "HOST_WINDOW_BYTES = 8"
definition OWN_ID :: u8 where "OWN_ID = 0x00"
definition CONTROL :: u8 where "CONTROL = 0x01"
definition TIMEOUT_PERIOD :: u8 where "TIMEOUT_PERIOD = 0x02"
definition CDB_START :: u8 where "CDB_START = 0x03"
definition CDB_END :: u8 where "CDB_END = 0x0e"
definition TARGET_LUN :: u8 where "TARGET_LUN = 0x0f"
definition COMMAND_PHASE :: u8 where "COMMAND_PHASE = 0x10"
definition SYNCHRONOUS_TRANSFER :: u8 where "SYNCHRONOUS_TRANSFER = 0x11"
definition TRANSFER_COUNT_MSB :: u8 where "TRANSFER_COUNT_MSB = 0x12"
definition TRANSFER_COUNT_MID :: u8 where "TRANSFER_COUNT_MID = 0x13"
definition TRANSFER_COUNT_LSB :: u8 where "TRANSFER_COUNT_LSB = 0x14"
definition DESTINATION_ID :: u8 where "DESTINATION_ID = 0x15"
definition SOURCE_ID :: u8 where "SOURCE_ID = 0x16"
definition SCSI_STATUS :: u8 where "SCSI_STATUS = 0x17"
definition COMMAND :: u8 where "COMMAND = 0x18"
definition WD_DATA :: u8 where "WD_DATA = 0x19"
definition AUXILIARY_STATUS :: u8 where "AUXILIARY_STATUS = 0x1f"
definition INTERRUPT_PENDING :: u8 where "INTERRUPT_PENDING = 0x80"
definition BUSY :: u8 where "BUSY = 0x20"
definition COMMAND_IN_PROGRESS :: u8 where "COMMAND_IN_PROGRESS = 0x10"
definition SOFTWARE_RESET :: u8 where "SOFTWARE_RESET = 0x00"
definition SELECT_AND_TRANSFER :: u8 where "SELECT_AND_TRANSFER = 0x09"
definition SELECT_AND_TRANSFER_WITH_ATN :: u8 where "SELECT_AND_TRANSFER_WITH_ATN = 0x08"
definition RESET_COMPLETION_STATUS :: u8 where "RESET_COMPLETION_STATUS = 0x00"
definition ADVANCED_RESET_COMPLETION_STATUS :: u8 where "ADVANCED_RESET_COMPLETION_STATUS = 0x01"
definition SELECT_AND_TRANSFER_COMPLETION_STATUS :: u8 where "SELECT_AND_TRANSFER_COMPLETION_STATUS = 0x16"
definition UNEXPECTED_DATA_OUT_STATUS :: u8 where "UNEXPECTED_DATA_OUT_STATUS = 0x48"
definition UNEXPECTED_DATA_IN_STATUS :: u8 where "UNEXPECTED_DATA_IN_STATUS = 0x49"
definition SELECTION_TIMEOUT_STATUS :: u8 where "SELECTION_TIMEOUT_STATUS = 0x42"
definition DATA_TRANSFER_PHASE :: u8 where "DATA_TRANSFER_PHASE = 0x46"
definition SELECT_AND_TRANSFER_PHASE :: u8 where "SELECT_AND_TRANSFER_PHASE = 0x60"
definition ADVANCED_FEATURES :: u8 where "ADVANCED_FEATURES = push_bit 3 1"
definition SOURCE_ID_PRESERVED_BITS :: u8 where "SOURCE_ID_PRESERVED_BITS = 0x0f"
definition TRANSFER_COUNT_MASK :: u32 where "TRANSFER_COUNT_MASK = 0x00ffffff"

record select_and_transfer_request =
  sr_destination_id :: u8
  sr_lun :: u8
  sr_transfer_count :: u32
  sr_cdb :: "u8 list"
  sr_cdb_length :: u8

datatype request_kind =
    ReqCombined select_and_transfer_request
  | ReqSelect u8 bool
  | ReqTransfer
  | ReqPump
  | ReqOutput u8
  | ReqPhase
  | ReqAcknowledge
  | ReqAttention
  | ReqAbort
  | ReqDisconnect
  | ReqTimeout

datatype wd_work =
    WorkIdle
  | WorkDma scsi_data_direction u32
  | WorkSelectionWait "virtual_duration option"

record wd33c93b =
  wd_clock_hz :: u64
  wd_selected_register :: u8
  wd_own_id :: u8
  wd_control :: u8
  wd_timeout_period :: u8
  wd_cdb :: "u8 list"
  wd_target_lun :: u8
  wd_command_phase :: u8
  wd_synchronous_transfer :: u8
  wd_transfer_count :: u32
  wd_destination_id :: u8
  wd_source_id :: u8
  wd_scsi_status :: u8
  wd_command :: u8
  wd_command_in_progress :: bool
  wd_interrupt_pending :: bool
  wd_pending_request :: "request_kind option"
  wd_software_reset_completed :: bool
  wd_busy :: bool
  wd_combined :: bool
  wd_attention :: bool
  wd_ack_asserted :: bool
  wd_phase_after_status :: bool
  wd_pio_phase :: "scsi_phase option"
  wd_pio_remaining :: u32
  wd_single_byte :: bool
  wd_input_byte :: "u8 option"
  wd_output_ready :: bool
  wd_aborting :: bool

definition wd_new :: "u64 \<Rightarrow> wd33c93b option" where
  "wd_new clock_hz = do {
     require (clock_hz \<noteq> 0);
     Some \<lparr>wd_clock_hz = clock_hz, wd_selected_register = 0, wd_own_id = 0, wd_control = 0,
       wd_timeout_period = 0, wd_cdb = replicate 12 0, wd_target_lun = 0, wd_command_phase = 0,
       wd_synchronous_transfer = 0, wd_transfer_count = 0, wd_destination_id = 0, wd_source_id = 0,
       wd_scsi_status = RESET_COMPLETION_STATUS, wd_command = 0, wd_command_in_progress = False,
       wd_interrupt_pending = True, wd_pending_request = None, wd_software_reset_completed = False,
       wd_busy = False, wd_combined = False, wd_attention = False, wd_ack_asserted = False,
       wd_phase_after_status = False, wd_pio_phase = None, wd_pio_remaining = 0,
       wd_single_byte = False, wd_input_byte = None, wd_output_ready = False, wd_aborting = False\<rparr>
   }"

definition clear_transfer_state :: "wd33c93b \<Rightarrow> wd33c93b" where
  "clear_transfer_state w =
     w\<lparr>wd_busy := False, wd_combined := False, wd_attention := False, wd_ack_asserted := False,
       wd_phase_after_status := False, wd_pio_phase := None, wd_pio_remaining := 0,
       wd_single_byte := False, wd_input_byte := None, wd_output_ready := False, wd_aborting := False\<rparr>"

definition wd_reset :: "wd33c93b \<Rightarrow> wd33c93b" where
  "wd_reset w =
     clear_transfer_state
       (w\<lparr>wd_selected_register := 0, wd_own_id := 0,
          wd_source_id := wd_source_id w AND SOURCE_ID_PRESERVED_BITS,
          wd_scsi_status := RESET_COMPLETION_STATUS, wd_command_in_progress := False,
          wd_interrupt_pending := True, wd_pending_request := None, wd_software_reset_completed := False\<rparr>)"

definition software_reset :: "wd33c93b \<Rightarrow> wd33c93b" where
  "software_reset w =
     clear_transfer_state
       (w\<lparr>wd_control := 0, wd_timeout_period := 0, wd_cdb := replicate 12 0, wd_target_lun := 0,
          wd_command_phase := 0, wd_synchronous_transfer := 0, wd_transfer_count := 0,
          wd_destination_id := 0, wd_source_id := 0,
          wd_scsi_status := (if wd_own_id w AND ADVANCED_FEATURES \<noteq> 0
            then ADVANCED_RESET_COMPLETION_STATUS else RESET_COMPLETION_STATUS),
          wd_command := SOFTWARE_RESET, wd_command_in_progress := False, wd_interrupt_pending := True,
          wd_pending_request := None, wd_software_reset_completed := True\<rparr>)"

section \<open>Registers\<close>

datatype wd_port = PortAddress | PortData

definition selector_advances :: "u8 \<Rightarrow> bool" where
  "selector_advances register \<longleftrightarrow> \<not> (register = COMMAND \<or> register = WD_DATA \<or> register = AUXILIARY_STATUS)"

definition wd_cdb_length :: "u8 \<Rightarrow> u8" where
  "wd_cdb_length opcode =
     (if opcode = 0xc4 \<or> opcode = 0xc9 then 10
      else if drop_bit 5 opcode = 0 then 6
      else if drop_bit 5 opcode = 1 \<or> drop_bit 5 opcode = 2 then 10
      else if drop_bit 5 opcode = 5 then 12
      else 6)"

text \<open>The port a transaction reaches and, when it covers the connected byte, its lane.\<close>

definition decode_access :: "device_addr \<Rightarrow> nat \<Rightarrow> bus_error + (wd_port \<times> nat option)" where
  "decode_access address len =
     (if \<not> (1 \<le> len \<and> len \<le> 4) then Inl InvalidTransaction
      else if 2 ^ 64 \<le> unat address + len then Inl InvalidTransaction
      else
        let start = unat address; finish = start + len
        in if HOST_WINDOW_BYTES < finish
              \<or> start div WD_REGISTER_BYTES \<noteq> (finish - 1) div WD_REGISTER_BYTES
              \<or> \<not> (len = 1 \<or> len = 2 \<or> len = 4) \<or> start mod len \<noteq> 0
           then Inl UnimplementedAccess
           else
             let (port, connected_byte) =
                   (if start < WD_REGISTER_BYTES then (PortAddress, ADDRESS_PORT) else (PortData, DATA_PORT))
             in Inr (port, if start \<le> connected_byte \<and> connected_byte < finish
                           then Some (connected_byte - start) else None))"

definition wd_auxiliary_status :: "wd33c93b \<Rightarrow> u8" where
  "wd_auxiliary_status w =
     (if wd_interrupt_pending w then INTERRUPT_PENDING else 0)
     OR (if wd_command_in_progress w then COMMAND_IN_PROGRESS else 0)
     OR (if wd_busy w then BUSY else 0)
     OR (if wd_input_byte w \<noteq> None \<or> wd_output_ready w then 1 else 0)"

definition read_selected_register :: "wd33c93b \<Rightarrow> u8 \<Rightarrow> u8 option" where
  "read_selected_register w register =
     (if register = OWN_ID then Some (wd_own_id w)
      else if register = CONTROL then Some (wd_control w)
      else if register = TIMEOUT_PERIOD then Some (wd_timeout_period w)
      else if CDB_START \<le> register \<and> register \<le> CDB_END
      then get_at (wd_cdb w) (unat (register - CDB_START))
      else if register = TARGET_LUN then Some (wd_target_lun w)
      else if register = COMMAND_PHASE then Some (wd_command_phase w)
      else if register = SYNCHRONOUS_TRANSFER then Some (wd_synchronous_transfer w)
      else if register = TRANSFER_COUNT_MSB then Some (ucast (drop_bit 16 (wd_transfer_count w)))
      else if register = TRANSFER_COUNT_MID then Some (ucast (drop_bit 8 (wd_transfer_count w)))
      else if register = TRANSFER_COUNT_LSB then Some (ucast (wd_transfer_count w))
      else if register = DESTINATION_ID then Some (wd_destination_id w)
      else if register = SOURCE_ID then Some (wd_source_id w)
      else if register = SCSI_STATUS then Some (wd_scsi_status w)
      else if register = COMMAND then Some (wd_command w)
      else if register = WD_DATA then Some (case wd_input_byte w of Some v \<Rightarrow> v | None \<Rightarrow> 0xff)
      else if register = AUXILIARY_STATUS then Some (wd_auxiliary_status w)
      else Some 0xff)"

definition combined_request :: "wd33c93b \<Rightarrow> request_kind option" where
  "combined_request w =
     map_option (\<lambda>opcode. ReqCombined
       \<lparr>sr_destination_id = wd_destination_id w AND 0x07, sr_lun = wd_target_lun w AND 0x07,
        sr_transfer_count = wd_transfer_count w, sr_cdb = wd_cdb w, sr_cdb_length = wd_cdb_length opcode\<rparr>)
       (get_at (wd_cdb w) 0)"

definition execute_command :: "u8 \<Rightarrow> wd33c93b \<Rightarrow> wd33c93b option" where
  "execute_command command w = (
     let w = w\<lparr>wd_command := command, wd_pending_request := None, wd_phase_after_status := False\<rparr>
     in if command = SOFTWARE_RESET then Some (software_reset w)
        else if command = SELECT_AND_TRANSFER \<or> command = SELECT_AND_TRANSFER_WITH_ATN then
          map_option (\<lambda>request.
            w\<lparr>wd_command_in_progress := True, wd_busy := True, wd_combined := True,
              wd_attention := (command = SELECT_AND_TRANSFER_WITH_ATN), wd_interrupt_pending := False,
              wd_software_reset_completed := False, wd_pending_request := Some request\<rparr>) (combined_request w)
        else if command = 0x06 \<or> command = 0x07 then
          let w = clear_transfer_state w
          in Some (w\<lparr>wd_command_in_progress := True, wd_busy := True, wd_interrupt_pending := False,
                     wd_attention := (command = 6),
                     wd_pending_request := Some (ReqSelect (wd_destination_id w AND 7) (command = 6))\<rparr>)
        else if command = 0x20 \<or> command = 0xa0 then
          Some (w\<lparr>wd_combined := False, wd_busy := True, wd_command_in_progress := True,
                  wd_interrupt_pending := False, wd_input_byte := None, wd_output_ready := False,
                  wd_single_byte := (command AND 0x80 \<noteq> 0 \<or> wd_transfer_count w = 0),
                  wd_pending_request := Some ReqTransfer\<rparr>)
        else if command = 1 then Some (w\<lparr>wd_pending_request := Some ReqAbort\<rparr>)
        else if command = 2 then Some (w\<lparr>wd_attention := True, wd_pending_request := Some ReqAttention\<rparr>)
        else if command = 3 then Some (w\<lparr>wd_pending_request := Some ReqAcknowledge\<rparr>)
        else if command = 4 then Some (w\<lparr>wd_pending_request := Some ReqDisconnect\<rparr>)
        else None)"

definition write_selected_register :: "u8 \<Rightarrow> u8 \<Rightarrow> wd33c93b \<Rightarrow> wd33c93b option" where
  "write_selected_register register v w =
     map_option (\<lambda>w. w\<lparr>wd_transfer_count := wd_transfer_count w AND TRANSFER_COUNT_MASK\<rparr>)
       (if register = OWN_ID then Some (w\<lparr>wd_own_id := v\<rparr>)
        else if register = CONTROL then Some (w\<lparr>wd_control := v\<rparr>)
        else if register = TIMEOUT_PERIOD then Some (w\<lparr>wd_timeout_period := v\<rparr>)
        else if CDB_START \<le> register \<and> register \<le> CDB_END then
          map_option (\<lambda>cdb. w\<lparr>wd_cdb := cdb\<rparr>) (set_at (wd_cdb w) (unat (register - CDB_START)) v)
        else if register = TARGET_LUN then Some (w\<lparr>wd_target_lun := v\<rparr>)
        else if register = COMMAND_PHASE then Some (w\<lparr>wd_command_phase := v\<rparr>)
        else if register = SYNCHRONOUS_TRANSFER then Some (w\<lparr>wd_synchronous_transfer := v\<rparr>)
        else if register = TRANSFER_COUNT_MSB then
          Some (w\<lparr>wd_transfer_count := (wd_transfer_count w AND 0x0000ffff) OR push_bit 16 (ucast v)\<rparr>)
        else if register = TRANSFER_COUNT_MID then
          Some (w\<lparr>wd_transfer_count := (wd_transfer_count w AND 0x00ff00ff) OR push_bit 8 (ucast v)\<rparr>)
        else if register = TRANSFER_COUNT_LSB then
          Some (w\<lparr>wd_transfer_count := (wd_transfer_count w AND 0x00ffff00) OR ucast v\<rparr>)
        else if register = DESTINATION_ID then Some (w\<lparr>wd_destination_id := v\<rparr>)
        else if register = SOURCE_ID then Some (w\<lparr>wd_source_id := v\<rparr>)
        else if register = COMMAND then execute_command v w
        else if register = WD_DATA \<and> wd_output_ready w then
          Some (w\<lparr>wd_output_ready := False, wd_pending_request := Some (ReqOutput v)\<rparr>)
        else Some w)"

definition peek_port :: "wd33c93b \<Rightarrow> wd_port \<Rightarrow> u8 option" where
  "peek_port w port =
     (case port of
        PortAddress \<Rightarrow> Some (wd_auxiliary_status w)
      | PortData \<Rightarrow> read_selected_register w (wd_selected_register w))"

definition read_port :: "wd_port \<Rightarrow> wd33c93b \<Rightarrow> (u8 \<times> wd33c93b) option" where
  "read_port port w = do {
     v \<leftarrow> peek_port w port;
     Some (v,
       case port of
         PortAddress \<Rightarrow> w
       | PortData \<Rightarrow>
           let register = wd_selected_register w
           in if register = SCSI_STATUS then
                let w = w\<lparr>wd_interrupt_pending := False, wd_selected_register := COMMAND\<rparr>
                in if wd_phase_after_status w
                   then w\<lparr>wd_phase_after_status := False, wd_pending_request := Some ReqPhase\<rparr> else w
              else if register = WD_DATA \<and> wd_input_byte w \<noteq> None
              then w\<lparr>wd_input_byte := None, wd_pending_request := Some ReqPump\<rparr>
              else if selector_advances register
              then w\<lparr>wd_selected_register := (register + 1) AND 0x1f\<rparr>
              else w)
   }"

definition write_port :: "wd_port \<Rightarrow> u8 \<Rightarrow> wd33c93b \<Rightarrow> wd33c93b option" where
  "write_port port v w =
     (case port of
        PortAddress \<Rightarrow> Some (w\<lparr>wd_selected_register := v AND 0x1f\<rparr>)
      | PortData \<Rightarrow>
          let register = wd_selected_register w
          in map_option (\<lambda>w. if selector_advances register
               then w\<lparr>wd_selected_register := (register + 1) AND 0x1f\<rparr> else w)
               (write_selected_register register v w))"

definition wd_read :: "device_addr \<Rightarrow> nat \<Rightarrow> wd33c93b \<Rightarrow> ((bus_error + u8 list) \<times> wd33c93b) option" where
  "wd_read address len w =
     (case decode_access address len of
        Inl e \<Rightarrow> Some (Inl e, w)
      | Inr (port, None) \<Rightarrow> Some (Inr (replicate len 0), w)
      | Inr (port, Some lane) \<Rightarrow> do {
          (v, w) \<leftarrow> read_port port w;
          bytes \<leftarrow> set_at (replicate len 0) lane v;
          Some (Inr bytes, w)
        })"

definition wd_debug_read :: "device_addr \<Rightarrow> nat \<Rightarrow> wd33c93b \<Rightarrow> (bus_error + u8 list) option" where
  "wd_debug_read address len w =
     (case decode_access address len of
        Inl e \<Rightarrow> Some (Inl e)
      | Inr (port, None) \<Rightarrow> Some (Inr (replicate len 0))
      | Inr (port, Some lane) \<Rightarrow> do {
          v \<leftarrow> peek_port w port;
          map_option Inr (set_at (replicate len 0) lane v)
        })"

definition supported_command :: "u8 \<Rightarrow> bool" where
  "supported_command v \<longleftrightarrow> v \<le> 4 \<or> 6 \<le> v \<and> v \<le> 9 \<or> v = 0x20 \<or> v = 0xa0"

definition wd_write :: "device_addr \<Rightarrow> u8 list \<Rightarrow> wd33c93b \<Rightarrow> ((bus_error + unit) \<times> wd33c93b) option" where
  "wd_write address bytes w =
     (case decode_access address (length bytes) of
        Inl e \<Rightarrow> Some (Inl e, w)
      | Inr (port, None) \<Rightarrow> Some (Inr (), w)
      | Inr (port, Some lane) \<Rightarrow> do {
          v \<leftarrow> get_at bytes lane;
          if port = PortData \<and> wd_selected_register w = COMMAND \<and> \<not> supported_command v
          then Some (Inl UnimplementedAccess, w)
          else map_option (\<lambda>w. (Inr (), w)) (write_port port v w)
        })"

definition wd_take_request :: "wd33c93b \<Rightarrow> request_kind option \<times> wd33c93b" where
  "wd_take_request w = (wd_pending_request w, w\<lparr>wd_pending_request := None\<rparr>)"

section \<open>Service\<close>

definition raise_status :: "u8 \<Rightarrow> wd33c93b \<Rightarrow> wd33c93b" where
  "raise_status status w =
     w\<lparr>wd_scsi_status := status, wd_command_in_progress := False, wd_busy := False,
       wd_output_ready := False, wd_interrupt_pending := True\<rparr>"

definition report_phase :: "'m scsi_bus \<Rightarrow> u8 \<Rightarrow> wd33c93b \<Rightarrow> wd33c93b" where
  "report_phase b class =
     raise_status (case scsi_phase_of b of None \<Rightarrow> 0x85 | Some phase \<Rightarrow> class OR phase_bits phase)"

definition abort_transfer :: "'m scsi_bus \<Rightarrow> wd33c93b \<Rightarrow> wd33c93b" where
  "abort_transfer b w =
     raise_status (case scsi_phase_of b of None \<Rightarrow> 0x22 | Some phase \<Rightarrow> 0x28 OR phase_bits phase)
       (w\<lparr>wd_pio_phase := None, wd_aborting := False\<rparr>)"

definition advance_information_byte :: "wd33c93b \<Rightarrow> wd33c93b option" where
  "advance_information_byte w = do {
     require (wd_pio_remaining w \<noteq> 0);
     let w = w\<lparr>wd_pio_remaining := wd_pio_remaining w - 1\<rparr>;
     if wd_single_byte w then Some (w\<lparr>wd_transfer_count := 0\<rparr>)
     else do {
       require (wd_transfer_count w \<noteq> 0);
       Some (w\<lparr>wd_transfer_count := wd_transfer_count w - 1\<rparr>)
     }
   }"

definition finish_select_and_transfer :: "u8 \<Rightarrow> wd33c93b \<Rightarrow> wd33c93b" where
  "finish_select_and_transfer target_status w =
     (clear_transfer_state w)
       \<lparr>wd_target_lun := target_status, wd_command_phase := SELECT_AND_TRANSFER_PHASE,
        wd_scsi_status := SELECT_AND_TRANSFER_COMPLETION_STATUS, wd_command_in_progress := False,
        wd_interrupt_pending := True, wd_pending_request := None\<rparr>"

definition finish_selection_timeout :: "wd33c93b \<Rightarrow> wd33c93b" where
  "finish_selection_timeout w =
     (clear_transfer_state w)
       \<lparr>wd_command_phase := 0, wd_scsi_status := SELECTION_TIMEOUT_STATUS, wd_command_in_progress := False,
        wd_interrupt_pending := True, wd_pending_request := None\<rparr>"

definition div_ceil :: "u128 \<Rightarrow> u128 \<Rightarrow> u128" where
  "div_ceil a b = (if a mod b = 0 then a div b else a div b + 1)"

definition wait_for_selection :: "wd33c93b \<Rightarrow> wd_work \<times> wd33c93b" where
  "wait_for_selection w =
     (WorkSelectionWait (if wd_timeout_period w = 0 then None
        else Some (div_ceil (ucast (wd_timeout_period w) * 80000 * ATTOSECONDS_PER_SECOND) (ucast (wd_clock_hz w)))),
      w\<lparr>wd_busy := True, wd_pending_request := Some ReqTimeout\<rparr>)"

type_synonym 'm wd_outcome = "((scsi_bus_error + wd_work) \<times> wd33c93b \<times> 'm scsi_bus) option"

definition complete_combined :: "'m storage_ops \<Rightarrow> wd33c93b \<Rightarrow> 'm scsi_bus \<Rightarrow> 'm wd_outcome" where
  "complete_combined so w b = do {
     (status, b) \<leftarrow> read_information so b;
     case status of
       Inl e \<Rightarrow> Some (Inl e, w, b)
     | Inr None \<Rightarrow> Some (Inl InvalidPhase, w, b)
     | Inr (Some status) \<Rightarrow> do {
         (message, b) \<leftarrow> read_information so b;
         case message of
           Inl e \<Rightarrow> Some (Inl e, w, b)
         | Inr message \<Rightarrow>
             if message \<noteq> Some 0 then Some (Inl InvalidPhase, w, b)
             else Some (Inr WorkIdle, finish_select_and_transfer status w, acknowledge_message False b)
       }
   }"

definition end_information_phase :: "scsi_phase \<Rightarrow> 'm scsi_bus \<Rightarrow> wd33c93b \<Rightarrow> wd33c93b" where
  "end_information_phase phase b w =
     (if \<not> wd_combined w \<and> phase = PhaseMessageIn \<and> wd_pio_remaining w = 0
      then raise_status 0x20 (w\<lparr>wd_ack_asserted := True\<rparr>)
      else if wd_combined w then report_phase b 0x48 (w\<lparr>wd_command_phase := DATA_TRANSFER_PHASE\<rparr>)
      else report_phase b (if wd_pio_remaining w = 0 then 0x18 else 0x48) w)\<lparr>wd_pio_phase := None\<rparr>"

partial_function (option) pump :: "'m storage_ops \<Rightarrow> wd33c93b \<Rightarrow> 'm scsi_bus \<Rightarrow> 'm wd_outcome" where
  "pump so w b =
     (if wd_aborting w \<and> wd_input_byte w = None then Some (Inr WorkIdle, abort_transfer b w, b)
      else if wd_combined w \<and> scsi_phase_of b = Some PhaseStatus \<and> wd_input_byte w = None
      then complete_combined so w b
      else case wd_pio_phase w of
        None \<Rightarrow> Some (Inr WorkIdle, w, b)
      | Some phase \<Rightarrow>
          if wd_input_byte w \<noteq> None then Some (Inr WorkIdle, w, b)
          else if wd_pio_remaining w = 0 \<or> scsi_phase_of b \<noteq> Some phase
          then Some (Inr WorkIdle, end_information_phase phase b w, b)
          else if (phase = PhaseDataIn \<or> phase = PhaseDataOut) \<and> wd_control w AND 0xe0 \<noteq> 0
          then Some (Inr (WorkDma (if phase_input phase then DirectionIn else DirectionOut) (wd_pio_remaining w)), w, b)
          else if phase_input phase then
            Option.bind (read_information so b) (\<lambda>(input, b).
              case input of
                Inl e \<Rightarrow> Some (Inl e, w, b)
              | Inr None \<Rightarrow> pump so (w\<lparr>wd_input_byte := None\<rparr>) b
              | Inr (Some v) \<Rightarrow>
                  map_option (\<lambda>w. (Inr WorkIdle, w, b)) (advance_information_byte (w\<lparr>wd_input_byte := Some v\<rparr>)))
          else Some (Inr WorkIdle, w\<lparr>wd_output_ready := True\<rparr>, b))"

declare pump.simps [code]

fun send_cdb_bytes :: "'m storage_ops \<Rightarrow> u8 list \<Rightarrow> 'm scsi_bus \<Rightarrow> ((scsi_bus_error + unit) \<times> 'm scsi_bus) option" where
  "send_cdb_bytes so [] b = Some (Inr (), b)"
| "send_cdb_bytes so (v # vs) b = do {
     (r, b) \<leftarrow> write_information so v False b;
     case r of Inl e \<Rightarrow> Some (Inl e, b) | Inr _ \<Rightarrow> send_cdb_bytes so vs b
   }"

definition start_pump :: "'m storage_ops \<Rightarrow> wd33c93b \<Rightarrow> 'm scsi_bus \<Rightarrow> 'm wd_outcome" where
  "start_pump so w b =
     pump so (w\<lparr>wd_pio_phase := scsi_phase_of b, wd_pio_remaining := wd_transfer_count w, wd_single_byte := False\<rparr>) b"

definition service_combined ::
  "'m storage_ops \<Rightarrow> select_and_transfer_request \<Rightarrow> wd33c93b \<Rightarrow> 'm scsi_bus \<Rightarrow> 'm wd_outcome" where
  "service_combined so request w b =
     (if scsi_phase_of b = None then do {
        (r, b) \<leftarrow> scsi_select (sr_destination_id request) (wd_attention w) b;
        case r of
          Inl e \<Rightarrow> Some (Inl e, w, b)
        | Inr False \<Rightarrow> (let (work, w) = wait_for_selection w in Some (Inr work, w, b))
        | Inr True \<Rightarrow> do {
            let w = w\<lparr>wd_command_phase := 0x10\<rparr>;
            (r, b) \<leftarrow> (if wd_attention w then write_information so (0x80 OR sr_lun request) True b
                     else Some (Inr True, b));
            case r of
              Inl e \<Rightarrow> Some (Inl e, w, b)
            | Inr _ \<Rightarrow> do {
                let w = (if wd_attention w then w\<lparr>wd_attention := False, wd_command_phase := 0x20\<rparr> else w);
                require (unat (sr_cdb_length request) \<le> length (sr_cdb request));
                (r, b) \<leftarrow> send_cdb_bytes so (take (unat (sr_cdb_length request)) (sr_cdb request)) b;
                case r of
                  Inl e \<Rightarrow> Some (Inl e, w, b)
                | Inr _ \<Rightarrow> start_pump so w b
              }
          }
      }
      else if map_option fst (connected_address b) \<noteq> Some (sr_destination_id request)
              \<or> \<not> (wd_command_phase w = 0x45 \<or> wd_command_phase w = DATA_TRANSFER_PHASE)
      then Some (Inr WorkIdle, raise_status 0x40 w, b)
      else start_pump so w b)"

definition service_request ::
  "'m storage_ops \<Rightarrow> request_kind \<Rightarrow> wd33c93b \<Rightarrow> 'm scsi_bus \<Rightarrow> 'm wd_outcome" where
  "service_request so request w b = (
     let w = w\<lparr>wd_command_in_progress := False\<rparr>
     in case request of
          ReqSelect target_id attention \<Rightarrow>
            if scsi_phase_of b \<noteq> None then Some (Inr WorkIdle, raise_status 0x40 w, b)
            else do {
              (r, b) \<leftarrow> scsi_select target_id attention b;
              case r of
                Inl e \<Rightarrow> Some (Inl e, w, b)
              | Inr False \<Rightarrow> (let (work, w) = wait_for_selection w in Some (Inr work, w, b))
              | Inr True \<Rightarrow> Some (Inr WorkIdle, (raise_status 0x11 w)\<lparr>wd_phase_after_status := True\<rparr>, b)
            }
        | ReqCombined request \<Rightarrow> service_combined so request w b
        | ReqTransfer \<Rightarrow>
            (case scsi_phase_of b of
               None \<Rightarrow> Some (Inr WorkIdle, raise_status 0x40 w, b)
             | Some phase \<Rightarrow>
                 pump so (w\<lparr>wd_pio_phase := Some phase,
                            wd_pio_remaining := (if wd_single_byte w then 1 else wd_transfer_count w)\<rparr>) b)
        | ReqPump \<Rightarrow> pump so w b
        | ReqOutput v \<Rightarrow> do {
            let is_last = (wd_pio_remaining w = 1);
            (consumed, b) \<leftarrow> write_information so v is_last b;
            case consumed of
              Inl e \<Rightarrow> Some (Inl e, w, b)
            | Inr consumed \<Rightarrow> do {
                let w = (if wd_pio_phase w = Some PhaseMessageOut \<and> is_last then w\<lparr>wd_attention := False\<rparr> else w);
                w \<leftarrow> (if consumed then advance_information_byte w else Some w);
                pump so w b
              }
          }
        | ReqPhase \<Rightarrow> Some (Inr WorkIdle, report_phase b 0x88 w, b)
        | ReqAcknowledge \<Rightarrow>
            if wd_ack_asserted w then
              let w = w\<lparr>wd_ack_asserted := False\<rparr>; b = acknowledge_message (wd_attention w) b
              in Some (Inr WorkIdle, report_phase b 0x88 w, b)
            else Some (Inr WorkIdle, w, b)
        | ReqAttention \<Rightarrow>
            if scsi_phase_of b = None then Some (Inr WorkIdle, raise_status 0x40 w, b)
            else if \<not> wd_ack_asserted w then
              let b = assert_attention b
              in if wd_interrupt_pending w then Some (Inr WorkIdle, w\<lparr>wd_phase_after_status := True\<rparr>, b)
                 else if wd_busy w then pump so w b
                 else Some (Inr WorkIdle, report_phase b 0x88 w, b)
            else Some (Inr WorkIdle, w, b)
        | ReqAbort \<Rightarrow>
            if wd_input_byte w \<noteq> None then Some (Inr WorkIdle, w\<lparr>wd_aborting := True\<rparr>, b)
            else Some (Inr WorkIdle, abort_transfer b w, b)
        | ReqDisconnect \<Rightarrow> Some (Inr WorkIdle, clear_transfer_state w, cancel_transaction b)
        | ReqTimeout \<Rightarrow> Some (Inr WorkIdle, finish_selection_timeout w, b))"

definition finish_dma ::
  "'m storage_ops \<Rightarrow> scsi_status option \<Rightarrow> wd33c93b \<Rightarrow> 'm scsi_bus \<Rightarrow>
   ((scsi_bus_error + unit) \<times> wd33c93b \<times> 'm scsi_bus) option" where
  "finish_dma so status w b = do {
     let b = (case status of Some s \<Rightarrow> observe_transfer_result (TransferComplete 0 s) b | None \<Rightarrow> b);
     (r, w, b) \<leftarrow> pump so (w\<lparr>wd_pio_remaining := wd_transfer_count w\<rparr>) b;
     Some (map_sum id (\<lambda>_. ()) r, w, b)
   }"

definition dma_pending :: "wd33c93b \<Rightarrow> bool" where
  "dma_pending w \<longleftrightarrow> wd_busy w \<and> wd_control w AND 0xe0 \<noteq> 0
     \<and> (wd_pio_phase w = Some PhaseDataIn \<or> wd_pio_phase w = Some PhaseDataOut) \<and> wd_pio_remaining w \<noteq> 0"

definition remaining_transfer_bytes :: "wd33c93b \<Rightarrow> u32" where
  "remaining_transfer_bytes w = (if wd_single_byte w then wd_pio_remaining w else wd_transfer_count w)"

definition consume_transfer_bytes :: "u32 \<Rightarrow> wd33c93b \<Rightarrow> bool \<times> wd33c93b" where
  "consume_transfer_bytes byte_count w =
     (if wd_single_byte w then
        if byte_count \<noteq> 1 \<or> wd_pio_remaining w \<noteq> 1 then (False, w)
        else (True, w\<lparr>wd_transfer_count := 0, wd_pio_remaining := 0\<rparr>)
      else if wd_transfer_count w < byte_count then (False, w)
      else (True, w\<lparr>wd_transfer_count := wd_transfer_count w - byte_count\<rparr>))"

definition request_data_continuation :: "u8 \<Rightarrow> wd33c93b \<Rightarrow> wd33c93b" where
  "request_data_continuation status w =
     w\<lparr>wd_busy := False, wd_command_phase := DATA_TRANSFER_PHASE, wd_scsi_status := status,
       wd_command_in_progress := False, wd_interrupt_pending := True, wd_pending_request := None\<rparr>"

definition request_data_in_continuation :: "wd33c93b \<Rightarrow> wd33c93b" where
  "request_data_in_continuation = request_data_continuation UNEXPECTED_DATA_IN_STATUS"

definition request_data_out_continuation :: "wd33c93b \<Rightarrow> wd33c93b" where
  "request_data_out_continuation = request_data_continuation UNEXPECTED_DATA_OUT_STATUS"

definition wd_interrupt_asserted :: "wd33c93b \<Rightarrow> bool" where
  "wd_interrupt_asserted w = wd_interrupt_pending w"

definition take_reset_completion :: "wd33c93b \<Rightarrow> bool \<times> wd33c93b" where
  "take_reset_completion w = (wd_software_reset_completed w, w\<lparr>wd_software_reset_completed := False\<rparr>)"

end
