(* ===== verification/Wd_Correct.thy ===== *)
theory Wd_Correct
  imports Wd33c93b Scsi_Device
begin

text \<open>
  Correctness of the WD33C93B: servicing a request always returns and keeps the SCSI bus
  consistent, the registers hold what was written, and a combined command read byte by byte by
  the host delivers the blocks of a disk.
\<close>

section \<open>Servicing a request returns\<close>

definition transfer_ok :: "wd33c93b \<Rightarrow> bool" where
  "transfer_ok w \<longleftrightarrow>
     (wd_pio_phase w \<noteq> None \<longrightarrow> wd_single_byte w \<or> wd_pio_remaining w \<le> wd_transfer_count w)
     \<and> (wd_input_byte w \<noteq> None \<longrightarrow> (\<exists>p. wd_pio_phase w = Some p \<and> phase_input p))
     \<and> (wd_output_ready w \<longrightarrow> (\<exists>p. wd_pio_phase w = Some p \<and> \<not> phase_input p) \<and> wd_pio_remaining w \<noteq> 0)
     \<and> wd_transfer_count w < 0x1000000"

text \<open>What a pump leaves alone.\<close>

definition kept :: "wd33c93b \<Rightarrow> wd33c93b \<Rightarrow> bool" where
  "kept w v \<longleftrightarrow> wd_cdb v = wd_cdb w \<and> wd_clock_hz v = wd_clock_hz w
     \<and> (wd_pending_request v = wd_pending_request w \<or> wd_pending_request v = None)
     \<and> (wd_pio_phase w = None \<longrightarrow> wd_pio_phase v = None)"

definition pumped :: "'m storage_ops \<Rightarrow> wd33c93b \<Rightarrow> (scsi_bus_error + wd_work) \<times> wd33c93b \<times> 'm scsi_bus \<Rightarrow> bool" where
  "pumped so w = (\<lambda>(r, v, b). scsi_bus_ok so b \<and> transfer_ok v \<and> kept w v)"

lemmas controller_steps =
  raise_status_def report_phase_def abort_transfer_def clear_transfer_state_def finish_select_and_transfer_def
  finish_selection_timeout_def end_information_phase_def wait_for_selection_def

lemma pumped_simps [simp]:
  "pumped so w (r, v, b) = (scsi_bus_ok so b \<and> transfer_ok v \<and> kept w v)" "kept w w"
  by (simp_all add: pumped_def kept_def)

lemma kept_trans: "kept w v \<Longrightarrow> kept v u \<Longrightarrow> kept w u"
  by (auto simp: kept_def)

lemma pumped_trans: "pumped so v x \<Longrightarrow> kept w v \<Longrightarrow> pumped so w x"
  by (auto simp: pumped_def intro: kept_trans)

lemma count_pred: "n < 0x1000000 \<Longrightarrow> 0 < unat n \<Longrightarrow> n - 1 < (0x1000000 :: u32)"
  by (simp add: word_less_nat_alt unat_sub_if')

lemma advance_byte_ok:
  assumes "transfer_ok w" "wd_pio_phase w = Some phase" "wd_pio_remaining w \<noteq> 0" "\<not> wd_output_ready w"
  shows "ok (advance_information_byte w) (\<lambda>v. transfer_ok v \<and> kept w v \<and> wd_pio_phase v = Some phase \<and> \<not> wd_output_ready v)"
  using assms
  by (auto simp: count_pred transfer_ok_def kept_def advance_information_byte_def Let_def ok_if word_le_nat_alt unat_sub_if'
      unat_eq_zero unat_gt_0 [symmetric])

text \<open>A data byte that is not there means that the target has ended the data phase.\<close>

lemma complete_target_storage_connection:
  "complete_target_storage slot success b = Some (status, b1) \<Longrightarrow> sb_connection b1 = sb_connection b"
  by (auto simp: complete_target_storage_def put_attachment_def split_beta split: option.splits bind_splits)

lemma read_medium_connection:
  "read_medium so slot offset n b = Some (bytes, b1) \<Longrightarrow> sb_connection b1 = sb_connection b"
  by (auto simp: read_medium_def put_attachment_def split_beta split: option.splits bind_splits)

lemma no_input_byte:
  assumes "read_information so b = Some (Inr None, b1)"
  shows "scsi_phase_of b1 = Some PhaseStatus"
  using assms
  by (auto simp: read_information_def transfer_data_in_def transfer_immediate_data_in_def
      transfer_storage_data_in_def scsi_phase_of_def accept_byte_def observe_transfer_result_def scsi_set_status_def
      Let_def split_beta dest!: complete_target_storage_connection read_medium_connection
      split: option.splits scsi_phase.splits sum.splits scsi_transfer.splits if_splits bind_splits)

lemma complete_combined_ok:
  assumes laws: "storage_laws so contents" and b: "scsi_bus_ok so b" and w: "transfer_ok w"
  shows "ok (complete_combined so w b) (pumped so w)"
proof -
  have "transfer_ok (finish_select_and_transfer status w)" "kept w (finish_select_and_transfer status w)" for status
    using w by (simp_all add: transfer_ok_def kept_def controller_steps)
  then show ?thesis
    using w
    by (auto simp: complete_combined_def ok_if acknowledge_message_ok split: sum.split option.split
        intro!: ok_mono [OF read_information_ok [OF laws]] b)
qed

lemma end_information_ok:
  assumes "transfer_ok w" "wd_input_byte w = None"
  shows "transfer_ok (end_information_phase phase b w)" "kept w (end_information_phase phase b w)"
  using assms by (auto simp: transfer_ok_def kept_def controller_steps)

lemma abort_ok:
  assumes "transfer_ok w" "wd_input_byte w = None"
  shows "transfer_ok (abort_transfer b w)" "kept w (abort_transfer b w)"
  using assms by (auto simp: transfer_ok_def kept_def controller_steps)

lemma information_byte:
  assumes laws: "storage_laws so contents" and b: "scsi_bus_ok so b" and w: "transfer_ok w"
    and phase: "wd_pio_phase w = Some phase" "phase_input phase" and remaining: "wd_pio_remaining w \<noteq> 0"
    and ended: "\<And>b. read_information so b0 = Some (Inr None, b) \<Longrightarrow> scsi_bus_ok so b \<Longrightarrow>
      scsi_phase_of b = Some PhaseStatus \<Longrightarrow> ok (continue b) (pumped so w)" and b0: "b0 = b"
  shows "ok (Option.bind (read_information so b) (\<lambda>(input, b).
              case input of
                Inl e \<Rightarrow> Some (Inl e, w, b)
              | Inr None \<Rightarrow> continue b
              | Inr (Some v) \<Rightarrow>
                  map_option (\<lambda>w. (Inr WorkIdle, w, b)) (advance_information_byte (w\<lparr>wd_input_byte := Some v\<rparr>))))
      (pumped so w)"
proof -
  obtain input b1 where r: "read_information so b = Some (input, b1)" "scsi_bus_ok so b1"
    using read_information_ok [OF laws b] by (auto simp: ok_ex)
  have "ok (advance_information_byte (w\<lparr>wd_input_byte := Some v\<rparr>)) (\<lambda>u. transfer_ok u \<and> kept w u)" for v
    using w phase remaining by (intro ok_mono [OF advance_byte_ok [of _ phase]]) (auto simp: transfer_ok_def kept_def)
  then show ?thesis
    using r ended [of b1] no_input_byte [of so b b1] w b0 by (auto split: sum.split option.split elim!: ok_mono)
qed

lemma pump_cases:
  assumes laws: "storage_laws so contents" and b: "scsi_bus_ok so b" and w: "transfer_ok w"
    and ended: "\<And>b1. read_information so b = Some (Inr None, b1) \<Longrightarrow> scsi_bus_ok so b1 \<Longrightarrow>
      scsi_phase_of b1 = Some PhaseStatus \<Longrightarrow> wd_input_byte w = None \<Longrightarrow> ok (pump so (w\<lparr>wd_input_byte := None\<rparr>) b1) (pumped so w)"
  shows "ok (pump so w b) (pumped so w)"
proof (cases "wd_pio_phase w")
  case None
  then show ?thesis
    using w by (subst pump.simps) (auto simp: abort_ok [OF w] ok_if b complete_combined_ok [OF laws b w])
next
  case (Some phase)
  have ready: "wd_pio_remaining w \<noteq> 0 \<and> \<not> phase_input phase \<Longrightarrow> transfer_ok (w\<lparr>wd_output_ready := True\<rparr>)"
    "kept w (w\<lparr>wd_output_ready := True\<rparr>)"
    using w Some by (auto simp: transfer_ok_def kept_def)
  show ?thesis
  proof (cases "wd_pio_remaining w \<noteq> 0 \<and> phase_input phase \<and> wd_input_byte w = None")
    case True
    have "ok (Option.bind (read_information so b) (\<lambda>(input, b).
              case input of
                Inl e \<Rightarrow> Some (Inl e, w, b)
              | Inr None \<Rightarrow> pump so (w\<lparr>wd_input_byte := None\<rparr>) b
              | Inr (Some v) \<Rightarrow>
                  map_option (\<lambda>w. (Inr WorkIdle, w, b)) (advance_information_byte (w\<lparr>wd_input_byte := Some v\<rparr>))))
      (pumped so w)"
      by (rule information_byte [OF laws b w Some]) (use True ended in auto)
    then show ?thesis
      using True w
      by (subst pump.simps) (simp del: ok_bind add: abort_ok [OF w] end_information_ok [OF w] ok_if Some b complete_combined_ok [OF laws b w])
  next
    case False
    then show ?thesis
      using w ready
      by (subst pump.simps) (auto simp del: ok_bind simp add: abort_ok [OF w] end_information_ok [OF w] ok_if Some b complete_combined_ok [OF laws b w])
  qed
qed

lemma status_byte:
  assumes "scsi_phase_of b = Some PhaseStatus"
  shows "read_information so b \<noteq> Some (Inr None, b1)"
  using assms by (auto simp: read_information_def scsi_phase_of_def)

lemma pump_ok:
  assumes laws: "storage_laws so contents" and b: "scsi_bus_ok so b" and w: "transfer_ok w"
  shows "ok (pump so w b) (pumped so w)"
proof (rule pump_cases [OF laws b w])
  fix b1 assume b1: "scsi_bus_ok so b1" "scsi_phase_of b1 = Some PhaseStatus" and input: "wd_input_byte w = None"
  have "w\<lparr>wd_input_byte := None\<rparr> = w" using input by simp
  then show "ok (pump so (w\<lparr>wd_input_byte := None\<rparr>) b1) (pumped so w)"
    using pump_cases [OF laws b1(1) w] status_byte [OF b1(2), of so] by metis
qed

lemma select_ok:
  assumes "scsi_bus_ok so b"
  shows "ok (scsi_select target_id attention b) (\<lambda>(r, b). scsi_bus_ok so b)"
  using scsi_select_ok [OF assms(1), of target_id attention] by (auto elim!: ok_mono)

lemma send_cdb_bytes_ok:
  assumes laws: "storage_laws so contents"
  shows "scsi_bus_ok so b \<Longrightarrow> ok (send_cdb_bytes so bytes b) (\<lambda>(r, b). scsi_bus_ok so b)"
proof (induction bytes arbitrary: b)
  case (Cons v vs)
  have "ok (write_information so v False b) (\<lambda>r. scsi_bus_ok so (snd r))"
    by (rule write_information_ok [OF laws Cons.prems])
  then show ?case by (auto split: sum.split intro: Cons.IH elim!: ok_mono)
qed simp

text \<open>
  A transfer that is not under way has no byte staged, so the next transfer starts clean.
\<close>

definition serviced :: "'m storage_ops \<Rightarrow> wd33c93b \<Rightarrow> (scsi_bus_error + wd_work) \<times> wd33c93b \<times> 'm scsi_bus \<Rightarrow> bool" where
  "serviced so w = (\<lambda>(r, v, b). scsi_bus_ok so b \<and> transfer_ok v
     \<and> wd_cdb v = wd_cdb w \<and> wd_clock_hz v = wd_clock_hz w
     \<and> wd_pending_request v \<in> {wd_pending_request w, None, Some ReqTimeout})"

lemma serviced_simps [simp]:
  "serviced so w (r, v, b) = (scsi_bus_ok so b \<and> transfer_ok v
     \<and> wd_cdb v = wd_cdb w \<and> wd_clock_hz v = wd_clock_hz w
     \<and> wd_pending_request v \<in> {wd_pending_request w, None, Some ReqTimeout})"
  by (simp add: serviced_def)

lemma pumped_serviced:
  "pumped so v x \<Longrightarrow> wd_cdb v = wd_cdb w \<Longrightarrow> wd_clock_hz v = wd_clock_hz w \<Longrightarrow>
   wd_pending_request v = wd_pending_request w \<Longrightarrow> serviced so w x"
  by (auto simp: pumped_def kept_def serviced_def)

lemma pump_serviced:
  assumes "storage_laws so contents" "scsi_bus_ok so b" "transfer_ok v"
    and "wd_cdb v = wd_cdb w" "wd_clock_hz v = wd_clock_hz w" "wd_pending_request v = wd_pending_request w"
  shows "ok (pump so v b) (serviced so w)"
  by (rule ok_mono [OF pump_ok [OF assms(1-3)]]) (rule pumped_serviced [OF _ assms(4-6)])

lemma idle_parts:
  "transfer_ok w \<Longrightarrow> wd_pio_phase w = None \<Longrightarrow> wd_input_byte w = None \<and> \<not> wd_output_ready w"
  by (auto simp: transfer_ok_def)

lemma idle_transfer:
  "wd_input_byte w = None \<Longrightarrow> \<not> wd_output_ready w \<Longrightarrow> wd_pio_phase w = None \<Longrightarrow>
   wd_transfer_count w < 0x1000000 \<Longrightarrow> transfer_ok w"
  by (simp add: transfer_ok_def)

definition request_ok :: "request_kind \<Rightarrow> wd33c93b \<Rightarrow> bool" where
  "request_ok request w \<longleftrightarrow>
     (case request of
        ReqCombined r \<Rightarrow> unat (sr_cdb_length r) \<le> length (sr_cdb r) \<and> wd_pio_phase w = None
      | ReqTransfer \<Rightarrow> wd_pio_phase w = None
      | ReqOutput v \<Rightarrow> wd_pio_phase w \<noteq> None \<and> wd_pio_remaining w \<noteq> 0 \<and> \<not> wd_output_ready w
      | _ \<Rightarrow> True)"

lemma start_pump_serviced:
  assumes "storage_laws so contents" "scsi_bus_ok so b" "wd_input_byte v = None" "\<not> wd_output_ready v"
    and "wd_transfer_count v < 0x1000000"
    and "wd_cdb v = wd_cdb w" "wd_clock_hz v = wd_clock_hz w" "wd_pending_request v = wd_pending_request w"
  shows "ok (start_pump so v b) (serviced so w)"
  unfolding start_pump_def
  by (rule pump_serviced [OF assms(1,2)]) (use assms in \<open>simp_all add: transfer_ok_def\<close>)

lemma service_combined_ok:
  assumes laws: "storage_laws so contents" and b: "scsi_bus_ok so b"
    and w: "wd_input_byte w = None" "\<not> wd_output_ready w" "wd_pio_phase w = None" "wd_transfer_count w < 0x1000000"
    and r: "unat (sr_cdb_length r) \<le> length (sr_cdb r)"
  shows "ok (service_combined so r w b) (serviced so w)"
proof -
  let ?phase = "\<lambda>v. v\<lparr>wd_command_phase := 0x10\<rparr>" and ?identified = "\<lambda>v. v\<lparr>wd_attention := False, wd_command_phase := 0x20\<rparr>"
  have t: "transfer_ok w" by (rule idle_transfer [OF w])
  have command: "ok (do { require (unat (sr_cdb_length r) \<le> length (sr_cdb r));
        (q, b) \<leftarrow> send_cdb_bytes so (take (unat (sr_cdb_length r)) (sr_cdb r)) b1;
        case q of Inl e \<Rightarrow> Some (Inl e, v, b) | Inr _ \<Rightarrow> start_pump so v b }) (serviced so w)"
    if "scsi_bus_ok so b1" and v: "v \<in> {?phase w, ?identified (?phase w)}" for b1 v
  proof -
    have parts: "wd_input_byte v = None" "\<not> wd_output_ready v" "wd_cdb v = wd_cdb w" "wd_clock_hz v = wd_clock_hz w"
      "wd_pending_request v = wd_pending_request w" "transfer_ok v" "wd_transfer_count v < 0x1000000"
      using v w t by (auto simp: transfer_ok_def)
    then show ?thesis
      using r by (auto split: sum.split intro: start_pump_serviced [OF laws]
        intro!: ok_mono [OF send_cdb_bytes_ok [OF laws that(1)]])
  qed
  have identify: "ok (if wd_attention w then write_information so v True b1 else Some (Inr True, b1))
      (\<lambda>(x, b). scsi_bus_ok so b)" if "scsi_bus_ok so b1" for b1 v
    using write_information_ok [OF laws that, of v True] that by (auto elim!: ok_mono)
  show ?thesis
  proof (cases "scsi_phase_of b = None")
    case True
    obtain selected b1 where s: "scsi_select (sr_destination_id r) (wd_attention w) b = Some (selected, b1)" "scsi_bus_ok so b1"
      using select_ok [OF b, of "sr_destination_id r" "wd_attention w"] by (auto simp: ok_ex)
    obtain q b2 where i: "(if wd_attention w then write_information so (0x80 OR sr_lun r) True b1 else Some (Inr True, b1)) = Some (q, b2)"
      "scsi_bus_ok so b2"
      using identify [OF s(2), of "0x80 OR sr_lun r"] by (auto simp: ok_ex)
    consider (failed) e where "selected = Inl e" | (absent) "selected = Inr False" | (present) "selected = Inr True"
      by (cases selected) auto
    then show ?thesis
    proof cases
      case absent
      then show ?thesis using True s w by (simp add: service_combined_def wait_for_selection_def transfer_ok_def)
    next
      case present
      have "transfer_ok (?phase w)" using t by (simp add: transfer_ok_def)
      have start: "service_combined so r w b = do {
          (q, b) \<leftarrow> (if wd_attention w then write_information so (0x80 OR sr_lun r) True b1 else Some (Inr True, b1));
          case q of
            Inl e \<Rightarrow> Some (Inl e, ?phase w, b)
          | Inr _ \<Rightarrow> do {
              let v = (if wd_attention w then ?identified (?phase w) else ?phase w);
              require (unat (sr_cdb_length r) \<le> length (sr_cdb r));
              (q, b) \<leftarrow> send_cdb_bytes so (take (unat (sr_cdb_length r)) (sr_cdb r)) b;
              case q of Inl e \<Rightarrow> Some (Inl e, v, b) | Inr _ \<Rightarrow> start_pump so v b
            } }"
        using present True s by (simp add: service_combined_def Let_def)
      have u: "transfer_ok (?phase w)" using t by (simp add: transfer_ok_def)
      have v: "(if wd_attention w then ?identified (?phase w) else ?phase w) \<in> {?phase w, ?identified (?phase w)}" by simp
      note c = command [OF i(2) v]
      show ?thesis
      proof (cases q)
        case (Inl e)
        then show ?thesis unfolding start i(1) using u i(2) by simp
      next
        case (Inr x)
        then show ?thesis unfolding start i(1) Let_def using c by (simp del: ok_bind)
      qed
    qed (use True s t in \<open>simp add: service_combined_def\<close>)
  next
    case False
    then have connected: "(scsi_phase_of b = None) = False" by simp
    show ?thesis
      unfolding service_combined_def connected
      using start_pump_serviced [OF laws b w(1,2), of w] b w by (simp add: ok_if transfer_ok_def raise_status_def)
  qed
qed

lemma service_output_ok:
  assumes laws: "storage_laws so contents" and b: "scsi_bus_ok so b" and w: "transfer_ok w"
    and staged: "wd_pio_phase w = Some phase" "wd_pio_remaining w \<noteq> 0" "\<not> wd_output_ready w"
  shows "ok (service_request so (ReqOutput v) w b) (serviced so w)"
proof -
  let ?w = "w\<lparr>wd_command_in_progress := False\<rparr>"
  let ?v = "if wd_pio_phase w = Some PhaseMessageOut \<and> wd_pio_remaining w = 1 then ?w\<lparr>wd_attention := False\<rparr> else ?w"
  have keep: "transfer_ok ?w" "transfer_ok ?v" "wd_pio_phase ?v = Some phase" "wd_pio_remaining ?v \<noteq> 0" "\<not> wd_output_ready ?v"
    "kept w ?v"
    using w staged by (auto simp: transfer_ok_def kept_def)
  have step: "ok (if consumed then advance_information_byte ?v else Some ?v)
      (\<lambda>u. transfer_ok u \<and> wd_cdb u = wd_cdb w \<and> wd_clock_hz u = wd_clock_hz w \<and> wd_pending_request u = wd_pending_request w)"
    for consumed
  proof -
    have "ok (advance_information_byte ?v) (\<lambda>u. wd_pending_request u = wd_pending_request w)"
      using advance_byte_ok [OF keep(2-5)] by (auto simp: advance_information_byte_def Let_def ok_if)
    from ok_conj [OF advance_byte_ok [OF keep(2-5)] this]
    have "ok (advance_information_byte ?v) (\<lambda>u. transfer_ok u \<and> wd_cdb u = wd_cdb w \<and> wd_clock_hz u = wd_clock_hz w
        \<and> wd_pending_request u = wd_pending_request w)"
      by (rule ok_mono) (auto simp: kept_def)
    then show ?thesis using keep(2) by simp
  qed
  have "ok (do { u \<leftarrow> (if consumed then advance_information_byte ?v else Some ?v); pump so u b1 }) (serviced so w)"
    if "scsi_bus_ok so b1" for consumed b1
    unfolding ok_bind by (rule ok_mono [OF step]) (auto intro: pump_serviced [OF laws that])
  then show ?thesis
    using keep unfolding service_request_def
    by (auto simp: Let_def split_beta split: sum.split split del: if_split cong: if_cong
        intro!: ok_mono [OF write_information_ok [OF laws b]])
qed

lemma service_select_ok:
  assumes b: "scsi_bus_ok so b" and w: "transfer_ok w"
  shows "ok (service_request so (ReqSelect target_id attention) w b) (serviced so w)"
proof -
  have keep: "transfer_ok (w\<lparr>wd_command_in_progress := False\<rparr>)"
    "transfer_ok (snd (wait_for_selection (w\<lparr>wd_command_in_progress := False\<rparr>)))"
    "transfer_ok (raise_status status (w\<lparr>wd_command_in_progress := False\<rparr>))"
    "transfer_ok ((raise_status status (w\<lparr>wd_command_in_progress := False\<rparr>))\<lparr>wd_phase_after_status := True\<rparr>)" for status
    using w by (simp_all add: transfer_ok_def controller_steps)
  have same: "wd_cdb (raise_status status v) = wd_cdb v" "wd_clock_hz (raise_status status v) = wd_clock_hz v"
    "wd_pending_request (raise_status status v) = wd_pending_request v"
    "wd_cdb (snd (wait_for_selection v)) = wd_cdb v" "wd_clock_hz (snd (wait_for_selection v)) = wd_clock_hz v"
    "wd_pending_request (snd (wait_for_selection v)) = Some ReqTimeout" for status v
    by (simp_all add: raise_status_def wait_for_selection_def)
  show ?thesis
    using keep b unfolding service_request_def
    by (auto simp: Let_def ok_if same split_beta split: sum.split bool.split intro!: ok_mono [OF select_ok [OF b]])
qed

lemma service_request_ok:
  assumes laws: "storage_laws so contents" and b: "scsi_bus_ok so b" and w: "transfer_ok w" "request_ok request w"
  shows "ok (service_request so request w b) (serviced so w)"
proof -
  let ?w = "w\<lparr>wd_command_in_progress := False\<rparr>"
  have keep: "transfer_ok ?w" using w(1) by (simp add: transfer_ok_def)
  note bus_keeps = b acknowledge_message_ok [OF b] assert_attention_ok [OF b] cancel_transaction_ok [OF b]
  show ?thesis
  proof (cases request)
    case (ReqCombined r)
    then have "ok (service_combined so r ?w b) (serviced so ?w)"
      using w by (intro service_combined_ok [OF laws b]) (auto simp: request_ok_def transfer_ok_def)
    then show ?thesis
      using ReqCombined by (auto simp: service_request_def serviced_def elim!: ok_mono)
  next
    case (ReqSelect i attention)
    then show ?thesis using service_select_ok [OF b w(1)] by simp
  next
    case (ReqOutput v)
    then show ?thesis using service_output_ok [OF laws b w(1)] w(2) by (auto simp: request_ok_def)
  next
    case ReqTransfer
    then have idle: "wd_pio_phase w = None" "wd_input_byte w = None" "\<not> wd_output_ready w"
      using w idle_parts by (auto simp: request_ok_def)
    moreover have "wd_transfer_count w < 0x1000000" using w(1) by (simp add: transfer_ok_def)
    ultimately show ?thesis
      using ReqTransfer b
      by (auto simp: service_request_def Let_def raise_status_def transfer_ok_def split: option.split
          intro!: pump_serviced [OF laws b])
  next
    case ReqAttention
    then show ?thesis
      using keep w(1) bus_keeps
      by (auto simp: service_request_def Let_def ok_if transfer_ok_def raise_status_def report_phase_def
          intro!: pump_serviced [OF laws])
  next
    case ReqPump
    then show ?thesis using pump_serviced [OF laws b keep, of w] by (simp add: service_request_def)
  qed (use bus_keeps w(1) in \<open>auto simp: service_request_def Let_def ok_if transfer_ok_def controller_steps\<close>)
qed

section \<open>Host accesses\<close>

definition wd_ok :: "wd33c93b \<Rightarrow> bool" where
  "wd_ok w \<longleftrightarrow> length (wd_cdb w) = 12 \<and> wd_clock_hz w \<noteq> 0 \<and> transfer_ok w
     \<and> (\<forall>r. wd_pending_request w = Some r \<longrightarrow> request_ok r w)"

lemma wd_new_ok: "clock_hz \<noteq> 0 \<Longrightarrow> ok (wd_new clock_hz) wd_ok"
  by (simp add: wd_new_def wd_ok_def transfer_ok_def)

lemma decode_lane: "decode_access address n = Inr (port, Some lane) \<Longrightarrow> lane < n"
  by (auto simp: decode_access_def Let_def split: if_splits prod.splits)

lemma cdb_index: "CDB_START \<le> register \<and> register \<le> CDB_END \<Longrightarrow> unat (register - CDB_START) < 12"
  by (auto simp: CDB_START_def CDB_END_def word_le_nat_alt unat_sub_if')

lemma selected_register_read:
  assumes "length (wd_cdb w) = 12"
  shows "ok (read_selected_register w register) (\<lambda>v. True)"
  unfolding read_selected_register_def ok_if by (simp add: assms cdb_index)

text \<open>Updates the host makes besides commands and the transfer count.\<close>

lemma wd_ok_updates:
  assumes "wd_ok w"
  shows "wd_ok (w\<lparr>wd_selected_register := register\<rparr>)"
    "wd_ok (w\<lparr>wd_interrupt_pending := False, wd_selected_register := register\<rparr>)"
    "wd_ok (w\<lparr>wd_interrupt_pending := False, wd_selected_register := register,
        wd_phase_after_status := False, wd_pending_request := Some ReqPhase\<rparr>)"
    "wd_ok (w\<lparr>wd_input_byte := None, wd_pending_request := Some ReqPump\<rparr>)"
    "wd_ok (w\<lparr>wd_own_id := v\<rparr>)" "wd_ok (w\<lparr>wd_control := v\<rparr>)" "wd_ok (w\<lparr>wd_timeout_period := v\<rparr>)"
    "length cdb = 12 \<Longrightarrow> wd_ok (w\<lparr>wd_cdb := cdb\<rparr>)"
    "wd_ok (w\<lparr>wd_target_lun := v\<rparr>)" "wd_ok (w\<lparr>wd_command_phase := v\<rparr>)" "wd_ok (w\<lparr>wd_synchronous_transfer := v\<rparr>)"
    "wd_ok (w\<lparr>wd_destination_id := v\<rparr>)" "wd_ok (w\<lparr>wd_source_id := v\<rparr>)"
    "wd_pio_phase w = None \<Longrightarrow> n < 0x1000000 \<Longrightarrow> wd_ok (w\<lparr>wd_transfer_count := n\<rparr>)"
    "wd_transfer_count w = n \<Longrightarrow> wd_ok (w\<lparr>wd_transfer_count := n\<rparr>)"
    "wd_output_ready w \<Longrightarrow> wd_ok (w\<lparr>wd_output_ready := False, wd_pending_request := Some (ReqOutput v)\<rparr>)"
    "wd_ok (w\<lparr>wd_pending_request := None\<rparr>)"
  using assms
  by (auto simp: wd_ok_def transfer_ok_def request_ok_def split: request_kind.splits)

lemma peek_port_returns: "wd_ok w \<Longrightarrow> ok (peek_port w port) (\<lambda>v. True)"
  by (simp add: peek_port_def wd_ok_def selected_register_read split: wd_port.split)

lemma read_port_ok: 
  assumes "wd_ok w"
  shows "ok (read_port port w) (\<lambda>(v, w). wd_ok w)"
proof -
  obtain v where "peek_port w port = Some v" using peek_port_returns [OF assms, of port] by (auto simp: ok_ex)
  then show ?thesis
    using assms by (simp add: read_port_def Let_def wd_ok_updates split: wd_port.split)
qed

lemma wd_read_ok:
  assumes "wd_ok w"
  shows "ok (wd_read address n w) (\<lambda>(r, w). wd_ok w)"
  using assms read_port_ok [OF assms] decode_lane [of address n]
  by (auto simp: wd_read_def split: sum.split option.split intro!: ok_mono [OF read_port_ok [OF assms]])

definition transfer_command :: "u8 \<Rightarrow> bool" where
  "transfer_command v \<longleftrightarrow> v = SELECT_AND_TRANSFER \<or> v = SELECT_AND_TRANSFER_WITH_ATN \<or> v = 0x20 \<or> v = 0xa0"

text \<open>
  A driver that respects the transfer under way: it rewrites the transfer count and issues a
  further transfer command only between transfers.
\<close>

definition respects_transfer :: "u8 \<Rightarrow> u8 \<Rightarrow> wd33c93b \<Rightarrow> bool" where
  "respects_transfer register v w \<longleftrightarrow> wd_pio_phase w = None \<or>
     register \<notin> {TRANSFER_COUNT_MSB, TRANSFER_COUNT_MID, TRANSFER_COUNT_LSB} \<and> \<not> (register = COMMAND \<and> transfer_command v)"

lemma cdb_length_bound: "unat (wd_cdb_length opcode) \<le> 12"
  by (simp add: wd_cdb_length_def)

lemma wd_command_ok:
  assumes w: "wd_ok w" and v: "supported_command v" and respects: "wd_pio_phase w = None \<or> \<not> transfer_command v"
  shows "ok (execute_command v w) wd_ok"
proof -
  have codes: "v \<in> {0, 1, 2, 3, 4, 6, 7, 8, 9, 0x20, 0xa0}"
    using v by (auto simp: supported_command_def word_le_nat_alt word_unat_eq_iff)
  have parts: "length (wd_cdb w) = 12" "wd_cdb w \<noteq> []" "wd_clock_hz w \<noteq> 0" "transfer_ok w" using w by (auto simp: wd_ok_def)
  have idle: "wd_pio_phase w = None \<Longrightarrow> wd_input_byte w = None \<and> \<not> wd_output_ready w" by (rule idle_parts [OF parts(4)])
  have transfers: "wd_pio_phase w = None" if "transfer_command v" using respects that by blast
  show ?thesis
    using codes parts idle transfers
    by (elim insertE emptyE)
      (simp_all add: execute_command_def Let_def software_reset_def clear_transfer_state_def combined_request_def
        SOFTWARE_RESET_def SELECT_AND_TRANSFER_def SELECT_AND_TRANSFER_WITH_ATN_def transfer_command_def
        wd_ok_def request_ok_def transfer_ok_def get_at_def cdb_length_bound)
qed

lemma byte_masks:
  fixes c :: u32 and v :: u8
  shows "(c AND 0x0000ffff) OR push_bit 16 (ucast v) < 0x1000000"
    "(c AND 0x00ff00ff) OR push_bit 8 (ucast v) < 0x1000000"
    "(c AND 0x00ffff00) OR ucast v < 0x1000000"
proof -
  have small: "x < 0x1000000" if "drop_bit 24 x = 0" for x :: u32
    using that by (simp add: drop_bit_eq_div word_less_nat_alt word_unat_eq_iff unat_div)
  have high: "\<not> bit v n" if "8 \<le> n" for n using that by (simp add: not_bit_u8)
  show "(c AND 0x0000ffff) OR push_bit 16 (ucast v) < 0x1000000"
    "(c AND 0x00ff00ff) OR push_bit 8 (ucast v) < 0x1000000"
    "(c AND 0x00ffff00) OR ucast v < 0x1000000"
    by (rule small, rule bit_word_eqI, auto simp: bit_simps high)+
qed

lemma count_masked: "c < 0x1000000 \<Longrightarrow> c AND TRANSFER_COUNT_MASK = (c :: u32)"
proof -
  assume c: "c < 0x1000000"
  have "take_bit 24 c = c"
    using c by (simp add: take_bit_eq_mod word_less_nat_alt word_unat_eq_iff unat_mod)
  moreover have "(mask 24 :: u32) = TRANSFER_COUNT_MASK" by (simp add: TRANSFER_COUNT_MASK_def mask_eq_exp_minus_1)
  ultimately show "c AND TRANSFER_COUNT_MASK = c" by (metis take_bit_eq_mask)
qed

lemma masked_ok: "ok m wd_ok \<Longrightarrow> ok (map_option (\<lambda>w. w\<lparr>wd_transfer_count := wd_transfer_count w AND TRANSFER_COUNT_MASK\<rparr>) m) wd_ok"
  by (auto simp: wd_ok_def transfer_ok_def count_masked elim!: ok_mono)

lemma write_selected_register_ok:
  assumes w: "wd_ok w" and respects: "respects_transfer register v w" and supported: "register = COMMAND \<Longrightarrow> supported_command v"
  shows "ok (write_selected_register register v w) wd_ok"
proof -
  have cdb: "CDB_START \<le> register \<and> register \<le> CDB_END \<Longrightarrow>
      ok (map_option (\<lambda>cdb. w\<lparr>wd_cdb := cdb\<rparr>) (set_at (wd_cdb w) (unat (register - CDB_START)) v)) wd_ok"
    using cdb_index [of register] wd_ok_updates(8) [OF w] w by (auto simp: wd_ok_def [of w])
  have count: "register \<in> {TRANSFER_COUNT_MSB, TRANSFER_COUNT_MID, TRANSFER_COUNT_LSB} \<Longrightarrow> n < 0x1000000 \<Longrightarrow>
      wd_ok (w\<lparr>wd_transfer_count := n\<rparr>)" for n
    using respects w by (simp add: respects_transfer_def wd_ok_updates)
  have command: "register = COMMAND \<Longrightarrow> ok (execute_command v w) wd_ok"
    using respects by (intro wd_command_ok [OF w supported]) (auto simp: respects_transfer_def)
  show ?thesis
    unfolding write_selected_register_def
    by (rule masked_ok, unfold ok_if) (use cdb count command w in \<open>simp add: wd_ok_updates byte_masks\<close>)
qed

lemma write_port_ok:
  assumes w: "wd_ok w"
    and host: "port = PortData \<Longrightarrow> respects_transfer (wd_selected_register w) v w
      \<and> (wd_selected_register w = COMMAND \<longrightarrow> supported_command v)"
  shows "ok (write_port port v w) wd_ok"
  using w host
  by (cases port) (auto simp: write_port_def wd_ok_updates Let_def intro!: ok_mono [OF write_selected_register_ok])

section \<open>Sessions\<close>

text \<open>
  What can happen to the controller and its bus: accesses of the driver, the service of the
  pending request, a data payload moved by the board, a hardware reset, and anything on the bus
  side, including media changes and snapshots.
\<close>

datatype 'm wd_action =
    WdHostRead device_addr nat
  | WdHostWrite device_addr "u8 list"
  | WdService
  | WdPayload u32 "scsi_status option"
  | WdHardwareReset
  | WdBus "'m scsi_action"

definition wd_perform :: "'m storage_ops \<Rightarrow> 'm wd_action \<Rightarrow> wd33c93b \<times> 'm scsi_bus \<Rightarrow> (wd33c93b \<times> 'm scsi_bus) option" where
  "wd_perform so action s = (
     let (w, b) = s
     in case action of
          WdHostRead address n \<Rightarrow> map_option (\<lambda>(r, w). (w, b)) (wd_read address n w)
        | WdHostWrite address bytes \<Rightarrow> map_option (\<lambda>(r, w). (w, b)) (wd_write address bytes w)
        | WdService \<Rightarrow>
            (case wd_take_request w of
               (None, w) \<Rightarrow> Some (w, b)
             | (Some request, w) \<Rightarrow> map_option snd (service_request so request w b))
        | WdPayload n status \<Rightarrow>
            (case consume_transfer_bytes n w of
               (False, w) \<Rightarrow> Some (w, b)
             | (True, w) \<Rightarrow> map_option snd (finish_dma so status w b))
        | WdHardwareReset \<Rightarrow> Some (wd_reset w, b)
        | WdBus action \<Rightarrow> map_option (\<lambda>b. (w, b)) (scsi_perform so action b))"

definition disciplined :: "'m wd_action \<Rightarrow> wd33c93b \<Rightarrow> bool" where
  "disciplined action w \<longleftrightarrow>
     (case action of
        WdHostWrite address bytes \<Rightarrow>
          (case decode_access address (length bytes) of
             Inr (PortData, Some lane) \<Rightarrow> respects_transfer (wd_selected_register w) (bytes ! lane) w
           | _ \<Rightarrow> True)
      | WdPayload n status \<Rightarrow> \<not> wd_output_ready w \<and> (\<forall>v. wd_pending_request w \<noteq> Some (ReqOutput v))
      | _ \<Rightarrow> True)"

inductive wd_reachable :: "'m storage_ops \<Rightarrow> wd33c93b \<times> 'm scsi_bus \<Rightarrow> bool" for so where
  wd_initial: "wd_new clock_hz = Some w \<Longrightarrow> scsi_bus_ok so b \<Longrightarrow> wd_reachable so (w, b)"
| wd_step: "wd_reachable so s \<Longrightarrow> disciplined action (fst s) \<Longrightarrow> wd_perform so action s = Some s1 \<Longrightarrow> wd_reachable so s1"

lemma wd_write_ok:
  assumes w: "wd_ok w" and respects: "disciplined (WdHostWrite address bytes) w"
  shows "ok (wd_write address bytes w) (\<lambda>(r, w). wd_ok w)"
  using w respects decode_lane [of address "length bytes"]
  by (auto simp: wd_write_def disciplined_def get_at_def ok_if
      split: sum.split option.split wd_port.splits intro!: ok_mono [OF write_port_ok])

lemma service_step_ok:
  assumes laws: "storage_laws so contents" and b: "scsi_bus_ok so b" and w: "wd_ok w"
  shows "ok (wd_perform so WdService (w, b)) (\<lambda>(w, b). wd_ok w \<and> scsi_bus_ok so b)"
proof (cases "wd_pending_request w")
  case None
  then have "w\<lparr>wd_pending_request := None\<rparr> = w" by simp
  then show ?thesis using None w b by (simp add: wd_perform_def wd_take_request_def wd_ok_updates)
next
  case (Some request)
  have "ok (service_request so request (w\<lparr>wd_pending_request := None\<rparr>) b) (serviced so (w\<lparr>wd_pending_request := None\<rparr>))"
    by (rule service_request_ok [OF laws b])
      (use w Some in \<open>auto simp: wd_ok_def transfer_ok_def request_ok_def split: request_kind.splits\<close>)
  then show ?thesis
    using w Some
    by (auto simp: wd_perform_def wd_take_request_def wd_ok_def request_ok_def elim!: ok_mono)
qed

lemma request_kept:
  "request_ok r w \<Longrightarrow> \<forall>v. r \<noteq> ReqOutput v \<Longrightarrow> wd_pio_phase w = None \<longrightarrow> wd_pio_phase x = None \<Longrightarrow> request_ok r x"
  by (cases r) (simp_all add: request_ok_def)

lemma payload_step_ok:
  assumes laws: "storage_laws so contents" and b: "scsi_bus_ok so b" and w: "wd_ok w" and d: "disciplined (WdPayload n status :: 'm wd_action) w"
  shows "ok (wd_perform so (WdPayload n status) (w, b)) (\<lambda>(w, b). wd_ok w \<and> scsi_bus_ok so (b :: 'm scsi_bus))"
proof (cases "fst (consume_transfer_bytes n w)")
  case False
  then show ?thesis using w b by (auto simp: wd_perform_def consume_transfer_bytes_def split: if_splits)
next
  case True
  define v where "v = snd (consume_transfer_bytes n w)"
  define u where "u = v\<lparr>wd_pio_remaining := wd_transfer_count v\<rparr>"
  have count: "wd_transfer_count v \<le> wd_transfer_count w"
    using True
    by (auto simp: v_def consume_transfer_bytes_def word_le_nat_alt word_less_nat_alt unat_sub_if' not_less split: if_splits)
  have same: "wd_pio_phase v = wd_pio_phase w" "wd_input_byte v = wd_input_byte w" "wd_output_ready v = wd_output_ready w"
    "wd_cdb v = wd_cdb w" "wd_clock_hz v = wd_clock_hz w" "wd_pending_request v = wd_pending_request w"
    by (simp_all add: v_def consume_transfer_bytes_def)
  have "transfer_ok u"
    using w d count same by (auto simp: u_def transfer_ok_def wd_ok_def disciplined_def)
  moreover have "scsi_bus_ok so (case status of Some s \<Rightarrow> observe_transfer_result (TransferComplete 0 s) b | None \<Rightarrow> b)"
    using b by (simp add: observe_result_ok split: option.split)
  ultimately have "ok (pump so u (case status of Some s \<Rightarrow> observe_transfer_result (TransferComplete 0 s) b | None \<Rightarrow> b))
      (pumped so u)"
    by (intro pump_ok [OF laws])
  moreover have "consume_transfer_bytes n w = (True, v)" using True by (simp add: v_def prod_eq_iff)
  moreover have "wd_ok x" if x: "transfer_ok x" "kept u x" for x
  proof -
    have phases: "wd_pio_phase w = None \<longrightarrow> wd_pio_phase x = None" using x(2) same(1) by (simp add: kept_def u_def)
    have "request_ok r x" if r: "wd_pending_request x = Some r" for r
    proof -
      have "wd_pending_request w = Some r" using r x(2) same by (auto simp: kept_def u_def)
      then show ?thesis
        by (intro request_kept [OF _ _ phases]) (use w d in \<open>auto simp: wd_ok_def disciplined_def\<close>)
    qed
    then show ?thesis using x w same by (simp add: wd_ok_def kept_def u_def)
  qed
  ultimately show ?thesis
    by (auto simp: wd_perform_def finish_dma_def u_def [symmetric] pumped_def elim!: ok_mono)
qed

lemma wd_perform_ok:
  assumes laws: "storage_laws so contents" and "wd_ok (fst s) \<and> scsi_bus_ok so (snd s)" and "disciplined action (fst s)"
  shows "ok (wd_perform so action s) (\<lambda>s. wd_ok (fst s) \<and> scsi_bus_ok so (snd s))"
proof -
  obtain w b where s: "s = (w, b)" by (cases s)
  then have w: "wd_ok w" and b: "scsi_bus_ok so b" and d: "disciplined action w" using assms by simp_all
  show ?thesis
  proof (cases action)
    case (WdHostRead address n)
    then show ?thesis using wd_read_ok [OF w, of address n] b by (auto simp: wd_perform_def s elim!: ok_mono)
  next
    case (WdHostWrite address bytes)
    then show ?thesis using wd_write_ok [OF w d [unfolded WdHostWrite]] b by (auto simp: wd_perform_def s elim!: ok_mono)
  next
    case WdService
    then show ?thesis using service_step_ok [OF laws b w] by (auto simp: s elim!: ok_mono)
  next
    case (WdPayload n status)
    then show ?thesis using payload_step_ok [OF laws b w, of n status] d by (auto simp: s elim!: ok_mono)
  next
    case WdHardwareReset
    then show ?thesis
      using w b by (simp add: wd_perform_def s wd_reset_def clear_transfer_state_def wd_ok_def transfer_ok_def)
  next
    case (WdBus a)
    then show ?thesis using scsi_perform_ok [OF laws b, of a] w by (auto simp: wd_perform_def s elim!: ok_mono)
  qed
qed

lemma wd_reachable_ok:
  assumes "wd_reachable so s" and laws: "storage_laws so contents"
  shows "wd_ok (fst s) \<and> scsi_bus_ok so (snd s)"
  using assms(1)
proof induction
  case (wd_initial clock_hz w b)
  then show ?case using wd_new_ok [of clock_hz] by (cases "clock_hz = 0") (auto simp: wd_new_def require_def)
next
  case (wd_step s action s1)
  show ?case by (rule ok_elim [OF wd_perform_ok [OF laws wd_step.IH wd_step.hyps(2)] wd_step.hyps(3)])
qed


text \<open>Driver accesses: a register by its number, as the two byte ports offer it.\<close>

definition write_register :: "u8 \<Rightarrow> u8 \<Rightarrow> 'm wd_action list" where
  "write_register register v = [WdHostWrite 2 [register], WdHostWrite 6 [v]]"

definition wd_run :: "'m storage_ops \<Rightarrow> 'm wd_action list \<Rightarrow> wd33c93b \<times> 'm scsi_bus \<Rightarrow> (wd33c93b \<times> 'm scsi_bus) option" where
  "wd_run so actions s = foldl (\<lambda>s action. Option.bind s (wd_perform so action)) (Some s) actions"

text \<open>Selects target 1 without attention and starts a transfer of six bytes in its command phase.\<close>

definition command_phase_script :: "memory_medium wd_action list" where
  "command_phase_script =
     concat [write_register DESTINATION_ID 1, write_register COMMAND 7, [WdService],
       write_register TRANSFER_COUNT_LSB 6, write_register COMMAND 0x20, [WdService]]"

lemma port_write:
  "wd_perform so (WdHostWrite 2 [r]) (w, b) = Some (w\<lparr>wd_selected_register := r AND 0x1f\<rparr>, b)"
  "wd_perform so (WdHostWrite 6 [v]) (w, b) =
     (if wd_selected_register w = COMMAND \<and> \<not> supported_command v then Some (w, b)
      else map_option (\<lambda>w. (w, b)) (write_port PortData v w))"
  by (simp_all add: wd_perform_def wd_write_def decode_access_def WD_REGISTER_BYTES_def HOST_WINDOW_BYTES_def
     ADDRESS_PORT_def DATA_PORT_def get_at_def write_port_def option.map_comp comp_def)

lemma run_Cons: "wd_run so (a # as) s = Option.bind (wd_perform so a s) (wd_run so as)"
proof -
  have "foldl (\<lambda>s action. Option.bind s (wd_perform so action)) None as = None" for as by (induction as) simp_all
  then show ?thesis by (cases "wd_perform so a s") (simp_all add: wd_run_def)
qed

lemmas register_numbers = OWN_ID_def CONTROL_def TIMEOUT_PERIOD_def CDB_START_def CDB_END_def TARGET_LUN_def
  COMMAND_PHASE_def SYNCHRONOUS_TRANSFER_def TRANSFER_COUNT_MSB_def TRANSFER_COUNT_MID_def TRANSFER_COUNT_LSB_def
  DESTINATION_ID_def SOURCE_ID_def SCSI_STATUS_def COMMAND_def WD_DATA_def AUXILIARY_STATUS_def


lemma run_Nil: "wd_run so [] s = Some s"
  by (simp add: wd_run_def)

lemma run_append: "wd_run so (as @ cs) s = Option.bind (wd_run so as s) (wd_run so cs)"
proof (induction as arbitrary: s)
  case (Cons a as)
  then show ?case by (cases "wd_perform so a s") (simp_all add: run_Cons)
qed (simp add: run_Nil)

lemma host_register:
  assumes "register AND 0x1f = register"
  shows "wd_run so (WdHostWrite 2 [register] # WdHostWrite 6 [v] # actions) (w, b) =
    (if register = COMMAND \<and> \<not> supported_command v then wd_run so actions (w\<lparr>wd_selected_register := register\<rparr>, b)
     else Option.bind (write_port PortData v (w\<lparr>wd_selected_register := register\<rparr>)) (\<lambda>w. wd_run so actions (w, b)))"
  using assms by (simp add: run_Cons port_write map_conv_bind_option comp_def)

lemma service_run:
  "wd_run so (WdService # actions) (w, b) =
    (case wd_pending_request w of None \<Rightarrow> wd_run so actions (w\<lparr>wd_pending_request := None\<rparr>, b)
     | Some request \<Rightarrow> Option.bind (service_request so request (w\<lparr>wd_pending_request := None\<rparr>) b) (\<lambda>(r, w, b). wd_run so actions (w, b)))"
  by (simp add: run_Cons wd_perform_def wd_take_request_def map_conv_bind_option comp_def split_beta case_prod_unfold split: option.split)

lemma port_data: 
  "write_port PortData v (w\<lparr>wd_selected_register := COMMAND\<rparr>) =
     map_option (\<lambda>w. w\<lparr>wd_transfer_count := wd_transfer_count w AND TRANSFER_COUNT_MASK\<rparr>)
       (execute_command v (w\<lparr>wd_selected_register := COMMAND\<rparr>))"
  "write_port PortData v (w\<lparr>wd_selected_register := DESTINATION_ID\<rparr>) =
     Some (w\<lparr>wd_destination_id := v, wd_transfer_count := wd_transfer_count w AND TRANSFER_COUNT_MASK, wd_selected_register := 0x16\<rparr>)"
  "write_port PortData v (w\<lparr>wd_selected_register := TRANSFER_COUNT_LSB\<rparr>) =
     Some (w\<lparr>wd_transfer_count := ((wd_transfer_count w AND 0x00ffff00) OR ucast v) AND TRANSFER_COUNT_MASK,
        wd_selected_register := 0x15\<rparr>)"
  "wd_output_ready w \<Longrightarrow> write_port PortData v (w\<lparr>wd_selected_register := WD_DATA\<rparr>) =
     Some (w\<lparr>wd_selected_register := WD_DATA, wd_output_ready := False, wd_pending_request := Some (ReqOutput v), wd_transfer_count := wd_transfer_count w AND TRANSFER_COUNT_MASK\<rparr>)"
  by (simp_all add: write_port_def Let_def write_selected_register_def register_numbers selector_advances_def option.map_ident)


lemma select_small_disk: "scsi_select 1 False small_disk_bus = Some (Inr True, small_disk_bus\<lparr>sb_connection := Some (fresh_connection 1)\<rparr>)"
  using select_disk [of 1 8 "sb_targets small_disk_bus" small_disk "blank_medium 2048"] small_disk_bus_ok
   disk_bus_of [of small_disk_bus 8 small_disk "blank_medium 2048"] 
  by (simp add: target_slot_def TARGET_COUNT_def LUN_COUNT_def scsi_bus_ok_def) (metis (no_types, lifting) list_update_id scsi_bus.update_convs(3))


lemma command_phase_run:
  assumes w: "wd_transfer_count w = 0" "wd_control w = 0"
  shows "\<exists>v. wd_run memory_storage command_phase_script (w, small_disk_bus) = Some (v, small_disk_bus\<lparr>sb_connection := Some (fresh_connection 1)\<rparr>)
  \<and> wd_output_ready v \<and> wd_pio_remaining v = 6 \<and> wd_pio_phase v = Some PhaseCommand \<and> \<not> wd_single_byte v
  \<and> wd_transfer_count v = 6"
  by (simp add: command_phase_script_def write_register_def host_register [simplified register_numbers] Let_def
    port_data [simplified register_numbers] register_numbers supported_command_def execute_command_def
    SOFTWARE_RESET_def SELECT_AND_TRANSFER_def SELECT_AND_TRANSFER_WITH_ATN_def w clear_transfer_state_def
    service_run service_request_def select_small_disk pump.simps scsi_phase_of_def small_disk_bus_ok raise_status_def fresh_connection_def
    TRANSFER_COUNT_MASK_def run_Nil phase_input_def phase_bits_def)

text \<open>
  C15. The discipline is needed: a driver that clears the transfer count while the controller asks for
  the bytes of a command makes the next byte subtract one from zero.
\<close>

theorem transfer_count_underflow:
  "\<exists>w s. wd_new 10000000 = Some w \<and>
     wd_run memory_storage (command_phase_script @ write_register TRANSFER_COUNT_LSB 0 @ write_register WD_DATA 0) (w, small_disk_bus) = Some s \<and>
     wd_perform memory_storage WdService s = None"
proof -
  obtain w where w: "wd_new 10000000 = Some w" "wd_transfer_count w = 0" "wd_control w = 0" by (simp add: wd_new_def)
  let ?b = "small_disk_bus\<lparr>sb_connection := Some (fresh_connection 1)\<rparr>"
  obtain v where v: "wd_run memory_storage command_phase_script (w, small_disk_bus) = Some (v, ?b)"
    "wd_output_ready v" "wd_pio_phase v = Some PhaseCommand" "\<not> wd_single_byte v" "wd_transfer_count v = 6"
    using command_phase_run [OF w(2,3)] by auto
  define u where "u = v\<lparr>wd_transfer_count := 0, wd_selected_register := 25, wd_output_ready := False, wd_pending_request := Some (ReqOutput 0)\<rparr>"
  have "wd_run memory_storage (write_register TRANSFER_COUNT_LSB 0 @ write_register WD_DATA 0) (v, ?b) = Some (u, ?b)"
    using v(2,5)
    by (simp add: write_register_def host_register [simplified register_numbers] port_data [simplified register_numbers]
        register_numbers run_Nil TRANSFER_COUNT_MASK_def u_def)
  moreover have "write_information memory_storage 0 is_last ?b = Some (Inr True, ?b\<lparr>sb_connection := Some ((fresh_connection 1)\<lparr>cn_cdb := [0]\<rparr>)\<rparr>)" for is_last
    by (simp add: write_information_def fresh_connection_def scsi_cdb_length_def)
  then have "wd_perform memory_storage WdService (u, ?b) = None"
    using v(3,4)
    by (simp add: wd_perform_def wd_take_request_def service_request_def u_def advance_information_byte_def require_def)
  ultimately show ?thesis using w(1) v(1) by (auto simp: run_append)
qed


end
