(* ===== verification/Wd_Transfer.thy ===== *)
theory Wd_Transfer
  imports Wd_Correct
begin

text \<open>
  The whole path of a disk read: the driver programs the controller, the controller selects the
  disk and sends the command, and the driver takes the blocks byte by byte from the data
  register; the status and the completion interrupt follow the last byte.
\<close>

section \<open>Taking bytes from the data register\<close>

fun take_bytes :: "'m storage_ops \<Rightarrow> nat \<Rightarrow> wd33c93b \<times> 'm scsi_bus \<Rightarrow> (u8 list \<times> wd33c93b \<times> 'm scsi_bus) option" where
  "take_bytes so 0 s = Some ([], s)"
| "take_bytes so (Suc n) (w, b) = do {
     (r, w) \<leftarrow> wd_read 6 1 w;
     s \<leftarrow> wd_perform so WdService (w, b);
     (bytes, s) \<leftarrow> take_bytes so n s;
     case r of Inr [v] \<Rightarrow> Some (v # bytes, s) | _ \<Rightarrow> None
   }"

lemma data_port_read:
  assumes "wd_selected_register w = WD_DATA" "wd_input_byte w = Some v"
  shows "wd_read 6 1 w = Some (Inr [v], w\<lparr>wd_input_byte := None, wd_pending_request := Some ReqPump\<rparr>)"
  using assms
  by (simp add: wd_read_def decode_access_def WD_REGISTER_BYTES_def HOST_WINDOW_BYTES_def ADDRESS_PORT_def DATA_PORT_def
      read_port_def peek_port_def read_selected_register_def set_at_def register_numbers)

definition receiving :: "nat \<Rightarrow> wd33c93b \<Rightarrow> bool" where
  "receiving n w \<longleftrightarrow> wd_pio_phase w = Some PhaseDataIn \<and> unat (wd_pio_remaining w) = n \<and> wd_transfer_count w = wd_pio_remaining w
     \<and> \<not> wd_single_byte w \<and> wd_combined w \<and> \<not> wd_aborting w \<and> wd_control w AND 0xe0 = 0"

lemma pump_receives:
  assumes w: "receiving (Suc n) w" "wd_input_byte w = None"
    and phase: "scsi_phase_of b = Some PhaseDataIn" and r: "read_information so b = Some (Inr (Some v), b1)"
  shows "\<exists>w1. pump so w b = Some (Inr WorkIdle, w1, b1) \<and> receiving n w1 \<and> wd_input_byte w1 = Some v
    \<and> wd_selected_register w1 = wd_selected_register w"
proof -
  have "wd_pio_remaining w \<noteq> 0" "unat (wd_pio_remaining w - 1) = n"
    using w(1) by (auto simp: receiving_def unat_sub_if' word_le_nat_alt)
  then show ?thesis
    using w phase r
    by (subst pump.simps)
      (auto simp: receiving_def phase_input_def phase_bits_def advance_information_byte_def Let_def)
qed

definition completed :: "wd33c93b \<Rightarrow> bool" where
  "completed w \<longleftrightarrow> wd_scsi_status w = SELECT_AND_TRANSFER_COMPLETION_STATUS \<and> wd_target_lun w = 0
     \<and> wd_interrupt_pending w \<and> \<not> wd_busy w \<and> wd_pio_phase w = None \<and> wd_pending_request w = None"

lemma pump_completes:
  assumes w: "receiving n w" "wd_input_byte w = None"
    and b: "b = disk_bus targets slot k m None (Some (c\<lparr>cn_status := ScsiGood, cn_phase := PhaseStatus\<rparr>))"
  shows "\<exists>w1. pump so w b = Some (Inr WorkIdle, w1, disk_bus targets slot k m None None) \<and> completed w1"
  using w
  by (subst pump.simps)
    (simp add: receiving_def b scsi_phase_of_def complete_combined_def read_information_def scsi_status_byte_def
      acknowledge_message_def finish_select_and_transfer_def clear_transfer_state_def completed_def)

lemma take_data:
  assumes laws: "storage_laws so contents" and reliable: "storage_reliable so contents healthy"
    and slot: "slot < length targets" and phase: "cn_phase c = PhaseDataIn"
  shows "healthy m \<Longrightarrow> offset + n \<le> length (contents m) \<Longrightarrow> length (contents m) < 2 ^ 64 \<Longrightarrow>
    receiving n w \<Longrightarrow> wd_input_byte w = Some v \<Longrightarrow> wd_selected_register w = WD_DATA \<Longrightarrow>
    b = (if n = 0 then disk_bus targets slot k m None (Some (c\<lparr>cn_status := ScsiGood, cn_phase := PhaseStatus\<rparr>))
         else disk_bus targets slot k m (Some (StorageDataIn offset n)) (Some c)) \<Longrightarrow>
    \<exists>m1 w1. healthy m1 \<and> contents m1 = contents m \<and> completed w1 \<and>
      take_bytes so (Suc n) (w, b) = Some (v # take n (drop offset (contents m)), w1, disk_bus targets slot k m1 None None)"
proof (induction n arbitrary: offset m w v b)
  case 0
  let ?w = "w\<lparr>wd_input_byte := None, wd_pending_request := None, wd_command_in_progress := False\<rparr>"
  have "receiving 0 ?w" using 0(4) by (simp add: receiving_def)
  from pump_completes [OF this _ refl, of so targets slot k m c] obtain w1
    where "pump so ?w b = Some (Inr WorkIdle, w1, disk_bus targets slot k m None None)" "completed w1"
    using 0(7) by auto
  then show ?case
    using 0 data_port_read [of w v]
    by (auto simp: receiving_def wd_perform_def wd_take_request_def service_request_def)
next
  case (Suc n)
  let ?w = "w\<lparr>wd_input_byte := None, wd_pending_request := None, wd_command_in_progress := False\<rparr>"
  have one: "take 1 (drop offset (contents m)) = [contents m ! offset]"
    using Suc.prems by (simp add: take_Suc_conv_app_nth)
  obtain m1 where m1: "so_read_exact_at so offset 1 m = (Some [contents m ! offset], m1)" "healthy m1"
    "contents m1 = contents m"
    by (rule reliable_read [OF laws reliable Suc.prems(1), of offset 1]) (use Suc.prems one in simp_all)
  define b1 where "b1 = (if n = 0 then disk_bus targets slot k m1 None (Some (c\<lparr>cn_status := ScsiGood, cn_phase := PhaseStatus\<rparr>))
      else disk_bus targets slot k m1 (Some (StorageDataIn (offset + 1) n)) (Some c))"
  have r: "read_information so b = Some (Inr (Some (contents m ! offset)), b1)"
    using read_data_byte [OF m1(1) slot phase, of k n] Suc.prems by (simp add: b1_def)
  have "receiving (Suc n) ?w" using Suc.prems(4) by (simp add: receiving_def)
  from pump_receives [OF this _ _ r] obtain w1 where w1: "pump so ?w b = Some (Inr WorkIdle, w1, b1)" "receiving n w1"
      "wd_input_byte w1 = Some (contents m ! offset)" "wd_selected_register w1 = WD_DATA"
    using Suc.prems(6,7) phase by (auto simp: scsi_phase_of_def)
  obtain m2 w2 where m2: "healthy m2" "contents m2 = contents m" "completed w2"
    "take_bytes so (Suc n) (w1, b1) = Some (contents m ! offset # take n (drop (offset + 1) (contents m)), w2,
       disk_bus targets slot k m2 None None)"
    using Suc.IH [OF m1(2) _ _ w1(2,3,4), of "offset + 1" b1] Suc.prems m1(3) by (auto simp: b1_def)
  have "take (Suc n) (drop offset (contents m)) = contents m ! offset # take n (drop (offset + 1) (contents m))"
    using Suc.prems by (simp add: Cons_nth_drop_Suc [symmetric])
  moreover have "wd_perform so WdService (w\<lparr>wd_input_byte := None, wd_pending_request := Some ReqPump\<rparr>, b) = Some (w1, b1)"
    using w1(1) by (simp add: wd_perform_def wd_take_request_def service_request_def)
  ultimately show ?case
    using m2 data_port_read [of w v] Suc.prems(5,6)
    by (auto simp: receiving_def take_bytes.simps(2) [of so "Suc n"] simp del: take_bytes.simps(2))
qed

section \<open>The combined command\<close>

lemma send_cdb_bytes_sent: "send_bytes so vs b = Some b1 \<Longrightarrow> send_cdb_bytes so vs b = Some (Inr (), b1)"
proof (induction vs arbitrary: b)
  case (Cons v vs)
  then obtain b2 where "write_information so v False b = Some (Inr True, b2)" "send_bytes so vs b2 = Some b1"
    by (auto split: bind_splits)
  then show ?case using Cons.IH by simp
qed simp

lemma select_with_attention:
  assumes slot: "target_slot target_id 0 = Some slot" "length targets = 64"
  shows "\<exists>b1. scsi_select target_id True (disk_bus targets slot k m None None) = Some (Inr True, b1) \<and>
    write_information so 0x80 True b1 =
      Some (Inr True, disk_bus targets slot k m None (Some ((fresh_connection target_id)\<lparr>cn_identified := True\<rparr>)))"
proof -
  have "scsi_select target_id True (disk_bus targets slot k m None None) =
      Some (Inr True, disk_bus targets slot k m None (Some ((fresh_connection target_id)\<lparr>cn_phase := PhaseMessageOut\<rparr>)))"
    using select_disk [OF slot, of k m]
    by (auto simp: scsi_select_def fresh_connection_def split: bind_splits if_splits)
  then show ?thesis
    by (simp add: write_information_def finish_message_out_def fresh_connection_def)
qed

definition read_programmed :: "u8 \<Rightarrow> u32 \<Rightarrow> u16 \<Rightarrow> wd33c93b \<Rightarrow> bool" where
  "read_programmed target_id lba count w \<longleftrightarrow>
     wd_ok w \<and> wd_pio_phase w = None \<and> wd_control w AND 0xe0 = 0 \<and> \<not> wd_aborting w \<and>
     wd_destination_id w = target_id \<and> wd_target_lun w = 0 \<and> wd_cdb w = block_cdb READ_10 lba count @ [0, 0] \<and>
     unat (wd_transfer_count w) = unat count * 512"

definition read_request :: "u8 \<Rightarrow> u32 \<Rightarrow> u16 \<Rightarrow> u32 \<Rightarrow> select_and_transfer_request" where
  "read_request target_id lba count n =
     \<lparr>sr_destination_id = target_id, sr_lun = 0, sr_transfer_count = n,
      sr_cdb = block_cdb READ_10 lba count @ [0, 0], sr_cdb_length = 10\<rparr>"

text \<open>The controller once the command has been written.\<close>

definition command_latched :: "u8 \<Rightarrow> wd33c93b \<Rightarrow> wd33c93b" where
  "command_latched command w =
     w\<lparr>wd_selected_register := COMMAND, wd_command := command, wd_phase_after_status := False, wd_busy := True,
       wd_combined := True, wd_attention := (command = SELECT_AND_TRANSFER_WITH_ATN), wd_interrupt_pending := False,
       wd_software_reset_completed := False, wd_pending_request := None, wd_command_in_progress := False\<rparr>"

lemma command_runs:
  assumes w: "read_programmed target_id lba count w" and t: "unat target_id < 8"
    and command: "command \<in> {SELECT_AND_TRANSFER, SELECT_AND_TRANSFER_WITH_ATN}"
  shows "wd_run so (write_register COMMAND command @ [WdService]) (w, b) =
    map_option snd (service_combined so (read_request target_id lba count (wd_transfer_count w)) (command_latched command w) b)"
proof -
  have id: "target_id AND 7 = target_id"
  proof -
    have "take_bit 3 target_id = target_id" using t by (simp add: take_bit_eq_mod word_unat_eq_iff unat_mod)
    then show ?thesis by (simp add: take_bit_eq_mask mask_eq_exp_minus_1)
  qed
  have cdb: "(block_cdb 0x28 lba count @ [0, 0]) ! 0 = 0x28"
    by (simp add: block_cdb_def)
  have count: "wd_transfer_count w AND TRANSFER_COUNT_MASK = wd_transfer_count w"
    using w by (intro count_masked) (simp add: read_programmed_def wd_ok_def transfer_ok_def)
  have "supported_command command" "command \<noteq> SOFTWARE_RESET" "command = SELECT_AND_TRANSFER \<or> command = SELECT_AND_TRANSFER_WITH_ATN"
    using command
    by (auto simp: supported_command_def SELECT_AND_TRANSFER_def SELECT_AND_TRANSFER_WITH_ATN_def SOFTWARE_RESET_def)
  then show ?thesis
    using w
    by (simp add: write_register_def host_register [simplified register_numbers] port_data [simplified register_numbers]
        register_numbers execute_command_def combined_request_def read_programmed_def cdb id count service_run
        service_request_def command_latched_def read_request_def wd_cdb_length_def READ_10_def run_Nil
        map_conv_bind_option Let_def case_prod_unfold comp_def)
qed

text \<open>Selection with or without attention, up to the command phase.\<close>

lemma combined_sends:
  assumes slot: "target_slot target_id 0 = Some slot" "length targets = 64"
    and v: "wd_input_byte v = None"
    and sent: "\<And>c. c \<in> {fresh_connection target_id, (fresh_connection target_id)\<lparr>cn_identified := True\<rparr>} \<Longrightarrow>
      send_bytes so (block_cdb READ_10 lba count) (disk_bus targets slot k m None (Some c)) = Some (after c)"
  shows "\<exists>c v1. c \<in> {fresh_connection target_id, (fresh_connection target_id)\<lparr>cn_identified := True\<rparr>} \<and>
    service_combined so (read_request target_id lba count n) v (disk_bus targets slot k m None None) = start_pump so v1 (after c) \<and>
    v1 \<in> {v\<lparr>wd_command_phase := 0x10\<rparr>, v\<lparr>wd_command_phase := 0x10, wd_attention := False, wd_command_phase := 0x20\<rparr>}"
proof -
  have cdb: "take 10 (block_cdb READ_10 lba count @ [0, 0]) = block_cdb READ_10 lba count"
    "length (block_cdb READ_10 lba count @ [0, 0]) = 12"
    by (simp_all add: block_cdb_simps)
  show ?thesis
  proof (cases "wd_attention v")
    case True
    let ?c = "(fresh_connection target_id)\<lparr>cn_identified := True\<rparr>"
    obtain b1 where "scsi_select target_id True (disk_bus targets slot k m None None) = Some (Inr True, b1)"
      "write_information so 0x80 True b1 = Some (Inr True, disk_bus targets slot k m None (Some ?c))"
      using select_with_attention [OF slot, of k m so] by auto
    then show ?thesis
      using True cdb send_cdb_bytes_sent [OF sent, of ?c]
      by (intro exI [of _ ?c] exI [of _ "v\<lparr>wd_command_phase := 0x10, wd_attention := False, wd_command_phase := 0x20\<rparr>"])
        (simp add: service_combined_def read_request_def scsi_phase_of_def)
  next
    case False
    let ?c = "fresh_connection target_id"
    show ?thesis
      using False cdb send_cdb_bytes_sent [OF sent, of ?c] select_disk [OF slot, of k m]
      by (intro exI [of _ ?c] exI [of _ "v\<lparr>wd_command_phase := 0x10\<rparr>"])
        (simp add: service_combined_def read_request_def scsi_phase_of_def)
  qed
qed

text \<open>
  C8. A driver reads disk blocks through the controller. Whatever is attached besides, with the
  bus at rest and a ready disk on a medium that answers, a driver that has programmed READ(10),
  the target and the matching transfer count, writes either Select-And-Transfer command, and then
  takes as many bytes from the data register as the blocks hold, gets exactly the bytes of those
  blocks. With the last byte the command is complete: the target's status is Good, the completion
  status and the interrupt are raised, and the bus is free with the medium unchanged.
\<close>

theorem wd_reads_disk:
  assumes "storage_laws so contents" "storage_reliable so contents healthy" "healthy m"
    and "scsi_bus_ok so b" "sb_active_transaction b = None" "sb_connection b = None"
    and "target_slot target_id 0 = Some slot" "sb_targets b ! slot = Some (disk_at k m)" "dk_ready k"
    and "0 < unat count" "unat lba + unat count \<le> dk_block_count k"
    and "read_programmed target_id lba count w"
    and "command \<in> {SELECT_AND_TRANSFER, SELECT_AND_TRANSFER_WITH_ATN}"
  shows "\<exists>s w1 m1. wd_run so (write_register COMMAND command @ [WdService, WdHostWrite 2 [WD_DATA]]) (w, b) = Some s \<and>
    take_bytes so (unat count * 512) s =
      Some (take (unat count * 512) (drop (unat lba * 512) (contents m)), w1,
        b\<lparr>sb_targets := (sb_targets b)[slot := Some (disk_at k m1)]\<rparr>) \<and>
    completed w1 \<and> contents m1 = contents m"
proof -
  let ?d = "disk_bus (sb_targets b) slot k"
  have len: "length (sb_targets b) = 64" "slot < length (sb_targets b)" "unat target_id < 8"
    using assms(4,7) target_slot_lt [OF assms(7)]
    by (auto simp: scsi_bus_ok_def target_slot_def TARGET_COUNT_def split: if_splits)
  have size: "so_size_bytes so m = disk_storage_size_bytes k" "so_size_bytes so m < 2 ^ 64"
    using slot_fits [OF assms(4) target_slot_lt [OF assms(7)] assms(8)]
      medium_size_bound [of so "DiskTarget k" "FixedBacking m" m]
    by (simp_all add: target_fits_def backing_medium_def)
  obtain n where n: "unat count * 512 = Suc n" using assms(10) by (cases "unat count * 512") auto
  have bound: "unat lba * 512 + Suc n \<le> length (contents m)" "length (contents m) < 2 ^ 64"
    using size storage_size [OF assms(1), of m] assms(11) unfolding n [symmetric]
    by (simp_all add: disk_storage_size_bytes_def BLOCK_BYTES_def)
  have rest: "?d m None None = b" by (rule disk_bus_of [OF assms(8,5,6)])
  define data where "data c = c\<lparr>cn_cdb := block_cdb READ_10 lba count, cn_phase := PhaseDataIn\<rparr>" for c :: scsi_connection
  define after where "after c = ?d m (Some (StorageDataIn (unat lba * 512) (Suc n))) (Some (data c))" for c
  have sent: "send_bytes so (block_cdb READ_10 lba count) (?d m None (Some c)) = Some (after c)"
    if "c \<in> {fresh_connection target_id, (fresh_connection target_id)\<lparr>cn_identified := True\<rparr>}" for c
  proof -
    have c: "c = fresh_connection target_id \<or> c = (fresh_connection target_id)\<lparr>cn_identified := True\<rparr>" using that by simp
    have "count \<noteq> 0" using assms(10) by auto
    from disk_command [OF assms(7) len(2) assms(9) size this assms(11) _ c, of READ_10 DirectionIn]
    show ?thesis by (simp add: n after_def data_def)
  qed
  let ?v = "command_latched command w"
  have idle: "wd_input_byte w = None" using assms(12) idle_parts by (auto simp: read_programmed_def wd_ok_def)
  have idle_v: "wd_input_byte ?v = None" using idle by (simp add: command_latched_def)
  obtain c v1 where run: "service_combined so (read_request target_id lba count (wd_transfer_count w)) ?v b = start_pump so v1 (after c)"
    and v1: "v1 \<in> {?v\<lparr>wd_command_phase := 0x10\<rparr>, ?v\<lparr>wd_command_phase := 0x10, wd_attention := False, wd_command_phase := 0x20\<rparr>}"
    using combined_sends [OF assms(7) len(1) idle_v sent, of "wd_transfer_count w"] unfolding rest by blast
  define v2 where "v2 = v1\<lparr>wd_pio_phase := Some PhaseDataIn, wd_pio_remaining := wd_transfer_count v1, wd_single_byte := False\<rparr>"
  have first: "take 1 (drop (unat lba * 512) (contents m)) = [contents m ! (unat lba * 512)]"
    using bound by (simp add: take_Suc_conv_app_nth)
  obtain m1 where m1: "so_read_exact_at so (unat lba * 512) 1 m = (Some [contents m ! (unat lba * 512)], m1)" "healthy m1"
    "contents m1 = contents m"
    by (rule reliable_read [OF assms(1-3), of "unat lba * 512" 1]) (use bound first in simp_all)
  define b1 where "b1 = (if n = 0 then ?d m1 None (Some ((data c)\<lparr>cn_status := ScsiGood, cn_phase := PhaseStatus\<rparr>))
      else ?d m1 (Some (StorageDataIn (unat lba * 512 + 1) n)) (Some (data c)))"
  have byte: "read_information so (after c) = Some (Inr (Some (contents m ! (unat lba * 512))), b1)"
    using read_data_byte [OF m1(1) len(2), of "data c" k n] bound by (simp add: after_def b1_def data_def)
  have "receiving (Suc n) v2" "wd_input_byte v2 = None"
    using assms(12) n v1 idle by (auto simp: v2_def receiving_def read_programmed_def command_latched_def)
  moreover have phase: "scsi_phase_of (after c) = Some PhaseDataIn" by (simp add: after_def data_def scsi_phase_of_def)
  ultimately obtain w1 where w1: "pump so v2 (after c) = Some (Inr WorkIdle, w1, b1)" "receiving n w1"
      "wd_input_byte w1 = Some (contents m ! (unat lba * 512))"
    using pump_receives [OF _ _ _ byte] by blast
  let ?w1 = "w1\<lparr>wd_selected_register := WD_DATA\<rparr>"
  have "wd_run so (write_register COMMAND command @ [WdService]) (w, b) = Some (w1, b1)"
    using command_runs [OF assms(12) len(3) assms(13), of so b] run w1(1) phase
    by (simp add: start_pump_def v2_def)
  then have "wd_run so (write_register COMMAND command @ [WdService, WdHostWrite 2 [WD_DATA]]) (w, b) = Some (?w1, b1)"
    using run_append [of so "write_register COMMAND command @ [WdService]" "[WdHostWrite 2 [WD_DATA]]"]
    by (simp add: run_Cons run_Nil port_write WD_DATA_def)
  moreover have "\<exists>m2 w2. healthy m2 \<and> contents m2 = contents m1 \<and> completed w2 \<and> take_bytes so (Suc n) (?w1, b1) =
      Some (contents m ! (unat lba * 512) # take n (drop (unat lba * 512 + 1) (contents m1)), w2, ?d m2 None None)"
  proof (rule take_data [OF assms(1,2) len(2), where c = "data c" and m = m1])
    show "receiving n ?w1" using w1(2) by (simp add: receiving_def)
    show "unat lba * 512 + 1 + n \<le> length (contents m1)" "length (contents m1) < 2 ^ 64" using bound m1(3) by simp_all
  qed (use m1(2) w1(3) in \<open>simp_all add: b1_def data_def\<close>)
  moreover have "?d m2 None None = b\<lparr>sb_targets := (sb_targets b)[slot := Some (disk_at k m2)]\<rparr>" for m2
    using assms(5,6) by (cases b) simp
  moreover have "take (Suc n) (drop (unat lba * 512) (contents m)) =
      contents m ! (unat lba * 512) # take n (drop (unat lba * 512 + 1) (contents m))"
    using bound by (simp add: Cons_nth_drop_Suc [symmetric])
  ultimately show ?thesis unfolding n m1(3) by metis
qed

theorem wd_reads_disk_witness:
  "\<exists>w s w1 b1. read_programmed 1 2 1 w \<and>
     wd_run memory_storage (write_register COMMAND SELECT_AND_TRANSFER_WITH_ATN @ [WdService, WdHostWrite 2 [WD_DATA]]) (w, small_disk_bus) = Some s \<and>
     take_bytes memory_storage 512 s = Some (replicate 512 0, w1, b1) \<and> completed w1"
proof -
  obtain v where v: "wd_new 10000000 = Some v" by (simp add: wd_new_def)
  let ?w = "v\<lparr>wd_cdb := block_cdb READ_10 2 1 @ [0, 0], wd_destination_id := 1, wd_transfer_count := 512\<rparr>"
  have "wd_ok v" using wd_new_ok [of 10000000] v by simp
  then have w: "read_programmed 1 2 1 ?w"
    using v by (auto simp: read_programmed_def wd_ok_def transfer_ok_def wd_new_def block_cdb_simps)
  have slot: "target_slot 1 0 = Some 8" by (simp add: target_slot_def TARGET_COUNT_def LUN_COUNT_def)
  have healthy: "healthy_medium (blank_medium 2048)" by (simp add: healthy_medium_def blank_medium_def)
  from wd_reads_disk [OF memory_storage_laws memory_storage_reliable healthy small_disk_bus_ok(1-3) slot
      small_disk_bus_ok(4), of 1 2 ?w SELECT_AND_TRANSFER_WITH_ATN] w
  obtain s w1 b1 where
    "wd_run memory_storage (write_register COMMAND SELECT_AND_TRANSFER_WITH_ATN @ [WdService, WdHostWrite 2 [WD_DATA]]) (?w, small_disk_bus) = Some s"
    "take_bytes memory_storage 512 s = Some (replicate 512 0, w1, b1)" "completed w1"
    by (auto simp: small_disk_def blank_medium_def)
  with w show ?thesis by blast
qed

end
