(* ===== verification/Hpc1_Ethernet.thy ===== *)
theory Hpc1_Ethernet
  imports Events
begin

text \<open>
  The Ethernet channel of the HPC1.5 peripheral controller, \<^verbatim>\<open>se_device/src/hpc1.rs\<close>:
  the diagnostic FIFO memories, the channel's registers, and the descriptor engines that gather a
  frame from memory for the transmitter and scatter a received frame into memory, one bounded
  memory request at a time.
\<close>

section \<open>Constants\<close>

definition ETHERNET_CURRENT_TRANSMIT_BUFFER_POINTER :: u64 where "ETHERNET_CURRENT_TRANSMIT_BUFFER_POINTER = 0x000c"
definition ETHERNET_NEXT_TRANSMIT_DESCRIPTOR_POINTER :: u64 where "ETHERNET_NEXT_TRANSMIT_DESCRIPTOR_POINTER = 0x0010"
definition ETHERNET_TRANSMIT_BYTE_COUNT :: u64 where "ETHERNET_TRANSMIT_BYTE_COUNT = 0x0014"
definition ETHERNET_TRANSMIT_FIFO_POINTER :: u64 where "ETHERNET_TRANSMIT_FIFO_POINTER = 0x0018"
definition ETHERNET_TRANSMIT_FIFO :: u64 where "ETHERNET_TRANSMIT_FIFO = 0x001c"
definition ETHERNET_CURRENT_TRANSMIT_DESCRIPTOR_POINTER :: u64 where
  "ETHERNET_CURRENT_TRANSMIT_DESCRIPTOR_POINTER = 0x0020"
definition ETHERNET_CURRENT_PACKET_FIRST_TRANSMIT_DESCRIPTOR_POINTER :: u64 where
  "ETHERNET_CURRENT_PACKET_FIRST_TRANSMIT_DESCRIPTOR_POINTER = 0x0024"
definition ETHERNET_PREVIOUS_PACKET_FIRST_TRANSMIT_DESCRIPTOR_POINTER :: u64 where
  "ETHERNET_PREVIOUS_PACKET_FIRST_TRANSMIT_DESCRIPTOR_POINTER = 0x0028"
definition ETHERNET_TIMER :: u64 where "ETHERNET_TIMER = 0x002c"
definition ETHERNET_TRANSMIT_STATUS :: u64 where "ETHERNET_TRANSMIT_STATUS = 0x0034"
definition ETHERNET_RECEIVE_STATUS :: u64 where "ETHERNET_RECEIVE_STATUS = 0x0038"
definition ETHERNET_RESET :: u64 where "ETHERNET_RESET = 0x003c"
definition ETHERNET_RECEIVE_BYTE_COUNT :: u64 where "ETHERNET_RECEIVE_BYTE_COUNT = 0x0048"
definition ETHERNET_CURRENT_RECEIVE_BUFFER_POINTER :: u64 where "ETHERNET_CURRENT_RECEIVE_BUFFER_POINTER = 0x004c"
definition ETHERNET_NEXT_RECEIVE_DESCRIPTOR_POINTER :: u64 where "ETHERNET_NEXT_RECEIVE_DESCRIPTOR_POINTER = 0x0050"
definition ETHERNET_CURRENT_RECEIVE_DESCRIPTOR_POINTER :: u64 where
  "ETHERNET_CURRENT_RECEIVE_DESCRIPTOR_POINTER = 0x0054"
definition ETHERNET_RECEIVE_FIFO_POINTER :: u64 where "ETHERNET_RECEIVE_FIFO_POINTER = 0x0058"
definition ETHERNET_RECEIVE_FIFO :: u64 where "ETHERNET_RECEIVE_FIFO = 0x005c"
definition ETHERNET_CURRENT_BUFFER_POINTER_MASK :: u32 where "ETHERNET_CURRENT_BUFFER_POINTER_MASK = 0x8fffffff"
definition ETHERNET_ADDRESS_MASK :: u32 where "ETHERNET_ADDRESS_MASK = 0x0fffffff"
definition ETHERNET_TRANSMIT_BYTE_COUNT_MASK :: u32 where "ETHERNET_TRANSMIT_BYTE_COUNT_MASK = 0x80009fff"
definition ETHERNET_BYTE_COUNT_MASK :: u32 where "ETHERNET_BYTE_COUNT_MASK = 0x00001fff"
definition ETHERNET_RESET_CHANNEL :: u32 where "ETHERNET_RESET_CHANNEL = 0x01"
definition ETHERNET_TRANSMIT_STATUS_BITS :: u32 where "ETHERNET_TRANSMIT_STATUS_BITS = 0x00ff0000"
definition ETHERNET_RECEIVE_STATUS_BITS :: u32 where "ETHERNET_RECEIVE_STATUS_BITS = 0x0000ff00"
definition ETHERNET_CONTROL_BITS :: u32 where "ETHERNET_CONTROL_BITS = 0x0f"
definition ETHERNET_TIMER_COUNT_MASK :: u32 where "ETHERNET_TIMER_COUNT_MASK = 0x00fffff0"
definition ETHERNET_TIMER_EXPIRED :: u32 where "ETHERNET_TIMER_EXPIRED = 0x01000000"
definition ETHERNET_TIMER_COUNT_SHIFT :: nat where "ETHERNET_TIMER_COUNT_SHIFT = 4"
definition ETHERNET_TRANSMIT_ACTIVE :: u32 where "ETHERNET_TRANSMIT_ACTIVE = 0x00400000"
definition ETHERNET_TRANSMIT_SUCCESS :: u32 where "ETHERNET_TRANSMIT_SUCCESS = 0x00080000"
definition ETHERNET_RECEIVE_ACTIVE :: u32 where "ETHERNET_RECEIVE_ACTIVE = 0x00004000"
definition ETHERNET_TRANSMIT_END_OF_PACKET :: u32 where "ETHERNET_TRANSMIT_END_OF_PACKET = push_bit 31 1"
definition ETHERNET_RECEIVE_OWNED :: u32 where "ETHERNET_RECEIVE_OWNED = push_bit 31 1"
definition ETHERNET_BUFFER_END_OF_CHAIN :: u32 where "ETHERNET_BUFFER_END_OF_CHAIN = push_bit 31 1"
definition ETHERNET_TRANSMIT_INTERRUPT_ENABLE :: u32 where "ETHERNET_TRANSMIT_INTERRUPT_ENABLE = 0x8000"
definition ETHERNET_INTERRUPT :: u32 where "ETHERNET_INTERRUPT = 0x02"
definition ETHERNET_LOOPBACK_DISABLE :: u32 where "ETHERNET_LOOPBACK_DISABLE = 0x04"
definition ETHERNET_OVERFLOW :: u32 where "ETHERNET_OVERFLOW = 0x08"
definition HPC_CLOCK_FREQUENCY :: u128 where "HPC_CLOCK_FREQUENCY = 33000000"
definition FIFO_ENTRIES :: nat where "FIFO_ENTRIES = 16"
definition MAX_ETHERNET_FRAME_BYTES :: nat where "MAX_ETHERNET_FRAME_BYTES = 16384"
definition ETHERNET_DMA_CYCLE_ATTOSECONDS :: u128 where
  "ETHERNET_DMA_CYCLE_ATTOSECONDS = ATTOSECONDS_PER_SECOND div HPC_CLOCK_FREQUENCY + (if ATTOSECONDS_PER_SECOND mod HPC_CLOCK_FREQUENCY = 0 then 0 else 1)"

section \<open>Diagnostic memories\<close>

record diagnostic_fifo =
  df_data :: "u32 list"
  df_flags :: "u8 list"
  df_read_index :: nat
  df_write_index :: nat

definition fifo_new :: diagnostic_fifo where
  "fifo_new = \<lparr>df_data = replicate FIFO_ENTRIES 0, df_flags = replicate FIFO_ENTRIES 0,
     df_read_index = 0, df_write_index = 0\<rparr>"

definition fifo_reset_pointers :: "diagnostic_fifo \<Rightarrow> diagnostic_fifo" where
  "fifo_reset_pointers f = f\<lparr>df_read_index := 0, df_write_index := 0\<rparr>"

definition fifo_index :: "u32 \<Rightarrow> nat \<Rightarrow> nat" where
  "fifo_index value shift = unat (drop_bit shift value AND (of_nat FIFO_ENTRIES - 1))"

fun transfer_bytes :: "u8 list \<Rightarrow> nat \<Rightarrow> diagnostic_fifo \<Rightarrow> (nat \<times> diagnostic_fifo) option" where
  "transfer_bytes [] lane f = Some (lane, f)"
| "transfer_bytes (byte # rest) lane f = do {
     require (lane \<le> 3);
     let shift = (3 - lane) * 8;
     word \<leftarrow> get_at (df_data f) (df_write_index f);
     data \<leftarrow> set_at (df_data f) (df_write_index f)
       ((word AND NOT (push_bit shift 0xff)) OR push_bit shift (ucast byte));
     flags \<leftarrow> set_at (df_flags f) (df_write_index f) 0;
     let f = f\<lparr>df_data := data, df_flags := flags\<rparr>;
     if lane + 1 = 4
     then let next_index = (df_write_index f + 1) mod FIFO_ENTRIES
          in transfer_bytes rest 0 (f\<lparr>df_write_index := next_index, df_read_index := next_index\<rparr>)
     else transfer_bytes rest (lane + 1) f
   }"

section \<open>Requests of the channel\<close>

datatype ethernet_read_kind = TransmitDescriptor | TransmitData | ReceiveDescriptor

datatype ethernet_write_kind = ReceiveData | ReceiveCompletion

datatype ethernet_request =
    EthernetRead u32 nat ethernet_read_kind
  | EthernetWrite u32 "u8 list" ethernet_write_kind
  | EthernetTransmit "u8 list"
  | EthernetUnderflow

datatype ethernet_tx_stage = TxIdle | TxDescriptor | TxData | TxSend | TxWire | TxFault

datatype ethernet_rx_stage = RxIdle | RxDescriptor | RxData | RxCompletion

record transmit_context =
  tc_first_descriptor :: u32
  tc_next_descriptor :: u32
  tc_end_of_chain :: bool
  tc_interrupt_requested :: bool
  tc_dma_attached :: bool

record ethernet_channel =
  ec_transmit_stage :: ethernet_tx_stage
  ec_transmit_inflight :: "transmit_context option"
  ec_receive_stage :: ethernet_rx_stage
  ec_transmit_frame :: "u8 list"
  ec_receive_frame :: "u8 list"
  ec_receive_offset :: nat
  ec_receive_interrupt_requested :: bool
  ec_receive_overflow :: bool
  ec_transmit_end_of_packet :: bool
  ec_transmit_end_of_chain :: bool
  ec_transmit_interrupt_requested :: bool
  ec_transmit_first_descriptor :: bool
  ec_receive_end_of_ring :: bool
  ec_dma_delay_attoseconds :: u128
  ec_transmit_interrupt_delay_attoseconds :: "u128 option"
  ec_receive_interrupt_waiting :: bool
  ec_prefer_receive :: bool
  ec_transmit_fifo_lane :: nat
  ec_receive_fifo_lane :: nat
  ec_current_transmit_buffer_pointer :: u32
  ec_next_transmit_descriptor_pointer :: u32
  ec_transmit_byte_count :: u32
  ec_current_transmit_descriptor_pointer :: u32
  ec_current_packet_first_transmit_descriptor_pointer :: u32
  ec_previous_packet_first_transmit_descriptor_pointer :: u32
  ec_timer_count :: u32
  ec_timer_expired :: bool
  ec_transmit_status :: u32
  ec_receive_status :: u32
  ec_control :: u32
  ec_receive_byte_count :: u32
  ec_current_receive_buffer_pointer :: u32
  ec_next_receive_descriptor_pointer :: u32
  ec_current_receive_descriptor_pointer :: u32
  ec_transmit_fifo :: diagnostic_fifo
  ec_transmit_fifo_write_flag :: u8
  ec_receive_fifo :: diagnostic_fifo
  ec_receive_fifo_write_direction :: bool
  ec_reset_output_pending :: bool

definition ethernet_channel_new :: ethernet_channel where
  "ethernet_channel_new =
     \<lparr>ec_transmit_stage = TxIdle, ec_transmit_inflight = None, ec_receive_stage = RxIdle,
      ec_transmit_frame = [], ec_receive_frame = [], ec_receive_offset = 0,
      ec_receive_interrupt_requested = False, ec_receive_overflow = False,
      ec_transmit_end_of_packet = False, ec_transmit_end_of_chain = False,
      ec_transmit_interrupt_requested = False, ec_transmit_first_descriptor = True,
      ec_receive_end_of_ring = False, ec_dma_delay_attoseconds = 0,
      ec_transmit_interrupt_delay_attoseconds = None, ec_receive_interrupt_waiting = False,
      ec_prefer_receive = False, ec_transmit_fifo_lane = 0, ec_receive_fifo_lane = 0,
      ec_current_transmit_buffer_pointer = 0, ec_next_transmit_descriptor_pointer = 0,
      ec_transmit_byte_count = 0, ec_current_transmit_descriptor_pointer = 0,
      ec_current_packet_first_transmit_descriptor_pointer = 0,
      ec_previous_packet_first_transmit_descriptor_pointer = 0,
      ec_timer_count = 0, ec_timer_expired = False, ec_transmit_status = 0, ec_receive_status = 0,
      ec_control = 0, ec_receive_byte_count = 0, ec_current_receive_buffer_pointer = 0,
      ec_next_receive_descriptor_pointer = 0, ec_current_receive_descriptor_pointer = 0,
      ec_transmit_fifo = fifo_new, ec_transmit_fifo_write_flag = 0, ec_receive_fifo = fifo_new,
      ec_receive_fifo_write_direction = False, ec_reset_output_pending = False\<rparr>"

definition ethernet_reset_data_path :: "ethernet_channel \<Rightarrow> ethernet_channel" where
  "ethernet_reset_data_path c = ethernet_channel_new\<lparr>ec_control := ec_control c\<rparr>"

section \<open>Registers of the channel\<close>

definition ethernet_timer :: "ethernet_channel \<Rightarrow> u32" where
  "ethernet_timer c =
     push_bit ETHERNET_TIMER_COUNT_SHIFT (ec_timer_count c)
     OR (if ec_timer_expired c then ETHERNET_TIMER_EXPIRED else 0)"

definition write_timer :: "u32 \<Rightarrow> ethernet_channel \<Rightarrow> ethernet_channel" where
  "write_timer value c = (
     let c = c\<lparr>ec_timer_count := drop_bit ETHERNET_TIMER_COUNT_SHIFT (value AND ETHERNET_TIMER_COUNT_MASK),
               ec_timer_expired := (value AND ETHERNET_TIMER_EXPIRED \<noteq> 0)\<rparr>
     in if ec_timer_count c = 0 then c\<lparr>ec_timer_expired := True\<rparr> else c)"

definition advance_timer :: "u128 \<Rightarrow> ethernet_channel \<Rightarrow> ethernet_channel option" where
  "advance_timer ticks c =
     (if ec_timer_expired c \<or> ec_timer_count c = 0 then Some c
      else if ucast (ec_timer_count c) \<le> ticks
      then Some (c\<lparr>ec_timer_count := 0, ec_timer_expired := True\<rparr>)
      else do {
        require (ticks < 2 ^ 32);
        Some (c\<lparr>ec_timer_count := ec_timer_count c - ucast ticks\<rparr>)
      })"

definition transmit_fifo_pointer :: "ethernet_channel \<Rightarrow> u32 option" where
  "transmit_fifo_pointer c = do {
     flags \<leftarrow> get_at (df_flags (ec_transmit_fifo c)) (df_read_index (ec_transmit_fifo c));
     Some (push_bit 24 (ucast flags) OR push_bit 10 (of_nat (df_read_index (ec_transmit_fifo c)))
       OR push_bit 2 (of_nat (df_write_index (ec_transmit_fifo c))))
   }"

definition write_transmit_fifo_pointer :: "u32 \<Rightarrow> ethernet_channel \<Rightarrow> ethernet_channel" where
  "write_transmit_fifo_pointer value c =
     c\<lparr>ec_transmit_fifo := (ec_transmit_fifo c)\<lparr>df_write_index := fifo_index value 2,
                                             df_read_index := fifo_index value 10\<rparr>,
       ec_transmit_fifo_write_flag := ucast (drop_bit 24 value)\<rparr>"

definition receive_fifo_pointer :: "ethernet_channel \<Rightarrow> u32" where
  "receive_fifo_pointer c =
     (if ec_receive_fifo_write_direction c
      then 0x8000 OR push_bit 10 (of_nat (df_write_index (ec_receive_fifo c)))
      else push_bit 2 (of_nat (df_read_index (ec_receive_fifo c))))"

definition write_receive_fifo_pointer :: "u32 \<Rightarrow> ethernet_channel \<Rightarrow> ethernet_channel" where
  "write_receive_fifo_pointer value c = (
     let c = c\<lparr>ec_receive_fifo_write_direction := (value AND 0x8000 \<noteq> 0)\<rparr>
     in if ec_receive_fifo_write_direction c
        then c\<lparr>ec_receive_fifo := (ec_receive_fifo c)\<lparr>df_write_index := fifo_index value 10\<rparr>\<rparr>
        else c\<lparr>ec_receive_fifo := (ec_receive_fifo c)\<lparr>df_read_index := fifo_index value 2\<rparr>\<rparr>)"

definition masked_write :: "u32 \<Rightarrow> nat \<Rightarrow> u8 list \<Rightarrow> u32 \<Rightarrow> u32 option" where
  "masked_write value offset data bits = map_option (\<lambda>v. v AND bits) (write_register value offset data)"

definition write_transmit_status :: "nat \<Rightarrow> u8 list \<Rightarrow> ethernet_channel \<Rightarrow> ethernet_channel option" where
  "write_transmit_status offset data c = do {
     status \<leftarrow> masked_write (ec_transmit_status c) offset data ETHERNET_TRANSMIT_STATUS_BITS;
     let c = c\<lparr>ec_transmit_status := status\<rparr>;
     Some (if ec_transmit_status c AND ETHERNET_TRANSMIT_ACTIVE = 0
           then c\<lparr>ec_transmit_inflight := map_option (\<lambda>t. t\<lparr>tc_dma_attached := False\<rparr>) (ec_transmit_inflight c),
                  ec_transmit_stage := TxIdle, ec_transmit_frame := []\<rparr>
           else if ec_transmit_stage c = TxIdle
           then c\<lparr>ec_transmit_first_descriptor := True, ec_transmit_stage := TxDescriptor\<rparr>
           else c)
   }"

definition write_receive_status :: "nat \<Rightarrow> u8 list \<Rightarrow> ethernet_channel \<Rightarrow> ethernet_channel option" where
  "write_receive_status offset data c = do {
     status \<leftarrow> masked_write (ec_receive_status c) offset data ETHERNET_RECEIVE_STATUS_BITS;
     let c = c\<lparr>ec_receive_status := status\<rparr>;
     Some (if ec_receive_status c AND ETHERNET_RECEIVE_ACTIVE = 0
           then c\<lparr>ec_receive_stage := RxIdle, ec_receive_frame := []\<rparr> else c)
   }"

definition ethernet_write_control :: "nat \<Rightarrow> u8 list \<Rightarrow> ethernet_channel \<Rightarrow> ethernet_channel option" where
  "ethernet_write_control offset data c = do {
     let old_control = ec_control c;
     c \<leftarrow> (if offset + length data = 4 then do {
            value \<leftarrow> masked_write 0 offset data ETHERNET_CONTROL_BITS;
            Some (c\<lparr>ec_control :=
              (old_control AND NOT (value AND (ETHERNET_INTERRUPT OR ETHERNET_OVERFLOW))
                AND NOT (ETHERNET_RESET_CHANNEL OR ETHERNET_LOOPBACK_DISABLE))
              OR (value AND (ETHERNET_RESET_CHANNEL OR ETHERNET_LOOPBACK_DISABLE))\<rparr>)
          } else Some c);
     Some (if old_control AND ETHERNET_RESET_CHANNEL = 0 \<and> ec_control c AND ETHERNET_RESET_CHANNEL \<noteq> 0
           then (ethernet_reset_data_path c)\<lparr>ec_reset_output_pending := True\<rparr> else c)
   }"

definition ethernet_interrupt_asserted :: "ethernet_channel \<Rightarrow> bool" where
  "ethernet_interrupt_asserted c \<longleftrightarrow> ec_control c AND ETHERNET_INTERRUPT \<noteq> 0"

definition loopback_enabled :: "ethernet_channel \<Rightarrow> bool" where
  "loopback_enabled c \<longleftrightarrow> ec_control c AND ETHERNET_LOOPBACK_DISABLE = 0"

section \<open>Receiving\<close>

definition receive_frame :: "u8 list \<Rightarrow> u8 \<Rightarrow> bool \<Rightarrow> ethernet_channel \<Rightarrow> ethernet_channel" where
  "receive_frame bytes status interrupt_requested c = (
     let c = c\<lparr>ec_receive_status := (ec_receive_status c AND ETHERNET_RECEIVE_ACTIVE) OR push_bit 8 (ucast status)\<rparr>
     in if ec_receive_status c AND ETHERNET_RECEIVE_ACTIVE = 0 \<or> ec_receive_stage c \<noteq> RxIdle
           \<or> MAX_ETHERNET_FRAME_BYTES < length bytes \<or> ec_control c AND ETHERNET_RESET_CHANNEL \<noteq> 0
        then c
        else c\<lparr>ec_receive_frame := bytes @ [status], ec_receive_offset := 0,
               ec_receive_interrupt_requested := interrupt_requested, ec_receive_overflow := False,
               ec_receive_stage := RxDescriptor\<rparr>)"

definition receive_completion_request :: "ethernet_channel \<Rightarrow> ethernet_request" where
  "receive_completion_request c =
     EthernetWrite (ec_current_receive_descriptor_pointer c)
       (to_be_bytes32 (ec_receive_byte_count c AND ETHERNET_BYTE_COUNT_MASK)) ReceiveCompletion"

text \<open>The stage change from data to completion asks again, with the channel still active.\<close>

definition receive_request :: "ethernet_channel \<Rightarrow> (ethernet_request option \<times> ethernet_channel) option" where
  "receive_request c =
     (if ec_receive_status c AND ETHERNET_RECEIVE_ACTIVE = 0 then Some (None, c\<lparr>ec_receive_stage := RxIdle\<rparr>)
      else case ec_receive_stage c of
        RxIdle \<Rightarrow> Some (None, c)
      | RxDescriptor \<Rightarrow> Some (Some (EthernetRead (ec_next_receive_descriptor_pointer c) 12 ReceiveDescriptor), c)
      | RxData \<Rightarrow> do {
          require (ec_receive_offset c \<le> length (ec_receive_frame c));
          let n = min (min (unat (ec_receive_byte_count c)) 32) (length (ec_receive_frame c) - ec_receive_offset c);
          if n = 0 then
            let c = c\<lparr>ec_receive_overflow := (ec_receive_offset c < length (ec_receive_frame c)),
                      ec_receive_stage := RxCompletion\<rparr>
            in Some (Some (receive_completion_request c), c)
          else Some (Some (EthernetWrite (ec_current_receive_buffer_pointer c AND ETHERNET_ADDRESS_MASK)
            (take n (drop (ec_receive_offset c) (ec_receive_frame c))) ReceiveData), c)
        }
      | RxCompletion \<Rightarrow> Some (Some (receive_completion_request c), c))"

section \<open>Transmitting\<close>

definition inflight_context :: "ethernet_channel \<Rightarrow> transmit_context" where
  "inflight_context c =
     \<lparr>tc_first_descriptor = ec_current_packet_first_transmit_descriptor_pointer c,
      tc_next_descriptor = ec_next_transmit_descriptor_pointer c,
      tc_end_of_chain = ec_transmit_end_of_chain c,
      tc_interrupt_requested = ec_transmit_interrupt_requested c, tc_dma_attached = True\<rparr>"

function transmit_request :: "bool \<Rightarrow> ethernet_channel \<Rightarrow> ethernet_request option \<times> ethernet_channel" where
  "transmit_request ready c =
     (if ec_transmit_inflight c \<noteq> None then (None, c)
      else if ec_transmit_stage c = TxFault then (Some EthernetUnderflow, c\<lparr>ec_transmit_stage := TxIdle\<rparr>)
      else if ec_transmit_status c AND ETHERNET_TRANSMIT_ACTIVE = 0 then (None, c)
      else case ec_transmit_stage c of
        TxIdle \<Rightarrow> (None, c)
      | TxWire \<Rightarrow> (None, c)
      | TxFault \<Rightarrow> (None, c)
      | TxDescriptor \<Rightarrow> (Some (EthernetRead (ec_next_transmit_descriptor_pointer c) 12 TransmitDescriptor), c)
      | TxData \<Rightarrow>
          let n = min (unat (ec_transmit_byte_count c AND ETHERNET_BYTE_COUNT_MASK)) 32
          in if n = 0 then
               let c = c\<lparr>ec_transmit_stage :=
                     (if ec_transmit_end_of_packet c then TxSend
                      else if ec_transmit_end_of_chain c then TxFault else TxDescriptor)\<rparr>;
                   c = (if ec_transmit_interrupt_requested c \<and> \<not> ec_transmit_end_of_packet c
                        then c\<lparr>ec_transmit_interrupt_delay_attoseconds := Some ETHERNET_DMA_CYCLE_ATTOSECONDS\<rparr>
                        else c)
               in transmit_request ready c
             else (Some (EthernetRead (ec_current_transmit_buffer_pointer c AND ETHERNET_ADDRESS_MASK) n TransmitData), c)
      | TxSend \<Rightarrow>
          if ready then
            (Some (EthernetTransmit (ec_transmit_frame c)),
             c\<lparr>ec_transmit_inflight := Some (inflight_context c), ec_transmit_stage := TxWire, ec_transmit_frame := []\<rparr>)
          else (None, c))"
  by pat_completeness auto
termination
  by (relation "measure (\<lambda>(ready, c). if ec_transmit_stage c = TxData then 1 else 0)") (auto split: if_splits)

definition next_request :: "bool \<Rightarrow> ethernet_channel \<Rightarrow> (ethernet_request option \<times> ethernet_channel) option" where
  "next_request transmitter_ready c =
     (if ec_control c AND ETHERNET_RESET_CHANNEL \<noteq> 0 \<or> ec_dma_delay_attoseconds c \<noteq> 0 then Some (None, c)
      else
        let receive_first = ec_prefer_receive c; c = c\<lparr>ec_prefer_receive := \<not> receive_first\<rparr>
        in if receive_first then do {
             (request, c) \<leftarrow> receive_request c;
             Some (case request of Some r \<Rightarrow> (Some r, c) | None \<Rightarrow> transmit_request transmitter_ready c)
           }
           else
             let (request, c) = transmit_request transmitter_ready c
             in case request of Some r \<Rightarrow> Some (Some r, c) | None \<Rightarrow> receive_request c)"

declare transmit_request.simps [simp del]

section \<open>Completions\<close>

text \<open>The byte advance of a buffer pointer, keeping its end-of-chain bit.\<close>

definition buffer_advance :: "u32 \<Rightarrow> nat \<Rightarrow> u32" where
  "buffer_advance pointer n =
     (pointer AND ETHERNET_BUFFER_END_OF_CHAIN)
     OR (((pointer AND ETHERNET_ADDRESS_MASK) + of_nat n) AND ETHERNET_ADDRESS_MASK)"

definition saturating_sub_word :: "'a::len word \<Rightarrow> 'a word \<Rightarrow> 'a word" where
  "saturating_sub_word a b = (if b \<le> a then a - b else 0)"

definition dma_cycles :: "nat \<Rightarrow> u128" where
  "dma_cycles n = ETHERNET_DMA_CYCLE_ATTOSECONDS * of_nat ((n + 3) div 4)"

definition fail_read :: "ethernet_read_kind \<Rightarrow> ethernet_channel \<Rightarrow> ethernet_channel" where
  "fail_read kind c =
     (if kind = ReceiveDescriptor
      then c\<lparr>ec_receive_status := ec_receive_status c AND NOT ETHERNET_RECEIVE_ACTIVE,
             ec_receive_stage := RxIdle, ec_receive_frame := []\<rparr>
      else c\<lparr>ec_transmit_status := ec_transmit_status c AND NOT ETHERNET_TRANSMIT_ACTIVE,
             ec_transmit_stage := TxFault, ec_transmit_frame := []\<rparr>)"

definition complete_transmit_data :: "u8 list \<Rightarrow> ethernet_channel \<Rightarrow> ethernet_channel option" where
  "complete_transmit_data data c =
     (if MAX_ETHERNET_FRAME_BYTES < length (ec_transmit_frame c) + length data
      then Some (fail_read TransmitData c)
      else do {
        (lane, fifo) \<leftarrow> transfer_bytes data (ec_transmit_fifo_lane c) (ec_transmit_fifo c);
        Some (c\<lparr>ec_transmit_frame := ec_transmit_frame c @ data,
                ec_transmit_fifo := fifo, ec_transmit_fifo_lane := lane,
                ec_current_transmit_buffer_pointer := buffer_advance (ec_current_transmit_buffer_pointer c) (length data),
                ec_transmit_byte_count :=
                  (ec_transmit_byte_count c AND NOT ETHERNET_BYTE_COUNT_MASK)
                  OR saturating_sub_word (ec_transmit_byte_count c AND ETHERNET_BYTE_COUNT_MASK) (of_nat (length data))\<rparr>)
      })"

definition complete_receive_descriptor :: "u32 \<Rightarrow> u32 \<Rightarrow> u32 \<Rightarrow> ethernet_channel \<Rightarrow> ethernet_channel" where
  "complete_receive_descriptor control buffer next_pointer c =
     (if control AND ETHERNET_RECEIVE_OWNED = 0
      then c\<lparr>ec_receive_status := ec_receive_status c AND NOT ETHERNET_RECEIVE_ACTIVE,
             ec_receive_stage := RxIdle, ec_receive_frame := []\<rparr>
      else c\<lparr>ec_current_receive_descriptor_pointer := ec_next_receive_descriptor_pointer c,
             ec_next_receive_descriptor_pointer := next_pointer,
             ec_receive_byte_count := saturating_sub_word (control AND ETHERNET_BYTE_COUNT_MASK) 2,
             ec_current_receive_buffer_pointer := buffer_advance buffer 2,
             ec_receive_end_of_ring := (buffer AND ETHERNET_BUFFER_END_OF_CHAIN \<noteq> 0),
             ec_receive_stage := RxData\<rparr>)"

definition complete_transmit_descriptor :: "u32 \<Rightarrow> u32 \<Rightarrow> u32 \<Rightarrow> ethernet_channel \<Rightarrow> ethernet_channel" where
  "complete_transmit_descriptor control buffer next_pointer c = (
     let c = c\<lparr>ec_current_transmit_descriptor_pointer := ec_next_transmit_descriptor_pointer c,
               ec_next_transmit_descriptor_pointer := next_pointer\<rparr>;
         c = (if ec_transmit_first_descriptor c
              then c\<lparr>ec_current_packet_first_transmit_descriptor_pointer := ec_current_transmit_descriptor_pointer c,
                     ec_transmit_first_descriptor := False\<rparr> else c)
     in c\<lparr>ec_transmit_byte_count := control AND ETHERNET_TRANSMIT_BYTE_COUNT_MASK,
          ec_current_transmit_buffer_pointer := buffer AND ETHERNET_CURRENT_BUFFER_POINTER_MASK,
          ec_transmit_end_of_packet := (control AND ETHERNET_TRANSMIT_END_OF_PACKET \<noteq> 0),
          ec_transmit_end_of_chain := (buffer AND ETHERNET_BUFFER_END_OF_CHAIN \<noteq> 0),
          ec_transmit_interrupt_requested := (control AND ETHERNET_TRANSMIT_INTERRUPT_ENABLE \<noteq> 0),
          ec_transmit_stage := TxData\<rparr>)"

definition complete_read :: "ethernet_read_kind \<Rightarrow> u8 list option \<Rightarrow> ethernet_channel \<Rightarrow> ethernet_channel option" where
  "complete_read kind result c =
     (case result of
        None \<Rightarrow> Some (fail_read kind c)
      | Some data \<Rightarrow>
          let c = c\<lparr>ec_dma_delay_attoseconds := dma_cycles (length data)\<rparr>
          in if kind = TransmitData then complete_transmit_data data c
             else if length data \<noteq> 12 then Some (fail_read kind c)
             else
               let control = from_be_bytes (take 4 data); buffer = from_be_bytes (take 4 (drop 4 data));
                   next_pointer = from_be_bytes (take 4 (drop 8 data)) AND ETHERNET_ADDRESS_MASK
               in Some (if kind = ReceiveDescriptor then complete_receive_descriptor control buffer next_pointer c
                        else complete_transmit_descriptor control buffer next_pointer c))"

definition complete_receive_data :: "nat \<Rightarrow> ethernet_channel \<Rightarrow> ethernet_channel option" where
  "complete_receive_data n c = do {
     require (ec_receive_offset c + n \<le> length (ec_receive_frame c));
     (lane, fifo) \<leftarrow> transfer_bytes (take n (drop (ec_receive_offset c) (ec_receive_frame c)))
                     (ec_receive_fifo_lane c) (ec_receive_fifo c);
     Some (c\<lparr>ec_receive_fifo := fifo, ec_receive_fifo_lane := lane,
             ec_receive_offset := ec_receive_offset c + n,
             ec_receive_byte_count := saturating_sub_word (ec_receive_byte_count c) (of_nat n),
             ec_current_receive_buffer_pointer := buffer_advance (ec_current_receive_buffer_pointer c) n\<rparr>)
   }"

definition complete_receive_frame :: "ethernet_channel \<Rightarrow> ethernet_channel" where
  "complete_receive_frame c = (
     let c = (if ec_receive_end_of_ring c \<or> ec_receive_overflow c
              then c\<lparr>ec_receive_status := ec_receive_status c AND NOT ETHERNET_RECEIVE_ACTIVE\<rparr> else c);
         c = (if ec_receive_overflow c
              then c\<lparr>ec_control := ec_control c OR (ETHERNET_OVERFLOW OR ETHERNET_INTERRUPT)\<rparr> else c);
         c = (if ec_receive_interrupt_requested c
              then if ec_timer_expired c
                   then c\<lparr>ec_control := ec_control c OR ETHERNET_INTERRUPT, ec_receive_interrupt_waiting := False\<rparr>
                   else c\<lparr>ec_receive_interrupt_waiting := True\<rparr>
              else c)
     in c\<lparr>ec_receive_frame := [], ec_receive_stage := RxIdle\<rparr>)"

definition complete_write :: "ethernet_write_kind \<Rightarrow> nat \<Rightarrow> bool \<Rightarrow> ethernet_channel \<Rightarrow> ethernet_channel option" where
  "complete_write kind n success c = (
     let c = c\<lparr>ec_dma_delay_attoseconds := dma_cycles n\<rparr>
     in if \<not> success
        then Some (c\<lparr>ec_receive_status := ec_receive_status c AND NOT ETHERNET_RECEIVE_ACTIVE,
                     ec_receive_stage := RxIdle, ec_receive_frame := []\<rparr>)
        else case kind of
               ReceiveData \<Rightarrow> complete_receive_data n c
             | ReceiveCompletion \<Rightarrow> Some (complete_receive_frame c))"

definition complete_transmit :: "u8 \<Rightarrow> bool \<Rightarrow> ethernet_channel \<Rightarrow> ethernet_channel" where
  "complete_transmit status interrupt c = (
     let continue_dma = (ec_transmit_status c AND ETHERNET_TRANSMIT_ACTIVE \<noteq> 0);
         context = ec_transmit_inflight c;
         c = c\<lparr>ec_transmit_inflight := None\<rparr>;
         interrupt_requested = (case context of None \<Rightarrow> ec_transmit_interrupt_requested c
                                | Some t \<Rightarrow> tc_interrupt_requested t);
         successful = (push_bit 16 (ucast status) AND ETHERNET_TRANSMIT_SUCCESS \<noteq> 0);
         c = (if interrupt_requested \<or> \<not> successful \<and> interrupt
              then c\<lparr>ec_transmit_interrupt_delay_attoseconds := Some ETHERNET_DMA_CYCLE_ATTOSECONDS\<rparr> else c)
     in if (case context of None \<Rightarrow> False | Some t \<Rightarrow> \<not> tc_dma_attached t)
        then c\<lparr>ec_transmit_status := (ec_transmit_status c AND ETHERNET_TRANSMIT_ACTIVE) OR push_bit 16 (ucast status)\<rparr>
        else
          let c = c\<lparr>ec_transmit_status := push_bit 16 (ucast status)\<rparr>;
              c = (case context of
                     Some t \<Rightarrow> if successful
                       then c\<lparr>ec_previous_packet_first_transmit_descriptor_pointer := tc_first_descriptor t\<rparr> else c
                   | None \<Rightarrow> c);
              end_of_chain = (case context of None \<Rightarrow> True | Some t \<Rightarrow> tc_end_of_chain t);
              c = (if successful \<and> \<not> end_of_chain \<and> continue_dma
                   then c\<lparr>ec_transmit_status := ec_transmit_status c OR ETHERNET_TRANSMIT_ACTIVE,
                          ec_transmit_stage := TxDescriptor\<rparr>
                   else c\<lparr>ec_transmit_stage := TxIdle\<rparr>)
          in c\<lparr>ec_transmit_first_descriptor := True\<rparr>)"

section \<open>Time\<close>

definition transmit_work :: "bool \<Rightarrow> ethernet_channel \<Rightarrow> bool" where
  "transmit_work transmitter_ready c \<longleftrightarrow> ec_transmit_inflight c = None
     \<and> (ec_transmit_stage c \<in> {TxDescriptor, TxData, TxFault} \<or> transmitter_ready \<and> ec_transmit_stage c = TxSend)"

definition timer_deadline :: "u128 \<Rightarrow> ethernet_channel \<Rightarrow> u128 option option" where
  "timer_deadline clock_phase c =
     (if \<not> ec_timer_expired c \<and> ec_timer_count c \<noteq> 0 then do {
        let whole = ucast (ec_timer_count c) * ATTOSECONDS_PER_SECOND;
        require (clock_phase \<le> whole);
        let left = whole - clock_phase;
        Some (Some (left div HPC_CLOCK_FREQUENCY + (if left mod HPC_CLOCK_FREQUENCY = 0 then 0 else 1)))
      }
      else Some None)"

fun earliest_of :: "u128 option list \<Rightarrow> u128 option" where
  "earliest_of [] = None"
| "earliest_of (x # xs) =
     (case (x, earliest_of xs) of
        (None, r) \<Rightarrow> r
      | (Some a, None) \<Rightarrow> Some a
      | (Some a, Some b) \<Rightarrow> Some (min a b))"

definition ethernet_time_until_event :: "bool \<Rightarrow> u128 \<Rightarrow> ethernet_channel \<Rightarrow> virtual_duration option option" where
  "ethernet_time_until_event transmitter_ready clock_phase c =
     (if ec_control c AND ETHERNET_RESET_CHANNEL \<noteq> 0 then Some None
      else do {
        timer \<leftarrow> timer_deadline clock_phase c;
        Some (earliest_of
          [if ec_receive_stage c \<noteq> RxIdle \<or> transmit_work transmitter_ready c
             then Some (ec_dma_delay_attoseconds c) else None,
           ec_transmit_interrupt_delay_attoseconds c,
           timer,
           if ec_timer_expired c \<and> ec_receive_interrupt_waiting c then Some 0 else None])
      })"

definition ethernet_advance_time :: "virtual_duration \<Rightarrow> u128 \<Rightarrow> ethernet_channel \<Rightarrow> ethernet_channel option" where
  "ethernet_advance_time elapsed ticks c = do {
     c \<leftarrow> advance_timer ticks c;
     let c = c\<lparr>ec_dma_delay_attoseconds := saturating_sub_word (ec_dma_delay_attoseconds c) elapsed\<rparr>;
     let c = (case ec_transmit_interrupt_delay_attoseconds c of
           None \<Rightarrow> c
         | Some delay \<Rightarrow>
             if saturating_sub_word delay elapsed = 0
             then c\<lparr>ec_control := ec_control c OR ETHERNET_INTERRUPT,
                    ec_transmit_interrupt_delay_attoseconds := None\<rparr>
             else c\<lparr>ec_transmit_interrupt_delay_attoseconds := Some (saturating_sub_word delay elapsed)\<rparr>);
     Some (if ec_timer_expired c \<and> ec_receive_interrupt_waiting c
           then c\<lparr>ec_control := ec_control c OR ETHERNET_INTERRUPT, ec_receive_interrupt_waiting := False\<rparr>
           else c)
   }"

end
