(* ===== verification/Hpc1.thy ===== *)
theory Hpc1
  imports Hpc1_Ethernet
begin

text \<open>
  The HPC1.5 peripheral controller, \<^verbatim>\<open>se_device/src/hpc1.rs\<close>: the SCSI, parallel and DSP
  channels, the register file in front of all four, the 33 MHz clock, and the SCSI descriptor
  cursor the board drives.
\<close>

section \<open>Constants\<close>

definition SCSI_BYTE_COUNT :: u64 where "SCSI_BYTE_COUNT = 0x0088"
definition SCSI_CURRENT_BUFFER_POINTER :: u64 where "SCSI_CURRENT_BUFFER_POINTER = 0x008c"
definition SCSI_NEXT_DESCRIPTOR_POINTER :: u64 where "SCSI_NEXT_DESCRIPTOR_POINTER = 0x0090"
definition SCSI_CONTROL :: u64 where "SCSI_CONTROL = 0x0094"
definition SCSI_FIFO_POINTER :: u64 where "SCSI_FIFO_POINTER = 0x0098"
definition SCSI_FIFO :: u64 where "SCSI_FIFO = 0x009c"
definition PARALLEL_BYTE_COUNT :: u64 where "PARALLEL_BYTE_COUNT = 0x00a8"
definition PARALLEL_CURRENT_BUFFER_POINTER :: u64 where "PARALLEL_CURRENT_BUFFER_POINTER = 0x00ac"
definition PARALLEL_NEXT_DESCRIPTOR_POINTER :: u64 where "PARALLEL_NEXT_DESCRIPTOR_POINTER = 0x00b0"
definition PARALLEL_CONTROL :: u64 where "PARALLEL_CONTROL = 0x00b4"
definition PARALLEL_FIFO_POINTER :: u64 where "PARALLEL_FIFO_POINTER = 0x00b8"
definition PARALLEL_FIFO :: u64 where "PARALLEL_FIFO = 0x00bc"
definition INTERNAL_REGISTERS_END :: u64 where "INTERNAL_REGISTERS_END = 0x00c0"
definition ENDIAN_CONTROL :: u64 where "ENDIAN_CONTROL = 0x00c0"
definition FREE_RUNNING_COUNTER :: u64 where "FREE_RUNNING_COUNTER = 0x0194"
definition DSP_INTERRUPT_STATUS :: u64 where "DSP_INTERRUPT_STATUS = 0x01a0"
definition DSP_INTERRUPT_MASK :: u64 where "DSP_INTERRUPT_MASK = 0x01a4"
definition MISCELLANEOUS_CONTROL :: u64 where "MISCELLANEOUS_CONTROL = 0x01b0"
definition REVISION :: u8 where "REVISION = 0x40"
definition WRITABLE_ENDIAN_BITS :: u8 where "WRITABLE_ENDIAN_BITS = 0x1f"
definition SCSI_RESET :: u8 where "SCSI_RESET = 0x01"
definition SCSI_FLUSH :: u8 where "SCSI_FLUSH = 0x02"
definition SCSI_TO_MEMORY :: u8 where "SCSI_TO_MEMORY = 0x10"
definition SCSI_START_DMA :: u8 where "SCSI_START_DMA = 0x80"
definition WRITABLE_SCSI_BITS :: u8 where
  "WRITABLE_SCSI_BITS = SCSI_RESET OR SCSI_FLUSH OR SCSI_TO_MEMORY OR SCSI_START_DMA"
definition SCSI_BYTE_COUNT_MASK :: u16 where "SCSI_BYTE_COUNT_MASK = 0x1fff"
definition SCSI_ADDRESS_MASK :: u32 where "SCSI_ADDRESS_MASK = 0x0fffffff"
definition SCSI_CURRENT_BUFFER_POINTER_MASK :: u32 where "SCSI_CURRENT_BUFFER_POINTER_MASK = 0x8fffffff"
definition SCSI_DESCRIPTOR_END :: u32 where "SCSI_DESCRIPTOR_END = push_bit 31 1"
definition PARALLEL_BYTE_COUNT_MASK :: u32 where "PARALLEL_BYTE_COUNT_MASK = 0x000001ff"
definition PARALLEL_CURRENT_BUFFER_POINTER_MASK :: u32 where "PARALLEL_CURRENT_BUFFER_POINTER_MASK = 0x8fffffff"
definition PARALLEL_DESCRIPTOR_POINTER_MASK :: u32 where "PARALLEL_DESCRIPTOR_POINTER_MASK = 0x0fffffff"
definition PARALLEL_RESET :: u8 where "PARALLEL_RESET = 0x01"
definition PARALLEL_CLEAR_INTERRUPT :: u8 where "PARALLEL_CLEAR_INTERRUPT = 0x02"
definition PARALLEL_TO_MEMORY :: u8 where "PARALLEL_TO_MEMORY = 0x10"
definition WRITABLE_PARALLEL_BITS :: u8 where "WRITABLE_PARALLEL_BITS = 0xfd"
definition DSP_INTERRUPT_BITS :: u8 where "DSP_INTERRUPT_BITS = 0x07"
definition FREE_RUNNING_COUNTER_MODULUS :: u128 where "FREE_RUNNING_COUNTER_MODULUS = push_bit 24 1"

section \<open>SCSI channel\<close>

record scsi_channel =
  sc_byte_count :: u16
  sc_current_buffer_address :: u32
  sc_next_descriptor_pointer :: u32
  sc_descriptor_end :: bool
  sc_descriptor_loaded :: bool
  sc_descriptor_fetch_pending :: bool
  sc_control :: u8
  sc_fifo :: diagnostic_fifo
  sc_reset_output_pending :: bool

definition scsi_channel_new :: scsi_channel where
  "scsi_channel_new = \<lparr>sc_byte_count = 0, sc_current_buffer_address = 0, sc_next_descriptor_pointer = 0,
     sc_descriptor_end = False, sc_descriptor_loaded = False, sc_descriptor_fetch_pending = False,
     sc_control = 0, sc_fifo = fifo_new, sc_reset_output_pending = False\<rparr>"

definition scsi_reset_data_path :: "scsi_channel \<Rightarrow> scsi_channel" where
  "scsi_reset_data_path s = scsi_channel_new\<lparr>sc_control := sc_control s\<rparr>"

definition scsi_current_buffer_pointer :: "scsi_channel \<Rightarrow> u32" where
  "scsi_current_buffer_pointer s =
     sc_current_buffer_address s OR (if sc_descriptor_end s then SCSI_DESCRIPTOR_END else 0)"

definition scsi_write_current_buffer_pointer :: "nat \<Rightarrow> u8 list \<Rightarrow> scsi_channel \<Rightarrow> scsi_channel option" where
  "scsi_write_current_buffer_pointer offset data s = do {
     value \<leftarrow> masked_write (scsi_current_buffer_pointer s) offset data SCSI_CURRENT_BUFFER_POINTER_MASK;
     Some (s\<lparr>sc_current_buffer_address := value AND SCSI_ADDRESS_MASK,
             sc_descriptor_end := (value AND SCSI_DESCRIPTOR_END \<noteq> 0)\<rparr>)
   }"

text \<open>The pointer registers of the SCSI and the parallel FIFO are alike.\<close>

definition tagged_fifo_pointer :: "diagnostic_fifo \<Rightarrow> u32 option" where
  "tagged_fifo_pointer f = do {
     flags \<leftarrow> get_at (df_flags f) (df_read_index f);
     Some (push_bit 28 (ucast flags) OR push_bit 2 (of_nat (df_read_index f)))
   }"

definition write_tagged_fifo_pointer :: "u32 \<Rightarrow> bool \<Rightarrow> diagnostic_fifo \<Rightarrow> diagnostic_fifo option" where
  "write_tagged_fifo_pointer value to_memory f = (
     let index = fifo_index value 2; f = f\<lparr>df_read_index := index, df_write_index := index\<rparr>
     in if to_memory then Some f
        else map_option (\<lambda>flags. f\<lparr>df_flags := flags\<rparr>)
               (set_at (df_flags f) index (ucast (drop_bit 28 value AND 0x0f))))"

definition scsi_write_next_descriptor :: "nat \<Rightarrow> u8 list \<Rightarrow> scsi_channel \<Rightarrow> scsi_channel option" where
  "scsi_write_next_descriptor offset data s = do {
     pointer \<leftarrow> masked_write (sc_next_descriptor_pointer s) offset data SCSI_ADDRESS_MASK;
     Some (s\<lparr>sc_next_descriptor_pointer := pointer, sc_descriptor_loaded := False,
             sc_descriptor_fetch_pending := (sc_control s AND SCSI_START_DMA \<noteq> 0)\<rparr>)
   }"

definition scsi_write_control :: "nat \<Rightarrow> u8 list \<Rightarrow> scsi_channel \<Rightarrow> scsi_channel option" where
  "scsi_write_control offset data s = do {
     let old_value = sc_control s;
     value \<leftarrow> write_register (ucast old_value) offset data;
     let s = s\<lparr>sc_control := ucast value AND WRITABLE_SCSI_BITS\<rparr>;
     let s = (if old_value AND SCSI_RESET = 0 \<and> sc_control s AND SCSI_RESET \<noteq> 0
              then (scsi_reset_data_path s)\<lparr>sc_reset_output_pending := True\<rparr> else s);
     Some (if sc_control s AND SCSI_RESET \<noteq> 0
           then s\<lparr>sc_control := sc_control s AND NOT SCSI_START_DMA, sc_descriptor_fetch_pending := False\<rparr>
           else if sc_control s AND SCSI_START_DMA = 0
           then s\<lparr>sc_descriptor_fetch_pending := False\<rparr>
           else
             let s = (if old_value AND SCSI_START_DMA = 0
                      then s\<lparr>sc_fifo := fifo_reset_pointers (sc_fifo s),
                             sc_descriptor_fetch_pending := \<not> sc_descriptor_loaded s\<rparr> else s)
             in if sc_control s AND SCSI_FLUSH \<noteq> 0
                then s\<lparr>sc_control := sc_control s AND NOT SCSI_START_DMA, sc_descriptor_fetch_pending := False\<rparr>
                else s)
   }"

section \<open>DSP and parallel channels\<close>

record dsp_channel =
  dc_interrupt_status :: u8
  dc_interrupt_mask :: u8

definition dsp_channel_new :: dsp_channel where
  "dsp_channel_new = \<lparr>dc_interrupt_status = 0, dc_interrupt_mask = 0\<rparr>"

definition dsp_channel_interrupt_asserted :: "dsp_channel \<Rightarrow> bool" where
  "dsp_channel_interrupt_asserted d \<longleftrightarrow> dc_interrupt_status d AND dc_interrupt_mask d \<noteq> 0"

record parallel_channel =
  pc_byte_count :: u32
  pc_current_buffer_pointer :: u32
  pc_next_descriptor_pointer :: u32
  pc_control :: u8
  pc_interrupt_pending :: bool
  pc_fifo :: diagnostic_fifo

definition parallel_channel_new :: parallel_channel where
  "parallel_channel_new = \<lparr>pc_byte_count = 0, pc_current_buffer_pointer = 0, pc_next_descriptor_pointer = 0,
     pc_control = 0, pc_interrupt_pending = False, pc_fifo = fifo_new\<rparr>"

definition parallel_reset_data_path :: "parallel_channel \<Rightarrow> parallel_channel" where
  "parallel_reset_data_path p =
     parallel_channel_new\<lparr>pc_control := pc_control p, pc_interrupt_pending := pc_interrupt_pending p\<rparr>"

definition parallel_control_value :: "parallel_channel \<Rightarrow> u8" where
  "parallel_control_value p =
     pc_control p OR (if pc_interrupt_pending p then PARALLEL_CLEAR_INTERRUPT else 0)"

definition writes_low_byte_bit :: "nat \<Rightarrow> u8 list \<Rightarrow> u8 \<Rightarrow> bool" where
  "writes_low_byte_bit offset data low_bit \<longleftrightarrow>
     offset \<le> 3 \<and> 3 < offset + length data \<and> (data ! (3 - offset)) AND low_bit \<noteq> 0"

definition parallel_write_control :: "nat \<Rightarrow> u8 list \<Rightarrow> parallel_channel \<Rightarrow> parallel_channel option" where
  "parallel_write_control offset data p = do {
     let old_control = pc_control p;
     value \<leftarrow> write_register (ucast old_control) offset data;
     let p = p\<lparr>pc_control := ucast value AND WRITABLE_PARALLEL_BITS\<rparr>;
     let p = (if old_control AND PARALLEL_RESET = 0 \<and> pc_control p AND PARALLEL_RESET \<noteq> 0
              then parallel_reset_data_path p else p);
     Some (if writes_low_byte_bit offset data PARALLEL_CLEAR_INTERRUPT
           then p\<lparr>pc_interrupt_pending := False\<rparr> else p)
   }"

section \<open>The controller\<close>

record hpc1 =
  hp_ethernet :: ethernet_channel
  hp_scsi :: scsi_channel
  hp_parallel :: parallel_channel
  hp_dsp :: dsp_channel
  hp_endian_control :: u8
  hp_free_running_counter :: u32
  hp_miscellaneous_control :: u32
  hp_clock_phase :: u128

definition hpc1_new :: hpc1 where
  "hpc1_new = \<lparr>hp_ethernet = ethernet_channel_new, hp_scsi = scsi_channel_new,
     hp_parallel = parallel_channel_new, hp_dsp = dsp_channel_new, hp_endian_control = REVISION,
     hp_free_running_counter = 0, hp_miscellaneous_control = 0, hp_clock_phase = 0\<rparr>"

definition hpc1_reset :: "hpc1 \<Rightarrow> hpc1" where
  "hpc1_reset h = hpc1_new"

definition hpc1_ethernet_interrupt_asserted :: "hpc1 \<Rightarrow> bool" where
  "hpc1_ethernet_interrupt_asserted h = ethernet_interrupt_asserted (hp_ethernet h)"

definition hpc1_dsp_interrupt_asserted :: "hpc1 \<Rightarrow> bool" where
  "hpc1_dsp_interrupt_asserted h = dsp_channel_interrupt_asserted (hp_dsp h)"

definition hpc1_parallel_interrupt_asserted :: "hpc1 \<Rightarrow> bool" where
  "hpc1_parallel_interrupt_asserted h = pc_interrupt_pending (hp_parallel h)"

section \<open>Register accesses\<close>

definition is_word :: "u64 \<Rightarrow> u64 \<Rightarrow> u64 \<Rightarrow> bool" where
  "is_word start stop register \<longleftrightarrow> start = register \<and> stop = register + REGISTER_BYTES"

definition overlaps_register :: "u64 \<Rightarrow> u64 \<Rightarrow> u64 \<Rightarrow> bool" where
  "overlaps_register start stop register \<longleftrightarrow> start < register + REGISTER_BYTES \<and> register < stop"

definition internal_register_transaction :: "u64 \<Rightarrow> u64 \<Rightarrow> bool" where
  "internal_register_transaction start stop \<longleftrightarrow>
     start < INTERNAL_REGISTERS_END \<and> stop \<le> INTERNAL_REGISTERS_END
     \<and> start div REGISTER_BYTES = (stop - 1) div REGISTER_BYTES"

definition special_register_overlap :: "u64 \<Rightarrow> u64 \<Rightarrow> bool" where
  "special_register_overlap start stop \<longleftrightarrow>
     list_ex (overlaps_register start stop)
       [ETHERNET_TRANSMIT_FIFO_POINTER, ETHERNET_TRANSMIT_FIFO, ETHERNET_TIMER, ETHERNET_RECEIVE_FIFO_POINTER,
        ETHERNET_RECEIVE_FIFO, SCSI_FIFO_POINTER, SCSI_FIFO, PARALLEL_FIFO_POINTER, PARALLEL_FIFO]"

text \<open>The chains of \<^verbatim>\<open>else if is_word(..)\<close>, beside those of \<^verbatim>\<open>register_offset(..)\<close>.\<close>

definition at_word :: "u64 \<Rightarrow> u64 \<Rightarrow> u64 \<Rightarrow> 'r \<Rightarrow> 'r \<Rightarrow> 'r" where
  "at_word start stop register hit miss = (if is_word start stop register then hit else miss)"

definition fifo_word :: "diagnostic_fifo \<Rightarrow> u32 option" where
  "fifo_word f = get_at (df_data f) (df_read_index f)"

definition hpc1_read_other :: "hpc1 \<Rightarrow> u64 \<Rightarrow> u64 \<Rightarrow> nat \<Rightarrow> (bus_error + u8 list) option" where
  "hpc1_read_other h s e len = (
     let word = (\<lambda>v. Some (Inr (to_be_bytes32 v)))
     in if special_register_overlap s e then Some (Inl UnimplementedAccess)
        else if internal_register_transaction s e then Some (Inr (replicate len 0))
        else
          at_register s e ENDIAN_CONTROL (\<lambda>offset. map_option Inr (read_register (ucast (hp_endian_control h)) offset len)) (
          at_word s e FREE_RUNNING_COUNTER (word (hp_free_running_counter h)) (
          at_word s e DSP_INTERRUPT_STATUS (word (ucast (dc_interrupt_status (hp_dsp h)))) (
          at_word s e DSP_INTERRUPT_MASK (word (ucast (dc_interrupt_mask (hp_dsp h)))) (
          at_word s e MISCELLANEOUS_CONTROL (word (hp_miscellaneous_control h)) (
          Some (Inl (if overlaps_register s e FREE_RUNNING_COUNTER \<or> overlaps_register s e DSP_INTERRUPT_STATUS
                        \<or> overlaps_register s e DSP_INTERRUPT_MASK \<or> overlaps_register s e MISCELLANEOUS_CONTROL
                     then UnimplementedAccess else HardwareFault))))))))"

definition hpc1_read_register :: "hpc1 \<Rightarrow> u64 \<Rightarrow> u64 \<Rightarrow> nat \<Rightarrow> (bus_error + u8 list) option" where
  "hpc1_read_register h s e len = (
     let answer = (\<lambda>value offset. map_option Inr (read_register value offset len));
         word = (\<lambda>v. Some (Inr (to_be_bytes32 v)));
         c = hp_ethernet h; i = hp_scsi h; p = hp_parallel h in
     at_register s e ETHERNET_CURRENT_TRANSMIT_BUFFER_POINTER (answer (ec_current_transmit_buffer_pointer c)) (
     at_register s e ETHERNET_NEXT_TRANSMIT_DESCRIPTOR_POINTER (answer (ec_next_transmit_descriptor_pointer c)) (
     at_register s e ETHERNET_TRANSMIT_BYTE_COUNT (answer (ec_transmit_byte_count c)) (
     at_word s e ETHERNET_TRANSMIT_FIFO_POINTER (Option.bind (transmit_fifo_pointer c) word) (
     at_word s e ETHERNET_TRANSMIT_FIFO (Option.bind (fifo_word (ec_transmit_fifo c)) word) (
     at_register s e ETHERNET_CURRENT_TRANSMIT_DESCRIPTOR_POINTER (answer (ec_current_transmit_descriptor_pointer c)) (
     at_register s e ETHERNET_CURRENT_PACKET_FIRST_TRANSMIT_DESCRIPTOR_POINTER
       (answer (ec_current_packet_first_transmit_descriptor_pointer c)) (
     at_register s e ETHERNET_PREVIOUS_PACKET_FIRST_TRANSMIT_DESCRIPTOR_POINTER
       (answer (ec_previous_packet_first_transmit_descriptor_pointer c)) (
     at_word s e ETHERNET_TIMER (word (ethernet_timer c)) (
     at_register s e ETHERNET_TRANSMIT_STATUS (answer (ec_transmit_status c)) (
     at_register s e ETHERNET_RECEIVE_STATUS (answer (ec_receive_status c)) (
     at_register s e ETHERNET_RESET (answer (ec_control c)) (
     at_register s e ETHERNET_RECEIVE_BYTE_COUNT (answer (ec_receive_byte_count c)) (
     at_register s e ETHERNET_CURRENT_RECEIVE_BUFFER_POINTER (answer (ec_current_receive_buffer_pointer c)) (
     at_register s e ETHERNET_NEXT_RECEIVE_DESCRIPTOR_POINTER (answer (ec_next_receive_descriptor_pointer c)) (
     at_register s e ETHERNET_CURRENT_RECEIVE_DESCRIPTOR_POINTER (answer (ec_current_receive_descriptor_pointer c)) (
     at_word s e ETHERNET_RECEIVE_FIFO_POINTER (word (receive_fifo_pointer c)) (
     at_word s e ETHERNET_RECEIVE_FIFO (Option.bind (fifo_word (ec_receive_fifo c)) word) (
     at_register s e SCSI_BYTE_COUNT (answer (ucast (sc_byte_count i))) (
     at_register s e SCSI_CURRENT_BUFFER_POINTER (answer (scsi_current_buffer_pointer i)) (
     at_register s e SCSI_NEXT_DESCRIPTOR_POINTER (answer (sc_next_descriptor_pointer i)) (
     at_register s e SCSI_CONTROL (answer (ucast (sc_control i))) (
     at_register s e SCSI_FIFO_POINTER (\<lambda>offset. do { v \<leftarrow> tagged_fifo_pointer (sc_fifo i); answer v offset }) (
     at_word s e SCSI_FIFO (Option.bind (fifo_word (sc_fifo i)) word) (
     at_register s e PARALLEL_BYTE_COUNT (answer (pc_byte_count p)) (
     at_register s e PARALLEL_CURRENT_BUFFER_POINTER (answer (pc_current_buffer_pointer p)) (
     at_register s e PARALLEL_NEXT_DESCRIPTOR_POINTER (answer (pc_next_descriptor_pointer p)) (
     at_register s e PARALLEL_CONTROL (answer (ucast (parallel_control_value p))) (
     at_word s e PARALLEL_FIFO_POINTER (Option.bind (tagged_fifo_pointer (pc_fifo p)) word) (
     at_word s e PARALLEL_FIFO (Option.bind (fifo_word (pc_fifo p)) word) (
     hpc1_read_other h s e len)))))))))))))))))))))))))))))))"

definition hpc1_read :: "hpc1 \<Rightarrow> device_addr \<Rightarrow> nat \<Rightarrow> (bus_error + u8 list) option" where
  "hpc1_read h address len =
     (case transaction_bounds address len of
        Inl err \<Rightarrow> Some (Inl err)
      | Inr (s, e) \<Rightarrow> hpc1_read_register h s e len)"

text \<open>A word write carries its value; the length of its data has been checked by the dispatch.\<close>

definition word_of_bytes :: "u8 list \<Rightarrow> u32" where
  "word_of_bytes data = from_be_bytes data"

type_synonym hpc1_write_result = "((bus_error + unit) \<times> hpc1) option"

definition put_fifo_word :: "u32 \<Rightarrow> diagnostic_fifo \<Rightarrow> diagnostic_fifo option" where
  "put_fifo_word v f = map_option (\<lambda>data. f\<lparr>df_data := data\<rparr>) (set_at (df_data f) (df_write_index f) v)"

definition put_tagged_fifo_word :: "u32 \<Rightarrow> u8 \<Rightarrow> diagnostic_fifo \<Rightarrow> diagnostic_fifo option" where
  "put_tagged_fifo_word v flag f = do {
     f \<leftarrow> put_fifo_word v f;
     map_option (\<lambda>flags. f\<lparr>df_flags := flags\<rparr>) (set_at (df_flags f) (df_write_index f) flag)
   }"

definition hpc1_write_other :: "hpc1 \<Rightarrow> u64 \<Rightarrow> u64 \<Rightarrow> u8 list \<Rightarrow> hpc1_write_result" where
  "hpc1_write_other h s e data = (
     let d = hp_dsp h; v = word_of_bytes data
     in if special_register_overlap s e then Some (Inl UnimplementedAccess, h)
        else if internal_register_transaction s e then Some (Inr (), h)
        else
          at_register s e ENDIAN_CONTROL (\<lambda>offset. do {
            value \<leftarrow> write_register (ucast (hp_endian_control h)) offset data;
            Some (Inr (), h\<lparr>hp_endian_control := REVISION OR (ucast value AND WRITABLE_ENDIAN_BITS)\<rparr>) }) (
          if overlaps_register s e FREE_RUNNING_COUNTER then Some (Inl UnimplementedAccess, h)
          else
          at_word s e DSP_INTERRUPT_STATUS
            (Some (Inr (), h\<lparr>hp_dsp := d\<lparr>dc_interrupt_status := dc_interrupt_status d AND (ucast v AND DSP_INTERRUPT_BITS)\<rparr>\<rparr>)) (
          at_word s e DSP_INTERRUPT_MASK
            (Some (Inr (), h\<lparr>hp_dsp := d\<lparr>dc_interrupt_mask := ucast v AND DSP_INTERRUPT_BITS\<rparr>\<rparr>)) (
          if overlaps_register s e DSP_INTERRUPT_STATUS \<or> overlaps_register s e DSP_INTERRUPT_MASK
          then Some (Inl UnimplementedAccess, h)
          else
          at_word s e MISCELLANEOUS_CONTROL (Some (Inr (), h\<lparr>hp_miscellaneous_control := v\<rparr>)) (
          Some (Inl (if overlaps_register s e MISCELLANEOUS_CONTROL then UnimplementedAccess else HardwareFault), h))))))"

definition hpc1_write_parallel :: "hpc1 \<Rightarrow> u64 \<Rightarrow> u64 \<Rightarrow> u8 list \<Rightarrow> hpc1_write_result" where
  "hpc1_write_parallel h s e data = (
     let p = hp_parallel h;
         put = (\<lambda>m. map_option (\<lambda>p. (Inr (), h\<lparr>hp_parallel := p\<rparr>)) m) in
     at_register s e PARALLEL_BYTE_COUNT (\<lambda>offset. put (map_option (\<lambda>v. p\<lparr>pc_byte_count := v\<rparr>)
       (masked_write (pc_byte_count p) offset data PARALLEL_BYTE_COUNT_MASK))) (
     at_register s e PARALLEL_CURRENT_BUFFER_POINTER (\<lambda>offset. put (map_option (\<lambda>v. p\<lparr>pc_current_buffer_pointer := v\<rparr>)
       (masked_write (pc_current_buffer_pointer p) offset data PARALLEL_CURRENT_BUFFER_POINTER_MASK))) (
     at_register s e PARALLEL_NEXT_DESCRIPTOR_POINTER (\<lambda>offset. put (map_option (\<lambda>v. p\<lparr>pc_next_descriptor_pointer := v\<rparr>)
       (masked_write (pc_next_descriptor_pointer p) offset data PARALLEL_DESCRIPTOR_POINTER_MASK))) (
     at_register s e PARALLEL_CONTROL (\<lambda>offset. put (parallel_write_control offset data p)) (
     at_word s e PARALLEL_FIFO_POINTER (put (map_option (\<lambda>f. p\<lparr>pc_fifo := f\<rparr>)
       (write_tagged_fifo_pointer (word_of_bytes data) (pc_control p AND PARALLEL_TO_MEMORY \<noteq> 0) (pc_fifo p)))) (
     at_word s e PARALLEL_FIFO (put (map_option (\<lambda>f. p\<lparr>pc_fifo := f\<rparr>) (put_fifo_word (word_of_bytes data) (pc_fifo p)))) (
     hpc1_write_other h s e data)))))))"

definition hpc1_write_scsi :: "hpc1 \<Rightarrow> u64 \<Rightarrow> u64 \<Rightarrow> u8 list \<Rightarrow> hpc1_write_result" where
  "hpc1_write_scsi h s e data = (
     let i = hp_scsi h;
         put = (\<lambda>m. map_option (\<lambda>i. (Inr (), h\<lparr>hp_scsi := i\<rparr>)) m) in
     at_register s e SCSI_BYTE_COUNT (\<lambda>offset. put (map_option (\<lambda>v. i\<lparr>sc_byte_count := ucast v AND SCSI_BYTE_COUNT_MASK\<rparr>)
       (write_register (ucast (sc_byte_count i)) offset data))) (
     at_register s e SCSI_CURRENT_BUFFER_POINTER (\<lambda>offset. put (scsi_write_current_buffer_pointer offset data i)) (
     at_register s e SCSI_NEXT_DESCRIPTOR_POINTER (\<lambda>offset. put (scsi_write_next_descriptor offset data i)) (
     at_register s e SCSI_CONTROL (\<lambda>offset. put (scsi_write_control offset data i)) (
     at_word s e SCSI_FIFO_POINTER (put (map_option (\<lambda>f. i\<lparr>sc_fifo := f\<rparr>)
       (write_tagged_fifo_pointer (word_of_bytes data) (sc_control i AND SCSI_TO_MEMORY \<noteq> 0) (sc_fifo i)))) (
     at_word s e SCSI_FIFO (put (map_option (\<lambda>f. i\<lparr>sc_fifo := f\<rparr>) (put_fifo_word (word_of_bytes data) (sc_fifo i)))) (
     hpc1_write_parallel h s e data)))))))"

definition hpc1_write_register :: "hpc1 \<Rightarrow> u64 \<Rightarrow> u64 \<Rightarrow> u8 list \<Rightarrow> hpc1_write_result" where
  "hpc1_write_register h s e data = (
     let c = hp_ethernet h; v = word_of_bytes data;
         put = (\<lambda>m. map_option (\<lambda>c. (Inr (), h\<lparr>hp_ethernet := c\<rparr>)) m);
         masked = (\<lambda>old bits upd offset. put (map_option upd (masked_write old offset data bits))) in
     at_register s e ETHERNET_CURRENT_TRANSMIT_BUFFER_POINTER
       (masked (ec_current_transmit_buffer_pointer c) ETHERNET_CURRENT_BUFFER_POINTER_MASK
          (\<lambda>v. c\<lparr>ec_current_transmit_buffer_pointer := v\<rparr>)) (
     at_register s e ETHERNET_NEXT_TRANSMIT_DESCRIPTOR_POINTER
       (masked (ec_next_transmit_descriptor_pointer c) ETHERNET_ADDRESS_MASK
          (\<lambda>v. c\<lparr>ec_next_transmit_descriptor_pointer := v\<rparr>)) (
     at_register s e ETHERNET_TRANSMIT_BYTE_COUNT
       (masked (ec_transmit_byte_count c) ETHERNET_TRANSMIT_BYTE_COUNT_MASK (\<lambda>v. c\<lparr>ec_transmit_byte_count := v\<rparr>)) (
     at_word s e ETHERNET_TRANSMIT_FIFO_POINTER (put (Some (write_transmit_fifo_pointer v c))) (
     at_word s e ETHERNET_TRANSMIT_FIFO (put (map_option (\<lambda>f. c\<lparr>ec_transmit_fifo := f\<rparr>)
       (put_tagged_fifo_word v (ec_transmit_fifo_write_flag c) (ec_transmit_fifo c)))) (
     at_register s e ETHERNET_CURRENT_TRANSMIT_DESCRIPTOR_POINTER
       (masked (ec_current_transmit_descriptor_pointer c) ETHERNET_ADDRESS_MASK
          (\<lambda>v. c\<lparr>ec_current_transmit_descriptor_pointer := v\<rparr>)) (
     at_register s e ETHERNET_CURRENT_PACKET_FIRST_TRANSMIT_DESCRIPTOR_POINTER
       (masked (ec_current_packet_first_transmit_descriptor_pointer c) ETHERNET_ADDRESS_MASK
          (\<lambda>v. c\<lparr>ec_current_packet_first_transmit_descriptor_pointer := v\<rparr>)) (
     at_register s e ETHERNET_PREVIOUS_PACKET_FIRST_TRANSMIT_DESCRIPTOR_POINTER
       (masked (ec_previous_packet_first_transmit_descriptor_pointer c) ETHERNET_ADDRESS_MASK
          (\<lambda>v. c\<lparr>ec_previous_packet_first_transmit_descriptor_pointer := v\<rparr>)) (
     at_word s e ETHERNET_TIMER (put (Some (write_timer v c))) (
     at_register s e ETHERNET_TRANSMIT_STATUS (\<lambda>offset. put (write_transmit_status offset data c)) (
     at_register s e ETHERNET_RECEIVE_STATUS (\<lambda>offset. put (write_receive_status offset data c)) (
     at_register s e ETHERNET_RESET (\<lambda>offset. put (ethernet_write_control offset data c)) (
     at_register s e ETHERNET_RECEIVE_BYTE_COUNT
       (masked (ec_receive_byte_count c) ETHERNET_BYTE_COUNT_MASK (\<lambda>v. c\<lparr>ec_receive_byte_count := v\<rparr>)) (
     at_register s e ETHERNET_CURRENT_RECEIVE_BUFFER_POINTER
       (masked (ec_current_receive_buffer_pointer c) ETHERNET_CURRENT_BUFFER_POINTER_MASK
          (\<lambda>v. c\<lparr>ec_current_receive_buffer_pointer := v\<rparr>)) (
     at_register s e ETHERNET_NEXT_RECEIVE_DESCRIPTOR_POINTER
       (masked (ec_next_receive_descriptor_pointer c) ETHERNET_ADDRESS_MASK
          (\<lambda>v. c\<lparr>ec_next_receive_descriptor_pointer := v\<rparr>)) (
     at_register s e ETHERNET_CURRENT_RECEIVE_DESCRIPTOR_POINTER
       (masked (ec_current_receive_descriptor_pointer c) ETHERNET_ADDRESS_MASK
          (\<lambda>v. c\<lparr>ec_current_receive_descriptor_pointer := v\<rparr>)) (
     at_word s e ETHERNET_RECEIVE_FIFO_POINTER (put (Some (write_receive_fifo_pointer v c))) (
     at_word s e ETHERNET_RECEIVE_FIFO (put (map_option (\<lambda>f. c\<lparr>ec_receive_fifo := f\<rparr>)
       (put_fifo_word v (ec_receive_fifo c)))) (
     hpc1_write_scsi h s e data)))))))))))))))))))"

definition hpc1_write :: "hpc1 \<Rightarrow> device_addr \<Rightarrow> u8 list \<Rightarrow> hpc1_write_result" where
  "hpc1_write h address data =
     (case transaction_bounds address (length data) of
        Inl err \<Rightarrow> Some (Inl err, h)
      | Inr (s, e) \<Rightarrow> hpc1_write_register h s e data)"

section \<open>Time\<close>

definition hpc1_ethernet_time_until_event :: "bool \<Rightarrow> hpc1 \<Rightarrow> virtual_duration option option" where
  "hpc1_ethernet_time_until_event transmitter_ready h =
     ethernet_time_until_event transmitter_ready (hp_clock_phase h) (hp_ethernet h)"

definition clock_ticks :: "virtual_duration \<Rightarrow> u128 \<Rightarrow> u128 \<times> u128 \<times> u128" where
  "clock_ticks elapsed phase = (
     let whole_seconds = elapsed div ATTOSECONDS_PER_SECOND; partial = elapsed mod ATTOSECONDS_PER_SECOND;
         scaled = partial * HPC_CLOCK_FREQUENCY + phase
     in (whole_seconds, scaled div ATTOSECONDS_PER_SECOND, scaled mod ATTOSECONDS_PER_SECOND))"

definition hpc1_advance_time :: "virtual_duration \<Rightarrow> hpc1 \<Rightarrow> hpc1 option" where
  "hpc1_advance_time elapsed h = (
     let (whole_seconds, partial_ticks, phase) = clock_ticks elapsed (hp_clock_phase h);
         whole_ticks = (whole_seconds mod FREE_RUNNING_COUNTER_MODULUS)
           * (HPC_CLOCK_FREQUENCY mod FREE_RUNNING_COUNTER_MODULUS);
         wrapping_ticks = (whole_ticks + partial_ticks mod FREE_RUNNING_COUNTER_MODULUS) mod FREE_RUNNING_COUNTER_MODULUS;
         counter = ucast ((ucast (hp_free_running_counter h) + wrapping_ticks) mod FREE_RUNNING_COUNTER_MODULUS);
         timer_ticks = (if whole_seconds = 0 then partial_ticks else - 1)
     in map_option (\<lambda>c. h\<lparr>hp_clock_phase := phase, hp_free_running_counter := counter, hp_ethernet := c\<rparr>)
          (ethernet_advance_time elapsed timer_ticks (hp_ethernet h)))"

section \<open>Outputs and board-driven channels\<close>

definition take_ethernet_reset_request :: "hpc1 \<Rightarrow> bool \<times> hpc1" where
  "take_ethernet_reset_request h =
     (ec_reset_output_pending (hp_ethernet h),
      h\<lparr>hp_ethernet := (hp_ethernet h)\<lparr>ec_reset_output_pending := False\<rparr>\<rparr>)"

definition hpc1_ethernet_loopback :: "hpc1 \<Rightarrow> bool" where
  "hpc1_ethernet_loopback h = loopback_enabled (hp_ethernet h)"

definition hpc1_receive_ethernet_frame :: "u8 list \<Rightarrow> u8 \<Rightarrow> bool \<Rightarrow> hpc1 \<Rightarrow> hpc1" where
  "hpc1_receive_ethernet_frame bytes status interrupt_requested h =
     h\<lparr>hp_ethernet := receive_frame bytes status interrupt_requested (hp_ethernet h)\<rparr>"

definition next_ethernet_request :: "bool \<Rightarrow> hpc1 \<Rightarrow> (ethernet_request option \<times> hpc1) option" where
  "next_ethernet_request transmitter_ready h =
     map_option (\<lambda>(r, c). (r, h\<lparr>hp_ethernet := c\<rparr>)) (next_request transmitter_ready (hp_ethernet h))"

definition complete_ethernet_read :: "ethernet_read_kind \<Rightarrow> u8 list option \<Rightarrow> hpc1 \<Rightarrow> hpc1 option" where
  "complete_ethernet_read kind data h =
     map_option (\<lambda>c. h\<lparr>hp_ethernet := c\<rparr>) (complete_read kind data (hp_ethernet h))"

definition complete_ethernet_write :: "ethernet_write_kind \<Rightarrow> nat \<Rightarrow> bool \<Rightarrow> hpc1 \<Rightarrow> hpc1 option" where
  "complete_ethernet_write kind n success h =
     map_option (\<lambda>c. h\<lparr>hp_ethernet := c\<rparr>) (complete_write kind n success (hp_ethernet h))"

definition complete_ethernet_transmit :: "u8 \<Rightarrow> bool \<Rightarrow> hpc1 \<Rightarrow> hpc1" where
  "complete_ethernet_transmit status interrupt h =
     h\<lparr>hp_ethernet := complete_transmit status interrupt (hp_ethernet h)\<rparr>"

definition take_scsi_reset_request :: "hpc1 \<Rightarrow> bool \<times> hpc1" where
  "take_scsi_reset_request h =
     (sc_reset_output_pending (hp_scsi h), h\<lparr>hp_scsi := (hp_scsi h)\<lparr>sc_reset_output_pending := False\<rparr>\<rparr>)"

definition take_scsi_descriptor_fetch :: "hpc1 \<Rightarrow> u32 option \<times> hpc1" where
  "take_scsi_descriptor_fetch h =
     (if sc_descriptor_fetch_pending (hp_scsi h)
      then (Some (sc_next_descriptor_pointer (hp_scsi h)),
            h\<lparr>hp_scsi := (hp_scsi h)\<lparr>sc_descriptor_fetch_pending := False\<rparr>\<rparr>)
      else (None, h))"

definition load_scsi_descriptor :: "u8 list \<Rightarrow> hpc1 \<Rightarrow> hpc1 option" where
  "load_scsi_descriptor descriptor h = do {
     require (length descriptor = 12);
     let count = (from_be_bytes (take 4 descriptor) :: u32);
     let buffer = (from_be_bytes (take 4 (drop 4 descriptor)) :: u32);
     let next_pointer = (from_be_bytes (take 4 (drop 8 descriptor)) :: u32);
     Some (h\<lparr>hp_scsi := (hp_scsi h)
       \<lparr>sc_byte_count := ucast count AND SCSI_BYTE_COUNT_MASK,
        sc_current_buffer_address := buffer AND SCSI_ADDRESS_MASK,
        sc_next_descriptor_pointer := next_pointer AND SCSI_ADDRESS_MASK,
        sc_descriptor_end := (buffer AND SCSI_DESCRIPTOR_END \<noteq> 0),
        sc_descriptor_loaded := True, sc_descriptor_fetch_pending := False\<rparr>\<rparr>)
   }"

record scsi_dma_window =
  dw_buffer_address :: u32
  dw_byte_count :: u16
  dw_to_memory :: bool

definition hpc1_scsi_dma_window :: "hpc1 \<Rightarrow> scsi_dma_window option" where
  "hpc1_scsi_dma_window h = (
     let i = hp_scsi h
     in if sc_control i AND SCSI_START_DMA = 0 \<or> \<not> sc_descriptor_loaded i \<or> sc_byte_count i = 0 then None
        else Some \<lparr>dw_buffer_address = sc_current_buffer_address i, dw_byte_count = sc_byte_count i,
                   dw_to_memory = (sc_control i AND SCSI_TO_MEMORY \<noteq> 0)\<rparr>)"

definition consume_scsi_dma_bytes :: "u16 \<Rightarrow> hpc1 \<Rightarrow> bool \<times> hpc1" where
  "consume_scsi_dma_bytes byte_count h = (
     let i = hp_scsi h
     in if sc_byte_count i < byte_count then (False, h)
        else
          let i = i\<lparr>sc_byte_count := sc_byte_count i - byte_count,
                    sc_current_buffer_address := (sc_current_buffer_address i + ucast byte_count) AND SCSI_ADDRESS_MASK\<rparr>;
              i = (if sc_byte_count i = 0 then
                     let i = i\<lparr>sc_descriptor_loaded := False\<rparr>
                     in if sc_descriptor_end i then i\<lparr>sc_control := sc_control i AND NOT SCSI_START_DMA\<rparr>
                        else i\<lparr>sc_descriptor_fetch_pending := True\<rparr>
                   else i)
          in (True, h\<lparr>hp_scsi := i\<rparr>))"

definition finish_scsi_dma :: "hpc1 \<Rightarrow> hpc1" where
  "finish_scsi_dma h =
     h\<lparr>hp_scsi := (hp_scsi h)\<lparr>sc_control := sc_control (hp_scsi h) AND NOT SCSI_START_DMA,
                             sc_descriptor_fetch_pending := False\<rparr>\<rparr>"

definition stop_scsi_dma :: "hpc1 \<Rightarrow> hpc1" where
  "stop_scsi_dma h =
     h\<lparr>hp_scsi := (hp_scsi h)\<lparr>sc_control := sc_control (hp_scsi h) AND NOT SCSI_START_DMA,
                             sc_descriptor_fetch_pending := False\<rparr>\<rparr>"

end
