(* ===== verification/Hpc1_Correct.thy ===== *)
theory Hpc1_Correct
  imports Hpc1 Timed
begin

text \<open>
  Correctness of the HPC1 controller: no sequence of register accesses, elapsed time and served
  requests panics, time may be delivered in any pieces, and the receive engine stores a frame and
  its status through the descriptor it was given.
\<close>

section \<open>Invariant\<close>

definition fifo_ok :: "diagnostic_fifo \<Rightarrow> bool" where
  "fifo_ok f \<longleftrightarrow> length (df_data f) = 16 \<and> length (df_flags f) = 16 \<and> df_read_index f < 16 \<and> df_write_index f < 16"

definition ethernet_channel_ok :: "ethernet_channel \<Rightarrow> bool" where
  "ethernet_channel_ok c \<longleftrightarrow> fifo_ok (ec_transmit_fifo c) \<and> fifo_ok (ec_receive_fifo c)
     \<and> ec_transmit_fifo_lane c \<le> 3 \<and> ec_receive_fifo_lane c \<le> 3
     \<and> (ec_receive_stage c = RxData \<longrightarrow> ec_receive_offset c \<le> length (ec_receive_frame c))
     \<and> (ec_receive_stage c = RxDescriptor \<longrightarrow> ec_receive_offset c = 0)
     \<and> ec_timer_count c < 0x100000"

definition hpc1_ok :: "hpc1 \<Rightarrow> bool" where
  "hpc1_ok h \<longleftrightarrow> ethernet_channel_ok (hp_ethernet h) \<and> fifo_ok (sc_fifo (hp_scsi h)) \<and> fifo_ok (pc_fifo (hp_parallel h))
     \<and> hp_clock_phase h < ATTOSECONDS_PER_SECOND"

lemma fifo_new_ok [simp]: "fifo_ok fifo_new"
  by (simp add: fifo_ok_def fifo_new_def FIFO_ENTRIES_def)

lemma ethernet_channel_new_ok [simp]: "ethernet_channel_ok ethernet_channel_new"
  by (simp add: ethernet_channel_ok_def ethernet_channel_new_def)

lemma hpc1_new_ok: "hpc1_ok hpc1_new"
  by (simp add: hpc1_ok_def hpc1_new_def scsi_channel_new_def parallel_channel_new_def ATTOSECONDS_PER_SECOND_def)

lemma fifo_index_bound: "fifo_index value shift < 16"
  using word_and_mask_lt_nat [of "drop_bit shift value" 4]
  by (simp add: fifo_index_def FIFO_ENTRIES_def mask_eq_exp_minus_1)

lemma fifo_index_simps [simp]:
  "fifo_ok f \<Longrightarrow> fifo_ok (f\<lparr>df_read_index := fifo_index value shift\<rparr>)"
  "fifo_ok f \<Longrightarrow> fifo_ok (f\<lparr>df_write_index := fifo_index value shift\<rparr>)"
  "fifo_ok f \<Longrightarrow> fifo_ok (f\<lparr>df_write_index := fifo_index value shift, df_read_index := fifo_index value' shift'\<rparr>)"
  "fifo_ok f \<Longrightarrow> fifo_ok (fifo_reset_pointers f)"
  by (simp_all add: fifo_ok_def fifo_index_bound fifo_reset_pointers_def)

lemma fifo_accesses:
  assumes "fifo_ok f"
  shows "ok (fifo_word f) (\<lambda>_. True)" "ok (tagged_fifo_pointer f) (\<lambda>_. True)"
    "ok (put_fifo_word v f) fifo_ok" "ok (put_tagged_fifo_word v flag f) fifo_ok"
    "ok (write_tagged_fifo_pointer v to_memory f) fifo_ok"
  using assms
  by (simp_all add: fifo_ok_def fifo_word_def tagged_fifo_pointer_def put_fifo_word_def put_tagged_fifo_word_def
      write_tagged_fifo_pointer_def fifo_index_bound Let_def)

lemma transfer_bytes_ok: "fifo_ok f \<Longrightarrow> lane \<le> 3 \<Longrightarrow> ok (transfer_bytes bytes lane f) (\<lambda>(lane, f). lane \<le> 3 \<and> fifo_ok f)"
proof (induction bytes arbitrary: lane f)
  case (Cons v vs)
  then show ?case by (auto simp: fifo_ok_def FIFO_ENTRIES_def Let_def)
qed simp

section \<open>Register accesses\<close>

definition access_fits :: "u64 \<Rightarrow> u64 \<Rightarrow> nat \<Rightarrow> bool" where
  "access_fits s e len \<longleftrightarrow> e = s + of_nat len \<and> unat s + len < 2 ^ 64"

lemma bounds_fit: "transaction_bounds address len = Inr (s, e) \<Longrightarrow> access_fits s e len"
  by (auto simp: transaction_bounds_def access_fits_def split: if_splits)

lemma offset_fits:
  assumes "access_fits s e len" "register_offset s e r = Some offset" "unat r < 2 ^ 32"
  shows "offset + len \<le> 4"
proof -
  have e: "unat e = unat s + len" using assms(1) by (simp add: access_fits_def unat_word_ariths unat_of_nat)
  have "unat (r + REGISTER_BYTES) = unat r + 4" using assms(3) by (simp add: REGISTER_BYTES_def unat_word_ariths)
  then show ?thesis
    using assms(2) e
    by (auto simp: register_offset_def word_less_nat_alt word_le_nat_alt unat_sub_if' split: if_splits)
qed

lemma hpc1_at_register_ok:
  assumes "access_fits s e len" "unat r < 2 ^ 32" "\<And>offset. offset + len \<le> 4 \<Longrightarrow> ok (hit offset) P" "ok miss P"
  shows "ok (at_register s e r hit miss) P"
  using assms offset_fits [OF assms(1) _ assms(2)] by (auto simp: at_register_def split: option.split)

lemma at_word_ok: "ok hit P \<Longrightarrow> ok miss P \<Longrightarrow> ok (at_word s e r hit miss) P"
  by (simp add: at_word_def)

lemmas register_bounds =
  ETHERNET_CURRENT_TRANSMIT_BUFFER_POINTER_def ETHERNET_NEXT_TRANSMIT_DESCRIPTOR_POINTER_def
  ETHERNET_TRANSMIT_BYTE_COUNT_def ETHERNET_CURRENT_TRANSMIT_DESCRIPTOR_POINTER_def
  ETHERNET_CURRENT_PACKET_FIRST_TRANSMIT_DESCRIPTOR_POINTER_def
  ETHERNET_PREVIOUS_PACKET_FIRST_TRANSMIT_DESCRIPTOR_POINTER_def ETHERNET_TRANSMIT_STATUS_def
  ETHERNET_RECEIVE_STATUS_def ETHERNET_RESET_def ETHERNET_RECEIVE_BYTE_COUNT_def
  ETHERNET_CURRENT_RECEIVE_BUFFER_POINTER_def ETHERNET_NEXT_RECEIVE_DESCRIPTOR_POINTER_def
  ETHERNET_CURRENT_RECEIVE_DESCRIPTOR_POINTER_def SCSI_BYTE_COUNT_def SCSI_CURRENT_BUFFER_POINTER_def
  SCSI_NEXT_DESCRIPTOR_POINTER_def SCSI_CONTROL_def SCSI_FIFO_POINTER_def PARALLEL_BYTE_COUNT_def
  PARALLEL_CURRENT_BUFFER_POINTER_def PARALLEL_NEXT_DESCRIPTOR_POINTER_def PARALLEL_CONTROL_def ENDIAN_CONTROL_def

lemma register_parts:
  "offset + len \<le> 4 \<Longrightarrow> ok (read_register v offset len) (\<lambda>_. True)"
  "offset + length data \<le> 4 \<Longrightarrow> ok (write_register v offset data) (\<lambda>_. True)"
  "offset + length data \<le> 4 \<Longrightarrow> ok (masked_write v offset data bits) (\<lambda>_. True)"
  by (simp_all add: read_register_def write_register_def masked_write_def)

lemma branch_ok: "ok m P \<Longrightarrow> ok n P \<Longrightarrow> ok (if c then m else n) P"
  by simp

lemma hpc1_read_other_ok:
  assumes "access_fits s e len"
  shows "ok (hpc1_read_other h s e len) (\<lambda>_. True)"
  unfolding hpc1_read_other_def Let_def
  by (intro branch_ok hpc1_at_register_ok [OF assms] at_word_ok) (simp_all add: register_bounds register_parts)

lemma hpc1_read_register_ok:
  assumes "hpc1_ok h" "access_fits s e len"
  shows "ok (hpc1_read_register h s e len) (\<lambda>_. True)"
proof -
  have "fifo_ok (ec_transmit_fifo (hp_ethernet h))" "fifo_ok (ec_receive_fifo (hp_ethernet h))"
    "fifo_ok (sc_fifo (hp_scsi h))" "fifo_ok (pc_fifo (hp_parallel h))"
    using assms(1) by (simp_all add: hpc1_ok_def ethernet_channel_ok_def)
  moreover have "ok (transmit_fifo_pointer (hp_ethernet h)) (\<lambda>_. True)"
    using calculation(1) by (simp add: transmit_fifo_pointer_def fifo_ok_def)
  ultimately show ?thesis
    unfolding hpc1_read_register_def Let_def
    by (intro hpc1_at_register_ok [OF assms(2)] at_word_ok hpc1_read_other_ok [OF assms(2)])
      (simp_all add: register_bounds register_parts fifo_accesses)
qed

lemma hpc1_read_ok:
  assumes "hpc1_ok h"
  shows "ok (hpc1_read h address len) (\<lambda>_. True)"
  using hpc1_read_register_ok [OF assms bounds_fit]
  by (cases "transaction_bounds address len") (auto simp: hpc1_read_def)

lemma hpc1_ethernet_update: "hpc1_ok h \<Longrightarrow> ethernet_channel_ok c \<Longrightarrow> hpc1_ok (h\<lparr>hp_ethernet := c\<rparr>)"
  by (simp add: hpc1_ok_def)

lemma timer_count_bound: "drop_bit ETHERNET_TIMER_COUNT_SHIFT (value AND ETHERNET_TIMER_COUNT_MASK) < 0x100000"
proof -
  have "unat (value AND ETHERNET_TIMER_COUNT_MASK) \<le> unat ETHERNET_TIMER_COUNT_MASK" by (rule word_and_le_nat)
  then have "unat (value AND ETHERNET_TIMER_COUNT_MASK) \<le> 0xfffff0" by (simp add: ETHERNET_TIMER_COUNT_MASK_def)
  then have "unat (drop_bit 4 (value AND ETHERNET_TIMER_COUNT_MASK)) < 0x100000"
    by (simp add: drop_bit_eq_div unat_div)
  then show ?thesis by (simp add: word_less_nat_alt ETHERNET_TIMER_COUNT_SHIFT_def)
qed

lemma channel_register_writes:
  assumes c: "ethernet_channel_ok c"
  shows "ethernet_channel_ok (write_timer v c)" "ethernet_channel_ok (write_transmit_fifo_pointer v c)"
    "ethernet_channel_ok (write_receive_fifo_pointer v c)"
    "offset + length data \<le> 4 \<Longrightarrow> ok (write_transmit_status offset data c) ethernet_channel_ok"
    "offset + length data \<le> 4 \<Longrightarrow> ok (write_receive_status offset data c) ethernet_channel_ok"
    "offset + length data \<le> 4 \<Longrightarrow> ok (ethernet_write_control offset data c) ethernet_channel_ok"
proof -
  show "ethernet_channel_ok (write_timer v c)"
    using c timer_count_bound [of v] by (simp add: write_timer_def ethernet_channel_ok_def Let_def)
  show "ethernet_channel_ok (write_transmit_fifo_pointer v c)" "ethernet_channel_ok (write_receive_fifo_pointer v c)"
    using c by (simp_all add: write_transmit_fifo_pointer_def write_receive_fifo_pointer_def ethernet_channel_ok_def Let_def)
  show "offset + length data \<le> 4 \<Longrightarrow> ok (write_transmit_status offset data c) ethernet_channel_ok"
    using c register_parts(3) [of offset data "ec_transmit_status c" ETHERNET_TRANSMIT_STATUS_BITS]
    by (auto simp: write_transmit_status_def Let_def ethernet_channel_ok_def elim!: ok_mono)
  show "offset + length data \<le> 4 \<Longrightarrow> ok (write_receive_status offset data c) ethernet_channel_ok"
    using c register_parts(3) [of offset data "ec_receive_status c" ETHERNET_RECEIVE_STATUS_BITS]
    by (auto simp: write_receive_status_def Let_def ethernet_channel_ok_def elim!: ok_mono)
  have reset: "ethernet_channel_ok ((ethernet_reset_data_path d)\<lparr>ec_reset_output_pending := True\<rparr>)" for d
    by (simp add: ethernet_reset_data_path_def ethernet_channel_ok_def ethernet_channel_new_def)
  have control: "ethernet_channel_ok (c\<lparr>ec_control := v\<rparr>)" for v using c by (simp add: ethernet_channel_ok_def)
  show "offset + length data \<le> 4 \<Longrightarrow> ok (ethernet_write_control offset data c) ethernet_channel_ok"
    using c reset control register_parts(3) [of offset data 0 ETHERNET_CONTROL_BITS]
    by (auto simp: ethernet_write_control_def Let_def elim!: ok_mono)
qed

lemma masked_update:
  "offset + length data \<le> 4 \<Longrightarrow> (\<And>v. P (upd v)) \<Longrightarrow> ok (map_option upd (masked_write old offset data bits)) P"
  by (simp add: masked_write_def write_register_def)

lemma scsi_register_writes:
  assumes "fifo_ok (sc_fifo i)" "offset + length data \<le> 4"
  shows "ok (scsi_write_current_buffer_pointer offset data i) (\<lambda>i. fifo_ok (sc_fifo i))"
    "ok (scsi_write_next_descriptor offset data i) (\<lambda>i. fifo_ok (sc_fifo i))"
    "ok (scsi_write_control offset data i) (\<lambda>i. fifo_ok (sc_fifo i))"
  using assms
  by (simp_all add: scsi_write_current_buffer_pointer_def scsi_write_next_descriptor_def scsi_write_control_def
      masked_write_def write_register_def Let_def scsi_reset_data_path_def scsi_channel_new_def)

lemma parallel_register_writes:
  assumes "fifo_ok (pc_fifo p)" "offset + length data \<le> 4"
  shows "ok (parallel_write_control offset data p) (\<lambda>p. fifo_ok (pc_fifo p))"
  using assms
  by (simp add: parallel_write_control_def write_register_def Let_def parallel_reset_data_path_def parallel_channel_new_def)

abbreviation written :: "(bus_error + unit) \<times> hpc1 \<Rightarrow> bool" where
  "written \<equiv> \<lambda>(r, h). hpc1_ok h"

lemma hpc1_write_other_ok:
  assumes h: "hpc1_ok h" and a: "access_fits s e (length data)"
  shows "ok (hpc1_write_other h s e data) written"
  using h
  unfolding hpc1_write_other_def Let_def
  by (intro branch_ok hpc1_at_register_ok [OF a] at_word_ok) (simp_all add: register_bounds hpc1_ok_def write_register_def)

lemma hpc1_write_parallel_ok:
  assumes h: "hpc1_ok h" and a: "access_fits s e (length data)"
  shows "ok (hpc1_write_parallel h s e data) written"
proof -
  have f: "fifo_ok (pc_fifo (hp_parallel h))" using h by (simp add: hpc1_ok_def)
  have put: "ok m (\<lambda>p. fifo_ok (pc_fifo p)) \<Longrightarrow> ok (map_option (\<lambda>p. (Inr (), h\<lparr>hp_parallel := p\<rparr>)) m) written" for m
    using h by (auto simp: hpc1_ok_def elim!: ok_mono)
  show ?thesis
    unfolding hpc1_write_parallel_def Let_def
    by (intro hpc1_at_register_ok [OF a] at_word_ok put masked_update hpc1_write_other_ok [OF h a] parallel_register_writes)
      (simp_all add: register_bounds f fifo_accesses)
qed

lemma hpc1_write_scsi_ok:
  assumes h: "hpc1_ok h" and a: "access_fits s e (length data)"
  shows "ok (hpc1_write_scsi h s e data) written"
proof -
  have f: "fifo_ok (sc_fifo (hp_scsi h))" using h by (simp add: hpc1_ok_def)
  have put: "ok m (\<lambda>i. fifo_ok (sc_fifo i)) \<Longrightarrow> ok (map_option (\<lambda>i. (Inr (), h\<lparr>hp_scsi := i\<rparr>)) m) written" for m
    using h by (auto simp: hpc1_ok_def elim!: ok_mono)
  show ?thesis
    unfolding hpc1_write_scsi_def Let_def
    by (intro hpc1_at_register_ok [OF a] at_word_ok put masked_update hpc1_write_parallel_ok [OF h a] scsi_register_writes)
      (simp_all add: register_bounds f fifo_accesses write_register_def)
qed

lemma hpc1_write_register_ok:
  assumes h: "hpc1_ok h" and a: "access_fits s e (length data)"
  shows "ok (hpc1_write_register h s e data) written"
proof -
  have c: "ethernet_channel_ok (hp_ethernet h)" using h by (simp add: hpc1_ok_def)
  then have f: "fifo_ok (ec_transmit_fifo (hp_ethernet h))" "fifo_ok (ec_receive_fifo (hp_ethernet h))"
    by (simp_all add: ethernet_channel_ok_def)
  have put: "ok m ethernet_channel_ok \<Longrightarrow> ok (map_option (\<lambda>c. (Inr (), h\<lparr>hp_ethernet := c\<rparr>)) m) written" for m
    using h by (auto simp: hpc1_ethernet_update elim!: ok_mono)
  have fifo: "ok m fifo_ok \<Longrightarrow> ok (map_option (\<lambda>f. hp_ethernet h\<lparr>ec_transmit_fifo := f\<rparr>) m) ethernet_channel_ok"
    "ok m fifo_ok \<Longrightarrow> ok (map_option (\<lambda>f. hp_ethernet h\<lparr>ec_receive_fifo := f\<rparr>) m) ethernet_channel_ok" for m
    using c by (auto simp: ethernet_channel_ok_def elim!: ok_mono)
  have some: "ethernet_channel_ok d \<Longrightarrow> ok (Some d) ethernet_channel_ok" for d by simp
  show ?thesis
    unfolding hpc1_write_register_def Let_def
    by (intro hpc1_at_register_ok [OF a] at_word_ok put masked_update fifo some hpc1_write_scsi_ok [OF h a]
        channel_register_writes [OF c] fifo_accesses f)
      (use c in \<open>simp_all add: register_bounds ethernet_channel_ok_def\<close>)
qed

lemma hpc1_write_ok:
  assumes "hpc1_ok h"
  shows "ok (hpc1_write h address data) written"
  using assms hpc1_write_register_ok [OF assms bounds_fit]
  by (cases "transaction_bounds address (length data)") (auto simp: hpc1_write_def)

section \<open>Time\<close>

text \<open>The clock in natural numbers: ticks that elapse, and the phase left over.\<close>

definition hpc_ticks :: "virtual_duration \<Rightarrow> u128 \<Rightarrow> nat" where
  "hpc_ticks elapsed phase = (unat elapsed * 33000000 + unat phase) div 1000000000000000000"

definition hpc_phase :: "virtual_duration \<Rightarrow> u128 \<Rightarrow> u128" where
  "hpc_phase elapsed phase = of_nat ((unat elapsed * 33000000 + unat phase) mod 1000000000000000000)"

definition timer_after :: "nat \<Rightarrow> ethernet_channel \<Rightarrow> u32 \<times> bool" where
  "timer_after n c =
     (if ec_timer_expired c \<or> ec_timer_count c = 0 then (ec_timer_count c, ec_timer_expired c)
      else if unat (ec_timer_count c) \<le> n then (0, True)
      else (ec_timer_count c - of_nat n, False))"

definition channel_after :: "virtual_duration \<Rightarrow> nat \<Rightarrow> ethernet_channel \<Rightarrow> ethernet_channel" where
  "channel_after elapsed n c = (
     let (count, expired) = timer_after n c;
         fired = (case ec_transmit_interrupt_delay_attoseconds c of None \<Rightarrow> False | Some d \<Rightarrow> d \<le> elapsed);
         received = (expired \<and> ec_receive_interrupt_waiting c)
     in c\<lparr>ec_timer_count := count, ec_timer_expired := expired,
          ec_dma_delay_attoseconds := saturating_sub_word (ec_dma_delay_attoseconds c) elapsed,
          ec_control := (if fired \<or> received then ec_control c OR ETHERNET_INTERRUPT else ec_control c),
          ec_transmit_interrupt_delay_attoseconds :=
            (if fired then None else map_option (\<lambda>d. d - elapsed) (ec_transmit_interrupt_delay_attoseconds c)),
          ec_receive_interrupt_waiting := (ec_receive_interrupt_waiting c \<and> \<not> expired)\<rparr>)"

lemma saturating_zero: "saturating_sub_word d e = 0 \<longleftrightarrow> d \<le> e"
  by (auto simp: saturating_sub_word_def)

lemma saturating_sub_above: "\<not> d \<le> e \<Longrightarrow> saturating_sub_word d e = d - e"
  by (simp add: saturating_sub_word_def not_le less_imp_le)

lemma or_twice: "(v OR w) OR w = v OR (w :: u32)"
  by (simp add: or.assoc)

lemma unat_widen [simp]: "unat (ucast w :: u128) = unat (w :: u32)"
proof -
  have "unat w < 2 ^ LENGTH(32)" by (rule unsigned_less)
  then show ?thesis by (simp add: unsigned_ucast_eq take_bit_nat_eq_self)
qed

lemma channel_advance_closed:
  assumes ticks: "ec_timer_count c \<noteq> 0 \<and> \<not> ec_timer_expired c \<Longrightarrow>
      (unat (ec_timer_count c) \<le> unat ticks) = (unat (ec_timer_count c) \<le> n) \<and>
      (n < unat (ec_timer_count c) \<longrightarrow> unat ticks = n)"
  shows "ethernet_advance_time elapsed ticks c = Some (channel_after elapsed n c)"
proof -
  have le: "(ucast (ec_timer_count c) \<le> ticks) = (unat (ec_timer_count c) \<le> unat ticks)"
    by (simp add: word_le_nat_alt)
  have small: "unat (ec_timer_count c) < 2 ^ 32" using unsigned_less [of "ec_timer_count c"] by simp
  have "advance_timer ticks c = Some (c\<lparr>ec_timer_count := fst (timer_after n c), ec_timer_expired := snd (timer_after n c)\<rparr>)"
  proof (cases "ec_timer_expired c \<or> ec_timer_count c = 0")
    case False
    note t = ticks [OF False [simplified, THEN conj_commute [THEN iffD1]]]
    show ?thesis
    proof (cases "unat (ec_timer_count c) \<le> n")
      case True
      then show ?thesis using False t le by (simp add: advance_timer_def timer_after_def)
    next
      case more: False
      then have n: "unat ticks = n" using t by simp
      have "ucast ticks = (of_nat n :: u32)" using n by (metis of_nat_unat)
      moreover have "ticks < 2 ^ 32" using n more small by (simp add: word_less_nat_alt)
      ultimately show ?thesis using False t le more by (simp add: advance_timer_def timer_after_def)
    qed
  qed (simp add: advance_timer_def timer_after_def)
  moreover obtain count expired where te: "timer_after n c = (count, expired)" by fastforce
  ultimately have timer: "advance_timer ticks c = Some (c\<lparr>ec_timer_count := count, ec_timer_expired := expired\<rparr>)"
    by simp
  define d where "d = ec_transmit_interrupt_delay_attoseconds c"
  have d: "ec_transmit_interrupt_delay_attoseconds c = d" by (simp add: d_def)
  show ?thesis
    unfolding ethernet_advance_time_def timer bind.bind_lunit Let_def option.inject
    by (rule ethernet_channel.equality; cases d; cases expired; cases "ec_receive_interrupt_waiting c")
      (simp_all add: d channel_after_def te Let_def saturating_zero saturating_sub_above or_twice split: if_splits)
qed

lemma clock_parts:
  assumes "phase < ATTOSECONDS_PER_SECOND"
  shows "clock_ticks elapsed phase =
      (elapsed div ATTOSECONDS_PER_SECOND, fst (snd (clock_ticks elapsed phase)), hpc_phase elapsed phase)"
    "unat elapsed div 1000000000000000000 * 33000000 + unat (fst (snd (clock_ticks elapsed phase)))
      = hpc_ticks elapsed phase"
proof -
  let ?A = "1000000000000000000 :: nat"
  let ?s = "elapsed mod ATTOSECONDS_PER_SECOND * HPC_CLOCK_FREQUENCY + phase"
  have A: "unat ATTOSECONDS_PER_SECOND = ?A" by (simp add: ATTOSECONDS_PER_SECOND_def)
  have m: "unat (elapsed mod ATTOSECONDS_PER_SECOND) = unat elapsed mod ?A" by (simp add: unat_mod A)
  have lt: "unat elapsed mod ?A < ?A" by simp
  have ph: "unat phase < ?A" using assms A by (simp add: word_less_nat_alt)
  have s: "unat ?s = unat elapsed mod ?A * 33000000 + unat phase"
    using lt ph by (simp add: unat_word_ariths(1,2) m HPC_CLOCK_FREQUENCY_def)
  have split: "unat elapsed * 33000000 + unat phase = unat ?s + (unat elapsed div ?A * 33000000) * ?A"
    unfolding s using div_mult_mod_eq [of "unat elapsed" ?A] by linarith
  have "hpc_ticks elapsed phase = unat elapsed div ?A * 33000000 + unat ?s div ?A"
    unfolding hpc_ticks_def split by (simp only: div_mult_self1 zero_neq_numeral not_False_eq_True)
  then show "unat elapsed div ?A * 33000000 + unat (fst (snd (clock_ticks elapsed phase))) = hpc_ticks elapsed phase"
    by (simp add: clock_ticks_def Let_def unat_div A)
  have "unat (?s mod ATTOSECONDS_PER_SECOND) = (unat elapsed * 33000000 + unat phase) mod ?A"
    unfolding split unat_mod A by (simp only: mod_mult_self1)
  then have "?s mod ATTOSECONDS_PER_SECOND = hpc_phase elapsed phase"
    unfolding hpc_phase_def by (metis of_nat_unat ucast_id)
  then show "clock_ticks elapsed phase =
      (elapsed div ATTOSECONDS_PER_SECOND, fst (snd (clock_ticks elapsed phase)), hpc_phase elapsed phase)"
    by (simp add: clock_ticks_def Let_def)
qed

lemma unat_hpc_phase: "unat (hpc_phase e p) = (unat e * 33000000 + unat p) mod 1000000000000000000"
proof -
  have "(unat e * 33000000 + unat p) mod 1000000000000000000 < 1000000000000000000" by simp
  also have "\<dots> < 2 ^ 128" by simp
  finally show ?thesis by (simp add: hpc_phase_def unat_of_nat)
qed

lemma hpc_phase_bound: "hpc_phase e p < ATTOSECONDS_PER_SECOND"
  by (simp add: word_less_nat_alt unat_hpc_phase ATTOSECONDS_PER_SECOND_def)

lemma hpc_ticks_split:
  assumes "unat a + unat b < 2 ^ 128"
  shows "hpc_ticks (a + b) p = hpc_ticks a p + hpc_ticks b (hpc_phase a p)"
    "hpc_phase (a + b) p = hpc_phase b (hpc_phase a p)"
proof -
  let ?A = "1000000000000000000 :: nat"
  have sum: "unat (a + b) = unat a + unat b" using assms by (simp add: unat_word_ariths)
  have s: "(unat a + unat b) * 33000000 + unat p
      = (unat b * 33000000 + (unat a * 33000000 + unat p) mod ?A) + (unat a * 33000000 + unat p) div ?A * ?A"
    using div_mult_mod_eq [of "unat a * 33000000 + unat p" ?A] by (simp add: algebra_simps)
  show "hpc_ticks (a + b) p = hpc_ticks a p + hpc_ticks b (hpc_phase a p)"
    unfolding hpc_ticks_def unat_hpc_phase sum s
    by (simp only: div_mult_self1 zero_neq_numeral not_False_eq_True)
  show "hpc_phase (a + b) p = hpc_phase b (hpc_phase a p)"
    unfolding hpc_phase_def [of b] hpc_phase_def [of "a + b"] unat_hpc_phase sum s by (simp only: mod_mult_self1)
qed

definition counter_after :: "nat \<Rightarrow> u32 \<Rightarrow> u32" where
  "counter_after n counter = of_nat ((unat counter + n) mod 0x1000000)"

definition hpc1_after :: "virtual_duration \<Rightarrow> hpc1 \<Rightarrow> hpc1" where
  "hpc1_after elapsed h = (
     let n = hpc_ticks elapsed (hp_clock_phase h)
     in h\<lparr>hp_clock_phase := hpc_phase elapsed (hp_clock_phase h),
          hp_free_running_counter := counter_after n (hp_free_running_counter h),
          hp_ethernet := channel_after elapsed n (hp_ethernet h)\<rparr>)"


lemma timer_after_add: "timer_after (m + n) c =
    timer_after n (c\<lparr>ec_timer_count := fst (timer_after m c), ec_timer_expired := snd (timer_after m c)\<rparr>)"
proof (cases "ec_timer_expired c \<or> ec_timer_count c = 0 \<or> unat (ec_timer_count c) \<le> m")
  case False
  then have le: "m < unat (ec_timer_count c)" by simp
  have "unat (ec_timer_count c) < 2 ^ LENGTH(32)" by (rule unsigned_less)
  then have "unat (of_nat m :: u32) = m" using le by (simp add: unat_of_nat)
  then have "unat (ec_timer_count c - of_nat m) = unat (ec_timer_count c) - m"
    using le by (simp add: unat_sub word_le_nat_alt)
  moreover have "ec_timer_count c - of_nat m \<noteq> 0" using calculation le by (metis unat_0 zero_less_diff less_irrefl)
  ultimately show ?thesis using False le by (simp add: timer_after_def) (auto simp: algebra_simps)
qed (auto simp: timer_after_def)

lemma saturating_twice:
  assumes "unat a + unat b < 2 ^ LENGTH('a::len)"
  shows "saturating_sub_word (saturating_sub_word d a) b = saturating_sub_word d (a + b :: 'a word)"
proof -
  have "unat (a + b) = unat a + unat b" using assms by (simp add: unat_word_ariths)
  then show ?thesis
    by (auto simp: saturating_sub_word_def word_le_nat_alt unat_sub_if' algebra_simps unsigned_eq_0_iff)
qed

lemma counter_after_add: "counter_after (m + n) v = counter_after n (counter_after m v)"
proof -
  have "(unat v + m) mod 0x1000000 < 0x1000000" by simp
  then have "unat (counter_after m v) = (unat v + m) mod 0x1000000"
    by (simp add: counter_after_def unat_of_nat)
  then show ?thesis unfolding counter_after_def [of n] by (simp add: counter_after_def mod_add_left_eq add.assoc)
qed

lemma timer_after_cong:
  "ec_timer_count c = ec_timer_count d \<Longrightarrow> ec_timer_expired c = ec_timer_expired d \<Longrightarrow> timer_after n c = timer_after n d"
  by (simp add: timer_after_def)

lemma channel_after_fields:
  "ec_timer_count (channel_after e n c) = fst (timer_after n c)"
  "ec_timer_expired (channel_after e n c) = snd (timer_after n c)"
  "ec_dma_delay_attoseconds (channel_after e n c) = saturating_sub_word (ec_dma_delay_attoseconds c) e"
  "ec_transmit_interrupt_delay_attoseconds (channel_after e n c) =
    (case ec_transmit_interrupt_delay_attoseconds c of None \<Rightarrow> None | Some d \<Rightarrow> if d \<le> e then None else Some (d - e))"
  "ec_receive_interrupt_waiting (channel_after e n c) \<longleftrightarrow> ec_receive_interrupt_waiting c \<and> \<not> snd (timer_after n c)"
  "ec_control (channel_after e n c) =
    (if (case ec_transmit_interrupt_delay_attoseconds c of None \<Rightarrow> False | Some d \<Rightarrow> d \<le> e)
        \<or> snd (timer_after n c) \<and> ec_receive_interrupt_waiting c
     then ec_control c OR ETHERNET_INTERRUPT else ec_control c)"
  by (simp_all add: channel_after_def split_beta Let_def split: option.split)

lemma channel_after_add:
  assumes "unat a + unat b < 2 ^ 128"
  shows "channel_after (a + b) (m + n) c = channel_after b n (channel_after a m c)"
proof -
  let ?c = "channel_after a m c"
  have timer: "timer_after (m + n) c = timer_after n ?c"
    unfolding timer_after_add by (rule timer_after_cong) (simp_all add: channel_after_fields)
  have later: "snd (timer_after m c) \<Longrightarrow> snd (timer_after n ?c)"
    by (simp add: timer_after_def [of n] channel_after_fields)
  have sum: "unat (a + b) = unat a + unat b" using assms by (simp add: unat_word_ariths)
  have past: "x \<le> a + b \<longleftrightarrow> x \<le> a \<or> x - a \<le> b" for x
    using sum by (auto simp: word_le_nat_alt unat_sub_if')
  have "saturating_sub_word (ec_dma_delay_attoseconds c) (a + b) = saturating_sub_word (saturating_sub_word (ec_dma_delay_attoseconds c) a) b"
    using assms by (simp add: saturating_twice)
  then have "ec_dma_delay_attoseconds (channel_after (a + b) (m + n) c) = ec_dma_delay_attoseconds (channel_after b n ?c)"
    by (simp add: channel_after_fields)
  moreover have "ec_transmit_interrupt_delay_attoseconds (channel_after (a + b) (m + n) c)
      = ec_transmit_interrupt_delay_attoseconds (channel_after b n ?c)"
    by (cases "ec_transmit_interrupt_delay_attoseconds c") (simp_all add: channel_after_fields past diff_diff_eq)
  moreover have "ec_receive_interrupt_waiting (channel_after (a + b) (m + n) c)
      = ec_receive_interrupt_waiting (channel_after b n ?c)"
    using later by (auto simp: channel_after_fields timer)
  moreover have "ec_control (channel_after (a + b) (m + n) c) = ec_control (channel_after b n ?c)"
    using later
    by (cases "ec_transmit_interrupt_delay_attoseconds c")
      (auto simp: channel_after_fields(4,5,6) timer past or_twice)
  moreover have "ec_timer_count (channel_after (a + b) (m + n) c) = ec_timer_count (channel_after b n ?c)"
    "ec_timer_expired (channel_after (a + b) (m + n) c) = ec_timer_expired (channel_after b n ?c)"
    by (simp_all add: channel_after_fields timer)
  ultimately show ?thesis
    by - (rule ethernet_channel.equality; (assumption | simp add: channel_after_def split_beta Let_def))
qed


lemma timer_after_bound:
  assumes "ec_timer_count c < 0x100000"
  shows "fst (timer_after n c) < 0x100000"
proof (cases "ec_timer_expired c \<or> ec_timer_count c = 0 \<or> unat (ec_timer_count c) \<le> n")
  case False
  then have "unat (of_nat n :: u32) \<le> n" by (simp add: unat_of_nat)
  then have "of_nat n \<le> ec_timer_count c" using False by (simp add: word_le_nat_alt)
  then have "ec_timer_count c - of_nat n \<le> ec_timer_count c" by (simp add: word_sub_le_iff)
  then show ?thesis using False assms by (simp add: timer_after_def)
qed (use assms in \<open>auto simp: timer_after_def\<close>)

lemma mod_parts: "((w mod m) * k + p mod m) mod m = (w * k + p) mod (m :: nat)"
  by (simp add: mod_simps) (metis mod_add_left_eq mod_mult_left_eq)

lemma counter_wraps:
  assumes W: "unat (seconds :: u128) = w" and n: "w * 33000000 + unat partial = n"
  shows "ucast ((ucast v + ((seconds mod FREE_RUNNING_COUNTER_MODULUS)
        * (HPC_CLOCK_FREQUENCY mod FREE_RUNNING_COUNTER_MODULUS) + partial mod FREE_RUNNING_COUNTER_MODULUS)
        mod FREE_RUNNING_COUNTER_MODULUS) mod FREE_RUNNING_COUNTER_MODULUS) = counter_after n v"
proof -
  let ?M = "16777216 :: nat"
  let ?X = "seconds mod FREE_RUNNING_COUNTER_MODULUS * (HPC_CLOCK_FREQUENCY mod FREE_RUNNING_COUNTER_MODULUS)
    + partial mod FREE_RUNNING_COUNTER_MODULUS"
  have M: "unat FREE_RUNNING_COUNTER_MODULUS = ?M" by (simp add: FREE_RUNNING_COUNTER_MODULUS_def)
  have f: "HPC_CLOCK_FREQUENCY mod FREE_RUNNING_COUNTER_MODULUS = 16222784"
    by (simp add: FREE_RUNNING_COUNTER_MODULUS_def HPC_CLOCK_FREQUENCY_def)
  have s: "unat (seconds mod FREE_RUNNING_COUNTER_MODULUS) = w mod ?M"
    and p: "unat (partial mod FREE_RUNNING_COUNTER_MODULUS) = unat partial mod ?M"
    by (simp_all add: unat_mod M W)
  have small: "w mod ?M < ?M" "unat partial mod ?M < ?M" by simp_all
  have X: "unat ?X = w mod ?M * 16222784 + unat partial mod ?M"
    using small by (simp add: unat_word_ariths(1,2) s p f)
  then have Xm: "unat (?X mod FREE_RUNNING_COUNTER_MODULUS) = n mod ?M"
  proof -
    have "(w mod ?M * 16222784 + unat partial mod ?M) mod ?M = (w * 16222784 + unat partial) mod ?M"
      by (rule mod_parts)
    also have "\<dots> = (w * 16222784 + unat partial + w * ?M) mod ?M" by (simp only: mod_mult_self1)
    also have "w * 16222784 + unat partial + w * ?M = n" using n by simp
    finally show ?thesis unfolding unat_mod M X .
  qed
  have "unat v < 2 ^ LENGTH(32)" by (rule unsigned_less)
  moreover have "n mod ?M < ?M" by simp
  ultimately have "unat (ucast v + ?X mod FREE_RUNNING_COUNTER_MODULUS :: u128) = unat v + n mod ?M"
    unfolding unat_word_ariths(1) Xm unat_widen by simp
  then have "unat ((ucast v + ?X mod FREE_RUNNING_COUNTER_MODULUS) mod FREE_RUNNING_COUNTER_MODULUS) = (unat v + n) mod ?M"
    by (simp add: unat_mod M mod_add_right_eq)
  then show ?thesis by (metis (no_types) of_nat_unat counter_after_def)
qed

lemma hpc1_advance_closed:
  assumes h: "hpc1_ok h"
  shows "hpc1_advance_time elapsed h = Some (hpc1_after elapsed h)" and "hpc1_ok (hpc1_after elapsed h)"
proof -
  let ?A = "1000000000000000000 :: nat" and ?c = "hp_ethernet h"
  define n where "n = hpc_ticks elapsed (hp_clock_phase h)"
  have ph: "hp_clock_phase h < ATTOSECONDS_PER_SECOND" and c: "ec_timer_count ?c < 0x100000"
    using h by (simp_all add: hpc1_ok_def ethernet_channel_ok_def)
  obtain partial where clock: "clock_ticks elapsed (hp_clock_phase h)
      = (elapsed div ATTOSECONDS_PER_SECOND, partial, hpc_phase elapsed (hp_clock_phase h))"
    and n: "unat elapsed div ?A * 33000000 + unat partial = n"
    using clock_parts [OF ph, of elapsed] unfolding n_def by blast
  have whole: "unat (elapsed div ATTOSECONDS_PER_SECOND) = unat elapsed div ?A"
    by (simp add: unat_div ATTOSECONDS_PER_SECOND_def)
  let ?ticks = "if elapsed div ATTOSECONDS_PER_SECOND = 0 then partial else - 1"
  have "(unat (ec_timer_count ?c) \<le> unat ?ticks) = (unat (ec_timer_count ?c) \<le> n) \<and>
      (n < unat (ec_timer_count ?c) \<longrightarrow> unat ?ticks = n)"
  proof (cases "elapsed div ATTOSECONDS_PER_SECOND = 0")
    case True
    then show ?thesis using n whole by simp
  next
    case False
    then have "unat elapsed div ?A \<noteq> 0" using whole by (metis unat_gt_0 less_numeral_extra(3))
    then have "33000000 \<le> n" using n by (cases "unat elapsed div ?A") simp_all
    moreover have "unat (ec_timer_count ?c) < 0x100000" using c by (simp add: word_less_nat_alt)
    moreover have "unat (ec_timer_count ?c) \<le> unat (- 1 :: u128)"
      by (metis word_le_nat_alt unat_widen word_order.extremum)
    ultimately show ?thesis using False by simp
  qed
  then have channel: "ethernet_advance_time elapsed ?ticks ?c = Some (channel_after elapsed n ?c)"
    by (rule channel_advance_closed)
  have counter: "ucast ((ucast v + (((elapsed div ATTOSECONDS_PER_SECOND) mod FREE_RUNNING_COUNTER_MODULUS)
        * (HPC_CLOCK_FREQUENCY mod FREE_RUNNING_COUNTER_MODULUS) + partial mod FREE_RUNNING_COUNTER_MODULUS)
        mod FREE_RUNNING_COUNTER_MODULUS) mod FREE_RUNNING_COUNTER_MODULUS) = counter_after n v" for v :: u32
    using counter_wraps [OF whole n] by simp
  show "hpc1_advance_time elapsed h = Some (hpc1_after elapsed h)"
    unfolding hpc1_advance_time_def clock Let_def prod.case counter channel hpc1_after_def n_def [symmetric] by simp
  show "hpc1_ok (hpc1_after elapsed h)"
    using h timer_after_bound [OF c, of n]
    by (simp add: hpc1_ok_def hpc1_after_def hpc_phase_bound ethernet_channel_ok_def n_def [symmetric] Let_def
        channel_after_def split_beta)
qed

lemma hpc1_after_add:
  assumes "unat a + unat b < 2 ^ 128"
  shows "hpc1_after (a + b) h = hpc1_after b (hpc1_after a h)"
  by (simp add: hpc1_after_def Let_def hpc_ticks_split [OF assms] counter_after_add channel_after_add [OF assms])

interpretation hpc1_timed: timed_device hpc1_advance_time hpc1_ok
proof
  fix h d
  assume "hpc1_ok h"
  then show "ok (hpc1_advance_time d h) hpc1_ok" by (simp add: hpc1_advance_closed)
next
  fix h and d e :: virtual_duration
  assume "hpc1_ok h" "unat d + unat e < 2 ^ 128"
  then show "hpc1_advance_time (d + e) h = Option.bind (hpc1_advance_time d h) (hpc1_advance_time e)"
    by (simp add: hpc1_advance_closed hpc1_after_add)
qed

section \<open>The descriptor engines\<close>

text \<open>What the channel expects of the completion of a request it has issued.\<close>

fun ethernet_request_ok :: "ethernet_request \<Rightarrow> ethernet_channel \<Rightarrow> bool" where
  "ethernet_request_ok (EthernetRead address n kind) c \<longleftrightarrow>
     n \<le> 32 \<and> (kind = ReceiveDescriptor \<longrightarrow> ec_receive_stage c = RxDescriptor)"
| "ethernet_request_ok (EthernetWrite address bytes kind) c \<longleftrightarrow>
     (kind = ReceiveData \<longrightarrow> ec_receive_stage c = RxData
       \<and> ec_receive_offset c + length bytes \<le> length (ec_receive_frame c))"
| "ethernet_request_ok (EthernetTransmit frame) c \<longleftrightarrow> True"
| "ethernet_request_ok EthernetUnderflow c \<longleftrightarrow> True"

definition issued :: "ethernet_request option \<times> ethernet_channel \<Rightarrow> bool" where
  "issued = (\<lambda>(r, c). ethernet_channel_ok c \<and> (\<forall>request. r = Some request \<longrightarrow> ethernet_request_ok request c))"

lemma receive_frame_ok: "ethernet_channel_ok c \<Longrightarrow> ethernet_channel_ok (receive_frame bytes status irq c)"
  by (simp add: receive_frame_def ethernet_channel_ok_def Let_def)

lemma receive_request_ok: "ethernet_channel_ok c \<Longrightarrow> ok (receive_request c) issued"
  by (cases "ec_receive_stage c")
    (auto simp: receive_request_def ethernet_channel_ok_def issued_def receive_completion_request_def Let_def)

lemma transmit_other_ok:
  "ethernet_channel_ok c \<Longrightarrow> ec_transmit_stage c \<noteq> TxData \<Longrightarrow> issued (transmit_request ready c)"
  by (subst transmit_request.simps) (auto simp: issued_def ethernet_channel_ok_def split: ethernet_tx_stage.splits)

lemma transmit_request_ok:
  assumes c: "ethernet_channel_ok c"
  shows "issued (transmit_request ready c)"
proof (cases "ec_transmit_stage c = TxData")
  case data: True
  have stage: "ethernet_channel_ok (c\<lparr>ec_transmit_stage := st\<rparr>)"
    "ethernet_channel_ok (c\<lparr>ec_transmit_stage := st, ec_transmit_interrupt_delay_attoseconds := d\<rparr>)" for st d
    using c by (simp_all add: ethernet_channel_ok_def)
  have same: "issued (None, c)" "issued (Some EthernetUnderflow, c)" using c by (simp_all add: issued_def)
  have read: "issued (Some (EthernetRead a (min n 32) TransmitData), c)" for a n using c by (simp add: issued_def)
  show ?thesis
    using data by (subst transmit_request.simps) (simp add: Let_def same read transmit_other_ok [OF stage(1)] transmit_other_ok [OF stage(2)])
qed (rule transmit_other_ok [OF c])

lemma next_request_ok:
  assumes "ethernet_channel_ok c"
  shows "ok (next_request ready c) issued"
proof -
  have toggled: "ethernet_channel_ok (c\<lparr>ec_prefer_receive := b\<rparr>)" for b using assms by (simp add: ethernet_channel_ok_def)
  have "ok (receive_request d) issued" "issued (transmit_request ready d)" if "ethernet_channel_ok d" for d
    using that by (simp_all add: receive_request_ok transmit_request_ok)
  note engines = this
  have receive: "ok (do {
      (request, d) \<leftarrow> receive_request d;
      Some (case request of Some r \<Rightarrow> (Some r, d) | None \<Rightarrow> transmit_request ready d)
    }) issued" if d: "ethernet_channel_ok d" for d
  proof -
    obtain r d' where "receive_request d = Some (r, d')" "issued (r, d')"
      using engines(1) [OF d] unfolding ok_ex by fastforce
    then show ?thesis using engines(2) [of d'] by (cases r) (simp_all add: issued_def)
  qed
  have none: "issued (None, c)" using assms by (simp add: issued_def)
  have transmit: "ok (let (request, d) = transmit_request ready d
      in case request of Some r \<Rightarrow> Some (Some r, d) | None \<Rightarrow> receive_request d) issued" if d: "ethernet_channel_ok d" for d
  proof -
    obtain r d' where r: "transmit_request ready d = (r, d')" by fastforce
    then have "issued (r, d')" using engines(2) [OF d] by simp
    then show ?thesis using r engines(1) [of d'] by (cases r) (simp_all add: issued_def)
  qed
  show ?thesis
    unfolding next_request_def Let_def
    using receive [OF toggled, unfolded Let_def] transmit [OF toggled, unfolded Let_def] none by simp
qed

lemma complete_read_ok:
  assumes "ethernet_channel_ok c" "kind = ReceiveDescriptor \<Longrightarrow> ec_receive_stage c = RxDescriptor"
  shows "ok (complete_read kind data c) ethernet_channel_ok"
proof -
  have fail: "ethernet_channel_ok (fail_read kind (c\<lparr>ec_dma_delay_attoseconds := t\<rparr>))" "ethernet_channel_ok (fail_read kind c)" for kind t
    using assms(1) by (simp_all add: fail_read_def ethernet_channel_ok_def)
  have data: "ok (complete_transmit_data bytes (c\<lparr>ec_dma_delay_attoseconds := t\<rparr>)) ethernet_channel_ok" for bytes t
    using assms(1) fail transfer_bytes_ok [of "ec_transmit_fifo c" "ec_transmit_fifo_lane c" bytes]
    by (auto simp: complete_transmit_data_def ethernet_channel_ok_def elim!: ok_mono)
  have "ethernet_channel_ok (complete_receive_descriptor control buffer link (c\<lparr>ec_dma_delay_attoseconds := t\<rparr>))"
    if "kind = ReceiveDescriptor" for control buffer link t
    using assms that by (simp add: complete_receive_descriptor_def ethernet_channel_ok_def)
  moreover have "ethernet_channel_ok (complete_transmit_descriptor control buffer link (c\<lparr>ec_dma_delay_attoseconds := t\<rparr>))"
    for control buffer link t
    using assms by (simp add: complete_transmit_descriptor_def ethernet_channel_ok_def Let_def)
  ultimately show ?thesis
    using fail data by (auto simp: complete_read_def Let_def split: option.split)
qed

lemma ethernet_complete_write_ok:
  assumes "ethernet_channel_ok c" "kind = ReceiveData \<Longrightarrow> ec_receive_stage c = RxData \<and>
    ec_receive_offset c + n \<le> length (ec_receive_frame c)"
  shows "ok (complete_write kind n success c) ethernet_channel_ok"
proof -
  have "ok (complete_receive_data n (c\<lparr>ec_dma_delay_attoseconds := t\<rparr>)) ethernet_channel_ok" if "kind = ReceiveData" for t
    using assms that transfer_bytes_ok [of "ec_receive_fifo c" "ec_receive_fifo_lane c"
        "take n (drop (ec_receive_offset c) (ec_receive_frame c))"]
    by (auto simp: complete_receive_data_def ethernet_channel_ok_def elim!: ok_mono)
  moreover have "ethernet_channel_ok (complete_receive_frame (c\<lparr>ec_dma_delay_attoseconds := t\<rparr>))" for t
    using assms(1) by (simp add: complete_receive_frame_def ethernet_channel_ok_def Let_def)
  ultimately show ?thesis
    using assms(1) by (cases kind) (auto simp: complete_write_def Let_def ethernet_channel_ok_def)
qed

lemma complete_transmit_ok: "ethernet_channel_ok c \<Longrightarrow> ethernet_channel_ok (complete_transmit status interrupt c)"
  by (simp add: complete_transmit_def ethernet_channel_ok_def Let_def split: option.split)

end
