(* ===== verification/Gio.thy ===== *)
theory Gio
  imports Address_Map Events
begin

text \<open>
  The GIO bus, \<^verbatim>\<open>se_device/src/gio.rs\<close>: the three physical slots, the routing of
  slot-local transactions and DMA bursts, the shared interrupt levels and the preservation of the
  configured topology by snapshots. The trait object \<^verbatim>\<open>dyn GioDevice\<close> of a slot is a state
  of type \<open>'g\<close> with the record \<open>gio_device_ops\<close> of its methods, one field per method of the trait;
  a method that may panic returns an option.
\<close>

section \<open>Devices\<close>

fun gio_slot_index :: "gio_slot \<Rightarrow> nat" where
  "gio_slot_index GioSlot0 = 0"
| "gio_slot_index GioSlot1 = 1"
| "gio_slot_index GioGraphics = 2"

datatype gio_interrupt = GioInterrupt0 | GioInterrupt1 | GioInterrupt2

datatype gio_display_state = DisplayNoSignal | DisplayBlank | DisplayActive u32 u32 "u8 list"

record ('g, 's) gio_device_ops =
  gd_reset :: "'g \<Rightarrow> 'g"
  gd_debug_read :: "'g \<Rightarrow> device_addr \<Rightarrow> nat \<Rightarrow> (bus_error + u8 list) option"
  gd_read :: "'g \<Rightarrow> device_addr \<Rightarrow> nat \<Rightarrow> ((bus_error + u8 list) \<times> 'g) option"
  gd_write :: "'g \<Rightarrow> device_addr \<Rightarrow> u8 list \<Rightarrow> ((bus_error + unit) \<times> 'g) option"
  gd_read_dma :: "'g \<Rightarrow> device_addr \<Rightarrow> nat \<Rightarrow> ((bus_error + u8 list) \<times> 'g) option"
  gd_write_dma :: "'g \<Rightarrow> device_addr \<Rightarrow> u8 list \<Rightarrow> ((bus_error + unit) \<times> 'g) option"
  gd_dma_sync_asserted :: "'g \<Rightarrow> bool"
  gd_advance_time :: "virtual_duration \<Rightarrow> 'g \<Rightarrow> 'g option"
  gd_time_until_event :: "'g \<Rightarrow> virtual_duration option"
  gd_interrupt_asserted :: "gio_interrupt \<Rightarrow> 'g \<Rightarrow> bool"
  gd_display_state :: "'g \<Rightarrow> gio_display_state option"
  gd_take_display_update :: "'g \<Rightarrow> bool \<times> 'g"
  gd_snapshot :: "'g \<Rightarrow> 's"
  gd_accepts_snapshot :: "'s \<Rightarrow> 'g \<Rightarrow> bool"
  gd_restore_snapshot :: "'s \<Rightarrow> 'g \<Rightarrow> 'g"

record 'g gio_bus =
  gb_slots :: "'g option list"

record 's gio_bus_snapshot =
  gs_slots :: "'s option list"

datatype gio_attach_error = SlotOccupied gio_slot

datatype gio_snapshot_error = GioSnapshotError

definition gio_bus_new :: "'g gio_bus" where
  "gio_bus_new = \<lparr>gb_slots = [None, None, None]\<rparr>"

definition gio_attach :: "gio_slot \<Rightarrow> 'g \<Rightarrow> 'g gio_bus \<Rightarrow> ((gio_attach_error + unit) \<times> 'g gio_bus) option" where
  "gio_attach slot device b = do {
     attached \<leftarrow> get_at (gb_slots b) (gio_slot_index slot);
     if attached \<noteq> None then Some (Inl (SlotOccupied slot), b)
     else do {
       slots \<leftarrow> set_at (gb_slots b) (gio_slot_index slot) (Some device);
       Some (Inr (), b\<lparr>gb_slots := slots\<rparr>)
     }
   }"

definition gio_slot_occupied :: "gio_slot \<Rightarrow> 'g gio_bus \<Rightarrow> bool option" where
  "gio_slot_occupied slot b = map_option (\<lambda>d. d \<noteq> None) (get_at (gb_slots b) (gio_slot_index slot))"

section \<open>Transactions\<close>

definition validate_gio_transaction :: "device_addr \<Rightarrow> nat \<Rightarrow> bus_error + unit" where
  "validate_gio_transaction address len =
     (if \<not> (1 \<le> len \<and> len \<le> 4) then Inl InvalidTransaction
      else if 2 ^ 64 \<le> unat address + len then Inl InvalidTransaction
      else Inr ())"

text \<open>A method of the device in a slot; \<open>vacant\<close> is the answer of an empty slot.\<close>

definition on_slot ::
  "gio_slot \<Rightarrow> 'r \<Rightarrow> ('g \<Rightarrow> ('r \<times> 'g) option) \<Rightarrow> 'g gio_bus \<Rightarrow> ('r \<times> 'g gio_bus) option" where
  "on_slot slot vacant call b = do {
     attached \<leftarrow> get_at (gb_slots b) (gio_slot_index slot);
     case attached of
       None \<Rightarrow> Some (vacant, b)
     | Some device \<Rightarrow> do {
         (result, device) \<leftarrow> call device;
         slots \<leftarrow> set_at (gb_slots b) (gio_slot_index slot) (Some device);
         Some (result, b\<lparr>gb_slots := slots\<rparr>)
       }
   }"

definition gio_debug_read ::
  "('g, 's) gio_device_ops \<Rightarrow> gio_slot \<Rightarrow> device_addr \<Rightarrow> nat \<Rightarrow> 'g gio_bus \<Rightarrow> (bus_error + u8 list) option" where
  "gio_debug_read go slot address len b =
     (case validate_gio_transaction address len of
        Inl e \<Rightarrow> Some (Inl e)
      | Inr _ \<Rightarrow> do {
          attached \<leftarrow> get_at (gb_slots b) (gio_slot_index slot);
          case attached of
            Some device \<Rightarrow> gd_debug_read go device address len
          | None \<Rightarrow> Some (Inr (replicate len 0))
        })"

definition gio_read ::
  "('g, 's) gio_device_ops \<Rightarrow> gio_slot \<Rightarrow> device_addr \<Rightarrow> nat \<Rightarrow> 'g gio_bus \<Rightarrow>
   ((bus_error + u8 list) \<times> 'g gio_bus) option" where
  "gio_read go slot address len b =
     (case validate_gio_transaction address len of
        Inl e \<Rightarrow> Some (Inl e, b)
      | Inr _ \<Rightarrow> on_slot slot (Inr (replicate len 0)) (\<lambda>d. gd_read go d address len) b)"

definition gio_write ::
  "('g, 's) gio_device_ops \<Rightarrow> gio_slot \<Rightarrow> device_addr \<Rightarrow> u8 list \<Rightarrow> 'g gio_bus \<Rightarrow>
   ((bus_error + unit) \<times> 'g gio_bus) option" where
  "gio_write go slot address data b =
     (case validate_gio_transaction address (length data) of
        Inl e \<Rightarrow> Some (Inl e, b)
      | Inr _ \<Rightarrow> on_slot slot (Inr ()) (\<lambda>d. gd_write go d address data) b)"

definition gio_read_dma ::
  "('g, 's) gio_device_ops \<Rightarrow> gio_slot \<Rightarrow> device_addr \<Rightarrow> nat \<Rightarrow> 'g gio_bus \<Rightarrow>
   ((bus_error + u8 list) \<times> 'g gio_bus) option" where
  "gio_read_dma go slot address len b =
     on_slot slot (Inl HardwareFault) (\<lambda>d. gd_read_dma go d address len) b"

definition gio_write_dma ::
  "('g, 's) gio_device_ops \<Rightarrow> gio_slot \<Rightarrow> device_addr \<Rightarrow> u8 list \<Rightarrow> 'g gio_bus \<Rightarrow>
   ((bus_error + unit) \<times> 'g gio_bus) option" where
  "gio_write_dma go slot address data b =
     on_slot slot (Inl HardwareFault) (\<lambda>d. gd_write_dma go d address data) b"

section \<open>The whole bus\<close>

definition gio_reset :: "('g, 's) gio_device_ops \<Rightarrow> 'g gio_bus \<Rightarrow> 'g gio_bus" where
  "gio_reset go b = b\<lparr>gb_slots := map (map_option (gd_reset go)) (gb_slots b)\<rparr>"

fun advance_slots :: "('g, 's) gio_device_ops \<Rightarrow> virtual_duration \<Rightarrow> 'g option list \<Rightarrow> 'g option list option" where
  "advance_slots go elapsed [] = Some []"
| "advance_slots go elapsed (None # slots) = map_option ((#) None) (advance_slots go elapsed slots)"
| "advance_slots go elapsed (Some device # slots) = do {
     device \<leftarrow> gd_advance_time go elapsed device;
     map_option ((#) (Some device)) (advance_slots go elapsed slots)
   }"

definition gio_advance_time ::
  "('g, 's) gio_device_ops \<Rightarrow> virtual_duration \<Rightarrow> 'g gio_bus \<Rightarrow> 'g gio_bus option" where
  "gio_advance_time go elapsed b =
     map_option (\<lambda>slots. b\<lparr>gb_slots := slots\<rparr>) (advance_slots go elapsed (gb_slots b))"

definition gio_attached :: "'g gio_bus \<Rightarrow> 'g list" where
  "gio_attached b = concat (map (case_option [] (\<lambda>d. [d])) (gb_slots b))"

fun earliest :: "virtual_duration option list \<Rightarrow> virtual_duration option" where
  "earliest [] = None"
| "earliest (x # xs) =
     (case x of
        None \<Rightarrow> earliest xs
      | Some a \<Rightarrow> (case earliest xs of None \<Rightarrow> Some a | Some b \<Rightarrow> Some (min a b)))"

definition gio_time_until_event :: "('g, 's) gio_device_ops \<Rightarrow> 'g gio_bus \<Rightarrow> virtual_duration option" where
  "gio_time_until_event go b = earliest (map (gd_time_until_event go) (gio_attached b))"

definition gio_interrupt_asserted :: "('g, 's) gio_device_ops \<Rightarrow> gio_interrupt \<Rightarrow> 'g gio_bus \<Rightarrow> bool" where
  "gio_interrupt_asserted go interrupt b \<longleftrightarrow> list_ex (gd_interrupt_asserted go interrupt) (gio_attached b)"

definition gio_dma_sync_asserted :: "('g, 's) gio_device_ops \<Rightarrow> 'g gio_bus \<Rightarrow> bool" where
  "gio_dma_sync_asserted go b \<longleftrightarrow> list_ex (gd_dma_sync_asserted go) (gio_attached b)"

definition gio_display_state_of ::
  "('g, 's) gio_device_ops \<Rightarrow> gio_slot \<Rightarrow> 'g gio_bus \<Rightarrow> gio_display_state option option" where
  "gio_display_state_of go slot b =
     map_option (\<lambda>d. Option.bind d (gd_display_state go)) (get_at (gb_slots b) (gio_slot_index slot))"

definition gio_take_display_update ::
  "('g, 's) gio_device_ops \<Rightarrow> gio_slot \<Rightarrow> 'g gio_bus \<Rightarrow> (bool \<times> 'g gio_bus) option" where
  "gio_take_display_update go slot b = on_slot slot False (\<lambda>d. Some (gd_take_display_update go d)) b"

section \<open>Snapshots\<close>

definition gio_snapshot :: "('g, 's) gio_device_ops \<Rightarrow> 'g gio_bus \<Rightarrow> 's gio_bus_snapshot" where
  "gio_snapshot go b = \<lparr>gs_slots = map (map_option (gd_snapshot go)) (gb_slots b)\<rparr>"

definition gio_accepts_snapshot :: "('g, 's) gio_device_ops \<Rightarrow> 's gio_bus_snapshot \<Rightarrow> 'g gio_bus \<Rightarrow> bool" where
  "gio_accepts_snapshot go s b \<longleftrightarrow>
     list_all (\<lambda>(device, saved). case (device, saved) of
         (None, None) \<Rightarrow> True
       | (Some d, Some v) \<Rightarrow> gd_accepts_snapshot go v d
       | _ \<Rightarrow> False) (zip (gb_slots b) (gs_slots s))"

fun restore_slots :: "('g, 's) gio_device_ops \<Rightarrow> 'g option list \<Rightarrow> 's option list \<Rightarrow> 'g option list" where
  "restore_slots go (Some d # ds) (Some v # vs) = Some (gd_restore_snapshot go v d) # restore_slots go ds vs"
| "restore_slots go (d # ds) (v # vs) = d # restore_slots go ds vs"
| "restore_slots go ds vs = ds"

definition gio_restore_snapshot ::
  "('g, 's) gio_device_ops \<Rightarrow> 's gio_bus_snapshot \<Rightarrow> 'g gio_bus \<Rightarrow> (gio_snapshot_error + unit) \<times> 'g gio_bus" where
  "gio_restore_snapshot go s b =
     (if \<not> gio_accepts_snapshot go s b then (Inl GioSnapshotError, b)
      else (Inr (), b\<lparr>gb_slots := restore_slots go (gb_slots b) (gs_slots s)\<rparr>))"

end
