(* ===== verification/Wiring.thy ===== *)
theory Wiring
  imports Ip12_Bus Gio Hpc1 Ethernet Int2 Serial Keyboard Mouse Rtc Eeprom Wd33c93b
begin

text \<open>
  The wiring of the IP12 board, \<^verbatim>\<open>se_machine/src/indigo/ip12/bus/wiring.rs\<close>: the devices of
  the board, the interrupt lines into INT2, the transfer of frames and DMA requests between the
  Ethernet controller, HPC1 and local memory, the movement of SCSI data through the descriptors
  of HPC1, graphics DMA, and the auxiliary control register with its serial EEPROM.

  The devices are the field \<open>ib_devices\<close> of the bus. The storage behind SCSI media, the devices in
  the GIO slots and the SHA-256 function of the third-party crate \<^verbatim>\<open>sha2\<close> are the record
  \<open>board_env\<close>.
\<close>

section \<open>The devices of the board\<close>

record ('m, 'g) board_devices =
  bd_hpc1 :: hpc1
  bd_seeq8003 :: seeq8003
  bd_ethernet_output :: "u8 list list"
  bd_ethernet_tx_digest :: "u8 list"
  bd_ethernet_tx_count :: u64
  bd_int2 :: int2
  bd_wd33c93b :: wd33c93b
  bd_scsi_bus :: "'m scsi_bus"
  bd_pending_scsi :: "request_kind option"
  bd_serial :: "z85230 list"
  bd_sgi_keyboard :: "sgi_keyboard option"
  bd_sgi_mouse :: "sgi_mouse option"
  bd_rtc :: rtc
  bd_nvram :: eeprom
  bd_cpu_aux_control :: u8
  bd_gio :: "'g gio_bus"

type_synonym ('m, 'g) board = "('m, 'g) board_devices ip12_bus"

record ('m, 'g, 's) board_env =
  be_storage :: "'m storage_ops"
  be_gio :: "('g, 's) gio_device_ops"
  be_sha256 :: "u8 list \<Rightarrow> u8 list"

abbreviation hpc1_of :: "('m, 'g) board \<Rightarrow> hpc1" where "hpc1_of b \<equiv> bd_hpc1 (ib_devices b)"
abbreviation seeq_of :: "('m, 'g) board \<Rightarrow> seeq8003" where "seeq_of b \<equiv> bd_seeq8003 (ib_devices b)"
abbreviation int2_of :: "('m, 'g) board \<Rightarrow> int2" where "int2_of b \<equiv> bd_int2 (ib_devices b)"
abbreviation wd_of :: "('m, 'g) board \<Rightarrow> wd33c93b" where "wd_of b \<equiv> bd_wd33c93b (ib_devices b)"
abbreviation scsi_of :: "('m, 'g) board \<Rightarrow> 'm scsi_bus" where "scsi_of b \<equiv> bd_scsi_bus (ib_devices b)"
abbreviation serial_of :: "('m, 'g) board \<Rightarrow> z85230 list" where "serial_of b \<equiv> bd_serial (ib_devices b)"
abbreviation rtc_of :: "('m, 'g) board \<Rightarrow> rtc" where "rtc_of b \<equiv> bd_rtc (ib_devices b)"
abbreviation gio_of :: "('m, 'g) board \<Rightarrow> 'g gio_bus" where "gio_of b \<equiv> bd_gio (ib_devices b)"

abbreviation with_devices ::
  "(('m, 'g) board_devices \<Rightarrow> ('m, 'g) board_devices) \<Rightarrow> ('m, 'g) board \<Rightarrow> ('m, 'g) board" where
  "with_devices f b \<equiv> b\<lparr>ib_devices := f (ib_devices b)\<rparr>"

abbreviation put_hpc1 :: "hpc1 \<Rightarrow> ('m, 'g) board \<Rightarrow> ('m, 'g) board" where
  "put_hpc1 h \<equiv> with_devices (\<lambda>d. d\<lparr>bd_hpc1 := h\<rparr>)"
abbreviation put_seeq :: "seeq8003 \<Rightarrow> ('m, 'g) board \<Rightarrow> ('m, 'g) board" where
  "put_seeq s \<equiv> with_devices (\<lambda>d. d\<lparr>bd_seeq8003 := s\<rparr>)"
abbreviation put_int2 :: "int2 \<Rightarrow> ('m, 'g) board \<Rightarrow> ('m, 'g) board" where
  "put_int2 i \<equiv> with_devices (\<lambda>d. d\<lparr>bd_int2 := i\<rparr>)"
abbreviation put_wd :: "wd33c93b \<Rightarrow> ('m, 'g) board \<Rightarrow> ('m, 'g) board" where
  "put_wd w \<equiv> with_devices (\<lambda>d. d\<lparr>bd_wd33c93b := w\<rparr>)"
abbreviation put_scsi :: "'m scsi_bus \<Rightarrow> ('m, 'g) board \<Rightarrow> ('m, 'g) board" where
  "put_scsi s \<equiv> with_devices (\<lambda>d. d\<lparr>bd_scsi_bus := s\<rparr>)"
abbreviation put_pending_scsi :: "request_kind option \<Rightarrow> ('m, 'g) board \<Rightarrow> ('m, 'g) board" where
  "put_pending_scsi r \<equiv> with_devices (\<lambda>d. d\<lparr>bd_pending_scsi := r\<rparr>)"
abbreviation put_gio :: "'g gio_bus \<Rightarrow> ('m, 'g) board \<Rightarrow> ('m, 'g) board" where
  "put_gio g \<equiv> with_devices (\<lambda>d. d\<lparr>bd_gio := g\<rparr>)"

text \<open>Scheduling an event of the board.\<close>

definition board_schedule ::
  "event_kind \<Rightarrow> virtual_duration option \<Rightarrow> 'd ip12_bus \<Rightarrow> 'd ip12_bus option" where
  "board_schedule kind after b = map_option (\<lambda>ev. b\<lparr>ib_events := ev\<rparr>) (events_schedule kind after (ib_events b))"

section \<open>Interrupt lines\<close>

definition CPU_AUX_OUTPUT_BITS :: u8 where "CPU_AUX_OUTPUT_BITS = 0x0f"
definition GIO_INTERRUPT_0 :: u8 where "GIO_INTERRUPT_0 = push_bit 0 1"
definition GIO_INTERRUPT_1 :: u8 where "GIO_INTERRUPT_1 = push_bit 6 1"
definition SCSI_INTERRUPT :: u8 where "SCSI_INTERRUPT = push_bit 2 1"
definition PARALLEL_INTERRUPT :: u8 where "PARALLEL_INTERRUPT = push_bit 1 1"
definition SERIAL_INTERRUPT :: u8 where "SERIAL_INTERRUPT = push_bit 5 1"
definition DSP_INTERRUPT :: u8 where "DSP_INTERRUPT = push_bit 4 1"
definition ETHERNET_INTERRUPT_LINE :: u8 where "ETHERNET_INTERRUPT_LINE = push_bit 3 1"

definition synchronize_gio_interrupts :: "('m, 'g, 's) board_env \<Rightarrow> ('m, 'g) board \<Rightarrow> ('m, 'g) board" where
  "synchronize_gio_interrupts env b = (
     let asserted = (\<lambda>level. gio_interrupt_asserted (be_gio env) level (gio_of b));
         i = set_local_interrupt_0_input GIO_INTERRUPT_0 (asserted GioInterrupt0) (int2_of b);
         i = set_local_interrupt_0_input GIO_INTERRUPT_1 (asserted GioInterrupt1) i
     in put_int2 (set_gio_interrupt_2_input (asserted GioInterrupt2) i) b)"

definition synchronize_serial_interrupt :: "('m, 'g) board \<Rightarrow> ('m, 'g) board" where
  "synchronize_serial_interrupt b = (
     let asserted = list_ex z85230_interrupt_asserted (serial_of b)
     in put_int2 (set_local_interrupt_0_input SERIAL_INTERRUPT asserted (int2_of b)) b)"

definition synchronize_scsi_interrupt :: "('m, 'g) board \<Rightarrow> ('m, 'g) board" where
  "synchronize_scsi_interrupt b =
     put_int2 (set_local_interrupt_0_input SCSI_INTERRUPT (wd_interrupt_asserted (wd_of b)) (int2_of b)) b"

definition drive_hpc1_interrupt_inputs :: "bool \<Rightarrow> bool \<Rightarrow> int2 \<Rightarrow> int2" where
  "drive_hpc1_interrupt_inputs parallel dsp i = (
     let i = set_local_interrupt_0_input PARALLEL_INTERRUPT parallel i
     in set_local_interrupt_1_input DSP_INTERRUPT dsp i)"

definition synchronize_hpc1_interrupts :: "('m, 'g) board \<Rightarrow> ('m, 'g) board" where
  "synchronize_hpc1_interrupts b = (
     let h = hpc1_of b;
         i = set_local_interrupt_0_input ETHERNET_INTERRUPT_LINE (hpc1_ethernet_interrupt_asserted h) (int2_of b)
     in put_int2 (drive_hpc1_interrupt_inputs (hpc1_parallel_interrupt_asserted h) (hpc1_dsp_interrupt_asserted h) i) b)"

section \<open>Memory access of the bus masters\<close>

definition board_read_dma :: "u32 \<Rightarrow> nat \<Rightarrow> 'd ip12_bus \<Rightarrow> (u8 list option \<times> 'd ip12_bus) option" where
  "board_read_dma address len b =
     map_option (\<lambda>(bytes, p). (bytes, b\<lparr>ib_pic1 := p\<rparr>)) (local_memory_read_dma (ib_memory b) (ib_pic1 b) address len)"

definition board_write_dma :: "u32 \<Rightarrow> u8 list \<Rightarrow> 'd ip12_bus \<Rightarrow> (bool \<times> 'd ip12_bus) option" where
  "board_write_dma address data b =
     map_option (\<lambda>(success, m, p). (success, b\<lparr>ib_memory := m, ib_pic1 := p\<rparr>))
       (local_memory_write_dma (ib_memory b) (ib_pic1 b) address data)"

section \<open>Ethernet\<close>

text \<open>The least of the deadlines that are present.\<close>

definition reschedule_ethernet :: "('m, 'g) board \<Rightarrow> ('m, 'g) board option" where
  "reschedule_ethernet b = do {
     channel \<leftarrow> hpc1_ethernet_time_until_event (transmit_ready (seeq_of b)) (hpc1_of b);
     board_schedule EventEthernet (earliest [seeq_time_until_event (seeq_of b), channel]) b
   }"

definition to_le_bytes64 :: "u64 \<Rightarrow> u8 list" where
  "to_le_bytes64 v = map (\<lambda>i. ucast (drop_bit (8 * i) v)) [0..<8]"

definition deliver_received_frame :: "('m, 'g) board \<Rightarrow> ('m, 'g) board" where
  "deliver_received_frame b = (
     let (received, s) = take_received_frame (seeq_of b); b = put_seeq s b
     in case received of
          None \<Rightarrow> b
        | Some frame \<Rightarrow>
            let b = put_hpc1 (hpc1_receive_ethernet_frame (rf_bytes frame) (rf_status frame) (rf_interrupt frame) (hpc1_of b)) b
            in put_seeq (snd (acknowledge_receive (seeq_of b))) b)"

text \<open>The controller's completion reaches HPC1 with the status and interrupt captured together.\<close>

definition complete_board_transmit :: "('m, 'g) board \<Rightarrow> ('m, 'g) board" where
  "complete_board_transmit b = (
     let interrupt = transmit_interrupt_asserted (seeq_of b);
         (status, s) = acknowledge_transmit (seeq_of b);
         b = put_seeq s b
     in put_hpc1 (complete_ethernet_transmit status interrupt (hpc1_of b)) b)"

definition publish_transmitted_frame :: "('m, 'g, 's) board_env \<Rightarrow> u8 list \<Rightarrow> ('m, 'g) board \<Rightarrow> ('m, 'g) board" where
  "publish_transmitted_frame env frame b = (
     let b = complete_board_transmit b;
         digest = be_sha256 env (bd_ethernet_tx_digest (ib_devices b) @ to_le_bytes64 (word_of_nat (length frame)) @ frame);
         b = with_devices (\<lambda>d. d\<lparr>bd_ethernet_tx_digest := digest, bd_ethernet_tx_count := bd_ethernet_tx_count d + 1\<rparr>) b;
         b = (if hpc1_ethernet_loopback (hpc1_of b) then put_seeq (snd (seeq_receive frame 0 (seeq_of b))) b else b)
     in with_devices (\<lambda>d. d\<lparr>bd_ethernet_output := bd_ethernet_output d @ [frame]\<rparr>) b)"

definition transfer_ethernet_signals :: "('m, 'g, 's) board_env \<Rightarrow> ('m, 'g) board \<Rightarrow> ('m, 'g) board" where
  "transfer_ethernet_signals env b = (
     let b = deliver_received_frame b;
         (transmitted, s) = take_transmitted_frame (seeq_of b);
         b = put_seeq s b;
         b = (case transmitted of None \<Rightarrow> b | Some frame \<Rightarrow> publish_transmitted_frame env frame b)
     in synchronize_hpc1_interrupts b)"

definition answer_ethernet_request :: "ethernet_request \<Rightarrow> ('m, 'g) board \<Rightarrow> ('m, 'g) board option" where
  "answer_ethernet_request request b =
     (case request of
        EthernetRead address len kind \<Rightarrow> do {
          require (len \<le> 32);
          (bytes, b) \<leftarrow> board_read_dma address len b;
          map_option (\<lambda>h. put_hpc1 h b) (complete_ethernet_read kind bytes (hpc1_of b))
        }
      | EthernetWrite address bytes kind \<Rightarrow> do {
          (success, b) \<leftarrow> board_write_dma address bytes b;
          map_option (\<lambda>h. put_hpc1 h b) (complete_ethernet_write kind (length bytes) success (hpc1_of b))
        }
      | EthernetTransmit frame \<Rightarrow> do {
          let (accepted, s) = seeq_transmit frame (seeq_of b);
          require accepted;
          Some (put_seeq s b)
        }
      | EthernetUnderflow \<Rightarrow> Some (complete_board_transmit (put_seeq (transmit_underflow (seeq_of b)) b)))"

definition service_ethernet_request :: "('m, 'g) board \<Rightarrow> ('m, 'g) board option" where
  "service_ethernet_request b = do {
     (request, h) \<leftarrow> next_ethernet_request (transmit_ready (seeq_of b)) (hpc1_of b);
     let b = put_hpc1 h b;
     case request of
       None \<Rightarrow> Some b
     | Some r \<Rightarrow> map_option synchronize_hpc1_interrupts (answer_ethernet_request r b)
   }"

section \<open>Graphics DMA\<close>

definition transfer_graphics_dma_line ::
  "('m, 'g, 's) board_env \<Rightarrow> graphics_dma_direction \<Rightarrow> u32 \<Rightarrow> u32 \<Rightarrow> nat \<Rightarrow> ('m, 'g) board \<Rightarrow>
   (bool \<times> ('m, 'g) board) option" where
  "transfer_graphics_dma_line env direction memory_address gio_address len b =
     (if len = 0 then Some (True, b)
      else case route (ucast gio_address) 1 of
        Inr (TargetGio slot address) \<Rightarrow>
          (case direction of
             MemoryToGio \<Rightarrow> do {
               (bytes, b) \<leftarrow> board_read_dma memory_address len b;
               case bytes of
                 None \<Rightarrow> Some (False, b)
               | Some data \<Rightarrow> do {
                   (r, g) \<leftarrow> gio_write_dma (be_gio env) slot address data (gio_of b);
                   Some (r = Inr (), put_gio g b)
                 }
             }
           | GioToMemory \<Rightarrow> do {
               (r, g) \<leftarrow> gio_read_dma (be_gio env) slot address len (gio_of b);
               let b = put_gio g b;
               case r of
                 Inl _ \<Rightarrow> Some (False, b)
               | Inr data \<Rightarrow> board_write_dma memory_address data b
             })
      | _ \<Rightarrow> Some (False, b))"

definition service_graphics_dma_request ::
  "('m, 'g, 's) board_env \<Rightarrow> ('m, 'g) board \<Rightarrow> ('m, 'g) board option" where
  "service_graphics_dma_request env b = (
     let (request, p) = pic1_next_graphics_dma_request (ib_pic1 b); b = b\<lparr>ib_pic1 := p\<rparr>
     in case request of
          None \<Rightarrow> Some b
        | Some (ReadDescriptor address) \<Rightarrow> do {
            (descriptor, b) \<leftarrow> board_read_dma address 20 b;
            Some (b\<lparr>ib_pic1 := pic1_complete_graphics_dma_descriptor descriptor (ib_pic1 b)\<rparr>)
          }
        | Some (TransferLine direction memory_address gio_address len) \<Rightarrow> do {
            (success, b) \<leftarrow> transfer_graphics_dma_line env direction memory_address gio_address len b;
            Some (b\<lparr>ib_pic1 := pic1_complete_graphics_dma_line success (ib_pic1 b)\<rparr>)
          })"

section \<open>SCSI data through the descriptors of HPC1\<close>

text \<open>
  Loading a descriptor: either a window opens, or the channel stops. The loop of the source takes
  at most one descriptor, since a descriptor that opens no window stops the channel.
\<close>

definition fetch_scsi_descriptor :: "u32 \<Rightarrow> ('m, 'g) board \<Rightarrow> ('m, 'g) board option" where
  "fetch_scsi_descriptor address b = do {
     (descriptor, b) \<leftarrow> board_read_dma address 12 b;
     case descriptor of
       None \<Rightarrow> Some (put_hpc1 (stop_scsi_dma (hpc1_of b)) b)
     | Some bytes \<Rightarrow> map_option (\<lambda>h. put_hpc1 h b) (load_scsi_descriptor bytes (hpc1_of b))
   }"

definition next_scsi_dma_window :: "('m, 'g) board \<Rightarrow> (scsi_dma_window option \<times> ('m, 'g) board) option" where
  "next_scsi_dma_window b =
     (case hpc1_scsi_dma_window (hpc1_of b) of
        Some window \<Rightarrow> Some (Some window, b)
      | None \<Rightarrow>
          let (fetch, h) = take_scsi_descriptor_fetch (hpc1_of b); b = put_hpc1 h b
          in case fetch of
               None \<Rightarrow> Some (None, b)
             | Some address \<Rightarrow> do {
                 b \<leftarrow> fetch_scsi_descriptor address b;
                 Some (case hpc1_scsi_dma_window (hpc1_of b) of
                     Some window \<Rightarrow> (Some window, b)
                   | None \<Rightarrow> (None, put_hpc1 (stop_scsi_dma (hpc1_of b)) b))
               })"

definition service_scsi_descriptor_fetch :: "('m, 'g) board \<Rightarrow> ('m, 'g) board option" where
  "service_scsi_descriptor_fetch b = (
     let (fetch, h) = take_scsi_descriptor_fetch (hpc1_of b); b = put_hpc1 h b
     in case fetch of None \<Rightarrow> Some b | Some address \<Rightarrow> fetch_scsi_descriptor address b)"

definition finish_scsi_dma_window ::
  "('m, 'g, 's) board_env \<Rightarrow> scsi_status option \<Rightarrow> ('m, 'g) board \<Rightarrow> ('m, 'g) board option" where
  "finish_scsi_dma_window env status b = do {
     (r, w, s) \<leftarrow> finish_dma (be_storage env) status (wd_of b) (scsi_of b);
     let b = put_scsi s (put_wd w b);
     Some (case r of Inl _ \<Rightarrow> put_hpc1 (stop_scsi_dma (hpc1_of b)) b | Inr _ \<Rightarrow> b)
   }"

definition complete_scsi_dma ::
  "('m, 'g, 's) board_env \<Rightarrow> scsi_status option \<Rightarrow> ('m, 'g) board \<Rightarrow> ('m, 'g) board option" where
  "complete_scsi_dma env status b = finish_scsi_dma_window env status (put_hpc1 (finish_scsi_dma (hpc1_of b)) b)"

text \<open>The bytes that one transfer may move: the window and the controller's count bound it.\<close>

definition scsi_chunk :: "scsi_dma_window \<Rightarrow> u32 \<Rightarrow> nat" where
  "scsi_chunk window remaining =
     unat (min (dw_byte_count window) (if unat remaining < 2 ^ 16 then ucast remaining else 0xffff))"

definition store_scsi_bytes :: "u32 \<Rightarrow> u8 list \<Rightarrow> ('m, 'g) board \<Rightarrow> (bool \<times> ('m, 'g) board) option" where
  "store_scsi_bytes address bytes b = do {
     (stored, b) \<leftarrow> board_write_dma address bytes b;
     if \<not> stored \<or> 2 ^ 16 \<le> length bytes then Some (False, b)
     else
       let byte_count = word_of_nat (length bytes); (consumed, h) = consume_scsi_dma_bytes byte_count (hpc1_of b);
           b = put_hpc1 h b
       in if \<not> consumed then Some (False, b)
          else let (counted, w) = consume_transfer_bytes (ucast byte_count) (wd_of b)
               in Some (counted, put_wd w b)
   }"

definition stop_board_scsi :: "('m, 'g) board \<Rightarrow> ('m, 'g) board" where
  "stop_board_scsi b = put_hpc1 (stop_scsi_dma (hpc1_of b)) b"

partial_function (option) scsi_data_in ::
  "('m, 'g, 's) board_env \<Rightarrow> u32 \<Rightarrow> ('m, 'g) board \<Rightarrow> ('m, 'g) board option" where
  "scsi_data_in env remaining b = do {
     (window, b) \<leftarrow> next_scsi_dma_window b;
     case window of
       None \<Rightarrow> Some b
     | Some w \<Rightarrow>
         if \<not> dw_to_memory w then Some (stop_board_scsi b)
         else do {
           (result, s, b) \<leftarrow> transfer_data_in (be_storage env) (scsi_chunk w remaining)
             (store_scsi_bytes (dw_buffer_address w)) (scsi_of b) b;
           let b = put_scsi s b;
           case result of
             Inl _ \<Rightarrow> Some (stop_board_scsi b)
           | Inr TransferRejected \<Rightarrow> Some (stop_board_scsi b)
           | Inr (TransferMore transferred left) \<Rightarrow>
               if 2 ^ 32 \<le> transferred then Some (stop_board_scsi b)
               else do {
                 require (transferred \<le> unat remaining);
                 let remaining = remaining - word_of_nat transferred;
                 if remaining = 0 then complete_scsi_dma env None b else scsi_data_in env remaining b
               }
           | Inr (TransferComplete transferred status) \<Rightarrow> complete_scsi_dma env (Some status) b
         }
   }"

definition transfer_scsi_data_in ::
  "('m, 'g, 's) board_env \<Rightarrow> u32 \<Rightarrow> ('m, 'g) board \<Rightarrow> ('m, 'g) board option" where
  "transfer_scsi_data_in env remaining b =
     (if remaining = 0 then complete_scsi_dma env None b else scsi_data_in env remaining b)"

definition fetch_scsi_bytes :: "u32 \<Rightarrow> nat \<Rightarrow> ('m, 'g) board \<Rightarrow> (u8 list option \<times> ('m, 'g) board) option" where
  "fetch_scsi_bytes address len b = board_read_dma address len b"

definition advance_scsi_data_out :: "nat \<Rightarrow> ('m, 'g) board \<Rightarrow> (u32 \<times> ('m, 'g) board) option" where
  "advance_scsi_data_out transferred b = do {
     require (transferred < 2 ^ 16);
     let byte_count = word_of_nat transferred;
     let (consumed, h) = consume_scsi_dma_bytes byte_count (hpc1_of b);
     require consumed;
     let (counted, w) = consume_transfer_bytes (ucast byte_count) (wd_of b);
     require counted;
     Some (ucast byte_count, put_wd w (put_hpc1 h b))
   }"

partial_function (option) scsi_data_out ::
  "('m, 'g, 's) board_env \<Rightarrow> u32 \<Rightarrow> ('m, 'g) board \<Rightarrow> ('m, 'g) board option" where
  "scsi_data_out env remaining b = do {
     (window, b) \<leftarrow> next_scsi_dma_window b;
     case window of
       None \<Rightarrow> Some b
     | Some w \<Rightarrow>
         if dw_to_memory w then Some (stop_board_scsi b)
         else do {
           (result, s, b) \<leftarrow> transfer_data_out (be_storage env) (scsi_chunk w remaining)
             (fetch_scsi_bytes (dw_buffer_address w)) (scsi_of b) b;
           let b = put_scsi s b;
           case result of
             Inl _ \<Rightarrow> Some (stop_board_scsi b)
           | Inr TransferRejected \<Rightarrow> Some (stop_board_scsi b)
           | Inr (TransferMore transferred left) \<Rightarrow> do {
               (transferred, b) \<leftarrow> advance_scsi_data_out transferred b;
               require (transferred \<le> remaining);
               let remaining = remaining - transferred;
               if remaining = 0 then complete_scsi_dma env None b else scsi_data_out env remaining b
             }
           | Inr (TransferComplete transferred status) \<Rightarrow> do {
               b \<leftarrow> (if transferred = 0 then Some b else map_option snd (advance_scsi_data_out transferred b));
               complete_scsi_dma env (Some status) b
             }
         }
   }"

definition transfer_scsi_data_out ::
  "('m, 'g, 's) board_env \<Rightarrow> u32 \<Rightarrow> ('m, 'g) board \<Rightarrow> ('m, 'g) board option" where
  "transfer_scsi_data_out env remaining b =
     (if remaining = 0 then complete_scsi_dma env None b else scsi_data_out env remaining b)"

definition transfer_active_scsi_data ::
  "('m, 'g, 's) board_env \<Rightarrow> u32 \<Rightarrow> ('m, 'g) board \<Rightarrow> ('m, 'g) board option" where
  "transfer_active_scsi_data env remaining b =
     (case active_data_direction (scsi_of b) of
        Some DirectionIn \<Rightarrow> transfer_scsi_data_in env remaining b
      | Some DirectionOut \<Rightarrow> transfer_scsi_data_out env remaining b
      | None \<Rightarrow> Some (stop_board_scsi b))"

definition process_scsi_event :: "('m, 'g, 's) board_env \<Rightarrow> ('m, 'g) board \<Rightarrow> ('m, 'g) board option" where
  "process_scsi_event env b =
     (case bd_pending_scsi (ib_devices b) of
        None \<Rightarrow> Some b
      | Some request \<Rightarrow> do {
          let b = put_pending_scsi None b;
          (r, w, s) \<leftarrow> service_request (be_storage env) request (wd_of b) (scsi_of b);
          let b = put_scsi s (put_wd w b);
          b \<leftarrow> (case r of
              Inl _ \<Rightarrow> Some (stop_board_scsi b)
            | Inr WorkIdle \<Rightarrow> Some b
            | Inr (WorkDma direction byte_count) \<Rightarrow>
                (case direction of
                   DirectionIn \<Rightarrow> transfer_scsi_data_in env byte_count b
                 | DirectionOut \<Rightarrow> transfer_scsi_data_out env byte_count b)
            | Inr (WorkSelectionWait duration) \<Rightarrow>
                let (waiting, w) = wd_take_request (wd_of b)
                in board_schedule EventScsi duration (put_pending_scsi waiting (put_wd w b)));
          Some (synchronize_scsi_interrupt b)
        })"

text \<open>A controller reset drops the request, the transaction and the event.\<close>

definition cancel_board_scsi :: "('m, 'g) board \<Rightarrow> ('m, 'g) board option" where
  "cancel_board_scsi b =
     board_schedule EventScsi None (put_scsi (cancel_transaction (scsi_of b)) (put_pending_scsi None b))"

definition handle_scsi_register_write :: "('m, 'g) board \<Rightarrow> ('m, 'g) board option" where
  "handle_scsi_register_write b = do {
     let (completed, w) = take_reset_completion (wd_of b);
     let b = put_wd w b;
     b \<leftarrow> (if completed then cancel_board_scsi b else Some b);
     let (request, w) = wd_take_request (wd_of b);
     let b = put_wd w b;
     b \<leftarrow> (case request of
         None \<Rightarrow> Some b
       | Some r \<Rightarrow> board_schedule EventScsi (Some 0) (put_pending_scsi (Some r) b));
     Some (synchronize_scsi_interrupt b)
   }"

definition handle_hpc1_outputs :: "('m, 'g, 's) board_env \<Rightarrow> ('m, 'g) board \<Rightarrow> ('m, 'g) board option" where
  "handle_hpc1_outputs env b = do {
     let (ethernet_reset, h) = take_ethernet_reset_request (hpc1_of b);
     let b = put_hpc1 h b;
     let b = (if ethernet_reset then put_seeq (seeq_reset (seeq_of b)) b else b);
     let (scsi_reset, h) = take_scsi_reset_request (hpc1_of b);
     let b = put_hpc1 h b;
     b \<leftarrow> (if scsi_reset then cancel_board_scsi (put_wd (wd_reset (wd_of b)) b) else Some b);
     b \<leftarrow> service_scsi_descriptor_fetch b;
     b \<leftarrow> (if dma_pending (wd_of b) then transfer_active_scsi_data env (remaining_transfer_bytes (wd_of b)) b else Some b);
     reschedule_ethernet (synchronize_hpc1_interrupts (synchronize_scsi_interrupt b))
   }"

section \<open>The auxiliary control register\<close>

definition aux_access :: "nat \<Rightarrow> bus_error + unit" where
  "aux_access len =
     (if \<not> (1 \<le> len \<and> len \<le> 4) then Inl InvalidTransaction
      else if len \<noteq> 1 then Inl UnimplementedAccess else Inr ())"

definition read_cpu_aux_control :: "u8 \<Rightarrow> eeprom \<Rightarrow> nat \<Rightarrow> bus_error + u8 list" where
  "read_cpu_aux_control value nvram len =
     (case aux_access len of
        Inl e \<Rightarrow> Inl e
      | Inr _ \<Rightarrow> Inr [(value AND CPU_AUX_OUTPUT_BITS) OR push_bit 4 (if eeprom_data_out nvram then 1 else 0)])"

definition write_cpu_aux_control :: "u8 list \<Rightarrow> u8 \<times> eeprom \<Rightarrow> ((bus_error + unit) \<times> u8 \<times> eeprom) option" where
  "write_cpu_aux_control data = (\<lambda>(value, nvram).
     case aux_access (length data) of
       Inl e \<Rightarrow> Some (Inl e, value, nvram)
     | Inr _ \<Rightarrow> do {
         byte \<leftarrow> get_at data 0;
         let value = byte AND CPU_AUX_OUTPUT_BITS;
         nvram \<leftarrow> drive_pins (value AND 0x01 \<noteq> 0) (value AND 0x02 \<noteq> 0) (value AND 0x04 \<noteq> 0) (value AND 0x08 \<noteq> 0) nvram;
         Some (Inr (), value, nvram)
       })"

end
