(* ===== verification/Output.thy ===== *)
theory Output
  imports Prelude
begin

text \<open>
  The output a machine accumulates for its host, \<^verbatim>\<open>se_machine/src/output.rs\<close>: one
  entry per endpoint in the order of first emission, holding the serial bytes or Ethernet frames
  in order, or the latest video state. Publishing two kinds of output at one endpoint is a panic.
\<close>

type_synonym endpoint_key = string

definition BYTES_PER_PIXEL :: nat where "BYTES_PER_PIXEL = 4"

record video_frame =
  vf_width :: u32
  vf_height :: u32
  vf_pixels :: "u8 list"

definition video_frame_new :: "u32 \<Rightarrow> u32 \<Rightarrow> u8 list \<Rightarrow> video_frame option" where
  "video_frame_new width height pixels =
     (if width = 0 \<or> height = 0 then None
      else if 2 ^ 32 \<le> unat width * unat height \<or> 2 ^ 32 \<le> unat width * unat height * BYTES_PER_PIXEL then None
      else if length pixels \<noteq> unat width * unat height * BYTES_PER_PIXEL then None
      else Some \<lparr>vf_width = width, vf_height = height, vf_pixels = pixels\<rparr>)"

datatype video_output = VideoNoSignal | VideoActive "video_frame option"

datatype endpoint_output =
    OutSerial "u8 list"
  | OutEthernet "u8 list list"
  | OutVideo video_output

datatype endpoint_kind = KindSerial | KindKeyboard | KindPointer | KindEthernet | KindVideo

fun endpoint_output_kind :: "endpoint_output \<Rightarrow> endpoint_kind" where
  "endpoint_output_kind (OutSerial _) = KindSerial"
| "endpoint_output_kind (OutEthernet _) = KindEthernet"
| "endpoint_output_kind (OutVideo _) = KindVideo"

record machine_output =
  mo_entries :: "(endpoint_key \<times> endpoint_output) list"

definition machine_output_new :: machine_output where
  "machine_output_new = \<lparr>mo_entries = []\<rparr>"

definition output_is_empty :: "machine_output \<Rightarrow> bool" where
  "output_is_empty m \<longleftrightarrow> mo_entries m = []"

text \<open>The entry of one endpoint, by the first match.\<close>

fun find_entry :: "endpoint_key \<Rightarrow> (endpoint_key \<times> endpoint_output) list \<Rightarrow> endpoint_output option" where
  "find_entry key [] = None"
| "find_entry key ((candidate, entry) # entries) = (if candidate = key then Some entry else find_entry key entries)"

definition output_get :: "endpoint_key \<Rightarrow> machine_output \<Rightarrow> endpoint_output option" where
  "output_get key m = find_entry key (mo_entries m)"

definition output_serial :: "endpoint_key \<Rightarrow> machine_output \<Rightarrow> u8 list" where
  "output_serial key m = (case output_get key m of Some (OutSerial bytes) \<Rightarrow> bytes | _ \<Rightarrow> [])"

definition output_video :: "endpoint_key \<Rightarrow> machine_output \<Rightarrow> video_output option" where
  "output_video key m = (case output_get key m of Some (OutVideo video) \<Rightarrow> Some video | _ \<Rightarrow> None)"

text \<open>
  The three emissions find the entry of their endpoint, change it when it has their kind, panic
  when it has another, and otherwise append a new entry.
\<close>

fun emit ::
  "endpoint_key \<Rightarrow> (endpoint_output \<Rightarrow> endpoint_output option) \<Rightarrow> endpoint_output \<Rightarrow>
   (endpoint_key \<times> endpoint_output) list \<Rightarrow> (endpoint_key \<times> endpoint_output) list option" where
  "emit key change fresh [] = Some [(key, fresh)]"
| "emit key change fresh ((candidate, entry) # entries) =
     (if candidate = key then map_option (\<lambda>e. (candidate, e) # entries) (change entry)
      else map_option ((#) (candidate, entry)) (emit key change fresh entries))"

definition push_ethernet :: "endpoint_key \<Rightarrow> u8 list \<Rightarrow> machine_output \<Rightarrow> machine_output option" where
  "push_ethernet key frame m =
     map_option (\<lambda>es. m\<lparr>mo_entries := es\<rparr>)
       (emit key (\<lambda>e. case e of OutEthernet frames \<Rightarrow> Some (OutEthernet (frames @ [frame])) | _ \<Rightarrow> None)
         (OutEthernet [frame]) (mo_entries m))"

definition push_serial :: "endpoint_key \<Rightarrow> u8 \<Rightarrow> machine_output \<Rightarrow> machine_output option" where
  "push_serial key value m =
     map_option (\<lambda>es. m\<lparr>mo_entries := es\<rparr>)
       (emit key (\<lambda>e. case e of OutSerial bytes \<Rightarrow> Some (OutSerial (bytes @ [value])) | _ \<Rightarrow> None)
         (OutSerial [value]) (mo_entries m))"

definition publish_video :: "endpoint_key \<Rightarrow> video_output \<Rightarrow> machine_output \<Rightarrow> machine_output option" where
  "publish_video key video m =
     map_option (\<lambda>es. m\<lparr>mo_entries := es\<rparr>)
       (emit key (\<lambda>e. case e of OutVideo _ \<Rightarrow> Some (OutVideo video) | _ \<Rightarrow> None)
         (OutVideo video) (mo_entries m))"

fun split_ethernet ::
  "(endpoint_key \<times> endpoint_output) list \<Rightarrow>
   (endpoint_key \<times> u8 list list) list \<times> (endpoint_key \<times> endpoint_output) list" where
  "split_ethernet [] = ([], [])"
| "split_ethernet ((key, entry) # entries) = (
     let (outputs, rest) = split_ethernet entries
     in case entry of OutEthernet frames \<Rightarrow> ((key, frames) # outputs, rest) | _ \<Rightarrow> (outputs, (key, entry) # rest))"

definition take_ethernet_outputs :: "machine_output \<Rightarrow> (endpoint_key \<times> u8 list list) list \<times> machine_output" where
  "take_ethernet_outputs m = (let (outputs, rest) = split_ethernet (mo_entries m) in (outputs, m\<lparr>mo_entries := rest\<rparr>))"

section \<open>What a host receives\<close>

text \<open>Emissions at one endpoint arrive in order and do not disturb other endpoints.\<close>

lemma find_emit:
  "emit key change fresh es = Some es' \<Longrightarrow>
    find_entry other es' = (if other = key
      then (case find_entry key es of None \<Rightarrow> Some fresh | Some e \<Rightarrow> change e) else find_entry other es)"
  by (induction es arbitrary: es') (auto split: if_splits)

lemma emit_change: "emit key change fresh es = Some es' \<Longrightarrow> find_entry key es = Some e \<Longrightarrow> change e \<noteq> None"
  by (induction es arbitrary: es') (auto split: if_splits)

lemma push_serial_entry:
  assumes "push_serial key value m = Some m'"
  shows "output_get other m' = (if other = key then Some (OutSerial (output_serial key m @ [value])) else output_get other m)"
    and "output_video key m = None"
proof -
  obtain es where e: "emit key (\<lambda>e. case e of OutSerial bytes \<Rightarrow> Some (OutSerial (bytes @ [value])) | _ \<Rightarrow> None)
      (OutSerial [value]) (mo_entries m) = Some es" "m' = m\<lparr>mo_entries := es\<rparr>"
    using assms by (auto simp: push_serial_def)
  have kind: "find_entry key (mo_entries m) = Some entry \<Longrightarrow> \<exists>bytes. entry = OutSerial bytes" for entry
    using emit_change [OF e(1)] by (cases entry) auto
  show "output_get other m' = (if other = key then Some (OutSerial (output_serial key m @ [value])) else output_get other m)"
    using find_emit [OF e(1), of other] kind
    by (cases "find_entry key (mo_entries m)") (auto simp: e(2) output_get_def output_serial_def)
  show "output_video key m = None"
    using kind by (cases "find_entry key (mo_entries m)") (auto simp: output_video_def output_get_def)
qed

lemma push_serial_get:
  assumes "push_serial key value m = Some m'"
  shows "output_serial other m' = (if other = key then output_serial key m @ [value] else output_serial other m)"
    and "output_video other m' = output_video other m"
  using push_serial_entry [OF assms] by (simp_all add: output_serial_def [of other m'] output_video_def [of other m'],
    simp_all add: output_serial_def output_video_def)

end
