(* ===== verification/Board_Time.thy ===== *)
theory Board_Time
  imports Wiring Output
begin

text \<open>
  Time on the IP12 board, \<^verbatim>\<open>se_machine/src/indigo/ip12/bus/timing.rs\<close>: every device is
  brought up to date when its event is due or when it is touched, its outputs are transferred, and
  its next event is scheduled.
\<close>

section \<open>Devices with one event\<close>

definition board_elapsed :: "event_kind \<Rightarrow> 'd ip12_bus \<Rightarrow> (virtual_duration \<times> 'd ip12_bus) option" where
  "board_elapsed kind b =
     map_option (\<lambda>(elapsed, ev). (elapsed, b\<lparr>ib_events := ev\<rparr>)) (events_synchronize kind (ib_events b))"

definition synchronize_gio_time :: "('m, 'g, 's) board_env \<Rightarrow> ('m, 'g) board \<Rightarrow> ('m, 'g) board option" where
  "synchronize_gio_time env b = do {
     (elapsed, b) \<leftarrow> board_elapsed EventGio b;
     g \<leftarrow> gio_advance_time (be_gio env) elapsed (gio_of b);
     Some (synchronize_gio_interrupts env (put_gio g b))
   }"

definition reschedule_gio :: "('m, 'g, 's) board_env \<Rightarrow> ('m, 'g) board \<Rightarrow> ('m, 'g) board option" where
  "reschedule_gio env b = board_schedule EventGio (gio_time_until_event (be_gio env) (gio_of b)) b"

definition synchronize_graphics_dma_input ::
  "('m, 'g, 's) board_env \<Rightarrow> ('m, 'g) board \<Rightarrow> ('m, 'g) board option" where
  "synchronize_graphics_dma_input env b = do {
     b \<leftarrow> synchronize_pic1_time b;
     reschedule_pic1 (b\<lparr>ib_pic1 := pic1_set_graphics_dma_sync_input (gio_dma_sync_asserted (be_gio env) (gio_of b)) (ib_pic1 b)\<rparr>)
   }"

definition synchronize_int2_time :: "('m, 'g) board \<Rightarrow> ('m, 'g) board option" where
  "synchronize_int2_time b = do {
     (elapsed, b) \<leftarrow> board_elapsed EventInt2 b;
     map_option (\<lambda>i. put_int2 i b) (int2_advance_time elapsed (int2_of b))
   }"

definition reschedule_int2 :: "('m, 'g) board \<Rightarrow> ('m, 'g) board option" where
  "reschedule_int2 b = do {
     after \<leftarrow> int2_time_until_event (int2_of b);
     board_schedule EventInt2 after b
   }"

definition reschedule_rtc :: "('m, 'g) board \<Rightarrow> ('m, 'g) board option" where
  "reschedule_rtc b = board_schedule EventRtc (rtc_time_until_event (rtc_of b)) b"

definition synchronize_rtc_time :: "('m, 'g) board \<Rightarrow> ('m, 'g) board option" where
  "synchronize_rtc_time b = do {
     (elapsed, b) \<leftarrow> board_elapsed EventRtc b;
     reschedule_rtc (with_devices (\<lambda>d. d\<lparr>bd_rtc := rtc_advance_time elapsed (bd_rtc d)\<rparr>) b)
   }"

definition synchronize_hpc1_time :: "('m, 'g) board \<Rightarrow> ('m, 'g) board option" where
  "synchronize_hpc1_time b = do {
     (elapsed, b) \<leftarrow> board_elapsed EventHpc1Time b;
     map_option (\<lambda>h. put_hpc1 h b) (hpc1_advance_time elapsed (hpc1_of b))
   }"

definition synchronize_ethernet_time :: "('m, 'g, 's) board_env \<Rightarrow> ('m, 'g) board \<Rightarrow> ('m, 'g) board option" where
  "synchronize_ethernet_time env b = do {
     b \<leftarrow> synchronize_hpc1_time b;
     (elapsed, b) \<leftarrow> board_elapsed EventEthernet b;
     reschedule_ethernet (transfer_ethernet_signals env (put_seeq (seeq_advance_time elapsed (seeq_of b)) b))
   }"

section \<open>The serial controllers\<close>

fun serial_event_kind :: "nat \<Rightarrow> event_kind option" where
  "serial_event_kind 0 = Some EventSerial0"
| "serial_event_kind (Suc 0) = Some EventSerial1"
| "serial_event_kind (Suc (Suc _)) = None"

definition serial_0_deadline :: "('m, 'g) board \<Rightarrow> virtual_duration option option" where
  "serial_0_deadline b = do {
     z \<leftarrow> get_at (serial_of b) 0;
     Some (earliest
       [Option.bind (bd_sgi_keyboard (ib_devices b)) keyboard_time_until_event,
        Option.bind (bd_sgi_mouse (ib_devices b)) mouse_time_until_event,
        z85230_time_until_event z])
   }"

definition put_serial :: "nat \<Rightarrow> z85230 \<Rightarrow> ('m, 'g) board \<Rightarrow> ('m, 'g) board option" where
  "put_serial index z b = map_option (\<lambda>zs. with_devices (\<lambda>d. d\<lparr>bd_serial := zs\<rparr>) b) (set_at (serial_of b) index z)"

definition reschedule_serial :: "nat \<Rightarrow> ('m, 'g) board \<Rightarrow> ('m, 'g) board option" where
  "reschedule_serial index b = do {
     after \<leftarrow> (if index = 0 then serial_0_deadline b
       else map_option z85230_time_until_event (get_at (serial_of b) index));
     kind \<leftarrow> serial_event_kind index;
     board_schedule kind after b
   }"

text \<open>One step of the first controller: its keyboard and mouse send to it, and it commands the keyboard.\<close>

definition serial_0_step :: "virtual_duration \<Rightarrow> ('m, 'g) board \<Rightarrow> ('m, 'g) board option" where
  "serial_0_step elapsed b = do {
     z \<leftarrow> get_at (serial_of b) 0;
     (keyboard, z) \<leftarrow> (case bd_sgi_keyboard (ib_devices b) of
         None \<Rightarrow> Some (None, z)
       | Some k \<Rightarrow> map_option (\<lambda>(bytes, k). (Some k, fold (z85230_receive_character ChannelA) bytes z))
           (keyboard_advance_time elapsed k));
     (mouse, z) \<leftarrow> (case bd_sgi_mouse (ib_devices b) of
         None \<Rightarrow> Some (None, z)
       | Some m \<Rightarrow> map_option (\<lambda>(bytes, m). (Some m, fold (z85230_receive_character ChannelB) bytes z))
           (mouse_advance_time elapsed m));
     let (sent, z) = z85230_advance_time elapsed z;
     let keyboard = map_option (fold (\<lambda>(channel, value) k. if channel = ChannelA then receive_command value k else k) sent) keyboard;
     put_serial 0 z (with_devices (\<lambda>d. d\<lparr>bd_sgi_keyboard := keyboard, bd_sgi_mouse := mouse\<rparr>) b)
   }"

partial_function (option) serial_0_run :: "u128 \<Rightarrow> ('m, 'g) board \<Rightarrow> ('m, 'g) board option" where
  "serial_0_run remaining b =
     (if remaining = 0 then Some b
      else do {
        deadline \<leftarrow> serial_0_deadline b;
        case deadline of
          None \<Rightarrow> Some b
        | Some d \<Rightarrow> do {
            let step = min remaining d;
            b \<leftarrow> serial_0_step step b;
            serial_0_run (remaining - step) b
          }
      })"

definition synchronize_serial_time ::
  "nat \<Rightarrow> ('m, 'g) board \<Rightarrow> ((serial_channel \<times> u8) list \<times> ('m, 'g) board) option" where
  "synchronize_serial_time index b = do {
     kind \<leftarrow> serial_event_kind index;
     (elapsed, b) \<leftarrow> board_elapsed kind b;
     (sent, b) \<leftarrow> (if index = 0 then map_option (Pair []) (serial_0_run elapsed b)
       else do {
         z \<leftarrow> get_at (serial_of b) index;
         let (sent, z) = z85230_advance_time elapsed z;
         map_option (Pair sent) (put_serial index z b)
       });
     map_option (Pair sent) (reschedule_serial index (synchronize_serial_interrupt b))
   }"

text \<open>The debug assertion that a register access finds no undelivered output is a panic.\<close>

definition synchronize_serial_for_mmio :: "nat \<Rightarrow> ('m, 'g) board \<Rightarrow> ('m, 'g) board option" where
  "synchronize_serial_for_mmio index b = do {
     (sent, b) \<leftarrow> synchronize_serial_time index b;
     require (sent = []);
     Some b
   }"

section \<open>Video output\<close>

definition video_output_of :: "('m, 'g, 's) board_env \<Rightarrow> ('m, 'g) board \<Rightarrow> video_output option option" where
  "video_output_of env b =
     map_option (map_option (\<lambda>s. case s of
         DisplayNoSignal \<Rightarrow> VideoNoSignal
       | DisplayBlank \<Rightarrow> VideoActive None
       | DisplayActive width height pixels \<Rightarrow> VideoActive (video_frame_new width height pixels)))
       (gio_display_state_of (be_gio env) GioGraphics (gio_of b))"

definition has_video_output :: "('m, 'g, 's) board_env \<Rightarrow> ('m, 'g) board \<Rightarrow> bool option" where
  "has_video_output env b = map_option (\<lambda>s. s \<noteq> None) (gio_display_state_of (be_gio env) GioGraphics (gio_of b))"

definition take_video_output_update ::
  "('m, 'g, 's) board_env \<Rightarrow> ('m, 'g) board \<Rightarrow> (video_output option \<times> ('m, 'g) board) option" where
  "take_video_output_update env b = do {
     (updated, g) \<leftarrow> gio_take_display_update (be_gio env) GioGraphics (gio_of b);
     let b = put_gio g b;
     if updated then map_option (\<lambda>v. (v, b)) (video_output_of env b) else Some (None, b)
   }"

section \<open>Due events\<close>

datatype ip12_port = PortKeyboard | PortMouse | PortSerialA | PortSerialB

fun endpoint_name :: "ip12_port \<Rightarrow> endpoint_key" where
  "endpoint_name PortKeyboard = ''keyboard.0''"
| "endpoint_name PortMouse = ''pointer.0''"
| "endpoint_name PortSerialA = ''serial.external.a''"
| "endpoint_name PortSerialB = ''serial.external.b''"

fun push_serial_all :: "(serial_channel \<times> u8) list \<Rightarrow> machine_output \<Rightarrow> machine_output option" where
  "push_serial_all [] out = Some out"
| "push_serial_all ((channel, value) # sent) out = do {
     out \<leftarrow> push_serial (endpoint_name (if channel = ChannelA then PortSerialA else PortSerialB)) value out;
     push_serial_all sent out
   }"

definition dispatch_event ::
  "('m, 'g, 's) board_env \<Rightarrow> event_kind \<Rightarrow> machine_output \<times> ('m, 'g) board \<Rightarrow>
   (machine_output \<times> ('m, 'g) board) option" where
  "dispatch_event env kind = (\<lambda>(out, b).
     case kind of
       EventInt2 \<Rightarrow> map_option (Pair out) (Option.bind (synchronize_int2_time b) reschedule_int2)
     | EventRtc \<Rightarrow> map_option (Pair out) (synchronize_rtc_time b)
     | EventHpc1Time \<Rightarrow> map_option (Pair out) (synchronize_hpc1_time b)
     | EventEthernet \<Rightarrow> do {
         b \<leftarrow> synchronize_ethernet_time env b;
         b \<leftarrow> service_ethernet_request b;
         map_option (Pair out) (reschedule_ethernet b)
       }
     | EventSerial0 \<Rightarrow> do {
         (sent, b) \<leftarrow> synchronize_serial_time 0 b;
         Some (out, b)
       }
     | EventSerial1 \<Rightarrow> do {
         (sent, b) \<leftarrow> synchronize_serial_time 1 b;
         map_option (\<lambda>out. (out, b)) (push_serial_all sent out)
       }
     | EventScsi \<Rightarrow> do {
         (elapsed, b) \<leftarrow> board_elapsed EventScsi b;
         map_option (Pair out) (process_scsi_event env b)
       }
     | EventGio \<Rightarrow> do {
         b \<leftarrow> synchronize_gio_time env b;
         b \<leftarrow> synchronize_graphics_dma_input env b;
         map_option (Pair out) (reschedule_gio env b)
       }
     | EventPic1 \<Rightarrow> do {
         b \<leftarrow> synchronize_gio_time env b;
         b \<leftarrow> synchronize_graphics_dma_input env b;
         b \<leftarrow> service_graphics_dma_request env b;
         b \<leftarrow> synchronize_graphics_dma_input env (synchronize_gio_interrupts env b);
         map_option (Pair out) (reschedule_gio env b)
       })"

partial_function (option) dispatch_due_events ::
  "('m, 'g, 's) board_env \<Rightarrow> machine_output \<times> ('m, 'g) board \<Rightarrow> (machine_output \<times> ('m, 'g) board) option" where
  "dispatch_due_events env ob = (case ob of (out, b) \<Rightarrow> do {
     (due, ev) \<leftarrow> events_take_due (ib_events b);
     let b = b\<lparr>ib_events := ev\<rparr>;
     case due of
       None \<Rightarrow> Some (out, b)
     | Some kind \<Rightarrow> Option.bind (dispatch_event env kind (out, b)) (dispatch_due_events env)
   })"

fun push_ethernet_all :: "u8 list list \<Rightarrow> machine_output \<Rightarrow> machine_output option" where
  "push_ethernet_all [] out = Some out"
| "push_ethernet_all (frame # frames) out = Option.bind (push_ethernet ''ethernet.0'' frame out) (push_ethernet_all frames)"

definition board_advance_time ::
  "('m, 'g, 's) board_env \<Rightarrow> virtual_duration \<Rightarrow> machine_output \<Rightarrow> ('m, 'g) board \<Rightarrow>
   (machine_output \<times> ('m, 'g) board) option" where
  "board_advance_time env elapsed out b = do {
     let b = b\<lparr>ib_events := events_advance elapsed (ib_events b)\<rparr>;
     (out, b) \<leftarrow> dispatch_due_events env (out, b);
     out \<leftarrow> push_ethernet_all (bd_ethernet_output (ib_devices b)) out;
     let b = with_devices (\<lambda>d. d\<lparr>bd_ethernet_output := []\<rparr>) b;
     (video, b) \<leftarrow> take_video_output_update env b;
     case video of
       None \<Rightarrow> Some (out, b)
     | Some v \<Rightarrow> map_option (\<lambda>out. (out, b)) (publish_video ''video.0'' v out)
   }"

definition schedule_timed_devices :: "('m, 'g, 's) board_env \<Rightarrow> ('m, 'g) board \<Rightarrow> ('m, 'g) board option" where
  "schedule_timed_devices env b = do {
     b \<leftarrow> reschedule_int2 b;
     b \<leftarrow> reschedule_rtc b;
     b \<leftarrow> board_schedule EventHpc1Time None b;
     b \<leftarrow> reschedule_serial 0 b;
     b \<leftarrow> reschedule_serial 1 b;
     b \<leftarrow> board_schedule EventScsi None b;
     b \<leftarrow> reschedule_ethernet b;
     let b = synchronize_gio_interrupts env b;
     let b = b\<lparr>ib_pic1 := pic1_set_graphics_dma_sync_input (gio_dma_sync_asserted (be_gio env) (gio_of b)) (ib_pic1 b)\<rparr>;
     b \<leftarrow> reschedule_gio env b;
     reschedule_pic1 b
   }"

end
