(* ===== verification/Board_Access.thy ===== *)
theory Board_Access
  imports Board_Time Scsi_Media
begin

text \<open>
  The devices behind the processor's transactions, and the operations of the whole board, in
  \<^verbatim>\<open>se_machine/src/indigo/ip12/bus.rs\<close>: accesses to HPC1, the Ethernet and SCSI
  controllers, INT2, the serial controllers, the clock, the auxiliary control register and the GIO
  slots, with the synchronization before and the transfer of outputs after each; construction,
  reset, snapshots, battery-backed state, input from the host and removable media.
\<close>

section \<open>Processor transactions\<close>

definition board_target_read ::
  "('m, 'g, 's) board_env \<Rightarrow> bus_target \<Rightarrow> nat \<Rightarrow> ('m, 'g) board \<Rightarrow>
   ((bus_error + u8 list) \<times> ('m, 'g) board) option" where
  "board_target_read env tgt len b =
     (case tgt of
        TargetHpc1 address \<Rightarrow> do {
          b \<leftarrow> synchronize_ethernet_time env b;
          map_option (\<lambda>r. (r, b)) (hpc1_read (hpc1_of b) address len)
        }
      | TargetSeeq8003 address \<Rightarrow> do {
          b \<leftarrow> synchronize_ethernet_time env b;
          let (r, s) = seeq_read address len (seeq_of b);
          Some (r, put_seeq s b)
        }
      | TargetScsi address \<Rightarrow> do {
          (r, w) \<leftarrow> wd_read address len (wd_of b);
          map_option (Pair r) (handle_scsi_register_write (put_wd w b))
        }
      | TargetCpuAuxControl \<Rightarrow>
          Some (read_cpu_aux_control (bd_cpu_aux_control (ib_devices b)) (bd_nvram (ib_devices b)) len, b)
      | TargetInt2 address \<Rightarrow> do {
          b \<leftarrow> synchronize_int2_time b;
          (r, i) \<leftarrow> int2_read (int2_of b) address len;
          map_option (Pair r) (reschedule_int2 (put_int2 i b))
        }
      | TargetSerial index address \<Rightarrow>
          if index < length (serial_of b) then do {
            b \<leftarrow> synchronize_serial_for_mmio index b;
            z \<leftarrow> get_at (serial_of b) index;
            let (r, z) = z85230_read address len z;
            b \<leftarrow> put_serial index z b;
            map_option (Pair (map_sum id (\<lambda>v. [v]) r)) (reschedule_serial index (synchronize_serial_interrupt b))
          }
          else Some (Inl HardwareFault, b)
      | TargetRtc address \<Rightarrow> do {
          b \<leftarrow> synchronize_rtc_time b;
          (r, c) \<leftarrow> rtc_read address len (rtc_of b);
          map_option (Pair r) (reschedule_rtc (with_devices (\<lambda>d. d\<lparr>bd_rtc := c\<rparr>) b))
        }
      | TargetGio slot address \<Rightarrow> do {
          b \<leftarrow> synchronize_gio_time env b;
          b \<leftarrow> synchronize_graphics_dma_input env b;
          (r, g) \<leftarrow> gio_read (be_gio env) slot address len (gio_of b);
          b \<leftarrow> synchronize_graphics_dma_input env (synchronize_gio_interrupts env (put_gio g b));
          map_option (Pair r) (reschedule_gio env b)
        }
      | _ \<Rightarrow> None)"

definition board_target_write ::
  "('m, 'g, 's) board_env \<Rightarrow> bus_target \<Rightarrow> u8 list \<Rightarrow> ('m, 'g) board \<Rightarrow>
   ((bus_error + unit) \<times> ('m, 'g) board) option" where
  "board_target_write env tgt data b =
     (case tgt of
        TargetHpc1 address \<Rightarrow> do {
          b \<leftarrow> synchronize_ethernet_time env b;
          (r, h) \<leftarrow> hpc1_write (hpc1_of b) address data;
          let b = put_hpc1 h b;
          if r = Inr () then map_option (Pair r) (handle_hpc1_outputs env b) else Some (r, b)
        }
      | TargetSeeq8003 address \<Rightarrow> do {
          b \<leftarrow> synchronize_ethernet_time env b;
          (r, s) \<leftarrow> seeq_write address data (seeq_of b);
          let b = put_seeq s b;
          if r = Inr () then map_option (Pair r) (reschedule_ethernet b) else Some (r, b)
        }
      | TargetScsi address \<Rightarrow> do {
          (r, w) \<leftarrow> wd_write address data (wd_of b);
          let b = put_wd w b;
          if r = Inr () then map_option (Pair r) (handle_scsi_register_write b) else Some (r, b)
        }
      | TargetCpuAuxControl \<Rightarrow> do {
          (r, value, nvram) \<leftarrow> write_cpu_aux_control data (bd_cpu_aux_control (ib_devices b), bd_nvram (ib_devices b));
          Some (r, with_devices (\<lambda>d. d\<lparr>bd_nvram := nvram, bd_cpu_aux_control := value\<rparr>) b)
        }
      | TargetInt2 address \<Rightarrow> do {
          b \<leftarrow> synchronize_int2_time b;
          (r, i) \<leftarrow> int2_write (int2_of b) address data;
          map_option (Pair r) (reschedule_int2 (put_int2 i b))
        }
      | TargetSerial index address \<Rightarrow>
          if index < length (serial_of b) then do {
            b \<leftarrow> synchronize_serial_for_mmio index b;
            z \<leftarrow> get_at (serial_of b) index;
            (r, z) \<leftarrow> z85230_write address data z;
            b \<leftarrow> put_serial index z b;
            map_option (Pair r) (reschedule_serial index (synchronize_serial_interrupt b))
          }
          else Some (if length data = 1 \<and> address \<in> {0x03, 0x07, 0x0b, 0x0f} then Inr () else Inl UnimplementedAccess, b)
      | TargetRtc address \<Rightarrow> do {
          b \<leftarrow> synchronize_rtc_time b;
          (r, c) \<leftarrow> rtc_write address data (rtc_of b);
          map_option (Pair r) (reschedule_rtc (with_devices (\<lambda>d. d\<lparr>bd_rtc := c\<rparr>) b))
        }
      | TargetGio slot address \<Rightarrow> do {
          b \<leftarrow> synchronize_gio_time env b;
          b \<leftarrow> synchronize_graphics_dma_input env b;
          (r, g) \<leftarrow> gio_write (be_gio env) slot address data (gio_of b);
          b \<leftarrow> synchronize_graphics_dma_input env (synchronize_gio_interrupts env (put_gio g b));
          map_option (Pair r) (reschedule_gio env b)
        }
      | _ \<Rightarrow> None)"

definition board_device_ops :: "('m, 'g, 's) board_env \<Rightarrow> ('m, 'g) board_devices ip12_devices" where
  "board_device_ops env = \<lparr>dv_read = board_target_read env, dv_write = board_target_write env\<rparr>"

text \<open>A read that changes nothing, for the debugger.\<close>

definition board_debug_read ::
  "('m, 'g, 's) board_env \<Rightarrow> phys_addr \<Rightarrow> nat \<Rightarrow> ('m, 'g) board \<Rightarrow> (bus_error + u8 list) option" where
  "board_debug_read env address len b = (
     let d = ib_devices b
     in if address < LOCAL_MEMORY_END then local_memory_read (ib_memory b) (ib_pic1 b) address len
        else case route address len of
          Inl e \<Rightarrow> Some (Inl e)
        | Inr (TargetPic1 a) \<Rightarrow> pic1_read (ib_pic1 b) a len
        | Inr (TargetHpc1 a) \<Rightarrow> hpc1_read (hpc1_of b) a len
        | Inr (TargetCentronics a) \<Rightarrow> centronics_read (ib_centronics b) a len
        | Inr (TargetSeeq8003 a) \<Rightarrow> Some (seeq_debug_read a len (seeq_of b))
        | Inr (TargetScsi a) \<Rightarrow> wd_debug_read a len (wd_of b)
        | Inr TargetCpuAuxControl \<Rightarrow> Some (read_cpu_aux_control (bd_cpu_aux_control d) (bd_nvram d) len)
        | Inr (TargetInt2 a) \<Rightarrow> int2_debug_read (int2_of b) a len
        | Inr (TargetSerial index a) \<Rightarrow>
            Some (if index < length (serial_of b)
              then map_sum id (\<lambda>v. [v]) (z85230_debug_read a len (serial_of b ! index)) else Inl HardwareFault)
        | Inr (TargetMdac a) \<Rightarrow> Some (mdac_read (ib_mdac b) a len)
        | Inr (TargetRtc a) \<Rightarrow> rtc_debug_read a len (rtc_of b)
        | Inr TargetBoardRevision \<Rightarrow> Some (read_board_revision len)
        | Inr (TargetDsp56001 a) \<Rightarrow> dsp_read (ib_dsp56001 b) a len
        | Inr (TargetProm a) \<Rightarrow> Some (rom_read (ib_prom b) a len)
        | Inr (TargetGio slot a) \<Rightarrow> gio_debug_read (be_gio env) slot a len (gio_of b))"

section \<open>The board as a whole\<close>

definition board_new ::
  "('m, 'g, 's) board_env \<Rightarrow> pic1 \<Rightarrow> ram option list \<Rightarrow> hpc1 \<Rightarrow> centronics \<Rightarrow> seeq8003 \<Rightarrow> int2 \<Rightarrow> wd33c93b \<Rightarrow>
   'm scsi_bus \<Rightarrow> z85230 list \<Rightarrow> sgi_keyboard option \<Rightarrow> sgi_mouse option \<Rightarrow> rtc \<Rightarrow> mdac \<Rightarrow> eeprom \<Rightarrow> dsp56001 \<Rightarrow>
   rom \<Rightarrow> 'g gio_bus \<Rightarrow> ('m, 'g) board option" where
  "board_new env p memory h c e i w s serial keyboard mouse clock m nvram dsp prom g =
     map_option (\<lambda>b. synchronize_hpc1_interrupts (synchronize_scsi_interrupt b))
       (schedule_timed_devices env
         \<lparr>ib_pic1 = p, ib_memory = \<lparr>lm_modules = memory\<rparr>, ib_centronics = c, ib_mdac = m, ib_dsp56001 = dsp,
          ib_prom = prom, ib_events = events_new,
          ib_devices = \<lparr>bd_hpc1 = h, bd_seeq8003 = e, bd_ethernet_output = [],
            bd_ethernet_tx_digest = replicate 32 0, bd_ethernet_tx_count = 0, bd_int2 = i, bd_wd33c93b = w,
            bd_scsi_bus = s, bd_pending_scsi = None, bd_serial = serial, bd_sgi_keyboard = keyboard,
            bd_sgi_mouse = mouse, bd_rtc = clock, bd_nvram = nvram, bd_cpu_aux_control = 0, bd_gio = g\<rparr>\<rparr>)"

definition board_reset :: "('m, 'g, 's) board_env \<Rightarrow> ('m, 'g) board \<Rightarrow> ('m, 'g) board option" where
  "board_reset env b = do {
     let d = ib_devices b;
     let d = d\<lparr>bd_hpc1 := hpc1_reset (bd_hpc1 d), bd_seeq8003 := seeq_reset (bd_seeq8003 d),
         bd_ethernet_output := [], bd_ethernet_tx_digest := replicate 32 0, bd_ethernet_tx_count := 0,
         bd_wd33c93b := wd_reset (bd_wd33c93b d), bd_pending_scsi := None,
         bd_scsi_bus := cancel_transaction (bd_scsi_bus d), bd_serial := map z85230_reset (bd_serial d),
         bd_sgi_keyboard := map_option keyboard_reset (bd_sgi_keyboard d),
         bd_sgi_mouse := map_option mouse_reset (bd_sgi_mouse d), bd_int2 := int2_reset (bd_int2 d),
         bd_gio := gio_reset (be_gio env) (bd_gio d)\<rparr>;
     b \<leftarrow> schedule_timed_devices env
       (b\<lparr>ib_pic1 := pic1_reset (ib_pic1 b), ib_centronics := centronics_reset (ib_centronics b),
          ib_events := events_reset (ib_events b), ib_devices := d\<rparr>);
     let b = synchronize_hpc1_interrupts (synchronize_scsi_interrupt (synchronize_serial_interrupt b));
     Some (with_devices (\<lambda>d. d\<lparr>bd_nvram := eeprom_reset (bd_nvram d), bd_cpu_aux_control := 0\<rparr>)
       (b\<lparr>ib_mdac := mdac_reset (ib_mdac b)\<rparr>))
   }"

section \<open>Battery-backed state\<close>

definition board_nonvolatile_state :: "('m, 'g) board \<Rightarrow> (u16 list \<times> rtc_battery_state) option" where
  "board_nonvolatile_state b =
     map_option (Pair (eeprom_contents (bd_nvram (ib_devices b)))) (rtc_retained_state (rtc_of b))"

definition board_restore_nonvolatile_state ::
  "u16 list \<Rightarrow> rtc_battery_state \<Rightarrow> u64 \<Rightarrow> ('m, 'g) board \<Rightarrow> ('m, 'g) board" where
  "board_restore_nonvolatile_state nvram clock offline_milliseconds =
     with_devices (\<lambda>d. d\<lparr>bd_nvram := eeprom_restore_contents nvram (bd_nvram d),
       bd_rtc := rtc_restore_battery_state clock offline_milliseconds (bd_rtc d)\<rparr>)"

section \<open>Lines to the processor\<close>

definition board_take_system_reset_request :: "'d ip12_bus \<Rightarrow> bool \<times> 'd ip12_bus" where
  "board_take_system_reset_request b =
     (let (requested, p) = pic1_take_system_reset_request (ib_pic1 b) in (requested, b\<lparr>ib_pic1 := p\<rparr>))"

definition board_local_interrupt_0_asserted :: "('m, 'g) board \<Rightarrow> bool" where
  "board_local_interrupt_0_asserted b = local_interrupt_0_asserted (int2_of b)"

definition board_local_interrupt_1_asserted :: "('m, 'g) board \<Rightarrow> bool" where
  "board_local_interrupt_1_asserted b = local_interrupt_1_asserted (int2_of b)"

section \<open>Input from the host\<close>

definition board_receive_serial_character ::
  "serial_channel \<Rightarrow> u8 \<Rightarrow> ('m, 'g) board \<Rightarrow> ('m, 'g) board option" where
  "board_receive_serial_character channel value b = do {
     z \<leftarrow> get_at (serial_of b) 1;
     map_option synchronize_serial_interrupt (put_serial 1 (z85230_receive_character channel value z) b)
   }"

definition board_set_sgi_key_state :: "sgi_key \<Rightarrow> bool \<Rightarrow> ('m, 'g) board \<Rightarrow> ('m, 'g) board option" where
  "board_set_sgi_key_state key pressed b = do {
     b \<leftarrow> synchronize_serial_for_mmio 0 b;
     keyboard \<leftarrow> bd_sgi_keyboard (ib_devices b);
     reschedule_serial 0 (with_devices (\<lambda>d. d\<lparr>bd_sgi_keyboard := Some (set_key_state key pressed keyboard)\<rparr>) b)
   }"

definition board_move_sgi_mouse :: "u32 \<Rightarrow> u32 \<Rightarrow> ('m, 'g) board \<Rightarrow> ('m, 'g) board option" where
  "board_move_sgi_mouse delta_x delta_y b = do {
     b \<leftarrow> synchronize_serial_for_mmio 0 b;
     mouse \<leftarrow> bd_sgi_mouse (ib_devices b);
     reschedule_serial 0 (with_devices (\<lambda>d. d\<lparr>bd_sgi_mouse := Some (move_relative delta_x delta_y mouse)\<rparr>) b)
   }"

definition board_set_sgi_mouse_button_state ::
  "mouse_button \<Rightarrow> bool \<Rightarrow> ('m, 'g) board \<Rightarrow> ('m, 'g) board option" where
  "board_set_sgi_mouse_button_state button pressed b = do {
     b \<leftarrow> synchronize_serial_for_mmio 0 b;
     mouse \<leftarrow> bd_sgi_mouse (ib_devices b);
     reschedule_serial 0 (with_devices (\<lambda>d. d\<lparr>bd_sgi_mouse := Some (set_button_state button pressed mouse)\<rparr>) b)
   }"

definition board_receive_ethernet ::
  "('m, 'g, 's) board_env \<Rightarrow> u8 list \<Rightarrow> ('m, 'g) board \<Rightarrow> (bool \<times> ('m, 'g) board) option" where
  "board_receive_ethernet env bytes b = do {
     b \<leftarrow> synchronize_ethernet_time env b;
     let (accepted, s) = seeq_receive bytes 0 (seeq_of b);
     map_option (Pair accepted) (reschedule_ethernet (put_seeq s b))
   }"

definition board_ethernet_receive_ready :: "('m, 'g) board \<Rightarrow> bool" where
  "board_ethernet_receive_ready b = receive_ready (seeq_of b)"

section \<open>Snapshots\<close>

text \<open>A snapshot holds every device but the PROM; the SCSI and GIO buses keep their attachments.\<close>

record 's board_snapshot =
  sn_pic1 :: pic1
  sn_memory :: local_memory
  sn_hpc1 :: hpc1
  sn_centronics :: centronics
  sn_seeq8003 :: seeq8003
  sn_ethernet_output :: "u8 list list"
  sn_ethernet_tx_digest :: "u8 list"
  sn_ethernet_tx_count :: u64
  sn_int2 :: int2
  sn_wd33c93b :: wd33c93b
  sn_scsi_bus :: scsi_bus_snapshot
  sn_pending_scsi :: "request_kind option"
  sn_serial :: "z85230 list"
  sn_sgi_keyboard :: "sgi_keyboard option"
  sn_sgi_mouse :: "sgi_mouse option"
  sn_rtc :: rtc
  sn_mdac :: mdac
  sn_nvram :: eeprom
  sn_dsp56001 :: dsp56001
  sn_cpu_aux_control :: u8
  sn_gio :: "'s gio_bus_snapshot"
  sn_events :: ip12_events

datatype board_snapshot_error =
    PortAttachmentMismatch ip12_port bool bool
  | GioMismatch
  | ScsiMismatch

definition board_snapshot :: "('m, 'g, 's) board_env \<Rightarrow> ('m, 'g) board \<Rightarrow> 's board_snapshot" where
  "board_snapshot env b = (
     let d = ib_devices b in
     \<lparr>sn_pic1 = ib_pic1 b, sn_memory = ib_memory b, sn_hpc1 = bd_hpc1 d, sn_centronics = ib_centronics b,
      sn_seeq8003 = bd_seeq8003 d, sn_ethernet_output = bd_ethernet_output d,
      sn_ethernet_tx_digest = bd_ethernet_tx_digest d, sn_ethernet_tx_count = bd_ethernet_tx_count d,
      sn_int2 = bd_int2 d, sn_wd33c93b = bd_wd33c93b d, sn_scsi_bus = scsi_snapshot (bd_scsi_bus d),
      sn_pending_scsi = bd_pending_scsi d, sn_serial = bd_serial d, sn_sgi_keyboard = bd_sgi_keyboard d,
      sn_sgi_mouse = bd_sgi_mouse d, sn_rtc = bd_rtc d, sn_mdac = ib_mdac b, sn_nvram = bd_nvram d,
      sn_dsp56001 = ib_dsp56001 b, sn_cpu_aux_control = bd_cpu_aux_control d,
      sn_gio = gio_snapshot (be_gio env) (bd_gio d), sn_events = ib_events b\<rparr>)"

definition board_restore_snapshot ::
  "('m, 'g, 's) board_env \<Rightarrow> 's board_snapshot \<Rightarrow> ('m, 'g) board \<Rightarrow>
   ((board_snapshot_error + unit) \<times> ('m, 'g) board) option" where
  "board_restore_snapshot env s b = (
     let d = ib_devices b;
         keyboards = (sn_sgi_keyboard s \<noteq> None, bd_sgi_keyboard d \<noteq> None);
         mice = (sn_sgi_mouse s \<noteq> None, bd_sgi_mouse d \<noteq> None)
     in if fst keyboards \<noteq> snd keyboards
        then Some (Inl (PortAttachmentMismatch PortKeyboard (fst keyboards) (snd keyboards)), b)
        else if fst mice \<noteq> snd mice then Some (Inl (PortAttachmentMismatch PortMouse (fst mice) (snd mice)), b)
        else if \<not> gio_accepts_snapshot (be_gio env) (sn_gio s) (bd_gio d) then Some (Inl GioMismatch, b)
        else do {
          (restored, scsi) \<leftarrow> scsi_restore_snapshot (be_storage env) (sn_scsi_bus s) (bd_scsi_bus d);
          if \<not> restored then Some (Inl ScsiMismatch, put_scsi scsi b)
          else
            let (r, g) = gio_restore_snapshot (be_gio env) (sn_gio s) (bd_gio d);
                b = b\<lparr>ib_pic1 := sn_pic1 s, ib_memory := sn_memory s, ib_centronics := sn_centronics s,
                      ib_mdac := sn_mdac s, ib_dsp56001 := sn_dsp56001 s,
                      ib_devices := d\<lparr>bd_hpc1 := sn_hpc1 s, bd_seeq8003 := sn_seeq8003 s,
                        bd_ethernet_output := sn_ethernet_output s, bd_ethernet_tx_digest := sn_ethernet_tx_digest s,
                        bd_ethernet_tx_count := sn_ethernet_tx_count s, bd_int2 := sn_int2 s,
                        bd_wd33c93b := sn_wd33c93b s, bd_scsi_bus := scsi, bd_pending_scsi := sn_pending_scsi s,
                        bd_serial := sn_serial s, bd_sgi_keyboard := sn_sgi_keyboard s,
                        bd_sgi_mouse := sn_sgi_mouse s, bd_rtc := sn_rtc s, bd_nvram := sn_nvram s,
                        bd_cpu_aux_control := sn_cpu_aux_control s, bd_gio := g\<rparr>\<rparr>
            in Some (case r of Inl _ \<Rightarrow> (Inl GioMismatch, b)
                     | Inr _ \<Rightarrow> (Inr (), b\<lparr>ib_events := sn_events s\<rparr>))
        })"

end
