(* ===== verification/Machine_Input.thy ===== *)
theory Machine_Input
  imports Output Keyboard Mouse
begin

text \<open>
  What a host can send to a machine: typed inputs (\<^verbatim>\<open>se_machine/src/input.rs\<close>),
  endpoints (\<^verbatim>\<open>se_machine/src/endpoint.rs\<close>) and the translation of host keys to SGI
  key codes (\<^verbatim>\<open>se_machine/src/indigo/ip12.rs\<close>).
\<close>

section \<open>Inputs\<close>

definition MAX_INPUT_FRAME_BYTES :: nat where "MAX_INPUT_FRAME_BYTES = 16384"

datatype named_key =
    K_LeftControl | K_RightControl | K_LeftShift | K_RightShift | K_LeftAlt | K_RightAlt | K_CapsLock | K_Escape
  | K_Tab | K_Enter | K_Backspace | K_Delete | K_Space | K_ArrowLeft | K_ArrowRight | K_ArrowUp | K_ArrowDown
  | K_Insert | K_Home | K_End | K_PageUp | K_PageDown | K_PrintScreen | K_ScrollLock | K_Pause | K_NumLock
  | K_Semicolon | K_Comma | K_Minus | K_LeftBracket | K_RightBracket | K_Apostrophe | K_Period | K_Slash
  | K_Equal | K_Grave | K_Backslash | K_KeypadPeriod | K_KeypadMinus | K_KeypadPlus | K_KeypadSlash
  | K_KeypadAsterisk | K_KeypadEnter

datatype keyboard_key = KeyLetter u8 | KeyDigit u8 | KeyKeypadDigit u8 | KeyFunction u8 | KeyNamed named_key

datatype pointer_button = PointerLeft | PointerMiddle | PointerRight

datatype machine_input_payload =
    SerialByte u8
  | KeyboardInput keyboard_key bool
  | PointerMotion u32 u32
  | PointerButtonInput pointer_button bool
  | EthernetFrame "u8 list"

fun payload_kind :: "machine_input_payload \<Rightarrow> endpoint_kind" where
  "payload_kind (SerialByte _) = KindSerial"
| "payload_kind (KeyboardInput _ _) = KindKeyboard"
| "payload_kind (PointerMotion _ _) = KindPointer"
| "payload_kind (PointerButtonInput _ _) = KindPointer"
| "payload_kind (EthernetFrame _) = KindEthernet"

record machine_input =
  mi_endpoint :: endpoint_key
  mi_payload :: machine_input_payload

datatype machine_input_error =
    UnknownEndpoint | OutputOnlyEndpoint | PayloadKindMismatch | UnsupportedKeyboardKey | PayloadTooLarge

datatype machine_input_result = InputConsumed | InputWouldBlock

datatype machine_input_readiness = ReadinessReady | ReadinessWouldBlock

definition validate_input_allocation :: "machine_input \<Rightarrow> machine_input_error + unit" where
  "validate_input_allocation input =
     (case mi_payload input of
        EthernetFrame bytes \<Rightarrow> if MAX_INPUT_FRAME_BYTES < length bytes then Inl PayloadTooLarge else Inr ()
      | _ \<Rightarrow> Inr ())"

section \<open>Endpoints\<close>

datatype endpoint_direction = DirInput | DirOutput | DirBidirectional

fun accepts_input :: "endpoint_direction \<Rightarrow> bool" where
  "accepts_input d \<longleftrightarrow> d = DirInput \<or> d = DirBidirectional"

fun accepts_output :: "endpoint_direction \<Rightarrow> bool" where
  "accepts_output d \<longleftrightarrow> d = DirOutput \<or> d = DirBidirectional"

record endpoint_descriptor =
  ep_key :: endpoint_key
  ep_label :: string
  ep_kind :: endpoint_kind
  ep_direction :: endpoint_direction

text \<open>A catalog has distinct identities; the error names the first that recurs.\<close>

fun first_duplicate :: "endpoint_key set \<Rightarrow> endpoint_descriptor list \<Rightarrow> endpoint_key option" where
  "first_duplicate seen [] = None"
| "first_duplicate seen (e # es) =
     (if ep_key e \<in> seen then Some (ep_key e) else first_duplicate (insert (ep_key e) seen) es)"

definition endpoint_catalog_new :: "endpoint_descriptor list \<Rightarrow> endpoint_key + endpoint_descriptor list" where
  "endpoint_catalog_new endpoints =
     (case first_duplicate {} endpoints of Some key \<Rightarrow> Inl key | None \<Rightarrow> Inr endpoints)"

definition endpoint_catalog_get :: "endpoint_key \<Rightarrow> endpoint_descriptor list \<Rightarrow> endpoint_descriptor option" where
  "endpoint_catalog_get key endpoints = List.find (\<lambda>e. ep_key e = key) endpoints"

section \<open>Host keys\<close>

fun named_key_code :: "named_key \<Rightarrow> u8" where
  "named_key_code K_LeftControl = 2" | "named_key_code K_RightControl = 85"
| "named_key_code K_LeftShift = 5" | "named_key_code K_RightShift = 4"
| "named_key_code K_LeftAlt = 83" | "named_key_code K_RightAlt = 84"
| "named_key_code K_CapsLock = 3" | "named_key_code K_Escape = 6"
| "named_key_code K_Tab = 8" | "named_key_code K_Enter = 50"
| "named_key_code K_Backspace = 60" | "named_key_code K_Delete = 61"
| "named_key_code K_Space = 82" | "named_key_code K_ArrowLeft = 72"
| "named_key_code K_ArrowRight = 79" | "named_key_code K_ArrowUp = 80"
| "named_key_code K_ArrowDown = 73" | "named_key_code K_Insert = 101"
| "named_key_code K_Home = 102" | "named_key_code K_End = 104"
| "named_key_code K_PageUp = 103" | "named_key_code K_PageDown = 105"
| "named_key_code K_PrintScreen = 98" | "named_key_code K_ScrollLock = 99"
| "named_key_code K_Pause = 100" | "named_key_code K_NumLock = 106"
| "named_key_code K_Semicolon = 42" | "named_key_code K_Comma = 44"
| "named_key_code K_Minus = 46" | "named_key_code K_LeftBracket = 48"
| "named_key_code K_RightBracket = 55" | "named_key_code K_Apostrophe = 49"
| "named_key_code K_Period = 51" | "named_key_code K_Slash = 52"
| "named_key_code K_Equal = 53" | "named_key_code K_Grave = 54"
| "named_key_code K_Backslash = 56" | "named_key_code K_KeypadPeriod = 65"
| "named_key_code K_KeypadMinus = 75" | "named_key_code K_KeypadPlus = 109"
| "named_key_code K_KeypadSlash = 107" | "named_key_code K_KeypadAsterisk = 108"
| "named_key_code K_KeypadEnter = 81"

definition LETTER_CODES :: "u8 list" where
  "LETTER_CODES = [10, 35, 27, 17, 16, 18, 25, 26, 39, 33, 34, 41, 43, 36, 40, 47, 9, 23, 11, 24, 32, 28, 15, 20, 31, 19]"

definition DIGIT_CODES :: "u8 list" where
  "DIGIT_CODES = [45, 7, 13, 14, 21, 22, 29, 30, 37, 38]"

definition KEYPAD_DIGIT_CODES :: "u8 list" where
  "KEYPAD_DIGIT_CODES = [58, 57, 63, 64, 62, 68, 69, 66, 67, 74]"

text \<open>The inner option is the value of the function, the outer a panic of an index out of range.\<close>

definition host_key_code :: "keyboard_key \<Rightarrow> u8 option option" where
  "host_key_code key =
     (case key of
        KeyLetter letter \<Rightarrow>
          if 65 \<le> letter \<and> letter \<le> 90 then map_option Some (get_at LETTER_CODES (unat (letter - 65))) else Some None
      | KeyDigit digit \<Rightarrow> if digit \<le> 9 then map_option Some (get_at DIGIT_CODES (unat digit)) else Some None
      | KeyKeypadDigit digit \<Rightarrow>
          if digit \<le> 9 then map_option Some (get_at KEYPAD_DIGIT_CODES (unat digit)) else Some None
      | KeyFunction number \<Rightarrow> if 1 \<le> number \<and> number \<le> 12 then Some (Some (85 + number)) else Some None
      | KeyNamed named \<Rightarrow> Some (Some (named_key_code named)))"

definition translate_keyboard_key :: "keyboard_key \<Rightarrow> sgi_key option option" where
  "translate_keyboard_key key =
     map_option (\<lambda>code. Option.bind code (\<lambda>c. case sgi_key_try_from c of Inl _ \<Rightarrow> None | Inr k \<Rightarrow> Some k))
       (host_key_code key)"

fun sgi_mouse_button :: "pointer_button \<Rightarrow> mouse_button" where
  "sgi_mouse_button PointerLeft = MouseLeft"
| "sgi_mouse_button PointerMiddle = MouseMiddle"
| "sgi_mouse_button PointerRight = MouseRight"

lemma first_duplicate_None:
  "first_duplicate seen es = None \<longleftrightarrow> distinct (map ep_key es) \<and> seen \<inter> ep_key ` set es = {}"
  by (induction es arbitrary: seen) auto

section \<open>No two host keys share an SGI key\<close>

definition supported_keys :: "keyboard_key list" where
  "supported_keys =
     map (\<lambda>i. KeyLetter (65 + of_nat i)) [0..<26] @ map (\<lambda>i. KeyDigit (of_nat i)) [0..<10]
     @ map (\<lambda>i. KeyKeypadDigit (of_nat i)) [0..<10] @ map (\<lambda>i. KeyFunction (1 + of_nat i)) [0..<12]
     @ map KeyNamed [K_LeftControl, K_RightControl, K_LeftShift, K_RightShift, K_LeftAlt, K_RightAlt, K_CapsLock,
         K_Escape, K_Tab, K_Enter, K_Backspace, K_Delete, K_Space, K_ArrowLeft, K_ArrowRight, K_ArrowUp,
         K_ArrowDown, K_Insert, K_Home, K_End, K_PageUp, K_PageDown, K_PrintScreen, K_ScrollLock, K_Pause,
         K_NumLock, K_Semicolon, K_Comma, K_Minus, K_LeftBracket, K_RightBracket, K_Apostrophe, K_Period,
         K_Slash, K_Equal, K_Grave, K_Backslash, K_KeypadPeriod, K_KeypadMinus, K_KeypadPlus, K_KeypadSlash,
         K_KeypadAsterisk, K_KeypadEnter]"

lemma byte_range_cases:
  fixes v :: u8
  assumes "l \<le> v" "v \<le> h"
  shows "\<exists>i < unat h - unat l + 1. v = l + of_nat i"
proof (intro exI conjI)
  have "unat l \<le> unat v" "unat v \<le> unat h" using assms by (simp_all add: word_le_nat_alt)
  then show "unat v - unat l < unat h - unat l + 1" by simp
  show "v = l + of_nat (unat v - unat l)" using assms(1) by (simp add: word_le_nat_alt of_nat_diff)
qed

lemma supported_key:
  assumes "host_key_code key = Some (Some code)"
  shows "key \<in> set supported_keys"
proof (cases key)
  case (KeyLetter v)
  then have "65 \<le> v" "v \<le> 90" using assms by (auto simp: host_key_code_def split: if_splits)
  from byte_range_cases [OF this] obtain i where "i < 26" "v = 65 + of_nat i" by auto
  then show ?thesis using KeyLetter unfolding supported_keys_def set_append set_map set_upt by auto
next
  case (KeyDigit v)
  then have "0 \<le> v" "v \<le> 9" using assms by (auto simp: host_key_code_def split: if_splits)
  from byte_range_cases [OF this] obtain i where "i < 10" "v = of_nat i" by auto
  then show ?thesis using KeyDigit unfolding supported_keys_def set_append set_map set_upt by auto
next
  case (KeyKeypadDigit v)
  then have "0 \<le> v" "v \<le> 9" using assms by (auto simp: host_key_code_def split: if_splits)
  from byte_range_cases [OF this] obtain i where "i < 10" "v = of_nat i" by auto
  then show ?thesis using KeyKeypadDigit unfolding supported_keys_def set_append set_map set_upt by auto
next
  case (KeyFunction v)
  then have "1 \<le> v" "v \<le> 12" using assms by (auto simp: host_key_code_def split: if_splits)
  from byte_range_cases [OF this] obtain i where "i < 12" "v = 1 + of_nat i" by auto
  then show ?thesis using KeyFunction unfolding supported_keys_def set_append set_map set_upt by auto
next
  case (KeyNamed named)
  then show ?thesis unfolding supported_keys_def by (cases named) simp_all
qed

definition host_codes :: "u8 list" where
  "host_codes = LETTER_CODES @ DIGIT_CODES @ KEYPAD_DIGIT_CODES @ [86, 87, 88, 89, 90, 91, 92, 93, 94, 95, 96, 97]
     @ [2, 85, 5, 4, 83, 84, 3, 6, 8, 50, 60, 61, 82, 72, 79, 80, 73, 101, 102, 104, 103, 105, 98, 99, 100, 106,
        42, 44, 46, 48, 55, 49, 51, 52, 53, 54, 56, 65, 75, 109, 107, 108, 81]"

lemma supported_codes: "map host_key_code supported_keys = map (\<lambda>c. Some (Some c)) host_codes"
  by code_simp

lemma host_codes_distinct: "distinct host_codes \<and> list_all (\<lambda>c. c \<in> set SGI_KEYS) host_codes"
  by code_simp

lemma translate_supported:
  assumes "translate_keyboard_key key = Some (Some k)"
  shows "key \<in> set supported_keys \<and> host_key_code key = Some (Some k)"
  using assms supported_key
  by (auto simp: translate_keyboard_key_def sgi_key_try_from_def bind_eq_Some_conv split: sum.splits if_splits)

lemma translate_injective:
  assumes "translate_keyboard_key key = Some (Some k)" "translate_keyboard_key key' = Some (Some k)"
  shows "key = key'"
proof -
  have "distinct (map host_key_code supported_keys)"
    unfolding supported_codes using host_codes_distinct by (simp add: distinct_map inj_on_def)
  then have "inj_on host_key_code (set supported_keys)" by (simp add: distinct_map)
  then show ?thesis using translate_supported [OF assms(1)] translate_supported [OF assms(2)] by (auto simp: inj_on_def)
qed

end
