(* ===== verification/Ip12_Machine.thy ===== *)
theory Ip12_Machine
  imports Board_Access Machine_Input Machine
begin

text \<open>
  The complete Indigo IP12, \<^verbatim>\<open>se_machine/src/indigo/ip12.rs\<close> with
  \<^verbatim>\<open>prom.rs\<close>, \<^verbatim>\<open>snapshot.rs\<close>, \<^verbatim>\<open>media.rs\<close> and the dispatch of
  \<^verbatim>\<open>machine.rs\<close>: the processor on the board, the interrupt lines between them, one
  instruction, reset, the passing of time, input and its validation, the endpoint and media
  catalogs, and construction from a PROM image.
\<close>

section \<open>Configuration\<close>

definition U56_PROM_BYTES :: nat where "U56_PROM_BYTES = 0x40000"
definition CPU_FREQUENCY_HZ :: u64 where "CPU_FREQUENCY_HZ = 33000000"
definition SERIAL_CLOCK_HZ :: u64 where "SERIAL_CLOCK_HZ = 3686400"
definition SCSI_CLOCK_HZ :: u64 where "SCSI_CLOCK_HZ = 20000000"

datatype simm_size = Mib2 | Mib4 | Mib8

fun simm_size_mib :: "simm_size \<Rightarrow> u8" where
  "simm_size_mib Mib2 = 2"
| "simm_size_mib Mib4 = 4"
| "simm_size_mib Mib8 = 8"

type_synonym memory_configuration = "simm_size option \<times> simm_size option \<times> simm_size option"

datatype memory_configuration_error = NoInstalledBank | UnsupportedSimmCapacity nat u8

definition memory_configuration_new ::
  "memory_configuration \<Rightarrow> memory_configuration_error + memory_configuration" where
  "memory_configuration_new banks = (if banks = (None, None, None) then Inl NoInstalledBank else Inr banks)"

definition parse_simm :: "nat \<Rightarrow> u8 \<Rightarrow> memory_configuration_error + simm_size option" where
  "parse_simm index capacity =
     (if capacity = 0 then Inr None else if capacity = 2 then Inr (Some Mib2)
      else if capacity = 4 then Inr (Some Mib4) else if capacity = 8 then Inr (Some Mib8)
      else Inl (UnsupportedSimmCapacity index capacity))"

definition memory_configuration_from_mib ::
  "u8 \<times> u8 \<times> u8 \<Rightarrow> memory_configuration_error + memory_configuration" where
  "memory_configuration_from_mib simm_mib =
     (case simm_mib of (a, b, c) \<Rightarrow>
        (case parse_simm 0 a of Inl e \<Rightarrow> Inl e
         | Inr a \<Rightarrow> (case parse_simm 1 b of Inl e \<Rightarrow> Inl e
         | Inr b \<Rightarrow> (case parse_simm 2 c of Inl e \<Rightarrow> Inl e
         | Inr c \<Rightarrow> memory_configuration_new (a, b, c)))))"

definition bank_mib :: "simm_size option \<Rightarrow> u8" where
  "bank_mib bank = (case bank of Some simm \<Rightarrow> simm_size_mib simm | None \<Rightarrow> 0)"

definition memory_configuration_mib :: "memory_configuration \<Rightarrow> u8 \<times> u8 \<times> u8" where
  "memory_configuration_mib banks = (case banks of (a, b, c) \<Rightarrow> (bank_mib a, bank_mib b, bank_mib c))"

definition default_memory_configuration :: memory_configuration where
  "default_memory_configuration = (Some Mib2, None, None)"

definition bank_byte_len :: "simm_size \<Rightarrow> nat" where
  "bank_byte_len simm = unat (simm_size_mib simm) * 4 * 1024 * 1024"

definition memory_modules :: "memory_configuration \<Rightarrow> ram option list" where
  "memory_modules configuration =
     (case configuration of (a, b, c) \<Rightarrow>
        map (map_option (\<lambda>simm. ram_new (bank_byte_len simm))) [a, b, c] @ [None])"

definition cpu_config :: "backend \<Rightarrow> r3000_config option" where
  "cpu_config fp = r3000_config_new CPU_FREQUENCY_HZ (32 * 1024) (32 * 1024) 64 16 True fp"

section \<open>The PROM image\<close>

datatype ip12_error =
    InvalidPromSize nat nat
  | InvalidDiskSize nat
  | InvalidCdromSize nat
  | ScsiAttachment scsi_attach_error

definition validate_u56_prom_size :: "nat \<Rightarrow> ip12_error + unit" where
  "validate_u56_prom_size actual = (if actual \<noteq> U56_PROM_BYTES then Inl (InvalidPromSize U56_PROM_BYTES actual) else Inr ())"

fun swap_halfwords :: "u8 list \<Rightarrow> u8 list" where
  "swap_halfwords (a # b # rest) = b # a # swap_halfwords rest"
| "swap_halfwords rest = rest"

definition normalize_u56_prom :: "u8 list \<Rightarrow> ip12_error + u8 list" where
  "normalize_u56_prom bytes =
     (case validate_u56_prom_size (length bytes) of Inl e \<Rightarrow> Inl e | Inr _ \<Rightarrow> Inr (swap_halfwords bytes))"

section \<open>The machine\<close>

record ('m, 'g) ip12 =
  im_cpu :: r3000
  im_bus :: "('m, 'g) board"

definition interrupt_lines_of :: "('m, 'g) board \<Rightarrow> u8" where
  "interrupt_lines_of b =
     (if board_local_interrupt_0_asserted b then push_bit 1 1 else 0)
     OR (if board_local_interrupt_1_asserted b then push_bit 2 1 else 0)
     OR (if timer_0_interrupt_asserted (int2_of b) then push_bit 3 1 else 0)
     OR (if timer_1_interrupt_asserted (int2_of b) then push_bit 4 1 else 0)
     OR (if pic1_interrupt_asserted (ib_pic1 b) then push_bit 5 1 else 0)"

definition update_interrupt_lines :: "('m, 'g) ip12 \<Rightarrow> ('m, 'g) ip12 option" where
  "update_interrupt_lines m =
     map_option (\<lambda>cpu. m\<lparr>im_cpu := cpu\<rparr>)
       (r3000_set_hardware_interrupt_lines (interrupt_lines_of (im_bus m)) (im_cpu m))"

definition update_cp0_condition :: "('m, 'g) ip12 \<Rightarrow> ('m, 'g) ip12" where
  "update_cp0_condition m = m\<lparr>im_cpu := r3000_set_cp0_condition True (im_cpu m)\<rparr>"

definition ip12_reset :: "('m, 'g, 's) board_env \<Rightarrow> ('m, 'g) ip12 \<Rightarrow> ('m, 'g) ip12 option" where
  "ip12_reset env m = do {
     cpu \<leftarrow> r3000_reset (im_cpu m);
     b \<leftarrow> board_reset env (im_bus m);
     update_interrupt_lines (update_cp0_condition (m\<lparr>im_cpu := cpu, im_bus := b\<rparr>))
   }"

definition execute_instruction ::
  "float_env \<Rightarrow> ('m, 'g, 's) board_env \<Rightarrow> ('m, 'g) ip12 \<Rightarrow> ((step_error + unit) \<times> ('m, 'g) ip12) option" where
  "execute_instruction fe env m = do {
     m \<leftarrow> update_interrupt_lines m;
     (r, cpu, b) \<leftarrow> r3000_step fe (ip12_ops (board_device_ops env)) (im_cpu m) (im_bus m);
     let m = m\<lparr>im_cpu := cpu, im_bus := b\<rparr>;
     case r of
       Inl e \<Rightarrow> Some (Inl e, m)
     | Inr _ \<Rightarrow>
         let (requested, b) = board_take_system_reset_request (im_bus m);
             m = m\<lparr>im_bus := b\<rparr>
         in if requested then map_option (Pair (Inr ())) (ip12_reset env m) else Some (Inr (), m)
   }"

definition ip12_advance_time ::
  "('m, 'g, 's) board_env \<Rightarrow> virtual_duration \<Rightarrow> machine_output \<Rightarrow> ('m, 'g) ip12 \<Rightarrow>
   (machine_output \<times> ('m, 'g) ip12) option" where
  "ip12_advance_time env elapsed out m =
     map_option (\<lambda>(out, b). (out, m\<lparr>im_bus := b\<rparr>)) (board_advance_time env elapsed out (im_bus m))"

definition publish_current_outputs ::
  "('m, 'g, 's) board_env \<Rightarrow> ('m, 'g) ip12 \<Rightarrow> machine_output \<Rightarrow> machine_output option" where
  "publish_current_outputs env m out = do {
     video \<leftarrow> video_output_of env (im_bus m);
     case video of None \<Rightarrow> Some out | Some v \<Rightarrow> publish_video ''video.0'' v out
   }"

definition execution_address :: "('m, 'g) ip12 \<Rightarrow> u32" where
  "execution_address m = cpu_pc (r3_state (im_cpu m))"

section \<open>Input\<close>

text \<open>An operation of the board followed by the refresh of the interrupt lines.\<close>

definition on_board ::
  "(('m, 'g) board \<Rightarrow> ('m, 'g) board option) \<Rightarrow> ('m, 'g) ip12 \<Rightarrow> ('m, 'g) ip12 option" where
  "on_board f m = do {
     b \<leftarrow> f (im_bus m);
     update_interrupt_lines (m\<lparr>im_bus := b\<rparr>)
   }"

definition has_sgi_keyboard :: "('m, 'g) board \<Rightarrow> bool" where
  "has_sgi_keyboard b \<longleftrightarrow> bd_sgi_keyboard (ib_devices b) \<noteq> None"

definition has_sgi_mouse :: "('m, 'g) board \<Rightarrow> bool" where
  "has_sgi_mouse b \<longleftrightarrow> bd_sgi_mouse (ib_devices b) \<noteq> None"

definition input_endpoint_kind ::
  "('m, 'g, 's) board_env \<Rightarrow> endpoint_key \<Rightarrow> ('m, 'g) board \<Rightarrow> (machine_input_error + endpoint_kind) option" where
  "input_endpoint_kind env endpoint b =
     (if endpoint = endpoint_name PortKeyboard \<and> has_sgi_keyboard b then Some (Inr KindKeyboard)
      else if endpoint = endpoint_name PortMouse \<and> has_sgi_mouse b then Some (Inr KindPointer)
      else if endpoint = endpoint_name PortSerialA \<or> endpoint = endpoint_name PortSerialB then Some (Inr KindSerial)
      else if endpoint = ''ethernet.0'' then Some (Inr KindEthernet)
      else if endpoint = ''video.0'' then
        map_option (\<lambda>video. Inl (if video then OutputOnlyEndpoint else UnknownEndpoint)) (has_video_output env b)
      else Some (Inl UnknownEndpoint))"

definition validate_input_endpoint ::
  "('m, 'g, 's) board_env \<Rightarrow> machine_input \<Rightarrow> ('m, 'g) ip12 \<Rightarrow> (machine_input_error + unit) option" where
  "validate_input_endpoint env input m = do {
     kind \<leftarrow> input_endpoint_kind env (mi_endpoint input) (im_bus m);
     Some (case kind of
         Inl e \<Rightarrow> Inl e
       | Inr k \<Rightarrow> if k \<noteq> payload_kind (mi_payload input) then Inl PayloadKindMismatch else Inr ())
   }"

definition ip12_input_readiness ::
  "('m, 'g, 's) board_env \<Rightarrow> machine_input \<Rightarrow> ('m, 'g) ip12 \<Rightarrow>
   (machine_input_error + machine_input_readiness) option" where
  "ip12_input_readiness env input m = do {
     valid \<leftarrow> validate_input_endpoint env input m;
     case valid of
       Inl e \<Rightarrow> Some (Inl e)
     | Inr _ \<Rightarrow>
         (case mi_payload input of
            KeyboardInput key _ \<Rightarrow>
              map_option (\<lambda>k. if k = None then Inl UnsupportedKeyboardKey else Inr ReadinessReady)
                (translate_keyboard_key key)
          | EthernetFrame _ \<Rightarrow>
              Some (Inr (if board_ethernet_receive_ready (im_bus m) then ReadinessReady else ReadinessWouldBlock))
          | _ \<Rightarrow> Some (Inr ReadinessReady))
   }"

text \<open>The routing of an input to its device; an input that no branch takes is a panic.\<close>

definition route_input ::
  "('m, 'g, 's) board_env \<Rightarrow> machine_input \<Rightarrow> ('m, 'g) ip12 \<Rightarrow>
   ((machine_input_error + bool) \<times> ('m, 'g) ip12) option" where
  "route_input env input m = (
     let endpoint = mi_endpoint input;
         consumed = map_option (Pair (Inr True))
     in case mi_payload input of
          SerialByte value \<Rightarrow>
            if endpoint = endpoint_name PortSerialA
            then consumed (on_board (board_receive_serial_character ChannelA value) m)
            else if endpoint = endpoint_name PortSerialB
            then consumed (on_board (board_receive_serial_character ChannelB value) m)
            else None
        | KeyboardInput key pressed \<Rightarrow>
            if endpoint = endpoint_name PortKeyboard then do {
              translated \<leftarrow> translate_keyboard_key key;
              case translated of
                None \<Rightarrow> Some (Inl UnsupportedKeyboardKey, m)
              | Some k \<Rightarrow> consumed (on_board (board_set_sgi_key_state k pressed) m)
            }
            else None
        | PointerMotion delta_x delta_y \<Rightarrow>
            if endpoint = endpoint_name PortMouse
            then consumed (on_board (board_move_sgi_mouse delta_x delta_y) m) else None
        | PointerButtonInput button pressed \<Rightarrow>
            if endpoint = endpoint_name PortMouse
            then consumed (on_board (board_set_sgi_mouse_button_state (sgi_mouse_button button) pressed) m) else None
        | EthernetFrame bytes \<Rightarrow>
            if endpoint = ''ethernet.0''
            then map_option (\<lambda>(accepted, b). (Inr accepted, m\<lparr>im_bus := b\<rparr>))
                   (board_receive_ethernet env bytes (im_bus m))
            else None)"

definition ip12_try_receive_input ::
  "('m, 'g, 's) board_env \<Rightarrow> machine_input \<Rightarrow> ('m, 'g) ip12 \<Rightarrow>
   ((machine_input_error + machine_input_result) \<times> ('m, 'g) ip12) option" where
  "ip12_try_receive_input env input m = do {
     valid \<leftarrow> validate_input_endpoint env input m;
     case valid of
       Inl e \<Rightarrow> Some (Inl e, m)
     | Inr _ \<Rightarrow> map_option (map_prod (map_sum id (\<lambda>c. if c then InputConsumed else InputWouldBlock)) id)
                  (route_input env input m)
   }"

text \<open>The dispatch of \<^verbatim>\<open>machine.rs\<close> bounds the payload first.\<close>

definition machine_readiness ::
  "('m, 'g, 's) board_env \<Rightarrow> machine_input \<Rightarrow> ('m, 'g) ip12 \<Rightarrow>
   (machine_input_error + machine_input_readiness) option" where
  "machine_readiness env input m =
     (case validate_input_allocation input of
        Inl e \<Rightarrow> Some (Inl e) | Inr _ \<Rightarrow> ip12_input_readiness env input m)"

definition machine_try_receive_input ::
  "('m, 'g, 's) board_env \<Rightarrow> machine_input \<Rightarrow> ('m, 'g) ip12 \<Rightarrow>
   ((machine_input_error + machine_input_result) \<times> ('m, 'g) ip12) option" where
  "machine_try_receive_input env input m =
     (case validate_input_allocation input of
        Inl e \<Rightarrow> Some (Inl e, m) | Inr _ \<Rightarrow> ip12_try_receive_input env input m)"

section \<open>Catalogs\<close>

definition ip12_endpoints :: "bool \<Rightarrow> bool \<Rightarrow> bool \<Rightarrow> endpoint_descriptor list" where
  "ip12_endpoints keyboard mouse video =
     (if keyboard then [\<lparr>ep_key = endpoint_name PortKeyboard, ep_label = ''SGI Keyboard'',
        ep_kind = KindKeyboard, ep_direction = DirInput\<rparr>] else [])
     @ (if mouse then [\<lparr>ep_key = endpoint_name PortMouse, ep_label = ''SGI Mouse'',
        ep_kind = KindPointer, ep_direction = DirInput\<rparr>] else [])
     @ [\<lparr>ep_key = endpoint_name PortSerialA, ep_label = ''Serial Port A'',
          ep_kind = KindSerial, ep_direction = DirBidirectional\<rparr>,
        \<lparr>ep_key = endpoint_name PortSerialB, ep_label = ''Serial Port B'',
          ep_kind = KindSerial, ep_direction = DirBidirectional\<rparr>,
        \<lparr>ep_key = ''ethernet.0'', ep_label = ''Ethernet Port 0'',
          ep_kind = KindEthernet, ep_direction = DirBidirectional\<rparr>]
     @ (if video then [\<lparr>ep_key = ''video.0'', ep_label = ''LG1 Video Output'',
        ep_kind = KindVideo, ep_direction = DirOutput\<rparr>] else [])"

definition endpoint_catalog :: "('m, 'g, 's) board_env \<Rightarrow> ('m, 'g) ip12 \<Rightarrow> endpoint_descriptor list option" where
  "endpoint_catalog env m = do {
     video \<leftarrow> has_video_output env (im_bus m);
     case endpoint_catalog_new (ip12_endpoints (has_sgi_keyboard (im_bus m)) (has_sgi_mouse (im_bus m)) video) of
       Inl _ \<Rightarrow> None
     | Inr endpoints \<Rightarrow> Some endpoints
   }"

text \<open>Removable media: the identity of a slot is its SCSI address in decimal.\<close>

fun decimal :: "nat \<Rightarrow> string" where
  "decimal n = (if n < 10 then [char_of (48 + n)] else decimal (n div 10) @ [char_of (48 + n mod 10)])"

declare decimal.simps [simp del]

definition media_slot_key :: "u8 \<Rightarrow> u8 \<Rightarrow> string" where
  "media_slot_key target_id lun =
     ''scsi.0.target.'' @ decimal (unat target_id) @ ''.lun.'' @ decimal (unat lun)"

definition media_slot_label :: "scsi_removable_media_kind \<Rightarrow> u8 \<Rightarrow> u8 \<Rightarrow> string" where
  "media_slot_label kind target_id lun =
     (case kind of OpticalDisc \<Rightarrow> ''SCSI CD-ROM '' @ decimal (unat target_id) @ '':'' @ decimal (unat lun))"

datatype media_kind = MediaOpticalDisc

record media_slot_state =
  mt_medium_size_bytes :: "nat option"
  mt_removal_prevented :: bool

record media_slot_descriptor =
  ms_key :: string
  ms_label :: string
  ms_kind :: media_kind
  ms_state :: media_slot_state

fun first_duplicate_slot :: "string set \<Rightarrow> media_slot_descriptor list \<Rightarrow> string option" where
  "first_duplicate_slot seen [] = None"
| "first_duplicate_slot seen (s # ss) =
     (if ms_key s \<in> seen then Some (ms_key s) else first_duplicate_slot (insert (ms_key s) seen) ss)"

definition media_catalog_new :: "media_slot_descriptor list \<Rightarrow> string + media_slot_descriptor list" where
  "media_catalog_new slots = (case first_duplicate_slot {} slots of Some key \<Rightarrow> Inl key | None \<Rightarrow> Inr slots)"

definition media_kind_of :: "scsi_removable_media_kind \<Rightarrow> media_kind" where
  "media_kind_of kind = (case kind of OpticalDisc \<Rightarrow> MediaOpticalDisc)"

definition describe_slot :: "scsi_removable_media_slot \<Rightarrow> media_slot_descriptor" where
  "describe_slot slot = (
     let st = rs_state slot
     in \<lparr>ms_key = media_slot_key (rs_target_id slot) (rs_lun slot),
         ms_label = media_slot_label (rm_kind st) (rs_target_id slot) (rs_lun slot),
         ms_kind = media_kind_of (rm_kind st),
         ms_state = \<lparr>mt_medium_size_bytes = rm_medium_size_bytes st,
                     mt_removal_prevented = rm_removal_prevented st\<rparr>\<rparr>)"

definition media_catalog :: "('m, 'g) ip12 \<Rightarrow> media_slot_descriptor list option" where
  "media_catalog m = do {
     slots \<leftarrow> removable_media_slots (scsi_of (im_bus m));
     case media_catalog_new (map describe_slot slots) of Inl _ \<Rightarrow> None | Inr catalog \<Rightarrow> Some catalog
   }"

datatype machine_media_error =
    UnknownSlot | MachineMediumAlreadyPresent | MachineMediumNotPresent | MachineMediumRemovalPrevented
  | MachineInvalidMedium | MediaBusy

fun machine_media_error_of :: "scsi_media_error \<Rightarrow> machine_media_error" where
  "machine_media_error_of (MediumAlreadyPresent _ _) = MachineMediumAlreadyPresent"
| "machine_media_error_of (MediumNotPresent _ _) = MachineMediumNotPresent"
| "machine_media_error_of (MediumRemovalPrevented _ _) = MachineMediumRemovalPrevented"
| "machine_media_error_of (InvalidMedium _) = MachineInvalidMedium"
| "machine_media_error_of BusBusy = MediaBusy"
| "machine_media_error_of (MediaInvalidAddress _ _) = UnknownSlot"
| "machine_media_error_of (NoTarget _ _) = UnknownSlot"
| "machine_media_error_of (NotRemovable _ _) = UnknownSlot"

definition removable_media_address :: "string \<Rightarrow> ('m, 'g) ip12 \<Rightarrow> (machine_media_error + u8 \<times> u8) option" where
  "removable_media_address slot m = do {
     slots \<leftarrow> removable_media_slots (scsi_of (im_bus m));
     Some (case List.find (\<lambda>c. media_slot_key (rs_target_id c) (rs_lun c) = slot) slots of
         None \<Rightarrow> Inl UnknownSlot
       | Some c \<Rightarrow> Inr (rs_target_id c, rs_lun c))
   }"

definition insert_media ::
  "('m, 'g, 's) board_env \<Rightarrow> string \<Rightarrow> 'm \<Rightarrow> ('m, 'g) ip12 \<Rightarrow>
   ((machine_media_error + unit) \<times> ('m, 'g) ip12) option" where
  "insert_media env slot medium m = do {
     address \<leftarrow> removable_media_address slot m;
     case address of
       Inl e \<Rightarrow> Some (Inl e, m)
     | Inr (target_id, lun) \<Rightarrow> do {
         (r, s) \<leftarrow> insert_medium (be_storage env) target_id lun medium (scsi_of (im_bus m));
         Some (map_sum machine_media_error_of id r, m\<lparr>im_bus := put_scsi s (im_bus m)\<rparr>)
       }
   }"

definition eject_media ::
  "string \<Rightarrow> bool \<Rightarrow> ('m, 'g) ip12 \<Rightarrow> ((machine_media_error + unit) \<times> ('m, 'g) ip12) option" where
  "eject_media slot force m = do {
     address \<leftarrow> removable_media_address slot m;
     case address of
       Inl e \<Rightarrow> Some (Inl e, m)
     | Inr (target_id, lun) \<Rightarrow> do {
         (r, s) \<leftarrow> eject_medium target_id lun force (scsi_of (im_bus m));
         Some (map_sum machine_media_error_of (\<lambda>_. ()) r, m\<lparr>im_bus := put_scsi s (im_bus m)\<rparr>)
       }
   }"

section \<open>Construction\<close>

definition attach_disk ::
  "'m storage_ops \<Rightarrow> 'm option \<Rightarrow> 'm scsi_bus \<Rightarrow> (ip12_error + 'm scsi_bus) option" where
  "attach_disk so disk s =
     (case disk of
        None \<Rightarrow> Some (Inr s)
      | Some storage \<Rightarrow>
          (case disk_try_new (so_size_bytes so storage) of
             Inl _ \<Rightarrow> Some (Inl (InvalidDiskSize (so_size_bytes so storage)))
           | Inr k \<Rightarrow> map_option (\<lambda>(r, s). case r of Inl e \<Rightarrow> Inl (ScsiAttachment e) | Inr _ \<Rightarrow> Inr s)
               (scsi_attach so 1 0 (DiskTarget k) storage s)))"

definition attach_cdrom ::
  "'m storage_ops \<Rightarrow> 'm option \<Rightarrow> 'm scsi_bus \<Rightarrow> (ip12_error + 'm scsi_bus) option" where
  "attach_cdrom so cdrom s =
     (case cdrom of
        None \<Rightarrow> Some (Inr s)
      | Some storage \<Rightarrow>
          (case cdrom_try_new (so_size_bytes so storage) of
             Inl _ \<Rightarrow> Some (Inl (InvalidCdromSize (so_size_bytes so storage)))
           | Inr c \<Rightarrow> map_option (\<lambda>(r, s). case r of Inl e \<Rightarrow> Inl (ScsiAttachment e) | Inr _ \<Rightarrow> Inr s)
               (scsi_attach so 4 0 (CdromTarget c) storage s)))"

definition ip12_new_with_buses ::
  "('m, 'g, 's) board_env \<Rightarrow> u8 list \<Rightarrow> backend \<Rightarrow> memory_configuration \<Rightarrow> 'g gio_bus \<Rightarrow> 'm scsi_bus \<Rightarrow>
   sgi_keyboard option \<Rightarrow> sgi_mouse option \<Rightarrow> (ip12_error + ('m, 'g) ip12) option" where
  "ip12_new_with_buses env raw_prom fp memory gio scsi keyboard mouse =
     (case normalize_u56_prom raw_prom of
        Inl e \<Rightarrow> Some (Inl e)
      | Inr prom \<Rightarrow> do {
          config \<leftarrow> cpu_config fp;
          p \<leftarrow> pic1_new 0xf7 2 True;
          w \<leftarrow> wd_new SCSI_CLOCK_HZ;
          z \<leftarrow> z85230_new SERIAL_CLOCK_HZ;
          b \<leftarrow> board_new env p (memory_modules memory) hpc1_new centronics_new seeq_new int2_new w scsi [z, z]
                 keyboard mouse rtc_new mdac_new eeprom_new dsp_new (rom_new prom) gio;
          Some (Inr (update_cp0_condition \<lparr>im_cpu = r3000_new config, im_bus = b\<rparr>))
        })"

definition ip12_new_with_memory ::
  "('m, 'g, 's) board_env \<Rightarrow> u8 list \<Rightarrow> backend \<Rightarrow> memory_configuration \<Rightarrow> 'g gio_bus \<Rightarrow> 'm option \<Rightarrow>
   'm option \<Rightarrow> (ip12_error + ('m, 'g) ip12) option" where
  "ip12_new_with_memory env raw_prom fp memory gio disk cdrom =
     (case validate_u56_prom_size (length raw_prom) of
        Inl e \<Rightarrow> Some (Inl e)
      | Inr _ \<Rightarrow> do {
          with_disk \<leftarrow> attach_disk (be_storage env) disk scsi_bus_new;
          case with_disk of
            Inl e \<Rightarrow> Some (Inl e)
          | Inr s \<Rightarrow> do {
              with_cdrom \<leftarrow> attach_cdrom (be_storage env) cdrom s;
              case with_cdrom of
                Inl e \<Rightarrow> Some (Inl e)
              | Inr s \<Rightarrow> ip12_new_with_buses env raw_prom fp memory gio s (Some keyboard_new) (Some mouse_new)
            }
        })"

definition ip12_new ::
  "('m, 'g, 's) board_env \<Rightarrow> u8 list \<Rightarrow> backend \<Rightarrow> 'g gio_bus \<Rightarrow> 'm option \<Rightarrow> 'm option \<Rightarrow>
   (ip12_error + ('m, 'g) ip12) option" where
  "ip12_new env raw_prom fp gio disk cdrom =
     ip12_new_with_memory env raw_prom fp default_memory_configuration gio disk cdrom"

section \<open>Retained state and snapshots\<close>

record nonvolatile_state =
  nv_nvram :: "u16 list"
  nv_rtc :: rtc_battery_state

record nonvolatile_parts =
  np_nvram_words :: "u16 list"
  np_rtc_registers :: "u8 list"
  np_rtc_alternate :: "u8 list"
  np_rtc_prescaler_phase_attoseconds :: u64
  np_rtc_millisecond_within_hundredth :: u8
  np_rtc_oscillator_failed :: bool
  np_rtc_single_supply :: bool
  np_rtc_alarm_match_active :: bool

definition nonvolatile_to_parts :: "nonvolatile_state \<Rightarrow> nonvolatile_parts" where
  "nonvolatile_to_parts s = (
     let r = nv_rtc s
     in \<lparr>np_nvram_words = nv_nvram s, np_rtc_registers = rb_registers r, np_rtc_alternate = rb_alternate r,
         np_rtc_prescaler_phase_attoseconds = rb_prescaler_phase_attoseconds r,
         np_rtc_millisecond_within_hundredth = rb_millisecond_within_hundredth r,
         np_rtc_oscillator_failed = rb_oscillator_failed r, np_rtc_single_supply = rb_single_supply r,
         np_rtc_alarm_match_active = rb_alarm_match_active r\<rparr>)"

definition nonvolatile_from_parts :: "nonvolatile_parts \<Rightarrow> rtc_state_error + nonvolatile_state" where
  "nonvolatile_from_parts p =
     map_sum id (\<lambda>r. \<lparr>nv_nvram = np_nvram_words p, nv_rtc = r\<rparr>)
       (rtc_battery_state_new (np_rtc_registers p) (np_rtc_alternate p) (np_rtc_prescaler_phase_attoseconds p)
         (np_rtc_millisecond_within_hundredth p) (np_rtc_oscillator_failed p) (np_rtc_single_supply p)
         (np_rtc_alarm_match_active p))"

definition ip12_nonvolatile_state :: "('m, 'g) ip12 \<Rightarrow> nonvolatile_state option" where
  "ip12_nonvolatile_state m =
     map_option (\<lambda>(nvram, r). \<lparr>nv_nvram = nvram, nv_rtc = r\<rparr>) (board_nonvolatile_state (im_bus m))"

definition ip12_restore_nonvolatile_state ::
  "nonvolatile_state \<Rightarrow> u64 \<Rightarrow> ('m, 'g) ip12 \<Rightarrow> ('m, 'g) ip12 option" where
  "ip12_restore_nonvolatile_state s offline_milliseconds =
     on_board (\<lambda>b. Some (board_restore_nonvolatile_state (nv_nvram s) (nv_rtc s) offline_milliseconds b))"

record 's ip12_snapshot =
  is_cpu :: r3000_snapshot
  is_bus :: "'s board_snapshot"

definition ip12_take_snapshot :: "('m, 'g, 's) board_env \<Rightarrow> ('m, 'g) ip12 \<Rightarrow> 's ip12_snapshot" where
  "ip12_take_snapshot env m =
     \<lparr>is_cpu = r3000_take_snapshot (im_cpu m), is_bus = board_snapshot env (im_bus m)\<rparr>"

definition ip12_restore_snapshot ::
  "('m, 'g, 's) board_env \<Rightarrow> 's ip12_snapshot \<Rightarrow> ('m, 'g) ip12 \<Rightarrow>
   ((board_snapshot_error + unit) \<times> ('m, 'g) ip12) option" where
  "ip12_restore_snapshot env s m = do {
     (r, b) \<leftarrow> board_restore_snapshot env (is_bus s) (im_bus m);
     case r of
       Inl e \<Rightarrow> Some (Inl e, m\<lparr>im_bus := b\<rparr>)
     | Inr _ \<Rightarrow> Some (Inr (), update_cp0_condition
         (m\<lparr>im_bus := b, im_cpu := r3000_restore_snapshot (is_cpu s) (im_cpu m)\<rparr>))
   }"

end
