(* ===== verification/Ip12_Correct.thy ===== *)
theory Ip12_Correct
  imports Ip12_Machine Scsi_Device
begin

text \<open>
  The complete machine: its catalogs are well formed, its validation of input agrees with the
  endpoint catalog, and a medium that the host inserts is the one that the media catalog shows.
\<close>

section \<open>A machine for examples\<close>

text \<open>No graphics, memory storage, one CD-ROM drive without a medium at address 4.0.\<close>

definition bare_slots :: "(unit, unit) gio_device_ops" where
  "bare_slots = \<lparr>gd_reset = id, gd_debug_read = (\<lambda>_ _ len. Some (Inr (replicate len 0))),
     gd_read = (\<lambda>d _ len. Some (Inr (replicate len 0), d)), gd_write = (\<lambda>d _ _. Some (Inr (), d)),
     gd_read_dma = (\<lambda>d _ len. Some (Inr (replicate len 0), d)), gd_write_dma = (\<lambda>d _ _. Some (Inr (), d)),
     gd_dma_sync_asserted = (\<lambda>_. False), gd_advance_time = (\<lambda>_ d. Some d), gd_time_until_event = (\<lambda>_. None),
     gd_interrupt_asserted = (\<lambda>_ _. False), gd_display_state = (\<lambda>_. None), gd_take_display_update = Pair False,
     gd_snapshot = id, gd_accepts_snapshot = (\<lambda>_ _. True), gd_restore_snapshot = (\<lambda>_ d. d)\<rparr>"

definition bare_env :: "(memory_medium, unit, unit) board_env" where
  "bare_env = \<lparr>be_storage = memory_storage, be_gio = bare_slots, be_sha256 = (\<lambda>_. replicate 32 0)\<rparr>"

definition bare_board :: "memory_medium scsi_bus \<Rightarrow> (memory_medium, unit) board" where
  "bare_board scsi =
     \<lparr>ib_pic1 = the (pic1_new 0xf7 2 True), ib_memory = \<lparr>lm_modules = [Some (ram_new 64), None, None, None]\<rparr>,
      ib_centronics = centronics_new, ib_mdac = mdac_new, ib_dsp56001 = dsp_new, ib_prom = rom_new [],
      ib_events = events_new,
      ib_devices = \<lparr>bd_hpc1 = hpc1_new, bd_seeq8003 = seeq_new, bd_ethernet_output = [],
        bd_ethernet_tx_digest = replicate 32 0, bd_ethernet_tx_count = 0, bd_int2 = int2_new,
        bd_wd33c93b = the (wd_new SCSI_CLOCK_HZ), bd_scsi_bus = scsi, bd_pending_scsi = None,
        bd_serial = [the (z85230_new SERIAL_CLOCK_HZ), the (z85230_new SERIAL_CLOCK_HZ)],
        bd_sgi_keyboard = Some keyboard_new, bd_sgi_mouse = Some mouse_new, bd_rtc = rtc_new,
        bd_nvram = eeprom_new, bd_cpu_aux_control = 0, bd_gio = gio_bus_new\<rparr>\<rparr>"

definition drive_bus :: "memory_medium scsi_bus" where
  "drive_bus = put_attachment 32 \<lparr>ta_target = CdromTarget cdrom_new_empty, ta_backing = RemovableBacking None\<rparr> scsi_bus_new"

definition bare_machine :: "(memory_medium, unit) ip12" where
  "bare_machine = \<lparr>im_cpu = r3000_new plain_config, im_bus = bare_board drive_bus\<rparr>"

section \<open>Endpoints\<close>

lemma endpoints_distinct: "distinct (map ep_key (ip12_endpoints keyboard mouse video))"
  by (simp add: ip12_endpoints_def)

lemma endpoint_catalog_is:
  assumes "has_video_output env (im_bus m) = Some video"
  shows "endpoint_catalog env m =
    Some (ip12_endpoints (has_sgi_keyboard (im_bus m)) (has_sgi_mouse (im_bus m)) video)"
proof -
  have "first_duplicate {} (ip12_endpoints keyboard mouse video) = None" for keyboard mouse
    by (simp add: first_duplicate_None endpoints_distinct)
  then show ?thesis by (simp add: endpoint_catalog_def endpoint_catalog_new_def assms)
qed

text \<open>What the catalog says of an input.\<close>

definition catalog_verdict :: "machine_input \<Rightarrow> endpoint_descriptor list \<Rightarrow> machine_input_error + unit" where
  "catalog_verdict input catalog =
     (case endpoint_catalog_get (mi_endpoint input) catalog of
        None \<Rightarrow> Inl UnknownEndpoint
      | Some e \<Rightarrow>
          if \<not> accepts_input (ep_direction e) then Inl OutputOnlyEndpoint
          else if ep_kind e \<noteq> payload_kind (mi_payload input) then Inl PayloadKindMismatch
          else Inr ())"

lemma endpoint_kind_cases:
  assumes "has_video_output env b = Some video"
  shows "input_endpoint_kind env key b = Some
    (case endpoint_catalog_get key (ip12_endpoints (has_sgi_keyboard b) (has_sgi_mouse b) video) of
       None \<Rightarrow> Inl UnknownEndpoint
     | Some e \<Rightarrow> if accepts_input (ep_direction e) then Inr (ep_kind e) else Inl OutputOnlyEndpoint)"
  by (simp add: input_endpoint_kind_def assms endpoint_catalog_get_def ip12_endpoints_def)

text \<open>
  C9. The endpoint catalog of a machine never reports a duplicate identity, and the validation of
  an input is exactly what the catalog says of it: an endpoint outside the catalog is unknown, an
  endpoint of direction output rejects input, a payload of another kind than the endpoint's is a
  mismatch, and every other input is valid.
\<close>
theorem validation_follows_catalog:
  assumes "has_video_output env (im_bus m) = Some video"
  shows "\<exists>catalog. endpoint_catalog env m = Some catalog \<and>
    validate_input_endpoint env input m = Some (catalog_verdict input catalog)"
  by (simp add: endpoint_catalog_is [OF assms] validate_input_endpoint_def catalog_verdict_def
      endpoint_kind_cases [OF assms] split: option.split)

theorem validation_follows_catalog_witness:
  "\<exists>catalog. endpoint_catalog bare_env bare_machine = Some catalog \<and>
    validate_input_endpoint bare_env \<lparr>mi_endpoint = ''serial.external.b'', mi_payload = SerialByte 65\<rparr> bare_machine
      = Some (catalog_verdict \<lparr>mi_endpoint = ''serial.external.b'', mi_payload = SerialByte 65\<rparr> catalog)"
  by (rule validation_follows_catalog [of bare_env bare_machine False])
    (simp add: has_video_output_def gio_display_state_of_def bare_machine_def bare_board_def gio_bus_new_def get_at_def)

section \<open>Media\<close>

lemma decimal_digit: "n < 10 \<Longrightarrow> decimal n = [char_of (48 + n)]"
  by (simp add: decimal.simps)

lemma digit_code:
  fixes n k :: nat
  assumes "char_of (48 + n) = (char_of (48 + k) :: char)" "n < 10" "k < 10"
  shows "n = k"
proof -
  have "of_char (char_of (48 + n)) = (of_char (char_of (48 + k)) :: nat)" using assms(1) by simp
  moreover have "(48 + n) mod 256 = 48 + n" "(48 + k) mod 256 = 48 + k" using assms(2,3) by simp_all
  ultimately show ?thesis by simp
qed

lemma byte_of_small: "n < 8 \<Longrightarrow> unat (word_of_nat n :: u8) = n"
  by (simp add: unat_of_nat take_bit_eq_mod)

definition slot_key :: "nat \<Rightarrow> string" where
  "slot_key n = media_slot_key (fst (address_for_slot n)) (snd (address_for_slot n))"

lemma slot_key_is:
  "n < 64 \<Longrightarrow> slot_key n = ''scsi.0.target.'' @ [char_of (48 + n div 8)] @ ''.lun.'' @ [char_of (48 + n mod 8)]"
  by (simp add: slot_key_def media_slot_key_def address_for_slot_def LUN_COUNT_def byte_of_small decimal_digit)

lemma slot_key_inject:
  assumes "n < 64" "k < 64" "slot_key n = slot_key k"
  shows "n = k"
proof -
  have "char_of (48 + n div 8) = (char_of (48 + k div 8) :: char)"
    and "char_of (48 + n mod 8) = (char_of (48 + k mod 8) :: char)"
    using assms(3) unfolding slot_key_is [OF assms(1)] slot_key_is [OF assms(2)] append_Cons append_Nil list.inject
    by blast+
  then have "n div 8 = k div 8" "n mod 8 = k mod 8" using assms(1,2) by (auto intro: digit_code)
  then show ?thesis by (metis div_mult_mod_eq)
qed

text \<open>The descriptor of a slot, and the catalog as the list of them.\<close>

definition slot_entry :: "nat \<Rightarrow> 'm target_attachment option \<Rightarrow> scsi_removable_media_slot option" where
  "slot_entry n a =
     map_option (\<lambda>st. \<lparr>rs_target_id = fst (address_for_slot n), rs_lun = snd (address_for_slot n), rs_state = st\<rparr>)
       (Option.bind a (\<lambda>a. target_removable_media_state (ta_target a)))"

fun slot_entries :: "nat \<Rightarrow> 'm target_attachment option list \<Rightarrow> scsi_removable_media_slot list" where
  "slot_entries n [] = []"
| "slot_entries n (a # rest) =
     (case slot_entry n a of None \<Rightarrow> slot_entries (n + 1) rest | Some e \<Rightarrow> e # slot_entries (n + 1) rest)"

lemma removable_slots_from_is:
  "list_all (\<lambda>a. \<forall>t. a = Some t \<longrightarrow> target_fits so (ta_target t) (ta_backing t)) ts \<Longrightarrow>
    removable_slots_from n ts = Some (slot_entries n ts)"
proof (induction ts arbitrary: n)
  case (Cons a ts)
  show ?case
  proof (cases a)
    case (Some t)
    then have "target_fits so (ta_target t) (ta_backing t)" using Cons.prems by simp
    then show ?thesis using Some Cons
      by (auto simp: target_fits_def slot_entry_def target_removable_media_state_def
          split: scsi_target.splits scsi_backing.splits)
  qed (use Cons in \<open>simp add: slot_entry_def\<close>)
qed simp

abbreviation entry_key :: "scsi_removable_media_slot \<Rightarrow> string" where
  "entry_key e \<equiv> media_slot_key (rs_target_id e) (rs_lun e)"

lemma entry_key_is: "slot_entry n a = Some e \<Longrightarrow> entry_key e = slot_key n"
  by (auto simp: slot_entry_def slot_key_def)

lemma entry_keys: "e \<in> set (slot_entries n ts) \<Longrightarrow> \<exists>k. n \<le> k \<and> k < n + length ts \<and> entry_key e = slot_key k \<and> slot_entry k (ts ! (k - n)) = Some e"
proof (induction ts arbitrary: n)
  case (Cons a ts)
  then show ?case
  proof (cases "slot_entry n a = Some e")
    case True
    then show ?thesis using entry_key_is by (intro exI [of _ n]) auto
  next
    case False
    then have "e \<in> set (slot_entries (n + 1) ts)" using Cons.prems by (auto split: option.splits)
    from Cons.IH [OF this] obtain k where "n + 1 \<le> k" "k < n + 1 + length ts" "entry_key e = slot_key k"
      "slot_entry k (ts ! (k - (n + 1))) = Some e" by blast
    then show ?thesis by (intro exI [of _ k]) (simp add: nth_Cons' Suc_diff_le)
  qed
qed simp

lemma find_entry_slot:
  assumes "n + length ts \<le> 64" "n \<le> k" "k < n + length ts"
  shows "List.find (\<lambda>e. entry_key e = slot_key k) (slot_entries n ts) = slot_entry k (ts ! (k - n))"
  using assms
proof (induction ts arbitrary: n)
  case (Cons a ts)
  show ?case
  proof (cases "k = n")
    case True
    have "List.find (\<lambda>e. entry_key e = slot_key n) (slot_entries (n + 1) ts) = None"
    proof -
      have "entry_key e \<noteq> slot_key n" if e: "e \<in> set (slot_entries (n + 1) ts)" for e
      proof
        assume "entry_key e = slot_key n"
        moreover obtain j where "n + 1 \<le> j" "j < n + 1 + length ts" "entry_key e = slot_key j"
          using entry_keys [OF e] by blast
        ultimately show False using slot_key_inject [of n j] Cons.prems(1) by simp
      qed
      then show ?thesis by (simp add: find_None_iff)
    qed
    then show ?thesis using True entry_key_is by (auto split: option.splits)
  next
    case False
    then have "List.find (\<lambda>e. entry_key e = slot_key k) (slot_entries (n + 1) ts) = slot_entry k (ts ! (k - (n + 1)))"
      using Cons.prems by (intro Cons.IH) auto
    moreover have "slot_entry n a = Some e \<Longrightarrow> entry_key e \<noteq> slot_key k" for e
      using slot_key_inject [of n k] Cons.prems entry_key_is [of n a e] False by auto
    ultimately show ?thesis using False Cons.prems(2) by (auto simp: nth_Cons' split: option.splits)
  qed
qed simp


definition media_catalog_get :: "string \<Rightarrow> media_slot_descriptor list \<Rightarrow> media_slot_descriptor option" where
  "media_catalog_get key catalog = List.find (\<lambda>s. ms_key s = key) catalog"

lemma find_describe:
  "List.find (\<lambda>s. ms_key s = key) (map describe_slot es) =
    map_option describe_slot (List.find (\<lambda>e. entry_key e = key) es)"
  by (induction es) (auto simp: describe_slot_def Let_def)

lemma entry_keys_distinct: "n + length ts \<le> 64 \<Longrightarrow> distinct (map entry_key (slot_entries n ts))"
proof (induction ts arbitrary: n)
  case (Cons a ts)
  have "entry_key e \<noteq> slot_key n" if e: "e \<in> set (slot_entries (n + 1) ts)" for e
  proof
    assume "entry_key e = slot_key n"
    moreover obtain j where "n + 1 \<le> j" "j < n + 1 + length ts" "entry_key e = slot_key j"
      using entry_keys [OF e] by blast
    ultimately show False using slot_key_inject [of n j] Cons.prems by simp
  qed
  then show ?case using Cons entry_key_is by (fastforce split: option.splits)
qed simp

lemma first_duplicate_slot_None:
  "first_duplicate_slot seen ss = None \<longleftrightarrow> distinct (map ms_key ss) \<and> seen \<inter> ms_key ` set ss = {}"
  by (induction ss arbitrary: seen) auto

lemma media_catalog_is:
  assumes "scsi_bus_ok so (scsi_of (im_bus m))"
  shows "media_catalog m = Some (map describe_slot (slot_entries 0 (sb_targets (scsi_of (im_bus m)))))"
proof -
  have len: "length (sb_targets (scsi_of (im_bus m))) = 64"
    and fits: "list_all (\<lambda>a. \<forall>t. a = Some t \<longrightarrow> target_fits so (ta_target t) (ta_backing t)) (sb_targets (scsi_of (im_bus m)))"
    using assms by (auto simp: scsi_bus_ok_def list_all_length)
  have keys: "ms_key \<circ> describe_slot = entry_key" by (simp add: fun_eq_iff describe_slot_def Let_def)
  show ?thesis
    using entry_keys_distinct [of 0 "sb_targets (scsi_of (im_bus m))"] len
    by (simp add: media_catalog_def media_catalog_new_def removable_media_slots_def
        removable_slots_from_is [OF fits] first_duplicate_slot_None keys split: option.split)
qed

lemma media_catalog_at:
  assumes "scsi_bus_ok so (scsi_of (im_bus m))" "media_catalog m = Some catalog"
  shows "n < 64 \<Longrightarrow> media_catalog_get (slot_key n) catalog =
      map_option describe_slot (slot_entry n (sb_targets (scsi_of (im_bus m)) ! n))"
    and "\<forall>n < 64. key \<noteq> slot_key n \<Longrightarrow> media_catalog_get key catalog = None"
proof -
  have len: "length (sb_targets (scsi_of (im_bus m))) = 64" using assms by (simp add: scsi_bus_ok_def)
  have c: "catalog = map describe_slot (slot_entries 0 (sb_targets (scsi_of (im_bus m))))"
    using media_catalog_is [OF assms(1)] assms(2) by simp
  show "n < 64 \<Longrightarrow> media_catalog_get (slot_key n) catalog =
      map_option describe_slot (slot_entry n (sb_targets (scsi_of (im_bus m)) ! n))"
    using find_entry_slot [of 0 "sb_targets (scsi_of (im_bus m))" n] len
    by (simp add: c media_catalog_get_def find_describe)
  show "media_catalog_get key catalog = None" if k: "\<forall>n < 64. key \<noteq> slot_key n"
  proof -
    have "entry_key e \<noteq> key" if e: "e \<in> set (slot_entries 0 (sb_targets (scsi_of (im_bus m))))" for e
      using entry_keys [OF e] k len by auto
    then show ?thesis by (simp add: c media_catalog_get_def find_describe find_None_iff)
  qed
qed

lemma removable_address:
  assumes "scsi_bus_ok so (scsi_of (im_bus m))"
    and "removable_media_address slot m = Some (Inr (target_id, lun))"
  shows "\<exists>n. target_slot target_id lun = Some n \<and> n < 64 \<and> slot = slot_key n"
proof -
  let ?ts = "sb_targets (scsi_of (im_bus m))"
  have len: "length ?ts = 64"
    and fits: "list_all (\<lambda>a. \<forall>t. a = Some t \<longrightarrow> target_fits so (ta_target t) (ta_backing t)) ?ts"
    using assms by (auto simp: scsi_bus_ok_def list_all_length)
  obtain e where e: "List.find (\<lambda>c. entry_key c = slot) (slot_entries 0 ?ts) = Some e"
    "target_id = rs_target_id e" "lun = rs_lun e"
    using assms(2) by (auto simp: removable_media_address_def removable_media_slots_def removable_slots_from_is [OF fits]
        split: option.splits)
  then have "e \<in> set (slot_entries 0 ?ts)" "entry_key e = slot" by (auto simp: find_Some_iff)
  then obtain n where n: "n < 64" "entry_key e = slot_key n" "slot_entry n (?ts ! (n - 0)) = Some e"
    using entry_keys [of e 0 ?ts] len by auto
  then have "target_id = fst (address_for_slot n)" "lun = snd (address_for_slot n)"
    using e by (auto simp: slot_entry_def)
  then have "target_slot target_id lun = Some n"
    using n(1) by (simp add: target_slot_def address_for_slot_def TARGET_COUNT_def LUN_COUNT_def byte_of_small)
  then show ?thesis using n \<open>entry_key e = slot\<close> by blast
qed


lemma insert_medium_done:
  assumes "scsi_bus_ok so s" "target_slot target_id lun = Some n"
    and "insert_medium so target_id lun medium s = Some (Inr (), s')"
  shows "\<exists>c. sb_targets s ! n = Some \<lparr>ta_target = CdromTarget c, ta_backing = RemovableBacking None\<rparr> \<and>
    s' = put_attachment n \<lparr>ta_target = CdromTarget (cdrom_medium_inserted (so_size_bytes so medium) ExternalChange c),
           ta_backing = RemovableBacking (Some medium)\<rparr> s"
proof -
  have at: "slot_attachment s n = Some (sb_targets s ! n)"
    by (rule slot_attachment_ok [OF assms(1) target_slot_lt [OF assms(2)]])
  show ?thesis
  proof (cases "sb_targets s ! n")
    case None
    then show ?thesis using assms(2,3) at by (simp add: insert_medium_def)
  next
    case (Some a)
    then show ?thesis using assms(2,3) at
      by (cases a) (auto simp: insert_medium_def Let_def split: scsi_backing.splits option.splits if_splits
          scsi_target.splits sum.splits)
  qed
qed

lemma slot_entry_inserted:
  "map_option describe_slot (slot_entry n (Some \<lparr>ta_target = CdromTarget (cdrom_medium_inserted bytes ExternalChange c),
      ta_backing = backing\<rparr>)) =
    map_option (\<lambda>d. d\<lparr>ms_state := (ms_state d)\<lparr>mt_medium_size_bytes := Some bytes\<rparr>\<rparr>)
      (map_option describe_slot (slot_entry n (Some \<lparr>ta_target = CdromTarget c, ta_backing = old\<rparr>)))"
  by (simp add: slot_entry_def target_removable_media_state_def describe_slot_def cdrom_medium_inserted_def Let_def)

lemma map_sum_Inr_iff: "map_sum f id r = Inr y \<longleftrightarrow> r = Inr y"
  by (cases r) auto

text \<open>
  C10. On a well-formed SCSI bus the media catalog never reports a duplicate identity; a medium
  accepted by a slot was inserted into a slot of the catalog, and afterwards the catalog shows the
  size of the medium in that slot, with the slot's lock, label and kind unchanged, and every
  other slot as before.
\<close>
theorem inserted_medium_is_shown:
  assumes "scsi_bus_ok (be_storage env) (scsi_of (im_bus m))"
    and "insert_media env slot medium m = Some (Inr (), m')"
  shows "\<exists>old new d. media_catalog m = Some old \<and> media_catalog m' = Some new \<and> media_catalog_get slot old = Some d \<and>
    (\<forall>key. media_catalog_get key new =
       (if key = slot
        then Some (d\<lparr>ms_state := (ms_state d)\<lparr>mt_medium_size_bytes := Some (so_size_bytes (be_storage env) medium)\<rparr>\<rparr>)
        else media_catalog_get key old))"
proof -
  let ?so = "be_storage env"
  obtain address where a: "removable_media_address slot m = Some address"
    using assms(2) by (auto simp: insert_media_def bind_eq_Some_conv)
  obtain target_id lun where r1: "removable_media_address slot m = Some (Inr (target_id, lun))"
    using assms(2) a by (cases address) (auto simp: insert_media_def)
  obtain s' where r: "removable_media_address slot m = Some (Inr (target_id, lun))"
    "insert_medium ?so target_id lun medium (scsi_of (im_bus m)) = Some (Inr (), s')"
    "m' = m\<lparr>im_bus := put_scsi s' (im_bus m)\<rparr>"
    using assms(2) r1 by (auto simp: insert_media_def bind_eq_Some_conv map_sum_Inr_iff)
  obtain n where n: "target_slot target_id lun = Some n" "n < 64" "slot = slot_key n"
    using removable_address [OF assms(1) r(1)] by blast
  obtain c where c: "sb_targets (scsi_of (im_bus m)) ! n = Some \<lparr>ta_target = CdromTarget c, ta_backing = RemovableBacking None\<rparr>"
    "s' = put_attachment n \<lparr>ta_target = CdromTarget (cdrom_medium_inserted (so_size_bytes ?so medium) ExternalChange c),
       ta_backing = RemovableBacking (Some medium)\<rparr> (scsi_of (im_bus m))"
    using insert_medium_done [OF assms(1) n(1) r(2)] by blast
  have ok': "scsi_bus_ok ?so (scsi_of (im_bus m'))"
    using insert_medium_ok [OF assms(1), of target_id lun medium] r(2,3) by simp
  obtain old new where catalogs: "media_catalog m = Some old" "media_catalog m' = Some new"
    using media_catalog_is [OF assms(1)] media_catalog_is [OF ok'] by blast
  note old = media_catalog_at [OF assms(1) catalogs(1)] and new = media_catalog_at [OF ok' catalogs(2)]
  have len: "length (sb_targets (scsi_of (im_bus m))) = 64" using assms(1) by (simp add: scsi_bus_ok_def)
  have targets: "sb_targets (scsi_of (im_bus m')) = (sb_targets (scsi_of (im_bus m)))[n :=
      Some \<lparr>ta_target = CdromTarget (cdrom_medium_inserted (so_size_bytes ?so medium) ExternalChange c),
        ta_backing = RemovableBacking (Some medium)\<rparr>]"
    by (simp add: r(3) c(2) put_attachment_def)
  obtain d where d: "media_catalog_get slot old = Some d"
    using old(1) [OF n(2)] by (auto simp: n(3) c(1) slot_entry_def target_removable_media_state_def)
  have here: "media_catalog_get slot new =
      Some (d\<lparr>ms_state := (ms_state d)\<lparr>mt_medium_size_bytes := Some (so_size_bytes ?so medium)\<rparr>\<rparr>)"
  proof -
    have at: "sb_targets (scsi_of (im_bus m')) ! n =
        Some \<lparr>ta_target = CdromTarget (cdrom_medium_inserted (so_size_bytes ?so medium) ExternalChange c),
          ta_backing = RemovableBacking (Some medium)\<rparr>"
      by (simp add: targets len n(2))
    have "media_catalog_get slot new =
        map_option (\<lambda>d. d\<lparr>ms_state := (ms_state d)\<lparr>mt_medium_size_bytes := Some (so_size_bytes ?so medium)\<rparr>\<rparr>)
          (media_catalog_get slot old)"
      unfolding n(3) old(1) [OF n(2)] new(1) [OF n(2)] at c(1) by (rule slot_entry_inserted)
    then show ?thesis by (simp add: d)
  qed
  have "media_catalog_get key new = media_catalog_get key old" if "key \<noteq> slot" for key
  proof (cases "\<exists>k < 64. key = slot_key k")
    case True
    then obtain k where k: "k < 64" "key = slot_key k" by blast
    moreover from this that n(3) have "n \<noteq> k" by blast
    ultimately show ?thesis using old(1) [OF k(1)] new(1) [OF k(1)] by (simp add: targets)
  next
    case False
    then show ?thesis using old(2) new(2) by simp
  qed
  then show ?thesis using catalogs d here by auto
qed


definition pressed_disc :: memory_medium where
  "pressed_disc = blank_medium 2048"

lemma drive_bus_ok: "scsi_bus_ok memory_storage drive_bus"
proof -
  have "sb_targets scsi_bus_new ! 32 = None"
    by (simp add: scsi_bus_new_def TARGET_SLOT_COUNT_def TARGET_COUNT_def LUN_COUNT_def)
  then show ?thesis
    unfolding drive_bus_def
    by (intro fill_slot_ok scsi_bus_new_ok)
      (simp_all add: target_fits_def cdrom_new_empty_def INITIAL_LOGICAL_BLOCK_BYTES_def)
qed

lemma drive_bus_slots:
  "removable_media_slots drive_bus = Some [\<lparr>rs_target_id = 4, rs_lun = 0,
     rs_state = \<lparr>rm_kind = OpticalDisc, rm_medium_size_bytes = None, rm_removal_prevented = False\<rparr>\<rparr>]"
  by code_simp

lemma insert_pressed_disc:
  "insert_medium memory_storage 4 0 pressed_disc drive_bus =
    Some (Inr (), put_attachment 32 \<lparr>ta_target = CdromTarget (cdrom_medium_inserted 2048 ExternalChange cdrom_new_empty),
      ta_backing = RemovableBacking (Some pressed_disc)\<rparr> drive_bus)"
  by (simp add: insert_medium_def target_slot_def TARGET_COUNT_def LUN_COUNT_def slot_attachment_def get_at_def
      drive_bus_def put_attachment_def scsi_bus_new_def TARGET_SLOT_COUNT_def Let_def memory_storage_def
      pressed_disc_def blank_medium_def validate_medium_size_def STORAGE_ALIGNMENT_BYTES_def
      INITIAL_LOGICAL_BLOCK_BYTES_def)

theorem inserted_medium_is_shown_witness:
  "\<exists>m' old new d. insert_media bare_env ''scsi.0.target.4.lun.0'' pressed_disc bare_machine = Some (Inr (), m') \<and>
    media_catalog bare_machine = Some old \<and> media_catalog m' = Some new \<and>
    media_catalog_get ''scsi.0.target.4.lun.0'' old = Some d \<and>
    media_catalog_get ''scsi.0.target.4.lun.0'' new =
      Some (d\<lparr>ms_state := (ms_state d)\<lparr>mt_medium_size_bytes := Some 2048\<rparr>\<rparr>)"
proof -
  have bus: "scsi_of (im_bus bare_machine) = drive_bus" by (simp add: bare_machine_def bare_board_def)
  have "removable_media_address ''scsi.0.target.4.lun.0'' bare_machine = Some (Inr (4, 0))"
    by (simp add: removable_media_address_def bus drive_bus_slots media_slot_key_def decimal_digit, code_simp)
  then obtain m' where m: "insert_media bare_env ''scsi.0.target.4.lun.0'' pressed_disc bare_machine = Some (Inr (), m')"
    by (simp add: insert_media_def bus bare_env_def insert_pressed_disc)
  have "so_size_bytes (be_storage bare_env) pressed_disc = 2048"
    by (simp add: bare_env_def memory_storage_def pressed_disc_def blank_medium_def)
  then show ?thesis
    using inserted_medium_is_shown [OF _ m] m drive_bus_ok by (auto simp: bus bare_env_def)
qed

end
