(* ===== verification/Lg1_Video.thy ===== *)
theory Lg1_Video
  imports Events
begin

text \<open>
  The display side of the LG1 board: the Bt479 palette, the VC1 video controller and the frame
  buffer.
\<close>

chapter \<open>The palette\<close>

text \<open>
  The Brooktree Bt479 palette of the LG1 board, \<^verbatim>\<open>se_device/src/lg1/bt479.rs\<close>: the
  palette, overlay and control memories behind eight selectors, the three-byte staging of a color
  write and the prefetch of the read protocol. Arrays are lists whose indexing is checked.
\<close>

section \<open>State\<close>

definition PALETTE_ENTRIES :: nat where "PALETTE_ENTRIES = 1024"
definition BANK_ENTRIES :: nat where "BANK_ENTRIES = 256"
definition OVERLAY_ENTRIES :: nat where "OVERLAY_ENTRIES = 16"
definition BT_CONTROL_BYTES :: nat where "BT_CONTROL_BYTES = 256"
definition COMMAND_REGISTER_0 :: u8 where "COMMAND_REGISTER_0 = 0x82"

lemmas bt_constants =
  PALETTE_ENTRIES_def BANK_ENTRIES_def OVERLAY_ENTRIES_def BT_CONTROL_BYTES_def COMMAND_REGISTER_0_def

datatype bt_selector =
    BtWriteAddress
  | BtPaletteData
  | BtPixelReadMask
  | BtReadAddress
  | BtOverlayWriteAddress
  | BtOverlayData
  | BtControlData
  | BtOverlayReadAddress

definition bt_selector_from_bits :: "u8 \<Rightarrow> bt_selector" where
  "bt_selector_from_bits bits =
     (let b = bits AND 0x07 in
      if b = 0 then BtWriteAddress else if b = 1 then BtPaletteData
      else if b = 2 then BtPixelReadMask else if b = 3 then BtReadAddress
      else if b = 4 then BtOverlayWriteAddress else if b = 5 then BtOverlayData
      else if b = 6 then BtControlData else BtOverlayReadAddress)"

record bt479 =
  bt_palette :: "u8 list list"
  bt_overlay_palette :: "u8 list list"
  bt_control :: "u8 list"
  bt_address :: u8
  bt_overlay_address :: u8
  bt_pixel_read_mask :: u8
  bt_component :: u8
  bt_staged :: "u8 list"
  bt_prefetched :: "u8 list"
  bt_overlay_component :: u8
  bt_overlay_staged :: "u8 list"
  bt_overlay_prefetched :: "u8 list"

definition bt_new :: bt479 where
  "bt_new =
     \<lparr>bt_palette = replicate PALETTE_ENTRIES [0, 0, 0],
      bt_overlay_palette = replicate OVERLAY_ENTRIES [0, 0, 0],
      bt_control = replicate BT_CONTROL_BYTES 0, bt_address = 0, bt_overlay_address = 0,
      bt_pixel_read_mask = 0, bt_component = 0, bt_staged = [0, 0], bt_prefetched = [0, 0, 0],
      bt_overlay_component = 0, bt_overlay_staged = [0, 0], bt_overlay_prefetched = [0, 0, 0]\<rparr>"

definition bt_reset :: "bt479 \<Rightarrow> bt479" where
  "bt_reset d = d\<lparr>
     bt_palette := map (\<lambda>_. [0, 0, 0]) (bt_palette d),
     bt_overlay_palette := map (\<lambda>_. [0, 0, 0]) (bt_overlay_palette d),
     bt_control := map (\<lambda>_. 0) (bt_control d), bt_address := 0, bt_overlay_address := 0,
     bt_pixel_read_mask := 0, bt_component := 0, bt_staged := [0, 0], bt_prefetched := [0, 0, 0],
     bt_overlay_component := 0, bt_overlay_staged := [0, 0], bt_overlay_prefetched := [0, 0, 0]\<rparr>"

text \<open>The color the display path shows for a ten-bit index.\<close>

definition bt_color :: "u16 \<Rightarrow> bt479 \<Rightarrow> u8 list option" where
  "bt_color index d = get_at (bt_palette d) (unat index mod PALETTE_ENTRIES)"

section \<open>Palette accesses\<close>

definition bt_host_entry :: "bt479 \<Rightarrow> nat option" where
  "bt_host_entry d = do {
     command \<leftarrow> get_at (bt_control d) (unat COMMAND_REGISTER_0);
     Some (unat (drop_bit 4 command AND 0x03) * BANK_ENTRIES + unat (bt_address d))
   }"

definition bt_prefetch :: "bt479 \<Rightarrow> bt479 option" where
  "bt_prefetch d = do {
     entry \<leftarrow> bt_host_entry d;
     color \<leftarrow> get_at (bt_palette d) entry;
     Some (d\<lparr>bt_prefetched := color, bt_address := bt_address d + 1\<rparr>)
   }"

text \<open>The result of a color write is whether the committed entry changed.\<close>

definition bt_write_color :: "u8 \<Rightarrow> bt479 \<Rightarrow> (bool \<times> bt479) option" where
  "bt_write_color value d =
     (if bt_component d = 0 \<or> bt_component d = 1 then do {
        staged \<leftarrow> set_at (bt_staged d) (unat (bt_component d)) value;
        Some (False, d\<lparr>bt_staged := staged, bt_component := bt_component d + 1\<rparr>)
      } else do {
        entry \<leftarrow> bt_host_entry d;
        red \<leftarrow> get_at (bt_staged d) 0;
        green \<leftarrow> get_at (bt_staged d) 1;
        previous \<leftarrow> get_at (bt_palette d) entry;
        palette \<leftarrow> set_at (bt_palette d) entry [red, green, value];
        Some (previous \<noteq> [red, green, value],
          d\<lparr>bt_palette := palette, bt_address := bt_address d + 1, bt_component := 0\<rparr>)
      })"

definition bt_read_color :: "bt479 \<Rightarrow> (u8 \<times> bt479) option" where
  "bt_read_color d = do {
     value \<leftarrow> get_at (bt_prefetched d) (unat (bt_component d));
     d \<leftarrow> (if bt_component d = 2 then bt_prefetch (d\<lparr>bt_component := 0\<rparr>)
          else Some (d\<lparr>bt_component := bt_component d + 1\<rparr>));
     Some (value, d)
   }"

section \<open>Overlay accesses\<close>

definition bt_prefetch_overlay :: "bt479 \<Rightarrow> bt479 option" where
  "bt_prefetch_overlay d = do {
     color \<leftarrow> get_at (bt_overlay_palette d) (unat (bt_overlay_address d) mod OVERLAY_ENTRIES);
     Some (d\<lparr>bt_overlay_prefetched := color, bt_overlay_address := bt_overlay_address d + 1\<rparr>)
   }"

definition bt_write_overlay_color :: "u8 \<Rightarrow> bt479 \<Rightarrow> bt479 option" where
  "bt_write_overlay_color value d =
     (if bt_overlay_component d = 0 \<or> bt_overlay_component d = 1 then do {
        staged \<leftarrow> set_at (bt_overlay_staged d) (unat (bt_overlay_component d)) value;
        Some (d\<lparr>bt_overlay_staged := staged, bt_overlay_component := bt_overlay_component d + 1\<rparr>)
      } else do {
        red \<leftarrow> get_at (bt_overlay_staged d) 0;
        green \<leftarrow> get_at (bt_overlay_staged d) 1;
        palette \<leftarrow> set_at (bt_overlay_palette d) (unat (bt_overlay_address d) mod OVERLAY_ENTRIES)
          [red, green, value];
        Some (d\<lparr>bt_overlay_palette := palette, bt_overlay_address := bt_overlay_address d + 1,
          bt_overlay_component := 0\<rparr>)
      })"

definition bt_read_overlay_color :: "bt479 \<Rightarrow> (u8 \<times> bt479) option" where
  "bt_read_overlay_color d = do {
     value \<leftarrow> get_at (bt_overlay_prefetched d) (unat (bt_overlay_component d));
     d \<leftarrow> (if bt_overlay_component d = 2 then bt_prefetch_overlay (d\<lparr>bt_overlay_component := 0\<rparr>)
          else Some (d\<lparr>bt_overlay_component := bt_overlay_component d + 1\<rparr>));
     Some (value, d)
   }"

section \<open>Ports\<close>

definition bt_write :: "bt_selector \<Rightarrow> u8 \<Rightarrow> bt479 \<Rightarrow> (bool \<times> bt479) option" where
  "bt_write selector value d =
     (case selector of
        BtWriteAddress \<Rightarrow> Some (False, d\<lparr>bt_address := value, bt_component := 0\<rparr>)
      | BtReadAddress \<Rightarrow>
          map_option (Pair False) (bt_prefetch (d\<lparr>bt_address := value, bt_component := 0\<rparr>))
      | BtPaletteData \<Rightarrow> bt_write_color value d
      | BtPixelReadMask \<Rightarrow> Some (False, d\<lparr>bt_pixel_read_mask := value\<rparr>)
      | BtControlData \<Rightarrow> do {
          control \<leftarrow> set_at (bt_control d) (unat (bt_address d)) value;
          Some (False, d\<lparr>bt_control := control, bt_address := bt_address d + 1\<rparr>)
        }
      | BtOverlayWriteAddress \<Rightarrow> Some (False, d\<lparr>bt_overlay_address := value, bt_overlay_component := 0\<rparr>)
      | BtOverlayReadAddress \<Rightarrow>
          map_option (Pair False)
            (bt_prefetch_overlay (d\<lparr>bt_overlay_address := value, bt_overlay_component := 0\<rparr>))
      | BtOverlayData \<Rightarrow> map_option (Pair False) (bt_write_overlay_color value d))"

definition bt_read :: "bt_selector \<Rightarrow> bt479 \<Rightarrow> (u8 \<times> bt479) option" where
  "bt_read selector d =
     (case selector of
        BtWriteAddress \<Rightarrow> Some (bt_address d, d)
      | BtReadAddress \<Rightarrow> Some (bt_address d, d)
      | BtPaletteData \<Rightarrow> bt_read_color d
      | BtPixelReadMask \<Rightarrow> Some (bt_pixel_read_mask d, d)
      | BtControlData \<Rightarrow> do {
          value \<leftarrow> get_at (bt_control d) (unat (bt_address d));
          Some (value, d\<lparr>bt_address := bt_address d + 1\<rparr>)
        }
      | BtOverlayWriteAddress \<Rightarrow> Some (bt_overlay_address d, d)
      | BtOverlayReadAddress \<Rightarrow> Some (bt_overlay_address d, d)
      | BtOverlayData \<Rightarrow> bt_read_overlay_color d)"

section \<open>No access panics\<close>

definition bt_inv :: "bt479 \<Rightarrow> bool" where
  "bt_inv d \<longleftrightarrow> length (bt_palette d) = PALETTE_ENTRIES \<and> list_all (\<lambda>c. length c = 3) (bt_palette d) \<and>
     length (bt_overlay_palette d) = OVERLAY_ENTRIES \<and> list_all (\<lambda>c. length c = 3) (bt_overlay_palette d) \<and>
     length (bt_control d) = BT_CONTROL_BYTES \<and>
     bt_component d \<le> 2 \<and> length (bt_staged d) = 2 \<and> length (bt_prefetched d) = 3 \<and>
     bt_overlay_component d \<le> 2 \<and> length (bt_overlay_staged d) = 2 \<and> length (bt_overlay_prefetched d) = 3"

lemma bt_new_inv [simp]: "bt_inv bt_new"
  by (simp add: bt_inv_def bt_new_def list_all_iff)

lemma bt_reset_inv [simp]: "bt_inv d \<Longrightarrow> bt_inv (bt_reset d)"
  by (simp add: bt_inv_def bt_reset_def list_all_iff)

lemma bt_color_ok: "bt_inv d \<Longrightarrow> ok (bt_color index d) (\<lambda>c. length c = 3)"
  by (auto simp: bt_color_def bt_inv_def list_all_iff bt_constants)

lemma u8_lt: "unat a < 256" for a :: u8
  using unsigned_less [of a] by simp

lemma bt_host_entry_ok: "bt_inv d \<Longrightarrow> ok (bt_host_entry d) (\<lambda>e. e < PALETTE_ENTRIES)"
proof -
  assume "bt_inv d"
  moreover have "unat (w AND 3) < 4" for w :: u8
    by (rule unat_and_lt) simp
  then have "unat (w AND 3) * 256 + unat a < 1024" for w a :: u8
    using u8_lt [of a] \<open>unat (w AND 3) < 4\<close> by linarith
  ultimately show ?thesis
    by (simp add: bt_host_entry_def bt_inv_def bt_constants)
qed

lemma component_step: "c \<le> 2 \<Longrightarrow> c \<noteq> 2 \<Longrightarrow> c + 1 \<le> 2" "c \<le> 2 \<Longrightarrow> unat c < 3"
  "c = 0 \<or> c = 1 \<Longrightarrow> unat c < 2 \<and> c + 1 \<le> 2" for c :: u8
  by (auto simp: word_le_nat_alt unat_word_ariths word_unat_eq_iff)

lemma bt_prefetch_ok:
  assumes "bt_inv d"
  shows "ok (bt_prefetch d) bt_inv"
proof -
  have "ok (bt_host_entry d) (\<lambda>e. ok (get_at (bt_palette d) e)
      (\<lambda>color. bt_inv (d\<lparr>bt_prefetched := color, bt_address := bt_address d + 1\<rparr>)))"
    by (rule ok_mono [OF bt_host_entry_ok [OF assms]]) (use assms in \<open>auto simp: bt_inv_def list_all_iff\<close>)
  then show ?thesis by (simp add: bt_prefetch_def)
qed

lemma bt_prefetch_overlay_ok: "bt_inv d \<Longrightarrow> ok (bt_prefetch_overlay d) bt_inv"
  by (auto simp: bt_prefetch_overlay_def bt_inv_def list_all_iff bt_constants)

lemma bt_write_color_ok: "bt_inv d \<Longrightarrow> ok (bt_write_color value d) (\<lambda>(_, d). bt_inv d)"
  using bt_host_entry_ok [of d]
  by (auto simp: bt_write_color_def ok_ex bt_inv_def list_all_update component_step elim!: ok_mono)

lemma bt_write_overlay_color_ok: "bt_inv d \<Longrightarrow> ok (bt_write_overlay_color value d) bt_inv"
  by (auto simp: bt_write_overlay_color_def bt_inv_def list_all_update component_step bt_constants)

lemma bt_read_color_ok: "bt_inv d \<Longrightarrow> ok (bt_read_color d) (\<lambda>(_, d). bt_inv d)"
proof -
  assume inv: "bt_inv d"
  then have "bt_inv (d\<lparr>bt_component := 0\<rparr>)" by (simp add: bt_inv_def)
  with inv show ?thesis
    using bt_prefetch_ok [of "d\<lparr>bt_component := 0\<rparr>"]
    by (auto simp: bt_read_color_def) (auto simp: component_step bt_inv_def)
qed

lemma bt_read_overlay_color_ok: "bt_inv d \<Longrightarrow> ok (bt_read_overlay_color d) (\<lambda>(_, d). bt_inv d)"
proof -
  assume inv: "bt_inv d"
  then have "bt_inv (d\<lparr>bt_overlay_component := 0\<rparr>)" by (simp add: bt_inv_def)
  with inv show ?thesis
    using bt_prefetch_overlay_ok [of "d\<lparr>bt_overlay_component := 0\<rparr>"]
    by (auto simp: bt_read_overlay_color_def) (auto simp: component_step bt_inv_def)
qed

lemma bt_write_ok:
  assumes "bt_inv d"
  shows "ok (bt_write selector value d) (\<lambda>(_, d). bt_inv d)"
proof (cases selector)
  case BtReadAddress
  have "bt_inv (d\<lparr>bt_address := value, bt_component := 0\<rparr>)" using assms by (simp add: bt_inv_def)
  from bt_prefetch_ok [OF this] show ?thesis by (simp add: bt_write_def BtReadAddress)
next
  case BtOverlayReadAddress
  have "bt_inv (d\<lparr>bt_overlay_address := value, bt_overlay_component := 0\<rparr>)"
    using assms by (simp add: bt_inv_def)
  from bt_prefetch_overlay_ok [OF this] show ?thesis by (simp add: bt_write_def BtOverlayReadAddress)
next
  case BtControlData
  then show ?thesis using assms u8_lt [of "bt_address d"]
    by (auto simp: bt_write_def bt_inv_def bt_constants)
qed (use assms bt_write_color_ok [of d "value"] bt_write_overlay_color_ok [of d "value"]
     in \<open>simp_all add: bt_write_def, simp_all add: bt_inv_def\<close>)

lemma bt_read_ok:
  assumes "bt_inv d"
  shows "ok (bt_read selector d) (\<lambda>(_, d). bt_inv d)"
  using assms bt_read_color_ok [of d] bt_read_overlay_color_ok [of d] u8_lt [of "bt_address d"]
  by (cases selector) (auto simp: bt_read_def bt_constants, auto simp: bt_inv_def bt_constants)

chapter \<open>The video controller\<close>

text \<open>
  The VC1 video controller of the LG1 board, \<^verbatim>\<open>se_device/src/lg1/vc1.rs\<close>: the byte-wise
  register banks behind seven selectors, the frame and line counters derived from virtual time, the
  display-identifier tables in timing SRAM and the hardware cursor. An arithmetic overflow, like
  any failed check, is a panic.
\<close>

section \<open>Constants\<close>

definition SRAM_BYTES :: nat where "SRAM_BYTES = 0x10000"
definition VC_CONTROL_BYTES :: nat where "VC_CONTROL_BYTES = 0x100"
definition XMAP_BYTES :: nat where "XMAP_BYTES = 0x80"
definition TEST_BYTES :: nat where "TEST_BYTES = 0x08"
definition VID_EP :: u16 where "VID_EP = 0x00"
definition VID_LC :: u16 where "VID_LC = 0x02"
definition VID_FC :: u16 where "VID_FC = 0x10"
definition DID_EP :: u16 where "DID_EP = 0x40"
definition CHIP_REVISION :: u16 where "CHIP_REVISION = 0x05"
definition CHIP_REVISION_VALUE :: u8 where "CHIP_REVISION_VALUE = 0x02"
definition SYS_CTRL_VTG :: u8 where "SYS_CTRL_VTG = push_bit 1 1"
definition SYS_CTRL_VC1 :: u8 where "SYS_CTRL_VC1 = push_bit 2 1"
definition SYS_CTRL_DID :: u8 where "SYS_CTRL_DID = push_bit 3 1"
definition SYS_CTRL_CURSOR_DISPLAY :: u8 where "SYS_CTRL_CURSOR_DISPLAY = push_bit 5 1"
definition SYS_CTRL_COMPOSITION_MASK :: u8 where
  "SYS_CTRL_COMPOSITION_MASK = SYS_CTRL_DID OR SYS_CTRL_CURSOR_DISPLAY"
definition CUR_EP :: u16 where "CUR_EP = 0x20"
definition CUR_XL :: u16 where "CUR_XL = 0x22"
definition CUR_YL :: u16 where "CUR_YL = 0x24"
definition CUR_MODE :: u16 where "CUR_MODE = 0x26"
definition CUR_LY :: u16 where "CUR_LY = 0x28"
definition DID_HOR_MOD :: u16 where "DID_HOR_MOD = 0x45"
definition CURSOR_X_OFFSET :: int where "CURSOR_X_OFFSET = 140"
definition CURSOR_Y_OFFSET :: int where "CURSOR_Y_OFFSET = 39"
definition CURSOR_BITMAP_BYTES :: nat where "CURSOR_BITMAP_BYTES = 256"
definition SYS_CTRL_RESET :: u8 where "SYS_CTRL_RESET = SYS_CTRL_VTG"
definition ENTRY_POINTER_ADDRESS :: u16 where "ENTRY_POINTER_ADDRESS = 0x7fff"
definition DISPLAY_WIDTH :: nat where "DISPLAY_WIDTH = 1024"
definition DISPLAY_HEIGHT :: nat where "DISPLAY_HEIGHT = 768"
definition DEFAULT_TOTAL_LINES :: nat where "DEFAULT_TOTAL_LINES = DISPLAY_HEIGHT"
definition LINE_PERIOD_ATTOSECONDS :: nat where "LINE_PERIOD_ATTOSECONDS = 19425019425019"
definition MAX_FRAME_TABLE_ENTRIES :: nat where "MAX_FRAME_TABLE_ENTRIES = 256"

lemmas vc_sizes =
  SRAM_BYTES_def VC_CONTROL_BYTES_def XMAP_BYTES_def TEST_BYTES_def CURSOR_BITMAP_BYTES_def
  DISPLAY_WIDTH_def DISPLAY_HEIGHT_def MAX_FRAME_TABLE_ENTRIES_def

lemmas vc_registers =
  VID_EP_def VID_LC_def VID_FC_def DID_EP_def CHIP_REVISION_def CUR_EP_def CUR_XL_def CUR_YL_def
  CUR_MODE_def CUR_LY_def DID_HOR_MOD_def

lemmas vc_control_bits =
  SYS_CTRL_VTG_def SYS_CTRL_VC1_def SYS_CTRL_DID_def SYS_CTRL_CURSOR_DISPLAY_def
  SYS_CTRL_COMPOSITION_MASK_def SYS_CTRL_RESET_def

datatype vc_selector =
  VcControl | VcXmapMode | VcSram | VcTest | VcAddressLow | VcAddressHigh | VcSystemControl

definition vc_selector_from_bits :: "u8 \<Rightarrow> vc_selector" where
  "vc_selector_from_bits bits =
     (let b = bits AND 0x07 in
      if b = 0 then VcControl else if b = 1 then VcXmapMode else if b = 2 then VcSram
      else if b = 3 then VcTest else if b = 4 then VcAddressLow else if b = 5 then VcAddressHigh
      else VcSystemControl)"

datatype signal_state = SignalNoSignal | SignalBlanked | SignalActive

text \<open>Screen positions are \<^verbatim>\<open>i32\<close> values between -140 and 65,535.\<close>

record vc_cursor =
  vcu_left :: int
  vcu_top :: int
  vcu_palette_base :: u16
  vcu_bitmap :: "u8 list"

section \<open>State\<close>

text \<open>
  The count of attoseconds inside the frame is a \<^verbatim>\<open>u128\<close>; the line count is a
  \<^verbatim>\<open>u32\<close>, a natural number here because it is only added to with checks.
\<close>

record vc1 =
  vc_sram :: "u8 list"
  vc_control :: "u8 list"
  vc_xmap :: "u8 list"
  vc_test :: "u8 list"
  vc_system_control :: u8
  vc_address :: u16
  vc_frame_elapsed :: nat
  vc_frame_counter :: u16
  vc_total_lines :: nat

definition vc_new :: vc1 where
  "vc_new =
     \<lparr>vc_sram = replicate SRAM_BYTES 0, vc_control = replicate VC_CONTROL_BYTES 0,
      vc_xmap = replicate XMAP_BYTES 0,
      vc_test = (replicate TEST_BYTES 0)[unat CHIP_REVISION := CHIP_REVISION_VALUE],
      vc_system_control = SYS_CTRL_RESET, vc_address = 0, vc_frame_elapsed = 0,
      vc_frame_counter = 0, vc_total_lines = DEFAULT_TOTAL_LINES\<rparr>"

text \<open>The test bank keeps its eight bytes, of which reset sets the one with a constant index.\<close>

definition vc_reset :: "vc1 \<Rightarrow> vc1" where
  "vc_reset v = v\<lparr>vc_sram := map (\<lambda>_. 0) (vc_sram v), vc_control := map (\<lambda>_. 0) (vc_control v),
     vc_xmap := map (\<lambda>_. 0) (vc_xmap v),
     vc_test := (map (\<lambda>_. 0) (vc_test v))[unat CHIP_REVISION := CHIP_REVISION_VALUE],
     vc_system_control := SYS_CTRL_RESET, vc_address := 0, vc_frame_elapsed := 0,
     vc_frame_counter := 0, vc_total_lines := DEFAULT_TOTAL_LINES\<rparr>"

definition vc_signal_state :: "vc1 \<Rightarrow> signal_state" where
  "vc_signal_state v =
     (if vc_system_control v AND SYS_CTRL_VTG \<noteq> 0 then SignalNoSignal
      else if vc_system_control v AND SYS_CTRL_VC1 = 0 then SignalBlanked
      else SignalActive)"

section \<open>Tables read by the display path\<close>

definition vc_display_mode :: "u8 \<Rightarrow> vc1 \<Rightarrow> u16 option" where
  "vc_display_mode identifier v = do {
     high \<leftarrow> get_at (vc_xmap v) (unat (identifier AND 0x1f) * 2);
     low \<leftarrow> get_at (vc_xmap v) (unat (identifier AND 0x1f) * 2 + 1);
     Some (from_be_bytes [high, low])
   }"

definition vc_control_word :: "u16 \<Rightarrow> vc1 \<Rightarrow> u16 option" where
  "vc_control_word address v = do {
     high \<leftarrow> get_at (vc_control v) (unat address mod VC_CONTROL_BYTES);
     low \<leftarrow> get_at (vc_control v) ((unat address mod VC_CONTROL_BYTES + 1) mod VC_CONTROL_BYTES);
     Some (from_be_bytes [high, low])
   }"

text \<open>A word past the end of the SRAM is absent; that is no panic, hence no checked indexing.\<close>

definition vc_sram_word :: "nat \<Rightarrow> vc1 \<Rightarrow> u16 option" where
  "vc_sram_word address v =
     (if address + 1 < length (vc_sram v)
      then Some (from_be_bytes [vc_sram v ! address, vc_sram v ! (address + 1)]) else None)"

text \<open>The entries of a line table from \<open>entry\<close> on; the row is filled up to each boundary.\<close>

definition fill_range :: "nat \<Rightarrow> nat \<Rightarrow> 'a \<Rightarrow> 'a list \<Rightarrow> 'a list option" where
  "fill_range start stop v row =
     (if start \<le> stop \<and> stop \<le> length row
      then Some (take start row @ replicate (stop - start) v @ drop stop row) else None)"

function fill_entries ::
  "vc1 \<Rightarrow> nat \<Rightarrow> nat \<Rightarrow> nat \<Rightarrow> nat \<Rightarrow> u8 \<Rightarrow> bool \<Rightarrow> u8 list \<Rightarrow> u8 list option" where
  "fill_entries v line_table entry_count entry start identifier has_boundary row =
     (if entry \<ge> entry_count then fill_range start (length row) identifier row
      else case vc_sram_word (line_table + 2 + entry * 2) v of
        None \<Rightarrow> fill_range start (length row) identifier row
      | Some encoded \<Rightarrow>
          let boundary = min (unat (drop_bit 5 encoded)) (length row) in
          if has_boundary \<and> boundary \<le> start
          then fill_entries v line_table entry_count (entry + 1) start identifier has_boundary row
          else do {
            row \<leftarrow> fill_range start boundary identifier row;
            fill_entries v line_table entry_count (entry + 1) boundary (ucast (encoded AND 0x1f)) True row
          })"
  by auto
termination by (relation "measure (\<lambda>(v, l, n, entry, s, i, h, r). n - entry)") auto

declare fill_entries.simps [simp del]

text \<open>The identifiers of scan line \<open>y\<close>, into a row of the displayed width.\<close>

definition vc_fill_display_identifiers :: "nat \<Rightarrow> vc1 \<Rightarrow> u8 list \<Rightarrow> u8 list option" where
  "vc_fill_display_identifiers y v identifiers = do {
     require (length identifiers = DISPLAY_WIDTH);
     let cleared = map (\<lambda>_. 0) identifiers;
     if vc_system_control v AND SYS_CTRL_DID = 0 \<or> DISPLAY_HEIGHT \<le> y then Some cleared
     else do {
       pointer \<leftarrow> vc_control_word DID_EP v;
       let frame_table = unat (pointer AND ENTRY_POINTER_ADDRESS);
       case vc_sram_word (frame_table + y * 2) v of
         None \<Rightarrow> Some cleared
       | Some line_table \<Rightarrow> (case vc_sram_word (unat line_table) v of
           None \<Rightarrow> Some cleared
         | Some entry_count \<Rightarrow>
             fill_entries v (unat line_table) (min (unat entry_count) DISPLAY_WIDTH) 0 0 0 False cleared)
     }
   }"

definition get_all :: "'a list \<Rightarrow> nat list \<Rightarrow> 'a list option" where
  "get_all xs indices = those (map (get_at xs) indices)"

text \<open>The two values of the result are the cursor and, around it, a panic.\<close>

definition vc_cursor_of :: "vc1 \<Rightarrow> vc_cursor option option" where
  "vc_cursor_of v =
     (if vc_system_control v AND SYS_CTRL_CURSOR_DISPLAY = 0 then Some None
      else do {
        pointer \<leftarrow> vc_control_word CUR_EP v;
        bitmap \<leftarrow> get_all (vc_sram v) (map (\<lambda>offset. (unat pointer + offset) mod SRAM_BYTES) [0..<CURSOR_BITMAP_BYTES]);
        left \<leftarrow> vc_control_word CUR_XL v;
        top \<leftarrow> vc_control_word CUR_YL v;
        mode \<leftarrow> vc_control_word CUR_MODE v;
        Some (Some \<lparr>vcu_left = int (unat left) - CURSOR_X_OFFSET,
          vcu_top = int (unat top) - CURSOR_Y_OFFSET,
          vcu_palette_base = drop_bit 6 mode AND 0x03f0,
          vcu_bitmap = bitmap\<rparr>)
      })"

section \<open>Timing\<close>

definition vc_current_line :: "vc1 \<Rightarrow> nat" where
  "vc_current_line v =
     min (let line = vc_frame_elapsed v div LINE_PERIOD_ATTOSECONDS in if line < 2 ^ 32 then line else 2 ^ 32 - 1)
       (vc_total_lines v - 1)"

definition vc_frame_period_attoseconds :: "vc1 \<Rightarrow> nat" where
  "vc_frame_period_attoseconds v = vc_total_lines v * LINE_PERIOD_ATTOSECONDS"

definition vc_in_vertical_blanking :: "vc1 \<Rightarrow> bool" where
  "vc_in_vertical_blanking v \<longleftrightarrow> DISPLAY_HEIGHT \<le> vc_current_line v"

text \<open>The number of frames completed; an elapsed time past 128 bits and an empty frame panic.\<close>

definition vc_advance_time :: "virtual_duration \<Rightarrow> vc1 \<Rightarrow> (nat \<times> vc1) option" where
  "vc_advance_time elapsed v =
     (if vc_signal_state v = SignalNoSignal then Some (0, v)
      else do {
        let amount = vc_frame_elapsed v + unat elapsed;
        require (amount < 2 ^ 128);
        let period = vc_frame_period_attoseconds v;
        require (period \<noteq> 0);
        let completed = (if amount div period < 2 ^ 32 then amount div period else 2 ^ 32 - 1);
        Some (completed, v\<lparr>vc_frame_elapsed := amount mod period,
          vc_frame_counter := vc_frame_counter v + of_nat completed\<rparr>)
      })"

definition vc_time_until_event :: "vc1 \<Rightarrow> virtual_duration option" where
  "vc_time_until_event v =
     (if vc_signal_state v = SignalNoSignal then None
      else let blanking_start = min DISPLAY_HEIGHT (vc_total_lines v) * LINE_PERIOD_ATTOSECONDS;
             upcoming = (if vc_frame_elapsed v < blanking_start then blanking_start
                         else vc_frame_period_attoseconds v)
           in Some (of_nat (upcoming - vc_frame_elapsed v)))"

section \<open>The frame table\<close>

text \<open>
  The walk of \<^verbatim>\<open>decode_frame_total_lines\<close>; the additions it checks stay below
  \<open>2 ^ 32\<close> because at most 256 bytes are added.
\<close>

fun walk_frame_table :: "u8 list \<Rightarrow> nat \<Rightarrow> nat \<Rightarrow> nat \<Rightarrow> nat option" where
  "walk_frame_table sram 0 offset amount = None"
| "walk_frame_table sram (Suc entries) offset amount =
     (if offset \<ge> length sram then None
      else let count = unat (sram ! offset) in
        if count = 0 then (if 0 < amount then Some amount else None)
        else if 2 ^ 32 \<le> amount + count then None
        else walk_frame_table sram entries (offset + 3) (amount + count))"

definition decode_frame_total_lines :: "u8 list \<Rightarrow> u16 \<Rightarrow> nat option" where
  "decode_frame_total_lines sram table =
     walk_frame_table sram MAX_FRAME_TABLE_ENTRIES (unat table + 1) 0"

definition vc_reload_frame_total_lines :: "vc1 \<Rightarrow> vc1 option" where
  "vc_reload_frame_total_lines v = do {
     high \<leftarrow> get_at (vc_control v) (unat VID_EP);
     low \<leftarrow> get_at (vc_control v) (unat VID_EP + 1);
     let table = from_be_bytes [high, low] AND ENTRY_POINTER_ADDRESS;
     Some (case decode_frame_total_lines (vc_sram v) table of
         None \<Rightarrow> v
       | Some amount \<Rightarrow> v\<lparr>vc_total_lines := amount,
           vc_frame_elapsed := vc_frame_elapsed v mod (amount * LINE_PERIOD_ATTOSECONDS)\<rparr>)
   }"

section \<open>Host accesses\<close>

definition control_byte_value :: "u16 \<Rightarrow> u8 \<Rightarrow> u8" where
  "control_byte_value address v =
     (if address = CUR_XL \<or> address = CUR_LY then v AND 0x07
      else if address = CUR_YL then v AND 0x0f
      else if address = DID_HOR_MOD then v AND 0x07
      else v)"

definition control_byte_affects_composition :: "u16 \<Rightarrow> bool" where
  "control_byte_affects_composition address \<longleftrightarrow>
     (CUR_EP \<le> address \<and> address \<le> CUR_MODE + 1) \<or> address = DID_EP \<or> address = DID_EP + 1"

definition vc_advance_address :: "vc1 \<Rightarrow> vc1" where
  "vc_advance_address v = v\<lparr>vc_address := vc_address v + 1\<rparr>"

text \<open>The result of a write is whether composition reads what it changed.\<close>

definition vc_write :: "vc_selector \<Rightarrow> u8 \<Rightarrow> vc1 \<Rightarrow> (bool \<times> vc1) option" where
  "vc_write selector data v =
     (case selector of
        VcAddressLow \<Rightarrow> Some (False, v\<lparr>vc_address := vc_address v AND 0xff00 OR ucast data\<rparr>)
      | VcAddressHigh \<Rightarrow>
          Some (False, v\<lparr>vc_address := vc_address v AND 0x00ff OR push_bit 8 (ucast data)\<rparr>)
      | VcSystemControl \<Rightarrow>
          Some ((vc_system_control v XOR data) AND SYS_CTRL_COMPOSITION_MASK \<noteq> 0,
            v\<lparr>vc_system_control := data\<rparr>)
      | VcControl \<Rightarrow> do {
          let index = unat (vc_address v) mod VC_CONTROL_BYTES;
          let address = vc_address v mod of_nat VC_CONTROL_BYTES;
          let updated = control_byte_value address data;
          previous \<leftarrow> get_at (vc_control v) index;
          control \<leftarrow> set_at (vc_control v) index updated;
          v \<leftarrow> vc_reload_frame_total_lines (vc_advance_address (v\<lparr>vc_control := control\<rparr>));
          Some (previous \<noteq> updated \<and> control_byte_affects_composition address, v)
        }
      | VcXmapMode \<Rightarrow> do {
          let index = unat (vc_address v) mod XMAP_BYTES;
          previous \<leftarrow> get_at (vc_xmap v) index;
          xmap \<leftarrow> set_at (vc_xmap v) index data;
          Some (previous \<noteq> data, vc_advance_address (v\<lparr>vc_xmap := xmap\<rparr>))
        }
      | VcSram \<Rightarrow> do {
          let index = unat (vc_address v) mod SRAM_BYTES;
          previous \<leftarrow> get_at (vc_sram v) index;
          sram \<leftarrow> set_at (vc_sram v) index data;
          v \<leftarrow> vc_reload_frame_total_lines (vc_advance_address (v\<lparr>vc_sram := sram\<rparr>));
          Some (previous \<noteq> data, v)
        }
      | VcTest \<Rightarrow> do {
          test \<leftarrow> set_at (vc_test v) (unat (vc_address v) mod TEST_BYTES) data;
          Some (False, vc_advance_address (v\<lparr>vc_test := test\<rparr>))
        })"

definition vc_read_control :: "vc1 \<Rightarrow> u8 option" where
  "vc_read_control v =
     (let address = vc_address v mod of_nat VC_CONTROL_BYTES;
          line = of_nat (vc_current_line v) :: u16 in
      if address = VID_LC then Some (ucast (drop_bit 8 line))
      else if address = VID_LC + 1 then Some (ucast line)
      else if address = VID_FC then Some (ucast (drop_bit 8 (vc_frame_counter v)))
      else if address = VID_FC + 1 then Some (ucast (vc_frame_counter v))
      else get_at (vc_control v) (unat address))"

definition vc_peek :: "vc_selector \<Rightarrow> vc1 \<Rightarrow> u8 option" where
  "vc_peek selector v =
     (case selector of
        VcAddressLow \<Rightarrow> Some (ucast (vc_address v))
      | VcAddressHigh \<Rightarrow> Some (ucast (drop_bit 8 (vc_address v)))
      | VcSystemControl \<Rightarrow> Some (vc_system_control v)
      | VcControl \<Rightarrow> vc_read_control v
      | VcXmapMode \<Rightarrow> get_at (vc_xmap v) (unat (vc_address v) mod XMAP_BYTES)
      | VcSram \<Rightarrow> get_at (vc_sram v) (unat (vc_address v) mod SRAM_BYTES)
      | VcTest \<Rightarrow> get_at (vc_test v) (unat (vc_address v) mod TEST_BYTES))"

definition vc_read :: "vc_selector \<Rightarrow> vc1 \<Rightarrow> (u8 \<times> vc1) option" where
  "vc_read selector v = do {
     result \<leftarrow> vc_peek selector v;
     Some (result, if selector = VcAddressLow \<or> selector = VcAddressHigh \<or> selector = VcSystemControl
       then v else vc_advance_address v)
   }"

chapter \<open>The frame buffer\<close>

text \<open>
  The frame buffer of the LG1 board, \<^verbatim>\<open>se_device/src/lg1/vram.rs\<close>: a pixel plane of
  eight bits and the overlay and clipping-identifier planes of two bits, 1024 by 816 each, with
  masked writes and the flag that a visible value changed.
\<close>

section \<open>Loops over a list\<close>

fun each_of :: "('x \<Rightarrow> 's \<Rightarrow> 's option) \<Rightarrow> 'x list \<Rightarrow> 's \<Rightarrow> 's option" where
  "each_of f [] s = Some s"
| "each_of f (x # xs) s = Option.bind (f x s) (each_of f xs)"

lemma each_of_append: "each_of f (xs @ ys) s = Option.bind (each_of f xs s) (each_of f ys)"
  by (induction xs arbitrary: s) (auto split: bind_splits)

lemma each_of_map: "each_of f (map g xs) s = each_of (\<lambda>x. f (g x)) xs s"
  by (induction xs arbitrary: s) (auto split: bind_splits)

lemma each_of_cong: "xs = ys \<Longrightarrow> (\<And>x s. x \<in> set ys \<Longrightarrow> f x s = g x s) \<Longrightarrow> each_of f xs s = each_of g ys s"
proof (induction ys arbitrary: xs s)
  case (Cons y ys)
  then show ?case by (auto intro!: Option.bind_cong)
qed simp

text \<open>A loop whose bodies return and keep an invariant is a fold.\<close>

lemma each_of_fold:
  assumes "\<And>x s. x \<in> set xs \<Longrightarrow> I s \<Longrightarrow> f x s = Some (g x s) \<and> I (g x s)" and "I s"
  shows "each_of f xs s = Some (fold g xs s) \<and> I (fold g xs s)"
  using assms by (induction xs arbitrary: s) auto

section \<open>Planes\<close>

definition WIDTH :: u32 where "WIDTH = 1024"
definition HEIGHT :: u32 where "HEIGHT = 816"
definition PIXEL_COUNT :: nat where "PIXEL_COUNT = unat (WIDTH * HEIGHT)"
definition AUXILIARY_MASK :: u8 where "AUXILIARY_MASK = 0x03"

datatype plane_group = NoPlane | PixelPlane | OverlayPlane | CidPlane

definition plane_group_from_aux2 :: "u32 \<Rightarrow> plane_group" where
  "plane_group_from_aux2 aux2 =
     (let field = drop_bit 29 aux2 AND 0x03 in
      if field = 1 then PixelPlane else if field = 2 then OverlayPlane
      else if field = 3 then CidPlane else NoPlane)"

fun plane_value_mask :: "plane_group \<Rightarrow> u8" where
  "plane_value_mask NoPlane = 0"
| "plane_value_mask PixelPlane = 0xff"
| "plane_value_mask OverlayPlane = AUXILIARY_MASK"
| "plane_value_mask CidPlane = AUXILIARY_MASK"

record vram =
  vr_pixel :: "u8 list"
  vr_overlay :: "u8 list"
  vr_cid :: "u8 list"
  vr_display_dirty :: bool

definition vram_new :: vram where
  "vram_new =
     \<lparr>vr_pixel = replicate PIXEL_COUNT 0, vr_overlay = replicate PIXEL_COUNT 0,
      vr_cid = replicate PIXEL_COUNT 0, vr_display_dirty = False\<rparr>"

definition vram_reset :: "vram \<Rightarrow> vram" where
  "vram_reset m = m\<lparr>vr_pixel := map (\<lambda>_. 0) (vr_pixel m), vr_overlay := map (\<lambda>_. 0) (vr_overlay m),
     vr_cid := map (\<lambda>_. 0) (vr_cid m), vr_display_dirty := False\<rparr>"

text \<open>A coordinate inside the storage; outside of it there is no index, which is no panic.\<close>

definition vram_index :: "u32 \<Rightarrow> u32 \<Rightarrow> nat option" where
  "vram_index x y = (if WIDTH \<le> x \<or> HEIGHT \<le> y then None else Some (unat (y * WIDTH + x)))"

definition row_start :: "nat \<Rightarrow> nat option" where
  "row_start y = (if y < unat HEIGHT then Some (y * unat WIDTH) else None)"

definition plane_row :: "u8 list \<Rightarrow> nat \<Rightarrow> u8 list option" where
  "plane_row plane y = do {
     start \<leftarrow> row_start y;
     require (start + unat WIDTH \<le> length plane);
     Some (take (unat WIDTH) (drop start plane))
   }"

definition vram_pixel_row :: "nat \<Rightarrow> vram \<Rightarrow> u8 list option" where
  "vram_pixel_row y m = plane_row (vr_pixel m) y"

definition vram_overlay_row :: "nat \<Rightarrow> vram \<Rightarrow> u8 list option" where
  "vram_overlay_row y m = plane_row (vr_overlay m) y"

definition vram_read :: "plane_group \<Rightarrow> u32 \<Rightarrow> u32 \<Rightarrow> vram \<Rightarrow> u8 option" where
  "vram_read planes x y m =
     (case vram_index x y of
        None \<Rightarrow> Some 0
      | Some i \<Rightarrow> (case planes of
          NoPlane \<Rightarrow> Some 0
        | PixelPlane \<Rightarrow> get_at (vr_pixel m) i
        | OverlayPlane \<Rightarrow> get_at (vr_overlay m) i
        | CidPlane \<Rightarrow> get_at (vr_cid m) i))"

definition merge_masked :: "u8 \<Rightarrow> u8 \<Rightarrow> u8 \<Rightarrow> u8" where
  "merge_masked previous v bits = (previous AND NOT bits) OR (v AND bits)"

lemma merge_masked_all [simp]: "merge_masked previous v 0xff = v"
proof -
  have ones: "(0xff :: u8) = - 1" by simp
  show ?thesis unfolding merge_masked_def ones by simp
qed

definition vram_write_masked :: "plane_group \<Rightarrow> u32 \<Rightarrow> u32 \<Rightarrow> u8 \<Rightarrow> u8 \<Rightarrow> vram \<Rightarrow> vram option" where
  "vram_write_masked planes x y v write_mask m =
     (case vram_index x y of
        None \<Rightarrow> Some m
      | Some i \<Rightarrow>
          let bits = write_mask AND plane_value_mask planes;
              visible = y < of_nat DISPLAY_HEIGHT
          in if bits = 0 then Some m
             else case planes of
               NoPlane \<Rightarrow> Some m
             | PixelPlane \<Rightarrow> do {
                 previous \<leftarrow> get_at (vr_pixel m) i;
                 let updated = merge_masked previous v bits;
                 plane \<leftarrow> set_at (vr_pixel m) i updated;
                 Some (m\<lparr>vr_pixel := plane,
                   vr_display_dirty := (vr_display_dirty m \<or> (previous \<noteq> updated \<and> visible))\<rparr>)
               }
             | OverlayPlane \<Rightarrow> do {
                 previous \<leftarrow> get_at (vr_overlay m) i;
                 let updated = merge_masked previous v bits;
                 plane \<leftarrow> set_at (vr_overlay m) i updated;
                 Some (m\<lparr>vr_overlay := plane,
                   vr_display_dirty := (vr_display_dirty m \<or> (previous \<noteq> updated \<and> visible))\<rparr>)
               }
             | CidPlane \<Rightarrow> do {
                 previous \<leftarrow> get_at (vr_cid m) i;
                 plane \<leftarrow> set_at (vr_cid m) i (merge_masked previous v bits);
                 Some (m\<lparr>vr_cid := plane\<rparr>)
               })"

definition vram_clear_display_dirty :: "vram \<Rightarrow> vram" where
  "vram_clear_display_dirty m = m\<lparr>vr_display_dirty := False\<rparr>"

section \<open>No access panics\<close>

definition vram_inv :: "vram \<Rightarrow> bool" where
  "vram_inv m \<longleftrightarrow> length (vr_pixel m) = 835584 \<and> length (vr_overlay m) = 835584 \<and> length (vr_cid m) = 835584"

lemma PIXEL_COUNT_eq: "PIXEL_COUNT = 835584"
  by (simp add: PIXEL_COUNT_def WIDTH_def HEIGHT_def)

lemma vram_new_inv [simp]: "vram_inv vram_new"
  by (simp add: vram_inv_def vram_new_def PIXEL_COUNT_eq)

lemma vram_reset_inv [simp]: "vram_inv (vram_reset m) = vram_inv m"
  by (simp add: vram_inv_def vram_reset_def)

lemma vram_clear_inv [simp]: "vram_inv (vram_clear_display_dirty m) = vram_inv m"
  by (simp add: vram_inv_def vram_clear_display_dirty_def)

text \<open>The index in natural numbers: no product or sum wraps inside the storage.\<close>

lemma vram_index_eq:
  "vram_index x y = (if unat x < 1024 \<and> unat y < 816 then Some (unat y * 1024 + unat x) else None)"
proof -
  have "unat (y * 1024 + x) = unat y * 1024 + unat x" if "unat x < 1024" "unat y < 816"
    using that by (simp add: unat_word_ariths)
  then show ?thesis
    by (auto simp: vram_index_def WIDTH_def HEIGHT_def word_le_nat_alt)
qed

lemma vram_index_bound: "vram_index x y = Some i \<Longrightarrow> i < 835584"
  by (auto simp: vram_index_eq split: if_splits)

lemma vram_index_inj:
  "vram_index x y = Some i \<Longrightarrow> vram_index x' y' = Some i \<Longrightarrow> x = x' \<and> y = y'"
proof -
  have row_major: "(a * 1024 + b) div 1024 = a" "(a * 1024 + b) mod 1024 = b" if "b < 1024" for a b :: nat
    using that by simp_all
  assume i: "vram_index x y = Some i" "vram_index x' y' = Some i"
  then have "unat y * 1024 + unat x = i" "unat x < 1024" "unat y' * 1024 + unat x' = i" "unat x' < 1024"
    by (auto simp: vram_index_eq split: if_splits)
  with row_major [of "unat x" "unat y"] row_major [of "unat x'" "unat y'"]
  have "unat x = unat x'" "unat y = unat y'" by simp_all
  then show ?thesis by (simp add: word_unat_eq_iff)
qed

lemma vram_read_ok: "vram_inv m \<Longrightarrow> ok (vram_read planes x y m) (\<lambda>_. True)"
  by (auto simp: vram_read_def vram_inv_def dest: vram_index_bound split: option.split plane_group.split)

lemma vram_write_ok: "vram_inv m \<Longrightarrow> ok (vram_write_masked planes x y v bits m) vram_inv"
  by (auto simp: vram_write_masked_def vram_inv_def Let_def dest: vram_index_bound
      split: option.split plane_group.split)

lemma plane_row_ok:
  "length plane = 835584 \<Longrightarrow> y < 816 \<Longrightarrow>
   ok (plane_row plane y) (\<lambda>row. length row = 1024 \<and> (\<forall>x < 1024. row ! x = plane ! (y * 1024 + x)))"
  by (auto simp: plane_row_def row_start_def WIDTH_def HEIGHT_def)

end
