(* ===== verification/Rex_Pixel.thy ===== *)
theory Rex_Pixel
  imports Lg1_Video
begin

text \<open>
  The REX1 raster engine below its commands: its registers and the path of one pixel.
\<close>

chapter \<open>Registers\<close>

text \<open>
  The registers of the REX1 raster engine, first part of \<^verbatim>\<open>se_device/src/lg1/rex1.rs\<close>: the
  register offsets and command bits, the drawing registers of one context with their integer and
  fractional views, and the configuration registers of the board. Widths and loop bounds are
  natural numbers.
\<close>

section \<open>Constants\<close>

definition DRAWING_END :: u64 where "DRAWING_END = 0x008c"
definition DUMMY :: u64 where "DUMMY = 0x07fc"
definition GO_OFFSET :: u64 where "GO_OFFSET = 0x0800"
definition CONFIG_BASE :: u64 where "CONFIG_BASE = 0x4790"
definition CONFIG_END :: u64 where "CONFIG_END = 0x4800"
definition REX_COMMAND :: u64 where "REX_COMMAND = 0x0000"
definition AUX1 :: u64 where "AUX1 = 0x0004"
definition XSTATE :: u64 where "XSTATE = 0x0008"
definition XSTARTI :: u64 where "XSTARTI = 0x000c"
definition XSTARTF :: u64 where "XSTARTF = 0x0010"
definition XSTART :: u64 where "XSTART = 0x0014"
definition XENDF :: u64 where "XENDF = 0x0018"
definition YSTARTI :: u64 where "YSTARTI = 0x001c"
definition YSTARTF :: u64 where "YSTARTF = 0x0020"
definition YSTART :: u64 where "YSTART = 0x0024"
definition YENDF :: u64 where "YENDF = 0x0028"
definition XSAVE :: u64 where "XSAVE = 0x002c"
definition MINORSLOPE :: u64 where "MINORSLOPE = 0x0030"
definition XYMOVE :: u64 where "XYMOVE = 0x0034"
definition COLORREDI :: u64 where "COLORREDI = 0x0038"
definition COLORREDF :: u64 where "COLORREDF = 0x003c"
definition COLORGREENI :: u64 where "COLORGREENI = 0x0040"
definition COLORGREENF :: u64 where "COLORGREENF = 0x0044"
definition COLORBLUEI :: u64 where "COLORBLUEI = 0x0048"
definition COLORBLUEF :: u64 where "COLORBLUEF = 0x004c"
definition SLOPERED :: u64 where "SLOPERED = 0x0050"
definition SLOPEGREEN :: u64 where "SLOPEGREEN = 0x0054"
definition SLOPEBLUE :: u64 where "SLOPEBLUE = 0x0058"
definition COLORBACK :: u64 where "COLORBACK = 0x005c"
definition ZPATTERN :: u64 where "ZPATTERN = 0x0060"
definition LSPATTERN :: u64 where "LSPATTERN = 0x0064"
definition LSMODE :: u64 where "LSMODE = 0x0068"
definition AWEIGHT :: u64 where "AWEIGHT = 0x006c"
definition RWAUX1 :: u64 where "RWAUX1 = 0x0070"
definition RWAUX2 :: u64 where "RWAUX2 = 0x0074"
definition RWMASK :: u64 where "RWMASK = 0x0078"
definition SMASK1X :: u64 where "SMASK1X = 0x007c"
definition SMASK1Y :: u64 where "SMASK1Y = 0x0080"
definition XENDI :: u64 where "XENDI = 0x0084"
definition YENDI :: u64 where "YENDI = 0x0088"
definition SMASK2X :: u64 where "SMASK2X = 0x4790"
definition SMASK2Y :: u64 where "SMASK2Y = 0x4794"
definition SMASK3X :: u64 where "SMASK3X = 0x4798"
definition SMASK3Y :: u64 where "SMASK3Y = 0x479c"
definition SMASK4X :: u64 where "SMASK4X = 0x47a0"
definition SMASK4Y :: u64 where "SMASK4Y = 0x47a4"
definition AUX2 :: u64 where "AUX2 = 0x47a8"
definition DIAGVRAM :: u64 where "DIAGVRAM = 0x47d8"
definition DIAGCID :: u64 where "DIAGCID = 0x47dc"
definition WCLOCK :: u64 where "WCLOCK = 0x47e4"
definition RWDAC :: u64 where "RWDAC = 0x47e8"
definition CONFIGSEL :: u64 where "CONFIGSEL = 0x47ec"
definition RWVC1 :: u64 where "RWVC1 = 0x47f0"
definition TOGGLECTXT :: u64 where "TOGGLECTXT = 0x47f4"
definition CONFIGMODE :: u64 where "CONFIGMODE = 0x47f8"
definition XYWIN :: u64 where "XYWIN = 0x47fc"
definition OPCODE_MASK :: u32 where "OPCODE_MASK = 0x07"
definition OPCODE_NOP :: u32 where "OPCODE_NOP = 0x0"
definition OPCODE_DRAW :: u32 where "OPCODE_DRAW = 0x1"
definition OPCODE_LDPIXEL :: u32 where "OPCODE_LDPIXEL = 0x3"
definition CMD_BLOCK :: u32 where "CMD_BLOCK = push_bit 3 1"
definition CMD_LENGTH32 :: u32 where "CMD_LENGTH32 = push_bit 4 1"
definition CMD_QUADMODE :: u32 where "CMD_QUADMODE = push_bit 5 1"
definition CMD_XMAJOR :: u32 where "CMD_XMAJOR = push_bit 6 1"
definition CMD_XYCONTINUE :: u32 where "CMD_XYCONTINUE = push_bit 7 1"
definition CMD_STOPONX :: u32 where "CMD_STOPONX = push_bit 8 1"
definition CMD_STOPONY :: u32 where "CMD_STOPONY = push_bit 9 1"
definition CMD_ENZPATTERN :: u32 where "CMD_ENZPATTERN = push_bit 10 1"
definition CMD_ENLSPATTERN :: u32 where "CMD_ENLSPATTERN = push_bit 11 1"
definition CMD_RGBMODE :: u32 where "CMD_RGBMODE = push_bit 14 1"
definition CMD_DITHER :: u32 where "CMD_DITHER = push_bit 15 1"
definition CMD_COLORCOMP :: u32 where "CMD_COLORCOMP = push_bit 16 1"
definition CMD_SHADE :: u32 where "CMD_SHADE = push_bit 17 1"
definition CMD_LOGICSRC :: u32 where "CMD_LOGICSRC = push_bit 19 1"
definition CMD_COLORAUX :: u32 where "CMD_COLORAUX = push_bit 21 1"
definition CMD_LSOPAQUE :: u32 where "CMD_LSOPAQUE = push_bit 22 1"
definition CMD_ZOPAQUE :: u32 where "CMD_ZOPAQUE = push_bit 23 1"
definition CMD_SHARED_FLAGS :: u32 where
  "CMD_SHARED_FLAGS = CMD_LOGICSRC OR CMD_COLORAUX OR CMD_LSOPAQUE OR CMD_ZOPAQUE"
definition XSTATE_COLORAUX :: u32 where "XSTATE_COLORAUX = push_bit 28 1"
definition XSTATE_LOGICSRC :: u32 where "XSTATE_LOGICSRC = push_bit 29 1"
definition XSTATE_LSOPAQUE :: u32 where "XSTATE_LSOPAQUE = push_bit 30 1"
definition XSTATE_ZOPAQUE :: u32 where "XSTATE_ZOPAQUE = push_bit 31 1"
definition AUX1_COLORCOMPLT :: u32 where "AUX1_COLORCOMPLT = push_bit 6 1"
definition AUX1_COLORCOMPEQ :: u32 where "AUX1_COLORCOMPEQ = push_bit 7 1"
definition AUX1_COLORCOMPGT :: u32 where "AUX1_COLORCOMPGT = push_bit 8 1"
definition AUX1_DITHERRANGE :: u32 where "AUX1_DITHERRANGE = push_bit 9 1"
definition AUX1_WRITE_BUFFER_ZERO :: u32 where "AUX1_WRITE_BUFFER_ZERO = push_bit 2 1"
definition AUX1_WRITE_BUFFER_ONE :: u32 where "AUX1_WRITE_BUFFER_ONE = push_bit 3 1"
definition AUX1_READ_BUFFER_ONE :: u32 where "AUX1_READ_BUFFER_ONE = push_bit 4 1"
definition AUX1_DOUBLE_BUFFER :: u32 where "AUX1_DOUBLE_BUFFER = push_bit 5 1"
definition AUX2_SCREEN_MASK_ENABLES :: u32 where "AUX2_SCREEN_MASK_ENABLES = 0x0f"
definition AUX2_SCREEN_MASK_INSIDE_SHIFT :: nat where "AUX2_SCREEN_MASK_INSIDE_SHIFT = 4"
definition COORDINATE_FRACTION_BITS :: nat where "COORDINATE_FRACTION_BITS = 15"
definition END_FRACTION_BITS :: nat where "END_FRACTION_BITS = 11"
definition COLOR_FRACTION_BITS :: nat where "COLOR_FRACTION_BITS = 11"
definition FRAMEBUFFER_COORDINATE_BIAS :: u32 where "FRAMEBUFFER_COORDINATE_BIAS = 0x0800"
definition FRAMEBUFFER_COORDINATE_MASK :: u32 where "FRAMEBUFFER_COORDINATE_MASK = 0x0fff"
definition FULL_COORDINATE_MASK :: u32 where "FULL_COORDINATE_MASK = 0x07ffffff"
definition PACKED_PIXELS :: nat where "PACKED_PIXELS = 4"
definition MAX_COMMAND_PIXELS :: nat where "MAX_COMMAND_PIXELS = 2 ^ 21"

lemmas rex_offsets =
  DRAWING_END_def DUMMY_def GO_OFFSET_def CONFIG_BASE_def CONFIG_END_def REX_COMMAND_def AUX1_def
  XSTATE_def XSTARTI_def XSTARTF_def XSTART_def XENDF_def YSTARTI_def YSTARTF_def YSTART_def
  YENDF_def XSAVE_def MINORSLOPE_def XYMOVE_def COLORREDI_def COLORREDF_def COLORGREENI_def
  COLORGREENF_def COLORBLUEI_def COLORBLUEF_def SLOPERED_def SLOPEGREEN_def SLOPEBLUE_def
  COLORBACK_def ZPATTERN_def LSPATTERN_def LSMODE_def AWEIGHT_def RWAUX1_def RWAUX2_def RWMASK_def
  SMASK1X_def SMASK1Y_def XENDI_def YENDI_def SMASK2X_def SMASK2Y_def SMASK3X_def SMASK3Y_def
  SMASK4X_def SMASK4Y_def AUX2_def DIAGVRAM_def DIAGCID_def WCLOCK_def RWDAC_def CONFIGSEL_def
  RWVC1_def TOGGLECTXT_def CONFIGMODE_def XYWIN_def

lemmas rex_bits =
  OPCODE_MASK_def OPCODE_NOP_def OPCODE_DRAW_def OPCODE_LDPIXEL_def CMD_BLOCK_def CMD_LENGTH32_def
  CMD_QUADMODE_def CMD_XMAJOR_def CMD_XYCONTINUE_def CMD_STOPONX_def CMD_STOPONY_def
  CMD_ENZPATTERN_def CMD_ENLSPATTERN_def CMD_RGBMODE_def CMD_DITHER_def CMD_COLORCOMP_def
  CMD_SHADE_def CMD_LOGICSRC_def CMD_COLORAUX_def CMD_LSOPAQUE_def CMD_ZOPAQUE_def
  CMD_SHARED_FLAGS_def XSTATE_COLORAUX_def XSTATE_LOGICSRC_def XSTATE_LSOPAQUE_def XSTATE_ZOPAQUE_def
  AUX1_COLORCOMPLT_def AUX1_COLORCOMPEQ_def AUX1_COLORCOMPGT_def AUX1_DITHERRANGE_def
  AUX1_WRITE_BUFFER_ZERO_def AUX1_WRITE_BUFFER_ONE_def AUX1_READ_BUFFER_ONE_def
  AUX1_DOUBLE_BUFFER_def AUX2_SCREEN_MASK_ENABLES_def AUX2_SCREEN_MASK_INSIDE_SHIFT_def

lemmas rex_widths =
  COORDINATE_FRACTION_BITS_def END_FRACTION_BITS_def COLOR_FRACTION_BITS_def
  FRAMEBUFFER_COORDINATE_BIAS_def FRAMEBUFFER_COORDINATE_MASK_def FULL_COORDINATE_MASK_def
  PACKED_PIXELS_def MAX_COMMAND_PIXELS_def

text \<open>Thresholds of the dither, by the low two bits of the row and the column.\<close>

definition DITHER_MATRIX :: "u8 list list" where
  "DITHER_MATRIX = [[0, 8, 2, 10], [12, 4, 14, 6], [3, 11, 1, 9], [15, 7, 13, 5]]"

section \<open>Drawing registers\<close>

text \<open>The color and slope arrays are three fields each, their indices being constants.\<close>

record registers =
  rg_command :: u32
  rg_aux1 :: u32
  rg_xstate :: u32
  rg_source_rop :: u32
  rg_shared_command_flags :: u32
  rg_xstart :: u32
  rg_ystart :: u32
  rg_xendf :: u32
  rg_yendf :: u32
  rg_xsave :: u32
  rg_minorslope :: u32
  rg_xymove :: u32
  rg_color_red :: u32
  rg_color_green :: u32
  rg_color_blue :: u32
  rg_slope_red :: u32
  rg_slope_green :: u32
  rg_slope_blue :: u32
  rg_colorback :: u32
  rg_zpattern :: u32
  rg_lspattern :: u32
  rg_lsmode :: u32
  rg_aweight :: u32
  rg_rwaux1 :: u32
  rg_rwaux2 :: u32
  rg_rwmask :: u32
  rg_smask1x :: u32
  rg_smask1y :: u32
  rg_aux2 :: u32

definition registers_default :: registers where
  "registers_default =
     \<lparr>rg_command = 0, rg_aux1 = 0, rg_xstate = 0, rg_source_rop = 0, rg_shared_command_flags = 0,
      rg_xstart = 0, rg_ystart = 0, rg_xendf = 0, rg_yendf = 0, rg_xsave = 0, rg_minorslope = 0,
      rg_xymove = 0, rg_color_red = 0, rg_color_green = 0, rg_color_blue = 0, rg_slope_red = 0,
      rg_slope_green = 0, rg_slope_blue = 0, rg_colorback = 0, rg_zpattern = 0, rg_lspattern = 0,
      rg_lsmode = 0, rg_aweight = 0, rg_rwaux1 = 0, rg_rwaux2 = 0, rg_rwmask = 0, rg_smask1x = 0,
      rg_smask1y = 0, rg_aux2 = 0\<rparr>"

text \<open>The high nibble of XSTATE as the command flags it is an alias of.\<close>

definition flag_if :: "u32 \<Rightarrow> u32 \<Rightarrow> u32 \<Rightarrow> u32" where
  "flag_if v bits flag = (if v AND bits \<noteq> 0 then flag else 0)"

definition command_flags_from_xstate :: "u32 \<Rightarrow> u32" where
  "command_flags_from_xstate v =
     flag_if v XSTATE_COLORAUX CMD_COLORAUX OR flag_if v XSTATE_LOGICSRC CMD_LOGICSRC OR
     flag_if v XSTATE_LSOPAQUE CMD_LSOPAQUE OR flag_if v XSTATE_ZOPAQUE CMD_ZOPAQUE"

definition minor_slope :: "u32 \<Rightarrow> u32" where
  "minor_slope v =
     (let slope = v AND 0x8001ffff;
          slope = (if slope AND 0x80000000 \<noteq> 0 then (NOT (slope AND 0xfffeffff)) + 1 else slope)
      in slope AND 0x0001ffff)"

definition color_slope :: "u32 \<Rightarrow> u32" where
  "color_slope v =
     (let slope = v AND 0x801fffff;
          slope = (if slope AND 0x80000000 \<noteq> 0 then (NOT (slope AND 0xffefffff)) + 1 else slope)
      in push_bit 1 (slope AND 0x00080000) OR (slope AND 0x001fffff))"

text \<open>The signed readings, of at most 21 bits, are integers.\<close>

definition signed_color_slope :: "u32 \<Rightarrow> int" where
  "signed_color_slope v =
     (let slope = v AND 0x001fffff in
      if slope AND 0x00100000 = 0 then uint slope else uint slope - 0x00200000)"

definition signed_minor_slope :: "u32 \<Rightarrow> int" where
  "signed_minor_slope v =
     (let slope = v AND 0x0001ffff in
      if slope AND 0x00010000 = 0 then uint slope else uint slope - 0x00020000)"

definition write_xstart :: "u32 \<Rightarrow> registers \<Rightarrow> registers" where
  "write_xstart v r = r\<lparr>rg_xstart := v, rg_xsave := drop_bit COORDINATE_FRACTION_BITS v\<rparr>"

definition registers_read :: "u64 \<Rightarrow> registers \<Rightarrow> u32" where
  "registers_read offset r =
     (if offset = REX_COMMAND then rg_command r
      else if offset = AUX1 then rg_aux1 r
      else if offset = XSTATE then rg_xstate r
      else if offset = XSTARTI then drop_bit COORDINATE_FRACTION_BITS (rg_xstart r)
      else if offset = XSTARTF then drop_bit 4 (rg_xstart r)
      else if offset = XSTART then rg_xstart r
      else if offset = XENDF then rg_xendf r
      else if offset = YSTARTI then drop_bit COORDINATE_FRACTION_BITS (rg_ystart r)
      else if offset = YSTARTF then drop_bit 4 (rg_ystart r)
      else if offset = YSTART then rg_ystart r
      else if offset = YENDF then rg_yendf r
      else if offset = XSAVE then rg_xsave r
      else if offset = MINORSLOPE then rg_minorslope r
      else if offset = XYMOVE then rg_xymove r
      else if offset = COLORREDI then drop_bit COLOR_FRACTION_BITS (rg_color_red r)
      else if offset = COLORREDF then rg_color_red r
      else if offset = COLORGREENI then drop_bit COLOR_FRACTION_BITS (rg_color_green r)
      else if offset = COLORGREENF then rg_color_green r
      else if offset = COLORBLUEI then drop_bit COLOR_FRACTION_BITS (rg_color_blue r)
      else if offset = COLORBLUEF then rg_color_blue r
      else if offset = SLOPERED then rg_slope_red r
      else if offset = SLOPEGREEN then rg_slope_green r
      else if offset = SLOPEBLUE then rg_slope_blue r
      else if offset = COLORBACK then rg_colorback r
      else if offset = ZPATTERN then rg_zpattern r
      else if offset = LSPATTERN then rg_lspattern r
      else if offset = LSMODE then rg_lsmode r
      else if offset = AWEIGHT then rg_aweight r
      else if offset = RWAUX1 then rg_rwaux1 r
      else if offset = RWAUX2 then rg_rwaux2 r
      else if offset = RWMASK then rg_rwmask r
      else if offset = SMASK1X then rg_smask1x r
      else if offset = SMASK1Y then rg_smask1y r
      else if offset = XENDI then drop_bit END_FRACTION_BITS (rg_xendf r)
      else if offset = YENDI then drop_bit END_FRACTION_BITS (rg_yendf r)
      else 0)"

definition registers_write :: "u64 \<Rightarrow> u32 \<Rightarrow> registers \<Rightarrow> registers" where
  "registers_write offset v r =
     (if offset = REX_COMMAND then r\<lparr>rg_command := v, rg_source_rop := drop_bit 28 v AND 0x0f,
          rg_shared_command_flags := v AND CMD_SHARED_FLAGS\<rparr>
      else if offset = AUX1 then r\<lparr>rg_aux1 := v AND 0x3ff\<rparr>
      else if offset = XSTATE then r\<lparr>rg_xstate := v, rg_color_red := push_bit COLOR_FRACTION_BITS (v AND 0xff),
          rg_colorback := drop_bit 8 v AND 0xff,
          rg_rwmask := (rg_rwmask r AND 0xff00) OR (drop_bit 16 v AND 0xff),
          rg_source_rop := drop_bit 24 v AND 0x0f,
          rg_shared_command_flags := command_flags_from_xstate v\<rparr>
      else if offset = XSTARTI then write_xstart (push_bit COORDINATE_FRACTION_BITS (v AND 0xfff)) r
      else if offset = XSTARTF then write_xstart (push_bit 4 (v AND 0x007fffff)) r
      else if offset = XSTART then write_xstart (v AND 0x07ffffff) r
      else if offset = XENDF then r\<lparr>rg_xendf := v AND 0x007ff800\<rparr>
      else if offset = YSTARTI then r\<lparr>rg_ystart := push_bit COORDINATE_FRACTION_BITS (v AND 0xfff)\<rparr>
      else if offset = YSTARTF then r\<lparr>rg_ystart := push_bit 4 (v AND 0x007fffff)\<rparr>
      else if offset = YSTART then r\<lparr>rg_ystart := v AND 0x07ffffff\<rparr>
      else if offset = YENDF then r\<lparr>rg_yendf := v AND 0x007ff800\<rparr>
      else if offset = XSAVE then r\<lparr>rg_xsave := v AND 0xfff\<rparr>
      else if offset = MINORSLOPE then r\<lparr>rg_minorslope := minor_slope v\<rparr>
      else if offset = XYMOVE then r\<lparr>rg_xymove := v AND 0x07ff07ff\<rparr>
      else if offset = COLORREDI then r\<lparr>rg_color_red := push_bit COLOR_FRACTION_BITS (v AND 0xff)\<rparr>
      else if offset = COLORREDF then r\<lparr>rg_color_red := v AND 0x000fffff\<rparr>
      else if offset = COLORGREENI then r\<lparr>rg_color_green := push_bit COLOR_FRACTION_BITS (v AND 0xff)\<rparr>
      else if offset = COLORGREENF then r\<lparr>rg_color_green := v AND 0x000fffff\<rparr>
      else if offset = COLORBLUEI then r\<lparr>rg_color_blue := push_bit COLOR_FRACTION_BITS (v AND 0xff)\<rparr>
      else if offset = COLORBLUEF then r\<lparr>rg_color_blue := v AND 0x000fffff\<rparr>
      else if offset = SLOPERED then r\<lparr>rg_slope_red := color_slope v\<rparr>
      else if offset = SLOPEGREEN then r\<lparr>rg_slope_green := color_slope v\<rparr>
      else if offset = SLOPEBLUE then r\<lparr>rg_slope_blue := color_slope v\<rparr>
      else if offset = COLORBACK then r\<lparr>rg_colorback := v AND 0xff\<rparr>
      else if offset = ZPATTERN then r\<lparr>rg_zpattern := v\<rparr>
      else if offset = LSPATTERN then r\<lparr>rg_lspattern := v\<rparr>
      else if offset = LSMODE then r\<lparr>rg_lsmode := v AND 0x000fffff\<rparr>
      else if offset = AWEIGHT then r\<lparr>rg_aweight := v\<rparr>
      else if offset = RWAUX1 then r\<lparr>rg_rwaux1 := v\<rparr>
      else if offset = RWAUX2 then r\<lparr>rg_rwaux2 := v\<rparr>
      else if offset = RWMASK then r\<lparr>rg_rwmask := v AND 0xffff\<rparr>
      else if offset = SMASK1X then r\<lparr>rg_smask1x := v AND 0x03ff03ff\<rparr>
      else if offset = SMASK1Y then r\<lparr>rg_smask1y := v AND 0x03ff03ff\<rparr>
      else if offset = XENDI then r\<lparr>rg_xendf := push_bit END_FRACTION_BITS (v AND 0xfff)\<rparr>
      else if offset = YENDI then r\<lparr>rg_yendf := push_bit END_FRACTION_BITS (v AND 0xfff)\<rparr>
      else r)"

section \<open>Configuration registers\<close>

record config_registers =
  rc_smask2x :: u32
  rc_smask2y :: u32
  rc_smask3x :: u32
  rc_smask3y :: u32
  rc_smask4x :: u32
  rc_smask4y :: u32
  rc_diagvram :: u32
  rc_diagcid :: u32
  rc_wclock :: u32
  rc_rwdac :: u32
  rc_configsel :: u32
  rc_rwvc1 :: u32
  rc_configmode :: u32
  rc_xywin :: u32

definition config_registers_default :: config_registers where
  "config_registers_default =
     \<lparr>rc_smask2x = 0, rc_smask2y = 0, rc_smask3x = 0, rc_smask3y = 0, rc_smask4x = 0, rc_smask4y = 0,
      rc_diagvram = 0, rc_diagcid = 0, rc_wclock = 0, rc_rwdac = 0, rc_configsel = 0, rc_rwvc1 = 0,
      rc_configmode = 0, rc_xywin = 0\<rparr>"

datatype peripheral_port = PortDac | PortVc1 | PortClock

datatype config_access = AccessNone | AccessWrite peripheral_port u8 | AccessRead peripheral_port

section \<open>The engine\<close>

record rex1 =
  rx_current :: registers
  rx_next :: registers
  rx_config :: config_registers
  rx_dummy :: u32

definition rex_new :: rex1 where
  "rex_new = \<lparr>rx_current = registers_default, rx_next = registers_default,
     rx_config = config_registers_default, rx_dummy = 0\<rparr>"

definition rex_reset :: "rex1 \<Rightarrow> rex1" where
  "rex_reset x = x\<lparr>rx_current := registers_default, rx_next := registers_default,
     rx_config := config_registers_default, rx_dummy := 0\<rparr>"

text \<open>Makes the working context visible to the reads of the SET window.\<close>

definition latch_next_context :: "rex1 \<Rightarrow> rex1" where
  "latch_next_context x = x\<lparr>rx_current := rx_next x\<rparr>"

definition configmode_status :: "rex1 \<Rightarrow> u32" where
  "configmode_status x = 0"

definition rex_read_config :: "u64 \<Rightarrow> rex1 \<Rightarrow> u32 \<times> config_access" where
  "rex_read_config offset x =
     (let c = rx_config x in
      if offset = SMASK2X then (rc_smask2x c, AccessNone)
      else if offset = SMASK2Y then (rc_smask2y c, AccessNone)
      else if offset = SMASK3X then (rc_smask3x c, AccessNone)
      else if offset = SMASK3Y then (rc_smask3y c, AccessNone)
      else if offset = SMASK4X then (rc_smask4x c, AccessNone)
      else if offset = SMASK4Y then (rc_smask4y c, AccessNone)
      else if offset = AUX2 then (rg_aux2 (rx_current x), AccessNone)
      else if offset = DIAGVRAM then (rc_diagvram c, AccessNone)
      else if offset = DIAGCID then (rc_diagcid c, AccessNone)
      else if offset = WCLOCK then (rc_wclock c, AccessRead PortClock)
      else if offset = RWDAC then (rc_rwdac c, AccessRead PortDac)
      else if offset = CONFIGSEL then (rc_configsel c, AccessNone)
      else if offset = RWVC1 then (rc_rwvc1 c, AccessRead PortVc1)
      else if offset = TOGGLECTXT then (0, AccessNone)
      else if offset = CONFIGMODE then (configmode_status x, AccessNone)
      else if offset = XYWIN then (rc_xywin c, AccessNone)
      else (0, AccessNone))"

definition rex_write_config :: "u64 \<Rightarrow> u32 \<Rightarrow> rex1 \<Rightarrow> config_access \<times> rex1" where
  "rex_write_config offset v x =
     (let c = rx_config x in
      if offset = SMASK2X then (AccessNone, x\<lparr>rx_config := c\<lparr>rc_smask2x := v AND 0x03ff03ff\<rparr>\<rparr>)
      else if offset = SMASK2Y then (AccessNone, x\<lparr>rx_config := c\<lparr>rc_smask2y := v AND 0x03ff03ff\<rparr>\<rparr>)
      else if offset = SMASK3X then (AccessNone, x\<lparr>rx_config := c\<lparr>rc_smask3x := v AND 0x03ff03ff\<rparr>\<rparr>)
      else if offset = SMASK3Y then (AccessNone, x\<lparr>rx_config := c\<lparr>rc_smask3y := v AND 0x03ff03ff\<rparr>\<rparr>)
      else if offset = SMASK4X then (AccessNone, x\<lparr>rx_config := c\<lparr>rc_smask4x := v AND 0x03ff03ff\<rparr>\<rparr>)
      else if offset = SMASK4Y then (AccessNone, x\<lparr>rx_config := c\<lparr>rc_smask4y := v AND 0x03ff03ff\<rparr>\<rparr>)
      else if offset = AUX2 then (AccessNone, x\<lparr>rx_next := (rx_next x)\<lparr>rg_aux2 := v AND 0x7fffffff\<rparr>\<rparr>)
      else if offset = DIAGVRAM then (AccessNone, x\<lparr>rx_config := c\<lparr>rc_diagvram := v\<rparr>\<rparr>)
      else if offset = DIAGCID then (AccessNone, x\<lparr>rx_config := c\<lparr>rc_diagcid := v\<rparr>\<rparr>)
      else if offset = WCLOCK then (AccessWrite PortClock (ucast v), x\<lparr>rx_config := c\<lparr>rc_wclock := v AND 0xff\<rparr>\<rparr>)
      else if offset = RWDAC then (AccessWrite PortDac (ucast v), x\<lparr>rx_config := c\<lparr>rc_rwdac := v AND 0xff\<rparr>\<rparr>)
      else if offset = CONFIGSEL then (AccessNone, x\<lparr>rx_config := c\<lparr>rc_configsel := v AND 0x07\<rparr>\<rparr>)
      else if offset = RWVC1 then (AccessWrite PortVc1 (ucast v), x\<lparr>rx_config := c\<lparr>rc_rwvc1 := v AND 0xff\<rparr>\<rparr>)
      else if offset = TOGGLECTXT then (AccessNone, latch_next_context x)
      else if offset = CONFIGMODE then (AccessNone, x\<lparr>rx_config := c\<lparr>rc_configmode := v\<rparr>\<rparr>)
      else if offset = XYWIN then (AccessNone, x\<lparr>rx_config := c\<lparr>rc_xywin := v AND 0x0fff0fff\<rparr>\<rparr>)
      else (AccessNone, x))"

definition rex_complete_config_read :: "peripheral_port \<Rightarrow> u8 \<Rightarrow> rex1 \<Rightarrow> rex1" where
  "rex_complete_config_read port v x =
     (let c = rx_config x in
      case port of
        PortDac \<Rightarrow> x\<lparr>rx_config := c\<lparr>rc_rwdac := ucast v\<rparr>\<rparr>
      | PortVc1 \<Rightarrow> x\<lparr>rx_config := c\<lparr>rc_rwvc1 := ucast v\<rparr>\<rparr>
      | PortClock \<Rightarrow> x\<lparr>rx_config := c\<lparr>rc_wclock := ucast v\<rparr>\<rparr>)"

chapter \<open>The path of a pixel\<close>

text \<open>
  The pixel path of the REX1, from \<^verbatim>\<open>se_device/src/lg1/rex1.rs\<close>: the color a command
  generates for a pixel, the window origin, the screen masks, the logical pixel of the double
  buffers, the color comparison, the raster operations and the masked write. Sums of 32-bit
  coordinates are checked, as in the code: an overflow panics.
\<close>

section \<open>Colors\<close>

definition MAX_COLOR :: int where "MAX_COLOR = 2 ^ (8 + COLOR_FRACTION_BITS) - 1"

definition pack_rgb :: "u8 \<Rightarrow> u8 \<Rightarrow> u8 \<Rightarrow> u8" where
  "pack_rgb red green blue = (red AND 0xe0) OR (drop_bit 3 blue AND 0x18) OR drop_bit 5 green"

definition pack_double_buffer_rgb :: "u8 \<Rightarrow> u8 \<Rightarrow> u8 \<Rightarrow> u8" where
  "pack_double_buffer_rgb red green blue =
     (drop_bit 4 red AND 0x08) OR (drop_bit 5 green AND 0x06) OR drop_bit 7 blue"

text \<open>The subtraction does not wrap, since at most three of four bits are dropped first.\<close>

definition dither_rgb_component :: "u8 \<Rightarrow> nat \<Rightarrow> u8 \<Rightarrow> u8" where
  "dither_rgb_component v stored_bits threshold =
     (let scaled = drop_bit (4 - stored_bits) v - drop_bit 4 v in
      drop_bit 4 scaled + (if (scaled AND 0x0f) > threshold then 1 else 0))"

definition rgb_pixel :: "u8 \<Rightarrow> u8 \<Rightarrow> u8 \<Rightarrow> u32 \<Rightarrow> u32 \<Rightarrow> registers \<Rightarrow> u8" where
  "rgb_pixel red green blue x y r =
     (if rg_command r AND CMD_DITHER = 0 \<or> rg_aux1 r AND AUX1_DITHERRANGE = 0
      then if rg_aux1 r AND AUX1_DOUBLE_BUFFER = 0 then pack_rgb red green blue
           else pack_double_buffer_rgb red green blue
      else
        let threshold = DITHER_MATRIX ! unat (y AND 3) ! unat (x AND 3) in
        if rg_aux1 r AND AUX1_DOUBLE_BUFFER = 0
        then push_bit 5 (dither_rgb_component red 3 threshold)
          OR push_bit 3 (dither_rgb_component blue 2 threshold)
          OR dither_rgb_component green 3 threshold
        else push_bit 3 (dither_rgb_component red 1 threshold)
          OR push_bit 1 (dither_rgb_component green 2 threshold)
          OR dither_rgb_component blue 1 threshold)"

text \<open>One color iterator, given its register and its slope.\<close>

definition color_component :: "u32 \<Rightarrow> u32 \<Rightarrow> nat \<Rightarrow> registers \<Rightarrow> u8" where
  "color_component color slope shade_step r =
     (let iterator = uint color +
        (if rg_command r AND CMD_SHADE \<noteq> 0 then signed_color_slope slope * int shade_step else 0)
      in word_of_int (drop_bit COLOR_FRACTION_BITS (max 0 (min MAX_COLOR iterator))))"

definition source_color :: "nat \<Rightarrow> u32 \<Rightarrow> u32 \<Rightarrow> registers \<Rightarrow> u8" where
  "source_color shade_step x y r =
     (let red = color_component (rg_color_red r) (rg_slope_red r) shade_step r in
      if rg_command r AND CMD_RGBMODE = 0 then red
      else rgb_pixel red
        (color_component (rg_color_green r) (rg_slope_green r) shade_step r)
        (color_component (rg_color_blue r) (rg_slope_blue r) shade_step r) x y r)"

section \<open>Raster operations\<close>

definition logic_operation :: "u32 \<Rightarrow> u8 \<Rightarrow> u8 \<Rightarrow> u8" where
  "logic_operation operation source destination =
     (let code = operation AND 0x0f in
      if code = 0x0 then 0
      else if code = 0x1 then source AND destination
      else if code = 0x2 then source AND NOT destination
      else if code = 0x3 then source
      else if code = 0x4 then NOT source AND destination
      else if code = 0x5 then destination
      else if code = 0x6 then source XOR destination
      else if code = 0x7 then source OR destination
      else if code = 0x8 then NOT (source OR destination)
      else if code = 0x9 then NOT (source XOR destination)
      else if code = 0xa then NOT destination
      else if code = 0xb then source OR NOT destination
      else if code = 0xc then NOT source
      else if code = 0xd then NOT source OR destination
      else if code = 0xe then NOT (source AND destination)
      else 0xff)"

definition color_comparison_passes :: "u8 \<Rightarrow> u8 \<Rightarrow> registers \<Rightarrow> bool" where
  "color_comparison_passes source destination r \<longleftrightarrow>
     rg_command r AND CMD_COLORCOMP = 0 \<or>
     (rg_aux1 r AND AUX1_COLORCOMPLT \<noteq> 0 \<and> source < destination) \<or>
     (rg_aux1 r AND AUX1_COLORCOMPEQ \<noteq> 0 \<and> source = destination) \<or>
     (rg_aux1 r AND AUX1_COLORCOMPGT \<noteq> 0 \<and> source > destination)"

text \<open>The logical pixels of the double buffers.\<close>

definition read_pixel_value :: "plane_group \<Rightarrow> u8 \<Rightarrow> registers \<Rightarrow> u8" where
  "read_pixel_value planes pixel r =
     (if planes \<noteq> PixelPlane \<or> rg_aux1 r AND AUX1_DOUBLE_BUFFER = 0 then pixel
      else if rg_aux1 r AND AUX1_READ_BUFFER_ONE = 0 then pixel AND 0x0f
      else drop_bit 4 pixel)"

definition source_pixel_value :: "plane_group \<Rightarrow> u8 \<Rightarrow> registers \<Rightarrow> u8" where
  "source_pixel_value planes pixel r =
     (if planes = PixelPlane \<and> rg_aux1 r AND AUX1_DOUBLE_BUFFER \<noteq> 0 then pixel AND 0x0f else pixel)"

definition stored_pixel_write :: "plane_group \<Rightarrow> u8 \<Rightarrow> registers \<Rightarrow> u8 \<times> u8" where
  "stored_pixel_write planes result r =
     (let write_mask = ucast (rg_rwmask r) :: u8 in
      if planes \<noteq> PixelPlane \<or> rg_aux1 r AND AUX1_DOUBLE_BUFFER = 0 then (result, write_mask)
      else
        let logical_result = result AND 0x0f;
            logical_mask = write_mask AND 0x0f;
            low = (if rg_aux1 r AND AUX1_WRITE_BUFFER_ZERO \<noteq> 0 then logical_mask else 0);
            high = (if rg_aux1 r AND AUX1_WRITE_BUFFER_ONE \<noteq> 0 then push_bit 4 logical_mask else 0)
        in (logical_result OR push_bit 4 logical_result, low OR high))"

section \<open>Coordinates and screen masks\<close>

definition checked_sum :: "u32 \<Rightarrow> u32 \<Rightarrow> u32 option" where
  "checked_sum a b = (if unat a + unat b < 2 ^ 32 then Some (a + b) else None)"

definition checked_difference :: "u32 \<Rightarrow> u32 \<Rightarrow> u32 option" where
  "checked_difference a b = (if b \<le> a then Some (a - b) else None)"

text \<open>A panic around the absence of a stored coordinate.\<close>

definition framebuffer_coordinate :: "u32 \<Rightarrow> u32 \<Rightarrow> rex1 \<Rightarrow> (u32 \<times> u32) option option" where
  "framebuffer_coordinate x y rex = do {
     let window_x = drop_bit 16 (rc_xywin (rx_config rex));
     let window_y = rc_xywin (rx_config rex);
     x \<leftarrow> checked_sum x window_x;
     y \<leftarrow> checked_sum y window_y;
     let x = x AND FRAMEBUFFER_COORDINATE_MASK;
     let y = y AND FRAMEBUFFER_COORDINATE_MASK;
     Some (if FRAMEBUFFER_COORDINATE_BIAS \<le> x \<and> FRAMEBUFFER_COORDINATE_BIAS \<le> y
       then Some (x - FRAMEBUFFER_COORDINATE_BIAS, y - FRAMEBUFFER_COORDINATE_BIAS) else None)
   }"

definition screen_masks :: "rex1 \<Rightarrow> (u32 \<times> u32) list" where
  "screen_masks rex =
     [(rg_smask1x (rx_next rex), rg_smask1y (rx_next rex)),
      (rc_smask2x (rx_config rex), rc_smask2y (rx_config rex)),
      (rc_smask3x (rx_config rex), rc_smask3y (rx_config rex)),
      (rc_smask4x (rx_config rex), rc_smask4y (rx_config rex))]"

definition inside_mask :: "u32 \<Rightarrow> u32 \<Rightarrow> u32 \<times> u32 \<Rightarrow> bool" where
  "inside_mask x y bounds =
     (let (x_bounds, y_bounds) = bounds;
          left = x_bounds AND 0x03ff;
          right = drop_bit 16 x_bounds AND 0x03ff;
          top_row = y_bounds AND 0x03ff;
          bottom = drop_bit 16 y_bounds AND 0x03ff
      in left \<le> x \<and> x \<le> right \<and> top_row \<le> y \<and> y \<le> bottom)"

definition admits_inside :: "u32 \<Rightarrow> nat \<Rightarrow> bool" where
  "admits_inside aux2 index \<longleftrightarrow> aux2 AND push_bit AUX2_SCREEN_MASK_INSIDE_SHIFT (push_bit index 1) \<noteq> 0"

text \<open>The loop over the masks after the first, with the two flags it accumulates.\<close>

fun other_masks_admit :: "u32 \<Rightarrow> u32 \<Rightarrow> u32 \<Rightarrow> (nat \<times> u32 \<times> u32) list \<Rightarrow> bool \<Rightarrow> bool \<Rightarrow> bool" where
  "other_masks_admit aux2 x y [] inside_masks_enabled admits_union =
     (admits_union \<or> \<not> inside_masks_enabled)"
| "other_masks_admit aux2 x y ((index, bounds) # masks) inside_masks_enabled admits_union =
     (if (aux2 AND AUX2_SCREEN_MASK_ENABLES) AND push_bit index 1 = 0
      then other_masks_admit aux2 x y masks inside_masks_enabled admits_union
      else if admits_inside aux2 index
      then other_masks_admit aux2 x y masks True (admits_union \<or> inside_mask x y bounds)
      else if inside_mask x y bounds then False
      else other_masks_admit aux2 x y masks inside_masks_enabled admits_union)"

definition screen_masks_admit :: "u32 \<Rightarrow> u32 \<Rightarrow> rex1 \<Rightarrow> bool" where
  "screen_masks_admit x y rex =
     (let aux2 = rg_aux2 (rx_next rex);
          enabled = aux2 AND AUX2_SCREEN_MASK_ENABLES;
          masks = screen_masks rex
      in if enabled = 0 then True
         else if enabled AND 1 \<noteq> 0 \<and> inside_mask x y (masks ! 0) \<noteq> admits_inside aux2 0 then False
         else other_masks_admit aux2 x y (tl (enumerate 0 masks)) False False)"

section \<open>Pixels\<close>

definition rex_read_pixel :: "plane_group \<Rightarrow> u32 \<Rightarrow> u32 \<Rightarrow> rex1 \<Rightarrow> vram \<Rightarrow> u8 option" where
  "rex_read_pixel planes x y rex m = do {
     coordinate \<leftarrow> framebuffer_coordinate x y rex;
     case coordinate of
       None \<Rightarrow> Some 0
     | Some (x, y) \<Rightarrow> map_option (\<lambda>v. read_pixel_value planes v (rx_next rex)) (vram_read planes x y m)
   }"

definition rex_write_pixel :: "plane_group \<Rightarrow> u32 \<Rightarrow> u32 \<Rightarrow> u8 \<Rightarrow> rex1 \<Rightarrow> vram \<Rightarrow> vram option" where
  "rex_write_pixel planes x y source rex m = do {
     coordinate \<leftarrow> framebuffer_coordinate x y rex;
     case coordinate of
       None \<Rightarrow> Some m
     | Some (x, y) \<Rightarrow>
         if \<not> screen_masks_admit x y rex then Some m
         else do {
           raw_destination \<leftarrow> vram_read planes x y m;
           let source = source_pixel_value planes source (rx_next rex);
           let destination = read_pixel_value planes raw_destination (rx_next rex);
           if \<not> color_comparison_passes source destination (rx_next rex) then Some m
           else
             let result = logic_operation (rg_source_rop (rx_next rex)) source destination;
                 (stored, write_mask) = stored_pixel_write planes result (rx_next rex)
             in vram_write_masked planes x y stored write_mask m
         }
   }"

section \<open>A pixel does not panic\<close>

lemma checked_sum_ok: "unat a + unat b < 2 ^ 32 \<Longrightarrow> ok (checked_sum a b) P \<longleftrightarrow> P (a + b)"
  by (simp add: checked_sum_def)

text \<open>The bits of the window origin register that a write can set.\<close>

definition rex_window_ok :: "rex1 \<Rightarrow> bool" where
  "rex_window_ok rex \<longleftrightarrow> unat (rc_xywin (rx_config rex)) \<le> 0x0fff0fff"

lemma framebuffer_coordinate_ok:
  assumes "rex_window_ok rex" "unat x < 0xf0000000" "unat y < 0xf0000000"
  shows "ok (framebuffer_coordinate x y rex) (\<lambda>_. True)"
proof -
  have "unat (drop_bit 16 (rc_xywin (rx_config rex))) \<le> 0x0fff"
    unfolding unat_drop_bit_eq using assms(1) by (simp add: rex_window_ok_def drop_bit_eq_div)
  then show ?thesis
    using assms by (simp add: framebuffer_coordinate_def checked_sum_def rex_window_ok_def Let_def)
qed

lemma rex_read_pixel_ok:
  assumes "rex_window_ok rex" "unat x < 0xf0000000" "unat y < 0xf0000000" "vram_inv m"
  shows "ok (rex_read_pixel planes x y rex m) (\<lambda>_. True)"
proof -
  have "ok (vram_read planes a b m) (\<lambda>_. True)" for a b
    by (rule vram_read_ok [OF assms(4)])
  then show ?thesis
    unfolding rex_read_pixel_def ok_bind
    by (intro ok_mono [OF framebuffer_coordinate_ok [OF assms(1-3)]]) (auto split: option.split)
qed

lemma rex_write_pixel_ok:
  assumes "rex_window_ok rex" "unat x < 0xf0000000" "unat y < 0xf0000000" "vram_inv m"
  shows "ok (rex_write_pixel planes x y source rex m) vram_inv"
proof -
  have "ok (vram_read planes a b m) (\<lambda>raw. ok (vram_write_masked planes a b (f raw) (g raw) m) vram_inv)"
    for a b f g
    by (rule ok_mono [OF vram_read_ok [OF assms(4)]]) (rule vram_write_ok [OF assms(4)])
  note access = this
  have "ok (vram_read planes a b m) (\<lambda>raw. c raw \<longrightarrow> ok (vram_write_masked planes a b (f raw) (g raw) m) vram_inv)"
    for a b c f g
    using access [of a b f g] by (rule ok_mono) simp
  then show ?thesis
    unfolding rex_write_pixel_def ok_bind
    using assms(4)
    by (intro ok_mono [OF framebuffer_coordinate_ok [OF assms(1-3)]])
      (auto simp: Let_def split_beta if_distrib [of "\<lambda>m. ok m vram_inv"] cong: if_cong split: option.split)
qed

end
