(* ===== verification/Rex1.thy ===== *)
theory Rex1
  imports Rex_Pixel
begin

text \<open>
  The commands of the REX1, rest of \<^verbatim>\<open>se_device/src/lg1/rex1.rs\<close>: lines, rectangles and
  screen copies, pattern and stipple spans, packed and RGB host pixels in both directions, and the
  accesses of the SET and GO windows. Every drawing loop is bounded by the code's
  \<^verbatim>\<open>MAX_COMMAND_PIXELS\<close>, so each is a total function; a coordinate that is counted past
  either end of 32 bits panics.
\<close>

section \<open>Steps of a coordinate\<close>

definition step_coordinate :: "bool \<Rightarrow> u32 \<Rightarrow> u32 option" where
  "step_coordinate ascending x = (if ascending then checked_sum x 1 else checked_difference x 1)"

definition signed_coordinate :: "u32 \<Rightarrow> int" where
  "signed_coordinate v =
     (let coordinate = v AND 0x07ff in
      if coordinate AND 0x0400 = 0 then uint coordinate else uint coordinate - 0x0800)"

abbreviation coordinate_of :: "u32 \<Rightarrow> u32" where
  "coordinate_of v \<equiv> drop_bit COORDINATE_FRACTION_BITS v"

abbreviation has_flag :: "u32 \<Rightarrow> u32 \<Rightarrow> bool" where
  "has_flag command flag \<equiv> command AND flag \<noteq> 0"

section \<open>Lines\<close>

text \<open>The pattern of a line, one bit for every \<open>repeat\<close> pixels.\<close>

definition line_pattern_set :: "nat \<Rightarrow> registers \<Rightarrow> bool" where
  "line_pattern_set pixel r =
     (let pattern_length = unat (drop_bit 16 (rg_lsmode r) AND 0x0f) + 17;
          pattern_repeat = max (unat (drop_bit 8 (rg_lsmode r) AND 0xff)) 1
      in if rg_command r AND CMD_ENLSPATTERN = 0 then True
         else rg_lspattern r AND push_bit (31 - pixel div pattern_repeat mod pattern_length) 1 \<noteq> 0)"

function line_loop ::
  "rex1 \<Rightarrow> plane_group \<Rightarrow> bool \<Rightarrow> u32 \<Rightarrow> int \<Rightarrow> int \<Rightarrow> nat \<Rightarrow> u32 \<Rightarrow> u32 \<Rightarrow> vram \<Rightarrow> vram option" where
  "line_loop rex planes x_major end_major major_step minor_step pixel x y m =
     (if pixel \<ge> MAX_COMMAND_PIXELS then Some m
      else
        let r = rx_next rex; pixel_x = coordinate_of x; pixel_y = coordinate_of y in do {
        m \<leftarrow> (if line_pattern_set pixel r
             then rex_write_pixel planes pixel_x pixel_y (source_color pixel pixel_x pixel_y r) rex m
             else if has_flag (rg_shared_command_flags r) CMD_LSOPAQUE
             then rex_write_pixel planes pixel_x pixel_y (ucast (rg_colorback r)) rex m
             else Some m);
        if (if x_major then pixel_x else pixel_y) = end_major then Some m
        else line_loop rex planes x_major end_major major_step minor_step (pixel + 1)
          ((x + word_of_int (if x_major then major_step else minor_step)) AND FULL_COORDINATE_MASK)
          ((y + word_of_int (if x_major then minor_step else major_step)) AND FULL_COORDINATE_MASK) m
      })"
  by auto
termination
  by (relation "measure (\<lambda>(rex, planes, x_major, e, major, minor, pixel, x, y, m). MAX_COMMAND_PIXELS - pixel)") auto

declare line_loop.simps [simp del]

definition draw_line :: "plane_group \<Rightarrow> bool \<Rightarrow> u32 \<Rightarrow> rex1 \<Rightarrow> vram \<Rightarrow> vram option" where
  "draw_line planes x_major end_major rex m =
     (let r = rx_next rex;
          start_major = coordinate_of (if x_major then rg_xstart r else rg_ystart r);
          major_step = (if start_major \<le> end_major then 2 ^ COORDINATE_FRACTION_BITS
                        else - (2 ^ COORDINATE_FRACTION_BITS))
      in line_loop rex planes x_major end_major major_step (signed_minor_slope (rg_minorslope r)) 0
           (rg_xstart r) (rg_ystart r) m)"

section \<open>Rectangles and screen copies\<close>

text \<open>The source of one pixel: a sample of the frame buffer, absent off the 32-bit plane, or the color.\<close>

definition rectangle_source :: "plane_group \<Rightarrow> nat \<Rightarrow> u32 \<Rightarrow> u32 \<Rightarrow> rex1 \<Rightarrow> vram \<Rightarrow> u8 option" where
  "rectangle_source planes shade_step x y rex m =
     (let r = rx_next rex in
      if has_flag (rg_shared_command_flags r) CMD_LOGICSRC
      then
        let source_x = uint x + signed_coordinate (drop_bit 16 (rg_xymove r));
            source_y = uint y + signed_coordinate (rg_xymove r)
        in if 0 \<le> source_x \<and> source_x < 2 ^ 32 \<and> 0 \<le> source_y \<and> source_y < 2 ^ 32
           then rex_read_pixel planes (word_of_int source_x) (word_of_int source_y) rex m
           else Some 0
      else Some (source_color shade_step x y r))"

text \<open>
  One row, within the pixels the command has left: what remains of them, or nothing when they were
  used up, in which case the whole command returns.
\<close>

fun rectangle_row ::
  "rex1 \<Rightarrow> plane_group \<Rightarrow> bool \<Rightarrow> u32 \<Rightarrow> u32 \<Rightarrow> nat \<Rightarrow> nat \<Rightarrow> u32 \<Rightarrow> vram \<Rightarrow> (nat option \<times> vram) option" where
  "rectangle_row rex planes x_ascending end_x y 0 shade_step x m = Some (None, m)"
| "rectangle_row rex planes x_ascending end_x y (Suc budget) shade_step x m = do {
     source \<leftarrow> rectangle_source planes shade_step x y rex m;
     m \<leftarrow> rex_write_pixel planes x y source rex m;
     if x = end_x then Some (Some budget, m)
     else do {
       x \<leftarrow> step_coordinate x_ascending x;
       rectangle_row rex planes x_ascending end_x y budget (shade_step + 1) x m
     }
   }"

lemma rectangle_row_uses:
  "rectangle_row rex planes x_ascending end_x y budget shade_step x m = Some (Some left, m') \<Longrightarrow> left < budget"
  by (induction rex planes x_ascending end_x y budget shade_step x m rule: rectangle_row.induct)
    (auto simp: bind_eq_Some_conv split: if_splits intro: less_SucI)

function rectangle_rows ::
  "rex1 \<Rightarrow> plane_group \<Rightarrow> bool \<Rightarrow> bool \<Rightarrow> u32 \<Rightarrow> u32 \<Rightarrow> u32 \<Rightarrow> nat \<Rightarrow> u32 \<Rightarrow> vram \<Rightarrow> vram option" where
  "rectangle_rows rex planes x_ascending y_ascending start_x end_x end_y budget y m =
     (case rectangle_row rex planes x_ascending end_x y budget 0 start_x m of
        None \<Rightarrow> None
      | Some (None, m) \<Rightarrow> Some m
      | Some (Some budget, m) \<Rightarrow>
          if y = end_y then Some m
          else do {
            y \<leftarrow> step_coordinate y_ascending y;
            rectangle_rows rex planes x_ascending y_ascending start_x end_x end_y budget y m
          })"
  by auto
termination
  by (relation "measure (\<lambda>(rex, planes, xa, ya, sx, ex, ey, budget, y, m). budget)")
    (auto dest: rectangle_row_uses)

declare rectangle_rows.simps [simp del]

definition draw_rectangle ::
  "plane_group \<Rightarrow> u32 \<Rightarrow> u32 \<Rightarrow> u32 \<Rightarrow> u32 \<Rightarrow> rex1 \<Rightarrow> vram \<Rightarrow> vram option" where
  "draw_rectangle planes start_x start_y end_x end_y rex m =
     rectangle_rows rex planes (start_x \<le> end_x) (start_y \<le> end_y) start_x end_x end_y
       MAX_COMMAND_PIXELS start_y m"

section \<open>Patterns\<close>

text \<open>A set bit draws the color, a clear one the background when the command is opaque.\<close>

definition pattern_pixel ::
  "plane_group \<Rightarrow> bool \<Rightarrow> bool \<Rightarrow> nat \<Rightarrow> u32 \<Rightarrow> u32 \<Rightarrow> rex1 \<Rightarrow> vram \<Rightarrow> vram option" where
  "pattern_pixel planes pattern_set opaque shade_step x y rex m =
     (if pattern_set then rex_write_pixel planes x y (source_color shade_step x y (rx_next rex)) rex m
      else if opaque then rex_write_pixel planes x y (ucast (rg_colorback (rx_next rex))) rex m
      else Some m)"

fun pattern_loop ::
  "rex1 \<Rightarrow> plane_group \<Rightarrow> u32 \<Rightarrow> u32 \<Rightarrow> nat list \<Rightarrow> u32 \<Rightarrow> vram \<Rightarrow> (u32 \<times> vram) option" where
  "pattern_loop rex planes y end_x [] x m = Some (x, m)"
| "pattern_loop rex planes y end_x (bit_index # bits) x m =
     (let r = rx_next rex in
      if has_flag (rg_command r) CMD_STOPONX \<and> x > end_x then Some (x, m)
      else do {
        m \<leftarrow> pattern_pixel planes (rg_zpattern r AND drop_bit bit_index 0x80000000 \<noteq> 0)
          (has_flag (rg_shared_command_flags r) CMD_ZOPAQUE) bit_index x y rex m;
        x \<leftarrow> checked_sum x 1;
        pattern_loop rex planes y end_x bits x m
      })"

text \<open>The row after \<open>y\<close> on the way to \<open>end_y\<close>, where saturating sums stop at the ends.\<close>

definition following_row :: "u32 \<Rightarrow> u32 \<Rightarrow> u32" where
  "following_row y end_y =
     (if y > end_y then (if y = 0 then 0 else y - 1) else (if y = - 1 then y else y + 1))"

abbreviation set_next :: "(registers \<Rightarrow> registers) \<Rightarrow> rex1 \<Rightarrow> rex1" where
  "set_next f rex \<equiv> rex\<lparr>rx_next := f (rx_next rex)\<rparr>"

definition restart_row :: "u32 \<Rightarrow> u32 \<Rightarrow> rex1 \<Rightarrow> rex1" where
  "restart_row y end_y = set_next (\<lambda>r. r\<lparr>
     rg_ystart := push_bit COORDINATE_FRACTION_BITS (following_row y end_y),
     rg_xsave := coordinate_of (rg_xstart r)\<rparr>)"

definition draw_pattern ::
  "plane_group \<Rightarrow> u32 \<Rightarrow> u32 \<Rightarrow> u32 \<Rightarrow> u32 \<Rightarrow> rex1 \<Rightarrow> vram \<Rightarrow> (rex1 \<times> vram) option" where
  "draw_pattern planes start_x y end_x end_y rex m = do {
     let command = rg_command (rx_next rex);
     let pattern_length = (if command AND CMD_LENGTH32 = 0 then 16 else 32);
     (x, m) \<leftarrow> pattern_loop rex planes y end_x [0..<pattern_length] start_x m;
     Some (if has_flag command CMD_BLOCK \<and> has_flag command CMD_STOPONX \<and> x > end_x
       then restart_row y end_y rex
       else set_next (\<lambda>r. r\<lparr>rg_xsave := x\<rparr>) rex, m)
   }"

function stipple_loop ::
  "rex1 \<Rightarrow> plane_group \<Rightarrow> u32 \<Rightarrow> u32 \<Rightarrow> bool \<Rightarrow> nat \<Rightarrow> u32 \<Rightarrow> vram \<Rightarrow> vram option" where
  "stipple_loop rex planes y end_x x_ascending pixel x m =
     (if pixel \<ge> MAX_COMMAND_PIXELS then Some m
      else do {
        let r = rx_next rex;
        let pattern_length = unat (drop_bit 16 (rg_lsmode r) AND 0x0f) + 17;
        m \<leftarrow> pattern_pixel planes (rg_lspattern r AND push_bit (31 - pixel mod pattern_length) 1 \<noteq> 0)
          (has_flag (rg_shared_command_flags r) CMD_LSOPAQUE) pixel x y rex m;
        if x = end_x then Some m
        else do {
          x \<leftarrow> step_coordinate x_ascending x;
          stipple_loop rex planes y end_x x_ascending (pixel + 1) x m
        }
      })"
  by auto
termination
  by (relation "measure (\<lambda>(rex, planes, y, end_x, xa, pixel, x, m). MAX_COMMAND_PIXELS - pixel)") auto

declare stipple_loop.simps [simp del]

definition draw_line_stipple ::
  "plane_group \<Rightarrow> u32 \<Rightarrow> u32 \<Rightarrow> u32 \<Rightarrow> u32 \<Rightarrow> rex1 \<Rightarrow> vram \<Rightarrow> (rex1 \<times> vram) option" where
  "draw_line_stipple planes start_x y end_x end_y rex m = do {
     m \<leftarrow> stipple_loop rex planes y end_x (start_x \<le> end_x) 0 start_x m;
     let rows = CMD_BLOCK OR CMD_QUADMODE OR CMD_XYCONTINUE OR CMD_STOPONX;
     Some (if rg_command (rx_next rex) AND rows = rows then restart_row y end_y rex else rex, m)
   }"

section \<open>Host pixels\<close>

text \<open>The lane of a packed word, the leftmost pixel in the most significant byte.\<close>

definition lane_shift :: "nat \<Rightarrow> nat" where
  "lane_shift lane = 8 * (PACKED_PIXELS - 1 - lane)"

definition lane_pixel :: "u32 \<Rightarrow> nat \<Rightarrow> u8" where
  "lane_pixel packed lane = ucast (drop_bit (lane_shift lane) packed AND 0xff)"

definition host_rectangle :: "u32 \<Rightarrow> bool" where
  "host_rectangle command \<longleftrightarrow>
     command AND (CMD_BLOCK OR CMD_QUADMODE OR CMD_XYCONTINUE) = CMD_BLOCK OR CMD_QUADMODE OR CMD_XYCONTINUE"

function tile_loop ::
  "rex1 \<Rightarrow> plane_group \<Rightarrow> u32 \<Rightarrow> u32 \<Rightarrow> bool \<Rightarrow> nat \<Rightarrow> u32 \<Rightarrow> vram \<Rightarrow> vram option" where
  "tile_loop rex planes y end_x x_ascending pixel x m =
     (if pixel \<ge> MAX_COMMAND_PIXELS then Some m
      else do {
        m \<leftarrow> rex_write_pixel planes x y
          (lane_pixel (rg_rwaux1 (rx_next rex)) (pixel mod PACKED_PIXELS)) rex m;
        if x = end_x then Some m
        else do {
          x \<leftarrow> step_coordinate x_ascending x;
          tile_loop rex planes y end_x x_ascending (pixel + 1) x m
        }
      })"
  by auto
termination
  by (relation "measure (\<lambda>(rex, planes, y, end_x, xa, pixel, x, m). MAX_COMMAND_PIXELS - pixel)") auto

declare tile_loop.simps [simp del]

text \<open>
  The four lanes of one access, left at the end of a rectangle row or of a span; the result is the
  coordinate that follows and whether the span was completed.
\<close>

fun packed_lanes ::
  "rex1 \<Rightarrow> plane_group \<Rightarrow> u32 \<Rightarrow> u32 \<Rightarrow> u32 \<Rightarrow> bool \<Rightarrow> bool \<Rightarrow> nat list \<Rightarrow> u32 \<Rightarrow> u32 \<Rightarrow> vram \<Rightarrow>
   (u32 \<times> u32 \<times> bool \<times> vram) option" where
  "packed_lanes rex planes origin_x end_x end_y x_ascending y_ascending [] x y m = Some (x, y, False, m)"
| "packed_lanes rex planes origin_x end_x end_y x_ascending y_ascending (lane # lanes) x y m =
     (let command = rg_command (rx_next rex);
          rectangle = host_rectangle command;
          stop_on_x = has_flag command CMD_STOPONX;
          past_end = (if x_ascending then x > end_x else x < end_x)
      in if \<not> rectangle \<and> stop_on_x \<and> past_end then Some (x, y, True, m)
         else do {
           m \<leftarrow> rex_write_pixel planes x y (lane_pixel (rg_rwaux1 (rx_next rex)) lane) rex m;
           if rectangle \<and> x = end_x then do {
             y \<leftarrow> (if y \<noteq> end_y then step_coordinate y_ascending y else Some y);
             Some (origin_x, y, False, m)
           }
           else if \<not> rectangle \<and> stop_on_x \<and> x = end_x then Some (x, y, True, m)
           else do {
             x \<leftarrow> step_coordinate x_ascending x;
             packed_lanes rex planes origin_x end_x end_y x_ascending y_ascending lanes x y m
           }
         })"

definition write_packed_pixels ::
  "plane_group \<Rightarrow> u32 \<Rightarrow> u32 \<Rightarrow> u32 \<Rightarrow> rex1 \<Rightarrow> vram \<Rightarrow> (rex1 \<times> vram) option" where
  "write_packed_pixels planes start_x start_y end_x rex m =
     (let command = rg_command (rx_next rex);
          tiled_span = (command AND (CMD_BLOCK OR CMD_QUADMODE OR CMD_XYCONTINUE OR CMD_STOPONX)
            = CMD_QUADMODE OR CMD_STOPONX);
          origin_x = coordinate_of (rg_xstart (rx_next rex));
          end_y = drop_bit END_FRACTION_BITS (rg_yendf (rx_next rex));
          x_ascending = (origin_x \<le> end_x);
          y_ascending = (start_y \<le> end_y)
      in if tiled_span then do {
           m \<leftarrow> tile_loop rex planes start_y end_x x_ascending 0 origin_x m;
           Some (set_next (\<lambda>r. r\<lparr>rg_xsave := origin_x\<rparr>) rex, m)
         }
         else do {
           (x, y, span_complete, m) \<leftarrow> packed_lanes rex planes origin_x end_x end_y x_ascending y_ascending
             [0..<PACKED_PIXELS] start_x start_y m;
           Some (set_next (\<lambda>r. r\<lparr>rg_xsave := (if span_complete then origin_x else x),
             rg_ystart := push_bit COORDINATE_FRACTION_BITS y\<rparr>) rex, m)
         })"

definition write_host_rgb_pixel :: "plane_group \<Rightarrow> u32 \<Rightarrow> u32 \<Rightarrow> rex1 \<Rightarrow> vram \<Rightarrow> (rex1 \<times> vram) option" where
  "write_host_rgb_pixel planes x y rex m =
     (let r = rx_next rex;
          rgb = rg_rwaux1 r;
          color = rgb_pixel (ucast (drop_bit 16 rgb)) (ucast (drop_bit 8 rgb)) (ucast rgb) x y r;
          origin_x = coordinate_of (rg_xstart r);
          end_x = drop_bit END_FRACTION_BITS (rg_xendf r);
          end_y = drop_bit END_FRACTION_BITS (rg_yendf r);
          rectangle = (rg_command r AND (CMD_BLOCK OR CMD_XYCONTINUE) = CMD_BLOCK OR CMD_XYCONTINUE)
      in do {
        m \<leftarrow> rex_write_pixel planes x y color rex m;
        Some (
          if rectangle \<and> x = end_x then
            (if y \<noteq> end_y then
              set_next (\<lambda>r. r\<lparr>rg_xsave := origin_x,
                rg_ystart := push_bit COORDINATE_FRACTION_BITS (if y < end_y then y + 1 else y - 1)\<rparr>) rex
             else set_next (\<lambda>r. r\<lparr>rg_xsave := origin_x\<rparr>) rex)
          else if rectangle \<and> origin_x > end_x then
            set_next (\<lambda>r. r\<lparr>rg_xsave := (x - 1) AND FRAMEBUFFER_COORDINATE_MASK\<rparr>) rex
          else set_next (\<lambda>r. r\<lparr>rg_xsave := (x + 1) AND FRAMEBUFFER_COORDINATE_MASK\<rparr>) rex, m)
      })"

fun read_lanes ::
  "rex1 \<Rightarrow> plane_group \<Rightarrow> u32 \<Rightarrow> u32 \<Rightarrow> u32 \<Rightarrow> bool \<Rightarrow> bool \<Rightarrow> nat list \<Rightarrow> u32 \<Rightarrow> u32 \<Rightarrow> u32 \<Rightarrow> vram \<Rightarrow>
   (u32 \<times> u32 \<times> u32) option" where
  "read_lanes rex planes origin_x end_x end_y x_ascending y_ascending [] latch x y m = Some (latch, x, y)"
| "read_lanes rex planes origin_x end_x end_y x_ascending y_ascending (lane # lanes) latch x y m =
     (let rectangle = host_rectangle (rg_command (rx_next rex)) in do {
      pixel \<leftarrow> rex_read_pixel planes x y rex m;
      let latch = (latch AND NOT (push_bit (lane_shift lane) 0xff)) OR push_bit (lane_shift lane) (ucast pixel);
      if rectangle \<and> x = end_x then do {
        y \<leftarrow> (if y \<noteq> end_y then step_coordinate y_ascending y else Some y);
        Some (latch, origin_x, y)
      }
      else do {
        x \<leftarrow> step_coordinate (\<not> (rectangle \<and> \<not> x_ascending)) x;
        read_lanes rex planes origin_x end_x end_y x_ascending y_ascending lanes latch x y m
      }
    })"

definition read_packed_pixels :: "rex1 \<Rightarrow> vram \<Rightarrow> rex1 option" where
  "read_packed_pixels rex m =
     (let r = rx_next rex;
          planes = plane_group_from_aux2 (rg_aux2 r);
          origin_x = coordinate_of (rg_xstart r);
          x = (if rg_command r AND CMD_XYCONTINUE = 0 then coordinate_of (rg_xstart r) else rg_xsave r);
          end_x = drop_bit END_FRACTION_BITS (rg_xendf r);
          end_y = drop_bit END_FRACTION_BITS (rg_yendf r);
          y = coordinate_of (rg_ystart r)
      in do {
        (latch, x, y) \<leftarrow> read_lanes rex planes origin_x end_x end_y (origin_x \<le> end_x) (y \<le> end_y)
          [0..<PACKED_PIXELS] (rg_rwaux1 r) x y m;
        Some (set_next (\<lambda>r. r\<lparr>rg_rwaux1 := latch, rg_xsave := x,
          rg_ystart := push_bit COORDINATE_FRACTION_BITS y\<rparr>) rex)
      })"

section \<open>Commands\<close>

definition draw :: "rex1 \<Rightarrow> vram \<Rightarrow> (rex1 \<times> vram) option" where
  "draw rex m =
     (let command = rg_command (rx_next rex);
          planes = plane_group_from_aux2 (rg_aux2 (rx_next rex));
          host_pixels = has_flag (rg_shared_command_flags (rx_next rex)) CMD_COLORAUX;
          rex = (if command AND CMD_XYCONTINUE = 0
                 then set_next (\<lambda>r. r\<lparr>rg_xsave := coordinate_of (rg_xstart r)\<rparr>) rex else rex);
          r = rx_next rex;
          start_x = (if command AND CMD_XYCONTINUE = 0 then coordinate_of (rg_xstart r) else rg_xsave r);
          start_y = coordinate_of (rg_ystart r);
          end_x = drop_bit END_FRACTION_BITS (rg_xendf r);
          end_y = drop_bit END_FRACTION_BITS (rg_yendf r);
          line_mode = command AND (CMD_XMAJOR OR CMD_QUADMODE OR CMD_STOPONX OR CMD_STOPONY);
          stipple = CMD_ENLSPATTERN OR CMD_QUADMODE OR CMD_STOPONX;
          fills_span = (command AND (CMD_BLOCK OR CMD_QUADMODE OR CMD_STOPONX OR CMD_STOPONY)
            = CMD_QUADMODE OR CMD_STOPONX);
          fills_area = (has_flag command CMD_BLOCK \<and> has_flag command CMD_QUADMODE \<and>
            command AND (CMD_STOPONX OR CMD_STOPONY) = CMD_STOPONX OR CMD_STOPONY)
      in if host_pixels then
           (if has_flag command CMD_RGBMODE then write_host_rgb_pixel planes start_x start_y rex m
            else write_packed_pixels planes start_x start_y end_x rex m)
         else if has_flag command CMD_ENZPATTERN then draw_pattern planes start_x start_y end_x end_y rex m
         else if line_mode = CMD_XMAJOR OR CMD_STOPONX
         then map_option (Pair rex) (draw_line planes True end_x rex m)
         else if line_mode = CMD_STOPONY then map_option (Pair rex) (draw_line planes False end_y rex m)
         else if command AND stipple = stipple then draw_line_stipple planes start_x start_y end_x end_y rex m
         else if fills_span then map_option (Pair rex) (draw_rectangle planes start_x start_y end_x start_y rex m)
         else if fills_area then map_option (Pair rex) (draw_rectangle planes start_x start_y end_x end_y rex m)
         else map_option (Pair rex)
           (rex_write_pixel planes start_x start_y (source_color 0 start_x start_y r) rex m))"

definition rex_execute :: "rex1 \<Rightarrow> vram \<Rightarrow> (rex1 \<times> vram) option" where
  "rex_execute rex m = do {
     let opcode = rg_command (rx_next rex) AND OPCODE_MASK;
     (rex, m) \<leftarrow> (if opcode = OPCODE_DRAW then draw rex m
       else if opcode = OPCODE_LDPIXEL then map_option (\<lambda>rex. (rex, m)) (read_packed_pixels rex m)
       else Some (rex, m));
     Some (latch_next_context rex, m)
   }"

section \<open>Accesses\<close>

definition rex_read_drawing :: "u64 \<Rightarrow> rex1 \<Rightarrow> u32" where
  "rex_read_drawing offset rex = registers_read offset (rx_current rex)"

definition rex_write_drawing :: "u64 \<Rightarrow> u32 \<Rightarrow> rex1 \<Rightarrow> rex1" where
  "rex_write_drawing offset v rex = set_next (registers_write offset v) rex"

definition rex_write_drawing_go :: "u64 \<Rightarrow> u32 \<Rightarrow> rex1 \<Rightarrow> vram \<Rightarrow> (rex1 \<times> vram) option" where
  "rex_write_drawing_go offset v rex m = rex_execute (set_next (registers_write offset v) rex) m"

definition rex_write_host_data_go :: "u32 \<Rightarrow> rex1 \<Rightarrow> vram \<Rightarrow> (rex1 \<times> vram) option" where
  "rex_write_host_data_go v rex m = rex_execute (set_next (\<lambda>r. r\<lparr>rg_rwaux1 := v\<rparr>) rex) m"

definition rex_read_host_data_go :: "rex1 \<Rightarrow> vram \<Rightarrow> (u32 \<times> rex1 \<times> vram) option" where
  "rex_read_host_data_go rex m = map_option (Pair (rg_rwaux1 (rx_current rex))) (rex_execute rex m)"

definition rex_read_drawing_go :: "u64 \<Rightarrow> rex1 \<Rightarrow> vram \<Rightarrow> (u32 \<times> rex1 \<times> vram) option" where
  "rex_read_drawing_go offset rex m =
     (if offset = RWAUX1 then rex_read_host_data_go rex m
      else do {
        (rex, m) \<leftarrow> rex_execute rex m;
        Some (registers_read offset (rx_current rex), rex, m)
      })"

definition rex_write_dummy :: "u32 \<Rightarrow> rex1 \<Rightarrow> rex1" where
  "rex_write_dummy v rex = rex\<lparr>rx_dummy := v\<rparr>"

end
