(* ===== verification/Lg1.thy ===== *)
theory Lg1
  imports Rex1 Gio
begin

text \<open>
  The LG1 board above its chips: the composition of frames and the GIO device.
\<close>

chapter \<open>Frames\<close>

text \<open>
  The composition of a frame, \<^verbatim>\<open>se_device/src/lg1/display.rs\<close>: the planes of the frame
  buffer, the display identifiers and modes of the VC1 and the palette of the Bt479 become one
  RGBA image, over which the hardware cursor is drawn.
\<close>

definition FRAME_BYTES :: nat where "FRAME_BYTES = DISPLAY_WIDTH * DISPLAY_HEIGHT * 4"
definition CURSOR_EXTENT :: nat where "CURSOR_EXTENT = 32"
definition CURSOR_PLANE_BYTES :: nat where "CURSOR_PLANE_BYTES = 128"
definition CURSOR_ROW_BYTES :: nat where "CURSOR_ROW_BYTES = 4"
definition OVERLAY_PALETTE_BASE :: u16 where "OVERLAY_PALETTE_BASE = 0x310"
definition DISPLAY_MODES :: nat where "DISPLAY_MODES = 32"
definition PIXEL_VALUES :: nat where "PIXEL_VALUES = 256"
definition OVERLAY_VALUES :: nat where "OVERLAY_VALUES = 4"

lemmas display_sizes =
  FRAME_BYTES_def CURSOR_EXTENT_def CURSOR_PLANE_BYTES_def CURSOR_ROW_BYTES_def DISPLAY_MODES_def
  PIXEL_VALUES_def OVERLAY_VALUES_def

section \<open>Color tables\<close>

record color_tables =
  ct_pixel :: "u8 list list list"
  ct_overlay :: "u8 list list"

definition opaque_color :: "u8 list \<Rightarrow> u8 list" where
  "opaque_color color = color @ [0xff]"

definition color_index :: "u16 \<Rightarrow> u8 \<Rightarrow> u16" where
  "color_index mode pixel =
     (if mode AND 1 = 0 then push_bit 8 (drop_bit 2 mode AND 0x03) OR ucast pixel
      else
        let pixel = (if mode AND 2 = 0 then pixel AND 0x0f else drop_bit 4 pixel)
        in push_bit 6 (mode AND 0x000c) OR (mode AND 0x00f0) OR ucast pixel)"

definition pixel_colors :: "bt479 \<Rightarrow> u16 \<Rightarrow> u8 list list option" where
  "pixel_colors dac mode =
     those (map (\<lambda>pixel. map_option opaque_color (bt_color (color_index mode (of_nat pixel)) dac)) [0..<PIXEL_VALUES])"

definition populate_color_tables :: "vc1 \<Rightarrow> bt479 \<Rightarrow> color_tables option" where
  "populate_color_tables v dac = do {
     pixel \<leftarrow> those (map (\<lambda>identifier. Option.bind (vc_display_mode (of_nat identifier) v) (pixel_colors dac))
       [0..<DISPLAY_MODES]);
     overlay \<leftarrow> those (map (\<lambda>overlay. map_option opaque_color (bt_color (OVERLAY_PALETTE_BASE OR of_nat overlay) dac))
       [0..<OVERLAY_VALUES]);
     Some \<lparr>ct_pixel = pixel, ct_overlay = overlay\<rparr>
   }"

section \<open>The image\<close>

text \<open>The four components of one pixel, stored one after the other.\<close>

fun put_bytes :: "nat \<Rightarrow> u8 list \<Rightarrow> u8 list \<Rightarrow> u8 list option" where
  "put_bytes offset [] pixels = Some pixels"
| "put_bytes offset (c # cs) pixels = do {
     pixels \<leftarrow> set_at pixels offset c;
     put_bytes (offset + 1) cs pixels
   }"

text \<open>A visible overlay value takes the place of the pixel.\<close>

definition resolved_color :: "color_tables \<Rightarrow> u8 \<Rightarrow> u8 \<Rightarrow> u8 \<Rightarrow> u8 list option" where
  "resolved_color tables identifier source overlay =
     (let overlay = overlay AND 0x03 in
      if overlay = 0 then do {
        colors \<leftarrow> get_at (ct_pixel tables) (unat (identifier AND 0x1f));
        get_at colors (unat source)
      } else get_at (ct_overlay tables) (unat overlay))"

definition compose_pixel ::
  "color_tables \<Rightarrow> u8 list \<Rightarrow> u8 list \<Rightarrow> u8 list \<Rightarrow> nat \<Rightarrow> nat \<Rightarrow> u8 list \<Rightarrow> u8 list option" where
  "compose_pixel tables identifiers source overlay y x pixels = do {
     overlay_value \<leftarrow> get_at overlay x;
     identifier \<leftarrow> get_at identifiers x;
     source_value \<leftarrow> get_at source x;
     color \<leftarrow> resolved_color tables identifier source_value overlay_value;
     put_bytes (y * DISPLAY_WIDTH * 4 + x * 4) color pixels
   }"

text \<open>One scan line; the row of identifiers is a buffer that every line clears and fills.\<close>

definition compose_line ::
  "vram \<Rightarrow> vc1 \<Rightarrow> color_tables \<Rightarrow> nat \<Rightarrow> u8 list \<times> u8 list \<Rightarrow> (u8 list \<times> u8 list) option" where
  "compose_line m v tables y = (\<lambda>(identifiers, pixels). do {
     identifiers \<leftarrow> vc_fill_display_identifiers y v identifiers;
     source \<leftarrow> vram_pixel_row y m;
     overlay \<leftarrow> vram_overlay_row y m;
     pixels \<leftarrow> each_of (compose_pixel tables identifiers source overlay y) [0..<DISPLAY_WIDTH] pixels;
     Some (identifiers, pixels)
   })"

section \<open>The cursor\<close>

definition cursor_bits :: "vc_cursor \<Rightarrow> nat \<Rightarrow> nat \<Rightarrow> u8 option" where
  "cursor_bits cursor row column = do {
     let index = row * CURSOR_ROW_BYTES + column div 8;
     let shift = 7 - column mod 8;
     foreground \<leftarrow> get_at (vcu_bitmap cursor) index;
     background \<leftarrow> get_at (vcu_bitmap cursor) (CURSOR_PLANE_BYTES + index);
     Some ((drop_bit shift foreground AND 1) OR push_bit 1 (drop_bit shift background AND 1))
   }"

definition cursor_pixel ::
  "vc_cursor \<Rightarrow> u8 list \<Rightarrow> u8 list \<Rightarrow> nat \<Rightarrow> nat \<Rightarrow> u8 list \<Rightarrow> u8 list option" where
  "cursor_pixel cursor foreground background row column pixels =
     (let y = vcu_top cursor + int row; x = vcu_left cursor + int column in
      if y < 0 \<or> int DISPLAY_HEIGHT \<le> y \<or> x < 0 \<or> int DISPLAY_WIDTH \<le> x then Some pixels
      else do {
        bits \<leftarrow> cursor_bits cursor row column;
        if bits = 1 then put_bytes ((nat y * DISPLAY_WIDTH + nat x) * 4) (opaque_color foreground) pixels
        else if bits = 2 then put_bytes ((nat y * DISPLAY_WIDTH + nat x) * 4) (opaque_color background) pixels
        else Some pixels
      })"

definition compose_cursor :: "vc1 \<Rightarrow> bt479 \<Rightarrow> u8 list \<Rightarrow> u8 list option" where
  "compose_cursor v dac pixels = do {
     shown \<leftarrow> vc_cursor_of v;
     case shown of
       None \<Rightarrow> Some pixels
     | Some cursor \<Rightarrow> do {
         foreground \<leftarrow> bt_color (vcu_palette_base cursor OR 1) dac;
         background \<leftarrow> bt_color (vcu_palette_base cursor OR 2) dac;
         each_of (\<lambda>row. each_of (cursor_pixel cursor foreground background row) [0..<CURSOR_EXTENT])
           [0..<CURSOR_EXTENT] pixels
       }
   }"

definition compose :: "vram \<Rightarrow> vc1 \<Rightarrow> bt479 \<Rightarrow> u8 list \<Rightarrow> u8 list option" where
  "compose m v dac pixels = do {
     require (length pixels = FRAME_BYTES);
     tables \<leftarrow> populate_color_tables v dac;
     (_, pixels) \<leftarrow> each_of (compose_line m v tables) [0..<DISPLAY_HEIGHT] (replicate DISPLAY_WIDTH 0, pixels);
     compose_cursor v dac pixels
   }"

chapter \<open>The board\<close>

text \<open>
  The LG1 entry graphics board, \<^verbatim>\<open>se_device/src/lg1.rs\<close>: the register windows of the
  REX1, the configuration bus that moves bytes to and from the VC1 and the Bt479, the frames it
  publishes and the GIO device it is. A frame is shared with the host: whether the host still holds
  an allocation is known to the reference counts of the code only and is a parameter here,
  \<open>held\<close>, which says so of the contents of the allocation.
\<close>

section \<open>Frames\<close>

definition GIO_PIO_BASE :: u64 where "GIO_PIO_BASE = 0x003f0000"
definition GIO_PIO_BYTES :: u64 where "GIO_PIO_BYTES = 0x8000"
definition GIO_PIO_END :: u64 where "GIO_PIO_END = GIO_PIO_BASE + GIO_PIO_BYTES"
definition GRAPHICS_DMA_PORT :: u64 where "GRAPHICS_DMA_PORT = GIO_PIO_BASE + GO_OFFSET + RWAUX1"
definition LG1_BOARD_REVISION :: u8 where "LG1_BOARD_REVISION = 1"
definition MONITOR_CODE :: u8 where "MONITOR_CODE = 0"
definition CLOCK_SELECTOR_REVISION :: u8 where "CLOCK_SELECTOR_REVISION = 4"
definition RETIRED_FRAME_LIMIT :: nat where "RETIRED_FRAME_LIMIT = 2"

record lg1 =
  lg_rex :: rex1
  lg_vc1 :: vc1
  lg_dac :: bt479
  lg_vram :: vram
  lg_frame :: "u8 list option"
  lg_retired :: "u8 list list"
  lg_composition_dirty :: bool
  lg_display_changed :: bool

definition recycler_retire :: "u8 list \<Rightarrow> u8 list list \<Rightarrow> u8 list list" where
  "recycler_retire frame retired =
     (if length retired = RETIRED_FRAME_LIMIT then tl retired else retired) @ [frame]"

definition swap_remove :: "nat \<Rightarrow> 'a list \<Rightarrow> 'a list" where
  "swap_remove i xs = (if i = length xs - 1 then butlast xs else (butlast xs)[i := last xs])"

fun position :: "('a \<Rightarrow> bool) \<Rightarrow> 'a list \<Rightarrow> nat option" where
  "position P [] = None"
| "position P (x # xs) = (if P x then Some 0 else map_option Suc (position P xs))"

definition recycler_take_released ::
  "(u8 list \<Rightarrow> bool) \<Rightarrow> u8 list list \<Rightarrow> u8 list option \<times> u8 list list" where
  "recycler_take_released held retired =
     (case position (\<lambda>frame. \<not> held frame) retired of
        None \<Rightarrow> (None, retired)
      | Some index \<Rightarrow> (Some (retired ! index), swap_remove index retired))"

definition recycler_acquire ::
  "(u8 list \<Rightarrow> bool) \<Rightarrow> u8 list option \<Rightarrow> u8 list list \<Rightarrow> u8 list \<times> u8 list list" where
  "recycler_acquire held current retired =
     (case current of
        Some frame \<Rightarrow>
          if \<not> held frame then (frame, retired)
          else let (released, retired) = recycler_take_released held retired
            in (case released of Some pixels \<Rightarrow> pixels | None \<Rightarrow> replicate FRAME_BYTES 0,
                recycler_retire frame retired)
      | None \<Rightarrow>
          let (released, retired) = recycler_take_released held retired
          in (case released of Some pixels \<Rightarrow> pixels | None \<Rightarrow> replicate FRAME_BYTES 0, retired))"

section \<open>Board\<close>

definition lg1_new :: lg1 where
  "lg1_new = \<lparr>lg_rex = rex_new, lg_vc1 = vc_new, lg_dac = bt_new, lg_vram = vram_new, lg_frame = None,
     lg_retired = [], lg_composition_dirty = False, lg_display_changed = False\<rparr>"

definition lg1_reset :: "lg1 \<Rightarrow> lg1" where
  "lg1_reset g = g\<lparr>lg_rex := rex_reset (lg_rex g), lg_vc1 := vc_reset (lg_vc1 g),
     lg_dac := bt_reset (lg_dac g), lg_vram := vram_reset (lg_vram g), lg_frame := None,
     lg_retired := [], lg_composition_dirty := False, lg_display_changed := False\<rparr>"

definition lg1_take_display_update :: "lg1 \<Rightarrow> bool \<times> lg1" where
  "lg1_take_display_update g = (lg_display_changed g, g\<lparr>lg_display_changed := False\<rparr>)"

definition lg1_display_state :: "lg1 \<Rightarrow> gio_display_state option" where
  "lg1_display_state g = Some (case vc_signal_state (lg_vc1 g) of
       SignalNoSignal \<Rightarrow> DisplayNoSignal
     | SignalBlanked \<Rightarrow> DisplayBlank
     | SignalActive \<Rightarrow> (case lg_frame g of
         Some pixels \<Rightarrow> DisplayActive (of_nat DISPLAY_WIDTH) (of_nat DISPLAY_HEIGHT) pixels
       | None \<Rightarrow> DisplayBlank))"

definition lg1_interrupt_asserted :: "gio_interrupt \<Rightarrow> lg1 \<Rightarrow> bool" where
  "lg1_interrupt_asserted interrupt g \<longleftrightarrow>
     interrupt = GioInterrupt2 \<and> vc_signal_state (lg_vc1 g) \<noteq> SignalNoSignal \<and>
     vc_in_vertical_blanking (lg_vc1 g)"

definition lg1_compose_frame :: "(u8 list \<Rightarrow> bool) \<Rightarrow> lg1 \<Rightarrow> lg1 option" where
  "lg1_compose_frame held g = do {
     require (vc_signal_state (lg_vc1 g) = SignalActive);
     let (pixels, retired) = recycler_acquire held (lg_frame g) (lg_retired g);
     pixels \<leftarrow> compose (lg_vram g) (lg_vc1 g) (lg_dac g) pixels;
     Some (g\<lparr>lg_retired := retired, lg_frame := Some pixels,
       lg_vram := vram_clear_display_dirty (lg_vram g), lg_composition_dirty := False,
       lg_display_changed := True\<rparr>)
   }"

definition lg1_advance_time :: "(u8 list \<Rightarrow> bool) \<Rightarrow> virtual_duration \<Rightarrow> lg1 \<Rightarrow> lg1 option" where
  "lg1_advance_time held elapsed g = do {
     (completed, v) \<leftarrow> vc_advance_time elapsed (lg_vc1 g);
     let g = g\<lparr>lg_vc1 := v\<rparr>;
     if completed = 0 then Some g
     else if vc_signal_state v \<noteq> SignalActive then Some g
     else if lg_frame g \<noteq> None \<and> \<not> lg_composition_dirty g \<and> \<not> vr_display_dirty (lg_vram g) then Some g
     else lg1_compose_frame held g
   }"

section \<open>The configuration bus\<close>

definition lg1_write_peripheral :: "peripheral_port \<Rightarrow> u8 \<Rightarrow> lg1 \<Rightarrow> lg1 option" where
  "lg1_write_peripheral port v g = do {
     let selector = ucast (rc_configsel (rx_config (lg_rex g)));
     let before = vc_signal_state (lg_vc1 g);
     (composition_changed, g) \<leftarrow> (case port of
         PortDac \<Rightarrow> map_option (\<lambda>(changed, dac). (changed, g\<lparr>lg_dac := dac\<rparr>))
           (bt_write (bt_selector_from_bits selector) v (lg_dac g))
       | PortVc1 \<Rightarrow> map_option (\<lambda>(changed, vc). (changed, g\<lparr>lg_vc1 := vc\<rparr>))
           (vc_write (vc_selector_from_bits selector) v (lg_vc1 g))
       | PortClock \<Rightarrow> Some (False, g));
     let g = g\<lparr>lg_composition_dirty := (lg_composition_dirty g \<or> composition_changed)\<rparr>;
     let after = vc_signal_state (lg_vc1 g);
     if before = after then Some g
     else
       let g = (if after = SignalNoSignal
                then (case lg_frame g of
                    None \<Rightarrow> g
                  | Some frame \<Rightarrow> g\<lparr>lg_frame := None, lg_retired := recycler_retire frame (lg_retired g)\<rparr>)
                else g)
       in Some (g\<lparr>lg_display_changed := True\<rparr>)
   }"

definition lg1_read_clock_port :: "u8 \<Rightarrow> lg1 \<Rightarrow> u8" where
  "lg1_read_clock_port selector g =
     (if selector = CLOCK_SELECTOR_REVISION then LG1_BOARD_REVISION OR push_bit 3 MONITOR_CODE
      else ucast (rc_wclock (rx_config (lg_rex g))))"

definition lg1_read_peripheral :: "peripheral_port \<Rightarrow> lg1 \<Rightarrow> (u8 \<times> lg1) option" where
  "lg1_read_peripheral port g =
     (let selector = ucast (rc_configsel (rx_config (lg_rex g))) in
      case port of
        PortDac \<Rightarrow> map_option (\<lambda>(v, dac). (v, g\<lparr>lg_dac := dac\<rparr>)) (bt_read (bt_selector_from_bits selector) (lg_dac g))
      | PortVc1 \<Rightarrow> map_option (\<lambda>(v, vc). (v, g\<lparr>lg_vc1 := vc\<rparr>)) (vc_read (vc_selector_from_bits selector) (lg_vc1 g))
      | PortClock \<Rightarrow> Some (lg1_read_clock_port selector g, g))"

section \<open>Register windows\<close>

datatype lg_register =
    RegisterDrawing u64
  | RegisterDrawingGo u64
  | RegisterDummy
  | RegisterConfig u64
  | RegisterConfigGo u64

definition lg_decode :: "u64 \<Rightarrow> lg_register option" where
  "lg_decode offset =
     (let go = offset - GO_OFFSET in
      if offset < DRAWING_END then Some (RegisterDrawing offset)
      else if offset = DUMMY then Some RegisterDummy
      else if GO_OFFSET \<le> offset \<and> go < DRAWING_END then Some (RegisterDrawingGo go)
      else if CONFIG_BASE \<le> offset \<and> offset < CONFIG_END then Some (RegisterConfig offset)
      else if CONFIG_BASE + GO_OFFSET \<le> offset \<and> go < CONFIG_END then Some (RegisterConfigGo go)
      else None)"

definition lg_register_offset :: "device_addr \<Rightarrow> nat \<Rightarrow> bus_error + u64 option" where
  "lg_register_offset start len =
     (if \<not> (1 \<le> len \<and> len \<le> 4) then Inl InvalidTransaction
      else if 2 ^ 64 \<le> unat start + len then Inl InvalidTransaction
      else let stop = start + of_nat len in
        if stop \<le> GIO_PIO_BASE \<or> GIO_PIO_END \<le> start then Inr None
        else if start < GIO_PIO_BASE \<or> GIO_PIO_END < stop then Inl HardwareFault
        else if len \<noteq> 4 \<or> start mod 4 \<noteq> 0 then Inl UnimplementedAccess
        else Inr (Some (start - GIO_PIO_BASE)))"

abbreviation drew :: "lg1 \<Rightarrow> rex1 \<times> vram \<Rightarrow> lg1" where
  "drew g r \<equiv> g\<lparr>lg_rex := fst r, lg_vram := snd r\<rparr>"

definition lg1_read_register :: "lg_register \<Rightarrow> lg1 \<Rightarrow> (u32 \<times> lg1) option" where
  "lg1_read_register register g =
     (case register of
        RegisterDrawing offset \<Rightarrow> Some (rex_read_drawing offset (lg_rex g), g)
      | RegisterDrawingGo offset \<Rightarrow>
          map_option (\<lambda>(v, r). (v, drew g r)) (rex_read_drawing_go offset (lg_rex g) (lg_vram g))
      | RegisterDummy \<Rightarrow> Some (rx_dummy (lg_rex g), g)
      | RegisterConfig offset \<Rightarrow> Some (fst (rex_read_config offset (lg_rex g)), g)
      | RegisterConfigGo offset \<Rightarrow>
          (let (v, access) = rex_read_config offset (lg_rex g) in
           case access of
             AccessRead port \<Rightarrow> do {
               (received, g) \<leftarrow> lg1_read_peripheral port g;
               Some (v, g\<lparr>lg_rex := rex_complete_config_read port received (lg_rex g)\<rparr>)
             }
           | _ \<Rightarrow> Some (v, g)))"

definition lg1_read :: "lg1 \<Rightarrow> device_addr \<Rightarrow> nat \<Rightarrow> ((bus_error + u8 list) \<times> lg1) option" where
  "lg1_read g address len =
     (case lg_register_offset address len of
        Inl e \<Rightarrow> Some (Inl e, g)
      | Inr None \<Rightarrow> Some (Inr (replicate len 0), g)
      | Inr (Some offset) \<Rightarrow> (case lg_decode offset of
          None \<Rightarrow> Some (Inl UnimplementedAccess, g)
        | Some register \<Rightarrow> map_option (\<lambda>(v, g). (Inr (to_be_bytes32 v), g)) (lg1_read_register register g)))"

definition lg1_debug_read :: "lg1 \<Rightarrow> device_addr \<Rightarrow> nat \<Rightarrow> (bus_error + u8 list) option" where
  "lg1_debug_read g address len =
     (case lg_register_offset address len of
        Inl e \<Rightarrow> Some (Inl e)
      | Inr None \<Rightarrow> Some (Inr (replicate len 0))
      | Inr (Some offset) \<Rightarrow> Some (case lg_decode offset of
          None \<Rightarrow> Inl UnimplementedAccess
        | Some register \<Rightarrow> Inr (to_be_bytes32 (case register of
            RegisterDrawing offset \<Rightarrow> rex_read_drawing offset (lg_rex g)
          | RegisterDrawingGo offset \<Rightarrow> rex_read_drawing offset (lg_rex g)
          | RegisterDummy \<Rightarrow> rx_dummy (lg_rex g)
          | RegisterConfig offset \<Rightarrow> fst (rex_read_config offset (lg_rex g))
          | RegisterConfigGo offset \<Rightarrow> fst (rex_read_config offset (lg_rex g))))))"

definition lg1_write_register :: "lg_register \<Rightarrow> u32 \<Rightarrow> lg1 \<Rightarrow> lg1 option" where
  "lg1_write_register register v g =
     (case register of
        RegisterDrawing offset \<Rightarrow> Some (g\<lparr>lg_rex := rex_write_drawing offset v (lg_rex g)\<rparr>)
      | RegisterDrawingGo offset \<Rightarrow>
          map_option (drew g) (rex_write_drawing_go offset v (lg_rex g) (lg_vram g))
      | RegisterDummy \<Rightarrow> Some (g\<lparr>lg_rex := rex_write_dummy v (lg_rex g)\<rparr>)
      | RegisterConfig offset \<Rightarrow> Some (g\<lparr>lg_rex := snd (rex_write_config offset v (lg_rex g))\<rparr>)
      | RegisterConfigGo offset \<Rightarrow>
          (let (access, rex) = rex_write_config offset v (lg_rex g); g = g\<lparr>lg_rex := rex\<rparr> in
           case access of
             AccessWrite port byte \<Rightarrow> lg1_write_peripheral port byte g
           | _ \<Rightarrow> Some g))"

definition lg1_write :: "lg1 \<Rightarrow> device_addr \<Rightarrow> u8 list \<Rightarrow> ((bus_error + unit) \<times> lg1) option" where
  "lg1_write g address data =
     (case lg_register_offset address (length data) of
        Inl e \<Rightarrow> Some (Inl e, g)
      | Inr None \<Rightarrow> Some (Inr (), g)
      | Inr (Some offset) \<Rightarrow> (case lg_decode offset of
          None \<Rightarrow> Some (Inl UnimplementedAccess, g)
        | Some register \<Rightarrow> map_option (Pair (Inr ())) (lg1_write_register register (from_be_bytes data) g)))"

section \<open>Graphics DMA\<close>

fun dma_words :: "nat \<Rightarrow> u8 list \<Rightarrow> u32 list" where
  "dma_words 0 data = []"
| "dma_words (Suc n) data = from_be_bytes (take 4 data) # dma_words n (drop 4 data)"

fun read_host_words :: "nat \<Rightarrow> lg1 \<Rightarrow> (u8 list \<times> lg1) option" where
  "read_host_words 0 g = Some ([], g)"
| "read_host_words (Suc n) g = do {
     (v, r) \<leftarrow> rex_read_host_data_go (lg_rex g) (lg_vram g);
     (rest, g) \<leftarrow> read_host_words n (drew g r);
     Some (to_be_bytes32 v @ rest, g)
   }"

fun write_host_words :: "u32 list \<Rightarrow> lg1 \<Rightarrow> lg1 option" where
  "write_host_words [] g = Some g"
| "write_host_words (v # vs) g = do {
     r \<leftarrow> rex_write_host_data_go v (lg_rex g) (lg_vram g);
     write_host_words vs (drew g r)
   }"

definition lg1_read_dma :: "lg1 \<Rightarrow> device_addr \<Rightarrow> nat \<Rightarrow> ((bus_error + u8 list) \<times> lg1) option" where
  "lg1_read_dma g address len =
     (if address \<noteq> GRAPHICS_DMA_PORT then Some (Inl UnimplementedAccess, g)
      else if len mod 4 \<noteq> 0 then Some (Inl InvalidTransaction, g)
      else map_option (\<lambda>(data, g). (Inr data, g)) (read_host_words (len div 4) g))"

definition lg1_write_dma :: "lg1 \<Rightarrow> device_addr \<Rightarrow> u8 list \<Rightarrow> ((bus_error + unit) \<times> lg1) option" where
  "lg1_write_dma g address data =
     (if address \<noteq> GRAPHICS_DMA_PORT then Some (Inl UnimplementedAccess, g)
      else if length data mod 4 \<noteq> 0 then Some (Inl InvalidTransaction, g)
      else map_option (Pair (Inr ())) (write_host_words (dma_words (length data div 4) data) g))"

section \<open>The GIO device\<close>

text \<open>A clone keeps no retired allocation.\<close>

datatype gio_device_snapshot = SnapshotLg1 lg1

definition lg1_snapshot :: "lg1 \<Rightarrow> gio_device_snapshot" where
  "lg1_snapshot g = SnapshotLg1 (g\<lparr>lg_retired := []\<rparr>)"

fun lg1_restore_snapshot :: "gio_device_snapshot \<Rightarrow> lg1 \<Rightarrow> lg1" where
  "lg1_restore_snapshot (SnapshotLg1 saved) g = saved"

definition lg1_device_ops :: "(u8 list \<Rightarrow> bool) \<Rightarrow> (lg1, gio_device_snapshot) gio_device_ops" where
  "lg1_device_ops held =
     \<lparr>gd_reset = lg1_reset, gd_debug_read = lg1_debug_read, gd_read = lg1_read, gd_write = lg1_write,
      gd_read_dma = lg1_read_dma, gd_write_dma = lg1_write_dma, gd_dma_sync_asserted = (\<lambda>_. True),
      gd_advance_time = lg1_advance_time held,
      gd_time_until_event = (\<lambda>g. vc_time_until_event (lg_vc1 g)),
      gd_interrupt_asserted = lg1_interrupt_asserted, gd_display_state = lg1_display_state,
      gd_take_display_update = lg1_take_display_update, gd_snapshot = lg1_snapshot,
      gd_accepts_snapshot = (\<lambda>_ _. True), gd_restore_snapshot = lg1_restore_snapshot\<rparr>"

end
