(* ===== verification/Rex_Correct.thy ===== *)
theory Rex_Correct
  imports Rex1
begin

text \<open>
  Correctness of the REX1 model: the raster operations are the sixteen truth tables of two bits, a
  rectangle command visits each of its pixels once, in the programmed direction, and a plain fill
  paints the rectangle and nothing else.
\<close>

section \<open>Raster operations\<close>

lemma nibble_bits:
  "w AND 0x0f = 8 * of_bool (bit w 3) + (4 * of_bool (bit w 2) + (2 * of_bool (bit w 1) + of_bool (bit w 0)))"
  for w :: u32
proof -
  have "uint (w AND 0x0f) = take_bit (Suc (Suc (Suc (Suc 0)))) (uint w)"
    by (simp add: unsigned_and_eq take_bit_eq_mask mask_eq_exp_minus_1)
  also have "\<dots> = 8 * of_bool (bit w 3) + (4 * of_bool (bit w 2) + (2 * of_bool (bit w 1) + of_bool (bit w 0)))"
    by (simp only: take_bit_Suc_from_most) (simp add: bit_uint_iff eval_nat_numeral bit_simps)
  finally have "word_of_int (uint (w AND 0x0f)) = (word_of_int (8 * of_bool (bit w 3) +
      (4 * of_bool (bit w 2) + (2 * of_bool (bit w 1) + of_bool (bit w 0)))) :: u32)"
    by simp
  then show ?thesis by simp
qed

lemma bit_all_ones: "bit (0xff :: int) n \<longleftrightarrow> n < 8"
proof -
  have "(0xff :: int) = mask 8" by (simp add: mask_eq_exp_minus_1)
  then show ?thesis by (simp only: bit_mask_iff) simp
qed

text \<open>
  The raster operations are the truth tables their codes spell. Each bit of the result is the
  bit of the four-bit code that the source and destination bits select (both set: bit 0; only the
  source: 1; only the destination: 2; neither: 3), for every code, source and destination.
\<close>

lemma raster_operation_is_truth_table:
  "bit (logic_operation operation source destination) n \<longleftrightarrow>
     n < 8 \<and> bit operation (if bit source n then (if bit destination n then 0 else 1)
                             else (if bit destination n then 2 else 3))"
  by (cases "bit operation 0"; cases "bit operation 1"; cases "bit operation 2"; cases "bit operation 3")
    (auto simp: logic_operation_def nibble_bits bit_and_iff bit_or_iff bit_xor_iff bit_not_iff bit_all_ones dest: bit_u8)

section \<open>Traversals\<close>

text \<open>The coordinates from one end to the other, both included, in either direction.\<close>

definition traverse :: "bool \<Rightarrow> u32 \<Rightarrow> u32 \<Rightarrow> u32 list" where
  "traverse ascending a b =
     (if ascending then map of_nat [unat a..<Suc (unat b)] else rev (map of_nat [unat b..<Suc (unat a)]))"

abbreviation toward :: "bool \<Rightarrow> u32 \<Rightarrow> u32 \<Rightarrow> bool" where
  "toward ascending a b \<equiv> (if ascending then a \<le> b else b \<le> a)"

lemma u32_below: "unat a < 4294967296" for a :: u32
  using unsigned_less [of a] by simp

lemma traverse_last [simp]: "traverse ascending a a = [a]"
  by (simp add: traverse_def)

lemma traverse_step:
  assumes "toward ascending a b" "a \<noteq> b"
  obtains c where "step_coordinate ascending a = Some c" "toward ascending c b"
    "traverse ascending a b = a # traverse ascending c b"
proof (cases ascending)
  case True
  with assms have less: "unat a < unat b" by (simp add: word_le_nat_alt word_unat_eq_iff)
  then have c: "unat (a + 1) = Suc (unat a)" using u32_below [of b] by (simp add: unat_word_ariths)
  show thesis
  proof (rule that [of "a + 1"])
    show "step_coordinate ascending a = Some (a + 1)"
      using True less u32_below [of b] by (simp add: step_coordinate_def checked_sum_def)
    show "toward ascending (a + 1) b" using True less c by (simp add: word_le_nat_alt)
    show "traverse ascending a b = a # traverse ascending (a + 1) b"
      using True less c by (simp add: traverse_def upt_rec [of "unat a"])
  qed
next
  case False
  with assms have less: "unat b < unat a" by (auto simp: word_le_nat_alt word_unat_eq_iff)
  then have c: "Suc (unat (a - 1)) = unat a" by (simp add: unat_word_ariths unat_sub_if')
  show thesis
  proof (rule that [of "a - 1"])
    show "step_coordinate ascending a = Some (a - 1)"
      using False less by (simp add: step_coordinate_def checked_difference_def word_le_nat_alt)
    show "toward ascending (a - 1) b" using False less c by (simp add: word_le_nat_alt)
    have "[unat b..<Suc (unat a)] = [unat b..<Suc (unat (a - 1))] @ [unat a]"
      unfolding c using less by simp
    then show "traverse ascending a b = a # traverse ascending (a - 1) b"
      using False by (simp add: traverse_def del: upt_Suc)
  qed
qed

lemma set_traverse:
  "set (traverse ascending a b) =
     (if ascending then {x. a \<le> x \<and> x \<le> b} else {x. b \<le> x \<and> x \<le> a})"
proof -
  have between: "of_nat ` {unat p..<Suc (unat q)} = {x. p \<le> x \<and> x \<le> q}" for p q :: u32
  proof (intro equalityI subsetI)
    fix x :: u32 assume "x \<in> {x. p \<le> x \<and> x \<le> q}"
    then have "unat x \<in> {unat p..<Suc (unat q)}" "x = of_nat (unat x)" by (auto simp: word_le_nat_alt)
    then show "x \<in> of_nat ` {unat p..<Suc (unat q)}" by blast
  next
    fix x :: u32 assume "x \<in> of_nat ` {unat p..<Suc (unat q)}"
    then obtain n where "x = of_nat n" "unat p \<le> n" "n \<le> unat q" by auto
    moreover have "unat (of_nat n :: u32) = n" using \<open>n \<le> unat q\<close> u32_below [of q]
      by (simp add: unat_of_nat take_bit_eq_mod)
    ultimately show "x \<in> {x. p \<le> x \<and> x \<le> q}" by (simp add: word_le_nat_alt)
  qed
  show ?thesis by (simp add: traverse_def between [symmetric] del: upt_Suc)
qed

section \<open>Rectangles\<close>

text \<open>One pixel of a rectangle command, \<open>k\<close> pixels into its row.\<close>

definition paint :: "rex1 \<Rightarrow> plane_group \<Rightarrow> u32 \<Rightarrow> nat \<times> u32 \<Rightarrow> vram \<Rightarrow> vram option" where
  "paint rex planes y = (\<lambda>(k, x) m.
     Option.bind (rectangle_source planes k x y rex m) (\<lambda>source. rex_write_pixel planes x y source rex m))"

lemma rectangle_row_visits:
  assumes "toward ascending x end_x" "length (traverse ascending x end_x) \<le> budget"
  shows "rectangle_row rex planes ascending end_x y budget k x m =
    map_option (Pair (Some (budget - length (traverse ascending x end_x))))
      (each_of (paint rex planes y) (enumerate k (traverse ascending x end_x)) m)"
  using assms
proof (induction budget arbitrary: k x m)
  case 0
  then show ?case by (auto simp: traverse_def word_le_nat_alt split: if_splits)
next
  case (Suc budget)
  show ?case
  proof (cases "x = end_x")
    case True
    then show ?thesis by (auto simp: paint_def split: bind_splits)
  next
    case False
    with Suc.prems(1) obtain c where c: "step_coordinate ascending x = Some c" "toward ascending c end_x"
      "traverse ascending x end_x = x # traverse ascending c end_x" by (rule traverse_step)
    show ?thesis
      using False Suc.prems(2) Suc.IH [OF c(2)]
      by (auto simp: c(1,3) paint_def split: bind_splits)
  qed
qed

text \<open>The pixels of a rectangle, row by row.\<close>

definition rectangle_pixels :: "u32 \<Rightarrow> u32 \<Rightarrow> u32 \<Rightarrow> u32 \<Rightarrow> (u32 \<times> nat \<times> u32) list" where
  "rectangle_pixels start_x start_y end_x end_y =
     concat (map (\<lambda>y. map (Pair y) (enumerate 0 (traverse (start_x \<le> end_x) start_x end_x)))
       (traverse (start_y \<le> end_y) start_y end_y))"

lemma rectangle_rows_visit:
  assumes x: "toward x_ascending start_x end_x"
    and width: "w = length (traverse x_ascending start_x end_x)"
  shows "toward y_ascending y end_y \<Longrightarrow> n = length (traverse y_ascending y end_y) \<Longrightarrow> n * w \<le> budget \<Longrightarrow>
    rectangle_rows rex planes x_ascending y_ascending start_x end_x end_y budget y m =
    each_of (\<lambda>(y, p). paint rex planes y p)
      (concat (map (\<lambda>y. map (Pair y) (enumerate 0 (traverse x_ascending start_x end_x)))
        (traverse y_ascending y end_y))) m"
proof (induction n arbitrary: y budget m)
  case 0
  then show ?case by (auto simp: traverse_def word_le_nat_alt split: if_splits)
next
  case (Suc n)
  have row: "rectangle_row rex planes x_ascending end_x y budget 0 start_x m =
      map_option (Pair (Some (budget - w)))
        (each_of (\<lambda>(y, p). paint rex planes y p)
          (map (Pair y) (enumerate 0 (traverse x_ascending start_x end_x))) m)"
    unfolding width each_of_map prod.case
    by (rule rectangle_row_visits [OF x]) (use Suc.prems(3) width in simp)
  show ?case
  proof (cases "y = end_y")
    case True
    then show ?thesis
      by (subst rectangle_rows.simps) (auto simp: row [unfolded True] map_option_case split: option.split)
  next
    case False
    with Suc.prems(1) obtain c where c: "step_coordinate y_ascending y = Some c" "toward y_ascending c end_y"
      "traverse y_ascending y end_y = y # traverse y_ascending c end_y" by (rule traverse_step)
    have "rectangle_rows rex planes x_ascending y_ascending start_x end_x end_y (budget - w) c m' =
      each_of (\<lambda>(y, p). paint rex planes y p)
        (concat (map (\<lambda>y. map (Pair y) (enumerate 0 (traverse x_ascending start_x end_x)))
          (traverse y_ascending c end_y))) m'" for m'
      by (rule Suc.IH [OF c(2)]) (use Suc.prems(2,3) c(3) in auto)
    with False show ?thesis
      by (subst rectangle_rows.simps) (auto simp: row c each_of_append split: option.split bind_splits)
  qed
qed

text \<open>
  A command that its budget lets finish visits every pixel of the rectangle once, in order.
\<close>

lemma draw_rectangle_visits:
  assumes "length (rectangle_pixels start_x start_y end_x end_y) \<le> MAX_COMMAND_PIXELS"
  shows "draw_rectangle planes start_x start_y end_x end_y rex m =
    each_of (\<lambda>(y, p). paint rex planes y p) (rectangle_pixels start_x start_y end_x end_y) m"
  unfolding draw_rectangle_def rectangle_pixels_def
proof (rule rectangle_rows_visit [OF _ refl _ refl])
  show "length (traverse (start_y \<le> end_y) start_y end_y) * length (traverse (start_x \<le> end_x) start_x end_x)
      \<le> MAX_COMMAND_PIXELS"
    using assms by (simp add: rectangle_pixels_def length_concat comp_def sum_list_triv)
qed auto

section \<open>A plain fill\<close>

definition FILL_FLAGS :: u32 where
  "FILL_FLAGS = OPCODE_MASK OR CMD_BLOCK OR CMD_QUADMODE OR CMD_XMAJOR OR CMD_XYCONTINUE OR CMD_STOPONX OR
     CMD_STOPONY OR CMD_ENZPATTERN OR CMD_ENLSPATTERN OR CMD_RGBMODE OR CMD_COLORCOMP OR CMD_SHADE"

definition FILL_COMMAND :: u32 where
  "FILL_COMMAND = OPCODE_DRAW OR CMD_BLOCK OR CMD_QUADMODE OR CMD_STOPONX OR CMD_STOPONY"

text \<open>
  The PROM's box fill: a quad that stops on both axes, in one color, through the copy operation and
  a full write mask into the pixel plane, with no screen mask and the window at the upper left.
\<close>

definition plain_registers :: "registers \<Rightarrow> bool" where
  "plain_registers r \<longleftrightarrow>
     rg_command r AND FILL_FLAGS = FILL_COMMAND \<and>
     rg_shared_command_flags r AND (CMD_COLORAUX OR CMD_LOGICSRC) = 0 \<and>
     rg_source_rop r AND 0x0f = 3 \<and> rg_rwmask r AND 0xff = 0xff \<and>
     rg_aux1 r AND AUX1_DOUBLE_BUFFER = 0 \<and>
     plane_group_from_aux2 (rg_aux2 r) = PixelPlane \<and> rg_aux2 r AND AUX2_SCREEN_MASK_ENABLES = 0"

definition plain_fill :: "rex1 \<Rightarrow> bool" where
  "plain_fill rex \<longleftrightarrow> plain_registers (rx_next rex) \<and> rc_xywin (rx_config rex) = 0x08000800"

definition fill_color :: "rex1 \<Rightarrow> u8" where
  "fill_color rex = color_component (rg_color_red (rx_next rex)) 0 0 registers_default"

definition stored_pixel :: "u32 \<Rightarrow> u32 \<Rightarrow> bool" where
  "stored_pixel x y \<longleftrightarrow> unat x < 1024 \<and> unat y < 816"

abbreviation pixel_index :: "u32 \<Rightarrow> u32 \<Rightarrow> nat" where
  "pixel_index x y \<equiv> unat y * 1024 + unat x"

lemma and_sub_mask: "c AND m = v \<Longrightarrow> m AND s = s \<Longrightarrow> c AND s = v AND s" for c :: u32
  by (metis and.assoc)

lemma plain_flags:
  assumes "plain_registers r"
  shows "rg_command r AND OPCODE_MASK = OPCODE_DRAW" "rg_command r AND CMD_XYCONTINUE = 0"
    "rg_command r AND CMD_ENZPATTERN = 0" "rg_command r AND CMD_RGBMODE = 0"
    "rg_command r AND CMD_SHADE = 0" "rg_command r AND CMD_COLORCOMP = 0"
    "rg_command r AND (CMD_XMAJOR OR CMD_QUADMODE OR CMD_STOPONX OR CMD_STOPONY) = 0x320"
    "rg_command r AND (CMD_ENLSPATTERN OR CMD_QUADMODE OR CMD_STOPONX) = 0x120"
    "rg_command r AND (CMD_BLOCK OR CMD_QUADMODE OR CMD_STOPONX OR CMD_STOPONY) = 0x328"
    "rg_command r AND CMD_BLOCK = 8" "rg_command r AND CMD_QUADMODE = 0x20"
    "rg_command r AND (CMD_STOPONX OR CMD_STOPONY) = CMD_STOPONX OR CMD_STOPONY"
proof -
  have flags: "rg_command r AND FILL_FLAGS = FILL_COMMAND" using assms by (simp add: plain_registers_def)
  note sub = and_sub_mask [OF flags, unfolded FILL_FLAGS_def FILL_COMMAND_def rex_bits]
  show "rg_command r AND OPCODE_MASK = OPCODE_DRAW" "rg_command r AND CMD_XYCONTINUE = 0"
    "rg_command r AND CMD_ENZPATTERN = 0" "rg_command r AND CMD_RGBMODE = 0"
    "rg_command r AND CMD_SHADE = 0" "rg_command r AND CMD_COLORCOMP = 0"
    "rg_command r AND (CMD_XMAJOR OR CMD_QUADMODE OR CMD_STOPONX OR CMD_STOPONY) = 0x320"
    "rg_command r AND (CMD_ENLSPATTERN OR CMD_QUADMODE OR CMD_STOPONX) = 0x120"
    "rg_command r AND (CMD_BLOCK OR CMD_QUADMODE OR CMD_STOPONX OR CMD_STOPONY) = 0x328"
    "rg_command r AND CMD_BLOCK = 8" "rg_command r AND CMD_QUADMODE = 0x20"
    "rg_command r AND (CMD_STOPONX OR CMD_STOPONY) = CMD_STOPONX OR CMD_STOPONY"
    unfolding rex_bits by (subst sub; simp)+
qed

lemma plain_color: "plain_registers (rx_next rex) \<Longrightarrow> source_color k x y (rx_next rex) = fill_color rex"
  by (simp add: source_color_def fill_color_def color_component_def plain_flags registers_default_def)

lemma plain_coordinate:
  assumes "rc_xywin (rx_config rex) = 0x08000800" "stored_pixel x y"
  shows "framebuffer_coordinate x y rex = Some (Some (x, y))"
proof -
  have "unat ((x + 0x800) AND 0xfff) = unat x + 0x800"
    using assms(2) unat_drop_mask [of 0 "x + 0x800" 12]
    by (simp add: stored_pixel_def unat_word_ariths mask_eq_exp_minus_1)
  then have x: "(x + 0x800) AND 0xfff = x + 0x800"
    using assms(2) by (simp add: stored_pixel_def word_unat_eq_iff unat_word_ariths)
  have "(unat y + 0x800 + 4096 * 0x8000) mod 4096 = (unat y + 0x800) mod 4096"
    by (rule mod_mult_self2)
  then have "(unat y + 0x08000800) mod 4096 = (unat y + 0x800) mod 4096" by (simp only: add.assoc) simp
  then have "unat ((y + 0x08000800) AND 0xfff) = unat y + 0x800"
    using assms(2) unat_drop_mask [of 0 "y + 0x08000800" 12]
    by (simp add: stored_pixel_def unat_word_ariths mask_eq_exp_minus_1)
  then have y: "(y + 0x08000800) AND 0xfff = y + 0x800"
    using assms(2) by (simp add: stored_pixel_def word_unat_eq_iff unat_word_ariths)
  have "0x800 \<le> x + 0x800" "0x800 \<le> y + 0x800"
    using assms(2) by (simp_all add: stored_pixel_def word_le_nat_alt unat_word_ariths)
  then show ?thesis
    using assms x y
    by (simp add: framebuffer_coordinate_def checked_sum_def stored_pixel_def rex_widths)
qed

text \<open>The write of one pixel of a plain fill.\<close>

definition painted :: "u8 \<Rightarrow> u32 \<times> nat \<times> u32 \<Rightarrow> vram \<Rightarrow> vram" where
  "painted color = (\<lambda>(y, k, x) m. m\<lparr>vr_pixel := (vr_pixel m)[pixel_index x y := color],
     vr_display_dirty := (vr_display_dirty m \<or> (vr_pixel m ! pixel_index x y \<noteq> color \<and> y < 768))\<rparr>)"

lemma plain_paint:
  assumes "plain_fill rex" "vram_inv m" "stored_pixel x y"
  shows "paint rex PixelPlane y (k, x) m = Some (painted (fill_color rex) (y, k, x) m)"
proof -
  let ?r = "rx_next rex"
  have r: "plain_registers ?r" using assms(1) by (simp add: plain_fill_def)
  have index: "vram_index x y = Some (pixel_index x y)" "pixel_index x y < length (vr_pixel m)"
    using assms(2,3) by (auto simp: vram_index_eq stored_pixel_def vram_inv_def)
  have "rg_shared_command_flags ?r AND CMD_LOGICSRC = 0"
    using r and_sub_mask [of "rg_shared_command_flags ?r" "CMD_COLORAUX OR CMD_LOGICSRC" 0 CMD_LOGICSRC]
    by (simp add: plain_registers_def rex_bits)
  then have source: "rectangle_source PixelPlane k x y rex m = Some (fill_color rex)"
    using r by (simp add: rectangle_source_def plain_color)
  have "ucast (rg_rwmask ?r) = (0xff :: u8)"
  proof -
    have "(ucast w :: u8) = ucast (w AND 0xff)" for w :: u32
      by (rule bit_word_eqI) (simp add: bit_simps bit_all_ones)
    note low_byte = this
    show ?thesis by (subst low_byte) (use r in \<open>simp add: plain_registers_def\<close>)
  qed
  then show ?thesis
    using r index plain_coordinate [OF _ assms(3), of rex] assms(1)
    by (simp add: paint_def source rex_write_pixel_def plain_fill_def screen_masks_admit_def
        plain_registers_def vram_read_def source_pixel_value_def read_pixel_value_def
        color_comparison_passes_def plain_flags(6) [OF r] logic_operation_def stored_pixel_write_def
        vram_write_masked_def painted_def Let_def DISPLAY_HEIGHT_def)
qed

lemma fold_painted:
  "vr_pixel (fold (painted color) pixels m) =
    fold (\<lambda>p plane. plane[pixel_index (snd (snd p)) (fst p) := color]) pixels (vr_pixel m)"
  by (induction pixels arbitrary: m) (auto simp: painted_def split_beta)

lemma fold_update_nth:
  "i < length xs \<Longrightarrow> fold (\<lambda>p xs. xs[f p := v]) ps xs ! i = (if i \<in> f ` set ps then v else xs ! i)"
  by (induction ps arbitrary: xs) (auto simp: nth_list_update)

definition within :: "u32 \<Rightarrow> u32 \<Rightarrow> u32 \<Rightarrow> bool" where
  "within a b c \<longleftrightarrow> (a \<le> c \<and> c \<le> b) \<or> (b \<le> c \<and> c \<le> a)"

lemma set_traverse_within: "x \<in> set (traverse (a \<le> b) a b) \<longleftrightarrow> within a b x"
  by (auto simp: set_traverse within_def)

lemma set_rectangle_pixels:
  "(\<exists>k. (y, k, x) \<in> set (rectangle_pixels start_x start_y end_x end_y)) \<longleftrightarrow>
     within start_x end_x x \<and> within start_y end_y y"
proof -
  have row: "(\<exists>k. (k, x) \<in> set (enumerate 0 xs)) \<longleftrightarrow> x \<in> set xs" for xs :: "u32 list"
  proof -
    have "set xs = snd ` set (enumerate 0 xs)" by (simp flip: set_map)
    then show ?thesis by force
  qed
  have "(y, k, x) \<in> set (rectangle_pixels start_x start_y end_x end_y) \<longleftrightarrow>
      y \<in> set (traverse (start_y \<le> end_y) start_y end_y) \<and>
      (k, x) \<in> set (enumerate 0 (traverse (start_x \<le> end_x) start_x end_x))" for k
    by (auto simp: rectangle_pixels_def)
  then show ?thesis
    by (simp add: row set_traverse_within conj_commute)
qed

lemma traverse_length: "unat a < n \<Longrightarrow> unat b < n \<Longrightarrow> length (traverse up a b) \<le> n"
  by (cases up) (simp_all add: traverse_def del: upt_Suc)

lemma within_stored:
  "within start_x end_x x \<Longrightarrow> within start_y end_y y \<Longrightarrow> stored_pixel start_x start_y \<Longrightarrow>
   stored_pixel end_x end_y \<Longrightarrow> stored_pixel x y"
  by (auto simp: within_def stored_pixel_def word_le_nat_alt)

text \<open>A rectangle of stored pixels is within the budget, so a plain fill is a fold of writes.\<close>

lemma plain_rectangle:
  assumes "plain_fill rex" "vram_inv m" "stored_pixel start_x start_y" "stored_pixel end_x end_y"
  shows "draw_rectangle PixelPlane start_x start_y end_x end_y rex m =
    Some (fold (painted (fill_color rex)) (rectangle_pixels start_x start_y end_x end_y) m)"
proof -
  let ?pixels = "rectangle_pixels start_x start_y end_x end_y"
  have "length (traverse (start_y \<le> end_y) start_y end_y) * length (traverse (start_x \<le> end_x) start_x end_x)
      \<le> 816 * 1024"
    using assms(3,4) by (intro mult_le_mono traverse_length) (simp_all add: stored_pixel_def)
  then have "length ?pixels \<le> MAX_COMMAND_PIXELS"
    by (simp add: rectangle_pixels_def length_concat comp_def sum_list_triv rex_widths)
  moreover have "each_of (\<lambda>(y, p). paint rex PixelPlane y p) ?pixels m =
      Some (fold (painted (fill_color rex)) ?pixels m) \<and>
      vram_inv (fold (painted (fill_color rex)) ?pixels m)"
  proof (rule each_of_fold [where I = vram_inv, OF _ assms(2)])
    fix p m
    assume p: "p \<in> set ?pixels" "vram_inv m"
    obtain y k x where yx: "p = (y, k, x)" by (cases p)
    then have "stored_pixel x y"
      using p(1) set_rectangle_pixels [of y x start_x start_y end_x end_y] assms(3,4) within_stored by blast
    then show "(case p of (y, p) \<Rightarrow> paint rex PixelPlane y p) m = Some (painted (fill_color rex) p m) \<and>
        vram_inv (painted (fill_color rex) p m)"
      using p(2) by (simp add: yx plain_paint [OF assms(1)]) (simp add: painted_def vram_inv_def)
  qed
  ultimately show ?thesis by (simp add: draw_rectangle_visits)
qed

lemma plain_execute:
  assumes "plain_fill rex"
  shows "rex_execute rex m =
    map_option (\<lambda>m. (latch_next_context (set_next (\<lambda>r. r\<lparr>rg_xsave := coordinate_of (rg_xstart r)\<rparr>) rex), m))
      (draw_rectangle PixelPlane (coordinate_of (rg_xstart (rx_next rex))) (coordinate_of (rg_ystart (rx_next rex)))
        (drop_bit END_FRACTION_BITS (rg_xendf (rx_next rex))) (drop_bit END_FRACTION_BITS (rg_yendf (rx_next rex)))
        (set_next (\<lambda>r. r\<lparr>rg_xsave := coordinate_of (rg_xstart r)\<rparr>) rex) m)"
proof -
  have r: "plain_registers (rx_next rex)" using assms by (simp add: plain_fill_def)
  have "rg_shared_command_flags (rx_next rex) AND CMD_COLORAUX = 0"
    using r and_sub_mask [of "rg_shared_command_flags (rx_next rex)" "CMD_COLORAUX OR CMD_LOGICSRC" 0 CMD_COLORAUX]
    by (simp add: plain_registers_def rex_bits)
  moreover have "plane_group_from_aux2 (rg_aux2 (rx_next rex)) = PixelPlane"
    using r by (simp add: plain_registers_def)
  ultimately show ?thesis
    by (simp add: rex_execute_def draw_def plain_flags [OF r] Let_def)
      (simp add: rex_bits map_conv_bind_option comp_def)
qed


text \<open>An engine a guest has set up to fill the box from (10, 20) to (12, 22).\<close>

definition box_engine :: rex1 where
  "box_engine =
     fold (\<lambda>(offset, v). rex_write_drawing offset v)
       [(RWMASK, 0xff), (COLORREDI, 0x55), (XSTARTI, 10), (YSTARTI, 20), (XENDI, 12), (YENDI, 22),
        (REX_COMMAND, 0x30000329)]
       (fold (\<lambda>(offset, v) rex. snd (rex_write_config offset v rex))
         [(AUX2, 0x20000000), (XYWIN, 0x08000800)] rex_new)"

lemma box_engine_registers:
  "rg_command (rx_next box_engine) = 0x30000329" "rg_shared_command_flags (rx_next box_engine) = 0"
  "rg_source_rop (rx_next box_engine) = 3" "rg_rwmask (rx_next box_engine) = 0xff"
  "rg_aux1 (rx_next box_engine) = 0" "rg_aux2 (rx_next box_engine) = 0x20000000"
  "rg_color_red (rx_next box_engine) = 0x2a800" "rc_xywin (rx_config box_engine) = 0x08000800"
  "rg_xstart (rx_next box_engine) = 0x50000" "rg_ystart (rx_next box_engine) = 0xa0000"
  "rg_xendf (rx_next box_engine) = 0x6000" "rg_yendf (rx_next box_engine) = 0xb000"
  unfolding box_engine_def rex_write_drawing_def rex_write_config_def registers_write_def rex_offsets
    write_xstart_def rex_new_def registers_default_def config_registers_default_def rex_widths rex_bits
  by simp_all


end
