(* ===== verification/Lg1_Correct.thy ===== *)
theory Lg1_Correct
  imports Lg1 Rex_Correct
begin

text \<open>
  Correctness of the LG1 board: a composed frame does not depend on the buffer it is composed in,
  so the recycling of frame allocations cannot be seen, and a board restored from a snapshot
  answers every later access as the board the snapshot was taken of.
\<close>

section \<open>Loops in step\<close>

lemma bind_related:
  "rel_option R m n \<Longrightarrow> (\<And>s t. R s t \<Longrightarrow> rel_option Q (f s) (g t)) \<Longrightarrow>
   rel_option Q (Option.bind m f) (Option.bind n g)"
  by (cases m; cases n) auto

lemma each_of_related:
  assumes "\<And>i s t. a \<le> i \<Longrightarrow> i < b \<Longrightarrow> R i s t \<Longrightarrow> rel_option (R (Suc i)) (f i s) (g i t)"
    and "a \<le> b" and "R a s t"
  shows "rel_option (R b) (each_of f [a..<b] s) (each_of g [a..<b] t)"
  using assms
proof (induction "b - a" arbitrary: a s t)
  case (Suc n)
  have first: "rel_option (R (Suc a)) (f a s) (g a t)" by (rule Suc.prems(1)) (use Suc in auto)
  have rest: "rel_option (R b) (each_of f [Suc a..<b] s') (each_of g [Suc a..<b] t')" if "R (Suc a) s' t'" for s' t'
    by (rule Suc.hyps(1)) (use Suc that in auto)
  have "a < b" using Suc.hyps(2) by simp
  then show ?case by (subst (1 2) upt_rec) (simp add: bind_related [OF first rest])
qed auto

section \<open>Frames\<close>

text \<open>Two buffers that agree on what has been composed so far.\<close>

definition agree :: "nat \<Rightarrow> u8 list \<Rightarrow> u8 list \<Rightarrow> bool" where
  "agree n p q \<longleftrightarrow> length p = FRAME_BYTES \<and> length q = FRAME_BYTES \<and> take n p = take n q"

lemma put_bytes_agree:
  "agree n p q \<Longrightarrow> rel_option (agree (n + length cs)) (put_bytes n cs p) (put_bytes n cs q)"
proof (induction cs arbitrary: n p q)
  case (Cons c cs)
  show ?case
  proof (cases "n < FRAME_BYTES")
    case True
    then have "agree (n + 1) (p[n := c]) (q[n := c])"
      using Cons.prems by (simp add: agree_def take_Suc_conv_app_nth)
    from Cons.IH [OF this] show ?thesis using True Cons.prems by (simp add: agree_def)
  next
    case False
    then show ?thesis using Cons.prems by (simp add: agree_def set_at_def)
  qed
qed simp

lemma those_map_Some:
  "those (map f xs) = Some ys \<Longrightarrow> y \<in> set ys \<Longrightarrow> \<exists>x \<in> set xs. f x = Some y"
  by (induction xs arbitrary: ys) (auto split: option.splits)

definition tables_ok :: "color_tables \<Rightarrow> bool" where
  "tables_ok tables \<longleftrightarrow> (\<forall>colors \<in> set (ct_pixel tables). \<forall>c \<in> set colors. length c = 4) \<and>
     (\<forall>c \<in> set (ct_overlay tables). length c = 4)"

lemma opaque_length: "bt_inv d \<Longrightarrow> map_option opaque_color (bt_color index d) = Some c \<Longrightarrow> length c = 4"
  using bt_color_ok [of d index] by (auto simp: opaque_color_def)

lemma populate_ok:
  assumes "bt_inv d" "populate_color_tables v d = Some tables"
  shows "tables_ok tables"
proof -
  obtain pixel overlay where p: "those (map (\<lambda>i. Option.bind (vc_display_mode (of_nat i) v) (pixel_colors d))
        [0..<DISPLAY_MODES]) = Some pixel"
      "those (map (\<lambda>i. map_option opaque_color (bt_color (OVERLAY_PALETTE_BASE OR of_nat i) d)) [0..<OVERLAY_VALUES])
        = Some overlay"
      "tables = \<lparr>ct_pixel = pixel, ct_overlay = overlay\<rparr>"
    using assms(2) by (auto simp: populate_color_tables_def bind_eq_Some_conv)
  have "length c = 4" if colors: "colors \<in> set pixel" "c \<in> set colors" for colors c
  proof -
    obtain mode where "pixel_colors d mode = Some colors"
      using those_map_Some [OF p(1) colors(1)] by (auto simp: bind_eq_Some_conv)
    then show ?thesis
      using those_map_Some [OF _ colors(2)] opaque_length [OF assms(1)] unfolding pixel_colors_def by blast
  qed
  moreover have "length c = 4" if "c \<in> set overlay" for c
    using those_map_Some [OF p(2) that] opaque_length [OF assms(1)] by blast
  ultimately show ?thesis by (simp add: tables_ok_def p(3))
qed

lemma resolved_length:
  assumes "tables_ok tables" "resolved_color tables identifier source overlay = Some c"
  shows "length c = 4"
  using assms
  by (auto simp: resolved_color_def tables_ok_def Let_def bind_eq_Some_conv get_at_eq_Some
      intro: nth_mem split: if_splits)

lemma compose_pixel_agree:
  assumes "tables_ok tables" "agree (y * DISPLAY_WIDTH * 4 + x * 4) p q"
  shows "rel_option (agree (y * DISPLAY_WIDTH * 4 + Suc x * 4))
    (compose_pixel tables identifiers source overlay y x p) (compose_pixel tables identifiers source overlay y x q)"
proof (cases "Option.bind (get_at overlay x) (\<lambda>o_v. Option.bind (get_at identifiers x) (\<lambda>i_v.
    Option.bind (get_at source x) (\<lambda>s_v. resolved_color tables i_v s_v o_v)))")
  case None
  then show ?thesis by (auto simp: compose_pixel_def split: bind_splits)
next
  case (Some c)
  then have c: "length c = 4" using resolved_length [OF assms(1)] by (auto simp: bind_eq_Some_conv)
  have "compose_pixel tables identifiers source overlay y x p = put_bytes (y * DISPLAY_WIDTH * 4 + x * 4) c p" for p
    using Some by (auto simp: compose_pixel_def bind_eq_Some_conv)
  then show ?thesis using put_bytes_agree [OF assms(2), of c] by (simp add: c ac_simps)
qed

lemma compose_line_agree:
  assumes "tables_ok tables"
    and "fst s = fst t" "agree (y * DISPLAY_WIDTH * 4) (snd s) (snd t)"
  shows "rel_option (\<lambda>s t. fst s = fst t \<and> agree (Suc y * DISPLAY_WIDTH * 4) (snd s) (snd t))
    (compose_line m v tables y s) (compose_line m v tables y t)"
proof -
  have row: "rel_option (agree (y * DISPLAY_WIDTH * 4 + DISPLAY_WIDTH * 4))
      (each_of (compose_pixel tables identifiers source overlay y) [0..<DISPLAY_WIDTH] (snd s))
      (each_of (compose_pixel tables identifiers source overlay y) [0..<DISPLAY_WIDTH] (snd t))"
    for identifiers source overlay
    by (rule each_of_related [where R = "\<lambda>x. agree (y * DISPLAY_WIDTH * 4 + x * 4)"])
      (use assms compose_pixel_agree in auto)
  show ?thesis
  proof (cases "Option.bind (vc_fill_display_identifiers y v (fst t)) (\<lambda>identifiers.
      Option.bind (vram_pixel_row y m) (\<lambda>source. Option.bind (vram_overlay_row y m)
        (\<lambda>overlay. Some (identifiers, source, overlay))))")
    case None
    then show ?thesis
      using assms(2) by (auto simp: compose_line_def split_beta split: bind_splits)
  next
    case (Some parts)
    then obtain identifiers source overlay where parts: "vc_fill_display_identifiers y v (fst t) = Some identifiers"
      "vram_pixel_row y m = Some source" "vram_overlay_row y m = Some overlay"
      by (auto simp: bind_eq_Some_conv)
    show ?thesis
      using row [of identifiers source overlay] assms(2)
      by (auto simp: compose_line_def split_beta parts rel_option_iff algebra_simps split: option.splits bind_splits)
  qed
qed

text \<open>What is composed does not depend on what the buffer held.\<close>

lemma compose_buffer:
  assumes "bt_inv d" "length p = FRAME_BYTES" "length q = FRAME_BYTES"
  shows "compose m v d p = compose m v d q"
proof (cases "populate_color_tables v d")
  case None
  then show ?thesis using assms by (simp add: compose_def)
next
  case (Some tables)
  have ok: "tables_ok tables" by (rule populate_ok [OF assms(1) Some])
  have "rel_option (\<lambda>s t. fst s = fst t \<and> agree (DISPLAY_HEIGHT * DISPLAY_WIDTH * 4) (snd s) (snd t))
      (each_of (compose_line m v tables) [0..<DISPLAY_HEIGHT] (replicate DISPLAY_WIDTH 0, p))
      (each_of (compose_line m v tables) [0..<DISPLAY_HEIGHT] (replicate DISPLAY_WIDTH 0, q))"
    by (rule each_of_related [where R = "\<lambda>y s t. fst s = fst t \<and> agree (y * DISPLAY_WIDTH * 4) (snd s) (snd t)"])
      (use compose_line_agree [OF ok] assms(2,3) in \<open>auto simp: agree_def\<close>)
  then show ?thesis
    using assms
    by (auto simp: compose_def Some rel_option_iff split_beta agree_def display_sizes split: option.splits bind_splits)
qed

text \<open>The buffer keeps its length.\<close>

lemma each_of_keeps:
  assumes "\<And>x s t. f x s = Some t \<Longrightarrow> P s \<Longrightarrow> P t"
  shows "each_of f xs s = Some t \<Longrightarrow> P s \<Longrightarrow> P t"
  by (induction xs arbitrary: s) (auto simp: bind_eq_Some_conv intro: assms)

lemma put_bytes_length: "put_bytes n cs p = Some q \<Longrightarrow> length p = k \<Longrightarrow> length q = k"
  by (induction cs arbitrary: n p) (auto simp: bind_eq_Some_conv set_at_eq_Some)

lemma compose_length:
  assumes "length p = FRAME_BYTES" "compose m v d p = Some q"
  shows "length q = FRAME_BYTES"
proof -
  have pixel: "length t = FRAME_BYTES"
    if "compose_pixel tables identifiers source overlay y x s = Some t" "length s = FRAME_BYTES"
    for tables identifiers source overlay y x s t
    using that by (auto simp: compose_pixel_def bind_eq_Some_conv intro: put_bytes_length)
  have line: "length (snd t) = FRAME_BYTES"
    if "compose_line m v tables y s = Some t" "length (snd s) = FRAME_BYTES" for tables y s t
    using that each_of_keeps [where P = "\<lambda>p. length p = FRAME_BYTES", OF pixel]
    by (auto simp: compose_line_def split_beta bind_eq_Some_conv)
  have cursor: "length t = FRAME_BYTES"
    if "cursor_pixel cursor foreground background row column s = Some t" "length s = FRAME_BYTES"
    for cursor foreground background row column s t
    using that
    by (auto simp: cursor_pixel_def Let_def bind_eq_Some_conv split: if_splits intro: put_bytes_length)
  have rows: "length t = FRAME_BYTES"
    if "each_of (cursor_pixel cursor foreground background row) columns s = Some t" "length s = FRAME_BYTES"
    for cursor foreground background row columns s t
    by (rule each_of_keeps [where P = "\<lambda>p. length p = FRAME_BYTES", OF cursor that])
  obtain tables s where s: "each_of (compose_line m v tables) [0..<DISPLAY_HEIGHT] (replicate DISPLAY_WIDTH 0, p) = Some s"
    "compose_cursor v d (snd s) = Some q"
    using assms(2) by (auto simp: compose_def bind_eq_Some_conv)
  have "length (snd s) = FRAME_BYTES"
    by (rule each_of_keeps [where P = "\<lambda>s. length (snd s) = FRAME_BYTES", OF line s(1)]) (use assms(1) in auto)
  then show ?thesis
    using s(2) each_of_keeps [where P = "\<lambda>p. length p = FRAME_BYTES", OF rows]
    by (auto simp: compose_cursor_def bind_eq_Some_conv split: option.splits)
qed

section \<open>Restored boards\<close>

text \<open>Boards that differ in the retired allocations only, and whose allocations hold whole frames.\<close>

definition frames_ok :: "lg1 \<Rightarrow> bool" where
  "frames_ok g \<longleftrightarrow> bt_inv (lg_dac g) \<and> (\<forall>frame \<in> set_option (lg_frame g). length frame = FRAME_BYTES) \<and>
     (\<forall>frame \<in> set (lg_retired g). length frame = FRAME_BYTES)"

definition alike :: "lg1 \<Rightarrow> lg1 \<Rightarrow> bool" where
  "alike g h \<longleftrightarrow> frames_ok g \<and> frames_ok h \<and>
     lg_rex g = lg_rex h \<and> lg_vc1 g = lg_vc1 h \<and> lg_dac g = lg_dac h \<and> lg_vram g = lg_vram h \<and>
     lg_frame g = lg_frame h \<and> lg_composition_dirty g = lg_composition_dirty h \<and>
     lg_display_changed g = lg_display_changed h"

abbreviation alike_results :: "('a \<times> lg1) option \<Rightarrow> ('a \<times> lg1) option \<Rightarrow> bool" where
  "alike_results \<equiv> rel_option (\<lambda>r s. fst r = fst s \<and> alike (snd r) (snd s))"

lemma alike_fields:
  assumes "alike g h"
  shows "lg_rex h = lg_rex g" "lg_vc1 h = lg_vc1 g" "lg_dac h = lg_dac g" "lg_vram h = lg_vram g"
    "lg_frame h = lg_frame g" "lg_composition_dirty h = lg_composition_dirty g"
    "lg_display_changed h = lg_display_changed g"
  using assms by (simp_all add: alike_def)

text \<open>The same update of both boards, away from the frames and the palette.\<close>

lemma alike_update:
  assumes "alike g h"
  shows "alike (g\<lparr>lg_rex := x\<rparr>) (h\<lparr>lg_rex := x\<rparr>)" "alike (g\<lparr>lg_vram := m\<rparr>) (h\<lparr>lg_vram := m\<rparr>)"
    "alike (g\<lparr>lg_vc1 := v\<rparr>) (h\<lparr>lg_vc1 := v\<rparr>)" "bt_inv d \<Longrightarrow> alike (g\<lparr>lg_dac := d\<rparr>) (h\<lparr>lg_dac := d\<rparr>)"
    "alike (g\<lparr>lg_composition_dirty := c\<rparr>) (h\<lparr>lg_composition_dirty := c\<rparr>)"
    "alike (g\<lparr>lg_display_changed := c\<rparr>) (h\<lparr>lg_display_changed := c\<rparr>)"
  using assms by (auto simp: alike_def frames_ok_def)

lemma alike_drew: "alike g h \<Longrightarrow> alike (g\<lparr>lg_rex := x, lg_vram := m\<rparr>) (h\<lparr>lg_rex := x, lg_vram := m\<rparr>)"
  by (auto simp: alike_def frames_ok_def)

lemma frames_ok_dac: "alike g h \<Longrightarrow> bt_inv (lg_dac g)"
  by (simp add: alike_def frames_ok_def)

lemma map_same: "(\<And>x. m = Some x \<Longrightarrow> R (f x) (g x)) \<Longrightarrow> rel_option R (map_option f m) (map_option g m)"
  by (cases m) auto

subsection \<open>Registers\<close>

lemma read_peripheral_alike:
  assumes "alike g h"
  shows "alike_results (lg1_read_peripheral port g) (lg1_read_peripheral port h)"
proof (cases port)
  case PortDac
  have "bt_inv (snd r)" if "bt_read selector (lg_dac g) = Some r" for selector r
    using bt_read_ok [OF frames_ok_dac [OF assms], of selector] that by auto
  then show ?thesis
    using assms
    by (auto simp: lg1_read_peripheral_def PortDac alike_fields [OF assms] Let_def split_beta
        intro!: map_same alike_update)
qed (use assms in \<open>auto simp: lg1_read_peripheral_def alike_fields [OF assms] Let_def split_beta
    lg1_read_clock_port_def intro!: map_same alike_update\<close>)

lemma read_register_alike:
  assumes "alike g h"
  shows "alike_results (lg1_read_register register g) (lg1_read_register register h)"
proof (cases register)
  case (RegisterConfigGo offset)
  have "alike_results
     (Option.bind (lg1_read_peripheral port g)
       (\<lambda>r. Some (v, snd r\<lparr>lg_rex := rex_complete_config_read port (fst r) (lg_rex (snd r))\<rparr>)))
     (Option.bind (lg1_read_peripheral port h)
       (\<lambda>r. Some (v, snd r\<lparr>lg_rex := rex_complete_config_read port (fst r) (lg_rex (snd r))\<rparr>)))" for port v
    by (rule bind_related [OF read_peripheral_alike [OF assms]]) (auto simp: alike_fields intro: alike_update)
  then show ?thesis
    using assms
    by (auto simp: lg1_read_register_def RegisterConfigGo alike_fields [OF assms] case_prod_unfold Let_def
        split: config_access.split)
qed (use assms in \<open>auto simp: lg1_read_register_def alike_fields [OF assms] split_beta
    intro!: map_same alike_drew\<close>)

lemma retire_length: "f \<in> set (recycler_retire frame retired) \<Longrightarrow> f = frame \<or> f \<in> set retired"
  by (cases retired) (auto simp: recycler_retire_def split: if_splits)

lemma retire_alike:
  assumes "alike g h" "lg_frame g = Some frame"
  shows "alike (g\<lparr>lg_composition_dirty := c, lg_frame := None, lg_retired := recycler_retire frame (lg_retired g)\<rparr>)
    (h\<lparr>lg_composition_dirty := c, lg_frame := None, lg_retired := recycler_retire frame (lg_retired h)\<rparr>)"
  using assms by (auto simp: alike_def frames_ok_def dest: retire_length)

definition settle_signal :: "signal_state \<Rightarrow> bool \<times> lg1 \<Rightarrow> lg1" where
  "settle_signal before = (\<lambda>(changed, g).
     let g = g\<lparr>lg_composition_dirty := (lg_composition_dirty g \<or> changed)\<rparr>;
         after = vc_signal_state (lg_vc1 g)
     in if before = after then g
        else
          let g = (if after = SignalNoSignal
                   then (case lg_frame g of
                       None \<Rightarrow> g
                     | Some frame \<Rightarrow> g\<lparr>lg_frame := None, lg_retired := recycler_retire frame (lg_retired g)\<rparr>)
                   else g)
          in g\<lparr>lg_display_changed := True\<rparr>)"

lemma settle_signal_alike:
  assumes "alike g h"
  shows "alike (settle_signal before (c, g)) (settle_signal before (c, h))"
  using alike_update(5) [OF assms, of "lg_composition_dirty g \<or> c"] assms
  by (auto simp: settle_signal_def Let_def alike_fields [OF assms]
      intro!: alike_update(6) retire_alike split: option.split)

lemma write_peripheral_alike:
  assumes "alike g h"
  shows "rel_option alike (lg1_write_peripheral port v g) (lg1_write_peripheral port v h)"
proof -
  let ?selector = "ucast (rc_configsel (rx_config (lg_rex g)))"
  have split: "lg1_write_peripheral port v g =
    map_option (settle_signal (vc_signal_state (lg_vc1 g)))
     (case port of
         PortDac \<Rightarrow> map_option (\<lambda>(changed, dac). (changed, g\<lparr>lg_dac := dac\<rparr>))
           (bt_write (bt_selector_from_bits (ucast (rc_configsel (rx_config (lg_rex g))))) v (lg_dac g))
       | PortVc1 \<Rightarrow> map_option (\<lambda>(changed, vc). (changed, g\<lparr>lg_vc1 := vc\<rparr>))
           (vc_write (vc_selector_from_bits (ucast (rc_configsel (rx_config (lg_rex g))))) v (lg_vc1 g))
       | PortClock \<Rightarrow> Some (False, g))" for g
    by (simp add: lg1_write_peripheral_def settle_signal_def map_conv_bind_option comp_def case_prod_unfold
        Let_def if_distrib [of Some] cong: if_cong)
  have dac: "bt_inv (snd r)" if "bt_write selector v (lg_dac g) = Some r" for selector r
    using bt_write_ok [OF frames_ok_dac [OF assms], of selector v] that by auto
  have "alike_results
     (case port of
         PortDac \<Rightarrow> map_option (\<lambda>(changed, dac). (changed, g\<lparr>lg_dac := dac\<rparr>))
           (bt_write (bt_selector_from_bits ?selector) v (lg_dac g))
       | PortVc1 \<Rightarrow> map_option (\<lambda>(changed, vc). (changed, g\<lparr>lg_vc1 := vc\<rparr>))
           (vc_write (vc_selector_from_bits ?selector) v (lg_vc1 g))
       | PortClock \<Rightarrow> Some (False, g))
     (case port of
         PortDac \<Rightarrow> map_option (\<lambda>(changed, dac). (changed, h\<lparr>lg_dac := dac\<rparr>))
           (bt_write (bt_selector_from_bits ?selector) v (lg_dac g))
       | PortVc1 \<Rightarrow> map_option (\<lambda>(changed, vc). (changed, h\<lparr>lg_vc1 := vc\<rparr>))
           (vc_write (vc_selector_from_bits ?selector) v (lg_vc1 g))
       | PortClock \<Rightarrow> Some (False, h))"
    using assms dac
    by (cases port) (auto simp: split_beta intro!: map_same alike_update)
  then show ?thesis
    unfolding split alike_fields [OF assms] option.rel_map
    by (rule option.rel_mono_strong) (auto simp: settle_signal_alike)
qed

lemma write_register_alike:
  assumes "alike g h"
  shows "rel_option alike (lg1_write_register register v g) (lg1_write_register register v h)"
proof (cases register)
  case (RegisterConfigGo offset)
  then show ?thesis
    using assms
    by (auto simp: lg1_write_register_def alike_fields [OF assms] split_beta Let_def
        intro!: write_peripheral_alike alike_update split: config_access.split)
qed (use assms in \<open>auto simp: lg1_write_register_def alike_fields [OF assms] split_beta
    intro!: map_same alike_update alike_drew\<close>)

lemma host_words_alike:
  assumes "alike g h"
  shows "alike_results (read_host_words n g) (read_host_words n h)"
    "rel_option alike (write_host_words vs g) (write_host_words vs h)"
proof -
  show "alike_results (read_host_words n g) (read_host_words n h)"
    using assms
  proof (induction n arbitrary: g h)
    case (Suc n)
    show ?case
      unfolding read_host_words.simps alike_fields [OF Suc.prems] case_prod_unfold
      by (rule bind_related [where R = "(=)"])
        (auto simp: option.rel_eq intro!: bind_related [OF Suc.IH] alike_drew Suc.prems)
  qed simp
  show "rel_option alike (write_host_words vs g) (write_host_words vs h)"
    using assms
  proof (induction vs arbitrary: g h)
    case (Cons v vs)
    show ?case
      unfolding write_host_words.simps alike_fields [OF Cons.prems]
      by (rule bind_related [where R = "(=)"])
        (auto simp: option.rel_eq intro!: Cons.IH alike_drew Cons.prems)
  qed simp
qed

subsection \<open>Time\<close>

lemma position_bound: "position P xs = Some i \<Longrightarrow> i < length xs"
  by (induction xs arbitrary: i) (auto split: if_splits)

lemma swap_remove_subset: "i < length xs \<Longrightarrow> set (swap_remove i xs) \<subseteq> set xs"
  using set_update_subset_insert [of "butlast xs" i "last xs"]
  by (cases xs rule: rev_cases) (auto simp: swap_remove_def)

lemma take_released_length:
  assumes "\<forall>f \<in> set retired. length f = n" "recycler_take_released held retired = (released, rest)"
  shows "\<forall>f \<in> set_option released \<union> set rest. length f = n"
  using assms swap_remove_subset [OF position_bound]
  by (fastforce simp: recycler_take_released_def position_bound split: option.splits)

text \<open>Every buffer the recycler hands out holds a frame.\<close>

lemma acquire_length:
  assumes "frames_ok g"
  shows "length (fst (recycler_acquire held (lg_frame g) (lg_retired g))) = FRAME_BYTES \<and>
    (\<forall>f \<in> set (snd (recycler_acquire held (lg_frame g) (lg_retired g))). length f = FRAME_BYTES)"
proof -
  obtain released rest where r: "recycler_take_released held (lg_retired g) = (released, rest)" by fastforce
  have "\<forall>f \<in> set_option released \<union> set rest. length f = FRAME_BYTES"
    by (rule take_released_length [OF _ r]) (use assms in \<open>simp add: frames_ok_def\<close>)
  then show ?thesis
    using assms by (auto simp: recycler_acquire_def r frames_ok_def dest: retire_length split: option.splits)
qed

lemma compose_frame_alike:
  assumes "alike g h"
  shows "rel_option alike (lg1_compose_frame held g) (lg1_compose_frame held' h)"
proof -
  let ?p = "recycler_acquire held (lg_frame g) (lg_retired g)"
  let ?q = "recycler_acquire held' (lg_frame g) (lg_retired h)"
  have ok: "frames_ok g" "frames_ok h" using assms by (simp_all add: alike_def)
  note lengths = acquire_length [OF ok(1), of held] acquire_length [OF ok(2), of held', unfolded alike_fields [OF assms]]
  have same: "compose (lg_vram g) (lg_vc1 g) (lg_dac g) (fst ?p) = compose (lg_vram g) (lg_vc1 g) (lg_dac g) (fst ?q)"
    by (rule compose_buffer [OF frames_ok_dac [OF assms]]) (use lengths in simp_all)
  have new: "alike (g\<lparr>lg_retired := snd ?p, lg_frame := Some frame, lg_vram := m, lg_composition_dirty := False, lg_display_changed := True\<rparr>)
      (h\<lparr>lg_retired := snd ?q, lg_frame := Some frame, lg_vram := m, lg_composition_dirty := False, lg_display_changed := True\<rparr>)"
    if "compose (lg_vram g) (lg_vc1 g) (lg_dac g) (fst ?p) = Some frame" for frame m
    using assms lengths compose_length [OF conjunct1 [OF lengths(1)] that]
    by (auto simp: alike_def frames_ok_def)
  show ?thesis
    using new
    by (cases "compose (lg_vram g) (lg_vc1 g) (lg_dac g) (fst ?p)")
      (auto simp: lg1_compose_frame_def alike_fields [OF assms] bind_require split_beta same)
qed

lemma advance_alike:
  assumes "alike g h"
  shows "rel_option alike (lg1_advance_time held t g) (lg1_advance_time held' t h)"
  unfolding lg1_advance_time_def alike_fields [OF assms] case_prod_unfold
  by (rule bind_related [where R = "(=)"])
    (auto simp: option.rel_eq Let_def alike_fields [OF assms] intro!: compose_frame_alike alike_update assms)

subsection \<open>Whole histories\<close>

text \<open>The methods of a GIO device as actions, and what each answers.\<close>

datatype gio_action =
    GioReset
  | GioDebugRead device_addr nat
  | GioRead device_addr nat
  | GioWrite device_addr "u8 list"
  | GioReadDma device_addr nat
  | GioWriteDma device_addr "u8 list"
  | GioAdvance virtual_duration
  | GioTakeUpdate
  | GioOutputs gio_interrupt

datatype gio_answer =
    AnswerNothing
  | AnswerRead "bus_error + u8 list"
  | AnswerWrite "bus_error + unit"
  | AnswerUpdate bool
  | AnswerOutputs "gio_display_state option" "virtual_duration option" bool bool

definition gio_perform :: "('g, 's) gio_device_ops \<Rightarrow> gio_action \<Rightarrow> 'g \<Rightarrow> (gio_answer \<times> 'g) option" where
  "gio_perform ops action g =
     (case action of
        GioReset \<Rightarrow> Some (AnswerNothing, gd_reset ops g)
      | GioDebugRead a n \<Rightarrow> map_option (\<lambda>r. (AnswerRead r, g)) (gd_debug_read ops g a n)
      | GioRead a n \<Rightarrow> map_option (apfst AnswerRead) (gd_read ops g a n)
      | GioWrite a data \<Rightarrow> map_option (apfst AnswerWrite) (gd_write ops g a data)
      | GioReadDma a n \<Rightarrow> map_option (apfst AnswerRead) (gd_read_dma ops g a n)
      | GioWriteDma a data \<Rightarrow> map_option (apfst AnswerWrite) (gd_write_dma ops g a data)
      | GioAdvance t \<Rightarrow> map_option (Pair AnswerNothing) (gd_advance_time ops t g)
      | GioTakeUpdate \<Rightarrow> Some (apfst AnswerUpdate (gd_take_display_update ops g))
      | GioOutputs i \<Rightarrow> Some (AnswerOutputs (gd_display_state ops g) (gd_time_until_event ops g)
          (gd_interrupt_asserted ops i g) (gd_dma_sync_asserted ops g), g))"

text \<open>A history of an LG1: each action with what the host holds at the time.\<close>

fun lg1_run :: "((u8 list \<Rightarrow> bool) \<times> gio_action) list \<Rightarrow> lg1 \<Rightarrow> (gio_answer list \<times> lg1) option" where
  "lg1_run [] g = Some ([], g)"
| "lg1_run ((held, action) # history) g = do {
     (answer, g) \<leftarrow> gio_perform (lg1_device_ops held) action g;
     (answers, g) \<leftarrow> lg1_run history g;
     Some (answer # answers, g)
   }"

lemma lg1_read_alike: "alike g h \<Longrightarrow> alike_results (lg1_read g a n) (lg1_read h a n)"
  by (auto simp: lg1_read_def option.rel_map split_beta split: sum.split option.split
      intro!: option.rel_mono_strong [OF read_register_alike])

lemma lg1_debug_read_alike:
  assumes "alike g h"
  shows "lg1_debug_read g a n = lg1_debug_read h a n"
  unfolding lg1_debug_read_def alike_fields [OF assms] by (rule refl)

lemma lg1_display_alike:
  assumes "alike g h"
  shows "lg1_display_state g = lg1_display_state h"
  unfolding lg1_display_state_def alike_fields [OF assms] by (rule refl)

lemma lg1_write_alike: "alike g h \<Longrightarrow> alike_results (lg1_write g a data) (lg1_write h a data)"
  by (auto simp: lg1_write_def option.rel_map split: sum.split option.split
      intro!: option.rel_mono_strong [OF write_register_alike])

lemma lg1_dma_alike:
  assumes "alike g h"
  shows "alike_results (lg1_read_dma g a n) (lg1_read_dma h a n)"
    "alike_results (lg1_write_dma g a data) (lg1_write_dma h a data)"
  using assms host_words_alike [OF assms]
  by (auto simp: lg1_read_dma_def lg1_write_dma_def option.rel_map split_beta elim!: option.rel_mono_strong)

lemma lg1_reset_alike: "alike g h \<Longrightarrow> alike (lg1_reset g) (lg1_reset h)"
  by (simp add: alike_def frames_ok_def lg1_reset_def)

lemma perform_alike:
  assumes "alike g h"
  shows "alike_results (gio_perform (lg1_device_ops held) action g) (gio_perform (lg1_device_ops held') action h)"
proof (cases action)
  case (GioOutputs i)
  then show ?thesis
    using assms
    by (simp add: gio_perform_def lg1_device_ops_def lg1_display_alike [OF assms] lg1_interrupt_asserted_def
        alike_fields [OF assms])
next
  case GioTakeUpdate
  then show ?thesis
    using alike_update(6) [OF assms] assms
    by (simp add: gio_perform_def lg1_device_ops_def lg1_take_display_update_def alike_fields [OF assms])
qed (use assms lg1_read_alike [OF assms] lg1_write_alike [OF assms] lg1_dma_alike [OF assms]
      lg1_reset_alike [OF assms] advance_alike [OF assms] lg1_debug_read_alike [OF assms]
    in \<open>auto simp: gio_perform_def lg1_device_ops_def option.rel_map option.rel_eq elim!: option.rel_mono_strong
      intro!: map_same\<close>)

lemma run_alike:
  "alike g h \<Longrightarrow> map snd history = map snd history' \<Longrightarrow> alike_results (lg1_run history g) (lg1_run history' h)"
proof (induction history arbitrary: g h history')
  case (Cons step history)
  then obtain step' rest where history': "history' = step' # rest" "snd step = snd step'"
    "map snd history = map snd rest" by (cases history') auto
  have "alike_results (lg1_run history g) (lg1_run rest h)" if "alike g h" for g h
    by (rule Cons.IH [OF that history'(3)])
  then show ?case
    using history'(2) perform_alike [OF Cons.prems(1)]
    by (cases step; cases step')
      (auto simp: history'(1) case_prod_unfold intro!: bind_related [OF perform_alike [OF Cons.prems(1)]]
        bind_related)
qed auto

text \<open>The power-on board holds no frame, so every board with a history holds whole frames.\<close>

lemma run_frames_ok: "lg1_run history g = Some (answers, h) \<Longrightarrow> frames_ok g \<Longrightarrow> frames_ok h"
proof -
  assume run: "lg1_run history g = Some (answers, h)" "frames_ok g"
  then have "alike g g" by (simp add: alike_def)
  from run_alike [OF this refl, of history] run(1) show ?thesis by (simp add: alike_def)
qed

text \<open>
  C12. A snapshot of the graphics board is complete. After any history of register accesses, DMA,
  time and resets since power-on, the board restored from its snapshot gives to every later
  sequence of accesses the answers, interrupts, deadlines and pictures of the board that was not
  interrupted, and panics exactly when it does. Which frame buffers the host holds, in either run,
  makes no difference, so the recycling of their allocations cannot be seen.
\<close>

theorem restored_board_answers_alike:
  assumes "lg1_run history lg1_new = Some (answers, g)"
    and "map snd continued = map snd repeated"
  shows "map_option fst (lg1_run repeated (lg1_restore_snapshot (lg1_snapshot g) board)) =
    map_option fst (lg1_run continued g)"
proof -
  have "frames_ok g" using run_frames_ok [OF assms(1)] by (simp add: frames_ok_def lg1_new_def)
  then have "alike g (lg1_restore_snapshot (lg1_snapshot g) board)"
    by (simp add: lg1_snapshot_def alike_def frames_ok_def)
  from run_alike [OF this assms(2)] show ?thesis
    by (auto simp: rel_option_iff split: option.splits)
qed

text \<open>A write of the selector register, seen by the restored board whatever the host holds.\<close>

theorem restored_board_answers_alike_witness:
  "map_option fst (lg1_run [(\<lambda>_. False, GioRead 0x3f47ec 4)]
     (lg1_restore_snapshot (lg1_snapshot (lg1_new\<lparr>lg_rex := snd (rex_write_config CONFIGSEL 4 rex_new)\<rparr>)) lg1_new)) =
   Some [AnswerRead (Inr [0, 0, 0, 4])]"
proof -
  let ?g = "lg1_new\<lparr>lg_rex := snd (rex_write_config CONFIGSEL 4 rex_new)\<rparr>"
  note access = gio_perform_def lg1_device_ops_def lg_register_offset_def lg_decode_def
    GIO_PIO_BASE_def GIO_PIO_BYTES_def GIO_PIO_END_def GO_OFFSET_def CONFIG_BASE_def CONFIG_END_def
    DRAWING_END_def DUMMY_def word_le_nat_alt word_less_nat_alt
  have "lg1_run [(\<lambda>_. False, GioWrite 0x3f47ec [0, 0, 0, 4])] lg1_new = Some ([AnswerWrite (Inr ())], ?g)"
    by (simp add: access lg1_write_def lg1_write_register_def from_be_bytes_def CONFIGSEL_def lg1_new_def)
  from restored_board_answers_alike [OF this, of "[(\<lambda>_. True, GioRead 0x3f47ec 4)]"
      "[(\<lambda>_. False, GioRead 0x3f47ec 4)]" lg1_new]
  have "map_option fst (lg1_run [(\<lambda>_. False, GioRead 0x3f47ec 4)]
      (lg1_restore_snapshot (lg1_snapshot ?g) lg1_new)) =
    map_option fst (lg1_run [(\<lambda>_. True, GioRead 0x3f47ec 4)] ?g)"
    by simp
  also have "\<dots> = Some [AnswerRead (Inr [0, 0, 0, 4])]"
    by (simp add: access lg1_read_def lg1_read_register_def rex_read_config_def rex_write_config_def
        rex_offsets to_be_bytes32_def)
  finally show ?thesis .
qed

section \<open>Host pixels past the edge\<close>

text \<open>
  C13. A guest can make the graphics board panic. From power-on, four register writes (a command
  that takes host pixels, a start coordinate to the right of the end coordinate 0, and one word of
  pixels) step the coordinate below zero: the host-pixel path subtracts without the mask or the
  check that the other paths use.
\<close>

theorem host_pixels_underflow:
  "lg1_run (map (\<lambda>(offset, v). (\<lambda>_. False, GioWrite (GIO_PIO_BASE + offset) (to_be_bytes32 v)))
     [(REX_COMMAND, OPCODE_DRAW OR CMD_COLORAUX), (XSTARTI, 1), (XENDI, 0), (GO_OFFSET + RWAUX1, 0)]) lg1_new = None"
proof -
  note access = gio_perform_def lg1_device_ops_def lg_register_offset_def lg_decode_def
    GIO_PIO_BASE_def GIO_PIO_BYTES_def GIO_PIO_END_def GO_OFFSET_def CONFIG_BASE_def CONFIG_END_def
    DRAWING_END_def DUMMY_def word_le_nat_alt word_less_nat_alt
  have lanes: "[0..<4] = [0, 1, 2, 3 :: nat]" by (simp add: upt_rec)
  show ?thesis
    by (simp add: access lanes lg1_write_def lg1_write_register_def rex_write_drawing_def registers_write_def
        rex_offsets rex_bits write_xstart_def rex_widths rex_write_drawing_go_def rex_execute_def draw_def
        lg1_new_def rex_new_def registers_default_def config_registers_default_def write_packed_pixels_def Let_def
        host_rectangle_def rex_write_pixel_def framebuffer_coordinate_def checked_sum_def
        step_coordinate_def checked_difference_def)
qed

end
