(* ===== verification/Spec2Isabelle.thy ===== *)
theory Spec2Isabelle
  imports Board_Correct Alu_Correct Int2_Correct Serial_Correct Keyboard_Correct Mouse_Correct Eeprom Ethernet Rtc Scsi_Device Wd_Transfer Hpc1_Correct Ip12_Correct Lg1_Correct
begin

text \<open>
  A verification development for an emulator of the SGI IRIS Indigo (machine type IP12): a MIPS
  R3000A processor with its R3010 floating-point unit, and the board it runs on. The sources are
  the Rust crates \<^verbatim>\<open>se_cpu\<close>, \<^verbatim>\<open>se_float\<close>, \<^verbatim>\<open>se_core\<close>, \<^verbatim>\<open>se_device\<close> and \<^verbatim>\<open>se_machine\<close> under
  \<^verbatim>\<open>src/crates\<close>; paths below are relative to that directory.

  \<^bold>\<open>The program.\<close> The processor executes one instruction per step. It translates addresses in its
  MMU, goes through its caches, and otherwise talks to the board through the trait
  \<^verbatim>\<open>PhysicalBus\<close> (\<^verbatim>\<open>se_core/src/bus.rs\<close>). The board decodes the physical address and calls local
  memory or a device. Devices that keep time are lazy: the board holds one deadline per kind of
  event, and brings a device up to date when it is touched or when its deadline is due. Bus
  masters (the graphics DMA channel of PIC1 and the channels of HPC1) reach local memory through
  the board.

  \<^bold>\<open>Conventions.\<close> A struct is a record with prefixed fields, an enum a datatype, a fixed-width
  integer a word of that width. A method that mutates its receiver returns the new state. A Rust
  panic (failed assertion, index out of range, checked arithmetic that overflows) is the value
  None of the option type; a \<^verbatim>\<open>Result\<close> is a sum, \<open>Inl\<close> the error, and the state reached when the
  error is returned is kept. The predicate \<open>ok m P\<close> of Prelude says that the operation \<open>m\<close> does
  not panic and that its result satisfies \<open>P\<close>; the facts that operations preserve the invariant
  of their component have this form. Byte strings are lists; memory transfers return the bytes
  read instead of filling a buffer.

  \<^bold>\<open>Shared theories.\<close>
  \<^item> Prelude: machine words, big-endian byte strings, checked list access, the calculus \<open>ok\<close>.
  \<^item> Bus: the bus contract as the locale \<open>physical_bus\<close> (lengths, errors and the invariant a bus
    keeps) and its extension \<open>memory_bus\<close> (a word read returns what was last written).
  \<^item> Timed: the contract \<open>timed_device\<close> between the lazy clock and a device; inside it, elapsed time
    may be delivered in any pieces.
  \<^item> Ring: arrays used as ring buffers, with the queue they stand for.

  \<^bold>\<open>The processor\<close> (\<^verbatim>\<open>se_cpu/src/mips1\<close>).
  \<^item> Decode (\<^verbatim>\<open>r3000/decode.rs\<close>), Config (\<^verbatim>\<open>r3000.rs\<close>, \<^verbatim>\<open>r3000/control.rs\<close>), Cp0 (\<^verbatim>\<open>r3000/cp0.rs\<close>), Mmu
    (\<^verbatim>\<open>r3000/mmu.rs\<close>), Cache (\<^verbatim>\<open>r3000/cache.rs\<close>), Cp1 and Cp1_Exec (\<^verbatim>\<open>r3000/cp1.rs\<close>), Cpu_State
    (\<^verbatim>\<open>r3000/state.rs\<close>), Alu (\<^verbatim>\<open>r3000/alu.rs\<close> and the branch unit), Load_Store (\<^verbatim>\<open>r3000/load_store.rs\<close>),
    R3000 (\<^verbatim>\<open>r3000.rs\<close>): one definition per function, named after it, in the order of the files.
  \<^item> Float: formats, rounding, NaN policy and back ends of \<^verbatim>\<open>se_float\<close>. The SoftFloat library and the
    host's arithmetic are the argument \<open>float_env\<close>.
  \<^item> Decode_Correct: the decoder is total and inverts an independently written encoder.
  \<^item> Mmu_Correct: the TLB scan against the declarative rule for duplicate entries; the lookup caches
    do not change a translation; user mode reaches only its own segment and its own pages.
  \<^item> Cache_Correct, State_Correct, Exec_Correct, Step_Correct: the invariant \<open>cpu_ok\<close>, operation by
    operation, over any \<open>physical_bus\<close>; the step never panics.
  \<^item> Alu_Correct, Cp0_Correct, Float_Correct: arithmetic against the integers, the mode stack and
    interrupt masking, the flags of the floating-point bridge.
  \<^item> Timing: load delay, branch delay, precise exceptions and the delayed cache control.
  \<^item> Data_Cache, Machine: over a \<open>memory_bus\<close>, and so on the board, neither the data cache nor the
    decode cache can be observed.

  \<^bold>\<open>The board\<close> (\<^verbatim>\<open>se_machine/src/indigo/ip12\<close>).
  \<^item> Events, Events_Correct (\<^verbatim>\<open>events.rs\<close>, \<^verbatim>\<open>se_core/src/time.rs\<close>): the event slots refine a map from
    event kinds to deadlines.
  \<^item> Address_Map (\<^verbatim>\<open>bus/address.rs\<close>), Storage (RAM, ROM and the small register devices), Pic1 and
    Pic1_Correct (\<^verbatim>\<open>se_device/src/pic1.rs\<close>), Ip12_Bus (\<^verbatim>\<open>bus.rs\<close>, \<^verbatim>\<open>bus/memory.rs\<close>), Ip12_Bus_Correct,
    Ip12_Memory, Board_Correct: the board interprets \<open>physical_bus\<close> and, on local memory,
    \<open>memory_bus\<close>; the address map is a table of disjoint windows; writes that no module answers are
    posted errors.

  \<^bold>\<open>Devices\<close> (\<^verbatim>\<open>se_device/src\<close>), each with its definitions and the facts that make it correct.
  \<^item> Int2_Timer, Int2, Int2_Correct: the interrupt controller and its timer against a reference fed
    one pulse at a time.
  \<^item> Serial_Channel, Serial, Serial_Correct (\<^verbatim>\<open>z85230.rs\<close>); Keyboard, Keyboard_Correct; Mouse,
    Mouse_Correct: queues, transmission times, interrupt nesting, and what the host can infer
    from the characters it receives.
  \<^item> Eeprom (\<^verbatim>\<open>nmc93cs46.rs\<close>), Rtc (\<^verbatim>\<open>dp8573a.rs\<close>), Ethernet (\<^verbatim>\<open>seeq8003.rs\<close>).
  \<^item> Scsi_Target, Scsi_Bus, Scsi_Phases, Scsi_Media (\<^verbatim>\<open>scsi.rs\<close>, \<^verbatim>\<open>scsi_disk.rs\<close>, \<^verbatim>\<open>scsi_cdrom.rs\<close>);
    Scsi_Correct, Scsi_Session, Scsi_Device: the invariant \<open>scsi_bus_ok\<close>, sessions of arbitrary
    initiator and host actions, a disk as an array of blocks, snapshots.
  \<^item> Wd33c93b (\<^verbatim>\<open>wd33c93b.rs\<close>), Wd_Correct, Wd_Transfer: the SCSI controller between the processor and
    the SCSI bus; its pump returns, no counter wraps for a driver that respects the transfer under
    way (and one wraps for a driver that does not), and a driver reads disk blocks through it.
  \<^item> Hpc1_Ethernet, Hpc1, Hpc1_Correct (\<^verbatim>\<open>hpc1.rs\<close>): the peripheral controller; its accesses and its
    descriptor engines do not panic, and its clock, free-running counter and receive timer agree
    with a count of 33 MHz ticks.

  \<^item> Gio (\<^verbatim>\<open>gio.rs\<close>): the expansion slots over a record of the operations of \<^verbatim>\<open>GioDevice\<close>.
  \<^item> The LG1 graphics board, a GIO device (\<^verbatim>\<open>lg1.rs\<close> and its modules): Lg1_Video (\<^verbatim>\<open>bt479.rs\<close>,
    \<^verbatim>\<open>vc1.rs\<close>, \<^verbatim>\<open>vram.rs\<close>), Rex_Pixel and Rex1 (\<^verbatim>\<open>rex1.rs\<close>: registers and the path of one pixel,
    commands), Lg1 (\<^verbatim>\<open>display.rs\<close>, \<^verbatim>\<open>lg1.rs\<close>). Rex_Correct: raster operations, rectangles as
    traversals, fills. Lg1_Correct: a frame does not depend on the buffer it is composed in, and a
    restored board answers as the original; a guest can make the board panic.

  \<^bold>\<open>The complete machine.\<close>
  \<^item> Wiring (\<^verbatim>\<open>bus/wiring.rs\<close>): the devices of the board as one record, the inputs of INT2, the
    Ethernet controller and HPC1 with the memory, graphics DMA, SCSI data through the descriptors
    of HPC1.
  \<^item> Output (\<^verbatim>\<open>output.rs\<close>), Board_Time (\<^verbatim>\<open>bus/timing.rs\<close>): synchronization, deadlines and the drain of
    due events.
  \<^item> Board_Access (\<^verbatim>\<open>bus.rs\<close>): the accesses of the processor to the devices, as the instance
    \<open>board_device_ops\<close> of the interface \<open>ip12_devices\<close> of Ip12_Bus, and the operations of the board.
  \<^item> Machine_Input (\<^verbatim>\<open>input.rs\<close>, \<^verbatim>\<open>endpoint.rs\<close>), Ip12_Machine (\<^verbatim>\<open>ip12.rs\<close>, \<^verbatim>\<open>prom.rs\<close>, \<^verbatim>\<open>snapshot.rs\<close>,
    \<^verbatim>\<open>media.rs\<close>, \<^verbatim>\<open>machine.rs\<close>): the machine its host sees.
  \<^item> Ip12_Correct: validation of input agrees with the endpoint catalog, an inserted medium is the
    one the media catalog shows, and the catalogs have no duplicates.

  \<^bold>\<open>Loops.\<close> Loops over data are structural recursion. The receiver, mouse and message loops are
  functions with a measure. The keyboard's loop and the pump of the SCSI controller are partial
  functions, and theorems state that they return. The loops of the board over due events, serial
  deadlines and SCSI descriptors are partial functions too; of them nothing is claimed that needs
  their termination. The drawing loops of the graphics board are functions within the bound the
  code puts on the pixels of a command, 2 ^ 21; the 835,584 stored pixels are fewer, so no fill of
  them is cut short. Nothing uses fuel.

  \<^bold>\<open>Parameters.\<close> \<open>float_env\<close>: the floating-point library. \<open>storage_ops\<close>: the object behind a SCSI
  medium, with the laws of the trait \<^verbatim>\<open>StorageMedium\<close> (\<open>storage_laws\<close>); the storage of the board's
  own tests, which may fail on command, is the instance of the witnesses. \<open>ip12_devices\<close>: the
  accesses of the board to the devices behind its address map. The processor's theorems hold for
  every such interface that keeps the invariant of local memory and of the event queue; the
  board of the program is the interface \<open>board_device_ops\<close>. \<open>board_env\<close>: the storage, the devices in
  the GIO slots and SHA-256. \<open>held\<close>: which published frames the host still holds.

  \<^bold>\<open>Not modelled.\<close> The crates of the user interface, sessions, recordings, networking and
  configuration: host files, threads, third-party parsers and window systems. The debugger views:
  read-only projections. The builder and plan of the board: glue between the
  configuration and the devices.
\<close>

section \<open>Devices that keep virtual time\<close>

text \<open>
  C33. The lazy clock of the board is sound. The board brings a device up to date only when it is
  touched or due; however a span of time is cut into such pieces, the graphics DMA channel, the
  interval timer, the serial controller, the Ethernet controller, the HPC1 controller, the keyboard
  and the mouse end in the same state, and have sent the same characters, as when the whole span elapses at once, provided the span fits the
  128-bit count of attoseconds.
\<close>

theorem devices_keep_time:
  assumes "time_fits (d # ds)" "int2_ok i" "z85230_ok z" "mouse_account mouse_log x y m" "hpc1_ok h"
  shows "foldl (\<lambda>p t. pic1_advance_time t p) p (d # ds) = pic1_advance_time (sum_list (d # ds)) p \<and>
    advance_pieces int2_advance_time (d # ds) i = int2_advance_time (sum_list (d # ds)) i \<and>
    advance_pieces serial_elapse (d # ds) (sent_a, sent_b, z) = serial_elapse (sum_list (d # ds)) (sent_a, sent_b, z) \<and>
    foldl (\<lambda>e t. seeq_advance_time t e) e (d # ds) = seeq_advance_time (sum_list (d # ds)) e \<and>
    advance_pieces hpc1_advance_time (d # ds) h = hpc1_advance_time (sum_list (d # ds)) h \<and>
    advance_pieces keyboard_run_time (d # ds) (log, k) = keyboard_run_time (sum_list (d # ds)) (log, k) \<and>
    advance_pieces mouse_elapse (d # ds) (mouse_log, m) = mouse_elapse (sum_list (d # ds)) (mouse_log, m)"
proof (intro conjI)
  show "foldl (\<lambda>p t. pic1_advance_time t p) p (d # ds) = pic1_advance_time (sum_list (d # ds)) p"
    by (rule pic1_time_additive [OF assms(1)])
  show "advance_pieces int2_advance_time (d # ds) i = int2_advance_time (sum_list (d # ds)) i"
    by (rule int2_timed.pieces_additive [OF assms(2,1)])
  show "advance_pieces serial_elapse (d # ds) (sent_a, sent_b, z) = serial_elapse (sum_list (d # ds)) (sent_a, sent_b, z)"
    by (rule serial_timed.pieces_additive [OF _ assms(1)]) (simp add: assms(3))
  show "foldl (\<lambda>e t. seeq_advance_time t e) e (d # ds) = seeq_advance_time (sum_list (d # ds)) e"
    using seeq_timed.pieces_additive [OF TrueI assms(1)] by (simp add: advance_pieces_total)
  show "advance_pieces hpc1_advance_time (d # ds) h = hpc1_advance_time (sum_list (d # ds)) h"
    by (rule hpc1_timed.pieces_additive [OF assms(5,1)])
  show "advance_pieces keyboard_run_time (d # ds) (log, k) = keyboard_run_time (sum_list (d # ds)) (log, k)"
    by (rule keyboard_timed.pieces_additive [OF TrueI assms(1)])
  show "advance_pieces mouse_elapse (d # ds) (mouse_log, m) = mouse_elapse (sum_list (d # ds)) (mouse_log, m)"
    by (rule mouse_timed.pieces_additive [OF _ assms(1)]) (use assms(4) in auto)
qed

theorem devices_keep_time_witness:
  "\<exists>z. z85230_new 3672000 = Some z \<and>
    advance_pieces hpc1_advance_time [5, 7, 11] hpc1_new = hpc1_advance_time 23 hpc1_new \<and>
    advance_pieces int2_advance_time [5, 7, 11] int2_new = int2_advance_time 23 int2_new \<and>
    advance_pieces serial_elapse [5, 7, 11] ([], [], z) = serial_elapse 23 ([], [], z) \<and>
    advance_pieces mouse_elapse [5, 7, 11] ([], mouse_new) = mouse_elapse 23 ([], mouse_new)"
proof -
  obtain z where z: "z85230_new 3672000 = Some z" "z85230_ok z"
    using z85230_new_ok [of 3672000] by (auto simp: ok_ex)
  have fits: "time_fits [5, 7, 11]" by (simp add: time_fits_def)
  have "mouse_account [] 0 0 mouse_new" by (rule mouse_run_account [OF run_new])
  from devices_keep_time [OF fits int2_new_timers_ok z(2) this hpc1_new_ok] z(1) show ?thesis by auto
qed

end
